(* ===== verification/Prelude.thy ===== *)
theory Prelude
  imports Main "HOL-Library.Word"
begin

section \<open>Shared vocabulary of the development\<close>

text \<open>
  The types, string operations and container operations that every component of the
  development uses.  A Rust \<open>String\<close> is the list of its UTF-8 bytes (\<open>string\<close>), so that
  \<open>length\<close> is Rust's \<open>len()\<close>; a machine integer is a word of its width; a \<open>HashMap\<close> is an
  association list whose order is its (unspecified) iteration order; a \<open>Result\<close> is a sum.
\<close>

named_theorems hm_simps \<open>laws of the hash map operations\<close>
named_theorems str_simps \<open>laws of the string operations\<close>

subsection \<open>Machine integers, results, time\<close>

type_synonym i32 = "32 word"
type_synonym u32 = "32 word"
type_synonym i64 = "64 word"
type_synonym u64 = "64 word"
type_synonym Id = "64 word"

text \<open>A \<open>DateTime<Utc>\<close> is the instant it names, counted in nanoseconds.\<close>

type_synonym timestamp = int

text \<open>A \<open>NaiveDate\<close> is the day it names, counted from a fixed day.\<close>

type_synonym date = int

type_synonym ('a, 'e) result = "'e + 'a"

abbreviation Ok :: "'a \<Rightarrow> ('a, 'e) result" where "Ok \<equiv> Inr"
abbreviation Err :: "'e \<Rightarrow> ('a, 'e) result" where "Err \<equiv> Inl"

text \<open>
  An \<open>f64\<close> is its IEEE 754 bit pattern.  \<open>f64_neg\<close> is the comparison \<open>h < 0.0\<close>: it is false
  for both zeros and for every NaN.
\<close>

datatype f64 = F64 (f64_bits: "64 word")

definition f64_is_nan :: "f64 \<Rightarrow> bool" where
  "f64_is_nan x \<longleftrightarrow> 0x7FF0000000000000 < (unat (f64_bits x) mod 2 ^ 63)"

definition f64_neg :: "f64 \<Rightarrow> bool" where
  "f64_neg x \<longleftrightarrow> \<not> f64_is_nan x \<and> 2 ^ 63 < unat (f64_bits x)"

subsection \<open>Strings\<close>

definition starts_with :: "string \<Rightarrow> string \<Rightarrow> bool" where
  "starts_with s p \<longleftrightarrow> take (length p) s = p"

lemma starts_with_iff: "starts_with s p \<longleftrightarrow> (\<exists>r. s = p @ r)"
  by (auto simp: starts_with_def) (metis append_take_drop_id)

lemma starts_with_append [simp]: "starts_with (p @ r) p"
  by (simp add: starts_with_def)

lemma starts_with_Nil [simp]: "starts_with s []"
  by (simp add: starts_with_def)

lemma starts_with_Cons [simp]:
  "starts_with (c # s) (d # p) \<longleftrightarrow> c = d \<and> starts_with s p"
  by (auto simp: starts_with_def)

lemma starts_with_Nil_Cons [simp]: "\<not> starts_with [] (d # p)"
  by (simp add: starts_with_def)

fun contains_str :: "string \<Rightarrow> string \<Rightarrow> bool" where
  "contains_str [] p \<longleftrightarrow> p = []"
| "contains_str (c # s) p \<longleftrightarrow> starts_with (c # s) p \<or> contains_str s p"

lemma contains_str_iff: "contains_str s p \<longleftrightarrow> (\<exists>u v. s = u @ p @ v)"
proof (induction s)
  case Nil
  show ?case by auto
next
  case (Cons c s)
  have "(\<exists>u v. c # s = u @ p @ v) \<longleftrightarrow> (\<exists>v. c # s = p @ v) \<or> (\<exists>u v. s = u @ p @ v)"
    by (metis append_Cons append_Nil neq_Nil_conv list.inject)
  with Cons.IH show ?case by (simp add: starts_with_iff)
qed

text \<open>\<open>str::replace\<close> with a one-character pattern.\<close>

definition replace_char :: "char \<Rightarrow> string \<Rightarrow> string \<Rightarrow> string" where
  "replace_char c r s = concat (map (\<lambda>x. if x = c then r else [x]) s)"

lemma replace_char_simps [str_simps, simp]:
  "replace_char c r [] = []"
  "replace_char c r (x # s) = (if x = c then r else [x]) @ replace_char c r s"
  "replace_char c r (s @ t) = replace_char c r s @ replace_char c r t"
  by (simp_all add: replace_char_def)

text \<open>\<open>[_]::join\<close>.\<close>

fun join :: "'a list \<Rightarrow> 'a list list \<Rightarrow> 'a list" where
  "join sep [] = []"
| "join sep [x] = x"
| "join sep (x # y # xs) = x @ sep @ join sep (y # xs)"

text \<open>\<open>str::split\<close> on one character: always at least one part.\<close>

fun split_char :: "char \<Rightarrow> string \<Rightarrow> string list" where
  "split_char d [] = [[]]"
| "split_char d (c # s) =
     (if c = d then [] # split_char d s
      else (case split_char d s of [] \<Rightarrow> [[c]] | p # ps \<Rightarrow> (c # p) # ps))"

lemma split_char_not_Nil [simp]: "split_char d s \<noteq> []"
  by (cases s) (auto split: list.split)

lemma split_char_append:
  "d \<notin> set a \<Longrightarrow> split_char d (a @ d # s) = a # split_char d s"
  by (induction a) auto

lemma split_char_no: "d \<notin> set a \<Longrightarrow> split_char d a = [a]"
  by (induction a) auto

lemma split_char_join:
  "xs \<noteq> [] \<Longrightarrow> \<forall>x\<in>set xs. d \<notin> set x \<Longrightarrow> split_char d (join [d] xs) = xs"
  by (induction "[d]" xs rule: join.induct) (simp_all add: split_char_append split_char_no)

text \<open>\<open>str::split_once\<close> on one character.\<close>

fun split_once :: "char \<Rightarrow> string \<Rightarrow> (string \<times> string) option" where
  "split_once d [] = None"
| "split_once d (c # s) =
     (if c = d then Some ([], s) else map_option (\<lambda>(a, b). (c # a, b)) (split_once d s))"

lemma split_once_append:
  "d \<notin> set a \<Longrightarrow> split_once d (a @ d # b) = Some (a, b)"
  by (induction a) auto

lemma split_once_None: "split_once d s = None \<longleftrightarrow> d \<notin> set s"
  by (induction s) auto

subsubsection \<open>Trimming\<close>

text \<open>
  The UTF-8 encodings of the characters with the Unicode \<open>White_Space\<close> property, which is
  what \<open>str::trim\<close> removes at both ends.
\<close>

definition ws_seqs :: "string list" where
  "ws_seqs =
     [[CHR 0x09], [CHR 0x0A], [CHR 0x0B], [CHR 0x0C], [CHR 0x0D], [CHR 0x20],
      [CHR 0xC2, CHR 0x85], [CHR 0xC2, CHR 0xA0], [CHR 0xE1, CHR 0x9A, CHR 0x80],
      [CHR 0xE2, CHR 0x80, CHR 0x80], [CHR 0xE2, CHR 0x80, CHR 0x81],
      [CHR 0xE2, CHR 0x80, CHR 0x82], [CHR 0xE2, CHR 0x80, CHR 0x83],
      [CHR 0xE2, CHR 0x80, CHR 0x84], [CHR 0xE2, CHR 0x80, CHR 0x85],
      [CHR 0xE2, CHR 0x80, CHR 0x86], [CHR 0xE2, CHR 0x80, CHR 0x87],
      [CHR 0xE2, CHR 0x80, CHR 0x88], [CHR 0xE2, CHR 0x80, CHR 0x89],
      [CHR 0xE2, CHR 0x80, CHR 0x8A], [CHR 0xE2, CHR 0x80, CHR 0xA8],
      [CHR 0xE2, CHR 0x80, CHR 0xA9], [CHR 0xE2, CHR 0x80, CHR 0xAF],
      [CHR 0xE2, CHR 0x81, CHR 0x9F], [CHR 0xE3, CHR 0x80, CHR 0x80]]"

function strip_any :: "string list \<Rightarrow> string \<Rightarrow> string" where
  "strip_any ws s =
     (case find (\<lambda>w. w \<noteq> [] \<and> starts_with s w) ws of
        None \<Rightarrow> s
      | Some w \<Rightarrow> strip_any ws (drop (length w) s))"
  by pat_completeness auto
termination
proof (relation "measure (\<lambda>(ws, s). length s)")
  fix ws :: "string list" and s w
  assume "find (\<lambda>w. w \<noteq> [] \<and> starts_with s w) ws = Some w"
  then have "w \<noteq> []" and "starts_with s w"
    by (auto simp: find_Some_iff)
  then show "((ws, drop (length w) s), (ws, s)) \<in> measure (\<lambda>(ws, s). length s)"
    by (auto simp: starts_with_iff)
qed simp

declare strip_any.simps [simp del]

definition trim_start :: "string \<Rightarrow> string" where
  "trim_start s = strip_any ws_seqs s"

definition trim :: "string \<Rightarrow> string" where
  "trim s = rev (strip_any (map rev ws_seqs) (rev (trim_start s)))"

lemma strip_any_length: "length (strip_any ws s) \<le> length s"
proof (induction ws s rule: strip_any.induct)
  case (1 ws s)
  then show ?case
    by (subst strip_any.simps) (fastforce split: option.split)
qed

lemma strip_any_Nil [simp]: "strip_any ws [] = []"
  using strip_any_length [of ws "[]"] by simp

lemma strip_any_id:
  "\<forall>w\<in>set ws. w \<noteq> [] \<longrightarrow> \<not> starts_with s w \<Longrightarrow> strip_any ws s = s"
  by (subst strip_any.simps) (auto simp: find_None_iff find_Some_iff split: option.split)

lemma strip_any_fixed:
  assumes "strip_any ws s = s" and "w \<in> set ws" and "w \<noteq> []"
  shows "\<not> starts_with s w"
proof (cases "find (\<lambda>w. w \<noteq> [] \<and> starts_with s w) ws")
  case None
  then show ?thesis using assms(2,3) by (auto simp: find_None_iff)
next
  case (Some v)
  then have v: "v \<noteq> []" "starts_with s v" by (auto simp: find_Some_iff)
  have "length (strip_any ws s) \<le> length (drop (length v) s)"
    using Some strip_any_length [of ws "drop (length v) s"] by (subst strip_any.simps) simp
  with assms(1) v show ?thesis by (cases v; cases s) auto
qed

lemma strip_any_suffix: "\<exists>p. s = p @ strip_any ws s"
proof (induction ws s rule: strip_any.induct)
  case (1 ws s)
  show ?case
  proof (cases "find (\<lambda>w. w \<noteq> [] \<and> starts_with s w) ws")
    case None
    then show ?thesis by (subst strip_any.simps) simp
  next
    case (Some w)
    with 1 obtain p where "drop (length w) s = p @ strip_any ws (drop (length w) s)" by blast
    then have "s = (take (length w) s @ p) @ strip_any ws (drop (length w) s)"
      by (metis append.assoc append_take_drop_id)
    moreover have "strip_any ws s = strip_any ws (drop (length w) s)"
      using Some by (subst strip_any.simps) simp
    ultimately show ?thesis by metis
  qed
qed

lemma starts_with_append_fresh:
  assumes "starts_with (f @ c # r) w" and "c \<notin> set w"
  shows "starts_with f w"
  using assms by (auto simp: starts_with_iff append_eq_append_conv2 Cons_eq_append_conv)

lemma trim_length: "length (trim s) \<le> length s"
proof -
  have "length (trim s) \<le> length (trim_start s)"
    using strip_any_length [of "map rev ws_seqs" "rev (trim_start s)"] by (simp add: trim_def)
  also have "\<dots> \<le> length s" by (simp add: trim_start_def strip_any_length)
  finally show ?thesis .
qed

lemma trim_fixed:
  assumes "trim s = s"
  shows "strip_any ws_seqs s = s" and "strip_any (map rev ws_seqs) (rev s) = rev s"
proof -
  have "length s \<le> length (trim_start s)"
    using assms strip_any_length [of "map rev ws_seqs" "rev (trim_start s)"]
    by (simp add: trim_def) (metis length_rev)
  moreover obtain p where p: "s = p @ strip_any ws_seqs s"
    using strip_any_suffix by blast
  ultimately have "p = []" unfolding trim_start_def by (metis append_eq_append_conv2 append_self_conv2
        add_le_same_cancel2 length_append le_zero_eq length_0_conv)
  with p show s: "strip_any ws_seqs s = s" by (metis append_Nil)
  from assms s show "strip_any (map rev ws_seqs) (rev s) = rev s"
    by (simp add: trim_def trim_start_def) (metis rev_swap)
qed

lemma ws_seqs_no_punctuation:
  "w \<in> set ws_seqs \<Longrightarrow> CHR ''='' \<notin> set w \<and> CHR '':'' \<notin> set w"
  by (auto simp: ws_seqs_def)

text \<open>A text that keeps its ends around \<open>=\<close> keeps its ends.\<close>

lemma trim_pair:
  assumes "trim n = n" and "trim v = v"
  shows "trim (n @ CHR ''='' # v) = n @ CHR ''='' # v"
proof -
  have "strip_any ws_seqs (n @ CHR ''='' # v) = n @ CHR ''='' # v"
    using strip_any_fixed [OF trim_fixed(1) [OF assms(1)]] ws_seqs_no_punctuation
    by (intro strip_any_id) (auto dest: starts_with_append_fresh)
  moreover have "strip_any (map rev ws_seqs) (rev v @ CHR ''='' # rev n) = rev v @ CHR ''='' # rev n"
    using strip_any_fixed [OF trim_fixed(2) [OF assms(2)]] ws_seqs_no_punctuation
    by (intro strip_any_id) (auto dest!: starts_with_append_fresh)
  ultimately show ?thesis by (simp add: trim_def trim_start_def)
qed

lemma trim_space: "trim (CHR '' '' # s) = trim s"
proof -
  have "find (\<lambda>w. w \<noteq> [] \<and> starts_with (CHR '' '' # s) w) ws_seqs = Some [CHR '' '']"
    by (simp add: ws_seqs_def)
  then have "strip_any ws_seqs (CHR '' '' # s) = strip_any ws_seqs s"
    by (subst strip_any.simps) simp
  then show ?thesis by (simp add: trim_def trim_start_def)
qed

lemma trim_Nil [simp]: "trim [] = []"
  by (simp add: trim_def trim_start_def)

subsubsection \<open>Case\<close>

text \<open>
  \<open>str::to_lowercase\<close>, which the code only compares with ASCII constants.  The one character
  outside ASCII whose lower case is an ASCII string is U+212A (the Kelvin sign), so mapping it
  and the ASCII capitals, and leaving every other byte alone, decides those comparisons exactly.
\<close>

definition ascii_lower :: "char \<Rightarrow> char" where
  "ascii_lower c = (let n = (of_char c :: nat) in if 65 \<le> n \<and> n \<le> 90 then char_of (n + 32) else c)"

fun to_lowercase :: "string \<Rightarrow> string" where
  "to_lowercase [] = []"
| "to_lowercase (c # s) =
     (if starts_with (c # s) [CHR 0xE2, CHR 0x84, CHR 0xAA]
      then CHR ''k'' # to_lowercase (drop 2 s)
      else ascii_lower c # to_lowercase s)"

subsubsection \<open>UTF-8\<close>

definition byte_in :: "nat \<Rightarrow> nat \<Rightarrow> char \<Rightarrow> bool" where
  "byte_in lo hi c \<longleftrightarrow> lo \<le> (of_char c :: nat) \<and> (of_char c :: nat) \<le> hi"

text \<open>\<open>String::from_utf8\<close> accepts exactly the well-formed sequences of the Unicode standard.\<close>

fun utf8_valid :: "string \<Rightarrow> bool" where
  "utf8_valid [] = True"
| "utf8_valid (a # s) =
     (if byte_in 0x00 0x7F a then utf8_valid s
      else (case s of
          [] \<Rightarrow> False
        | b # s1 \<Rightarrow>
            (if byte_in 0xC2 0xDF a then byte_in 0x80 0xBF b \<and> utf8_valid s1
             else (case s1 of
                 [] \<Rightarrow> False
               | c # s2 \<Rightarrow>
                   (if byte_in 0xE0 0xEF a then
                      byte_in (if byte_in 0xE0 0xE0 a then 0xA0 else 0x80)
                              (if byte_in 0xED 0xED a then 0x9F else 0xBF) b \<and>
                      byte_in 0x80 0xBF c \<and> utf8_valid s2
                    else (case s2 of
                        [] \<Rightarrow> False
                      | d # s3 \<Rightarrow>
                          byte_in 0xF0 0xF4 a \<and>
                          byte_in (if byte_in 0xF0 0xF0 a then 0x90 else 0x80)
                                  (if byte_in 0xF4 0xF4 a then 0x8F else 0xBF) b \<and>
                          byte_in 0x80 0xBF c \<and> byte_in 0x80 0xBF d \<and> utf8_valid s3))))))"

text \<open>A byte offset is on a character boundary when no continuation byte starts there.\<close>

definition char_boundary :: "string \<Rightarrow> nat \<Rightarrow> bool" where
  "char_boundary s n \<longleftrightarrow> n \<le> length s \<and> (n < length s \<longrightarrow> \<not> byte_in 0x80 0xBF (s ! n))"

subsubsection \<open>Decimal text\<close>

definition digit_char :: "nat \<Rightarrow> char" where
  "digit_char d = char_of (48 + d)"

definition is_digit :: "char \<Rightarrow> bool" where
  "is_digit c \<longleftrightarrow> 48 \<le> (of_char c :: nat) \<and> (of_char c :: nat) \<le> 57"

definition digit_val :: "char \<Rightarrow> nat" where
  "digit_val c = of_char c - 48"

fun show_nat :: "nat \<Rightarrow> string" where
  "show_nat n = (if n < 10 then [digit_char n] else show_nat (n div 10) @ [digit_char (n mod 10)])"

declare show_nat.simps [simp del]

definition show_int :: "int \<Rightarrow> string" where
  "show_int i = (if i < 0 then CHR ''-'' # show_nat (nat (- i)) else show_nat (nat i))"

abbreviation show_i64 :: "i64 \<Rightarrow> string" where "show_i64 w \<equiv> show_int (sint w)"
abbreviation show_i32 :: "i32 \<Rightarrow> string" where "show_i32 w \<equiv> show_int (sint w)"

definition read_nat :: "string \<Rightarrow> nat" where
  "read_nat s = foldl (\<lambda>a c. 10 * a + digit_val c) 0 s"

text \<open>
  The integer value of \<open>str::parse\<close>: an optional sign and at least one digit, nothing else;
  \<open>parse_i32\<close> and \<open>parse_i64\<close> then refuse a value out of the type's range.
\<close>

definition parse_digits :: "string \<Rightarrow> nat option" where
  "parse_digits s = (if s \<noteq> [] \<and> list_all is_digit s then Some (read_nat s) else None)"

definition parse_int :: "string \<Rightarrow> int option" where
  "parse_int s =
     (case s of
        [] \<Rightarrow> None
      | c # r \<Rightarrow> (if c = CHR ''-'' then map_option (\<lambda>n. - int n) (parse_digits r)
                  else if c = CHR ''+'' then map_option int (parse_digits r)
                  else map_option int (parse_digits s)))"

definition parse_i32 :: "string \<Rightarrow> i32 option" where
  "parse_i32 s = (case parse_int s of
      None \<Rightarrow> None
    | Some i \<Rightarrow> (if - (2 ^ 31) \<le> i \<and> i < 2 ^ 31 then Some (word_of_int i) else None))"

definition parse_i64 :: "string \<Rightarrow> i64 option" where
  "parse_i64 s = (case parse_int s of
      None \<Rightarrow> None
    | Some i \<Rightarrow> (if - (2 ^ 63) \<le> i \<and> i < 2 ^ 63 then Some (word_of_int i) else None))"

lemma digit_char_props:
  assumes "d < 10"
  shows "is_digit (digit_char d)" and "digit_val (digit_char d) = d"
    and "digit_char d \<noteq> CHR ''-''" and "digit_char d \<noteq> CHR ''+''"
proof -
  have v: "(of_char (digit_char d) :: nat) = 48 + d"
    using assms by (simp add: digit_char_def)
  show "is_digit (digit_char d)" "digit_val (digit_char d) = d"
    using v assms by (simp_all add: is_digit_def digit_val_def)
  show "digit_char d \<noteq> CHR ''-''" "digit_char d \<noteq> CHR ''+''"
    using v by auto
qed

lemma show_nat_digits: "list_all is_digit (show_nat n)"
proof (induction n rule: show_nat.induct)
  case (1 n)
  then show ?case
    by (subst show_nat.simps) (auto simp: digit_char_props)
qed

lemma show_nat_chars: "set (show_nat n) \<subseteq> {c. is_digit c}"
  using show_nat_digits [of n] by (auto simp: list_all_iff)

lemma show_nat_not_Nil [simp]: "show_nat n \<noteq> []"
  by (subst show_nat.simps) simp

lemma read_show_nat: "read_nat (show_nat n) = n"
proof (induction n rule: show_nat.induct)
  case (1 n)
  show ?case
  proof (cases "n < 10")
    case True
    then show ?thesis
      by (subst show_nat.simps) (simp add: read_nat_def digit_char_props)
  next
    case False
    have "read_nat (show_nat (n div 10) @ [digit_char (n mod 10)]) =
        10 * read_nat (show_nat (n div 10)) + n mod 10"
      by (simp add: read_nat_def digit_char_props)
    with False "1" show ?thesis
      by (subst show_nat.simps) simp
  qed
qed

lemma parse_digits_show: "parse_digits (show_nat n) = Some n"
  by (simp add: parse_digits_def show_nat_digits read_show_nat)

lemma show_nat_hd: "show_nat n = c # r \<Longrightarrow> c \<noteq> CHR ''-'' \<and> c \<noteq> CHR ''+''"
  using show_nat_digits [of n] by (auto simp: is_digit_def)

lemma parse_int_show [simp]: "parse_int (show_int i) = Some i"
proof (cases "i < 0")
  case True
  then show ?thesis by (simp add: show_int_def parse_int_def parse_digits_show)
next
  case False
  obtain c r where cr: "show_nat (nat i) = c # r"
    by (cases "show_nat (nat i)") auto
  with show_nat_hd have "c \<noteq> CHR ''-''" "c \<noteq> CHR ''+''" by blast+
  with False cr parse_digits_show [of "nat i"] show ?thesis
    by (simp add: show_int_def parse_int_def)
qed

lemma sint_range_i32: "- (2 ^ 31) \<le> sint (w :: i32)" "sint (w :: i32) < 2 ^ 31"
  using sint_greater_eq [of w] sint_less [of w] by simp_all

lemma sint_range_i64: "- (2 ^ 63) \<le> sint (w :: i64)" "sint (w :: i64) < 2 ^ 63"
  using sint_greater_eq [of w] sint_less [of w] by simp_all

lemma parse_show_i32 [simp]: "parse_i32 (show_i32 w) = Some w"
  using sint_range_i32 [of w] by (simp add: parse_i32_def)

lemma parse_show_i64 [simp]: "parse_i64 (show_i64 w) = Some w"
  using sint_range_i64 [of w] by (simp add: parse_i64_def)

lemma show_int_inj [simp]: "show_int i = show_int j \<longleftrightarrow> i = j"
  by (metis option.inject parse_int_show)

subsection \<open>Arithmetic without overflow\<close>

lemma sint_word_of_int_i64:
  "- (2 ^ 63) \<le> i \<Longrightarrow> i < 2 ^ 63 \<Longrightarrow> sint (word_of_int i :: i64) = i"
  by (simp add: sint_sbintrunc' signed_take_bit_int_eq_self)

lemma sint_add_i64:
  assumes "- (2 ^ 63) \<le> sint a + sint b" and "sint a + sint b < 2 ^ 63"
  shows "sint (a + b :: i64) = sint a + sint b"
proof -
  have "a + b = word_of_int (sint a + sint b)" by simp
  with assms show ?thesis by (metis sint_word_of_int_i64)
qed

lemma sint_inc_i32: "sint (w :: i32) < 2 ^ 31 - 1 \<Longrightarrow> sint (w + 1) = sint w + 1"
  using sint_range_i32 [of w] signed_take_bit_int_eq_self [of 31 "sint w + 1"] by (simp add: scast_id sint_word_ariths)

lemma sint_sub_i64:
  assumes "- (2 ^ 63) \<le> sint a - sint b" and "sint a - sint b < 2 ^ 63"
  shows "sint (a - b :: i64) = sint a - sint b"
proof -
  have "a - b = word_of_int (sint a - sint b)" by simp
  with assms show ?thesis by (metis sint_word_of_int_i64)
qed

lemma sint_mult_i64:
  assumes "- (2 ^ 63) \<le> sint a * sint b" and "sint a * sint b < 2 ^ 63"
  shows "sint (a * b :: i64) = sint a * sint b"
proof -
  have "a * b = word_of_int (sint a * sint b)" by simp
  with assms show ?thesis by (metis sint_word_of_int_i64)
qed

lemma sint_of_nat_i64: "n < 2 ^ 63 \<Longrightarrow> sint (word_of_nat n :: i64) = int n"
  using sint_word_of_int_i64 [of "int n"] by simp

lemma sint_one_i64 [simp]: "sint (1 :: i64) = 1" by simp

lemma i64_eq_iff_sint: "a = b \<longleftrightarrow> sint a = sint (b :: i64)"
  by (auto dest: arg_cong [of _ _ "word_of_int :: int \<Rightarrow> i64"])

subsection \<open>Hash maps\<close>

type_synonym ('k, 'v) hashmap = "('k \<times> 'v) list"

definition hm_ok :: "('k, 'v) hashmap \<Rightarrow> bool" where
  "hm_ok m \<longleftrightarrow> distinct (map fst m)"

abbreviation hm_get :: "('k, 'v) hashmap \<Rightarrow> 'k \<Rightarrow> 'v option" where "hm_get \<equiv> map_of"

fun hm_insert :: "'k \<Rightarrow> 'v \<Rightarrow> ('k, 'v) hashmap \<Rightarrow> ('k, 'v) hashmap" where
  "hm_insert k v [] = [(k, v)]"
| "hm_insert k v ((k', v') # m) = (if k' = k then (k, v) # m else (k', v') # hm_insert k v m)"

definition hm_remove :: "'k \<Rightarrow> ('k, 'v) hashmap \<Rightarrow> ('k, 'v) hashmap" where
  "hm_remove k m = filter (\<lambda>p. fst p \<noteq> k) m"

lemma hm_get_insert [hm_simps, simp]: "hm_get (hm_insert k v m) = (hm_get m)(k \<mapsto> v)"
  by (induction m) auto

lemma hm_keys_insert [hm_simps]: "fst ` set (hm_insert k v m) = insert k (fst ` set m)"
  by (simp flip: dom_map_of_conv_image_fst)

lemma hm_ok_insert [hm_simps, simp]: "hm_ok m \<Longrightarrow> hm_ok (hm_insert k v m)"
  by (induction k v m rule: hm_insert.induct, simp_all add: hm_ok_def hm_keys_insert, blast)

lemma hm_get_remove [hm_simps, simp]: "hm_get (hm_remove k m) = (hm_get m)(k := None)"
  by (induction m) (auto simp: hm_remove_def)

lemma hm_ok_filter [hm_simps, simp]: "hm_ok m \<Longrightarrow> hm_ok (filter P m)"
  by (simp add: hm_ok_def distinct_map_filter)

lemma hm_ok_remove [hm_simps, simp]: "hm_ok m \<Longrightarrow> hm_ok (hm_remove k m)"
  by (simp add: hm_remove_def)

lemma hm_ok_Nil [simp]: "hm_ok []"
  by (simp add: hm_ok_def)

lemma hm_fold_remove [hm_simps]:
  "hm_get (fold hm_remove ks m) k = (if k \<in> set ks then None else hm_get m k)"
  "hm_ok m \<Longrightarrow> hm_ok (fold hm_remove ks m)"
  by (induction ks arbitrary: m) auto

text \<open>\<open>entry(k).or_default().extend(vs)\<close> on a map of lists.\<close>

definition hm_extend :: "'k \<Rightarrow> 'v list \<Rightarrow> ('k, 'v list) hashmap \<Rightarrow> ('k, 'v list) hashmap" where
  "hm_extend k vs m = hm_insert k ((case hm_get m k of None \<Rightarrow> [] | Some l \<Rightarrow> l) @ vs) m"

lemma hm_get_extend [hm_simps]:
  "hm_get (hm_extend k vs m) k' =
     (if k' = k then Some ((case hm_get m k of None \<Rightarrow> [] | Some l \<Rightarrow> l) @ vs) else hm_get m k')"
  by (simp add: hm_extend_def)

lemma hm_ok_extend [hm_simps, simp]: "hm_ok m \<Longrightarrow> hm_ok (hm_extend k vs m)"
  by (simp add: hm_extend_def)

lemma hm_insert_not_Nil [simp]: "hm_insert k v m \<noteq> []"
  by (cases m) (auto split: if_splits)

lemma hm_extend_not_Nil [simp]: "hm_extend k vs m \<noteq> []"
  by (simp add: hm_extend_def)

lemma hm_get_in_set: "hm_ok m \<Longrightarrow> hm_get m k = Some v \<longleftrightarrow> (k, v) \<in> set m"
  by (simp add: hm_ok_def)

subsection \<open>Rows of a table\<close>

text \<open>\<open>position\<close> of the first match and assignment at that index.\<close>

fun replace_first :: "('a \<Rightarrow> bool) \<Rightarrow> 'a \<Rightarrow> 'a list \<Rightarrow> 'a list option" where
  "replace_first P y [] = None"
| "replace_first P y (x # xs) =
     (if P x then Some (y # xs) else map_option ((#) x) (replace_first P y xs))"

lemma replace_first_None [simp]: "replace_first P y xs = None \<longleftrightarrow> List.find P xs = None"
  by (induction xs) auto

lemma replace_first_find:
  "replace_first (\<lambda>x. f x = k) y xs = Some ys \<Longrightarrow> f y = k \<Longrightarrow>
    List.find (\<lambda>x. f x = k') ys = (if k' = k then Some y else List.find (\<lambda>x. f x = k') xs) \<and>
    map f ys = map f xs"
proof (induction xs arbitrary: ys)
  case (Cons x xs)
  then show ?case by (cases "f x = k") (auto split: if_splits)
qed simp

lemma find_Some_pred: "List.find P xs = Some x \<Longrightarrow> P x"
  by (induction xs) (auto split: if_splits)

lemma find_append: "List.find P (xs @ ys) = (case List.find P xs of None \<Rightarrow> List.find P ys | Some x \<Rightarrow> Some x)"
  by (induction xs) auto

subsection \<open>Greatest elements\<close>

text \<open>\<open>Iterator::max_by_key\<close> returns the last of several greatest elements.\<close>

fun max_by_key :: "('a \<Rightarrow> 'k::linorder) \<Rightarrow> 'a list \<Rightarrow> 'a option" where
  "max_by_key key [] = None"
| "max_by_key key (x # xs) =
     (case max_by_key key xs of
        None \<Rightarrow> Some x
      | Some y \<Rightarrow> (if key x \<le> key y then Some y else Some x))"

lemma max_by_key_None [simp]: "max_by_key f xs = None \<longleftrightarrow> xs = []"
  by (cases xs) (auto split: option.split)

lemma max_by_key_Some: "max_by_key f xs = Some x \<Longrightarrow> x \<in> set xs \<and> (\<forall>y \<in> set xs. f y \<le> f x)"
proof (induction xs arbitrary: x)
  case (Cons a xs)
  then show ?case
    by (cases "max_by_key f xs") (force split: if_splits)+
qed simp

lemma max_by_key_last: "\<forall>y \<in> set xs. f y \<le> f x \<Longrightarrow> max_by_key f (xs @ [x]) = Some x"
  by (induction xs) auto

end
