(* ===== verification/Core_Errors.thy ===== *)
theory Core_Errors
  imports Prelude
begin

section \<open>Errors (\<open>crates/op-core/src/error.rs\<close>)\<close>

text \<open>
  \<open>ValidationErrors\<close>, the accumulator that every contract fills, with the operations of its
  \<open>impl\<close>; \<open>ContractError\<close> and its conversion; \<open>OpError\<close> and its mapping to HTTP.  The lemmas say
  what the accumulator holds after each operation, whatever the iteration order of its map.
\<close>

named_theorems ve_simps \<open>how the operations of validation errors act on its observations\<close>

record validation_errors =
  ve_errors :: "(string, string list) hashmap"
  ve_base_errors :: "string list"

definition ve_new :: validation_errors where
  "ve_new = \<lparr>ve_errors = [], ve_base_errors = []\<rparr>"

definition ve_add :: "string \<Rightarrow> string \<Rightarrow> validation_errors \<Rightarrow> validation_errors" where
  "ve_add field message e = e\<lparr>ve_errors := hm_extend field [message] (ve_errors e)\<rparr>"

definition ve_add_base :: "string \<Rightarrow> validation_errors \<Rightarrow> validation_errors" where
  "ve_add_base message e = e\<lparr>ve_base_errors := ve_base_errors e @ [message]\<rparr>"

definition ve_is_empty :: "validation_errors \<Rightarrow> bool" where
  "ve_is_empty e \<longleftrightarrow> ve_errors e = [] \<and> ve_base_errors e = []"

definition ve_get :: "validation_errors \<Rightarrow> string \<Rightarrow> string list option" where
  "ve_get e field = hm_get (ve_errors e) field"

definition ve_has_error :: "validation_errors \<Rightarrow> string \<Rightarrow> bool" where
  "ve_has_error e field \<longleftrightarrow> ve_get e field \<noteq> None"

text \<open>\<open>merge\<close> walks the other map in its iteration order.\<close>

definition ve_merge :: "validation_errors \<Rightarrow> validation_errors \<Rightarrow> validation_errors" where
  "ve_merge e other =
     \<lparr>ve_errors = fold (\<lambda>(field, messages) m. hm_extend field messages m) (ve_errors other) (ve_errors e),
      ve_base_errors = ve_base_errors e @ ve_base_errors other\<rparr>"

definition ve_full_messages :: "validation_errors \<Rightarrow> string list" where
  "ve_full_messages e =
     ve_base_errors e @
     concat (map (\<lambda>(field, messages). map (\<lambda>msg. field @ '' '' @ msg) messages) (ve_errors e))"

definition ve_ok :: "validation_errors \<Rightarrow> bool" where
  "ve_ok e \<longleftrightarrow> hm_ok (ve_errors e)"

text \<open>The messages of a field, none when the field has no entry.\<close>

abbreviation ve_msgs :: "validation_errors \<Rightarrow> string \<Rightarrow> string list" where
  "ve_msgs e field \<equiv> (case ve_get e field of None \<Rightarrow> [] | Some ms \<Rightarrow> ms)"

subsection \<open>Laws\<close>

lemma ve_new_simps [ve_simps, simp]:
  "ve_is_empty ve_new" "ve_get ve_new f = None" "ve_base_errors ve_new = []" "ve_ok ve_new"
  by (simp_all add: ve_new_def ve_is_empty_def ve_get_def ve_ok_def)

lemma ve_add_simps [ve_simps, simp]:
  "\<not> ve_is_empty (ve_add f m e)"
  "ve_get (ve_add f m e) g = (if g = f then Some (ve_msgs e f @ [m]) else ve_get e g)"
  "ve_base_errors (ve_add f m e) = ve_base_errors e"
  "ve_ok e \<Longrightarrow> ve_ok (ve_add f m e)"
  by (simp_all add: ve_add_def ve_is_empty_def ve_get_def ve_ok_def hm_simps)

lemma ve_add_base_simps [ve_simps, simp]:
  "\<not> ve_is_empty (ve_add_base m e)"
  "ve_get (ve_add_base m e) g = ve_get e g"
  "ve_base_errors (ve_add_base m e) = ve_base_errors e @ [m]"
  "ve_ok e \<Longrightarrow> ve_ok (ve_add_base m e)"
  by (simp_all add: ve_add_base_def ve_is_empty_def ve_get_def ve_ok_def)

lemma fold_hm_extend_get:
  "distinct (map fst xs) \<Longrightarrow>
   hm_get (fold (\<lambda>(f, ms) m. hm_extend f ms m) xs m) k =
     (case map_of xs k of
        None \<Rightarrow> hm_get m k
      | Some ms \<Rightarrow> Some ((case hm_get m k of None \<Rightarrow> [] | Some l \<Rightarrow> l) @ ms))"
proof (induction xs arbitrary: m)
  case Nil
  show ?case by simp
next
  case (Cons x xs)
  obtain f ms where x: "x = (f, ms)" by (cases x)
  from Cons.prems x have "map_of xs f = None" by (auto simp: map_of_eq_None_iff)
  with Cons x show ?case by (auto simp: hm_get_extend split: option.split)
qed

lemma fold_hm_extend_ok:
  "hm_ok m \<Longrightarrow> hm_ok (fold (\<lambda>(f, ms) m. hm_extend f ms m) xs m)"
  by (induction xs arbitrary: m) (simp_all add: case_prod_beta)

lemma fold_hm_extend_Nil:
  "fold (\<lambda>(f, ms) m. hm_extend f ms m) xs m = [] \<longleftrightarrow> xs = [] \<and> m = []"
proof -
  have ne: "m \<noteq> [] \<Longrightarrow> fold (\<lambda>(f, ms) m. hm_extend f ms m) xs m \<noteq> []" for xs and m :: "('a, 'b list) hashmap"
    by (induction xs arbitrary: m) (simp_all add: case_prod_beta)
  show ?thesis
  proof (cases xs)
    case (Cons x ys)
    then show ?thesis
      using ne [of "hm_extend (fst x) (snd x) m" ys] by (simp add: case_prod_beta)
  qed simp
qed

lemma ve_get_merge [ve_simps]:
  "ve_ok other \<Longrightarrow> ve_get (ve_merge e other) f =
     (case ve_get other f of None \<Rightarrow> ve_get e f | Some ms \<Rightarrow> Some (ve_msgs e f @ ms))"
  by (simp add: ve_merge_def ve_get_def ve_ok_def hm_ok_def fold_hm_extend_get split: option.split)

lemma ve_merge_simps [ve_simps, simp]:
  "ve_base_errors (ve_merge e other) = ve_base_errors e @ ve_base_errors other"
  "ve_ok e \<Longrightarrow> ve_ok (ve_merge e other)"
  "ve_is_empty (ve_merge e other) \<longleftrightarrow> ve_is_empty e \<and> ve_is_empty other"
  by (auto simp: ve_merge_def ve_ok_def ve_is_empty_def fold_hm_extend_ok fold_hm_extend_Nil)

lemma ve_is_empty_get: "ve_is_empty e \<longleftrightarrow> ve_base_errors e = [] \<and> (\<forall>f. ve_get e f = None)"
  by (cases "ve_errors e") (auto simp: ve_is_empty_def ve_get_def)

lemma set_full_messages:
  "ve_ok e \<Longrightarrow> set (ve_full_messages e) =
     set (ve_base_errors e) \<union> {f @ '' '' @ m | f m. \<exists>ms. ve_get e f = Some ms \<and> m \<in> set ms}"
  by (auto simp: ve_full_messages_def ve_get_def ve_ok_def hm_get_in_set)

subsection \<open>Contract errors\<close>

datatype contract_error =
    AttributeInvalid (ce_attribute: string) (ce_message: string)
  | AttributeNotWritable string
  | ContractBase string
  | ContractMultiple validation_errors

fun contract_error_into :: "contract_error \<Rightarrow> validation_errors" where
  "contract_error_into (AttributeInvalid attribute message) = ve_add attribute message ve_new"
| "contract_error_into (AttributeNotWritable attribute) = ve_add attribute ''is not writable'' ve_new"
| "contract_error_into (ContractBase message) = ve_add_base message ve_new"
| "contract_error_into (ContractMultiple e) = e"

subsection \<open>Operation errors and their HTTP mapping\<close>

datatype op_error =
    OpNotFound string string string
  | OpUnauthorized string
  | OpForbidden string
  | OpValidation validation_errors
  | OpContract contract_error
  | OpDatabase string
  | OpInternal string
  | OpConfig string
  | OpExternalService string string
  | OpRateLimited u64
  | OpConflict string

fun op_error_status_code :: "op_error \<Rightarrow> nat" where
  "op_error_status_code (OpNotFound _ _ _) = 404"
| "op_error_status_code (OpUnauthorized _) = 401"
| "op_error_status_code (OpForbidden _) = 403"
| "op_error_status_code (OpValidation _) = 422"
| "op_error_status_code (OpContract _) = 422"
| "op_error_status_code (OpRateLimited _) = 429"
| "op_error_status_code (OpConflict _) = 409"
| "op_error_status_code (OpDatabase _) = 500"
| "op_error_status_code (OpInternal _) = 500"
| "op_error_status_code (OpConfig _) = 500"
| "op_error_status_code (OpExternalService _ _) = 502"

fun op_error_error_code :: "op_error \<Rightarrow> string" where
  "op_error_error_code (OpNotFound _ _ _) = ''not_found''"
| "op_error_error_code (OpUnauthorized _) = ''unauthorized''"
| "op_error_error_code (OpForbidden _) = ''forbidden''"
| "op_error_error_code (OpValidation _) = ''validation_failed''"
| "op_error_error_code (OpContract _) = ''contract_violated''"
| "op_error_error_code (OpDatabase _) = ''database_error''"
| "op_error_error_code (OpInternal _) = ''internal_error''"
| "op_error_error_code (OpConfig _) = ''configuration_error''"
| "op_error_error_code (OpExternalService _ _) = ''external_service_error''"
| "op_error_error_code (OpRateLimited _) = ''rate_limited''"
| "op_error_error_code (OpConflict _) = ''conflict''"

text \<open>The error code determines the status: no two errors share a code and differ in status.\<close>

lemma error_code_determines_status:
  "op_error_error_code a = op_error_error_code b \<Longrightarrow> op_error_status_code a = op_error_status_code b"
  by (cases a; cases b; simp)

end
