(* ===== verification/Core_Types.thy ===== *)
theory Core_Types
  imports Core_Errors
begin

section \<open>Common types and the nested service result (op-core)\<close>

text \<open>
  \<open>crates/op-core/src/types.rs\<close>: text, date ranges, colours, user status, attachment categories
  and HAL links; \<open>crates/op-core/src/result.rs\<close>: the service result with its error, state and
  dependent results, and its conversions from and to \<open>OpResult\<close>.
\<close>

subsection \<open>Values\<close>

datatype text_format = MarkdownFormat | PlainFormat

record formattable =
  fm_raw :: string
  fm_html :: string
  fm_format :: text_format

definition formattable_plain :: "string \<Rightarrow> formattable" where
  "formattable_plain text = \<lparr>fm_raw = text, fm_html = text, fm_format = PlainFormat\<rparr>"

definition formattable_markdown :: "string \<Rightarrow> formattable" where
  "formattable_markdown raw = \<lparr>fm_raw = raw, fm_html = raw, fm_format = MarkdownFormat\<rparr>"

definition formattable_is_empty :: "formattable \<Rightarrow> bool" where
  "formattable_is_empty f \<longleftrightarrow> fm_raw f = []"

record date_range =
  dr_start_date :: "date option"
  dr_due_date :: "date option"

definition date_range_new :: "date option \<Rightarrow> date option \<Rightarrow> date_range" where
  "date_range_new start due = \<lparr>dr_start_date = start, dr_due_date = due\<rparr>"

definition date_range_duration_days :: "date_range \<Rightarrow> i64 option" where
  "date_range_duration_days r =
     (case (dr_start_date r, dr_due_date r) of
        (Some start, Some due) \<Rightarrow> Some (word_of_int (due - start))
      | _ \<Rightarrow> None)"

record color =
  color_hex :: string
  color_name :: "string option"

definition color_new :: "string \<Rightarrow> color" where
  "color_new hex = \<lparr>color_hex = hex, color_name = None\<rparr>"

definition color_with_name :: "string \<Rightarrow> string \<Rightarrow> color" where
  "color_with_name hex name = \<lparr>color_hex = hex, color_name = Some name\<rparr>"

definition color_default :: color where
  "color_default = \<lparr>color_hex = ''#1A67A3'', color_name = None\<rparr>"

datatype user_status = UserActive | UserRegistered | UserLocked | UserInvited

fun user_status_is_active :: "user_status \<Rightarrow> bool" where
  "user_status_is_active UserActive = True"
| "user_status_is_active _ = False"

fun user_status_can_login :: "user_status \<Rightarrow> bool" where
  "user_status_can_login UserActive = True"
| "user_status_can_login UserInvited = True"
| "user_status_can_login _ = False"

datatype attachment_category =
  CatImage | CatVideo | CatAudio | CatDocument | CatSpreadsheet | CatPresentation | CatArchive
| CatCode | CatOther

definition attachment_category_from_mime_type :: "string \<Rightarrow> attachment_category" where
  "attachment_category_from_mime_type mime =
     (if starts_with mime ''image/'' then CatImage
      else if starts_with mime ''video/'' then CatVideo
      else if starts_with mime ''audio/'' then CatAudio
      else if contains_str mime ''pdf'' \<or> contains_str mime ''document''
           \<or> contains_str mime ''msword'' \<or> contains_str mime ''text/'' then CatDocument
      else if contains_str mime ''spreadsheet'' \<or> contains_str mime ''excel'' then CatSpreadsheet
      else if contains_str mime ''presentation'' \<or> contains_str mime ''powerpoint''
           then CatPresentation
      else if contains_str mime ''zip'' \<or> contains_str mime ''tar'' \<or> contains_str mime ''archive''
           then CatArchive
      else if contains_str mime ''javascript'' \<or> contains_str mime ''json''
           \<or> contains_str mime ''xml'' \<or> contains_str mime ''yaml'' then CatCode
      else CatOther)"

record hal_link =
  hl_href :: string
  hl_title :: "string option"
  hl_method :: "string option"
  hl_templated :: "bool option"

definition hal_link_new :: "string \<Rightarrow> hal_link" where
  "hal_link_new href = \<lparr>hl_href = href, hl_title = None, hl_method = None, hl_templated = None\<rparr>"

definition hal_link_with_title :: "string \<Rightarrow> hal_link \<Rightarrow> hal_link" where
  "hal_link_with_title title l = l\<lparr>hl_title := Some title\<rparr>"

definition hal_link_with_method :: "string \<Rightarrow> hal_link \<Rightarrow> hal_link" where
  "hal_link_with_method method l = l\<lparr>hl_method := Some method\<rparr>"

definition hal_link_templated :: "hal_link \<Rightarrow> hal_link" where
  "hal_link_templated l = l\<lparr>hl_templated := Some True\<rparr>"

lemma mime_document:
  "\<not> starts_with mime ''image/'' \<Longrightarrow> \<not> starts_with mime ''video/'' \<Longrightarrow>
   \<not> starts_with mime ''audio/'' \<Longrightarrow> contains_str mime ''document'' \<Longrightarrow>
   attachment_category_from_mime_type mime = CatDocument"
  by (simp add: attachment_category_from_mime_type_def)

text \<open>
  The document test comes before the spreadsheet and presentation tests, and every Office Open
  XML type holds the word ``officedocument'': each of them, spreadsheets and presentations
  included, is a document, so only the older Excel and PowerPoint types reach those categories.
\<close>

theorem office_types_are_documents:
  "attachment_category_from_mime_type
     (''application/vnd.openxmlformats-officedocument.'' @ kind) = CatDocument \<and>
   attachment_category_from_mime_type ''application/vnd.ms-excel'' = CatSpreadsheet \<and>
   attachment_category_from_mime_type ''application/vnd.ms-powerpoint'' = CatPresentation"
  by (simp add: attachment_category_from_mime_type_def)

subsection \<open>Service results\<close>

record 'j service_state =
  ss_contract_class :: "string option"
  ss_original_attributes :: "'j option"
  ss_custom :: "(string, 'j) hashmap"

definition service_state_default :: "'j service_state" where
  "service_state_default =
     \<lparr>ss_contract_class = None, ss_original_attributes = None, ss_custom = []\<rparr>"

text \<open>
  \<open>ServiceResult<T>\<close>, whose dependent results are \<open>ServiceResult<()>\<close>; \<open>'j\<close> is the type of JSON
  values.
\<close>

datatype 'j dependent_result =
  Dependent (dep_success: bool) (dep_result: "unit option") (dep_errors: validation_errors)
    (dep_state: "'j service_state") (dep_results: "'j dependent_result list")

record ('a, 'j) core_service_result =
  csr_success :: bool
  csr_result :: "'a option"
  csr_errors :: validation_errors
  csr_state :: "'j service_state"
  csr_dependent_results :: "'j dependent_result list"

definition csr_success_with :: "'a \<Rightarrow> ('a, 'j) core_service_result" where
  "csr_success_with result =
     \<lparr>csr_success = True, csr_result = Some result, csr_errors = ve_new,
      csr_state = service_state_default, csr_dependent_results = []\<rparr>"

definition csr_success_empty :: "(unit, 'j) core_service_result" where
  "csr_success_empty =
     \<lparr>csr_success = True, csr_result = Some (), csr_errors = ve_new,
      csr_state = service_state_default, csr_dependent_results = []\<rparr>"

definition csr_failure :: "validation_errors \<Rightarrow> ('a, 'j) core_service_result" where
  "csr_failure errors =
     \<lparr>csr_success = False, csr_result = None, csr_errors = errors,
      csr_state = service_state_default, csr_dependent_results = []\<rparr>"

definition csr_failure_with_message :: "string \<Rightarrow> ('a, 'j) core_service_result" where
  "csr_failure_with_message message = csr_failure (ve_add_base message ve_new)"

definition csr_is_success :: "('a, 'j) core_service_result \<Rightarrow> bool" where
  "csr_is_success r = csr_success r"

definition csr_is_failure :: "('a, 'j) core_service_result \<Rightarrow> bool" where
  "csr_is_failure r \<longleftrightarrow> \<not> csr_success r"

text \<open>\<open>unwrap\<close> panics (\<open>None\<close>) without a result.\<close>

definition csr_unwrap :: "('a, 'j) core_service_result \<Rightarrow> 'a option" where
  "csr_unwrap r = csr_result r"

definition csr_unwrap_or :: "'a \<Rightarrow> ('a, 'j) core_service_result \<Rightarrow> 'a" where
  "csr_unwrap_or d r = (case csr_result r of Some v \<Rightarrow> v | None \<Rightarrow> d)"

definition csr_map :: "('a \<Rightarrow> 'b) \<Rightarrow> ('a, 'j) core_service_result \<Rightarrow> ('b, 'j) core_service_result" where
  "csr_map f r =
     \<lparr>csr_success = csr_success r, csr_result = map_option f (csr_result r),
      csr_errors = csr_errors r, csr_state = csr_state r,
      csr_dependent_results = csr_dependent_results r\<rparr>"

definition csr_and_then ::
    "('a, 'j) core_service_result \<Rightarrow> ('a \<Rightarrow> ('b, 'j) core_service_result) \<Rightarrow>
     ('b, 'j) core_service_result" where
  "csr_and_then r f =
     (let failed = \<lparr>csr_success = False, csr_result = None, csr_errors = csr_errors r,
        csr_state = csr_state r, csr_dependent_results = csr_dependent_results r\<rparr>
      in if csr_success r then (case csr_result r of Some v \<Rightarrow> f v | None \<Rightarrow> failed) else failed)"

definition csr_with_state :: "'j service_state \<Rightarrow> ('a, 'j) core_service_result \<Rightarrow>
    ('a, 'j) core_service_result" where
  "csr_with_state s r = r\<lparr>csr_state := s\<rparr>"

definition csr_as_dependent :: "(unit, 'j) core_service_result \<Rightarrow> 'j dependent_result" where
  "csr_as_dependent d = Dependent (csr_success d) (csr_result d) (csr_errors d) (csr_state d)
     (csr_dependent_results d)"

definition csr_with_dependent :: "(unit, 'j) core_service_result \<Rightarrow> ('a, 'j) core_service_result \<Rightarrow>
    ('a, 'j) core_service_result" where
  "csr_with_dependent d r =
     r\<lparr>csr_dependent_results := csr_dependent_results r @ [csr_as_dependent d]\<rparr>"

definition csr_merge_errors :: "('b, 'j) core_service_result \<Rightarrow> ('a, 'j) core_service_result \<Rightarrow>
    ('a, 'j) core_service_result" where
  "csr_merge_errors other r = r\<lparr>csr_errors := ve_merge (csr_errors r) (csr_errors other)\<rparr>"

definition csr_into_result :: "('a, 'j) core_service_result \<Rightarrow> ('a, op_error) result" where
  "csr_into_result r =
     (if csr_success r
      then (case csr_result r of
              Some v \<Rightarrow> Ok v
            | None \<Rightarrow> Err (OpInternal ''ServiceResult success but no result value''))
      else Err (OpValidation (csr_errors r)))"

text \<open>\<open>Display\<close> of the errors; the text of a \<open>HashMap\<close> (\<open>{:?}\<close>) is a parameter.\<close>

fun contract_error_to_string :: "contract_error \<Rightarrow> string" where
  "contract_error_to_string (AttributeInvalid attribute message) =
     ''Attribute '' @ attribute @ '' is invalid: '' @ message"
| "contract_error_to_string (AttributeNotWritable attribute) =
     ''Attribute '' @ attribute @ '' is not writable''"
| "contract_error_to_string (ContractBase message) = ''Base contract error: '' @ message"
| "contract_error_to_string (ContractMultiple _) = ''Multiple contract errors''"

fun op_error_to_string :: "(validation_errors \<Rightarrow> string) \<Rightarrow> op_error \<Rightarrow> string" where
  "op_error_to_string dbg (OpNotFound entity field v) =
     ''Not found: '' @ entity @ '' with '' @ field @ ''='' @ v"
| "op_error_to_string dbg (OpUnauthorized m) = ''Unauthorized: '' @ m"
| "op_error_to_string dbg (OpForbidden m) = ''Forbidden: '' @ m"
| "op_error_to_string dbg (OpValidation e) = ''Validation failed: Validation errors: '' @ dbg e"
| "op_error_to_string dbg (OpContract e) = ''Contract violation: '' @ contract_error_to_string e"
| "op_error_to_string dbg (OpDatabase m) = ''Database error: '' @ m"
| "op_error_to_string dbg (OpInternal m) = ''Internal error: '' @ m"
| "op_error_to_string dbg (OpConfig m) = ''Configuration error: '' @ m"
| "op_error_to_string dbg (OpExternalService s m) =
     ''External service error: '' @ s @ '' - '' @ m"
| "op_error_to_string dbg (OpRateLimited n) =
     ''Rate limited: retry after '' @ show_nat (unat n) @ ''s''"
| "op_error_to_string dbg (OpConflict m) = ''Conflict: '' @ m"

fun csr_from :: "(validation_errors \<Rightarrow> string) \<Rightarrow> ('a, op_error) result \<Rightarrow>
    ('a, 'j) core_service_result" where
  "csr_from dbg (Inr v) = csr_success_with v"
| "csr_from dbg (Inl (OpValidation errors)) = csr_failure errors"
| "csr_from dbg (Inl e) = csr_failure_with_message (op_error_to_string dbg e)"

lemmas csr_defs = csr_success_with_def csr_failure_def csr_failure_with_message_def
  csr_into_result_def csr_map_def csr_and_then_def

lemma into_from_ok [simp]: "csr_into_result (csr_from dbg (Ok v)) = Ok v"
  by (simp add: csr_defs)

lemma into_from_err:
  "csr_into_result (csr_from dbg (Err e)) =
     Err (OpValidation (case e of OpValidation v \<Rightarrow> v
       | _ \<Rightarrow> ve_add_base (op_error_to_string dbg e) ve_new))"
  by (cases e) (simp_all add: csr_defs)

text \<open>
  Converting an operation's result to a service result and back keeps a value and keeps
  validation errors; every other error comes back as one base error holding its text, so its
  HTTP status becomes 422.
\<close>

theorem service_result_conversion:
  "csr_into_result (csr_from dbg r) =
     (case r of
        Inr v \<Rightarrow> Ok v
      | Inl (OpValidation v) \<Rightarrow> Err (OpValidation v)
      | Inl e \<Rightarrow> Err (OpValidation (ve_add_base (op_error_to_string dbg e) ve_new))) \<and>
   (case csr_into_result (csr_from dbg r) of
      Inr _ \<Rightarrow> \<not> isl r | Inl e \<Rightarrow> isl r \<and> op_error_status_code e = 422)"
  by (cases r) (simp_all add: into_from_err csr_defs split: op_error.splits)

definition csr_wf :: "('a, 'j) core_service_result \<Rightarrow> bool" where
  "csr_wf r \<longleftrightarrow> (csr_success r \<longleftrightarrow> csr_result r \<noteq> None)"

text \<open>
  Chaining service results is associative, and on results that carry a value exactly when
  they succeed it is the chaining of the \<open>OpResult\<close>s they convert to.
\<close>

theorem service_result_and_then:
  "csr_and_then (csr_and_then r f) g = csr_and_then r (\<lambda>v. csr_and_then (f v) g) \<and>
   csr_into_result (csr_and_then r f) =
     (case csr_into_result r of
        Inr v \<Rightarrow> csr_into_result (f v)
      | Inl e \<Rightarrow> Err (if csr_wf r then e else OpValidation (csr_errors r)))"
  by (auto simp: csr_defs csr_wf_def split: option.splits)

end
