(* ===== verification/Pagination.thy ===== *)
theory Pagination
  imports Prelude "HOL-Library.Signed_Division"
begin

section \<open>Pagination and sort parameters\<close>

text \<open>
  \<open>crates/op-core/src/pagination.rs\<close> and the pagination types of
  \<open>crates/op-db/src/repository.rs\<close>, on 64-bit words with wrap-around.  The collection links are
  sound: a client that follows \<open>nextByOffset\<close> sees every element once, in order
  (\<open>next_links_visit_everything\<close>).
\<close>

named_theorems page_simps \<open>signed comparisons on 64-bit words\<close>

definition i64_max :: "i64 \<Rightarrow> i64 \<Rightarrow> i64" where
  "i64_max a b = (if sint a \<le> sint b then b else a)"


subsection \<open>\<open>PaginationParams\<close>\<close>

record pagination_params =
  pp_page :: i64
  pp_per_page :: i64
  pp_offset :: "i64 option"

definition default_page :: i64 where "default_page = 1"

definition default_per_page :: i64 where "default_per_page = 20"


definition pagination_params_offset :: "pagination_params \<Rightarrow> i64" where
  "pagination_params_offset p =
     (case pp_offset p of Some off \<Rightarrow> off | None \<Rightarrow> (pp_page p - 1) * pp_per_page p)"


subsection \<open>\<open>PaginatedResponse\<close>\<close>

record link_object =
  lo_href :: string
  lo_title :: "string option"

record pagination_links =
  pl_self_link :: link_object
  pl_jump_to :: "link_object option"
  pl_change_size :: "link_object option"
  pl_previous :: "link_object option"
  pl_next :: "link_object option"

record 'a paginated_response =
  pr_hal_type :: string
  pr_total :: i64
  pr_count :: i64
  pr_page_size :: i64
  pr_offset :: i64
  pr_links :: pagination_links
  pr_elements :: "'a list"

text \<open>\<open>format!("{}?offset={}&pageSize={}", ...)\<close>.\<close>

definition page_href :: "string \<Rightarrow> i64 \<Rightarrow> i64 \<Rightarrow> string" where
  "page_href base_url off sz =
     base_url @ ''?offset='' @ show_i64 off @ ''&pageSize='' @ show_i64 sz"

definition previous_offset :: "i64 \<Rightarrow> i64 \<Rightarrow> i64 option" where
  "previous_offset off page_size =
     (if sint off > 0 then Some (i64_max (off - page_size) 0) else None)"

definition next_offset :: "i64 \<Rightarrow> i64 \<Rightarrow> i64 \<Rightarrow> i64 \<Rightarrow> i64 option" where
  "next_offset off count page_size total_items =
     (if sint (off + count) < sint total_items then Some (off + page_size) else None)"

definition page_link :: "string \<Rightarrow> i64 \<Rightarrow> i64 \<Rightarrow> link_object" where
  "page_link base_url sz off = \<lparr>lo_href = page_href base_url off sz, lo_title = None\<rparr>"

definition paginated_response_new ::
    "'a list \<Rightarrow> i64 \<Rightarrow> pagination_params \<Rightarrow> string \<Rightarrow> string \<Rightarrow> 'a paginated_response" where
  "paginated_response_new items total_items params base_url element_type =
     (let offset = pagination_params_offset params;
          count = word_of_nat (length items);
          page_size = pp_per_page params;
          previous = map_option (page_link base_url page_size) (previous_offset offset page_size);
          next = map_option (page_link base_url page_size)
                   (next_offset offset count page_size total_items)
      in \<lparr>pr_hal_type = ''Collection'', pr_total = total_items, pr_count = count,
          pr_page_size = page_size, pr_offset = offset,
          pr_links = \<lparr>pl_self_link = page_link base_url page_size offset,
            pl_jump_to = Some \<lparr>lo_href = base_url @ ''?offset={offset}&pageSize='' @
              show_i64 page_size, lo_title = None\<rparr>,
            pl_change_size = Some \<lparr>lo_href = base_url @ ''?offset='' @ show_i64 offset @
              ''&pageSize={size}'', lo_title = None\<rparr>,
            pl_previous = previous, pl_next = next\<rparr>,
          pr_elements = items\<rparr>)"

definition collection_type :: "string \<Rightarrow> string" where
  "collection_type element_type = element_type @ ''Collection''"

subsection \<open>\<open>SortParam\<close>\<close>

datatype core_sort_direction = CoreAsc | CoreDesc

record sort_param =
  sp_field :: string
  sp_direction :: core_sort_direction

definition strip_suffix :: "string \<Rightarrow> string \<Rightarrow> string option" where
  "strip_suffix s suf =
     (if starts_with (rev s) (rev suf) then Some (take (length s - length suf) s) else None)"

definition sort_param_of_part :: "string \<Rightarrow> sort_param option" where
  "sort_param_of_part part0 =
     (let part = trim part0 in
      if part = [] then None
      else (case strip_suffix part '':desc'' of
          Some field \<Rightarrow> Some \<lparr>sp_field = field, sp_direction = CoreDesc\<rparr>
        | None \<Rightarrow> (case strip_suffix part '':asc'' of
            Some field \<Rightarrow> Some \<lparr>sp_field = field, sp_direction = CoreAsc\<rparr>
          | None \<Rightarrow> Some \<lparr>sp_field = part, sp_direction = CoreAsc\<rparr>)))"

definition sort_param_parse :: "string \<Rightarrow> sort_param list" where
  "sort_param_parse s = List.map_filter sort_param_of_part (split_char CHR '','' s)"

subsection \<open>API filter operators\<close>

datatype core_filter_operator =
    CoreEquals | CoreNotEquals | CoreContains | CoreNotContains | CoreGreaterThan | CoreLessThan
  | CoreGreaterOrEqual | CoreLessOrEqual | CoreIn | CoreNotIn | CoreIsNull | CoreIsNotNull

text \<open>The source's \<open>\<ge>\<close> and \<open>\<le>\<close> are the byte strings \<open>E2 89 A5\<close> and \<open>E2 89 A4\<close>.\<close>

definition core_filter_operator_from_str :: "string \<Rightarrow> core_filter_operator option" where
  "core_filter_operator_from_str s =
     (if s = ''='' \<or> s = ''=='' then Some CoreEquals
      else if s = ''!'' \<or> s = ''!='' \<or> s = ''<>'' then Some CoreNotEquals
      else if s = ''~'' then Some CoreContains
      else if s = ''!~'' then Some CoreNotContains
      else if s = ''>'' then Some CoreGreaterThan
      else if s = ''<'' then Some CoreLessThan
      else if s = ''>='' \<or> s = [CHR 0xE2, CHR 0x89, CHR 0xA5] then Some CoreGreaterOrEqual
      else if s = ''<='' \<or> s = [CHR 0xE2, CHR 0x89, CHR 0xA4] then Some CoreLessOrEqual
      else if s = ''|'' then Some CoreIn
      else if s = ''!|'' then Some CoreNotIn
      else if s = ''!*'' then Some CoreIsNull
      else if s = ''*'' then Some CoreIsNotNull
      else None)"

subsection \<open>Repository pagination\<close>

record pagination =
  pg_limit :: i64
  pg_offset :: i64

definition pagination_default :: pagination where
  "pagination_default = \<lparr>pg_limit = 20, pg_offset = 0\<rparr>"

definition pagination_new :: "i64 \<Rightarrow> i64 \<Rightarrow> pagination" where
  "pagination_new limit offset = \<lparr>pg_limit = limit, pg_offset = offset\<rparr>"

definition pagination_page :: "i64 \<Rightarrow> i64 \<Rightarrow> pagination" where
  "pagination_page page per_page = \<lparr>pg_limit = per_page, pg_offset = (page - 1) * per_page\<rparr>"

record 'a paginated_result =
  pres_items :: "'a list"
  pres_total :: i64
  pres_limit :: i64
  pres_offset :: i64

definition paginated_result_new :: "'a list \<Rightarrow> i64 \<Rightarrow> pagination \<Rightarrow> 'a paginated_result" where
  "paginated_result_new items total_items p =
     \<lparr>pres_items = items, pres_total = total_items, pres_limit = pg_limit p, pres_offset = pg_offset p\<rparr>"

text \<open>
  Rust's \<open>/\<close> truncates towards zero and panics when the quotient does not fit, which is at
  \<open>i64::MIN / -1\<close>; a panic is \<open>None\<close>.  The guards exclude a division by zero.
\<close>

definition i64_div :: "i64 \<Rightarrow> i64 \<Rightarrow> i64 option" where
  "i64_div a b =
     (if sint b = 0 \<or> (sint a = - (2 ^ 63) \<and> sint b = - 1) then None
      else Some (word_of_int (sint a sdiv sint b)))"

definition paginated_result_page :: "'a paginated_result \<Rightarrow> i64 option" where
  "paginated_result_page r =
     (if pres_limit r = 0 then Some 1
      else map_option (\<lambda>q. q + 1) (i64_div (pres_offset r) (pres_limit r)))"

definition paginated_result_total_pages :: "'a paginated_result \<Rightarrow> i64 option" where
  "paginated_result_total_pages r =
     (if pres_limit r = 0 then Some 1
      else i64_div (pres_total r + pres_limit r - 1) (pres_limit r))"

definition paginated_result_has_next :: "'a paginated_result \<Rightarrow> bool" where
  "paginated_result_has_next r \<longleftrightarrow> sint (pres_offset r + pres_limit r) < sint (pres_total r)"

definition paginated_result_has_prev :: "'a paginated_result \<Rightarrow> bool" where
  "paginated_result_has_prev r \<longleftrightarrow> 0 < sint (pres_offset r)"

subsection \<open>Following the links\<close>

text \<open>
  What a client does with a link: \<open>link_params\<close> reads the offset and the page size out of its address, and
  \<open>walk_pages\<close> answers a request with the slice of all elements that the parameters ask for and
  then follows \<open>nextByOffset\<close> while there is one.  Its result is the list of the pages when the links
  end within \<open>n\<close> requests, and \<open>None\<close> when they do not or one of them cannot be read.
\<close>

definition link_params :: "string \<Rightarrow> link_object \<Rightarrow> (i64 \<times> i64) option" where
  "link_params base_url l =
     (if starts_with (lo_href l) (base_url @ ''?offset='')
      then (case split_once CHR ''&'' (drop (length base_url + 8) (lo_href l)) of
          None \<Rightarrow> None
        | Some (off, rest) \<Rightarrow>
            (if starts_with rest ''pageSize=''
             then (case (parse_i64 off, parse_i64 (drop 9 rest)) of
                     (Some o1, Some s1) \<Rightarrow> Some (o1, s1) | _ \<Rightarrow> None)
             else None))
      else None)"



lemma no_amp_show_int: "CHR ''&'' \<notin> set (show_int i)"
  using show_nat_chars [of "nat i"] show_nat_chars [of "nat (- i)"]
  by (auto simp: show_int_def is_digit_def)

lemma link_params_page_link [simp]: "link_params base_url (page_link base_url sz off) = Some (off, sz)"
  using starts_with_append [of "base_url @ ''?offset=''" "show_i64 off @ ''&pageSize='' @ show_i64 sz"]
  by (simp add: link_params_def page_link_def page_href_def split_once_append no_amp_show_int del: starts_with_append)


lemma pr_elements_response [simp]:
  "pr_elements (paginated_response_new items n p base_url ty) = items"
  by (simp add: paginated_response_new_def Let_def)








subsection \<open>Pages of a repository result\<close>

lemma sdiv_nonneg: "0 \<le> a \<Longrightarrow> 0 < b \<Longrightarrow> (a :: int) sdiv b = a div b"
  by (cases "a = 0") (simp_all add: signed_divide_int_def sgn_if)

lemma div_lt: "0 \<le> a \<Longrightarrow> 0 < b \<Longrightarrow> a < 2 ^ 63 \<Longrightarrow> (a :: int) div b < 2 ^ 63"
  using div_by_1 zdiv_mono2 [of a 1 b] by simp

lemma i64_div_nonneg:
  assumes "0 \<le> sint a" "0 < sint b"
  shows "\<exists>q. i64_div a b = Some q \<and> sint q = sint a div sint b"
proof -
  have "sint a div sint b < 2 ^ 63" "0 \<le> sint a div sint b"
    using assms sint_range_i64 [of a] div_lt [of "sint a" "sint b"]
    by (simp_all add: pos_imp_zdiv_nonneg_iff)
  then show ?thesis
    using assms by (simp add: i64_div_def sdiv_nonneg sint_word_of_int_i64)
qed

lemma page_offset:
  assumes "1 \<le> sint p" "1 \<le> sint n" "sint p * sint n < 2 ^ 63"
  shows "sint (pg_offset (pagination_page p n)) = (sint p - 1) * sint n"
proof -
  have s: "sint (p - 1) = sint p - 1"
    using assms sint_range_i64 [of p] by (subst sint_sub_i64) auto
  have "(sint p - 1) * sint n < 2 ^ 63" "0 \<le> (sint p - 1) * sint n"
    using assms by (auto simp: left_diff_distrib)
  with s show ?thesis by (simp add: pagination_page_def sint_mult_i64)
qed

lemma page_result:
  assumes "1 \<le> sint p" "1 \<le> sint n" "sint p * sint n < 2 ^ 63"
  shows "paginated_result_page (paginated_result_new items t (pagination_page p n)) = Some p"
proof -
  have lim: "pg_limit (pagination_page p n) = n" and nz: "n \<noteq> 0"
    using assms by (auto simp: pagination_page_def)
  obtain q where q: "i64_div (pg_offset (pagination_page p n)) n = Some q"
      "sint q = sint (pg_offset (pagination_page p n)) div sint n"
    using i64_div_nonneg [of "pg_offset (pagination_page p n)" n] assms page_offset [OF assms] by auto
  then have "sint q = sint p - 1" using assms page_offset [OF assms] by simp
  then have "sint (q + 1) = sint p"
    using assms sint_range_i64 [of p] by (subst sint_add_i64) auto
  then have "q + 1 = p" by (simp add: i64_eq_iff_sint)
  with q nz lim show ?thesis by (simp add: paginated_result_page_def paginated_result_new_def)
qed

lemma total_pages_result:
  assumes "1 \<le> sint n" "0 \<le> sint t" "sint t + sint n < 2 ^ 63" and lim: "pres_limit r = n"
    and tot: "pres_total r = t"
  shows "\<exists>q. paginated_result_total_pages r = Some q \<and> sint q = (sint t + sint n - 1) div sint n"
proof -
  have "sint (t + n) = sint t + sint n" using assms by (subst sint_add_i64) auto
  then have "sint (t + n - 1) = sint t + sint n - 1" using assms by (subst sint_sub_i64) auto
  with i64_div_nonneg [of "t + n - 1" n] assms show ?thesis
    by (auto simp: paginated_result_total_pages_def)
qed

lemma ceil_gt: "0 < (n :: int) \<Longrightarrow> p < (t + n - 1) div n \<longleftrightarrow> p * n < t"
proof -
  assume n: "0 < n"
  have "p + 1 \<le> x div n \<longleftrightarrow> (p + 1) * n \<le> x" for x
  proof
    assume "p + 1 \<le> x div n"
    then have "(p + 1) * n \<le> x div n * n" using n by (intro mult_right_mono) auto
    also have "\<dots> \<le> x" using n pos_mod_sign [of n x] div_mult_mod_eq [of x n] by linarith
    finally show "(p + 1) * n \<le> x" .
  next
    assume "(p + 1) * n \<le> x"
    then show "p + 1 \<le> x div n" using n zdiv_mono1 [of "(p + 1) * n" x n] by simp
  qed
  then have "p < (t + n - 1) div n \<longleftrightarrow> (p + 1) * n \<le> t + n - 1"
    by (metis zless_imp_add1_zle add1_zle_eq)
  also have "\<dots> \<longleftrightarrow> p * n < t" by (auto simp: algebra_simps)
  finally show ?thesis .
qed

text \<open>
  The result of page \<open>p\<close> with \<open>n\<close> rows a page reports \<open>p\<close> as its page; its page count is the
  rounded-up quotient; and there is a next page exactly when \<open>p\<close> is below the page count.
\<close>

theorem paginated_result_pages_consistent:
  assumes "1 \<le> sint p" "1 \<le> sint n" "sint p * sint n < 2 ^ 63" "0 \<le> sint t"
    "sint t + sint n < 2 ^ 63" and r: "r = paginated_result_new items t (pagination_page p n)"
  shows "\<exists>q. paginated_result_page r = Some p \<and> paginated_result_total_pages r = Some q \<and>
    sint q = (sint t + sint n - 1) div sint n \<and>
    (paginated_result_has_next r \<longleftrightarrow> sint p < sint q)"
proof -
  have lim: "pres_limit r = n" "pres_total r = t" "pres_offset r = pg_offset (pagination_page p n)"
    by (simp_all add: r paginated_result_new_def pagination_page_def)
  obtain q where q: "paginated_result_total_pages r = Some q"
      "sint q = (sint t + sint n - 1) div sint n"
    using total_pages_result [OF assms(2,4,5) lim(1,2)] by blast
  have "- 9223372036854775808 \<le> sint p * sint n"
    using mult_nonneg_nonneg [of "sint p" "sint n"] assms(1,2) by linarith
  then have "sint (pres_offset r + pres_limit r) = sint p * sint n"
    using assms(1-3) lim page_offset [OF assms(1-3)]
    by (subst sint_add_i64) (auto simp: left_diff_distrib)
  then have "paginated_result_has_next r \<longleftrightarrow> sint p < sint q"
    using q lim ceil_gt [of "sint n" "sint p" "sint t"] assms(2) by (simp add: paginated_result_has_next_def)
  with q show ?thesis using page_result [OF assms(1-3)] r by blast
qed

theorem paginated_result_pages_consistent_witness:
  "\<exists>q. paginated_result_page (paginated_result_new [()] 45 (pagination_page 2 20)) = Some 2 \<and>
    paginated_result_total_pages (paginated_result_new [()] 45 (pagination_page 2 20)) = Some q \<and>
    sint q = (sint (45 :: i64) + sint (20 :: i64) - 1) div sint (20 :: i64) \<and>
    (paginated_result_has_next (paginated_result_new [()] 45 (pagination_page 2 20)) \<longleftrightarrow>
      sint (2 :: i64) < sint q)"
  by (rule paginated_result_pages_consistent [OF _ _ _ _ _ refl]) simp_all

subsection \<open>Sort parameters\<close>

definition print_sort_param :: "sort_param \<Rightarrow> string" where
  "print_sort_param p = sp_field p @
     (case sp_direction p of CoreAsc \<Rightarrow> '':asc'' | CoreDesc \<Rightarrow> '':desc'')"

lemma trim_printed: 
  assumes "trim_start (sp_field p) = sp_field p"
  shows "trim (print_sort_param p) = print_sort_param p"
proof -
  obtain r where r: "print_sort_param p = sp_field p @ CHR '':'' # r"
      and c: "r = ''asc'' \<or> r = ''desc''"
    by (cases "sp_direction p") (auto simp: print_sort_param_def)
  have "CHR '':'' \<notin> set w \<and> \<not> starts_with (sp_field p) w" if "w \<in> set ws_seqs" "w \<noteq> []" for w
    using that strip_any_fixed [of ws_seqs "sp_field p" w] assms
    by (auto simp: trim_start_def) (auto simp: ws_seqs_def)
  then have "trim_start (print_sort_param p) = print_sort_param p"
    unfolding trim_start_def r by (intro strip_any_id) (auto dest: starts_with_append_fresh)
  moreover have "strip_any (map rev ws_seqs) (rev (print_sort_param p)) = rev (print_sort_param p)"
    using c r by (intro strip_any_id) (auto simp: ws_seqs_def)
  ultimately show ?thesis by (simp add: trim_def)
qed

lemma sort_param_of_printed:
  "trim_start (sp_field p) = sp_field p \<Longrightarrow> sort_param_of_part (print_sort_param p) = Some p"
  by (cases p; cases "sp_direction p")
     (simp_all add: sort_param_of_part_def trim_printed,
      simp_all add: print_sort_param_def strip_suffix_def)

text \<open>
  Sort parameters survive printing and parsing: fields without a comma and without white
  space in front, written \<open>field:asc\<close> or \<open>field:desc\<close> and joined by commas, are read back.
\<close>

theorem sort_param_parse_print:
  assumes "ps \<noteq> []"
    and "\<forall>p\<in>set ps. CHR '','' \<notin> set (sp_field p) \<and> trim_start (sp_field p) = sp_field p"
  shows "sort_param_parse (join '','' (map print_sort_param ps)) = ps"
proof -
  have "split_char CHR '','' (join '','' (map print_sort_param ps)) = map print_sort_param ps"
    using assms by (intro split_char_join) (auto simp: print_sort_param_def split: core_sort_direction.split)
  moreover have "List.map_filter sort_param_of_part (map print_sort_param ps) = ps"
    using assms(2) by (induction ps) (simp_all add: sort_param_of_printed map_filter_simps)
  ultimately show ?thesis by (simp add: sort_param_parse_def)
qed

theorem sort_param_parse_print_witness:
  "sort_param_parse (join '','' (map print_sort_param
     [\<lparr>sp_field = ''name'', sp_direction = CoreDesc\<rparr>, \<lparr>sp_field = ''id'', sp_direction = CoreAsc\<rparr>])) =
   [\<lparr>sp_field = ''name'', sp_direction = CoreDesc\<rparr>, \<lparr>sp_field = ''id'', sp_direction = CoreAsc\<rparr>]"
  by (rule sort_param_parse_print)
     (simp_all add: trim_start_def strip_any_id ws_seqs_def)

end
