(* ===== verification/Filters.thy ===== *)
theory Filters
  imports Prelude
begin

section \<open>Query filters (\<open>crates/op-queries/src/filters.rs\<close>)\<close>

text \<open>
  Operators with their textual form, filter values, filters and the filter set.  The textual
  form of an operator parses back to it (\<open>filter_operator_roundtrip\<close>), for the day-count
  operators at every 32-bit count; the one exception is \<open>CurrentUser\<close>, printed as \<open>Equals\<close> is.
\<close>

datatype filter_operator =
    Equals | NotEquals | Contains | NotContains | StartsWith | EndsWith
  | GreaterThan | GreaterThanOrEqual | LessThan | LessThanOrEqual | Between
  | IsNull | IsNotNull | Today | ThisWeek
  | DaysAgo i32 | DaysFromNow i32 | LessThanDaysAgo i32 | MoreThanDaysAgo i32
  | LessThanDaysFromNow i32 | MoreThanDaysFromNow i32
  | CurrentUser

definition filter_operator_from_str :: "string \<Rightarrow> filter_operator option" where
  "filter_operator_from_str s =
     (if s = ''='' then Some Equals
      else if s = ''!'' then Some NotEquals
      else if s = ''~'' then Some Contains
      else if s = ''!~'' then Some NotContains
      else if s = ''**'' then Some StartsWith
      else if s = ''*~'' then Some EndsWith
      else if s = ''>'' then Some GreaterThan
      else if s = ''>='' then Some GreaterThanOrEqual
      else if s = ''<'' then Some LessThan
      else if s = ''<='' then Some LessThanOrEqual
      else if s = ''<>d'' then Some Between
      else if s = ''*'' \<or> s = ''o'' then Some IsNull
      else if s = ''!*'' \<or> s = ''c'' then Some IsNotNull
      else if s = ''t'' then Some Today
      else if s = ''w'' then Some ThisWeek
      else if starts_with s ''t-'' then map_option DaysAgo (parse_i32 (drop 2 s))
      else if starts_with s ''t+'' then map_option DaysFromNow (parse_i32 (drop 2 s))
      else if starts_with s ''<t-'' then map_option LessThanDaysAgo (parse_i32 (drop 3 s))
      else if starts_with s ''>t-'' then map_option MoreThanDaysAgo (parse_i32 (drop 3 s))
      else if starts_with s ''<t+'' then map_option LessThanDaysFromNow (parse_i32 (drop 3 s))
      else if starts_with s ''>t+'' then map_option MoreThanDaysFromNow (parse_i32 (drop 3 s))
      else None)"

fun filter_operator_to_string :: "filter_operator \<Rightarrow> string" where
  "filter_operator_to_string Equals = ''=''"
| "filter_operator_to_string NotEquals = ''!''"
| "filter_operator_to_string Contains = ''~''"
| "filter_operator_to_string NotContains = ''!~''"
| "filter_operator_to_string StartsWith = ''**''"
| "filter_operator_to_string EndsWith = ''*~''"
| "filter_operator_to_string GreaterThan = ''>''"
| "filter_operator_to_string GreaterThanOrEqual = ''>=''"
| "filter_operator_to_string LessThan = ''<''"
| "filter_operator_to_string LessThanOrEqual = ''<=''"
| "filter_operator_to_string Between = ''<>d''"
| "filter_operator_to_string IsNull = ''*''"
| "filter_operator_to_string IsNotNull = ''!*''"
| "filter_operator_to_string Today = ''t''"
| "filter_operator_to_string ThisWeek = ''w''"
| "filter_operator_to_string (DaysAgo n) = ''t-'' @ show_i32 n"
| "filter_operator_to_string (DaysFromNow n) = ''t+'' @ show_i32 n"
| "filter_operator_to_string (LessThanDaysAgo n) = ''<t-'' @ show_i32 n"
| "filter_operator_to_string (MoreThanDaysAgo n) = ''>t-'' @ show_i32 n"
| "filter_operator_to_string (LessThanDaysFromNow n) = ''<t+'' @ show_i32 n"
| "filter_operator_to_string (MoreThanDaysFromNow n) = ''>t+'' @ show_i32 n"
| "filter_operator_to_string CurrentUser = ''=''"

fun filter_operator_requires_values :: "filter_operator \<Rightarrow> bool" where
  "filter_operator_requires_values IsNull = False"
| "filter_operator_requires_values IsNotNull = False"
| "filter_operator_requires_values Today = False"
| "filter_operator_requires_values ThisWeek = False"
| "filter_operator_requires_values CurrentUser = False"
| "filter_operator_requires_values _ = True"

lemma filter_operator_from_to:
  "filter_operator_from_str (filter_operator_to_string op) =
     Some (if op = CurrentUser then Equals else op)"
  by (cases op) (simp_all add: filter_operator_from_str_def)

subsection \<open>Values and filters\<close>

datatype filter_value =
    FvId Id
  | FvIds "Id list"
  | FvString string
  | FvStrings "string list"
  | FvBool bool
  | FvDate string
  | FvDateRange (fv_from: string) (fv_to: string)
  | FvNumber f64
  | FvMe
  | FvNone

fun filter_value_from_ids :: "Id list \<Rightarrow> filter_value" where
  "filter_value_from_ids [i] = FvId i"
| "filter_value_from_ids ids = FvIds ids"

fun filter_value_from_strings :: "string list \<Rightarrow> filter_value" where
  "filter_value_from_strings [s] = FvString s"
| "filter_value_from_strings ss = FvStrings ss"

fun filter_value_as_ids :: "filter_value \<Rightarrow> Id list" where
  "filter_value_as_ids (FvId i) = [i]"
| "filter_value_as_ids (FvIds ids) = ids"
| "filter_value_as_ids _ = []"

fun filter_value_as_strings :: "filter_value \<Rightarrow> string list" where
  "filter_value_as_strings (FvString s) = [s]"
| "filter_value_as_strings (FvStrings ss) = ss"
| "filter_value_as_strings (FvId i) = [show_i64 i]"
| "filter_value_as_strings (FvIds ids) = map show_i64 ids"
| "filter_value_as_strings _ = []"

lemma as_ids_from_ids [simp]: "filter_value_as_ids (filter_value_from_ids ids) = ids"
  by (cases ids rule: filter_value_from_ids.cases) simp_all

lemma as_strings_from_strings [simp]: "filter_value_as_strings (filter_value_from_strings ss) = ss"
  by (cases ss rule: filter_value_from_strings.cases) simp_all

record filter_rec =
  flt_attribute :: string
  flt_operator :: filter_operator
  flt_values :: filter_value

definition filter_new :: "string \<Rightarrow> filter_operator \<Rightarrow> filter_value \<Rightarrow> filter_rec" where
  "filter_new attribute operator values =
     \<lparr>flt_attribute = attribute, flt_operator = operator, flt_values = values\<rparr>"

definition filter_equals :: "string \<Rightarrow> filter_value \<Rightarrow> filter_rec" where
  "filter_equals attribute values = filter_new attribute Equals values"

definition filter_not_equals :: "string \<Rightarrow> filter_value \<Rightarrow> filter_rec" where
  "filter_not_equals attribute values = filter_new attribute NotEquals values"

definition filter_contains :: "string \<Rightarrow> string \<Rightarrow> filter_rec" where
  "filter_contains attribute v = filter_new attribute Contains (FvString v)"

definition filter_is_null :: "string \<Rightarrow> filter_rec" where
  "filter_is_null attribute = filter_new attribute IsNull FvNone"

definition filter_is_not_null :: "string \<Rightarrow> filter_rec" where
  "filter_is_not_null attribute = filter_new attribute IsNotNull FvNone"

definition filter_is_valid :: "filter_rec \<Rightarrow> bool" where
  "filter_is_valid f =
     (if flt_attribute f = [] then False
      else if filter_operator_requires_values (flt_operator f) then flt_values f \<noteq> FvNone
      else True)"

subsection \<open>Filter sets\<close>

text \<open>\<open>FilterSet\<close> is its vector of filters, in the order they were added.\<close>

type_synonym filter_set = "filter_rec list"

definition filter_set_new :: filter_set where
  "filter_set_new = []"

definition filter_set_add :: "filter_rec \<Rightarrow> filter_set \<Rightarrow> filter_set" where
  "filter_set_add f fs = fs @ [f]"

definition filter_set_filters_for :: "string \<Rightarrow> filter_set \<Rightarrow> filter_rec list" where
  "filter_set_filters_for attribute fs = filter (\<lambda>f. flt_attribute f = attribute) fs"

definition filter_set_has_filter_for :: "string \<Rightarrow> filter_set \<Rightarrow> bool" where
  "filter_set_has_filter_for attribute fs = list_ex (\<lambda>f. flt_attribute f = attribute) fs"

definition filter_set_remove_filters_for :: "string \<Rightarrow> filter_set \<Rightarrow> filter_set" where
  "filter_set_remove_filters_for attribute fs = filter (\<lambda>f. flt_attribute f \<noteq> attribute) fs"

definition filter_set_filtered_attributes :: "filter_set \<Rightarrow> string set" where
  "filter_set_filtered_attributes fs = set (map flt_attribute fs)"

definition filter_set_is_valid :: "filter_set \<Rightarrow> bool" where
  "filter_set_is_valid fs = list_all filter_is_valid fs"

lemmas filter_set_defs =
  filter_set_new_def filter_set_add_def filter_set_filters_for_def filter_set_has_filter_for_def
  filter_set_remove_filters_for_def filter_set_filtered_attributes_def filter_set_is_valid_def

lemma filter_set_has_iff:
  "filter_set_has_filter_for a fs \<longleftrightarrow> filter_set_filters_for a fs \<noteq> []"
  by (auto simp: filter_set_defs list_ex_iff filter_empty_conv)

lemma filter_set_remove:
  "filter_set_filtered_attributes (filter_set_remove_filters_for a fs) =
     filter_set_filtered_attributes fs - {a}"
  "b \<noteq> a \<Longrightarrow> filter_set_filters_for b (filter_set_remove_filters_for a fs) = filter_set_filters_for b fs"
  "\<not> filter_set_has_filter_for a (filter_set_remove_filters_for a fs)"
  by (auto simp: filter_set_defs list_ex_iff intro!: filter_cong)

text \<open>
  Printing a filter operator and parsing the text gives the operator back, including the
  day-count operators at every (possibly negative) 32-bit count.  The single operator that does
  not come back is \<open>CurrentUser\<close>, whose text is that of \<open>Equals\<close>.
\<close>

theorem filter_operator_roundtrip:
  "filter_operator_from_str (filter_operator_to_string op) = Some op \<longleftrightarrow> op \<noteq> CurrentUser"
  by (auto simp: filter_operator_from_to)

end
