(* ===== verification/Sorts.thy ===== *)
theory Sorts
  imports Prelude
begin

section \<open>Sort orders (\<open>crates/op-queries/src/sorts.rs\<close>)\<close>

text \<open>Sort directions, criteria, and the ordered collection of criteria of a query.\<close>

datatype sort_direction = Asc | Desc

definition sort_direction_from_str :: "string \<Rightarrow> sort_direction option" where
  "sort_direction_from_str s =
     (let l = to_lowercase s in
      if l = ''asc'' \<or> l = ''ascending'' then Some Asc
      else if l = ''desc'' \<or> l = ''descending'' then Some Desc
      else None)"

fun sort_direction_as_str :: "sort_direction \<Rightarrow> string" where
  "sort_direction_as_str Asc = ''asc''"
| "sort_direction_as_str Desc = ''desc''"

fun sort_direction_reverse :: "sort_direction \<Rightarrow> sort_direction" where
  "sort_direction_reverse Asc = Desc"
| "sort_direction_reverse Desc = Asc"

lemma sort_direction_reverse_reverse [simp]:
  "sort_direction_reverse (sort_direction_reverse d) = d"
  by (cases d) simp_all

lemma sort_direction_from_as: "sort_direction_from_str (sort_direction_as_str d) = Some d"
  by (cases d; simp add: sort_direction_from_str_def ascii_lower_def Let_def)

record sort_criterion =
  sc_attribute :: string
  sc_direction :: sort_direction

definition sort_criterion_new :: "string \<Rightarrow> sort_direction \<Rightarrow> sort_criterion" where
  "sort_criterion_new attribute direction = \<lparr>sc_attribute = attribute, sc_direction = direction\<rparr>"

definition sort_criterion_asc :: "string \<Rightarrow> sort_criterion" where
  "sort_criterion_asc attribute = sort_criterion_new attribute Asc"

definition sort_criterion_desc :: "string \<Rightarrow> sort_criterion" where
  "sort_criterion_desc attribute = sort_criterion_new attribute Desc"

definition sort_criterion_reversed :: "sort_criterion \<Rightarrow> sort_criterion" where
  "sort_criterion_reversed c = c\<lparr>sc_direction := sort_direction_reverse (sc_direction c)\<rparr>"

text \<open>\<open>SortOrder\<close> is its vector of criteria, the primary one first.\<close>

type_synonym sort_order = "sort_criterion list"

definition sort_order_new :: sort_order where
  "sort_order_new = []"

definition sort_order_by :: "string \<Rightarrow> sort_direction \<Rightarrow> sort_order" where
  "sort_order_by attribute direction = [sort_criterion_new attribute direction]"

definition sort_order_by_asc :: "string \<Rightarrow> sort_order" where
  "sort_order_by_asc attribute = sort_order_by attribute Asc"

definition sort_order_by_desc :: "string \<Rightarrow> sort_order" where
  "sort_order_by_desc attribute = sort_order_by attribute Desc"

definition sort_order_add :: "sort_criterion \<Rightarrow> sort_order \<Rightarrow> sort_order" where
  "sort_order_add c so = so @ [c]"

definition sort_order_primary :: "sort_order \<Rightarrow> sort_criterion option" where
  "sort_order_primary so = (case so of [] \<Rightarrow> None | c # _ \<Rightarrow> Some c)"

definition sort_order_sorts_by :: "string \<Rightarrow> sort_order \<Rightarrow> bool" where
  "sort_order_sorts_by attribute so = list_ex (\<lambda>c. sc_attribute c = attribute) so"

definition sort_order_remove_sort_for :: "string \<Rightarrow> sort_order \<Rightarrow> sort_order" where
  "sort_order_remove_sort_for attribute so = filter (\<lambda>c. sc_attribute c \<noteq> attribute) so"

definition default_work_package_sort :: sort_order where
  "default_work_package_sort = sort_order_by_desc ''id''"

lemmas sort_order_defs =
  sort_order_new_def sort_order_by_def sort_order_by_asc_def sort_order_by_desc_def
  sort_order_add_def sort_order_primary_def sort_order_sorts_by_def
  sort_order_remove_sort_for_def sort_criterion_new_def sort_criterion_asc_def
  sort_criterion_desc_def

lemma sort_criterion_reversed_twice [simp]:
  "sort_criterion_reversed (sort_criterion_reversed c) = c"
  by (simp add: sort_criterion_reversed_def)

lemma sort_order_remove_gone: "\<not> sort_order_sorts_by a (sort_order_remove_sort_for a so)"
  by (simp add: sort_order_defs list_ex_iff)

lemma sort_order_primary_add:
  "sort_order_primary (sort_order_add c so) =
     (case sort_order_primary so of None \<Rightarrow> Some c | Some p \<Rightarrow> Some p)"
  by (simp add: sort_order_defs split: list.split)

end
