(* ===== verification/Columns.thy ===== *)
theory Columns
  imports Prelude "HOL-Library.Multiset"
begin

section \<open>Query columns (\<open>crates/op-queries/src/columns.rs\<close>)\<close>

text \<open>
  Columns, the standard work package columns, and the column set with its reordering.
  \<open>column_set_reorder\<close> never loses or duplicates a column, and with distinct names it puts the
  requested columns first, in the requested order, and keeps the others in theirs.
\<close>

datatype column_type = PropertyColumn | RelationColumn | CustomFieldColumn | ComputedColumn

record column =
  col_name :: string
  col_column_type :: column_type
  col_caption :: "string option"
  col_sortable :: bool
  col_groupable :: bool
  col_custom_field_id :: "i64 option"

definition column_property :: "string \<Rightarrow> column" where
  "column_property name = \<lparr>col_name = name, col_column_type = PropertyColumn, col_caption = None,
     col_sortable = True, col_groupable = False, col_custom_field_id = None\<rparr>"

definition column_relation :: "string \<Rightarrow> column" where
  "column_relation name = \<lparr>col_name = name, col_column_type = RelationColumn, col_caption = None,
     col_sortable = False, col_groupable = False, col_custom_field_id = None\<rparr>"

definition column_custom_field :: "i64 \<Rightarrow> column" where
  "column_custom_field cf_id = \<lparr>col_name = ''cf_'' @ show_i64 cf_id,
     col_column_type = CustomFieldColumn, col_caption = None,
     col_sortable = True, col_groupable = True, col_custom_field_id = Some cf_id\<rparr>"

definition column_computed :: "string \<Rightarrow> column" where
  "column_computed name = \<lparr>col_name = name, col_column_type = ComputedColumn, col_caption = None,
     col_sortable = False, col_groupable = False, col_custom_field_id = None\<rparr>"

definition column_with_caption :: "string \<Rightarrow> column \<Rightarrow> column" where
  "column_with_caption caption c = c\<lparr>col_caption := Some caption\<rparr>"

definition column_with_sortable :: "bool \<Rightarrow> column \<Rightarrow> column" where
  "column_with_sortable sortable c = c\<lparr>col_sortable := sortable\<rparr>"

definition column_with_groupable :: "bool \<Rightarrow> column \<Rightarrow> column" where
  "column_with_groupable groupable c = c\<lparr>col_groupable := groupable\<rparr>"

definition column_is_custom_field :: "column \<Rightarrow> bool" where
  "column_is_custom_field c \<longleftrightarrow> col_column_type c = CustomFieldColumn"

definition column_display_caption :: "column \<Rightarrow> string" where
  "column_display_caption c = (case col_caption c of Some t \<Rightarrow> t | None \<Rightarrow> col_name c)"

subsection \<open>Standard work package columns\<close>

definition standard_id :: column where
  "standard_id =
     column_with_sortable True (column_with_caption ''ID'' (column_property ''id''))"

definition standard_subject :: column where
  "standard_subject =
     column_with_sortable True (column_with_caption ''Subject'' (column_property ''subject''))"

definition standard_status :: column where
  "standard_status =
     column_with_groupable True
     (column_with_sortable True (column_with_caption ''Status'' (column_property ''status'')))"

definition standard_type_column :: column where
  "standard_type_column =
     column_with_groupable True
     (column_with_sortable True (column_with_caption ''Type'' (column_property ''type'')))"

definition standard_priority :: column where
  "standard_priority =
     column_with_groupable True
     (column_with_sortable True (column_with_caption ''Priority'' (column_property ''priority'')))"

definition standard_assigned_to :: column where
  "standard_assigned_to =
     column_with_groupable True
     (column_with_sortable True (column_with_caption ''Assignee'' (column_property ''assigned_to'')))"

definition standard_author :: column where
  "standard_author =
     column_with_groupable True
     (column_with_sortable True (column_with_caption ''Author'' (column_property ''author'')))"

definition standard_project :: column where
  "standard_project =
     column_with_groupable True
     (column_with_sortable True (column_with_caption ''Project'' (column_property ''project'')))"

definition standard_start_date :: column where
  "standard_start_date =
     column_with_sortable True (column_with_caption ''Start date'' (column_property ''start_date''))"

definition standard_due_date :: column where
  "standard_due_date =
     column_with_sortable True (column_with_caption ''Finish date'' (column_property ''due_date''))"

definition standard_estimated_hours :: column where
  "standard_estimated_hours =
     column_with_sortable True (column_with_caption ''Estimated time'' (column_property ''estimated_hours''))"

definition standard_spent_hours :: column where
  "standard_spent_hours =
     column_with_sortable True (column_with_caption ''Spent time'' (column_computed ''spent_hours''))"

definition standard_remaining_hours :: column where
  "standard_remaining_hours =
     column_with_sortable True (column_with_caption ''Remaining time'' (column_computed ''remaining_hours''))"

definition standard_done_ratio :: column where
  "standard_done_ratio =
     column_with_sortable True (column_with_caption ''% Done'' (column_property ''done_ratio''))"

definition standard_created_at :: column where
  "standard_created_at =
     column_with_sortable True (column_with_caption ''Created on'' (column_property ''created_at''))"

definition standard_updated_at :: column where
  "standard_updated_at =
     column_with_sortable True (column_with_caption ''Updated on'' (column_property ''updated_at''))"

definition standard_version :: column where
  "standard_version =
     column_with_groupable True
     (column_with_sortable True (column_with_caption ''Version'' (column_property ''version'')))"

definition standard_category :: column where
  "standard_category =
     column_with_groupable True
     (column_with_sortable True (column_with_caption ''Category'' (column_property ''category'')))"

definition standard_parent :: column where
  "standard_parent =
     column_with_sortable True (column_with_caption ''Parent'' (column_relation ''parent''))"

definition standard_responsible :: column where
  "standard_responsible =
     column_with_groupable True
     (column_with_sortable True (column_with_caption ''Accountable'' (column_property ''responsible'')))"

subsection \<open>Column sets\<close>

lemmas column_defs =
  column_property_def column_relation_def column_custom_field_def column_computed_def
  column_with_caption_def column_with_sortable_def column_with_groupable_def

lemmas standard_defs =
  standard_id_def standard_subject_def standard_status_def standard_type_column_def
  standard_priority_def standard_assigned_to_def standard_author_def standard_project_def
  standard_start_date_def standard_due_date_def standard_estimated_hours_def
  standard_spent_hours_def standard_remaining_hours_def standard_done_ratio_def
  standard_created_at_def standard_updated_at_def standard_version_def standard_category_def
  standard_parent_def standard_responsible_def

type_synonym column_set = "column list"

definition column_set_new :: column_set where
  "column_set_new = []"

definition column_set_default_work_package :: column_set where
  "column_set_default_work_package =
     [standard_id, standard_subject, standard_type_column, standard_status, standard_assigned_to,
      standard_priority]"

definition column_set_add :: "column \<Rightarrow> column_set \<Rightarrow> column_set" where
  "column_set_add c cs = cs @ [c]"

definition column_set_with_name :: "string \<Rightarrow> column_set \<Rightarrow> column_set" where
  "column_set_with_name name cs = cs @ [column_property name]"

definition column_set_has_column :: "string \<Rightarrow> column_set \<Rightarrow> bool" where
  "column_set_has_column name cs = list_ex (\<lambda>c. col_name c = name) cs"

definition column_set_remove :: "string \<Rightarrow> column_set \<Rightarrow> column_set" where
  "column_set_remove name cs = filter (\<lambda>c. col_name c \<noteq> name) cs"

definition column_set_names :: "column_set \<Rightarrow> string list" where
  "column_set_names cs = map col_name cs"

definition column_set_sortable_columns :: "column_set \<Rightarrow> column list" where
  "column_set_sortable_columns cs = filter col_sortable cs"

definition column_set_groupable_columns :: "column_set \<Rightarrow> column list" where
  "column_set_groupable_columns cs = filter col_groupable cs"

text \<open>
  \<open>reorder\<close>: for each name, the first column of that name is removed from the set and pushed
  onto the result; what remains of the set is appended at the end.
\<close>

fun take_first :: "('a \<Rightarrow> bool) \<Rightarrow> 'a list \<Rightarrow> ('a \<times> 'a list) option" where
  "take_first P [] = None"
| "take_first P (x # xs) =
     (if P x then Some (x, xs)
      else (case take_first P xs of None \<Rightarrow> None | Some (y, ys) \<Rightarrow> Some (y, x # ys)))"

fun column_set_reorder :: "string list \<Rightarrow> column_set \<Rightarrow> column_set" where
  "column_set_reorder [] cs = cs"
| "column_set_reorder (n # ns) cs =
     (case take_first (\<lambda>c. col_name c = n) cs of
        Some (c, rest) \<Rightarrow> c # column_set_reorder ns rest
      | None \<Rightarrow> column_set_reorder ns cs)"

lemma take_first_None: "take_first P xs = None \<longleftrightarrow> (\<forall>x\<in>set xs. \<not> P x)"
  by (induction xs) (auto split: option.splits)

lemma take_first_Some:
  "take_first P xs = Some (y, ys) \<Longrightarrow>
   \<exists>us vs. xs = us @ y # vs \<and> ys = us @ vs \<and> P y \<and> (\<forall>u\<in>set us. \<not> P u)"
proof (induction xs arbitrary: y ys)
  case Nil
  then show ?case by simp
next
  case (Cons x xs)
  show ?case
  proof (cases "P x")
    case True
    with Cons.prems show ?thesis by (intro exI [of _ "[]"] exI [of _ xs]) auto
  next
    case False
    with Cons.prems obtain zs where zs: "take_first P xs = Some (y, zs)" "ys = x # zs"
      by (auto split: option.splits)
    from Cons.IH [OF zs(1)] obtain us vs where
      "xs = us @ y # vs" "zs = us @ vs" "P y" "\<forall>u\<in>set us. \<not> P u" by blast
    with zs False show ?thesis by (intro exI [of _ "x # us"] exI [of _ vs]) auto
  qed
qed

lemma mset_reorder: "mset (column_set_reorder ns cs) = mset cs"
  by (induction ns cs rule: column_set_reorder.induct)
    (auto split: option.split dest!: take_first_Some)

lemma reorder_names:
  "distinct ns \<Longrightarrow> distinct (map col_name cs) \<Longrightarrow>
   map col_name (column_set_reorder ns cs) =
     filter (\<lambda>n. n \<in> set (map col_name cs)) ns @ filter (\<lambda>n. n \<notin> set ns) (map col_name cs)"
proof (induction ns cs rule: column_set_reorder.induct)
  case (1 cs)
  show ?case by simp
next
  case (2 n ns cs)
  show ?case
  proof (cases "take_first (\<lambda>c. col_name c = n) cs")
    case None
    then have "n \<notin> set (map col_name cs)" by (auto simp: take_first_None)
    then have "filter (\<lambda>m. m \<notin> set (n # ns)) (map col_name cs) = filter (\<lambda>m. m \<notin> set ns) (map col_name cs)"
      by (intro filter_cong) auto
    with None "2.IH"(1) "2.prems" \<open>n \<notin> set (map col_name cs)\<close> show ?thesis by simp
  next
    case (Some p)
    obtain c rest where p: "p = (c, rest)" by (cases p)
    from take_first_Some [OF Some [unfolded p]] obtain us vs where
      cs: "cs = us @ c # vs" "rest = us @ vs" "col_name c = n" by blast
    have dr: "distinct (map col_name rest)" and nr: "n \<notin> set (map col_name rest)"
      using "2.prems"(2) cs by auto
    have "filter (\<lambda>m. m \<in> set (map col_name rest)) ns = filter (\<lambda>m. m \<in> set (map col_name cs)) ns"
      using "2.prems"(1) cs by (intro filter_cong) auto
    moreover have "filter (\<lambda>m. m \<notin> set ns) (map col_name rest) =
        filter (\<lambda>m. m \<notin> set (n # ns)) (map col_name cs)"
    proof -
      have "filter (\<lambda>m. m \<notin> set (n # ns)) (map col_name cs) =
          filter (\<lambda>m. m \<notin> set (n # ns)) (map col_name rest)"
        using cs by simp
      also have "\<dots> = filter (\<lambda>m. m \<notin> set ns) (map col_name rest)"
        using nr by (intro filter_cong) auto
      finally show ?thesis by simp
    qed
    ultimately show ?thesis
      using Some p cs "2.IH"(2) [OF Some p [symmetric]] "2.prems"(1) dr by simp
  qed
qed

text \<open>
  Reordering a column set keeps exactly its columns (none lost, none duplicated, whatever
  names are requested), and when the requested names and the column names are distinct the
  result lists the requested columns that exist first, in the requested order, followed by the
  others in their previous order.
\<close>

theorem column_set_reorder_correct:
  "mset (column_set_reorder ns cs) = mset cs \<and>
   (distinct ns \<and> distinct (column_set_names cs) \<longrightarrow>
      column_set_names (column_set_reorder ns cs) =
        filter (\<lambda>n. column_set_has_column n cs) ns @
        filter (\<lambda>n. n \<notin> set ns) (column_set_names cs))"
proof -
  have "(\<lambda>n. column_set_has_column n cs) = (\<lambda>n. n \<in> set (map col_name cs))"
    by (auto simp: column_set_has_column_def list_ex_iff)
  then show ?thesis
    by (simp add: mset_reorder reorder_names column_set_names_def)
qed

theorem column_set_reorder_correct_witness:
  "column_set_names (column_set_reorder [''status'', ''nope'', ''id''] column_set_default_work_package) =
     [''status'', ''id'', ''subject'', ''type'', ''assigned_to'', ''priority'']"
proof -
  have d: "distinct [''status'', ''nope'', ''id''] \<and>
      distinct (column_set_names column_set_default_work_package)" by code_simp
  have "column_set_names (column_set_reorder [''status'', ''nope'', ''id''] column_set_default_work_package) =
      filter (\<lambda>n. column_set_has_column n column_set_default_work_package) [''status'', ''nope'', ''id''] @
      filter (\<lambda>n. n \<notin> set [''status'', ''nope'', ''id'']) (column_set_names column_set_default_work_package)"
    using column_set_reorder_correct [of "[''status'', ''nope'', ''id'']" column_set_default_work_package] d
    by blast
  also have "\<dots> = [''status'', ''id'', ''subject'', ''type'', ''assigned_to'', ''priority'']" by code_simp
  finally show ?thesis .
qed

end
