(* ===== verification/Query.thy ===== *)
theory Query
  imports Filters Sorts Columns
begin

section \<open>Queries and their builder (\<open>crates/op-queries/src/query.rs\<close>, \<open>builder.rs\<close>)\<close>

text \<open>
  The saved query with its setters, the fluent \<open>QueryBuilder\<close> and the preset queries.  A builder
  method is a function from builder to builder; \<open>query_builder_build\<close> turns the builder into the
  query.  The lemmas say what a chain of methods leaves in the query, and that only \<open>build\<close> (not
  the setters of \<open>Query\<close>) ties the timeline to the Gantt display.
\<close>

datatype query_visibility = VisPrivate | VisPublic | VisGlobal

datatype display_representation =
  ListDisplay | BoardDisplay | GanttDisplay | CalendarDisplay | TeamPlannerDisplay

definition display_from_str :: "string \<Rightarrow> display_representation option" where
  "display_from_str s =
     (let l = to_lowercase s in
      if l = ''list'' \<or> l = ''table'' then Some ListDisplay
      else if l = ''board'' \<or> l = ''cards'' then Some BoardDisplay
      else if l = ''gantt'' then Some GanttDisplay
      else if l = ''calendar'' then Some CalendarDisplay
      else if l = ''team_planner'' \<or> l = ''teamplanner'' then Some TeamPlannerDisplay
      else None)"

fun display_as_str :: "display_representation \<Rightarrow> string" where
  "display_as_str ListDisplay = ''list''"
| "display_as_str BoardDisplay = ''board''"
| "display_as_str GanttDisplay = ''gantt''"
| "display_as_str CalendarDisplay = ''calendar''"
| "display_as_str TeamPlannerDisplay = ''team_planner''"

lemma display_from_as [simp]: "display_from_str (display_as_str d) = Some d"
  by (cases d; simp add: display_from_str_def ascii_lower_def Let_def)

datatype timeline_zoom_level = ZoomDays | ZoomWeeks | ZoomMonths | ZoomQuarters | ZoomYears | ZoomAuto

record group_by_rec =
  gb_attribute :: "string option"
  gb_collapsed :: bool

definition group_by_by :: "string \<Rightarrow> group_by_rec" where
  "group_by_by attribute = \<lparr>gb_attribute = Some attribute, gb_collapsed = False\<rparr>"

definition group_by_by_collapsed :: "string \<Rightarrow> group_by_rec" where
  "group_by_by_collapsed attribute = \<lparr>gb_attribute = Some attribute, gb_collapsed = True\<rparr>"

definition group_by_none :: group_by_rec where
  "group_by_none = \<lparr>gb_attribute = None, gb_collapsed = False\<rparr>"

definition group_by_is_grouped :: "group_by_rec \<Rightarrow> bool" where
  "group_by_is_grouped g \<longleftrightarrow> gb_attribute g \<noteq> None"

datatype highlighting_mode = HlNone | HlInline | HlStatus | HlPriority | HlType

record highlighting =
  hl_mode :: highlighting_mode
  hl_highlighted_attributes :: "string list"

definition highlighting_default :: highlighting where
  "highlighting_default = \<lparr>hl_mode = HlNone, hl_highlighted_attributes = []\<rparr>"

subsection \<open>The query\<close>

record query =
  q_id :: "Id option"
  q_name :: string
  q_user_id :: "Id option"
  q_project_id :: "Id option"
  q_visibility :: query_visibility
  q_starred :: bool
  q_display :: display_representation
  q_filters :: filter_set
  q_sorts :: sort_order
  q_columns :: column_set
  q_group_by :: group_by_rec
  q_highlighting :: highlighting
  q_timeline_zoom_level :: timeline_zoom_level
  q_show_timeline :: bool
  q_include_subprojects :: bool
  q_show_hierarchies :: bool
  q_show_sums :: bool

definition query_new :: "string \<Rightarrow> query" where
  "query_new name = \<lparr>q_id = None, q_name = name, q_user_id = None, q_project_id = None,
     q_visibility = VisPrivate, q_starred = False, q_display = ListDisplay,
     q_filters = filter_set_new, q_sorts = default_work_package_sort,
     q_columns = column_set_default_work_package, q_group_by = group_by_none,
     q_highlighting = highlighting_default, q_timeline_zoom_level = ZoomWeeks,
     q_show_timeline = False, q_include_subprojects = True, q_show_hierarchies = True,
     q_show_sums = False\<rparr>"

definition query_for_project :: "string \<Rightarrow> Id \<Rightarrow> query" where
  "query_for_project name project_id = (query_new name)\<lparr>q_project_id := Some project_id\<rparr>"

definition query_with_user :: "Id \<Rightarrow> query \<Rightarrow> query" where
  "query_with_user user_id q = q\<lparr>q_user_id := Some user_id\<rparr>"

definition query_with_visibility :: "query_visibility \<Rightarrow> query \<Rightarrow> query" where
  "query_with_visibility visibility q = q\<lparr>q_visibility := visibility\<rparr>"

definition query_public :: "query \<Rightarrow> query" where
  "query_public q = q\<lparr>q_visibility := VisPublic\<rparr>"

definition query_private :: "query \<Rightarrow> query" where
  "query_private q = q\<lparr>q_visibility := VisPrivate\<rparr>"

definition query_starred :: "query \<Rightarrow> query" where
  "query_starred q = q\<lparr>q_starred := True\<rparr>"

definition query_with_display :: "display_representation \<Rightarrow> query \<Rightarrow> query" where
  "query_with_display display q = q\<lparr>q_display := display\<rparr>"

definition query_board :: "query \<Rightarrow> query" where
  "query_board q = q\<lparr>q_display := BoardDisplay\<rparr>"

definition query_gantt :: "query \<Rightarrow> query" where
  "query_gantt q = q\<lparr>q_display := GanttDisplay, q_show_timeline := True\<rparr>"

definition query_with_filter :: "filter_rec \<Rightarrow> query \<Rightarrow> query" where
  "query_with_filter f q = q\<lparr>q_filters := filter_set_add f (q_filters q)\<rparr>"

definition query_with_filters :: "filter_set \<Rightarrow> query \<Rightarrow> query" where
  "query_with_filters fs q = q\<lparr>q_filters := fs\<rparr>"

definition query_with_sorts :: "sort_order \<Rightarrow> query \<Rightarrow> query" where
  "query_with_sorts so q = q\<lparr>q_sorts := so\<rparr>"

definition query_with_columns :: "column_set \<Rightarrow> query \<Rightarrow> query" where
  "query_with_columns cs q = q\<lparr>q_columns := cs\<rparr>"

definition query_with_group_by :: "group_by_rec \<Rightarrow> query \<Rightarrow> query" where
  "query_with_group_by g q = q\<lparr>q_group_by := g\<rparr>"

definition query_grouped_by :: "string \<Rightarrow> query \<Rightarrow> query" where
  "query_grouped_by attribute q = q\<lparr>q_group_by := group_by_by attribute\<rparr>"

definition query_with_subprojects :: "bool \<Rightarrow> query \<Rightarrow> query" where
  "query_with_subprojects include q = q\<lparr>q_include_subprojects := include\<rparr>"

definition query_with_hierarchies :: "bool \<Rightarrow> query \<Rightarrow> query" where
  "query_with_hierarchies shown q = q\<lparr>q_show_hierarchies := shown\<rparr>"

definition query_with_sums :: "query \<Rightarrow> query" where
  "query_with_sums q = q\<lparr>q_show_sums := True\<rparr>"

definition query_is_saved :: "query \<Rightarrow> bool" where
  "query_is_saved q \<longleftrightarrow> q_id q \<noteq> None"

definition query_is_global :: "query \<Rightarrow> bool" where
  "query_is_global q \<longleftrightarrow> q_project_id q = None"

definition query_is_public :: "query \<Rightarrow> bool" where
  "query_is_public q \<longleftrightarrow> q_visibility q = VisPublic"

definition query_has_filters :: "query \<Rightarrow> bool" where
  "query_has_filters q \<longleftrightarrow> q_filters q \<noteq> []"

definition query_has_custom_sort :: "query \<Rightarrow> bool" where
  "query_has_custom_sort q \<longleftrightarrow> q_sorts q \<noteq> []"

definition query_is_grouped :: "query \<Rightarrow> bool" where
  "query_is_grouped q \<longleftrightarrow> group_by_is_grouped (q_group_by q)"

subsection \<open>The builder\<close>

record query_builder =
  qb_name :: string
  qb_project_id :: "Id option"
  qb_user_id :: "Id option"
  qb_visibility :: query_visibility
  qb_starred :: bool
  qb_display :: display_representation
  qb_filters :: filter_set
  qb_sorts :: sort_order
  qb_columns :: column_set
  qb_group_by :: group_by_rec
  qb_include_subprojects :: bool
  qb_show_hierarchies :: bool
  qb_show_sums :: bool

definition query_builder_new :: query_builder where
  "query_builder_new = \<lparr>qb_name = ''New Query'', qb_project_id = None, qb_user_id = None,
     qb_visibility = VisPrivate, qb_starred = False, qb_display = ListDisplay,
     qb_filters = filter_set_new, qb_sorts = default_work_package_sort,
     qb_columns = column_set_default_work_package, qb_group_by = group_by_none,
     qb_include_subprojects = True, qb_show_hierarchies = True, qb_show_sums = False\<rparr>"

definition query_builder_name :: "string \<Rightarrow> query_builder \<Rightarrow> query_builder" where
  "query_builder_name name b =
     b\<lparr>qb_name := name\<rparr>"

definition query_builder_project :: "Id \<Rightarrow> query_builder \<Rightarrow> query_builder" where
  "query_builder_project project_id b =
     b\<lparr>qb_project_id := Some project_id\<rparr>"

definition query_builder_user :: "Id \<Rightarrow> query_builder \<Rightarrow> query_builder" where
  "query_builder_user user_id b =
     b\<lparr>qb_user_id := Some user_id\<rparr>"

definition query_builder_public :: "query_builder \<Rightarrow> query_builder" where
  "query_builder_public b =
     b\<lparr>qb_visibility := VisPublic\<rparr>"

definition query_builder_private :: "query_builder \<Rightarrow> query_builder" where
  "query_builder_private b =
     b\<lparr>qb_visibility := VisPrivate\<rparr>"

definition query_builder_global :: "query_builder \<Rightarrow> query_builder" where
  "query_builder_global b =
     b\<lparr>qb_visibility := VisGlobal\<rparr>"

definition query_builder_starred :: "query_builder \<Rightarrow> query_builder" where
  "query_builder_starred b =
     b\<lparr>qb_starred := True\<rparr>"

definition query_builder_list_view :: "query_builder \<Rightarrow> query_builder" where
  "query_builder_list_view b =
     b\<lparr>qb_display := ListDisplay\<rparr>"

definition query_builder_board_view :: "query_builder \<Rightarrow> query_builder" where
  "query_builder_board_view b =
     b\<lparr>qb_display := BoardDisplay\<rparr>"

definition query_builder_gantt_view :: "query_builder \<Rightarrow> query_builder" where
  "query_builder_gantt_view b =
     b\<lparr>qb_display := GanttDisplay\<rparr>"

definition query_builder_calendar_view :: "query_builder \<Rightarrow> query_builder" where
  "query_builder_calendar_view b =
     b\<lparr>qb_display := CalendarDisplay\<rparr>"

definition query_builder_filter :: "filter_rec \<Rightarrow> query_builder \<Rightarrow> query_builder" where
  "query_builder_filter f b =
     b\<lparr>qb_filters := filter_set_add (f) (qb_filters b)\<rparr>"

definition query_builder_status :: "Id list \<Rightarrow> query_builder \<Rightarrow> query_builder" where
  "query_builder_status ids b =
     b\<lparr>qb_filters := filter_set_add (filter_equals ''status_id'' (filter_value_from_ids ids)) (qb_filters b)\<rparr>"

definition query_builder_open :: "query_builder \<Rightarrow> query_builder" where
  "query_builder_open b =
     b\<lparr>qb_filters := filter_set_add (filter_new ''status_id'' IsNotNull FvNone) (qb_filters b)\<rparr>"

definition query_builder_closed :: "query_builder \<Rightarrow> query_builder" where
  "query_builder_closed b =
     b\<lparr>qb_filters := filter_set_add (filter_new ''status_id'' IsNull FvNone) (qb_filters b)\<rparr>"

definition query_builder_in_project :: "Id \<Rightarrow> query_builder \<Rightarrow> query_builder" where
  "query_builder_in_project project_id b =
     b\<lparr>qb_project_id := Some project_id,
       qb_filters := filter_set_add (filter_equals ''project_id'' (FvId project_id)) (qb_filters b)\<rparr>"

definition query_builder_type_ids :: "Id list \<Rightarrow> query_builder \<Rightarrow> query_builder" where
  "query_builder_type_ids ids b =
     b\<lparr>qb_filters := filter_set_add (filter_equals ''type_id'' (filter_value_from_ids ids)) (qb_filters b)\<rparr>"

definition query_builder_assigned_to :: "Id list \<Rightarrow> query_builder \<Rightarrow> query_builder" where
  "query_builder_assigned_to ids b =
     b\<lparr>qb_filters := filter_set_add (filter_equals ''assigned_to_id'' (filter_value_from_ids ids)) (qb_filters b)\<rparr>"

definition query_builder_assigned_to_me :: "query_builder \<Rightarrow> query_builder" where
  "query_builder_assigned_to_me b =
     b\<lparr>qb_filters := filter_set_add (filter_new ''assigned_to_id'' CurrentUser FvMe) (qb_filters b)\<rparr>"

definition query_builder_unassigned :: "query_builder \<Rightarrow> query_builder" where
  "query_builder_unassigned b =
     b\<lparr>qb_filters := filter_set_add (filter_is_null ''assigned_to_id'') (qb_filters b)\<rparr>"

definition query_builder_authored_by :: "Id list \<Rightarrow> query_builder \<Rightarrow> query_builder" where
  "query_builder_authored_by ids b =
     b\<lparr>qb_filters := filter_set_add (filter_equals ''author_id'' (filter_value_from_ids ids)) (qb_filters b)\<rparr>"

definition query_builder_created_by_me :: "query_builder \<Rightarrow> query_builder" where
  "query_builder_created_by_me b =
     b\<lparr>qb_filters := filter_set_add (filter_new ''author_id'' CurrentUser FvMe) (qb_filters b)\<rparr>"

definition query_builder_priority :: "Id list \<Rightarrow> query_builder \<Rightarrow> query_builder" where
  "query_builder_priority ids b =
     b\<lparr>qb_filters := filter_set_add (filter_equals ''priority_id'' (filter_value_from_ids ids)) (qb_filters b)\<rparr>"

definition query_builder_version :: "Id list \<Rightarrow> query_builder \<Rightarrow> query_builder" where
  "query_builder_version ids b =
     b\<lparr>qb_filters := filter_set_add (filter_equals ''version_id'' (filter_value_from_ids ids)) (qb_filters b)\<rparr>"

definition query_builder_subject_contains :: "string \<Rightarrow> query_builder \<Rightarrow> query_builder" where
  "query_builder_subject_contains t b =
     b\<lparr>qb_filters := filter_set_add (filter_contains ''subject'' t) (qb_filters b)\<rparr>"

definition query_builder_due_today :: "query_builder \<Rightarrow> query_builder" where
  "query_builder_due_today b =
     b\<lparr>qb_filters := filter_set_add (filter_new ''due_date'' Today FvNone) (qb_filters b)\<rparr>"

definition query_builder_due_this_week :: "query_builder \<Rightarrow> query_builder" where
  "query_builder_due_this_week b =
     b\<lparr>qb_filters := filter_set_add (filter_new ''due_date'' ThisWeek FvNone) (qb_filters b)\<rparr>"

definition query_builder_overdue :: "query_builder \<Rightarrow> query_builder" where
  "query_builder_overdue b =
     b\<lparr>qb_filters := filter_set_add (filter_new ''due_date'' (LessThanDaysAgo 0) FvNone) (qb_filters b)\<rparr>"

definition query_builder_parent :: "Id \<Rightarrow> query_builder \<Rightarrow> query_builder" where
  "query_builder_parent parent_id b =
     b\<lparr>qb_filters := filter_set_add (filter_equals ''parent_id'' (FvId parent_id)) (qb_filters b)\<rparr>"

definition query_builder_roots_only :: "query_builder \<Rightarrow> query_builder" where
  "query_builder_roots_only b =
     b\<lparr>qb_filters := filter_set_add (filter_is_null ''parent_id'') (qb_filters b)\<rparr>"

definition query_builder_sort :: "sort_order \<Rightarrow> query_builder \<Rightarrow> query_builder" where
  "query_builder_sort so b =
     b\<lparr>qb_sorts := so\<rparr>"

definition query_builder_sort_by_asc :: "string \<Rightarrow> query_builder \<Rightarrow> query_builder" where
  "query_builder_sort_by_asc attribute b =
     b\<lparr>qb_sorts := sort_order_by_asc attribute\<rparr>"

definition query_builder_sort_by_desc :: "string \<Rightarrow> query_builder \<Rightarrow> query_builder" where
  "query_builder_sort_by_desc attribute b =
     b\<lparr>qb_sorts := sort_order_by_desc attribute\<rparr>"

definition query_builder_then_by_asc :: "string \<Rightarrow> query_builder \<Rightarrow> query_builder" where
  "query_builder_then_by_asc attribute b =
     b\<lparr>qb_sorts := sort_order_add (sort_criterion_asc attribute) (qb_sorts b)\<rparr>"

definition query_builder_then_by_desc :: "string \<Rightarrow> query_builder \<Rightarrow> query_builder" where
  "query_builder_then_by_desc attribute b =
     b\<lparr>qb_sorts := sort_order_add (sort_criterion_desc attribute) (qb_sorts b)\<rparr>"

definition query_builder_sort_by_id :: "query_builder \<Rightarrow> query_builder" where
  "query_builder_sort_by_id b =
     b\<lparr>qb_sorts := sort_order_by_desc ''id''\<rparr>"

definition query_builder_sort_by_updated :: "query_builder \<Rightarrow> query_builder" where
  "query_builder_sort_by_updated b =
     b\<lparr>qb_sorts := sort_order_by_desc ''updated_at''\<rparr>"

definition query_builder_sort_by_created :: "query_builder \<Rightarrow> query_builder" where
  "query_builder_sort_by_created b =
     b\<lparr>qb_sorts := sort_order_by_desc ''created_at''\<rparr>"

definition query_builder_sort_by_priority :: "query_builder \<Rightarrow> query_builder" where
  "query_builder_sort_by_priority b =
     b\<lparr>qb_sorts := sort_order_by_asc ''priority''\<rparr>"

definition query_builder_sort_by_due_date :: "query_builder \<Rightarrow> query_builder" where
  "query_builder_sort_by_due_date b =
     b\<lparr>qb_sorts := sort_order_by_asc ''due_date''\<rparr>"

definition query_builder_columns :: "column_set \<Rightarrow> query_builder \<Rightarrow> query_builder" where
  "query_builder_columns cs b =
     b\<lparr>qb_columns := cs\<rparr>"

definition query_builder_add_column :: "column \<Rightarrow> query_builder \<Rightarrow> query_builder" where
  "query_builder_add_column c b =
     b\<lparr>qb_columns := column_set_add c (qb_columns b)\<rparr>"

definition query_builder_with_column :: "string \<Rightarrow> query_builder \<Rightarrow> query_builder" where
  "query_builder_with_column name b =
     b\<lparr>qb_columns := column_set_add (column_property name) (qb_columns b)\<rparr>"

definition query_builder_default_columns :: "query_builder \<Rightarrow> query_builder" where
  "query_builder_default_columns b =
     b\<lparr>qb_columns := column_set_default_work_package\<rparr>"

definition query_builder_no_columns :: "query_builder \<Rightarrow> query_builder" where
  "query_builder_no_columns b =
     b\<lparr>qb_columns := column_set_new\<rparr>"

definition query_builder_group_by :: "string \<Rightarrow> query_builder \<Rightarrow> query_builder" where
  "query_builder_group_by attribute b =
     b\<lparr>qb_group_by := group_by_by attribute\<rparr>"

definition query_builder_group_by_status :: "query_builder \<Rightarrow> query_builder" where
  "query_builder_group_by_status b =
     b\<lparr>qb_group_by := group_by_by ''status''\<rparr>"

definition query_builder_group_by_type :: "query_builder \<Rightarrow> query_builder" where
  "query_builder_group_by_type b =
     b\<lparr>qb_group_by := group_by_by ''type''\<rparr>"

definition query_builder_group_by_assignee :: "query_builder \<Rightarrow> query_builder" where
  "query_builder_group_by_assignee b =
     b\<lparr>qb_group_by := group_by_by ''assigned_to''\<rparr>"

definition query_builder_group_by_priority :: "query_builder \<Rightarrow> query_builder" where
  "query_builder_group_by_priority b =
     b\<lparr>qb_group_by := group_by_by ''priority''\<rparr>"

definition query_builder_ungrouped :: "query_builder \<Rightarrow> query_builder" where
  "query_builder_ungrouped b =
     b\<lparr>qb_group_by := group_by_none\<rparr>"

definition query_builder_include_subprojects :: "query_builder \<Rightarrow> query_builder" where
  "query_builder_include_subprojects b =
     b\<lparr>qb_include_subprojects := True\<rparr>"

definition query_builder_exclude_subprojects :: "query_builder \<Rightarrow> query_builder" where
  "query_builder_exclude_subprojects b =
     b\<lparr>qb_include_subprojects := False\<rparr>"

definition query_builder_with_hierarchies :: "query_builder \<Rightarrow> query_builder" where
  "query_builder_with_hierarchies b =
     b\<lparr>qb_show_hierarchies := True\<rparr>"

definition query_builder_flat :: "query_builder \<Rightarrow> query_builder" where
  "query_builder_flat b =
     b\<lparr>qb_show_hierarchies := False\<rparr>"

definition query_builder_with_sums :: "query_builder \<Rightarrow> query_builder" where
  "query_builder_with_sums b =
     b\<lparr>qb_show_sums := True\<rparr>"

definition query_builder_build :: "query_builder \<Rightarrow> query" where
  "query_builder_build b = \<lparr>q_id = None, q_name = qb_name b, q_user_id = qb_user_id b,
     q_project_id = qb_project_id b, q_visibility = qb_visibility b, q_starred = qb_starred b,
     q_display = qb_display b, q_filters = qb_filters b, q_sorts = qb_sorts b,
     q_columns = qb_columns b, q_group_by = qb_group_by b, q_highlighting = highlighting_default,
     q_timeline_zoom_level = ZoomWeeks, q_show_timeline = (qb_display b = GanttDisplay),
     q_include_subprojects = qb_include_subprojects b, q_show_hierarchies = qb_show_hierarchies b,
     q_show_sums = qb_show_sums b\<rparr>"

subsection \<open>Preset queries\<close>

definition preset_my_work_packages :: query where
  "preset_my_work_packages = query_builder_build (query_builder_sort_by_updated (query_builder_open
     (query_builder_assigned_to_me (query_builder_name ''My work packages'' query_builder_new))))"

definition preset_created_by_me :: query where
  "preset_created_by_me = query_builder_build (query_builder_sort_by_updated
     (query_builder_created_by_me (query_builder_name ''Created by me'' query_builder_new)))"

definition preset_watched_by_me :: query where
  "preset_watched_by_me = query_builder_build (query_builder_sort_by_updated
     (query_builder_filter (filter_new ''watcher_id'' CurrentUser FvMe)
       (query_builder_name ''Watched'' query_builder_new)))"

definition preset_all_open :: query where
  "preset_all_open = query_builder_build (query_builder_sort_by_updated (query_builder_open
     (query_builder_name ''All open'' query_builder_new)))"

definition preset_recently_updated :: query where
  "preset_recently_updated = query_builder_build (query_builder_sort_by_updated
     (query_builder_name ''Recently updated'' query_builder_new))"

definition preset_basic_board :: query where
  "preset_basic_board = query_builder_build (query_builder_open (query_builder_group_by_status
     (query_builder_board_view (query_builder_name ''Basic board'' query_builder_new))))"

definition preset_gantt_chart :: query where
  "preset_gantt_chart = query_builder_build (query_builder_then_by_asc ''due_date''
     (query_builder_sort_by_asc ''start_date''
       (query_builder_gantt_view (query_builder_name ''Gantt chart'' query_builder_new))))"

definition preset_overdue :: query where
  "preset_overdue = query_builder_build (query_builder_sort_by_asc ''due_date'' (query_builder_open
     (query_builder_overdue (query_builder_name ''Overdue'' query_builder_new))))"

definition preset_queries :: "query list" where
  "preset_queries = [preset_my_work_packages, preset_created_by_me, preset_watched_by_me,
     preset_all_open, preset_recently_updated, preset_basic_board, preset_gantt_chart,
     preset_overdue]"

lemmas builder_defs =
  query_builder_new_def query_builder_name_def query_builder_project_def query_builder_user_def
  query_builder_public_def query_builder_private_def query_builder_global_def
  query_builder_starred_def query_builder_list_view_def query_builder_board_view_def
  query_builder_gantt_view_def query_builder_calendar_view_def query_builder_filter_def
  query_builder_status_def query_builder_open_def query_builder_closed_def
  query_builder_in_project_def query_builder_type_ids_def query_builder_assigned_to_def
  query_builder_assigned_to_me_def query_builder_unassigned_def query_builder_authored_by_def
  query_builder_created_by_me_def query_builder_priority_def query_builder_version_def
  query_builder_subject_contains_def query_builder_due_today_def query_builder_due_this_week_def
  query_builder_overdue_def query_builder_parent_def query_builder_roots_only_def
  query_builder_sort_def query_builder_sort_by_asc_def query_builder_sort_by_desc_def
  query_builder_then_by_asc_def query_builder_then_by_desc_def query_builder_sort_by_id_def
  query_builder_sort_by_updated_def query_builder_sort_by_created_def
  query_builder_sort_by_priority_def query_builder_sort_by_due_date_def query_builder_columns_def
  query_builder_add_column_def query_builder_with_column_def query_builder_default_columns_def
  query_builder_no_columns_def query_builder_group_by_def query_builder_group_by_status_def
  query_builder_group_by_type_def query_builder_group_by_assignee_def
  query_builder_group_by_priority_def query_builder_ungrouped_def
  query_builder_include_subprojects_def query_builder_exclude_subprojects_def
  query_builder_with_hierarchies_def query_builder_flat_def query_builder_with_sums_def
  query_builder_build_def

lemmas preset_defs =
  preset_my_work_packages_def preset_created_by_me_def preset_watched_by_me_def
  preset_all_open_def preset_recently_updated_def preset_basic_board_def preset_gantt_chart_def
  preset_overdue_def preset_queries_def

lemma build_timeline [simp]:
  "q_show_timeline (query_builder_build b) \<longleftrightarrow> q_display (query_builder_build b) = GanttDisplay"
  by (simp add: query_builder_build_def)

lemma preset_filters:
  "q_filters preset_my_work_packages =
     [filter_new ''assigned_to_id'' CurrentUser FvMe, filter_new ''status_id'' IsNotNull FvNone]"
  "q_filters preset_created_by_me = [filter_new ''author_id'' CurrentUser FvMe]"
  "q_filters preset_watched_by_me = [filter_new ''watcher_id'' CurrentUser FvMe]"
  "q_filters preset_all_open = [filter_new ''status_id'' IsNotNull FvNone]"
  "q_filters preset_recently_updated = []"
  "q_filters preset_basic_board = [filter_new ''status_id'' IsNotNull FvNone]"
  "q_filters preset_gantt_chart = []"
  "q_filters preset_overdue =
     [filter_new ''due_date'' (LessThanDaysAgo 0) FvNone, filter_new ''status_id'' IsNotNull FvNone]"
  by (simp_all add: preset_defs builder_defs filter_set_defs)

lemmas filters_valid_defs = filter_set_defs filter_is_valid_def filter_new_def

text \<open>
  Every query that comes out of the builder shows the timeline exactly when its display is
  the Gantt chart; the setters of \<open>Query\<close> do not keep this: choosing the Gantt display with
  \<open>with_display\<close> leaves the timeline off, and going from \<open>gantt\<close> to \<open>board\<close> leaves it on.
\<close>

theorem query_timeline_tied_by_build_only:
  "q_show_timeline (query_builder_build b) = (q_display (query_builder_build b) = GanttDisplay) \<and>
   \<not> q_show_timeline (query_with_display GanttDisplay (query_new n)) \<and>
   q_show_timeline (query_board (query_gantt (query_new n))) \<and>
   q_display (query_board (query_gantt (query_new n))) = BoardDisplay"
  by (simp add: query_with_display_def query_board_def query_gantt_def query_new_def)

end
