(* ===== verification/Sql_Text.thy ===== *)
theory Sql_Text
  imports Prelude
begin

section \<open>SQL text: literals, escaping and LIKE patterns\<close>

text \<open>
  The escaping functions of \<open>crates/op-db/src/query_executor.rs\<close> against a specification of how
  the database reads them: a lexer of string literals and the meaning of a \<open>LIKE\<close> pattern.
  \<open>renders\<close> says that a text is read as given pieces wherever it stands; its rules compose.
\<close>

subsection \<open>Escaping\<close>

definition escape_string :: "string \<Rightarrow> string" where
  "escape_string s = replace_char CHR 0x27 [CHR 0x27, CHR 0x27] s"

definition escape_like :: "string \<Rightarrow> string" where
  "escape_like s =
     replace_char CHR 0x27 [CHR 0x27, CHR 0x27]
      (replace_char CHR ''_'' [CHR 0x5C, CHR ''_'']
       (replace_char CHR ''%'' [CHR 0x5C, CHR ''%'']
        (replace_char CHR 0x5C [CHR 0x5C, CHR 0x5C] s)))"

definition quoted :: "string \<Rightarrow> string" where
  "quoted s = CHR 0x27 # s @ [CHR 0x27]"

subsection \<open>Specification: lexing SQL literals\<close>

text \<open>
  With \<open>standard_conforming_strings\<close> on, a literal runs from a quote to the next single quote; two
  quotes in it stand for one.  Everything else is code.
\<close>

datatype sql_piece = Code char | Lit string

fun lex_lit :: "string \<Rightarrow> (string \<times> string) option" where
  "lex_lit [] = None"
| "lex_lit [c] = (if c = CHR 0x27 then Some ([], []) else None)"
| "lex_lit (c # d # s) =
     (if c = CHR 0x27
      then (if d = CHR 0x27 then map_option (\<lambda>(b, r). (CHR 0x27 # b, r)) (lex_lit s)
            else Some ([], d # s))
      else map_option (\<lambda>(b, r). (c # b, r)) (lex_lit (d # s)))"

lemma lex_lit_length: "lex_lit s = Some (b, r) \<Longrightarrow> length r < length s"
  by (induction s arbitrary: b r rule: lex_lit.induct) (fastforce split: if_splits)+

function sql_lex :: "string \<Rightarrow> sql_piece list option" where
  "sql_lex [] = Some []"
| "sql_lex (c # s) =
     (if c = CHR 0x27
      then (case lex_lit s of
              None \<Rightarrow> None
            | Some (b, r) \<Rightarrow> map_option (Cons (Lit b)) (sql_lex r))
      else map_option (Cons (Code c)) (sql_lex s))"
  by pat_completeness auto
termination
  by (relation "measure length") (auto dest: lex_lit_length)

abbreviation code :: "string \<Rightarrow> sql_piece list" where
  "code \<equiv> map Code"

text \<open>\<open>renders x ps\<close>: wherever no quote follows, the text \<open>x\<close> is read as the pieces \<open>ps\<close>.\<close>

definition no_quote :: "string \<Rightarrow> bool" where
  "no_quote s \<longleftrightarrow> CHR 0x27 \<notin> set s"

definition renders :: "string \<Rightarrow> sql_piece list \<Rightarrow> bool" where
  "renders x ps \<longleftrightarrow> (\<forall>r. (r = [] \<or> hd r \<noteq> CHR 0x27) \<longrightarrow>
     sql_lex (x @ r) = map_option ((@) ps) (sql_lex r))"

named_theorems render_intros \<open>texts and the pieces they are read as\<close>

lemma lex_lit_escaped:
  "r = [] \<or> hd r \<noteq> CHR 0x27 \<Longrightarrow> lex_lit (escape_string s @ CHR 0x27 # r) = Some (s, r)"
proof (induction s)
  case Nil
  then show ?case by (cases r) (simp_all add: escape_string_def)
next
  case (Cons c s)
  obtain d t where dt: "escape_string s @ CHR 0x27 # r = d # t"
    by (cases "escape_string s @ CHR 0x27 # r") auto
  have "lex_lit (escape_string (c # s) @ CHR 0x27 # r) =
      map_option (\<lambda>(b, r). (c # b, r)) (lex_lit (escape_string s @ CHR 0x27 # r))"
    using dt by (simp add: escape_string_def)
  with Cons show ?case by simp
qed

lemma escape_no_quote: "no_quote s \<Longrightarrow> escape_string s = s"
  by (induction s) (auto simp: escape_string_def no_quote_def)

lemma map_option_append_code [simp]:
  "map_option ((@) ps) (map_option ((@) qs) x) = map_option ((@) (ps @ qs)) x"
  by (cases x) auto

lemma map_option_append_Nil [simp]: "map_option ((@) []) x = x"
  by (cases x) auto

lemma sql_lex_code: "no_quote k \<Longrightarrow> sql_lex (k @ r) = map_option ((@) (code k)) (sql_lex r)"
  by (induction k) (auto simp: no_quote_def option.map_comp comp_def intro: option.map_cong0)

lemma renders_code_then [render_intros]:
  "no_quote k \<Longrightarrow> renders y qs \<Longrightarrow> renders (k @ y) (code k @ qs)"
  by (simp add: renders_def sql_lex_code)

lemma renders_code [render_intros]: "no_quote k \<Longrightarrow> renders k (code k)"
  by (simp add: renders_def sql_lex_code)

lemma renders_quoted [render_intros]: "renders (quoted (escape_string s)) [Lit s]"
  by (auto simp: renders_def quoted_def lex_lit_escaped fun_eq_iff intro!: option.map_cong0)

lemma renders_raw [render_intros]: "no_quote s \<Longrightarrow> renders (quoted s) [Lit s]"
  using renders_quoted [of s] by (simp add: escape_no_quote)

lemma renders_append:
  "renders x ps \<Longrightarrow> renders y qs \<Longrightarrow> y = [] \<or> hd y \<noteq> CHR 0x27 \<Longrightarrow> renders (x @ y) (ps @ qs)"
  by (cases y) (auto simp: renders_def)

lemma renders_then_code [render_intros]:
  "renders x ps \<Longrightarrow> no_quote k \<Longrightarrow> renders (x @ k) (ps @ code k)"
  by (rule renders_append) (auto simp: no_quote_def renders_code dest: hd_in_set)

lemma renders_join:
  assumes "list_all2 renders xs pss" and "no_quote sep" and "sep \<noteq> []"
  shows "renders (join sep xs) (join (code sep) pss)"
  using assms(1)
proof (induction xs arbitrary: pss rule: induct_list012)
  case (3 x y zs)
  then obtain p q qs where p: "pss = p # q # qs" "renders x p"
      and r: "renders (join sep (y # zs)) (join (code sep) (q # qs))"
    by (auto simp: list_all2_Cons1)
  have "hd (sep @ join sep (y # zs)) \<noteq> CHR 0x27"
    using assms(2,3) by (cases sep) (auto simp: no_quote_def)
  with p r assms(2) show ?case
    by (auto intro!: renders_append renders_code_then)
qed (auto simp: list_all2_Cons1 renders_def)

lemma renders_lex: "renders x ps \<Longrightarrow> sql_lex x = Some ps"
  unfolding renders_def by (drule spec [of _ "[]"]) simp

lemma no_quote_simps [simp]:
  "no_quote []"
  "no_quote (c # s) \<longleftrightarrow> c \<noteq> CHR 0x27 \<and> no_quote s"
  "no_quote (s @ t) \<longleftrightarrow> no_quote s \<and> no_quote t"
  by (auto simp: no_quote_def)

lemma no_quote_show_int [simp]: "no_quote (show_int i)"
  using show_nat_chars [of "nat i"] show_nat_chars [of "nat (- i)"]
  by (auto simp: no_quote_def show_int_def is_digit_def)

lemma replace_char_fresh: "c \<notin> set s \<Longrightarrow> replace_char c r s = s"
  by (induction s) auto

lemma renders_lit_then:
  assumes "no_quote a" "no_quote k" "k \<noteq> []" "renders y ps"
  shows "renders (quoted a @ k @ y) (Lit a # code k @ ps)"
proof -
  have "hd (k @ y) \<noteq> CHR 0x27" using assms(2,3) by (cases k) auto
  then have "renders (quoted a @ (k @ y)) ([Lit a] @ (code k @ ps))"
    using assms by (intro renders_append renders_raw renders_code_then) auto
  then show ?thesis by simp
qed

lemma renders_two:
  assumes "no_quote k" "no_quote a" "no_quote l" "l \<noteq> []" "no_quote b"
  shows "renders (k @ quoted a @ l @ quoted b) (code k @ Lit a # code l @ [Lit b])"
  using assms by (intro renders_code_then renders_lit_then renders_raw)

lemma renders_three:
  assumes "no_quote k" "no_quote a" "no_quote l" "l \<noteq> []" "no_quote b" "no_quote m" "m \<noteq> []"
    "no_quote d"
  shows "renders (k @ quoted a @ l @ quoted b @ m @ quoted d)
     (code k @ Lit a # code l @ Lit b # code m @ [Lit d])"
  using assms by (intro renders_code_then renders_lit_then renders_raw)

subsection \<open>LIKE patterns\<close>

text \<open>The \<open>LIKE\<close> pattern of a string: backslash, \<open>%\<close> and \<open>_\<close> escaped, the quote not.\<close>

fun like_quote :: "string \<Rightarrow> string" where
  "like_quote [] = []"
| "like_quote (c # s) =
     (if c = CHR 0x5C \<or> c = CHR ''%'' \<or> c = CHR ''_'' then [CHR 0x5C, c] else [c]) @ like_quote s"

lemma escape_like_eq: "escape_like s = escape_string (like_quote s)"
  by (induction s) (auto simp: escape_like_def escape_string_def)

text \<open>
  \<open>eq c d\<close>: the pattern character \<open>c\<close> matches \<open>d\<close> (equality, or equality up to case for
  \<open>ILIKE\<close>).  A pattern that ends in the escape character is an error and matches nothing.
\<close>

fun like_match :: "(char \<Rightarrow> char \<Rightarrow> bool) \<Rightarrow> string \<Rightarrow> string \<Rightarrow> bool" where
  "like_match eq [] t \<longleftrightarrow> t = []"
| "like_match eq (c # p) t \<longleftrightarrow>
     (if c = CHR ''%'' then
        like_match eq p t \<or> (case t of [] \<Rightarrow> False | _ # t' \<Rightarrow> like_match eq (c # p) t')
      else if c = CHR ''_'' then (case t of [] \<Rightarrow> False | _ # t' \<Rightarrow> like_match eq p t')
      else if c = CHR 0x5C then
        (case (p, t) of (d # p', x # t') \<Rightarrow> eq d x \<and> like_match eq p' t' | _ \<Rightarrow> False)
      else (case t of [] \<Rightarrow> False | x # t' \<Rightarrow> eq c x \<and> like_match eq p t'))"

lemma like_match_percent:
  "like_match eq (CHR ''%'' # p) t \<longleftrightarrow> (\<exists>u v. t = u @ v \<and> like_match eq p v)"
proof (induction t)
  case Nil
  show ?case by simp
next
  case (Cons x t)
  have "(\<exists>u v. x # t = u @ v \<and> like_match eq p v) \<longleftrightarrow>
      like_match eq p (x # t) \<or> (\<exists>u v. t = u @ v \<and> like_match eq p v)"
    by (auto simp: Cons_eq_append_conv)
  with Cons show ?case by simp
qed

lemma like_match_quoted:
  "like_match eq (like_quote s @ p) t \<longleftrightarrow>
     (\<exists>w v. t = w @ v \<and> list_all2 eq s w \<and> like_match eq p v)"
proof (induction s arbitrary: t)
  case Nil
  show ?case by simp
next
  case (Cons c s)
  have "like_match eq (like_quote (c # s) @ p) t \<longleftrightarrow>
      (\<exists>x t'. t = x # t' \<and> eq c x \<and> like_match eq (like_quote s @ p) t')"
    by (cases t) auto
  also have "\<dots> \<longleftrightarrow> (\<exists>w v. t = w @ v \<and> list_all2 eq (c # s) w \<and> like_match eq p v)"
    by (auto simp: Cons.IH list_all2_Cons1) (metis append_Cons | blast)+
  finally show ?case .
qed

lemma like_match_quoted_all: "like_match eq (like_quote s) t \<longleftrightarrow> list_all2 eq s t"
  using like_match_quoted [of eq s "[]" t] by simp

declare like_match.simps(2) [simp del]

lemma like_match_pure_percent: "like_match eq ''%'' t"
  by (simp add: like_match_percent)

lemma like_matches:
  "like_match eq (CHR ''%'' # like_quote s @ ''%'') t \<longleftrightarrow>
     (\<exists>u w v. t = u @ w @ v \<and> list_all2 eq s w)"
  "like_match eq (like_quote s @ ''%'') t \<longleftrightarrow> (\<exists>w v. t = w @ v \<and> list_all2 eq s w)"
  "like_match eq (CHR ''%'' # like_quote s) t \<longleftrightarrow> (\<exists>u w. t = u @ w \<and> list_all2 eq s w)"
  by (auto simp: like_match_percent like_match_quoted like_match_quoted_all like_match_pure_percent)

lemma sql_lex_literal: "sql_lex (quoted (escape_string s)) = Some [Lit s]"
  by (rule renders_lex) (rule renders_quoted)

lemma like_texts:
  "''%'' @ escape_like s @ ''%'' = escape_string (''%'' @ like_quote s @ ''%'')"
  "escape_like s @ ''%'' = escape_string (like_quote s @ ''%'')"
  "''%'' @ escape_like s = escape_string (''%'' @ like_quote s)"
  by (simp_all add: escape_like_eq) (simp_all add: escape_string_def)

text \<open>
  Whatever the string \<open>s\<close> holds, the literals that \<open>Contains\<close>, \<open>StartsWith\<close> and \<open>EndsWith\<close>
  build are read as one literal each, and as patterns they match exactly the texts that contain,
  start with and end with \<open>s\<close> (up to \<open>eq\<close>).
\<close>

theorem like_operators_match:
  "(\<exists>p. sql_lex (quoted (''%'' @ escape_like s @ ''%'')) = Some [Lit p] \<and>
        (\<forall>t. like_match eq p t \<longleftrightarrow> (\<exists>u w v. t = u @ w @ v \<and> list_all2 eq s w))) \<and>
   (\<exists>p. sql_lex (quoted (escape_like s @ ''%'')) = Some [Lit p] \<and>
        (\<forall>t. like_match eq p t \<longleftrightarrow> (\<exists>w v. t = w @ v \<and> list_all2 eq s w))) \<and>
   (\<exists>p. sql_lex (quoted (''%'' @ escape_like s)) = Some [Lit p] \<and>
        (\<forall>t. like_match eq p t \<longleftrightarrow> (\<exists>u w. t = u @ w \<and> list_all2 eq s w)))"
proof (intro conjI, goal_cases)
  case 1
  show ?case unfolding like_texts(1) sql_lex_literal by (simp add: like_matches)
next
  case 2
  show ?case unfolding like_texts(2) sql_lex_literal by (simp add: like_matches)
next
  case 3
  show ?case unfolding like_texts(3) sql_lex_literal by (simp add: like_matches)
qed

end
