(* ===== verification/Query_Sql.thy ===== *)
theory Query_Sql
  imports Query Pagination Sql_Text
begin

section \<open>From queries to SQL (\<open>crates/op-db/src/query_executor.rs\<close>)\<close>

text \<open>
  The translation of filters and sorts to SQL text.  The specification side is a lexer of SQL
  string literals (\<open>sql_lex\<close>), a reference translation to lexed pieces (\<open>where_pieces\<close>) and the
  meaning of a \<open>LIKE\<close> pattern (\<open>like_match\<close>): the text the code builds lexes to the reference
  pieces whatever the strings hold, as long as dates hold no quote.  The printed form of an
  \<open>f64\<close> is the parameter \<open>fshow\<close>.
\<close>

definition attribute_to_column :: "string \<Rightarrow> string option" where
  "attribute_to_column attribute = map_of
     [(''id'', ''wp.id''), (''subject'', ''wp.subject''), (''description'', ''wp.description''),
      (''project_id'', ''wp.project_id''), (''type_id'', ''wp.type_id''),
      (''status_id'', ''wp.status_id''), (''priority_id'', ''wp.priority_id''),
      (''author_id'', ''wp.author_id''), (''assigned_to_id'', ''wp.assigned_to_id''),
      (''responsible_id'', ''wp.responsible_id''), (''category_id'', ''wp.category_id''),
      (''version_id'', ''wp.version_id''), (''parent_id'', ''wp.parent_id''),
      (''start_date'', ''wp.start_date''), (''due_date'', ''wp.due_date''),
      (''estimated_hours'', ''wp.estimated_hours''), (''done_ratio'', ''wp.done_ratio''),
      (''created_at'', ''wp.created_at''), (''updated_at'', ''wp.updated_at''),
      (''status'', ''s.name''), (''status_is_closed'', ''s.is_closed''),
      (''type'', ''t.name''), (''priority'', ''p.name''), (''priority_position'', ''p.position'')]
     attribute"

fun values_to_sql :: "(f64 \<Rightarrow> string) \<Rightarrow> filter_value \<Rightarrow> Id option \<Rightarrow> string list" where
  "values_to_sql fshow (FvId i) u = [show_i64 i]"
| "values_to_sql fshow (FvIds ids) u = map show_i64 ids"
| "values_to_sql fshow (FvString s) u = [quoted (escape_string s)]"
| "values_to_sql fshow (FvStrings ss) u = map (\<lambda>s. quoted (escape_string s)) ss"
| "values_to_sql fshow (FvBool b) u = [if b then ''true'' else ''false'']"
| "values_to_sql fshow (FvDate d) u = [quoted d]"
| "values_to_sql fshow (FvDateRange a b) u = [quoted a, quoted b]"
| "values_to_sql fshow (FvNumber n) u = [fshow n]"
| "values_to_sql fshow FvMe u = (case u of Some i \<Rightarrow> [show_i64 i] | None \<Rightarrow> [])"
| "values_to_sql fshow FvNone u = []"

definition first_value :: "'a list \<Rightarrow> 'a option" where
  "first_value vs = (case vs of [] \<Rightarrow> None | v # _ \<Rightarrow> Some v)"

fun string_value :: "filter_value \<Rightarrow> string option" where
  "string_value (FvString s) = Some s"
| "string_value _ = None"

definition sql_days :: "string \<Rightarrow> string \<Rightarrow> i32 \<Rightarrow> string" where
  "sql_days column op n = column @ op @ quoted (show_i32 n @ '' days'')"

text \<open>The body of \<open>filter_to_sql\<close> once the column is known.\<close>

definition condition_to_sql ::
    "(f64 \<Rightarrow> string) \<Rightarrow> string \<Rightarrow> filter_operator \<Rightarrow> filter_value \<Rightarrow> Id option \<Rightarrow> string option" where
  "condition_to_sql fshow c op v u =
     (case op of
         Equals \<Rightarrow>
         (let values = values_to_sql fshow v u
      in Some (if length values = 1 then c @ '' = '' @ hd values
               else c @ '' IN ('' @ join '', '' values @ '')''))
       | NotEquals \<Rightarrow>
         (let values = values_to_sql fshow v u
      in Some (if length values = 1 then c @ '' != '' @ hd values
               else c @ '' NOT IN ('' @ join '', '' values @ '')''))
       | Contains \<Rightarrow>
         map_option (\<lambda>s. c @ '' ILIKE '' @ quoted (''%'' @ escape_like s @ ''%'')) (string_value v)
       | NotContains \<Rightarrow>
         map_option (\<lambda>s. c @ '' NOT ILIKE '' @ quoted (''%'' @ escape_like s @ ''%'')) (string_value v)
       | StartsWith \<Rightarrow>
         map_option (\<lambda>s. c @ '' ILIKE '' @ quoted (escape_like s @ ''%'')) (string_value v)
       | EndsWith \<Rightarrow>
         map_option (\<lambda>s. c @ '' ILIKE '' @ quoted (''%'' @ escape_like s)) (string_value v)
       | GreaterThan \<Rightarrow>
         map_option (\<lambda>x. c @ '' > '' @ x) (first_value (values_to_sql fshow v u))
       | GreaterThanOrEqual \<Rightarrow>
         map_option (\<lambda>x. c @ '' >= '' @ x) (first_value (values_to_sql fshow v u))
       | LessThan \<Rightarrow>
         map_option (\<lambda>x. c @ '' < '' @ x) (first_value (values_to_sql fshow v u))
       | LessThanOrEqual \<Rightarrow>
         map_option (\<lambda>x. c @ '' <= '' @ x) (first_value (values_to_sql fshow v u))
       | Between \<Rightarrow>
         (case v of FvDateRange a b \<Rightarrow> Some (c @ '' BETWEEN '' @ quoted a @ '' AND '' @ quoted b) | _ \<Rightarrow> None)
       | IsNull \<Rightarrow>
         Some (c @ '' IS NULL'')
       | IsNotNull \<Rightarrow>
         Some (c @ '' IS NOT NULL'')
       | Today \<Rightarrow>
         Some (c @ '' = CURRENT_DATE'')
       | ThisWeek \<Rightarrow>
         Some (c @ '' >= date_trunc('' @ quoted ''week'' @ '', CURRENT_DATE) AND '' @ c @
       '' < date_trunc('' @ quoted ''week'' @ '', CURRENT_DATE) + interval '' @ quoted ''1 week'')
       | DaysAgo n \<Rightarrow>
         Some (sql_days c '' = CURRENT_DATE - interval '' n)
       | DaysFromNow n \<Rightarrow>
         Some (sql_days c '' = CURRENT_DATE + interval '' n)
       | LessThanDaysAgo n \<Rightarrow>
         Some (sql_days c '' > CURRENT_DATE - interval '' n)
       | MoreThanDaysAgo n \<Rightarrow>
         Some (sql_days c '' < CURRENT_DATE - interval '' n)
       | LessThanDaysFromNow n \<Rightarrow>
         Some (sql_days c '' < CURRENT_DATE + interval '' n)
       | MoreThanDaysFromNow n \<Rightarrow>
         Some (sql_days c '' > CURRENT_DATE + interval '' n)
       | CurrentUser \<Rightarrow>
         Some (case u of Some i \<Rightarrow> c @ '' = '' @ show_i64 i | None \<Rightarrow> ''1 = 0''))"

definition filter_to_sql :: "(f64 \<Rightarrow> string) \<Rightarrow> filter_rec \<Rightarrow> Id option \<Rightarrow> string option" where
  "filter_to_sql fshow f u =
     (case attribute_to_column (flt_attribute f) of
        None \<Rightarrow> None
      | Some column \<Rightarrow> condition_to_sql fshow column (flt_operator f) (flt_values f) u)"

datatype sql_param =
  SqlInt i64 | SqlString string | SqlFloat f64 | SqlBool bool | SqlDate string | SqlNull

text \<open>The parameter list is passed along but no case of \<open>filter_to_sql\<close> adds to it.\<close>

definition build_where_clause ::
    "(f64 \<Rightarrow> string) \<Rightarrow> filter_set \<Rightarrow> Id option \<Rightarrow> string \<times> sql_param list" where
  "build_where_clause fshow filters u =
     (join '' AND '' (List.map_filter (\<lambda>f. filter_to_sql fshow f u) filters), [])"

definition sort_attribute_to_column :: "string \<Rightarrow> string option" where
  "sort_attribute_to_column attribute = map_of
     [(''id'', ''wp.id''), (''subject'', ''wp.subject''), (''project'', ''wp.project_id''),
      (''type'', ''t.position''), (''status'', ''s.position''), (''priority'', ''p.position''),
      (''author'', ''wp.author_id''), (''assigned_to'', ''wp.assigned_to_id''),
      (''responsible'', ''wp.responsible_id''), (''start_date'', ''wp.start_date''),
      (''due_date'', ''wp.due_date''), (''estimated_hours'', ''wp.estimated_hours''),
      (''done_ratio'', ''wp.done_ratio''), (''created_at'', ''wp.created_at''),
      (''updated_at'', ''wp.updated_at''), (''version'', ''wp.version_id''),
      (''category'', ''wp.category_id''), (''parent'', ''wp.parent_id'')]
     attribute"

definition sort_to_sql :: "sort_criterion \<Rightarrow> string option" where
  "sort_to_sql criterion =
     (case sort_attribute_to_column (sc_attribute criterion) of
        None \<Rightarrow> None
      | Some column \<Rightarrow> Some (column @ '' '' @
          (case sc_direction criterion of Asc \<Rightarrow> ''ASC'' | Desc \<Rightarrow> ''DESC'') @ '' '' @
          (case sc_direction criterion of Asc \<Rightarrow> ''NULLS LAST'' | Desc \<Rightarrow> ''NULLS FIRST'')))"

definition build_order_clause :: "sort_order \<Rightarrow> string" where
  "build_order_clause sorts =
     (if sorts = [] then ''ORDER BY wp.id DESC''
      else let order_parts = List.map_filter sort_to_sql sorts
           in if order_parts = [] then ''ORDER BY wp.id DESC''
              else ''ORDER BY '' @ join '', '' order_parts)"

subsection \<open>Running a query\<close>

datatype 'db repository_error =
    RepoNotFound string
  | RepoDatabase 'db
  | RepoValidation string
  | RepoConflict string
  | RepoUnauthorized string

definition nl :: "nat \<Rightarrow> string" where
  "nl n = CHR 0x0A # replicate n CHR '' ''"

definition select_columns :: "string list" where
  "select_columns =
     [''wp.id'', ''wp.subject'', ''wp.description'', ''wp.project_id'', ''wp.type_id'',
      ''wp.status_id'', ''wp.priority_id'', ''wp.author_id'', ''wp.assigned_to_id'',
      ''wp.responsible_id'', ''wp.category_id'', ''wp.version_id'', ''wp.parent_id'',
      ''wp.start_date'', ''wp.due_date'', ''wp.estimated_hours'', ''wp.done_ratio'',
      ''wp.lock_version'', ''wp.created_at'', ''wp.updated_at'', ''wp.position'',
      ''wp.story_points'', ''wp.remaining_hours'', ''wp.schedule_manually'', ''wp.duration'']"

definition from_clause :: string where
  "from_clause = nl 12 @ ''FROM work_packages wp'' @
     nl 12 @ ''LEFT JOIN statuses s ON wp.status_id = s.id'' @
     nl 12 @ ''LEFT JOIN types t ON wp.type_id = t.id'' @
     nl 12 @ ''LEFT JOIN enumerations p ON wp.priority_id = p.id AND p.type = '' @
       quoted ''IssuePriority''"

definition where_part :: "string \<Rightarrow> string" where
  "where_part where_clause = (if where_clause = [] then [] else ''WHERE '' @ where_clause)"

definition main_sql :: "string \<Rightarrow> string \<Rightarrow> string" where
  "main_sql where_clause order_clause =
     nl 12 @ ''SELECT'' @ nl 16 @ join ('','' @ nl 16) select_columns @ from_clause @
     nl 12 @ where_part where_clause @ nl 12 @ order_clause @
     nl 12 @ ''LIMIT $1 OFFSET $2'' @ nl 12"

definition count_sql :: "string \<Rightarrow> string" where
  "count_sql where_clause =
     nl 12 @ ''SELECT COUNT(*) as count'' @ from_clause @ nl 12 @ where_part where_clause @ nl 12"

text \<open>
  The database is two parameters: \<open>fetch_one\<close> answers the count query, \<open>fetch_all\<close> the main query
  with its two bound values.
\<close>

definition query_execute ::
    "(f64 \<Rightarrow> string) \<Rightarrow> (string \<Rightarrow> (i64, 'db) result) \<Rightarrow>
     (string \<Rightarrow> i64 \<Rightarrow> i64 \<Rightarrow> ('row list, 'db) result) \<Rightarrow> query \<Rightarrow> pagination \<Rightarrow> Id option \<Rightarrow>
     ('row paginated_result, 'db repository_error) result" where
  "query_execute fshow fetch_one fetch_all q p u =
     (let where_clause = fst (build_where_clause fshow (q_filters q) u);
          order_clause = build_order_clause (q_sorts q)
      in case fetch_one (count_sql where_clause) of
           Inl e \<Rightarrow> Err (RepoDatabase e)
         | Inr total_rows \<Rightarrow>
             (case fetch_all (main_sql where_clause order_clause) (pg_limit p) (pg_offset p) of
                Inl e \<Rightarrow> Err (RepoDatabase e)
              | Inr rows \<Rightarrow> Ok \<lparr>pres_items = rows, pres_total = total_rows,
                              pres_limit = pg_limit p, pres_offset = pg_offset p\<rparr>))"

subsection \<open>Specification: the pieces a filter stands for\<close>

fun value_pieces :: "(f64 \<Rightarrow> string) \<Rightarrow> filter_value \<Rightarrow> Id option \<Rightarrow> sql_piece list list" where
  "value_pieces fshow (FvId i) u = [code (show_i64 i)]"
| "value_pieces fshow (FvIds ids) u = map (\<lambda>i. code (show_i64 i)) ids"
| "value_pieces fshow (FvString s) u = [[Lit s]]"
| "value_pieces fshow (FvStrings ss) u = map (\<lambda>s. [Lit s]) ss"
| "value_pieces fshow (FvBool b) u = [code (if b then ''true'' else ''false'')]"
| "value_pieces fshow (FvDate d) u = [[Lit d]]"
| "value_pieces fshow (FvDateRange a b) u = [[Lit a], [Lit b]]"
| "value_pieces fshow (FvNumber n) u = [code (fshow n)]"
| "value_pieces fshow FvMe u = (case u of Some i \<Rightarrow> [code (show_i64 i)] | None \<Rightarrow> [])"
| "value_pieces fshow FvNone u = []"

definition equality_pieces :: "string \<Rightarrow> string \<Rightarrow> string \<Rightarrow> sql_piece list list \<Rightarrow> sql_piece list" where
  "equality_pieces c single many ps =
     (case ps of
        [p] \<Rightarrow> code (c @ single) @ p
      | _ \<Rightarrow> code (c @ many) @ join (code '', '') ps @ code '')'')"

definition condition_pieces ::
    "(f64 \<Rightarrow> string) \<Rightarrow> string \<Rightarrow> filter_operator \<Rightarrow> filter_value \<Rightarrow> Id option \<Rightarrow>
     sql_piece list option" where
  "condition_pieces fshow c op v u =
     (let equality = (\<lambda>single many. Some (equality_pieces c single many (value_pieces fshow v u)));
          like = (\<lambda>sym pat. map_option (\<lambda>s. code (c @ sym) @ [Lit (pat s)]) (string_value v));
          compare = (\<lambda>sym. map_option (\<lambda>p. code (c @ sym) @ p)
                       (first_value (value_pieces fshow v u)));
          days = (\<lambda>sym n. Some (code (c @ sym) @ [Lit (show_i32 n @ '' days'')]))
      in case op of
           Equals \<Rightarrow> equality '' = '' '' IN (''
         | NotEquals \<Rightarrow> equality '' != '' '' NOT IN (''
         | Contains \<Rightarrow> like '' ILIKE '' (\<lambda>s. ''%'' @ like_quote s @ ''%'')
         | NotContains \<Rightarrow> like '' NOT ILIKE '' (\<lambda>s. ''%'' @ like_quote s @ ''%'')
         | StartsWith \<Rightarrow> like '' ILIKE '' (\<lambda>s. like_quote s @ ''%'')
         | EndsWith \<Rightarrow> like '' ILIKE '' (\<lambda>s. ''%'' @ like_quote s)
         | GreaterThan \<Rightarrow> compare '' > ''
         | GreaterThanOrEqual \<Rightarrow> compare '' >= ''
         | LessThan \<Rightarrow> compare '' < ''
         | LessThanOrEqual \<Rightarrow> compare '' <= ''
         | Between \<Rightarrow> (case v of
               FvDateRange a b \<Rightarrow> Some (code (c @ '' BETWEEN '') @ Lit a # code '' AND '' @ [Lit b])
             | _ \<Rightarrow> None)
         | IsNull \<Rightarrow> Some (code (c @ '' IS NULL''))
         | IsNotNull \<Rightarrow> Some (code (c @ '' IS NOT NULL''))
         | Today \<Rightarrow> Some (code (c @ '' = CURRENT_DATE''))
         | ThisWeek \<Rightarrow> Some (code (c @ '' >= date_trunc('') @ Lit ''week'' #
             code ('', CURRENT_DATE) AND '' @ c @ '' < date_trunc('') @ Lit ''week'' #
             code '', CURRENT_DATE) + interval '' @ [Lit ''1 week''])
         | DaysAgo n \<Rightarrow> days '' = CURRENT_DATE - interval '' n
         | DaysFromNow n \<Rightarrow> days '' = CURRENT_DATE + interval '' n
         | LessThanDaysAgo n \<Rightarrow> days '' > CURRENT_DATE - interval '' n
         | MoreThanDaysAgo n \<Rightarrow> days '' < CURRENT_DATE - interval '' n
         | LessThanDaysFromNow n \<Rightarrow> days '' < CURRENT_DATE + interval '' n
         | MoreThanDaysFromNow n \<Rightarrow> days '' > CURRENT_DATE + interval '' n
         | CurrentUser \<Rightarrow>
             Some (code (case u of Some i \<Rightarrow> c @ '' = '' @ show_i64 i | None \<Rightarrow> ''1 = 0'')))"

definition filter_pieces :: "(f64 \<Rightarrow> string) \<Rightarrow> Id option \<Rightarrow> filter_rec \<Rightarrow> sql_piece list option" where
  "filter_pieces fshow u f =
     Option.bind (attribute_to_column (flt_attribute f))
       (\<lambda>c. condition_pieces fshow c (flt_operator f) (flt_values f) u)"

definition where_pieces :: "(f64 \<Rightarrow> string) \<Rightarrow> filter_set \<Rightarrow> Id option \<Rightarrow> sql_piece list" where
  "where_pieces fshow filters u =
     join (code '' AND '') (List.map_filter (filter_pieces fshow u) filters)"

text \<open>Dates are interpolated as they are; this is what they must satisfy.\<close>

fun dates_quote_free :: "filter_value \<Rightarrow> bool" where
  "dates_quote_free (FvDate d) = no_quote d"
| "dates_quote_free (FvDateRange a b) = (no_quote a \<and> no_quote b)"
| "dates_quote_free _ = True"

lemma values_render:
  assumes "\<forall>x. no_quote (fshow x)" and "dates_quote_free v"
  shows "list_all2 renders (values_to_sql fshow v u) (value_pieces fshow v u)"
proof (cases v)
  case (FvBool b)
  then show ?thesis using renders_code [of "if b then ''true'' else ''false''"] by simp
qed (use assms in \<open>auto simp: list.rel_map intro!: list.rel_refl_strong render_intros
       split: option.split\<close>)

lemma column_no_quote: "attribute_to_column a = Some c \<Longrightarrow> no_quote c"
  by (auto simp: attribute_to_column_def split: if_splits)

lemma equality_renders:
  assumes "list_all2 renders vs ps" and "no_quote c" "no_quote single" "no_quote many"
  shows "renders (if length vs = 1 then c @ single @ hd vs else c @ many @ join '', '' vs @ '')'')
           (equality_pieces c single many ps)"
proof (cases "length vs = 1")
  case True
  then obtain v p where "vs = [v]" "ps = [p]" "renders v p"
    using assms(1) by (auto simp: length_Suc_conv list_all2_Cons1)
  then show ?thesis
    using assms renders_code_then [of "c @ single" v p] by (simp add: equality_pieces_def)
next
  case False
  have "renders (join '', '' vs) (join (code '', '') ps)"
    using assms(1) by (intro renders_join) auto
  then have "renders ((c @ many) @ join '', '' vs @ '')'')
      (code (c @ many) @ join (code '', '') ps @ code '')'')"
    using assms by (intro renders_code_then renders_then_code) auto
  moreover have "equality_pieces c single many ps = code (c @ many) @ join (code '', '') ps @ code '')''"
    using False assms(1) by (auto simp: equality_pieces_def list_all2_conv_all_nth split: list.split)
  ultimately show ?thesis using False by simp
qed

lemma first_value_renders:
  "list_all2 renders vs ps \<Longrightarrow> no_quote c \<Longrightarrow>
   rel_option renders (map_option (\<lambda>x. c @ x) (first_value vs))
     (map_option (\<lambda>p. code c @ p) (first_value ps))"
  by (cases vs) (auto simp: first_value_def list_all2_Cons1 intro!: renders_code_then)

lemma like_renders:
  assumes "no_quote c" and "\<And>s. tx s = escape_string (pat s)"
  shows "rel_option renders (map_option (\<lambda>s. c @ quoted (tx s)) (string_value v))
     (map_option (\<lambda>s. code c @ [Lit (pat s)]) (string_value v))"
  by (cases "string_value v") (auto simp: assms intro!: renders_code_then renders_quoted)

lemma days_renders:
  "no_quote c \<Longrightarrow> renders (c @ quoted (show_i32 n @ '' days'')) (code c @ [Lit (show_i32 n @ '' days'')])"
  by (intro renders_code_then renders_raw) auto

lemma week_renders:
  assumes "no_quote c"
  shows "renders
     (c @ '' >= date_trunc('' @ quoted ''week'' @ '', CURRENT_DATE) AND '' @ c @
       '' < date_trunc('' @ quoted ''week'' @ '', CURRENT_DATE) + interval '' @ quoted ''1 week'')
     (code (c @ '' >= date_trunc('') @ Lit ''week'' # code ('', CURRENT_DATE) AND '' @ c @
        '' < date_trunc('') @ Lit ''week'' # code '', CURRENT_DATE) + interval '' @ [Lit ''1 week''])"
  using renders_three [of "c @ '' >= date_trunc(''" "''week''"
    "'', CURRENT_DATE) AND '' @ c @ '' < date_trunc(''" "''week''"
    "'', CURRENT_DATE) + interval ''" "''1 week''"] assms by simp

lemma between_renders:
  assumes "no_quote c" "no_quote a" "no_quote b"
  shows "renders (c @ '' BETWEEN '' @ quoted a @ '' AND '' @ quoted b)
     (code (c @ '' BETWEEN '') @ Lit a # code '' AND '' @ [Lit b])"
  using renders_two [of "c @ '' BETWEEN ''" a "'' AND ''" b] assms by simp

lemma equality_condition:
  assumes "list_all2 renders (values_to_sql fshow v u) (value_pieces fshow v u)"
    and "no_quote c" "no_quote single" "no_quote many"
  shows "rel_option renders
     (let values = values_to_sql fshow v u
      in Some (if length values = 1 then c @ single @ hd values
               else c @ many @ join '', '' values @ '')''))
     (Some (equality_pieces c single many (value_pieces fshow v u)))"
  using equality_renders [OF assms] by (simp add: Let_def)

lemma condition_renders:
  assumes "\<forall>x. no_quote (fshow x)" and v: "dates_quote_free v" and c: "no_quote c"
  shows "rel_option renders (condition_to_sql fshow c op v u) (condition_pieces fshow c op v u)"
proof -
  note vals = values_render [OF assms(1) v]
  note eqs = equality_condition [OF vals c]
  have cmp: "rel_option renders (map_option (\<lambda>x. c @ k @ x) (first_value (values_to_sql fshow v u)))
     (map_option (\<lambda>p. code (c @ k) @ p) (first_value (value_pieces fshow v u)))" if "no_quote k" for k
    using first_value_renders [OF vals [of u], of "c @ k"] c that by simp
  have lk: "rel_option renders (map_option (\<lambda>s. c @ k @ quoted (tx s)) (string_value v))
     (map_option (\<lambda>s. code (c @ k) @ [Lit (pat s)]) (string_value v))"
    if "no_quote k" "\<And>s. tx s = escape_string (pat s)" for k tx pat
    using like_renders [of "c @ k" tx pat v] c that by simp
  have dy: "renders (sql_days c k n) (code (c @ k) @ [Lit (show_i32 n @ '' days'')])"
    if "no_quote k" for k n
    using days_renders [of "c @ k" n] c that by (simp add: sql_days_def)
  have cd: "renders (c @ k) (code (c @ k))" if "no_quote k" for k
    using renders_code [of "c @ k"] c that by simp
  show ?thesis
    unfolding condition_to_sql_def condition_pieces_def Let_def
  proof (cases op, goal_cases)
    case 1 then show ?case using eqs [of "'' = ''" "'' IN (''"] by (simp add: Let_def)
  next
    case 2 then show ?case using eqs [of "'' != ''" "'' NOT IN (''"] by (simp add: Let_def)
  next
    case 3 then show ?case using lk [of "'' ILIKE ''", OF _ like_texts(1)] by simp
  next
    case 4 then show ?case using lk [of "'' NOT ILIKE ''", OF _ like_texts(1)] by simp
  next
    case 5 then show ?case using lk [of "'' ILIKE ''", OF _ like_texts(2)] by simp
  next
    case 6 then show ?case using lk [of "'' ILIKE ''", OF _ like_texts(3)] by simp
  next
    case 7 then show ?case using cmp [of "'' > ''"] by (simp del: append_assoc)
  next
    case 8 then show ?case using cmp [of "'' >= ''"] by (simp del: append_assoc)
  next
    case 9 then show ?case using cmp [of "'' < ''"] by (simp del: append_assoc)
  next
    case 10 then show ?case using cmp [of "'' <= ''"] by (simp del: append_assoc)
  next
    case 11 then show ?case using v c between_renders by (cases v) auto
  next
    case 12 then show ?case using cd [of "'' IS NULL''"] by simp
  next
    case 13 then show ?case using cd [of "'' IS NOT NULL''"] by simp
  next
    case 14 then show ?case using cd [of "'' = CURRENT_DATE''"] by simp
  next
    case 15 then show ?case using week_renders [OF c] by simp
  next
    case 16 then show ?case using dy [of "'' = CURRENT_DATE - interval ''"] by simp
  next
    case 17 then show ?case using dy [of "'' = CURRENT_DATE + interval ''"] by simp
  next
    case 18 then show ?case using dy [of "'' > CURRENT_DATE - interval ''"] by simp
  next
    case 19 then show ?case using dy [of "'' < CURRENT_DATE - interval ''"] by simp
  next
    case 20 then show ?case using dy [of "'' < CURRENT_DATE + interval ''"] by simp
  next
    case 21 then show ?case using dy [of "'' > CURRENT_DATE + interval ''"] by simp
  next
    case 22 then show ?case using cd [of "'' = '' @ show_i64 i" for i] renders_code [of "''1 = 0''"]
      by (cases u) auto
  qed
qed

lemma filter_renders:
  assumes "\<forall>x. no_quote (fshow x)" and "dates_quote_free (flt_values f)"
  shows "rel_option renders (filter_to_sql fshow f u) (filter_pieces fshow u f)"
  using assms condition_renders column_no_quote
  by (auto simp: filter_to_sql_def filter_pieces_def split: option.split)

lemma filters_render:
  assumes "\<forall>x. no_quote (fshow x)" and "list_all (\<lambda>f. dates_quote_free (flt_values f)) fs"
  shows "list_all2 renders (List.map_filter (\<lambda>f. filter_to_sql fshow f u) fs)
     (List.map_filter (filter_pieces fshow u) fs)"
  using assms(2)
proof (induction fs)
  case (Cons f fs)
  then show ?case
    using filter_renders [OF assms(1), of f u]
    by (auto simp: map_filter_simps split: option.splits)
qed (simp add: map_filter_simps)

text \<open>
  C1. Whatever strings the filters of a query hold, the WHERE clause built from them is read by
  the database as the pieces of the reference translation: the code depends on the attributes,
  the operators and the shape of the values only, and every string is the content of one literal
  (a \<open>LIKE\<close> pattern with its wild cards escaped).  Dates are the exception: they have to be free
  of quotes.
\<close>

theorem where_clause_is_injection_safe:
  assumes "\<forall>x. no_quote (fshow x)"
    and "list_all (\<lambda>f. dates_quote_free (flt_values f)) filters"
  shows "sql_lex (fst (build_where_clause fshow filters u)) = Some (where_pieces fshow filters u)"
  using renders_join [OF filters_render [OF assms], of "'' AND ''" u]
  by (simp add: build_where_clause_def where_pieces_def renders_lex)

theorem where_clause_is_injection_safe_witness:
  "sql_lex (fst (build_where_clause (\<lambda>_. ''0'')
      [filter_new ''subject'' Equals (FvString (CHR 0x27 # '' OR 1=1 --''))] None)) =
   Some (where_pieces (\<lambda>_. ''0'')
      [filter_new ''subject'' Equals (FvString (CHR 0x27 # '' OR 1=1 --''))] None)"
  by (rule where_clause_is_injection_safe) (simp_all add: filter_new_def)

text \<open>
  A date is not escaped: this date value of a filter on \<open>due_date\<close> ends the literal and adds
  a condition of its own to the clause.
\<close>

theorem date_values_inject_sql:
  "sql_lex (fst (build_where_clause fshow
     [filter_new ''due_date'' Equals (FvDate (''x'' @ CHR 0x27 # '' OR 1=1 OR '' @ [CHR 0x27]))] u)) =
   Some (code ''wp.due_date = '' @ Lit ''x'' # code '' OR 1=1 OR '' @ [Lit []])"
  by (simp add: build_where_clause_def filter_to_sql_def attribute_to_column_def filter_new_def
      condition_to_sql_def quoted_def map_filter_simps)

subsection \<open>Order\<close>

definition order_columns :: "string list" where
  "order_columns =
     [''wp.id'', ''wp.subject'', ''wp.project_id'', ''t.position'', ''s.position'', ''p.position'',
      ''wp.author_id'', ''wp.assigned_to_id'', ''wp.responsible_id'', ''wp.start_date'',
      ''wp.due_date'', ''wp.estimated_hours'', ''wp.done_ratio'', ''wp.created_at'',
      ''wp.updated_at'', ''wp.version_id'', ''wp.category_id'', ''wp.parent_id'']"

definition order_terms :: "string list" where
  "order_terms = [c @ '' ASC NULLS LAST''. c \<leftarrow> order_columns] @
     [c @ '' DESC NULLS FIRST''. c \<leftarrow> order_columns] @ [''wp.id DESC'']"

lemma sort_column_in: "sort_attribute_to_column a = Some c \<Longrightarrow> c \<in> set order_columns"
  by (auto simp: sort_attribute_to_column_def order_columns_def split: if_splits)

lemma sort_term_in: "sort_to_sql s = Some x \<Longrightarrow> x \<in> set order_terms"
  using sort_column_in
  by (auto simp: sort_to_sql_def order_terms_def split: option.splits sort_direction.splits)

text \<open>
  Whatever the sort criteria, the ORDER BY clause is a non-empty list of terms out of a fixed
  set of 37 (a known column, ascending with nulls last or descending with nulls first, or the
  default): no text of the request reaches it.
\<close>

theorem order_clause_is_whitelisted:
  "\<exists>terms. terms \<noteq> [] \<and> set terms \<subseteq> set order_terms \<and> length order_terms = 37 \<and>
     build_order_clause sorts = ''ORDER BY '' @ join '', '' terms"
proof -
  let ?parts = "List.map_filter sort_to_sql sorts"
  have parts: "set ?parts \<subseteq> set order_terms"
    using sort_term_in by (auto simp: List.map_filter_def)
  have len: "length order_terms = 37" "''wp.id DESC'' \<in> set order_terms"
    by (simp_all add: order_terms_def order_columns_def)
  show ?thesis
  proof (cases "?parts = []")
    case True
    with len show ?thesis
      by (intro exI [of _ "[''wp.id DESC'']"]) (simp add: build_order_clause_def)
  next
    case False
    then have "sorts \<noteq> []" by (auto simp: map_filter_simps)
    with False len parts show ?thesis
      by (intro exI [of _ ?parts]) (simp add: build_order_clause_def Let_def)
  qed
qed

text \<open>
  Of the sortable standard columns, two have no translation, so sorting by them falls back to
  the default order without a word: the spent and the remaining hours.
\<close>

theorem sortable_columns_without_order:
  "filter (\<lambda>c. col_sortable c \<and> sort_attribute_to_column (col_name c) = None)
     [standard_id, standard_subject, standard_status, standard_type_column, standard_priority,
      standard_assigned_to, standard_author, standard_project, standard_start_date,
      standard_due_date, standard_estimated_hours, standard_spent_hours, standard_remaining_hours,
      standard_done_ratio, standard_created_at, standard_updated_at, standard_version,
      standard_category, standard_parent, standard_responsible] =
   [standard_spent_hours, standard_remaining_hours]"
  by (simp add: standard_defs column_defs sort_attribute_to_column_def)

subsection \<open>The presets\<close>

lemma show_int_zero: "show_int 0 = ''0''"
  by code_simp

lemmas where_defs = build_where_clause_def filter_to_sql_def attribute_to_column_def filter_new_def
  condition_to_sql_def sql_days_def quoted_def map_filter_simps preset_filters

text \<open>
  The presets in SQL.  ``Watched'' filters on an attribute without a column, so its clause is
  empty and it returns every work package; ``Overdue'' asks for due dates \<open>after\<close> today minus no
  days, so it returns what is not overdue; and its filter fails the validity check of filter sets,
  the only preset to do so.
\<close>

theorem preset_where_clauses:
  "fst (build_where_clause fshow (q_filters preset_watched_by_me) u) = [] \<and>
   fst (build_where_clause fshow (q_filters preset_overdue) u) =
     ''wp.due_date > CURRENT_DATE - interval '' @ quoted ''0 days'' @
     '' AND wp.status_id IS NOT NULL'' \<and>
   fst (build_where_clause fshow (q_filters preset_my_work_packages) (Some i)) =
     ''wp.assigned_to_id = '' @ show_i64 i @ '' AND wp.status_id IS NOT NULL'' \<and>
   map (\<lambda>q. filter_set_is_valid (q_filters q)) preset_queries =
     [True, True, True, True, True, True, True, False]"
  by (simp add: where_defs preset_queries_def filters_valid_defs show_int_zero)

end
