(* ===== verification/Regex.thy ===== *)
theory Regex
  imports Prelude
begin

section \<open>Regular expressions of the contracts\<close>

text \<open>
  The contracts match their inputs against anchored regular expressions.  A pattern is a term of
  \<open>rx\<close>, matched by derivatives; \<open>rx_lang\<close> is the language it stands for, and the matcher decides
  it.  An alternative \<open>^r$\<close> matches a text exactly when the whole text is in \<open>r\<close>.
\<close>

datatype rx =
    RNone
  | REps
  | RCls "(char \<times> char) list"
  | RSeq rx rx
  | RAlt rx rx
  | RStar rx

definition in_class :: "(char \<times> char) list \<Rightarrow> char \<Rightarrow> bool" where
  "in_class rs c \<longleftrightarrow>
     list_ex (\<lambda>(l, h). (of_char l :: nat) \<le> of_char c \<and> (of_char c :: nat) \<le> of_char h) rs"

fun nullable :: "rx \<Rightarrow> bool" where
  "nullable RNone = False"
| "nullable REps = True"
| "nullable (RCls _) = False"
| "nullable (RSeq r s) = (nullable r \<and> nullable s)"
| "nullable (RAlt r s) = (nullable r \<or> nullable s)"
| "nullable (RStar r) = True"

fun deriv_rx :: "char \<Rightarrow> rx \<Rightarrow> rx" where
  "deriv_rx c RNone = RNone"
| "deriv_rx c REps = RNone"
| "deriv_rx c (RCls rs) = (if in_class rs c then REps else RNone)"
| "deriv_rx c (RSeq r s) =
     (if nullable r then RAlt (RSeq (deriv_rx c r) s) (deriv_rx c s) else RSeq (deriv_rx c r) s)"
| "deriv_rx c (RAlt r s) = RAlt (deriv_rx c r) (deriv_rx c s)"
| "deriv_rx c (RStar r) = RSeq (deriv_rx c r) (RStar r)"

fun rx_match :: "rx \<Rightarrow> string \<Rightarrow> bool" where
  "rx_match r [] = nullable r"
| "rx_match r (c # s) = rx_match (deriv_rx c r) s"

fun rx_lang :: "rx \<Rightarrow> string set" where
  "rx_lang RNone = {}"
| "rx_lang REps = {[]}"
| "rx_lang (RCls rs) = {[c] | c. in_class rs c}"
| "rx_lang (RSeq r s) = {u @ v | u v. u \<in> rx_lang r \<and> v \<in> rx_lang s}"
| "rx_lang (RAlt r s) = rx_lang r \<union> rx_lang s"
| "rx_lang (RStar r) = {concat us | us. set us \<subseteq> rx_lang r}"

lemma nullable_iff: "nullable r \<longleftrightarrow> [] \<in> rx_lang r"
  by (induction r) (auto intro: exI [of _ "[]"])

lemma star_unfold:
  "c # s \<in> rx_lang (RStar r) \<longleftrightarrow>
     (\<exists>u v. s = u @ v \<and> c # u \<in> rx_lang r \<and> v \<in> rx_lang (RStar r))"
proof
  assume "c # s \<in> rx_lang (RStar r)"
  then obtain us where us: "concat us = c # s" "set us \<subseteq> rx_lang r" by auto
  then show "\<exists>u v. s = u @ v \<and> c # u \<in> rx_lang r \<and> v \<in> rx_lang (RStar r)"
  proof (induction us)
    case (Cons w us)
    show ?case
    proof (cases w)
      case Nil
      with Cons show ?thesis by auto
    next
      case (Cons d u)
      with Cons.prems show ?thesis by auto
    qed
  qed simp
next
  assume "\<exists>u v. s = u @ v \<and> c # u \<in> rx_lang r \<and> v \<in> rx_lang (RStar r)"
  then obtain u us where "s = u @ concat us" "c # u \<in> rx_lang r" "set us \<subseteq> rx_lang r" by auto
  then show "c # s \<in> rx_lang (RStar r)"
    by (auto intro!: exI [of _ "(c # u) # us"])
qed

lemma deriv_rx_lang: "s \<in> rx_lang (deriv_rx c r) \<longleftrightarrow> c # s \<in> rx_lang r"
proof (induction r arbitrary: s)
  case (RSeq r1 r2)
  have "c # s \<in> rx_lang (RSeq r1 r2) \<longleftrightarrow>
      (\<exists>u v. s = u @ v \<and> c # u \<in> rx_lang r1 \<and> v \<in> rx_lang r2) \<or>
      ([] \<in> rx_lang r1 \<and> c # s \<in> rx_lang r2)"
    by (auto simp: Cons_eq_append_conv)
  with RSeq show ?case by (auto simp: nullable_iff)
next
  case (RStar r)
  then show ?case unfolding star_unfold by simp
qed auto

lemma rx_match_iff: "rx_match r s \<longleftrightarrow> s \<in> rx_lang r"
  by (induction s arbitrary: r) (simp_all add: nullable_iff deriv_rx_lang)

lemma star_class: "s \<in> rx_lang (RStar (RCls rs)) \<longleftrightarrow> list_all (in_class rs) s"
proof
  assume "s \<in> rx_lang (RStar (RCls rs))"
  then obtain us where us: "s = concat us" "set us \<subseteq> rx_lang (RCls rs)" by auto
  from us(2) have "list_all (in_class rs) (concat us)" by (induction us) auto
  with us(1) show "list_all (in_class rs) s" by simp
next
  assume "list_all (in_class rs) s"
  then show "s \<in> rx_lang (RStar (RCls rs))"
    by (auto simp: list_all_iff intro!: exI [of _ "map (\<lambda>c. [c]) s"])
qed

lemma class_singleton: "s \<in> rx_lang (RCls rs) \<longleftrightarrow> (\<exists>c. s = [c] \<and> in_class rs c)"
  by auto

lemma seq_iff: "s \<in> rx_lang (RSeq r1 r2) \<longleftrightarrow> (\<exists>u v. s = u @ v \<and> u \<in> rx_lang r1 \<and> v \<in> rx_lang r2)"
  by auto

lemma seq_class_first:
  "s \<in> rx_lang (RSeq (RCls rs) q) \<longleftrightarrow> (\<exists>c t. s = c # t \<and> in_class rs c \<and> t \<in> rx_lang q)"
  unfolding seq_iff class_singleton by (metis append_Cons append_Nil)

lemma seq_class_last:
  "s \<in> rx_lang (RSeq q (RCls rs)) \<longleftrightarrow> (\<exists>t c. s = t @ [c] \<and> t \<in> rx_lang q \<and> in_class rs c)"
  unfolding seq_iff class_singleton by blast

definition lit :: "char \<Rightarrow> rx" where
  "lit c = RCls [(c, c)]"

lemma in_class_lit [simp]: "in_class [(c, c)] d \<longleftrightarrow> d = c"
  by (auto simp: in_class_def dest: order_antisym)

text \<open>\<open>r+\<close> and \<open>r{2,}\<close>.\<close>

definition rplus :: "rx \<Rightarrow> rx" where
  "rplus r = RSeq r (RStar r)"

definition rtwo_or_more :: "rx \<Rightarrow> rx" where
  "rtwo_or_more r = RSeq r (RSeq r (RStar r))"

lemma rplus_class: "s \<in> rx_lang (rplus (RCls rs)) \<longleftrightarrow> s \<noteq> [] \<and> list_all (in_class rs) s"
  unfolding rplus_def seq_class_first star_class by (cases s) auto

lemma rtwo_class:
  "s \<in> rx_lang (rtwo_or_more (RCls rs)) \<longleftrightarrow> 2 \<le> length s \<and> list_all (in_class rs) s"
proof -
  have "s \<in> rx_lang (rtwo_or_more (RCls rs)) \<longleftrightarrow>
      (\<exists>c t. s = c # t \<and> in_class rs c \<and> t \<in> rx_lang (rplus (RCls rs)))"
    unfolding rtwo_or_more_def rplus_def [symmetric] seq_class_first ..
  also have "\<dots> \<longleftrightarrow> 2 \<le> length s \<and> list_all (in_class rs) s"
    unfolding rplus_class by (cases s; cases "tl s") auto
  finally show ?thesis .
qed

lemmas rx_iffs = rx_match_iff seq_class_first seq_class_last class_singleton star_class rplus_class rtwo_class seq_iff

declare rx_match.simps [simp del] rx_lang.simps [simp del]

subsection \<open>The patterns of the contracts\<close>

definition alnum_lower :: "(char \<times> char) list" where
  "alnum_lower = [(CHR ''a'', CHR ''z''), (CHR ''0'', CHR ''9'')]"

definition letters :: "(char \<times> char) list" where
  "letters = [(CHR ''a'', CHR ''z''), (CHR ''A'', CHR ''Z'')]"

text \<open>\<open>^[a-z0-9][a-z0-9_-]*[a-z0-9]$|^[a-z0-9]$\<close>\<close>

definition identifier_class :: "(char \<times> char) list" where
  "identifier_class = alnum_lower @ [(CHR ''_'', CHR ''_''), (CHR ''-'', CHR ''-'')]"

definition identifier_pattern :: rx where
  "identifier_pattern =
     RAlt (RSeq (RCls alnum_lower) (RSeq (RStar (RCls identifier_class)) (RCls alnum_lower)))
          (RCls alnum_lower)"

text \<open>\<open>^[a-zA-Z0-9._%+-]+@[a-zA-Z0-9.-]+\.[a-zA-Z]{2,}$\<close>\<close>

definition email_local_class :: "(char \<times> char) list" where
  "email_local_class = letters @ [(CHR ''0'', CHR ''9''), (CHR ''.'', CHR ''.''),
     (CHR ''_'', CHR ''_''), (CHR ''%'', CHR ''%''), (CHR ''+'', CHR ''+''), (CHR ''-'', CHR ''-'')]"

definition email_domain_class :: "(char \<times> char) list" where
  "email_domain_class = letters @ [(CHR ''0'', CHR ''9''), (CHR ''.'', CHR ''.''),
     (CHR ''-'', CHR ''-'')]"

definition email_pattern :: rx where
  "email_pattern =
     RSeq (rplus (RCls email_local_class)) (RSeq (lit CHR ''@'')
       (RSeq (rplus (RCls email_domain_class)) (RSeq (lit CHR ''.'')
         (rtwo_or_more (RCls letters)))))"

text \<open>\<open>^[a-zA-Z0-9_@.\-]+$\<close>\<close>

definition login_class :: "(char \<times> char) list" where
  "login_class = letters @ [(CHR ''0'', CHR ''9''), (CHR ''_'', CHR ''_''), (CHR ''@'', CHR ''@''),
     (CHR ''.'', CHR ''.''), (CHR ''-'', CHR ''-'')]"

definition login_pattern :: rx where
  "login_pattern = rplus (RCls login_class)"

lemma in_class_append [simp]: "in_class (rs @ qs) c \<longleftrightarrow> in_class rs c \<or> in_class qs c"
  by (simp add: in_class_def)

lemma identifier_pattern_iff:
  "rx_match identifier_pattern s \<longleftrightarrow>
     s \<noteq> [] \<and> list_all (in_class identifier_class) s \<and>
     in_class alnum_lower (hd s) \<and> in_class alnum_lower (last s)"
proof -
  have "rx_match identifier_pattern s \<longleftrightarrow>
      (\<exists>a m z. s = a # m @ [z] \<and> in_class alnum_lower a \<and> list_all (in_class identifier_class) m \<and>
         in_class alnum_lower z) \<or> (\<exists>a. s = [a] \<and> in_class alnum_lower a)"
    unfolding identifier_pattern_def rx_match_iff
    by (simp add: rx_lang.simps(5) seq_class_first seq_class_last class_singleton star_class) blast
  also have "\<dots> \<longleftrightarrow> s \<noteq> [] \<and> list_all (in_class identifier_class) s \<and>
     in_class alnum_lower (hd s) \<and> in_class alnum_lower (last s)"
  proof (cases s)
    case (Cons a t)
    then show ?thesis
      by (cases t rule: rev_cases) (auto simp: identifier_class_def)
  qed simp
  finally show ?thesis .
qed

lemma login_pattern_iff:
  "rx_match login_pattern s \<longleftrightarrow> s \<noteq> [] \<and> list_all (in_class login_class) s"
  by (simp add: login_pattern_def rx_iffs)

lemma email_pattern_iff:
  "rx_match email_pattern s \<longleftrightarrow>
     (\<exists>l d t. s = l @ CHR ''@'' # d @ CHR ''.'' # t \<and>
        l \<noteq> [] \<and> list_all (in_class email_local_class) l \<and>
        d \<noteq> [] \<and> list_all (in_class email_domain_class) d \<and>
        2 \<le> length t \<and> list_all (in_class letters) t)"
proof -
  have at: "u \<in> rx_lang (RSeq (lit c) q) \<longleftrightarrow> (\<exists>t. u = c # t \<and> t \<in> rx_lang q)" for u c q
    unfolding lit_def seq_class_first by auto
  show ?thesis
    unfolding email_pattern_def rx_match_iff seq_iff [of s] at seq_iff [of _ "rplus _"] rplus_class
      rtwo_class
    by blast
qed

text \<open>
  What the three patterns of the contracts accept: identifiers of lower case letters, digits,
  dashes and underscores that start and end with a letter or a digit; logins of letters, digits
  and \<open>_ @ . -\<close>; addresses with a local part, a domain and a last label of two letters or more
  (nothing excludes two dots in a row).
\<close>

theorem contract_patterns_accept:
  "(rx_match identifier_pattern s \<longleftrightarrow>
      s \<noteq> [] \<and> list_all (in_class identifier_class) s \<and>
      in_class alnum_lower (hd s) \<and> in_class alnum_lower (last s)) \<and>
   (rx_match login_pattern s \<longleftrightarrow> s \<noteq> [] \<and> list_all (in_class login_class) s) \<and>
   (rx_match email_pattern s \<longleftrightarrow>
      (\<exists>l d t. s = l @ CHR ''@'' # d @ CHR ''.'' # t \<and>
         l \<noteq> [] \<and> list_all (in_class email_local_class) l \<and>
         d \<noteq> [] \<and> list_all (in_class email_domain_class) d \<and>
         2 \<le> length t \<and> list_all (in_class letters) t)) \<and>
   rx_match email_pattern ''a@b..com''"
proof -
  have "rx_match email_pattern ''a@b..com''" by code_simp
  then show ?thesis
    by (simp only: identifier_pattern_iff login_pattern_iff email_pattern_iff simp_thms)
qed

end
