(* ===== verification/Contracts_Base.thy ===== *)
theory Contracts_Base
  imports Core_Errors
begin

section \<open>Contracts (\<open>crates/op-contracts/src/base.rs\<close>)\<close>

text \<open>
  The user a contract asks, the outcome of a validation, the tracker of changed attributes, and
  the interface \<open>contract\<close> that the services rely on: a failed validation carries at least one
  error.  Validations thread the collected errors; \<open>contract_simps\<close> holds, for each check, when
  it leaves them empty.
\<close>

named_theorems contract_simps \<open>when a validation step adds no error\<close>

type_synonym validation_result = "(unit, validation_errors) result"

text \<open>\<open>UserContext\<close>: what a contract may ask of the user.\<close>

record user_context =
  uc_id :: Id
  uc_is_admin :: bool
  uc_is_anonymous :: bool
  uc_allowed_in_project :: "string \<Rightarrow> Id \<Rightarrow> bool"
  uc_allowed_globally :: "string \<Rightarrow> bool"
  uc_allowed_for_work_package :: "string \<Rightarrow> Id \<Rightarrow> bool"

text \<open>The default of \<open>allowed_for_work_package\<close>.\<close>

definition default_allowed_for_work_package :: "string \<Rightarrow> Id \<Rightarrow> bool" where
  "default_allowed_for_work_package permission work_package_id = False"

text \<open>The end of every \<open>validate\<close>.\<close>

definition validation_outcome :: "validation_errors \<Rightarrow> validation_result" where
  "validation_outcome errors = (if ve_is_empty errors then Ok () else Err errors)"

text \<open>\<open>if let Err(base_errors) = ... { errors.merge(base_errors) }\<close>.\<close>

definition merge_outcome :: "validation_result \<Rightarrow> validation_errors \<Rightarrow> validation_errors" where
  "merge_outcome r errors =
     (case r of Inr _ \<Rightarrow> errors | Inl base_errors \<Rightarrow> ve_merge errors base_errors)"

subsection \<open>Change tracking\<close>

type_synonym change_tracker = "string set"

definition change_tracker_new :: change_tracker where
  "change_tracker_new = {}"

definition mark_changed :: "string \<Rightarrow> change_tracker \<Rightarrow> change_tracker" where
  "mark_changed attribute t = insert attribute t"

definition is_changed :: "string \<Rightarrow> change_tracker \<Rightarrow> bool" where
  "is_changed attribute t \<longleftrightarrow> attribute \<in> t"

lemma is_changed_simps [simp]:
  "\<not> is_changed a change_tracker_new"
  "is_changed a (mark_changed b t) \<longleftrightarrow> a = b \<or> is_changed a t"
  by (auto simp: is_changed_def change_tracker_new_def mark_changed_def)

subsection \<open>The interface\<close>

locale contract =
  fixes validate :: "'e \<Rightarrow> validation_result"
  assumes errors_present: "validate e = Err er \<Longrightarrow> \<not> ve_is_empty er"
    and errors_ok: "validate e = Err er \<Longrightarrow> ve_ok er"
begin

lemma merge_empty: "ve_is_empty (merge_outcome (validate e) errors) \<longleftrightarrow>
    ve_is_empty errors \<and> validate e = Ok ()"
  using errors_present by (auto simp: merge_outcome_def split: sum.split)

lemma merge_ok: "ve_ok errors \<Longrightarrow> ve_ok (merge_outcome (validate e) errors)"
  by (auto simp: merge_outcome_def split: sum.split)

lemma rejected_iff: "(\<exists>er. validate e = Err er) \<longleftrightarrow> validate e \<noteq> Ok ()"
  by (cases "validate e") auto

end

lemma validation_outcome_ok [simp]: "validation_outcome e = Ok () \<longleftrightarrow> ve_is_empty e"
  by (simp add: validation_outcome_def)

lemma contract_outcome:
  assumes "\<And>e. ve_ok (collect e)"
  shows "contract (\<lambda>e. validation_outcome (collect e))"
  using assms by unfold_locales (auto simp: validation_outcome_def split: if_splits)

subsection \<open>The fields a validation blames\<close>

definition ve_field :: "validation_errors \<Rightarrow> string \<Rightarrow> bool" where
  "ve_field e f \<longleftrightarrow> ve_msgs e f \<noteq> []"

definition failed_fields :: "validation_result \<Rightarrow> string set" where
  "failed_fields r = (case r of Inr _ \<Rightarrow> {} | Inl e \<Rightarrow> {f. ve_field e f})"

lemma ve_field_simps [contract_simps]:
  "\<not> ve_field ve_new f"
  "ve_field (ve_add g m e) f \<longleftrightarrow> f = g \<or> ve_field e f"
  by (auto simp: ve_field_def)

lemma ve_field_merge [contract_simps]:
  "ve_ok b \<Longrightarrow> ve_field (ve_merge e b) f \<longleftrightarrow> ve_field e f \<or> ve_field b f"
  by (auto simp: ve_field_def ve_get_merge split: option.splits)

lemma ve_is_empty_field: "ve_is_empty e \<Longrightarrow> \<not> ve_field e f"
  by (simp add: ve_field_def ve_is_empty_get)

lemma failed_fields_outcome: "failed_fields (validation_outcome e) = {f. ve_field e f}"
  by (auto simp: failed_fields_def validation_outcome_def ve_is_empty_field)

lemma failed_fields_Ok [simp]: "failed_fields (Ok ()) = {}"
  by (simp add: failed_fields_def)

context contract
begin

lemma merge_fields:
  "ve_field (merge_outcome (validate e) errors) f \<longleftrightarrow>
     ve_field errors f \<or> f \<in> failed_fields (validate e)"
  using errors_ok by (auto simp: merge_outcome_def failed_fields_def ve_field_merge split: sum.split)

end

end
