(* ===== verification/Contracts_Projects.thy ===== *)
theory Contracts_Projects
  imports Contracts_Base Regex
begin

section \<open>Project contracts (\<open>crates/op-contracts/src/projects\<close>)\<close>

text \<open>
  Validation of projects on creation, update and deletion.  For each contract: what it accepts
  (an equivalence with the permissions and the data), and that it is an instance of the interface
  \<open>contract\<close>.
\<close>

definition VIEW_PROJECT :: string where "VIEW_PROJECT = ''view_project''"
definition EDIT_PROJECT :: string where "EDIT_PROJECT = ''edit_project''"
definition ADD_PROJECT :: string where "ADD_PROJECT = ''add_project''"

definition reserved_identifiers :: "string list" where
  "reserved_identifiers =
     [''new'', ''edit'', ''delete'', ''destroy'', ''create'', ''update'', ''admin'', ''api'',
      ''settings'', ''logout'', ''login'']"

record project_data =
  pd_id :: "Id option"
  pd_identifier :: string
  pd_name :: string
  pd_description :: "string option"
  pd_public :: bool
  pd_parent_id :: "Id option"
  pd_active :: bool

subsection \<open>Base contract\<close>

definition validate_identifier :: "string \<Rightarrow> validation_errors \<Rightarrow> validation_errors" where
  "validate_identifier identifier errors =
     (if identifier = [] then ve_add ''identifier'' ''can't be blank'' errors
      else if length identifier < 1 \<or> 100 < length identifier
      then ve_add ''identifier'' ''is too long (maximum is 100 characters)'' errors
      else
        (let errors1 =
           (if \<not> rx_match identifier_pattern identifier
            then ve_add ''identifier'' ''is invalid. Only lowercase letters, numbers, dashes and underscores allowed. It must start with a letter or number.'' errors
            else errors)
         in if identifier \<in> set reserved_identifiers
            then ve_add ''identifier'' ''is reserved and cannot be used'' errors1
            else errors1))"

definition validate_name :: "string \<Rightarrow> validation_errors \<Rightarrow> validation_errors" where
  "validate_name name errors =
     (if trim name = [] then ve_add ''name'' ''can't be blank'' errors
      else if 255 < length name then ve_add ''name'' ''is too long (maximum is 255 characters)'' errors
      else errors)"

definition validate_parent ::
    "user_context \<Rightarrow> Id option \<Rightarrow> validation_errors \<Rightarrow> validation_errors" where
  "validate_parent user parent_id errors =
     (case parent_id of
        None \<Rightarrow> errors
      | Some pid \<Rightarrow>
          (if \<not> uc_is_admin user \<and> \<not> uc_allowed_in_project user ADD_PROJECT pid
           then ve_add ''parent'' ''is not accessible or you don't have permission to add subprojects'' errors
           else errors))"

definition project_base_validate :: "user_context \<Rightarrow> project_data \<Rightarrow> validation_result" where
  "project_base_validate user entity = validation_outcome
     (validate_parent user (pd_parent_id entity)
      (validate_name (pd_name entity)
       (validate_identifier (pd_identifier entity) ve_new)))"

subsection \<open>Create\<close>

definition create_project_allowed :: "user_context \<Rightarrow> validation_errors \<Rightarrow> validation_errors" where
  "create_project_allowed user errors =
     (if \<not> (uc_is_admin user \<or> uc_allowed_globally user ADD_PROJECT)
      then ve_add ''base'' ''You are not authorized to create projects'' errors
      else errors)"

text \<open>The uniqueness check does nothing yet.\<close>

definition validate_identifier_unique :: "string \<Rightarrow> validation_errors \<Rightarrow> validation_errors" where
  "validate_identifier_unique identifier errors = errors"

definition create_project_validate :: "user_context \<Rightarrow> project_data \<Rightarrow> validation_result" where
  "create_project_validate user entity = validation_outcome
     (validate_identifier_unique (pd_identifier entity)
      (merge_outcome (project_base_validate user entity)
       (create_project_allowed user ve_new)))"

definition create_project_is_writable :: "string \<Rightarrow> bool" where
  "create_project_is_writable attribute \<longleftrightarrow> attribute \<in> set
     [''identifier'', ''name'', ''description'', ''public'', ''parent_id'',
      ''status_code'', ''status_explanation'', ''templated'']"

subsection \<open>Update\<close>

record update_project_contract =
  upc_user :: user_context
  upc_project_id :: Id
  upc_changes :: change_tracker

definition update_project_contract_new :: "user_context \<Rightarrow> Id \<Rightarrow> update_project_contract" where
  "update_project_contract_new user project_id =
     \<lparr>upc_user = user, upc_project_id = project_id, upc_changes = change_tracker_new\<rparr>"

definition update_project_mark_changed ::
    "string \<Rightarrow> update_project_contract \<Rightarrow> update_project_contract" where
  "update_project_mark_changed attribute c = c\<lparr>upc_changes := mark_changed attribute (upc_changes c)\<rparr>"

definition edit_project_allowed ::
    "update_project_contract \<Rightarrow> validation_errors \<Rightarrow> validation_errors" where
  "edit_project_allowed c errors =
     (if \<not> (uc_is_admin (upc_user c)
           \<or> uc_allowed_in_project (upc_user c) EDIT_PROJECT (upc_project_id c))
      then ve_add ''base'' ''You are not authorized to edit this project'' errors
      else errors)"

definition validate_identifier_not_changed ::
    "update_project_contract \<Rightarrow> validation_errors \<Rightarrow> validation_errors" where
  "validate_identifier_not_changed c errors =
     (if is_changed ''identifier'' (upc_changes c)
      then ve_add ''identifier'' ''cannot be changed after project creation'' errors
      else errors)"

definition validate_parent_change ::
    "update_project_contract \<Rightarrow> Id option \<Rightarrow> validation_errors \<Rightarrow> validation_errors" where
  "validate_parent_change c new_parent_id errors =
     (if \<not> is_changed ''parent_id'' (upc_changes c) then errors
      else (case new_parent_id of
          None \<Rightarrow> errors
        | Some pid \<Rightarrow>
            (if pid = upc_project_id c
             then ve_add ''parent'' ''cannot be set to the project itself'' errors
             else if \<not> uc_is_admin (upc_user c)
                   \<and> \<not> uc_allowed_in_project (upc_user c) ADD_PROJECT pid
             then ve_add ''parent'' ''you don't have permission to move project under this parent'' errors
             else errors)))"

text \<open>
  The base errors are copied field by field, in the order of the map, without the errors on the
  identifier when it has not changed; base errors outside the map are not copied.
\<close>

definition add_field_errors ::
    "update_project_contract \<Rightarrow> validation_errors \<Rightarrow> validation_errors \<Rightarrow> validation_errors" where
  "add_field_errors c base_errors errors =
     fold (\<lambda>(field, messages) errors.
             if field \<noteq> ''identifier'' \<or> is_changed ''identifier'' (upc_changes c)
             then fold (ve_add field) messages errors else errors)
       (ve_errors base_errors) errors"

definition update_project_validate ::
    "update_project_contract \<Rightarrow> project_data \<Rightarrow> validation_result" where
  "update_project_validate c entity = validation_outcome
     (let errors = validate_parent_change c (pd_parent_id entity)
                     (validate_identifier_not_changed c (edit_project_allowed c ve_new))
      in case project_base_validate (upc_user c) entity of
           Inl base_errors \<Rightarrow> add_field_errors c base_errors errors
         | Inr _ \<Rightarrow> errors)"

definition update_project_is_writable :: "string \<Rightarrow> bool" where
  "update_project_is_writable attribute \<longleftrightarrow>
     (if attribute = ''identifier'' then False
      else attribute \<in> set [''name'', ''description'', ''public'', ''parent_id'', ''status_code'',
                           ''status_explanation'', ''active''])"

subsection \<open>Delete\<close>

record delete_project_data =
  dpd_id :: Id
  dpd_has_children :: bool
  dpd_work_package_count :: i64

definition delete_project_allowed :: "user_context \<Rightarrow> validation_errors \<Rightarrow> validation_errors" where
  "delete_project_allowed user errors =
     (if \<not> uc_is_admin user
      then ve_add ''base'' ''Only administrators can delete projects'' errors else errors)"

definition delete_project_validate ::
    "user_context \<Rightarrow> delete_project_data \<Rightarrow> validation_result" where
  "delete_project_validate user entity = validation_outcome (delete_project_allowed user ve_new)"

definition delete_project_is_writable :: "string \<Rightarrow> bool" where
  "delete_project_is_writable attribute = False"

subsection \<open>What the checks accept\<close>

definition identifier_acceptable :: "string \<Rightarrow> bool" where
  "identifier_acceptable s \<longleftrightarrow>
     1 \<le> length s \<and> length s \<le> 100 \<and> s \<notin> set reserved_identifiers \<and>
     list_all (in_class identifier_class) s \<and>
     in_class alnum_lower (hd s) \<and> in_class alnum_lower (last s)"

definition name_acceptable :: "string \<Rightarrow> bool" where
  "name_acceptable s \<longleftrightarrow> trim s \<noteq> [] \<and> length s \<le> 255"

definition may_add_project_under :: "user_context \<Rightarrow> Id option \<Rightarrow> bool" where
  "may_add_project_under user parent \<longleftrightarrow>
     (\<forall>pid\<in>set_option parent. uc_is_admin user \<or> uc_allowed_in_project user ADD_PROJECT pid)"

lemma project_checks [contract_simps]:
  "ve_is_empty (validate_identifier s e) \<longleftrightarrow> ve_is_empty e \<and> identifier_acceptable s"
  "ve_is_empty (validate_name s e) \<longleftrightarrow> ve_is_empty e \<and> name_acceptable s"
  "ve_is_empty (validate_parent u p e) \<longleftrightarrow> ve_is_empty e \<and> may_add_project_under u p"
  "ve_is_empty (create_project_allowed u e) \<longleftrightarrow>
     ve_is_empty e \<and> (uc_is_admin u \<or> uc_allowed_globally u ADD_PROJECT)"
  "ve_is_empty (delete_project_allowed u e) \<longleftrightarrow> ve_is_empty e \<and> uc_is_admin u"
  by (auto simp: validate_identifier_def validate_name_def validate_parent_def
      create_project_allowed_def delete_project_allowed_def identifier_acceptable_def
      name_acceptable_def may_add_project_under_def identifier_pattern_iff not_less Let_def
      Suc_le_eq split: option.split)

lemma project_checks_ok [contract_simps]:
  "ve_ok e \<Longrightarrow> ve_ok (validate_identifier s e)"
  "ve_ok e \<Longrightarrow> ve_ok (validate_name s e)"
  "ve_ok e \<Longrightarrow> ve_ok (validate_parent u p e)"
  "ve_ok e \<Longrightarrow> ve_ok (create_project_allowed u e)"
  "ve_ok e \<Longrightarrow> ve_ok (delete_project_allowed u e)"
  "ve_ok e \<Longrightarrow> ve_ok (edit_project_allowed c e)"
  "ve_ok e \<Longrightarrow> ve_ok (validate_identifier_not_changed c e)"
  "ve_ok e \<Longrightarrow> ve_ok (validate_parent_change c p e)"
  by (auto simp: validate_identifier_def validate_name_def validate_parent_def Let_def
      create_project_allowed_def delete_project_allowed_def edit_project_allowed_def
      validate_identifier_not_changed_def validate_parent_change_def split: option.split)

interpretation project_base: contract "project_base_validate user" for user
  unfolding project_base_validate_def by (rule contract_outcome) (simp add: contract_simps)

interpretation create_project: contract "create_project_validate user" for user
  unfolding create_project_validate_def
  by (rule contract_outcome)
     (simp add: contract_simps project_base.merge_ok validate_identifier_unique_def)

interpretation delete_project: contract "delete_project_validate user" for user
  unfolding delete_project_validate_def by (rule contract_outcome) (simp add: contract_simps)

lemma project_base_ok_iff:
  "project_base_validate u d = Ok () \<longleftrightarrow>
     identifier_acceptable (pd_identifier d) \<and> name_acceptable (pd_name d) \<and>
     may_add_project_under u (pd_parent_id d)"
  by (auto simp: project_base_validate_def contract_simps)

lemma create_project_ok_iff:
  "create_project_validate u d = Ok () \<longleftrightarrow>
     (uc_is_admin u \<or> uc_allowed_globally u ADD_PROJECT) \<and>
     identifier_acceptable (pd_identifier d) \<and> name_acceptable (pd_name d) \<and>
     may_add_project_under u (pd_parent_id d)"
  by (auto simp: create_project_validate_def contract_simps validate_identifier_unique_def
      project_base.merge_empty project_base_ok_iff)

lemma delete_project_ok_iff: "delete_project_validate u d = Ok () \<longleftrightarrow> uc_is_admin u"
  by (simp add: delete_project_validate_def contract_simps)

lemma project_fields [contract_simps]:
  "ve_field (validate_identifier s e) f \<longleftrightarrow>
     ve_field e f \<or> (f = ''identifier'' \<and> \<not> identifier_acceptable s)"
  "ve_field (validate_name s e) f \<longleftrightarrow> ve_field e f \<or> (f = ''name'' \<and> \<not> name_acceptable s)"
  "ve_field (validate_parent u p e) f \<longleftrightarrow>
     ve_field e f \<or> (f = ''parent'' \<and> \<not> may_add_project_under u p)"
  "ve_field (create_project_allowed u e) f \<longleftrightarrow>
     ve_field e f \<or> (f = ''base'' \<and> \<not> uc_is_admin u \<and> \<not> uc_allowed_globally u ADD_PROJECT)"
  by (auto simp: validate_identifier_def validate_name_def validate_parent_def
      create_project_allowed_def identifier_acceptable_def ve_field_simps
      name_acceptable_def may_add_project_under_def identifier_pattern_iff not_less Let_def
      Suc_le_eq split: option.split)

lemma project_base_fields:
  "failed_fields (project_base_validate u d) =
     {f. (f = ''identifier'' \<and> \<not> identifier_acceptable (pd_identifier d)) \<or>
         (f = ''name'' \<and> \<not> name_acceptable (pd_name d)) \<or>
         (f = ''parent'' \<and> \<not> may_add_project_under u (pd_parent_id d))}"
  by (auto simp: project_base_validate_def failed_fields_outcome contract_simps)

text \<open>
  C6. Creating a project: the contract accepts exactly the well-formed data of a user who may
  create projects, and a rejection blames exactly the fields that are at fault.
\<close>

theorem create_project_contract_correct:
  "(create_project_validate u d = Ok () \<longleftrightarrow>
      (uc_is_admin u \<or> uc_allowed_globally u ADD_PROJECT) \<and>
      identifier_acceptable (pd_identifier d) \<and> name_acceptable (pd_name d) \<and>
      may_add_project_under u (pd_parent_id d)) \<and>
   failed_fields (create_project_validate u d) =
     {f. (f = ''base'' \<and> \<not> uc_is_admin u \<and> \<not> uc_allowed_globally u ADD_PROJECT) \<or>
         (f = ''identifier'' \<and> \<not> identifier_acceptable (pd_identifier d)) \<or>
         (f = ''name'' \<and> \<not> name_acceptable (pd_name d)) \<or>
         (f = ''parent'' \<and> \<not> may_add_project_under u (pd_parent_id d))}"
  unfolding create_project_ok_iff
  by (auto simp: create_project_validate_def failed_fields_outcome contract_simps
      validate_identifier_unique_def project_base.merge_fields project_base_fields)

subsection \<open>Update\<close>

lemma fold_ve_add:
  "ve_is_empty (fold (ve_add f) ms e) \<longleftrightarrow> ve_is_empty e \<and> ms = []"
  "ve_ok e \<Longrightarrow> ve_ok (fold (ve_add f) ms e)"
  by (induction ms arbitrary: e) simp_all

lemma fold_fields:
  fixes xs :: "(string \<times> string list) list"
  shows "ve_is_empty (fold (\<lambda>(f, ms) e. if P f then fold (ve_add f) ms e else e) xs e) \<longleftrightarrow>
      ve_is_empty e \<and> (\<forall>(f, ms)\<in>set xs. P f \<longrightarrow> ms = [])"
    and "ve_ok e \<Longrightarrow> ve_ok (fold (\<lambda>(f, ms) e. if P f then fold (ve_add f) ms e else e) xs e)"
  by (induction xs arbitrary: e) (auto simp: fold_ve_add split: if_splits)

lemma add_field_errors_empty:
  assumes "ve_ok b"
  shows "ve_is_empty (add_field_errors c b e) \<longleftrightarrow> ve_is_empty e \<and>
     (\<forall>f. ve_field b f \<longrightarrow> f = ''identifier'' \<and> \<not> is_changed ''identifier'' (upc_changes c))"
proof -
  have "ve_is_empty (add_field_errors c b e) \<longleftrightarrow> ve_is_empty e \<and>
      (\<forall>(f, ms)\<in>set (ve_errors b).
         (f \<noteq> ''identifier'' \<or> is_changed ''identifier'' (upc_changes c)) \<longrightarrow> ms = [])"
    unfolding add_field_errors_def by (rule fold_fields(1))
  also have "\<dots> \<longleftrightarrow> ve_is_empty e \<and>
      (\<forall>f. ve_field b f \<longrightarrow> f = ''identifier'' \<and> \<not> is_changed ''identifier'' (upc_changes c))"
    using assms by (fastforce simp: ve_field_def ve_get_def ve_ok_def hm_get_in_set
        split: option.splits)
  finally show ?thesis .
qed

lemma add_field_errors_ok: "ve_ok e \<Longrightarrow> ve_ok (add_field_errors c b e)"
  unfolding add_field_errors_def by (rule fold_fields(2))

interpretation update_project: contract "update_project_validate c" for c
  unfolding update_project_validate_def
  by (rule contract_outcome)
     (auto simp: contract_simps add_field_errors_ok Let_def split: sum.split)

definition parent_change_acceptable :: "update_project_contract \<Rightarrow> Id option \<Rightarrow> bool" where
  "parent_change_acceptable c parent \<longleftrightarrow>
     (\<forall>pid\<in>set_option parent. is_changed ''parent_id'' (upc_changes c) \<longrightarrow>
        pid \<noteq> upc_project_id c \<and>
        (uc_is_admin (upc_user c) \<or> uc_allowed_in_project (upc_user c) ADD_PROJECT pid))"

lemma update_project_checks [contract_simps]:
  "ve_is_empty (edit_project_allowed c e) \<longleftrightarrow> ve_is_empty e \<and>
     (uc_is_admin (upc_user c) \<or> uc_allowed_in_project (upc_user c) EDIT_PROJECT (upc_project_id c))"
  "ve_is_empty (validate_identifier_not_changed c e) \<longleftrightarrow>
     ve_is_empty e \<and> \<not> is_changed ''identifier'' (upc_changes c)"
  "ve_is_empty (validate_parent_change c p e) \<longleftrightarrow> ve_is_empty e \<and> parent_change_acceptable c p"
  by (auto simp: edit_project_allowed_def validate_identifier_not_changed_def
      validate_parent_change_def parent_change_acceptable_def split: option.split)

lemma update_project_ok_iff:
  "update_project_validate c d = Ok () \<longleftrightarrow>
     (uc_is_admin (upc_user c) \<or> uc_allowed_in_project (upc_user c) EDIT_PROJECT (upc_project_id c)) \<and>
     \<not> is_changed ''identifier'' (upc_changes c) \<and>
     parent_change_acceptable c (pd_parent_id d) \<and> name_acceptable (pd_name d) \<and>
     may_add_project_under (upc_user c) (pd_parent_id d)"
proof (cases "project_base_validate (upc_user c) d")
  case (Inl b)
  then have "ve_ok b" "{f. ve_field b f} = failed_fields (project_base_validate (upc_user c) d)"
    using project_base.errors_ok by (auto simp: failed_fields_def)
  then have "(\<forall>f. ve_field b f \<longrightarrow> f = ''identifier'') \<longleftrightarrow> name_acceptable (pd_name d) \<and>
      may_add_project_under (upc_user c) (pd_parent_id d)" and "ve_ok b"
    by (auto simp: project_base_fields set_eq_iff)
  with Inl show ?thesis
    by (auto simp: update_project_validate_def contract_simps Let_def add_field_errors_empty)
next
  case (Inr x)
  then have "project_base_validate (upc_user c) d = Ok ()" by simp
  with Inr show ?thesis
    using project_base_ok_iff [of "upc_user c" d]
    by (auto simp: update_project_validate_def contract_simps Let_def)
qed

text \<open>
  Updating a project: the contract accepts exactly when the user may edit the project, the
  identifier is not marked as changed, a changed parent is another project under which the user may
  add projects, the name is acceptable, and the user may add projects under the current parent
  (this is asked even when the parent has not changed).  An identifier that would be refused on
  creation does not matter.  Deleting asks for an administrator and for nothing else, whatever
  the project holds.
\<close>

theorem update_delete_project_contracts_correct:
  "(update_project_validate c d = Ok () \<longleftrightarrow>
     (uc_is_admin (upc_user c) \<or> uc_allowed_in_project (upc_user c) EDIT_PROJECT (upc_project_id c)) \<and>
     \<not> is_changed ''identifier'' (upc_changes c) \<and>
     parent_change_acceptable c (pd_parent_id d) \<and> name_acceptable (pd_name d) \<and>
     may_add_project_under (upc_user c) (pd_parent_id d)) \<and>
   (delete_project_validate u dd = Ok () \<longleftrightarrow> uc_is_admin u)"
  unfolding update_project_ok_iff delete_project_ok_iff by blast

end
