(* ===== verification/Contracts_Users.thy ===== *)
theory Contracts_Users
  imports Contracts_Base Regex
begin

section \<open>User contracts (\<open>crates/op-contracts/src/users\<close>)\<close>

text \<open>
  Validation of users on creation, update and deletion, with what each contract accepts and which
  fields it blames.
\<close>

definition reserved_logins :: "string list" where
  "reserved_logins =
     [''admin'', ''administrator'', ''anonymous'', ''system'', ''root'', ''me'', ''current'', ''self'']"

record user_data =
  ud_id :: "Id option"
  ud_login :: string
  ud_firstname :: string
  ud_lastname :: string
  ud_mail :: string
  ud_admin :: bool
  ud_password :: "string option"

subsection \<open>Base contract\<close>

definition validate_login :: "string \<Rightarrow> validation_errors \<Rightarrow> validation_errors" where
  "validate_login login errors =
     (if login = [] then ve_add ''login'' ''can't be blank'' errors
      else if length login < 2 then ve_add ''login'' ''is too short (minimum is 2 characters)'' errors
      else if 255 < length login
      then ve_add ''login'' ''is too long (maximum is 255 characters)'' errors
      else
        (let errors1 =
           (if \<not> rx_match login_pattern login
            then ve_add ''login'' ''is invalid. Only letters, numbers, underscores, @, periods and dashes allowed'' errors
            else errors)
         in if to_lowercase login \<in> set reserved_logins
            then ve_add ''login'' ''is reserved'' errors1 else errors1))"

definition validate_firstname :: "string \<Rightarrow> validation_errors \<Rightarrow> validation_errors" where
  "validate_firstname firstname errors =
     (if firstname = [] then ve_add ''firstname'' ''can't be blank'' errors
      else if 255 < length firstname
      then ve_add ''firstname'' ''is too long (maximum is 255 characters)'' errors
      else errors)"

definition validate_lastname :: "string \<Rightarrow> validation_errors \<Rightarrow> validation_errors" where
  "validate_lastname lastname errors =
     (if lastname = [] then ve_add ''lastname'' ''can't be blank'' errors
      else if 255 < length lastname
      then ve_add ''lastname'' ''is too long (maximum is 255 characters)'' errors
      else errors)"

definition validate_email :: "string \<Rightarrow> validation_errors \<Rightarrow> validation_errors" where
  "validate_email email errors =
     (if email = [] then ve_add ''mail'' ''can't be blank'' errors
      else if \<not> rx_match email_pattern email
      then ve_add ''mail'' ''is not a valid email address'' errors
      else errors)"

definition base_validate_admin_change ::
    "user_context \<Rightarrow> bool \<Rightarrow> validation_errors \<Rightarrow> validation_errors" where
  "base_validate_admin_change user new_admin errors =
     (if \<not> uc_is_admin user
      then ve_add ''admin'' ''can only be modified by administrators'' errors else errors)"

definition user_base_validate :: "user_data \<Rightarrow> validation_result" where
  "user_base_validate entity = validation_outcome
     (validate_email (ud_mail entity)
      (validate_lastname (ud_lastname entity)
       (validate_firstname (ud_firstname entity)
        (validate_login (ud_login entity) ve_new))))"

subsection \<open>Create\<close>

definition create_user_allowed :: "user_context \<Rightarrow> validation_errors \<Rightarrow> validation_errors" where
  "create_user_allowed user errors =
     (if \<not> uc_is_admin user
      then ve_add ''base'' ''Only administrators can create users'' errors else errors)"

definition validate_password :: "string option \<Rightarrow> validation_errors \<Rightarrow> validation_errors" where
  "validate_password password errors =
     (case password of
        None \<Rightarrow> errors
      | Some pwd \<Rightarrow>
          (let errors1 =
             (if length pwd < 10
              then ve_add ''password'' ''is too short (minimum is 10 characters)'' errors else errors)
           in if 128 < length pwd
              then ve_add ''password'' ''is too long (maximum is 128 characters)'' errors1
              else errors1))"

definition create_user_validate :: "user_context \<Rightarrow> user_data \<Rightarrow> validation_result" where
  "create_user_validate user entity = validation_outcome
     (validate_password (ud_password entity)
      (merge_outcome (user_base_validate entity) (create_user_allowed user ve_new)))"

definition create_user_is_writable :: "string \<Rightarrow> bool" where
  "create_user_is_writable attribute \<longleftrightarrow> attribute \<in> set
     [''login'', ''firstname'', ''lastname'', ''mail'', ''password'', ''admin'', ''status'',
      ''language'', ''force_password_change'', ''auth_source_id'']"

subsection \<open>Update\<close>

record update_user_contract =
  uuc_user :: user_context
  uuc_target_user_id :: Id
  uuc_changes :: change_tracker

definition update_user_contract_new :: "user_context \<Rightarrow> Id \<Rightarrow> update_user_contract" where
  "update_user_contract_new user target =
     \<lparr>uuc_user = user, uuc_target_user_id = target, uuc_changes = change_tracker_new\<rparr>"

definition update_user_mark_changed :: "string \<Rightarrow> update_user_contract \<Rightarrow> update_user_contract" where
  "update_user_mark_changed attribute c = c\<lparr>uuc_changes := mark_changed attribute (uuc_changes c)\<rparr>"

definition edit_user_allowed ::
    "update_user_contract \<Rightarrow> validation_errors \<Rightarrow> validation_errors" where
  "edit_user_allowed c errors =
     (let is_self_edit = (uc_id (uuc_user c) = uuc_target_user_id c);
          is_admin = uc_is_admin (uuc_user c)
      in if \<not> is_admin \<and> \<not> is_self_edit
         then ve_add ''base'' ''You can only edit your own account or need administrator privileges'' errors
         else errors)"

definition validate_admin_change ::
    "update_user_contract \<Rightarrow> bool \<Rightarrow> validation_errors \<Rightarrow> validation_errors" where
  "validate_admin_change c new_admin errors =
     (if \<not> is_changed ''admin'' (uuc_changes c) then errors
      else if \<not> uc_is_admin (uuc_user c)
      then ve_add ''admin'' ''can only be modified by administrators'' errors
      else if uc_id (uuc_user c) = uuc_target_user_id c \<and> \<not> new_admin
      then ve_add ''admin'' ''you cannot remove your own administrator status'' errors
      else errors)"

definition validate_login_change ::
    "update_user_contract \<Rightarrow> validation_errors \<Rightarrow> validation_errors" where
  "validate_login_change c errors =
     (if \<not> is_changed ''login'' (uuc_changes c) then errors
      else if \<not> uc_is_admin (uuc_user c)
      then ve_add ''login'' ''can only be changed by administrators'' errors
      else errors)"

definition update_user_validate :: "update_user_contract \<Rightarrow> user_data \<Rightarrow> validation_result" where
  "update_user_validate c entity = validation_outcome
     (merge_outcome (user_base_validate entity)
      (validate_login_change c
       (validate_admin_change c (ud_admin entity)
        (edit_user_allowed c ve_new))))"

definition update_user_is_writable :: "update_user_contract \<Rightarrow> string \<Rightarrow> bool" where
  "update_user_is_writable c attribute =
     (let is_admin = uc_is_admin (uuc_user c);
          is_self = (uc_id (uuc_user c) = uuc_target_user_id c)
      in if attribute \<in> set [''login'', ''admin'', ''status'', ''auth_source_id''] then is_admin
         else if attribute \<in> set [''firstname'', ''lastname'', ''mail'', ''language'']
         then is_admin \<or> is_self
         else if attribute = ''password'' then is_admin \<or> is_self
         else False)"

subsection \<open>Delete\<close>

record delete_user_data =
  dud_id :: Id
  dud_is_builtin :: bool
  dud_work_package_count :: i64

definition delete_user_allowed :: "user_context \<Rightarrow> validation_errors \<Rightarrow> validation_errors" where
  "delete_user_allowed user errors =
     (if \<not> uc_is_admin user
      then ve_add ''base'' ''Only administrators can delete users'' errors else errors)"

definition validate_not_self_delete ::
    "user_context \<Rightarrow> Id \<Rightarrow> validation_errors \<Rightarrow> validation_errors" where
  "validate_not_self_delete user target errors =
     (if uc_id user = target
      then ve_add ''base'' ''You cannot delete your own account'' errors else errors)"

definition delete_user_validate ::
    "user_context \<Rightarrow> Id \<Rightarrow> delete_user_data \<Rightarrow> validation_result" where
  "delete_user_validate user target entity = validation_outcome
     (let errors = validate_not_self_delete user target (delete_user_allowed user ve_new)
      in if dud_is_builtin entity
         then ve_add ''base'' ''Cannot delete built-in users'' errors else errors)"

definition delete_user_is_writable :: "string \<Rightarrow> bool" where
  "delete_user_is_writable attribute = False"

subsection \<open>What the checks accept\<close>

definition login_acceptable :: "string \<Rightarrow> bool" where
  "login_acceptable s \<longleftrightarrow> 2 \<le> length s \<and> length s \<le> 255 \<and>
     list_all (in_class login_class) s \<and> to_lowercase s \<notin> set reserved_logins"

definition person_name_acceptable :: "string \<Rightarrow> bool" where
  "person_name_acceptable s \<longleftrightarrow> s \<noteq> [] \<and> length s \<le> 255"

definition password_acceptable :: "string option \<Rightarrow> bool" where
  "password_acceptable p \<longleftrightarrow> (\<forall>pwd\<in>set_option p. 10 \<le> length pwd \<and> length pwd \<le> 128)"

definition mail_acceptable :: "string \<Rightarrow> bool" where
  "mail_acceptable s \<longleftrightarrow> rx_match email_pattern s"

lemma mail_not_Nil [simp]: "\<not> rx_match email_pattern []"
  by (simp add: email_pattern_iff)

lemmas user_check_defs = validate_login_def validate_firstname_def validate_lastname_def
  validate_email_def create_user_allowed_def validate_password_def edit_user_allowed_def
  validate_admin_change_def validate_login_change_def delete_user_allowed_def
  validate_not_self_delete_def login_acceptable_def person_name_acceptable_def
  password_acceptable_def mail_acceptable_def

lemma user_checks [contract_simps]:
  "ve_is_empty (validate_login s e) \<longleftrightarrow> ve_is_empty e \<and> login_acceptable s"
  "ve_is_empty (validate_firstname s e) \<longleftrightarrow> ve_is_empty e \<and> person_name_acceptable s"
  "ve_is_empty (validate_lastname s e) \<longleftrightarrow> ve_is_empty e \<and> person_name_acceptable s"
  "ve_is_empty (validate_email s e) \<longleftrightarrow> ve_is_empty e \<and> mail_acceptable s"
  "ve_is_empty (create_user_allowed u e) \<longleftrightarrow> ve_is_empty e \<and> uc_is_admin u"
  "ve_is_empty (validate_password p e) \<longleftrightarrow> ve_is_empty e \<and> password_acceptable p"
  "ve_is_empty (delete_user_allowed u e) \<longleftrightarrow> ve_is_empty e \<and> uc_is_admin u"
  "ve_is_empty (validate_not_self_delete u t e) \<longleftrightarrow> ve_is_empty e \<and> uc_id u \<noteq> t"
  by (auto simp: user_check_defs login_pattern_iff not_less Let_def split: option.split)

lemma user_fields [contract_simps]:
  "ve_field (validate_login s e) f \<longleftrightarrow> ve_field e f \<or> (f = ''login'' \<and> \<not> login_acceptable s)"
  "ve_field (validate_firstname s e) f \<longleftrightarrow>
     ve_field e f \<or> (f = ''firstname'' \<and> \<not> person_name_acceptable s)"
  "ve_field (validate_lastname s e) f \<longleftrightarrow>
     ve_field e f \<or> (f = ''lastname'' \<and> \<not> person_name_acceptable s)"
  "ve_field (validate_email s e) f \<longleftrightarrow> ve_field e f \<or> (f = ''mail'' \<and> \<not> mail_acceptable s)"
  "ve_field (create_user_allowed u e) f \<longleftrightarrow> ve_field e f \<or> (f = ''base'' \<and> \<not> uc_is_admin u)"
  "ve_field (validate_password p e) f \<longleftrightarrow>
     ve_field e f \<or> (f = ''password'' \<and> \<not> password_acceptable p)"
  by (auto simp: user_check_defs ve_field_simps login_pattern_iff not_less Let_def split: option.split)

lemma user_checks_ok [contract_simps]:
  "ve_ok e \<Longrightarrow> ve_ok (validate_login s e)"
  "ve_ok e \<Longrightarrow> ve_ok (validate_firstname s e)"
  "ve_ok e \<Longrightarrow> ve_ok (validate_lastname s e)"
  "ve_ok e \<Longrightarrow> ve_ok (validate_email s e)"
  "ve_ok e \<Longrightarrow> ve_ok (create_user_allowed u e)"
  "ve_ok e \<Longrightarrow> ve_ok (validate_password p e)"
  "ve_ok e \<Longrightarrow> ve_ok (edit_user_allowed c e)"
  "ve_ok e \<Longrightarrow> ve_ok (validate_admin_change c b e)"
  "ve_ok e \<Longrightarrow> ve_ok (validate_login_change c e)"
  "ve_ok e \<Longrightarrow> ve_ok (delete_user_allowed u e)"
  "ve_ok e \<Longrightarrow> ve_ok (validate_not_self_delete u t e)"
  by (auto simp: user_check_defs Let_def split: option.split)

interpretation user_base: contract user_base_validate
  unfolding user_base_validate_def by (rule contract_outcome) (simp add: contract_simps)

interpretation create_user: contract "create_user_validate user" for user
  unfolding create_user_validate_def
  by (rule contract_outcome) (simp add: contract_simps user_base.merge_ok)

interpretation update_user: contract "update_user_validate c" for c
  unfolding update_user_validate_def
  by (rule contract_outcome) (simp add: contract_simps user_base.merge_ok)

interpretation delete_user: contract "delete_user_validate user target" for user target
  unfolding delete_user_validate_def by (rule contract_outcome) (simp add: contract_simps Let_def)

definition user_data_acceptable :: "user_data \<Rightarrow> bool" where
  "user_data_acceptable d \<longleftrightarrow> login_acceptable (ud_login d) \<and>
     person_name_acceptable (ud_firstname d) \<and> person_name_acceptable (ud_lastname d) \<and>
     mail_acceptable (ud_mail d)"

lemma user_base_ok_iff: "user_base_validate d = Ok () \<longleftrightarrow> user_data_acceptable d"
  by (auto simp: user_base_validate_def user_data_acceptable_def contract_simps)

lemma create_user_ok_iff:
  "create_user_validate u d = Ok () \<longleftrightarrow>
     uc_is_admin u \<and> user_data_acceptable d \<and> password_acceptable (ud_password d)"
  by (auto simp: create_user_validate_def contract_simps user_base.merge_empty user_base_ok_iff)

lemma update_user_ok_iff:
  "update_user_validate c d = Ok () \<longleftrightarrow> user_data_acceptable d \<and>
     (if uc_is_admin (uuc_user c)
      then is_changed ''admin'' (uuc_changes c) \<and> uc_id (uuc_user c) = uuc_target_user_id c \<longrightarrow> ud_admin d
      else uc_id (uuc_user c) = uuc_target_user_id c \<and>
           \<not> is_changed ''admin'' (uuc_changes c) \<and> \<not> is_changed ''login'' (uuc_changes c))"
  by (auto simp: update_user_validate_def contract_simps user_base.merge_empty user_base_ok_iff
      edit_user_allowed_def validate_admin_change_def validate_login_change_def Let_def)

lemma delete_user_ok_iff:
  "delete_user_validate u t d = Ok () \<longleftrightarrow> uc_is_admin u \<and> uc_id u \<noteq> t \<and> \<not> dud_is_builtin d"
  by (auto simp: delete_user_validate_def contract_simps Let_def)

lemma user_base_fields:
  "failed_fields (user_base_validate d) =
     {f. (f = ''login'' \<and> \<not> login_acceptable (ud_login d)) \<or>
         (f = ''firstname'' \<and> \<not> person_name_acceptable (ud_firstname d)) \<or>
         (f = ''lastname'' \<and> \<not> person_name_acceptable (ud_lastname d)) \<or>
         (f = ''mail'' \<and> \<not> mail_acceptable (ud_mail d))}"
  by (auto simp: user_base_validate_def failed_fields_outcome contract_simps)

text \<open>
  Creating a user: only an administrator, with acceptable data and a password of 10 to 128
  bytes if one is given; a rejection blames exactly the fields at fault.
\<close>

theorem create_user_contract_correct:
  "(create_user_validate u d = Ok () \<longleftrightarrow>
      uc_is_admin u \<and> login_acceptable (ud_login d) \<and> person_name_acceptable (ud_firstname d) \<and>
      person_name_acceptable (ud_lastname d) \<and> mail_acceptable (ud_mail d) \<and>
      password_acceptable (ud_password d)) \<and>
   failed_fields (create_user_validate u d) =
     {f. (f = ''base'' \<and> \<not> uc_is_admin u) \<or>
         (f = ''login'' \<and> \<not> login_acceptable (ud_login d)) \<or>
         (f = ''firstname'' \<and> \<not> person_name_acceptable (ud_firstname d)) \<or>
         (f = ''lastname'' \<and> \<not> person_name_acceptable (ud_lastname d)) \<or>
         (f = ''mail'' \<and> \<not> mail_acceptable (ud_mail d)) \<or>
         (f = ''password'' \<and> \<not> password_acceptable (ud_password d))}"
proof (rule conjI, goal_cases)
  case 1
  show ?case by (auto simp: create_user_ok_iff user_data_acceptable_def)
next
  case 2
  show ?case
    by (auto simp: create_user_validate_def failed_fields_outcome contract_simps
        user_base.merge_fields user_base_fields)
qed

text \<open>
  Updating a user: an administrator may, except to take the flag from their own account;
  anyone else may update only their own account, and neither its login nor its administrator
  flag.  Deleting: an administrator, not themselves, not a built-in user.
\<close>

theorem update_delete_user_contracts_correct:
  "(update_user_validate c d = Ok () \<longleftrightarrow> user_data_acceptable d \<and>
     (if uc_is_admin (uuc_user c)
      then \<not> (is_changed ''admin'' (uuc_changes c) \<and>
              uc_id (uuc_user c) = uuc_target_user_id c \<and> \<not> ud_admin d)
      else uc_id (uuc_user c) = uuc_target_user_id c \<and>
           \<not> is_changed ''admin'' (uuc_changes c) \<and> \<not> is_changed ''login'' (uuc_changes c))) \<and>
   (delete_user_validate u t dd = Ok () \<longleftrightarrow> uc_is_admin u \<and> uc_id u \<noteq> t \<and> \<not> dud_is_builtin dd)"
  by (auto simp: update_user_ok_iff delete_user_ok_iff)

end
