(* ===== verification/Contracts_Work_Packages.thy ===== *)
theory Contracts_Work_Packages
  imports Contracts_Base
begin

section \<open>Work package contracts (\<open>crates/op-contracts/src/work_packages\<close>)\<close>

text \<open>
  Validation of work packages on creation, update and deletion, with what each contract accepts
  and which fields it blames.
\<close>

definition ADD_WORK_PACKAGES :: string where "ADD_WORK_PACKAGES = ''add_work_packages''"
definition EDIT_WORK_PACKAGES :: string where "EDIT_WORK_PACKAGES = ''edit_work_packages''"
definition DELETE_WORK_PACKAGES :: string where "DELETE_WORK_PACKAGES = ''delete_work_packages''"

record work_package_data =
  wd_id :: "Id option"
  wd_subject :: string
  wd_project_id :: Id
  wd_type_id :: Id
  wd_status_id :: Id
  wd_author_id :: Id
  wd_assigned_to_id :: "Id option"
  wd_priority_id :: "Id option"
  wd_version_id :: "Id option"
  wd_parent_id :: "Id option"
  wd_done_ratio :: i32
  wd_estimated_hours :: "f64 option"
  wd_lock_version :: i32

subsection \<open>Base contract\<close>

definition validate_subject :: "string \<Rightarrow> validation_errors \<Rightarrow> validation_errors" where
  "validate_subject subject errors =
     (if trim subject = [] then ve_add ''subject'' ''can't be blank'' errors
      else if 255 < length subject
      then ve_add ''subject'' ''is too long (maximum is 255 characters)'' errors
      else errors)"

definition validate_project :: "Id \<Rightarrow> validation_errors \<Rightarrow> validation_errors" where
  "validate_project project_id errors =
     (if project_id = 0 then ve_add ''project'' ''can't be blank'' errors else errors)"

definition validate_type :: "Id \<Rightarrow> validation_errors \<Rightarrow> validation_errors" where
  "validate_type type_id errors =
     (if type_id = 0 then ve_add ''type'' ''can't be blank'' errors else errors)"

definition validate_status :: "Id \<Rightarrow> validation_errors \<Rightarrow> validation_errors" where
  "validate_status status_id errors =
     (if status_id = 0 then ve_add ''status'' ''can't be blank'' errors else errors)"

definition validate_done_ratio :: "i32 \<Rightarrow> validation_errors \<Rightarrow> validation_errors" where
  "validate_done_ratio done_ratio errors =
     (if \<not> (0 \<le> sint done_ratio \<and> sint done_ratio \<le> 100)
      then ve_add ''done_ratio'' ''must be between 0 and 100'' errors else errors)"

definition validate_estimated_hours ::
    "f64 option \<Rightarrow> validation_errors \<Rightarrow> validation_errors" where
  "validate_estimated_hours hours errors =
     (case hours of
        None \<Rightarrow> errors
      | Some h \<Rightarrow>
          (if f64_neg h
           then ve_add ''estimated_hours'' ''must be greater than or equal to 0'' errors
           else errors))"

definition user_allowed_to_edit :: "user_context \<Rightarrow> Id \<Rightarrow> bool" where
  "user_allowed_to_edit user project_id \<longleftrightarrow>
     uc_is_admin user \<or> uc_allowed_in_project user EDIT_WORK_PACKAGES project_id"

definition user_allowed_to_add :: "user_context \<Rightarrow> Id \<Rightarrow> bool" where
  "user_allowed_to_add user project_id \<longleftrightarrow>
     uc_is_admin user \<or> uc_allowed_in_project user ADD_WORK_PACKAGES project_id"

definition work_package_base_validate :: "work_package_data \<Rightarrow> validation_result" where
  "work_package_base_validate entity = validation_outcome
     (validate_estimated_hours (wd_estimated_hours entity)
      (validate_done_ratio (wd_done_ratio entity)
       (validate_status (wd_status_id entity)
        (validate_type (wd_type_id entity)
         (validate_project (wd_project_id entity)
          (validate_subject (wd_subject entity) ve_new))))))"

subsection \<open>Create, update, delete\<close>

definition create_work_package_allowed ::
    "user_context \<Rightarrow> Id \<Rightarrow> validation_errors \<Rightarrow> validation_errors" where
  "create_work_package_allowed user project_id errors =
     (if \<not> user_allowed_to_add user project_id
      then ve_add ''base'' ''You are not authorized to create work packages in this project'' errors
      else errors)"

definition validate_author :: "Id \<Rightarrow> validation_errors \<Rightarrow> validation_errors" where
  "validate_author author_id errors =
     (if author_id = 0 then ve_add ''author'' ''can't be blank'' errors else errors)"

definition create_work_package_validate ::
    "user_context \<Rightarrow> Id \<Rightarrow> work_package_data \<Rightarrow> validation_result" where
  "create_work_package_validate user project_id entity = validation_outcome
     (validate_author (wd_author_id entity)
      (merge_outcome (work_package_base_validate entity)
       (create_work_package_allowed user project_id ve_new)))"

definition create_work_package_is_writable :: "string \<Rightarrow> bool" where
  "create_work_package_is_writable attribute \<longleftrightarrow> attribute \<in> set
     [''subject'', ''description'', ''type_id'', ''status_id'', ''priority_id'',
      ''assigned_to_id'', ''responsible_id'', ''version_id'', ''parent_id'', ''start_date'',
      ''due_date'', ''estimated_hours'', ''done_ratio'', ''category_id'']"

text \<open>The update contract: the change tracker and the status transition do not affect its outcome.\<close>

record update_work_package_contract =
  uwc_user :: user_context
  uwc_project_id :: Id
  uwc_work_package_id :: Id
  uwc_changes :: change_tracker

definition update_work_package_contract_new ::
    "user_context \<Rightarrow> Id \<Rightarrow> Id \<Rightarrow> update_work_package_contract" where
  "update_work_package_contract_new user project_id work_package_id =
     \<lparr>uwc_user = user, uwc_project_id = project_id, uwc_work_package_id = work_package_id,
      uwc_changes = change_tracker_new\<rparr>"

definition update_work_package_mark_changed ::
    "string \<Rightarrow> update_work_package_contract \<Rightarrow> update_work_package_contract" where
  "update_work_package_mark_changed attribute c =
     c\<lparr>uwc_changes := mark_changed attribute (uwc_changes c)\<rparr>"

definition edit_work_package_allowed ::
    "update_work_package_contract \<Rightarrow> validation_errors \<Rightarrow> validation_errors" where
  "edit_work_package_allowed c errors =
     (if \<not> user_allowed_to_edit (uwc_user c) (uwc_project_id c)
      then ve_add ''base'' ''You are not authorized to edit this work package'' errors
      else errors)"

definition update_work_package_validate ::
    "update_work_package_contract \<Rightarrow> work_package_data \<Rightarrow> validation_result" where
  "update_work_package_validate c entity = validation_outcome
     (merge_outcome (work_package_base_validate entity) (edit_work_package_allowed c ve_new))"

definition update_work_package_is_writable :: "string \<Rightarrow> bool" where
  "update_work_package_is_writable attribute \<longleftrightarrow> attribute \<in> set
     [''subject'', ''description'', ''type_id'', ''status_id'', ''priority_id'',
      ''assigned_to_id'', ''responsible_id'', ''version_id'', ''parent_id'', ''start_date'',
      ''due_date'', ''estimated_hours'', ''done_ratio'', ''category_id'', ''lock_version'']"

definition delete_work_package_allowed ::
    "user_context \<Rightarrow> Id \<Rightarrow> validation_errors \<Rightarrow> validation_errors" where
  "delete_work_package_allowed user project_id errors =
     (if \<not> (uc_is_admin user \<or> uc_allowed_in_project user DELETE_WORK_PACKAGES project_id)
      then ve_add ''base'' ''You are not authorized to delete this work package'' errors
      else errors)"

text \<open>The data of the work package is not looked at.\<close>

record delete_work_package_data =
  dwd_id :: Id
  dwd_project_id :: Id

definition delete_work_package_validate ::
    "user_context \<Rightarrow> Id \<Rightarrow> delete_work_package_data \<Rightarrow> validation_result" where
  "delete_work_package_validate user project_id entity = validation_outcome
     (delete_work_package_allowed user project_id ve_new)"

definition delete_work_package_is_writable :: "string \<Rightarrow> bool" where
  "delete_work_package_is_writable attribute = False"

subsection \<open>What the checks accept\<close>

definition subject_acceptable :: "string \<Rightarrow> bool" where
  "subject_acceptable s \<longleftrightarrow> trim s \<noteq> [] \<and> length s \<le> 255"

definition ratio_acceptable :: "i32 \<Rightarrow> bool" where
  "ratio_acceptable r \<longleftrightarrow> 0 \<le> sint r \<and> sint r \<le> 100"

definition hours_acceptable :: "f64 option \<Rightarrow> bool" where
  "hours_acceptable h \<longleftrightarrow> (\<forall>x\<in>set_option h. \<not> f64_neg x)"

lemmas work_package_check_defs = validate_subject_def validate_project_def validate_type_def
  validate_status_def validate_done_ratio_def validate_estimated_hours_def validate_author_def
  create_work_package_allowed_def edit_work_package_allowed_def delete_work_package_allowed_def
  subject_acceptable_def ratio_acceptable_def hours_acceptable_def

lemma work_package_checks [contract_simps]:
  "ve_is_empty (validate_subject s e) \<longleftrightarrow> ve_is_empty e \<and> subject_acceptable s"
  "ve_is_empty (validate_project i e) \<longleftrightarrow> ve_is_empty e \<and> i \<noteq> 0"
  "ve_is_empty (validate_type i e) \<longleftrightarrow> ve_is_empty e \<and> i \<noteq> 0"
  "ve_is_empty (validate_status i e) \<longleftrightarrow> ve_is_empty e \<and> i \<noteq> 0"
  "ve_is_empty (validate_author i e) \<longleftrightarrow> ve_is_empty e \<and> i \<noteq> 0"
  "ve_is_empty (validate_done_ratio r e) \<longleftrightarrow> ve_is_empty e \<and> ratio_acceptable r"
  "ve_is_empty (validate_estimated_hours h e) \<longleftrightarrow> ve_is_empty e \<and> hours_acceptable h"
  "ve_is_empty (create_work_package_allowed u p e) \<longleftrightarrow> ve_is_empty e \<and> user_allowed_to_add u p"
  "ve_is_empty (edit_work_package_allowed c e) \<longleftrightarrow>
     ve_is_empty e \<and> user_allowed_to_edit (uwc_user c) (uwc_project_id c)"
  "ve_is_empty (delete_work_package_allowed u p e) \<longleftrightarrow>
     ve_is_empty e \<and> (uc_is_admin u \<or> uc_allowed_in_project u DELETE_WORK_PACKAGES p)"
  by (auto simp: work_package_check_defs not_less split: option.split)

lemma work_package_fields [contract_simps]:
  "ve_field (validate_subject s e) f \<longleftrightarrow> ve_field e f \<or> (f = ''subject'' \<and> \<not> subject_acceptable s)"
  "ve_field (validate_project i e) f \<longleftrightarrow> ve_field e f \<or> (f = ''project'' \<and> i = 0)"
  "ve_field (validate_type i e) f \<longleftrightarrow> ve_field e f \<or> (f = ''type'' \<and> i = 0)"
  "ve_field (validate_status i e) f \<longleftrightarrow> ve_field e f \<or> (f = ''status'' \<and> i = 0)"
  "ve_field (validate_author i e) f \<longleftrightarrow> ve_field e f \<or> (f = ''author'' \<and> i = 0)"
  "ve_field (validate_done_ratio r e) f \<longleftrightarrow> ve_field e f \<or> (f = ''done_ratio'' \<and> \<not> ratio_acceptable r)"
  "ve_field (validate_estimated_hours h e) f \<longleftrightarrow>
     ve_field e f \<or> (f = ''estimated_hours'' \<and> \<not> hours_acceptable h)"
  "ve_field (create_work_package_allowed u p e) f \<longleftrightarrow>
     ve_field e f \<or> (f = ''base'' \<and> \<not> user_allowed_to_add u p)"
  by (auto simp: work_package_check_defs ve_field_simps not_less split: option.split)

lemma work_package_checks_ok [contract_simps]:
  "ve_ok e \<Longrightarrow> ve_ok (validate_subject s e)"
  "ve_ok e \<Longrightarrow> ve_ok (validate_project i e)"
  "ve_ok e \<Longrightarrow> ve_ok (validate_type i e)"
  "ve_ok e \<Longrightarrow> ve_ok (validate_status i e)"
  "ve_ok e \<Longrightarrow> ve_ok (validate_author i e)"
  "ve_ok e \<Longrightarrow> ve_ok (validate_done_ratio r e)"
  "ve_ok e \<Longrightarrow> ve_ok (validate_estimated_hours h e)"
  "ve_ok e \<Longrightarrow> ve_ok (create_work_package_allowed u p e)"
  "ve_ok e \<Longrightarrow> ve_ok (edit_work_package_allowed c e)"
  "ve_ok e \<Longrightarrow> ve_ok (delete_work_package_allowed u p e)"
  by (auto simp: work_package_check_defs split: option.split)

interpretation work_package_base: contract work_package_base_validate
  unfolding work_package_base_validate_def by (rule contract_outcome) (simp add: contract_simps)

interpretation create_work_package: contract "create_work_package_validate user project" for user project
  unfolding create_work_package_validate_def
  by (rule contract_outcome) (simp add: contract_simps work_package_base.merge_ok)

interpretation update_work_package: contract "update_work_package_validate c" for c
  unfolding update_work_package_validate_def
  by (rule contract_outcome) (simp add: contract_simps work_package_base.merge_ok)

interpretation delete_work_package: contract "delete_work_package_validate user project" for user project
  unfolding delete_work_package_validate_def by (rule contract_outcome) (simp add: contract_simps)

definition work_package_acceptable :: "work_package_data \<Rightarrow> bool" where
  "work_package_acceptable d \<longleftrightarrow> subject_acceptable (wd_subject d) \<and> wd_project_id d \<noteq> 0 \<and>
     wd_type_id d \<noteq> 0 \<and> wd_status_id d \<noteq> 0 \<and> ratio_acceptable (wd_done_ratio d) \<and>
     hours_acceptable (wd_estimated_hours d)"

lemma work_package_base_ok_iff:
  "work_package_base_validate d = Ok () \<longleftrightarrow> work_package_acceptable d"
  by (auto simp: work_package_base_validate_def work_package_acceptable_def contract_simps)

lemma create_work_package_ok_iff:
  "create_work_package_validate u p d = Ok () \<longleftrightarrow>
     user_allowed_to_add u p \<and> work_package_acceptable d \<and> wd_author_id d \<noteq> 0"
  by (auto simp: create_work_package_validate_def contract_simps work_package_base.merge_empty
      work_package_base_ok_iff)

lemma update_work_package_ok_iff:
  "update_work_package_validate c d = Ok () \<longleftrightarrow>
     user_allowed_to_edit (uwc_user c) (uwc_project_id c) \<and> work_package_acceptable d"
  by (auto simp: update_work_package_validate_def contract_simps work_package_base.merge_empty
      work_package_base_ok_iff)

lemma delete_work_package_ok_iff:
  "delete_work_package_validate u p d = Ok () \<longleftrightarrow>
     uc_is_admin u \<or> uc_allowed_in_project u DELETE_WORK_PACKAGES p"
  by (simp add: delete_work_package_validate_def contract_simps)

lemma work_package_base_fields:
  "failed_fields (work_package_base_validate d) =
     {f. (f = ''subject'' \<and> \<not> subject_acceptable (wd_subject d)) \<or>
         (f = ''project'' \<and> wd_project_id d = 0) \<or> (f = ''type'' \<and> wd_type_id d = 0) \<or>
         (f = ''status'' \<and> wd_status_id d = 0) \<or>
         (f = ''done_ratio'' \<and> \<not> ratio_acceptable (wd_done_ratio d)) \<or>
         (f = ''estimated_hours'' \<and> \<not> hours_acceptable (wd_estimated_hours d))}"
  by (auto simp: work_package_base_validate_def failed_fields_outcome contract_simps)

text \<open>The fields that a work package can be blamed for, by themselves and with the right and the author.\<close>

definition work_package_faults :: "work_package_data \<Rightarrow> string set" where
  "work_package_faults d =
     {f. (f = ''subject'' \<and> (trim (wd_subject d) = [] \<or> 255 < length (wd_subject d))) \<or>
         (f = ''project'' \<and> wd_project_id d = 0) \<or> (f = ''type'' \<and> wd_type_id d = 0) \<or>
         (f = ''status'' \<and> wd_status_id d = 0) \<or>
         (f = ''done_ratio'' \<and> (sint (wd_done_ratio d) < 0 \<or> 100 < sint (wd_done_ratio d))) \<or>
         (f = ''estimated_hours'' \<and> (\<exists>h. wd_estimated_hours d = Some h \<and> f64_neg h))}"

lemma acceptable_parts:
  "trim s = [] \<or> 255 < length s \<longleftrightarrow> \<not> subject_acceptable s"
  "sint r < 0 \<or> 100 < sint r \<longleftrightarrow> \<not> ratio_acceptable r"
  "(\<exists>x. h = Some x \<and> f64_neg x) \<longleftrightarrow> \<not> hours_acceptable h"
  by (auto simp: subject_acceptable_def ratio_acceptable_def hours_acceptable_def)

lemma work_package_base_faults: "failed_fields (work_package_base_validate d) = work_package_faults d"
  unfolding work_package_base_fields work_package_faults_def acceptable_parts ..

lemma work_package_faultless: "work_package_faults d = {} \<longleftrightarrow> work_package_acceptable d"
proof
  assume none: "work_package_faults d = {}"
  then have "''subject'' \<notin> work_package_faults d" "''project'' \<notin> work_package_faults d"
    "''type'' \<notin> work_package_faults d" "''status'' \<notin> work_package_faults d"
    "''done_ratio'' \<notin> work_package_faults d" "''estimated_hours'' \<notin> work_package_faults d"
    by simp_all
  then show "work_package_acceptable d"
    unfolding work_package_faults_def acceptable_parts by (simp add: work_package_acceptable_def)
next
  assume "work_package_acceptable d"
  then show "work_package_faults d = {}"
    unfolding work_package_faults_def acceptable_parts by (simp add: work_package_acceptable_def)
qed

text \<open>
  C3. The work package contracts.  A work package is acceptable when its subject is not blank and has at
  most 255 bytes, it has a project, a type and a status, its progress is between 0 and 100 and its
  estimate is not negative.  Creation asks for the right to add in the project (or an administrator), an
  acceptable work package and an author; update for the right to edit and an acceptable work package;
  deletion for the right to delete.  A contract that refuses blames exactly the fields at fault, and the
  base when the right is missing.
\<close>

theorem work_package_contracts_correct:
  "(create_work_package_validate u p d = Ok () \<longleftrightarrow>
      (uc_is_admin u \<or> uc_allowed_in_project u ''add_work_packages'' p) \<and> work_package_faults d = {} \<and> wd_author_id d \<noteq> 0) \<and>
   failed_fields (create_work_package_validate u p d) =
     {f. (f = ''base'' \<and> \<not> (uc_is_admin u \<or> uc_allowed_in_project u ''add_work_packages'' p)) \<or>
         (f = ''author'' \<and> wd_author_id d = 0)} \<union> work_package_faults d \<and>
   (update_work_package_validate c d = Ok () \<longleftrightarrow>
      (uc_is_admin (uwc_user c) \<or> uc_allowed_in_project (uwc_user c) ''edit_work_packages'' (uwc_project_id c)) \<and>
      work_package_faults d = {}) \<and>
   failed_fields (update_work_package_validate c d) =
     {f. f = ''base'' \<and>
         \<not> (uc_is_admin (uwc_user c) \<or> uc_allowed_in_project (uwc_user c) ''edit_work_packages'' (uwc_project_id c))} \<union>
     work_package_faults d \<and>
   (delete_work_package_validate u p dd = Ok () \<longleftrightarrow>
      uc_is_admin u \<or> uc_allowed_in_project u ''delete_work_packages'' p) \<and>
   failed_fields (delete_work_package_validate u p dd) =
     {f. f = ''base'' \<and> \<not> (uc_is_admin u \<or> uc_allowed_in_project u ''delete_work_packages'' p)}"
proof (intro conjI, goal_cases)
  case 1
  show ?case
    by (simp add: create_work_package_ok_iff work_package_faultless user_allowed_to_add_def ADD_WORK_PACKAGES_def)
next
  case 2
  show ?case
    by (auto simp: create_work_package_validate_def failed_fields_outcome contract_simps
        work_package_base.merge_fields work_package_base_faults user_allowed_to_add_def ADD_WORK_PACKAGES_def)
next
  case 3
  show ?case
    by (simp add: update_work_package_ok_iff work_package_faultless user_allowed_to_edit_def EDIT_WORK_PACKAGES_def)
next
  case 4
  show ?case
    by (auto simp: update_work_package_validate_def failed_fields_outcome edit_work_package_allowed_def
        ve_field_simps work_package_base.merge_fields work_package_base_faults user_allowed_to_edit_def EDIT_WORK_PACKAGES_def)
next
  case 5
  show ?case by (simp add: delete_work_package_ok_iff DELETE_WORK_PACKAGES_def)
next
  case 6
  show ?case
    by (auto simp: delete_work_package_validate_def failed_fields_outcome delete_work_package_allowed_def
        ve_field_simps DELETE_WORK_PACKAGES_def)
qed

end
