(* ===== verification/Service_Result.thy ===== *)
theory Service_Result
  imports Contracts_Base
begin

section \<open>Service results and the base services (\<open>crates/op-services\<close>)\<close>

text \<open>
  \<open>result.rs\<close>: the result of a service with its dependent results; \<open>base.rs\<close>: the create, update
  and delete procedures over the methods of a concrete service, which are parameters here.  A
  database is the state \<open>'s\<close> that \<open>persist\<close> and \<open>do_delete\<close> change.
\<close>

datatype 'a service_result =
  ServiceResult (sr_success: bool) (sr_result: "'a option") (sr_errors: validation_errors)
    (sr_message: "string option") (sr_dependents: "'a service_result list")

definition sr_success_with :: "'a \<Rightarrow> 'a service_result" where
  "sr_success_with result = ServiceResult True (Some result) ve_new None []"

definition sr_success_with_message :: "'a \<Rightarrow> string \<Rightarrow> 'a service_result" where
  "sr_success_with_message result message = ServiceResult True (Some result) ve_new (Some message) []"

definition sr_failure :: "validation_errors \<Rightarrow> 'a service_result" where
  "sr_failure errors = ServiceResult False None errors None []"

definition sr_failure_with_error :: "string \<Rightarrow> string \<Rightarrow> 'a service_result" where
  "sr_failure_with_error field message = sr_failure (ve_add field message ve_new)"

definition sr_failure_with_base_error :: "string \<Rightarrow> 'a service_result" where
  "sr_failure_with_base_error message = sr_failure (ve_add_base message ve_new)"

definition sr_failure_with_message :: "validation_errors \<Rightarrow> string \<Rightarrow> 'a service_result" where
  "sr_failure_with_message errors message = ServiceResult False None errors (Some message) []"

definition sr_is_failure :: "'a service_result \<Rightarrow> bool" where
  "sr_is_failure r \<longleftrightarrow> \<not> sr_success r"

text \<open>\<open>take_result\<close> leaves \<open>None\<close> behind; \<open>unwrap\<close> panics (\<open>None\<close>) without a result.\<close>

definition sr_take_result :: "'a service_result \<Rightarrow> 'a option \<times> 'a service_result" where
  "sr_take_result r =
     (sr_result r, ServiceResult (sr_success r) None (sr_errors r) (sr_message r) (sr_dependents r))"

definition sr_unwrap :: "'a service_result \<Rightarrow> 'a option" where
  "sr_unwrap r = sr_result r"

definition sr_unwrap_or :: "'a \<Rightarrow> 'a service_result \<Rightarrow> 'a" where
  "sr_unwrap_or d r = (case sr_result r of Some v \<Rightarrow> v | None \<Rightarrow> d)"

definition sr_with_message :: "string \<Rightarrow> 'a service_result \<Rightarrow> 'a service_result" where
  "sr_with_message message r =
     ServiceResult (sr_success r) (sr_result r) (sr_errors r) (Some message) (sr_dependents r)"

definition sr_add_dependent :: "'a service_result \<Rightarrow> 'a service_result \<Rightarrow> 'a service_result" where
  "sr_add_dependent d r =
     ServiceResult (if sr_is_failure d then False else sr_success r) (sr_result r) (sr_errors r)
       (sr_message r) (sr_dependents r @ [d])"

fun sr_all_results :: "'a service_result \<Rightarrow> 'a list" where
  "sr_all_results (ServiceResult s r e m ds) =
     (case r of Some v \<Rightarrow> [v] | None \<Rightarrow> []) @ concat (map sr_all_results ds)"

fun sr_all_errors :: "'a service_result \<Rightarrow> validation_errors list" where
  "sr_all_errors (ServiceResult s r e m ds) = [e] @ concat (map sr_all_errors ds)"

definition sr_full_messages :: "'a service_result \<Rightarrow> string list" where
  "sr_full_messages r = ve_full_messages (sr_errors r)"

text \<open>A closure run for its effect is a function of the state.\<close>

definition sr_on_success :: "('a \<Rightarrow> 's \<Rightarrow> 's) \<Rightarrow> 'a service_result \<Rightarrow> 's \<Rightarrow> 's" where
  "sr_on_success f r s =
     (if sr_success r then (case sr_result r of Some v \<Rightarrow> f v s | None \<Rightarrow> s) else s)"

definition sr_on_failure :: "(validation_errors \<Rightarrow> 's \<Rightarrow> 's) \<Rightarrow> 'a service_result \<Rightarrow> 's \<Rightarrow> 's" where
  "sr_on_failure f r s = (if \<not> sr_success r then f (sr_errors r) s else s)"

definition sr_map :: "('a \<Rightarrow> 'b) \<Rightarrow> 'a service_result \<Rightarrow> 'b service_result" where
  "sr_map f r =
     (if sr_success r
      then ServiceResult True (map_option f (sr_result r)) (sr_errors r) (sr_message r) []
      else ServiceResult False None (sr_errors r) (sr_message r) [])"

definition sr_and_then :: "'a service_result \<Rightarrow> ('a \<Rightarrow> 'b service_result) \<Rightarrow> 'b service_result" where
  "sr_and_then r f =
     (if sr_success r
      then (case sr_result r of Some v \<Rightarrow> f v | None \<Rightarrow> sr_failure (sr_errors r))
      else sr_failure (sr_errors r))"

fun sr_from_result :: "('a, validation_errors) result \<Rightarrow> 'a service_result" where
  "sr_from_result (Inr v) = sr_success_with v"
| "sr_from_result (Inl errors) = sr_failure errors"

definition sr_into_result :: "'a service_result \<Rightarrow> ('a, validation_errors) result" where
  "sr_into_result r =
     (if sr_success r
      then (case sr_result r of
              Some v \<Rightarrow> Ok v
            | None \<Rightarrow> Err (ve_add_base ''Service succeeded but no result was returned'' ve_new))
      else Err (sr_errors r))"

definition sr_to_string :: "('a \<Rightarrow> string) \<Rightarrow> 'a service_result \<Rightarrow> string" where
  "sr_to_string sh r =
     (if sr_success r
      then (case sr_result r of Some v \<Rightarrow> ''Success: '' @ sh v | None \<Rightarrow> ''Success'')
      else ''Failure: '' @ join '', '' (ve_full_messages (sr_errors r)))"

lemmas sr_defs = sr_success_with_def sr_failure_def sr_failure_with_error_def
  sr_failure_with_base_error_def sr_and_then_def sr_into_result_def sr_map_def sr_unwrap_def
  sr_is_failure_def

lemma sr_simps [simp]:
  "sr_success (sr_success_with v)" "sr_result (sr_success_with v) = Some v"
  "\<not> sr_success (sr_failure e)" "sr_result (sr_failure e) = None" "sr_errors (sr_failure e) = e"
  "\<not> sr_success (sr_failure_with_base_error m)"
  "sr_errors (sr_failure_with_base_error m) = ve_add_base m ve_new"
  "sr_result (sr_failure_with_base_error m) = None"
  by (simp_all add: sr_defs)

subsection \<open>Dependent results\<close>

lemma add_dependents_success:
  "sr_success (fold sr_add_dependent ds r) \<longleftrightarrow> sr_success r \<and> list_all sr_success ds"
  by (induction ds arbitrary: r) (auto simp: sr_add_dependent_def sr_is_failure_def)

lemma add_dependents_fields:
  "sr_result (fold sr_add_dependent ds r) = sr_result r"
  "sr_errors (fold sr_add_dependent ds r) = sr_errors r"
  "sr_dependents (fold sr_add_dependent ds r) = sr_dependents r @ ds"
  by (induction ds arbitrary: r) (simp_all add: sr_add_dependent_def)

lemma sr_all_results_eq:
  "sr_all_results r = (case sr_result r of Some v \<Rightarrow> [v] | None \<Rightarrow> []) @
     concat (map sr_all_results (sr_dependents r))"
  "sr_all_errors r = sr_errors r # concat (map sr_all_errors (sr_dependents r))"
  by (cases r; simp)+

text \<open>
  Collecting the results of nested calls: the whole succeeds exactly when the call and every
  dependent call succeed, no result and no error is lost, and the order is the order of the calls.
\<close>

theorem dependent_results_collected:
  "(sr_success (fold sr_add_dependent ds r) \<longleftrightarrow> sr_success r \<and> list_all sr_success ds) \<and>
   sr_all_results (fold sr_add_dependent ds r) =
     sr_all_results r @ concat (map sr_all_results ds) \<and>
   sr_all_errors (fold sr_add_dependent ds r) = sr_all_errors r @ concat (map sr_all_errors ds)"
  unfolding add_dependents_success
  by (simp add: sr_all_results_eq [of "fold sr_add_dependent ds r"] sr_all_results_eq [of r]
      add_dependents_fields)

text \<open>
  Service results form a monad over plain results: converting from a result and back is the
  identity, success is a unit, and chaining is associative and becomes the chaining of the plain
  results; the message and the dependent results do not survive a chain.
\<close>

theorem service_result_monad:
  "sr_into_result (sr_from_result x) = x \<and>
   sr_and_then (sr_success_with v) f = f v \<and>
   sr_and_then (sr_and_then r f) g = sr_and_then r (\<lambda>v. sr_and_then (f v) g) \<and>
   sr_into_result (sr_and_then (sr_from_result x) f) =
     (case x of Inr v \<Rightarrow> sr_into_result (f v) | Inl e \<Rightarrow> Err e)"
  by (cases x) (auto simp: sr_defs split: option.splits)

subsection \<open>The base services\<close>

definition create_execute ::
    "'e \<Rightarrow> ('e \<Rightarrow> 'p \<Rightarrow> 'e \<times> validation_result) \<Rightarrow> ('e \<Rightarrow> validation_result) \<Rightarrow>
     ('e \<Rightarrow> 's \<Rightarrow> validation_result \<times> 'e \<times> 's) \<Rightarrow> 'p \<Rightarrow> 's \<Rightarrow> 'e service_result \<times> 's" where
  "create_execute new_instance set_attributes validate persist params s =
     (case set_attributes new_instance params of
        (entity, Inl errors) \<Rightarrow> (sr_failure errors, s)
      | (entity, Inr _) \<Rightarrow>
          (case validate entity of
             Inl errors \<Rightarrow> (sr_failure errors, s)
           | Inr _ \<Rightarrow>
               (case persist entity s of
                  (Inl errors, entity1, s1) \<Rightarrow> (sr_failure errors, s1)
                | (Inr _, entity1, s1) \<Rightarrow> (sr_success_with entity1, s1))))"

text \<open>The update works on the caller's entity, which keeps its changes when a later step fails.\<close>

definition update_execute ::
    "('e \<Rightarrow> 'p \<Rightarrow> 'e \<times> validation_result) \<Rightarrow> ('e \<Rightarrow> validation_result) \<Rightarrow>
     ('e \<Rightarrow> 's \<Rightarrow> validation_result \<times> 'e \<times> 's) \<Rightarrow> 'e \<Rightarrow> 'p \<Rightarrow> 's \<Rightarrow>
     'e service_result \<times> 'e \<times> 's" where
  "update_execute set_attributes validate persist entity params s =
     (case set_attributes entity params of
        (entity1, Inl errors) \<Rightarrow> (sr_failure errors, entity1, s)
      | (entity1, Inr _) \<Rightarrow>
          (case validate entity1 of
             Inl errors \<Rightarrow> (sr_failure errors, entity1, s)
           | Inr _ \<Rightarrow>
               (case persist entity1 s of
                  (Inl errors, entity2, s1) \<Rightarrow> (sr_failure errors, entity2, s1)
                | (Inr _, entity2, s1) \<Rightarrow> (sr_success_with entity2, entity2, s1))))"

definition delete_execute ::
    "('e \<Rightarrow> validation_result) \<Rightarrow> ('e \<Rightarrow> 's \<Rightarrow> validation_result \<times> 's) \<Rightarrow> 'e \<Rightarrow> 's \<Rightarrow>
     unit service_result \<times> 's" where
  "delete_execute validate_delete do_delete entity s =
     (case validate_delete entity of
        Inl errors \<Rightarrow> (sr_failure errors, s)
      | Inr _ \<Rightarrow>
          (case do_delete entity s of
             (Inl errors, s1) \<Rightarrow> (sr_failure errors, s1)
           | (Inr _, s1) \<Rightarrow> (sr_success_with (), s1)))"

text \<open>
  C24. The base services touch the database only for an entity that was validated: whatever the
  methods do, the database after a call is the one before it or the one \<open>persist\<close> (\<open>do_delete\<close>)
  left for an entity that \<open>validate\<close> (\<open>validate_delete\<close>) accepted; and a call succeeds exactly
  when every step does.
\<close>

theorem base_services_persist_only_validated:
  "(\<exists>e1. fst (set_attributes e0 p) = e1 \<and>
      snd (create_execute e0 set_attributes validate persist p s) =
        (if snd (set_attributes e0 p) = Ok () \<and> validate e1 = Ok () then snd (snd (persist e1 s)) else s) \<and>
      (sr_success (fst (create_execute e0 set_attributes validate persist p s)) \<longleftrightarrow>
        snd (set_attributes e0 p) = Ok () \<and> validate e1 = Ok () \<and> fst (persist e1 s) = Ok ()) \<and>
      snd (snd (update_execute set_attributes validate persist e0 p s)) =
        (if snd (set_attributes e0 p) = Ok () \<and> validate e1 = Ok () then snd (snd (persist e1 s)) else s) \<and>
      (sr_success (fst (update_execute set_attributes validate persist e0 p s)) \<longleftrightarrow>
        snd (set_attributes e0 p) = Ok () \<and> validate e1 = Ok () \<and> fst (persist e1 s) = Ok ())) \<and>
   snd (delete_execute validate_delete do_delete e s) =
     (if validate_delete e = Ok () then snd (do_delete e s) else s) \<and>
   (sr_success (fst (delete_execute validate_delete do_delete e s)) \<longleftrightarrow>
     validate_delete e = Ok () \<and> fst (do_delete e s) = Ok ())"
  by (auto simp: create_execute_def update_execute_def delete_execute_def
      split: prod.splits sum.splits)

subsection \<open>Set-attributes parameters\<close>

record 'a set_attributes_params =
  sap_attributes :: 'a
  sap_skip_validation :: bool

definition set_attributes_params_new :: "'a \<Rightarrow> 'a set_attributes_params" where
  "set_attributes_params_new attributes =
     \<lparr>sap_attributes = attributes, sap_skip_validation = False\<rparr>"

definition set_attributes_params_skip_validation ::
    "'a set_attributes_params \<Rightarrow> 'a set_attributes_params" where
  "set_attributes_params_skip_validation p = p\<lparr>sap_skip_validation := True\<rparr>"

text \<open>\<open>if let Some(x) = params.x { self.model.x = x }\<close>.\<close>

definition or_keep :: "'a option \<Rightarrow> 'a \<Rightarrow> 'a" where
  "or_keep p old = (case p of Some v \<Rightarrow> v | None \<Rightarrow> old)"

definition or_keep_some :: "'a option \<Rightarrow> 'a option \<Rightarrow> 'a option" where
  "or_keep_some p old = (case p of Some v \<Rightarrow> Some v | None \<Rightarrow> old)"

lemma or_keep_simps [simp]:
  "or_keep (Some v) old = v" "or_keep None old = old"
  "or_keep_some (Some v) o2 = Some v" "or_keep_some None o2 = o2"
  by (simp_all add: or_keep_def or_keep_some_def)

text \<open>A service holds the acting user and whether it notifies.\<close>

record service =
  svc_user :: user_context
  svc_send_notifications :: bool

definition service_new :: "user_context \<Rightarrow> service" where
  "service_new user = \<lparr>svc_user = user, svc_send_notifications = True\<rparr>"

definition service_without_notifications :: "user_context \<Rightarrow> service" where
  "service_without_notifications user = \<lparr>svc_user = user, svc_send_notifications = False\<rparr>"

end
