(* ===== verification/Services_Projects.thy ===== *)
theory Services_Projects
  imports Service_Result Contracts_Projects
begin

section \<open>Project services (\<open>crates/op-services/src/projects\<close>)\<close>

text \<open>
  Creating, updating, deleting and archiving projects: parameters, the entity, setting attributes
  with validation, and the calls.  The theorems say when each call succeeds and what it returns;
  in particular that an update is validated by the contract for creation.
\<close>

subsection \<open>Parameters\<close>

record project_params =
  pp_name :: "string option"
  pp_identifier :: "string option"
  pp_description :: "string option"
  pp_public :: "bool option"
  pp_active :: "bool option"
  pp_parent_id :: "i64 option"
  pp_send_notifications :: bool

definition project_params_new :: project_params where
  "project_params_new = \<lparr>pp_name = None, pp_identifier = None, pp_description = None,
     pp_public = None, pp_active = None, pp_parent_id = None, pp_send_notifications = False\<rparr>"

definition project_params_with_name :: "string \<Rightarrow> project_params \<Rightarrow> project_params" where
  "project_params_with_name v p = p\<lparr>pp_name := Some v\<rparr>"

definition project_params_with_identifier :: "string \<Rightarrow> project_params \<Rightarrow> project_params" where
  "project_params_with_identifier v p = p\<lparr>pp_identifier := Some v\<rparr>"

definition project_params_with_description :: "string \<Rightarrow> project_params \<Rightarrow> project_params" where
  "project_params_with_description v p = p\<lparr>pp_description := Some v\<rparr>"

definition project_params_with_public :: "bool \<Rightarrow> project_params \<Rightarrow> project_params" where
  "project_params_with_public v p = p\<lparr>pp_public := Some v\<rparr>"

definition project_params_with_active :: "bool \<Rightarrow> project_params \<Rightarrow> project_params" where
  "project_params_with_active v p = p\<lparr>pp_active := Some v\<rparr>"

definition project_params_with_parent_id :: "i64 \<Rightarrow> project_params \<Rightarrow> project_params" where
  "project_params_with_parent_id v p = p\<lparr>pp_parent_id := Some v\<rparr>"

definition project_params_send_notifications :: "bool \<Rightarrow> project_params \<Rightarrow> project_params" where
  "project_params_send_notifications v p = p\<lparr>pp_send_notifications := v\<rparr>"

subsection \<open>The entity and its attributes\<close>

record project_entity =
  pe_id :: "Id option"
  pe_name :: string
  pe_identifier :: string
  pe_description :: "string option"
  pe_public :: bool
  pe_active :: bool
  pe_parent_id :: "Id option"

definition project_entity_new :: project_entity where
  "project_entity_new = \<lparr>pe_id = None, pe_name = [], pe_identifier = [], pe_description = None,
     pe_public = False, pe_active = True, pe_parent_id = None\<rparr>"

definition project_entity_is_new :: "project_entity \<Rightarrow> bool" where
  "project_entity_is_new p \<longleftrightarrow> pe_id p = None"

text \<open>\<open>impl ProjectData for ProjectEntity\<close>.\<close>

definition project_entity_data :: "project_entity \<Rightarrow> project_data" where
  "project_entity_data p =
     \<lparr>pd_id = pe_id p, pd_identifier = pe_identifier p, pd_name = pe_name p,
      pd_description = pe_description p, pd_public = pe_public p, pd_parent_id = pe_parent_id p,
      pd_active = pe_active p\<rparr>"

definition project_set_attributes :: "project_params \<Rightarrow> project_entity \<Rightarrow> project_entity" where
  "project_set_attributes params model =
     \<lparr>pe_id = pe_id model,
      pe_name = or_keep (pp_name params) (pe_name model),
      pe_identifier = or_keep (pp_identifier params) (pe_identifier model),
      pe_description = or_keep_some (pp_description params) (pe_description model),
      pe_public = or_keep (pp_public params) (pe_public model),
      pe_active = or_keep (pp_active params) (pe_active model),
      pe_parent_id = or_keep_some (pp_parent_id params) (pe_parent_id model)\<rparr>"

definition project_set_attributes_call ::
    "user_context \<Rightarrow> project_entity \<Rightarrow> project_params \<Rightarrow> project_entity service_result" where
  "project_set_attributes_call user model params =
     (let model1 = project_set_attributes params model
      in case create_project_validate user (project_entity_data model1) of
           Inl errors \<Rightarrow> sr_failure errors
         | Inr _ \<Rightarrow> sr_success_with model1)"

subsection \<open>The calls\<close>

definition create_project_next_id :: Id where
  "create_project_next_id = 1000"

definition create_project_call :: "service \<Rightarrow> project_params \<Rightarrow> project_entity service_result" where
  "create_project_call svc params =
     (let result = project_set_attributes_call (svc_user svc) project_entity_new params
      in if sr_is_failure result then result
         else (case sr_result result of
             Some project \<Rightarrow> sr_success_with (project\<lparr>pe_id := Some create_project_next_id\<rparr>)
           | None \<Rightarrow> result))"

definition update_project_call ::
    "service \<Rightarrow> project_entity \<Rightarrow> project_params \<Rightarrow> project_entity service_result" where
  "update_project_call svc project params =
     (if pe_id project = None then sr_failure_with_base_error ''Cannot update a new project''
      else (let result = project_set_attributes_call (svc_user svc) project params
        in if sr_is_failure result then result
           else (case sr_result result of
               Some project1 \<Rightarrow> sr_success_with project1 | None \<Rightarrow> result)))"

definition delete_project_service_validate :: "service \<Rightarrow> project_entity \<Rightarrow> validation_result" where
  "delete_project_service_validate svc project =
     (let project_id = (case pe_id project of Some i \<Rightarrow> i | None \<Rightarrow> 0)
      in delete_project_validate (svc_user svc)
           \<lparr>dpd_id = project_id, dpd_has_children = False, dpd_work_package_count = 0\<rparr>)"

definition delete_project_call :: "service \<Rightarrow> project_entity \<Rightarrow> project_entity service_result" where
  "delete_project_call svc project =
     (if pe_id project = None then sr_failure_with_base_error ''Cannot delete a new project''
      else (case delete_project_service_validate svc project of
          Inl errors \<Rightarrow> sr_failure errors
        | Inr _ \<Rightarrow> sr_success_with project))"

definition archive_project_call :: "service \<Rightarrow> project_entity \<Rightarrow> project_entity service_result" where
  "archive_project_call svc project =
     (if pe_id project = None then sr_failure_with_base_error ''Cannot archive a new project''
      else (case delete_project_service_validate svc project of
          Inl errors \<Rightarrow> sr_failure errors
        | Inr _ \<Rightarrow> sr_success_with (project\<lparr>pe_active := False\<rparr>)))"

subsection \<open>Laws\<close>

definition project_acceptable_for :: "user_context \<Rightarrow> project_entity \<Rightarrow> bool" where
  "project_acceptable_for u p \<longleftrightarrow>
     (uc_is_admin u \<or> uc_allowed_globally u ADD_PROJECT) \<and>
     identifier_acceptable (pe_identifier p) \<and> name_acceptable (pe_name p) \<and>
     may_add_project_under u (pe_parent_id p)"

lemma project_set_attributes_call_eq:
  "project_set_attributes_call u m params =
     (let m1 = project_set_attributes params m
      in if project_acceptable_for u m1 then sr_success_with m1
         else sr_failure (projl (create_project_validate u (project_entity_data m1))))"
  using create_project_ok_iff [of u "project_entity_data (project_set_attributes params m)"]
  by (auto simp: project_set_attributes_call_def project_acceptable_for_def project_entity_data_def
      Let_def split: sum.split)

lemma delete_project_service_ok:
  "delete_project_service_validate svc p = Ok () \<longleftrightarrow> uc_is_admin (svc_user svc)"
  by (simp add: delete_project_service_validate_def delete_project_ok_iff Let_def)

lemma project_set_attributes_id [simp]: "pe_id (project_set_attributes params m) = pe_id m"
  by (simp add: project_set_attributes_def)

text \<open>
  Project services: a creation succeeds exactly when the new entity is acceptable for the
  user, and returns it with an identity; an update succeeds exactly when the project has an
  identity and the changed entity would be accepted as a new project, and returns it changed in
  the given attributes only; deleting and archiving ask for an administrator, and archiving only
  clears the active flag.
\<close>

theorem project_services_correct:
  "sr_into_result (create_project_call svc params) =
     (let p = project_set_attributes params project_entity_new
      in if project_acceptable_for (svc_user svc) p
         then Ok (p\<lparr>pe_id := Some create_project_next_id\<rparr>)
         else Err (projl (create_project_validate (svc_user svc) (project_entity_data p)))) \<and>
   sr_into_result (update_project_call svc p0 params) =
     (let p = project_set_attributes params p0
      in if pe_id p0 = None then Err (ve_add_base ''Cannot update a new project'' ve_new)
         else if project_acceptable_for (svc_user svc) p then Ok p
         else Err (projl (create_project_validate (svc_user svc) (project_entity_data p)))) \<and>
   sr_success (delete_project_call svc p0) = (pe_id p0 \<noteq> None \<and> uc_is_admin (svc_user svc)) \<and>
   sr_result (archive_project_call svc p0) =
     (if pe_id p0 \<noteq> None \<and> uc_is_admin (svc_user svc) then Some (p0\<lparr>pe_active := False\<rparr>) else None)"
proof (intro conjI, goal_cases)
  case 3
  show ?case
    using delete_project_service_ok [of svc p0]
    by (auto simp: delete_project_call_def split: sum.split)
next
  case 4
  show ?case
    using delete_project_service_ok [of svc p0]
    by (auto simp: archive_project_call_def split: sum.split)
qed (simp_all add: create_project_call_def update_project_call_def project_set_attributes_call_eq
      sr_into_result_def sr_is_failure_def Let_def)

text \<open>
  The update asks for the wrong right.  The update contract wants \<open>edit_project\<close> on the
  project; the service validates with the creation contract instead, so its answer does not
  depend on that permission: a member who may edit the project but not create projects is
  refused, and a user who may create projects but not edit this one is let through.
\<close>

theorem update_project_ignores_edit_permission:
  "sr_success (update_project_call (service_new u) p params) =
     (pe_id p \<noteq> None \<and> project_acceptable_for u (project_set_attributes params p)) \<and>
   (\<exists>editor creator p. uc_allowed_in_project editor EDIT_PROJECT 7 \<and>
      \<not> sr_success (update_project_call (service_new editor) p project_params_new) \<and>
      update_project_validate (update_project_contract_new editor 7) (project_entity_data p) = Ok () \<and>
      \<not> uc_is_admin creator \<and> \<not> uc_allowed_in_project creator EDIT_PROJECT 7 \<and>
      sr_success (update_project_call (service_new creator) p project_params_new) \<and>
      update_project_validate (update_project_contract_new creator 7) (project_entity_data p) \<noteq> Ok ())"
proof (rule conjI)
  show "sr_success (update_project_call (service_new u) p params) =
     (pe_id p \<noteq> None \<and> project_acceptable_for u (project_set_attributes params p))"
    by (auto simp: update_project_call_def service_new_def project_set_attributes_call_eq
        sr_is_failure_def Let_def)
  let ?user = "\<lambda>in_project globally. \<lparr>uc_id = 1, uc_is_admin = False, uc_is_anonymous = False,
      uc_allowed_in_project = in_project, uc_allowed_globally = globally,
      uc_allowed_for_work_package = default_allowed_for_work_package\<rparr>"
  let ?editor = "?user (\<lambda>_ i. i = 7) (\<lambda>_. False)"
  let ?creator = "?user (\<lambda>_ _. False) (\<lambda>s. s = ADD_PROJECT)"
  let ?p = "project_entity_new\<lparr>pe_id := Some 7, pe_name := ''Demo'', pe_identifier := ''demo''\<rparr>"
  have ok: "identifier_acceptable ''demo''" "name_acceptable ''Demo''"
    by code_simp+
  have keep: "project_set_attributes project_params_new ?p = ?p"
    by (simp add: project_set_attributes_def project_params_new_def project_entity_new_def)
  show "\<exists>editor creator p. uc_allowed_in_project editor EDIT_PROJECT 7 \<and>
      \<not> sr_success (update_project_call (service_new editor) p project_params_new) \<and>
      update_project_validate (update_project_contract_new editor 7) (project_entity_data p) = Ok () \<and>
      \<not> uc_is_admin creator \<and> \<not> uc_allowed_in_project creator EDIT_PROJECT 7 \<and>
      sr_success (update_project_call (service_new creator) p project_params_new) \<and>
      update_project_validate (update_project_contract_new creator 7) (project_entity_data p) \<noteq> Ok ()"
    by (rule exI [of _ ?editor], rule exI [of _ ?creator], rule exI [of _ ?p])
       (use keep ok in \<open>simp add: update_project_call_def service_new_def project_set_attributes_call_eq
         project_acceptable_for_def update_project_ok_iff update_project_contract_new_def
         project_entity_data_def parent_change_acceptable_def may_add_project_under_def
         project_entity_new_def sr_is_failure_def Let_def\<close>)
qed

end
