(* ===== verification/Services_Users.thy ===== *)
theory Services_Users
  imports Service_Result Contracts_Users
begin

section \<open>User services (\<open>crates/op-services/src/users\<close>)\<close>

text \<open>
  Creating, updating, deleting and locking users: parameters, the entity, setting attributes with
  validation, and the calls.
\<close>

definition STATUS_ACTIVE :: i32 where "STATUS_ACTIVE = 1"
definition STATUS_REGISTERED :: i32 where "STATUS_REGISTERED = 2"
definition STATUS_LOCKED :: i32 where "STATUS_LOCKED = 3"
definition STATUS_INVITED :: i32 where "STATUS_INVITED = 4"

subsection \<open>Parameters\<close>

record user_params =
  up_login :: "string option"
  up_firstname :: "string option"
  up_lastname :: "string option"
  up_mail :: "string option"
  up_password :: "string option"
  up_admin :: "bool option"
  up_status :: "i32 option"
  up_language :: "string option"
  up_force_password_change :: "bool option"
  up_send_notifications :: bool

definition user_params_new :: user_params where
  "user_params_new = \<lparr>up_login = None, up_firstname = None, up_lastname = None, up_mail = None,
     up_password = None, up_admin = None, up_status = None, up_language = None,
     up_force_password_change = None, up_send_notifications = True\<rparr>"

definition user_params_with_login :: "string \<Rightarrow> user_params \<Rightarrow> user_params" where
  "user_params_with_login v p = p\<lparr>up_login := Some v\<rparr>"

definition user_params_with_firstname :: "string \<Rightarrow> user_params \<Rightarrow> user_params" where
  "user_params_with_firstname v p = p\<lparr>up_firstname := Some v\<rparr>"

definition user_params_with_lastname :: "string \<Rightarrow> user_params \<Rightarrow> user_params" where
  "user_params_with_lastname v p = p\<lparr>up_lastname := Some v\<rparr>"

definition user_params_with_mail :: "string \<Rightarrow> user_params \<Rightarrow> user_params" where
  "user_params_with_mail v p = p\<lparr>up_mail := Some v\<rparr>"

definition user_params_with_password :: "string \<Rightarrow> user_params \<Rightarrow> user_params" where
  "user_params_with_password v p = p\<lparr>up_password := Some v\<rparr>"

definition user_params_with_admin :: "bool \<Rightarrow> user_params \<Rightarrow> user_params" where
  "user_params_with_admin v p = p\<lparr>up_admin := Some v\<rparr>"

definition user_params_with_status :: "i32 \<Rightarrow> user_params \<Rightarrow> user_params" where
  "user_params_with_status v p = p\<lparr>up_status := Some v\<rparr>"

definition user_params_with_language :: "string \<Rightarrow> user_params \<Rightarrow> user_params" where
  "user_params_with_language v p = p\<lparr>up_language := Some v\<rparr>"

definition user_params_with_force_password_change :: "bool \<Rightarrow> user_params \<Rightarrow> user_params" where
  "user_params_with_force_password_change v p = p\<lparr>up_force_password_change := Some v\<rparr>"

definition user_params_without_notifications :: "user_params \<Rightarrow> user_params" where
  "user_params_without_notifications p = p\<lparr>up_send_notifications := False\<rparr>"

subsection \<open>The entity and its attributes\<close>

record user_entity =
  ue_id :: "Id option"
  ue_login :: string
  ue_firstname :: string
  ue_lastname :: string
  ue_mail :: string
  ue_password :: "string option"
  ue_admin :: bool
  ue_status :: i32
  ue_language :: "string option"
  ue_force_password_change :: bool

definition user_entity_new :: user_entity where
  "user_entity_new = \<lparr>ue_id = None, ue_login = [], ue_firstname = [], ue_lastname = [], ue_mail = [],
     ue_password = None, ue_admin = False, ue_status = STATUS_ACTIVE, ue_language = None,
     ue_force_password_change = False\<rparr>"

definition user_entity_is_new :: "user_entity \<Rightarrow> bool" where
  "user_entity_is_new e \<longleftrightarrow> ue_id e = None"

definition user_entity_is_active :: "user_entity \<Rightarrow> bool" where
  "user_entity_is_active e \<longleftrightarrow> ue_status e = STATUS_ACTIVE"

definition user_entity_is_locked :: "user_entity \<Rightarrow> bool" where
  "user_entity_is_locked e \<longleftrightarrow> ue_status e = STATUS_LOCKED"

text \<open>\<open>impl UserData\<close> and \<open>impl CreateUserData for UserEntity\<close>.\<close>

definition user_entity_data :: "user_entity \<Rightarrow> user_data" where
  "user_entity_data e =
     \<lparr>ud_id = ue_id e, ud_login = ue_login e, ud_firstname = ue_firstname e,
      ud_lastname = ue_lastname e, ud_mail = ue_mail e, ud_admin = ue_admin e,
      ud_password = ue_password e\<rparr>"

definition user_set_attributes :: "user_context \<Rightarrow> user_params \<Rightarrow> user_entity \<Rightarrow> user_entity" where
  "user_set_attributes user params model =
     \<lparr>ue_id = ue_id model,
      ue_login = or_keep (up_login params) (ue_login model),
      ue_firstname = or_keep (up_firstname params) (ue_firstname model),
      ue_lastname = or_keep (up_lastname params) (ue_lastname model),
      ue_mail = or_keep (up_mail params) (ue_mail model),
      ue_password = or_keep_some (up_password params) (ue_password model),
      ue_admin = (case up_admin params of
          Some admin \<Rightarrow> (if uc_is_admin user then admin else ue_admin model)
        | None \<Rightarrow> ue_admin model),
      ue_status = or_keep (up_status params) (ue_status model),
      ue_language = or_keep_some (up_language params) (ue_language model),
      ue_force_password_change =
        or_keep (up_force_password_change params) (ue_force_password_change model)\<rparr>"

definition user_set_attributes_call ::
    "user_context \<Rightarrow> user_entity \<Rightarrow> user_params \<Rightarrow> user_entity service_result" where
  "user_set_attributes_call user model params =
     (let model1 = user_set_attributes user params model
      in case create_user_validate user (user_entity_data model1) of
           Inl errors \<Rightarrow> sr_failure errors
         | Inr _ \<Rightarrow> sr_success_with model1)"

subsection \<open>The calls\<close>

definition create_user_next_id :: Id where
  "create_user_next_id = 1000"

definition create_user_call :: "service \<Rightarrow> user_params \<Rightarrow> user_entity service_result" where
  "create_user_call svc params =
     (let entity = user_entity_new\<lparr>ue_status := STATUS_ACTIVE\<rparr>;
          result = user_set_attributes_call (svc_user svc) entity params
      in if sr_is_failure result then result
         else (case sr_result result of
             Some e \<Rightarrow> sr_success_with (e\<lparr>ue_id := Some create_user_next_id\<rparr>)
           | None \<Rightarrow> result))"

definition can_update_user :: "service \<Rightarrow> user_entity \<Rightarrow> bool" where
  "can_update_user svc target =
     (if uc_is_admin (svc_user svc) then True
      else (case ue_id target of Some i \<Rightarrow> uc_id (svc_user svc) = i | None \<Rightarrow> False))"

definition update_user_call ::
    "service \<Rightarrow> user_entity \<Rightarrow> user_params \<Rightarrow> user_entity service_result" where
  "update_user_call svc entity params =
     (if ue_id entity = None then sr_failure_with_base_error ''Cannot update a new user''
      else if \<not> can_update_user svc entity
      then sr_failure_with_base_error ''Not authorized to update this user''
      else (let result = user_set_attributes_call (svc_user svc) entity params
        in if sr_is_failure result then result
           else (case sr_result result of Some e \<Rightarrow> sr_success_with e | None \<Rightarrow> result)))"

definition delete_user_service_validate :: "service \<Rightarrow> user_entity \<Rightarrow> validation_result" where
  "delete_user_service_validate svc entity =
     (let user_id = (case ue_id entity of Some i \<Rightarrow> i | None \<Rightarrow> 0)
      in delete_user_validate (svc_user svc) user_id
           \<lparr>dud_id = user_id, dud_is_builtin = False, dud_work_package_count = 0\<rparr>)"

definition delete_user_call :: "service \<Rightarrow> user_entity \<Rightarrow> user_entity service_result" where
  "delete_user_call svc entity =
     (case ue_id entity of
        None \<Rightarrow> sr_failure_with_base_error ''Cannot delete a new user''
      | Some _ \<Rightarrow>
          (case delete_user_service_validate svc entity of
             Inl errors \<Rightarrow> sr_failure errors
           | Inr _ \<Rightarrow> sr_success_with entity))"

definition lock_user_call :: "service \<Rightarrow> user_entity \<Rightarrow> user_entity service_result" where
  "lock_user_call svc entity =
     (if ue_id entity = None then sr_failure_with_base_error ''Cannot lock a new user''
      else if \<not> uc_is_admin (svc_user svc)
      then sr_failure_with_base_error ''Only administrators can lock users''
      else sr_success_with (entity\<lparr>ue_status := STATUS_LOCKED\<rparr>))"

subsection \<open>Laws\<close>

definition user_acceptable_for :: "user_context \<Rightarrow> user_entity \<Rightarrow> bool" where
  "user_acceptable_for u e \<longleftrightarrow> uc_is_admin u \<and> user_data_acceptable (user_entity_data e) \<and>
     password_acceptable (ue_password e)"

lemma user_set_attributes_call_eq:
  "user_set_attributes_call u m params =
     (let m1 = user_set_attributes u params m
      in if user_acceptable_for u m1 then sr_success_with m1
         else sr_failure (projl (create_user_validate u (user_entity_data m1))))"
  using create_user_ok_iff [of u "user_entity_data (user_set_attributes u params m)"]
  by (auto simp: user_set_attributes_call_def user_acceptable_for_def user_entity_data_def
      Let_def split: sum.split)

lemma delete_user_service_ok:
  "ue_id e = Some i \<Longrightarrow> delete_user_service_validate svc e = Ok () \<longleftrightarrow>
     uc_is_admin (svc_user svc) \<and> uc_id (svc_user svc) \<noteq> i"
  by (simp add: delete_user_service_validate_def delete_user_ok_iff Let_def)

text \<open>
  User services: a creation succeeds exactly when an administrator gives acceptable data, and
  returns the entity with an identity; deletion asks for an administrator who is not the target;
  locking for an administrator, and it only sets the status (an administrator may lock
  themselves).
\<close>

theorem user_services_correct:
  "sr_into_result (create_user_call svc params) =
     (let e = user_set_attributes (svc_user svc) params user_entity_new
      in if user_acceptable_for (svc_user svc) e then Ok (e\<lparr>ue_id := Some create_user_next_id\<rparr>)
         else Err (projl (create_user_validate (svc_user svc) (user_entity_data e)))) \<and>
   sr_success (delete_user_call svc e0) =
     (uc_is_admin (svc_user svc) \<and> ue_id e0 \<noteq> None \<and> ue_id e0 \<noteq> Some (uc_id (svc_user svc))) \<and>
   sr_result (lock_user_call svc e0) =
     (if ue_id e0 \<noteq> None \<and> uc_is_admin (svc_user svc) then Some (e0\<lparr>ue_status := STATUS_LOCKED\<rparr>)
      else None)"
proof (intro conjI, goal_cases)
  case 1
  have "user_entity_new\<lparr>ue_status := STATUS_ACTIVE\<rparr> = user_entity_new"
    by (simp add: user_entity_new_def)
  then show ?case
    by (simp add: create_user_call_def user_set_attributes_call_eq sr_into_result_def
        sr_is_failure_def Let_def)
next
  case 2
  show ?case
    using delete_user_service_ok [of e0 _ svc]
    by (cases "ue_id e0") (auto simp: delete_user_call_def split: sum.split)
next
  case 3
  show ?case by (simp add: lock_user_call_def)
qed

text \<open>
  The update of a user lets people edit their own account on its first check and then
  validates with the contract for creation, which only an administrator passes: for anyone else
  every update fails, also the update of their own account that the update contract allows.
\<close>

theorem update_user_only_by_administrators:
  "sr_success (update_user_call svc e params) =
     (ue_id e \<noteq> None \<and> user_acceptable_for (svc_user svc) (user_set_attributes (svc_user svc) params e)) \<and>
   (\<exists>u e. \<not> uc_is_admin u \<and> can_update_user (service_new u) e \<and>
      update_user_validate (update_user_contract_new u (the (ue_id e))) (user_entity_data e) = Ok () \<and>
      failed_fields (create_user_validate u (user_entity_data e)) = {''base''} \<and>
      \<not> sr_success (update_user_call (service_new u) e user_params_new))"
proof (rule conjI)
  show "sr_success (update_user_call svc e params) =
     (ue_id e \<noteq> None \<and> user_acceptable_for (svc_user svc) (user_set_attributes (svc_user svc) params e))"
    by (auto simp: update_user_call_def user_set_attributes_call_eq can_update_user_def
        user_acceptable_for_def sr_is_failure_def Let_def)
  let ?u = "\<lparr>uc_id = 5, uc_is_admin = False, uc_is_anonymous = False,
      uc_allowed_in_project = (\<lambda>_ _. False), uc_allowed_globally = (\<lambda>_. False),
      uc_allowed_for_work_package = default_allowed_for_work_package\<rparr>"
  let ?e = "user_entity_new\<lparr>ue_id := Some 5, ue_login := ''jane'', ue_firstname := ''Jane'',
      ue_lastname := ''Roe'', ue_mail := ''jane@example.org''\<rparr>"
  have ok: "login_acceptable ''jane''" "person_name_acceptable ''Jane''"
      "person_name_acceptable ''Roe''" "mail_acceptable ''jane@example.org''"
    by code_simp+
  have data: "user_data_acceptable (user_entity_data ?e)"
    using ok by (simp add: user_data_acceptable_def user_entity_data_def)
  have pw: "ud_password (user_entity_data ?e) = None"
    by (simp add: user_entity_data_def user_entity_new_def)
  have "failed_fields (create_user_validate ?u (user_entity_data ?e)) = {''base''}"
    using data pw
    by (auto simp: create_user_validate_def failed_fields_outcome contract_simps
        user_base.merge_fields user_base_fields user_data_acceptable_def password_acceptable_def)
  moreover have "update_user_validate (update_user_contract_new ?u 5) (user_entity_data ?e) = Ok ()"
    using data by (simp add: update_user_ok_iff update_user_contract_new_def)
  ultimately show "\<exists>u e. \<not> uc_is_admin u \<and> can_update_user (service_new u) e \<and>
      update_user_validate (update_user_contract_new u (the (ue_id e))) (user_entity_data e) = Ok () \<and>
      failed_fields (create_user_validate u (user_entity_data e)) = {''base''} \<and>
      \<not> sr_success (update_user_call (service_new u) e user_params_new)"
    by (intro exI [of _ ?u] exI [of _ ?e])
       (simp add: can_update_user_def service_new_def update_user_call_def
         user_set_attributes_call_eq user_acceptable_for_def sr_is_failure_def Let_def)
qed

end
