(* ===== verification/Services_Work_Packages.thy ===== *)
theory Services_Work_Packages
  imports Service_Result Contracts_Work_Packages
begin

section \<open>Work package services (\<open>crates/op-services/src/work_packages\<close>)\<close>

text \<open>
  Creating, updating and deleting work packages: parameters, the entity, setting attributes with
  validation, and the calls.
\<close>

subsection \<open>Parameters\<close>

record wp_params =
  wpp_subject :: "string option"
  wpp_description :: "string option"
  wpp_project_id :: "i64 option"
  wpp_type_id :: "i64 option"
  wpp_status_id :: "i64 option"
  wpp_priority_id :: "i64 option"
  wpp_assigned_to_id :: "i64 option"
  wpp_responsible_id :: "i64 option"
  wpp_start_date :: "date option"
  wpp_due_date :: "date option"
  wpp_estimated_hours :: "f64 option"
  wpp_done_ratio :: "i32 option"
  wpp_parent_id :: "i64 option"
  wpp_version_id :: "i64 option"
  wpp_category_id :: "i64 option"
  wpp_send_notifications :: bool

definition wp_params_new :: wp_params where
  "wp_params_new = \<lparr>wpp_subject = None, wpp_description = None, wpp_project_id = None, wpp_type_id = None,
     wpp_status_id = None, wpp_priority_id = None, wpp_assigned_to_id = None, wpp_responsible_id = None,
     wpp_start_date = None, wpp_due_date = None, wpp_estimated_hours = None, wpp_done_ratio = None,
     wpp_parent_id = None, wpp_version_id = None, wpp_category_id = None,
     wpp_send_notifications = False\<rparr>"

definition wp_params_with_subject :: "string \<Rightarrow> wp_params \<Rightarrow> wp_params" where
  "wp_params_with_subject v p = p\<lparr>wpp_subject := Some v\<rparr>"

definition wp_params_with_project_id :: "i64 \<Rightarrow> wp_params \<Rightarrow> wp_params" where
  "wp_params_with_project_id v p = p\<lparr>wpp_project_id := Some v\<rparr>"

definition wp_params_with_type_id :: "i64 \<Rightarrow> wp_params \<Rightarrow> wp_params" where
  "wp_params_with_type_id v p = p\<lparr>wpp_type_id := Some v\<rparr>"

definition wp_params_with_status_id :: "i64 \<Rightarrow> wp_params \<Rightarrow> wp_params" where
  "wp_params_with_status_id v p = p\<lparr>wpp_status_id := Some v\<rparr>"

definition wp_params_with_priority_id :: "i64 \<Rightarrow> wp_params \<Rightarrow> wp_params" where
  "wp_params_with_priority_id v p = p\<lparr>wpp_priority_id := Some v\<rparr>"

definition wp_params_with_description :: "string \<Rightarrow> wp_params \<Rightarrow> wp_params" where
  "wp_params_with_description v p = p\<lparr>wpp_description := Some v\<rparr>"

definition wp_params_with_assigned_to_id :: "i64 \<Rightarrow> wp_params \<Rightarrow> wp_params" where
  "wp_params_with_assigned_to_id v p = p\<lparr>wpp_assigned_to_id := Some v\<rparr>"

definition wp_params_with_estimated_hours :: "f64 \<Rightarrow> wp_params \<Rightarrow> wp_params" where
  "wp_params_with_estimated_hours v p = p\<lparr>wpp_estimated_hours := Some v\<rparr>"

definition wp_params_with_done_ratio :: "i32 \<Rightarrow> wp_params \<Rightarrow> wp_params" where
  "wp_params_with_done_ratio v p = p\<lparr>wpp_done_ratio := Some v\<rparr>"

definition wp_params_with_parent_id :: "i64 \<Rightarrow> wp_params \<Rightarrow> wp_params" where
  "wp_params_with_parent_id v p = p\<lparr>wpp_parent_id := Some v\<rparr>"

definition wp_params_with_dates :: "date \<Rightarrow> date \<Rightarrow> wp_params \<Rightarrow> wp_params" where
  "wp_params_with_dates start due p = p\<lparr>wpp_start_date := Some start, wpp_due_date := Some due\<rparr>"

definition wp_params_send_notifications :: "bool \<Rightarrow> wp_params \<Rightarrow> wp_params" where
  "wp_params_send_notifications v p = p\<lparr>wpp_send_notifications := v\<rparr>"

subsection \<open>The entity and its attributes\<close>

record wp_entity =
  we_id :: "Id option"
  we_subject :: "string"
  we_description :: "string option"
  we_project_id :: "Id"
  we_type_id :: "Id"
  we_status_id :: "Id"
  we_priority_id :: "Id"
  we_author_id :: "Id"
  we_assigned_to_id :: "Id option"
  we_responsible_id :: "Id option"
  we_start_date :: "date option"
  we_due_date :: "date option"
  we_estimated_hours :: "f64 option"
  we_done_ratio :: "i32"
  we_parent_id :: "Id option"
  we_version_id :: "Id option"
  we_category_id :: "Id option"
  we_lock_version :: "i32"

definition wp_entity_new :: "Id \<Rightarrow> Id \<Rightarrow> Id \<Rightarrow> wp_entity" where
  "wp_entity_new project_id type_id author_id = \<lparr>we_id = None, we_subject = [], we_description = None, we_project_id = project_id,
     we_type_id = type_id, we_status_id = 1, we_priority_id = 2, we_author_id = author_id,
     we_assigned_to_id = None, we_responsible_id = None, we_start_date = None, we_due_date = None,
     we_estimated_hours = None, we_done_ratio = 0, we_parent_id = None, we_version_id = None,
     we_category_id = None, we_lock_version = 0\<rparr>"

definition wp_entity_is_new :: "wp_entity \<Rightarrow> bool" where
  "wp_entity_is_new e \<longleftrightarrow> we_id e = None"

text \<open>\<open>impl WorkPackageData for WorkPackageEntity\<close>.\<close>

definition wp_entity_data :: "wp_entity \<Rightarrow> work_package_data" where
  "wp_entity_data e =
     \<lparr>wd_id = we_id e, wd_subject = we_subject e, wd_project_id = we_project_id e,
      wd_type_id = we_type_id e, wd_status_id = we_status_id e, wd_author_id = we_author_id e,
      wd_assigned_to_id = we_assigned_to_id e, wd_priority_id = Some (we_priority_id e),
      wd_version_id = we_version_id e, wd_parent_id = we_parent_id e,
      wd_done_ratio = we_done_ratio e, wd_estimated_hours = we_estimated_hours e,
      wd_lock_version = we_lock_version e\<rparr>"

definition wp_set_attributes :: "wp_params \<Rightarrow> wp_entity \<Rightarrow> wp_entity" where
  "wp_set_attributes params model =
     \<lparr>we_id = we_id model,
      we_subject = or_keep (wpp_subject params) (we_subject model),
      we_description = or_keep_some (wpp_description params) (we_description model),
      we_project_id = or_keep (wpp_project_id params) (we_project_id model),
      we_type_id = or_keep (wpp_type_id params) (we_type_id model),
      we_status_id = or_keep (wpp_status_id params) (we_status_id model),
      we_priority_id = or_keep (wpp_priority_id params) (we_priority_id model),
      we_author_id = we_author_id model,
      we_assigned_to_id = or_keep_some (wpp_assigned_to_id params) (we_assigned_to_id model),
      we_responsible_id = or_keep_some (wpp_responsible_id params) (we_responsible_id model),
      we_start_date = or_keep_some (wpp_start_date params) (we_start_date model),
      we_due_date = or_keep_some (wpp_due_date params) (we_due_date model),
      we_estimated_hours = or_keep_some (wpp_estimated_hours params) (we_estimated_hours model),
      we_done_ratio = or_keep (wpp_done_ratio params) (we_done_ratio model),
      we_parent_id = or_keep_some (wpp_parent_id params) (we_parent_id model),
      we_version_id = or_keep_some (wpp_version_id params) (we_version_id model),
      we_category_id = or_keep_some (wpp_category_id params) (we_category_id model),
      we_lock_version = we_lock_version model\<rparr>"

definition wp_set_attributes_call ::
    "user_context \<Rightarrow> wp_entity \<Rightarrow> wp_params \<Rightarrow> wp_entity service_result" where
  "wp_set_attributes_call user model params =
     (let model1 = wp_set_attributes params model
      in case create_work_package_validate user (we_project_id model1) (wp_entity_data model1) of
           Inl errors \<Rightarrow> sr_failure errors
         | Inr _ \<Rightarrow> sr_success_with model1)"

subsection \<open>The calls\<close>

definition create_wp_next_id :: Id where
  "create_wp_next_id = 1000"

definition create_wp_call :: "service \<Rightarrow> wp_params \<Rightarrow> wp_entity service_result" where
  "create_wp_call svc params =
     (let project_id = or_keep (wpp_project_id params) 1;
          type_id = or_keep (wpp_type_id params) 1;
          entity = wp_entity_new project_id type_id (uc_id (svc_user svc));
          result = wp_set_attributes_call (svc_user svc) entity params
      in if sr_is_failure result then result
         else (case sr_result result of
             Some e \<Rightarrow> sr_success_with (e\<lparr>we_id := Some create_wp_next_id\<rparr>)
           | None \<Rightarrow> result))"

definition update_wp_call :: "service \<Rightarrow> wp_entity \<Rightarrow> wp_params \<Rightarrow> wp_entity service_result" where
  "update_wp_call svc entity params =
     (if we_id entity = None then sr_failure_with_base_error ''Cannot update a new work package''
      else (let result = wp_set_attributes_call (svc_user svc) entity params
        in if sr_is_failure result then result
           else (case sr_result result of Some e \<Rightarrow> sr_success_with e | None \<Rightarrow> result)))"

definition delete_wp_call :: "service \<Rightarrow> wp_entity \<Rightarrow> unit service_result" where
  "delete_wp_call svc entity =
     (case we_id entity of
        None \<Rightarrow> sr_failure_with_base_error ''Cannot delete a work package that doesn't exist''
      | Some work_package_id \<Rightarrow>
          (case delete_work_package_validate (svc_user svc) (we_project_id entity)
                  \<lparr>dwd_id = work_package_id, dwd_project_id = we_project_id entity\<rparr> of
             Inl errors \<Rightarrow> sr_failure errors
           | Inr _ \<Rightarrow> sr_success_with ()))"

subsection \<open>Laws\<close>

definition wp_acceptable_for :: "user_context \<Rightarrow> wp_entity \<Rightarrow> bool" where
  "wp_acceptable_for u e \<longleftrightarrow> user_allowed_to_add u (we_project_id e) \<and>
     work_package_acceptable (wp_entity_data e) \<and> we_author_id e \<noteq> 0"

lemma wp_set_attributes_call_eq:
  "wp_set_attributes_call u m params =
     (let m1 = wp_set_attributes params m
      in if wp_acceptable_for u m1 then sr_success_with m1
         else sr_failure (projl (create_work_package_validate u (we_project_id m1) (wp_entity_data m1))))"
  using create_work_package_ok_iff [of u "we_project_id (wp_set_attributes params m)"
      "wp_entity_data (wp_set_attributes params m)"]
  by (auto simp: wp_set_attributes_call_def wp_acceptable_for_def wp_entity_data_def
      Let_def split: sum.split)

text \<open>
  Work package services.  A creation sets the given attributes on the defaults (project and
  type 1, status 1, priority 2, the acting user as author) and succeeds exactly when the result
  is acceptable and the user may add work packages to its project; an update likewise, so it
  asks for the right to add to the project the work package ends up in, and neither for the
  right to edit it nor for anything in the project it leaves; a deletion asks for the right to
  delete.
\<close>

theorem work_package_services_correct:
  "sr_into_result (create_wp_call svc params) =
     (let e = wp_set_attributes params (wp_entity_new 1 1 (uc_id (svc_user svc)))
      in if wp_acceptable_for (svc_user svc) e then Ok (e\<lparr>we_id := Some create_wp_next_id\<rparr>)
         else Err (projl (create_work_package_validate (svc_user svc) (we_project_id e)
                (wp_entity_data e)))) \<and>
   sr_into_result (update_wp_call svc e0 params) =
     (let e = wp_set_attributes params e0
      in if we_id e0 = None then Err (ve_add_base ''Cannot update a new work package'' ve_new)
         else if wp_acceptable_for (svc_user svc) e then Ok e
         else Err (projl (create_work_package_validate (svc_user svc) (we_project_id e)
                (wp_entity_data e)))) \<and>
   sr_success (delete_wp_call svc e0) =
     (we_id e0 \<noteq> None \<and> (uc_is_admin (svc_user svc) \<or>
        uc_allowed_in_project (svc_user svc) DELETE_WORK_PACKAGES (we_project_id e0)))"
proof (intro conjI, goal_cases)
  case 1
  have "wp_set_attributes params (wp_entity_new (or_keep (wpp_project_id params) 1)
        (or_keep (wpp_type_id params) 1) a) = wp_set_attributes params (wp_entity_new 1 1 a)" for a
    by (cases "wpp_project_id params"; cases "wpp_type_id params")
       (simp_all add: wp_set_attributes_def wp_entity_new_def)
  then show ?case
    by (simp add: create_wp_call_def wp_set_attributes_call_eq sr_into_result_def
        sr_is_failure_def Let_def)
next
  case 2
  show ?case
    by (simp add: update_wp_call_def wp_set_attributes_call_eq sr_into_result_def
        sr_is_failure_def Let_def)
next
  case 3
  show ?case
    using delete_work_package_ok_iff [of "svc_user svc" "we_project_id e0"]
    by (cases "we_id e0") (auto simp: delete_wp_call_def split: sum.split)
qed

end
