(* ===== verification/Permissions.thy ===== *)
theory Permissions
  imports Prelude
begin

section \<open>Permissions (\<open>crates/op-auth/src/permissions.rs\<close>)\<close>

text \<open>
  The built-in permissions and the current user with the sets of permissions it was given.  A
  user holds a permission exactly when it was added in that scope; administrators hold all.
\<close>

datatype permission_scope = GlobalScope | ProjectScope | WorkPackageScope

record permission =
  perm_name :: string
  perm_scope :: permission_scope
  perm_description :: string

definition BUILTIN_ADD_PROJECT :: permission where
  "BUILTIN_ADD_PROJECT =
     \<lparr>perm_name = ''add_project'', perm_scope = GlobalScope,
      perm_description = ''Create new projects''\<rparr>"

definition BUILTIN_COPY_PROJECTS :: permission where
  "BUILTIN_COPY_PROJECTS =
     \<lparr>perm_name = ''copy_projects'', perm_scope = GlobalScope,
      perm_description = ''Copy projects''\<rparr>"

definition BUILTIN_VIEW_PROJECT :: permission where
  "BUILTIN_VIEW_PROJECT =
     \<lparr>perm_name = ''view_project'', perm_scope = ProjectScope,
      perm_description = ''View project''\<rparr>"

definition BUILTIN_EDIT_PROJECT :: permission where
  "BUILTIN_EDIT_PROJECT =
     \<lparr>perm_name = ''edit_project'', perm_scope = ProjectScope,
      perm_description = ''Edit project settings''\<rparr>"

definition BUILTIN_DELETE_PROJECT :: permission where
  "BUILTIN_DELETE_PROJECT =
     \<lparr>perm_name = ''delete_project'', perm_scope = ProjectScope,
      perm_description = ''Delete project''\<rparr>"

definition BUILTIN_MANAGE_MEMBERS :: permission where
  "BUILTIN_MANAGE_MEMBERS =
     \<lparr>perm_name = ''manage_members'', perm_scope = ProjectScope,
      perm_description = ''Manage project members''\<rparr>"

definition BUILTIN_VIEW_WORK_PACKAGES :: permission where
  "BUILTIN_VIEW_WORK_PACKAGES =
     \<lparr>perm_name = ''view_work_packages'', perm_scope = ProjectScope,
      perm_description = ''View work packages''\<rparr>"

definition BUILTIN_ADD_WORK_PACKAGES :: permission where
  "BUILTIN_ADD_WORK_PACKAGES =
     \<lparr>perm_name = ''add_work_packages'', perm_scope = ProjectScope,
      perm_description = ''Create work packages''\<rparr>"

definition BUILTIN_EDIT_WORK_PACKAGES :: permission where
  "BUILTIN_EDIT_WORK_PACKAGES =
     \<lparr>perm_name = ''edit_work_packages'', perm_scope = ProjectScope,
      perm_description = ''Edit work packages''\<rparr>"

definition BUILTIN_DELETE_WORK_PACKAGES :: permission where
  "BUILTIN_DELETE_WORK_PACKAGES =
     \<lparr>perm_name = ''delete_work_packages'', perm_scope = ProjectScope,
      perm_description = ''Delete work packages''\<rparr>"

definition BUILTIN_MANAGE_WORK_PACKAGE_RELATIONS :: permission where
  "BUILTIN_MANAGE_WORK_PACKAGE_RELATIONS =
     \<lparr>perm_name = ''manage_work_package_relations'', perm_scope = ProjectScope,
      perm_description = ''Manage work package relations''\<rparr>"

definition BUILTIN_MOVE_WORK_PACKAGES :: permission where
  "BUILTIN_MOVE_WORK_PACKAGES =
     \<lparr>perm_name = ''move_work_packages'', perm_scope = ProjectScope,
      perm_description = ''Move work packages between projects''\<rparr>"

definition BUILTIN_ASSIGN_VERSIONS :: permission where
  "BUILTIN_ASSIGN_VERSIONS =
     \<lparr>perm_name = ''assign_versions'', perm_scope = ProjectScope,
      perm_description = ''Assign versions to work packages''\<rparr>"

record current_user =
  cu_id :: Id
  cu_login :: string
  cu_email :: string
  cu_is_admin :: bool
  cu_is_anonymous :: bool
  cu_global_permissions :: "string set"
  cu_project_permissions :: "(Id, string set) hashmap"
  cu_work_package_permissions :: "(Id, string set) hashmap"

definition current_user_new :: "Id \<Rightarrow> string \<Rightarrow> string \<Rightarrow> current_user" where
  "current_user_new i login email =
     \<lparr>cu_id = i, cu_login = login, cu_email = email, cu_is_admin = False, cu_is_anonymous = False,
      cu_global_permissions = {}, cu_project_permissions = [], cu_work_package_permissions = []\<rparr>"

definition current_user_anonymous :: current_user where
  "current_user_anonymous =
     \<lparr>cu_id = 0, cu_login = ''anonymous'', cu_email = [], cu_is_admin = False,
      cu_is_anonymous = True, cu_global_permissions = {}, cu_project_permissions = [],
      cu_work_package_permissions = []\<rparr>"

definition current_user_admin :: "Id \<Rightarrow> string \<Rightarrow> string \<Rightarrow> current_user" where
  "current_user_admin i login email = (current_user_new i login email)\<lparr>cu_is_admin := True\<rparr>"

definition add_global_permission :: "string \<Rightarrow> current_user \<Rightarrow> current_user" where
  "add_global_permission permission u =
     u\<lparr>cu_global_permissions := insert permission (cu_global_permissions u)\<rparr>"

definition add_project_permission :: "Id \<Rightarrow> string \<Rightarrow> current_user \<Rightarrow> current_user" where
  "add_project_permission project_id permission u =
     u\<lparr>cu_project_permissions := hm_insert project_id
         (insert permission (case hm_get (cu_project_permissions u) project_id of
            None \<Rightarrow> {} | Some perms \<Rightarrow> perms)) (cu_project_permissions u)\<rparr>"

definition cu_allowed_in_project :: "string \<Rightarrow> Id \<Rightarrow> current_user \<Rightarrow> bool" where
  "cu_allowed_in_project permission project_id u =
     (if cu_is_admin u then True
      else (case hm_get (cu_project_permissions u) project_id of
          Some perms \<Rightarrow> permission \<in> perms
        | None \<Rightarrow> False))"

definition cu_allowed_globally :: "string \<Rightarrow> current_user \<Rightarrow> bool" where
  "cu_allowed_globally permission u =
     (if cu_is_admin u then True else permission \<in> cu_global_permissions u)"

subsection \<open>Laws\<close>

datatype grant = GrantGlobal string | GrantProject Id string

fun apply_grant :: "grant \<Rightarrow> current_user \<Rightarrow> current_user" where
  "apply_grant (GrantGlobal p) u = add_global_permission p u"
| "apply_grant (GrantProject i p) u = add_project_permission i p u"

lemma apply_grant_admin [simp]: "cu_is_admin (apply_grant g u) = cu_is_admin u"
  by (cases g) (simp_all add: add_global_permission_def add_project_permission_def)

lemma apply_grant_allowed:
  "cu_allowed_globally p (apply_grant g u) \<longleftrightarrow> cu_allowed_globally p u \<or> g = GrantGlobal p"
  "cu_allowed_in_project p i (apply_grant g u) \<longleftrightarrow>
     cu_allowed_in_project p i u \<or> g = GrantProject i p"
  by (cases g; auto simp: cu_allowed_globally_def cu_allowed_in_project_def
      add_global_permission_def add_project_permission_def split: option.split)+

lemma fold_grant_allowed:
  "cu_allowed_globally p (fold apply_grant gs u) \<longleftrightarrow>
     cu_allowed_globally p u \<or> GrantGlobal p \<in> set gs"
  "cu_allowed_in_project p i (fold apply_grant gs u) \<longleftrightarrow>
     cu_allowed_in_project p i u \<or> GrantProject i p \<in> set gs"
  by (induction gs arbitrary: u) (auto simp: apply_grant_allowed)

text \<open>
  Permissions are exactly what was granted: after any sequence of grants, in any order and
  with repetitions, a user created by \<open>new\<close> holds a permission globally (in a project) exactly
  when it was granted globally (in that project), and an administrator holds every permission.
\<close>

theorem permissions_are_the_grants:
  "(cu_allowed_globally p (fold apply_grant gs (current_user_new i l e)) \<longleftrightarrow>
      GrantGlobal p \<in> set gs) \<and>
   (cu_allowed_in_project p j (fold apply_grant gs (current_user_new i l e)) \<longleftrightarrow>
      GrantProject j p \<in> set gs) \<and>
   cu_allowed_globally p (fold apply_grant gs (current_user_admin i l e)) \<and>
   cu_allowed_in_project p j (fold apply_grant gs (current_user_admin i l e))"
  by (simp add: fold_grant_allowed)
     (simp add: cu_allowed_globally_def cu_allowed_in_project_def current_user_new_def
       current_user_admin_def)

end
