(* ===== verification/Session.thy ===== *)
theory Session
  imports Prelude
begin

section \<open>Sessions (\<open>crates/op-auth/src/session.rs\<close>)\<close>

text \<open>
  Sessions, the interface of a session store (\<open>session_store\<close>) with the in-memory store as its
  interpretation, and the session cookie.  The clock (\<open>now\<close>), the draws of the random generator
  and chrono's addition of seconds (\<open>None\<close> when it panics) are parameters.
\<close>

datatype session_error = SessNotFound | SessExpired | SessInvalid | SessNotAuthenticated

record session =
  sess_id :: string
  sess_user_id :: "i64 option"
  sess_data :: "(string, string) hashmap"
  sess_created_at :: timestamp
  sess_accessed_at :: timestamp
  sess_expires_at :: timestamp
  sess_ip_address :: "string option"
  sess_user_agent :: "string option"

definition session_charset :: string where
  "session_charset = ''abcdefghijklmnopqrstuvwxyzABCDEFGHIJKLMNOPQRSTUVWXYZ0123456789''"

text \<open>\<open>draw k\<close> is the \<open>k\<close>-th \<open>random_range(0..CHARSET.len())\<close>.\<close>

definition generate_session_id :: "(nat \<Rightarrow> nat) \<Rightarrow> string" where
  "generate_session_id draw = map (\<lambda>k. session_charset ! draw k) [0..<64]"

definition session_new ::
    "(timestamp \<Rightarrow> i64 \<Rightarrow> timestamp option) \<Rightarrow> timestamp \<Rightarrow> (nat \<Rightarrow> nat) \<Rightarrow> i64 option \<Rightarrow> i64 \<Rightarrow>
     session option" where
  "session_new add_seconds now draw user_id lifetime_seconds =
     map_option (\<lambda>expires_at.
       \<lparr>sess_id = generate_session_id draw, sess_user_id = user_id, sess_data = [],
        sess_created_at = now, sess_accessed_at = now, sess_expires_at = expires_at,
        sess_ip_address = None, sess_user_agent = None\<rparr>)
     (add_seconds now lifetime_seconds)"

definition session_authenticated ::
    "(timestamp \<Rightarrow> i64 \<Rightarrow> timestamp option) \<Rightarrow> timestamp \<Rightarrow> (nat \<Rightarrow> nat) \<Rightarrow> i64 \<Rightarrow> i64 \<Rightarrow>
     session option" where
  "session_authenticated add_seconds now draw user_id lifetime_seconds =
     session_new add_seconds now draw (Some user_id) lifetime_seconds"

definition session_anonymous ::
    "(timestamp \<Rightarrow> i64 \<Rightarrow> timestamp option) \<Rightarrow> timestamp \<Rightarrow> (nat \<Rightarrow> nat) \<Rightarrow> i64 \<Rightarrow> session option" where
  "session_anonymous add_seconds now draw lifetime_seconds =
     session_new add_seconds now draw None lifetime_seconds"

definition session_is_valid :: "timestamp \<Rightarrow> session \<Rightarrow> bool" where
  "session_is_valid now s \<longleftrightarrow> now < sess_expires_at s"

definition session_is_authenticated :: "session \<Rightarrow> bool" where
  "session_is_authenticated s \<longleftrightarrow> sess_user_id s \<noteq> None"

definition session_touch :: "timestamp \<Rightarrow> session \<Rightarrow> session" where
  "session_touch now s = s\<lparr>sess_accessed_at := now\<rparr>"

text \<open>The clock is read twice: \<open>now1\<close> for the expiry and \<open>now2\<close> for \<open>touch\<close>.\<close>

definition session_extend ::
    "(timestamp \<Rightarrow> i64 \<Rightarrow> timestamp option) \<Rightarrow> timestamp \<Rightarrow> timestamp \<Rightarrow> i64 \<Rightarrow> session \<Rightarrow>
     session option" where
  "session_extend add_seconds now1 now2 additional_seconds s =
     map_option (\<lambda>t. session_touch now2 (s\<lparr>sess_expires_at := t\<rparr>)) (add_seconds now1 additional_seconds)"

definition session_set :: "string \<Rightarrow> string \<Rightarrow> session \<Rightarrow> session" where
  "session_set key v s = s\<lparr>sess_data := hm_insert key v (sess_data s)\<rparr>"

definition session_get :: "string \<Rightarrow> session \<Rightarrow> string option" where
  "session_get key s = hm_get (sess_data s) key"

definition session_remove :: "string \<Rightarrow> session \<Rightarrow> string option \<times> session" where
  "session_remove key s =
     (hm_get (sess_data s) key, s\<lparr>sess_data := hm_remove key (sess_data s)\<rparr>)"

definition session_with_ip :: "string \<Rightarrow> session \<Rightarrow> session" where
  "session_with_ip ip s = s\<lparr>sess_ip_address := Some ip\<rparr>"

definition session_with_user_agent :: "string \<Rightarrow> session \<Rightarrow> session" where
  "session_with_user_agent user_agent s = s\<lparr>sess_user_agent := Some user_agent\<rparr>"

subsection \<open>The in-memory store\<close>

text \<open>\<open>mss_poisoned\<close>: a thread panicked while it held the lock.\<close>

record memory_session_store =
  mss_sessions :: "(string, session) hashmap"
  mss_poisoned :: bool

definition mss_new :: memory_session_store where
  "mss_new = \<lparr>mss_sessions = [], mss_poisoned = False\<rparr>"

definition mss_get :: "timestamp \<Rightarrow> string \<Rightarrow> memory_session_store \<Rightarrow> session option" where
  "mss_get now session_id st =
     (if mss_poisoned st then None
      else (case hm_get (mss_sessions st) session_id of
          None \<Rightarrow> None
        | Some s \<Rightarrow> (if session_is_valid now s then Some s else None)))"

definition mss_set ::
    "session \<Rightarrow> memory_session_store \<Rightarrow> (unit, session_error) result \<times> memory_session_store" where
  "mss_set s st =
     (if mss_poisoned st then (Err SessInvalid, st)
      else (Ok (), st\<lparr>mss_sessions := hm_insert (sess_id s) s (mss_sessions st)\<rparr>))"

definition mss_delete ::
    "string \<Rightarrow> memory_session_store \<Rightarrow> (unit, session_error) result \<times> memory_session_store" where
  "mss_delete session_id st =
     (if mss_poisoned st then (Err SessInvalid, st)
      else (Ok (), st\<lparr>mss_sessions := hm_remove session_id (mss_sessions st)\<rparr>))"

text \<open>Both bulk deletions collect the keys first and remove them one by one.\<close>

definition mss_remove_where ::
    "(session \<Rightarrow> bool) \<Rightarrow> memory_session_store \<Rightarrow> (nat, session_error) result \<times> memory_session_store" where
  "mss_remove_where P st =
     (if mss_poisoned st then (Err SessInvalid, st)
      else (let to_remove = map fst (filter (\<lambda>(_, s). P s) (mss_sessions st))
        in (Ok (length to_remove),
            st\<lparr>mss_sessions := fold hm_remove to_remove (mss_sessions st)\<rparr>)))"

definition mss_delete_user_sessions ::
    "i64 \<Rightarrow> memory_session_store \<Rightarrow> (nat, session_error) result \<times> memory_session_store" where
  "mss_delete_user_sessions user_id st = mss_remove_where (\<lambda>s. sess_user_id s = Some user_id) st"

definition mss_cleanup_expired ::
    "timestamp \<Rightarrow> memory_session_store \<Rightarrow> (nat, session_error) result \<times> memory_session_store" where
  "mss_cleanup_expired now st = mss_remove_where (\<lambda>s. sess_expires_at s < now) st"

subsection \<open>The interface\<close>

text \<open>
  What a client may rely on, for a store without a poisoned lock (part of \<open>inv\<close>): \<open>contents\<close> is
  the finite map the store stands for.
\<close>

locale session_store =
  fixes inv :: "'s \<Rightarrow> bool"
    and contents :: "'s \<Rightarrow> string \<Rightarrow> session option"
    and get :: "timestamp \<Rightarrow> string \<Rightarrow> 's \<Rightarrow> session option"
    and store :: "session \<Rightarrow> 's \<Rightarrow> (unit, session_error) result \<times> 's"
    and delete :: "string \<Rightarrow> 's \<Rightarrow> (unit, session_error) result \<times> 's"
    and delete_user :: "i64 \<Rightarrow> 's \<Rightarrow> (nat, session_error) result \<times> 's"
    and cleanup :: "timestamp \<Rightarrow> 's \<Rightarrow> (nat, session_error) result \<times> 's"
  assumes get_contents: "inv st \<Longrightarrow> get now i st =
      (case contents st i of Some s \<Rightarrow> if now < sess_expires_at s then Some s else None | None \<Rightarrow> None)"
    and store_contents: "inv st \<Longrightarrow> inv (snd (store s st)) \<and>
      contents (snd (store s st)) = (contents st)(sess_id s \<mapsto> s)"
    and delete_contents: "inv st \<Longrightarrow> inv (snd (delete i st)) \<and>
      contents (snd (delete i st)) = (contents st)(i := None)"
    and delete_user_contents: "inv st \<Longrightarrow> inv (snd (delete_user u st)) \<and>
      contents (snd (delete_user u st)) =
        (\<lambda>i. case contents st i of
               Some s \<Rightarrow> if sess_user_id s = Some u then None else Some s | None \<Rightarrow> None)"
    and cleanup_contents: "inv st \<Longrightarrow> inv (snd (cleanup now st)) \<and>
      (\<forall>i. contents (snd (cleanup now st)) i = contents st i \<or>
           contents (snd (cleanup now st)) i = None \<and>
           (\<exists>s. contents st i = Some s \<and> sess_expires_at s < now))"

datatype session_op =
    OpSet session
  | OpDelete string
  | OpDeleteUser i64
  | OpCleanup timestamp

text \<open>What the operations mean: a map from identities to sessions, on which cleaning up does nothing.\<close>

fun spec_step :: "session_op \<Rightarrow> (string \<Rightarrow> session option) \<Rightarrow> (string \<Rightarrow> session option)" where
  "spec_step (OpSet s) m = m(sess_id s \<mapsto> s)"
| "spec_step (OpDelete i) m = m(i := None)"
| "spec_step (OpDeleteUser u) m =
     (\<lambda>i. case m i of Some s \<Rightarrow> if sess_user_id s = Some u then None else Some s | None \<Rightarrow> None)"
| "spec_step (OpCleanup t) m = m"

fun cleanup_before :: "timestamp \<Rightarrow> session_op \<Rightarrow> bool" where
  "cleanup_before now (OpCleanup t) \<longleftrightarrow> t \<le> now"
| "cleanup_before now _ \<longleftrightarrow> True"

definition valid_at :: "timestamp \<Rightarrow> session option \<Rightarrow> session option" where
  "valid_at now x = (case x of Some s \<Rightarrow> if now < sess_expires_at s then Some s else None | None \<Rightarrow> None)"

context session_store
begin

fun step :: "session_op \<Rightarrow> 's \<Rightarrow> 's" where
  "step (OpSet s) st = snd (store s st)"
| "step (OpDelete i) st = snd (delete i st)"
| "step (OpDeleteUser u) st = snd (delete_user u st)"
| "step (OpCleanup t) st = snd (cleanup t st)"

lemma step_sim:
  assumes "inv st" and "cleanup_before now op" and "\<And>i. valid_at now (contents st i) = valid_at now (m i)"
  shows "inv (step op st) \<and>
    (\<forall>i. valid_at now (contents (step op st) i) = valid_at now (spec_step op m i))"
proof (cases op)
  case (OpSet s)
  with assms store_contents show ?thesis by (auto simp: valid_at_def)
next
  case (OpDelete i)
  with assms delete_contents show ?thesis by (auto simp: valid_at_def)
next
  case (OpDeleteUser u)
  have "valid_at now (case contents st i of
        Some s \<Rightarrow> if sess_user_id s = Some u then None else Some s | None \<Rightarrow> None) =
      valid_at now (spec_step (OpDeleteUser u) m i)" for i
    using assms(3) [of i] by (auto simp: valid_at_def split: option.splits if_splits)
  with OpDeleteUser assms(1) delete_user_contents show ?thesis by simp
next
  case (OpCleanup t)
  have "valid_at now (contents (snd (cleanup t st)) i) = valid_at now (contents st i)" for i
    using assms(2) OpCleanup cleanup_contents [OF assms(1), of t]
    by (auto simp: valid_at_def dest: spec [of _ i])
  with OpCleanup assms cleanup_contents [OF assms(1), of t] show ?thesis by auto
qed

lemma run_sim:
  assumes "inv st" and "list_all (cleanup_before now) ops"
    and "\<And>i. valid_at now (contents st i) = valid_at now (m i)"
  shows "inv (fold step ops st) \<and> get now i (fold step ops st) = valid_at now (fold spec_step ops m i)"
  using assms
proof (induction ops arbitrary: st m)
  case Nil
  then show ?case by (simp add: get_contents valid_at_def)
next
  case (Cons op ops)
  from step_sim [of st now op m] Cons.prems
  have "inv (step op st)" "\<And>i. valid_at now (contents (step op st) i) = valid_at now (spec_step op m i)"
    by auto
  with Cons show ?case by simp
qed

end

subsection \<open>The in-memory store is a session store\<close>

definition mss_inv :: "memory_session_store \<Rightarrow> bool" where
  "mss_inv st \<longleftrightarrow> \<not> mss_poisoned st \<and> hm_ok (mss_sessions st)"

lemma remove_where_contents:
  assumes "hm_ok m"
  shows "hm_get (fold hm_remove (map fst (filter (\<lambda>(_, s). P s) m)) m) i =
    (case hm_get m i of Some s \<Rightarrow> if P s then None else Some s | None \<Rightarrow> None)"
proof -
  have "i \<in> set (map fst (filter (\<lambda>(_, s). P s) m)) \<longleftrightarrow> (\<exists>s. hm_get m i = Some s \<and> P s)"
    using hm_get_in_set [OF assms] by force
  then show ?thesis by (auto simp: hm_fold_remove split: option.split)
qed

interpretation memory_sessions: session_store mss_inv "\<lambda>st. hm_get (mss_sessions st)"
  mss_get mss_set mss_delete mss_delete_user_sessions mss_cleanup_expired
proof unfold_locales
  fix st now
  assume "mss_inv st"
  then show "mss_inv (snd (mss_cleanup_expired now st)) \<and>
      (\<forall>i. hm_get (mss_sessions (snd (mss_cleanup_expired now st))) i = hm_get (mss_sessions st) i \<or>
           hm_get (mss_sessions (snd (mss_cleanup_expired now st))) i = None \<and>
           (\<exists>s. hm_get (mss_sessions st) i = Some s \<and> sess_expires_at s < now))"
    by (auto simp: mss_cleanup_expired_def mss_remove_where_def mss_inv_def
        hm_fold_remove(2) remove_where_contents Let_def split: option.split)
qed (auto simp: mss_inv_def mss_get_def mss_set_def mss_delete_def mss_delete_user_sessions_def
      mss_remove_where_def session_is_valid_def remove_where_contents hm_fold_remove(2) Let_def fun_eq_iff
      split: option.split)

fun mss_step :: "session_op \<Rightarrow> memory_session_store \<Rightarrow> memory_session_store" where
  "mss_step (OpSet s) st = snd (mss_set s st)"
| "mss_step (OpDelete i) st = snd (mss_delete i st)"
| "mss_step (OpDeleteUser u) st = snd (mss_delete_user_sessions u st)"
| "mss_step (OpCleanup t) st = snd (mss_cleanup_expired t st)"

lemma mss_step_eq: "memory_sessions.step = mss_step"
proof (intro ext)
  fix op st
  show "memory_sessions.step op st = mss_step op st" by (cases op) simp_all
qed

text \<open>
  C4. The store implements its specification: after any sequence of operations, looking a session
  up gives what the map of the specification holds, unless it has expired by then.  Cleaning up
  (at any time before the lookup) never changes an answer, and deleting the sessions of a user
  leaves none of them behind.
\<close>

theorem session_store_refines_map:
  assumes "list_all (cleanup_before now) ops"
  shows "mss_get now i (fold mss_step ops mss_new) =
     valid_at now (fold spec_step ops (\<lambda>_. None) i)"
  using memory_sessions.run_sim [of mss_new now ops "\<lambda>_. None" i] assms
  by (simp add: mss_step_eq mss_inv_def mss_new_def)

theorem session_store_refines_map_witness:
  "mss_get 10 ''a'' (fold mss_step
      [OpSet \<lparr>sess_id = ''a'', sess_user_id = Some 1, sess_data = [], sess_created_at = 0,
         sess_accessed_at = 0, sess_expires_at = 20, sess_ip_address = None,
         sess_user_agent = None\<rparr>, OpCleanup 5, OpDeleteUser 1] mss_new) = None"
  by (subst session_store_refines_map) (simp_all add: valid_at_def)

text \<open>
  Deleting the sessions of a user reports how many there were, and none of them can be looked
  up afterwards; the boundary of expiry differs by an instant between lookup and cleanup: a
  session at its expiry time is no longer returned but not yet removed.
\<close>

theorem delete_user_sessions_complete:
  assumes "mss_inv st" and "mss_delete_user_sessions u st = (r, st1)"
  shows "r = Ok (card {i. \<exists>s. hm_get (mss_sessions st) i = Some s \<and> sess_user_id s = Some u}) \<and>
    (\<forall>now i s. mss_get now i st1 = Some s \<longrightarrow> sess_user_id s \<noteq> Some u \<and> mss_get now i st = Some s)"
proof -
  let ?P = "\<lambda>s. sess_user_id s = Some u"
  let ?ks = "map fst (filter (\<lambda>(_, s). ?P s) (mss_sessions st))"
  have ok: "hm_ok (mss_sessions st)" and np: "\<not> mss_poisoned st"
    using assms(1) by (simp_all add: mss_inv_def)
  have r: "r = Ok (length ?ks)" "mss_sessions st1 = fold hm_remove ?ks (mss_sessions st)"
      "\<not> mss_poisoned st1"
    using assms(2) np by (auto simp: mss_delete_user_sessions_def mss_remove_where_def Let_def)
  have d: "distinct ?ks" using ok by (simp add: hm_ok_def distinct_map_filter)
  have "set ?ks = {i. \<exists>s. hm_get (mss_sessions st) i = Some s \<and> ?P s}"
    using hm_get_in_set [OF ok] by force
  with distinct_card [OF d]
  have "length ?ks = card {i. \<exists>s. hm_get (mss_sessions st) i = Some s \<and> ?P s}"
    by (simp only:)
  with r np show ?thesis
    by (auto simp: mss_get_def remove_where_contents [OF ok] split: option.splits if_splits)
qed

theorem delete_user_sessions_complete_witness:
  "fst (mss_delete_user_sessions 1 (snd (mss_set
      \<lparr>sess_id = ''a'', sess_user_id = Some 1, sess_data = [], sess_created_at = 0,
        sess_accessed_at = 0, sess_expires_at = 20, sess_ip_address = None,
        sess_user_agent = None\<rparr> mss_new))) =
     Ok (card {i. \<exists>s. hm_get (mss_sessions (snd (mss_set
      \<lparr>sess_id = ''a'', sess_user_id = Some 1, sess_data = [], sess_created_at = 0,
        sess_accessed_at = 0, sess_expires_at = 20, sess_ip_address = None,
        sess_user_agent = None\<rparr> mss_new))) i = Some s \<and> sess_user_id s = Some 1})"
  by (rule conjunct1 [OF delete_user_sessions_complete [OF _ prod.collapse [symmetric]]])
    (simp add: mss_inv_def mss_new_def mss_set_def hm_ok_def)

subsection \<open>Cookies\<close>

datatype same_site = SameSiteStrict | SameSiteLax | SameSiteNone

record cookie_config =
  cc_name :: string
  cc_path :: string
  cc_domain :: "string option"
  cc_secure :: bool
  cc_http_only :: bool
  cc_same_site :: same_site
  cc_max_age :: "i64 option"

definition cookie_config_default :: cookie_config where
  "cookie_config_default =
     \<lparr>cc_name = ''_openproject_session'', cc_path = ''/'', cc_domain = None, cc_secure = True,
      cc_http_only = True, cc_same_site = SameSiteLax, cc_max_age = None\<rparr>"

definition cookie_config_development :: cookie_config where
  "cookie_config_development = cookie_config_default\<lparr>cc_secure := False\<rparr>"

definition build_cookie :: "cookie_config \<Rightarrow> string \<Rightarrow> string" where
  "build_cookie c session_id =
     join ''; '' ([cc_name c @ ''='' @ session_id] @ [''Path='' @ cc_path c] @
       (case cc_domain c of Some d \<Rightarrow> [''Domain='' @ d] | None \<Rightarrow> []) @
       (if cc_secure c then [''Secure''] else []) @
       (if cc_http_only c then [''HttpOnly''] else []) @
       (case cc_same_site c of
          SameSiteStrict \<Rightarrow> [''SameSite=Strict'']
        | SameSiteLax \<Rightarrow> [''SameSite=Lax'']
        | SameSiteNone \<Rightarrow> [''SameSite=None'']) @
       (case cc_max_age c of Some m \<Rightarrow> [''Max-Age='' @ show_i64 m] | None \<Rightarrow> []))"

definition build_clear_cookie :: "cookie_config \<Rightarrow> string" where
  "build_clear_cookie c = cc_name c @ ''=; Path='' @ cc_path c @ ''; Max-Age=0; HttpOnly''"

fun find_cookie :: "string \<Rightarrow> string list \<Rightarrow> string option" where
  "find_cookie cookie_name [] = None"
| "find_cookie cookie_name (part0 # parts) =
     (case split_once CHR ''='' (trim part0) of
        Some (name, v) \<Rightarrow>
          (if trim name = cookie_name then Some (trim v) else find_cookie cookie_name parts)
      | None \<Rightarrow> find_cookie cookie_name parts)"

definition extract_session_id :: "string \<Rightarrow> string \<Rightarrow> string option" where
  "extract_session_id cookie_header cookie_name =
     find_cookie cookie_name (split_char CHR '';'' cookie_header)"

text \<open>The header a client sends for its cookies.\<close>

definition cookie_header :: "(string \<times> string) list \<Rightarrow> string" where
  "cookie_header cs = join ''; '' (map (\<lambda>(n, v). n @ ''='' @ v) cs)"

definition cookie_ok :: "string \<times> string \<Rightarrow> bool" where
  "cookie_ok c \<longleftrightarrow> (case c of (n, v) \<Rightarrow>
     CHR '';'' \<notin> set n \<and> CHR '';'' \<notin> set v \<and> CHR ''='' \<notin> set n \<and> trim n = n \<and> trim v = v)"

lemma split_cookie_header:
  "cs \<noteq> [] \<Longrightarrow> list_all cookie_ok cs \<Longrightarrow>
   split_char CHR '';'' (cookie_header cs) =
     (case cs of (n, v) # cs' \<Rightarrow> (n @ ''='' @ v) # map (\<lambda>(n, v). CHR '' '' # n @ ''='' @ v) cs')"
proof (induction cs rule: induct_list012)
  case (2 c)
  then show ?case by (auto simp: cookie_header_def cookie_ok_def intro!: split_char_no)
next
  case (3 c d cs)
  obtain n v where c: "c = (n, v)" by (cases c)
  have "split_char CHR '';'' (cookie_header (d # cs)) =
      (case d # cs of (n, v) # cs' \<Rightarrow> (n @ ''='' @ v) # map (\<lambda>(n, v). CHR '' '' # n @ ''='' @ v) cs')"
    using 3 by simp
  then have tail: "split_char CHR '';'' (CHR '' '' # cookie_header (d # cs)) =
      map (\<lambda>(n, v). CHR '' '' # n @ ''='' @ v) (d # cs)"
    by (cases d) simp
  have "cookie_header (c # d # cs) = (n @ ''='' @ v) @ CHR '';'' # CHR '' '' # cookie_header (d # cs)"
    by (simp add: cookie_header_def c)
  moreover have "CHR '';'' \<notin> set (n @ ''='' @ v)" using "3.prems" by (auto simp: c cookie_ok_def)
  ultimately have "split_char CHR '';'' (cookie_header (c # d # cs)) =
      (n @ ''='' @ v) # split_char CHR '';'' (CHR '' '' # cookie_header (d # cs))"
    using split_char_append [of "CHR '';''" "n @ ''='' @ v"]
    by (simp only: not_False_eq_True)
  then show ?case using tail by (simp only: c list.case prod.case)
qed simp

lemma find_cookie_pairs:
  assumes "list_all cookie_ok cs"
  shows "find_cookie k (map (\<lambda>(n, v). n @ ''='' @ v) cs) = map_of cs k"
    and "find_cookie k (map (\<lambda>(n, v). CHR '' '' # n @ ''='' @ v) cs) = map_of cs k"
  using assms
  by (induction cs) (auto simp: cookie_ok_def trim_space trim_pair split_once_append)

lemma extract_cookie:
  assumes "cs \<noteq> []" and "list_all cookie_ok cs"
  shows "extract_session_id (cookie_header cs) k = map_of cs k"
proof -
  obtain n v cs' where cs: "cs = (n, v) # cs'" using assms(1) by (cases cs) auto
  from assms(2) cs have ok: "cookie_ok (n, v)" "list_all cookie_ok cs'" by auto
  show ?thesis
    using ok find_cookie_pairs [OF ok(2)] split_cookie_header [OF assms]
    by (auto simp: extract_session_id_def cs cookie_ok_def trim_pair split_once_append)
qed

text \<open>
  The session cookie is read back: from the header a client sends for any list of well-formed
  cookies, the server extracts exactly the value of the first one with the name asked for.
\<close>

theorem session_cookie_roundtrip:
  assumes "cs \<noteq> []" and "list_all cookie_ok cs"
  shows "extract_session_id (cookie_header cs) name = map_of cs name"
  using assms by (rule extract_cookie)

theorem session_cookie_roundtrip_witness:
  "extract_session_id (cookie_header [(''theme'', ''dark''), (''_openproject_session'', ''Ab1'')])
     ''_openproject_session'' = Some ''Ab1''"
proof -
  have "list_all cookie_ok [(''theme'', ''dark''), (''_openproject_session'', ''Ab1'')]"
    by code_simp
  then show ?thesis
    using session_cookie_roundtrip
      [of "[(''theme'', ''dark''), (''_openproject_session'', ''Ab1'')]" "''_openproject_session''"]
    by simp
qed

end
