(* ===== verification/Api_Key.thy ===== *)
theory Api_Key
  imports Prelude
begin

section \<open>API keys (\<open>crates/op-auth/src/api_key.rs\<close>)\<close>

text \<open>
  API keys, their hashing and verification, and their extraction from headers.  SHA-256 in hex,
  Argon2 and Base64 decoding are parameters.  The comparison written without early exit decides
  equality (\<open>constant_time_compare_iff\<close>).
\<close>

unbundle bit_operations_syntax

datatype api_key_error = KeyNotFound | KeyRevoked | KeyExpired | KeyInvalidFormat

record api_key =
  ak_id :: i64
  ak_user_id :: i64
  ak_hashed_value :: string
  ak_last_chars :: string
  ak_name :: "string option"
  ak_active :: bool
  ak_expires_at :: "timestamp option"
  ak_created_at :: timestamp
  ak_last_used_at :: "timestamp option"

definition api_key_is_valid :: "timestamp \<Rightarrow> api_key \<Rightarrow> bool" where
  "api_key_is_valid now k =
     (if \<not> ak_active k then False
      else (case ak_expires_at k of
          Some expires_at \<Rightarrow> (if expires_at < now then False else True)
        | None \<Rightarrow> True))"

datatype hash_algorithm = Sha256 | Argon2

record api_key_service =
  aks_hash_algorithm :: hash_algorithm

definition api_key_service_new :: api_key_service where
  "api_key_service_new = \<lparr>aks_hash_algorithm = Sha256\<rparr>"

definition api_key_service_with_argon2 :: "api_key_service \<Rightarrow> api_key_service" where
  "api_key_service_with_argon2 s = s\<lparr>aks_hash_algorithm := Argon2\<rparr>"

text \<open>\<open>argon2 salt plaintext\<close> is the encoded hash for the 16 random bytes \<open>salt\<close>.\<close>

definition hash_key ::
    "(string \<Rightarrow> string) \<Rightarrow> (string \<Rightarrow> string \<Rightarrow> string) \<Rightarrow> string \<Rightarrow> api_key_service \<Rightarrow> string \<Rightarrow> string" where
  "hash_key sha256_hex argon2 salt s plaintext =
     (case aks_hash_algorithm s of
        Sha256 \<Rightarrow> sha256_hex plaintext
      | Argon2 \<Rightarrow> argon2 salt plaintext)"

definition constant_time_compare :: "string \<Rightarrow> string \<Rightarrow> bool" where
  "constant_time_compare a b =
     (if length a \<noteq> length b then False
      else fold (\<lambda>(x, y) result. result OR (word_of_nat (of_char x) XOR word_of_nat (of_char y)))
             (zip a b) (0 :: 8 word) = 0)"

text \<open>\<open>argon2_verify hash plaintext\<close>: the stored hash parses and verifies.\<close>

definition verify_key ::
    "(string \<Rightarrow> string) \<Rightarrow> (string \<Rightarrow> string \<Rightarrow> bool) \<Rightarrow> api_key_service \<Rightarrow> string \<Rightarrow> string \<Rightarrow> bool" where
  "verify_key sha256_hex argon2_verify s plaintext stored_hash =
     (case aks_hash_algorithm s of
        Sha256 \<Rightarrow> constant_time_compare (sha256_hex plaintext) stored_hash
      | Argon2 \<Rightarrow> argon2_verify stored_hash plaintext)"

definition key_charset :: string where
  "key_charset = ''abcdefghijklmnopqrstuvwxyzABCDEFGHIJKLMNOPQRSTUVWXYZ0123456789''"

definition generate_key :: "(nat \<Rightarrow> nat) \<Rightarrow> string" where
  "generate_key draw = map (\<lambda>k. key_charset ! draw k) [0..<40]"

text \<open>A slice that does not start at a character boundary panics (\<open>None\<close>).\<close>

definition get_display_suffix :: "string \<Rightarrow> nat \<Rightarrow> string option" where
  "get_display_suffix key n =
     (if length key \<le> n then Some key
      else if char_boundary key (length key - n)
      then Some (''****'' @ drop (length key - n) key)
      else None)"

definition extract_api_key_from_auth :: "(string \<Rightarrow> string option) \<Rightarrow> string \<Rightarrow> string option" where
  "extract_api_key_from_auth base64_decode auth_header =
     (if starts_with (to_lowercase auth_header) ''basic ''
      then (case base64_decode (drop 6 auth_header) of
          Some decoded \<Rightarrow>
            (if utf8_valid decoded
             then (case split_once CHR '':'' decoded of
                 Some (username, _) \<Rightarrow>
                   (if to_lowercase username = ''apikey'' then None else Some username)
               | None \<Rightarrow> None)
             else None)
        | None \<Rightarrow> None)
      else None)"

fun first_api_key_header :: "(string \<times> string) list \<Rightarrow> string option" where
  "first_api_key_header [] = None"
| "first_api_key_header ((name, v) # hs) =
     (if to_lowercase name = ''x-openproject-api-key'' then Some v else first_api_key_header hs)"

fun first_auth_key :: "(string \<Rightarrow> string option) \<Rightarrow> (string \<times> string) list \<Rightarrow> string option" where
  "first_auth_key base64_decode [] = None"
| "first_auth_key base64_decode ((name, v) # hs) =
     (if to_lowercase name = ''authorization''
      then (case extract_api_key_from_auth base64_decode v of
          Some key \<Rightarrow> Some key
        | None \<Rightarrow> first_auth_key base64_decode hs)
      else first_auth_key base64_decode hs)"

definition extract_api_key ::
    "(string \<Rightarrow> string option) \<Rightarrow> (string \<times> string) list \<Rightarrow> string option" where
  "extract_api_key base64_decode headers =
     (case first_api_key_header headers of
        Some key \<Rightarrow> Some key
      | None \<Rightarrow> first_auth_key base64_decode headers)"

subsection \<open>Laws\<close>

lemma byte_of_char_inj:
  "(word_of_nat (of_char x) :: 8 word) = word_of_nat (of_char y) \<longleftrightarrow> x = y"
proof -
  have "(of_char x :: nat) < 256" "(of_char y :: nat) < 256" by simp_all
  then show ?thesis by (simp add: word_of_nat_eq_iff take_bit_eq_mod)
qed

lemma xor_zero_iff: "a XOR b = 0 \<longleftrightarrow> a = (b :: 'a::len word)"
  by (metis xor.assoc xor.left_neutral xor_self_eq)

lemma or_zero_iff: "a OR b = 0 \<longleftrightarrow> a = 0 \<and> b = (0 :: 'a::len word)"
  by (auto intro!: bit_word_eqI simp: bit_eq_iff bit_simps)

lemma fold_or_zero:
  "fold (\<lambda>(x, y) r. r OR f x y) xs (r :: 'a::len word) = 0 \<longleftrightarrow>
     r = 0 \<and> (\<forall>(x, y)\<in>set xs. f x y = 0)"
  by (induction xs arbitrary: r) (auto simp: or_zero_iff)

lemma constant_time_compare_iff: "constant_time_compare a b \<longleftrightarrow> a = b"
proof (cases "length a = length b")
  case True
  have "constant_time_compare a b \<longleftrightarrow> (\<forall>(x, y)\<in>set (zip a b). x = y)"
    using True by (simp add: constant_time_compare_def fold_or_zero xor_zero_iff byte_of_char_inj)
  also have "\<dots> \<longleftrightarrow> a = b" using True by (induction a b rule: list_induct2) auto
  finally show ?thesis .
qed (auto simp: constant_time_compare_def)

text \<open>
  Verification with SHA-256 accepts exactly the stored hash of the key: the comparison that
  accumulates the differences of all bytes, and does not stop at the first, is equality.
\<close>

theorem verify_key_correct:
  "constant_time_compare a b = (a = b) \<and>
   verify_key sha256_hex argon2_verify api_key_service_new key stored =
     (stored = hash_key sha256_hex argon2 salt api_key_service_new key)"
  by (auto simp: constant_time_compare_iff verify_key_def hash_key_def api_key_service_new_def)

text \<open>
  The key in a basic authorization header: it is the user name, and there is none when the
  user name is \<open>apikey\<close>, the one case in which the password holds the key.
\<close>

theorem basic_auth_key_is_user_name:
  assumes "base64_decode encoded = Some (username @ CHR '':'' # password)"
    and "utf8_valid (username @ CHR '':'' # password)" and "CHR '':'' \<notin> set username"
  shows "extract_api_key base64_decode [(''Authorization'', ''Basic '' @ encoded)] =
     (if to_lowercase username = ''apikey'' then None else Some username)"
proof -
  have "to_lowercase ''Authorization'' = ''authorization''" by code_simp
  moreover have "starts_with (to_lowercase (''Basic '' @ encoded)) ''basic ''"
  proof -
    have "map ascii_lower ''Basic '' = ''basic ''" by code_simp
    then show ?thesis by simp
  qed
  ultimately show ?thesis
    using assms
    by (simp add: extract_api_key_def extract_api_key_from_auth_def split_once_append)
qed

theorem basic_auth_key_is_user_name_witness:
  "extract_api_key (\<lambda>_. Some ''apikey:secret'') [(''Authorization'', ''Basic '' @ ''x'')] = None"
proof -
  have "to_lowercase ''apikey'' = ''apikey''" "utf8_valid ''apikey:secret''" by code_simp+
  then show ?thesis
    using basic_auth_key_is_user_name [of "\<lambda>_. Some ''apikey:secret''" "''x''" "''apikey''" "''secret''"]
    by simp
qed

end
