(* ===== verification/Authenticator.thy ===== *)
theory Authenticator
  imports Permissions Session Api_Key
begin

section \<open>Tokens and the authenticator (\<open>crates/op-auth/src/jwt.rs\<close>, \<open>middleware.rs\<close>)\<close>

text \<open>
  The JWT service over the encoding and decoding of the token library, which are parameters, and
  the authenticator, which asks its strategies in order.  A trait object in the configuration is
  its method: the JWT service is its \<open>validate_token\<close>, the session store its \<open>get\<close>.
\<close>

subsection \<open>JWT\<close>

record claims =
  cl_sub :: string
  cl_exp :: u64
  cl_iat :: u64
  cl_jti :: "string option"
  cl_email :: "string option"
  cl_login :: "string option"

datatype jwt_error = JwtExpired | JwtInvalid string | JwtMissing | JwtEncodingFailed string

text \<open>What the library's \<open>decode\<close> fails with.\<close>

datatype decode_error = ExpiredSignature | OtherDecodeError string

record 'k jwt_service =
  js_encoding_key :: 'k
  js_decoding_key :: 'k
  js_issuer :: "string option"
  js_audience :: "string option"

definition jwt_service_new :: "(string \<Rightarrow> 'k) \<Rightarrow> string \<Rightarrow> 'k jwt_service" where
  "jwt_service_new from_secret secret =
     \<lparr>js_encoding_key = from_secret secret, js_decoding_key = from_secret secret,
      js_issuer = None, js_audience = None\<rparr>"

definition jwt_service_from_rsa_pem ::
    "(string \<Rightarrow> ('k, string) result) \<Rightarrow> (string \<Rightarrow> ('k, string) result) \<Rightarrow> string \<Rightarrow> string \<Rightarrow>
     ('k jwt_service, jwt_error) result" where
  "jwt_service_from_rsa_pem enc_pem dec_pem private_key public_key =
     (case enc_pem private_key of
        Inl e \<Rightarrow> Err (JwtInvalid e)
      | Inr ek \<Rightarrow>
          (case dec_pem public_key of
             Inl e \<Rightarrow> Err (JwtInvalid e)
           | Inr dk \<Rightarrow> Ok \<lparr>js_encoding_key = ek, js_decoding_key = dk, js_issuer = None,
                          js_audience = None\<rparr>))"

definition jwt_service_with_issuer :: "string \<Rightarrow> 'k jwt_service \<Rightarrow> 'k jwt_service" where
  "jwt_service_with_issuer issuer s = s\<lparr>js_issuer := Some issuer\<rparr>"

definition jwt_service_with_audience :: "string \<Rightarrow> 'k jwt_service \<Rightarrow> 'k jwt_service" where
  "jwt_service_with_audience audience s = s\<lparr>js_audience := Some audience\<rparr>"

text \<open>\<open>now\<close> is the clock in seconds, \<open>jti\<close> the fresh UUID; \<open>usize\<close> has 64 bits.\<close>

definition create_token ::
    "('k \<Rightarrow> claims \<Rightarrow> (string, string) result) \<Rightarrow> u64 \<Rightarrow> string \<Rightarrow> 'k jwt_service \<Rightarrow> i64 \<Rightarrow>
     string option \<Rightarrow> string option \<Rightarrow> i64 \<Rightarrow> (string, jwt_error) result" where
  "create_token encode now jti s user_id email login expires_in_seconds =
     (case encode (js_encoding_key s)
        \<lparr>cl_sub = show_i64 user_id, cl_exp = now + expires_in_seconds, cl_iat = now,
         cl_jti = Some jti, cl_email = email, cl_login = login\<rparr> of
        Inr token \<Rightarrow> Ok token
      | Inl e \<Rightarrow> Err (JwtEncodingFailed e))"

definition validate_token ::
    "('k \<Rightarrow> string option \<Rightarrow> string option \<Rightarrow> string \<Rightarrow> (claims, decode_error) result) \<Rightarrow>
     'k jwt_service \<Rightarrow> string \<Rightarrow> (claims, jwt_error) result" where
  "validate_token decode s token =
     (case decode (js_decoding_key s) (js_issuer s) (js_audience s) token of
        Inr c \<Rightarrow> Ok c
      | Inl ExpiredSignature \<Rightarrow> Err JwtExpired
      | Inl (OtherDecodeError e) \<Rightarrow> Err (JwtInvalid e))"

definition get_user_id ::
    "('k \<Rightarrow> string option \<Rightarrow> string option \<Rightarrow> string \<Rightarrow> (claims, decode_error) result) \<Rightarrow>
     'k jwt_service \<Rightarrow> string \<Rightarrow> (i64, jwt_error) result" where
  "get_user_id decode s token =
     (case validate_token decode s token of
        Inl e \<Rightarrow> Err e
      | Inr c \<Rightarrow>
          (case parse_i64 (cl_sub c) of
             Some i \<Rightarrow> Ok i
           | None \<Rightarrow> Err (JwtInvalid ''Invalid user ID in token'')))"

definition extract_bearer_token :: "string \<Rightarrow> string option" where
  "extract_bearer_token authorization =
     (if starts_with (to_lowercase authorization) ''bearer ''
      then Some (trim (drop 7 authorization)) else None)"

subsection \<open>The authenticator\<close>

datatype auth_error =
    AuthRequired | AuthInvalidCredentials | AuthTokenExpired | AuthInsufficientPermissions
  | AuthInternal string

datatype auth_strategy = StratJwt | StratApiKey | StratSession | StratBasic | StratOAuth2

datatype auth_result = Authenticated current_user | Anonymous | AuthFailed auth_error

record auth_config =
  ac_jwt_service :: "(string \<Rightarrow> (claims, jwt_error) result) option"
  ac_session_store :: "(string \<Rightarrow> session option) option"
  ac_cookie_config :: cookie_config
  ac_allow_anonymous :: bool
  ac_strategies :: "auth_strategy list"

definition auth_config_default :: auth_config where
  "auth_config_default =
     \<lparr>ac_jwt_service = None, ac_session_store = None, ac_cookie_config = cookie_config_default,
      ac_allow_anonymous = False, ac_strategies = [StratJwt, StratApiKey, StratSession]\<rparr>"

definition auth_config_jwt :: "(string \<Rightarrow> (claims, jwt_error) result) \<Rightarrow> auth_config" where
  "auth_config_jwt validate =
     auth_config_default\<lparr>ac_jwt_service := Some validate, ac_strategies := [StratJwt]\<rparr>"

definition auth_config_session :: "(string \<Rightarrow> session option) \<Rightarrow> auth_config" where
  "auth_config_session store =
     auth_config_default\<lparr>ac_session_store := Some store, ac_strategies := [StratSession]\<rparr>"

definition auth_config_with_jwt ::
    "(string \<Rightarrow> (claims, jwt_error) result) \<Rightarrow> auth_config \<Rightarrow> auth_config" where
  "auth_config_with_jwt validate c =
     (let c1 = c\<lparr>ac_jwt_service := Some validate\<rparr>
      in if StratJwt \<in> set (ac_strategies c1) then c1
         else c1\<lparr>ac_strategies := StratJwt # ac_strategies c1\<rparr>)"

definition auth_config_with_session ::
    "(string \<Rightarrow> session option) \<Rightarrow> auth_config \<Rightarrow> auth_config" where
  "auth_config_with_session store c =
     (let c1 = c\<lparr>ac_session_store := Some store\<rparr>
      in if StratSession \<in> set (ac_strategies c1) then c1
         else c1\<lparr>ac_strategies := ac_strategies c1 @ [StratSession]\<rparr>)"

definition auth_config_with_anonymous :: "auth_config \<Rightarrow> auth_config" where
  "auth_config_with_anonymous c = c\<lparr>ac_allow_anonymous := True\<rparr>"

definition auth_config_with_cookie_config :: "cookie_config \<Rightarrow> auth_config \<Rightarrow> auth_config" where
  "auth_config_with_cookie_config config c = c\<lparr>ac_cookie_config := config\<rparr>"

record request_headers =
  rh_authorization :: "string option"
  rh_api_key :: "string option"
  rh_cookie :: "string option"
  rh_x_forwarded_for :: "string option"
  rh_user_agent :: "string option"

definition request_headers_default :: request_headers where
  "request_headers_default =
     \<lparr>rh_authorization = None, rh_api_key = None, rh_cookie = None, rh_x_forwarded_for = None,
      rh_user_agent = None\<rparr>"

definition set_header :: "string \<times> string \<Rightarrow> request_headers \<Rightarrow> request_headers" where
  "set_header p headers =
     (let name_lower = to_lowercase (fst p); v = snd p
      in if name_lower = ''authorization'' then headers\<lparr>rh_authorization := Some v\<rparr>
         else if name_lower = ''x-openproject-api-key'' then headers\<lparr>rh_api_key := Some v\<rparr>
         else if name_lower = ''cookie'' then headers\<lparr>rh_cookie := Some v\<rparr>
         else if name_lower = ''x-forwarded-for'' then headers\<lparr>rh_x_forwarded_for := Some v\<rparr>
         else if name_lower = ''user-agent'' then headers\<lparr>rh_user_agent := Some v\<rparr>
         else headers)"

definition request_headers_from_pairs :: "(string \<times> string) list \<Rightarrow> request_headers" where
  "request_headers_from_pairs pairs = fold set_header pairs request_headers_default"

definition try_jwt_auth :: "auth_config \<Rightarrow> request_headers \<Rightarrow> auth_result option" where
  "try_jwt_auth c headers =
     (case ac_jwt_service c of None \<Rightarrow> None | Some validate \<Rightarrow>
     (case rh_authorization headers of None \<Rightarrow> None | Some auth_header \<Rightarrow>
     (case extract_bearer_token auth_header of None \<Rightarrow> None | Some token \<Rightarrow>
     (case validate token of
        Inr cl \<Rightarrow>
          (case parse_i64 (cl_sub cl) of
             None \<Rightarrow> None
           | Some user_id \<Rightarrow> Some (Authenticated (current_user_new user_id
               (case cl_login cl of Some l \<Rightarrow> l | None \<Rightarrow> ''user_'' @ show_i64 user_id)
               (case cl_email cl of Some e \<Rightarrow> e | None \<Rightarrow> []))))
      | Inl JwtExpired \<Rightarrow> Some (AuthFailed AuthTokenExpired)
      | Inl _ \<Rightarrow> Some (AuthFailed AuthInvalidCredentials)))))"

definition try_api_key_auth :: "request_headers \<Rightarrow> auth_result option" where
  "try_api_key_auth headers =
     (case rh_api_key headers of
        None \<Rightarrow> None
      | Some api_key \<Rightarrow>
          Some (if 20 \<le> length api_key
                then Authenticated (current_user_new 1 ''api_user'' ''api@example.com'')
                else AuthFailed AuthInvalidCredentials))"

definition try_session_auth :: "auth_config \<Rightarrow> request_headers \<Rightarrow> auth_result option" where
  "try_session_auth c headers =
     (case ac_session_store c of None \<Rightarrow> None | Some lookup \<Rightarrow>
     (case rh_cookie headers of None \<Rightarrow> None | Some cookie \<Rightarrow>
     (case extract_session_id cookie (cc_name (ac_cookie_config c)) of None \<Rightarrow> None
      | Some session_id \<Rightarrow>
     (case lookup session_id of None \<Rightarrow> None | Some s \<Rightarrow>
     (case sess_user_id s of
        Some user_id \<Rightarrow>
          Some (Authenticated (current_user_new user_id ''session_user'' ''session@example.com''))
      | None \<Rightarrow> None)))))"

definition try_basic_auth ::
    "(string \<Rightarrow> string option) \<Rightarrow> request_headers \<Rightarrow> auth_result option" where
  "try_basic_auth base64_decode headers =
     (case rh_authorization headers of None \<Rightarrow> None | Some auth_header \<Rightarrow>
      if \<not> starts_with (to_lowercase auth_header) ''basic '' then None
      else (case base64_decode (drop 6 auth_header) of None \<Rightarrow> None | Some credentials \<Rightarrow>
        if \<not> utf8_valid credentials then None
        else (case split_once CHR '':'' credentials of None \<Rightarrow> None | Some (username, password) \<Rightarrow>
          Some (if username \<noteq> [] \<and> password \<noteq> []
                then Authenticated (current_user_new 1 username (username @ ''@example.com''))
                else AuthFailed AuthInvalidCredentials))))"

fun try_strategy ::
    "(string \<Rightarrow> string option) \<Rightarrow> auth_config \<Rightarrow> request_headers \<Rightarrow> auth_strategy \<Rightarrow>
     auth_result option" where
  "try_strategy b64 c headers StratJwt = try_jwt_auth c headers"
| "try_strategy b64 c headers StratApiKey = try_api_key_auth headers"
| "try_strategy b64 c headers StratSession = try_session_auth c headers"
| "try_strategy b64 c headers StratBasic = try_basic_auth b64 headers"
| "try_strategy b64 c headers StratOAuth2 = None"

fun first_answer :: "('a \<Rightarrow> 'b option) \<Rightarrow> 'a list \<Rightarrow> 'b option" where
  "first_answer f [] = None"
| "first_answer f (x # xs) = (case f x of Some r \<Rightarrow> Some r | None \<Rightarrow> first_answer f xs)"

definition authenticate ::
    "(string \<Rightarrow> string option) \<Rightarrow> auth_config \<Rightarrow> request_headers \<Rightarrow> auth_result" where
  "authenticate b64 c headers =
     (case first_answer (try_strategy b64 c headers) (ac_strategies c) of
        Some result \<Rightarrow> result
      | None \<Rightarrow> (if ac_allow_anonymous c then Anonymous else AuthFailed AuthRequired))"

subsection \<open>Laws\<close>

lemma first_answer_Some: "first_answer f xs = Some r \<Longrightarrow> \<exists>x\<in>set xs. f x = Some r"
  by (induction xs) (auto split: option.splits)

text \<open>The users the authenticator makes up hold no permission.\<close>

definition powerless :: "current_user \<Rightarrow> bool" where
  "powerless u \<longleftrightarrow> \<not> cu_is_admin u \<and> \<not> cu_is_anonymous u \<and> cu_global_permissions u = {} \<and>
     cu_project_permissions u = []"

lemma powerless_new [simp]: "powerless (current_user_new i l e)"
  by (simp add: powerless_def current_user_new_def)

lemma powerless_allowed:
  "powerless u \<Longrightarrow> \<not> cu_allowed_globally p u \<and> \<not> cu_allowed_in_project p i u"
  by (simp add: powerless_def cu_allowed_globally_def cu_allowed_in_project_def)

lemma strategy_powerless:
  "try_strategy b64 c h s = Some r \<Longrightarrow> r \<noteq> Anonymous \<and> (\<forall>u. r = Authenticated u \<longrightarrow> powerless u)"
  by (cases s)
     (auto simp: try_jwt_auth_def try_api_key_auth_def try_session_auth_def try_basic_auth_def
       split: option.splits sum.splits jwt_error.splits if_splits prod.splits)

text \<open>
  What an authentication can end in: a user without any permission (they are looked up
  elsewhere), never an administrator; the anonymous user only where the configuration allows it
  and no strategy had an answer; ``authentication required'' only where it does not.
\<close>

theorem authenticate_outcomes:
  "case authenticate b64 c h of
     Authenticated u \<Rightarrow> \<not> cu_is_admin u \<and> \<not> cu_allowed_globally p u \<and> \<not> cu_allowed_in_project p i u
   | Anonymous \<Rightarrow> ac_allow_anonymous c \<and> list_all (\<lambda>s. try_strategy b64 c h s = None) (ac_strategies c)
   | AuthFailed e \<Rightarrow> e = AuthRequired \<longleftrightarrow>
       \<not> ac_allow_anonymous c \<and> list_all (\<lambda>s. try_strategy b64 c h s = None) (ac_strategies c)"
proof -
  have none: "first_answer (try_strategy b64 c h) xs = None \<longleftrightarrow>
      list_all (\<lambda>s. try_strategy b64 c h s = None) xs" for xs
    by (induction xs) (auto split: option.split)
  have failed: "e \<noteq> AuthRequired" if "try_strategy b64 c h s = Some (AuthFailed e)" for s e
    using that by (cases s)
      (auto simp: try_jwt_auth_def try_api_key_auth_def try_session_auth_def try_basic_auth_def
       split: option.splits sum.splits jwt_error.splits if_splits prod.splits)
  show ?thesis
  proof (cases "first_answer (try_strategy b64 c h) (ac_strategies c)")
    case None
    from None none [of "ac_strategies c"] have "list_all (\<lambda>s. try_strategy b64 c h s = None) (ac_strategies c)"
      by simp
    with None show ?thesis
      by (cases "ac_allow_anonymous c")
        (simp_all add: authenticate_def cu_allowed_globally_def cu_allowed_in_project_def current_user_anonymous_def)
  next
    case (Some r)
    then obtain s where s: "try_strategy b64 c h s = Some r" using first_answer_Some by metis
    have "\<not> list_all (\<lambda>s. try_strategy b64 c h s = None) (ac_strategies c)"
      using none [of "ac_strategies c"] Some by simp
    with Some s strategy_powerless [OF s] failed powerless_allowed show ?thesis
      by (auto simp: authenticate_def powerless_def split: auth_result.split)
  qed
qed

lemma strip_bearer: "extract_bearer_token (''Bearer '' @ token) = Some (trim token)"
proof -
  have "map ascii_lower ''Bearer '' = ''bearer ''" by code_simp
  then show ?thesis by (simp add: extract_bearer_token_def)
qed

text \<open>
  A configuration is built from one of the constructors by any of the methods, in any order; the
  token services that were given on the way.
\<close>

datatype config_start =
    StartDefault
  | StartJwt "string \<Rightarrow> (claims, jwt_error) result"
  | StartSession "string \<Rightarrow> session option"

datatype config_step =
    WithJwt "string \<Rightarrow> (claims, jwt_error) result"
  | WithSession "string \<Rightarrow> session option"
  | WithAnonymous
  | WithCookieConfig cookie_config

fun start_config :: "config_start \<Rightarrow> auth_config" where
  "start_config StartDefault = auth_config_default"
| "start_config (StartJwt validate) = auth_config_jwt validate"
| "start_config (StartSession store) = auth_config_session store"

fun apply_step :: "config_step \<Rightarrow> auth_config \<Rightarrow> auth_config" where
  "apply_step (WithJwt validate) c = auth_config_with_jwt validate c"
| "apply_step (WithSession store) c = auth_config_with_session store c"
| "apply_step WithAnonymous c = auth_config_with_anonymous c"
| "apply_step (WithCookieConfig config) c = auth_config_with_cookie_config config c"

definition built_config :: "config_start \<Rightarrow> config_step list \<Rightarrow> auth_config" where
  "built_config start steps = fold apply_step steps (start_config start)"

fun start_services :: "config_start \<Rightarrow> (string \<Rightarrow> (claims, jwt_error) result) list" where
  "start_services (StartJwt validate) = [validate]"
| "start_services _ = []"

fun step_services :: "config_step \<Rightarrow> (string \<Rightarrow> (claims, jwt_error) result) list" where
  "step_services (WithJwt validate) = [validate]"
| "step_services _ = []"

definition token_services :: "config_start \<Rightarrow> config_step list \<Rightarrow> (string \<Rightarrow> (claims, jwt_error) result) list" where
  "token_services start steps = start_services start @ concat (map step_services steps)"

text \<open>Tokens are asked for first, and checked by the service that was given last.\<close>

definition jwt_first :: "(string \<Rightarrow> (claims, jwt_error) result) list \<Rightarrow> auth_config \<Rightarrow> bool" where
  "jwt_first services c \<longleftrightarrow>
     (StratJwt \<in> set (ac_strategies c) \<longrightarrow> ac_strategies c \<noteq> [] \<and> hd (ac_strategies c) = StratJwt) \<and>
     (services \<noteq> [] \<longrightarrow> StratJwt \<in> set (ac_strategies c) \<and> ac_jwt_service c = Some (last services))"

lemma jwt_first_step:
  assumes "jwt_first services c"
  shows "jwt_first (services @ step_services st) (apply_step st c)"
proof (cases st)
  case (WithSession store)
  from assms show ?thesis
    unfolding WithSession by (cases "ac_strategies c")
      (auto simp: jwt_first_def auth_config_with_session_def Let_def)
qed (use assms in \<open>auto simp: jwt_first_def auth_config_with_jwt_def auth_config_with_anonymous_def
  auth_config_with_cookie_config_def Let_def\<close>)

lemma jwt_first_built: "jwt_first (token_services start steps) (built_config start steps)"
proof (induction steps rule: rev_induct)
  case Nil
  show ?case
    by (cases start) (simp_all add: jwt_first_def token_services_def built_config_def auth_config_default_def
        auth_config_jwt_def auth_config_session_def)
next
  case (snoc st steps)
  from jwt_first_step [OF snoc, of st] show ?case by (simp add: token_services_def built_config_def)
qed

lemma authenticate_jwt_first:
  assumes "jwt_first services c" "services \<noteq> []" "try_jwt_auth c h = Some r"
  shows "authenticate b64 c h = r"
proof -
  from assms(1,2) obtain ss where "ac_strategies c = StratJwt # ss"
    by (cases "ac_strategies c") (auto simp: jwt_first_def)
  with assms(3) show ?thesis by (simp add: authenticate_def)
qed

text \<open>The last header of that name counts.\<close>

lemma authorization_header:
  assumes "to_lowercase name = ''authorization''" "\<And>p. p \<in> set later \<Longrightarrow> to_lowercase (fst p) \<noteq> ''authorization''"
  shows "rh_authorization (request_headers_from_pairs (earlier @ (name, v) # later)) = Some v"
proof -
  have "rh_authorization (fold set_header ps h) = rh_authorization h"
    if "\<And>p. p \<in> set ps \<Longrightarrow> to_lowercase (fst p) \<noteq> ''authorization''" for ps h
    using that by (induction ps arbitrary: h) (simp_all add: set_header_def Let_def)
  with assms show ?thesis by (simp add: request_headers_from_pairs_def set_header_def Let_def)
qed

text \<open>
  C38. A token works end to end.  Assume of the token library that a token it made (from a key and
  some claims) decodes, with the same key and before its expiry, to those claims, and that tokens
  have no white space at their ends.  Then the token \<open>create_token\<close> makes for a user authenticates
  that very user at any time before it expires, in whatever order the configuration was built from one
  of its constructors, as long as the token service given last is the one with the secret of the token; and
  whatever other headers the request has, cookies and API keys included, as long as no later one has the name of this one.
\<close>

theorem created_token_authenticates:
  assumes library: "\<And>k cl token. encode k cl = Ok token \<Longrightarrow> unat now1 < unat (cl_exp cl) \<Longrightarrow>
      trim token = token \<and> decode k None None token = Ok cl"
    and token: "create_token encode now jti (jwt_service_new from_secret secret) user_id
      (Some email) (Some login) expires_in = Ok token"
    and unexpired: "unat now1 < unat (now + expires_in)"
    and service: "token_services start steps = services @ [validate_token decode (jwt_service_new from_secret secret)]"
    and header: "to_lowercase name = ''authorization''" "\<forall>p \<in> set later. to_lowercase (fst p) \<noteq> ''authorization''"
  shows "authenticate b64 (built_config start steps)
      (request_headers_from_pairs (earlier @ (name, ''Bearer '' @ token) # later)) =
    Authenticated (current_user_new user_id login email)"
proof -
  let ?cl = "\<lparr>cl_sub = show_i64 user_id, cl_exp = now + expires_in, cl_iat = now,
      cl_jti = Some jti, cl_email = Some email, cl_login = Some login\<rparr>"
  have "encode (from_secret secret) ?cl = Ok token"
    using token by (simp add: create_token_def jwt_service_new_def split: sum.splits)
  with library [of "from_secret secret" ?cl token] unexpired
  have lib: "trim token = token" "decode (from_secret secret) None None token = Ok ?cl" by simp_all
  have "ac_jwt_service (built_config start steps) = Some (validate_token decode (jwt_service_new from_secret secret))"
    using jwt_first_built [of start steps] service by (simp add: jwt_first_def)
  moreover have "rh_authorization (request_headers_from_pairs (earlier @ (name, ''Bearer '' @ token) # later)) = Some (''Bearer '' @ token)"
    by (rule authorization_header) (use header in auto)
  ultimately have "try_jwt_auth (built_config start steps) (request_headers_from_pairs (earlier @ (name, ''Bearer '' @ token) # later)) =
      Some (Authenticated (current_user_new user_id login email))"
    using lib strip_bearer [of token] by (simp add: try_jwt_auth_def validate_token_def jwt_service_new_def)
  from authenticate_jwt_first [OF jwt_first_built _ this] service show ?thesis by simp
qed

theorem created_token_authenticates_witness:
  "authenticate (\<lambda>_. None)
      (built_config (StartSession (\<lambda>_. None)) [WithAnonymous, WithJwt (validate_token
         (\<lambda>k _ _ t. if t = ''tok'' then Ok \<lparr>cl_sub = ''7'', cl_exp = 60, cl_iat = 0, cl_jti = Some ''j'',
            cl_email = Some ''a@b.org'', cl_login = Some ''ann''\<rparr> else Err ExpiredSignature)
         (jwt_service_new (\<lambda>s. s) ''secret''))])
      (request_headers_from_pairs ([(''Cookie'', ''a=b'')] @ (''Authorization'', ''Bearer '' @ ''tok'') # [])) =
    Authenticated (current_user_new 7 ''ann'' ''a@b.org'')"
proof (rule created_token_authenticates
    [where encode = "\<lambda>k cl. if cl = \<lparr>cl_sub = ''7'', cl_exp = 60, cl_iat = 0, cl_jti = Some ''j'',
        cl_email = Some ''a@b.org'', cl_login = Some ''ann''\<rparr> then Ok ''tok'' else Err ''no''"
      and ?now1.0 = 10 and now = 0 and jti = "''j''" and expires_in = 60 and services = "[]"])
  have seven: "show_int 7 = ''7''" by code_simp
  have trimmed: "trim ''tok'' = ''tok''" by code_simp
  show "create_token (\<lambda>k cl. if cl = \<lparr>cl_sub = ''7'', cl_exp = 60, cl_iat = 0, cl_jti = Some ''j'',
        cl_email = Some ''a@b.org'', cl_login = Some ''ann''\<rparr> then Ok ''tok'' else Err ''no'') 0 ''j''
      (jwt_service_new (\<lambda>s. s) ''secret'') 7 (Some ''a@b.org'') (Some ''ann'') 60 = Ok ''tok''"
    by (simp add: create_token_def seven)
  show "unat (10 :: u64) < unat (0 + 60 :: u64)" by simp
  show "to_lowercase ''Authorization'' = ''authorization''" by code_simp
  fix k cl token
  assume "(if cl = \<lparr>cl_sub = ''7'', cl_exp = 60, cl_iat = 0, cl_jti = Some ''j'',
        cl_email = Some ''a@b.org'', cl_login = Some ''ann''\<rparr> then Ok ''tok'' else Err ''no'') = Ok token"
  then show "trim token = token \<and>
      (if token = ''tok'' then Ok \<lparr>cl_sub = ''7'', cl_exp = 60, cl_iat = 0, cl_jti = Some ''j'',
            cl_email = Some ''a@b.org'', cl_login = Some ''ann''\<rparr> else Err ExpiredSignature) = Ok cl"
    using trimmed by (simp split: if_splits)
qed (simp_all add: token_services_def)

text \<open>
  The API key strategy does not look a key up: under the default configuration every header of
  at least 20 bytes is user 1, and any user name and password are, where basic authentication is
  enabled.
\<close>

theorem api_keys_are_not_checked:
  "authenticate b64 auth_config_default h =
     (case rh_api_key h of
        Some k \<Rightarrow> if 20 \<le> length k
                  then Authenticated (current_user_new 1 ''api_user'' ''api@example.com'')
                  else AuthFailed AuthInvalidCredentials
      | None \<Rightarrow> AuthFailed AuthRequired)"
  by (simp add: authenticate_def auth_config_default_def try_jwt_auth_def try_api_key_auth_def
      try_session_auth_def split: option.split)

end
