(* ===== verification/Jobs.thy ===== *)
theory Jobs
  imports Prelude
begin

text \<open>
  The background job queue of op-notifications (jobs.rs): a job with its life cycle and its
  exponential backoff, the in-memory queue, the worker, and the system of a queue with any number
  of workers as a step relation.  The clock, the addition of a duration to a time (which panics
  outside the range of dates) and the JSON arguments of a job are parameters.
\<close>

subsection \<open>Jobs\<close>

datatype job_error =
    JobNotFound string
  | JobFailed string
  | RetryLimitExceeded
  | QueueError string
  | SerializationError string

fun job_error_to_string :: "job_error \<Rightarrow> string" where
  "job_error_to_string (JobNotFound s) = ''Job not found: '' @ s"
| "job_error_to_string (JobFailed s) = ''Job failed: '' @ s"
| "job_error_to_string RetryLimitExceeded = ''Retry limit exceeded''"
| "job_error_to_string (QueueError s) = ''Queue error: '' @ s"
| "job_error_to_string (SerializationError s) = ''Serialization error: '' @ s"

datatype job_status = JPending | JRunning | JCompleted | JFailed | JRetrying | JDead

datatype job_priority = PrioLow | PrioNormal | PrioHigh | PrioCritical

definition job_priority_default :: job_priority where
  "job_priority_default = PrioNormal"

text \<open>The derived order is the order of the discriminants.\<close>

fun priority_value :: "job_priority \<Rightarrow> nat" where
  "priority_value PrioLow = 0"
| "priority_value PrioNormal = 1"
| "priority_value PrioHigh = 2"
| "priority_value PrioCritical = 3"

lemma priority_value_inj [simp]: "priority_value p = priority_value q \<longleftrightarrow> p = q"
  by (cases p; cases q) simp_all

instantiation job_priority :: linorder
begin

definition less_eq_job_priority :: "job_priority \<Rightarrow> job_priority \<Rightarrow> bool" where
  "less_eq_job_priority p q \<longleftrightarrow> priority_value p \<le> priority_value q"

definition less_job_priority :: "job_priority \<Rightarrow> job_priority \<Rightarrow> bool" where
  "less_job_priority p q \<longleftrightarrow> priority_value p < priority_value q"

instance
  by standard (auto simp: less_eq_job_priority_def less_job_priority_def)

end

record 'v job =
  job_id :: string
  job_type :: string
  job_queue_name :: string
  job_args :: 'v
  job_status :: job_status
  job_priority :: job_priority
  job_retries :: u32
  job_max_retries :: u32
  job_error :: "string option"
  job_run_at :: "timestamp option"
  job_created_at :: timestamp
  job_started_at :: "timestamp option"
  job_finished_at :: "timestamp option"

definition job_new :: "string \<Rightarrow> timestamp \<Rightarrow> string \<Rightarrow> 'v \<Rightarrow> 'v job" where
  "job_new uuid now type_name args =
     \<lparr>job_id = uuid, job_type = type_name, job_queue_name = ''default'', job_args = args,
      job_status = JPending, job_priority = PrioNormal, job_retries = 0, job_max_retries = 3,
      job_error = None, job_run_at = None, job_created_at = now, job_started_at = None,
      job_finished_at = None\<rparr>"

definition job_with_queue :: "string \<Rightarrow> 'v job \<Rightarrow> 'v job" where
  "job_with_queue queue j = j\<lparr>job_queue_name := queue\<rparr>"

definition job_with_priority :: "job_priority \<Rightarrow> 'v job \<Rightarrow> 'v job" where
  "job_with_priority p j = j\<lparr>job_priority := p\<rparr>"

definition job_with_max_retries :: "u32 \<Rightarrow> 'v job \<Rightarrow> 'v job" where
  "job_with_max_retries n j = j\<lparr>job_max_retries := n\<rparr>"

definition job_with_run_at :: "timestamp \<Rightarrow> 'v job \<Rightarrow> 'v job" where
  "job_with_run_at t j = j\<lparr>job_run_at := Some t\<rparr>"

text \<open>\<open>add_seconds\<close> is \<open>Utc::now() + Duration::seconds(n)\<close>, \<open>None\<close> where either panics.\<close>

definition job_run_in ::
    "(timestamp \<Rightarrow> i64 \<Rightarrow> timestamp option) \<Rightarrow> timestamp \<Rightarrow> i64 \<Rightarrow> 'v job \<Rightarrow> 'v job option" where
  "job_run_in add_seconds now seconds j =
     map_option (\<lambda>t. j\<lparr>job_run_at := Some t\<rparr>) (add_seconds now seconds)"

definition job_is_ready :: "timestamp \<Rightarrow> 'v job \<Rightarrow> bool" where
  "job_is_ready now j \<longleftrightarrow> (case job_run_at j of Some t \<Rightarrow> t \<le> now | None \<Rightarrow> True)"

definition job_can_retry :: "'v job \<Rightarrow> bool" where
  "job_can_retry j \<longleftrightarrow> job_retries j < job_max_retries j"

definition job_mark_running :: "timestamp \<Rightarrow> 'v job \<Rightarrow> 'v job" where
  "job_mark_running now j = j\<lparr>job_status := JRunning, job_started_at := Some now\<rparr>"

definition job_mark_completed :: "timestamp \<Rightarrow> 'v job \<Rightarrow> 'v job" where
  "job_mark_completed now j = j\<lparr>job_status := JCompleted, job_finished_at := Some now\<rparr>"

text \<open>\<open>2_i64.pow(retries) * 60\<close>, wrapping as a release build does.\<close>

definition retry_delay :: "u32 \<Rightarrow> i64" where
  "retry_delay retries = 2 ^ unat retries * 60"

definition job_mark_failed ::
    "(timestamp \<Rightarrow> i64 \<Rightarrow> timestamp option) \<Rightarrow> timestamp \<Rightarrow> timestamp \<Rightarrow> string \<Rightarrow> 'v job \<Rightarrow>
     'v job option" where
  "job_mark_failed add_seconds now1 now2 err j =
     (let j = j\<lparr>job_error := Some err, job_finished_at := Some now1\<rparr>
      in if job_can_retry j then
           (let j = j\<lparr>job_status := JRetrying, job_retries := job_retries j + 1\<rparr>
            in map_option (\<lambda>t. j\<lparr>job_run_at := Some t\<rparr>)
                 (add_seconds now2 (retry_delay (job_retries j))))
         else Some (j\<lparr>job_status := JDead\<rparr>))"

subsection \<open>The in-memory queue\<close>

text \<open>The lock is tokio's, which is never poisoned: every operation returns \<open>Ok\<close>.\<close>

record 'v memory_job_queue =
  mjq_jobs :: "(string, 'v job) hashmap"
  mjq_counter :: u64

definition mjq_new :: "'v memory_job_queue" where
  "mjq_new = \<lparr>mjq_jobs = [], mjq_counter = 0\<rparr>"

definition mjq_enqueue ::
    "'v job \<Rightarrow> 'v memory_job_queue \<Rightarrow> (string, job_error) result \<times> 'v memory_job_queue" where
  "mjq_enqueue j q =
     (Ok (job_id j),
      q\<lparr>mjq_jobs := hm_insert (job_id j) j (mjq_jobs q), mjq_counter := mjq_counter q + 1\<rparr>)"

definition mjq_get :: "string \<Rightarrow> 'v memory_job_queue \<Rightarrow> ('v job option, job_error) result" where
  "mjq_get i q = Ok (hm_get (mjq_jobs q) i)"

text \<open>
  The clock is read once for each job a scan asks whether it is ready: \<open>clock1\<close> and \<open>clock2\<close> give
  the readings of the two scans, \<open>now\<close> the reading of \<open>mark_running\<close>.
\<close>

definition mjq_dequeue ::
    "('v job \<Rightarrow> timestamp) \<Rightarrow> ('v job \<Rightarrow> timestamp) \<Rightarrow> timestamp \<Rightarrow> string \<Rightarrow> 'v memory_job_queue \<Rightarrow>
     ('v job option, job_error) result \<times> 'v memory_job_queue" where
  "mjq_dequeue clock1 clock2 now queue q =
     (let vals = map snd (mjq_jobs q);
          found = map_option job_id (max_by_key job_priority
            (filter (\<lambda>j. job_queue_name j = queue \<and> job_status j = JPending \<and>
                         job_is_ready (clock1 j) j) vals));
          retry = (case filter (\<lambda>j. job_queue_name j = queue \<and> job_status j = JRetrying \<and>
                         job_is_ready (clock2 j) j) vals of
                     [] \<Rightarrow> None | j # _ \<Rightarrow> Some (job_id j));
          second = (case Option.bind retry (hm_get (mjq_jobs q)) of
              None \<Rightarrow> (Ok None, q)
            | Some j \<Rightarrow> (let j = job_mark_running now (j\<lparr>job_status := JPending\<rparr>)
                in (Ok (Some j), q\<lparr>mjq_jobs := hm_insert (the retry) j (mjq_jobs q)\<rparr>)))
      in (case Option.bind found (hm_get (mjq_jobs q)) of
              None \<Rightarrow> second
            | Some j \<Rightarrow> (let j = job_mark_running now j
                in (Ok (Some j), q\<lparr>mjq_jobs := hm_insert (the found) j (mjq_jobs q)\<rparr>))))"

definition mjq_update ::
    "'v job \<Rightarrow> 'v memory_job_queue \<Rightarrow> (unit, job_error) result \<times> 'v memory_job_queue" where
  "mjq_update j q = (Ok (), q\<lparr>mjq_jobs := hm_insert (job_id j) j (mjq_jobs q)\<rparr>)"

definition mjq_delete ::
    "string \<Rightarrow> 'v memory_job_queue \<Rightarrow> (unit, job_error) result \<times> 'v memory_job_queue" where
  "mjq_delete i q = (Ok (), q\<lparr>mjq_jobs := hm_remove i (mjq_jobs q)\<rparr>)"

definition mjq_pending_count :: "string \<Rightarrow> 'v memory_job_queue \<Rightarrow> (nat, job_error) result" where
  "mjq_pending_count queue q =
     Ok (length (filter (\<lambda>j. job_queue_name j = queue \<and> job_status j = JPending)
       (map snd (mjq_jobs q))))"

definition mjq_list ::
    "string \<Rightarrow> job_status option \<Rightarrow> 'v memory_job_queue \<Rightarrow> ('v job list, job_error) result" where
  "mjq_list queue status q =
     Ok (filter (\<lambda>j. job_queue_name j = queue \<and>
                     (case status of None \<Rightarrow> True | Some s \<Rightarrow> job_status j = s))
       (map snd (mjq_jobs q)))"

definition job_is_dead_in :: "string \<Rightarrow> 'v job \<Rightarrow> bool" where
  "job_is_dead_in queue j \<longleftrightarrow> job_queue_name j = queue \<and> job_status j = JDead"

definition job_revive :: "'v job \<Rightarrow> 'v job" where
  "job_revive j = j\<lparr>job_status := JPending, job_retries := 0, job_error := None, job_run_at := None\<rparr>"

definition mjq_retry_dead ::
    "string \<Rightarrow> 'v memory_job_queue \<Rightarrow> (nat, job_error) result \<times> 'v memory_job_queue" where
  "mjq_retry_dead queue q =
     (Ok (length (filter (job_is_dead_in queue) (map snd (mjq_jobs q)))),
      q\<lparr>mjq_jobs := map (\<lambda>(i, j). (i, if job_is_dead_in queue j then job_revive j else j)) (mjq_jobs q)\<rparr>)"

definition mjq_clear_completed ::
    "string \<Rightarrow> 'v memory_job_queue \<Rightarrow> (nat, job_error) result \<times> 'v memory_job_queue" where
  "mjq_clear_completed queue q =
     (let to_remove = map job_id (filter (\<lambda>j. job_queue_name j = queue \<and> job_status j = JCompleted)
            (map snd (mjq_jobs q)))
      in (Ok (length to_remove), q\<lparr>mjq_jobs := fold hm_remove to_remove (mjq_jobs q)\<rparr>))"

subsection \<open>The worker\<close>

text \<open>A handler is a function of the arguments; which result a call gives is up to it.\<close>

record 'v job_worker =
  jw_queue_name :: string
  jw_handlers :: "(string, 'v \<Rightarrow> (unit, job_error) result) hashmap"

definition job_worker_new :: "string \<Rightarrow> 'v job_worker" where
  "job_worker_new queue_name = \<lparr>jw_queue_name = queue_name, jw_handlers = []\<rparr>"

definition job_worker_register ::
    "string \<Rightarrow> ('v \<Rightarrow> (unit, job_error) result) \<Rightarrow> 'v job_worker \<Rightarrow> 'v job_worker" where
  "job_worker_register type_name handler w =
     w\<lparr>jw_handlers := hm_insert type_name handler (jw_handlers w)\<rparr>"

text \<open>What the worker makes of a job it holds: \<open>None\<close> when \<open>mark_failed\<close> panics.\<close>

definition run_job ::
    "(timestamp \<Rightarrow> i64 \<Rightarrow> timestamp option) \<Rightarrow> timestamp \<Rightarrow> timestamp \<Rightarrow> 'v job_worker \<Rightarrow> 'v job \<Rightarrow>
     'v job option" where
  "run_job add_seconds now1 now2 w j =
     (case hm_get (jw_handlers w) (job_type j) of
        None \<Rightarrow> job_mark_failed add_seconds now1 now2 (''Unknown job type: '' @ job_type j) j
      | Some handle \<Rightarrow> (case handle (job_args j) of
            Ok _ \<Rightarrow> Some (job_mark_completed now1 j)
          | Err e \<Rightarrow> job_mark_failed add_seconds now1 now2 (job_error_to_string e) j))"

text \<open>
  \<open>JobWorker<Q>::process_one\<close> for any queue, given by its \<open>dequeue\<close> and \<open>update\<close>.  Between the two
  calls the lock is free: \<open>meanwhile\<close> is what other tasks do to the queue while the handler runs.
  The result \<open>None\<close> is a panic.
\<close>

definition process_one ::
    "('q \<Rightarrow> ('v job option, job_error) result \<times> 'q) \<Rightarrow> ('v job \<Rightarrow> 'q \<Rightarrow> (unit, job_error) result \<times> 'q) \<Rightarrow>
     ('v job \<Rightarrow> 'v job option) \<Rightarrow> ('q \<Rightarrow> 'q) \<Rightarrow> 'q \<Rightarrow> (bool, job_error) result option \<times> 'q" where
  "process_one dequeue upd run meanwhile q =
     (case dequeue q of
        (Err e, q) \<Rightarrow> (Some (Err e), q)
      | (Ok None, q) \<Rightarrow> (Some (Ok False), q)
      | (Ok (Some j), q) \<Rightarrow>
          (case run j of
             None \<Rightarrow> (None, meanwhile q)
           | Some j \<Rightarrow> (case upd j (meanwhile q) of
                 (Err e, q) \<Rightarrow> (Some (Err e), q)
               | (Ok _, q) \<Rightarrow> (Some (Ok True), q))))"

subsection \<open>Backoff\<close>

lemma two_pow_u64: "(2 :: i64) ^ n = of_nat (2 ^ n)"
  by simp

lemma retry_delay_nat: "retry_delay r = of_nat (2 ^ unat r * 60)"
  by (simp add: retry_delay_def)

lemma retry_delay_small:
  assumes "unat r \<le> 57"
  shows "sint (retry_delay r) = 60 * 2 ^ unat r"
proof -
  have "(2 :: nat) ^ unat r \<le> 2 ^ 57" using assms by (intro power_increasing) auto
  then have "2 ^ unat r * 60 < (2 :: nat) ^ 63" by simp
  from sint_of_nat_i64 [OF this] have "sint (retry_delay r) = int (2 ^ unat r * 60)"
    by (simp only: retry_delay_nat)
  then show ?thesis by simp
qed

lemma retry_delay_big:
  assumes "62 \<le> unat r"
  shows "retry_delay r = 0"
proof -
  have "(2 :: i64) ^ unat r = 2 ^ (unat r - 62) * 2 ^ 62"
    using assms by (simp only: power_add [symmetric] le_add_diff_inverse2)
  then have "(2 :: i64) ^ unat r * 60 = 2 ^ (unat r - 62) * (2 ^ 62 * 60)"
    by (simp only: mult.assoc)
  also have "(2 :: i64) ^ 62 * 60 = 0" by simp
  finally show ?thesis by (simp add: retry_delay_def)
qed

text \<open>
  The backoff, exactly: after the \<open>r\<close>-th failure the job waits \<open>2^r\<close> minutes, as the comment
  says, up to the 57th.  From then on the product wraps at 64 bits: the next four delays are
  negative, and from the 62nd failure on the delay is nothing.
\<close>

theorem retry_delay_closed_form:
  "sint (retry_delay r) =
     (let n = unat r
      in if n \<le> 57 then 60 * 2 ^ n else if n \<le> 61 then - (2 ^ (n + 2)) else 0)"
proof -
  consider "unat r \<le> 57" | "unat r = 58" | "unat r = 59" | "unat r = 60" | "unat r = 61" | "62 \<le> unat r"
    by linarith
  then show ?thesis
  proof cases
    case 1
    then show ?thesis by (simp add: retry_delay_small Let_def)
  next
    case 6
    then show ?thesis by (simp add: retry_delay_big Let_def)
  qed (simp_all add: retry_delay_def Let_def)
qed

subsection \<open>The life of a failing job\<close>

text \<open>The \<open>k\<close>-th failure happens at \<open>clock k\<close>, for the reason \<open>reason k\<close>.\<close>

fun fail_times ::
    "(timestamp \<Rightarrow> i64 \<Rightarrow> timestamp option) \<Rightarrow> (nat \<Rightarrow> timestamp) \<Rightarrow> (nat \<Rightarrow> string) \<Rightarrow> nat \<Rightarrow> 'v job \<Rightarrow>
     'v job option" where
  "fail_times add_seconds clock reason 0 j = Some j"
| "fail_times add_seconds clock reason (Suc k) j =
     Option.bind (fail_times add_seconds clock reason k j)
       (job_mark_failed add_seconds (clock k) (clock k) (reason k))"

lemma retries_Suc:
  fixes r m :: u32
  assumes "r < m"
  shows "unat (r + 1) = Suc (unat r)"
proof -
  have "unat r < unat m" "unat m < 2 ^ 32"
    using assms unsigned_less [of m] by (simp_all add: word_less_nat_alt)
  then show ?thesis by (simp add: unat_word_ariths)
qed

lemma word_of_nat_unat_plus_one: "unat r = k \<Longrightarrow> r + 1 = of_nat (Suc k)" for r :: u32
  by (auto simp: add.commute)

lemma mark_failed_retries:
  assumes "job_mark_failed add now1 now2 e j = Some j'"
  shows "job_max_retries j' = job_max_retries j \<and> job_id j' = job_id j \<and> job_error j' = Some e \<and>
    job_queue_name j' = job_queue_name j \<and> job_type j' = job_type j \<and> job_args j' = job_args j \<and>
    (if job_retries j < job_max_retries j
     then job_status j' = JRetrying \<and> unat (job_retries j') = Suc (unat (job_retries j)) \<and>
       job_run_at j' = add now2 (retry_delay (job_retries j'))
     else job_status j' = JDead \<and> job_retries j' = job_retries j)"
  using assms
  by (auto simp: job_mark_failed_def job_can_retry_def Let_def retries_Suc split: if_splits)

lemma mark_failed_total:
  assumes "add now2 (retry_delay (job_retries j + 1)) \<noteq> None"
  shows "\<exists>j'. job_mark_failed add now1 now2 e j = Some j'"
  using assms by (auto simp: job_mark_failed_def Let_def)

text \<open>The seconds until the attempt after the \<open>n\<close>-th failure (specification).\<close>

definition backoff :: "nat \<Rightarrow> int" where
  "backoff n = (if n \<le> 57 then 60 * 2 ^ n else if n \<le> 61 then - (2 ^ (n + 2)) else 0)"

lemma unat_of_nat_u32: "n < 2 ^ 32 \<Longrightarrow> unat (of_nat n :: u32) = n"
  by (simp add: unat_of_nat take_bit_nat_eq_self)

lemma retry_delay_backoff: "retry_delay r = word_of_int (backoff (unat r))"
proof -
  have "sint (retry_delay r) = backoff (unat r)"
    unfolding retry_delay_closed_form by (simp add: backoff_def Let_def)
  moreover have "retry_delay r = word_of_int (sint (retry_delay r))" by simp
  ultimately show ?thesis by (simp only:)
qed

text \<open>
  C39. A job that was never retried and keeps failing is tried again exactly as often as its maximum says.  While the
  clock's range is not left, its first failures up to the maximum each schedule the next attempt: after the
  \<open>k\<close>-th failure, \<open>2^k\<close> minutes later, for \<open>k\<close> up to 57; from the 58th on the product wraps at 64 bits, so that
  the delays are negative up to the 61st and nothing after it.  The failure after the maximum buries the job; no
  number of further failures changes the count again.
\<close>

theorem failing_job_is_retried_max_times:
  assumes range: "\<And>i. i < unat (job_max_retries j) \<Longrightarrow> add (clock i) (word_of_int (backoff (Suc i))) \<noteq> None"
    and fresh: "job_retries j = 0"
  shows "\<exists>j'. fail_times add clock reason (Suc k) j = Some j' \<and>
     unat (job_retries j') = min (Suc k) (unat (job_max_retries j)) \<and>
     job_error j' = Some (reason k) \<and>
     job_status j' = (if k < unat (job_max_retries j) then JRetrying else JDead) \<and>
     (k < unat (job_max_retries j) \<longrightarrow> job_run_at j' = add (clock k) (word_of_int (backoff (Suc k))))"
proof -
  let ?m = "unat (job_max_retries j)"
  have delay: "retry_delay (of_nat (Suc i)) = word_of_int (backoff (Suc i))" if "i < ?m" for i
  proof -
    have "?m < 2 ^ 32" using unsigned_less [of "job_max_retries j"] by simp
    with that have "Suc i < 2 ^ 32" by linarith
    then have "unat (of_nat (Suc i) :: u32) = Suc i" by (rule unat_of_nat_u32)
    then show ?thesis by (simp only: retry_delay_backoff)
  qed
  have fails: "\<exists>j2. job_mark_failed add (clock k) (clock k) (reason k) j1 = Some j2 \<and>
      job_max_retries j2 = job_max_retries j \<and> unat (job_retries j2) = min (Suc k) ?m \<and>
      job_error j2 = Some (reason k) \<and> job_status j2 = (if k < ?m then JRetrying else JDead) \<and>
      (k < ?m \<longrightarrow> job_run_at j2 = add (clock k) (word_of_int (backoff (Suc k))))"
    if j1: "job_max_retries j1 = job_max_retries j" "unat (job_retries j1) = min k ?m" for k j1
  proof (cases "k < ?m")
    case True
    with j1 have r: "job_retries j1 < job_max_retries j1" "job_retries j1 + 1 = of_nat (Suc k)"
      by (auto simp: word_less_nat_alt add.commute intro: word_of_nat_unat_plus_one)
    with range [OF True] delay [OF True] obtain j2 where j2: "job_mark_failed add (clock k) (clock k) (reason k) j1 = Some j2"
      using mark_failed_total by metis
    have "job_retries j2 = of_nat (Suc k)"
      using j2 r by (auto simp: job_mark_failed_def job_can_retry_def Let_def)
    with True j1 j2 r mark_failed_retries [OF j2] delay [OF True] show ?thesis by auto
  next
    case False
    with j1 have "\<not> job_can_retry j1" by (simp add: job_can_retry_def word_less_nat_alt)
    with False j1 show ?thesis by (auto simp: job_mark_failed_def job_can_retry_def Let_def)
  qed
  have "\<exists>j1. fail_times add clock reason k j = Some j1 \<and> job_max_retries j1 = job_max_retries j \<and>
      unat (job_retries j1) = min k ?m"
  proof (induction k)
    case 0
    then show ?case using fresh by simp
  next
    case (Suc k)
    with fails show ?case by fastforce
  qed
  with fails show ?thesis by fastforce
qed

theorem failing_job_is_retried_max_times_witness:
  "\<exists>j'. fail_times (\<lambda>t d. Some (t + sint d)) (\<lambda>_. 0) (\<lambda>_. ''boom'') (Suc 3) (job_new ''id'' 0 ''Mail'' ()) = Some j' \<and>
     unat (job_retries j') = min (Suc 3) 3 \<and> job_error j' = Some ''boom'' \<and> job_status j' = JDead"
  using failing_job_is_retried_max_times [of "job_new ''id'' 0 ''Mail'' ()" "\<lambda>t d. Some (t + sint d)" "\<lambda>_. 0" "\<lambda>_. ''boom''" 3]
  by (simp add: job_new_def)

subsection \<open>Taking a job from the queue\<close>

definition mjq_inv :: "'v memory_job_queue \<Rightarrow> bool" where
  "mjq_inv q \<longleftrightarrow> hm_ok (mjq_jobs q) \<and> (\<forall>i j. hm_get (mjq_jobs q) i = Some j \<longrightarrow> job_id j = i)"

definition ready_in :: "job_status \<Rightarrow> ('v job \<Rightarrow> timestamp) \<Rightarrow> string \<Rightarrow> 'v job \<Rightarrow> bool" where
  "ready_in st clock queue j \<longleftrightarrow>
     job_queue_name j = queue \<and> job_status j = st \<and> job_is_ready (clock j) j"

abbreviation stored :: "'v memory_job_queue \<Rightarrow> 'v job \<Rightarrow> bool" where
  "stored q j \<equiv> hm_get (mjq_jobs q) (job_id j) = Some j"

text \<open>
  Which job is next (specification, over the map that a queue stands for): a pending one that is ready,
  if there is any, and then none that is ready has a higher priority; else a retrying one that is ready.
\<close>

definition next_job ::
    "(string \<Rightarrow> 'v job option) \<Rightarrow> ('v job \<Rightarrow> timestamp) \<Rightarrow> ('v job \<Rightarrow> timestamp) \<Rightarrow> string \<Rightarrow> 'v job \<Rightarrow> bool" where
  "next_job jobs clock1 clock2 queue j \<longleftrightarrow> jobs (job_id j) = Some j \<and>
     (ready_in JPending clock1 queue j \<and>
        (\<forall>j2. jobs (job_id j2) = Some j2 \<and> ready_in JPending clock1 queue j2 \<longrightarrow> job_priority j2 \<le> job_priority j) \<or>
      ready_in JRetrying clock2 queue j \<and>
        (\<forall>j2. jobs (job_id j2) = Some j2 \<longrightarrow> \<not> ready_in JPending clock1 queue j2))"

definition nothing_ready ::
    "(string \<Rightarrow> 'v job option) \<Rightarrow> ('v job \<Rightarrow> timestamp) \<Rightarrow> ('v job \<Rightarrow> timestamp) \<Rightarrow> string \<Rightarrow> bool" where
  "nothing_ready jobs clock1 clock2 queue \<longleftrightarrow> (\<forall>j. jobs (job_id j) = Some j \<longrightarrow>
     \<not> ready_in JPending clock1 queue j \<and> \<not> ready_in JRetrying clock2 queue j)"

lemma next_jobD:
  "next_job jobs c1 c2 n j \<Longrightarrow> jobs (job_id j) = Some j \<and> job_status j \<in> {JPending, JRetrying} \<and> job_queue_name j = n"
  by (auto simp: next_job_def ready_in_def)

lemma stored_iff: "mjq_inv q \<Longrightarrow> j \<in> set (map snd (mjq_jobs q)) \<longleftrightarrow> stored q j"
proof
  assume inv: "mjq_inv q" and "j \<in> set (map snd (mjq_jobs q))"
  then obtain i where "(i, j) \<in> set (mjq_jobs q)" by auto
  with inv have "hm_get (mjq_jobs q) i = Some j" by (simp add: mjq_inv_def hm_get_in_set)
  with inv show "stored q j" by (auto simp: mjq_inv_def)
next
  assume "mjq_inv q" "stored q j"
  then show "j \<in> set (map snd (mjq_jobs q))"
    by (metis map_of_SomeD image_eqI set_map snd_conv)
qed

lemma mjq_dequeue_cases:
  assumes inv: "mjq_inv q"
  obtains (pending) j where "stored q j" "ready_in JPending clock1 queue j"
      "\<forall>j2. stored q j2 \<and> ready_in JPending clock1 queue j2 \<longrightarrow> job_priority j2 \<le> job_priority j"
      "mjq_dequeue clock1 clock2 now queue q = (Ok (Some (job_mark_running now j)),
         q\<lparr>mjq_jobs := hm_insert (job_id j) (job_mark_running now j) (mjq_jobs q)\<rparr>)"
  | (retrying) j where "stored q j" "ready_in JRetrying clock2 queue j"
      "\<forall>j2. stored q j2 \<longrightarrow> \<not> ready_in JPending clock1 queue j2"
      "mjq_dequeue clock1 clock2 now queue q = (Ok (Some (job_mark_running now j)),
         q\<lparr>mjq_jobs := hm_insert (job_id j) (job_mark_running now j) (mjq_jobs q)\<rparr>)"
  | (idle) "\<forall>j2. stored q j2 \<longrightarrow> \<not> ready_in JPending clock1 queue j2 \<and> \<not> ready_in JRetrying clock2 queue j2"
      "mjq_dequeue clock1 clock2 now queue q = (Ok None, q)"
proof -
  let ?P = "\<lambda>j. job_queue_name j = queue \<and> job_status j = JPending \<and> job_is_ready (clock1 j) j"
  let ?R = "\<lambda>j. job_queue_name j = queue \<and> job_status j = JRetrying \<and> job_is_ready (clock2 j) j"
  let ?vals = "map snd (mjq_jobs q)"
  have in_vals: "j \<in> set (filter Q ?vals) \<longleftrightarrow> stored q j \<and> Q j" for j Q
    using stored_iff [OF inv, of j] by auto
  show ?thesis
  proof (cases "max_by_key job_priority (filter ?P ?vals)")
    case (Some j)
    from max_by_key_Some [OF this]
    have j: "stored q j" "?P j" "\<forall>j2. stored q j2 \<and> ?P j2 \<longrightarrow> job_priority j2 \<le> job_priority j"
      by (auto simp only: in_vals Ball_def)
    show ?thesis
    proof (rule pending [of j])
      show "mjq_dequeue clock1 clock2 now queue q = (Ok (Some (job_mark_running now j)),
         q\<lparr>mjq_jobs := hm_insert (job_id j) (job_mark_running now j) (mjq_jobs q)\<rparr>)"
        using Some j(1) by (simp add: mjq_dequeue_def Let_def)
    qed (use j in \<open>auto simp: ready_in_def\<close>)
  next
    case None
    then have nopend: "\<forall>j2. stored q j2 \<longrightarrow> \<not> ready_in JPending clock1 queue j2"
      using in_vals [of _ ?P] by (auto simp: ready_in_def)
    show ?thesis
    proof (cases "filter ?R ?vals")
      case Nil
      then have "\<forall>j2. stored q j2 \<longrightarrow> \<not> ready_in JRetrying clock2 queue j2"
        using in_vals [of _ ?R] by (auto simp: ready_in_def)
      with nopend show ?thesis
        by (intro idle) (use None Nil in \<open>simp_all add: mjq_dequeue_def Let_def\<close>)
    next
      case (Cons j js)
      then have j: "stored q j" "?R j" using in_vals [of j ?R] by auto
      show ?thesis
      proof (rule retrying [of j])
        show "mjq_dequeue clock1 clock2 now queue q = (Ok (Some (job_mark_running now j)),
           q\<lparr>mjq_jobs := hm_insert (job_id j) (job_mark_running now j) (mjq_jobs q)\<rparr>)"
          using None Cons j(1) by (simp add: mjq_dequeue_def Let_def job_mark_running_def)
      qed (use j nopend in \<open>auto simp: ready_in_def\<close>)
    qed
  qed
qed

text \<open>
  What the queue hands out.  It hands out a job exactly when one of its pending or retrying
  jobs is ready; the job it hands out is one it holds under its name, marked running; a pending
  job comes first, and then none of the ready pending ones has a higher priority (the retrying ones
  are taken in no order, whatever their priority); nothing else in the queue changes.
\<close>

theorem dequeue_takes_highest_priority:
  assumes "mjq_inv q" and "mjq_dequeue clock1 clock2 now queue q = (r, q')"
  shows "(case r of
      Err e \<Rightarrow> False
    | Ok None \<Rightarrow> q' = q \<and> (\<nexists>j. stored q j \<and> (ready_in JPending clock1 queue j \<or> ready_in JRetrying clock2 queue j))
    | Ok (Some j') \<Rightarrow> (\<exists>j. stored q j \<and> j' = job_mark_running now j \<and>
        hm_get (mjq_jobs q') = (hm_get (mjq_jobs q))(job_id j \<mapsto> j') \<and>
        (if \<exists>j2. stored q j2 \<and> ready_in JPending clock1 queue j2
         then ready_in JPending clock1 queue j \<and>
           (\<nexists>j2. stored q j2 \<and> ready_in JPending clock1 queue j2 \<and> job_priority j < job_priority j2)
         else ready_in JRetrying clock2 queue j)))"
  using assms(1)
proof (cases rule: mjq_dequeue_cases [of q clock1 queue clock2 now])
  case (pending j)
  with assms(2) have "r = Ok (Some (job_mark_running now j))"
    "hm_get (mjq_jobs q') = (hm_get (mjq_jobs q))(job_id j \<mapsto> job_mark_running now j)" by auto
  with pending show ?thesis by (force simp: not_less)
next
  case (retrying j)
  with assms(2) have "r = Ok (Some (job_mark_running now j))"
    "hm_get (mjq_jobs q') = (hm_get (mjq_jobs q))(job_id j \<mapsto> job_mark_running now j)" by auto
  with retrying show ?thesis by auto
next
  case idle
  with assms(2) show ?thesis by auto
qed

theorem dequeue_takes_highest_priority_witness:
  "mjq_dequeue (\<lambda>_. 5) (\<lambda>_. 5) 5 ''default''
     (snd (mjq_enqueue (job_with_priority PrioHigh (job_new ''b'' 0 ''Mail'' ()))
       (snd (mjq_enqueue (job_new ''a'' 0 ''Mail'' ()) mjq_new)))) =
   (Ok (Some (job_mark_running 5 (job_with_priority PrioHigh (job_new ''b'' 0 ''Mail'' ())))),
    \<lparr>mjq_jobs = [(''a'', job_new ''a'' 0 ''Mail'' ()),
       (''b'', job_mark_running 5 (job_with_priority PrioHigh (job_new ''b'' 0 ''Mail'' ())))], mjq_counter = 2\<rparr>) \<and>
   (\<exists>j. j = job_with_priority PrioHigh (job_new ''b'' 0 ''Mail'' ()) \<and> ready_in JPending (\<lambda>_. 5) ''default'' j)"
proof -
  let ?a = "job_new ''a'' 0 ''Mail'' ()" and ?b = "job_with_priority PrioHigh (job_new ''b'' 0 ''Mail'' ())"
  let ?q = "snd (mjq_enqueue ?b (snd (mjq_enqueue ?a mjq_new)))"
  have run: "mjq_dequeue (\<lambda>_. 5) (\<lambda>_. 5) 5 ''default'' ?q = (Ok (Some (job_mark_running 5 ?b)),
    \<lparr>mjq_jobs = [(''a'', ?a), (''b'', job_mark_running 5 ?b)], mjq_counter = 2\<rparr>)"
    by (simp add: mjq_dequeue_def mjq_enqueue_def mjq_new_def job_new_def job_with_priority_def
        job_mark_running_def job_is_ready_def less_eq_job_priority_def Let_def)
  have inv: "mjq_inv ?q"
    by (simp add: mjq_inv_def mjq_enqueue_def mjq_new_def job_new_def job_with_priority_def hm_ok_def)
  have "(\<exists>j. stored ?q j \<and> job_mark_running 5 ?b = job_mark_running 5 j \<and> ready_in JPending (\<lambda>_. 5) ''default'' j) \<or>
      (\<nexists>j. stored ?q j \<and> ready_in JPending (\<lambda>_. 5) ''default'' j)"
    using dequeue_takes_highest_priority [OF inv run] by (auto split: if_splits)
  then have "\<exists>j. j = ?b \<and> ready_in JPending (\<lambda>_. 5) ''default'' j"
    by (simp add: ready_in_def job_is_ready_def job_new_def job_with_priority_def)
  with run show ?thesis by blast
qed


subsection \<open>The interface\<close>

text \<open>
  What a worker may rely on: \<open>contents\<close> is the finite map from identities to jobs the queue stands
  for.  The operations that hand out, store, bury and clean up change that map as given.
\<close>

locale job_queue =
  fixes inv :: "'q \<Rightarrow> bool"
    and contents :: "'q \<Rightarrow> string \<Rightarrow> 'v job option"
    and enqueue :: "'v job \<Rightarrow> 'q \<Rightarrow> (string, job_error) result \<times> 'q"
    and dequeue :: "('v job \<Rightarrow> timestamp) \<Rightarrow> ('v job \<Rightarrow> timestamp) \<Rightarrow> timestamp \<Rightarrow> string \<Rightarrow> 'q \<Rightarrow>
      ('v job option, job_error) result \<times> 'q"
    and upd :: "'v job \<Rightarrow> 'q \<Rightarrow> (unit, job_error) result \<times> 'q"
    and delete :: "string \<Rightarrow> 'q \<Rightarrow> (unit, job_error) result \<times> 'q"
    and retry_dead :: "string \<Rightarrow> 'q \<Rightarrow> (nat, job_error) result \<times> 'q"
    and clear_completed :: "string \<Rightarrow> 'q \<Rightarrow> (nat, job_error) result \<times> 'q"
  assumes own_id: "inv q \<Longrightarrow> contents q i = Some j \<Longrightarrow> job_id j = i"
    and enqueue_contents: "inv q \<Longrightarrow> fst (enqueue j q) = Ok (job_id j) \<and> inv (snd (enqueue j q)) \<and>
      contents (snd (enqueue j q)) = (contents q)(job_id j \<mapsto> j)"
    and upd_contents: "inv q \<Longrightarrow> fst (upd j q) = Ok () \<and> inv (snd (upd j q)) \<and>
      contents (snd (upd j q)) = (contents q)(job_id j \<mapsto> j)"
    and delete_contents: "inv q \<Longrightarrow> inv (snd (delete i q)) \<and>
      contents (snd (delete i q)) = (contents q)(i := None)"
    and retry_dead_contents: "inv q \<Longrightarrow> inv (snd (retry_dead n q)) \<and>
      contents (snd (retry_dead n q)) =
        map_option (\<lambda>j. if job_is_dead_in n j then job_revive j else j) \<circ> contents q"
    and clear_completed_contents: "inv q \<Longrightarrow> inv (snd (clear_completed n q)) \<and>
      contents (snd (clear_completed n q)) =
        (\<lambda>i. case contents q i of None \<Rightarrow> None
           | Some j \<Rightarrow> if job_queue_name j = n \<and> job_status j = JCompleted then None else Some j)"
    and dequeue_contents: "inv q \<Longrightarrow> dequeue c1 c2 now n q = (r, q') \<Longrightarrow>
      r = Ok None \<and> q' = q \<and> nothing_ready (contents q) c1 c2 n \<or>
      (\<exists>j. next_job (contents q) c1 c2 n j \<and> r = Ok (Some (job_mark_running now j)) \<and> inv q' \<and>
         contents q' = (contents q)(job_id j \<mapsto> job_mark_running now j))"
begin

lemma dequeue_takes:
  assumes "inv q" "dequeue c1 c2 now n q = (r, q')"
  shows "r = Ok None \<and> q' = q \<or>
    (\<exists>j. contents q (job_id j) = Some j \<and> job_status j \<in> {JPending, JRetrying} \<and> job_queue_name j = n \<and>
       r = Ok (Some (job_mark_running now j)) \<and> inv q' \<and>
       contents q' = (contents q)(job_id j \<mapsto> job_mark_running now j))"
  using dequeue_contents [OF assms] by (auto dest!: next_jobD)

lemma process_one_effect:
  assumes inv: "inv q" and others: "\<forall>q. inv q \<longrightarrow> inv (meanwhile q)"
    and run: "process_one (dequeue c1 c2 now n) upd f meanwhile q = (r, q')"
  shows "inv q' \<and>
    (r = Some (Ok False) \<and> q' = q \<and> nothing_ready (contents q) c1 c2 n \<or>
     (\<exists>j. next_job (contents q) c1 c2 n j \<and>
        (\<exists>q1. inv q1 \<and> contents q1 = (contents q)(job_id j \<mapsto> job_mark_running now j) \<and>
          (case f (job_mark_running now j) of
             None \<Rightarrow> r = None \<and> q' = meanwhile q1
           | Some j' \<Rightarrow> r = Some (Ok True) \<and> contents q' = (contents (meanwhile q1))(job_id j' \<mapsto> j')))))"
proof -
  obtain d q1 where d: "dequeue c1 c2 now n q = (d, q1)" by fastforce
  from dequeue_contents [OF inv d] show ?thesis
  proof (elim disjE exE conjE)
    assume "d = Ok None" "q1 = q" "nothing_ready (contents q) c1 c2 n"
    with d run inv show ?thesis by (simp add: process_one_def)
  next
    fix j assume j: "next_job (contents q) c1 c2 n j"
      "d = Ok (Some (job_mark_running now j))" "inv q1"
      "contents q1 = (contents q)(job_id j \<mapsto> job_mark_running now j)"
    show ?thesis
    proof (cases "f (job_mark_running now j)")
      case None
      with d run j have r: "r = None" "q' = meanwhile q1" by (simp_all add: process_one_def)
      show ?thesis
        using j None r others [rule_format, OF j(3)] by (intro conjI disjI2 exI [of _ j] exI [of _ q1]) simp_all
    next
      case (Some j')
      from upd_contents [OF others [rule_format, OF j(3)], of j'] obtain q2 where
        "upd j' (meanwhile q1) = (Ok (), q2)" "inv q2" "contents q2 = (contents (meanwhile q1))(job_id j' \<mapsto> j')"
        by (metis prod.collapse)
      moreover from this d run j Some have "r = Some (Ok True)" "q' = q2" by (simp_all add: process_one_def)
      ultimately show ?thesis
        using j Some by (intro conjI disjI2 exI [of _ j] exI [of _ q1]) simp_all
    qed
  qed
qed

end


lemma mjq_inv_insert [simp]: "mjq_inv q \<Longrightarrow> mjq_inv (q\<lparr>mjq_jobs := hm_insert (job_id j) j (mjq_jobs q)\<rparr>)"
  by (auto simp: mjq_inv_def)

lemma job_is_dead_revive [simp]: "job_id (if job_is_dead_in n j then job_revive j else j) = job_id j"
  by (simp add: job_revive_def)

lemma hm_get_map_values: "hm_get (map (\<lambda>(i, j). (i, f j)) m) = map_option f \<circ> hm_get m"
  by (induction m) (auto simp: fun_eq_iff)

lemma hm_ok_map_values: "hm_ok (map (\<lambda>(i, j). (i, f j)) m) \<longleftrightarrow> hm_ok m"
proof -
  have "map fst (map (\<lambda>(i, j). (i, f j)) m) = map fst m" by (induction m) auto
  then show ?thesis unfolding hm_ok_def by (simp only:)
qed

lemma mjq_retry_dead_contents:
  assumes "mjq_inv q"
  shows "mjq_inv (snd (mjq_retry_dead n q)) \<and> hm_get (mjq_jobs (snd (mjq_retry_dead n q))) =
    map_option (\<lambda>j. if job_is_dead_in n j then job_revive j else j) \<circ> hm_get (mjq_jobs q)"
  using assms by (auto simp: mjq_retry_dead_def mjq_inv_def hm_get_map_values hm_ok_map_values job_revive_def)

lemma mjq_clear_completed_contents:
  assumes inv: "mjq_inv q"
  shows "mjq_inv (snd (mjq_clear_completed n q)) \<and> hm_get (mjq_jobs (snd (mjq_clear_completed n q))) =
    (\<lambda>i. case hm_get (mjq_jobs q) i of None \<Rightarrow> None
       | Some j \<Rightarrow> if job_queue_name j = n \<and> job_status j = JCompleted then None else Some j)"
proof -
  let ?ks = "map job_id (filter (\<lambda>j. job_queue_name j = n \<and> job_status j = JCompleted) (map snd (mjq_jobs q)))"
  have ks: "i \<in> set ?ks \<longleftrightarrow>
      (\<exists>j. hm_get (mjq_jobs q) i = Some j \<and> job_queue_name j = n \<and> job_status j = JCompleted)" for i
  proof -
    have "i \<in> set ?ks \<longleftrightarrow> (\<exists>j. j \<in> set (map snd (mjq_jobs q)) \<and> job_queue_name j = n \<and>
        job_status j = JCompleted \<and> job_id j = i)"
      unfolding set_map set_filter by blast
    also have "\<dots> \<longleftrightarrow> (\<exists>j. stored q j \<and> job_queue_name j = n \<and> job_status j = JCompleted \<and> job_id j = i)"
      by (simp only: stored_iff [OF inv])
    finally show ?thesis using inv by (auto simp: mjq_inv_def)
  qed
  have new: "mjq_jobs (snd (mjq_clear_completed n q)) = fold hm_remove ?ks (mjq_jobs q)"
    by (simp add: mjq_clear_completed_def Let_def)
  have "hm_get (mjq_jobs (snd (mjq_clear_completed n q))) =
    (\<lambda>i. case hm_get (mjq_jobs q) i of None \<Rightarrow> None
       | Some j \<Rightarrow> if job_queue_name j = n \<and> job_status j = JCompleted then None else Some j)"
    unfolding new hm_fold_remove(1) ks by (auto simp: fun_eq_iff split: option.split)
  then show ?thesis
    using inv new by (auto simp: mjq_inv_def hm_fold_remove(2) split: option.splits if_splits)
qed

interpretation memory_jobs: job_queue mjq_inv "\<lambda>q. hm_get (mjq_jobs q)"
  mjq_enqueue mjq_dequeue mjq_update mjq_delete mjq_retry_dead mjq_clear_completed
proof unfold_locales
  fix q q' :: "'v memory_job_queue" and c1 c2 now n r
  assume inv: "mjq_inv q" and run: "mjq_dequeue c1 c2 now n q = (r, q')"
  from inv show "r = Ok None \<and> q' = q \<and> nothing_ready (hm_get (mjq_jobs q)) c1 c2 n \<or>
      (\<exists>j. next_job (hm_get (mjq_jobs q)) c1 c2 n j \<and> r = Ok (Some (job_mark_running now j)) \<and> mjq_inv q' \<and>
         hm_get (mjq_jobs q') = (hm_get (mjq_jobs q))(job_id j \<mapsto> job_mark_running now j))"
  proof (cases rule: mjq_dequeue_cases [of q c1 n c2 now])
    case idle
    with run show ?thesis by (simp add: nothing_ready_def)
  next
    case (pending j)
    then have "next_job (hm_get (mjq_jobs q)) c1 c2 n j" by (simp add: next_job_def)
    with pending(4) run inv mjq_inv_insert [OF inv, of "job_mark_running now j"] show ?thesis
      by (intro disjI2 exI [of _ j]) (auto simp: job_mark_running_def)
  next
    case (retrying j)
    then have "next_job (hm_get (mjq_jobs q)) c1 c2 n j" by (simp add: next_job_def)
    with retrying(4) run inv mjq_inv_insert [OF inv, of "job_mark_running now j"] show ?thesis
      by (intro disjI2 exI [of _ j]) (auto simp: job_mark_running_def)
  qed
next
  fix q :: "'v memory_job_queue" and n
  assume "mjq_inv q"
  then show "mjq_inv (snd (mjq_retry_dead n q)) \<and> hm_get (mjq_jobs (snd (mjq_retry_dead n q))) =
      map_option (\<lambda>j. if job_is_dead_in n j then job_revive j else j) \<circ> hm_get (mjq_jobs q)"
    by (rule mjq_retry_dead_contents)
next
  fix q :: "'v memory_job_queue" and n
  assume "mjq_inv q"
  then show "mjq_inv (snd (mjq_clear_completed n q)) \<and> hm_get (mjq_jobs (snd (mjq_clear_completed n q))) =
      (\<lambda>i. case hm_get (mjq_jobs q) i of None \<Rightarrow> None
         | Some j \<Rightarrow> if job_queue_name j = n \<and> job_status j = JCompleted then None else Some j)"
    by (rule mjq_clear_completed_contents)
qed (auto simp: mjq_inv_def mjq_enqueue_def mjq_update_def mjq_delete_def split: if_splits)


text \<open>What becomes of a job, by its handler's result (specification).\<close>

definition job_verdict :: "'v job_worker \<Rightarrow> 'v job \<Rightarrow> job_status" where
  "job_verdict w j =
     (if \<exists>h. hm_get (jw_handlers w) (job_type j) = Some h \<and> \<not> isl (h (job_args j)) then JCompleted
      else if job_retries j < job_max_retries j then JRetrying else JDead)"

lemma run_job_verdict:
  assumes "run_job add now1 now2 w (job_mark_running now j) = Some j'"
  shows "job_id j' = job_id j \<and> job_status j' = job_verdict w j \<and>
    job_retries j' = (if job_verdict w j = JRetrying then job_retries j + 1 else job_retries j)"
  using assms
  by (auto simp: run_job_def job_mark_running_def job_mark_failed_def job_mark_completed_def
      job_can_retry_def job_verdict_def Let_def split: option.splits sum.splits if_splits)

text \<open>
  C32. A worker processes one job.  Whatever other tasks do to the queue while the handler runs (as
  long as they leave it well formed), either no pending or retrying job of the worker's queue was ready, the
  worker says so and the queue is as before; or the next job was marked running for the
  handler: a ready pending one, of the highest priority among these, or a ready retrying one if no pending one
  was ready.  Then the worker's verdict on it is what the queue holds for it in the end: completed if its handler
  succeeds, else retrying with one more retry as long as its retries are below its maximum, else dead; unless
  computing the verdict panicked, which leaves the job as it was, running.
\<close>

theorem worker_processes_one:
  assumes "mjq_inv q" and "\<forall>q. mjq_inv q \<longrightarrow> mjq_inv (meanwhile q)"
    and "process_one (mjq_dequeue c1 c2 now (jw_queue_name w)) mjq_update
      (run_job add now1 now2 w) meanwhile q = (r, q')"
  shows "mjq_inv q' \<and>
    (r = Some (Ok False) \<and> q' = q \<and> nothing_ready (hm_get (mjq_jobs q)) c1 c2 (jw_queue_name w) \<or>
     (\<exists>j q1. next_job (hm_get (mjq_jobs q)) c1 c2 (jw_queue_name w) j \<and>
        mjq_inv q1 \<and> hm_get (mjq_jobs q1) = (hm_get (mjq_jobs q))(job_id j \<mapsto> job_mark_running now j) \<and>
        (r = None \<and> run_job add now1 now2 w (job_mark_running now j) = None \<and> q' = meanwhile q1 \<or>
         (\<exists>j'. r = Some (Ok True) \<and> job_status j' = job_verdict w j \<and>
            job_retries j' = (if job_verdict w j = JRetrying then job_retries j + 1 else job_retries j) \<and>
            hm_get (mjq_jobs q') = (hm_get (mjq_jobs (meanwhile q1)))(job_id j \<mapsto> j')))))"
proof -
  note effect = memory_jobs.process_one_effect [OF assms]
  from effect have inv: "mjq_inv q'" by (rule conjunct1)
  from conjunct2 [OF effect] show ?thesis
  proof (elim disjE exE conjE)
    fix j q1
    let ?f = "run_job add now1 now2 w (job_mark_running now j)"
    assume j: "next_job (hm_get (mjq_jobs q)) c1 c2 (jw_queue_name w) j"
      "mjq_inv q1" "hm_get (mjq_jobs q1) = (hm_get (mjq_jobs q))(job_id j \<mapsto> job_mark_running now j)"
      and f: "case ?f of None \<Rightarrow> r = None \<and> q' = meanwhile q1
        | Some j' \<Rightarrow> r = Some (Ok True) \<and>
            hm_get (mjq_jobs q') = (hm_get (mjq_jobs (meanwhile q1)))(job_id j' \<mapsto> j')"
    have "r = None \<and> ?f = None \<and> q' = meanwhile q1 \<or>
        (\<exists>j'. r = Some (Ok True) \<and> job_status j' = job_verdict w j \<and>
            job_retries j' = (if job_verdict w j = JRetrying then job_retries j + 1 else job_retries j) \<and>
            hm_get (mjq_jobs q') = (hm_get (mjq_jobs (meanwhile q1)))(job_id j \<mapsto> j'))"
    proof (cases ?f)
      case (Some j')
      from run_job_verdict [OF this] f Some show ?thesis by (intro disjI2 exI [of _ j']) simp
    qed (use f in simp)
    with inv j show ?thesis by blast
  qed (use inv in simp)
qed

theorem worker_processes_one_witness:
  "\<exists>r q'. process_one (mjq_dequeue (\<lambda>_. 1) (\<lambda>_. 1) 1 ''default'') mjq_update
      (run_job (\<lambda>t d. None) 2 2 (job_worker_register ''Mail'' (\<lambda>_. Ok ()) (job_worker_new ''default'')))
      (\<lambda>q. q) (snd (mjq_enqueue (job_new ''a'' 0 ''Mail'' ()) mjq_new)) = (r, q') \<and> mjq_inv q' \<and> r = Some (Ok True)"
proof -
  let ?w = "job_worker_register ''Mail'' (\<lambda>_ :: unit. Ok ()) (job_worker_new ''default'')"
  let ?q = "snd (mjq_enqueue (job_new ''a'' 0 ''Mail'' ()) mjq_new)"
  have inv: "mjq_inv ?q" by (simp add: mjq_inv_def mjq_enqueue_def mjq_new_def job_new_def hm_ok_def)
  obtain r q' where run: "process_one (mjq_dequeue (\<lambda>_. 1) (\<lambda>_. 1) 1 (jw_queue_name ?w)) mjq_update
      (run_job (\<lambda>t d. None) 2 2 ?w) (\<lambda>q. q) ?q = (r, q')" by fastforce
  have r: "r = Some (Ok True)"
    using run by (simp add: process_one_def mjq_dequeue_def mjq_enqueue_def mjq_new_def job_new_def
        job_worker_register_def job_worker_new_def job_is_ready_def run_job_def job_mark_running_def
        mjq_update_def Let_def)
  have "mjq_inv q'" by (rule conjunct1 [OF worker_processes_one [OF inv _ run]]) simp
  with run r show ?thesis by (auto simp: job_worker_register_def job_worker_new_def)
qed


subsection \<open>A queue and its workers\<close>

text \<open>
  Any number of workers share a queue; between taking a job and reporting on it a worker holds a
  copy of it.  Each lock section is one step: a client submits a job under an identity of its own
  (a random UUID, assumed to be in use nowhere), a worker takes a job, reports on one it holds, or
  dies with one (a panic, or the process is killed); and the maintenance operations.
\<close>

record 'v job_system =
  js_queue :: "'v memory_job_queue"
  js_held :: "'v job list"

inductive job_step :: "'v job_system \<Rightarrow> 'v job_system \<Rightarrow> bool" where
  submit: "job_status j = JPending \<Longrightarrow> job_retries j = 0 \<Longrightarrow> hm_get (mjq_jobs q) (job_id j) = None \<Longrightarrow>
    job_id j \<notin> job_id ` set held \<Longrightarrow>
    job_step \<lparr>js_queue = q, js_held = held\<rparr> \<lparr>js_queue = snd (mjq_enqueue j q), js_held = held\<rparr>"
| take: "mjq_dequeue c1 c2 now n q = (Ok (Some j), q') \<Longrightarrow>
    job_step \<lparr>js_queue = q, js_held = held\<rparr> \<lparr>js_queue = q', js_held = j # held\<rparr>"
| report: "j \<in> set held \<Longrightarrow> run_job add now1 now2 w j = Some j' \<Longrightarrow>
    job_step \<lparr>js_queue = q, js_held = held\<rparr> \<lparr>js_queue = snd (mjq_update j' q), js_held = remove1 j held\<rparr>"
| die: "j \<in> set held \<Longrightarrow>
    job_step \<lparr>js_queue = q, js_held = held\<rparr> \<lparr>js_queue = q, js_held = remove1 j held\<rparr>"
| delete: "job_step \<lparr>js_queue = q, js_held = held\<rparr> \<lparr>js_queue = snd (mjq_delete i q), js_held = held\<rparr>"
| revive: "job_step \<lparr>js_queue = q, js_held = held\<rparr> \<lparr>js_queue = snd (mjq_retry_dead n q), js_held = held\<rparr>"
| clear: "job_step \<lparr>js_queue = q, js_held = held\<rparr> \<lparr>js_queue = snd (mjq_clear_completed n q), js_held = held\<rparr>"

inductive_cases job_stepE: "job_step s s'"

inductive job_reachable :: "'v job_system \<Rightarrow> bool" where
  start: "job_reachable \<lparr>js_queue = mjq_new, js_held = []\<rparr>"
| step: "job_reachable s \<Longrightarrow> job_step s s' \<Longrightarrow> job_reachable s'"

definition held_inv :: "'v memory_job_queue \<Rightarrow> 'v job list \<Rightarrow> bool" where
  "held_inv q held \<longleftrightarrow> mjq_inv q \<and> distinct (map job_id held) \<and>
     (\<forall>j \<in> set held. job_status j = JRunning \<and> hm_get (mjq_jobs q) (job_id j) \<in> {None, Some j})"

definition within_limit :: "'v job \<Rightarrow> bool" where
  "within_limit j \<longleftrightarrow> job_retries j \<le> job_max_retries j"

definition limit_inv :: "'v memory_job_queue \<Rightarrow> 'v job list \<Rightarrow> bool" where
  "limit_inv q held \<longleftrightarrow> (\<forall>j \<in> set held. within_limit j) \<and>
     (\<forall>i j. hm_get (mjq_jobs q) i = Some j \<longrightarrow> within_limit j)"

lemma in_set_remove1_sub: "x \<in> set (remove1 a xs) \<Longrightarrow> x \<in> set xs"
  using set_remove1_subset by fast

lemma run_job_limit: "run_job add now1 now2 w j = Some j' \<Longrightarrow> within_limit j \<Longrightarrow> within_limit j'"
  using inc_le [of "job_retries j" "job_max_retries j"]
  by (auto simp: run_job_def job_mark_completed_def job_mark_failed_def job_can_retry_def
      within_limit_def Let_def add.commute split: option.splits sum.splits if_splits)

lemma run_job_id: "run_job add now1 now2 w j = Some j' \<Longrightarrow> job_id j' = job_id j"
  by (auto simp: run_job_def job_mark_completed_def job_mark_failed_def Let_def
      split: option.splits sum.splits if_splits)

lemma held_inv_step:
  assumes "job_step s s'" and "held_inv (js_queue s) (js_held s)"
  shows "held_inv (js_queue s') (js_held s')"
  using assms
proof (induction rule: job_step.induct)
  case (submit j q held)
  then have "\<forall>j2 \<in> set held. job_id j2 \<noteq> job_id j" by (auto simp: image_iff)
  with submit memory_jobs.enqueue_contents [of q j] show ?case
    by (auto simp: held_inv_def)
next
  case (take c1 c2 now n q j q' held)
  then have inv: "mjq_inv q" by (simp add: held_inv_def)
  from memory_jobs.dequeue_takes [OF inv take(1)] obtain j0 where
    j0: "stored q j0" "job_status j0 \<in> {JPending, JRetrying}" "j = job_mark_running now j0" "mjq_inv q'"
      "hm_get (mjq_jobs q') = (hm_get (mjq_jobs q))(job_id j0 \<mapsto> j)"
    by auto
  have id: "job_id j = job_id j0" "job_status j = JRunning"
    using j0(3) by (simp_all add: job_mark_running_def)
  have "job_id j \<notin> job_id ` set held"
  proof
    assume "job_id j \<in> job_id ` set held"
    then obtain j2 where j2: "job_id j = job_id j2" "j2 \<in> set held" by (rule imageE)
    with take(2) have "job_status j2 = JRunning" "hm_get (mjq_jobs q) (job_id j2) \<in> {None, Some j2}"
      by (simp_all add: held_inv_def)
    with j0(1) j2(1) id(1) have "job_status j2 = JRunning" "j2 = j0" by simp_all
    with j0(2) show False by simp
  qed
  moreover from this have "\<forall>j2 \<in> set held. hm_get (mjq_jobs q') (job_id j2) = hm_get (mjq_jobs q) (job_id j2)"
    using j0(5) id by (auto simp: image_iff)
  moreover have "stored q' j" using j0(5) id by simp
  ultimately show ?case using take(2) j0(4) id by (simp add: held_inv_def)
next
  case (report j held add now1 now2 w j' q)
  then have inv: "mjq_inv q" "distinct held" by (auto simp: held_inv_def distinct_map)
  have other: "job_id j2 \<noteq> job_id j" if "j2 \<in> set (remove1 j held)" for j2
    using that report inv by (auto simp: held_inv_def distinct_map inj_on_def)
  from report inv other memory_jobs.upd_contents [OF inv(1), of j'] run_job_id [OF report(2)] show ?case
    by (auto simp: held_inv_def distinct_map inj_on_def)
next
  case (die j held q)
  then show ?case by (auto simp: held_inv_def distinct_map inj_on_def)
next
  case (delete q held i)
  with memory_jobs.delete_contents [of q i] show ?case by (auto simp: held_inv_def)
next
  case (revive q held n)
  then have "mjq_inv q" by (simp add: held_inv_def)
  note after = memory_jobs.retry_dead_contents [OF this, of n]
  have "hm_get (mjq_jobs (snd (mjq_retry_dead n q))) (job_id j) = hm_get (mjq_jobs q) (job_id j)"
    if "j \<in> set held" for j
  proof -
    from revive that have "job_status j = JRunning" "hm_get (mjq_jobs q) (job_id j) \<in> {None, Some j}"
      by (simp_all add: held_inv_def)
    then show ?thesis unfolding conjunct2 [OF after] by (auto simp: job_is_dead_in_def)
  qed
  with revive after show ?case by (simp add: held_inv_def)
next
  case (clear q held n)
  with memory_jobs.clear_completed_contents [of q n] show ?case by (auto simp: held_inv_def)
qed

lemma limit_inv_step:
  assumes "job_step s s'" and "held_inv (js_queue s) (js_held s)" and "limit_inv (js_queue s) (js_held s)"
  shows "limit_inv (js_queue s') (js_held s')"
  using assms
proof (induction rule: job_step.induct)
  case (submit j q held)
  then show ?case by (auto simp: limit_inv_def within_limit_def mjq_enqueue_def)
next
  case (take c1 c2 now n q j q' held)
  then have inv: "mjq_inv q" by (simp add: held_inv_def)
  from memory_jobs.dequeue_takes [OF inv take(1)] take(3) show ?case
    by (auto simp: limit_inv_def within_limit_def job_mark_running_def split: if_splits)
next
  case (report j held add now1 now2 w j' q)
  then have "within_limit j'" using run_job_limit [OF report(2)] by (simp add: limit_inv_def)
  with report show ?case
    by (auto simp: limit_inv_def mjq_update_def dest: in_set_remove1_sub)
next
  case (revive q held n)
  with memory_jobs.retry_dead_contents [of q n] show ?case
    by (auto simp: limit_inv_def held_inv_def within_limit_def job_revive_def)
next
  case (clear q held n)
  with memory_jobs.clear_completed_contents [of q n] show ?case
    by (auto simp: limit_inv_def held_inv_def split: option.splits if_splits)
qed (auto simp: limit_inv_def mjq_delete_def dest: in_set_remove1_sub)

lemma job_reachable_inv:
  "job_reachable s \<Longrightarrow> held_inv (js_queue s) (js_held s) \<and> limit_inv (js_queue s) (js_held s)"
proof (induction rule: job_reachable.induct)
  case start
  then show ?case by (simp add: held_inv_def limit_inv_def mjq_inv_def mjq_new_def)
next
  case (step s s')
  with held_inv_step limit_inv_step show ?case by blast
qed


text \<open>
  C2. No job runs twice.  In every state a queue and its workers can reach, no two workers hold the
  same job, a job that is held is marked running both in the worker's hand and in the queue (or has
  been deleted from it), the queue files every job under its own identity, and no job has been
  retried more often than its maximum.
\<close>

theorem no_job_runs_twice:
  assumes "job_reachable s"
  shows "distinct (map job_id (js_held s)) \<and> mjq_inv (js_queue s) \<and>
    (\<forall>j \<in> set (js_held s). job_status j = JRunning \<and> hm_get (mjq_jobs (js_queue s)) (job_id j) \<in> {None, Some j}) \<and>
    (\<forall>i j. hm_get (mjq_jobs (js_queue s)) i = Some j \<longrightarrow> job_retries j \<le> job_max_retries j)"
  using job_reachable_inv [OF assms] unfolding held_inv_def limit_inv_def within_limit_def by blast

lemma one_taken_reachable:
  "job_reachable \<lparr>js_queue = \<lparr>mjq_jobs = [(''a'', job_mark_running 1 (job_new ''a'' 0 ''Mail'' ()))], mjq_counter = 1\<rparr>,
     js_held = [job_mark_running 1 (job_new ''a'' 0 ''Mail'' ())]\<rparr>"
proof -
  let ?j = "job_new ''a'' 0 ''Mail'' ()"
  let ?q = "\<lparr>mjq_jobs = [(''a'', ?j)], mjq_counter = 1\<rparr>"
  have "job_step \<lparr>js_queue = mjq_new, js_held = []\<rparr> \<lparr>js_queue = snd (mjq_enqueue ?j mjq_new), js_held = []\<rparr>"
    by (rule submit) (simp_all add: job_new_def mjq_new_def)
  also have "snd (mjq_enqueue ?j mjq_new) = ?q"
    by (simp add: mjq_enqueue_def mjq_new_def job_new_def)
  finally have 1: "job_reachable \<lparr>js_queue = ?q, js_held = []\<rparr>"
    by (rule job_reachable.step [OF job_reachable.start])
  have "mjq_dequeue (\<lambda>_. 1) (\<lambda>_. 1) 1 ''default'' ?q = (Ok (Some (job_mark_running 1 ?j)),
      \<lparr>mjq_jobs = [(''a'', job_mark_running 1 ?j)], mjq_counter = 1\<rparr>)"
    by (simp add: mjq_dequeue_def job_new_def job_is_ready_def Let_def)
  from job_reachable.step [OF 1 take [OF this]] show ?thesis .
qed

theorem no_job_runs_twice_witness:
  "hm_get (mjq_jobs \<lparr>mjq_jobs = [(''a'', job_mark_running 1 (job_new ''a'' 0 ''Mail'' ()))], mjq_counter = 1\<rparr>) ''a''
     \<in> {None, Some (job_mark_running 1 (job_new ''a'' 0 ''Mail'' ()))}"
  using no_job_runs_twice [OF one_taken_reachable] by (auto simp: job_mark_running_def job_new_def)

text \<open>
  A job whose worker died is lost.  Once the queue holds a job as running that no worker holds
  (its worker panicked or was killed), no step of the system other than deleting it ever changes
  it again, and no worker ever takes it.
\<close>

theorem abandoned_job_stays_running:
  assumes "job_reachable s" and "job_step s s'"
    and "hm_get (mjq_jobs (js_queue s)) i = Some j" and "job_status j = JRunning"
    and "i \<notin> job_id ` set (js_held s)"
  shows "hm_get (mjq_jobs (js_queue s')) i \<in> {None, Some j} \<and> i \<notin> job_id ` set (js_held s')"
proof -
  from job_reachable_inv [OF assms(1)] have "held_inv (js_queue s) (js_held s)" by blast
  with assms(2-) show ?thesis
  proof (induction rule: job_step.induct)
    case (take c1 c2 now n q j0 q' held)
    then have inv: "mjq_inv q" by (simp add: held_inv_def)
    from memory_jobs.dequeue_takes [OF inv take(1)] take show ?case
      by (auto simp: job_mark_running_def split: if_splits)
  next
    case (report j0 held add now1 now2 w j' q)
    then show ?case
      using run_job_id [OF report(2)] by (auto simp: mjq_update_def dest: in_set_remove1_sub)
  next
    case (revive q held n)
    with memory_jobs.retry_dead_contents [of q n] show ?case
      by (auto simp: held_inv_def job_is_dead_in_def)
  next
    case (clear q held n)
    with memory_jobs.clear_completed_contents [of q n] show ?case
      by (auto simp: held_inv_def)
  qed (auto simp: mjq_enqueue_def mjq_delete_def dest: in_set_remove1_sub)
qed

theorem abandoned_job_stays_running_witness:
  "\<exists>s s' :: unit job_system. job_reachable s \<and> job_step s s' \<and>
     hm_get (mjq_jobs (js_queue s')) ''a'' \<in> {None, Some (job_mark_running 1 (job_new ''a'' 0 ''Mail'' ()))} \<and>
     ''a'' \<notin> job_id ` set (js_held s')"
proof -
  let ?j = "job_mark_running 1 (job_new ''a'' 0 ''Mail'' ())"
  let ?q = "\<lparr>mjq_jobs = [(''a'', ?j)], mjq_counter = 1\<rparr>"
  let ?s = "\<lparr>js_queue = ?q, js_held = []\<rparr>"
  have "job_step \<lparr>js_queue = ?q, js_held = [?j]\<rparr> \<lparr>js_queue = ?q, js_held = remove1 ?j [?j]\<rparr>"
    by (rule die) simp
  then have s: "job_reachable ?s"
    by (auto intro: job_reachable.step [OF one_taken_reachable])
  have st: "job_step ?s \<lparr>js_queue = snd (mjq_retry_dead ''default'' ?q), js_held = []\<rparr>"
    by (rule revive)
  from abandoned_job_stays_running [OF s st, of "''a''" ?j] s st show ?thesis
    by (intro exI [of _ ?s] exI [of _ "\<lparr>js_queue = snd (mjq_retry_dead ''default'' ?q), js_held = []\<rparr>"])
      (simp add: job_mark_running_def)
qed

end
