(* ===== verification/Work_Package_Store.thy ===== *)
theory Work_Package_Store
  imports Core_Types
begin

text \<open>
  The work package model and service of op-work-packages (work_package.rs,
  work_package_service.rs): the write models, the in-memory store and the service with its
  optimistic locking, in which an update reads and writes the row in two separate lock sections.
\<close>

subsection \<open>Work packages\<close>

datatype done_ratio = DoneRatio (done_ratio_value: "8 word")

definition done_ratio_new :: "8 word \<Rightarrow> done_ratio" where
  "done_ratio_new percent = DoneRatio (min percent 100)"

definition done_ratio_is_complete :: "done_ratio \<Rightarrow> bool" where
  "done_ratio_is_complete d \<longleftrightarrow> done_ratio_value d = 100"

record work_package =
  wpk_id :: "Id option"
  wpk_subject :: string
  wpk_description :: formattable
  wpk_project_id :: Id
  wpk_type_id :: Id
  wpk_status_id :: Id
  wpk_priority_id :: "Id option"
  wpk_author_id :: Id
  wpk_assigned_to_id :: "Id option"
  wpk_responsible_id :: "Id option"
  wpk_parent_id :: "Id option"
  wpk_start_date :: "date option"
  wpk_due_date :: "date option"
  wpk_estimated_hours :: "f64 option"
  wpk_done_ratio :: done_ratio
  wpk_lock_version :: i32
  wpk_created_at :: timestamp
  wpk_updated_at :: timestamp

definition work_package_new :: "timestamp \<Rightarrow> string \<Rightarrow> Id \<Rightarrow> Id \<Rightarrow> Id \<Rightarrow> Id \<Rightarrow> work_package" where
  "work_package_new now subject project_id type_id status_id author_id =
     \<lparr>wpk_id = None, wpk_subject = subject,
      wpk_description = \<lparr>fm_raw = [], fm_html = [], fm_format = MarkdownFormat\<rparr>,
      wpk_project_id = project_id, wpk_type_id = type_id, wpk_status_id = status_id,
      wpk_priority_id = None, wpk_author_id = author_id, wpk_assigned_to_id = None,
      wpk_responsible_id = None, wpk_parent_id = None, wpk_start_date = None, wpk_due_date = None,
      wpk_estimated_hours = None, wpk_done_ratio = DoneRatio 0, wpk_lock_version = 0,
      wpk_created_at = now, wpk_updated_at = now\<rparr>"

definition wpk_with_description :: "formattable \<Rightarrow> work_package \<Rightarrow> work_package" where
  "wpk_with_description d w = w\<lparr>wpk_description := d\<rparr>"

definition wpk_with_assignee :: "Id \<Rightarrow> work_package \<Rightarrow> work_package" where
  "wpk_with_assignee user_id w = w\<lparr>wpk_assigned_to_id := Some user_id\<rparr>"

definition wpk_with_priority :: "Id \<Rightarrow> work_package \<Rightarrow> work_package" where
  "wpk_with_priority priority_id w = w\<lparr>wpk_priority_id := Some priority_id\<rparr>"

definition wpk_with_parent :: "Id \<Rightarrow> work_package \<Rightarrow> work_package" where
  "wpk_with_parent parent_id w = w\<lparr>wpk_parent_id := Some parent_id\<rparr>"

definition wpk_with_dates :: "date option \<Rightarrow> date option \<Rightarrow> work_package \<Rightarrow> work_package" where
  "wpk_with_dates start due w = w\<lparr>wpk_start_date := start, wpk_due_date := due\<rparr>"

definition wpk_with_done_ratio :: "8 word \<Rightarrow> work_package \<Rightarrow> work_package" where
  "wpk_with_done_ratio percent w = w\<lparr>wpk_done_ratio := done_ratio_new percent\<rparr>"

definition wpk_is_complete :: "work_package \<Rightarrow> bool" where
  "wpk_is_complete w \<longleftrightarrow> done_ratio_is_complete (wpk_done_ratio w)"

definition wpk_is_child :: "work_package \<Rightarrow> bool" where
  "wpk_is_child w \<longleftrightarrow> wpk_parent_id w \<noteq> None"

definition wpk_has_assignee :: "work_package \<Rightarrow> bool" where
  "wpk_has_assignee w \<longleftrightarrow> wpk_assigned_to_id w \<noteq> None"

definition wpk_is_overdue :: "date \<Rightarrow> bool \<Rightarrow> work_package \<Rightarrow> bool" where
  "wpk_is_overdue today status_is_closed w \<longleftrightarrow>
     \<not> status_is_closed \<and> (case wpk_due_date w of Some due \<Rightarrow> due < today | None \<Rightarrow> False)"

subsection \<open>The write models\<close>

datatype work_package_error =
    WpNotFound Id
  | WpValidation string
  | WpConflict i32 i32
  | WpDatabase string

record new_work_package =
  nwp_subject :: string
  nwp_project_id :: Id
  nwp_type_id :: Id
  nwp_status_id :: Id
  nwp_author_id :: Id
  nwp_priority_id :: "Id option"
  nwp_assigned_to_id :: "Id option"
  nwp_parent_id :: "Id option"
  nwp_description :: "string option"

definition new_work_package_new :: "string \<Rightarrow> Id \<Rightarrow> Id \<Rightarrow> Id \<Rightarrow> Id \<Rightarrow> new_work_package" where
  "new_work_package_new subject project_id type_id status_id author_id =
     \<lparr>nwp_subject = subject, nwp_project_id = project_id, nwp_type_id = type_id,
      nwp_status_id = status_id, nwp_author_id = author_id, nwp_priority_id = None,
      nwp_assigned_to_id = None, nwp_parent_id = None, nwp_description = None\<rparr>"

definition to_work_package :: "timestamp \<Rightarrow> new_work_package \<Rightarrow> work_package" where
  "to_work_package now input =
     (let w = work_package_new now (nwp_subject input) (nwp_project_id input) (nwp_type_id input)
            (nwp_status_id input) (nwp_author_id input);
          w = w\<lparr>wpk_priority_id := nwp_priority_id input, wpk_assigned_to_id := nwp_assigned_to_id input,
                wpk_parent_id := nwp_parent_id input\<rparr>
      in (case nwp_description input of
            Some body \<Rightarrow> w\<lparr>wpk_description := formattable_markdown body\<rparr>
          | None \<Rightarrow> w))"

record update_work_package =
  uwp_subject :: "string option"
  uwp_description :: "string option"
  uwp_type_id :: "Id option"
  uwp_status_id :: "Id option"
  uwp_priority_id :: "Id option"
  uwp_assigned_to_id :: "Id option"
  uwp_done_ratio :: "8 word option"

definition update_work_package_default :: update_work_package where
  "update_work_package_default =
     \<lparr>uwp_subject = None, uwp_description = None, uwp_type_id = None, uwp_status_id = None,
      uwp_priority_id = None, uwp_assigned_to_id = None, uwp_done_ratio = None\<rparr>"

definition set_some :: "('a \<Rightarrow> 'b \<Rightarrow> 'b) \<Rightarrow> 'a option \<Rightarrow> 'b \<Rightarrow> 'b" where
  "set_some f x w = (case x of Some v \<Rightarrow> f v w | None \<Rightarrow> w)"

definition apply_to :: "update_work_package \<Rightarrow> work_package \<Rightarrow> work_package" where
  "apply_to c w =
     (let w = set_some (\<lambda>v w. w\<lparr>wpk_subject := v\<rparr>) (uwp_subject c) w;
          w = set_some (\<lambda>v w. w\<lparr>wpk_description := formattable_markdown v\<rparr>) (uwp_description c) w;
          w = set_some (\<lambda>v w. w\<lparr>wpk_type_id := v\<rparr>) (uwp_type_id c) w;
          w = set_some (\<lambda>v w. w\<lparr>wpk_status_id := v\<rparr>) (uwp_status_id c) w;
          w = set_some (\<lambda>v w. w\<lparr>wpk_priority_id := Some v\<rparr>) (uwp_priority_id c) w;
          w = set_some (\<lambda>v w. w\<lparr>wpk_assigned_to_id := Some v\<rparr>) (uwp_assigned_to_id c) w
      in set_some (\<lambda>v w. w\<lparr>wpk_done_ratio := done_ratio_new v\<rparr>) (uwp_done_ratio c) w)"

subsection \<open>The service\<close>

text \<open>
  The service works over any store, given by its operations.  In \<open>update\<close>, \<open>meanwhile\<close> is what other
  requests do to the store between the read and the write.
\<close>

definition wps_create ::
    "(work_package \<Rightarrow> 's \<Rightarrow> (Id, work_package_error) result \<times> 's) \<Rightarrow> timestamp \<Rightarrow> new_work_package \<Rightarrow> 's \<Rightarrow>
     (work_package, work_package_error) result \<times> 's" where
  "wps_create insert_row now input s =
     (if trim (nwp_subject input) = [] then (Err (WpValidation ''subject can't be blank''), s)
      else (let w = to_work_package now input
        in (case insert_row w s of
              (Err e, s) \<Rightarrow> (Err e, s)
            | (Ok i, s) \<Rightarrow> (Ok (w\<lparr>wpk_id := Some i\<rparr>), s))))"

definition wps_find ::
    "(Id \<Rightarrow> 's \<Rightarrow> (work_package option, work_package_error) result) \<Rightarrow> Id \<Rightarrow> 's \<Rightarrow>
     (work_package, work_package_error) result" where
  "wps_find get i s =
     (case get i s of
        Err e \<Rightarrow> Err e
      | Ok (Some w) \<Rightarrow> Ok w
      | Ok None \<Rightarrow> Err (WpNotFound i))"

text \<open>What an update makes of the row it has read.\<close>

definition patched ::
    "timestamp \<Rightarrow> i32 \<Rightarrow> update_work_package \<Rightarrow> work_package \<Rightarrow> (work_package, work_package_error) result" where
  "patched now expected changes w =
     (if wpk_lock_version w \<noteq> expected then Err (WpConflict expected (wpk_lock_version w))
      else (let w = apply_to changes w
        in if trim (wpk_subject w) = [] then Err (WpValidation ''subject can't be blank'')
           else Ok (w\<lparr>wpk_lock_version := wpk_lock_version w + 1, wpk_updated_at := now\<rparr>)))"

definition wps_update ::
    "(Id \<Rightarrow> 's \<Rightarrow> (work_package option, work_package_error) result) \<Rightarrow>
     (work_package \<Rightarrow> 's \<Rightarrow> (unit, work_package_error) result \<times> 's) \<Rightarrow> ('s \<Rightarrow> 's) \<Rightarrow>
     timestamp \<Rightarrow> Id \<Rightarrow> i32 \<Rightarrow> update_work_package \<Rightarrow> 's \<Rightarrow>
     (work_package, work_package_error) result \<times> 's" where
  "wps_update get put meanwhile now i expected changes s =
     (case wps_find get i s of
        Err e \<Rightarrow> (Err e, s)
      | Ok w \<Rightarrow> (case patched now expected changes w of
            Err e \<Rightarrow> (Err e, s)
          | Ok w \<Rightarrow> (case put w (meanwhile s) of
                (Err e, s) \<Rightarrow> (Err e, s)
              | (Ok _, s) \<Rightarrow> (Ok w, s))))"

subsection \<open>The in-memory store\<close>

record memory_wp_store =
  mws_rows :: "work_package list"
  mws_next_id :: i64
  mws_poisoned :: bool

definition mws_new :: memory_wp_store where
  "mws_new = \<lparr>mws_rows = [], mws_next_id = 1, mws_poisoned = False\<rparr>"

definition poison_text :: string where
  "poison_text = ''poisoned lock: another task failed inside''"

text \<open>The identity is drawn before the lock is taken.\<close>

definition mws_insert ::
    "work_package \<Rightarrow> memory_wp_store \<Rightarrow> (Id, work_package_error) result \<times> memory_wp_store" where
  "mws_insert w s =
     (let i = mws_next_id s;
          s = s\<lparr>mws_next_id := i + 1\<rparr>
      in if mws_poisoned s then (Err (WpDatabase poison_text), s)
         else (Ok i, s\<lparr>mws_rows := mws_rows s @ [w\<lparr>wpk_id := Some i\<rparr>]\<rparr>))"

definition mws_get ::
    "Id \<Rightarrow> memory_wp_store \<Rightarrow> (work_package option, work_package_error) result" where
  "mws_get i s =
     (if mws_poisoned s then Err (WpDatabase poison_text)
      else Ok (List.find (\<lambda>w. wpk_id w = Some i) (mws_rows s)))"

definition mws_update ::
    "work_package \<Rightarrow> memory_wp_store \<Rightarrow> (unit, work_package_error) result \<times> memory_wp_store" where
  "mws_update w s =
     (if mws_poisoned s then (Err (WpDatabase poison_text), s)
      else (case replace_first (\<lambda>existing. wpk_id existing = wpk_id w) w (mws_rows s) of
              None \<Rightarrow> (Err (WpNotFound (case wpk_id w of Some i \<Rightarrow> i | None \<Rightarrow> 0)), s)
            | Some rows \<Rightarrow> (Ok (), s\<lparr>mws_rows := rows\<rparr>)))"

definition mws_list_for_project ::
    "Id \<Rightarrow> memory_wp_store \<Rightarrow> (work_package list, work_package_error) result" where
  "mws_list_for_project project_id s =
     (if mws_poisoned s then Err (WpDatabase poison_text)
      else Ok (filter (\<lambda>w. wpk_project_id w = project_id) (mws_rows s)))"

subsection \<open>The interface of a store\<close>

text \<open>
  What the service relies on: \<open>row\<close> is the table the store stands for, and writing a row that exists
  replaces it and nothing else.
\<close>

locale wp_store =
  fixes inv :: "'s \<Rightarrow> bool"
    and row :: "'s \<Rightarrow> Id \<Rightarrow> work_package option"
    and get :: "Id \<Rightarrow> 's \<Rightarrow> (work_package option, work_package_error) result"
    and put :: "work_package \<Rightarrow> 's \<Rightarrow> (unit, work_package_error) result \<times> 's"
  assumes get_row: "inv s \<Longrightarrow> get i s = Ok (row s i)"
    and row_id: "inv s \<Longrightarrow> row s i = Some w \<Longrightarrow> wpk_id w = Some i"
    and put_row: "inv s \<Longrightarrow> wpk_id w = Some i \<Longrightarrow> row s i \<noteq> None \<Longrightarrow>
      fst (put w s) = Ok () \<and> inv (snd (put w s)) \<and> row (snd (put w s)) = (row s)(i \<mapsto> w)"
    and put_missing: "inv s \<Longrightarrow> wpk_id w = Some i \<Longrightarrow> row s i = None \<Longrightarrow>
      put w s = (Err (WpNotFound i), s)"

lemma apply_to_keeps [simp]:
  "wpk_id (apply_to c w) = wpk_id w" "wpk_lock_version (apply_to c w) = wpk_lock_version w"
  "wpk_project_id (apply_to c w) = wpk_project_id w" "wpk_author_id (apply_to c w) = wpk_author_id w"
  by (auto simp: apply_to_def set_some_def Let_def split: option.split)

lemma patched_Ok:
  "patched now expected changes w = Ok w' \<Longrightarrow>
    wpk_id w' = wpk_id w \<and> wpk_lock_version w = expected \<and> wpk_lock_version w' = expected + 1 \<and>
    w' = (apply_to changes w)\<lparr>wpk_lock_version := expected + 1, wpk_updated_at := now\<rparr>"
  by (auto simp: patched_def Let_def split: if_splits)

context wp_store
begin

lemma update_missing: "inv s \<Longrightarrow> row s i = None \<Longrightarrow>
    wps_update get put meanwhile now i expected changes s = (Err (WpNotFound i), s)"
  by (simp add: wps_update_def wps_find_def get_row)

lemma update_refused: "inv s \<Longrightarrow> row s i = Some w \<Longrightarrow> patched now expected changes w = Err e \<Longrightarrow>
    wps_update get put meanwhile now i expected changes s = (Err e, s)"
  by (simp add: wps_update_def wps_find_def get_row)

lemma update_done:
  assumes inv: "inv s" "inv (meanwhile s)" and w: "row s i = Some w" "patched now expected changes w = Ok w'"
    and there: "row (meanwhile s) i \<noteq> None"
  obtains s' where "wps_update get put meanwhile now i expected changes s = (Ok w', s')" "inv s'"
    "row s' = (row (meanwhile s))(i \<mapsto> w')"
proof -
  have "wpk_id w' = Some i" using row_id [OF inv(1) w(1)] patched_Ok [OF w(2)] by simp
  from put_row [OF inv(2) this there] obtain s' where
    "put w' (meanwhile s) = (Ok (), s')" "inv s'" "row s' = (row (meanwhile s))(i \<mapsto> w')"
    by (metis prod.collapse)
  with inv w that show ?thesis by (simp add: wps_update_def wps_find_def get_row)
qed

lemma update_deleted:
  assumes inv: "inv s" "inv (meanwhile s)" and w: "row s i = Some w" "patched now expected changes w = Ok w'"
    and gone: "row (meanwhile s) i = None"
  shows "wps_update get put meanwhile now i expected changes s = (Err (WpNotFound i), meanwhile s)"
proof -
  have "wpk_id w' = Some i" using row_id [OF inv(1) w(1)] patched_Ok [OF w(2)] by simp
  from put_missing [OF inv(2) this gone] inv w show ?thesis
    by (simp add: wps_update_def wps_find_def get_row)
qed

text \<open>One request after the other: the second of two updates with the same expectation is a conflict.\<close>

lemma second_update_conflicts:
  assumes inv: "inv s" and first: "wps_update get put (\<lambda>s. s) now1 i expected c1 s = (Ok w1, s1)"
  shows "wps_update get put meanwhile now2 i expected c2 s1 = (Err (WpConflict expected (expected + 1)), s1)"
proof (cases "row s i")
  case None
  with update_missing [OF inv None] first show ?thesis by simp
next
  case (Some w)
  show ?thesis
  proof (cases "patched now1 expected c1 w")
    case (Inl e)
    with update_refused [OF inv Some Inl] first show ?thesis by simp
  next
    case (Inr w')
    have "row s i \<noteq> None" using Some by simp
    then obtain s' where s': "wps_update get put (\<lambda>s. s) now1 i expected c1 s = (Ok w', s')" "inv s'"
      "row s' = (row s)(i \<mapsto> w')"
      using update_done [where meanwhile = "\<lambda>s. s", OF inv inv Some Inr] by blast
    with first have eq: "s' = s1" "w' = w1" by simp_all
    have "patched now2 expected c2 w' = Err (WpConflict expected (expected + 1))"
      using patched_Ok [OF Inr] by (simp add: patched_def)
    with s' eq show ?thesis by (intro update_refused) simp_all
  qed
qed

text \<open>Two requests at once: both succeed, with the same new version, and the first is lost.\<close>

lemma racing_updates:
  assumes inv: "inv s" and w: "row s i = Some w"
    and c1: "patched now1 expected c1 w = Ok w1" and c2: "patched now2 expected c2 w = Ok w2"
  shows "\<exists>s1 s2. wps_update get put (\<lambda>s. s) now1 i expected c1 s = (Ok w1, s1) \<and>
    wps_update get put (\<lambda>s. snd (wps_update get put (\<lambda>s. s) now1 i expected c1 s)) now2 i expected c2 s =
      (Ok w2, s2) \<and> inv s2 \<and> row s2 = (row s)(i \<mapsto> w2)"
proof -
  let ?m = "\<lambda>s. snd (wps_update get put (\<lambda>s. s) now1 i expected c1 s)"
  obtain s1 where s1: "wps_update get put (\<lambda>s. s) now1 i expected c1 s = (Ok w1, s1)" "inv s1"
      "row s1 = (row s)(i \<mapsto> w1)"
    using update_done [where meanwhile = "\<lambda>s. s", OF inv inv w c1] w by auto
  then have m: "inv (?m s)" "row (?m s) i \<noteq> None" "row (?m s) = (row s)(i \<mapsto> w1)" by simp_all
  from update_done [where meanwhile = ?m, OF inv m(1) w c2 m(2)] m(3) s1 show ?thesis
    by (metis fun_upd_upd)
qed

end

subsection \<open>The in-memory store is a store\<close>

text \<open>The rows have the identities \<open>1, 2, \<dots>\<close> in order, and the counter is the next one.\<close>

definition mws_inv :: "memory_wp_store \<Rightarrow> bool" where
  "mws_inv s \<longleftrightarrow> \<not> mws_poisoned s \<and> length (mws_rows s) < 2 ^ 64 - 1 \<and>
     mws_next_id s = of_nat (Suc (length (mws_rows s))) \<and>
     map wpk_id (mws_rows s) = map (\<lambda>k. Some (of_nat (Suc k))) [0..<length (mws_rows s)]"

definition mws_row :: "memory_wp_store \<Rightarrow> Id \<Rightarrow> work_package option" where
  "mws_row s i = List.find (\<lambda>w. wpk_id w = Some i) (mws_rows s)"

lemma mws_inv_rows:
  "mws_inv s \<Longrightarrow> map wpk_id rows = map wpk_id (mws_rows s) \<Longrightarrow> mws_inv (s\<lparr>mws_rows := rows\<rparr>)"
  using map_eq_imp_length_eq [of wpk_id rows wpk_id "mws_rows s"] by (simp add: mws_inv_def)

interpretation memory_wps: wp_store mws_inv mws_row mws_get mws_update
proof unfold_locales
  fix s i and w :: work_package
  assume inv: "mws_inv s" and w: "wpk_id w = Some i" and there: "mws_row s i \<noteq> None"
  then obtain rows where rows: "replace_first (\<lambda>e. wpk_id e = Some i) w (mws_rows s) = Some rows"
    by (metis mws_row_def option.exhaust replace_first_None)
  from replace_first_find [OF rows w] inv rows w
  show "fst (mws_update w s) = Ok () \<and> mws_inv (snd (mws_update w s)) \<and>
      mws_row (snd (mws_update w s)) = (mws_row s)(i \<mapsto> w)"
    by (auto simp: mws_update_def mws_row_def fun_eq_iff mws_inv_rows) (auto simp: mws_inv_def)
next
  fix s i and w :: work_package
  assume inv: "mws_inv s" and w: "wpk_id w = Some i" and gone: "mws_row s i = None"
  from gone have "replace_first (\<lambda>e. wpk_id e = Some i) w (mws_rows s) = None"
    by (simp add: mws_row_def)
  with inv w show "mws_update w s = (Err (WpNotFound i), s)"
    by (simp add: mws_update_def mws_inv_def del: replace_first_None)
qed (auto simp: mws_get_def mws_row_def mws_inv_def dest: find_Some_pred)

text \<open>The row an update asks for: the attributes it names, the others as they were.\<close>

definition asked_row :: "update_work_package \<Rightarrow> work_package \<Rightarrow> work_package" where
  "asked_row c w = w\<lparr>
     wpk_subject := (case uwp_subject c of Some v \<Rightarrow> v | None \<Rightarrow> wpk_subject w),
     wpk_description := (case uwp_description c of
         Some v \<Rightarrow> \<lparr>fm_raw = v, fm_html = v, fm_format = MarkdownFormat\<rparr> | None \<Rightarrow> wpk_description w),
     wpk_type_id := (case uwp_type_id c of Some v \<Rightarrow> v | None \<Rightarrow> wpk_type_id w),
     wpk_status_id := (case uwp_status_id c of Some v \<Rightarrow> v | None \<Rightarrow> wpk_status_id w),
     wpk_priority_id := (case uwp_priority_id c of Some v \<Rightarrow> Some v | None \<Rightarrow> wpk_priority_id w),
     wpk_assigned_to_id := (case uwp_assigned_to_id c of Some v \<Rightarrow> Some v | None \<Rightarrow> wpk_assigned_to_id w),
     wpk_done_ratio := (case uwp_done_ratio c of Some v \<Rightarrow> DoneRatio (min v 100) | None \<Rightarrow> wpk_done_ratio w)\<rparr>"

lemma apply_to_asked: "apply_to c w = asked_row c w"
  by (simp add: apply_to_def asked_row_def set_some_def formattable_markdown_def done_ratio_new_def Let_def split: option.split)

lemma asked_row_version [simp]: "wpk_lock_version (asked_row c w) = wpk_lock_version w"
  by (simp add: asked_row_def)

text \<open>
  C5. Optimistic locking, one request after the other.  An update of a row succeeds exactly when the
  row exists, the expected version is its version and the subject it asks for is not blank; it then
  returns and stores the row it asks for, with the next version and the time of the update, and touches
  no other row; every refusal names its reason and changes nothing.  After it, every update that expects
  the old version is a conflict that names the new one, whatever it asks for and whatever other requests
  would do meanwhile.
\<close>

theorem optimistic_lock_detects_stale_updates:
  assumes "mws_inv s"
  shows "(case mws_row s i of
      None \<Rightarrow> wps_update mws_get mws_update (\<lambda>s. s) now1 i expected c1 s = (Err (WpNotFound i), s)
    | Some w \<Rightarrow>
        if wpk_lock_version w \<noteq> expected
        then wps_update mws_get mws_update (\<lambda>s. s) now1 i expected c1 s =
          (Err (WpConflict expected (wpk_lock_version w)), s)
        else if trim (wpk_subject (asked_row c1 w)) = []
        then wps_update mws_get mws_update (\<lambda>s. s) now1 i expected c1 s =
          (Err (WpValidation ''subject can't be blank''), s)
        else (\<exists>w1 s1. wps_update mws_get mws_update (\<lambda>s. s) now1 i expected c1 s = (Ok w1, s1) \<and>
          w1 = (asked_row c1 w)\<lparr>wpk_lock_version := expected + 1, wpk_updated_at := now1\<rparr> \<and>
          mws_inv s1 \<and> mws_row s1 = (mws_row s)(i \<mapsto> w1) \<and>
          wps_update mws_get mws_update meanwhile now2 i expected c2 s1 =
            (Err (WpConflict expected (expected + 1)), s1)))"
proof (cases "mws_row s i")
  case None
  with memory_wps.update_missing [OF assms None] show ?thesis by simp
next
  case (Some w)
  show ?thesis
  proof (cases "patched now1 expected c1 w")
    case (Inl e)
    with memory_wps.update_refused [OF assms Some Inl] Some show ?thesis
      by (auto simp: patched_def apply_to_asked Let_def split: if_splits)
  next
    case (Inr w1)
    then have w: "wpk_lock_version w = expected" "trim (wpk_subject (asked_row c1 w)) \<noteq> []"
      "w1 = (asked_row c1 w)\<lparr>wpk_lock_version := expected + 1, wpk_updated_at := now1\<rparr>"
      by (auto simp: patched_def apply_to_asked Let_def split: if_splits)
    obtain s1 where s1: "wps_update mws_get mws_update (\<lambda>s. s) now1 i expected c1 s = (Ok w1, s1)"
      "mws_inv s1" "mws_row s1 = (mws_row s)(i \<mapsto> w1)"
      using memory_wps.update_done [where meanwhile = "\<lambda>s. s", OF assms assms Some Inr] Some by auto
    from memory_wps.second_update_conflicts [OF assms s1(1), of meanwhile now2 c2] s1 w Some show ?thesis by simp
  qed
qed

definition sample_store :: memory_wp_store where
  "sample_store = snd (wps_create mws_insert 0 (new_work_package_new ''Fix the thing'' 1 2 3 10) mws_new)"

lemma sample_store_value:
  "sample_store = \<lparr>mws_rows = [(to_work_package 0 (new_work_package_new ''Fix the thing'' 1 2 3 10))\<lparr>wpk_id := Some 1\<rparr>],
     mws_next_id = 2, mws_poisoned = False\<rparr>"
proof -
  have "trim ''Fix the thing'' \<noteq> []" by code_simp
  then show ?thesis
    by (simp add: sample_store_def wps_create_def mws_insert_def mws_new_def new_work_package_new_def Let_def)
qed

lemma sample_store_inv: "mws_inv sample_store"
  by (simp add: sample_store_value mws_inv_def)

theorem optimistic_lock_detects_stale_updates_witness:
  "\<exists>s1. wps_update mws_get mws_update (\<lambda>s. s) 1 1 0 update_work_package_default sample_store =
     (Ok ((to_work_package 0 (new_work_package_new ''Fix the thing'' 1 2 3 10))
         \<lparr>wpk_id := Some 1, wpk_lock_version := 1, wpk_updated_at := 1\<rparr>), s1) \<and>
   wps_update mws_get mws_update (\<lambda>s. s) 2 1 0 update_work_package_default s1 = (Err (WpConflict 0 1), s1)"
proof -
  have t: "trim ''Fix the thing'' \<noteq> []" by code_simp
  obtain s1 where step: "wps_update mws_get mws_update (\<lambda>s. s) 1 1 0 update_work_package_default sample_store =
     (Ok ((to_work_package 0 (new_work_package_new ''Fix the thing'' 1 2 3 10))
         \<lparr>wpk_id := Some 1, wpk_lock_version := 1, wpk_updated_at := 1\<rparr>), s1)"
    using t by (auto simp: sample_store_value wps_update_def wps_find_def mws_get_def patched_def apply_to_def
        set_some_def update_work_package_default_def to_work_package_def work_package_new_def
        new_work_package_new_def mws_update_def Let_def)
  from optimistic_lock_detects_stale_updates [OF sample_store_inv, of 1 1 0 update_work_package_default
      "\<lambda>s. s" 2 update_work_package_default] step t
  have "wps_update mws_get mws_update (\<lambda>s. s) 2 1 0 update_work_package_default s1 = (Err (WpConflict 0 1), s1)"
    by (simp add: mws_row_def sample_store_value asked_row_def update_work_package_default_def to_work_package_def
        work_package_new_def new_work_package_new_def Let_def)
  with step show ?thesis by blast
qed


text \<open>
  The lock does not hold between two requests at once.  When a second update of the same row
  runs between the read and the write of a first one, both expecting the current version, both
  succeed and report the same new version, no conflict is raised, and the row that remains is the
  first reader's alone: the changes of the update that wrote first are gone.
\<close>

theorem racing_updates_lose_a_write:
  assumes "mws_inv s" and "mws_row s i = Some w"
    and "patched now1 expected c1 w = Ok w1" and "patched now2 expected c2 w = Ok w2"
  shows "\<exists>s1 s2. wps_update mws_get mws_update (\<lambda>s. s) now1 i expected c1 s = (Ok w1, s1) \<and>
    wps_update mws_get mws_update (\<lambda>s. snd (wps_update mws_get mws_update (\<lambda>s. s) now1 i expected c1 s))
      now2 i expected c2 s = (Ok w2, s2) \<and>
    wpk_lock_version w1 = wpk_lock_version w2 \<and> mws_row s2 = (mws_row s)(i \<mapsto> w2) \<and>
    w2 = (apply_to c2 w)\<lparr>wpk_lock_version := expected + 1, wpk_updated_at := now2\<rparr>"
  using memory_wps.racing_updates [OF assms] patched_Ok [OF assms(3)] patched_Ok [OF assms(4)] by metis

theorem racing_updates_lose_a_write_witness:
  "\<exists>s1 s2 w1 w2.
     wps_update mws_get mws_update (\<lambda>s. s) 1 1 0 (update_work_package_default\<lparr>uwp_status_id := Some 7\<rparr>) sample_store = (Ok w1, s1) \<and>
     wps_update mws_get mws_update
       (\<lambda>s. snd (wps_update mws_get mws_update (\<lambda>s. s) 1 1 0 (update_work_package_default\<lparr>uwp_status_id := Some 7\<rparr>) s))
       2 1 0 (update_work_package_default\<lparr>uwp_type_id := Some 9\<rparr>) sample_store = (Ok w2, s2) \<and>
     wpk_status_id w1 = 7 \<and> wpk_status_id w2 = 3 \<and> wpk_lock_version w1 = wpk_lock_version w2 \<and>
     mws_row s2 1 = Some w2"
proof -
  let ?w = "(to_work_package 0 (new_work_package_new ''Fix the thing'' 1 2 3 10))\<lparr>wpk_id := Some 1\<rparr>"
  let ?c1 = "update_work_package_default\<lparr>uwp_status_id := Some 7\<rparr>"
  let ?c2 = "update_work_package_default\<lparr>uwp_type_id := Some 9\<rparr>"
  have t: "trim ''Fix the thing'' \<noteq> []" by code_simp
  have row: "mws_row sample_store 1 = Some ?w" by (simp add: mws_row_def sample_store_value)
  obtain w1 where w1: "patched 1 0 ?c1 ?w = Ok w1" "wpk_status_id w1 = 7"
    using t by (auto simp: patched_def apply_to_def set_some_def update_work_package_default_def
        to_work_package_def work_package_new_def new_work_package_new_def Let_def)
  obtain w2 where w2: "patched 2 0 ?c2 ?w = Ok w2" "wpk_status_id w2 = 3"
    using t by (auto simp: patched_def apply_to_def set_some_def update_work_package_default_def
        to_work_package_def work_package_new_def new_work_package_new_def Let_def)
  from racing_updates_lose_a_write [OF sample_store_inv row w1(1) w2(1)] w1(2) w2(2) show ?thesis
    by fastforce
qed

lemma mws_insert_inv:
  assumes inv: "mws_inv s" and room: "length (mws_rows s) < 2 ^ 64 - 2"
  shows "mws_insert w s = (Ok (of_nat (Suc (length (mws_rows s)))),
      s\<lparr>mws_next_id := of_nat (Suc (Suc (length (mws_rows s)))),
        mws_rows := mws_rows s @ [w\<lparr>wpk_id := Some (of_nat (Suc (length (mws_rows s))))\<rparr>]\<rparr>) \<and>
    mws_inv (snd (mws_insert w s))"
  using assms by (simp add: mws_insert_def mws_inv_def Let_def add.commute)


lemma mws_next_is_fresh:
  assumes inv: "mws_inv s"
  shows "mws_row s (of_nat (Suc (length (mws_rows s)))) = None"
proof -
  let ?n = "length (mws_rows s)"
  have "wpk_id w \<noteq> Some (of_nat (Suc ?n))" if "w \<in> set (mws_rows s)" for w
  proof -
    from that have "wpk_id w \<in> set (map wpk_id (mws_rows s))" by simp
    with inv obtain k where k: "k < ?n" "wpk_id w = Some (of_nat (Suc k))"
      unfolding mws_inv_def by auto
    have "?n < 2 ^ 64 - 1" using inv by (simp add: mws_inv_def)
    with k(1) have "(of_nat (Suc k) :: i64) \<noteq> of_nat (Suc ?n)"
      by (simp add: word_of_nat_eq_iff take_bit_eq_mod del: of_nat_Suc)
    with k(2) show ?thesis by simp
  qed
  then show ?thesis by (auto simp: mws_row_def find_None_iff)
qed

text \<open>
  Creating a work package: a blank subject is refused and nothing is stored; anything else gets
  an identity that no row has, is returned as it is stored, with the attributes asked for, no
  progress and version 0, is found under that identity afterwards, and leaves every other row alone.
\<close>

theorem create_assigns_fresh_id:
  assumes "mws_inv s" and "length (mws_rows s) < 2 ^ 64 - 2"
    and "wps_create mws_insert now input s = (r, s')"
  shows "mws_inv s' \<and>
    (if trim (nwp_subject input) = [] then r = Err (WpValidation ''subject can't be blank'') \<and> s' = s
     else (\<exists>i w. r = Ok w \<and> mws_row s i = None \<and> mws_row s' = (mws_row s)(i \<mapsto> w) \<and>
        wps_find mws_get i s' = Ok w \<and> w = (to_work_package now input)\<lparr>wpk_id := Some i\<rparr> \<and>
        wpk_subject w = nwp_subject input \<and> wpk_lock_version w = 0 \<and> wpk_done_ratio w = DoneRatio 0))"
proof (cases "trim (nwp_subject input) = []")
  case True
  with assms show ?thesis by (auto simp: wps_create_def)
next
  case False
  let ?i = "of_nat (Suc (length (mws_rows s))) :: i64"
  let ?w = "(to_work_package now input)\<lparr>wpk_id := Some ?i\<rparr>"
  note ins = mws_insert_inv [OF assms(1,2), of "to_work_package now input"]
  have r: "r = Ok ?w" "s' = snd (mws_insert (to_work_package now input) s)"
    using assms(3) False ins by (auto simp: wps_create_def Let_def)
  have inv: "mws_inv s'" unfolding r(2) by (rule conjunct2 [OF ins])
  have "mws_rows s' = mws_rows s @ [?w]" using ins r(2) by simp
  then have row: "mws_row s' = (mws_row s)(?i \<mapsto> ?w)"
    using mws_next_is_fresh [OF assms(1)] by (auto simp: mws_row_def find_append fun_eq_iff split: option.split)
  then have "wps_find mws_get ?i s' = Ok ?w"
    using memory_wps.get_row [OF inv] by (simp add: wps_find_def)
  moreover have "wpk_subject ?w = nwp_subject input \<and> wpk_lock_version ?w = 0 \<and> wpk_done_ratio ?w = DoneRatio 0"
    by (auto simp: to_work_package_def work_package_new_def Let_def split: option.split)
  ultimately show ?thesis using False r(1) inv row mws_next_is_fresh [OF assms(1)] by auto
qed

theorem create_assigns_fresh_id_witness:
  "\<exists>i w. fst (wps_create mws_insert 5 (new_work_package_new ''Other'' 1 2 3 10) sample_store) = Ok w \<and>
     mws_row sample_store i = None"
proof -
  have t: "trim ''Other'' \<noteq> []" by code_simp
  obtain r s' where run: "wps_create mws_insert 5 (new_work_package_new ''Other'' 1 2 3 10) sample_store = (r, s')"
    by fastforce
  have "length (mws_rows sample_store) < 2 ^ 64 - 2" by (simp add: sample_store_value)
  from create_assigns_fresh_id [OF sample_store_inv this run] t run show ?thesis
    by (auto simp: new_work_package_new_def)
qed

end
