(* ===== verification/Journals.thy ===== *)
theory Journals
  imports Prelude
begin

text \<open>
  The journals of op-journals (journal.rs, journal_data.rs, journal_service.rs): what is recorded of
  an entity at each change, the difference of two states, the in-memory store and the service.
  The JSON values of fields are a type parameter with its equality.
\<close>

subsection \<open>Journals\<close>

datatype journal_type =
  JtWorkPackage | JtProject | JtUser | JtWiki | JtMeeting | JtBudget | JtDocument | JtTimeEntry | JtNews | JtMessage

fun journal_type_as_str :: "journal_type \<Rightarrow> string" where
  "journal_type_as_str JtWorkPackage = ''WorkPackage''"
| "journal_type_as_str JtProject = ''Project''"
| "journal_type_as_str JtUser = ''User''"
| "journal_type_as_str JtWiki = ''WikiContent''"
| "journal_type_as_str JtMeeting = ''Meeting''"
| "journal_type_as_str JtBudget = ''Budget''"
| "journal_type_as_str JtDocument = ''Document''"
| "journal_type_as_str JtTimeEntry = ''TimeEntry''"
| "journal_type_as_str JtNews = ''News''"
| "journal_type_as_str JtMessage = ''Message''"

definition journal_type_from_str :: "string \<Rightarrow> journal_type option" where
  "journal_type_from_str s =
     (if s = ''WorkPackage'' then Some JtWorkPackage
      else if s = ''Project'' then Some JtProject
      else if s = ''User'' then Some JtUser
      else if s = ''WikiContent'' \<or> s = ''Wiki'' then Some JtWiki
      else if s = ''Meeting'' then Some JtMeeting
      else if s = ''Budget'' then Some JtBudget
      else if s = ''Document'' then Some JtDocument
      else if s = ''TimeEntry'' then Some JtTimeEntry
      else if s = ''News'' then Some JtNews
      else if s = ''Message'' then Some JtMessage
      else None)"

type_synonym journal_version = i32

definition version_initial :: journal_version where
  "version_initial = 1"

definition version_next :: "journal_version \<Rightarrow> journal_version" where
  "version_next v = v + 1"

datatype cause_type = CauseUserAction | CauseSystemChange | CauseWorkflow | CauseImport | CauseApi | CauseBulkUpdate

record journal_cause =
  jc_cause_type :: cause_type
  jc_context :: "string option"

definition journal_cause_default :: journal_cause where
  "journal_cause_default = \<lparr>jc_cause_type = CauseUserAction, jc_context = None\<rparr>"

record journal =
  jr_id :: "Id option"
  jr_journable_type :: journal_type
  jr_journable_id :: Id
  jr_version :: journal_version
  jr_user_id :: Id
  jr_notes :: "string option"
  jr_activity_id :: "Id option"
  jr_created_at :: timestamp
  jr_updated_at :: timestamp
  jr_data_id :: "Id option"
  jr_cause :: journal_cause

definition journal_new :: "timestamp \<Rightarrow> journal_type \<Rightarrow> Id \<Rightarrow> journal_version \<Rightarrow> Id \<Rightarrow> journal" where
  "journal_new now ty i version user_id =
     \<lparr>jr_id = None, jr_journable_type = ty, jr_journable_id = i, jr_version = version,
      jr_user_id = user_id, jr_notes = None, jr_activity_id = None, jr_created_at = now,
      jr_updated_at = now, jr_data_id = None, jr_cause = journal_cause_default\<rparr>"

definition journal_initial :: "timestamp \<Rightarrow> journal_type \<Rightarrow> Id \<Rightarrow> Id \<Rightarrow> journal" where
  "journal_initial now ty i user_id = journal_new now ty i version_initial user_id"

definition journal_with_notes :: "string \<Rightarrow> journal \<Rightarrow> journal" where
  "journal_with_notes notes j = j\<lparr>jr_notes := Some notes\<rparr>"

definition journal_with_cause :: "cause_type \<Rightarrow> string option \<Rightarrow> journal \<Rightarrow> journal" where
  "journal_with_cause c context j = j\<lparr>jr_cause := \<lparr>jc_cause_type = c, jc_context = context\<rparr>\<rparr>"

definition journal_is_initial :: "journal \<Rightarrow> bool" where
  "journal_is_initial j \<longleftrightarrow> jr_version j = 1"

definition journal_has_notes :: "journal \<Rightarrow> bool" where
  "journal_has_notes j \<longleftrightarrow> (case jr_notes j of None \<Rightarrow> False | Some n \<Rightarrow> trim n \<noteq> [])"

text \<open>The builder.\<close>

definition journal_builder_work_package :: "timestamp \<Rightarrow> Id \<Rightarrow> journal_version \<Rightarrow> Id \<Rightarrow> journal" where
  "journal_builder_work_package now i version user_id = journal_new now JtWorkPackage i version user_id"

definition journal_builder_project :: "timestamp \<Rightarrow> Id \<Rightarrow> journal_version \<Rightarrow> Id \<Rightarrow> journal" where
  "journal_builder_project now i version user_id = journal_new now JtProject i version user_id"

definition journal_builder_notes :: "string \<Rightarrow> journal \<Rightarrow> journal" where
  "journal_builder_notes notes j = j\<lparr>jr_notes := Some notes\<rparr>"

definition journal_builder_activity :: "Id \<Rightarrow> journal \<Rightarrow> journal" where
  "journal_builder_activity activity_id j = j\<lparr>jr_activity_id := Some activity_id\<rparr>"

definition journal_builder_cause :: "cause_type \<Rightarrow> journal \<Rightarrow> journal" where
  "journal_builder_cause c j = j\<lparr>jr_cause := (jr_cause j)\<lparr>jc_cause_type := c\<rparr>\<rparr>"

definition journal_builder_cause_context :: "string \<Rightarrow> journal \<Rightarrow> journal" where
  "journal_builder_cause_context context j = j\<lparr>jr_cause := (jr_cause j)\<lparr>jc_context := Some context\<rparr>\<rparr>"

subsection \<open>States and their differences\<close>

record 'v journal_data =
  jd_data_type :: string
  jd_fields :: "(string, 'v) hashmap"

definition journal_data_new :: "string \<Rightarrow> 'v journal_data" where
  "journal_data_new data_type = \<lparr>jd_data_type = data_type, jd_fields = []\<rparr>"

text \<open>\<open>v\<close> is the converted value, \<open>Null\<close> where the conversion fails.\<close>

definition journal_data_set :: "string \<Rightarrow> 'v \<Rightarrow> 'v journal_data \<Rightarrow> 'v journal_data" where
  "journal_data_set key v d = d\<lparr>jd_fields := hm_insert key v (jd_fields d)\<rparr>"

definition journal_data_get :: "string \<Rightarrow> 'v journal_data \<Rightarrow> 'v option" where
  "journal_data_get key d = hm_get (jd_fields d) key"

datatype change_type = ChChanged | ChAdded | ChRemoved

record 'v journal_details =
  det_property :: string
  det_change_type :: change_type
  det_old_value :: "'v option"
  det_new_value :: "'v option"

definition details_changed :: "string \<Rightarrow> 'v \<Rightarrow> 'v \<Rightarrow> 'v journal_details" where
  "details_changed property old_v new_v =
     \<lparr>det_property = property, det_change_type = ChChanged, det_old_value = Some old_v, det_new_value = Some new_v\<rparr>"

definition details_added :: "string \<Rightarrow> 'v \<Rightarrow> 'v journal_details" where
  "details_added property v =
     \<lparr>det_property = property, det_change_type = ChAdded, det_old_value = None, det_new_value = Some v\<rparr>"

definition details_removed :: "string \<Rightarrow> 'v \<Rightarrow> 'v journal_details" where
  "details_removed property v =
     \<lparr>det_property = property, det_change_type = ChRemoved, det_old_value = Some v, det_new_value = None\<rparr>"

text \<open>\<open>show_v\<close> prints a JSON value; the arrow is three bytes of UTF-8.\<close>

definition format_for_display :: "('v \<Rightarrow> string) \<Rightarrow> 'v journal_details \<Rightarrow> string" where
  "format_for_display show_v d =
     (let text_of = (\<lambda>v. case v of None \<Rightarrow> ''(empty)'' | Some v \<Rightarrow> show_v v)
      in case det_change_type d of
        ChChanged \<Rightarrow> det_property d @ '': '' @ text_of (det_old_value d) @
          '' '' @ [CHR 0xE2, CHR 0x86, CHR 0x92] @ '' '' @ text_of (det_new_value d)
      | ChAdded \<Rightarrow> det_property d @ '' set to '' @ text_of (det_new_value d)
      | ChRemoved \<Rightarrow> det_property d @ '' removed (was '' @ text_of (det_old_value d) @ '')'')"

type_synonym 'v journal_diff = "'v journal_details list"

definition diff_field :: "('v) journal_data \<Rightarrow> string \<times> 'v \<Rightarrow> 'v journal_diff" where
  "diff_field old kv =
     (case hm_get (jd_fields old) (fst kv) of
        Some old_v \<Rightarrow> if old_v \<noteq> snd kv then [details_changed (fst kv) old_v (snd kv)] else []
      | None \<Rightarrow> [details_added (fst kv) (snd kv)])"

definition journal_diff_compute :: "'v journal_data \<Rightarrow> 'v journal_data \<Rightarrow> 'v journal_diff" where
  "journal_diff_compute old new_d =
     concat (map (diff_field old) (jd_fields new_d)) @
     map (\<lambda>kv. details_removed (fst kv) (snd kv))
       (filter (\<lambda>kv. hm_get (jd_fields new_d) (fst kv) = None) (jd_fields old))"

subsection \<open>The service\<close>

datatype journal_error =
  JeNotFound Id | JeVersionConflict i32 i32 | JeDatabase string | JeInvalidData string

record 'v journal_event =
  ev_journal :: journal
  ev_data :: "'v journal_data"
  ev_diff :: "'v journal_diff option"
  ev_timestamp :: timestamp

text \<open>
  The operations give their result, the store and the event the handlers are called with, if any.
  The journal is made at \<open>now1\<close>, the event at \<open>now2\<close>.
\<close>

definition record_creation ::
    "(journal \<Rightarrow> 'v journal_data \<Rightarrow> 's \<Rightarrow> (Id, journal_error) result \<times> 's) \<Rightarrow> timestamp \<Rightarrow> timestamp \<Rightarrow>
     journal_type \<Rightarrow> Id \<Rightarrow> Id \<Rightarrow> 'v journal_data \<Rightarrow> string option \<Rightarrow> 's \<Rightarrow>
     (journal, journal_error) result \<times> 's \<times> 'v journal_event option" where
  "record_creation create now1 now2 ty i user_id d notes s =
     (let j = journal_initial now1 ty i user_id;
          j = (case notes of Some n \<Rightarrow> journal_with_notes n j | None \<Rightarrow> j)
      in (case create j d s of
            (Err e, s) \<Rightarrow> (Err e, s, None)
          | (Ok new_id, s) \<Rightarrow> (let j = j\<lparr>jr_id := Some new_id\<rparr>
              in (Ok j, s, Some \<lparr>ev_journal = j, ev_data = d, ev_diff = None, ev_timestamp = now2\<rparr>))))"

text \<open>\<open>meanwhile\<close> is what other requests do to the store after the latest journal has been read.\<close>

definition record_update ::
    "(journal_type \<Rightarrow> Id \<Rightarrow> 's \<Rightarrow> ((journal \<times> 'v journal_data) option, journal_error) result) \<Rightarrow>
     (journal \<Rightarrow> 'v journal_data \<Rightarrow> 's \<Rightarrow> (Id, journal_error) result \<times> 's) \<Rightarrow> ('s \<Rightarrow> 's) \<Rightarrow>
     timestamp \<Rightarrow> timestamp \<Rightarrow> journal_type \<Rightarrow> Id \<Rightarrow> Id \<Rightarrow> 'v journal_data \<Rightarrow> string option \<Rightarrow> cause_type \<Rightarrow> 's \<Rightarrow>
     (journal option, journal_error) result \<times> 's \<times> 'v journal_event option" where
  "record_update get_latest create meanwhile now1 now2 ty i user_id d notes c s =
     (case get_latest ty i s of
        Err e \<Rightarrow> (Err e, s, None)
      | Ok None \<Rightarrow>
          (case record_creation create now1 now2 ty i user_id d notes (meanwhile s) of
             (Err e, s, ev) \<Rightarrow> (Err e, s, ev)
           | (Ok j, s, ev) \<Rightarrow> (Ok (Some j), s, ev))
      | Ok (Some (prev, prev_d)) \<Rightarrow>
          (let diff = journal_diff_compute prev_d d
           in if diff = [] \<and> notes = None then (Ok None, s, None)
              else (let j = journal_with_cause c None
                          (journal_new now1 ty i (version_next (jr_version prev)) user_id);
                        j = (case notes of Some n \<Rightarrow> journal_with_notes n j | None \<Rightarrow> j)
                in (case create j d (meanwhile s) of
                      (Err e, s) \<Rightarrow> (Err e, s, None)
                    | (Ok new_id, s) \<Rightarrow> (let j = j\<lparr>jr_id := Some new_id\<rparr>
                        in (Ok (Some j), s,
                            Some \<lparr>ev_journal = j, ev_data = d, ev_diff = Some diff, ev_timestamp = now2\<rparr>))))))"

definition find_version :: "journal_version \<Rightarrow> journal list \<Rightarrow> (journal, journal_error) result" where
  "find_version v js =
     (case List.find (\<lambda>j. jr_version j = v) js of
        Some j \<Rightarrow> Ok j | None \<Rightarrow> Err (JeNotFound (scast v)))"

definition data_of ::
    "(Id \<Rightarrow> ('v journal_data option, journal_error) result) \<Rightarrow> journal \<Rightarrow> ('v journal_data, journal_error) result" where
  "data_of get_data j =
     (case (case jr_data_id j of Some i \<Rightarrow> get_data i | None \<Rightarrow> Ok None) of
        Err e \<Rightarrow> Err e
      | Ok (Some d) \<Rightarrow> Ok d
      | Ok None \<Rightarrow> Err (JeInvalidData ''Missing journal data''))"

definition get_diff ::
    "(journal list, journal_error) result \<Rightarrow> (Id \<Rightarrow> ('v journal_data option, journal_error) result) \<Rightarrow>
     journal_version \<Rightarrow> journal_version \<Rightarrow> ('v journal_diff, journal_error) result" where
  "get_diff journals get_data from_version to_version =
     (case journals of Err e \<Rightarrow> Err e | Ok js \<Rightarrow>
      (case find_version from_version js of Err e \<Rightarrow> Err e | Ok from_j \<Rightarrow>
       (case find_version to_version js of Err e \<Rightarrow> Err e | Ok to_j \<Rightarrow>
        (case data_of get_data from_j of Err e \<Rightarrow> Err e | Ok from_d \<Rightarrow>
         (case data_of get_data to_j of Err e \<Rightarrow> Err e | Ok to_d \<Rightarrow>
           Ok (journal_diff_compute from_d to_d))))))"

subsection \<open>The in-memory store\<close>

record 'v memory_journal_store =
  mjs_journals :: "(journal \<times> 'v journal_data) list"
  mjs_next_id :: i64
  mjs_poisoned :: bool

definition mjs_new :: "'v memory_journal_store" where
  "mjs_new = \<lparr>mjs_journals = [], mjs_next_id = 1, mjs_poisoned = False\<rparr>"

definition journal_poison :: journal_error where
  "journal_poison = JeDatabase ''poisoned lock: another task failed inside''"

definition journal_of :: "journal_type \<Rightarrow> Id \<Rightarrow> journal \<times> 'v journal_data \<Rightarrow> bool" where
  "journal_of ty i p \<longleftrightarrow> jr_journable_type (fst p) = ty \<and> jr_journable_id (fst p) = i"

definition mjs_create ::
    "journal \<Rightarrow> 'v journal_data \<Rightarrow> 'v memory_journal_store \<Rightarrow> (Id, journal_error) result \<times> 'v memory_journal_store" where
  "mjs_create j d s =
     (let i = mjs_next_id s;
          s = s\<lparr>mjs_next_id := i + 1\<rparr>;
          j = j\<lparr>jr_id := Some i, jr_data_id := Some i\<rparr>
      in if mjs_poisoned s then (Err journal_poison, s)
         else (Ok i, s\<lparr>mjs_journals := mjs_journals s @ [(j, d)]\<rparr>))"

definition mjs_get ::
    "Id \<Rightarrow> 'v memory_journal_store \<Rightarrow> ((journal \<times> 'v journal_data) option, journal_error) result" where
  "mjs_get i s =
     (if mjs_poisoned s then Err journal_poison
      else Ok (List.find (\<lambda>p. jr_id (fst p) = Some i) (mjs_journals s)))"

definition mjs_get_for_entity ::
    "journal_type \<Rightarrow> Id \<Rightarrow> 'v memory_journal_store \<Rightarrow> (journal list, journal_error) result" where
  "mjs_get_for_entity ty i s =
     (if mjs_poisoned s then Err journal_poison
      else Ok (map fst (filter (journal_of ty i) (mjs_journals s))))"

definition mjs_get_latest ::
    "journal_type \<Rightarrow> Id \<Rightarrow> 'v memory_journal_store \<Rightarrow>
     ((journal \<times> 'v journal_data) option, journal_error) result" where
  "mjs_get_latest ty i s =
     (if mjs_poisoned s then Err journal_poison
      else Ok (max_by_key (\<lambda>p. sint (jr_version (fst p))) (filter (journal_of ty i) (mjs_journals s))))"

definition mjs_get_current_version ::
    "journal_type \<Rightarrow> Id \<Rightarrow> 'v memory_journal_store \<Rightarrow> (journal_version, journal_error) result" where
  "mjs_get_current_version ty i s =
     (if mjs_poisoned s then Err journal_poison
      else Ok (case max_by_key sint (map (\<lambda>p. jr_version (fst p)) (filter (journal_of ty i) (mjs_journals s))) of
                 Some v \<Rightarrow> v | None \<Rightarrow> 0))"

definition mjs_get_data ::
    "Id \<Rightarrow> 'v memory_journal_store \<Rightarrow> ('v journal_data option, journal_error) result" where
  "mjs_get_data data_id s =
     (if mjs_poisoned s then Err journal_poison
      else Ok (map_option snd (List.find (\<lambda>p. jr_data_id (fst p) = Some data_id) (mjs_journals s))))"

definition mjs_delete_for_entity ::
    "journal_type \<Rightarrow> Id \<Rightarrow> 'v memory_journal_store \<Rightarrow> (nat, journal_error) result \<times> 'v memory_journal_store" where
  "mjs_delete_for_entity ty i s =
     (if mjs_poisoned s then (Err journal_poison, s)
      else (let kept = filter (\<lambda>p. \<not> journal_of ty i p) (mjs_journals s)
        in (Ok (length (mjs_journals s) - length kept), s\<lparr>mjs_journals := kept\<rparr>)))"

subsection \<open>Names of journal types\<close>

text \<open>
  The database names of the journal types are read back, and the only other name that is read is
  \<open>Wiki\<close>.
\<close>

theorem journal_type_roundtrip:
  "journal_type_from_str s = Some t \<longleftrightarrow> s = journal_type_as_str t \<or> s = ''Wiki'' \<and> t = JtWiki"
  by (cases t) (auto simp: journal_type_from_str_def)

subsection \<open>Differences\<close>

definition data_ok :: "'v journal_data \<Rightarrow> bool" where
  "data_ok d \<longleftrightarrow> hm_ok (jd_fields d)"

text \<open>What one change does to a state (specification).\<close>

definition apply_change :: "'v journal_details \<Rightarrow> (string \<Rightarrow> 'v option) \<Rightarrow> (string \<Rightarrow> 'v option)" where
  "apply_change d m = m(det_property d := det_new_value d)"

definition change_ok :: "(string \<Rightarrow> 'v option) \<Rightarrow> (string \<Rightarrow> 'v option) \<Rightarrow> 'v journal_details \<Rightarrow> bool" where
  "change_ok old new_m d \<longleftrightarrow>
     det_old_value d = old (det_property d) \<and> det_new_value d = new_m (det_property d) \<and>
     old (det_property d) \<noteq> new_m (det_property d) \<and>
     det_change_type d = (if old (det_property d) = None then ChAdded
       else if new_m (det_property d) = None then ChRemoved else ChChanged)"

lemmas details_defs = details_changed_def details_added_def details_removed_def

lemma diff_changes_ok:
  assumes "data_ok old" and "data_ok new_d" and "d \<in> set (journal_diff_compute old new_d)"
  shows "change_ok (hm_get (jd_fields old)) (hm_get (jd_fields new_d)) d"
  using assms
  by (auto simp: journal_diff_compute_def diff_field_def change_ok_def details_defs data_ok_def
      hm_get_in_set [symmetric] split: option.splits if_splits)

lemma diff_properties:
  assumes "data_ok old" and "data_ok new_d"
  shows "det_property ` set (journal_diff_compute old new_d) =
    {k. hm_get (jd_fields old) k \<noteq> hm_get (jd_fields new_d) k}"
proof (intro equalityI subsetI)
  fix k assume "k \<in> det_property ` set (journal_diff_compute old new_d)"
  with diff_changes_ok [OF assms] show "k \<in> {k. hm_get (jd_fields old) k \<noteq> hm_get (jd_fields new_d) k}"
    by (auto simp: change_ok_def)
next
  fix k assume "k \<in> {k. hm_get (jd_fields old) k \<noteq> hm_get (jd_fields new_d) k}"
  then have neq: "hm_get (jd_fields old) k \<noteq> hm_get (jd_fields new_d) k" by simp
  show "k \<in> det_property ` set (journal_diff_compute old new_d)"
  proof (cases "hm_get (jd_fields new_d) k")
    case None
    with neq obtain v where "hm_get (jd_fields old) k = Some v" by auto
    with assms(1) have "(k, v) \<in> set (jd_fields old)" by (simp add: data_ok_def hm_get_in_set)
    with None have "details_removed k v \<in> set (journal_diff_compute old new_d)"
      by (force simp: journal_diff_compute_def)
    then show ?thesis by (force simp: details_removed_def image_iff)
  next
    case (Some v)
    with assms(2) have kv: "(k, v) \<in> set (jd_fields new_d)" by (simp add: data_ok_def hm_get_in_set)
    have "\<exists>d. diff_field old (k, v) = [d] \<and> det_property d = k"
      using neq Some by (cases "hm_get (jd_fields old) k") (auto simp: diff_field_def details_defs)
    then obtain d where "diff_field old (k, v) = [d]" "det_property d = k" by blast
    with kv have "d \<in> set (journal_diff_compute old new_d)" "det_property d = k"
      by (auto simp: journal_diff_compute_def intro!: bexI [of _ "(k, v)"])
    then show ?thesis by force
  qed
qed

lemma fold_apply_change:
  assumes "\<forall>d \<in> set ds. det_new_value d = g (det_property d)"
  shows "fold apply_change ds m k = (if k \<in> det_property ` set ds then g k else m k)"
  using assms by (induction ds arbitrary: m) (auto simp: apply_change_def)

lemma diff_empty_iff:
  assumes "data_ok old" and "data_ok new_d"
  shows "journal_diff_compute old new_d = [] \<longleftrightarrow> hm_get (jd_fields old) = hm_get (jd_fields new_d)"
  using diff_properties [OF assms] by (auto simp: fun_eq_iff)

lemma distinct_concat_keys:
  assumes "\<And>kv. map key (f kv) \<in> {[], [fst kv]}" and "distinct (map fst m)"
  shows "distinct (map key (concat (map f m)))"
  using assms(2)
proof (induction m)
  case (Cons kv m)
  have "set (map key (concat (map f m))) \<subseteq> set (map fst m)"
  proof -
    have sub: "set (map key (f p)) \<subseteq> {fst p}" for p using assms(1) [of p] by auto
    show ?thesis
    proof
      fix k assume "k \<in> set (map key (concat (map f m)))"
      then obtain p where "p \<in> set m" "k \<in> set (map key (f p))" by auto
      with sub [of p] show "k \<in> set (map fst m)" by auto
    qed
  qed
  moreover have "distinct (map key (f kv))" "set (map key (f kv)) \<subseteq> {fst kv}"
    using assms(1) [of kv] by auto
  moreover have "fst kv \<notin> set (map fst m)" using Cons.prems by simp
  ultimately have "set (map key (f kv)) \<inter> set (map key (concat (map f m))) = {}" by blast
  with Cons \<open>distinct (map key (f kv))\<close> show ?case
    by (simp only: list.map concat.simps map_append distinct_append distinct.simps simp_thms)
qed simp

lemma diff_distinct:
  assumes "data_ok old" and "data_ok new_d"
  shows "distinct (map det_property (journal_diff_compute old new_d))"
proof -
  let ?new = "concat (map (diff_field old) (jd_fields new_d))"
  let ?rem = "filter (\<lambda>kv. hm_get (jd_fields new_d) (fst kv) = None) (jd_fields old)"
  have 1: "distinct (map det_property ?new)"
    using assms(2)
    by (intro distinct_concat_keys) (auto simp: data_ok_def hm_ok_def diff_field_def details_defs split: option.split)
  have 2: "distinct (map fst ?rem)"
    using assms(1) by (simp add: data_ok_def hm_ok_def distinct_map_filter)
  have 3: "map det_property (map (\<lambda>kv. details_removed (fst kv) (snd kv)) ?rem) = map fst ?rem"
    by (simp add: details_removed_def)
  have 4: "set (map det_property ?new) \<subseteq> fst ` set (jd_fields new_d)"
  proof
    fix k assume "k \<in> set (map det_property ?new)"
    then obtain p d where p: "p \<in> set (jd_fields new_d)" "d \<in> set (diff_field old p)" "k = det_property d"
      by auto
    then have "k = fst p" by (auto simp: diff_field_def details_defs split: option.splits if_splits)
    with p(1) show "k \<in> fst ` set (jd_fields new_d)" by simp
  qed
  have 5: "set (map fst ?rem) \<inter> fst ` set (jd_fields new_d) = {}"
    by (auto simp: map_of_eq_None_iff)
  from 4 5 have "set (map det_property ?new) \<inter> set (map fst ?rem) = {}" by blast
  with 1 2 show ?thesis unfolding journal_diff_compute_def map_append 3 distinct_append by blast
qed

text \<open>
  C36. The difference of two states is exact: it has one entry for each field whose value differs, and
  none for any other; an entry holds the old and the new value and is of the right kind; applying
  the entries to the old state in their order gives the new one; and it is empty exactly when the
  fields are the same (the type of the data is not compared).
\<close>

theorem journal_diff_exact:
  assumes "data_ok old" and "data_ok new_d"
  shows "distinct (map det_property (journal_diff_compute old new_d)) \<and>
    det_property ` set (journal_diff_compute old new_d) =
      {k. hm_get (jd_fields old) k \<noteq> hm_get (jd_fields new_d) k} \<and>
    list_all (change_ok (hm_get (jd_fields old)) (hm_get (jd_fields new_d))) (journal_diff_compute old new_d) \<and>
    fold apply_change (journal_diff_compute old new_d) (hm_get (jd_fields old)) = hm_get (jd_fields new_d) \<and>
    (journal_diff_compute old new_d = [] \<longleftrightarrow> hm_get (jd_fields old) = hm_get (jd_fields new_d))"
proof -
  have ok: "list_all (change_ok (hm_get (jd_fields old)) (hm_get (jd_fields new_d))) (journal_diff_compute old new_d)"
    using diff_changes_ok [OF assms] by (simp add: list_all_iff)
  then have "\<forall>d \<in> set (journal_diff_compute old new_d). det_new_value d = hm_get (jd_fields new_d) (det_property d)"
    by (simp add: list_all_iff change_ok_def)
  from fold_apply_change [OF this]
  have "fold apply_change (journal_diff_compute old new_d) (hm_get (jd_fields old)) = hm_get (jd_fields new_d)"
    unfolding diff_properties [OF assms] by (auto simp: fun_eq_iff)
  with ok diff_distinct [OF assms] diff_properties [OF assms] diff_empty_iff [OF assms] show ?thesis by blast
qed

theorem journal_diff_exact_witness:
  "fold apply_change
     (journal_diff_compute \<lparr>jd_data_type = ''W'', jd_fields = [(''a'', 1 :: nat), (''b'', 2)]\<rparr>
        \<lparr>jd_data_type = ''W'', jd_fields = [(''b'', 3), (''c'', 4)]\<rparr>)
     (hm_get [(''a'', 1), (''b'', 2)]) = hm_get [(''b'', 3), (''c'', 4)]"
  using journal_diff_exact [of "\<lparr>jd_data_type = ''W'', jd_fields = [(''a'', 1 :: nat), (''b'', 2)]\<rparr>"
      "\<lparr>jd_data_type = ''W'', jd_fields = [(''b'', 3), (''c'', 4)]\<rparr>"]
  by (simp add: data_ok_def hm_ok_def)

subsection \<open>Histories\<close>

text \<open>
  What the service relies on: \<open>history\<close> lists the journals of an entity in the order of their
  creation; creating one appends it to the history of its entity and to no other.
\<close>

locale journal_store =
  fixes inv :: "'s \<Rightarrow> bool"
    and history :: "'s \<Rightarrow> journal_type \<Rightarrow> Id \<Rightarrow> (journal \<times> 'v journal_data) list"
    and get_latest :: "journal_type \<Rightarrow> Id \<Rightarrow> 's \<Rightarrow> ((journal \<times> 'v journal_data) option, journal_error) result"
    and create :: "journal \<Rightarrow> 'v journal_data \<Rightarrow> 's \<Rightarrow> (Id, journal_error) result \<times> 's"
  assumes latest: "inv s \<Longrightarrow>
      get_latest ty i s = Ok (max_by_key (\<lambda>p. sint (jr_version (fst p))) (history s ty i))"
    and create_history: "inv s \<Longrightarrow> create j d s = (r, s') \<Longrightarrow> \<exists>new_id. r = Ok new_id \<and> inv s' \<and>
      (\<forall>ty i. history s' ty i = history s ty i @
        (if jr_journable_type j = ty \<and> jr_journable_id j = i
         then [(j\<lparr>jr_id := Some new_id, jr_data_id := Some new_id\<rparr>, d)] else []))"

definition numbered :: "(journal \<times> 'v journal_data) list \<Rightarrow> bool" where
  "numbered h \<longleftrightarrow> map (\<lambda>p. jr_version (fst p)) h = map (\<lambda>k. of_nat (Suc k)) [0..<length h]"

lemma numbered_nth: "numbered h \<Longrightarrow> k < length h \<Longrightarrow> jr_version (fst (h ! k)) = of_nat (Suc k)"
  unfolding numbered_def by (metis (no_types, lifting) add_0 diff_zero length_upt nth_map nth_upt)

lemma numbered_snoc: "numbered h \<Longrightarrow> jr_version j = of_nat (Suc (length h)) \<Longrightarrow> numbered (h @ [(j, d)])"
  by (simp add: numbered_def)

lemma sint_of_nat_i32: "n < 2 ^ 31 \<Longrightarrow> sint (of_nat n :: i32) = int n"
proof -
  assume "n < 2 ^ 31"
  then have "sint (word_of_int (int n) :: i32) = int n"
    by (simp add: sint_sbintrunc' signed_take_bit_int_eq_self del: of_int_of_nat_eq)
  then show ?thesis by simp
qed

lemma numbered_latest:
  assumes "numbered h" and "h \<noteq> []" and "length h < 2 ^ 31"
  shows "max_by_key (\<lambda>p. sint (jr_version (fst p))) h = Some (last h) \<and>
    jr_version (fst (last h)) = of_nat (length h)"
proof -
  let ?f = "\<lambda>p. sint (jr_version (fst p))"
  have v: "?f (h ! k) = int (Suc k)" if "k < length h" for k
    using numbered_nth [OF assms(1) that] sint_of_nat_i32 [of "Suc k"] that assms(3) by simp
  obtain n where n: "length h = Suc n" using assms(2) by (cases h) auto
  have l: "last h = h ! n" using last_conv_nth [OF assms(2)] n by simp
  have last_version: "?f (last h) = int (length h)" using v [of n] n unfolding l by simp
  have "\<forall>y \<in> set (butlast h). ?f y \<le> ?f (last h)"
  proof
    fix y assume "y \<in> set (butlast h)"
    then have "y \<in> set h" by (rule in_set_butlastD)
    then obtain k where "k < length h" "y = h ! k" by (auto simp: in_set_conv_nth)
    then have "?f y = int (Suc k)" "Suc k \<le> length h" using v [of k] by simp_all
    then show "?f y \<le> ?f (last h)" unfolding last_version by simp
  qed
  from max_by_key_last [OF this] assms(2) have "max_by_key ?f h = Some (last h)" by simp
  moreover have "jr_version (fst (last h)) = of_nat (length h)"
    using numbered_nth [OF assms(1), of n] n unfolding l by (simp only: lessI)
  ultimately show ?thesis by blast
qed

context journal_store
begin

lemma record_update_appends:
  assumes inv: "inv s" and num: "numbered (history s ty i)" and short: "length (history s ty i) < 2 ^ 31"
    and run: "record_update get_latest create (\<lambda>s. s) now1 now2 ty i u d notes c s = (r, s', ev)"
  shows "inv s' \<and>
    (if history s ty i \<noteq> [] \<and> journal_diff_compute (snd (last (history s ty i))) d = [] \<and> notes = None
     then r = Ok None \<and> s' = s \<and> ev = None
     else (\<exists>j. r = Ok (Some (j\<lparr>jr_data_id := None\<rparr>)) \<and> jr_version j = of_nat (Suc (length (history s ty i))) \<and>
        jr_user_id j = u \<and> jr_notes j = notes \<and> ev \<noteq> None \<and>
        (\<forall>ty' i'. history s' ty' i' = history s ty' i' @ (if ty' = ty \<and> i' = i then [(j, d)] else []))))"
proof (cases "history s ty i = []")
  case True
  define j where "j = (case notes of Some n \<Rightarrow> journal_with_notes n (journal_initial now1 ty i u)
    | None \<Rightarrow> journal_initial now1 ty i u)"
  have j: "jr_journable_type j = ty" "jr_journable_id j = i" "jr_version j = 1" "jr_user_id j = u"
    "jr_notes j = notes" "jr_data_id j = None"
    by (auto simp: j_def journal_initial_def journal_new_def journal_with_notes_def version_initial_def split: option.split)
  obtain r1 s1 where cr: "create j d s = (r1, s1)" by fastforce
  from create_history [OF inv cr] obtain new_id where new_id: "r1 = Ok new_id" "inv s1"
    "\<forall>ty' i'. history s1 ty' i' = history s ty' i' @
        (if jr_journable_type j = ty' \<and> jr_journable_id j = i'
         then [(j\<lparr>jr_id := Some new_id, jr_data_id := Some new_id\<rparr>, d)] else [])" by blast
  have "r = Ok (Some (j\<lparr>jr_id := Some new_id\<rparr>))" "s' = s1" "ev \<noteq> None"
    using run latest [OF inv, of ty i] True cr new_id(1)
    by (auto simp: record_update_def record_creation_def j_def Let_def)
  with True new_id j show ?thesis
    by (intro conjI) (auto intro!: exI [of _ "j\<lparr>jr_id := Some new_id, jr_data_id := Some new_id\<rparr>"])
next
  case False
  let ?p = "last (history s ty i)"
  let ?diff = "journal_diff_compute (snd ?p) d"
  from numbered_latest [OF num False short] have
    max: "max_by_key (\<lambda>p. sint (jr_version (fst p))) (history s ty i) = Some ?p"
    and v: "jr_version (fst ?p) = of_nat (length (history s ty i))" by blast+
  obtain prev prev_d where p: "last (history s ty i) = (prev, prev_d)" by fastforce
  have lat: "get_latest ty i s = Ok (Some (prev, prev_d))" using latest [OF inv, of ty i] max p by simp
  show ?thesis
  proof (cases "?diff = [] \<and> notes = None")
    case True
    with lat run inv False p show ?thesis by (simp add: record_update_def)
  next
    case changed: False
    define j where "j = (case notes of
        Some n \<Rightarrow> journal_with_notes n (journal_with_cause c None
          (journal_new now1 ty i (version_next (jr_version prev)) u))
      | None \<Rightarrow> journal_with_cause c None (journal_new now1 ty i (version_next (jr_version prev)) u))"
    have j: "jr_journable_type j = ty" "jr_journable_id j = i" "jr_user_id j = u" "jr_notes j = notes"
      "jr_data_id j = None" "jr_version j = of_nat (Suc (length (history s ty i)))"
      using v p by (auto simp: j_def journal_new_def journal_with_notes_def journal_with_cause_def
          version_next_def add.commute split: option.split)
    obtain r1 s1 where cr: "create j d s = (r1, s1)" by fastforce
    from create_history [OF inv cr] obtain new_id where new_id: "r1 = Ok new_id" "inv s1"
      "\<forall>ty' i'. history s1 ty' i' = history s ty' i' @
          (if jr_journable_type j = ty' \<and> jr_journable_id j = i'
           then [(j\<lparr>jr_id := Some new_id, jr_data_id := Some new_id\<rparr>, d)] else [])" by blast
    have "r = Ok (Some (j\<lparr>jr_id := Some new_id\<rparr>))" "s' = s1" "ev \<noteq> None"
      using run lat changed p cr [unfolded j_def] new_id(1)
      by (auto simp: record_update_def j_def Let_def split: if_splits)
    with changed new_id j show ?thesis
      by (intro conjI) (auto intro!: exI [of _ "j\<lparr>jr_id := Some new_id, jr_data_id := Some new_id\<rparr>"])
  qed
qed

end


definition mjs_inv :: "'v memory_journal_store \<Rightarrow> bool" where
  "mjs_inv s \<longleftrightarrow> \<not> mjs_poisoned s"

definition mjs_history :: "'v memory_journal_store \<Rightarrow> journal_type \<Rightarrow> Id \<Rightarrow> (journal \<times> 'v journal_data) list" where
  "mjs_history s ty i = filter (journal_of ty i) (mjs_journals s)"

interpretation memory_journals: journal_store mjs_inv mjs_history mjs_get_latest mjs_create
  by unfold_locales
    (auto simp: mjs_inv_def mjs_history_def mjs_get_latest_def mjs_create_def journal_of_def Let_def)

text \<open>One request to record a change, and a sequence of them.\<close>

record 'v change_request =
  cr_type :: journal_type
  cr_entity :: Id
  cr_user :: Id
  cr_data :: "'v journal_data"
  cr_notes :: "string option"
  cr_cause :: cause_type
  cr_time :: timestamp

definition record_request :: "'v change_request \<Rightarrow> 'v memory_journal_store \<Rightarrow> 'v memory_journal_store" where
  "record_request q s =
     fst (snd (record_update mjs_get_latest mjs_create (\<lambda>s. s) (cr_time q) (cr_time q) (cr_type q) (cr_entity q)
       (cr_user q) (cr_data q) (cr_notes q) (cr_cause q) s))"

definition concerns :: "journal_type \<Rightarrow> Id \<Rightarrow> 'v change_request \<Rightarrow> bool" where
  "concerns ty i q \<longleftrightarrow> cr_type q = ty \<and> cr_entity q = i"

definition faithful_history ::
    "'v change_request list \<Rightarrow> (journal \<times> 'v journal_data) list \<Rightarrow> bool" where
  "faithful_history qs h \<longleftrightarrow> numbered h \<and> length h \<le> length qs \<and> list_all (\<lambda>p. data_ok (snd p)) h \<and>
     (h = [] \<longleftrightarrow> qs = []) \<and>
     (qs \<noteq> [] \<longrightarrow> hm_get (jd_fields (snd (last h))) = hm_get (jd_fields (cr_data (last qs))))"

lemma faithful_snoc:
  assumes "faithful_history qs h" and "data_ok (cr_data q)"
    and "jr_version j = of_nat (Suc (length h))"
  shows "faithful_history (qs @ [q]) (h @ [(j, cr_data q)])"
  using assms by (simp add: faithful_history_def numbered_snoc)

lemma faithful_unchanged:
  assumes "faithful_history qs h" and "data_ok (cr_data q)" and "h \<noteq> []"
    and "journal_diff_compute (snd (last h)) (cr_data q) = []"
  shows "faithful_history (qs @ [q]) h"
proof -
  have "data_ok (snd (last h))" using assms(1,3) by (simp add: faithful_history_def list_all_iff)
  from diff_empty_iff [OF this assms(2)] assms show ?thesis by (simp add: faithful_history_def)
qed

lemma record_request_history:
  assumes inv: "mjs_inv s" and faithful: "\<And>ty i. faithful_history (filter (concerns ty i) qs) (mjs_history s ty i)"
    and ok: "data_ok (cr_data q)" and short: "length qs < 2 ^ 31"
  shows "mjs_inv (record_request q s) \<and>
    faithful_history (filter (concerns ty i) (qs @ [q])) (mjs_history (record_request q s) ty i)"
proof -
  let ?h = "mjs_history s (cr_type q) (cr_entity q)"
  obtain r s' ev where run: "record_update mjs_get_latest mjs_create (\<lambda>s. s) (cr_time q) (cr_time q) (cr_type q)
      (cr_entity q) (cr_user q) (cr_data q) (cr_notes q) (cr_cause q) s = (r, s', ev)"
    using prod_cases3 by blast
  have f: "faithful_history (filter (concerns (cr_type q) (cr_entity q)) qs) ?h" by (rule faithful)
  then have "numbered ?h" "length ?h \<le> length (filter (concerns (cr_type q) (cr_entity q)) qs)"
    by (simp_all add: faithful_history_def)
  moreover have "length (filter (concerns (cr_type q) (cr_entity q)) qs) \<le> length qs"
    by (rule length_filter_le)
  ultimately have "numbered ?h" "length ?h < 2 ^ 31" using short by linarith+
  note step = memory_journals.record_update_appends [OF inv this run]
  have s': "record_request q s = s'" using run by (simp add: record_request_def)
  have other: "filter (concerns ty i) (qs @ [q]) = filter (concerns ty i) qs"
    if "\<not> (ty = cr_type q \<and> i = cr_entity q)"
    using that by (auto simp: concerns_def)
  have mine: "filter (concerns ty i) (qs @ [q]) = filter (concerns (cr_type q) (cr_entity q)) qs @ [q]"
    if "ty = cr_type q \<and> i = cr_entity q"
    using that by (auto simp: concerns_def)
  show ?thesis
  proof (cases "?h \<noteq> [] \<and> journal_diff_compute (snd (last ?h)) (cr_data q) = [] \<and> cr_notes q = None")
    case True
    with step have "s' = s" by simp
    moreover from this inv have "mjs_inv s'" by simp
    moreover from True faithful_unchanged [OF f ok] have
      "faithful_history (filter (concerns (cr_type q) (cr_entity q)) qs @ [q]) ?h" by blast
    ultimately show ?thesis
      using s' mine other faithful [of ty i] by (cases "ty = cr_type q \<and> i = cr_entity q") simp_all
  next
    case False
    with step obtain j where j: "jr_version j = of_nat (Suc (length ?h))"
      "\<forall>ty' i'. mjs_history s' ty' i' = mjs_history s ty' i' @
         (if ty' = cr_type q \<and> i' = cr_entity q then [(j, cr_data q)] else [])" "mjs_inv s'"
      by auto
    from faithful_snoc [OF f ok j(1)] j(2,3) show ?thesis
      using s' mine other faithful [of ty i] by (cases "ty = cr_type q \<and> i = cr_entity q") auto
  qed
qed

text \<open>
  C17. The journal is complete.  After any sequence of recorded changes, to any entities and by any
  users, the journals of an entity are numbered from 1 without a gap, there is none exactly when no
  change was recorded, and the last one holds the fields of the last change, so that a change that
  was not given a journal (nothing differed and there was no note) can be read off as well.
\<close>

theorem journal_history_complete:
  assumes "list_all (\<lambda>q. data_ok (cr_data q)) qs" and "length qs \<le> 2 ^ 31"
  shows "faithful_history (filter (concerns ty i) qs) (mjs_history (fold record_request qs mjs_new) ty i)"
proof -
  have "mjs_inv (fold record_request qs mjs_new) \<and> (\<forall>ty i.
    faithful_history (filter (concerns ty i) qs) (mjs_history (fold record_request qs mjs_new) ty i))"
    using assms
  proof (induction qs rule: rev_induct)
    case Nil
    then show ?case
      by (simp add: mjs_inv_def mjs_new_def mjs_history_def faithful_history_def numbered_def)
  next
    case (snoc q qs)
    then have "mjs_inv (fold record_request qs mjs_new)"
      "\<And>ty i. faithful_history (filter (concerns ty i) qs) (mjs_history (fold record_request qs mjs_new) ty i)"
      "data_ok (cr_data q)" "length qs < 2 ^ 31" by simp_all
    from record_request_history [OF this] show ?case by simp
  qed
  then show ?thesis by blast
qed

definition sample_request :: "nat \<Rightarrow> nat change_request" where
  "sample_request n = \<lparr>cr_type = JtWorkPackage, cr_entity = 1, cr_user = 10,
     cr_data = \<lparr>jd_data_type = ''WorkPackageJournal'', jd_fields = [(''status_id'', n)]\<rparr>,
     cr_notes = None, cr_cause = CauseUserAction, cr_time = 0\<rparr>"

theorem journal_history_complete_witness:
  "hm_get (jd_fields (snd (last (mjs_history
      (fold record_request [sample_request 1, sample_request 2, sample_request 2] mjs_new) JtWorkPackage 1)))) ''status_id'' = Some 2"
  using journal_history_complete [of "[sample_request 1, sample_request 2, sample_request 2]" JtWorkPackage 1]
  by (simp add: sample_request_def data_ok_def hm_ok_def concerns_def faithful_history_def)

end
