(* ===== verification/Tables.thy ===== *)
theory Tables
  imports Prelude
begin

text \<open>
  The tables the in-memory stores keep: a list of rows with optional identities, and a counter that
  gives the next one.  The lemmas say what map from identities to rows such a table stands for after
  a row is added, replaced or removed; the stores of notifications and of attachments use them.
\<close>

definition tab_ok :: "('r \<Rightarrow> Id option) \<Rightarrow> i64 \<Rightarrow> 'r list \<Rightarrow> bool" where
  "tab_ok idf nxt rows \<longleftrightarrow>
     distinct (map idf rows) \<and> (\<forall>r \<in> set rows. \<exists>i. idf r = Some i \<and> sint i < sint nxt)"

definition tab_row :: "('r \<Rightarrow> Id option) \<Rightarrow> 'r list \<Rightarrow> Id \<Rightarrow> 'r option" where
  "tab_row idf rows i = List.find (\<lambda>r. idf r = Some i) rows"

lemma option_eqI: "(\<And>x. a = Some x \<longleftrightarrow> b = Some x) \<Longrightarrow> a = b"
  by (cases a; cases b) auto

lemma find_distinct:
  "distinct (map f xs) \<Longrightarrow> List.find (\<lambda>x. f x = k) xs = Some x \<longleftrightarrow> x \<in> set xs \<and> f x = k"
  by (induction xs) force+

lemma find_map: "List.find P (map f xs) = map_option f (List.find (P \<circ> f) xs)"
  by (induction xs) auto

lemma tab_ok_Nil [simp]: "tab_ok idf nxt []"
  by (simp add: tab_ok_def)

lemma tab_row_Nil [simp]: "tab_row idf [] i = None"
  by (simp add: tab_row_def)

lemma tab_row_iff: "tab_ok idf nxt rows \<Longrightarrow> tab_row idf rows i = Some r \<longleftrightarrow> r \<in> set rows \<and> idf r = Some i"
  by (simp add: tab_row_def tab_ok_def find_distinct)

lemma tab_fresh: "tab_ok idf nxt rows \<Longrightarrow> tab_row idf rows nxt = None"
  by (auto simp: tab_row_def tab_ok_def find_None_iff)

lemma tab_finite: "tab_ok idf nxt rows \<Longrightarrow> finite (dom (tab_row idf rows))"
  by (rule finite_subset [of _ "(the \<circ> idf) ` set rows"]) (force simp: dom_def tab_row_iff image_iff)+

lemma tab_count:
  assumes ok: "tab_ok idf nxt rows"
  shows "card {i. \<exists>r. tab_row idf rows i = Some r \<and> P r} = length (filter P rows)"
proof -
  let ?l = "filter P rows"
  have ids: "\<forall>r \<in> set ?l. idf r = Some (the (idf r))" using ok by (auto simp: tab_ok_def)
  have "{i. \<exists>r. tab_row idf rows i = Some r \<and> P r} = set (map (the \<circ> idf) ?l)"
    using ok ids by (force simp: tab_row_iff image_iff)
  moreover have "distinct (map (the \<circ> idf) ?l)"
  proof -
    have "distinct (map idf ?l)" using ok by (simp add: tab_ok_def distinct_map_filter)
    then have d: "distinct ?l" and inj: "inj_on idf (set ?l)" by (simp_all only: distinct_map)
    have "inj_on (the \<circ> idf) (set ?l)"
    proof (rule inj_onI)
      fix x y assume xy: "x \<in> set ?l" "y \<in> set ?l" and "(the \<circ> idf) x = (the \<circ> idf) y"
      moreover from xy ids have "idf x = Some (the (idf x))" "idf y = Some (the (idf y))" by blast+
      ultimately have "idf x = idf y" by simp
      with xy inj show "x = y" by (simp only: inj_on_eq_iff)
    qed
    with d show ?thesis by (simp only: distinct_map)
  qed
  then have "card (set (map (the \<circ> idf) ?l)) = length (map (the \<circ> idf) ?l)" by (rule distinct_card)
  ultimately show ?thesis by (simp only: length_map)
qed

lemma tab_append:
  assumes ok: "tab_ok idf nxt rows" and room: "sint nxt < 2 ^ 63 - 1" and r: "idf r = Some nxt"
  shows "tab_ok idf (nxt + 1) (rows @ [r])" and "tab_row idf (rows @ [r]) = (tab_row idf rows)(nxt \<mapsto> r)"
proof -
  have nxt: "sint (nxt + 1) = sint nxt + 1"
    using room sint_range_i64 [of nxt] by (subst sint_add_i64) simp_all
  have fresh: "\<forall>x \<in> set rows. idf x \<noteq> Some nxt" using ok by (auto simp: tab_ok_def)
  with ok r show "tab_ok idf (nxt + 1) (rows @ [r])" by (fastforce simp: tab_ok_def nxt)
  have "List.find (\<lambda>x. idf x = Some nxt) rows = None" using fresh by (simp add: find_None_iff)
  with r show "tab_row idf (rows @ [r]) = (tab_row idf rows)(nxt \<mapsto> r)"
    by (auto simp: tab_row_def find_append fun_eq_iff split: option.split)
qed

lemma tab_replace_None: "replace_first (\<lambda>x. idf x = Some i) r rows = None \<Longrightarrow> tab_row idf rows i = None"
  by (simp add: tab_row_def)

lemma tab_replace_Some:
  assumes ok: "tab_ok idf nxt rows" and r: "idf r = Some i"
    and run: "replace_first (\<lambda>x. idf x = Some i) r rows = Some rows'"
  shows "tab_ok idf nxt rows'" and "tab_row idf rows i \<noteq> None" and "tab_row idf rows' = (tab_row idf rows)(i \<mapsto> r)"
proof -
  from replace_first_find [OF run r]
  have f: "List.find (\<lambda>x. idf x = k) rows' = (if k = Some i then Some r else List.find (\<lambda>x. idf x = k) rows)"
    and ids: "map idf rows' = map idf rows" for k by simp_all
  from f show "tab_row idf rows' = (tab_row idf rows)(i \<mapsto> r)" by (auto simp: tab_row_def fun_eq_iff)
  from run show "tab_row idf rows i \<noteq> None" by (metis tab_row_def option.distinct(1) replace_first_None)
  have "idf ` set rows' = idf ` set rows" using ids by (metis list.set_map)
  moreover have "\<forall>k \<in> idf ` set rows. \<exists>i. k = Some i \<and> sint i < sint nxt" using ok by (auto simp: tab_ok_def)
  ultimately have "\<forall>k \<in> idf ` set rows'. \<exists>i. k = Some i \<and> sint i < sint nxt" by simp
  with ok ids show "tab_ok idf nxt rows'" by (simp add: tab_ok_def)
qed

lemma tab_remove:
  assumes ok: "tab_ok idf nxt rows"
  shows "tab_ok idf nxt (filter (\<lambda>x. idf x \<noteq> Some i) rows)"
    and "tab_row idf (filter (\<lambda>x. idf x \<noteq> Some i) rows) = (tab_row idf rows)(i := None)"
proof -
  show ok': "tab_ok idf nxt (filter (\<lambda>x. idf x \<noteq> Some i) rows)"
    using ok by (auto simp: tab_ok_def distinct_map_filter)
  have "tab_row idf (filter (\<lambda>x. idf x \<noteq> Some i) rows) k = ((tab_row idf rows)(i := None)) k" for k
    using tab_row_iff [OF ok] tab_row_iff [OF ok'] by (intro option_eqI) auto
  then show "tab_row idf (filter (\<lambda>x. idf x \<noteq> Some i) rows) = (tab_row idf rows)(i := None)" by blast
qed

lemma tab_map:
  assumes ok: "tab_ok idf nxt rows" and "\<And>r. idf (f r) = idf r"
  shows "tab_ok idf nxt (map f rows)" and "tab_row idf (map f rows) = map_option f \<circ> tab_row idf rows"
proof -
  have "idf \<circ> f = idf" using assms(2) by (simp add: fun_eq_iff)
  with assms show "tab_ok idf nxt (map f rows)" by (simp add: tab_ok_def)
  show "tab_row idf (map f rows) = map_option f \<circ> tab_row idf rows"
    using assms(2) by (simp add: tab_row_def find_map fun_eq_iff comp_def)
qed

end
