(* ===== verification/Notifications.thy ===== *)
theory Notifications
  imports Jobs Tables
begin

text \<open>
  The notifications of op-notifications (notification.rs, channels.rs, service.rs): who wants to
  hear of what, the channels a notification goes out on, the store of notifications, and the service
  that stores a notification, delivers it and queues an e-mail job.  The e-mail messages
  themselves are in the theory Email, the job queue in the theory Jobs.
\<close>

subsection \<open>Notifications\<close>

datatype notification_type =
    WorkPackageCreated | WorkPackageUpdated | WorkPackageCommented | WorkPackageAssigned
  | WorkPackageMentioned | WorkPackageDueDateAlert | WorkPackageOverdue | ProjectCreated
  | MembershipAdded | MembershipUpdated | DocumentAdded | NewsAdded | WikiPageUpdated
  | MessagePosted | FileUploaded | MeetingInvitation | ReminderNotice

fun notification_i18n_key :: "notification_type \<Rightarrow> string" where
  "notification_i18n_key WorkPackageCreated = ''notification.work_package.created''"
| "notification_i18n_key WorkPackageUpdated = ''notification.work_package.updated''"
| "notification_i18n_key WorkPackageCommented = ''notification.work_package.commented''"
| "notification_i18n_key WorkPackageAssigned = ''notification.work_package.assigned''"
| "notification_i18n_key WorkPackageMentioned = ''notification.work_package.mentioned''"
| "notification_i18n_key WorkPackageDueDateAlert = ''notification.work_package.due_date_alert''"
| "notification_i18n_key WorkPackageOverdue = ''notification.work_package.overdue''"
| "notification_i18n_key ProjectCreated = ''notification.project.created''"
| "notification_i18n_key MembershipAdded = ''notification.membership.added''"
| "notification_i18n_key MembershipUpdated = ''notification.membership.updated''"
| "notification_i18n_key DocumentAdded = ''notification.document.added''"
| "notification_i18n_key NewsAdded = ''notification.news.added''"
| "notification_i18n_key WikiPageUpdated = ''notification.wiki.updated''"
| "notification_i18n_key MessagePosted = ''notification.message.posted''"
| "notification_i18n_key FileUploaded = ''notification.file.uploaded''"
| "notification_i18n_key MeetingInvitation = ''notification.meeting.invitation''"
| "notification_i18n_key ReminderNotice = ''notification.reminder''"

fun notification_is_work_package :: "notification_type \<Rightarrow> bool" where
  "notification_is_work_package WorkPackageCreated = True"
| "notification_is_work_package WorkPackageUpdated = True"
| "notification_is_work_package WorkPackageCommented = True"
| "notification_is_work_package WorkPackageAssigned = True"
| "notification_is_work_package WorkPackageMentioned = True"
| "notification_is_work_package WorkPackageDueDateAlert = True"
| "notification_is_work_package WorkPackageOverdue = True"
| "notification_is_work_package _ = False"

datatype notification_reason =
    ReasonAssigned | ReasonResponsible | ReasonWatched | ReasonMentioned | ReasonSubscribed
  | ReasonInvolved | ReasonProjectMember | ReasonDateAlert | ReasonSystem

record notification =
  nt_id :: "Id option"
  nt_recipient_id :: Id
  nt_actor_id :: "Id option"
  nt_type :: notification_type
  nt_reason :: notification_reason
  nt_resource_type :: string
  nt_resource_id :: Id
  nt_project_id :: "Id option"
  nt_journal_id :: "Id option"
  nt_read_at :: "timestamp option"
  nt_mail_sent_at :: "timestamp option"
  nt_created_at :: timestamp
  nt_updated_at :: timestamp

definition notification_new ::
    "timestamp \<Rightarrow> Id \<Rightarrow> notification_type \<Rightarrow> notification_reason \<Rightarrow> string \<Rightarrow> Id \<Rightarrow> notification" where
  "notification_new now recipient_id ty reason resource_type resource_id =
     \<lparr>nt_id = None, nt_recipient_id = recipient_id, nt_actor_id = None, nt_type = ty,
      nt_reason = reason, nt_resource_type = resource_type, nt_resource_id = resource_id,
      nt_project_id = None, nt_journal_id = None, nt_read_at = None, nt_mail_sent_at = None,
      nt_created_at = now, nt_updated_at = now\<rparr>"

definition notification_work_package ::
    "timestamp \<Rightarrow> Id \<Rightarrow> notification_type \<Rightarrow> notification_reason \<Rightarrow> Id \<Rightarrow> notification" where
  "notification_work_package now recipient_id ty reason work_package_id =
     notification_new now recipient_id ty reason ''WorkPackage'' work_package_id"

definition notification_with_actor :: "Id \<Rightarrow> notification \<Rightarrow> notification" where
  "notification_with_actor actor_id n = n\<lparr>nt_actor_id := Some actor_id\<rparr>"

definition notification_with_project :: "Id \<Rightarrow> notification \<Rightarrow> notification" where
  "notification_with_project project_id n = n\<lparr>nt_project_id := Some project_id\<rparr>"

definition notification_with_journal :: "Id \<Rightarrow> notification \<Rightarrow> notification" where
  "notification_with_journal journal_id n = n\<lparr>nt_journal_id := Some journal_id\<rparr>"

definition notification_is_unread :: "notification \<Rightarrow> bool" where
  "notification_is_unread n \<longleftrightarrow> nt_read_at n = None"

definition notification_is_mail_sent :: "notification \<Rightarrow> bool" where
  "notification_is_mail_sent n \<longleftrightarrow> nt_mail_sent_at n \<noteq> None"

text \<open>The clock is read twice.\<close>

definition notification_mark_read :: "timestamp \<Rightarrow> timestamp \<Rightarrow> notification \<Rightarrow> notification" where
  "notification_mark_read now1 now2 n = n\<lparr>nt_read_at := Some now1, nt_updated_at := now2\<rparr>"

definition notification_mark_mail_sent :: "timestamp \<Rightarrow> timestamp \<Rightarrow> notification \<Rightarrow> notification" where
  "notification_mark_mail_sent now1 now2 n = n\<lparr>nt_mail_sent_at := Some now1, nt_updated_at := now2\<rparr>"

subsection \<open>Settings\<close>

datatype email_frequency = EmailImmediate | EmailDaily | EmailWeekly | EmailNever

record notification_settings =
  ns_user_id :: Id
  ns_in_app_enabled :: bool
  ns_email_enabled :: bool
  ns_email_frequency :: email_frequency
  ns_enabled_types :: "notification_type list"
  ns_enabled_reasons :: "notification_reason list"
  ns_watched_projects :: "Id list option"

definition settings_default :: notification_settings where
  "settings_default =
     \<lparr>ns_user_id = 0, ns_in_app_enabled = True, ns_email_enabled = True,
      ns_email_frequency = EmailImmediate,
      ns_enabled_types =
        [WorkPackageAssigned, WorkPackageMentioned, WorkPackageCommented, MembershipAdded],
      ns_enabled_reasons = [ReasonAssigned, ReasonMentioned, ReasonWatched],
      ns_watched_projects = None\<rparr>"

definition settings_for_user :: "Id \<Rightarrow> notification_settings" where
  "settings_for_user user_id = settings_default\<lparr>ns_user_id := user_id\<rparr>"

definition should_notify ::
    "notification_settings \<Rightarrow> notification_type \<Rightarrow> notification_reason \<Rightarrow> Id option \<Rightarrow> bool" where
  "should_notify st ty reason project_id =
     (if \<not> ns_in_app_enabled st then False
      else if ty \<notin> set (ns_enabled_types st) then False
      else if reason \<notin> set (ns_enabled_reasons st) then False
      else (case ns_watched_projects st of
              None \<Rightarrow> True
            | Some watched \<Rightarrow> (case project_id of None \<Rightarrow> True | Some pid \<Rightarrow> pid \<in> set watched)))"

definition should_email :: "notification_settings \<Rightarrow> bool" where
  "should_email st \<longleftrightarrow> ns_email_enabled st \<and> ns_email_frequency st \<noteq> EmailNever"

subsection \<open>Channels\<close>

datatype channel_error = DeliveryFailed string | ChannelDisabled | ChannelRateLimited | InvalidRecipient

fun channel_error_to_string :: "channel_error \<Rightarrow> string" where
  "channel_error_to_string (DeliveryFailed s) = ''Delivery failed: '' @ s"
| "channel_error_to_string ChannelDisabled = ''Channel disabled''"
| "channel_error_to_string ChannelRateLimited = ''Rate limited''"
| "channel_error_to_string InvalidRecipient = ''Invalid recipient''"

datatype channel = InApp | EmailChannel | Push | Webhook | Slack | Teams

record 'j channel_config =
  cc_channel :: channel
  cc_enabled :: bool
  cc_settings :: 'j

text \<open>JSON is not modelled: \<open>empty_object\<close> is \<open>{}\<close> and \<open>url_object u\<close> is \<open>{"url": u}\<close>.\<close>

definition channel_config_in_app :: "'j \<Rightarrow> 'j channel_config" where
  "channel_config_in_app empty_object = \<lparr>cc_channel = InApp, cc_enabled = True, cc_settings = empty_object\<rparr>"

definition channel_config_email :: "'j \<Rightarrow> 'j channel_config" where
  "channel_config_email empty_object =
     \<lparr>cc_channel = EmailChannel, cc_enabled = True, cc_settings = empty_object\<rparr>"

definition channel_config_webhook :: "(string \<Rightarrow> 'j) \<Rightarrow> string \<Rightarrow> 'j channel_config" where
  "channel_config_webhook url_object url =
     \<lparr>cc_channel = Webhook, cc_enabled = True, cc_settings = url_object url\<rparr>"

record delivery_result =
  dr_channel :: channel
  dr_success :: bool
  dr_message_id :: "string option"
  dr_error :: "string option"

definition delivery_success :: "channel \<Rightarrow> string \<Rightarrow> delivery_result" where
  "delivery_success ch message_id =
     \<lparr>dr_channel = ch, dr_success = True, dr_message_id = Some message_id, dr_error = None\<rparr>"

definition delivery_failure :: "channel \<Rightarrow> string \<Rightarrow> delivery_result" where
  "delivery_failure ch err =
     \<lparr>dr_channel = ch, dr_success = False, dr_message_id = None, dr_error = Some err\<rparr>"

text \<open>A \<open>dyn ChannelHandler\<close> is the record of its three methods.\<close>

record channel_handler =
  ch_channel :: channel
  ch_is_available :: bool
  ch_deliver :: "notification \<Rightarrow> (delivery_result, channel_error) result"

definition in_app_deliver :: "bool \<Rightarrow> notification \<Rightarrow> (delivery_result, channel_error) result" where
  "in_app_deliver enabled n =
     (if \<not> enabled then Err ChannelDisabled
      else Ok (delivery_success InApp
        (case nt_id n of Some i \<Rightarrow> show_i64 i | None \<Rightarrow> ''pending'')))"

definition in_app_channel :: "bool \<Rightarrow> channel_handler" where
  "in_app_channel enabled =
     \<lparr>ch_channel = InApp, ch_is_available = enabled, ch_deliver = in_app_deliver enabled\<rparr>"

record webhook_channel =
  wh_url :: string
  wh_secret :: "string option"
  wh_enabled :: bool

definition webhook_new :: "string \<Rightarrow> webhook_channel" where
  "webhook_new url = \<lparr>wh_url = url, wh_secret = None, wh_enabled = True\<rparr>"

definition webhook_with_secret :: "string \<Rightarrow> webhook_channel \<Rightarrow> webhook_channel" where
  "webhook_with_secret secret w = w\<lparr>wh_secret := Some secret\<rparr>"

definition webhook_is_available :: "webhook_channel \<Rightarrow> bool" where
  "webhook_is_available w \<longleftrightarrow> wh_enabled w \<and> wh_url w \<noteq> []"

text \<open>The delivery only writes to the log; its message id is a fresh UUID.\<close>

definition webhook_deliver ::
    "string \<Rightarrow> webhook_channel \<Rightarrow> notification \<Rightarrow> (delivery_result, channel_error) result" where
  "webhook_deliver uuid w n =
     (if \<not> webhook_is_available w then Err ChannelDisabled
      else Ok (delivery_success Webhook (''webhook-'' @ uuid)))"

definition webhook_handler :: "string \<Rightarrow> webhook_channel \<Rightarrow> channel_handler" where
  "webhook_handler uuid w =
     \<lparr>ch_channel = Webhook, ch_is_available = webhook_is_available w, ch_deliver = webhook_deliver uuid w\<rparr>"

type_synonym dispatcher = "channel_handler list"

definition dispatcher_add :: "channel_handler \<Rightarrow> dispatcher \<Rightarrow> dispatcher" where
  "dispatcher_add h d = d @ [h]"

definition dispatcher_with_defaults :: "dispatcher \<Rightarrow> dispatcher" where
  "dispatcher_with_defaults d = dispatcher_add (in_app_channel True) d"

fun deliver_all :: "dispatcher \<Rightarrow> notification \<Rightarrow> delivery_result list" where
  "deliver_all [] n = []"
| "deliver_all (h # hs) n =
     (if ch_is_available h
      then (case ch_deliver h n of
              Ok r \<Rightarrow> r
            | Err e \<Rightarrow> delivery_failure (ch_channel h) (channel_error_to_string e)) # deliver_all hs n
      else deliver_all hs n)"

fun deliver_to :: "dispatcher \<Rightarrow> channel \<Rightarrow> notification \<Rightarrow> (delivery_result, channel_error) result" where
  "deliver_to [] ch n = Err ChannelDisabled"
| "deliver_to (h # hs) ch n = (if ch_channel h = ch then ch_deliver h n else deliver_to hs ch n)"

subsection \<open>The in-memory store\<close>

datatype notification_error =
    NtNotFound Id | NtStorage string | NtDelivery string | NtJob string

fun notification_error_to_string :: "notification_error \<Rightarrow> string" where
  "notification_error_to_string (NtNotFound i) = ''Notification not found: '' @ show_i64 i"
| "notification_error_to_string (NtStorage s) = ''Storage error: '' @ s"
| "notification_error_to_string (NtDelivery s) = ''Delivery error: '' @ s"
| "notification_error_to_string (NtJob s) = ''Job queue error: '' @ s"

text \<open>The locks are tokio's, which are never poisoned.  No operation writes the settings.\<close>

record memory_notification_store =
  mns_notifications :: "notification list"
  mns_settings :: "(Id, notification_settings) hashmap"
  mns_next_id :: i64

definition mns_new :: memory_notification_store where
  "mns_new = \<lparr>mns_notifications = [], mns_settings = [], mns_next_id = 1\<rparr>"

definition mns_create ::
    "notification \<Rightarrow> memory_notification_store \<Rightarrow>
     (Id, notification_error) result \<times> notification \<times> memory_notification_store" where
  "mns_create n s =
     (let i = mns_next_id s;
          s = s\<lparr>mns_next_id := i + 1\<rparr>;
          n = n\<lparr>nt_id := Some i\<rparr>
      in (Ok i, n, s\<lparr>mns_notifications := mns_notifications s @ [n]\<rparr>))"

definition mns_get ::
    "Id \<Rightarrow> memory_notification_store \<Rightarrow> (notification option, notification_error) result" where
  "mns_get i s = Ok (List.find (\<lambda>n. nt_id n = Some i) (mns_notifications s))"

definition mns_get_for_user ::
    "Id \<Rightarrow> bool \<Rightarrow> nat \<Rightarrow> memory_notification_store \<Rightarrow> (notification list, notification_error) result" where
  "mns_get_for_user user_id unread_only limit s =
     Ok (take limit (filter (\<lambda>n. \<not> unread_only \<or> notification_is_unread n)
       (filter (\<lambda>n. nt_recipient_id n = user_id) (mns_notifications s))))"

definition mns_get_settings ::
    "Id \<Rightarrow> memory_notification_store \<Rightarrow> (notification_settings, notification_error) result" where
  "mns_get_settings user_id s =
     Ok (case hm_get (mns_settings s) user_id of Some st \<Rightarrow> st | None \<Rightarrow> settings_for_user user_id)"

definition mns_update ::
    "notification \<Rightarrow> memory_notification_store \<Rightarrow>
     (unit, notification_error) result \<times> memory_notification_store" where
  "mns_update n s =
     (Ok (), (case replace_first (\<lambda>e. nt_id e = nt_id n) n (mns_notifications s) of
                None \<Rightarrow> s
              | Some ns \<Rightarrow> s\<lparr>mns_notifications := ns\<rparr>))"

definition mns_delete ::
    "Id \<Rightarrow> memory_notification_store \<Rightarrow> (unit, notification_error) result \<times> memory_notification_store" where
  "mns_delete i s =
     (Ok (), s\<lparr>mns_notifications := filter (\<lambda>n. nt_id n \<noteq> Some i) (mns_notifications s)\<rparr>)"

text \<open>\<open>clock1\<close> and \<open>clock2\<close> are the readings taken for each notification that is marked.\<close>

definition mark_read_of ::
    "(notification \<Rightarrow> timestamp) \<Rightarrow> (notification \<Rightarrow> timestamp) \<Rightarrow> Id \<Rightarrow> notification \<Rightarrow> notification" where
  "mark_read_of clock1 clock2 user_id n =
     (if nt_recipient_id n = user_id \<and> notification_is_unread n
      then notification_mark_read (clock1 n) (clock2 n) n else n)"

definition mns_mark_all_read ::
    "(notification \<Rightarrow> timestamp) \<Rightarrow> (notification \<Rightarrow> timestamp) \<Rightarrow> Id \<Rightarrow> memory_notification_store \<Rightarrow>
     (nat, notification_error) result \<times> memory_notification_store" where
  "mns_mark_all_read clock1 clock2 user_id s =
     (Ok (length (filter (\<lambda>n. nt_recipient_id n = user_id \<and> notification_is_unread n)
            (mns_notifications s))),
      s\<lparr>mns_notifications := map (mark_read_of clock1 clock2 user_id) (mns_notifications s)\<rparr>)"

definition mns_unread_count ::
    "Id \<Rightarrow> memory_notification_store \<Rightarrow> (nat, notification_error) result" where
  "mns_unread_count user_id s =
     Ok (length (filter (\<lambda>n. nt_recipient_id n = user_id \<and> notification_is_unread n)
       (mns_notifications s)))"

definition mns_get_pending_digest ::
    "Id \<Rightarrow> email_frequency \<Rightarrow> memory_notification_store \<Rightarrow> (notification list, notification_error) result" where
  "mns_get_pending_digest user_id frequency s =
     Ok (filter (\<lambda>n. nt_recipient_id n = user_id \<and> \<not> notification_is_mail_sent n) (mns_notifications s))"

subsection \<open>The service\<close>

text \<open>
  The service works over any store and queue, given by their operations.  \<open>args\<close> is the JSON object
  \<open>{"notification_id": _}\<close>; the readings of the clock and the job's UUID are those of the call.
\<close>

record notification_event =
  ev_notification :: notification
  ev_delivery_results :: "delivery_result list"
  ev_timestamp :: timestamp

record notify_env =
  ne_now :: timestamp
  ne_job_uuid :: string
  ne_job_now :: timestamp
  ne_end :: timestamp

definition email_job :: "(Id option \<Rightarrow> 'v) \<Rightarrow> notify_env \<Rightarrow> notification \<Rightarrow> 'v job" where
  "email_job args env n =
     job_with_queue ''mailers''
       (job_new (ne_job_uuid env) (ne_job_now env) ''send_notification_email'' (args (nt_id n)))"

definition queue_email ::
    "('v job \<Rightarrow> 'q \<Rightarrow> (string, job_error) result \<times> 'q) \<Rightarrow> (Id option \<Rightarrow> 'v) \<Rightarrow> notify_env \<Rightarrow>
     notification \<Rightarrow> 'q \<Rightarrow> (unit, notification_error) result \<times> 'q" where
  "queue_email enqueue args env n q =
     (case enqueue (email_job args env n) q of
        (Err e, q) \<Rightarrow> (Err (NtJob (job_error_to_string e)), q)
      | (Ok _, q) \<Rightarrow> (Ok (), q))"

definition notification_for ::
    "timestamp \<Rightarrow> Id \<Rightarrow> notification_type \<Rightarrow> notification_reason \<Rightarrow> string \<Rightarrow> Id \<Rightarrow> Id option \<Rightarrow> Id option \<Rightarrow>
     notification" where
  "notification_for now recipient_id ty reason resource_type resource_id actor_id project_id =
     (let n = notification_new now recipient_id ty reason resource_type resource_id;
          n = (case actor_id of Some aid \<Rightarrow> notification_with_actor aid n | None \<Rightarrow> n)
      in (case project_id of Some pid \<Rightarrow> notification_with_project pid n | None \<Rightarrow> n))"

definition notify ::
    "(Id \<Rightarrow> 's \<Rightarrow> (notification_settings, notification_error) result) \<Rightarrow>
     (notification \<Rightarrow> 's \<Rightarrow> (Id, notification_error) result \<times> notification \<times> 's) \<Rightarrow>
     ('v job \<Rightarrow> 'q \<Rightarrow> (string, job_error) result \<times> 'q) \<Rightarrow> (Id option \<Rightarrow> 'v) \<Rightarrow> dispatcher \<Rightarrow> notify_env \<Rightarrow>
     Id \<Rightarrow> notification_type \<Rightarrow> notification_reason \<Rightarrow> string \<Rightarrow> Id \<Rightarrow> Id option \<Rightarrow> Id option \<Rightarrow>
     's \<times> 'q \<Rightarrow> (notification_event, notification_error) result \<times> 's \<times> 'q" where
  "notify get_settings create enqueue args disp env recipient_id ty reason resource_type resource_id
       actor_id project_id st =
     (case st of (s, q) \<Rightarrow>
       (case get_settings recipient_id s of
          Err e \<Rightarrow> (Err e, s, q)
        | Ok settings \<Rightarrow>
            if \<not> should_notify settings ty reason project_id
            then (Err (NtDelivery ''User has disabled this notification type''), s, q)
            else (case create (notification_for (ne_now env) recipient_id ty reason resource_type
                       resource_id actor_id project_id) s of
                (Err e, _, s) \<Rightarrow> (Err e, s, q)
              | (Ok i, n, s) \<Rightarrow>
                  (let n = n\<lparr>nt_id := Some i\<rparr>;
                       delivered = deliver_all disp n;
                       ev = \<lparr>ev_notification = n, ev_delivery_results = delivered, ev_timestamp = ne_end env\<rparr>
                   in if should_email settings \<and> ns_email_frequency settings = EmailImmediate
                      then (case queue_email enqueue args env n q of
                              (Err e, q) \<Rightarrow> (Err e, s, q)
                            | (Ok _, q) \<Rightarrow> (Ok ev, s, q))
                      else (Ok ev, s, q)))))"

text \<open>\<open>meanwhile\<close> is what other requests do to the store between the read and the write.\<close>

definition nts_mark_read ::
    "(Id \<Rightarrow> 's \<Rightarrow> (notification option, notification_error) result) \<Rightarrow>
     (notification \<Rightarrow> 's \<Rightarrow> (unit, notification_error) result \<times> 's) \<Rightarrow> ('s \<Rightarrow> 's) \<Rightarrow>
     timestamp \<Rightarrow> timestamp \<Rightarrow> Id \<Rightarrow> 's \<Rightarrow> (unit, notification_error) result \<times> 's" where
  "nts_mark_read get put meanwhile now1 now2 i s =
     (case get i s of
        Err e \<Rightarrow> (Err e, s)
      | Ok None \<Rightarrow> (Err (NtNotFound i), s)
      | Ok (Some n) \<Rightarrow> put (notification_mark_read now1 now2 n) (meanwhile s))"

definition send_daily_digest :: "(nat, notification_error) result" where
  "send_daily_digest = Ok 0"

definition send_weekly_digest :: "(nat, notification_error) result" where
  "send_weekly_digest = Ok 0"

text \<open>
  The loops of \<open>WorkPackageNotifier\<close>: \<open>f k u\<close> is the call of \<open>notify\<close> for user \<open>u\<close>, with the
  readings of the \<open>k\<close>-th turn.
\<close>

fun notify_others :: "(nat \<Rightarrow> Id \<Rightarrow> 'st \<Rightarrow> 'r \<times> 'st) \<Rightarrow> Id \<Rightarrow> nat \<Rightarrow> Id list \<Rightarrow> 'st \<Rightarrow> 'r list \<times> 'st" where
  "notify_others f actor k [] st = ([], st)"
| "notify_others f actor k (u # us) st =
     (if u \<noteq> actor
      then (case f k u st of (r, st) \<Rightarrow>
              (case notify_others f actor (Suc k) us st of (rs, st) \<Rightarrow> (r # rs, st)))
      else notify_others f actor (Suc k) us st)"

definition on_created where
  "on_created get_settings create enqueue args disp env work_package_id project_id author_id watchers =
     notify_others (\<lambda>k watcher_id. notify get_settings create enqueue args disp (env k) watcher_id
         WorkPackageCreated ReasonWatched ''WorkPackage'' work_package_id (Some author_id) (Some project_id))
       author_id 0 watchers"

definition on_assigned where
  "on_assigned get_settings create enqueue args disp env work_package_id project_id actor_id assignee_id =
     notify get_settings create enqueue args disp env assignee_id WorkPackageAssigned ReasonAssigned
       ''WorkPackage'' work_package_id (Some actor_id) (Some project_id)"

definition on_mentioned where
  "on_mentioned get_settings create enqueue args disp env work_package_id project_id actor_id mentioned =
     notify_others (\<lambda>k user_id. notify get_settings create enqueue args disp (env k) user_id
         WorkPackageMentioned ReasonMentioned ''WorkPackage'' work_package_id (Some actor_id) (Some project_id))
       actor_id 0 mentioned"

lemma mark_read_of_keeps [simp]:
  "nt_id (mark_read_of c1 c2 u n) = nt_id n" "nt_recipient_id (mark_read_of c1 c2 u n) = nt_recipient_id n"
  "notification_is_unread (mark_read_of c1 c2 u n) \<longleftrightarrow> notification_is_unread n \<and> nt_recipient_id n \<noteq> u"
  by (auto simp: mark_read_of_def notification_mark_read_def notification_is_unread_def)

subsection \<open>The interface of a store\<close>

text \<open>
  What the service relies on: \<open>table\<close> is what the store stands for,
  \<open>next_id\<close> the identity the next one gets, and \<open>room\<close> that identities have not run out.
\<close>

abbreviation unread_by :: "Id \<Rightarrow> (Id \<Rightarrow> notification option) \<Rightarrow> Id set" where
  "unread_by u table \<equiv> {i. \<exists>n. table i = Some n \<and> nt_recipient_id n = u \<and> notification_is_unread n}"

locale notification_store =
  fixes inv :: "'s \<Rightarrow> bool"
    and room :: "'s \<Rightarrow> bool"
    and table :: "'s \<Rightarrow> Id \<Rightarrow> notification option"
    and settings :: "'s \<Rightarrow> Id \<Rightarrow> notification_settings"
    and next_id :: "'s \<Rightarrow> Id"
    and create :: "notification \<Rightarrow> 's \<Rightarrow> (Id, notification_error) result \<times> notification \<times> 's"
    and get :: "Id \<Rightarrow> 's \<Rightarrow> (notification option, notification_error) result"
    and get_settings :: "Id \<Rightarrow> 's \<Rightarrow> (notification_settings, notification_error) result"
    and put :: "notification \<Rightarrow> 's \<Rightarrow> (unit, notification_error) result \<times> 's"
    and delete :: "Id \<Rightarrow> 's \<Rightarrow> (unit, notification_error) result \<times> 's"
    and mark_all :: "(notification \<Rightarrow> timestamp) \<Rightarrow> (notification \<Rightarrow> timestamp) \<Rightarrow> Id \<Rightarrow> 's \<Rightarrow>
      (nat, notification_error) result \<times> 's"
    and unread_count :: "Id \<Rightarrow> 's \<Rightarrow> (nat, notification_error) result"
  assumes own_id: "inv s \<Longrightarrow> table s i = Some n \<Longrightarrow> nt_id n = Some i"
    and finite_notes: "inv s \<Longrightarrow> finite (dom (table s))"
    and fresh: "inv s \<Longrightarrow> table s (next_id s) = None"
    and create_notes: "inv s \<Longrightarrow> room s \<Longrightarrow> create n s = (r, n', s') \<Longrightarrow>
      r = Ok (next_id s) \<and> n' = n\<lparr>nt_id := Some (next_id s)\<rparr> \<and> inv s' \<and> settings s' = settings s \<and>
      table s' = (table s)(next_id s \<mapsto> n\<lparr>nt_id := Some (next_id s)\<rparr>)"
    and get_notes: "inv s \<Longrightarrow> get i s = Ok (table s i)"
    and get_settings_settings: "get_settings u s = Ok (settings s u)"
    and put_notes: "inv s \<Longrightarrow> nt_id n = Some i \<Longrightarrow> put n s = (ack, s') \<Longrightarrow>
      ack = Ok () \<and> inv s' \<and> settings s' = settings s \<and>
      table s' = (if table s i = None then table s else (table s)(i \<mapsto> n))"
    and delete_notes: "inv s \<Longrightarrow> delete i s = (ack, s') \<Longrightarrow>
      ack = Ok () \<and> inv s' \<and> settings s' = settings s \<and> table s' = (table s)(i := None)"
    and mark_all_notes: "inv s \<Longrightarrow> mark_all c1 c2 u s = (count, s') \<Longrightarrow>
      count = unread_count u s \<and> inv s' \<and> settings s' = settings s \<and>
      table s' = map_option (mark_read_of c1 c2 u) \<circ> table s"
    and unread_count_notes: "inv s \<Longrightarrow> unread_count u s = Ok (card (unread_by u (table s)))"
begin

lemma finite_unread: "inv s \<Longrightarrow> finite (unread_by u (table s))"
  by (rule finite_subset [OF _ finite_notes]) (auto simp: dom_def)

lemma mark_all_read_effect:
  assumes inv: "inv s" and run: "mark_all c1 c2 u s = (r, s')"
  shows "r = Ok (card (unread_by u (table s))) \<and> inv s' \<and> unread_count u s' = Ok 0 \<and>
    (\<forall>v. v \<noteq> u \<longrightarrow> unread_count v s' = unread_count v s)"
proof -
  from mark_all_notes [OF inv run] have inv': "inv s'" and n: "table s' = map_option (mark_read_of c1 c2 u) \<circ> table s"
    and r: "r = unread_count u s" by simp_all
  have "x \<in> unread_by v (table s') \<longleftrightarrow> v \<noteq> u \<and> x \<in> unread_by v (table s)" for v x
    by (cases "table s x") (auto simp: n)
  then have "unread_by u (table s') = {}" and "\<And>v. v \<noteq> u \<Longrightarrow> unread_by v (table s') = unread_by v (table s)"
    by blast+
  then show ?thesis
    using inv inv' r by (simp add: unread_count_notes)
qed

lemma mark_read_effect:
  assumes inv: "inv s" "inv (meanwhile s)"
    and run: "nts_mark_read get put meanwhile now1 now2 i s = (r, s')"
  shows "(case table s i of
      None \<Rightarrow> r = Err (NtNotFound i) \<and> s' = s
    | Some n \<Rightarrow> r = Ok () \<and> inv s' \<and>
        table s' = (if table (meanwhile s) i = None then table (meanwhile s)
                    else (table (meanwhile s))(i \<mapsto> notification_mark_read now1 now2 n)))"
proof (cases "table s i")
  case None
  with inv run show ?thesis by (simp add: nts_mark_read_def get_notes)
next
  case (Some n)
  with inv run have "put (notification_mark_read now1 now2 n) (meanwhile s) = (r, s')"
    by (simp add: nts_mark_read_def get_notes)
  moreover have "nt_id (notification_mark_read now1 now2 n) = Some i"
    using own_id [OF inv(1) Some] by (simp add: notification_mark_read_def)
  ultimately show ?thesis using put_notes [OF inv(2)] Some by simp
qed

end

text \<open>The service needs a store and a queue.\<close>

locale notification_service =
  notification_store inv room table settings next_id create get get_settings put delete mark_all unread_count +
  job_queue qinv contents enqueue dequeue upd qdelete retry_dead clear_completed
  for inv :: "'s \<Rightarrow> bool"
    and room :: "'s \<Rightarrow> bool"
    and table :: "'s \<Rightarrow> Id \<Rightarrow> notification option"
    and settings :: "'s \<Rightarrow> Id \<Rightarrow> notification_settings"
    and next_id :: "'s \<Rightarrow> Id"
    and create :: "notification \<Rightarrow> 's \<Rightarrow> (Id, notification_error) result \<times> notification \<times> 's"
    and get :: "Id \<Rightarrow> 's \<Rightarrow> (notification option, notification_error) result"
    and get_settings :: "Id \<Rightarrow> 's \<Rightarrow> (notification_settings, notification_error) result"
    and put :: "notification \<Rightarrow> 's \<Rightarrow> (unit, notification_error) result \<times> 's"
    and delete :: "Id \<Rightarrow> 's \<Rightarrow> (unit, notification_error) result \<times> 's"
    and mark_all :: "(notification \<Rightarrow> timestamp) \<Rightarrow> (notification \<Rightarrow> timestamp) \<Rightarrow> Id \<Rightarrow> 's \<Rightarrow>
      (nat, notification_error) result \<times> 's"
    and unread_count :: "Id \<Rightarrow> 's \<Rightarrow> (nat, notification_error) result"
    and qinv :: "'q \<Rightarrow> bool"
    and contents :: "'q \<Rightarrow> string \<Rightarrow> 'v job option"
    and enqueue :: "'v job \<Rightarrow> 'q \<Rightarrow> (string, job_error) result \<times> 'q"
    and dequeue :: "('v job \<Rightarrow> timestamp) \<Rightarrow> ('v job \<Rightarrow> timestamp) \<Rightarrow> timestamp \<Rightarrow> string \<Rightarrow> 'q \<Rightarrow>
      ('v job option, job_error) result \<times> 'q"
    and upd :: "'v job \<Rightarrow> 'q \<Rightarrow> (unit, job_error) result \<times> 'q"
    and qdelete :: "string \<Rightarrow> 'q \<Rightarrow> (unit, job_error) result \<times> 'q"
    and retry_dead :: "string \<Rightarrow> 'q \<Rightarrow> (nat, job_error) result \<times> 'q"
    and clear_completed :: "string \<Rightarrow> 'q \<Rightarrow> (nat, job_error) result \<times> 'q"
begin

lemma queue_email_effect:
  "qinv q \<Longrightarrow> \<exists>q'. queue_email enqueue args env n q = (Ok (), q') \<and> qinv q' \<and>
    contents q' = (contents q)(ne_job_uuid env \<mapsto> email_job args env n)"
  using enqueue_contents [of q "email_job args env n"]
  by (cases "enqueue (email_job args env n) q")
    (auto simp: queue_email_def email_job_def job_with_queue_def job_new_def)

lemma notify_refused:
  "\<not> should_notify (settings s u) ty reason project \<Longrightarrow>
    notify get_settings create enqueue args disp env u ty reason rt ri actor project (s, q) =
      (Err (NtDelivery ''User has disabled this notification type''), s, q)"
  by (simp add: notify_def get_settings_settings)

lemma notify_accepted:
  fixes env u ty reason rt ri actor project
  assumes inv: "inv s" "room s" "qinv q" and ok: "should_notify (settings s u) ty reason project"
  defines "n \<equiv> (notification_for (ne_now env) u ty reason rt ri actor project)\<lparr>nt_id := Some (next_id s)\<rparr>"
  shows "\<exists>s' q'. notify get_settings create enqueue args disp env u ty reason rt ri actor project (s, q) =
      (Ok \<lparr>ev_notification = n, ev_delivery_results = deliver_all disp n, ev_timestamp = ne_end env\<rparr>, s', q') \<and>
    inv s' \<and> settings s' = settings s \<and> table s' = (table s)(next_id s \<mapsto> n) \<and> qinv q' \<and>
    contents q' =
      (if ns_email_enabled (settings s u) \<and> ns_email_frequency (settings s u) = EmailImmediate
       then (contents q)(ne_job_uuid env \<mapsto> email_job args env n) else contents q)"
proof -
  obtain r n' s' where c: "create (notification_for (ne_now env) u ty reason rt ri actor project) s = (r, n', s')"
    by (cases "create (notification_for (ne_now env) u ty reason rt ri actor project) s")
  from create_notes [OF inv(1,2) c] queue_email_effect [OF inv(3), of args env n] show ?thesis
    using inv(3) ok by (auto simp: notify_def get_settings_settings c n_def should_email_def Let_def)
qed

end

subsection \<open>The in-memory store is a store\<close>

definition mns_inv :: "memory_notification_store \<Rightarrow> bool" where
  "mns_inv s \<longleftrightarrow> tab_ok nt_id (mns_next_id s) (mns_notifications s)"

definition mns_room :: "memory_notification_store \<Rightarrow> bool" where
  "mns_room s \<longleftrightarrow> sint (mns_next_id s) < 2 ^ 63 - 1"

definition mns_note :: "memory_notification_store \<Rightarrow> Id \<Rightarrow> notification option" where
  "mns_note s = tab_row nt_id (mns_notifications s)"

definition mns_setting :: "memory_notification_store \<Rightarrow> Id \<Rightarrow> notification_settings" where
  "mns_setting s u = (case hm_get (mns_settings s) u of Some st \<Rightarrow> st | None \<Rightarrow> settings_for_user u)"

lemmas mns_spec_defs = mns_inv_def mns_note_def

lemma mns_create_ok:
  assumes "mns_inv s" and "mns_room s" and "mns_create n s = (r, n', s')"
  shows "r = Ok (mns_next_id s) \<and> n' = n\<lparr>nt_id := Some (mns_next_id s)\<rparr> \<and> mns_inv s' \<and>
    mns_setting s' = mns_setting s \<and>
    mns_note s' = (mns_note s)(mns_next_id s \<mapsto> n\<lparr>nt_id := Some (mns_next_id s)\<rparr>)"
  using assms tab_append [of nt_id "mns_next_id s" "mns_notifications s" "n\<lparr>nt_id := Some (mns_next_id s)\<rparr>"]
  by (auto simp: mns_create_def mns_spec_defs mns_room_def mns_setting_def Let_def)

lemma mns_update_ok:
  assumes "mns_inv s" and "nt_id n = Some i" and "mns_update n s = (r, s')"
  shows "r = Ok () \<and> mns_inv s' \<and> mns_setting s' = mns_setting s \<and>
    mns_note s' = (if mns_note s i = None then mns_note s else (mns_note s)(i \<mapsto> n))"
proof (cases "replace_first (\<lambda>e. nt_id e = Some i) n (mns_notifications s)")
  case None
  with assms have "s' = s" "r = Ok ()" by (simp_all add: mns_update_def del: replace_first_None)
  with assms tab_replace_None [OF None] show ?thesis by (simp add: mns_spec_defs)
next
  case (Some ns)
  with assms tab_replace_Some [of nt_id "mns_next_id s" "mns_notifications s" n i ns] show ?thesis
    by (auto simp: mns_update_def mns_spec_defs mns_setting_def)
qed

lemma mns_delete_ok:
  assumes "mns_inv s" and "mns_delete i s = (r, s')"
  shows "r = Ok () \<and> mns_inv s' \<and> mns_setting s' = mns_setting s \<and> mns_note s' = (mns_note s)(i := None)"
  using assms tab_remove [of nt_id _ "mns_notifications s" i]
  by (auto simp: mns_delete_def mns_spec_defs mns_setting_def)

lemma mns_mark_all_ok:
  assumes "mns_inv s" and "mns_mark_all_read c1 c2 u s = (r, s')"
  shows "r = mns_unread_count u s \<and> mns_inv s' \<and> mns_setting s' = mns_setting s \<and>
    mns_note s' = map_option (mark_read_of c1 c2 u) \<circ> mns_note s"
  using assms tab_map [of nt_id _ "mns_notifications s" "mark_read_of c1 c2 u"]
  by (auto simp: mns_mark_all_read_def mns_unread_count_def mns_spec_defs mns_setting_def)

interpretation memory_notifications: notification_store mns_inv mns_room mns_note mns_setting mns_next_id
  mns_create mns_get mns_get_settings mns_update mns_delete mns_mark_all_read mns_unread_count
proof unfold_locales
  fix s assume "mns_inv s"
  then have ok: "tab_ok nt_id (mns_next_id s) (mns_notifications s)" by (simp add: mns_inv_def)
  show "finite (dom (mns_note s))" unfolding mns_note_def by (rule tab_finite [OF ok])
  show "mns_note s (mns_next_id s) = None" unfolding mns_note_def by (rule tab_fresh [OF ok])
  show "mns_unread_count u s = Ok (card (unread_by u (mns_note s)))" for u
    by (simp only: mns_unread_count_def mns_note_def tab_count [OF ok])
  show "nt_id n = Some i" if "mns_note s i = Some n" for i n
    using that by (simp add: mns_note_def tab_row_iff [OF ok])
qed (simp_all only: mns_get_def mns_note_def [symmetric] tab_row_def [symmetric] mns_get_settings_def
    mns_setting_def [symmetric], fact mns_create_ok, fact mns_update_ok, fact mns_delete_ok, fact mns_mark_all_ok)

interpretation memory_notifier: notification_service mns_inv mns_room mns_note mns_setting mns_next_id
  mns_create mns_get mns_get_settings mns_update mns_delete mns_mark_all_read mns_unread_count
  mjq_inv "\<lambda>q. hm_get (mjq_jobs q)"
  mjq_enqueue mjq_dequeue mjq_update mjq_delete mjq_retry_dead mjq_clear_completed
  by unfold_locales

subsection \<open>What the service does\<close>

lemma notification_for_record:
  "notification_for now u ty reason rt ri actor project =
     \<lparr>nt_id = None, nt_recipient_id = u, nt_actor_id = actor, nt_type = ty, nt_reason = reason,
      nt_resource_type = rt, nt_resource_id = ri, nt_project_id = project, nt_journal_id = None,
      nt_read_at = None, nt_mail_sent_at = None, nt_created_at = now, nt_updated_at = now\<rparr>"
  by (simp add: notification_for_def notification_new_def notification_with_actor_def
      notification_with_project_def Let_def split: option.split)

lemma unread_by_new:
  assumes "f i = None" and "nt_recipient_id n = u" and "notification_is_unread n"
    and "finite (unread_by u f)"
  shows "card (unread_by u (f(i \<mapsto> n))) = Suc (card (unread_by u f))"
proof -
  have "unread_by u (f(i \<mapsto> n)) = insert i (unread_by u f)" using assms by auto
  with assms show ?thesis by simp
qed

text \<open>
  Notifying a user, whatever the channels.  A user whose settings do not ask for the notification
  (in-app notifications on, its type and its reason listed, its project watched where the user
  watches particular projects) gets none: the call fails and nothing changes.  Otherwise the
  notification is stored under a fresh identity, unread, with the recipient, actor, resource and
  project of the call, all other notifications stay as they are, the recipient's unread count
  goes up by one, every available channel delivers it, and a pending job that names the
  notification is queued for the mailers exactly when the user wants e-mail immediately.
\<close>

theorem notify_correct:
  assumes "mns_inv s" "mns_room s" "mjq_inv q"
  shows "(case notify mns_get_settings mns_create mjq_enqueue args disp env u ty reason rt ri actor project (s, q) of
      (Inl e, s', q') \<Rightarrow> e = NtDelivery ''User has disabled this notification type'' \<and> s' = s \<and> q' = q \<and>
        \<not> should_notify (mns_setting s u) ty reason project
    | (Inr ev, s', q') \<Rightarrow> should_notify (mns_setting s u) ty reason project \<and> mns_inv s' \<and> mjq_inv q' \<and>
        (\<exists>i n. mns_note s i = None \<and> mns_note s' = (mns_note s)(i \<mapsto> n) \<and> ev_notification ev = n \<and>
          n = \<lparr>nt_id = Some i, nt_recipient_id = u, nt_actor_id = actor, nt_type = ty, nt_reason = reason,
               nt_resource_type = rt, nt_resource_id = ri, nt_project_id = project, nt_journal_id = None,
               nt_read_at = None, nt_mail_sent_at = None, nt_created_at = ne_now env, nt_updated_at = ne_now env\<rparr> \<and>
          ev_delivery_results ev = deliver_all disp n \<and>
          map_sum id Suc (mns_unread_count u s) = mns_unread_count u s' \<and>
          hm_get (mjq_jobs q') =
            (if ns_email_enabled (mns_setting s u) \<and> ns_email_frequency (mns_setting s u) = EmailImmediate
             then (hm_get (mjq_jobs q))(ne_job_uuid env \<mapsto>
               (job_new (ne_job_uuid env) (ne_job_now env) ''send_notification_email'' (args (Some i)))
                 \<lparr>job_queue_name := ''mailers''\<rparr>)
             else hm_get (mjq_jobs q))))"
proof (cases "should_notify (mns_setting s u) ty reason project")
  case False
  then show ?thesis by (simp add: memory_notifier.notify_refused)
next
  case True
  let ?n = "(notification_for (ne_now env) u ty reason rt ri actor project)\<lparr>nt_id := Some (mns_next_id s)\<rparr>"
  from memory_notifier.notify_accepted [OF assms True, of args disp env rt ri actor]
  obtain s' q' where r: "notify mns_get_settings mns_create mjq_enqueue args disp env u ty reason rt ri actor project (s, q) =
      (Ok \<lparr>ev_notification = ?n, ev_delivery_results = deliver_all disp ?n, ev_timestamp = ne_end env\<rparr>, s', q')"
    and inv: "mns_inv s'" "mjq_inv q'" and s': "mns_note s' = (mns_note s)(mns_next_id s \<mapsto> ?n)"
    and q': "hm_get (mjq_jobs q') =
      (if ns_email_enabled (mns_setting s u) \<and> ns_email_frequency (mns_setting s u) = EmailImmediate
       then (hm_get (mjq_jobs q))(ne_job_uuid env \<mapsto> email_job args env ?n) else hm_get (mjq_jobs q))"
    by blast
  have n: "?n = \<lparr>nt_id = Some (mns_next_id s), nt_recipient_id = u, nt_actor_id = actor, nt_type = ty,
      nt_reason = reason, nt_resource_type = rt, nt_resource_id = ri, nt_project_id = project,
      nt_journal_id = None, nt_read_at = None, nt_mail_sent_at = None, nt_created_at = ne_now env,
      nt_updated_at = ne_now env\<rparr>"
    by (simp add: notification_for_record)
  have "card (unread_by u (mns_note s')) = Suc (card (unread_by u (mns_note s)))"
    unfolding s' using memory_notifications.finite_unread [OF assms(1)] memory_notifications.fresh [OF assms(1)]
    by (intro unread_by_new) (simp_all add: n notification_is_unread_def)
  then have "map_sum id Suc (mns_unread_count u s) = mns_unread_count u s'"
    by (simp only: memory_notifications.unread_count_notes assms(1) inv(1) map_sum.simps)
  moreover have "email_job args env ?n =
      (job_new (ne_job_uuid env) (ne_job_now env) ''send_notification_email'' (args (Some (mns_next_id s))))
        \<lparr>job_queue_name := ''mailers''\<rparr>"
    by (simp add: n email_job_def job_with_queue_def)
  ultimately show ?thesis
    unfolding r prod.case sum.case using memory_notifications.fresh [OF assms(1)] inv s' q' n True
    by (intro conjI exI [of _ "mns_next_id s"] exI [of _ ?n]) simp_all
qed

theorem notify_correct_witness:
  "case notify mns_get_settings mns_create mjq_enqueue (\<lambda>i. i) []
      \<lparr>ne_now = 5, ne_job_uuid = ''j'', ne_job_now = 6, ne_end = 7\<rparr> 3 WorkPackageAssigned ReasonAssigned
      ''WorkPackage'' 8 (Some 1) None (mns_new, mjq_new) of
    (r, s', q') \<Rightarrow> \<not> isl r \<and> mns_unread_count 3 s' = Ok 1 \<and> hm_get (mjq_jobs q') ''j'' \<noteq> None"
    (is "case ?run of (r, s', q') \<Rightarrow> _ r s' q'")
proof -
  obtain r s' q' where run: "?run = (r, s', q')" by (cases ?run)
  have st: "mns_setting mns_new 3 = settings_default\<lparr>ns_user_id := 3\<rparr>" "mns_unread_count 3 mns_new = Ok 0"
    by (simp_all add: mns_setting_def mns_new_def settings_for_user_def mns_unread_count_def)
  have "mns_inv mns_new" "mns_room mns_new" "mjq_inv (mjq_new :: Id option memory_job_queue)"
    by (simp_all add: mns_inv_def mns_room_def mns_new_def mjq_inv_def mjq_new_def)
  from notify_correct [OF this, where args = "\<lambda>i. i" and disp = "[]" and
      env = "\<lparr>ne_now = 5, ne_job_uuid = ''j'', ne_job_now = 6, ne_end = 7\<rparr>" and u = 3 and
      ty = WorkPackageAssigned and reason = ReasonAssigned and rt = "''WorkPackage''" and ri = 8 and
      actor = "Some 1" and project = None]
  show ?thesis unfolding run prod.case
    by (cases r) (auto simp: st should_notify_def settings_default_def)
qed

text \<open>
  Marking everything read: the answer is the number of unread notifications of that user; after
  it the user has none, everybody else has as many as before, and no notification is lost, created
  or given another recipient.
\<close>

theorem mark_all_read_correct:
  assumes "mns_inv s"
  shows "(case mns_mark_all_read c1 c2 u s of
      (r, s') \<Rightarrow> r = mns_unread_count u s \<and> mns_inv s' \<and> mns_unread_count u s' = Ok 0 \<and>
        (\<forall>v. v = u \<or> mns_unread_count v s' = mns_unread_count v s) \<and>
        map (\<lambda>n. (nt_id n, nt_recipient_id n)) (mns_notifications s') =
          map (\<lambda>n. (nt_id n, nt_recipient_id n)) (mns_notifications s))"
proof -
  obtain r s' where run: "mns_mark_all_read c1 c2 u s = (r, s')" by (cases "mns_mark_all_read c1 c2 u s")
  have "mns_notifications s' = map (mark_read_of c1 c2 u) (mns_notifications s)"
    using run by (auto simp: mns_mark_all_read_def)
  with run memory_notifications.mark_all_read_effect [OF assms run]
    memory_notifications.unread_count_notes [OF assms, of u] show ?thesis by auto
qed

theorem mark_all_read_correct_witness:
  "case mns_mark_all_read (\<lambda>_. 9) (\<lambda>_. 9) 3 (snd (snd (mns_create
      (notification_work_package 5 3 WorkPackageAssigned ReasonAssigned 8) mns_new))) of
    (r, s') \<Rightarrow> r = Ok 1 \<and> mns_unread_count 3 s' = Ok 0"
proof -
  let ?s = "snd (snd (mns_create (notification_work_package 5 3 WorkPackageAssigned ReasonAssigned 8) mns_new))"
  have "mns_inv ?s" by (simp add: mns_inv_def mns_create_def mns_new_def tab_ok_def Let_def)
  from mark_all_read_correct [OF this, of 3 "\<lambda>_. 9" "\<lambda>_. 9"] show ?thesis
    by (auto simp: mns_create_def mns_new_def mns_unread_count_def notification_work_package_def
        notification_new_def notification_is_unread_def Let_def)
qed

text \<open>
  As the code stands, nobody hears of a new work package: no operation of the store writes the
  settings, so everybody has the default settings, and these leave out the type
  \<open>WorkPackageCreated\<close> that \<open>on_created\<close> sends.  Every watcher but the author yields an error, and
  neither the store nor the queue changes.
\<close>

theorem created_notifications_reach_nobody:
  "mns_settings mns_new = [] \<and>
   (case mns_create n s of (_, _, s') \<Rightarrow> mns_settings s' = mns_settings s) \<and>
   mns_settings (snd (mns_update n s)) = mns_settings s \<and>
   mns_settings (snd (mns_delete i s)) = mns_settings s \<and>
   mns_settings (snd (mns_mark_all_read c1 c2 u s)) = mns_settings s \<and>
   on_created mns_get_settings mns_create enqueue args disp env wp project author watchers (s\<lparr>mns_settings := []\<rparr>, q) =
     (map (\<lambda>_. Err (NtDelivery ''User has disabled this notification type'')) (filter (\<lambda>w. w \<noteq> author) watchers),
      s\<lparr>mns_settings := []\<rparr>, q)"
proof -
  have refused: "notify mns_get_settings mns_create enqueue args disp e w WorkPackageCreated ReasonWatched ''WorkPackage'' wp
      (Some author) (Some project) (s\<lparr>mns_settings := []\<rparr>, q) =
      (Err (NtDelivery ''User has disabled this notification type''), s\<lparr>mns_settings := []\<rparr>, q)" for w e
    by (simp add: notify_def mns_get_settings_def should_notify_def settings_for_user_def settings_default_def)
  have "notify_others (\<lambda>k w. notify mns_get_settings mns_create enqueue args disp (env k) w WorkPackageCreated
        ReasonWatched ''WorkPackage'' wp (Some author) (Some project)) author k watchers (s\<lparr>mns_settings := []\<rparr>, q) =
      (map (\<lambda>_. Err (NtDelivery ''User has disabled this notification type'')) (filter (\<lambda>w. w \<noteq> author) watchers),
       s\<lparr>mns_settings := []\<rparr>, q)" for k
    by (induction watchers arbitrary: k) (simp_all add: refused)
  then show ?thesis
    by (simp add: on_created_def mns_new_def mns_create_def mns_update_def mns_delete_def mns_mark_all_read_def
        Let_def split: option.split)
qed

text \<open>The job that an assignment queues, and the notification that it names.\<close>

definition assigned_job :: "'v \<Rightarrow> notify_env \<Rightarrow> 'v job" where
  "assigned_job arguments env =
     \<lparr>job_id = ne_job_uuid env, job_type = ''send_notification_email'', job_queue_name = ''mailers'',
      job_args = arguments, job_status = JPending, job_priority = PrioNormal, job_retries = 0, job_max_retries = 3,
      job_error = None, job_run_at = None, job_created_at = ne_job_now env, job_started_at = None, job_finished_at = None\<rparr>"

definition assigned_notification :: "Id \<Rightarrow> Id \<Rightarrow> Id \<Rightarrow> Id \<Rightarrow> Id \<Rightarrow> timestamp \<Rightarrow> notification" where
  "assigned_notification i wp project actor assignee now =
     \<lparr>nt_id = Some i, nt_recipient_id = assignee, nt_actor_id = Some actor, nt_type = WorkPackageAssigned,
      nt_reason = ReasonAssigned, nt_resource_type = ''WorkPackage'', nt_resource_id = wp, nt_project_id = Some project,
      nt_journal_id = None, nt_read_at = None, nt_mail_sent_at = None, nt_created_at = now, nt_updated_at = now\<rparr>"

lemma assignment_queues_job:
  assumes "mns_inv s" "mns_room s" "mjq_inv q" "hm_get (mns_settings s) assignee = None"
  shows "\<exists>s' q'. on_assigned mns_get_settings mns_create mjq_enqueue args disp env wp project actor assignee (s, q) =
      (Ok \<lparr>ev_notification = assigned_notification (mns_next_id s) wp project actor assignee (ne_now env),
           ev_delivery_results = deliver_all disp (assigned_notification (mns_next_id s) wp project actor assignee (ne_now env)),
           ev_timestamp = ne_end env\<rparr>, s', q') \<and>
    mns_inv s' \<and> mns_note s' = (mns_note s)(mns_next_id s \<mapsto> assigned_notification (mns_next_id s) wp project actor assignee (ne_now env)) \<and>
    mjq_inv q' \<and>
    hm_get (mjq_jobs q') = (hm_get (mjq_jobs q))(ne_job_uuid env \<mapsto> assigned_job (args (Some (mns_next_id s))) env)"
proof -
  have st: "mns_setting s assignee = settings_default\<lparr>ns_user_id := assignee\<rparr>"
    by (simp add: mns_setting_def assms(4) settings_for_user_def)
  have "should_notify (mns_setting s assignee) WorkPackageAssigned ReasonAssigned (Some project)"
    by (simp add: st should_notify_def settings_default_def)
  from memory_notifier.notify_accepted [OF assms(1-3) this, of args disp env "''WorkPackage''" wp "Some actor"]
  show ?thesis
    by (simp add: on_assigned_def notification_for_record assigned_notification_def st settings_default_def
        email_job_def job_with_queue_def job_new_def assigned_job_def) blast
qed

lemma assigned_job_is_next:
  assumes inv: "mjq_inv q'" and jobs: "hm_get (mjq_jobs q') = (hm_get (mjq_jobs q))(ne_job_uuid env \<mapsto> assigned_job a env)"
    and others: "\<forall>j. stored q j \<and> ready_in JPending c1 ''mailers'' j \<and> job_id j \<noteq> ne_job_uuid env \<longrightarrow> job_priority j < PrioNormal"
  shows "mjq_dequeue c1 c2 now ''mailers'' q' = (Ok (Some (job_mark_running now (assigned_job a env))),
    q'\<lparr>mjq_jobs := hm_insert (ne_job_uuid env) (job_mark_running now (assigned_job a env)) (mjq_jobs q')\<rparr>)"
  using inv
proof (cases rule: mjq_dequeue_cases [of q' c1 "''mailers''" c2 now])
  case (pending j)
  have mine: "stored q' (assigned_job a env)" "ready_in JPending c1 ''mailers'' (assigned_job a env)"
    by (simp_all add: jobs ready_in_def assigned_job_def job_is_ready_def)
  from pending(3) mine have "PrioNormal \<le> job_priority j" by (force simp: assigned_job_def)
  with others pending(1,2) have "job_id j = ne_job_uuid env" by (cases "job_id j = ne_job_uuid env") (auto simp: jobs)
  with pending(1) have "j = assigned_job a env" by (simp add: jobs)
  with pending(4) show ?thesis by (simp add: assigned_job_def)
qed (auto simp: jobs ready_in_def assigned_job_def job_is_ready_def dest!: spec [of _ "assigned_job a env"])

text \<open>
  C33. From an assignment to the mailer.  For an assignee without settings of their own, and as long as there are identities left, assigning a work package
  stores one notification for the assignee under a fresh identity and puts exactly one job into the queue under the UUID drawn for
  it, for the mailers and of normal priority, which names that notification; all other notifications and jobs stay.  When no other pending job of the mailers that is ready has
  normal priority or more, the next worker of the queue \<open>mailers\<close> takes this job and runs its handler on the
  object that names the notification: the job is completed when the handler succeeds, and scheduled for
  another attempt two minutes later with the handler's error when it fails (or the worker panics, because the time of that
  attempt is out of range, and the job stays running); all other jobs stay as they were.
\<close>

theorem assignment_reaches_the_mailer:
  assumes "mns_inv s" "mns_room s" "mjq_inv q" "hm_get (mns_settings s) assignee = None"
    and "\<forall>j. stored q j \<and> ready_in JPending c1 ''mailers'' j \<and> job_id j \<noteq> ne_job_uuid env \<longrightarrow> job_priority j < PrioNormal"
  shows "(case on_assigned mns_get_settings mns_create mjq_enqueue args disp env wp project actor assignee (s, q) of
      (r, s', q1) \<Rightarrow> \<not> isl r \<and> mns_inv s' \<and> mns_note s (mns_next_id s) = None \<and>
        mns_note s' = (mns_note s)(mns_next_id s \<mapsto> assigned_notification (mns_next_id s) wp project actor assignee (ne_now env)) \<and>
        hm_get (mjq_jobs q1) = (hm_get (mjq_jobs q))(ne_job_uuid env \<mapsto> assigned_job (args (Some (mns_next_id s))) env) \<and>
        (case process_one (mjq_dequeue c1 c2 now ''mailers'') mjq_update
           (run_job add now1 now2 (job_worker_register ''send_notification_email'' handler (job_worker_new ''mailers'')))
           (\<lambda>q. q) q1 of
         (outcome, q2) \<Rightarrow>
           (case handler (args (Some (mns_next_id s))) of
              Inr _ \<Rightarrow> outcome = Some (Ok True) \<and>
                hm_get (mjq_jobs q2) = (hm_get (mjq_jobs q))(ne_job_uuid env \<mapsto>
                  (assigned_job (args (Some (mns_next_id s))) env)
                    \<lparr>job_status := JCompleted, job_started_at := Some now, job_finished_at := Some now1\<rparr>)
            | Inl e \<Rightarrow> (case add now2 120 of
                None \<Rightarrow> outcome = None \<and>
                  hm_get (mjq_jobs q2) = (hm_get (mjq_jobs q))(ne_job_uuid env \<mapsto>
                    (assigned_job (args (Some (mns_next_id s))) env)\<lparr>job_status := JRunning, job_started_at := Some now\<rparr>)
              | Some t \<Rightarrow> outcome = Some (Ok True) \<and>
                  hm_get (mjq_jobs q2) = (hm_get (mjq_jobs q))(ne_job_uuid env \<mapsto>
                    (assigned_job (args (Some (mns_next_id s))) env)
                      \<lparr>job_status := JRetrying, job_retries := 1, job_run_at := Some t,
                       job_error := Some (job_error_to_string e), job_started_at := Some now, job_finished_at := Some now1\<rparr>)))))"
proof -
  let ?job = "assigned_job (args (Some (mns_next_id s))) env"
  let ?w = "job_worker_register ''send_notification_email'' handler (job_worker_new ''mailers'')"
  from assignment_queues_job [OF assms(1-4), of args disp env wp project actor]
  obtain r s' q1 where run: "on_assigned mns_get_settings mns_create mjq_enqueue args disp env wp project actor assignee (s, q) = (r, s', q1)"
    and r: "\<not> isl r" "mns_inv s'"
      "mns_note s' = (mns_note s)(mns_next_id s \<mapsto> assigned_notification (mns_next_id s) wp project actor assignee (ne_now env))"
    and q1: "mjq_inv q1" "hm_get (mjq_jobs q1) = (hm_get (mjq_jobs q))(ne_job_uuid env \<mapsto> ?job)" by auto
  note taken = assigned_job_is_next [OF q1 assms(5), of c2 now]
  have delay: "retry_delay 1 = 120" by (simp add: retry_delay_def)
  show ?thesis
    unfolding run prod.case
    using r q1 memory_notifications.fresh [OF assms(1)]
    by (simp add: process_one_def taken run_job_def job_worker_register_def job_worker_new_def job_mark_running_def
        job_mark_completed_def job_mark_failed_def job_can_retry_def mjq_update_def assigned_job_def delay Let_def
        split: sum.split option.split)
qed

definition lesser_mail :: "unit memory_job_queue" where
  "lesser_mail = snd (mjq_enqueue (job_with_priority PrioLow (job_with_queue ''mailers'' (job_new ''old'' 0 ''Mail'' ()))) mjq_new)"

theorem assignment_reaches_the_mailer_witness:
  "case on_assigned mns_get_settings mns_create mjq_enqueue (\<lambda>_. ()) []
      \<lparr>ne_now = 5, ne_job_uuid = ''j'', ne_job_now = 6, ne_end = 7\<rparr> 8 2 1 3 (mns_new, lesser_mail) of
    (r, s', q1) \<Rightarrow> \<not> isl r \<and>
      (case process_one (mjq_dequeue (\<lambda>_. 9) (\<lambda>_. 9) 9 ''mailers'') mjq_update
         (run_job (\<lambda>t d. Some (t + sint d)) 10 11
           (job_worker_register ''send_notification_email'' (\<lambda>_. Err (JobFailed ''no server'')) (job_worker_new ''mailers'')))
         (\<lambda>q. q) q1 of
       (outcome, q2) \<Rightarrow> outcome = Some (Ok True) \<and>
         map_option job_run_at (hm_get (mjq_jobs q2) ''j'') = Some (Some 131) \<and>
         hm_get (mjq_jobs q2) ''old'' = hm_get (mjq_jobs lesser_mail) ''old'')"
proof -
  have inv: "mns_inv mns_new" "mns_room mns_new" "mjq_inv lesser_mail" "hm_get (mns_settings mns_new) 3 = None"
    by (simp_all add: mns_inv_def mns_room_def mns_new_def mjq_inv_def lesser_mail_def mjq_enqueue_def mjq_new_def
        job_with_priority_def job_with_queue_def job_new_def hm_ok_def tab_ok_def)
  have less: "\<forall>j. stored lesser_mail j \<and> ready_in JPending (\<lambda>_. 9) ''mailers'' j \<and>
      job_id j \<noteq> ne_job_uuid \<lparr>ne_now = 5, ne_job_uuid = ''j'', ne_job_now = 6, ne_end = 7\<rparr> \<longrightarrow> job_priority j < PrioNormal"
    by (auto simp: lesser_mail_def mjq_enqueue_def mjq_new_def job_with_priority_def job_with_queue_def job_new_def
        less_job_priority_def split: if_splits)
  from assignment_reaches_the_mailer [OF inv less, where args = "\<lambda>_. ()" and disp = "[]" and wp = 8 and project = 2 and
      actor = 1 and ?c2.0 = "\<lambda>_. 9" and now = 9 and add = "\<lambda>t d. Some (t + sint d)" and ?now1.0 = 10 and ?now2.0 = 11 and
      handler = "\<lambda>_. Err (JobFailed ''no server'')"]
  show ?thesis by (auto split: prod.splits)
qed

end
