(* ===== verification/Email.thy ===== *)
theory Email
  imports Notifications
begin

text \<open>
  The e-mail messages of op-notifications (email.rs): addresses, messages, the rendering of a
  notification and of a digest, and the three senders.  The JSON payload of the Microsoft Graph
  sender is not modelled: it is built after a step that always fails.
\<close>

subsection \<open>Addresses and messages\<close>

datatype email_error =
    SendFailed string | EmailInvalidRecipient string | TemplateError string | SmtpError string | EmailRateLimited

fun email_error_to_string :: "email_error \<Rightarrow> string" where
  "email_error_to_string (SendFailed s) = ''Send failed: '' @ s"
| "email_error_to_string (EmailInvalidRecipient s) = ''Invalid recipient: '' @ s"
| "email_error_to_string (TemplateError s) = ''Template error: '' @ s"
| "email_error_to_string (SmtpError s) = ''SMTP error: '' @ s"
| "email_error_to_string EmailRateLimited = ''Rate limited''"

record email_address =
  ea_email :: string
  ea_name :: "string option"

definition email_address_new :: "string \<Rightarrow> email_address" where
  "email_address_new email = \<lparr>ea_email = email, ea_name = None\<rparr>"

definition email_address_with_name :: "string \<Rightarrow> email_address \<Rightarrow> email_address" where
  "email_address_with_name name a = a\<lparr>ea_name := Some name\<rparr>"

definition to_rfc5322 :: "email_address \<Rightarrow> string" where
  "to_rfc5322 a = (case ea_name a of
      Some name \<Rightarrow> name @ '' <'' @ ea_email a @ ''>''
    | None \<Rightarrow> ea_email a)"

record email_message =
  em_id :: string
  em_from :: email_address
  em_to :: "email_address list"
  em_cc :: "email_address list"
  em_bcc :: "email_address list"
  em_reply_to :: "email_address option"
  em_subject :: string
  em_text_body :: string
  em_html_body :: "string option"
  em_headers :: "(string \<times> string) list"
  em_created_at :: timestamp

definition email_message_new ::
    "string \<Rightarrow> timestamp \<Rightarrow> email_address \<Rightarrow> email_address list \<Rightarrow> string \<Rightarrow> string \<Rightarrow> email_message" where
  "email_message_new uuid now from_address to_addresses subject text_body =
     \<lparr>em_id = uuid, em_from = from_address, em_to = to_addresses, em_cc = [], em_bcc = [], em_reply_to = None,
      em_subject = subject, em_text_body = text_body, em_html_body = None, em_headers = [],
      em_created_at = now\<rparr>"

definition email_with_html :: "string \<Rightarrow> email_message \<Rightarrow> email_message" where
  "email_with_html html m = m\<lparr>em_html_body := Some html\<rparr>"

definition email_cc :: "email_address list \<Rightarrow> email_message \<Rightarrow> email_message" where
  "email_cc addresses m = m\<lparr>em_cc := addresses\<rparr>"

definition email_reply_to :: "email_address \<Rightarrow> email_message \<Rightarrow> email_message" where
  "email_reply_to address m = m\<lparr>em_reply_to := Some address\<rparr>"

definition email_header :: "string \<Rightarrow> string \<Rightarrow> email_message \<Rightarrow> email_message" where
  "email_header name v m = m\<lparr>em_headers := em_headers m @ [(name, v)]\<rparr>"

definition with_openproject_headers :: "i64 option \<Rightarrow> i64 \<Rightarrow> email_message \<Rightarrow> email_message" where
  "with_openproject_headers project_id resource_id m =
     m\<lparr>em_headers := em_headers m @ [(''X-OpenProject-Type'', ''WorkPackage'')] @
        (case project_id of Some pid \<Rightarrow> [(''X-OpenProject-Project'', show_i64 pid)] | None \<Rightarrow> []) @
        [(''X-OpenProject-Id'', show_i64 resource_id)]\<rparr>"

subsection \<open>Rendering\<close>

record email_renderer =
  er_base_url :: string
  er_from_address :: email_address

definition email_renderer_new :: "string \<Rightarrow> email_address \<Rightarrow> email_renderer" where
  "email_renderer_new base_url from_address = \<lparr>er_base_url = base_url, er_from_address = from_address\<rparr>"

text \<open>The derived \<open>Debug\<close> text of a notification type is the name of its variant.\<close>

fun notification_type_debug :: "notification_type \<Rightarrow> string" where
  "notification_type_debug WorkPackageCreated = ''WorkPackageCreated''"
| "notification_type_debug WorkPackageUpdated = ''WorkPackageUpdated''"
| "notification_type_debug WorkPackageCommented = ''WorkPackageCommented''"
| "notification_type_debug WorkPackageAssigned = ''WorkPackageAssigned''"
| "notification_type_debug WorkPackageMentioned = ''WorkPackageMentioned''"
| "notification_type_debug WorkPackageDueDateAlert = ''WorkPackageDueDateAlert''"
| "notification_type_debug WorkPackageOverdue = ''WorkPackageOverdue''"
| "notification_type_debug ProjectCreated = ''ProjectCreated''"
| "notification_type_debug MembershipAdded = ''MembershipAdded''"
| "notification_type_debug MembershipUpdated = ''MembershipUpdated''"
| "notification_type_debug DocumentAdded = ''DocumentAdded''"
| "notification_type_debug NewsAdded = ''NewsAdded''"
| "notification_type_debug WikiPageUpdated = ''WikiPageUpdated''"
| "notification_type_debug MessagePosted = ''MessagePosted''"
| "notification_type_debug FileUploaded = ''FileUploaded''"
| "notification_type_debug MeetingInvitation = ''MeetingInvitation''"
| "notification_type_debug ReminderNotice = ''Reminder''"

definition nl :: string where
  "nl = [CHR 0x0A]"

definition render_subject :: "notification \<Rightarrow> string" where
  "render_subject n =
     (let i = show_i64 (nt_resource_id n)
      in (case nt_type n of
            WorkPackageCreated \<Rightarrow> ''[OpenProject] Work Package #'' @ i @ '' created''
          | WorkPackageUpdated \<Rightarrow> ''[OpenProject] Work Package #'' @ i @ '' updated''
          | WorkPackageCommented \<Rightarrow> ''[OpenProject] New comment on Work Package #'' @ i
          | WorkPackageAssigned \<Rightarrow> ''[OpenProject] Work Package #'' @ i @ '' assigned to you''
          | WorkPackageMentioned \<Rightarrow> ''[OpenProject] You were mentioned in Work Package #'' @ i
          | WorkPackageDueDateAlert \<Rightarrow> ''[OpenProject] Work Package #'' @ i @ '' is due soon''
          | WorkPackageOverdue \<Rightarrow> ''[OpenProject] Work Package #'' @ i @ '' is overdue''
          | MembershipAdded \<Rightarrow> ''[OpenProject] You have been added to a project''
          | _ \<Rightarrow> ''[OpenProject] '' @ nt_resource_type n @ '' notification''))"

definition render_text_body :: "email_renderer \<Rightarrow> notification \<Rightarrow> string" where
  "render_text_body r n =
     ''You have a new notification in OpenProject.'' @ nl @ nl @
     ''Type: '' @ notification_type_debug (nt_type n) @ nl @
     ''Resource: '' @ nt_resource_type n @ '' #'' @ show_i64 (nt_resource_id n) @ nl @
     (case nt_actor_id n of Some actor_id \<Rightarrow> ''By: User #'' @ show_i64 actor_id @ nl | None \<Rightarrow> []) @
     nl @ ''View details: '' @ er_base_url r @ ''/work_packages/'' @ show_i64 (nt_resource_id n) @ nl @
     nl @ ''---'' @ nl @ ''You received this email because you are subscribed to notifications.'' @ nl"

definition render_html_body :: "email_renderer \<Rightarrow> notification \<Rightarrow> string" where
  \<open>render_html_body r n = join nl
     [''<!DOCTYPE html>'',
      ''<html>'',
      ''<head>'',
      ''    <meta charset="utf-8">'',
      ''    <style>'',
      ''        body { font-family: -apple-system, BlinkMacSystemFont, 'Segoe UI', Roboto, sans-serif; }'',
      ''        .container { max-width: 600px; margin: 0 auto; padding: 20px; }'',
      ''        .header { background: #1a67a3; color: white; padding: 20px; }'',
      ''        .content { padding: 20px; background: #f5f5f5; }'',
      ''        .footer { padding: 20px; font-size: 12px; color: #666; }'',
      ''        .button { display: inline-block; padding: 10px 20px; background: #1a67a3; color: white; text-decoration: none; border-radius: 4px; }'',
      ''    </style>'',
      ''</head>'',
      ''<body>'',
      ''    <div class="container">'',
      ''        <div class="header">'',
      ''            <h1>OpenProject Notification</h1>'',
      ''        </div>'',
      ''        <div class="content">'',
      ''            <p>'' @ nt_resource_type n @ '' #'' @ show_i64 (nt_resource_id n) @ ''</p>'',
      ''            <p><a class="button" href="'' @ er_base_url r @ ''/work_packages/'' @ show_i64 (nt_resource_id n) @ ''">View in OpenProject</a></p>'',
      ''        </div>'',
      ''        <div class="footer">'',
      ''            <p>You received this email because you are subscribed to notifications.</p>'',
      ''        </div>'',
      ''    </div>'',
      ''</body>'',
      ''</html>'']\<close>

definition render_notification ::
    "string \<Rightarrow> timestamp \<Rightarrow> email_renderer \<Rightarrow> notification \<Rightarrow> string \<Rightarrow> string option \<Rightarrow> email_message" where
  "render_notification uuid now r n recipient_email recipient_name =
     (let to_address = email_address_new recipient_email;
          to_address = (case recipient_name of
            Some name \<Rightarrow> email_address_with_name name to_address | None \<Rightarrow> to_address)
      in with_openproject_headers (nt_project_id n) (nt_resource_id n)
           (email_with_html (render_html_body r n)
             (email_message_new uuid now (er_from_address r) [to_address] (render_subject n)
               (render_text_body r n))))"

subsection \<open>Digests\<close>

record digest_builder =
  dg_notifications :: "notification list"
  dg_renderer :: email_renderer

definition digest_new :: "email_renderer \<Rightarrow> digest_builder" where
  "digest_new r = \<lparr>dg_notifications = [], dg_renderer = r\<rparr>"

definition digest_add :: "notification \<Rightarrow> digest_builder \<Rightarrow> digest_builder" where
  "digest_add n d = d\<lparr>dg_notifications := dg_notifications d @ [n]\<rparr>"

definition digest_line :: "notification \<Rightarrow> string" where
  "digest_line n =
     ''- '' @ notification_type_debug (nt_type n) @ '': '' @ nt_resource_type n @ '' #'' @ show_i64 (nt_resource_id n)"

definition digest_heading :: "string \<Rightarrow> nat \<Rightarrow> string" where
  "digest_heading period count =
     ''Here's your '' @ period @ '' OpenProject digest with '' @ show_nat count @ '' notifications:''"

definition digest_build ::
    "string \<Rightarrow> timestamp \<Rightarrow> digest_builder \<Rightarrow> string \<Rightarrow> string option \<Rightarrow> string \<Rightarrow> email_message option" where
  "digest_build uuid now d recipient_email recipient_name period =
     (if dg_notifications d = [] then None
      else (let count = show_nat (length (dg_notifications d));
          subject = ''[OpenProject] Your '' @ period @ '' digest ('' @ count @ '' notifications)'';
          text_body = digest_heading period (length (dg_notifications d)) @ nl @ nl @
            concat (map (\<lambda>n. digest_line n @ nl) (dg_notifications d));
          to_address = email_address_new recipient_email;
          to_address = (case recipient_name of
            Some name \<Rightarrow> email_address_with_name name to_address | None \<Rightarrow> to_address)
        in Some (email_message_new uuid now (er_from_address (dg_renderer d)) [to_address] subject text_body)))"

subsection \<open>Senders\<close>

text \<open>The console sender gives what it prints and its answer.\<close>

definition console_send :: "email_message \<Rightarrow> string \<times> (string, email_error) result" where
  "console_send m =
     (''=== EMAIL ==='' @ nl @
      ''From: '' @ to_rfc5322 (em_from m) @ nl @
      ''To: '' @ join '', '' (map to_rfc5322 (em_to m)) @ nl @
      (if em_cc m \<noteq> [] then ''CC: '' @ join '', '' (map to_rfc5322 (em_cc m)) @ nl else []) @
      ''Subject: '' @ em_subject m @ nl @
      ''---'' @ nl @ em_text_body m @ nl @
      (case em_html_body m of Some html \<Rightarrow> ''--- HTML ---'' @ nl @ html @ nl | None \<Rightarrow> []) @
      ''============='' @ nl,
      Ok (em_id m))"

record ms_graph_config =
  mg_tenant_id :: string
  mg_client_id :: string
  mg_client_secret :: string
  mg_sender :: string

definition ms_graph_from_env :: "(string \<Rightarrow> string option) \<Rightarrow> ms_graph_config option" where
  "ms_graph_from_env env_var =
     (case env_var ''MS_GRAPH_TENANT_ID'' of None \<Rightarrow> None | Some tenant \<Rightarrow>
     (case env_var ''MS_GRAPH_CLIENT_ID'' of None \<Rightarrow> None | Some client \<Rightarrow>
     (case env_var ''MS_GRAPH_CLIENT_SECRET'' of None \<Rightarrow> None | Some secret \<Rightarrow>
     (case env_var ''MS_GRAPH_SENDER'' of None \<Rightarrow> None | Some sender \<Rightarrow>
        Some \<lparr>mg_tenant_id = tenant, mg_client_id = client, mg_client_secret = secret, mg_sender = sender\<rparr>))))"

definition ms_graph_get_access_token :: "ms_graph_config \<Rightarrow> (string, email_error) result" where
  "ms_graph_get_access_token c =
     Err (SendFailed ''MS Graph requires HTTP client implementation (reqwest)'')"

definition ms_graph_send :: "ms_graph_config \<Rightarrow> email_message \<Rightarrow> (string, email_error) result" where
  "ms_graph_send c m =
     (case ms_graph_get_access_token c of
        Err e \<Rightarrow> Err e
      | Ok _ \<Rightarrow> Err (SendFailed ''MS Graph requires HTTP client implementation (reqwest)''))"

definition ms_graph_is_configured :: "ms_graph_config \<Rightarrow> bool" where
  "ms_graph_is_configured c \<longleftrightarrow>
     mg_tenant_id c \<noteq> [] \<and> mg_client_id c \<noteq> [] \<and> mg_client_secret c \<noteq> [] \<and> mg_sender c \<noteq> []"

type_synonym memory_email_sender = "email_message list"

definition memory_send ::
    "email_message \<Rightarrow> memory_email_sender \<Rightarrow> (string, email_error) result \<times> memory_email_sender" where
  "memory_send m sent = (Ok (em_id m), sent @ [m])"

definition memory_clear :: "memory_email_sender \<Rightarrow> memory_email_sender" where
  "memory_clear sent = []"

subsection \<open>What the messages say\<close>

lemma no_newline_in_numbers: "CHR 0x0A \<notin> set (show_nat k)" "CHR 0x0A \<notin> set (show_int i)"
proof -
  show "CHR 0x0A \<notin> set (show_nat k)" for k
    using show_nat_chars [of k] by (force simp: is_digit_def)
  then show "CHR 0x0A \<notin> set (show_int i)" by (simp add: show_int_def)
qed

lemma digest_line_no_newline: "CHR 0x0A \<notin> set (nt_resource_type n) \<Longrightarrow> CHR 0x0A \<notin> set (digest_line n)"
  by (cases "nt_type n") (simp_all add: digest_line_def no_newline_in_numbers)

lemma split_lines:
  "\<forall>x \<in> set xs. CHR 0x0A \<notin> set (f x) \<Longrightarrow>
    split_char (CHR 0x0A) (concat (map (\<lambda>x. f x @ nl) xs)) = map f xs @ [[]]"
  by (induction xs) (simp_all add: nl_def split_char_append)

text \<open>
  The digest: there is one exactly when there is something to tell, and its text has, after a
  heading with the right count, one line for each notification, in the order they were added, and
  nothing else.  It goes to the recipient alone.
\<close>

theorem digest_lists_every_notification:
  assumes "CHR 0x0A \<notin> set period" and "\<forall>n \<in> set ns. CHR 0x0A \<notin> set (nt_resource_type n)"
  shows "(case digest_build uuid now (fold digest_add ns (digest_new r)) email name period of
      None \<Rightarrow> ns = []
    | Some m \<Rightarrow> ns \<noteq> [] \<and>
        split_char (CHR 0x0A) (em_text_body m) =
          [digest_heading period (length ns), []] @ map digest_line ns @ [[]] \<and>
        em_to m = [\<lparr>ea_email = email, ea_name = name\<rparr>] \<and> em_cc m = [] \<and> em_bcc m = [] \<and>
        em_from m = er_from_address r)"
proof -
  have added: "fold digest_add ns d = d\<lparr>dg_notifications := dg_notifications d @ ns\<rparr>" for d
    by (induction ns arbitrary: d) (simp_all add: digest_add_def)
  have lines: "split_char (CHR 0x0A) (concat (map (\<lambda>n. digest_line n @ nl) ns)) = map digest_line ns @ [[]]"
    using assms(2) by (intro split_lines) (simp add: digest_line_no_newline)
  have "CHR 0x0A \<notin> set (digest_heading period (length ns))"
    using assms(1) by (simp add: digest_heading_def no_newline_in_numbers)
  note heading = split_char_append [OF this]
  show ?thesis
    by (simp add: digest_build_def added digest_new_def email_message_new_def email_address_new_def
        email_address_with_name_def nl_def heading lines [unfolded nl_def] Let_def split: option.split)
qed

theorem digest_lists_every_notification_witness:
  "map_option (\<lambda>m. length (split_char (CHR 0x0A) (em_text_body m)))
     (digest_build ''u'' 0 (fold digest_add [notification_work_package 5 3 WorkPackageAssigned ReasonAssigned 8]
       (digest_new (email_renderer_new ''b'' (email_address_new ''f'')))) ''e'' None ''daily'') = Some 4"
  using digest_lists_every_notification [where period = "''daily''" and
      ns = "[notification_work_package 5 3 WorkPackageAssigned ReasonAssigned 8]" and
      uuid = "''u''" and now = 0 and r = "email_renderer_new ''b'' (email_address_new ''f'')" and
      email = "''e''" and name = None]
  by (auto simp: notification_work_package_def notification_new_def split: option.splits)

text \<open>
  Every notification is rendered as if it were about a work package: the headers name the type
  \<open>WorkPackage\<close>, and the link leads to the work package with the resource's number.
\<close>

lemma rendered_as_work_package:
  assumes "nt_resource_type n \<noteq> ''WorkPackage''"
  shows "(''X-OpenProject-Type'', ''WorkPackage'') \<in> set (em_headers (render_notification uuid now r n email name)) \<and>
    contains_str (em_text_body (render_notification uuid now r n email name))
      (er_base_url r @ ''/work_packages/'' @ show_i64 (nt_resource_id n))"
proof -
  obtain a b where "render_text_body r n = a @ (er_base_url r @ ''/work_packages/'' @ show_i64 (nt_resource_id n)) @ b"
    unfolding render_text_body_def by (metis append.assoc)
  then show ?thesis
    by (auto simp: render_notification_def with_openproject_headers_def email_with_html_def
        email_message_new_def contains_str_iff Let_def simp del: append_assoc)
qed

text \<open>
  The name of an address is put in front of it as it is: a name with a comma makes one recipient
  read as two.
\<close>

lemma rfc5322_names_not_quoted:
  "to_rfc5322 \<lparr>ea_email = ''bob@b.org'', ea_name = Some ''eve@e.org, Bob''\<rparr> =
     join '', '' (map to_rfc5322 [\<lparr>ea_email = ''eve@e.org'', ea_name = None\<rparr>,
       \<lparr>ea_email = ''bob@b.org'', ea_name = Some ''Bob''\<rparr>])"
  by (simp add: to_rfc5322_def)

end
