(* ===== verification/Storage.thy ===== *)
theory Storage
  imports Tables
begin

text \<open>
  The storage backends of op-attachments (storage.rs): the local file system with its guard against
  directory traversal, the in-memory storage, the stub of S3, and the names under which files are
  stored.  SHA-256, the guessing of MIME types, random UUIDs, the clock and the operating system's
  file operations are parameters.
\<close>

subsection \<open>Paths\<close>

text \<open>
  A \<open>std::path::Path\<close> on Unix is what \<open>components()\<close> makes of it, and its equality compares
  just that: repeated separators and inner \<open>.\<close> disappear.
\<close>

record path =
  path_absolute :: bool
  path_components :: "string list"

definition path_of :: "string \<Rightarrow> path" where
  "path_of s =
     (let parts = split_char (CHR ''/'') s;
          normal = filter (\<lambda>c. c \<noteq> [] \<and> c \<noteq> ''.'') parts
      in if starts_with s ''/'' then \<lparr>path_absolute = True, path_components = normal\<rparr>
         else \<lparr>path_absolute = False, path_components = (if hd parts = ''.'' then [''.''] else []) @ normal\<rparr>)"

definition path_join :: "path \<Rightarrow> string \<Rightarrow> path" where
  "path_join p s =
     (let q = path_of s
      in if path_absolute q \<or> p = \<lparr>path_absolute = False, path_components = []\<rparr> then q
         else p\<lparr>path_components := path_components p @ filter (\<lambda>c. c \<noteq> ''.'') (path_components q)\<rparr>)"

definition path_parent :: "path \<Rightarrow> path option" where
  "path_parent p =
     (if path_components p = [] then None else Some (p\<lparr>path_components := butlast (path_components p)\<rparr>))"

definition path_file_name :: "path \<Rightarrow> string option" where
  "path_file_name p =
     (if path_components p = [] then None
      else let c = last (path_components p) in if c = ''..'' \<or> c = ''.'' then None else Some c)"

text \<open>What follows the last dot of the file name, unless that dot is the first character.\<close>

definition path_extension :: "path \<Rightarrow> string option" where
  "path_extension p =
     (case path_file_name p of
        None \<Rightarrow> None
      | Some f \<Rightarrow> (case split_once (CHR ''.'') (rev f) of
            None \<Rightarrow> None
          | Some (after, before) \<Rightarrow> if before = [] then None else Some (rev after)))"

subsection \<open>The interface of the backends\<close>

datatype storage_error =
    StNotFound string | StIoError string | StPermissionDenied string | StLimitExceeded
  | StInvalidPath string | StBackendError string

fun storage_error_to_string :: "storage_error \<Rightarrow> string" where
  "storage_error_to_string (StNotFound s) = ''File not found: '' @ s"
| "storage_error_to_string (StIoError s) = ''IO error: '' @ s"
| "storage_error_to_string (StPermissionDenied s) = ''Permission denied: '' @ s"
| "storage_error_to_string StLimitExceeded = ''Storage limit exceeded''"
| "storage_error_to_string (StInvalidPath s) = ''Invalid path: '' @ s"
| "storage_error_to_string (StBackendError s) = ''Storage backend error: '' @ s"

record file_metadata =
  fmd_size :: u64
  fmd_content_type :: string
  fmd_digest :: string
  fmd_last_modified :: "timestamp option"

subsection \<open>The local file system\<close>

record local_storage =
  ls_root :: path
  ls_base_url :: string

definition local_storage_new :: "string \<Rightarrow> string \<Rightarrow> local_storage" where
  "local_storage_new root base_url = \<lparr>ls_root = path_of root, ls_base_url = base_url\<rparr>"

definition resolve_path :: "local_storage \<Rightarrow> string \<Rightarrow> (path, storage_error) result" where
  "resolve_path ls key =
     (if contains_str key ''..'' \<or> starts_with key ''/'' \<or> starts_with key [CHR 0x5C]
      then Err (StInvalidPath key)
      else Ok (path_join (ls_root ls) key))"

text \<open>The operations of \<open>tokio::fs\<close> on a file system; an \<open>Err\<close> is an I/O error.\<close>

record 'f file_system =
  fs_exists :: "path \<Rightarrow> 'f \<Rightarrow> bool"
  fs_create_dir_all :: "path \<Rightarrow> 'f \<Rightarrow> (unit, string) result \<times> 'f"
  fs_create :: "path \<Rightarrow> 'f \<Rightarrow> (unit, string) result \<times> 'f"
  fs_write_all :: "path \<Rightarrow> string \<Rightarrow> 'f \<Rightarrow> (unit, string) result \<times> 'f"
  fs_sync_all :: "path \<Rightarrow> 'f \<Rightarrow> (unit, string) result \<times> 'f"
  fs_read_file :: "path \<Rightarrow> 'f \<Rightarrow> (string, string) result"
  fs_remove_file :: "path \<Rightarrow> 'f \<Rightarrow> (unit, string) result \<times> 'f"
  fs_file_metadata :: "path \<Rightarrow> 'f \<Rightarrow> (u64 \<times> timestamp option, string) result"
  fs_copy :: "path \<Rightarrow> path \<Rightarrow> 'f \<Rightarrow> (unit, string) result \<times> 'f"

text \<open>The \<open>?\<close> operator after an operation that changes the file system.\<close>

definition fs_then ::
    "(unit, string) result \<times> 'f \<Rightarrow> ('f \<Rightarrow> ('a, storage_error) result \<times> 'f) \<Rightarrow>
     ('a, storage_error) result \<times> 'f" where
  "fs_then step k = (case step of (Inl e, f) \<Rightarrow> (Err (StIoError e), f) | (Inr _, f) \<Rightarrow> k f)"

definition ensure_parent :: "'f file_system \<Rightarrow> path \<Rightarrow> 'f \<Rightarrow> (unit, string) result \<times> 'f" where
  "ensure_parent fs p f = (case path_parent p of Some parent \<Rightarrow> fs_create_dir_all fs parent f | None \<Rightarrow> (Ok (), f))"

definition local_put ::
    "'f file_system \<Rightarrow> (string \<Rightarrow> string) \<Rightarrow> (string \<Rightarrow> string) \<Rightarrow> timestamp \<Rightarrow> local_storage \<Rightarrow> string \<Rightarrow> string \<Rightarrow> 'f \<Rightarrow>
     (file_metadata, storage_error) result \<times> 'f" where
  "local_put fs digest_of mime now ls key data f =
     (case resolve_path ls key of
        Err e \<Rightarrow> (Err e, f)
      | Ok p \<Rightarrow>
          fs_then (ensure_parent fs p f) (\<lambda>f.
          fs_then (fs_create fs p f) (\<lambda>f.
          fs_then (fs_write_all fs p data f) (\<lambda>f.
          fs_then (fs_sync_all fs p f) (\<lambda>f.
            (Ok \<lparr>fmd_size = of_nat (length data), fmd_content_type = mime key, fmd_digest = digest_of data,
                 fmd_last_modified = Some now\<rparr>, f))))))"

definition local_get ::
    "'f file_system \<Rightarrow> local_storage \<Rightarrow> string \<Rightarrow> 'f \<Rightarrow> (string, storage_error) result" where
  "local_get fs ls key f =
     (case resolve_path ls key of
        Err e \<Rightarrow> Err e
      | Ok p \<Rightarrow>
          if \<not> fs_exists fs p f then Err (StNotFound key)
          else (case fs_read_file fs p f of Err e \<Rightarrow> Err (StIoError e) | Ok data \<Rightarrow> Ok data))"

definition local_delete ::
    "'f file_system \<Rightarrow> local_storage \<Rightarrow> string \<Rightarrow> 'f \<Rightarrow> (unit, storage_error) result \<times> 'f" where
  "local_delete fs ls key f =
     (case resolve_path ls key of
        Err e \<Rightarrow> (Err e, f)
      | Ok p \<Rightarrow>
          if fs_exists fs p f then fs_then (fs_remove_file fs p f) (\<lambda>f. (Ok (), f)) else (Ok (), f))"

definition local_exists ::
    "'f file_system \<Rightarrow> local_storage \<Rightarrow> string \<Rightarrow> 'f \<Rightarrow> (bool, storage_error) result" where
  "local_exists fs ls key f =
     (case resolve_path ls key of Err e \<Rightarrow> Err e | Ok p \<Rightarrow> Ok (fs_exists fs p f))"

definition local_metadata ::
    "'f file_system \<Rightarrow> (string \<Rightarrow> string) \<Rightarrow> (string \<Rightarrow> string) \<Rightarrow> local_storage \<Rightarrow> string \<Rightarrow> 'f \<Rightarrow>
     (file_metadata, storage_error) result" where
  "local_metadata fs digest_of mime ls key f =
     (case resolve_path ls key of
        Err e \<Rightarrow> Err e
      | Ok p \<Rightarrow>
          if \<not> fs_exists fs p f then Err (StNotFound key)
          else (case fs_file_metadata fs p f of
              Err e \<Rightarrow> Err (StIoError e)
            | Ok (len, modified) \<Rightarrow> (case local_get fs ls key f of
                Err e \<Rightarrow> Err e
              | Ok data \<Rightarrow> Ok \<lparr>fmd_size = len, fmd_content_type = mime key, fmd_digest = digest_of data,
                               fmd_last_modified = modified\<rparr>)))"

definition local_url :: "local_storage \<Rightarrow> string \<Rightarrow> (string, storage_error) result" where
  "local_url ls key = Ok (ls_base_url ls @ ''/'' @ key)"

definition local_copy ::
    "'f file_system \<Rightarrow> local_storage \<Rightarrow> string \<Rightarrow> string \<Rightarrow> 'f \<Rightarrow> (unit, storage_error) result \<times> 'f" where
  "local_copy fs ls from_key to_key f =
     (case resolve_path ls from_key of
        Err e \<Rightarrow> (Err e, f)
      | Ok from_path \<Rightarrow> (case resolve_path ls to_key of
          Err e \<Rightarrow> (Err e, f)
        | Ok to_path \<Rightarrow>
            if \<not> fs_exists fs from_path f then (Err (StNotFound from_key), f)
            else fs_then (ensure_parent fs to_path f) (\<lambda>f.
                 fs_then (fs_copy fs from_path to_path f) (\<lambda>f. (Ok (), f)))))"

subsection \<open>The in-memory storage\<close>

type_synonym memory_storage = "(string, string \<times> file_metadata) hashmap"

definition mst_put ::
    "(string \<Rightarrow> string) \<Rightarrow> (string \<Rightarrow> string) \<Rightarrow> timestamp \<Rightarrow> string \<Rightarrow> string \<Rightarrow> memory_storage \<Rightarrow>
     (file_metadata, storage_error) result \<times> memory_storage" where
  "mst_put digest_of mime now key data m =
     (let md = \<lparr>fmd_size = of_nat (length data), fmd_content_type = mime key, fmd_digest = digest_of data,
                fmd_last_modified = Some now\<rparr>
      in (Ok md, hm_insert key (data, md) m))"

definition mst_get :: "string \<Rightarrow> memory_storage \<Rightarrow> (string, storage_error) result" where
  "mst_get key m = (case hm_get m key of Some (data, _) \<Rightarrow> Ok data | None \<Rightarrow> Err (StNotFound key))"

definition mst_delete :: "string \<Rightarrow> memory_storage \<Rightarrow> (unit, storage_error) result \<times> memory_storage" where
  "mst_delete key m = (Ok (), hm_remove key m)"

definition mst_exists :: "string \<Rightarrow> memory_storage \<Rightarrow> (bool, storage_error) result" where
  "mst_exists key m = Ok (hm_get m key \<noteq> None)"

definition mst_metadata :: "string \<Rightarrow> memory_storage \<Rightarrow> (file_metadata, storage_error) result" where
  "mst_metadata key m = (case hm_get m key of Some (_, md) \<Rightarrow> Ok md | None \<Rightarrow> Err (StNotFound key))"

definition mst_url :: "string \<Rightarrow> (string, storage_error) result" where
  "mst_url key = Ok (''/memory/'' @ key)"

text \<open>The read lock is given up before the write lock is taken: \<open>meanwhile\<close> is what happens between.\<close>

definition mst_copy ::
    "(memory_storage \<Rightarrow> memory_storage) \<Rightarrow> string \<Rightarrow> string \<Rightarrow> memory_storage \<Rightarrow>
     (unit, storage_error) result \<times> memory_storage" where
  "mst_copy meanwhile from_key to_key m =
     (case hm_get m from_key of
        None \<Rightarrow> (Err (StNotFound from_key), m)
      | Some entry \<Rightarrow> (Ok (), hm_insert to_key entry (meanwhile m)))"

subsection \<open>S3\<close>

record s3_config =
  s3_bucket :: string
  s3_region :: string
  s3_endpoint :: "string option"
  s3_access_key_id :: string
  s3_secret_access_key :: string
  s3_path_style :: bool

definition s3_config_default :: s3_config where
  "s3_config_default =
     \<lparr>s3_bucket = ''openproject-attachments'', s3_region = ''us-east-1'', s3_endpoint = None,
      s3_access_key_id = [], s3_secret_access_key = [], s3_path_style = False\<rparr>"

definition s3_key_url :: "s3_config \<Rightarrow> string \<Rightarrow> string" where
  "s3_key_url c key =
     (case s3_endpoint c of
        Some endpoint \<Rightarrow>
          if s3_path_style c then endpoint @ ''/'' @ s3_bucket c @ ''/'' @ key
          else s3_bucket c @ ''.'' @ strip_any [''http://''] (strip_any [''https://''] endpoint) @ ''/'' @ key
      | None \<Rightarrow> ''https://'' @ s3_bucket c @ ''.s3.'' @ s3_region c @ ''.amazonaws.com/'' @ key)"

text \<open>Every other operation of the stub: \<open>put\<close>, \<open>get\<close>, \<open>delete\<close>, \<open>exists\<close>, \<open>metadata\<close> and \<open>copy\<close>.\<close>

definition s3_unimplemented :: "('a, storage_error) result" where
  "s3_unimplemented = Err (StBackendError ''S3 not implemented'')"

subsection \<open>Names of stored files\<close>

definition storage_key :: "string \<Rightarrow> string \<Rightarrow> string \<Rightarrow> string" where
  "storage_key uuid date filename = date @ ''/'' @ uuid @ ''/'' @ filename"

definition generate_disk_filename :: "string \<Rightarrow> string \<Rightarrow> string" where
  "generate_disk_filename uuid filename =
     (let ext = (case path_extension (path_of filename) of Some e \<Rightarrow> e | None \<Rightarrow> [])
      in if ext = [] then uuid else uuid @ ''.'' @ ext)"

subsection \<open>Stored files stay under the root\<close>

lemma join_split_char: "join [d] (split_char d s) = s"
proof (induction s)
  case (Cons x s)
  obtain p ps where ps: "split_char d s = p # ps" by (cases "split_char d s") auto
  with Cons show ?case by (cases ps) auto
qed simp

lemma join_part: "c \<in> set xs \<Longrightarrow> \<exists>u v. join sep xs = u @ c @ v"
proof (induction xs)
  case (Cons x xs)
  show ?case
  proof (cases "c = x")
    case True
    then have "join sep (x # xs) = [] @ c @ (if xs = [] then [] else sep @ join sep xs)" by (cases xs) auto
    then show ?thesis by blast
  next
    case False
    with Cons obtain u v where "join sep xs = u @ c @ v" by auto
    moreover have "xs \<noteq> []" using False Cons.prems by auto
    ultimately have "join sep (x # xs) = (x @ sep @ u) @ c @ v" by (cases xs) auto
    then show ?thesis by blast
  qed
qed simp

lemma no_parent_component:
  assumes "\<not> contains_str s ''..''"
  shows "''..'' \<notin> set (path_components (path_of s))"
proof
  assume "''..'' \<in> set (path_components (path_of s))"
  then have "''..'' \<in> set (split_char (CHR ''/'') s)" by (auto simp: path_of_def Let_def split: if_splits)
  from join_part [OF this, of "''/''"] assms show False by (simp add: join_split_char contains_str_iff)
qed

text \<open>
  The keys that are refused, the paths under the root, and file systems that cannot be told apart there:
  two systems agree when every operation does the same in both on the paths under the root, and the creation of directories also
  on the parent of the root, which is asked for when a key names the root itself.
\<close>

definition refused_key :: "string \<Rightarrow> bool" where
  "refused_key key \<longleftrightarrow> (\<exists>u v. key = u @ ''..'' @ v) \<or> (\<exists>v. key = CHR ''/'' # v) \<or> (\<exists>v. key = CHR 0x5C # v)"

definition under_root :: "local_storage \<Rightarrow> path \<Rightarrow> bool" where
  "under_root ls p \<longleftrightarrow> path_absolute p = path_absolute (ls_root ls) \<and>
     (\<exists>cs. path_components p = path_components (ls_root ls) @ cs \<and> ''..'' \<notin> set cs)"

definition agree_under_root :: "local_storage \<Rightarrow> 'f file_system \<Rightarrow> 'f file_system \<Rightarrow> bool" where
  "agree_under_root ls fs fs' \<longleftrightarrow>
     (\<forall>p. under_root ls p \<or> path_parent (ls_root ls) = Some p \<longrightarrow> fs_create_dir_all fs p = fs_create_dir_all fs' p) \<and>
     (\<forall>p. under_root ls p \<longrightarrow> fs_exists fs p = fs_exists fs' p \<and> fs_create fs p = fs_create fs' p \<and>
        fs_write_all fs p = fs_write_all fs' p \<and> fs_sync_all fs p = fs_sync_all fs' p \<and>
        fs_read_file fs p = fs_read_file fs' p \<and> fs_remove_file fs p = fs_remove_file fs' p \<and>
        fs_file_metadata fs p = fs_file_metadata fs' p) \<and>
     (\<forall>p q. under_root ls p \<and> under_root ls q \<longrightarrow> fs_copy fs p q = fs_copy fs' p q)"

lemma resolve_path_cases:
  "(resolve_path ls key = Err (StInvalidPath key) \<and> refused_key key) \<or>
   (\<exists>p. resolve_path ls key = Ok p \<and> under_root ls p \<and> \<not> refused_key key)"
proof -
  have refused: "refused_key key \<longleftrightarrow> contains_str key ''..'' \<or> starts_with key ''/'' \<or> starts_with key [CHR 0x5C]"
    by (simp add: refused_key_def contains_str_iff starts_with_iff)
  show ?thesis
  proof (cases "refused_key key")
    case True
    then show ?thesis by (simp add: resolve_path_def refused [symmetric])
  next
    case False
    then have "\<not> path_absolute (path_of key)" by (simp add: path_of_def Let_def refused)
    with False no_parent_component [of key] show ?thesis
      by (auto simp: resolve_path_def path_join_def under_root_def refused Let_def)
  qed
qed

lemma parent_under_root:
  assumes "under_root ls p" "path_parent p = Some q"
  shows "under_root ls q \<or> path_parent (ls_root ls) = Some q"
proof -
  from assms(1) obtain cs where p: "path_absolute p = path_absolute (ls_root ls)"
    "path_components p = path_components (ls_root ls) @ cs" "''..'' \<notin> set cs" by (auto simp: under_root_def)
  from assms(2) have q: "path_components p \<noteq> []" "q = p\<lparr>path_components := butlast (path_components p)\<rparr>"
    by (auto simp: path_parent_def split: if_splits)
  show ?thesis
  proof (cases "cs = []")
    case True
    then have "p = ls_root ls" using p by (simp add: path.equality)
    with assms(2) show ?thesis by simp
  next
    case False
    then have "path_components q = path_components (ls_root ls) @ butlast cs" "path_absolute q = path_absolute (ls_root ls)"
      using p q by (simp_all add: butlast_append)
    moreover have "''..'' \<notin> set (butlast cs)" using p(3) by (auto dest: in_set_butlastD)
    ultimately show ?thesis by (auto simp: under_root_def)
  qed
qed

lemma fs_then_cong: "step = step' \<Longrightarrow> (\<And>f. k f = k' f) \<Longrightarrow> fs_then step k = fs_then step' k'"
  by (simp add: fs_then_def split: prod.split sum.split)

lemma agreeD:
  assumes "agree_under_root ls fs fs'" "under_root ls p"
  shows "fs_exists fs p = fs_exists fs' p" "fs_create fs p = fs_create fs' p" "fs_write_all fs p = fs_write_all fs' p"
    "fs_sync_all fs p = fs_sync_all fs' p" "fs_read_file fs p = fs_read_file fs' p" "fs_remove_file fs p = fs_remove_file fs' p"
    "fs_file_metadata fs p = fs_file_metadata fs' p" "ensure_parent fs p = ensure_parent fs' p"
    "under_root ls q \<Longrightarrow> fs_copy fs p q = fs_copy fs' p q"
  using assms parent_under_root [OF assms(2)]
  by (auto simp: agree_under_root_def ensure_parent_def fun_eq_iff split: option.split)

lemma fs_then_refuses: "fst (fs_then step k) = Err (StInvalidPath i) \<longleftrightarrow> (\<exists>f. step = (Ok (), f) \<and> fst (k f) = Err (StInvalidPath i))"
  by (auto simp: fs_then_def split: prod.split sum.split)

lemma local_get_agrees: "agree_under_root ls fs fs' \<Longrightarrow> local_get fs ls key f = local_get fs' ls key f"
  using resolve_path_cases [of ls key] by (auto simp: local_get_def agreeD)

lemma local_get_refuses: "local_get fs ls key f = Err (StInvalidPath i) \<longleftrightarrow> i = key \<and> refused_key key"
  using resolve_path_cases [of ls key] by (auto simp: local_get_def split: sum.split)

text \<open>
  C37. The guard of the local storage.  Nothing outside the root directory is ever read, written, created, removed or looked
  at: each of the six operations has the same result and the same effect in any two file systems that agree on
  the paths whose components are those of the root followed by components none of which is \<open>..\<close>, whatever
  they do elsewhere (but for the creation of the parent of the root).  And each operation refuses
  a key as invalid exactly when it contains two dots in a row or starts with a slash or backslash.
\<close>

theorem stored_paths_stay_under_root:
  assumes "agree_under_root ls fs fs'"
  shows "local_put fs digest_of mime now ls key data f = local_put fs' digest_of mime now ls key data f \<and>
    local_get fs ls key f = local_get fs' ls key f \<and>
    local_delete fs ls key f = local_delete fs' ls key f \<and>
    local_exists fs ls key f = local_exists fs' ls key f \<and>
    local_metadata fs digest_of mime ls key f = local_metadata fs' digest_of mime ls key f \<and>
    local_copy fs ls key to_key f = local_copy fs' ls key to_key f \<and>
    (fst (local_put fs digest_of mime now ls key data f) = Err (StInvalidPath i) \<longleftrightarrow> i = key \<and> refused_key key) \<and>
    (local_get fs ls key f = Err (StInvalidPath i) \<longleftrightarrow> i = key \<and> refused_key key) \<and>
    (fst (local_delete fs ls key f) = Err (StInvalidPath i) \<longleftrightarrow> i = key \<and> refused_key key) \<and>
    (local_exists fs ls key f = Err (StInvalidPath i) \<longleftrightarrow> i = key \<and> refused_key key) \<and>
    (local_metadata fs digest_of mime ls key f = Err (StInvalidPath i) \<longleftrightarrow> i = key \<and> refused_key key) \<and>
    (fst (local_copy fs ls key to_key f) = Err (StInvalidPath i) \<longleftrightarrow>
       i = (if refused_key key then key else to_key) \<and> (refused_key key \<or> refused_key to_key))"
proof (intro conjI, goal_cases)
  case 1
  from resolve_path_cases [of ls key] show ?case
    by (auto simp: local_put_def agreeD [OF assms] intro!: fs_then_cong)
next
  case 2
  show ?case by (rule local_get_agrees [OF assms])
next
  case 3
  from resolve_path_cases [of ls key] show ?case by (auto simp: local_delete_def agreeD [OF assms])
next
  case 4
  from resolve_path_cases [of ls key] show ?case by (auto simp: local_exists_def agreeD [OF assms])
next
  case 5
  from resolve_path_cases [of ls key] show ?case
    unfolding local_metadata_def local_get_agrees [OF assms] by (auto simp: agreeD [OF assms])
next
  case 6
  from resolve_path_cases [of ls key] resolve_path_cases [of ls to_key] show ?case
    by (auto simp: local_copy_def agreeD [OF assms] intro!: fs_then_cong)
next
  case 7
  from resolve_path_cases [of ls key] show ?case by (auto simp: local_put_def fs_then_refuses)
next
  case 8
  show ?case by (rule local_get_refuses)
next
  case 9
  from resolve_path_cases [of ls key] show ?case by (auto simp: local_delete_def fs_then_refuses split: if_splits)
next
  case 10
  from resolve_path_cases [of ls key] show ?case by (auto simp: local_exists_def)
next
  case 11
  from resolve_path_cases [of ls key] show ?case
    by (auto simp: local_metadata_def local_get_refuses split: sum.split prod.split)
next
  case 12
  from resolve_path_cases [of ls key] resolve_path_cases [of ls to_key] show ?case
    by (auto simp: local_copy_def fs_then_refuses split: if_splits)
qed

text \<open>A file system whose files are its state, and one that in addition reads a file outside the root.\<close>

definition plain_files :: "(path \<Rightarrow> string option) file_system" where
  "plain_files = \<lparr>fs_exists = (\<lambda>p f. f p \<noteq> None), fs_create_dir_all = (\<lambda>p f. (Ok (), f)),
     fs_create = (\<lambda>p f. (Ok (), f(p \<mapsto> []))), fs_write_all = (\<lambda>p data f. (Ok (), f(p \<mapsto> data))),
     fs_sync_all = (\<lambda>p f. (Ok (), f)), fs_read_file = (\<lambda>p f. case f p of Some data \<Rightarrow> Ok data | None \<Rightarrow> Err ''no file''),
     fs_remove_file = (\<lambda>p f. (Ok (), f(p := None))),
     fs_file_metadata = (\<lambda>p f. case f p of Some data \<Rightarrow> Ok (of_nat (length data), None) | None \<Rightarrow> Err ''no file''),
     fs_copy = (\<lambda>p q f. (Ok (), f(q := f p)))\<rparr>"

definition leaky_files :: "(path \<Rightarrow> string option) file_system" where
  "leaky_files = plain_files\<lparr>
     fs_read_file := (\<lambda>p f. if p = path_of ''/etc/passwd'' then Ok ''root'' else fs_read_file plain_files p f)\<rparr>"

theorem stored_paths_stay_under_root_witness:
  "local_get leaky_files (local_storage_new ''/srv'' []) ''a/b'' (\<lambda>_. Some ''x'') =
     local_get plain_files (local_storage_new ''/srv'' []) ''a/b'' (\<lambda>_. Some ''x'') \<and>
   local_get leaky_files (local_storage_new ''/srv'' []) ''../etc/passwd'' (\<lambda>_. Some ''x'') = Err (StInvalidPath ''../etc/passwd'')"
proof -
  have "\<not> under_root (local_storage_new ''/srv'' []) (path_of ''/etc/passwd'')"
    by (simp add: under_root_def local_storage_new_def path_of_def)
  then have agree: "agree_under_root (local_storage_new ''/srv'' []) leaky_files plain_files"
    by (auto simp: agree_under_root_def leaky_files_def)
  note facts = stored_paths_stay_under_root [OF agree]
  have "''../etc/passwd'' = [] @ ''..'' @ ''/etc/passwd''" by simp
  then have "refused_key ''../etc/passwd''" unfolding refused_key_def by blast
  with facts [where key = "''../etc/passwd''" and f = "\<lambda>_. Some ''x''" and i = "''../etc/passwd''"]
    facts [where key = "''a/b''" and f = "\<lambda>_. Some ''x''"] show ?thesis by blast
qed

definition uuid_text :: "string \<Rightarrow> bool" where
  "uuid_text u \<longleftrightarrow> u \<noteq> [] \<and> (\<forall>c \<in> set u. c \<noteq> CHR ''.'' \<and> c \<noteq> CHR ''/'' \<and> c \<noteq> CHR 0x5C)"

lemma split_char_no_delim: "c \<in> set (split_char d s) \<Longrightarrow> d \<notin> set c"
proof (induction s arbitrary: c)
  case (Cons x s)
  then show ?case by (cases "split_char d s") (auto split: if_splits)
qed simp

lemma split_once_first: "split_once d s = Some (a, b) \<Longrightarrow> s = a @ d # b \<and> d \<notin> set a"
  by (induction s arbitrary: a) (auto split: if_splits)

lemma path_extension_chars:
  assumes "path_extension (path_of s) = Some e"
  shows "CHR ''/'' \<notin> set e" and "CHR ''.'' \<notin> set e"
proof -
  from assms obtain f a b where f: "path_file_name (path_of s) = Some f"
    and ab: "split_once (CHR ''.'') (rev f) = Some (a, b)" and e: "e = rev a"
    by (auto simp: path_extension_def split: option.splits if_splits)
  from f have "f \<in> set (path_components (path_of s))"
    by (auto simp: path_file_name_def Let_def split: if_splits)
  then have "CHR ''/'' \<notin> set f"
    by (auto simp: path_of_def Let_def dest: split_char_no_delim split: if_splits)
  moreover from split_once_first [OF ab] have "rev f = a @ CHR ''.'' # b" and a: "CHR ''.'' \<notin> set a" by auto
  then have "set a \<subseteq> set f" by (metis set_append set_rev Un_upper1)
  ultimately show "CHR ''/'' \<notin> set e" and "CHR ''.'' \<notin> set e" using a e by auto
qed

lemma disk_filename_shape:
  "\<exists>e. generate_disk_filename uuid filename = uuid @ e \<and> CHR ''/'' \<notin> set e \<and>
    (e = [] \<or> (\<exists>x. e = CHR ''.'' # x \<and> x \<noteq> [] \<and> CHR ''.'' \<notin> set x))"
  by (auto simp: generate_disk_filename_def dest: path_extension_chars split: option.split)

lemma takeWhile_uuid: "uuid_text u \<Longrightarrow> takeWhile (\<lambda>c. c \<noteq> CHR ''.'') (generate_disk_filename u f) = u"
proof -
  assume u: "uuid_text u"
  obtain e where e: "generate_disk_filename u f = u @ e" "e = [] \<or> (\<exists>x. e = CHR ''.'' # x)"
    using disk_filename_shape [of u f] by blast
  have "takeWhile (\<lambda>c. c \<noteq> CHR ''.'') (u @ e) = u @ takeWhile (\<lambda>c. c \<noteq> CHR ''.'') e"
    using u by (intro takeWhile_append2) (simp add: uuid_text_def)
  with e show ?thesis by auto
qed

lemma no_two_dots:
  assumes "CHR ''.'' \<notin> set u" and "CHR ''.'' \<notin> set x"
  shows "\<not> contains_str (u @ CHR ''.'' # x) ''..''"
proof
  assume "contains_str (u @ CHR ''.'' # x) ''..''"
  then obtain a b where eq: "u @ CHR ''.'' # x = a @ ''..'' @ b" by (auto simp: contains_str_iff)
  have none: "CHR ''.'' \<notin> set w \<Longrightarrow> filter (\<lambda>c. c = CHR ''.'') w = []" for w
    by (auto simp: filter_empty_conv)
  have "length (filter (\<lambda>c. c = CHR ''.'') (u @ CHR ''.'' # x)) = 1"
    by (simp only: filter_append filter.simps none [OF assms(1)] none [OF assms(2)] if_True) simp
  moreover have "2 \<le> length (filter (\<lambda>c. c = CHR ''.'') (a @ ''..'' @ b))" by simp
  ultimately show False by (simp only: eq)
qed

text \<open>
  The name under which an upload is stored is safe whatever file name the client sends: it is
  accepted by the guard, names a file directly in the root directory, and different UUIDs give
  different names.
\<close>

theorem disk_filenames_safe:
  assumes "uuid_text u"
  shows "(let name = generate_disk_filename u filename
    in resolve_path ls name = Ok (path_join (ls_root ls) name) \<and> path_components (path_of name) = [name] \<and>
      (\<forall>v filename2. uuid_text v \<and> generate_disk_filename v filename2 = name \<longrightarrow> v = u))"
proof -
  obtain e where name: "generate_disk_filename u filename = u @ e" and e: "CHR ''/'' \<notin> set e"
    "e = [] \<or> (\<exists>x. e = CHR ''.'' # x \<and> x \<noteq> [] \<and> CHR ''.'' \<notin> set x)"
    using disk_filename_shape by blast
  have u: "u \<noteq> []" "CHR ''.'' \<notin> set u" "CHR ''/'' \<notin> set u" "CHR 0x5C \<notin> set u"
    using assms by (auto simp: uuid_text_def)
  have dots: "\<not> contains_str (u @ e) ''..''"
    using e(2) u(2) no_two_dots [of u] by (auto simp: contains_str_iff)
  have hd: "\<not> starts_with (u @ e) ''/''" "\<not> starts_with (u @ e) [CHR 0x5C]"
    using u by (cases u; auto)+
  have "split_char (CHR ''/'') (u @ e) = [u @ e]" using u(3) e(1) by (intro split_char_no) simp
  moreover have "u @ e \<noteq> ''.''" using u(1,2) by (cases u) auto
  ultimately have "path_components (path_of (u @ e)) = [u @ e]"
    using u(1) hd by (simp add: path_of_def Let_def)
  moreover have "v = u" if "uuid_text v" "generate_disk_filename v filename2 = u @ e" for v filename2
    using takeWhile_uuid [OF that(1), of filename2] takeWhile_uuid [OF assms, of filename] that(2) name by simp
  ultimately show ?thesis using dots hd by (simp add: name resolve_path_def) blast
qed

theorem disk_filenames_safe_witness:
  "resolve_path (local_storage_new ''/srv'' []) (generate_disk_filename ''a1'' ''x/../../etc/passwd.sh'') =
     Ok (path_join (path_of ''/srv'') (generate_disk_filename ''a1'' ''x/../../etc/passwd.sh''))"
  using disk_filenames_safe [of "''a1''" "''x/../../etc/passwd.sh''" "local_storage_new ''/srv'' []"]
  by (simp add: uuid_text_def local_storage_new_def Let_def)

subsection \<open>The interface of a storage\<close>

text \<open>What the attachment service relies on: \<open>content\<close> is the map from keys to contents it stands for.\<close>

locale storage =
  fixes inv :: "'f \<Rightarrow> bool"
    and content :: "'f \<Rightarrow> string \<Rightarrow> string option"
    and digest_of :: "string \<Rightarrow> string"
    and put :: "timestamp \<Rightarrow> string \<Rightarrow> string \<Rightarrow> 'f \<Rightarrow> (file_metadata, storage_error) result \<times> 'f"
    and get :: "string \<Rightarrow> 'f \<Rightarrow> (string, storage_error) result"
    and delete :: "string \<Rightarrow> 'f \<Rightarrow> (unit, storage_error) result \<times> 'f"
    and copy :: "string \<Rightarrow> string \<Rightarrow> 'f \<Rightarrow> (unit, storage_error) result \<times> 'f"
    and url :: "string \<Rightarrow> (string, storage_error) result"
  assumes put_file: "inv f \<Longrightarrow> put now key data f = (stored, f') \<Longrightarrow> inv f' \<and> content f' = (content f)(key \<mapsto> data) \<and>
      (\<exists>md. stored = Ok md \<and> fmd_size md = of_nat (length data) \<and> fmd_digest md = digest_of data)"
    and get_file: "inv f \<Longrightarrow> get key f = (case content f key of Some data \<Rightarrow> Ok data | None \<Rightarrow> Err (StNotFound key))"
    and delete_file: "inv f \<Longrightarrow> delete key f = (ack, f') \<Longrightarrow> ack = Ok () \<and> inv f' \<and> content f' = (content f)(key := None)"
    and copy_file: "inv f \<Longrightarrow> copy key key' f = (ack, f') \<Longrightarrow>
      (case content f key of
         None \<Rightarrow> ack = Err (StNotFound key) \<and> f' = f
       | Some data \<Rightarrow> ack = Ok () \<and> inv f' \<and> content f' = (content f)(key' \<mapsto> data))"
    and url_ok: "\<exists>u. url key = Ok u"

definition mst_content :: "memory_storage \<Rightarrow> string \<Rightarrow> string option" where
  "mst_content m key = map_option fst (hm_get m key)"

interpretation memory_files: storage hm_ok mst_content digest_of
  "mst_put digest_of mime" mst_get mst_delete "mst_copy (\<lambda>m. m)" mst_url
  for digest_of mime :: "string \<Rightarrow> string"
  by unfold_locales
    (auto simp: mst_content_def mst_put_def mst_get_def mst_delete_def mst_copy_def mst_url_def Let_def fun_eq_iff
      split: option.splits)

end
