(* ===== verification/Attachments.thy ===== *)
theory Attachments
  imports Storage
begin

text \<open>
  The attachments of op-attachments (model.rs, service.rs): the records, which uploads are accepted,
  the in-memory store, and the service that keeps the records and the stored files in step.
  \<open>human_filesize\<close> (floating-point logarithms) and thumbnails without operations are left out.
\<close>

subsection \<open>Records\<close>

datatype container_type =
    ContainerWorkPackage | ContainerWikiPage | ContainerDocument | ContainerMessage | ContainerNews
  | ContainerProject | ContainerMeeting | ContainerMeetingContent | ContainerVersion | ContainerUser

fun container_type_as_str :: "container_type \<Rightarrow> string" where
  "container_type_as_str ContainerWorkPackage = ''WorkPackage''"
| "container_type_as_str ContainerWikiPage = ''WikiPage''"
| "container_type_as_str ContainerDocument = ''Document''"
| "container_type_as_str ContainerMessage = ''Message''"
| "container_type_as_str ContainerNews = ''News''"
| "container_type_as_str ContainerProject = ''Project''"
| "container_type_as_str ContainerMeeting = ''Meeting''"
| "container_type_as_str ContainerMeetingContent = ''MeetingContent''"
| "container_type_as_str ContainerVersion = ''Version''"
| "container_type_as_str ContainerUser = ''User''"

definition container_type_from_str :: "string \<Rightarrow> container_type option" where
  "container_type_from_str s =
     (if s = ''WorkPackage'' then Some ContainerWorkPackage
      else if s = ''WikiPage'' then Some ContainerWikiPage
      else if s = ''Document'' then Some ContainerDocument
      else if s = ''Message'' then Some ContainerMessage
      else if s = ''News'' then Some ContainerNews
      else if s = ''Project'' then Some ContainerProject
      else if s = ''Meeting'' then Some ContainerMeeting
      else if s = ''MeetingContent'' then Some ContainerMeetingContent
      else if s = ''Version'' then Some ContainerVersion
      else if s = ''User'' then Some ContainerUser
      else None)"

record attachment =
  at_id :: "Id option"
  at_container_type :: string
  at_container_id :: "Id option"
  at_filename :: string
  at_disk_filename :: string
  at_filesize :: i64
  at_content_type :: string
  at_digest :: string
  at_downloads :: i32
  at_author_id :: Id
  at_description :: "string option"
  at_created_at :: timestamp
  at_updated_at :: timestamp
  at_file_token :: "string option"

definition attachment_new ::
    "timestamp \<Rightarrow> string \<Rightarrow> string \<Rightarrow> i64 \<Rightarrow> string \<Rightarrow> string \<Rightarrow> Id \<Rightarrow> attachment" where
  "attachment_new now filename disk_filename filesize content_type digest author_id =
     \<lparr>at_id = None, at_container_type = [], at_container_id = None, at_filename = filename,
      at_disk_filename = disk_filename, at_filesize = filesize, at_content_type = content_type,
      at_digest = digest, at_downloads = 0, at_author_id = author_id, at_description = None,
      at_created_at = now, at_updated_at = now, at_file_token = None\<rparr>"

definition attachment_for_container :: "container_type \<Rightarrow> Id \<Rightarrow> attachment \<Rightarrow> attachment" where
  "attachment_for_container ct cid a =
     a\<lparr>at_container_type := container_type_as_str ct, at_container_id := Some cid\<rparr>"

definition attachment_with_description :: "string \<Rightarrow> attachment \<Rightarrow> attachment" where
  "attachment_with_description d a = a\<lparr>at_description := Some d\<rparr>"

definition attachment_is_image :: "attachment \<Rightarrow> bool" where
  "attachment_is_image a \<longleftrightarrow> starts_with (at_content_type a) ''image/''"

definition attachment_is_pdf :: "attachment \<Rightarrow> bool" where
  "attachment_is_pdf a \<longleftrightarrow> at_content_type a = ''application/pdf''"

definition attachment_is_attached :: "attachment \<Rightarrow> bool" where
  "attachment_is_attached a \<longleftrightarrow> at_container_id a \<noteq> None"

definition attachment_extension :: "attachment \<Rightarrow> string option" where
  "attachment_extension a =
     (if CHR ''.'' \<notin> set (at_filename a) then None
      else (let ext = last (split_char (CHR ''.'') (at_filename a))
        in if length ext \<le> 10 \<and> ext \<noteq> [] then Some ext else None))"

definition increment_downloads :: "timestamp \<Rightarrow> attachment \<Rightarrow> attachment" where
  "increment_downloads now a = a\<lparr>at_downloads := at_downloads a + 1, at_updated_at := now\<rparr>"

record create_attachment_params =
  cp_filename :: string
  cp_content_type :: "string option"
  cp_description :: "string option"
  cp_container_type :: "container_type option"
  cp_container_id :: "Id option"

definition create_params_new :: "string \<Rightarrow> create_attachment_params" where
  "create_params_new filename =
     \<lparr>cp_filename = filename, cp_content_type = None, cp_description = None, cp_container_type = None,
      cp_container_id = None\<rparr>"

definition create_params_content_type :: "string \<Rightarrow> create_attachment_params \<Rightarrow> create_attachment_params" where
  "create_params_content_type ct p = p\<lparr>cp_content_type := Some ct\<rparr>"

definition create_params_description :: "string \<Rightarrow> create_attachment_params \<Rightarrow> create_attachment_params" where
  "create_params_description d p = p\<lparr>cp_description := Some d\<rparr>"

definition create_params_container ::
    "container_type \<Rightarrow> Id \<Rightarrow> create_attachment_params \<Rightarrow> create_attachment_params" where
  "create_params_container ct i p = p\<lparr>cp_container_type := Some ct, cp_container_id := Some i\<rparr>"

record attachment_with_url =
  au_attachment :: attachment
  au_download_url :: string

datatype thumbnail_size = ThumbSmall | ThumbMedium | ThumbLarge | ThumbPreview

fun thumbnail_max_dimension :: "thumbnail_size \<Rightarrow> u32" where
  "thumbnail_max_dimension ThumbSmall = 64"
| "thumbnail_max_dimension ThumbMedium = 128"
| "thumbnail_max_dimension ThumbLarge = 256"
| "thumbnail_max_dimension ThumbPreview = 800"

fun thumbnail_suffix :: "thumbnail_size \<Rightarrow> string" where
  "thumbnail_suffix ThumbSmall = ''_small''"
| "thumbnail_suffix ThumbMedium = ''_medium''"
| "thumbnail_suffix ThumbLarge = ''_large''"
| "thumbnail_suffix ThumbPreview = ''_preview''"

subsection \<open>The in-memory store\<close>

datatype attachment_error =
    AtNotFound Id | AtStorage storage_error | AtInvalidFile string | AtFileTooLarge i64 i64
  | AtInvalidContentType string | AtPermissionDenied | AtContainerNotFound string Id

fun attachment_error_to_string :: "attachment_error \<Rightarrow> string" where
  "attachment_error_to_string (AtNotFound i) = ''Attachment not found: '' @ show_i64 i"
| "attachment_error_to_string (AtStorage e) = ''Storage error: '' @ storage_error_to_string e"
| "attachment_error_to_string (AtInvalidFile s) = ''Invalid file: '' @ s"
| "attachment_error_to_string (AtFileTooLarge actual maximum) =
     ''File too large: '' @ show_i64 actual @ '' bytes (max: '' @ show_i64 maximum @ '' bytes)''"
| "attachment_error_to_string (AtInvalidContentType s) = ''Invalid content type: '' @ s"
| "attachment_error_to_string AtPermissionDenied = ''Permission denied''"
| "attachment_error_to_string (AtContainerNotFound s i) = ''Container not found: '' @ s @ '' '' @ show_i64 i"

record memory_attachment_store =
  mas_attachments :: "attachment list"
  mas_next_id :: i64

definition mas_new :: memory_attachment_store where
  "mas_new = \<lparr>mas_attachments = [], mas_next_id = 1\<rparr>"

definition mas_create ::
    "attachment \<Rightarrow> memory_attachment_store \<Rightarrow>
     (Id, attachment_error) result \<times> attachment \<times> memory_attachment_store" where
  "mas_create a s =
     (let i = mas_next_id s;
          s = s\<lparr>mas_next_id := i + 1\<rparr>;
          a = a\<lparr>at_id := Some i\<rparr>
      in (Ok i, a, s\<lparr>mas_attachments := mas_attachments s @ [a]\<rparr>))"

definition mas_get :: "Id \<Rightarrow> memory_attachment_store \<Rightarrow> (attachment option, attachment_error) result" where
  "mas_get i s = Ok (List.find (\<lambda>a. at_id a = Some i) (mas_attachments s))"

definition in_container :: "container_type \<Rightarrow> Id \<Rightarrow> attachment \<Rightarrow> bool" where
  "in_container ct cid a \<longleftrightarrow> at_container_type a = container_type_as_str ct \<and> at_container_id a = Some cid"

definition mas_get_for_container ::
    "container_type \<Rightarrow> Id \<Rightarrow> memory_attachment_store \<Rightarrow> (attachment list, attachment_error) result" where
  "mas_get_for_container ct cid s = Ok (filter (in_container ct cid) (mas_attachments s))"

definition mas_update ::
    "attachment \<Rightarrow> memory_attachment_store \<Rightarrow> (unit, attachment_error) result \<times> memory_attachment_store" where
  "mas_update a s =
     (Ok (), (case replace_first (\<lambda>e. at_id e = at_id a) a (mas_attachments s) of
                None \<Rightarrow> s
              | Some rows \<Rightarrow> s\<lparr>mas_attachments := rows\<rparr>))"

definition mas_delete ::
    "Id \<Rightarrow> memory_attachment_store \<Rightarrow> (unit, attachment_error) result \<times> memory_attachment_store" where
  "mas_delete i s = (Ok (), s\<lparr>mas_attachments := filter (\<lambda>a. at_id a \<noteq> Some i) (mas_attachments s)\<rparr>)"

definition is_orphan :: "timestamp \<Rightarrow> attachment \<Rightarrow> bool" where
  "is_orphan older_than a \<longleftrightarrow> at_container_id a = None \<and> at_created_at a < older_than"

definition mas_get_orphaned ::
    "timestamp \<Rightarrow> memory_attachment_store \<Rightarrow> (attachment list, attachment_error) result" where
  "mas_get_orphaned older_than s = Ok (filter (is_orphan older_than) (mas_attachments s))"

definition mas_count_for_container ::
    "container_type \<Rightarrow> Id \<Rightarrow> memory_attachment_store \<Rightarrow> (nat, attachment_error) result" where
  "mas_count_for_container ct cid s = Ok (length (filter (in_container ct cid) (mas_attachments s)))"

subsection \<open>Which uploads are accepted\<close>

record allowed_file_types =
  ft_allowed_mime_types :: "string list"
  ft_blocked_mime_types :: "string list"
  ft_max_file_size :: i64

definition allowed_file_types_default :: allowed_file_types where
  "allowed_file_types_default =
     \<lparr>ft_allowed_mime_types = [],
      ft_blocked_mime_types = [''application/x-msdownload'', ''application/x-executable''],
      ft_max_file_size = 100 * 1024 * 1024\<rparr>"

definition type_is_allowed :: "allowed_file_types \<Rightarrow> string \<Rightarrow> bool" where
  "type_is_allowed c content_type =
     (if content_type \<in> set (ft_blocked_mime_types c) then False
      else if ft_allowed_mime_types c = [] then True
      else content_type \<in> set (ft_allowed_mime_types c))"

text \<open>A \<open>std::time::Duration\<close> in seconds.\<close>

record attachment_config =
  ac_allowed_types :: allowed_file_types
  ac_url_expiry :: nat
  ac_cleanup_orphans_after :: nat

definition attachment_config_default :: attachment_config where
  "attachment_config_default =
     \<lparr>ac_allowed_types = allowed_file_types_default, ac_url_expiry = 3600, ac_cleanup_orphans_after = 86400\<rparr>"

subsection \<open>The service\<close>

text \<open>
  The service works over any store of records and any storage of files, given by their operations.
  The readings of the clock and the UUID of a call are in \<open>upload_env\<close>.
\<close>

record upload_env =
  ue_uuid :: string
  ue_put_now :: timestamp
  ue_now :: timestamp

definition upload_content_type :: "(string \<Rightarrow> string) \<Rightarrow> create_attachment_params \<Rightarrow> string" where
  "upload_content_type mime p = (case cp_content_type p of Some ct \<Rightarrow> ct | None \<Rightarrow> mime (cp_filename p))"

definition uploaded_record ::
    "upload_env \<Rightarrow> create_attachment_params \<Rightarrow> string \<Rightarrow> string \<Rightarrow> file_metadata \<Rightarrow> Id \<Rightarrow> attachment" where
  "uploaded_record env p disk_filename content_type md author_id =
     (let a = attachment_new (ue_now env) (cp_filename p) disk_filename (fmd_size md) content_type (fmd_digest md) author_id;
          a = (case cp_description p of Some d \<Rightarrow> a\<lparr>at_description := Some d\<rparr> | None \<Rightarrow> a)
      in (case (cp_container_type p, cp_container_id p) of
            (Some ct, Some cid) \<Rightarrow> attachment_for_container ct cid a
          | _ \<Rightarrow> a))"

definition as_create ::
    "(attachment \<Rightarrow> 's \<Rightarrow> (Id, attachment_error) result \<times> attachment \<times> 's) \<Rightarrow>
     (timestamp \<Rightarrow> string \<Rightarrow> string \<Rightarrow> 'f \<Rightarrow> (file_metadata, storage_error) result \<times> 'f) \<Rightarrow>
     (string \<Rightarrow> (string, storage_error) result) \<Rightarrow> (string \<Rightarrow> string) \<Rightarrow> allowed_file_types \<Rightarrow>
     upload_env \<Rightarrow> create_attachment_params \<Rightarrow> string \<Rightarrow> Id \<Rightarrow> 's \<times> 'f \<Rightarrow>
     (attachment_with_url, attachment_error) result \<times> 's \<times> 'f" where
  "as_create create put url mime types env p data author_id st =
     (case st of (s, f) \<Rightarrow>
       (let bytes = of_nat (length data) :: i64
        in if sint (ft_max_file_size types) < sint bytes
           then (Err (AtFileTooLarge bytes (ft_max_file_size types)), s, f)
           else (let content_type = upload_content_type mime p
             in if \<not> type_is_allowed types content_type then (Err (AtInvalidContentType content_type), s, f)
                else (let disk_filename = generate_disk_filename (ue_uuid env) (cp_filename p)
                  in (case put (ue_put_now env) disk_filename data f of
                        (Err e, f) \<Rightarrow> (Err (AtStorage e), s, f)
                      | (Ok md, f) \<Rightarrow>
                          (case create (uploaded_record env p disk_filename content_type md author_id) s of
                             (Err e, _, s) \<Rightarrow> (Err e, s, f)
                           | (Ok i, a, s) \<Rightarrow>
                               (case url disk_filename of
                                  Err e \<Rightarrow> (Err (AtStorage e), s, f)
                                | Ok u \<Rightarrow> (Ok \<lparr>au_attachment = a, au_download_url = u\<rparr>, s, f))))))))"

definition as_find ::
    "(Id \<Rightarrow> 's \<Rightarrow> (attachment option, attachment_error) result) \<Rightarrow> Id \<Rightarrow> 's \<Rightarrow>
     (attachment, attachment_error) result" where
  "as_find get i s =
     (case get i s of Err e \<Rightarrow> Err e | Ok None \<Rightarrow> Err (AtNotFound i) | Ok (Some a) \<Rightarrow> Ok a)"

definition as_get_with_url ::
    "(Id \<Rightarrow> 's \<Rightarrow> (attachment option, attachment_error) result) \<Rightarrow>
     (string \<Rightarrow> (string, storage_error) result) \<Rightarrow> Id \<Rightarrow> 's \<Rightarrow> (attachment_with_url option, attachment_error) result" where
  "as_get_with_url get url i s =
     (case get i s of
        Err e \<Rightarrow> Err e
      | Ok None \<Rightarrow> Ok None
      | Ok (Some a) \<Rightarrow> (case url (at_disk_filename a) of
            Err e \<Rightarrow> Err (AtStorage e)
          | Ok u \<Rightarrow> Ok (Some \<lparr>au_attachment = a, au_download_url = u\<rparr>)))"

text \<open>\<open>meanwhile\<close> is what other requests do to the store between the read and the write of a record.\<close>

definition as_download ::
    "(Id \<Rightarrow> 's \<Rightarrow> (attachment option, attachment_error) result) \<Rightarrow>
     (attachment \<Rightarrow> 's \<Rightarrow> (unit, attachment_error) result \<times> 's) \<Rightarrow>
     (string \<Rightarrow> 'f \<Rightarrow> (string, storage_error) result) \<Rightarrow> ('s \<Rightarrow> 's) \<Rightarrow> timestamp \<Rightarrow> Id \<Rightarrow> 's \<times> 'f \<Rightarrow>
     (attachment \<times> string, attachment_error) result \<times> 's \<times> 'f" where
  "as_download get put_record read_file meanwhile now i st =
     (case st of (s, f) \<Rightarrow>
       (case as_find get i s of
          Err e \<Rightarrow> (Err e, s, f)
        | Ok a \<Rightarrow> (case read_file (at_disk_filename a) f of
              Err e \<Rightarrow> (Err (AtStorage e), s, f)
            | Ok data \<Rightarrow> (case put_record (increment_downloads now a) (meanwhile s) of
                  (Err e, s) \<Rightarrow> (Err e, s, f)
                | (Ok _, s) \<Rightarrow> (Ok (a, data), s, f)))))"

definition attached_to :: "timestamp \<Rightarrow> container_type \<Rightarrow> Id \<Rightarrow> attachment \<Rightarrow> attachment" where
  "attached_to now ct cid a =
     a\<lparr>at_container_type := container_type_as_str ct, at_container_id := Some cid, at_updated_at := now\<rparr>"

definition as_attach_to ::
    "(Id \<Rightarrow> 's \<Rightarrow> (attachment option, attachment_error) result) \<Rightarrow>
     (attachment \<Rightarrow> 's \<Rightarrow> (unit, attachment_error) result \<times> 's) \<Rightarrow> ('s \<Rightarrow> 's) \<Rightarrow> timestamp \<Rightarrow>
     Id \<Rightarrow> container_type \<Rightarrow> Id \<Rightarrow> 's \<times> 'f \<Rightarrow> (attachment, attachment_error) result \<times> 's \<times> 'f" where
  "as_attach_to get put_record meanwhile now i ct cid st =
     (case st of (s, f) \<Rightarrow>
       (case as_find get i s of
          Err e \<Rightarrow> (Err e, s, f)
        | Ok a \<Rightarrow> (case put_record (attached_to now ct cid a) (meanwhile s) of
              (Err e, s) \<Rightarrow> (Err e, s, f)
            | (Ok _, s) \<Rightarrow> (Ok (attached_to now ct cid a), s, f))))"

definition as_delete ::
    "(Id \<Rightarrow> 's \<Rightarrow> (attachment option, attachment_error) result) \<Rightarrow>
     (Id \<Rightarrow> 's \<Rightarrow> (unit, attachment_error) result \<times> 's) \<Rightarrow>
     (string \<Rightarrow> 'f \<Rightarrow> (unit, storage_error) result \<times> 'f) \<Rightarrow> Id \<Rightarrow> 's \<times> 'f \<Rightarrow>
     (unit, attachment_error) result \<times> 's \<times> 'f" where
  "as_delete get remove delete_file i st =
     (case st of (s, f) \<Rightarrow>
       (case as_find get i s of
          Err e \<Rightarrow> (Err e, s, f)
        | Ok a \<Rightarrow> (case delete_file (at_disk_filename a) f of
              (Err e, f) \<Rightarrow> (Err (AtStorage e), s, f)
            | (Ok _, f) \<Rightarrow> (case remove i s of
                  (Err e, s) \<Rightarrow> (Err e, s, f)
                | (Ok _, s) \<Rightarrow> (Ok (), s, f)))))"

text \<open>The loop of \<open>cleanup_orphans\<close>: errors are only logged.\<close>

fun delete_each :: "(Id \<Rightarrow> 'st \<Rightarrow> 'r \<times> 'st) \<Rightarrow> attachment list \<Rightarrow> 'st \<Rightarrow> 'st" where
  "delete_each del [] st = st"
| "delete_each del (a # as) st =
     delete_each del as (case at_id a of Some i \<Rightarrow> snd (del i st) | None \<Rightarrow> st)"

text \<open>
  \<open>cutoff\<close> is the clock minus the configured delay; \<open>meanwhile\<close> is what happens between the
  snapshot of the orphans and the loop.
\<close>

definition as_cleanup_orphans ::
    "(timestamp \<Rightarrow> 's \<Rightarrow> (attachment list, attachment_error) result) \<Rightarrow>
     (Id \<Rightarrow> 's \<times> 'f \<Rightarrow> (unit, attachment_error) result \<times> 's \<times> 'f) \<Rightarrow> ('s \<times> 'f \<Rightarrow> 's \<times> 'f) \<Rightarrow> timestamp \<Rightarrow>
     's \<times> 'f \<Rightarrow> (nat, attachment_error) result \<times> 's \<times> 'f" where
  "as_cleanup_orphans get_orphaned del meanwhile cutoff st =
     (case get_orphaned cutoff (fst st) of
        Err e \<Rightarrow> (Err e, st)
      | Ok orphans \<Rightarrow> (Ok (length orphans), delete_each del orphans (meanwhile st)))"

definition copied_record ::
    "timestamp \<Rightarrow> attachment \<Rightarrow> string \<Rightarrow> container_type \<Rightarrow> Id \<Rightarrow> Id \<Rightarrow> attachment" where
  "copied_record now src disk_filename ct cid author_id =
     (attachment_for_container ct cid
       (attachment_new now (at_filename src) disk_filename (at_filesize src) (at_content_type src)
         (at_digest src) author_id))
     \<lparr>at_description := at_description src\<rparr>"

definition as_copy_to ::
    "(Id \<Rightarrow> 's \<Rightarrow> (attachment option, attachment_error) result) \<Rightarrow>
     (attachment \<Rightarrow> 's \<Rightarrow> (Id, attachment_error) result \<times> attachment \<times> 's) \<Rightarrow>
     (string \<Rightarrow> string \<Rightarrow> 'f \<Rightarrow> (unit, storage_error) result \<times> 'f) \<Rightarrow> (string \<Rightarrow> (string, storage_error) result) \<Rightarrow>
     upload_env \<Rightarrow> Id \<Rightarrow> container_type \<Rightarrow> Id \<Rightarrow> Id \<Rightarrow> 's \<times> 'f \<Rightarrow>
     (attachment_with_url, attachment_error) result \<times> 's \<times> 'f" where
  "as_copy_to get create copy_file url env i ct cid author_id st =
     (case st of (s, f) \<Rightarrow>
       (case as_find get i s of
          Err e \<Rightarrow> (Err e, s, f)
        | Ok src \<Rightarrow>
            (let disk_filename = generate_disk_filename (ue_uuid env) (at_filename src)
             in (case copy_file (at_disk_filename src) disk_filename f of
                   (Err e, f) \<Rightarrow> (Err (AtStorage e), s, f)
                 | (Ok _, f) \<Rightarrow> (case create (copied_record (ue_now env) src disk_filename ct cid author_id) s of
                       (Err e, _, s) \<Rightarrow> (Err e, s, f)
                     | (Ok j, a, s) \<Rightarrow> (case url disk_filename of
                           Err e \<Rightarrow> (Err (AtStorage e), s, f)
                         | Ok u \<Rightarrow> (Ok \<lparr>au_attachment = a, au_download_url = u\<rparr>, s, f)))))))"

subsection \<open>The interfaces\<close>

text \<open>
  What the service relies on: \<open>row\<close> is the table of records the store stands for, \<open>next_id\<close> the
  identity the next record gets, and \<open>aroom\<close> that identities have not run out.
\<close>

locale attachment_store =
  fixes ainv :: "'s \<Rightarrow> bool"
    and aroom :: "'s \<Rightarrow> bool"
    and row :: "'s \<Rightarrow> Id \<Rightarrow> attachment option"
    and next_id :: "'s \<Rightarrow> Id"
    and create :: "attachment \<Rightarrow> 's \<Rightarrow> (Id, attachment_error) result \<times> attachment \<times> 's"
    and find_record :: "Id \<Rightarrow> 's \<Rightarrow> (attachment option, attachment_error) result"
    and put_record :: "attachment \<Rightarrow> 's \<Rightarrow> (unit, attachment_error) result \<times> 's"
    and remove :: "Id \<Rightarrow> 's \<Rightarrow> (unit, attachment_error) result \<times> 's"
    and orphaned :: "timestamp \<Rightarrow> 's \<Rightarrow> (attachment list, attachment_error) result"
  assumes own_id: "ainv s \<Longrightarrow> row s i = Some a \<Longrightarrow> at_id a = Some i"
    and fresh: "ainv s \<Longrightarrow> row s (next_id s) = None"
    and create_row: "ainv s \<Longrightarrow> aroom s \<Longrightarrow> create a s = (made, a', s') \<Longrightarrow>
      made = Ok (next_id s) \<and> a' = a\<lparr>at_id := Some (next_id s)\<rparr> \<and> ainv s' \<and>
      row s' = (row s)(next_id s \<mapsto> a\<lparr>at_id := Some (next_id s)\<rparr>)"
    and find_row: "ainv s \<Longrightarrow> find_record i s = Ok (row s i)"
    and put_row: "ainv s \<Longrightarrow> at_id a = Some i \<Longrightarrow> put_record a s = (ack, s') \<Longrightarrow>
      ack = Ok () \<and> ainv s' \<and> row s' = (if row s i = None then row s else (row s)(i \<mapsto> a))"
    and remove_row: "ainv s \<Longrightarrow> remove i s = (ack, s') \<Longrightarrow> ack = Ok () \<and> ainv s' \<and> row s' = (row s)(i := None)"
    and orphaned_rows: "ainv s \<Longrightarrow> \<exists>l. orphaned t s = Ok l \<and> distinct (map at_id l) \<and>
      (\<forall>a. a \<in> set l \<longleftrightarrow> (\<exists>i. row s i = Some a) \<and> is_orphan t a)"
begin

lemma as_find_row: "ainv s \<Longrightarrow> as_find find_record i s = (case row s i of None \<Rightarrow> Err (AtNotFound i) | Some a \<Rightarrow> Ok a)"
  by (simp add: as_find_def find_row split: option.split)

lemma attach_effect:
  assumes inv: "ainv s" "ainv (meanwhile s)"
  shows "(case row s i of
      None \<Rightarrow> as_attach_to find_record put_record meanwhile now i ct cid (s, f) = (Err (AtNotFound i), s, f)
    | Some a \<Rightarrow> \<exists>s'. as_attach_to find_record put_record meanwhile now i ct cid (s, f) = (Ok (attached_to now ct cid a), s', f) \<and>
        ainv s' \<and> row s' = (if row (meanwhile s) i = None then row (meanwhile s)
                           else (row (meanwhile s))(i \<mapsto> attached_to now ct cid a)))"
proof (cases "row s i")
  case (Some a)
  obtain ack s' where p: "put_record (attached_to now ct cid a) (meanwhile s) = (ack, s')"
    by (cases "put_record (attached_to now ct cid a) (meanwhile s)")
  have "at_id (attached_to now ct cid a) = Some i" using own_id [OF inv(1) Some] by (simp add: attached_to_def)
  from put_row [OF inv(2) this p] Some p inv show ?thesis by (simp add: as_attach_to_def as_find_row)
qed (simp add: as_attach_to_def as_find_row inv)

end

text \<open>
  The contract between records and files: every record's file is there, with the size and digest
  of the record, and no two records share a file.
\<close>

definition files_match ::
    "(string \<Rightarrow> string) \<Rightarrow> (Id \<Rightarrow> attachment option) \<Rightarrow> (string \<Rightarrow> string option) \<Rightarrow> bool" where
  "files_match digest_of rows content \<longleftrightarrow>
     (\<forall>i a. rows i = Some a \<longrightarrow> (\<exists>d. content (at_disk_filename a) = Some d \<and>
        at_digest a = digest_of d \<and> at_filesize a = of_nat (length d))) \<and>
     (\<forall>i j a b. rows i = Some a \<and> rows j = Some b \<and> at_disk_filename a = at_disk_filename b \<longrightarrow> i = j)"

lemma files_match_data:
  "files_match digest_of rows content \<Longrightarrow> rows i = Some a \<Longrightarrow>
    \<exists>d. content (at_disk_filename a) = Some d \<and> at_digest a = digest_of d \<and> at_filesize a = of_nat (length d)"
  by (auto simp: files_match_def)

lemma files_match_new:
  assumes "files_match digest_of rows content" and "content k = None"
    and "at_disk_filename a = k" and "at_digest a = digest_of d" and "at_filesize a = of_nat (length d)"
  shows "files_match digest_of (rows(i \<mapsto> a)) (content(k \<mapsto> d))"
proof -
  have "at_disk_filename b \<noteq> at_disk_filename a" if "rows j = Some b" for j b
    using assms(1-3) that by (force simp: files_match_def)
  with assms show ?thesis by (auto simp: files_match_def) metis+
qed

lemma files_match_inj:
  "files_match digest_of rows content \<Longrightarrow> rows i = Some a \<Longrightarrow> rows j = Some b \<Longrightarrow>
    at_disk_filename a = at_disk_filename b \<Longrightarrow> i = j"
  unfolding files_match_def by blast

lemma files_match_update:
  "files_match digest_of rows content \<Longrightarrow> rows i = Some a \<Longrightarrow> at_disk_filename b = at_disk_filename a \<Longrightarrow>
    at_digest b = at_digest a \<Longrightarrow> at_filesize b = at_filesize a \<Longrightarrow> files_match digest_of (rows(i \<mapsto> b)) content"
  unfolding files_match_def by (smt (verit) fun_upd_apply option.inject)

lemma files_match_remove:
  assumes "files_match digest_of rows content"
  shows "files_match digest_of (\<lambda>i. if i \<in> D then None else rows i)
    (\<lambda>k. if \<exists>i \<in> D. \<exists>a. rows i = Some a \<and> at_disk_filename a = k then None else content k)"
  unfolding files_match_def
proof (intro conjI allI impI)
  fix i a assume "(if i \<in> D then None else rows i) = Some a"
  then have i: "i \<notin> D" "rows i = Some a" by (simp_all split: if_splits)
  with files_match_inj [OF assms _ i(2)]
  have "\<not> (\<exists>j \<in> D. \<exists>b. rows j = Some b \<and> at_disk_filename b = at_disk_filename a)" by blast
  with files_match_data [OF assms i(2)]
  show "\<exists>d. (if \<exists>i \<in> D. \<exists>b. rows i = Some b \<and> at_disk_filename b = at_disk_filename a then None
      else content (at_disk_filename a)) = Some d \<and> at_digest a = digest_of d \<and> at_filesize a = of_nat (length d)"
    by (simp only: if_False)
next
  fix i j a b
  assume "(if i \<in> D then None else rows i) = Some a \<and> (if j \<in> D then None else rows j) = Some b \<and>
    at_disk_filename a = at_disk_filename b"
  then show "i = j" using files_match_inj [OF assms] by (simp split: if_splits)
qed

locale attachment_service =
  attachment_store ainv aroom row next_id create find_record put_record remove orphaned +
  storage finv content digest_of put read_file delete_file copy_file url
  for ainv :: "'s \<Rightarrow> bool"
    and aroom :: "'s \<Rightarrow> bool"
    and row :: "'s \<Rightarrow> Id \<Rightarrow> attachment option"
    and next_id :: "'s \<Rightarrow> Id"
    and create :: "attachment \<Rightarrow> 's \<Rightarrow> (Id, attachment_error) result \<times> attachment \<times> 's"
    and find_record :: "Id \<Rightarrow> 's \<Rightarrow> (attachment option, attachment_error) result"
    and put_record :: "attachment \<Rightarrow> 's \<Rightarrow> (unit, attachment_error) result \<times> 's"
    and remove :: "Id \<Rightarrow> 's \<Rightarrow> (unit, attachment_error) result \<times> 's"
    and orphaned :: "timestamp \<Rightarrow> 's \<Rightarrow> (attachment list, attachment_error) result"
    and finv :: "'f \<Rightarrow> bool"
    and content :: "'f \<Rightarrow> string \<Rightarrow> string option"
    and digest_of :: "string \<Rightarrow> string"
    and put :: "timestamp \<Rightarrow> string \<Rightarrow> string \<Rightarrow> 'f \<Rightarrow> (file_metadata, storage_error) result \<times> 'f"
    and read_file :: "string \<Rightarrow> 'f \<Rightarrow> (string, storage_error) result"
    and delete_file :: "string \<Rightarrow> 'f \<Rightarrow> (unit, storage_error) result \<times> 'f"
    and copy_file :: "string \<Rightarrow> string \<Rightarrow> 'f \<Rightarrow> (unit, storage_error) result \<times> 'f"
    and url :: "string \<Rightarrow> (string, storage_error) result"
begin

lemma create_accepted:
  assumes inv: "ainv s" "aroom s" "finv f"
    and ok: "\<not> sint (ft_max_file_size types) < sint (of_nat (length data) :: i64)"
      "type_is_allowed types (upload_content_type mime p)"
  shows "\<exists>a u s' f' md. as_create create put url mime types env p data author (s, f) =
      (Ok \<lparr>au_attachment = a, au_download_url = u\<rparr>, s', f') \<and>
    a = (uploaded_record env p (generate_disk_filename (ue_uuid env) (cp_filename p)) (upload_content_type mime p) md author)
          \<lparr>at_id := Some (next_id s)\<rparr> \<and>
    fmd_size md = of_nat (length data) \<and> fmd_digest md = digest_of data \<and> ainv s' \<and> finv f' \<and>
    row s' = (row s)(next_id s \<mapsto> a) \<and>
    content f' = (content f)(generate_disk_filename (ue_uuid env) (cp_filename p) \<mapsto> data)"
proof -
  let ?k = "generate_disk_filename (ue_uuid env) (cp_filename p)"
  obtain stored f' where p: "put (ue_put_now env) ?k data f = (stored, f')" by (cases "put (ue_put_now env) ?k data f")
  from put_file [OF inv(3) p] obtain md where md: "stored = Ok md" "fmd_size md = of_nat (length data)"
    "fmd_digest md = digest_of data" "finv f'" "content f' = (content f)(?k \<mapsto> data)" by auto
  let ?a = "uploaded_record env p ?k (upload_content_type mime p) md author"
  obtain made a' s' where c: "create ?a s = (made, a', s')" by (cases "create ?a s")
  obtain u where u: "url ?k = Ok u" using url_ok by blast
  from create_row [OF inv(1,2) c] md show ?thesis
    by (intro exI [of _ "?a\<lparr>at_id := Some (next_id s)\<rparr>"] exI [of _ u] exI [of _ s'] exI [of _ f'] exI [of _ md])
      (simp add: as_create_def ok p c u Let_def)
qed

lemma download_effect:
  assumes inv: "ainv s" "ainv (meanwhile s)" "finv f"
  shows "as_download find_record put_record read_file meanwhile now i (s, f) =
    (case row s i of
       None \<Rightarrow> (Err (AtNotFound i), s, f)
     | Some a \<Rightarrow> (case content f (at_disk_filename a) of
           None \<Rightarrow> (Err (AtStorage (StNotFound (at_disk_filename a))), s, f)
         | Some d \<Rightarrow> (Ok (a, d), snd (put_record (increment_downloads now a) (meanwhile s)), f)))"
proof (cases "row s i")
  case (Some a)
  obtain ack s' where p: "put_record (increment_downloads now a) (meanwhile s) = (ack, s')"
    by (cases "put_record (increment_downloads now a) (meanwhile s)")
  have "at_id (increment_downloads now a) = Some i"
    using own_id [OF inv(1) Some] by (simp add: increment_downloads_def)
  from put_row [OF inv(2) this p] show ?thesis
    by (simp add: as_download_def as_find_row inv get_file Some p split: option.split)
qed (simp add: as_download_def as_find_row inv)

lemma delete_effect:
  assumes inv: "ainv s" "finv f" and run: "as_delete find_record remove delete_file i (s, f) = (r, s', f')"
  shows "(case row s i of
      None \<Rightarrow> r = Err (AtNotFound i) \<and> s' = s \<and> f' = f
    | Some a \<Rightarrow> r = Ok () \<and> ainv s' \<and> finv f' \<and> row s' = (row s)(i := None) \<and>
        content f' = (content f)(at_disk_filename a := None))"
proof (cases "row s i")
  case (Some a)
  obtain ack f1 where d: "delete_file (at_disk_filename a) f = (ack, f1)" by (cases "delete_file (at_disk_filename a) f")
  obtain ack2 s1 where m: "remove i s = (ack2, s1)" by (cases "remove i s")
  from delete_file [OF inv(2) d] remove_row [OF inv(1) m] Some run show ?thesis
    by (auto simp: as_delete_def as_find_row inv d m)
qed (use run in \<open>simp add: as_delete_def as_find_row inv\<close>)

lemma delete_each_effect:
  assumes "ainv s" "finv f" and "delete_each (as_delete find_record remove delete_file) l (s, f) = (s', f')"
  shows "ainv s' \<and> finv f' \<and> row s' = (\<lambda>i. if i \<in> {i. Some i \<in> at_id ` set l} then None else row s i) \<and>
    content f' = (\<lambda>k. if \<exists>i \<in> {i. Some i \<in> at_id ` set l}. \<exists>a. row s i = Some a \<and> at_disk_filename a = k
      then None else content f k)"
  using assms
proof (induction l arbitrary: s f)
  case (Cons x l)
  show ?case
  proof (cases "at_id x")
    case None
    with Cons show ?thesis by auto
  next
    case (Some i)
    obtain r s1 f1 where run: "as_delete find_record remove delete_file i (s, f) = (r, s1, f1)"
      by (cases "as_delete find_record remove delete_file i (s, f)")
    note eff = delete_effect [OF Cons.prems(1,2) run]
    have rest: "delete_each (as_delete find_record remove delete_file) l (s1, f1) = (s', f')"
      using Cons.prems(3) Some run by simp
    show ?thesis
    proof (cases "row s i")
      case None
      with eff rest Cons have IH: "ainv s' \<and> finv f' \<and> row s' = (\<lambda>i. if i \<in> {i. Some i \<in> at_id ` set l} then None else row s i) \<and>
        content f' = (\<lambda>k. if \<exists>i \<in> {i. Some i \<in> at_id ` set l}. \<exists>a. row s i = Some a \<and> at_disk_filename a = k
          then None else content f k)" by simp
      with None Some show ?thesis by (auto simp: fun_eq_iff)
    next
      case (Some a)
      with eff have s1: "ainv s1" "finv f1" "row s1 = (row s)(i := None)"
        "content f1 = (content f)(at_disk_filename a := None)" by simp_all
      define D where "D = {i. Some i \<in> at_id ` set l}"
      have D: "{i. Some i \<in> at_id ` set (x # l)} = insert i D"
        using \<open>at_id x = Some i\<close> by (auto simp: D_def)
      from Cons.IH [OF s1(1,2) rest] s1(3,4) Some show ?thesis
        unfolding D D_def [symmetric] by (auto simp: fun_eq_iff)
    qed
  qed
qed simp

lemma cleanup_effect:
  assumes inv: "ainv s" "finv f"
    and run: "as_cleanup_orphans orphaned (as_delete find_record remove delete_file) (\<lambda>st. st) t (s, f) = (r, s', f')"
  shows "\<exists>l. r = Ok (length l) \<and> distinct (map at_id l) \<and> (\<forall>a. a \<in> set l \<longleftrightarrow> (\<exists>i. row s i = Some a) \<and> is_orphan t a) \<and>
    ainv s' \<and> finv f' \<and>
    row s' = (\<lambda>i. if i \<in> {i. \<exists>a. row s i = Some a \<and> is_orphan t a} then None else row s i) \<and>
    content f' = (\<lambda>k. if \<exists>i \<in> {i. \<exists>a. row s i = Some a \<and> is_orphan t a}. \<exists>a. row s i = Some a \<and> at_disk_filename a = k
      then None else content f k)"
proof -
  from orphaned_rows [OF inv(1), of t] obtain l where l: "orphaned t s = Ok l" "distinct (map at_id l)"
    "\<forall>a. a \<in> set l \<longleftrightarrow> (\<exists>i. row s i = Some a) \<and> is_orphan t a" by blast
  with run have r: "r = Ok (length l)" "delete_each (as_delete find_record remove delete_file) l (s, f) = (s', f')"
    by (simp_all add: as_cleanup_orphans_def)
  have ids: "{i. Some i \<in> at_id ` set l} = {i. \<exists>a. row s i = Some a \<and> is_orphan t a}"
  proof (rule set_eqI)
    fix i
    show "i \<in> {i. Some i \<in> at_id ` set l} \<longleftrightarrow> i \<in> {i. \<exists>a. row s i = Some a \<and> is_orphan t a}"
      using l(3) own_id [OF inv(1)] by (auto simp: image_iff) (metis option.inject)+
  qed
  from delete_each_effect [OF inv r(2)] r(1) l(2,3) show ?thesis
    unfolding ids by blast
qed

lemma copy_effect:
  assumes inv: "ainv s" "aroom s" "finv f"
    and a: "row s i = Some src" "content f (at_disk_filename src) = Some d"
  shows "\<exists>s' f' u. as_copy_to find_record create copy_file url env i ct cid author (s, f) =
      (Ok \<lparr>au_attachment = (copied_record (ue_now env) src (generate_disk_filename (ue_uuid env) (at_filename src)) ct cid author)
          \<lparr>at_id := Some (next_id s)\<rparr>, au_download_url = u\<rparr>, s', f') \<and> ainv s' \<and> finv f' \<and>
    row s' = (row s)(next_id s \<mapsto>
      (copied_record (ue_now env) src (generate_disk_filename (ue_uuid env) (at_filename src)) ct cid author)
        \<lparr>at_id := Some (next_id s)\<rparr>) \<and>
    content f' = (content f)(generate_disk_filename (ue_uuid env) (at_filename src) \<mapsto> d)"
proof -
  let ?k = "generate_disk_filename (ue_uuid env) (at_filename src)"
  let ?a = "copied_record (ue_now env) src ?k ct cid author"
  obtain ack f' where c: "copy_file (at_disk_filename src) ?k f = (ack, f')" by (cases "copy_file (at_disk_filename src) ?k f")
  obtain made a' s' where m: "create ?a s = (made, a', s')" by (cases "create ?a s")
  obtain u where u: "url ?k = Ok u" using url_ok by blast
  from create_row [OF inv(1,2) m] copy_file [OF inv(3) c] a(2) show ?thesis
    by (intro exI [of _ s'] exI [of _ f'] exI [of _ u])
      (simp add: as_copy_to_def as_find_row inv a c m u Let_def)
qed

end

subsection \<open>The in-memory store is a store\<close>

definition mas_inv :: "memory_attachment_store \<Rightarrow> bool" where
  "mas_inv s \<longleftrightarrow> tab_ok at_id (mas_next_id s) (mas_attachments s)"

definition mas_room :: "memory_attachment_store \<Rightarrow> bool" where
  "mas_room s \<longleftrightarrow> sint (mas_next_id s) < 2 ^ 63 - 1"

definition mas_row :: "memory_attachment_store \<Rightarrow> Id \<Rightarrow> attachment option" where
  "mas_row s = tab_row at_id (mas_attachments s)"

lemmas mas_spec_defs = mas_inv_def mas_row_def

lemma mas_update_ok:
  assumes "mas_inv s" and "at_id a = Some i" and "mas_update a s = (r, s')"
  shows "r = Ok () \<and> mas_inv s' \<and> mas_row s' = (if mas_row s i = None then mas_row s else (mas_row s)(i \<mapsto> a))"
proof (cases "replace_first (\<lambda>e. at_id e = Some i) a (mas_attachments s)")
  case None
  with assms have "s' = s" "r = Ok ()" by (simp_all add: mas_update_def del: replace_first_None)
  with assms tab_replace_None [OF None] show ?thesis by (simp add: mas_spec_defs)
next
  case (Some rows)
  with assms tab_replace_Some [of at_id "mas_next_id s" "mas_attachments s" a i rows] show ?thesis
    by (auto simp: mas_update_def mas_spec_defs)
qed

interpretation memory_attachments: attachment_store mas_inv mas_room mas_row mas_next_id
  mas_create mas_get mas_update mas_delete mas_get_orphaned
proof unfold_locales
  fix s assume "mas_inv s"
  then have ok: "tab_ok at_id (mas_next_id s) (mas_attachments s)" by (simp add: mas_inv_def)
  show "mas_row s (mas_next_id s) = None" unfolding mas_row_def by (rule tab_fresh [OF ok])
  show "at_id a = Some i" if "mas_row s i = Some a" for i a
    using that by (simp add: mas_row_def tab_row_iff [OF ok])
  show "mas_get i s = Ok (mas_row s i)" for i by (simp add: mas_get_def mas_row_def tab_row_def)
  show "made = Ok (mas_next_id s) \<and> a' = a\<lparr>at_id := Some (mas_next_id s)\<rparr> \<and> mas_inv s' \<and>
      mas_row s' = (mas_row s)(mas_next_id s \<mapsto> a\<lparr>at_id := Some (mas_next_id s)\<rparr>)"
    if "mas_room s" "mas_create a s = (made, a', s')" for a made a' s'
    using that ok tab_append [of at_id "mas_next_id s" "mas_attachments s" "a\<lparr>at_id := Some (mas_next_id s)\<rparr>"]
    by (auto simp: mas_create_def mas_spec_defs mas_room_def Let_def)
  show "ack = Ok () \<and> mas_inv s' \<and> mas_row s' = (mas_row s)(i := None)" if "mas_delete i s = (ack, s')" for i ack s'
    using that tab_remove [OF ok, of i] by (auto simp: mas_delete_def mas_spec_defs)
  show "\<exists>l. mas_get_orphaned t s = Ok l \<and> distinct (map at_id l) \<and>
      (\<forall>a. a \<in> set l \<longleftrightarrow> (\<exists>i. mas_row s i = Some a) \<and> is_orphan t a)" for t
    using ok by (auto simp: mas_get_orphaned_def mas_row_def tab_row_iff [OF ok] distinct_map_filter tab_ok_def)
qed (fact mas_update_ok)

interpretation memory_service: attachment_service mas_inv mas_room mas_row mas_next_id
  mas_create mas_get mas_update mas_delete mas_get_orphaned
  hm_ok mst_content digest_of "mst_put digest_of mime" mst_get mst_delete "mst_copy (\<lambda>m. m)" mst_url
  for digest_of mime :: "string \<Rightarrow> string"
  by unfold_locales

subsection \<open>What the service does\<close>

text \<open>The service on the in-memory store and storage, one request after the other.\<close>

type_synonym att_state = "memory_attachment_store \<times> memory_storage"

abbreviation mem_create where
  "mem_create digest_of mime \<equiv> as_create mas_create (mst_put digest_of mime) mst_url mime"

abbreviation mem_download where
  "mem_download \<equiv> as_download mas_get mas_update mst_get (\<lambda>s. s)"

abbreviation mem_attach_to where
  "mem_attach_to \<equiv> as_attach_to mas_get mas_update (\<lambda>s. s)"

abbreviation mem_delete :: "Id \<Rightarrow> att_state \<Rightarrow> (unit, attachment_error) result \<times> att_state" where
  "mem_delete \<equiv> as_delete mas_get mas_delete mst_delete"

abbreviation mem_cleanup where
  "mem_cleanup \<equiv> as_cleanup_orphans mas_get_orphaned mem_delete (\<lambda>st. st)"

abbreviation mem_copy_to where
  "mem_copy_to \<equiv> as_copy_to mas_get mas_create (mst_copy (\<lambda>m. m)) mst_url"

definition att_inv :: "(string \<Rightarrow> string) \<Rightarrow> att_state \<Rightarrow> bool" where
  "att_inv digest_of st \<longleftrightarrow>
     mas_inv (fst st) \<and> hm_ok (snd st) \<and> files_match digest_of (mas_row (fst st)) (mst_content (snd st))"

lemma uploaded_record_fields [simp]:
  "at_filename (uploaded_record env p k ct md author) = cp_filename p"
  "at_disk_filename (uploaded_record env p k ct md author) = k"
  "at_content_type (uploaded_record env p k ct md author) = ct"
  "at_filesize (uploaded_record env p k ct md author) = fmd_size md"
  "at_digest (uploaded_record env p k ct md author) = fmd_digest md"
  "at_author_id (uploaded_record env p k ct md author) = author"
  "at_description (uploaded_record env p k ct md author) = cp_description p"
  "at_downloads (uploaded_record env p k ct md author) = 0"
  "at_created_at (uploaded_record env p k ct md author) = ue_now env"
  "at_container_id (uploaded_record env p k ct md author) =
     (if cp_container_type p = None then None else cp_container_id p)"
  by (auto simp: uploaded_record_def attachment_new_def attachment_for_container_def Let_def split: option.split)

lemma mem_create_cases:
  assumes inv: "att_inv digest_of (s, f)" and room: "mas_room s"
    and new: "hm_get f (generate_disk_filename (ue_uuid env) (cp_filename p)) = None"
  obtains (refused) "mem_create digest_of mime types env p data author (s, f) =
      (Err (if sint (ft_max_file_size types) < sint (of_nat (length data) :: i64)
         then AtFileTooLarge (of_nat (length data)) (ft_max_file_size types)
         else AtInvalidContentType (upload_content_type mime p)), s, f)"
      "sint (ft_max_file_size types) < sint (of_nat (length data) :: i64) \<or>
       \<not> type_is_allowed types (upload_content_type mime p)"
  | (stored) a u s' f' where "mem_create digest_of mime types env p data author (s, f) =
      (Ok \<lparr>au_attachment = a, au_download_url = u\<rparr>, s', f')"
      "\<not> sint (ft_max_file_size types) < sint (of_nat (length data) :: i64)"
      "type_is_allowed types (upload_content_type mime p)" "att_inv digest_of (s', f')"
      "mas_row s (mas_next_id s) = None" "mas_row s' = (mas_row s)(mas_next_id s \<mapsto> a)"
      "mst_content f' = (mst_content f)(at_disk_filename a \<mapsto> data)"
      "at_filename a = cp_filename p" "at_author_id a = author" "at_description a = cp_description p"
      "at_filesize a = of_nat (length data)" "at_digest a = digest_of data"
      "at_content_type a = upload_content_type mime p"
proof (cases "\<not> sint (ft_max_file_size types) < sint (of_nat (length data) :: i64) \<and>
    type_is_allowed types (upload_content_type mime p)")
  case False
  then show ?thesis by (intro refused) (auto simp: as_create_def Let_def)
next
  case True
  let ?k = "generate_disk_filename (ue_uuid env) (cp_filename p)"
  from inv have i: "mas_inv s" "hm_ok f" "files_match digest_of (mas_row s) (mst_content f)"
    by (simp_all add: att_inv_def)
  from memory_service.create_accepted [where digest_of = digest_of and env = env and author = author,
      OF i(1) room i(2) conjunct1 [OF True] conjunct2 [OF True]]
  obtain a u s' f' md where run: "mem_create digest_of mime types env p data author (s, f) =
      (Ok \<lparr>au_attachment = a, au_download_url = u\<rparr>, s', f')"
    and a: "a = (uploaded_record env p ?k (upload_content_type mime p) md author)\<lparr>at_id := Some (mas_next_id s)\<rparr>"
    and md: "fmd_size md = of_nat (length data)" "fmd_digest md = digest_of data"
    and i': "mas_inv s'" "hm_ok f'" and s': "mas_row s' = (mas_row s)(mas_next_id s \<mapsto> a)"
    and f': "mst_content f' = (mst_content f)(?k \<mapsto> data)" by blast
  have "files_match digest_of (mas_row s') (mst_content f')"
    unfolding s' f' using new by (intro files_match_new i(3)) (simp_all add: a md mst_content_def)
  with i' have inv': "att_inv digest_of (s', f')" by (simp add: att_inv_def)
  from run True inv' s' f' memory_attachments.fresh [OF i(1)] md show ?thesis
    by (intro stored [of a u s' f']) (simp_all add: a)
qed

lemma mem_attach_effect:
  assumes "mas_inv s"
  shows "(case mas_row s i of
      None \<Rightarrow> mem_attach_to now i ct cid (s, f) = (Err (AtNotFound i), s, f)
    | Some a \<Rightarrow> \<exists>s'. mem_attach_to now i ct cid (s, f) = (Ok (attached_to now ct cid a), s', f) \<and>
        mas_inv s' \<and> mas_row s' = (mas_row s)(i \<mapsto> attached_to now ct cid a))"
  using memory_attachments.attach_effect [where meanwhile = "\<lambda>s. s" and i = i and now = now and ct = ct and cid = cid and f = f,
      OF assms assms]
  by (auto split: option.splits)

lemma mem_download_effect:
  assumes inv: "att_inv digest_of (s, f)"
  shows "(case mas_row s i of
      None \<Rightarrow> mem_download now i (s, f) = (Err (AtNotFound i), s, f)
    | Some a \<Rightarrow> \<exists>d s'. mst_content f (at_disk_filename a) = Some d \<and> at_digest a = digest_of d \<and>
        at_filesize a = of_nat (length d) \<and> mem_download now i (s, f) = (Ok (a, d), s', f) \<and>
        mas_inv s' \<and> mas_row s' = (mas_row s)(i \<mapsto> increment_downloads now a))"
proof (cases "mas_row s i")
  case None
  with memory_service.download_effect [where meanwhile = "\<lambda>s. s"] inv show ?thesis by (simp add: att_inv_def)
next
  case (Some a)
  from inv have i: "mas_inv s" "hm_ok f" "files_match digest_of (mas_row s) (mst_content f)" by (simp_all add: att_inv_def)
  from files_match_data [OF i(3) Some] obtain d where d: "mst_content f (at_disk_filename a) = Some d"
    "at_digest a = digest_of d" "at_filesize a = of_nat (length d)" by blast
  have "at_id (increment_downloads now a) = Some i"
    using memory_attachments.own_id [OF i(1) Some] by (simp add: increment_downloads_def)
  moreover obtain r s' where u: "mas_update (increment_downloads now a) s = (r, s')"
    by (cases "mas_update (increment_downloads now a) s")
  ultimately have "mas_inv s'" "mas_row s' = (mas_row s)(i \<mapsto> increment_downloads now a)"
    using memory_attachments.put_row [OF i(1)] Some by auto
  with d u Some memory_service.download_effect [where meanwhile = "\<lambda>s. s" and now = now and i = i, OF i(1,1,2)] show ?thesis
    by simp
qed

text \<open>
  C19. Upload and download.  An upload is refused exactly when it is larger than the maximum or its
  type (given, or guessed from the file name) is blocked or not on a non-empty list of allowed
  types; then nothing changes.  An accepted upload gets a fresh identity, no other record or file
  changes, the record says what was uploaded, by whom and how large it is, and downloading that
  identity gives exactly the bytes that were uploaded.
\<close>

theorem upload_download_roundtrip:
  assumes inv: "att_inv digest_of (s, f)" and room: "mas_room s"
    and new: "hm_get f (generate_disk_filename (ue_uuid env) (cp_filename p)) = None"
  shows "(case mem_create digest_of mime types env p data author (s, f) of
      (Inl e, s', f') \<Rightarrow> s' = s \<and> f' = f \<and>
        (if sint (ft_max_file_size types) < sint (of_nat (length data) :: i64)
         then e = AtFileTooLarge (of_nat (length data)) (ft_max_file_size types)
         else e = AtInvalidContentType (upload_content_type mime p) \<and>
           (upload_content_type mime p \<in> set (ft_blocked_mime_types types) \<or>
            ft_allowed_mime_types types \<noteq> [] \<and> upload_content_type mime p \<notin> set (ft_allowed_mime_types types)))
    | (Inr au, s', f') \<Rightarrow> \<not> sint (ft_max_file_size types) < sint (of_nat (length data) :: i64) \<and>
        type_is_allowed types (upload_content_type mime p) \<and> att_inv digest_of (s', f') \<and>
        (\<exists>i a. au_attachment au = a \<and> mas_row s i = None \<and> mas_row s' = (mas_row s)(i \<mapsto> a) \<and>
           at_filename a = cp_filename p \<and> at_author_id a = author \<and> at_description a = cp_description p \<and>
           at_filesize a = of_nat (length data) \<and> at_digest a = digest_of data \<and>
           at_content_type a = upload_content_type mime p \<and>
           mst_content f' = (mst_content f)(at_disk_filename a \<mapsto> data) \<and>
           fst (mem_download now i (s', f')) = Ok (a, data)))"
  using inv room new
proof (cases rule: mem_create_cases [where mime = mime and types = types and data = data and author = author])
  case refused
  then show ?thesis by (auto simp: type_is_allowed_def split: if_splits)
next
  case (stored a u s' f')
  from mem_download_effect [OF stored(4), where i = "mas_next_id s" and now = now]
  have "fst (mem_download now (mas_next_id s) (s', f')) = Ok (a, data)" by (auto simp: stored(6,7))
  with stored show ?thesis by (auto intro!: exI [of _ "mas_next_id s"])
qed

theorem upload_download_roundtrip_witness:
  "case mem_create (\<lambda>d. d) (\<lambda>_. ''text/plain'') allowed_file_types_default \<lparr>ue_uuid = ''u'', ue_put_now = 1, ue_now = 2\<rparr>
      (create_params_new ''a.txt'') ''hi'' 7 (mas_new, []) of
    (r, s', f') \<Rightarrow> \<exists>i. \<not> isl r \<and> map_sum id snd (fst (mem_download 3 i (s', f'))) = Ok ''hi''"
    (is "case ?run of (r, s', f') \<Rightarrow> _ r s' f'")
proof -
  obtain r s' f' where run: "?run = (r, s', f')" by (cases ?run)
  have "att_inv (\<lambda>d. d) (mas_new, [])" "mas_room mas_new"
    by (simp_all add: att_inv_def mas_inv_def mas_new_def files_match_def mas_row_def mas_room_def)
  from upload_download_roundtrip [OF this, where env = "\<lparr>ue_uuid = ''u'', ue_put_now = 1, ue_now = 2\<rparr>" and
      p = "create_params_new ''a.txt''" and mime = "\<lambda>_. ''text/plain''" and types = allowed_file_types_default and
      data = "''hi''" and author = 7 and now = 3] run
  have "(case r of Inl e \<Rightarrow> False | Inr au \<Rightarrow> \<exists>i a. fst (mem_download 3 i (s', f')) = Ok (a, ''hi''))"
    by (cases r) (auto simp: allowed_file_types_default_def create_params_new_def upload_content_type_def)
  then obtain i a where "\<not> isl r" "fst (mem_download 3 i (s', f')) = Ok (a, ''hi'')" by (cases r) auto
  then show ?thesis unfolding run prod.case by (intro exI [of _ i]) simp
qed

text \<open>
  Any number of requests, one after the other.  A request that stores a file draws a UUID whose
  file name is not in use, and finds identities left.
\<close>

inductive att_reachable :: "(string \<Rightarrow> string) \<Rightarrow> (string \<Rightarrow> string) \<Rightarrow> allowed_file_types \<Rightarrow> att_state \<Rightarrow> bool"
  for digest_of mime types
where
  start: "att_reachable digest_of mime types (mas_new, [])"
| upload: "att_reachable digest_of mime types (s, f) \<Longrightarrow> mas_room s \<Longrightarrow>
    hm_get f (generate_disk_filename (ue_uuid env) (cp_filename p)) = None \<Longrightarrow>
    att_reachable digest_of mime types (snd (mem_create digest_of mime types env p data author (s, f)))"
| download: "att_reachable digest_of mime types st \<Longrightarrow> att_reachable digest_of mime types (snd (mem_download now i st))"
| attach: "att_reachable digest_of mime types st \<Longrightarrow>
    att_reachable digest_of mime types (snd (mem_attach_to now i ct cid st))"
| remove: "att_reachable digest_of mime types st \<Longrightarrow> att_reachable digest_of mime types (snd (mem_delete i st))"
| cleanup: "att_reachable digest_of mime types st \<Longrightarrow> att_reachable digest_of mime types (snd (mem_cleanup cutoff st))"
| copy: "att_reachable digest_of mime types (s, f) \<Longrightarrow> mas_room s \<Longrightarrow>
    (\<forall>a. mas_row s i = Some a \<longrightarrow> hm_get f (generate_disk_filename (ue_uuid env) (at_filename a)) = None) \<Longrightarrow>
    att_reachable digest_of mime types (snd (mem_copy_to env i ct cid author (s, f)))"

lemma att_inv_delete:
  assumes "att_inv digest_of (s, f)"
  shows "att_inv digest_of (snd (mem_delete i (s, f)))"
proof -
  obtain r s' f' where run: "mem_delete i (s, f) = (r, s', f')" by (cases "mem_delete i (s, f)")
  from assms have i: "mas_inv s" "hm_ok f" "files_match digest_of (mas_row s) (mst_content f)" by (simp_all add: att_inv_def)
  note eff = memory_service.delete_effect [OF i(1,2) run]
  show ?thesis
  proof (cases "mas_row s i")
    case None
    with eff run assms show ?thesis by simp
  next
    case (Some a)
    have "(\<lambda>k. if \<exists>j \<in> {i}. \<exists>b. mas_row s j = Some b \<and> at_disk_filename b = k then None else mst_content f k) =
        (mst_content f)(at_disk_filename a := None)"
      "(\<lambda>j. if j \<in> {i} then None else mas_row s j) = (mas_row s)(i := None)"
      using Some by (auto simp: fun_eq_iff)
    with files_match_remove [OF i(3), of "{i}"] eff run Some show ?thesis by (simp add: att_inv_def)
  qed
qed

lemma att_inv_cleanup:
  assumes "att_inv digest_of (s, f)"
  shows "att_inv digest_of (snd (mem_cleanup cutoff (s, f)))"
proof -
  obtain r s' f' where run: "mem_cleanup cutoff (s, f) = (r, s', f')" by (cases "mem_cleanup cutoff (s, f)")
  from assms have i: "mas_inv s" "hm_ok f" "files_match digest_of (mas_row s) (mst_content f)" by (simp_all add: att_inv_def)
  from memory_service.cleanup_effect [OF i(1,2) run] have i': "mas_inv s'" "hm_ok f'"
    and s': "mas_row s' = (\<lambda>i. if i \<in> {i. \<exists>a. mas_row s i = Some a \<and> is_orphan cutoff a} then None else mas_row s i)"
    and f': "mst_content f' = (\<lambda>k. if \<exists>i \<in> {i. \<exists>a. mas_row s i = Some a \<and> is_orphan cutoff a}.
      \<exists>a. mas_row s i = Some a \<and> at_disk_filename a = k then None else mst_content f k)" by blast+
  have "files_match digest_of (mas_row s') (mst_content f')"
    unfolding s' f' by (rule files_match_remove [OF i(3)])
  with i' run show ?thesis by (simp add: att_inv_def)
qed

lemma copied_record_fields [simp]:
  "at_disk_filename (copied_record now src k ct cid author) = k"
  "at_filesize (copied_record now src k ct cid author) = at_filesize src"
  "at_digest (copied_record now src k ct cid author) = at_digest src"
  by (simp_all add: copied_record_def attachment_new_def attachment_for_container_def)

lemma att_inv_copy:
  assumes inv: "att_inv digest_of (s, f)" and room: "mas_room s"
    and new: "\<forall>a. mas_row s i = Some a \<longrightarrow> hm_get f (generate_disk_filename (ue_uuid env) (at_filename a)) = None"
  shows "att_inv digest_of (snd (mem_copy_to env i ct cid author (s, f)))"
proof (cases "mas_row s i")
  case None
  with inv show ?thesis by (simp add: as_copy_to_def memory_attachments.as_find_row att_inv_def)
next
  case (Some a)
  from inv have i: "mas_inv s" "hm_ok f" "files_match digest_of (mas_row s) (mst_content f)" by (simp_all add: att_inv_def)
  from files_match_data [OF i(3) Some] obtain d where d: "mst_content f (at_disk_filename a) = Some d"
    "at_digest a = digest_of d" "at_filesize a = of_nat (length d)" by blast
  have "mst_content f (generate_disk_filename (ue_uuid env) (at_filename a)) = None"
    using new Some by (simp add: mst_content_def)
  from files_match_new [OF i(3) this, where d = d and i = "mas_next_id s"]
    memory_service.copy_effect [OF i(1) room i(2) Some d(1), where env = env and ct = ct and cid = cid and
      author = author] d
  show ?thesis by (fastforce simp: att_inv_def)
qed

lemma att_reachable_inv: "att_reachable digest_of mime types st \<Longrightarrow> att_inv digest_of st"
proof (induction rule: att_reachable.induct)
  case start
  show ?case by (simp add: att_inv_def mas_inv_def mas_new_def mas_row_def files_match_def)
next
  case (upload s f env p data author)
  from upload.IH upload.hyps(2,3) show ?case
    by (cases rule: mem_create_cases [where mime = mime and types = types and data = data and author = author])
      (use upload.IH in simp_all)
next
  case (download st now i)
  obtain s f where st: "st = (s, f)" by (cases st)
  with download have inv: "att_inv digest_of (s, f)" by simp
  then have fm: "files_match digest_of (mas_row s) (mst_content f)" by (simp add: att_inv_def)
  from mem_download_effect [OF inv, where i = i and now = now] inv files_match_update [OF fm, of i] show ?case
    unfolding st by (auto simp: att_inv_def increment_downloads_def split: option.splits)
next
  case (attach st now i ct cid)
  obtain s f where st: "st = (s, f)" by (cases st)
  with attach have inv: "att_inv digest_of (s, f)" by simp
  then have fm: "files_match digest_of (mas_row s) (mst_content f)" and s: "mas_inv s" by (simp_all add: att_inv_def)
  from mem_attach_effect [OF s, where i = i and now = now and ct = ct and cid = cid and f = f] inv files_match_update [OF fm, of i] show ?case
    unfolding st by (auto simp: att_inv_def attached_to_def split: option.splits)
next
  case (remove st i)
  then show ?case by (cases st) (simp add: att_inv_delete)
next
  case (cleanup st cutoff)
  then show ?case by (cases st) (simp add: att_inv_cleanup)
next
  case (copy s f i env ct cid author)
  then show ?case by (simp add: att_inv_copy)
qed

text \<open>
  C23. Records and files stay in step: after any sequence of uploads, downloads, attachments,
  deletions, clean-ups and copies, every record that is left can be downloaded, and what comes
  back has the size and the digest the record names.
\<close>

theorem every_attachment_downloads:
  assumes "att_reachable digest_of mime types (s, f)" and "mas_get i s = Ok (Some a)"
  shows "\<exists>d. fst (mem_download now i (s, f)) = Ok (a, d) \<and> at_digest a = digest_of d \<and>
    at_filesize a = of_nat (length d)"
proof -
  from att_reachable_inv [OF assms(1)] have inv: "att_inv digest_of (s, f)" .
  then have "mas_row s i = Some a"
    using assms(2) memory_attachments.find_row by (simp add: att_inv_def)
  with mem_download_effect [OF inv, where i = i and now = now] show ?thesis by auto
qed

theorem every_attachment_downloads_witness:
  "\<exists>i a d. fst (mem_download 3 i (snd (mem_create (\<lambda>d. d) (\<lambda>_. ''text/plain'') allowed_file_types_default
      \<lparr>ue_uuid = ''u'', ue_put_now = 1, ue_now = 2\<rparr> (create_params_new ''a.txt'') ''hi'' 7 (mas_new, [])))) =
    Ok (a, d) \<and> at_filesize a = of_nat (length d)"
proof -
  let ?env = "\<lparr>ue_uuid = ''u'', ue_put_now = 1, ue_now = 2\<rparr>"
  let ?st = "snd (mem_create (\<lambda>d. d) (\<lambda>_. ''text/plain'') allowed_file_types_default ?env
    (create_params_new ''a.txt'') ''hi'' 7 (mas_new, []))"
  obtain s f where st: "?st = (s, f)" by (cases ?st)
  have "att_reachable (\<lambda>d. d) (\<lambda>_. ''text/plain'') allowed_file_types_default ?st"
    by (intro att_reachable.upload att_reachable.start) (simp_all add: mas_room_def mas_new_def)
  then have r: "att_reachable (\<lambda>d. d) (\<lambda>_. ''text/plain'') allowed_file_types_default (s, f)" by (simp add: st)
  have "mas_get 1 (fst ?st) \<noteq> Ok None"
    by (simp add: as_create_def allowed_file_types_default_def create_params_new_def upload_content_type_def
        type_is_allowed_def mst_put_def mas_create_def mas_new_def mst_url_def mas_get_def Let_def)
  then have "mas_get 1 s \<noteq> Ok None" by (simp add: st)
  then obtain a where "mas_get 1 s = Ok (Some a)" by (auto simp: mas_get_def)
  from every_attachment_downloads [OF r this, of 3] st show ?thesis by fastforce
qed

text \<open>
  Cleaning up, with no other request at the same time: exactly the records without a container
  that are older than the cutoff go, with their files; every other record stays as it is and its
  file stays in place; the answer is the number of records that went.
\<close>

theorem cleanup_removes_exactly_orphans:
  assumes "att_inv digest_of (s, f)"
  shows "(case mem_cleanup cutoff (s, f) of (r, s', f') \<Rightarrow>
      r = Ok (card {i. \<exists>a. mas_row s i = Some a \<and> is_orphan cutoff a}) \<and> att_inv digest_of (s', f') \<and>
      (\<forall>i. mas_row s' i = (case mas_row s i of None \<Rightarrow> None | Some a \<Rightarrow> if is_orphan cutoff a then None else Some a)) \<and>
      (\<forall>i a. mas_row s i = Some a \<longrightarrow>
         mst_content f' (at_disk_filename a) = (if is_orphan cutoff a then None else mst_content f (at_disk_filename a))))"
proof -
  obtain r s' f' where run: "mem_cleanup cutoff (s, f) = (r, s', f')" by (cases "mem_cleanup cutoff (s, f)")
  from assms have i: "mas_inv s" "hm_ok f" "files_match digest_of (mas_row s) (mst_content f)" by (simp_all add: att_inv_def)
  have ok: "tab_ok at_id (mas_next_id s) (mas_attachments s)" using i(1) by (simp add: mas_inv_def)
  have r: "r = Ok (card {i. \<exists>a. mas_row s i = Some a \<and> is_orphan cutoff a})"
    using run unfolding mas_row_def tab_count [OF ok] by (auto simp: as_cleanup_orphans_def mas_get_orphaned_def)
  from memory_service.cleanup_effect [OF i(1,2) run]
  have s': "mas_row s' = (\<lambda>i. if i \<in> {i. \<exists>a. mas_row s i = Some a \<and> is_orphan cutoff a} then None else mas_row s i)"
    and f': "mst_content f' = (\<lambda>k. if \<exists>i \<in> {i. \<exists>a. mas_row s i = Some a \<and> is_orphan cutoff a}.
      \<exists>a. mas_row s i = Some a \<and> at_disk_filename a = k then None else mst_content f k)" by blast+
  have rows: "mas_row s' j = (case mas_row s j of None \<Rightarrow> None | Some a \<Rightarrow> if is_orphan cutoff a then None else Some a)" for j
    by (simp add: s' split: option.split)
  have "mst_content f' (at_disk_filename a) = (if is_orphan cutoff a then None else mst_content f (at_disk_filename a))"
    if "mas_row s j = Some a" for j a
  proof -
    have "(\<exists>i \<in> {i. \<exists>a. mas_row s i = Some a \<and> is_orphan cutoff a}. \<exists>b. mas_row s i = Some b \<and>
        at_disk_filename b = at_disk_filename a) \<longleftrightarrow> is_orphan cutoff a"
      using files_match_inj [OF i(3) _ that] that by auto
    then show ?thesis unfolding f' by (simp only:)
  qed
  with r rows att_inv_cleanup [OF assms, of cutoff] run show ?thesis by simp
qed

theorem cleanup_removes_exactly_orphans_witness:
  "fst (mem_cleanup 5 (mas_new, [])) = Ok 0"
proof -
  have "att_inv (\<lambda>d. d) (mas_new, [])"
    by (simp add: att_inv_def mas_inv_def mas_new_def files_match_def mas_row_def)
  from cleanup_removes_exactly_orphans [OF this, of 5] show ?thesis
    by (auto simp: mas_row_def mas_new_def split: prod.splits)
qed

text \<open>
  Two races.  A clean-up takes a snapshot of the orphans and then deletes them by identity: an
  upload that is attached in between, successfully, is deleted all the same.  A download writes
  back the whole record it has read: an attachment made in between is undone, although its request
  succeeded, and the record is an orphan again.
\<close>

theorem attaching_races_lose:
  assumes inv: "att_inv digest_of (s, f)" and a: "mas_row s i = Some a" and orphan: "is_orphan cutoff a"
  shows "\<not> isl (fst (mem_attach_to now i ct cid (s, f))) \<and>
    (case as_cleanup_orphans mas_get_orphaned mem_delete (\<lambda>st. snd (mem_attach_to now i ct cid st)) cutoff (s, f) of
       (_, s', _) \<Rightarrow> mas_get i s' = Ok None) \<and>
    (case as_download mas_get mas_update mst_get (\<lambda>s. fst (snd (mem_attach_to now i ct cid (s, f)))) now2 i (s, f) of
       (r, s', _) \<Rightarrow> \<not> isl r \<and> (\<exists>b. mas_get i s' = Ok (Some b) \<and> is_orphan cutoff b))"
proof -
  from inv have i: "mas_inv s" "hm_ok f" "files_match digest_of (mas_row s) (mst_content f)" by (simp_all add: att_inv_def)
  from mem_attach_effect [OF i(1), where i = i and now = now and ct = ct and cid = cid and f = f] a
  obtain s1 where s1: "mem_attach_to now i ct cid (s, f) = (Ok (attached_to now ct cid a), s1, f)" "mas_inv s1"
    "mas_row s1 = (mas_row s)(i \<mapsto> attached_to now ct cid a)" by auto
  have id: "at_id a = Some i" using memory_attachments.own_id [OF i(1) a] .
  from memory_attachments.orphaned_rows [OF i(1), of cutoff] a orphan
  obtain l where l: "mas_get_orphaned cutoff s = Ok l" "a \<in> set l" by blast
  obtain s2 f2 where run: "delete_each mem_delete l (s1, f) = (s2, f2)" by (cases "delete_each mem_delete l (s1, f)")
  have "Some i \<in> at_id ` set l" using l(2) id by (metis image_eqI)
  with memory_service.delete_each_effect [OF s1(2) i(2) run] have "mas_inv s2" "mas_row s2 i = None" by simp_all
  then have "mas_get i s2 = Ok None" by (simp add: memory_attachments.find_row)
  then have cleaned: "case as_cleanup_orphans mas_get_orphaned mem_delete (\<lambda>st. snd (mem_attach_to now i ct cid st)) cutoff (s, f) of
       (_, s', _) \<Rightarrow> mas_get i s' = Ok None"
    using l(1) run by (simp add: as_cleanup_orphans_def s1(1))
  let ?m = "\<lambda>s. fst (snd (mem_attach_to now i ct cid (s, f)))"
  obtain d where d: "mst_content f (at_disk_filename a) = Some d" using files_match_data [OF i(3) a] by blast
  obtain r s3 where put: "mas_update (increment_downloads now2 a) (?m s) = (r, s3)"
    by (cases "mas_update (increment_downloads now2 a) (?m s)")
  have m: "mas_inv (?m s)" using s1 by simp
  have "at_id (increment_downloads now2 a) = Some i" using id by (simp add: increment_downloads_def)
  from memory_attachments.put_row [OF m this put] s1 have "mas_inv s3" "mas_row s3 i = Some (increment_downloads now2 a)"
    by simp_all
  then have "mas_get i s3 = Ok (Some (increment_downloads now2 a))" by (simp add: memory_attachments.find_row)
  moreover have "is_orphan cutoff (increment_downloads now2 a)"
    using orphan by (simp add: is_orphan_def increment_downloads_def)
  moreover have "as_download mas_get mas_update mst_get ?m now2 i (s, f) = (Ok (a, d), s3, f)"
    using memory_service.download_effect [where meanwhile = ?m and now = now2 and i = i, OF i(1) m i(2)] a d put by simp
  ultimately show ?thesis using s1(1) cleaned by simp
qed

theorem attaching_races_lose_witness:
  "\<exists>s f. att_inv (\<lambda>d. d) (s, f) \<and>
    (case as_cleanup_orphans mas_get_orphaned mem_delete (\<lambda>st. snd (mem_attach_to 6 1 ContainerNews 9 st)) 5 (s, f) of
       (_, s', _) \<Rightarrow> mas_get 1 s' = Ok None)"
proof -
  fix md :: file_metadata
  let ?a = "(attachment_new 2 ''a'' ''k'' 2 ''t'' ''hi'' 7)\<lparr>at_id := Some 1\<rparr>"
  let ?s = "\<lparr>mas_attachments = [?a], mas_next_id = 2\<rparr>" and ?f = "[(''k'', ''hi'', md)]"
  have inv: "att_inv (\<lambda>d. d) (?s, ?f)"
    by (auto simp: att_inv_def mas_inv_def tab_ok_def files_match_def mas_row_def tab_row_def mst_content_def hm_ok_def
        attachment_new_def split: if_splits)
  have row: "mas_row ?s 1 = Some ?a" and old: "is_orphan 5 ?a"
    by (simp_all add: mas_row_def tab_row_def is_orphan_def attachment_new_def)
  note races = attaching_races_lose [OF inv row old, of 6 ContainerNews 9]
  show ?thesis by (intro exI [of _ ?s] exI [of _ ?f] conjI) (fact inv, fact conjunct1 [OF conjunct2 [OF races]])
qed

end
