(* ===== verification/View_Registry.thy ===== *)
theory View_Registry
  imports Prelude
begin

text \<open>
  The view filter of op-server (viewfilter.rs): the registry that interns nested views, and the
  rolling buckets for classes with more than 256 fields.  The field mask itself
  (\<open>WideFieldMask\<close> of lance_graph_contract) is not part of the repository: it is a type parameter,
  its operations are arguments, and \<open>mask_contract\<close> states what its documentation promises.
\<close>

subsection \<open>Masks\<close>

definition view_filter :: "('m \<Rightarrow> 'm \<Rightarrow> 'm) \<Rightarrow> 'm \<Rightarrow> 'm \<Rightarrow> 'm \<Rightarrow> 'm" where
  "view_filter intersect rbac present view = intersect (intersect present view) rbac"

definition anonymous_field_span :: nat where
  "anonymous_field_span = 256"

text \<open>The demo provider of permissions, a \<open>ClassRbac\<close> for the one role it knows.\<close>

definition anonymous_actor_roles :: "string list" where
  "anonymous_actor_roles = [''anonymous'']"

definition anonymous_grant_permits :: "string \<Rightarrow> bool" where
  "anonymous_grant_permits role \<longleftrightarrow> role = ''anonymous''"

definition anonymous_field_mask :: "(nat \<Rightarrow> 'm) \<Rightarrow> 'm \<Rightarrow> string \<Rightarrow> 'm" where
  "anonymous_field_mask full_for empty_mask role =
     (if role = ''anonymous'' then full_for anonymous_field_span else empty_mask)"

definition rbac_field_mask :: "('role \<Rightarrow> 'class \<Rightarrow> 'm) \<Rightarrow> 'role \<Rightarrow> 'class \<Rightarrow> 'm" where
  "rbac_field_mask field_mask role class_id = field_mask role class_id"

definition current_rbac_field_mask :: "(nat \<Rightarrow> 'm) \<Rightarrow> 'm \<Rightarrow> 'm" where
  "current_rbac_field_mask full_for empty_mask =
     rbac_field_mask (\<lambda>role (_ :: nat). anonymous_field_mask full_for empty_mask role) ''anonymous'' 0"

subsection \<open>The registry\<close>

type_synonym view_node_id = "8 word"

record 'm view_node =
  vn_concept :: string
  vn_mask :: 'm
  vn_children :: "view_node_id list"

datatype unknown_child = UnknownChild view_node_id

type_synonym 'm view_registry = "'m view_node list"

text \<open>\<open>position\<close>: the index of the first match.\<close>

fun position :: "('a \<Rightarrow> bool) \<Rightarrow> 'a list \<Rightarrow> nat option" where
  "position P [] = None"
| "position P (x # xs) = (if P x then Some 0 else map_option Suc (position P xs))"

text \<open>\<open>None\<close> is the failed assertion: a 257th view.\<close>

definition intern ::
    "string \<Rightarrow> 'm \<Rightarrow> view_node_id list \<Rightarrow> 'm view_registry \<Rightarrow>
     ((view_node_id, unknown_child) result \<times> 'm view_registry) option" where
  "intern concept fm children nodes =
     (let nxt = length nodes
      in (case List.find (\<lambda>c. nxt \<le> unat c) children of
            Some c \<Rightarrow> Some (Err (UnknownChild c), nodes)
          | None \<Rightarrow>
              (let candidate = \<lparr>vn_concept = concept, vn_mask = fm, vn_children = children\<rparr>
               in (case position (\<lambda>n. n = candidate) nodes of
                     Some p \<Rightarrow> Some (Ok (of_nat p), nodes)
                   | None \<Rightarrow> (if 256 \<le> nxt then None else Some (Ok (of_nat nxt), nodes @ [candidate]))))))"

definition resolve :: "view_node_id \<Rightarrow> 'm view_registry \<Rightarrow> 'm view_node option" where
  "resolve i nodes = (if unat i < length nodes then Some (nodes ! unat i) else None)"

definition verify_stack_order :: "'m view_registry \<Rightarrow> bool" where
  "verify_stack_order nodes \<longleftrightarrow>
     list_all (\<lambda>(i, n). list_all (\<lambda>c. unat c < i) (vn_children n)) (enumerate 0 nodes)"

text \<open>The second loop of \<open>verify_bijective\<close>, over the indices that are left.\<close>

fun reintern_each :: "nat list \<Rightarrow> 'm view_registry \<Rightarrow> (bool \<times> 'm view_registry) option" where
  "reintern_each [] nodes = Some (True, nodes)"
| "reintern_each (i # is) nodes =
     (let ident = of_nat i
      in (case resolve ident nodes of
            None \<Rightarrow> Some (False, nodes)
          | Some node \<Rightarrow> (case intern (vn_concept node) (vn_mask node) (vn_children node) nodes of
              None \<Rightarrow> None
            | Some (Inr back, nodes) \<Rightarrow> if back = ident then reintern_each is nodes else Some (False, nodes)
            | Some (Inl _, nodes) \<Rightarrow> Some (False, nodes))))"

definition verify_bijective :: "'m view_registry \<Rightarrow> (bool \<times> 'm view_registry) option" where
  "verify_bijective nodes =
     (if nodes = [] then Some (True, nodes)
      else if list_ex (\<lambda>i. list_ex (\<lambda>j. nodes ! i = nodes ! j) [Suc i..<length nodes]) [0..<length nodes]
      then Some (False, nodes)
      else reintern_each [0..<length nodes] nodes)"

subsection \<open>Rolling buckets\<close>

definition bucket_width :: nat where
  "bucket_width = 256"

function chunks :: "nat \<Rightarrow> 'a list \<Rightarrow> 'a list list" where
  "chunks n xs = (if n = 0 \<or> xs = [] then [] else take n xs # chunks n (drop n xs))"
  by pat_completeness auto
termination by (relation "measure (\<lambda>(n, xs). length xs)") auto

declare chunks.simps [simp del]

text \<open>\<open>collect\<close> into a \<open>Result\<close>: the first error, if there is one.\<close>

fun collect_results :: "('a, 'e) result list \<Rightarrow> ('a list, 'e) result" where
  "collect_results [] = Ok []"
| "collect_results (r # rs) =
     (case r of Err e \<Rightarrow> Err e | Ok x \<Rightarrow> (case collect_results rs of Err e \<Rightarrow> Err e | Ok xs \<Rightarrow> Ok (x # xs)))"

definition bucketized_masks ::
    "(string list \<Rightarrow> string list \<Rightarrow> ('m, 'e) result) \<Rightarrow> string list \<Rightarrow> string list \<Rightarrow> ('m list, 'e) result" where
  "bucketized_masks from_universe_present universe present =
     collect_results (map (\<lambda>bucket. from_universe_present bucket present) (chunks bucket_width universe))"

definition buckets_have :: "('m \<Rightarrow> 8 word \<Rightarrow> bool) \<Rightarrow> 'm list \<Rightarrow> nat \<Rightarrow> bool" where
  "buckets_have has buckets pos =
     (let bucket = pos div bucket_width; here = of_nat (pos mod bucket_width)
      in bucket < length buckets \<and> has (buckets ! bucket) here)"

definition buckets_match_direct ::
    "(string list \<Rightarrow> string list \<Rightarrow> ('m, 'e) result) \<Rightarrow> ('m \<Rightarrow> 8 word \<Rightarrow> bool) \<Rightarrow> string list \<Rightarrow> string list \<Rightarrow> bool" where
  "buckets_match_direct from_universe_present has universe present =
     (case bucketized_masks from_universe_present universe present of
        Err _ \<Rightarrow> False
      | Ok buckets \<Rightarrow>
          list_all (\<lambda>(pos, name). buckets_have has buckets pos = (name \<in> set present)) (enumerate 0 universe))"

subsection \<open>The invariant of the registry\<close>

definition registry_ok :: "'m view_registry \<Rightarrow> bool" where
  "registry_ok nodes \<longleftrightarrow> length nodes \<le> 256 \<and> distinct nodes \<and>
     (\<forall>i < length nodes. \<forall>c \<in> set (vn_children (nodes ! i)). unat c < i)"

lemma position_Some: "position P xs = Some p \<Longrightarrow> p < length xs \<and> P (xs ! p)"
  by (induction xs arbitrary: p) (auto split: if_splits simp: nth_Cons split: nat.splits)

lemma position_None: "position P xs = None \<longleftrightarrow> (\<forall>x \<in> set xs. \<not> P x)"
  by (induction xs) auto

lemma unat_small_id: "n < 256 \<Longrightarrow> unat (of_nat n :: 8 word) = n"
  by (simp add: unat_of_nat)

lemma registry_ok_Nil [simp]: "registry_ok []"
  by (simp add: registry_ok_def)

lemma intern_cases:
  fixes concept fm children
  assumes ok: "registry_ok nodes"
  defines "candidate \<equiv> \<lparr>vn_concept = concept, vn_mask = fm, vn_children = children\<rparr>"
  obtains (unknown) c where "c \<in> set children" "length nodes \<le> unat c"
      "intern concept fm children nodes = Some (Err (UnknownChild c), nodes)"
  | (full) "length nodes = 256" "candidate \<notin> set nodes" "\<forall>c \<in> set children. unat c < length nodes"
      "intern concept fm children nodes = None"
  | (interned) i nodes' where "intern concept fm children nodes = Some (Ok i, nodes')" "registry_ok nodes'"
      "\<forall>c \<in> set children. unat c < length nodes" "unat i < length nodes'" "nodes' ! unat i = candidate"
      "nodes' = nodes \<or> nodes' = nodes @ [candidate] \<and> unat i = length nodes"
proof (cases "List.find (\<lambda>c. length nodes \<le> unat c) children")
  case (Some c)
  then have "c \<in> set children" "length nodes \<le> unat c" by (auto simp: find_Some_iff)
  with Some show ?thesis by (intro unknown) (simp_all add: intern_def)
next
  case None
  then have known: "\<forall>c \<in> set children. unat c < length nodes" by (auto simp: find_None_iff not_le)
  show ?thesis
  proof (cases "position (\<lambda>n. n = candidate) nodes")
    case (Some p)
    from position_Some [OF Some] have p: "p < length nodes" "nodes ! p = candidate" by simp_all
    moreover from p(1) ok have "unat (of_nat p :: 8 word) = p"
      by (intro unat_small_id) (simp add: registry_ok_def)
    ultimately show ?thesis using None Some ok known
      by (intro interned [of "of_nat p" nodes]) (simp_all add: intern_def candidate_def)
  next
    case None': None
    then have new: "candidate \<notin> set nodes" by (auto simp: position_None)
    show ?thesis
    proof (cases "256 \<le> length nodes")
      case True
      with ok None None' new known show ?thesis
        by (intro full) (simp_all add: intern_def registry_ok_def candidate_def)
    next
      case False
      then have i: "unat (of_nat (length nodes) :: 8 word) = length nodes" by (intro unat_small_id) simp
      have "registry_ok (nodes @ [candidate])"
        using ok new known False by (auto simp: registry_ok_def nth_append candidate_def less_Suc_eq)
      with False None None' i known show ?thesis
        by (intro interned [of "of_nat (length nodes)" "nodes @ [candidate]"]) (simp_all add: intern_def candidate_def)
    qed
  qed
qed

lemma verify_stack_order_ok: "registry_ok nodes \<Longrightarrow> verify_stack_order nodes"
  by (auto simp: verify_stack_order_def registry_ok_def list_all_iff in_set_enumerate_eq)

lemma reintern_ok:
  assumes ok: "registry_ok nodes" and i: "i < length nodes"
  shows "intern (vn_concept (nodes ! i)) (vn_mask (nodes ! i)) (vn_children (nodes ! i)) nodes = Some (Ok (of_nat i), nodes)"
  using ok
proof (cases rule: intern_cases [where concept = "vn_concept (nodes ! i)" and fm = "vn_mask (nodes ! i)" and
    children = "vn_children (nodes ! i)"])
  case (unknown c)
  with ok i show ?thesis by (force simp: registry_ok_def)
next
  case full
  have "\<lparr>vn_concept = vn_concept (nodes ! i), vn_mask = vn_mask (nodes ! i), vn_children = vn_children (nodes ! i)\<rparr> =
    nodes ! i" by simp
  with full i show ?thesis by (metis nth_mem)
next
  case (interned j nodes')
  have eta: "\<lparr>vn_concept = vn_concept (nodes ! i), vn_mask = vn_mask (nodes ! i), vn_children = vn_children (nodes ! i)\<rparr> =
    nodes ! i" by simp
  from i have "\<lparr>vn_concept = vn_concept (nodes ! i), vn_mask = vn_mask (nodes ! i), vn_children = vn_children (nodes ! i)\<rparr>
    \<in> set nodes" unfolding eta by simp
  with interned(2,6) have n: "nodes' = nodes" by (auto simp: registry_ok_def)
  have "nodes' ! unat j = nodes ! i" using interned(5) unfolding eta .
  with n interned(2,4) i have "unat j = i" by (auto simp: registry_ok_def nth_eq_iff_index_eq)
  with interned(1) n show ?thesis by auto
qed

lemma reintern_each_ok:
  "registry_ok nodes \<Longrightarrow> \<forall>i \<in> set is. i < length nodes \<Longrightarrow> reintern_each is nodes = Some (True, nodes)"
proof (induction "is")
  case (Cons i js)
  then have i: "i < length nodes" "unat (of_nat i :: 8 word) = i"
    by (auto intro!: unat_small_id simp: registry_ok_def)
  with Cons show ?case by (simp add: resolve_def reintern_ok Let_def)
qed simp

lemma verify_bijective_ok: "registry_ok nodes \<Longrightarrow> verify_bijective nodes = Some (True, nodes)"
  by (auto simp: verify_bijective_def reintern_each_ok list_ex_iff registry_ok_def nth_eq_iff_index_eq)

text \<open>A boot sequence: the views that are interned, one after the other, whatever each answer is.\<close>

fun intern_all :: "(string \<times> 'm \<times> view_node_id list) list \<Rightarrow> 'm view_registry \<Rightarrow> 'm view_registry option" where
  "intern_all [] nodes = Some nodes"
| "intern_all ((concept, fm, children) # reqs) nodes =
     (case intern concept fm children nodes of
        None \<Rightarrow> None
      | Some (_, nodes) \<Rightarrow> intern_all reqs nodes)"

lemma intern_keeps_ok: "registry_ok nodes \<Longrightarrow> intern concept fm children nodes = Some (r, nodes') \<Longrightarrow> registry_ok nodes'"
  by (cases rule: intern_cases [where nodes = nodes and concept = concept and fm = fm and children = children]) auto

lemma intern_all_ok: "registry_ok nodes \<Longrightarrow> intern_all reqs nodes = Some nodes' \<Longrightarrow> registry_ok nodes'"
  by (induction reqs nodes rule: intern_all.induct) (auto split: option.splits dest: intern_keeps_ok)

definition stack_edges :: "'m view_registry \<Rightarrow> (nat \<times> nat) set" where
  "stack_edges nodes = {(i, unat c) | i c. i < length nodes \<and> c \<in> set (vn_children (nodes ! i))}"

text \<open>
  C35. The shape of the registry: however the views are interned from an empty registry, as long as
  no 257th view is asked for, the boot checks pass and change nothing: every child is an earlier
  node and no two identities name the same view.  So identities fit a byte, and no view is
  composed, through any number of levels, of itself.
\<close>

theorem view_registry_well_formed:
  "(case intern_all reqs [] of
      None \<Rightarrow> 256 < length reqs
    | Some nodes \<Rightarrow> verify_stack_order nodes \<and> verify_bijective nodes = Some (True, nodes) \<and>
        length nodes \<le> 256 \<and> acyclic (stack_edges nodes))"
proof (cases "intern_all reqs []")
  case (Some nodes)
  with intern_all_ok [OF registry_ok_Nil] have ok: "registry_ok nodes" .
  have "stack_edges nodes \<subseteq> (measure id)\<inverse>"
    using ok by (auto simp: stack_edges_def registry_ok_def)
  moreover have "acyclic ((measure (id :: nat \<Rightarrow> nat))\<inverse>)" by (simp only: acyclic_converse wf_acyclic wf_measure)
  ultimately have "acyclic (stack_edges nodes)" using acyclic_subset by blast
  with Some ok show ?thesis by (simp add: verify_stack_order_ok verify_bijective_ok registry_ok_def)
next
  case None
  have "intern_all reqs nodes = None \<Longrightarrow> registry_ok nodes \<Longrightarrow> 256 < length nodes + length reqs" for nodes :: "'a view_registry"
  proof (induction reqs nodes rule: intern_all.induct)
    case (2 concept fm children reqs nodes)
    from 2(3) show ?case
    proof (cases rule: intern_cases [where concept = concept and fm = fm and children = children])
      case (interned i nodes')
      with 2 have "256 < length nodes' + length reqs" by simp
      with interned(6) show ?thesis by auto
    next
      case (unknown c)
      with 2 have "256 < length nodes + length reqs" by fastforce
      then show ?thesis by simp
    qed simp
  qed simp
  from this [OF None] None show ?thesis by simp
qed

text \<open>
  Interning and resolving are inverse to each other.  Interning a view is refused exactly when it
  names a child that does not exist yet (and then changes nothing) and fails only when 256 other
  views are there; otherwise the identity it returns resolves to the view that was interned,
  every older identity resolves to what it did before, and interning the same view again gives the
  same identity and changes nothing.
\<close>

theorem intern_resolve_roundtrip:
  assumes "registry_ok nodes"
  shows "(case intern concept fm children nodes of
      None \<Rightarrow> length nodes = 256 \<and> \<lparr>vn_concept = concept, vn_mask = fm, vn_children = children\<rparr> \<notin> set nodes
    | Some (Inl (UnknownChild c), nodes') \<Rightarrow> nodes' = nodes \<and> c \<in> set children \<and> resolve c nodes = None
    | Some (Inr i, nodes') \<Rightarrow> registry_ok nodes' \<and> list_all (\<lambda>c. resolve c nodes \<noteq> None) children \<and>
        resolve i nodes' = Some \<lparr>vn_concept = concept, vn_mask = fm, vn_children = children\<rparr> \<and>
        (\<forall>j. resolve j nodes' = resolve j nodes \<or> j = i \<and> resolve j nodes = None) \<and>
        intern concept fm children nodes' = Some (Ok i, nodes'))"
  using assms
proof (cases rule: intern_cases [where concept = concept and fm = fm and children = children])
  case (interned i nodes')
  have "intern concept fm children nodes' = Some (Ok i, nodes')"
    using reintern_ok [OF interned(2,4)] interned(5) by simp
  moreover have "resolve j nodes' = resolve j nodes \<or> j = i \<and> resolve j nodes = None" for j
    using interned(6) by (auto simp: resolve_def nth_append less_Suc_eq word_unat_eq_iff)
  ultimately show ?thesis using interned by (auto simp: resolve_def list_all_iff)
qed (auto simp: resolve_def)

theorem intern_resolve_roundtrip_witness:
  "\<exists>i nodes'. intern ''Project'' True [] [] = Some (Ok i, nodes') \<and>
    resolve i nodes' = Some \<lparr>vn_concept = ''Project'', vn_mask = True, vn_children = []\<rparr>"
proof -
  obtain r nodes' where run: "intern ''Project'' True [] [] = Some (r, nodes')" by (simp add: intern_def)
  from intern_resolve_roundtrip [OF registry_ok_Nil, of "''Project''" True "[]"] show ?thesis
    unfolding run by (cases r) (auto split: unknown_child.splits)
qed

subsection \<open>Buckets\<close>

text \<open>
  What the documentation of \<open>from_universe_present\<close> promises for a universe that fits: a mask
  whose bits say which of its fields are present.
\<close>

definition mask_contract ::
    "(string list \<Rightarrow> string list \<Rightarrow> ('m, 'e) result) \<Rightarrow> ('m \<Rightarrow> 8 word \<Rightarrow> bool) \<Rightarrow> bool" where
  "mask_contract from_universe_present has \<longleftrightarrow>
     (\<forall>universe present. length universe \<le> 256 \<longrightarrow>
        (\<exists>m. from_universe_present universe present = Ok m \<and>
           (\<forall>i < length universe. has m (of_nat i) \<longleftrightarrow> universe ! i \<in> set present)))"

lemma chunks_props:
  assumes n: "0 < n"
  shows "\<forall>c \<in> set (chunks n xs). length c \<le> n"
    and "i < length xs \<Longrightarrow> i div n < length (chunks n xs) \<and> i mod n < length (chunks n xs ! (i div n)) \<and>
      chunks n xs ! (i div n) ! (i mod n) = xs ! i"
proof -
  show "\<forall>c \<in> set (chunks n xs). length c \<le> n"
    using n by (induction n xs rule: chunks.induct) (subst chunks.simps, auto)
  show "i < length xs \<Longrightarrow> i div n < length (chunks n xs) \<and> i mod n < length (chunks n xs ! (i div n)) \<and>
      chunks n xs ! (i div n) ! (i mod n) = xs ! i"
    using n
  proof (induction n xs arbitrary: i rule: chunks.induct)
    case (1 n xs)
    then have c: "chunks n xs = take n xs # chunks n (drop n xs)" by (subst chunks.simps) auto
    show ?case
    proof (cases "i < n")
      case True
      with 1 c show ?thesis by simp
    next
      case False
      with 1(2) have "i - n < length (drop n xs)" by auto
      from "1.IH" [of "i - n"] this 1(2,3) have IH: "(i - n) div n < length (chunks n (drop n xs)) \<and>
        (i - n) mod n < length (chunks n (drop n xs) ! ((i - n) div n)) \<and>
        chunks n (drop n xs) ! ((i - n) div n) ! ((i - n) mod n) = drop n xs ! (i - n)" by fastforce
      have "i div n = Suc ((i - n) div n)" "i mod n = (i - n) mod n"
        using False 1(3) by (simp_all add: le_div_geq le_mod_geq)
      with IH c False 1 show ?thesis by (simp add: not_less)
    qed
  qed
qed

lemma collect_results_map:
  "\<forall>x \<in> set xs. f x = Ok (g x) \<Longrightarrow> collect_results (map f xs) = Ok (map g xs)"
  by (induction xs) auto

text \<open>
  Buckets for classes of any size: given masks that do what their documentation says for up to
  256 fields, splitting the fields of a class into buckets never fails, the lookup of a global
  position finds exactly whether the field at that position is present, and the check the server
  runs at boot succeeds.
\<close>

theorem buckets_agree_with_membership:
  assumes "mask_contract from_universe_present has"
  shows "(case bucketized_masks from_universe_present universe present of
      Inl _ \<Rightarrow> False
    | Inr buckets \<Rightarrow> (\<forall>pos < length universe. buckets_have has buckets pos \<longleftrightarrow> universe ! pos \<in> set present)) \<and>
    buckets_match_direct from_universe_present has universe present"
proof -
  define mint where "mint u = (SOME m. from_universe_present u present = Ok m)" for u
  have mint: "from_universe_present u present = Ok (mint u)"
      "\<forall>i < length u. has (mint u) (of_nat i) \<longleftrightarrow> u ! i \<in> set present" if "length u \<le> 256" for u
  proof -
    from assms that obtain m where m: "from_universe_present u present = Ok m"
      "\<forall>i < length u. has m (of_nat i) \<longleftrightarrow> u ! i \<in> set present" unfolding mask_contract_def by blast
    then have "mint u = m" by (simp add: mint_def)
    with m show "from_universe_present u present = Ok (mint u)"
      "\<forall>i < length u. has (mint u) (of_nat i) \<longleftrightarrow> u ! i \<in> set present" by simp_all
  qed
  let ?cs = "chunks 256 universe"
  have small: "\<forall>c \<in> set ?cs. length c \<le> 256" by (rule chunks_props) simp
  have masks: "bucketized_masks from_universe_present universe present = Ok (map mint ?cs)"
    unfolding bucketized_masks_def bucket_width_def
    using small mint(1) by (intro collect_results_map) simp
  have "buckets_have has (map mint ?cs) pos \<longleftrightarrow> universe ! pos \<in> set present" if "pos < length universe" for pos
  proof -
    from chunks_props(2) [of 256 pos universe] that
    have c: "pos div 256 < length ?cs" "pos mod 256 < length (?cs ! (pos div 256))"
      "?cs ! (pos div 256) ! (pos mod 256) = universe ! pos" by simp_all
    with mint(2) [of "?cs ! (pos div 256)"] small show ?thesis
      by (auto simp: buckets_have_def bucket_width_def Let_def)
  qed
  then show ?thesis
    by (auto simp: masks buckets_match_direct_def list_all_iff in_set_enumerate_eq)
qed

theorem buckets_agree_with_membership_witness:
  "buckets_match_direct
     (\<lambda>universe present. if length universe \<le> 256
        then (Ok (map (\<lambda>u. u \<in> set present) universe) :: (bool list, nat) result) else Err (length universe))
     (\<lambda>m i. unat i < length m \<and> m ! unat i)
     (replicate 300 ''a'' @ [''b'']) [''b'']"
proof -
  have "mask_contract (\<lambda>universe present. if length universe \<le> 256
        then (Ok (map (\<lambda>u. u \<in> set present) universe) :: (bool list, nat) result) else Err (length universe))
     (\<lambda>m i. unat i < length m \<and> m ! unat i)"
    by (auto simp: mask_contract_def unat_small_id)
  from buckets_agree_with_membership [OF this] show ?thesis by blast
qed

end
