(* ===== verification/Database.thy ===== *)
theory Database
  imports Pagination Tables
begin

section \<open>The database (op-db)\<close>

text \<open>
  What the SQL statements of the repositories do to the tables of a database, and how an operation
  of a repository goes through its statements.  A statement is atomic.  Between two statements of a
  repository operation other sessions may change the database, and a statement may fail without an
  effect: what happens is given by an environment.
\<close>

named_theorems holds_intro \<open>rules for what an operation keeps under interference\<close>
named_theorems run_simps \<open>running an operation when no other session interferes\<close>

subsection \<open>Errors\<close>

text \<open>
  \<open>SqlFault\<close> is a failure of the connection or the server; the others follow from the statement and
  the tables: a key that exists already, a value out of the range of its type, a sequence at its
  end, a negative \<open>LIMIT\<close> or \<open>OFFSET\<close>, no row where one is asked for.
\<close>

datatype sql_error =
  SqlFault string | SqlUniqueViolation | SqlOutOfRange | SqlSequenceEnd | SqlNegativeLimit | SqlRowNotFound

datatype repository_error =
  RepoNotFound string | RepoDatabase sql_error | RepoValidation string | RepoConflict string | RepoUnauthorized string

fun repository_error_to_string :: "(sql_error \<Rightarrow> string) \<Rightarrow> repository_error \<Rightarrow> string" where
  "repository_error_to_string text (RepoNotFound m) = ''Entity not found: '' @ m"
| "repository_error_to_string text (RepoDatabase e) = ''Database error: '' @ text e"
| "repository_error_to_string text (RepoValidation m) = ''Validation error: '' @ m"
| "repository_error_to_string text (RepoConflict m) = ''Conflict: '' @ m"
| "repository_error_to_string text (RepoUnauthorized m) = ''Unauthorized: '' @ m"

subsection \<open>Operations\<close>

text \<open>
  An operation is a sequence of statements.  Before its \<open>k\<close>-th statement the other sessions do
  \<open>tn_others\<close>; \<open>tn_fault\<close> says whether the statement fails; \<open>tn_now\<close> is what \<open>NOW()\<close> is in it.
\<close>

record 'd turn =
  tn_now :: timestamp
  tn_others :: "'d \<Rightarrow> 'd"
  tn_fault :: "string option"

type_synonym 'd db_env = "nat \<Rightarrow> 'd turn"

type_synonym ('d, 'a) dbop = "'d db_env \<Rightarrow> nat \<times> 'd \<Rightarrow> ('a, repository_error) result \<times> nat \<times> 'd"

type_synonym ('d, 'a) statement = "timestamp \<Rightarrow> 'd \<Rightarrow> ('a list, sql_error) result \<times> 'd"

definition ret :: "'a \<Rightarrow> ('d, 'a) dbop" where
  "ret x env s = (Ok x, s)"

definition fail :: "repository_error \<Rightarrow> ('d, 'a) dbop" where
  "fail e env s = (Err e, s)"

definition and_then :: "('d, 'a) dbop \<Rightarrow> ('a \<Rightarrow> ('d, 'b) dbop) \<Rightarrow> ('d, 'b) dbop" where
  "and_then m f env s = (case m env s of (Inl e, s) \<Rightarrow> (Err e, s) | (Inr x, s) \<Rightarrow> f x env s)"

definition run_statement :: "('d, 'a) statement \<Rightarrow> ('d, 'a list) dbop" where
  "run_statement f env s =
     (case s of (k, d) \<Rightarrow>
       (let d = tn_others (env k) d
        in case tn_fault (env k) of
             Some e \<Rightarrow> (Err (RepoDatabase (SqlFault e)), Suc k, d)
           | None \<Rightarrow>
               (case f (tn_now (env k)) d of
                  (Inl e, d) \<Rightarrow> (Err (RepoDatabase e), Suc k, d)
                | (Inr rows, d) \<Rightarrow> (Ok rows, Suc k, d))))"

text \<open>The ways \<open>sqlx\<close> returns what a statement answers.\<close>

definition fetch_all :: "('d, 'a) statement \<Rightarrow> ('d, 'a list) dbop" where
  "fetch_all f = run_statement f"

definition fetch_optional :: "('d, 'a) statement \<Rightarrow> ('d, 'a option) dbop" where
  "fetch_optional f = and_then (run_statement f) (\<lambda>rows. ret (case rows of [] \<Rightarrow> None | r # rs \<Rightarrow> Some r))"

definition fetch_one :: "('d, 'a) statement \<Rightarrow> ('d, 'a) dbop" where
  "fetch_one f =
     and_then (run_statement f) (\<lambda>rows. case rows of [] \<Rightarrow> fail (RepoDatabase SqlRowNotFound) | r # rs \<Rightarrow> ret r)"

definition rows_affected :: "('d, 'a) statement \<Rightarrow> ('d, nat) dbop" where
  "rows_affected f = and_then (run_statement f) (\<lambda>rows. ret (length rows))"

definition execute :: "('d, 'a) statement \<Rightarrow> ('d, unit) dbop" where
  "execute f = and_then (run_statement f) (\<lambda>rows. ret ())"

text \<open>\<open>ok_or_else\<close> on what is found, and \<open>rows_affected() == 0\<close>.\<close>

definition or_fail :: "repository_error \<Rightarrow> ('d, 'a option) dbop \<Rightarrow> ('d, 'a) dbop" where
  "or_fail e m = and_then m (\<lambda>v. case v of None \<Rightarrow> fail e | Some r \<Rightarrow> ret r)"

definition or_fail_zero :: "repository_error \<Rightarrow> ('d, nat) dbop \<Rightarrow> ('d, unit) dbop" where
  "or_fail_zero e m = and_then m (\<lambda>n. if n = 0 then fail e else ret ())"

text \<open>A loop that performs an operation for each element.\<close>

fun for_each :: "'a list \<Rightarrow> ('a \<Rightarrow> ('d, unit) dbop) \<Rightarrow> ('d, unit) dbop" where
  "for_each [] f = ret ()"
| "for_each (x # xs) f = and_then (f x) (\<lambda>_. for_each xs f)"

fun collect_each :: "'a list \<Rightarrow> ('a \<Rightarrow> ('d, 'b) dbop) \<Rightarrow> ('d, 'b list) dbop" where
  "collect_each [] f = ret []"
| "collect_each (x # xs) f = and_then (f x) (\<lambda>y. and_then (collect_each xs f) (\<lambda>ys. ret (y # ys)))"

subsection \<open>Statements\<close>

text \<open>
  A table holds its rows, in an order that means nothing, and its sequence.  Keys are unique.  The
  statements are: \<open>SELECT\<close> (the rows it chooses, given as a function of the database), with a page
  of it; \<open>INSERT\<close> with a key from the sequence; \<open>UPDATE\<close> and \<open>DELETE\<close> of the rows that satisfy a
  condition.  \<open>INSERT\<close>, \<open>UPDATE\<close> and \<open>DELETE\<close> answer the rows they concern.
\<close>

record 'r table =
  tb_rows :: "'r list"
  tb_seq :: nat

definition sql_select :: "('d \<Rightarrow> 'a list) \<Rightarrow> ('d, 'a) statement" where
  "sql_select sel now d = (Ok (sel d), d)"

definition sql_value :: "('d \<Rightarrow> 'a) \<Rightarrow> ('d, 'a) statement" where
  "sql_value v now d = (Ok [v d], d)"

definition sql_select_page :: "i64 \<Rightarrow> i64 \<Rightarrow> ('d \<Rightarrow> 'a list) \<Rightarrow> ('d, 'a) statement" where
  "sql_select_page limit offset sel now d =
     (if sint limit < 0 \<or> sint offset < 0 then (Err SqlNegativeLimit, d)
      else (Ok (take (nat (sint limit)) (drop (nat (sint offset)) (sel d))), d))"

definition sql_insert ::
    "('r \<Rightarrow> Id) \<Rightarrow> ('d \<Rightarrow> 'r table) \<Rightarrow> (('r table \<Rightarrow> 'r table) \<Rightarrow> 'd \<Rightarrow> 'd) \<Rightarrow> (timestamp \<Rightarrow> Id \<Rightarrow> 'r) \<Rightarrow>
     ('d, 'r) statement" where
  "sql_insert idf tbl upd mk now d =
     (let t = tbl d; i = word_of_nat (tb_seq t) :: Id
      in if 2 ^ 63 \<le> tb_seq t then (Err SqlSequenceEnd, d)
         else if i \<in> idf ` set (tb_rows t) then (Err SqlUniqueViolation, upd (tb_seq_update Suc) d)
         else (Ok [mk now i], upd (\<lambda>t. t\<lparr>tb_rows := tb_rows t @ [mk now i], tb_seq := Suc (tb_seq t)\<rparr>) d))"

definition sql_update ::
    "('d \<Rightarrow> 'r table) \<Rightarrow> (('r table \<Rightarrow> 'r table) \<Rightarrow> 'd \<Rightarrow> 'd) \<Rightarrow> ('r \<Rightarrow> bool) \<Rightarrow> (timestamp \<Rightarrow> 'r \<Rightarrow> 'r) \<Rightarrow>
     ('d, 'r) statement" where
  "sql_update tbl upd p f now d =
     (Ok (map (f now) (filter p (tb_rows (tbl d)))),
      upd (tb_rows_update (map (\<lambda>r. if p r then f now r else r))) d)"

text \<open>An update that computes a column fails as a whole when the value is out of the range of its type.\<close>

definition sql_update_checked ::
    "('d \<Rightarrow> 'r table) \<Rightarrow> (('r table \<Rightarrow> 'r table) \<Rightarrow> 'd \<Rightarrow> 'd) \<Rightarrow> ('r \<Rightarrow> bool) \<Rightarrow> ('r \<Rightarrow> bool) \<Rightarrow>
     (timestamp \<Rightarrow> 'r \<Rightarrow> 'r) \<Rightarrow> ('d, 'r) statement" where
  "sql_update_checked tbl upd p in_range f now d =
     (if \<exists>r \<in> set (tb_rows (tbl d)). p r \<and> \<not> in_range r then (Err SqlOutOfRange, d)
      else sql_update tbl upd p f now d)"

definition sql_delete ::
    "('d \<Rightarrow> 'r table) \<Rightarrow> (('r table \<Rightarrow> 'r table) \<Rightarrow> 'd \<Rightarrow> 'd) \<Rightarrow> ('r \<Rightarrow> bool) \<Rightarrow> ('d, 'r) statement" where
  "sql_delete tbl upd p now d =
     (Ok (filter p (tb_rows (tbl d))), upd (tb_rows_update (filter (\<lambda>r. \<not> p r))) d)"

text \<open>\<open>ON CONFLICT DO NOTHING\<close>: a row that has the unique columns \<open>key\<close> of another is left out.\<close>

definition sql_insert_new ::
    "('r \<Rightarrow> Id) \<Rightarrow> ('r \<Rightarrow> 'k) \<Rightarrow> ('d \<Rightarrow> 'r table) \<Rightarrow> (('r table \<Rightarrow> 'r table) \<Rightarrow> 'd \<Rightarrow> 'd) \<Rightarrow>
     (timestamp \<Rightarrow> Id \<Rightarrow> 'r) \<Rightarrow> ('d, 'r) statement" where
  "sql_insert_new idf key tbl upd mk now d =
     (let t = tbl d; i = word_of_nat (tb_seq t) :: Id; r = mk now i
      in if 2 ^ 63 \<le> tb_seq t then (Err SqlSequenceEnd, d)
         else if i \<in> idf ` set (tb_rows t) \<or> key r \<in> key ` set (tb_rows t)
              then (Ok [], upd (tb_seq_update Suc) d)
         else (Ok [r], upd (\<lambda>t. t\<lparr>tb_rows := tb_rows t @ [r], tb_seq := Suc (tb_seq t)\<rparr>) d))"

text \<open>
  Statements that occur in every repository: \<open>SELECT ... WHERE id = $1\<close>, and the two ways to ask
  whether rows exist, \<open>SELECT EXISTS(...)\<close> and \<open>SELECT COUNT(*)\<close> compared with zero.
\<close>

definition find_row :: "('r \<Rightarrow> Id) \<Rightarrow> ('d \<Rightarrow> 'r table) \<Rightarrow> Id \<Rightarrow> ('d, 'r option) dbop" where
  "find_row idf tbl i = fetch_optional (sql_select (\<lambda>d. filter (\<lambda>r. idf r = i) (tb_rows (tbl d))))"

definition row_exists :: "('d \<Rightarrow> 'r table) \<Rightarrow> ('r \<Rightarrow> bool) \<Rightarrow> ('d, bool) dbop" where
  "row_exists tbl p = fetch_one (sql_value (\<lambda>d. \<exists>r \<in> set (tb_rows (tbl d)). p r))"

definition count_of :: "('d \<Rightarrow> 'r table) \<Rightarrow> ('r \<Rightarrow> bool) \<Rightarrow> ('d, i64) dbop" where
  "count_of tbl p =
     fetch_one (sql_value (\<lambda>d. word_of_nat (length (filter p (tb_rows (tbl d))))))"

definition counted :: "('d \<Rightarrow> 'r table) \<Rightarrow> ('r \<Rightarrow> bool) \<Rightarrow> ('d, bool) dbop" where
  "counted tbl p = and_then (count_of tbl p) (\<lambda>n. ret (0 < sint n))"

text \<open>A page of rows with the number of all of them, as two statements.\<close>

definition page_of ::
    "pagination \<Rightarrow> ('d \<Rightarrow> 'r table) \<Rightarrow> ('r \<Rightarrow> bool) \<Rightarrow> ('r list \<Rightarrow> 'r list) \<Rightarrow> ('d, 'r paginated_result) dbop" where
  "page_of p tbl cond order =
     and_then (fetch_all (sql_select_page (pg_limit p) (pg_offset p)
       (\<lambda>d. order (filter cond (tb_rows (tbl d)))))) (\<lambda>rows.
     and_then (count_of tbl cond) (\<lambda>total.
     ret (paginated_result_new rows total p)))"

text \<open>\<open>COALESCE($n, column)\<close>, and \<open>MAX\<close>, which is null on no rows.\<close>

definition coalesce :: "'a option \<Rightarrow> 'a \<Rightarrow> 'a" where
  "coalesce v old = (case v of Some x \<Rightarrow> x | None \<Rightarrow> old)"

definition coalesce_opt :: "'a option \<Rightarrow> 'a option \<Rightarrow> 'a option" where
  "coalesce_opt v old = (case v of Some x \<Rightarrow> Some x | None \<Rightarrow> old)"

definition max_i32 :: "i32 list \<Rightarrow> i32 option" where
  "max_i32 xs = (if xs = [] then None else Some (word_of_int (Max (sint ` set xs))))"

lemma coalesce_simps [simp]:
  "coalesce None x = x" "coalesce (Some y) x = y" "coalesce_opt None v = v" "coalesce_opt (Some y) v = Some y"
  by (simp_all add: coalesce_def coalesce_opt_def)

subsection \<open>Running alone\<close>

text \<open>An operation runs alone when no other session interferes and no statement fails.\<close>

definition quiet :: "'d db_env \<Rightarrow> bool" where
  "quiet env \<longleftrightarrow> (\<forall>k. tn_others (env k) = (\<lambda>d. d) \<and> tn_fault (env k) = None)"

lemma run_basic [run_simps]:
  "ret x env s = (Ok x, s)" "fail e env s = (Err e, s)"
  "and_then m f env s = (case m env s of (Inl e, s) \<Rightarrow> (Err e, s) | (Inr x, s) \<Rightarrow> f x env s)"
  by (simp_all add: ret_def fail_def and_then_def)

lemma run_distrib [run_simps]:
  "(if b then m else n) env s = (if b then m env s else n env s)"
  "(case x of None \<Rightarrow> m | Some y \<Rightarrow> f y) env s = (case x of None \<Rightarrow> m env s | Some y \<Rightarrow> f y env s)"
  by (simp_all split: option.split)

lemma run_statement_alone [run_simps]:
  "quiet env \<Longrightarrow> run_statement f env (k, d) =
     (case f (tn_now (env k)) d of
        (Inl e, d) \<Rightarrow> (Err (RepoDatabase e), Suc k, d)
      | (Inr rows, d) \<Rightarrow> (Ok rows, Suc k, d))"
  by (simp add: run_statement_def quiet_def)

lemma head_filter: "(case filter P xs of [] \<Rightarrow> None | r # rs \<Rightarrow> Some r) = List.find P xs"
  by (induction xs) auto

lemma run_select [run_simps]:
  assumes "quiet env"
  shows "fetch_all (sql_select sel) env (k, d) = (Ok (sel d), Suc k, d)"
    and "fetch_optional (sql_select sel) env (k, d) = (Ok (case sel d of [] \<Rightarrow> None | r # rs \<Rightarrow> Some r), Suc k, d)"
    and "fetch_one (sql_value v) env (k, d) = (Ok (v d), Suc k, d)"
  using assms
  by (simp_all add: fetch_all_def fetch_optional_def fetch_one_def sql_select_def sql_value_def run_basic
      run_statement_alone)

lemma run_insert [run_simps]:
  assumes "quiet env"
  shows "fetch_one (sql_insert idf tbl upd mk) env (k, d) =
    (let t = tbl d; i = word_of_nat (tb_seq t) :: Id
      in if 2 ^ 63 \<le> tb_seq t then (Err (RepoDatabase SqlSequenceEnd), Suc k, d)
         else if i \<in> idf ` set (tb_rows t) then (Err (RepoDatabase SqlUniqueViolation), Suc k, upd (tb_seq_update Suc) d)
         else (Ok (mk (tn_now (env k)) i), Suc k,
           upd (\<lambda>t. t\<lparr>tb_rows := tb_rows t @ [mk (tn_now (env k)) i], tb_seq := Suc (tb_seq t)\<rparr>) d))"
  using assms by (simp add: fetch_one_def sql_insert_def run_basic run_statement_alone Let_def)

lemma run_update [run_simps]:
  assumes "quiet env"
  shows "fetch_optional (sql_update tbl upd p f) env (k, d) =
      (Ok (map_option (f (tn_now (env k))) (List.find p (tb_rows (tbl d)))), Suc k,
       upd (tb_rows_update (map (\<lambda>r. if p r then f (tn_now (env k)) r else r))) d)"
    and "fetch_one (sql_update tbl upd p f) env (k, d) =
      (case List.find p (tb_rows (tbl d)) of
         None \<Rightarrow> Err (RepoDatabase SqlRowNotFound)
       | Some r \<Rightarrow> Ok (f (tn_now (env k)) r), Suc k,
       upd (tb_rows_update (map (\<lambda>r. if p r then f (tn_now (env k)) r else r))) d)"
    and "execute (sql_update tbl upd p f) env (k, d) =
      (Ok (), Suc k, upd (tb_rows_update (map (\<lambda>r. if p r then f (tn_now (env k)) r else r))) d)"
  using assms head_filter [of p "tb_rows (tbl d)", symmetric]
  by (auto simp: fetch_optional_def fetch_one_def execute_def sql_update_def run_basic run_statement_alone
      split: list.split)

lemma run_delete [run_simps]:
  assumes "quiet env"
  shows "rows_affected (sql_delete tbl upd p) env (k, d) =
      (Ok (length (filter p (tb_rows (tbl d)))), Suc k, upd (tb_rows_update (filter (\<lambda>r. \<not> p r))) d)"
    and "execute (sql_delete tbl upd p) env (k, d) =
      (Ok (), Suc k, upd (tb_rows_update (filter (\<lambda>r. \<not> p r))) d)"
  using assms by (simp_all add: rows_affected_def execute_def sql_delete_def run_basic run_statement_alone)

subsection \<open>Running among other sessions\<close>

text \<open>
  \<open>holds I m Q\<close>: whatever fails and whatever other sessions do, as long as they keep \<open>I\<close>, the
  operation keeps \<open>I\<close> as well, and what it returns satisfies \<open>Q\<close>.
\<close>

definition well_behaved :: "('d \<Rightarrow> bool) \<Rightarrow> 'd db_env \<Rightarrow> bool" where
  "well_behaved I env \<longleftrightarrow> (\<forall>k d. I d \<longrightarrow> I (tn_others (env k) d))"

definition holds :: "('d \<Rightarrow> bool) \<Rightarrow> ('d, 'a) dbop \<Rightarrow> ('a \<Rightarrow> bool) \<Rightarrow> bool" where
  "holds I m Q \<longleftrightarrow> (\<forall>env k d. well_behaved I env \<longrightarrow> I d \<longrightarrow>
     (case m env (k, d) of (r, k', d') \<Rightarrow> I d' \<and> (\<forall>x. r = Ok x \<longrightarrow> Q x)))"

lemma holdsI:
  "(\<And>env k d r k' d'. \<lbrakk> well_behaved I env; I d; m env (k, d) = (r, k', d') \<rbrakk> \<Longrightarrow> I d' \<and> (\<forall>x. r = Ok x \<longrightarrow> Q x))
   \<Longrightarrow> holds I m Q"
  by (simp add: holds_def split: prod.split)

lemma holdsD:
  assumes "holds I m Q" "well_behaved I env" "I d" "m env (k, d) = (r, k', d')"
  shows "I d' \<and> (\<forall>x. r = Ok x \<longrightarrow> Q x)"
proof -
  from assms(1) [unfolded holds_def, rule_format, OF assms(2,3), of k] assms(4) show ?thesis by simp
qed

lemma holds_ret [holds_intro]: "Q x \<Longrightarrow> holds I (ret x) Q"
  by (simp add: holds_def ret_def)

lemma holds_done [holds_intro]: "holds I (ret x) (\<lambda>_. True)"
  by (simp add: holds_def ret_def)

lemma holds_fail [holds_intro]: "holds I (fail e) Q"
  by (simp add: holds_def fail_def)

lemma holds_and_then:
  assumes m: "holds I m P" and f: "\<And>x. P x \<Longrightarrow> holds I (f x) Q"
  shows "holds I (and_then m f) Q"
proof (rule holdsI)
  fix env k d r k' d' assume env: "well_behaved I env" "I d" and run: "and_then m f env (k, d) = (r, k', d')"
  obtain rm km dm where rm: "m env (k, d) = (rm, km, dm)" by (cases "m env (k, d)") auto
  from holdsD [OF m env rm] have dm: "I dm" and post: "\<forall>x. rm = Ok x \<longrightarrow> P x" by blast+
  show "I d' \<and> (\<forall>x. r = Ok x \<longrightarrow> Q x)"
  proof (cases rm)
    case (Inl e)
    with run rm dm show ?thesis by (auto simp: and_then_def)
  next
    case (Inr x)
    with run rm have "f x env (km, dm) = (r, k', d')" by (simp add: and_then_def)
    with holdsD [OF f env(1) dm] post Inr show ?thesis by blast
  qed
qed

lemma holds_then [holds_intro]:
  "holds I m (\<lambda>_. True) \<Longrightarrow> (\<And>x. holds I (f x) Q) \<Longrightarrow> holds I (and_then m f) Q"
  by (rule holds_and_then)

lemma holds_if [holds_intro]:
  "(b \<Longrightarrow> holds I m Q) \<Longrightarrow> (\<not> b \<Longrightarrow> holds I n Q) \<Longrightarrow> holds I (if b then m else n) Q"
  by simp

lemma holds_case_option [holds_intro]:
  "(x = None \<Longrightarrow> holds I m Q) \<Longrightarrow> (\<And>y. x = Some y \<Longrightarrow> holds I (f y) Q) \<Longrightarrow>
   holds I (case x of None \<Rightarrow> m | Some y \<Rightarrow> f y) Q"
  by (simp split: option.split)

text \<open>A statement keeps \<open>I\<close> if its effect on a database does.\<close>

lemma holds_statement:
  assumes "\<And>now d. I d \<Longrightarrow> case f now d of (r, d') \<Rightarrow> I d' \<and> (\<forall>xs. r = Ok xs \<longrightarrow> (\<forall>x \<in> set xs. Q x))"
  shows "holds I (run_statement f) (\<lambda>xs. \<forall>x \<in> set xs. Q x)"
  unfolding holds_def
proof (intro allI impI)
  fix env k d assume "well_behaved I env" "I d"
  then have "I (tn_others (env k) d)" by (simp add: well_behaved_def)
  with assms [of "tn_others (env k) d" "tn_now (env k)"]
  show "case run_statement f env (k, d) of (r, k', d') \<Rightarrow> I d' \<and> (\<forall>xs. r = Ok xs \<longrightarrow> (\<forall>x \<in> set xs. Q x))"
    by (auto simp: run_statement_def Let_def split: option.split prod.split sum.split)
qed

lemma holds_fetch:
  assumes "\<And>now d. I d \<Longrightarrow> case f now d of (r, d') \<Rightarrow> I d' \<and> (\<forall>xs. r = Ok xs \<longrightarrow> (\<forall>x \<in> set xs. Q x))"
  shows "holds I (fetch_all f) (\<lambda>xs. \<forall>x \<in> set xs. Q x)"
    and "holds I (fetch_optional f) (\<lambda>v. \<forall>x. v = Some x \<longrightarrow> Q x)"
    and "holds I (fetch_one f) Q"
    and "holds I (rows_affected f) (\<lambda>_. True)"
    and "holds I (execute f) (\<lambda>_. True)"
proof -
  note st = holds_statement [where I = I and f = f and Q = Q, OF assms]
  from st show "holds I (fetch_all f) (\<lambda>xs. \<forall>x \<in> set xs. Q x)" by (simp add: fetch_all_def)
  show "holds I (fetch_optional f) (\<lambda>v. \<forall>x. v = Some x \<longrightarrow> Q x)"
    unfolding fetch_optional_def by (rule holds_and_then [OF st]) (auto intro!: holds_ret split: list.split)
  show "holds I (fetch_one f) Q"
    unfolding fetch_one_def by (rule holds_and_then [OF st]) (auto intro!: holds_ret holds_fail split: list.split)
  show "holds I (rows_affected f) (\<lambda>_. True)"
    unfolding rows_affected_def by (rule holds_and_then [OF st holds_done])
  show "holds I (execute f) (\<lambda>_. True)"
    unfolding execute_def by (rule holds_and_then [OF st holds_done])
qed

lemma holds_true: "holds I m Q \<Longrightarrow> holds I m (\<lambda>_. True)"
  by (rule holdsI) (blast dest: holdsD)

lemma holds_or_fail:
  "holds I m (\<lambda>v. \<forall>r. v = Some r \<longrightarrow> Q r) \<Longrightarrow> holds I (or_fail e m) Q"
  unfolding or_fail_def
  by (erule holds_and_then) (auto intro: holds_ret holds_fail split: option.split)

lemma holds_or_fail_zero: "holds I m (\<lambda>_. True) \<Longrightarrow> holds I (or_fail_zero e m) (\<lambda>_. True)"
  unfolding or_fail_zero_def by (erule holds_then) (simp add: holds_done holds_fail)

lemma holds_for_each:
  "(\<And>x. x \<in> set xs \<Longrightarrow> holds I (f x) (\<lambda>_. True)) \<Longrightarrow> holds I (for_each xs f) (\<lambda>_. True)"
proof (induction xs)
  case (Cons x xs)
  then show ?case by (simp add: holds_then)
qed (simp add: holds_done)

text \<open>Statements that only read keep everything.\<close>

lemma holds_value [holds_intro]: "holds I (fetch_one (sql_value v)) (\<lambda>_. True)"
  by (rule holds_fetch(3)) (simp add: sql_value_def)

lemma holds_row_exists [holds_intro]: "holds I (row_exists tbl p) (\<lambda>_. True)"
  unfolding row_exists_def by (rule holds_value)

lemma holds_count_of [holds_intro]: "holds I (count_of tbl p) (\<lambda>_. True)"
  unfolding count_of_def by (rule holds_value)

lemma holds_counted [holds_intro]: "holds I (counted tbl p) (\<lambda>_. True)"
  unfolding counted_def by (rule holds_then [OF holds_count_of holds_done])

text \<open>A history of requests, each of which may be refused or fail.\<close>

fun history :: "('q \<Rightarrow> ('d, unit) dbop) \<Rightarrow> 'q list \<Rightarrow> 'd db_env \<Rightarrow> nat \<times> 'd \<Rightarrow> nat \<times> 'd" where
  "history perform [] env s = s"
| "history perform (q # qs) env s = history perform qs env (snd (perform q env s))"

lemma history_holds:
  assumes "well_behaved I env" and "\<And>q. holds I (perform q) (\<lambda>_. True)"
  shows "I d \<Longrightarrow> I (snd (history perform qs env (k, d)))"
proof (induction qs arbitrary: k d)
  case (Cons q qs)
  obtain r k' d' where run: "perform q env (k, d) = (r, k', d')" by (cases "perform q env (k, d)") auto
  from holdsD [OF assms(2,1) Cons.prems run] have "I d'" by simp
  from Cons.IH [OF this] run show ?case by simp
qed simp

lemma history_alone:
  assumes "quiet env" and "\<And>q k d r k' d'. \<lbrakk> I d; perform q env (k, d) = (r, k', d') \<rbrakk> \<Longrightarrow> I d'"
  shows "I d \<Longrightarrow> I (snd (history perform qs env (k, d)))"
proof (induction qs arbitrary: k d)
  case (Cons q qs)
  obtain r k' d' where run: "perform q env (k, d) = (r, k', d')" by (cases "perform q env (k, d)") auto
  from assms(2) [OF Cons.prems run] have "I d'" .
  from Cons.IH [OF this] run show ?case by simp
qed simp

text \<open>The environment of an operation that runs alone, its statements one second apart.\<close>

definition alone :: "timestamp \<Rightarrow> 'd db_env" where
  "alone now k = \<lparr>tn_now = now + int k * 1000000000, tn_others = (\<lambda>d. d), tn_fault = None\<rparr>"

lemma quiet_alone [simp]: "quiet (alone now)" "well_behaved I (alone now)"
  by (simp_all add: quiet_def well_behaved_def alone_def)

text \<open>Another session does \<open>f\<close> just before statement \<open>n\<close>, and nothing else happens.\<close>

definition interrupted :: "timestamp \<Rightarrow> nat \<Rightarrow> ('d \<Rightarrow> 'd) \<Rightarrow> 'd db_env" where
  "interrupted now n f k = \<lparr>tn_now = now, tn_others = (if k = n then f else (\<lambda>d. d)), tn_fault = None\<rparr>"

text \<open>Statement \<open>n\<close> fails.\<close>

definition faulty :: "timestamp \<Rightarrow> nat \<Rightarrow> string \<Rightarrow> 'd db_env" where
  "faulty now n e k = \<lparr>tn_now = now, tn_others = (\<lambda>d. d), tn_fault = (if k = n then Some e else None)\<rparr>"

lemma run_statement_interrupted:
  "run_statement f (interrupted now n g) (k, d) =
     (case f now (if k = n then g d else d) of
        (Inl e, d) \<Rightarrow> (Err (RepoDatabase e), Suc k, d)
      | (Inr rows, d) \<Rightarrow> (Ok rows, Suc k, d))"
  by (simp add: run_statement_def interrupted_def)

lemma run_statement_faulty:
  "run_statement f (faulty now n e) (k, d) =
     (if k = n then (Err (RepoDatabase (SqlFault e)), Suc k, d)
      else case f now d of
        (Inl e, d) \<Rightarrow> (Err (RepoDatabase e), Suc k, d)
      | (Inr rows, d) \<Rightarrow> (Ok rows, Suc k, d))"
  by (simp add: run_statement_def faulty_def)

subsection \<open>Rows and keys\<close>

definition table_ok :: "('r \<Rightarrow> Id) \<Rightarrow> 'r table \<Rightarrow> bool" where
  "table_ok idf t \<longleftrightarrow>
     distinct (map idf (tb_rows t)) \<and> (\<forall>r \<in> set (tb_rows t). 0 < sint (idf r)) \<and> 0 < tb_seq t"

definition row_of :: "('r \<Rightarrow> Id) \<Rightarrow> 'r table \<Rightarrow> Id \<Rightarrow> 'r option" where
  "row_of idf t i = List.find (\<lambda>r. idf r = i) (tb_rows t)"

lemma row_of_iff: "table_ok idf t \<Longrightarrow> row_of idf t i = Some r \<longleftrightarrow> r \<in> set (tb_rows t) \<and> idf r = i"
  by (simp add: row_of_def table_ok_def find_distinct)

lemma row_of_None: "row_of idf t i = None \<longleftrightarrow> i \<notin> idf ` set (tb_rows t)"
  by (auto simp: row_of_def find_None_iff)

lemma row_of_id: "row_of idf t i = Some r \<Longrightarrow> idf r = i"
  unfolding row_of_def by (drule find_Some_pred)

lemma table_length:
  assumes "table_ok idf t"
  shows "length (tb_rows t) < 2 ^ 63"
proof -
  let ?u = "\<lambda>r. nat (sint (idf r))"
  have inj: "inj_on idf (set (tb_rows t))" using assms by (simp add: table_ok_def distinct_map)
  have "inj_on ?u (set (tb_rows t))"
  proof (rule inj_onI)
    fix x y assume xy: "x \<in> set (tb_rows t)" "y \<in> set (tb_rows t)" and "?u x = ?u y"
    moreover from assms xy have "0 < sint (idf x)" "0 < sint (idf y)" by (simp_all add: table_ok_def)
    ultimately have "sint (idf x) = sint (idf y)" by linarith
    then have "idf x = idf y" by (simp only: i64_eq_iff_sint)
    from inj_onD [OF inj this xy] show "x = y" .
  qed
  moreover have "distinct (tb_rows t)" using assms by (simp add: table_ok_def distinct_map)
  ultimately have "length (tb_rows t) = card (?u ` set (tb_rows t))"
    by (simp add: card_image distinct_card)
  also have "\<dots> \<le> card {1 ..< 2 ^ 63 :: nat}"
  proof (rule card_mono)
    show "?u ` set (tb_rows t) \<subseteq> {1 ..< 2 ^ 63}"
    proof (rule image_subsetI)
      fix r assume "r \<in> set (tb_rows t)"
      with assms have "0 < sint (idf r)" by (simp add: table_ok_def)
      moreover have "sint (idf r) < 2 ^ 63" by (rule sint_range_i64)
      ultimately show "?u r \<in> {1 ..< 2 ^ 63}" by (simp add: nat_less_iff le_nat_iff)
    qed
  qed simp
  finally show ?thesis by simp
qed

lemma count_sint:
  "table_ok idf t \<Longrightarrow> sint (word_of_nat (length (filter p (tb_rows t))) :: i64) = int (length (filter p (tb_rows t)))"
  by (rule sint_of_nat_i64) (meson table_length length_filter_le le_less_trans)

lemma row_of_append:
  assumes "table_ok idf t" and new: "i \<notin> idf ` set (tb_rows t)" "idf r = i" and "0 < sint i" "0 < n"
  shows "table_ok idf (t\<lparr>tb_rows := tb_rows t @ [r], tb_seq := n\<rparr>)"
    and "row_of idf (t\<lparr>tb_rows := tb_rows t @ [r], tb_seq := n\<rparr>) = (row_of idf t)(i \<mapsto> r)"
proof -
  show "table_ok idf (t\<lparr>tb_rows := tb_rows t @ [r], tb_seq := n\<rparr>)" using assms by (simp add: table_ok_def)
  from new(1) have "List.find (\<lambda>x. idf x = i) (tb_rows t) = None" by (auto simp: find_None_iff)
  with new(2) show "row_of idf (t\<lparr>tb_rows := tb_rows t @ [r], tb_seq := n\<rparr>) = (row_of idf t)(i \<mapsto> r)"
    by (simp add: row_of_def find_append fun_eq_iff split: option.split)
qed

lemma row_of_map:
  assumes "\<And>r. idf (f r) = idf r"
  shows "table_ok idf t \<Longrightarrow> table_ok idf (tb_rows_update (map f) t)"
    and "row_of idf (tb_rows_update (map f) t) = map_option f \<circ> row_of idf t"
proof -
  have "idf \<circ> f = idf" using assms by (simp add: fun_eq_iff)
  with assms show "table_ok idf t \<Longrightarrow> table_ok idf (tb_rows_update (map f) t)" by (simp add: table_ok_def)
  show "row_of idf (tb_rows_update (map f) t) = map_option f \<circ> row_of idf t"
    using assms by (simp add: row_of_def find_map fun_eq_iff comp_def)
qed

lemma row_of_filter:
  assumes ok: "table_ok idf t"
  shows "table_ok idf (tb_rows_update (filter (\<lambda>r. idf r \<noteq> i)) t)"
    and "row_of idf (tb_rows_update (filter (\<lambda>r. idf r \<noteq> i)) t) = (row_of idf t)(i := None)"
proof -
  show ok': "table_ok idf (tb_rows_update (filter (\<lambda>r. idf r \<noteq> i)) t)"
    using ok by (auto simp: table_ok_def distinct_map_filter)
  have "row_of idf (tb_rows_update (filter (\<lambda>r. idf r \<noteq> i)) t) k = ((row_of idf t)(i := None)) k" for k
    using row_of_iff [OF ok] row_of_iff [OF ok'] by (intro option_eqI) auto
  then show "row_of idf (tb_rows_update (filter (\<lambda>r. idf r \<noteq> i)) t) = (row_of idf t)(i := None)" by blast
qed

lemma row_of_update:
  assumes ok: "table_ok idf t" and f: "\<And>r. idf (f r) = idf r"
  shows "table_ok idf (tb_rows_update (map (\<lambda>r. if idf r = i then f r else r)) t)"
    and "row_of idf (tb_rows_update (map (\<lambda>r. if idf r = i then f r else r)) t) =
      (row_of idf t)(i := map_option f (row_of idf t i))"
proof -
  let ?g = "\<lambda>r. if idf r = i then f r else r"
  have g: "idf (?g r) = idf r" for r by (simp add: f)
  from row_of_map(1) [where f = ?g and idf = idf, OF g ok] show "table_ok idf (tb_rows_update (map ?g) t)" .
  have "map_option ?g (row_of idf t k) = ((row_of idf t)(i := map_option f (row_of idf t i))) k" for k
    by (cases "row_of idf t k") (auto dest: row_of_id)
  then show "row_of idf (tb_rows_update (map ?g) t) = (row_of idf t)(i := map_option f (row_of idf t i))"
    by (simp add: row_of_map(2) [where f = ?g and idf = idf, OF g] fun_eq_iff)
qed

lemma row_of_seq [simp]:
  "row_of idf (tb_seq_update g t) = row_of idf t" "table_ok idf t \<Longrightarrow> table_ok idf (tb_seq_update Suc t)"
  by (simp_all add: row_of_def table_ok_def fun_eq_iff)

subsection \<open>The interface of a table\<close>

text \<open>
  What the repositories rely on in the database: \<open>tbl\<close> reads a table, \<open>upd\<close> changes it, and the
  change is what is read afterwards.
\<close>

definition all_rows :: "('r \<Rightarrow> bool) \<Rightarrow> 'r table \<Rightarrow> bool" where
  "all_rows P t \<longleftrightarrow> (\<forall>r \<in> set (tb_rows t). P r)"

text \<open>A new table.\<close>

definition empty_table :: "'r table" where
  "empty_table = \<lparr>tb_rows = [], tb_seq = 1\<rparr>"

lemma empty_table_ok [simp]: "table_ok idf empty_table" "all_rows P empty_table" "row_of idf empty_table i = None"
  by (simp_all add: empty_table_def table_ok_def all_rows_def row_of_def)

lemma run_insert_empty:
  assumes "quiet env" "tbl d = empty_table"
  shows "fetch_one (sql_insert idf tbl upd mk) env (k, d) = (Ok (mk (tn_now (env k)) 1), Suc k,
    upd (\<lambda>t. t\<lparr>tb_rows := tb_rows t @ [mk (tn_now (env k)) 1], tb_seq := Suc (tb_seq t)\<rparr>) d)"
  using assms by (simp add: run_insert empty_table_def Let_def)

text \<open>What creating, updating and deleting mean for the map from keys to rows.\<close>

definition created_in ::
    "('r \<Rightarrow> Id) \<Rightarrow> ('r, 'e) result \<Rightarrow> (Id \<Rightarrow> 'r option) \<Rightarrow> (Id \<Rightarrow> 'r option) \<Rightarrow> bool" where
  "created_in idf x m m' \<longleftrightarrow>
     (case x of Inl e \<Rightarrow> m' = m
      | Inr r \<Rightarrow> m (idf r) = None \<and> m' (idf r) = Some r \<and> dom m' = insert (idf r) (dom m))"

definition updated_in ::
    "('r \<Rightarrow> Id) \<Rightarrow> Id \<Rightarrow> ('r, 'e) result \<Rightarrow> (Id \<Rightarrow> 'r option) \<Rightarrow> (Id \<Rightarrow> 'r option) \<Rightarrow> bool" where
  "updated_in idf i x m m' \<longleftrightarrow>
     (case x of Inl e \<Rightarrow> m' = m
      | Inr r \<Rightarrow> idf r = i \<and> m i \<noteq> None \<and> m' i = Some r \<and> dom m' = dom m)"

definition deleted_in :: "Id \<Rightarrow> (unit, 'e) result \<Rightarrow> (Id \<Rightarrow> 'r option) \<Rightarrow> (Id \<Rightarrow> 'r option) \<Rightarrow> bool" where
  "deleted_in i x m m' \<longleftrightarrow> (case x of Inl e \<Rightarrow> m' = m | Inr u \<Rightarrow> m i \<noteq> None \<and> m' = m(i := None))"

lemma refused_in [simp]: "created_in idf (Inl e) m m" "updated_in idf i (Inl e) m m" "deleted_in i (Inl e) m m"
  by (simp_all add: created_in_def updated_in_def deleted_in_def)

locale db_table =
  fixes idf :: "'r \<Rightarrow> Id"
    and tbl :: "'d \<Rightarrow> 'r table"
    and upd :: "('r table \<Rightarrow> 'r table) \<Rightarrow> 'd \<Rightarrow> 'd"
  assumes get_put [simp]: "tbl (upd f d) = f (tbl d)"
begin

lemma holds_select:
  assumes "\<And>d. set (sel d) \<subseteq> set (tb_rows (tbl d))"
  shows "holds (\<lambda>d. all_rows P (tbl d)) (fetch_optional (sql_select sel)) (\<lambda>v. \<forall>r. v = Some r \<longrightarrow> P r)"
    and "holds (\<lambda>d. all_rows P (tbl d)) (fetch_all (sql_select sel)) (\<lambda>rs. \<forall>r \<in> set rs. P r)"
  using assms by (auto intro!: holds_fetch simp: sql_select_def all_rows_def subset_iff)

lemma holds_insert:
  assumes "\<And>now i. P (mk now i)"
  shows "holds (\<lambda>d. all_rows P (tbl d)) (fetch_one (sql_insert idf tbl upd mk)) P"
  by (rule holds_fetch(3)) (auto simp: sql_insert_def all_rows_def Let_def assms)

lemma holds_update:
  assumes "\<And>now r. p r \<Longrightarrow> P r \<Longrightarrow> P (f now r)"
  shows "holds (\<lambda>d. all_rows P (tbl d)) (fetch_one (sql_update tbl upd p f)) P"
    and "holds (\<lambda>d. all_rows P (tbl d)) (fetch_optional (sql_update tbl upd p f)) (\<lambda>v. \<forall>r. v = Some r \<longrightarrow> P r)"
    and "holds (\<lambda>d. all_rows P (tbl d)) (execute (sql_update tbl upd p f)) (\<lambda>_. True)"
proof -
  have st: "case sql_update tbl upd p f now d of
      (r, d') \<Rightarrow> all_rows P (tbl d') \<and> (\<forall>xs. r = Ok xs \<longrightarrow> (\<forall>x \<in> set xs. P x))"
    if "all_rows P (tbl d)" for now d
    using that by (auto simp: sql_update_def all_rows_def assms)
  note fetch = holds_fetch [where I = "\<lambda>d. all_rows P (tbl d)" and f = "sql_update tbl upd p f" and Q = P, OF st]
  from fetch show "holds (\<lambda>d. all_rows P (tbl d)) (fetch_one (sql_update tbl upd p f)) P"
    and "holds (\<lambda>d. all_rows P (tbl d)) (fetch_optional (sql_update tbl upd p f)) (\<lambda>v. \<forall>r. v = Some r \<longrightarrow> P r)"
    and "holds (\<lambda>d. all_rows P (tbl d)) (execute (sql_update tbl upd p f)) (\<lambda>_. True)"
    by simp_all
qed

lemma holds_delete:
  "holds (\<lambda>d. all_rows P (tbl d)) (execute (sql_delete tbl upd p)) (\<lambda>_. True)"
  "holds (\<lambda>d. all_rows P (tbl d)) (rows_affected (sql_delete tbl upd p)) (\<lambda>_. True)"
  by (rule holds_fetch(5) [where Q = "\<lambda>_. True"], simp add: sql_delete_def all_rows_def,
      rule holds_fetch(4) [where Q = "\<lambda>_. True"], simp add: sql_delete_def all_rows_def)

lemma holds_find [holds_intro]:
  "holds (\<lambda>d. all_rows P (tbl d)) (find_row idf tbl i) (\<lambda>v. \<forall>r. v = Some r \<longrightarrow> P r)"
  unfolding find_row_def by (rule holds_select(1)) auto

lemma run_table [run_simps]:
  assumes "quiet env"
  shows "find_row idf tbl i env (k, d) = (Ok (row_of idf (tbl d) i), Suc k, d)"
    and "row_exists tbl p env (k, d) = (Ok (\<exists>r \<in> set (tb_rows (tbl d)). p r), Suc k, d)"
    and "count_of tbl p env (k, d) = (Ok (word_of_nat (length (filter p (tb_rows (tbl d))))), Suc k, d)"
    and "table_ok idf (tbl d) \<Longrightarrow> counted tbl p env (k, d) = (Ok (\<exists>r \<in> set (tb_rows (tbl d)). p r), Suc k, d)"
  using assms
  by (auto simp: find_row_def row_exists_def count_of_def counted_def run_simps head_filter row_of_def count_sint
      filter_empty_conv)

text \<open>What an insertion, an update and a deletion by key leave behind when they run alone.\<close>

lemma insert_alone:
  assumes "quiet env" and ok: "table_ok idf (tbl d)" and mk: "\<And>now i. idf (mk now i) = i"
    and run: "fetch_one (sql_insert idf tbl upd mk) env (k, d) = (Ok r, k', d')"
  shows "table_ok idf (tbl d')" and "row_of idf (tbl d) (idf r) = None"
    and "row_of idf (tbl d') = (row_of idf (tbl d))(idf r \<mapsto> r)" and "tbl d' = (tbl d)\<lparr>tb_rows := tb_rows (tbl d) @ [r], tb_seq := Suc (tb_seq (tbl d))\<rparr>"
    and "r = mk (tn_now (env k)) (idf r)" and "k' = Suc k"
proof -
  let ?i = "word_of_nat (tb_seq (tbl d)) :: Id"
  from run assms(1) have new: "?i \<notin> idf ` set (tb_rows (tbl d))" and seq: "tb_seq (tbl d) < 2 ^ 63" and r: "r = mk (tn_now (env k)) ?i"
    and t: "tbl d' = (tbl d)\<lparr>tb_rows := tb_rows (tbl d) @ [r], tb_seq := Suc (tb_seq (tbl d))\<rparr>" and k: "k' = Suc k"
    by (auto simp: run_insert Let_def split: if_splits)
  from r have i: "idf r = ?i" by (simp add: mk)
  show "r = mk (tn_now (env k)) (idf r)" "k' = Suc k" using r i k by simp_all
  show "tbl d' = (tbl d)\<lparr>tb_rows := tb_rows (tbl d) @ [r], tb_seq := Suc (tb_seq (tbl d))\<rparr>" by (rule t)
  show "row_of idf (tbl d) (idf r) = None" using new i by (simp add: row_of_None)
  from seq ok have "0 < sint ?i" by (simp add: sint_of_nat_i64 table_ok_def)
  from row_of_append [OF ok new i this, of "Suc (tb_seq (tbl d))"] show "table_ok idf (tbl d')"
    and "row_of idf (tbl d') = (row_of idf (tbl d))(idf r \<mapsto> r)" by (simp_all only: t i zero_less_Suc)
qed

lemma insert_refused:
  assumes "quiet env" "fetch_one (sql_insert idf tbl upd mk) env (k, d) = (Err e, k', d')"
  shows "tb_rows (tbl d') = tb_rows (tbl d)" and "row_of idf (tbl d') = row_of idf (tbl d)"
    and "table_ok idf (tbl d) \<Longrightarrow> table_ok idf (tbl d')" and "d' = d \<or> d' = upd (tb_seq_update Suc) d"
  using assms by (auto simp: run_insert Let_def split: if_splits)

lemma insert_law:
  assumes "quiet env" "table_ok idf (tbl d)" "\<And>now i. idf (mk now i) = i"
    and run: "fetch_one (sql_insert idf tbl upd mk) env (k, d) = (x, k', d')"
  shows "table_ok idf (tbl d') \<and> created_in idf x (row_of idf (tbl d)) (row_of idf (tbl d'))"
proof (cases x)
  case (Inl e)
  with insert_refused [OF assms(1), of mk k d e k' d'] run assms(2) show ?thesis by (simp add: created_in_def)
next
  case (Inr r)
  with insert_alone [where mk = mk and r = r, OF assms(1-3)] run show ?thesis by (simp add: created_in_def)
qed

lemma update_law:
  assumes "quiet env" "table_ok idf (tbl d)" "\<And>now r. idf (f now r) = idf r"
    and run: "m env (k, d) = (x, k', d')"
    and m: "m = fetch_one (sql_update tbl upd (\<lambda>r. idf r = i) f) \<or>
      m = or_fail e (fetch_optional (sql_update tbl upd (\<lambda>r. idf r = i) f))"
  shows "table_ok idf (tbl d') \<and> updated_in idf i x (row_of idf (tbl d)) (row_of idf (tbl d'))"
proof -
  let ?f = "f (tn_now (env k))" and ?old = "row_of idf (tbl d) i"
  from m run have t': "tbl d' = tb_rows_update (map (\<lambda>r. if idf r = i then ?f r else r)) (tbl d)"
    and x: "case ?old of None \<Rightarrow> (\<exists>e. x = Err e) | Some r \<Rightarrow> x = Ok (?f r)"
    by (auto simp: or_fail_def run_simps assms(1) row_of_def split: option.splits)
  note upd = row_of_update [where f = ?f, OF assms(2,3), of i]
  have "tb_rows_update (map (\<lambda>r. if idf r = i then ?f r else r)) (tbl d) = tbl d" if "?old = None"
    using that by (auto simp: row_of_None intro!: table.equality map_idI)
  with upd x show ?thesis
    by (cases ?old) (auto simp: t' updated_in_def assms(3) dest: row_of_id)
qed

lemma delete_law:
  assumes "table_ok idf (tbl d)" "row_of idf (tbl d) i \<noteq> None" "tbl d' = tb_rows_update (filter (\<lambda>r. idf r \<noteq> i)) (tbl d)"
  shows "table_ok idf (tbl d') \<and> deleted_in i (Ok u) (row_of idf (tbl d)) (row_of idf (tbl d'))"
  using row_of_filter [OF assms(1), of i] assms(2,3) by (simp add: deleted_in_def)

lemma delete_or_fail_law:
  assumes "quiet env" "table_ok idf (tbl d)"
    and "or_fail_zero e (rows_affected (sql_delete tbl upd (\<lambda>r. idf r = i))) env (k, d) = (x, k', d')"
  shows "table_ok idf (tbl d') \<and> deleted_in i x (row_of idf (tbl d)) (row_of idf (tbl d')) \<and>
    (x = Err e \<longleftrightarrow> row_of idf (tbl d) i = None)"
proof -
  have "filter (\<lambda>r. idf r = i) (tb_rows (tbl d)) = [] \<longleftrightarrow> row_of idf (tbl d) i = None"
    by (auto simp: filter_empty_conv row_of_None)
  with row_of_filter [OF assms(2), of i] assms(1,3) show ?thesis
    by (auto simp: or_fail_zero_def run_simps deleted_in_def fun_upd_idem split: if_splits)
qed

end

subsection \<open>The interface of a repository\<close>

text \<open>
  The trait \<open>Repository\<close> as far as all its implementations agree, for an operation that runs alone:
  \<open>row\<close> is what the tables of the repository stand for.
\<close>

locale repository =
  fixes idf :: "'r \<Rightarrow> Id"
    and inv :: "'d \<Rightarrow> bool"
    and row :: "'d \<Rightarrow> Id \<Rightarrow> 'r option"
    and find_by_id :: "Id \<Rightarrow> ('d, 'r option) dbop"
    and exists :: "Id \<Rightarrow> ('d, bool) dbop"
    and create :: "'c \<Rightarrow> ('d, 'r) dbop"
    and update :: "Id \<Rightarrow> 'u \<Rightarrow> ('d, 'r) dbop"
    and delete :: "Id \<Rightarrow> ('d, unit) dbop"
  assumes found: "quiet env \<Longrightarrow> inv d \<Longrightarrow> find_by_id i env (k, d) = (Ok (row d i), Suc k, d)"
    and exists_row: "quiet env \<Longrightarrow> inv d \<Longrightarrow> exists i env (k, d) = (Ok (row d i \<noteq> None), Suc k, d)"
    and create_law: "\<lbrakk> quiet env; inv d; create c env (k, d) = (x, k', d') \<rbrakk> \<Longrightarrow>
      inv d' \<and> created_in idf x (row d) (row d')"
    and update_law: "\<lbrakk> quiet env; inv d; update i u env (k, d) = (x, k', d') \<rbrakk> \<Longrightarrow>
      inv d' \<and> updated_in idf i x (row d) (row d')"
    and delete_law: "\<lbrakk> quiet env; inv d; delete i env (k, d) = (y, k', d') \<rbrakk> \<Longrightarrow>
      inv d' \<and> deleted_in i y (row d) (row d')"
begin

lemma created:
  "\<lbrakk> quiet env; inv d; create c env (k, d) = (Ok r, k', d') \<rbrakk> \<Longrightarrow>
   inv d' \<and> row d (idf r) = None \<and> row d' (idf r) = Some r \<and> dom (row d') = insert (idf r) (dom (row d))"
  by (drule (2) create_law) (simp add: created_in_def)

lemma updated:
  "\<lbrakk> quiet env; inv d; update i u env (k, d) = (Ok r, k', d') \<rbrakk> \<Longrightarrow>
   inv d' \<and> idf r = i \<and> row d i \<noteq> None \<and> row d' i = Some r \<and> dom (row d') = dom (row d)"
  by (drule (2) update_law) (simp add: updated_in_def)

lemma deleted:
  "\<lbrakk> quiet env; inv d; delete i env (k, d) = (Ok u, k', d') \<rbrakk> \<Longrightarrow>
   inv d' \<and> row d i \<noteq> None \<and> row d' = (row d)(i := None)"
  by (drule (2) delete_law) (simp add: deleted_in_def)

lemma created_is_found:
  assumes "quiet env" "inv d" "create c env (k, d) = (Ok r, k', d')"
  shows "find_by_id (idf r) env (k', d') = (Ok (Some r), Suc k', d')" and "fst (exists (idf r) env (k, d)) = Ok False"
  using created [OF assms] by (simp_all add: found exists_row assms(1,2))

lemma updated_is_found:
  assumes "quiet env" "inv d" "update i u env (k, d) = (Ok r, k', d')"
  shows "find_by_id i env (k', d') = (Ok (Some r), Suc k', d')"
  using updated [OF assms] by (simp add: found assms(1))

lemma deleted_is_gone:
  assumes "quiet env" "inv d" "delete i env (k, d) = (Ok x, k', d')"
  shows "find_by_id i env (k', d') = (Ok None, Suc k', d')" and "\<exists>e. fst (delete i env (k', d')) = Err e"
    and "\<exists>e. fst (update i u env (k', d')) = Err e"
proof -
  from deleted [OF assms] have inv: "inv d'" and gone: "row d' i = None" by auto
  from found [OF assms(1) inv] gone show "find_by_id i env (k', d') = (Ok None, Suc k', d')" by simp
  show "\<exists>e. fst (delete i env (k', d')) = Err e"
  proof (cases "delete i env (k', d')")
    case (fields r k2 d2)
    with deleted [OF assms(1) inv, of i k'] gone show ?thesis by (cases r) auto
  qed
  show "\<exists>e. fst (update i u env (k', d')) = Err e"
  proof (cases "update i u env (k', d')")
    case (fields r k2 d2)
    with updated [OF assms(1) inv, of i u k'] gone show ?thesis by (cases r) auto
  qed
qed

lemma create_then_delete:
  assumes "quiet env" "inv d" "create c env (k, d) = (Ok r, k', d')" "delete (idf r) env (k', d') = (Ok x, k2, d2)"
  shows "dom (row d2) = dom (row d)"
  using created [OF assms(1-3)] deleted [OF assms(1) _ assms(4)] by auto

end

end
