(* ===== verification/Schema.thy ===== *)
theory Schema
  imports Database
begin

section \<open>The schema (op-db)\<close>

text \<open>
  The tables of \<open>migrations/0001_init.sql\<close>, one record per table with the columns of its \<open>Row\<close>
  struct.  The rows of \<open>enumerations\<close> are the priorities and the activities, told apart by their
  type; the table \<open>projects_types\<close> has no key.
\<close>

record user_row =
  ur_id :: Id
  ur_login :: string
  ur_firstname :: string
  ur_lastname :: string
  ur_mail :: string
  ur_admin :: bool
  ur_status :: i32
  ur_language :: "string option"
  ur_hashed_password :: "string option"
  ur_salt :: "string option"
  ur_created_at :: timestamp
  ur_updated_at :: timestamp
  ur_last_login_on :: "timestamp option"

record role_row =
  ror_id :: Id
  ror_name :: string
  ror_position :: i32
  ror_builtin :: i32
  ror_role_type :: "string option"
  ror_created_at :: timestamp
  ror_updated_at :: timestamp

record role_permission_row =
  rpr_id :: Id
  rpr_role_id :: Id
  rpr_permission :: string

record project_row =
  prr_id :: Id
  prr_name :: string
  prr_description :: "string option"
  prr_identifier :: string
  prr_public :: bool
  prr_parent_id :: "Id option"
  prr_lft :: i32
  prr_rgt :: i32
  prr_active :: bool
  prr_created_at :: timestamp
  prr_updated_at :: timestamp

record type_row =
  tyr_id :: Id
  tyr_name :: string
  tyr_position :: i32
  tyr_is_default :: bool
  tyr_is_in_roadmap :: bool
  tyr_is_milestone :: bool
  tyr_is_standard :: bool
  tyr_color_id :: "Id option"
  tyr_description :: "string option"
  tyr_created_at :: timestamp
  tyr_updated_at :: timestamp

record status_row =
  str_id :: Id
  str_name :: string
  str_is_closed :: bool
  str_is_default :: bool
  str_is_readonly :: bool
  str_position :: i32
  str_default_done_ratio :: i32
  str_color_id :: "Id option"
  str_created_at :: timestamp
  str_updated_at :: timestamp

record enumeration_row =
  enr_id :: Id
  enr_type :: string
  enr_name :: string
  enr_position :: i32
  enr_is_default :: bool
  enr_active :: bool
  enr_color_id :: "Id option"
  enr_project_id :: "Id option"
  enr_parent_id :: "Id option"
  enr_created_at :: timestamp
  enr_updated_at :: timestamp

record version_row =
  ver_id :: Id
  ver_project_id :: Id
  ver_name :: string
  ver_description :: "string option"
  ver_effective_date :: "date option"
  ver_start_date :: "date option"
  ver_status :: string
  ver_sharing :: string
  ver_wiki_page_title :: "string option"
  ver_created_at :: timestamp
  ver_updated_at :: timestamp

record member_row =
  mbr_id :: Id
  mbr_user_id :: Id
  mbr_project_id :: "Id option"
  mbr_entity_type :: "string option"
  mbr_entity_id :: "Id option"
  mbr_created_at :: timestamp
  mbr_updated_at :: timestamp

record member_role_row =
  mrr_id :: Id
  mrr_member_id :: Id
  mrr_role_id :: Id
  mrr_inherited_from :: "Id option"

record category_row =
  car_id :: Id
  car_project_id :: Id
  car_name :: string
  car_assigned_to_id :: "Id option"
  car_created_at :: timestamp
  car_updated_at :: timestamp

record work_package_row =
  wpr_id :: Id
  wpr_subject :: string
  wpr_description :: "string option"
  wpr_project_id :: Id
  wpr_type_id :: Id
  wpr_status_id :: Id
  wpr_priority_id :: "Id option"
  wpr_author_id :: Id
  wpr_assigned_to_id :: "Id option"
  wpr_responsible_id :: "Id option"
  wpr_start_date :: "date option"
  wpr_due_date :: "date option"
  wpr_estimated_hours :: "f64 option"
  wpr_done_ratio :: i32
  wpr_parent_id :: "Id option"
  wpr_version_id :: "Id option"
  wpr_category_id :: "Id option"
  wpr_lock_version :: i32
  wpr_created_at :: timestamp
  wpr_updated_at :: timestamp

record relation_row =
  rer_id :: Id
  rer_from_id :: Id
  rer_to_id :: Id
  rer_relation_type :: string
  rer_lag :: "i32 option"
  rer_description :: "string option"
  rer_created_at :: timestamp
  rer_updated_at :: timestamp

record time_entry_row =
  ter_id :: Id
  ter_project_id :: Id
  ter_user_id :: Id
  ter_work_package_id :: "Id option"
  ter_hours :: f64
  ter_comments :: "string option"
  ter_activity_id :: Id
  ter_spent_on :: date
  ter_tyear :: i32
  ter_tmonth :: i32
  ter_tweek :: i32
  ter_created_at :: timestamp
  ter_updated_at :: timestamp
  ter_overridden_costs :: "f64 option"
  ter_costs :: "f64 option"
  ter_rate_id :: "Id option"
  ter_logged_by_id :: "Id option"

record watcher_row =
  war_id :: Id
  war_watchable_type :: string
  war_watchable_id :: Id
  war_user_id :: Id

record database =
  db_users :: "user_row table"
  db_roles :: "role_row table"
  db_role_permissions :: "role_permission_row table"
  db_projects :: "project_row table"
  db_types :: "type_row table"
  db_statuses :: "status_row table"
  db_enumerations :: "enumeration_row table"
  db_versions :: "version_row table"
  db_members :: "member_row table"
  db_member_roles :: "member_role_row table"
  db_categories :: "category_row table"
  db_work_packages :: "work_package_row table"
  db_relations :: "relation_row table"
  db_time_entries :: "time_entry_row table"
  db_watchers :: "watcher_row table"
  db_projects_types :: "(Id \<times> Id) list"

text \<open>The database as the migration leaves it: empty tables, sequences at one.\<close>

definition empty_database :: database where
  "empty_database =
     \<lparr>db_users = empty_table,
      db_roles = empty_table,
      db_role_permissions = empty_table,
      db_projects = empty_table,
      db_types = empty_table,
      db_statuses = empty_table,
      db_enumerations = empty_table,
      db_versions = empty_table,
      db_members = empty_table,
      db_member_roles = empty_table,
      db_categories = empty_table,
      db_work_packages = empty_table,
      db_relations = empty_table,
      db_time_entries = empty_table,
      db_watchers = empty_table,
      db_projects_types = []\<rparr>"

end
