(* ===== verification/Keys.thy ===== *)
theory Keys
  imports Database
begin

section \<open>Conditions on the rows of a table (op-db)\<close>

text \<open>
  Rules for what an operation leaves behind when no other session runs at the same time but its
  statements may fail, and the two conditions the repositories keep by hand, because the schema has
  no constraint for them: columns that are unique, and a default of which there is one.
\<close>

subsection \<open>One session, with failures\<close>

definition calm :: "bool \<Rightarrow> 'd db_env \<Rightarrow> bool" where
  "calm failures env \<longleftrightarrow> (\<forall>k. tn_others (env k) = (\<lambda>d. d) \<and> (failures \<or> tn_fault (env k) = None))"

lemma calm_envs [simp]:
  "calm False env \<longleftrightarrow> quiet env" "quiet env \<Longrightarrow> calm fl env" "calm fl (alone now)" "calm True (faulty now n e)"
  by (simp_all add: calm_def quiet_def alone_def faulty_def)

text \<open>
  \<open>triple fl P m Q E\<close>: started in a database with \<open>P\<close>, the operation ends in one with \<open>Q x\<close> when it
  returns \<open>x\<close>, and in one with \<open>E\<close> when it is refused or, if \<open>fl\<close>
  allows it, a statement fails.
\<close>

definition triple ::
    "bool \<Rightarrow> ('d \<Rightarrow> bool) \<Rightarrow> ('d, 'a) dbop \<Rightarrow> ('a \<Rightarrow> 'd \<Rightarrow> bool) \<Rightarrow> ('d \<Rightarrow> bool) \<Rightarrow> bool" where
  "triple fl P m Q E \<longleftrightarrow> (\<forall>env k d. calm fl env \<longrightarrow> P d \<longrightarrow>
     (case m env (k, d) of (r, k', d') \<Rightarrow> (case r of Inl e \<Rightarrow> E d' | Inr x \<Rightarrow> Q x d')))"

lemma tripleD:
  assumes "triple fl P m Q E" "calm fl env" "P d" "m env (k, d) = (r, k', d')"
  shows "case r of Inl e \<Rightarrow> E d' | Inr x \<Rightarrow> Q x d'"
proof -
  from assms(1) [unfolded triple_def, rule_format, OF assms(2,3), of k] assms(4) show ?thesis by simp
qed

lemma triple_ret: "(\<And>d. P d \<Longrightarrow> Q x d) \<Longrightarrow> triple fl P (ret x) Q E"
  by (simp add: triple_def ret_def)

lemma triple_fail: "(\<And>d. P d \<Longrightarrow> E d) \<Longrightarrow> triple fl P (fail e) Q E"
  by (simp add: triple_def fail_def)

lemma triple_then:
  fixes m :: "('d, 'a) dbop"
  assumes "triple fl P m R E" "\<And>x. triple fl (R x) (f x) Q E"
  shows "triple fl P (and_then m f) Q E"
  unfolding triple_def
proof (intro allI impI)
  fix env :: "'d db_env" and k d assume env: "calm fl env" and P: "P d"
  obtain r k' d' where run: "m env (k, d) = (r, k', d')" by (cases "m env (k, d)") auto
  note m = tripleD [OF assms(1) env P run]
  show "case and_then m f env (k, d) of (r, k', d') \<Rightarrow> (case r of Inl e \<Rightarrow> E d' | Inr x \<Rightarrow> Q x d')"
  proof (cases r)
    case (Inl e)
    with m run show ?thesis by (simp add: and_then_def)
  next
    case (Inr x)
    obtain r2 k2 d2 where run2: "f x env (k', d') = (r2, k2, d2)" by (cases "f x env (k', d')") auto
    from Inr m have "R x d'" by simp
    from tripleD [OF assms(2) env this run2] run run2 Inr show ?thesis by (simp add: and_then_def)
  qed
qed

lemma triple_if:
  "triple fl (\<lambda>d. P d \<and> b) m Q E \<Longrightarrow> triple fl (\<lambda>d. P d \<and> \<not> b) n Q E \<Longrightarrow> triple fl P (if b then m else n) Q E"
  by (auto simp: triple_def)

lemma triple_case_option:
  "triple fl (\<lambda>d. P d \<and> x = None) m Q E \<Longrightarrow> (\<And>y. triple fl (\<lambda>d. P d \<and> x = Some y) (f y) Q E) \<Longrightarrow>
   triple fl P (case x of None \<Rightarrow> m | Some y \<Rightarrow> f y) Q E"
  by (cases x) (auto simp: triple_def)

lemma triple_weaken:
  fixes m :: "('d, 'a) dbop"
  assumes "triple fl P m Q E" "\<And>d. P' d \<Longrightarrow> P d" "\<And>x d. Q x d \<Longrightarrow> Q' x d" "\<And>d. E d \<Longrightarrow> E' d"
  shows "triple fl P' m Q' E'"
  unfolding triple_def
proof (intro allI impI)
  fix env :: "'d db_env" and k d assume env: "calm fl env" and "P' d"
  then have P: "P d" using assms(2) by blast
  obtain r k' d' where run: "m env (k, d) = (r, k', d')" by (cases "m env (k, d)") auto
  from tripleD [OF assms(1) env P run] assms(3,4)
  show "case m env (k, d) of (r, k', d') \<Rightarrow> (case r of Inl e \<Rightarrow> E' d' | Inr x \<Rightarrow> Q' x d')"
    by (auto simp: run split: sum.splits)
qed

lemma triple_post: "triple fl P m Q E \<Longrightarrow> (\<And>x d. Q x d \<Longrightarrow> Q' x d) \<Longrightarrow> triple fl P m Q' E"
  by (rule triple_weaken)

lemma triple_each: "(\<And>d0. P d0 \<Longrightarrow> triple fl (\<lambda>d. d = d0) m Q E) \<Longrightarrow> triple fl P m Q E"
  by (auto simp: triple_def)

lemma triple_statement:
  fixes f :: "('d, 'a) statement"
  assumes "\<And>d. fl \<Longrightarrow> P d \<Longrightarrow> E d"
    and "\<And>now d. P d \<Longrightarrow> case f now d of (r, d') \<Rightarrow> (case r of Inl e \<Rightarrow> E d' | Inr xs \<Rightarrow> Q xs d')"
  shows "triple fl P (run_statement f) Q E"
  unfolding triple_def
proof (intro allI impI)
  fix env :: "'d db_env" and k d assume env: "calm fl env" and "P d"
  moreover from env have "tn_others (env k) = (\<lambda>d. d)" "fl \<or> tn_fault (env k) = None" by (simp_all add: calm_def)
  ultimately show "case run_statement f env (k, d) of (r, k', d') \<Rightarrow> (case r of Inl e \<Rightarrow> E d' | Inr x \<Rightarrow> Q x d')"
    using assms(1) [of d] assms(2) [of d "tn_now (env k)"]
    by (auto simp: run_statement_def Let_def split: option.split prod.split sum.split)
qed

text \<open>
  The rules of the statements: what a query finds is known of the database, and a change has been
  made to a database with the precondition.
\<close>

lemma triple_value:
  "(\<And>d. fl \<Longrightarrow> P d \<Longrightarrow> E d) \<Longrightarrow> triple fl P (fetch_one (sql_value v)) (\<lambda>x d. P d \<and> x = v d) E"
  unfolding fetch_one_def
  by (rule triple_then, rule triple_statement [where Q = "\<lambda>xs d. P d \<and> xs = [v d]"])
    (auto simp: sql_value_def triple_def ret_def fail_def split: list.split)

lemma triple_row_exists:
  "(\<And>d. fl \<Longrightarrow> P d \<Longrightarrow> E d) \<Longrightarrow>
   triple fl P (row_exists tbl p) (\<lambda>b d. P d \<and> b = (\<exists>r \<in> set (tb_rows (tbl d)). p r)) E"
  unfolding row_exists_def by (rule triple_value)

lemma triple_select:
  assumes "\<And>d. fl \<Longrightarrow> P d \<Longrightarrow> E d"
  shows "triple fl P (fetch_all (sql_select sel)) (\<lambda>xs d. P d \<and> xs = sel d) E"
    and "triple fl P (fetch_optional (sql_select sel)) (\<lambda>v d. P d \<and> v = (case sel d of [] \<Rightarrow> None | r # rs \<Rightarrow> Some r)) E"
proof -
  show all: "triple fl P (fetch_all (sql_select sel)) (\<lambda>xs d. P d \<and> xs = sel d) E"
    unfolding fetch_all_def by (rule triple_statement) (use assms in \<open>auto simp: sql_select_def\<close>)
  show "triple fl P (fetch_optional (sql_select sel)) (\<lambda>v d. P d \<and> v = (case sel d of [] \<Rightarrow> None | r # rs \<Rightarrow> Some r)) E"
    unfolding fetch_optional_def by (rule triple_then [OF all [unfolded fetch_all_def] triple_ret]) auto
qed

lemma triple_find:
  assumes "\<And>d. fl \<Longrightarrow> P d \<Longrightarrow> E d"
  shows "triple fl P (find_row idf tbl i) (\<lambda>v d. P d \<and> v = row_of idf (tbl d) i) E"
  unfolding find_row_def fetch_optional_def
  by (rule triple_then,
      rule triple_statement [where Q = "\<lambda>xs d. P d \<and> xs = filter (\<lambda>r. idf r = i) (tb_rows (tbl d))"])
    (use assms in \<open>auto simp: sql_select_def triple_def ret_def row_of_def head_filter\<close>)

lemma triple_insert:
  assumes "\<And>d. P d \<Longrightarrow> E d" "\<And>d. P d \<Longrightarrow> E (upd (tb_seq_update Suc) d)"
    and "\<And>d now i. P d \<Longrightarrow> i \<notin> idf ` set (tb_rows (tbl d)) \<Longrightarrow> tb_seq (tbl d) < 2 ^ 63 \<Longrightarrow> i = word_of_nat (tb_seq (tbl d)) \<Longrightarrow>
      Q (mk now i) (upd (\<lambda>t. t\<lparr>tb_rows := tb_rows t @ [mk now i], tb_seq := Suc (tb_seq t)\<rparr>) d)"
  shows "triple fl P (fetch_one (sql_insert idf tbl upd mk)) Q E"
  unfolding fetch_one_def
  by (rule triple_then, rule triple_statement [where Q = "\<lambda>xs d'. \<exists>d now i. P d \<and>
      i \<notin> idf ` set (tb_rows (tbl d)) \<and> tb_seq (tbl d) < 2 ^ 63 \<and> i = word_of_nat (tb_seq (tbl d)) \<and> xs = [mk now i] \<and>
      d' = upd (\<lambda>t. t\<lparr>tb_rows := tb_rows t @ [mk now i], tb_seq := Suc (tb_seq t)\<rparr>) d"])
    (use assms in \<open>auto simp: sql_insert_def Let_def triple_def ret_def fail_def split: list.split if_split\<close>)

lemma triple_insert_new:
  assumes "\<And>d. P d \<Longrightarrow> E d"
    and "\<And>d now i. P d \<Longrightarrow> tb_seq (tbl d) < 2 ^ 63 \<Longrightarrow> i = word_of_nat (tb_seq (tbl d)) \<Longrightarrow>
      i \<in> idf ` set (tb_rows (tbl d)) \<or> key (mk now i) \<in> key ` set (tb_rows (tbl d)) \<Longrightarrow> Q () (upd (tb_seq_update Suc) d)"
    and "\<And>d now i. P d \<Longrightarrow> tb_seq (tbl d) < 2 ^ 63 \<Longrightarrow> i = word_of_nat (tb_seq (tbl d)) \<Longrightarrow>
      i \<notin> idf ` set (tb_rows (tbl d)) \<Longrightarrow> key (mk now i) \<notin> key ` set (tb_rows (tbl d)) \<Longrightarrow>
      Q () (upd (\<lambda>t. t\<lparr>tb_rows := tb_rows t @ [mk now i], tb_seq := Suc (tb_seq t)\<rparr>) d)"
  shows "triple fl P (execute (sql_insert_new idf key tbl upd mk)) Q E"
  unfolding execute_def
  by (rule triple_then [where R = "\<lambda>xs d. Q () d"], rule triple_statement)
    (use assms in \<open>auto simp: sql_insert_new_def Let_def triple_def ret_def split: if_split\<close>)

lemma triple_update:
  assumes "\<And>d. fl \<Longrightarrow> P d \<Longrightarrow> E d"
    and "\<And>d now. P d \<Longrightarrow> Q (map_option (f now) (List.find p (tb_rows (tbl d))))
      (upd (tb_rows_update (map (\<lambda>r. if p r then f now r else r))) d)"
  shows "triple fl P (fetch_optional (sql_update tbl upd p f)) Q E"
proof -
  have head: "(case map (f now) (filter p xs) of [] \<Rightarrow> None | r # rs \<Rightarrow> Some r) = map_option (f now) (List.find p xs)"
    for now xs by (induction xs) auto
  show ?thesis
    unfolding fetch_optional_def
    by (rule triple_then, rule triple_statement [where Q = "\<lambda>xs d'. \<exists>d now. P d \<and>
        xs = map (f now) (filter p (tb_rows (tbl d))) \<and>
        d' = upd (tb_rows_update (map (\<lambda>r. if p r then f now r else r))) d"])
      (use assms in \<open>auto simp: sql_update_def triple_def ret_def head\<close>)
qed

lemma triple_update_one:
  assumes "\<And>d. fl \<Longrightarrow> P d \<Longrightarrow> E d"
    and "\<And>d now. P d \<Longrightarrow> List.find p (tb_rows (tbl d)) = None \<Longrightarrow> E (upd (tb_rows_update (map (\<lambda>r. if p r then f now r else r))) d)"
    and "\<And>d now r. P d \<Longrightarrow> List.find p (tb_rows (tbl d)) = Some r \<Longrightarrow>
      Q (f now r) (upd (tb_rows_update (map (\<lambda>r. if p r then f now r else r))) d)"
  shows "triple fl P (fetch_one (sql_update tbl upd p f)) Q E"
proof -
  have head: "filter p xs = y # ys \<Longrightarrow> List.find p xs = Some y" for xs y ys
    by (induction xs) (auto split: if_splits)
  have none: "filter p xs = [] \<Longrightarrow> List.find p xs = None" for xs by (induction xs) (auto split: if_splits)
  show ?thesis
    unfolding fetch_one_def
    by (rule triple_then, rule triple_statement [where Q = "\<lambda>xs d'. \<exists>d now. P d \<and>
        xs = map (f now) (filter p (tb_rows (tbl d))) \<and>
        d' = upd (tb_rows_update (map (\<lambda>r. if p r then f now r else r))) d"])
      (use assms in \<open>auto simp: sql_update_def triple_def ret_def fail_def dest!: head none split: list.split\<close>)
qed

lemma triple_update_all:
  assumes "\<And>d. fl \<Longrightarrow> P d \<Longrightarrow> E d"
    and "\<And>d now. P d \<Longrightarrow> Q () (upd (tb_rows_update (map (\<lambda>r. if p r then f now r else r))) d)"
  shows "triple fl P (execute (sql_update tbl upd p f)) Q E"
  unfolding execute_def
  by (rule triple_then, rule triple_statement [where Q = "\<lambda>xs d'. \<exists>d now. P d \<and>
      d' = upd (tb_rows_update (map (\<lambda>r. if p r then f now r else r))) d"])
    (use assms in \<open>auto simp: sql_update_def triple_def ret_def\<close>)

lemma triple_delete:
  assumes "\<And>d. fl \<Longrightarrow> P d \<Longrightarrow> E d" "\<And>d. P d \<Longrightarrow> R (upd (tb_rows_update (filter (\<lambda>r. \<not> p r))) d)"
  shows "triple fl P (rows_affected (sql_delete tbl upd p)) (\<lambda>n. R) E"
    and "triple fl P (execute (sql_delete tbl upd p)) (\<lambda>u. R) E"
proof -
  have st: "triple fl P (run_statement (sql_delete tbl upd p)) (\<lambda>xs. R) E"
    by (rule triple_statement) (use assms in \<open>auto simp: sql_delete_def\<close>)
  show "triple fl P (rows_affected (sql_delete tbl upd p)) (\<lambda>n. R) E"
    unfolding rows_affected_def by (rule triple_then [OF st triple_ret])
  show "triple fl P (execute (sql_delete tbl upd p)) (\<lambda>u. R) E"
    unfolding execute_def by (rule triple_then [OF st triple_ret])
qed

lemma triple_unit: "triple fl P m (\<lambda>_. Q) E \<Longrightarrow> triple fl P (and_then m (\<lambda>_. ret ())) (\<lambda>_. Q) E"
  by (rule triple_then, assumption, rule triple_ret)

lemma triple_or_fail:
  assumes "triple fl P m (\<lambda>v d. case v of None \<Rightarrow> E d | Some r \<Rightarrow> Q r d) E"
  shows "triple fl P (or_fail e m) Q E"
  unfolding or_fail_def
  by (rule triple_then [OF assms]) (auto simp: triple_def ret_def fail_def split: option.split)

lemma triple_or_fail_zero:
  assumes "triple fl P m (\<lambda>n. I) I"
  shows "triple fl P (or_fail_zero e m) (\<lambda>u. I) I"
  unfolding or_fail_zero_def
  by (rule triple_then [OF assms]) (auto simp: triple_def ret_def fail_def)

lemma triple_counted:
  assumes "\<And>d. P d \<Longrightarrow> E d" "\<And>d. P d \<Longrightarrow> table_ok idf (tbl d)"
  shows "triple fl P (counted tbl p) (\<lambda>b d. P d \<and> b = (\<exists>r \<in> set (tb_rows (tbl d)). p r)) E"
proof -
  have "(0 < sint (word_of_nat (length (filter p (tb_rows (tbl d)))) :: i64)) = (\<exists>r \<in> set (tb_rows (tbl d)). p r)" if "P d" for d
    unfolding count_sint [OF assms(2) [OF that]] by (auto simp: filter_empty_conv)
  then show ?thesis
    unfolding counted_def count_of_def by (intro triple_then [OF triple_value triple_ret]) (auto simp: assms(1))
qed

text \<open>Reading the row that is to be updated.\<close>

lemma triple_existing:
  assumes "\<And>d. P d \<Longrightarrow> table_ok idf (tbl d)" "\<And>d. P d \<Longrightarrow> E d"
  shows "triple fl P (or_fail e (find_row idf tbl i))
    (\<lambda>r d. P d \<and> r \<in> set (tb_rows (tbl d)) \<and> idf r = i \<and> (\<forall>s \<in> set (tb_rows (tbl d)). idf s = i \<longrightarrow> s = r)) E"
proof (rule triple_or_fail, rule triple_post, rule triple_find, rule assms(2), assumption)
  fix v d assume v: "P d \<and> v = row_of idf (tbl d) i"
  then have ok: "table_ok idf (tbl d)" using assms(1) by blast
  show "case v of None \<Rightarrow> E d | Some r \<Rightarrow> P d \<and> r \<in> set (tb_rows (tbl d)) \<and> idf r = i \<and>
      (\<forall>s \<in> set (tb_rows (tbl d)). idf s = i \<longrightarrow> s = r)"
  proof (cases v)
    case None
    then show ?thesis using v assms(2) by simp
  next
    case (Some r)
    with v have r: "row_of idf (tbl d) i = Some r" by simp
    have "s = r" if "s \<in> set (tb_rows (tbl d))" "idf s = i" for s
    proof -
      have "row_of idf (tbl d) i = Some s" using that by (simp add: row_of_iff [OF ok])
      with r show ?thesis by simp
    qed
    with v r show ?thesis by (simp add: Some row_of_iff [OF ok])
  qed
qed

text \<open>A loop, with what holds after each of its steps.\<close>

lemma triple_for_each:
  assumes "\<And>ys x zs. xs = ys @ x # zs \<Longrightarrow> triple fl (P ys) (f x) (\<lambda>_. P (ys @ [x])) E"
  shows "triple fl (P []) (for_each xs f) (\<lambda>_. P xs) E"
proof -
  have "triple fl (P ys) (for_each zs f) (\<lambda>_. P xs) E" if "xs = ys @ zs" for ys zs
    using that
  proof (induction zs arbitrary: ys)
    case Nil
    then show ?case by (simp add: triple_ret)
  next
    case (Cons x zs)
    show ?case
      unfolding for_each.simps
      by (rule triple_then [OF assms [OF Cons.prems] Cons.IH]) (simp add: Cons.prems)
  qed
  from this [of "[]" xs] show ?thesis by simp
qed

text \<open>Operations that only read keep any condition \<open>P\<close> that allows for a failure.\<close>

named_theorems triple_keep \<open>rules for operations that only read\<close>

lemma ret_keep [triple_keep]: "triple fl P (ret x) (\<lambda>_. P) E"
  by (rule triple_ret)

lemma value_keep [triple_keep]: "(\<And>d. P d \<Longrightarrow> E d) \<Longrightarrow> triple fl P (fetch_one (sql_value v)) (\<lambda>_. P) E"
  by (rule triple_post, rule triple_value) auto

lemma row_exists_keep [triple_keep]: "(\<And>d. P d \<Longrightarrow> E d) \<Longrightarrow> triple fl P (row_exists tbl p) (\<lambda>_. P) E"
  unfolding row_exists_def by (rule value_keep)

lemma count_of_keep [triple_keep]: "(\<And>d. P d \<Longrightarrow> E d) \<Longrightarrow> triple fl P (count_of tbl p) (\<lambda>_. P) E"
  unfolding count_of_def by (rule value_keep)

lemma find_keep [triple_keep]: "(\<And>d. P d \<Longrightarrow> E d) \<Longrightarrow> triple fl P (find_row idf tbl i) (\<lambda>_. P) E"
  by (rule triple_post, rule triple_find) auto

lemma then_keep [triple_keep]:
  "triple fl P m (\<lambda>_. P) E \<Longrightarrow> (\<And>x. triple fl P (f x) (\<lambda>_. P) E) \<Longrightarrow> triple fl P (and_then m f) (\<lambda>_. P) E"
  by (rule triple_then)

lemma case_option_keep [triple_keep]:
  "triple fl P m (\<lambda>_. P) E \<Longrightarrow> (\<And>y. triple fl P (f y) (\<lambda>_. P) E) \<Longrightarrow>
   triple fl P (case z of None \<Rightarrow> m | Some y \<Rightarrow> f y) (\<lambda>_. P) E"
  by (simp split: option.split)

lemma counted_keep [triple_keep]: "(\<And>d. P d \<Longrightarrow> E d) \<Longrightarrow> triple fl P (counted tbl p) (\<lambda>_. P) E"
  unfolding counted_def by (intro triple_keep) auto

lemma run_queries [run_simps]:
  assumes "quiet env"
  shows "row_exists tbl p env (k, d) = (Ok (\<exists>r \<in> set (tb_rows (tbl d)). p r), Suc k, d)"
    and "count_of tbl p env (k, d) = (Ok (word_of_nat (length (filter p (tb_rows (tbl d))))), Suc k, d)"
  using assms by (simp_all add: row_exists_def count_of_def run_simps)

lemma history_calm:
  assumes "calm fl env" and "\<And>q. triple fl I (perform q) (\<lambda>u. I) I"
  shows "I d \<Longrightarrow> I (snd (history perform qs env (k, d)))"
proof (induction qs arbitrary: k d)
  case (Cons q qs)
  obtain r k' d' where run: "perform q env (k, d) = (r, k', d')" by (cases "perform q env (k, d)") auto
  from tripleD [OF assms(2,1) Cons.prems run] have "I d'" by (cases r) simp_all
  from Cons.IH [OF this] run show ?case by simp
qed simp

text \<open>A condition that changes with each request.\<close>

lemma history_counted:
  assumes "calm fl env" and "\<And>n q. n < N \<Longrightarrow> triple fl (I n) (perform q) (\<lambda>u. I (Suc n)) (I (Suc n))"
  shows "I n d \<Longrightarrow> n + length qs \<le> N \<Longrightarrow> I (n + length qs) (snd (history perform qs env (k, d)))"
proof (induction qs arbitrary: n k d)
  case (Cons q qs)
  obtain r k' d' where run: "perform q env (k, d) = (r, k', d')" by (cases "perform q env (k, d)") auto
  from Cons.prems(2) have "n < N" by simp
  from tripleD [OF assms(2) [OF this] assms(1) Cons.prems(1) run] have "I (Suc n) d'" by (cases r) simp_all
  from Cons.IH [OF this] Cons.prems(2) run show ?case by simp
qed simp

subsection \<open>Sequences that are ahead\<close>

text \<open>The sequence is ahead of the keys, so that no row is left out because its key is taken.\<close>

definition seq_ahead :: "('r \<Rightarrow> Id) \<Rightarrow> 'r table \<Rightarrow> bool" where
  "seq_ahead idf t \<longleftrightarrow> table_ok idf t \<and> (\<forall>r \<in> set (tb_rows t). sint (idf r) < int (tb_seq t))"

lemma seq_ahead_fresh:
  assumes "seq_ahead idf t" "tb_seq t < 2 ^ 63"
  shows "(word_of_nat (tb_seq t) :: Id) \<notin> idf ` set (tb_rows t)"
  using assms sint_of_nat_i64 [OF assms(2)] by (force simp: seq_ahead_def)

lemma seq_ahead_append:
  fixes i :: Id
  assumes "seq_ahead idf t" "tb_seq t < 2 ^ 63" "i = word_of_nat (tb_seq t)" "idf r = i"
  shows "seq_ahead idf (t\<lparr>tb_rows := tb_rows t @ [r], tb_seq := Suc (tb_seq t)\<rparr>)"
proof -
  have i: "sint i = int (tb_seq t)" unfolding assms(3) by (rule sint_of_nat_i64 [OF assms(2)])
  with assms(1) have "0 < sint i" by (simp add: seq_ahead_def table_ok_def)
  have "table_ok idf (t\<lparr>tb_rows := tb_rows t @ [r], tb_seq := Suc (tb_seq t)\<rparr>)"
    by (rule row_of_append(1) [where idf = idf and r = r, OF _ _ assms(4)])
      (use assms(1) seq_ahead_fresh [OF assms(1,2)] \<open>0 < sint i\<close> in \<open>simp_all add: seq_ahead_def assms(3)\<close>)
  with assms(1,4) i show ?thesis by (auto simp: seq_ahead_def)
qed

lemma seq_ahead_simps:
  "seq_ahead idf t \<Longrightarrow> seq_ahead idf (tb_seq_update Suc t)"
  "seq_ahead idf t \<Longrightarrow> seq_ahead idf (tb_rows_update (filter g) t)"
  by (auto simp: seq_ahead_def table_ok_def distinct_map_filter)

subsection \<open>Unique columns\<close>

text \<open>Of the rows with \<open>p\<close>, no two have the same \<open>key\<close>; with a constant key, there is at most one.\<close>

definition unique_by :: "('r \<Rightarrow> Id) \<Rightarrow> ('r \<Rightarrow> bool) \<Rightarrow> ('r \<Rightarrow> 'k) \<Rightarrow> 'r table \<Rightarrow> bool" where
  "unique_by idf p key t \<longleftrightarrow>
     (\<forall>r \<in> set (tb_rows t). \<forall>s \<in> set (tb_rows t). p r \<and> p s \<and> key r = key s \<longrightarrow> idf r = idf s)"

abbreviation at_most_one :: "('r \<Rightarrow> Id) \<Rightarrow> ('r \<Rightarrow> bool) \<Rightarrow> 'r table \<Rightarrow> bool" where
  "at_most_one idf p t \<equiv> unique_by idf p (\<lambda>r. ()) t"

lemma unique_by_empty [simp]: "unique_by idf p key empty_table"
  by (simp add: unique_by_def empty_table_def)

lemma unique_by_none: "\<forall>r \<in> set (tb_rows t). \<not> p r \<Longrightarrow> unique_by idf p key t"
  unfolding unique_by_def by blast

lemma unique_by_at: "\<forall>s \<in> set (tb_rows t). p s \<longrightarrow> idf s = i \<Longrightarrow> unique_by idf p key t"
  unfolding unique_by_def by metis

lemma unique_by_seq [simp]: "unique_by idf p key (tb_seq_update g t) = unique_by idf p key t"
  by (simp add: unique_by_def)

lemma unique_by_append:
  assumes "unique_by idf p key t"
    and "p r \<Longrightarrow> \<not> (\<exists>s \<in> set (tb_rows t). p s \<and> key s = key r \<and> idf s \<noteq> idf r)"
  shows "unique_by idf p key (t\<lparr>tb_rows := tb_rows t @ [r]\<rparr>)"
  unfolding unique_by_def
proof (intro ballI impI, elim conjE)
  fix x y assume xy: "x \<in> set (tb_rows (t\<lparr>tb_rows := tb_rows t @ [r]\<rparr>))"
      "y \<in> set (tb_rows (t\<lparr>tb_rows := tb_rows t @ [r]\<rparr>))"
    and p: "p x" "p y" and key: "key x = key y"
  from xy have "x \<in> set (tb_rows t) \<or> x = r" "y \<in> set (tb_rows t) \<or> y = r" by auto
  with p key assms(2) assms(1) [unfolded unique_by_def, rule_format, of x y] show "idf x = idf y"
    by (metis (no_types))
qed

lemma mapped_row:
  assumes "s \<in> set (tb_rows (tb_rows_update (map g) t))"
  obtains r where "r \<in> set (tb_rows t)" "s = g r"
proof -
  from assms have "s \<in> g ` set (tb_rows t)" by simp
  then show thesis by (rule imageE) (rule that)
qed

lemma unique_by_map:
  assumes "unique_by idf p key t" "\<And>r. idf (f r) = idf r" "\<And>r. p (f r) \<Longrightarrow> p r \<and> key (f r) = key r"
  shows "unique_by idf p key (tb_rows_update (map f) t)"
  unfolding unique_by_def
proof (intro ballI impI, elim conjE)
  fix r s assume mem: "r \<in> set (tb_rows (tb_rows_update (map f) t))" "s \<in> set (tb_rows (tb_rows_update (map f) t))"
    and p: "p r" "p s" and key: "key r = key s"
  obtain r' s' where rs: "r' \<in> set (tb_rows t)" "s' \<in> set (tb_rows t)" "r = f r'" "s = f s'"
    using mapped_row [OF mem(1)] mapped_row [OF mem(2)] by metis
  from assms(3) [of r'] assms(3) [of s'] p key have "p r'" "p s'" "key r' = key s'" by (simp_all add: rs(3,4))
  with assms(1) [unfolded unique_by_def, rule_format, OF rs(1,2)] have "idf r' = idf s'" by blast
  then show "idf r = idf s" by (simp only: rs(3,4) assms(2))
qed

lemma unique_by_filter:
  "unique_by idf p key t \<Longrightarrow> unique_by idf p key (tb_rows_update (filter g) t)"
  by (auto simp: unique_by_def)

text \<open>The rows of one key change, and no other row has their new key.\<close>

lemma unique_by_update:
  assumes "unique_by idf p key t" "\<And>r. idf (f r) = idf r"
    and "\<And>r. r \<in> set (tb_rows t) \<Longrightarrow> idf r = i \<Longrightarrow> c r \<Longrightarrow> p (f r) \<Longrightarrow>
      \<not> (\<exists>s \<in> set (tb_rows t). p s \<and> key s = key (f r) \<and> idf s \<noteq> i)"
  shows "unique_by idf p key (tb_rows_update (map (\<lambda>r. if idf r = i \<and> c r then f r else r)) t)"
  unfolding unique_by_def
proof (intro ballI impI, elim conjE)
  let ?g = "\<lambda>r. if idf r = i \<and> c r then f r else r"
  have g: "idf (?g r) = idf r" for r by (simp add: assms(2))
  fix r s assume mem: "r \<in> set (tb_rows (tb_rows_update (map ?g) t))" "s \<in> set (tb_rows (tb_rows_update (map ?g) t))"
    and p: "p r" "p s" and key: "key r = key s"
  obtain r' where r': "r' \<in> set (tb_rows t)" "r = ?g r'" by (rule mapped_row [OF mem(1)])
  obtain s' where s': "s' \<in> set (tb_rows t)" "s = ?g s'" by (rule mapped_row [OF mem(2)])
  have "idf r' = idf s'"
  proof (rule ccontr)
    assume ne: "idf r' \<noteq> idf s'"
    consider "idf r' = i" "c r'" | "idf s' = i" "c s'"
      | "\<not> (idf r' = i \<and> c r')" "\<not> (idf s' = i \<and> c s')" by blast
    then show False
    proof cases
      case 1
      with ne have "r = f r'" "s = s'" using r'(2) s'(2) by simp_all
      with assms(3) [OF r'(1) 1] s'(1) p key 1(1) ne show False by metis
    next
      case 2
      with ne have "s = f s'" "r = r'" using r'(2) s'(2) by simp_all
      with assms(3) [OF s'(1) 2] r'(1) p key 2(1) ne show False by metis
    next
      case 3
      then have "r = r'" "s = s'" using r'(2) s'(2) by presburger+
      with assms(1) [unfolded unique_by_def, rule_format, OF r'(1) s'(1)] p key ne show False by blast
    qed
  qed
  moreover from g [of r'] have "idf r = idf r'" by (simp only: r'(2))
  moreover from g [of s'] have "idf s = idf s'" by (simp only: s'(2))
  ultimately show "idf r = idf s" by simp
qed

lemma holds_select_optional:
  assumes "\<And>d. I d \<Longrightarrow> Q (case sel d of [] \<Rightarrow> None | r # rs \<Rightarrow> Some r)"
  shows "holds I (fetch_optional (sql_select sel)) Q"
proof (rule holdsI)
  fix env k d r k' d' assume env: "well_behaved I env" "I d" and run: "fetch_optional (sql_select sel) env (k, d) = (r, k', d')"
  from env have "I (tn_others (env k) d)" by (simp add: well_behaved_def)
  with run assms [of "tn_others (env k) d"] show "I d' \<and> (\<forall>x. r = Ok x \<longrightarrow> Q x)"
    by (auto simp: fetch_optional_def run_statement_def run_basic sql_select_def Let_def split: option.splits)
qed

lemma sort_key_map: "sort_key f (map g xs) = map g (sort_key (\<lambda>x. f (g x)) xs)"
proof -
  have "insort_key f (g x) (map g ys) = map g (insort_key (\<lambda>x. f (g x)) x ys)" for x ys by (induction ys) auto
  then show ?thesis by (induction xs) simp_all
qed

lemma filter_key_single:
  "distinct (map f xs) \<Longrightarrow> x \<in> set xs \<Longrightarrow> f x = i \<Longrightarrow> filter (\<lambda>r. f r = i) xs = [x]"
proof (induction xs)
  case (Cons y ys)
  show ?case
  proof (cases "x = y")
    case True
    with Cons.prems have "filter (\<lambda>r. f r = i) ys = []" by (auto simp: filter_empty_conv image_iff)
    with True Cons.prems show ?thesis by simp
  next
    case False
    with Cons.prems have "x \<in> set ys" "f y \<noteq> i" by (auto simp: image_iff)
    with Cons show ?thesis by simp
  qed
qed simp

lemma holds_or_fail_any: "holds I m (\<lambda>_. True) \<Longrightarrow> holds I (or_fail e m) (\<lambda>_. True)"
  by (rule holds_or_fail) simp

lemma holds_find_any: "holds I (fetch_optional (sql_select sel)) (\<lambda>_. True)"
  by (rule holds_true [OF holds_fetch(2) [where Q = "\<lambda>_. True"]]) (simp add: sql_select_def)

subsection \<open>Rows that are left alone\<close>

text \<open>
  Operations that insert, change and delete rows of a \<open>scope\<close> only keep the other rows, however the
  sessions interleave.
\<close>

abbreviation outside :: "('d \<Rightarrow> 'r table) \<Rightarrow> ('r \<Rightarrow> bool) \<Rightarrow> 'd \<Rightarrow> 'r list" where
  "outside tbl scope d \<equiv> filter (\<lambda>r. \<not> scope r) (tb_rows (tbl d))"

lemma outside_map:
  assumes "\<And>r. p r \<Longrightarrow> scope r" "\<And>r. p r \<Longrightarrow> scope (f r)"
  shows "filter (\<lambda>r. \<not> scope r) (map (\<lambda>r. if p r then f r else r) xs) = filter (\<lambda>r. \<not> scope r) xs"
  by (induction xs) (auto simp: assms)

lemma outside_filter:
  "(\<And>r. p r \<Longrightarrow> scope r) \<Longrightarrow> filter (\<lambda>r. \<not> scope r) (filter (\<lambda>r. \<not> p r) xs) = filter (\<lambda>r. \<not> scope r) xs"
  by (induction xs) auto

context db_table begin

lemma holds_outside_insert:
  "(\<And>now i. scope (mk now i)) \<Longrightarrow>
   holds (\<lambda>d. outside tbl scope d = rs) (fetch_one (sql_insert idf tbl upd mk)) (\<lambda>_. True)"
  by (rule holds_fetch(3)) (auto simp: sql_insert_def Let_def)

lemma holds_outside_update:
  assumes "\<And>r. p r \<Longrightarrow> scope r" "\<And>now r. p r \<Longrightarrow> scope (f now r)"
  shows "holds (\<lambda>d. outside tbl scope d = rs) (fetch_one (sql_update tbl upd p f)) (\<lambda>_. True)"
    and "holds (\<lambda>d. outside tbl scope d = rs) (execute (sql_update tbl upd p f)) (\<lambda>_. True)"
    and "holds (\<lambda>d. outside tbl scope d = rs) (or_fail e (fetch_optional (sql_update tbl upd p f))) (\<lambda>_. True)"
proof -
  have st: "case sql_update tbl upd p f now d of (r, d') \<Rightarrow> outside tbl scope d' = rs \<and> (\<forall>xs. r = Ok xs \<longrightarrow> (\<forall>x \<in> set xs. True))"
    if "outside tbl scope d = rs" for now d
    using that by (simp add: sql_update_def outside_map [of p scope "f now", OF assms])
  note fetch = holds_fetch [where I = "\<lambda>d. outside tbl scope d = rs" and f = "sql_update tbl upd p f" and Q = "\<lambda>_. True", OF st]
  from fetch(3,5) holds_or_fail [OF fetch(2)]
  show "holds (\<lambda>d. outside tbl scope d = rs) (fetch_one (sql_update tbl upd p f)) (\<lambda>_. True)"
    and "holds (\<lambda>d. outside tbl scope d = rs) (execute (sql_update tbl upd p f)) (\<lambda>_. True)"
    and "holds (\<lambda>d. outside tbl scope d = rs) (or_fail e (fetch_optional (sql_update tbl upd p f))) (\<lambda>_. True)"
    by blast+
qed

lemma holds_outside_delete:
  assumes "\<And>r. p r \<Longrightarrow> scope r"
  shows "holds (\<lambda>d. outside tbl scope d = rs) (execute (sql_delete tbl upd p)) (\<lambda>_. True)"
    and "holds (\<lambda>d. outside tbl scope d = rs) (rows_affected (sql_delete tbl upd p)) (\<lambda>_. True)"
proof -
  have st: "case sql_delete tbl upd p now d of (r, d') \<Rightarrow> outside tbl scope d' = rs \<and> (\<forall>xs. r = Ok xs \<longrightarrow> (\<forall>x \<in> set xs. True))"
    if "outside tbl scope d = rs" for now d
    using that by (simp add: sql_delete_def outside_filter [of p scope, OF assms] del: filter_filter)
  note fetch = holds_fetch [where I = "\<lambda>d. outside tbl scope d = rs" and f = "sql_delete tbl upd p" and Q = "\<lambda>_. True", OF st]
  from fetch(4,5) show "holds (\<lambda>d. outside tbl scope d = rs) (execute (sql_delete tbl upd p)) (\<lambda>_. True)"
    and "holds (\<lambda>d. outside tbl scope d = rs) (rows_affected (sql_delete tbl upd p)) (\<lambda>_. True)" by blast+
qed

end

text \<open>What depends on the other rows only is kept along.\<close>

lemma triple_frame:
  fixes m :: "('d, 'a) dbop"
  assumes "triple fl I m (\<lambda>_. I) I" "\<And>rs. holds (\<lambda>d. outside tbl scope d = rs) m (\<lambda>_. True)"
    and "\<And>d d'. I d' \<Longrightarrow> outside tbl scope d' = outside tbl scope d \<Longrightarrow> J d \<Longrightarrow> J d'"
  shows "triple fl (\<lambda>d. I d \<and> J d) m (\<lambda>_ d. I d \<and> J d) (\<lambda>d. I d \<and> J d)"
  unfolding triple_def
proof (intro allI impI)
  fix env :: "'d db_env" and k d assume env: "calm fl env" and inv: "I d \<and> J d"
  obtain r k' d' where run: "m env (k, d) = (r, k', d')" by (cases "m env (k, d)") auto
  have "well_behaved (\<lambda>d'. outside tbl scope d' = outside tbl scope d) env" using env by (simp add: calm_def well_behaved_def)
  from holdsD [OF assms(2) this _ run] have "outside tbl scope d' = outside tbl scope d" by blast
  moreover from tripleD [OF assms(1) env _ run] inv have "I d'" by (simp split: sum.splits)
  ultimately show "case m env (k, d) of (r, k', d') \<Rightarrow> (case r of Inl e \<Rightarrow> I d' \<and> J d' | Inr x \<Rightarrow> I d' \<and> J d')"
    using assms(3) inv by (auto simp: run split: sum.split)
qed

text \<open>What is unique in another scope stays so.\<close>

lemma unique_by_filter_iff:
  "unique_by idf p key t \<longleftrightarrow> (\<forall>r \<in> set (filter p (tb_rows t)). \<forall>s \<in> set (filter p (tb_rows t)). key r = key s \<longrightarrow> idf r = idf s)"
  unfolding unique_by_def set_filter by blast

lemma filter_outside:
  assumes "filter (\<lambda>r. \<not> scope r) xs = filter (\<lambda>r. \<not> scope r) ys" "\<And>r. p r \<Longrightarrow> \<not> scope r"
  shows "filter p xs = filter p ys"
proof -
  have "filter p zs = filter p (filter (\<lambda>r. \<not> scope r) zs)" for zs using assms(2) by (induction zs) auto
  then show ?thesis using assms(1) by metis
qed

lemma unique_by_outside:
  assumes "outside tbl scope d' = outside tbl scope d" "\<And>r. p r \<Longrightarrow> \<not> scope r"
  shows "unique_by idf p key (tbl d') \<longleftrightarrow> unique_by idf p key (tbl d)"
proof -
  have "filter p (tb_rows (tbl d')) = filter p (tb_rows (tbl d))" by (rule filter_outside [of scope]) (use assms in auto)
  then show ?thesis unfolding unique_by_filter_iff by (simp only:)
qed

subsection \<open>Tables with a unique column\<close>

text \<open>\<open>key\<close> is not taken in the rows of the \<open>scope\<close>, but perhaps by one that is about to change.\<close>

definition free_key ::
    "('r \<Rightarrow> Id) \<Rightarrow> ('d \<Rightarrow> 'r table) \<Rightarrow> ('r \<Rightarrow> bool) \<Rightarrow> ('r \<Rightarrow> 'k) \<Rightarrow> 'k \<Rightarrow> (Id \<Rightarrow> bool) \<Rightarrow> 'd \<Rightarrow> bool" where
  "free_key idf tbl scope key k others d \<longleftrightarrow>
     \<not> (\<exists>s \<in> set (tb_rows (tbl d)). scope s \<and> key s = k \<and> others (idf s))"

lemma free_key_map:
  assumes "tbl d' = tb_rows_update (map g) (tbl d)"
    and "\<And>r. idf (g r) = idf r" "\<And>r. scope (g r) = scope r" "\<And>r. key (g r) = key r"
  shows "free_key idf tbl scope key c others d' = free_key idf tbl scope key c others d"
  by (simp add: free_key_def assms)

definition keyed_inv :: "('r \<Rightarrow> Id) \<Rightarrow> ('d \<Rightarrow> 'r table) \<Rightarrow> ('r \<Rightarrow> 'k) \<Rightarrow> 'd \<Rightarrow> bool" where
  "keyed_inv idf tbl key d \<longleftrightarrow> table_ok idf (tbl d) \<and> unique_by idf (\<lambda>_. True) key (tbl d)"

abbreviation key_is_free :: "('r \<Rightarrow> Id) \<Rightarrow> ('d \<Rightarrow> 'r table) \<Rightarrow> ('r \<Rightarrow> 'k) \<Rightarrow> 'k \<Rightarrow> (Id \<Rightarrow> bool) \<Rightarrow> 'd \<Rightarrow> bool" where
  "key_is_free idf tbl \<equiv> free_key idf tbl (\<lambda>_. True)"

lemma own_key_is_free:
  assumes "keyed_inv idf tbl key d" "r \<in> set (tb_rows (tbl d))" "idf r = i"
  shows "key_is_free idf tbl key (key r) (\<lambda>j. j \<noteq> i) d"
  using assms(1) [unfolded keyed_inv_def unique_by_def] assms(2,3) unfolding free_key_def by metis

text \<open>A count of zero says that a key is free.\<close>

lemma triple_count_free:
  assumes "\<And>d. P d \<Longrightarrow> E d" "\<And>d. P d \<Longrightarrow> table_ok idf (tbl d)" "\<And>r. p r \<longleftrightarrow> key r = c \<and> others (idf r)"
  shows "triple fl P (and_then (count_of tbl p) (\<lambda>n. ret (n = 0)))
    (\<lambda>b d. P d \<and> (b \<longrightarrow> key_is_free idf tbl key c others d)) E"
proof -
  have "key_is_free idf tbl key c others d"
    if "P d" "word_of_nat (length (filter p (tb_rows (tbl d)))) = (0 :: i64)" for d
  proof -
    have "filter p (tb_rows (tbl d)) = []" using count_sint [OF assms(2) [OF that(1)], of p] that(2) by simp
    then show ?thesis by (auto simp: free_key_def filter_empty_conv assms(3))
  qed
  then show ?thesis
    unfolding count_of_def by (intro triple_then [OF triple_value triple_ret]) (auto simp: assms(1))
qed

locale keyed_table = db_table idf tbl upd
  for idf :: "'r \<Rightarrow> Id" and tbl :: "'d \<Rightarrow> 'r table" and upd :: "('r table \<Rightarrow> 'r table) \<Rightarrow> 'd \<Rightarrow> 'd" +
  fixes key :: "'r \<Rightarrow> 'k"
begin

abbreviation "kinv \<equiv> keyed_inv idf tbl key"
abbreviation "kfree \<equiv> key_is_free idf tbl key"

lemma new_key:
  fixes i :: Id
  assumes "table_ok idf (tbl d)" "i = word_of_nat (tb_seq (tbl d))" "tb_seq (tbl d) < 2 ^ 63"
  shows "0 < sint i"
proof -
  have "sint (word_of_nat (tb_seq (tbl d)) :: Id) = int (tb_seq (tbl d))" by (rule sint_of_nat_i64 [OF assms(3)])
  moreover have "0 < int (tb_seq (tbl d))" using assms(1) by (simp add: table_ok_def)
  ultimately show ?thesis by (simp only: assms(2))
qed

lemma table_appended:
  assumes "table_ok idf (tbl d)" "i \<notin> idf ` set (tb_rows (tbl d))" "tb_seq (tbl d) < 2 ^ 63" "i = word_of_nat (tb_seq (tbl d))"
    "idf r = i"
  shows "table_ok idf ((tbl d)\<lparr>tb_rows := tb_rows (tbl d) @ [r], tb_seq := Suc (tb_seq (tbl d))\<rparr>)"
    and "row_of idf ((tbl d)\<lparr>tb_rows := tb_rows (tbl d) @ [r], tb_seq := Suc (tb_seq (tbl d))\<rparr>) = (row_of idf (tbl d))(i \<mapsto> r)"
  using row_of_append [OF assms(1,2,5) new_key [OF assms(1,4,3)] zero_less_Suc] by (simp_all only:)

lemma insert_keyed:
  assumes "\<And>now i. idf (mk now i) = i" "\<And>now i. key (mk now i) = c"
  shows "triple fl (\<lambda>d. kinv d \<and> kfree c (\<lambda>_. True) d) (fetch_one (sql_insert idf tbl upd mk)) (\<lambda>_. kinv) kinv"
proof (rule triple_insert, goal_cases)
  case (3 d now i)
  have "unique_by idf (\<lambda>_. True) key ((tbl d)\<lparr>tb_rows := tb_rows (tbl d) @ [mk now i]\<rparr>)"
    by (rule unique_by_append) (use 3(1) assms(2) in \<open>auto simp: keyed_inv_def free_key_def\<close>)
  moreover have "table_ok idf ((tbl d)\<lparr>tb_rows := tb_rows (tbl d) @ [mk now i], tb_seq := Suc (tb_seq (tbl d))\<rparr>)"
    by (rule table_appended(1) [OF _ 3(2-4) assms(1)]) (use 3(1) in \<open>simp add: keyed_inv_def\<close>)
  ultimately show ?case by (simp add: keyed_inv_def)
qed (auto simp: keyed_inv_def)

lemma kinv_update:
  assumes "kinv d" "\<And>r. idf (f r) = idf r"
    and "\<And>r. r \<in> set (tb_rows (tbl d)) \<Longrightarrow> idf r = i \<Longrightarrow> kfree (key (f r)) (\<lambda>j. j \<noteq> i) d"
  shows "kinv (upd (tb_rows_update (map (\<lambda>r. if idf r = i then f r else r))) d)"
proof -
  have ok: "table_ok idf (tbl d)" and u: "unique_by idf (\<lambda>_. True) key (tbl d)" using assms(1) by (simp_all add: keyed_inv_def)
  have "unique_by idf (\<lambda>_. True) key (tb_rows_update (map (\<lambda>r. if idf r = i \<and> True then f r else r)) (tbl d))"
    by (rule unique_by_update [where c = "\<lambda>_. True", OF u assms(2)]) (use assms(3) [unfolded free_key_def] in blast)
  with row_of_update(1) [where f = f, OF ok assms(2)] show ?thesis by (simp add: keyed_inv_def)
qed

lemma update_keyed:
  fixes i :: Id
  assumes "\<And>now r. idf (f now r) = idf r"
  defines "P \<equiv> \<lambda>d. kinv d \<and> (\<forall>r \<in> set (tb_rows (tbl d)). \<forall>now. idf r = i \<longrightarrow> kfree (key (f now r)) (\<lambda>j. j \<noteq> i) d)"
  shows "triple fl P (fetch_one (sql_update tbl upd (\<lambda>r. idf r = i) f)) (\<lambda>_. kinv) kinv"
    and "triple fl P (or_fail e (fetch_optional (sql_update tbl upd (\<lambda>r. idf r = i) f))) (\<lambda>_. kinv) kinv"
proof -
  have *: "kinv (upd (tb_rows_update (map (\<lambda>r. if idf r = i then f now r else r))) d)" if "P d" for d now
    by (rule kinv_update [where f = "f now", OF _ assms(1)]) (use that in \<open>auto simp: P_def\<close>)
  show "triple fl P (fetch_one (sql_update tbl upd (\<lambda>r. idf r = i) f)) (\<lambda>_. kinv) kinv"
    by (rule triple_update_one) (use * in \<open>auto simp: P_def\<close>)
  show "triple fl P (or_fail e (fetch_optional (sql_update tbl upd (\<lambda>r. idf r = i) f))) (\<lambda>_. kinv) kinv"
    by (rule triple_or_fail, rule triple_update) (use * in \<open>auto simp: P_def split: option.split\<close>)
qed

lemma delete_keyed:
  "triple fl kinv (or_fail_zero e (rows_affected (sql_delete tbl upd p))) (\<lambda>u. kinv) kinv"
  "triple fl kinv (execute (sql_delete tbl upd p)) (\<lambda>u. kinv) kinv"
proof -
  have "table_ok idf (tb_rows_update (filter g) (tbl d))" if "table_ok idf (tbl d)" for g d
    using that by (auto simp: table_ok_def distinct_map_filter)
  then have *: "kinv (upd (tb_rows_update (filter g)) d)" if "kinv d" for g d
    using that by (auto simp: keyed_inv_def unique_by_filter)
  show "triple fl kinv (or_fail_zero e (rows_affected (sql_delete tbl upd p))) (\<lambda>u. kinv) kinv"
    by (rule triple_or_fail_zero, rule triple_delete(1)) (simp_all add: *)
  show "triple fl kinv (execute (sql_delete tbl upd p)) (\<lambda>u. kinv) kinv"
    by (rule triple_delete(2)) (simp_all add: *)
qed

text \<open>What the operations do when they run alone.\<close>

abbreviation "refused_in d0 d \<equiv> table_ok idf (tbl d) \<and> row_of idf (tbl d) = row_of idf (tbl d0)"

abbreviation "created_row d0 r d \<equiv> table_ok idf (tbl d) \<and>
  created_in idf (Ok r :: ('r, repository_error) result) (row_of idf (tbl d0)) (row_of idf (tbl d))"

abbreviation "updated_row d0 i r d \<equiv> table_ok idf (tbl d) \<and>
  updated_in idf i (Ok r :: ('r, repository_error) result) (row_of idf (tbl d0)) (row_of idf (tbl d))"

abbreviation "deleted_row d0 i d \<equiv> table_ok idf (tbl d) \<and> row_of idf (tbl d0) i \<noteq> None \<and>
  row_of idf (tbl d) = (row_of idf (tbl d0))(i := None)"

abbreviation "start_at d0 d \<equiv> d = d0 \<and> table_ok idf (tbl d)"

lemma insert_keyed_law:
  assumes "\<And>now i. idf (mk now i) = i"
  shows "triple False (start_at d0) (fetch_one (sql_insert idf tbl upd mk)) (\<lambda>r. created_row d0 r) (refused_in d0)"
proof (rule triple_insert, goal_cases)
  case (3 d now i)
  then have ok: "table_ok idf (tbl d)" by blast
  from 3(2) have "row_of idf (tbl d) i = None" by (simp add: row_of_None)
  with table_appended [OF ok 3(2-4), where r = "mk now i", OF assms] 3(1) show ?case
    by (auto simp: created_in_def assms)
qed auto

lemma update_keyed_law:
  assumes "\<And>now r. idf (f now r) = idf r"
  shows "triple False (start_at d0) (or_fail e (fetch_optional (sql_update tbl upd (\<lambda>r. idf r = i) f)))
      (\<lambda>r. updated_row d0 i r) (refused_in d0)"
    and "triple False (start_at d0) (fetch_one (sql_update tbl upd (\<lambda>r. idf r = i) f))
      (\<lambda>r. updated_row d0 i r) (refused_in d0)"
proof -
  let ?t = "\<lambda>now d. upd (tb_rows_update (map (\<lambda>r. if idf r = i then f now r else r))) d"
  have found: "updated_row d0 i (f now r) (?t now d)" if "start_at d0 d" "row_of idf (tbl d) i = Some r" for d now r
    using that row_of_update [where f = "f now", of idf "tbl d" i] row_of_id [OF that(2)]
    by (auto simp: updated_in_def assms split: if_splits)
  have missing: "refused_in d0 (?t now d)" if "start_at d0 d" "row_of idf (tbl d) i = None" for d now
    using that row_of_update [where f = "f now", of idf "tbl d" i] by (auto simp: assms fun_eq_iff)
  show "triple False (start_at d0) (or_fail e (fetch_optional (sql_update tbl upd (\<lambda>r. idf r = i) f)))
      (\<lambda>r. updated_row d0 i r) (refused_in d0)"
  proof (rule triple_or_fail, rule triple_update, goal_cases)
    case (2 d now)
    show ?case
    proof (cases "row_of idf (tbl d) i")
      case None
      from missing [OF 2 None] show ?thesis unfolding row_of_def [symmetric] None by simp
    next
      case (Some r)
      from found [OF 2 Some] show ?thesis unfolding row_of_def [symmetric] Some by simp
    qed
  qed simp
  show "triple False (start_at d0) (fetch_one (sql_update tbl upd (\<lambda>r. idf r = i) f))
      (\<lambda>r. updated_row d0 i r) (refused_in d0)"
  proof (rule triple_update_one, goal_cases)
    case (2 d now)
    with missing [of d now] show ?case unfolding row_of_def [symmetric] by blast
  next
    case (3 d now r)
    with found [of d r now] show ?case unfolding row_of_def [symmetric] by blast
  qed blast
qed

text \<open>A row that is known to exist is deleted.\<close>

lemma delete_found_law:
  assumes "row_of idf (tbl d0) i \<noteq> None"
  shows "triple False (start_at d0) (execute (sql_delete tbl upd (\<lambda>r. idf r = i))) (\<lambda>_. deleted_row d0 i) E"
  by (rule triple_delete(2)) (use assms row_of_filter [of idf "tbl d0" i] in auto)

lemma delete_counted_law:
  "triple False (start_at d0) (or_fail_zero e (rows_affected (sql_delete tbl upd (\<lambda>r. idf r = i))))
    (\<lambda>_. deleted_row d0 i) (refused_in d0)"
proof -
  let ?d = "upd (tb_rows_update (filter (\<lambda>r. idf r \<noteq> i))) d0"
  have zero: "filter (\<lambda>r. idf r = i) (tb_rows (tbl d0)) = [] \<longleftrightarrow> row_of idf (tbl d0) i = None"
    by (auto simp: filter_empty_conv row_of_None)
  show ?thesis
    unfolding or_fail_zero_def rows_affected_def
    by (rule triple_then [where R = "\<lambda>n d. table_ok idf (tbl d0) \<and> d = ?d \<and>
          n = length (filter (\<lambda>r. idf r = i) (tb_rows (tbl d0)))"],
        rule triple_then, rule triple_statement [where Q = "\<lambda>xs d. table_ok idf (tbl d0) \<and>
        xs = filter (\<lambda>r. idf r = i) (tb_rows (tbl d0)) \<and> d = ?d"])
      (auto simp: sql_delete_def triple_def ret_def fail_def zero row_of_filter fun_upd_idem)
qed

lemma delete_checked_law:
  assumes "\<And>d. P d \<Longrightarrow> start_at d0 d" "\<And>d. P d \<Longrightarrow> \<exists>r \<in> set (tb_rows (tbl d)). idf r = i"
  shows "triple False P (execute (sql_delete tbl upd (\<lambda>r. idf r = i))) (\<lambda>_. deleted_row d0 i) E"
proof (rule triple_delete(2), simp)
  fix d assume P: "P d"
  with assms(1) have d: "d = d0" and ok: "table_ok idf (tbl d0)" by blast+
  from assms(2) [OF P] have "row_of idf (tbl d0) i \<noteq> None" by (auto simp: row_of_None d)
  with row_of_filter [OF ok, of i] show "deleted_row d0 i (upd (tb_rows_update (filter (\<lambda>r. idf r \<noteq> i))) d)" by (simp add: d)
qed

text \<open>A row is read, found and changed; a row is counted and deleted.\<close>

lemma update_found_law:
  assumes "\<And>x now r. idf (f x now r) = idf r"
  shows "triple False (start_at d0) (and_then (or_fail e (find_row idf tbl i)) (\<lambda>x. fetch_one (sql_update tbl upd (\<lambda>r. idf r = i) (f x))))
    (\<lambda>r. updated_row d0 i r) (refused_in d0)"
  by (rule triple_then [where R = "\<lambda>_. start_at d0"], rule triple_post, rule triple_existing, blast, blast, blast,
      rule update_keyed_law(2)) (rule assms)

lemma delete_present_law:
  "triple False (start_at d0) (and_then (counted tbl (\<lambda>r. idf r = i)) (\<lambda>found.
      if \<not> found then fail e else execute (sql_delete tbl upd (\<lambda>r. idf r = i))))
    (\<lambda>_. deleted_row d0 i) (refused_in d0)"
  by (rule triple_then, rule triple_counted [where idf = idf], blast, blast, rule triple_if, rule triple_fail, blast,
      rule delete_checked_law) auto

text \<open>The conclusions for a run that no one disturbs.\<close>

lemma quietly:
  assumes "quiet env" "table_ok idf (tbl d)" "m env (k, d) = (x, k', d')"
  shows "triple False (start_at d) m (\<lambda>r. created_row d r) (refused_in d) \<Longrightarrow>
      table_ok idf (tbl d') \<and> created_in idf x (row_of idf (tbl d)) (row_of idf (tbl d'))"
    and "triple False (start_at d) m (\<lambda>r. updated_row d i r) (refused_in d) \<Longrightarrow>
      table_ok idf (tbl d') \<and> updated_in idf i x (row_of idf (tbl d)) (row_of idf (tbl d'))"
proof -
  note run = tripleD [where fl = False and env = env and d = d and m = m and k = k and P = "start_at d"]
  show "table_ok idf (tbl d') \<and> created_in idf x (row_of idf (tbl d)) (row_of idf (tbl d'))"
    if "triple False (start_at d) m (\<lambda>r. created_row d r) (refused_in d)"
    using run [OF that _ _ assms(3)] assms(1,2) by (cases x) simp_all
  show "table_ok idf (tbl d') \<and> updated_in idf i x (row_of idf (tbl d)) (row_of idf (tbl d'))"
    if "triple False (start_at d) m (\<lambda>r. updated_row d i r) (refused_in d)"
    using run [OF that _ _ assms(3)] assms(1,2) by (cases x) simp_all
qed

lemma deleted_quietly:
  fixes m :: "('d, unit) dbop"
  assumes "quiet env" "table_ok idf (tbl d)" "m env (k, d) = (x, k', d')"
    "triple False (start_at d) m (\<lambda>_. deleted_row d i) (refused_in d)"
  shows "table_ok idf (tbl d') \<and> deleted_in i x (row_of idf (tbl d)) (row_of idf (tbl d'))"
  using tripleD [where fl = False and env = env and d = d and m = m and k = k and P = "start_at d", OF assms(4) _ _ assms(3)] assms(1,2)
  by (cases x) (auto simp: deleted_in_def)

end

subsection \<open>One default\<close>

text \<open>
  The operations that keep one default do it in two statements: they insert or change a row, and
  take the mark from every other row in its \<open>scope\<close>.
\<close>

definition do_if :: "bool \<Rightarrow> ('d, unit) dbop \<Rightarrow> ('d, unit) dbop" where
  "do_if b m = (if b then m else ret ())"

lemma one_default_left:
  assumes "\<And>r. idf (f r) = idf r" "\<And>r. \<not> dflt (f r)" "\<And>r. dflt r \<Longrightarrow> scope r"
  shows "at_most_one idf dflt (tb_rows_update (map (\<lambda>r. if scope r \<and> idf r \<noteq> i then f r else r)) t)"
proof -
  have "idf s = i" if "dflt s" "s \<in> set (tb_rows (tb_rows_update (map (\<lambda>r. if scope r \<and> idf r \<noteq> i then f r else r)) t))" for s
    using that assms by (auto split: if_splits)
  then show ?thesis unfolding unique_by_def by blast
qed

lemma triple_quiet:
  assumes "triple False (\<lambda>d. d = d0) m Q E" "quiet env" "m env (k, d0) = (x, k', d')"
  shows "case x of Inl e \<Rightarrow> E d' | Inr y \<Rightarrow> Q y d'"
  using tripleD [OF assms(1) _ refl assms(3)] assms(2) by simp

lemma triple_do_if:
  "triple fl (\<lambda>d. P d \<and> b) m Q E \<Longrightarrow> (\<And>d. P d \<Longrightarrow> \<not> b \<Longrightarrow> Q () d) \<Longrightarrow> triple fl P (do_if b m) Q E"
  unfolding do_if_def by (rule triple_if) (auto intro: triple_ret)

text \<open>
  What a table with defaults keeps: keys; unique columns in the rows of the \<open>scope\<close>; one default,
  as long as no statement fails.
\<close>

definition default_inv ::
    "('r \<Rightarrow> Id) \<Rightarrow> ('d \<Rightarrow> 'r table) \<Rightarrow> ('r \<Rightarrow> bool) \<Rightarrow> ('r \<Rightarrow> bool) \<Rightarrow> ('r \<Rightarrow> 'k) \<Rightarrow> bool \<Rightarrow> 'd \<Rightarrow> bool" where
  "default_inv idf tbl scope dflt key fl d \<longleftrightarrow> table_ok idf (tbl d) \<and> unique_by idf scope key (tbl d) \<and>
     (fl \<or> at_most_one idf dflt (tbl d))"

definition scoped_row :: "('r \<Rightarrow> Id) \<Rightarrow> ('d \<Rightarrow> 'r table) \<Rightarrow> ('r \<Rightarrow> bool) \<Rightarrow> 'd \<Rightarrow> Id \<Rightarrow> 'r option" where
  "scoped_row idf tbl scope d i =
     (case row_of idf (tbl d) i of Some r \<Rightarrow> if scope r then Some r else None | None \<Rightarrow> None)"

lemma scoped_row_all [simp]: "scoped_row idf tbl (\<lambda>_. True) d = row_of idf (tbl d)"
  by (simp add: scoped_row_def fun_eq_iff split: option.split)

locale default_table = keyed_table idf tbl upd key
  for idf :: "'r \<Rightarrow> Id" and tbl :: "'d \<Rightarrow> 'r table" and upd :: "('r table \<Rightarrow> 'r table) \<Rightarrow> 'd \<Rightarrow> 'd" and key :: "'r \<Rightarrow> 'k" +
  fixes scope :: "'r \<Rightarrow> bool"
    and dflt :: "'r \<Rightarrow> bool"
    and unset :: "timestamp \<Rightarrow> 'r \<Rightarrow> 'r"
  assumes unset_row: "idf (unset now r) = idf r" "scope (unset now r) = scope r" "key (unset now r) = key r"
    and unset_dflt: "\<not> dflt (unset now r)"
    and dflt_scope: "dflt r \<Longrightarrow> scope r"
begin

abbreviation "rows_inv \<equiv> default_inv idf tbl scope dflt key"
abbreviation "key_free \<equiv> free_key idf tbl scope key"
abbreviation "scoped \<equiv> scoped_row idf tbl scope"

lemmas rows_inv_def = default_inv_def [of idf tbl scope dflt key]
lemmas key_free_def = free_key_def [of idf tbl scope key]
lemmas scoped_def = scoped_row_def [of idf tbl scope]

lemma own_key_free:
  assumes "rows_inv fl d" "r \<in> set (tb_rows (tbl d))" "scope r" "idf r = i"
  shows "key_free (key r) (\<lambda>j. j \<noteq> i) d"
  using assms(1) [unfolded rows_inv_def unique_by_def] assms(2-4) unfolding key_free_def by metis

lemma rows_inv_seq: "rows_inv fl d \<Longrightarrow> rows_inv fl (upd (tb_seq_update Suc) d)"
  by (simp add: rows_inv_def)

text \<open>The mark of every other row is taken away.\<close>

lemma unset_others:
  fixes now :: timestamp and i :: Id
  assumes "table_ok idf (tbl d)"
  defines "t' \<equiv> tb_rows_update (map (\<lambda>r. if scope r \<and> idf r \<noteq> i then unset now r else r)) (tbl d)"
  shows "table_ok idf t'" and "unique_by idf scope key (tbl d) \<Longrightarrow> unique_by idf scope key t'"
    and "at_most_one idf dflt t'" and "row_of idf t' i = row_of idf (tbl d) i"
    and "dom (row_of idf t') = dom (row_of idf (tbl d))"
proof -
  let ?g = "\<lambda>r. if scope r \<and> idf r \<noteq> i then unset now r else r"
  have g: "idf (?g r) = idf r" "scope (?g r) = scope r" "key (?g r) = key r" for r by (simp_all add: unset_row)
  show "table_ok idf t'" unfolding t'_def by (rule row_of_map(1) [where f = ?g and idf = idf, OF g(1) assms(1)])
  show "unique_by idf scope key t'" if "unique_by idf scope key (tbl d)"
    unfolding t'_def by (rule unique_by_map [where f = ?g and idf = idf, OF that g(1)]) (use g(2,3) in blast)
  show "at_most_one idf dflt t'"
    unfolding t'_def by (rule one_default_left) (simp_all add: unset_row unset_dflt dflt_scope)
  have row: "row_of idf t' = map_option ?g \<circ> row_of idf (tbl d)"
    unfolding t'_def by (rule row_of_map(2) [where f = ?g and idf = idf, OF g(1)])
  then show "dom (row_of idf t') = dom (row_of idf (tbl d))" by (auto simp: dom_def)
  show "row_of idf t' i = row_of idf (tbl d) i"
    unfolding row comp_def by (cases "row_of idf (tbl d) i") (auto dest: row_of_id)
qed

text \<open>A row is inserted, and made the default if it wants to be.\<close>

abbreviation unset_except :: "Id \<Rightarrow> ('d, unit) dbop" where
  "unset_except i \<equiv> execute (sql_update tbl upd (\<lambda>r. scope r \<and> idf r \<noteq> i) unset)"

abbreviation insert_default :: "(timestamp \<Rightarrow> Id \<Rightarrow> 'r) \<Rightarrow> bool \<Rightarrow> ('d, 'r) dbop" where
  "insert_default mk b \<equiv>
     and_then (fetch_one (sql_insert idf tbl upd mk)) (\<lambda>row.
     and_then (do_if b (unset_except (idf row))) (\<lambda>_. ret row))"

lemma insert_default_triple:
  assumes "\<And>now i. idf (mk now i) = i" "\<And>now i. key (mk now i) = c" "\<And>now i. dflt (mk now i) \<Longrightarrow> b"
  shows "triple fl (\<lambda>d. rows_inv fl d \<and> key_free c (\<lambda>_. True) d) (insert_default mk b) (\<lambda>r. rows_inv fl) (rows_inv fl)"
proof (rule triple_then)
  let ?R = "\<lambda>r d. table_ok idf (tbl d) \<and> unique_by idf scope key (tbl d) \<and> (fl \<or> b \<or> at_most_one idf dflt (tbl d))"
  show "triple fl (\<lambda>d. rows_inv fl d \<and> key_free c (\<lambda>_. True) d) (fetch_one (sql_insert idf tbl upd mk)) ?R (rows_inv fl)"
  proof (rule triple_insert, goal_cases)
    case (3 d now i)
    then have "table_ok idf (tbl d)" "unique_by idf scope key (tbl d)" "fl \<or> at_most_one idf dflt (tbl d)"
      by (simp_all add: rows_inv_def)
    moreover from 3 have "\<not> (\<exists>s \<in> set (tb_rows (tbl d)). scope s \<and> key s = key (mk now i) \<and> idf s \<noteq> idf (mk now i))"
      by (auto simp: key_free_def assms(2))
    moreover have "at_most_one idf dflt ((tbl d)\<lparr>tb_rows := tb_rows (tbl d) @ [mk now i]\<rparr>)"
      if "\<not> b" "at_most_one idf dflt (tbl d)"
      by (rule unique_by_append) (use that assms(3) in auto)
    moreover from calculation(2,4) have "unique_by idf scope key ((tbl d)\<lparr>tb_rows := tb_rows (tbl d) @ [mk now i]\<rparr>)"
      by (auto intro: unique_by_append)
    ultimately show ?case using table_appended(1) [OF _ 3(2-4) assms(1), of now] by auto
  qed (simp_all add: rows_inv_seq)
  show "triple fl (?R r) (and_then (do_if b (unset_except (idf r))) (\<lambda>_. ret r))
      (\<lambda>r. rows_inv fl) (rows_inv fl)" for r
  proof (rule triple_then [where R = "\<lambda>_. rows_inv fl"])
    show "triple fl (?R r) (do_if b (unset_except (idf r))) (\<lambda>_. rows_inv fl) (rows_inv fl)"
      by (rule triple_do_if, rule triple_update_all) (auto simp: rows_inv_def unset_others)
  qed (rule triple_ret)
qed

text \<open>A row is updated, and made the default if it is to be.\<close>

abbreviation update_default ::
    "repository_error \<Rightarrow> Id \<Rightarrow> (timestamp \<Rightarrow> 'r \<Rightarrow> 'r) \<Rightarrow> bool \<Rightarrow> ('d, 'r) dbop" where
  "update_default e i f b \<equiv>
     and_then (or_fail e (fetch_optional (sql_update tbl upd (\<lambda>r. idf r = i \<and> scope r) f))) (\<lambda>row.
     and_then (do_if b (unset_except i)) (\<lambda>_. ret row))"

lemma update_default_triple:
  assumes f: "\<And>now r. idf (f now r) = idf r" "\<And>now r. scope (f now r) = scope r"
    and b: "\<And>now r. dflt (f now r) \<Longrightarrow> dflt r \<or> b"
  shows "triple fl (\<lambda>d. rows_inv fl d \<and>
      (\<forall>r \<in> set (tb_rows (tbl d)). \<forall>now. idf r = i \<and> scope r \<longrightarrow> key_free (key (f now r)) (\<lambda>j. j \<noteq> i) d))
    (update_default e i f b) (\<lambda>r. rows_inv fl) (rows_inv fl)" (is "triple fl ?P _ _ _")
proof (rule triple_then)
  let ?R = "\<lambda>d. table_ok idf (tbl d) \<and> unique_by idf scope key (tbl d) \<and> (fl \<or> b \<or> at_most_one idf dflt (tbl d))"
  show "triple fl ?P (or_fail e (fetch_optional (sql_update tbl upd (\<lambda>r. idf r = i \<and> scope r) f))) (\<lambda>_. ?R) (rows_inv fl)"
  proof (rule triple_or_fail, rule triple_update, goal_cases)
    case (2 d now)
    let ?g = "\<lambda>r. if idf r = i \<and> scope r then f now r else r" and ?t = "tbl d"
    from 2 have ok: "table_ok idf ?t" "unique_by idf scope key ?t" "fl \<or> at_most_one idf dflt ?t"
      and free: "\<And>r. r \<in> set (tb_rows ?t) \<Longrightarrow> idf r = i \<Longrightarrow> scope r \<Longrightarrow> key_free (key (f now r)) (\<lambda>j. j \<noteq> i) d"
      by (simp_all add: rows_inv_def)
    have g: "idf (?g r) = idf r" for r by (simp add: f)
    have a: "table_ok idf (tb_rows_update (map ?g) ?t)" by (rule row_of_map(1) [OF g ok(1)])
    have u: "unique_by idf scope key (tb_rows_update (map ?g) ?t)"
      by (rule unique_by_update [where c = scope and f = "f now", OF ok(2) f(1)]) (use free [unfolded key_free_def] in blast)
    have m: "at_most_one idf dflt (tb_rows_update (map ?g) ?t)" if "at_most_one idf dflt ?t" "\<not> b"
    proof (rule unique_by_map [where f = ?g and idf = idf and p = dflt and key = "\<lambda>r. ()" and t = ?t, OF that(1) g])
      fix r assume "dflt (?g r)"
      with b [of now r] that(2) have "dflt r" by (cases "idf r = i \<and> scope r") simp_all
      then show "dflt r \<and> () = ()" by simp
    qed
    have "tb_rows_update (map ?g) ?t = ?t" if "List.find (\<lambda>r. idf r = i \<and> scope r) (tb_rows ?t) = None"
      using that by (auto simp: find_None_iff intro!: table.equality map_idI)
    with ok have none: "rows_inv fl (upd (tb_rows_update (map ?g)) d)"
      if "List.find (\<lambda>r. idf r = i \<and> scope r) (tb_rows ?t) = None"
      using that by (simp add: rows_inv_def)
    from a u m ok(3) have "?R (upd (tb_rows_update (map ?g)) d)" by (simp only: get_put) blast
    with none show ?case by (cases "List.find (\<lambda>r. idf r = i \<and> scope r) (tb_rows ?t)") (simp_all only: option.case option.map)
  qed simp
  show "triple fl ?R (and_then (do_if b (unset_except i)) (\<lambda>_. ret r)) (\<lambda>r. rows_inv fl) (rows_inv fl)" for r
  proof (rule triple_then [where R = "\<lambda>_. rows_inv fl"])
    show "triple fl ?R (do_if b (unset_except i)) (\<lambda>_. rows_inv fl) (rows_inv fl)"
      by (rule triple_do_if, rule triple_update_all) (auto simp: rows_inv_def unset_others)
  qed (rule triple_ret)
qed

lemma delete_rows_triple:
  "triple fl (rows_inv fl) (or_fail_zero e (rows_affected (sql_delete tbl upd p))) (\<lambda>u. rows_inv fl) (rows_inv fl)"
  "triple fl (rows_inv fl) (execute (sql_delete tbl upd p)) (\<lambda>u. rows_inv fl) (rows_inv fl)"
proof -
  have "table_ok idf (tb_rows_update (filter g) (tbl d))" if "table_ok idf (tbl d)" for g d
    using that by (auto simp: table_ok_def distinct_map_filter)
  then have *: "rows_inv fl (upd (tb_rows_update (filter g)) d)" if "rows_inv fl d" for g d
    using that by (auto simp: rows_inv_def unique_by_filter)
  show "triple fl (rows_inv fl) (or_fail_zero e (rows_affected (sql_delete tbl upd p))) (\<lambda>u. rows_inv fl) (rows_inv fl)"
    by (rule triple_or_fail_zero, rule triple_delete(1)) (simp_all add: *)
  show "triple fl (rows_inv fl) (execute (sql_delete tbl upd p)) (\<lambda>u. rows_inv fl) (rows_inv fl)"
    by (rule triple_delete(2)) (simp_all add: *)
qed

text \<open>The rows of the scope as a map, and what the operations do to it when they run alone.\<close>

lemma scoped_Some: "scoped d i = Some r \<longleftrightarrow> row_of idf (tbl d) i = Some r \<and> scope r"
  by (auto simp: scoped_def split: option.split)

lemma scoped_iff: "table_ok idf (tbl d) \<Longrightarrow> scoped d i = Some r \<longleftrightarrow> r \<in> set (tb_rows (tbl d)) \<and> idf r = i \<and> scope r"
  by (auto simp: scoped_Some row_of_iff)

lemma scoped_id: "scoped d i = Some r \<Longrightarrow> idf r = i \<and> scope r"
  by (auto simp: scoped_Some dest: row_of_id)

lemma scoped_map:
  assumes "\<And>r. idf (g r) = idf r" "\<And>r. scope (g r) = scope r"
  shows "scoped (upd (tb_rows_update (map g)) d) = map_option g \<circ> scoped d"
  unfolding scoped_def fun_eq_iff get_put row_of_map(2) [where f = g and idf = idf, OF assms(1)] comp_def
  by (auto split: option.split simp: assms(2))

lemma find_scoped:
  assumes "table_ok idf (tbl d)"
  shows "List.find (\<lambda>r. idf r = i \<and> scope r) (tb_rows (tbl d)) = scoped d i"
proof (rule option_eqI)
  fix r
  have "distinct (map idf (tb_rows (tbl d)))" using assms by (simp add: table_ok_def)
  then have "List.find (\<lambda>r. idf r = i \<and> scope r) xs = Some r \<longleftrightarrow> r \<in> set xs \<and> idf r = i \<and> scope r"
    if "xs = tb_rows (tbl d)" for xs
    unfolding that [symmetric]
    by (induction xs) (auto simp: image_iff)
  then show "List.find (\<lambda>r. idf r = i \<and> scope r) (tb_rows (tbl d)) = Some r \<longleftrightarrow> scoped d i = Some r"
    by (simp add: scoped_iff [OF assms])
qed

abbreviation "refused_from d0 d \<equiv> table_ok idf (tbl d) \<and> scoped d = scoped d0"

abbreviation "created_from d0 r d \<equiv> table_ok idf (tbl d) \<and>
  created_in idf (Ok r :: ('r, repository_error) result) (scoped d0) (scoped d)"

abbreviation "updated_from d0 i r d \<equiv> table_ok idf (tbl d) \<and>
  updated_in idf i (Ok r :: ('r, repository_error) result) (scoped d0) (scoped d)"

abbreviation "start d0 d \<equiv> d = d0 \<and> table_ok idf (tbl d)"

lemma unset_except_law:
  assumes "\<And>d. P d \<Longrightarrow> table_ok idf (tbl d)"
  shows "triple False P (unset_except i)
    (\<lambda>_ d'. \<exists>d. P d \<and> table_ok idf (tbl d') \<and> scoped d' i = scoped d i \<and> dom (scoped d') = dom (scoped d)) E"
proof (rule triple_update_all, goal_cases)
  case (2 d now)
  let ?g = "\<lambda>r. if scope r \<and> idf r \<noteq> i then unset now r else r"
  have "scoped (upd (tb_rows_update (map ?g)) d) = map_option ?g \<circ> scoped d"
    by (rule scoped_map) (simp_all add: unset_row)
  moreover have "map_option ?g (scoped d i) = scoped d i"
    by (cases "scoped d i") (auto dest: scoped_id)
  moreover from unset_others(1) [OF assms [OF 2]] have "table_ok idf (tbl (upd (tb_rows_update (map ?g)) d))" by simp
  ultimately show ?case using 2 by (intro exI [of _ d]) (auto simp: dom_def)
qed simp

lemma do_unset_law:
  assumes P: "\<And>d. P d \<Longrightarrow> table_ok idf (tbl d)"
    and Q: "\<And>d d'. P d \<Longrightarrow> table_ok idf (tbl d') \<Longrightarrow> scoped d' i = scoped d i \<Longrightarrow> dom (scoped d') = dom (scoped d) \<Longrightarrow> Q x d'"
  shows "triple False P (and_then (do_if b (unset_except i)) (\<lambda>_. ret x)) Q E"
proof (rule triple_then [where R = "\<lambda>_. Q x"])
  show "triple False P (do_if b (unset_except i)) (\<lambda>_. Q x) E"
  proof (rule triple_do_if)
    show "triple False (\<lambda>d. P d \<and> b) (unset_except i) (\<lambda>_. Q x) E"
      by (rule triple_weaken [OF unset_except_law [where P = P, OF P]]) (auto intro: Q)
    show "Q x d" if "P d" for d using Q [OF that P [OF that]] by simp
  qed
qed (rule triple_ret)

lemma insert_default_law:
  assumes "\<And>now i. idf (mk now i) = i" "\<And>now i. scope (mk now i)"
  shows "triple False (start d0) (insert_default mk b) (\<lambda>r. created_from d0 r) (refused_from d0)"
proof (rule triple_then)
  let ?R = "\<lambda>r d. table_ok idf (tbl d) \<and> scoped d0 (idf r) = None \<and> scoped d = (scoped d0)(idf r \<mapsto> r)"
  show "triple False (start d0) (fetch_one (sql_insert idf tbl upd mk)) ?R (refused_from d0)"
  proof (rule triple_insert, goal_cases)
    case (1 d) then show ?case by blast
  next
    case (2 d) then show ?case by (auto simp: scoped_def fun_eq_iff)
  next
    case (3 d now i)
    then have ok: "table_ok idf (tbl d)" and d: "d = d0" by blast+
    note new = table_appended [OF ok 3(2-4), where r = "mk now i", OF assms(1)]
    from 3(2) have "row_of idf (tbl d0) i = None" by (simp add: row_of_None d)
    then have "scoped d0 i = None" by (simp add: scoped_def)
    moreover from new(2) have "scoped (upd (\<lambda>t. t\<lparr>tb_rows := tb_rows t @ [mk now i], tb_seq := Suc (tb_seq t)\<rparr>) d) = (scoped d0)(i \<mapsto> mk now i)"
      by (auto simp: scoped_def fun_eq_iff assms(2) d)
    ultimately show ?case using new(1) assms(1) by simp
  qed
  show "triple False (?R r) (and_then (do_if b (unset_except (idf r))) (\<lambda>_. ret r)) (\<lambda>r. created_from d0 r) (refused_from d0)" for r
    by (rule do_unset_law) (auto simp: created_in_def)
qed

lemma update_default_law:
  assumes "\<And>now r. idf (f now r) = idf r" "\<And>now r. scope (f now r) = scope r"
  shows "triple False (start d0) (update_default e i f b) (\<lambda>r. updated_from d0 i r) (refused_from d0)"
proof (rule triple_then)
  let ?R = "\<lambda>r d. table_ok idf (tbl d) \<and> idf r = i \<and> scoped d0 i \<noteq> None \<and> scoped d i = Some r \<and> dom (scoped d) = dom (scoped d0)"
  show "triple False (start d0) (or_fail e (fetch_optional (sql_update tbl upd (\<lambda>r. idf r = i \<and> scope r) f))) ?R (refused_from d0)"
  proof (rule triple_or_fail, rule triple_update, goal_cases)
    case (2 d now)
    let ?g = "\<lambda>r. if idf r = i \<and> scope r then f now r else r"
    from 2 have ok: "table_ok idf (tbl d)" and d: "d = d0" by blast+
    have g: "idf (?g r) = idf r" "scope (?g r) = scope r" for r by (simp_all add: assms)
    have t: "table_ok idf (tb_rows_update (map ?g) (tbl d))" by (rule row_of_map(1) [OF g(1) ok])
    have s: "scoped (upd (tb_rows_update (map ?g)) d) = map_option ?g \<circ> scoped d" by (rule scoped_map) (simp_all add: assms)
    show ?case
    proof (cases "scoped d i")
      case None
      have "map_option ?g (scoped d j) = scoped d j" for j
        using None by (cases "j = i"; cases "scoped d j") (auto dest!: scoped_id)
      with s have "scoped (upd (tb_rows_update (map ?g)) d) = scoped d" by (simp add: fun_eq_iff)
      with None t show ?thesis unfolding find_scoped [OF ok] by (simp add: d)
    next
      case (Some r)
      with scoped_id [OF Some] s t show ?thesis unfolding find_scoped [OF ok] by (auto simp: assms dom_def d)
    qed
  qed simp
  show "triple False (?R r) (and_then (do_if b (unset_except i)) (\<lambda>_. ret r)) (\<lambda>r. updated_from d0 i r) (refused_from d0)" for r
    by (rule do_unset_law) (auto simp: updated_in_def)
qed

lemma lawful_quietly:
  assumes "quiet env" "table_ok idf (tbl d0)" "m env (k, d0) = (x, k', d')"
  shows "triple False (start d0) m (\<lambda>r. created_from d0 r) (refused_from d0) \<Longrightarrow>
      table_ok idf (tbl d') \<and> created_in idf x (scoped d0) (scoped d')"
    and "triple False (start d0) m (\<lambda>r. updated_from d0 i r) (refused_from d0) \<Longrightarrow>
      table_ok idf (tbl d') \<and> updated_in idf i x (scoped d0) (scoped d')"
proof -
  note run = tripleD [where fl = False and env = env and d = d0 and m = m and k = k and P = "start d0"]
  show "table_ok idf (tbl d') \<and> created_in idf x (scoped d0) (scoped d')"
    if "triple False (start d0) m (\<lambda>r. created_from d0 r) (refused_from d0)"
    using run [OF that _ _ assms(3)] assms(1,2) by (cases x) simp_all
  show "table_ok idf (tbl d') \<and> updated_in idf i x (scoped d0) (scoped d')"
    if "triple False (start d0) m (\<lambda>r. updated_from d0 i r) (refused_from d0)"
    using run [OF that _ _ assms(3)] assms(1,2) by (cases x) simp_all
qed

lemma delete_scoped_law:
  assumes "quiet env" "table_ok idf (tbl d)"
    and "or_fail_zero e (rows_affected (sql_delete tbl upd (\<lambda>r. idf r = i \<and> scope r))) env (k, d) = (x, k', d')"
  shows "table_ok idf (tbl d') \<and> deleted_in i x (scoped d) (scoped d') \<and> (x = Err e \<longleftrightarrow> scoped d i = None)"
proof -
  let ?n = "length (filter (\<lambda>r. idf r = i \<and> scope r) (tb_rows (tbl d)))"
  let ?d = "upd (tb_rows_update (filter (\<lambda>r. \<not> (idf r = i \<and> scope r)))) d"
  have n: "?n = 0 \<longleftrightarrow> scoped d i = None"
    unfolding find_scoped [OF assms(2), symmetric] by (auto simp: filter_empty_conv find_None_iff)
  have ok: "table_ok idf (tbl ?d)" using assms(2) by (auto simp: table_ok_def distinct_map_filter)
  have s: "scoped ?d = (scoped d)(i := None)"
  proof
    fix j show "scoped ?d j = ((scoped d)(i := None)) j"
    proof (rule option_eqI)
      fix r
      have "scoped ?d j = Some r \<longleftrightarrow> r \<in> set (tb_rows (tbl ?d)) \<and> idf r = j \<and> scope r" by (rule scoped_iff [OF ok])
      moreover have "scoped d j = Some r \<longleftrightarrow> r \<in> set (tb_rows (tbl d)) \<and> idf r = j \<and> scope r" by (rule scoped_iff [OF assms(2)])
      ultimately show "scoped ?d j = Some r \<longleftrightarrow> ((scoped d)(i := None)) j = Some r" by auto
    qed
  qed
  from assms(1,3) have "d' = ?d" "x = (if ?n = 0 then Err e else Ok ())"
    by (auto simp: or_fail_zero_def run_simps split: if_splits)
  with n ok s show ?thesis by (auto simp: deleted_in_def fun_upd_idem)
qed

end

end
