(* ===== verification/Relations.thy ===== *)
theory Relations
  imports Schema
begin

section \<open>Relations between work packages (op-db)\<close>

text \<open>
  \<open>op-db/src/relations.rs\<close>: the types of relations, and the repository, which stores a relation
  in its canonical direction.
\<close>

subsection \<open>Types of relations\<close>

definition reverse_type :: "string \<Rightarrow> string option" where
  "reverse_type t =
     (if t = ''follows'' then Some ''precedes''
      else if t = ''blocked'' then Some ''blocks''
      else if t = ''duplicated'' then Some ''duplicates''
      else if t = ''partof'' then Some ''includes''
      else if t = ''required'' then Some ''requires''
      else None)"

definition symmetric_type :: "string \<Rightarrow> string" where
  "symmetric_type t =
     (if t = ''relates'' then ''relates''
      else if t = ''precedes'' then ''follows''
      else if t = ''follows'' then ''precedes''
      else if t = ''blocks'' then ''blocked''
      else if t = ''blocked'' then ''blocks''
      else if t = ''duplicates'' then ''duplicated''
      else if t = ''duplicated'' then ''duplicates''
      else if t = ''includes'' then ''partof''
      else if t = ''partof'' then ''includes''
      else if t = ''requires'' then ''required''
      else if t = ''required'' then ''requires''
      else t)"

definition relation_type_is_valid :: "string \<Rightarrow> bool" where
  "relation_type_is_valid t \<longleftrightarrow>
     t \<in> {''relates'', ''precedes'', ''follows'', ''blocks'', ''blocked'', ''duplicates'', ''duplicated'',
          ''includes'', ''partof'', ''requires'', ''required''}"

definition max_lag :: i32 where "max_lag = 2000"
definition min_lag :: i32 where "min_lag = - 2000"

definition relation_row_reverse_type :: "relation_row \<Rightarrow> string" where
  "relation_row_reverse_type r = symmetric_type (rer_relation_type r)"

definition relation_row_is_follows :: "relation_row \<Rightarrow> bool" where
  "relation_row_is_follows r \<longleftrightarrow> rer_relation_type r = ''follows''"

definition relation_row_is_precedes :: "relation_row \<Rightarrow> bool" where
  "relation_row_is_precedes r \<longleftrightarrow> rer_relation_type r = ''precedes''"

definition relation_row_is_blocks :: "relation_row \<Rightarrow> bool" where
  "relation_row_is_blocks r \<longleftrightarrow> rer_relation_type r = ''blocks''"

definition relation_row_is_duplicates :: "relation_row \<Rightarrow> bool" where
  "relation_row_is_duplicates r \<longleftrightarrow> rer_relation_type r = ''duplicates''"

subsection \<open>The repository\<close>

record create_relation_dto =
  crl_from_id :: Id
  crl_to_id :: Id
  crl_relation_type :: string
  crl_lag :: "i32 option"
  crl_description :: "string option"

record update_relation_dto =
  url_lag :: "i32 option"
  url_description :: "string option option"

definition newest_first :: "relation_row list \<Rightarrow> relation_row list" where
  "newest_first rs = sort_key (\<lambda>r. - rer_created_at r) rs"

definition relations_where :: "(relation_row \<Rightarrow> bool) \<Rightarrow> database \<Rightarrow> relation_row list" where
  "relations_where p d = newest_first (filter p (tb_rows (db_relations d)))"

definition relation_find_by_work_package ::
    "Id \<Rightarrow> pagination \<Rightarrow> (database, relation_row paginated_result) dbop" where
  "relation_find_by_work_package i p =
     page_of p db_relations (\<lambda>r. rer_from_id r = i \<or> rer_to_id r = i) newest_first"

definition relation_find_by_predecessor :: "Id \<Rightarrow> (database, relation_row list) dbop" where
  "relation_find_by_predecessor i = fetch_all (sql_select (relations_where (\<lambda>r. rer_from_id r = i)))"

definition relation_find_by_successor :: "Id \<Rightarrow> (database, relation_row list) dbop" where
  "relation_find_by_successor i = fetch_all (sql_select (relations_where (\<lambda>r. rer_to_id r = i)))"

definition relation_find_follows_with_lag :: "(database, relation_row list) dbop" where
  "relation_find_follows_with_lag =
     fetch_all (sql_select (relations_where (\<lambda>r. rer_relation_type r = ''follows'' \<and>
       (case rer_lag r of Some lag \<Rightarrow> 0 < sint lag | None \<Rightarrow> False))))"

definition relation_find_by_type ::
    "string \<Rightarrow> pagination \<Rightarrow> (database, relation_row paginated_result) dbop" where
  "relation_find_by_type t p = page_of p db_relations (\<lambda>r. rer_relation_type r = t) newest_first"

definition between :: "Id \<Rightarrow> Id \<Rightarrow> relation_row \<Rightarrow> bool" where
  "between i j r \<longleftrightarrow> rer_from_id r = i \<and> rer_to_id r = j \<or> rer_from_id r = j \<and> rer_to_id r = i"

definition relation_exists :: "Id \<Rightarrow> Id \<Rightarrow> (database, bool) dbop" where
  "relation_exists i j = counted db_relations (between i j)"

definition normalize_relation :: "create_relation_dto \<Rightarrow> Id \<times> Id \<times> string" where
  "normalize_relation dto =
     (case reverse_type (crl_relation_type dto) of
        Some reverse \<Rightarrow> (crl_to_id dto, crl_from_id dto, reverse)
      | None \<Rightarrow> (crl_from_id dto, crl_to_id dto, crl_relation_type dto))"

definition relation_find_by_id :: "Id \<Rightarrow> (database, relation_row option) dbop" where
  "relation_find_by_id = find_row rer_id db_relations"

definition relation_find_all :: "i64 \<Rightarrow> i64 \<Rightarrow> (database, relation_row list) dbop" where
  "relation_find_all limit offset = fetch_all (sql_select_page limit offset (relations_where (\<lambda>_. True)))"

definition relation_count :: "(database, i64) dbop" where
  "relation_count = count_of db_relations (\<lambda>_. True)"

definition relation_id_exists :: "Id \<Rightarrow> (database, bool) dbop" where
  "relation_id_exists i = counted db_relations (\<lambda>r. rer_id r = i)"

definition lag_error :: repository_error where
  "lag_error = RepoValidation (''Lag must be between '' @ show_i32 min_lag @ '' and '' @ show_i32 max_lag)"

definition lag_out_of_range :: "i32 option \<Rightarrow> bool" where
  "lag_out_of_range v \<longleftrightarrow> (case v of Some lag \<Rightarrow> sint lag < sint min_lag \<or> sint max_lag < sint lag | None \<Rightarrow> False)"

definition relation_create :: "create_relation_dto \<Rightarrow> (database, relation_row) dbop" where
  "relation_create dto =
     (if \<not> relation_type_is_valid (crl_relation_type dto)
      then fail (RepoValidation (''Invalid relation type: '' @ crl_relation_type dto))
      else if lag_out_of_range (crl_lag dto) then fail lag_error
      else if crl_from_id dto = crl_to_id dto
           then fail (RepoValidation ''A work package cannot be related to itself'')
      else (case normalize_relation dto of (from_id, to_id, ty) \<Rightarrow>
        and_then (relation_exists from_id to_id) (\<lambda>taken.
        if taken then fail (RepoConflict ''Relation already exists between these work packages'')
        else fetch_one (sql_insert rer_id db_relations db_relations_update (\<lambda>now i.
          \<lparr>rer_id = i, rer_from_id = from_id, rer_to_id = to_id, rer_relation_type = ty, rer_lag = crl_lag dto,
           rer_description = crl_description dto, rer_created_at = now, rer_updated_at = now\<rparr>)))))"

definition relation_not_found :: "Id \<Rightarrow> repository_error" where
  "relation_not_found i = RepoNotFound (''Relation '' @ show_i64 i @ '' not found'')"

definition relation_update :: "Id \<Rightarrow> update_relation_dto \<Rightarrow> (database, relation_row) dbop" where
  "relation_update i dto =
     and_then (relation_find_by_id i) (\<lambda>found.
       case found of
         None \<Rightarrow> fail (relation_not_found i)
       | Some existing \<Rightarrow>
           if lag_out_of_range (url_lag dto) then fail lag_error
           else (let new_lag = (case url_lag dto of Some lag \<Rightarrow> Some lag | None \<Rightarrow> rer_lag existing);
                     new_description = (case url_description dto of Some v \<Rightarrow> v | None \<Rightarrow> rer_description existing)
             in fetch_one (sql_update db_relations db_relations_update (\<lambda>r. rer_id r = i)
                  (\<lambda>now r. r\<lparr>rer_lag := new_lag, rer_description := new_description, rer_updated_at := now\<rparr>))))"

definition relation_delete :: "Id \<Rightarrow> (database, unit) dbop" where
  "relation_delete i =
     and_then (relation_id_exists i) (\<lambda>found.
       if \<not> found then fail (relation_not_found i)
       else execute (sql_delete db_relations db_relations_update (\<lambda>r. rer_id r = i)))"

subsection \<open>What is stored\<close>

interpretation relations: db_table rer_id db_relations db_relations_update
  by unfold_locales simp

definition canonical_types :: "string set" where
  "canonical_types = {''relates'', ''precedes'', ''blocks'', ''duplicates'', ''includes'', ''requires''}"

definition relation_ok :: "relation_row \<Rightarrow> bool" where
  "relation_ok r \<longleftrightarrow>
     rer_relation_type r \<in> canonical_types \<and>
     rer_from_id r \<noteq> rer_to_id r \<and> (\<forall>lag. rer_lag r = Some lag \<longrightarrow> sint lag \<in> {- 2000..2000})"

abbreviation relations_ok :: "database \<Rightarrow> bool" where
  "relations_ok d \<equiv> all_rows relation_ok (db_relations d)"

text \<open>What a row says about two work packages, read from either side.\<close>

definition relation_says :: "relation_row \<Rightarrow> Id \<Rightarrow> string \<Rightarrow> Id \<Rightarrow> bool" where
  "relation_says r i ty j \<longleftrightarrow>
     rer_from_id r = i \<and> rer_to_id r = j \<and> rer_relation_type r = ty \<or>
     rer_to_id r = i \<and> rer_from_id r = j \<and> relation_row_reverse_type r = ty"

lemma symmetric_type_involution: "relation_type_is_valid t \<Longrightarrow> symmetric_type (symmetric_type t) = t"
  by (auto simp: relation_type_is_valid_def symmetric_type_def)

lemma lag_in_range: "\<not> lag_out_of_range v \<longleftrightarrow> (\<forall>lag. v = Some lag \<longrightarrow> sint lag \<in> {- 2000..2000})"
  by (auto simp: lag_out_of_range_def min_lag_def max_lag_def split: option.splits)

lemma reverse_type_canonical:
  assumes "relation_type_is_valid t"
  shows "case reverse_type t of None \<Rightarrow> t \<in> canonical_types | Some r \<Rightarrow> r \<in> canonical_types \<and> symmetric_type r = t"
  using assms unfolding relation_type_is_valid_def
  by (elim insertE emptyE) (simp_all add: reverse_type_def symmetric_type_def canonical_types_def)

lemma normalized_is_canonical:
  assumes "relation_type_is_valid (crl_relation_type dto)" "normalize_relation dto = (i, j, ty)"
  shows "ty \<in> canonical_types" and "{i, j} = {crl_from_id dto, crl_to_id dto}"
    and "i = crl_from_id dto \<and> j = crl_to_id dto \<and> ty = crl_relation_type dto \<or>
         i = crl_to_id dto \<and> j = crl_from_id dto \<and> symmetric_type ty = crl_relation_type dto"
  using reverse_type_canonical [OF assms(1)] assms(2)
  by (auto simp: normalize_relation_def split: option.splits)

lemma relation_create_holds: "holds relations_ok (relation_create dto) relation_ok"
proof -
  obtain i j ty where n: "normalize_relation dto = (i, j, ty)" by (cases "normalize_relation dto") auto
  have stored: "relation_ok \<lparr>rer_id = k, rer_from_id = i, rer_to_id = j, rer_relation_type = ty, rer_lag = crl_lag dto,
      rer_description = crl_description dto, rer_created_at = now, rer_updated_at = now\<rparr>"
    if "relation_type_is_valid (crl_relation_type dto)" "\<not> lag_out_of_range (crl_lag dto)"
      "crl_from_id dto \<noteq> crl_to_id dto" for k now
    using normalized_is_canonical [OF that(1) n] that(2,3) by (auto simp: relation_ok_def lag_in_range)
  show ?thesis
    unfolding relation_create_def relation_exists_def n prod.case
    by (intro holds_intro relations.holds_insert stored) auto
qed

lemma relation_update_holds: "holds relations_ok (relation_update i dto) relation_ok"
  unfolding relation_update_def relation_find_by_id_def
proof (rule holds_and_then [OF relations.holds_find])
  fix found assume "\<forall>r. found = Some r \<longrightarrow> relation_ok r"
  then show "holds relations_ok (case found of None \<Rightarrow> fail (relation_not_found i)
     | Some existing \<Rightarrow> if lag_out_of_range (url_lag dto) then fail lag_error
         else (let new_lag = (case url_lag dto of Some lag \<Rightarrow> Some lag | None \<Rightarrow> rer_lag existing);
                   new_description = (case url_description dto of Some v \<Rightarrow> v | None \<Rightarrow> rer_description existing)
           in fetch_one (sql_update db_relations db_relations_update (\<lambda>r. rer_id r = i)
                (\<lambda>now r. r\<lparr>rer_lag := new_lag, rer_description := new_description, rer_updated_at := now\<rparr>)))) relation_ok"
    unfolding Let_def
    by (intro holds_intro relations.holds_update(1))
      (auto simp: lag_in_range relation_ok_def split: option.splits)
qed

lemma relation_delete_holds: "holds relations_ok (relation_delete i) (\<lambda>_. True)"
  unfolding relation_delete_def relation_id_exists_def
  by (intro holds_intro relations.holds_delete)

subsection \<open>Requests that run alone\<close>

definition new_relation :: "create_relation_dto \<Rightarrow> timestamp \<Rightarrow> Id \<Rightarrow> relation_row" where
  "new_relation dto now i =
     (case normalize_relation dto of (from_id, to_id, ty) \<Rightarrow>
       \<lparr>rer_id = i, rer_from_id = from_id, rer_to_id = to_id, rer_relation_type = ty, rer_lag = crl_lag dto,
        rer_description = crl_description dto, rer_created_at = now, rer_updated_at = now\<rparr>)"

lemma new_relation_id [simp]: "rer_id (new_relation dto now i) = i"
  by (simp add: new_relation_def split: prod.split)

lemma new_relation_between: "between (crl_from_id dto) (crl_to_id dto) (new_relation dto now i)"
  by (auto simp: new_relation_def normalize_relation_def between_def split: option.split)

definition related :: "database \<Rightarrow> Id \<Rightarrow> Id \<Rightarrow> bool" where
  "related d i j \<longleftrightarrow> (\<exists>r \<in> set (tb_rows (db_relations d)). between i j r)"

lemma between_sym: "between i j r \<longleftrightarrow> between j i r"
  by (auto simp: between_def)

lemma relation_create_alone:
  assumes "quiet env" "table_ok rer_id (db_relations d)"
  shows "relation_create dto env (k, d) =
    (if \<not> relation_type_is_valid (crl_relation_type dto)
     then (Err (RepoValidation (''Invalid relation type: '' @ crl_relation_type dto)), k, d)
     else if lag_out_of_range (crl_lag dto) then (Err lag_error, k, d)
     else if crl_from_id dto = crl_to_id dto
          then (Err (RepoValidation ''A work package cannot be related to itself''), k, d)
     else if related d (crl_from_id dto) (crl_to_id dto)
          then (Err (RepoConflict ''Relation already exists between these work packages''), Suc k, d)
     else fetch_one (sql_insert rer_id db_relations db_relations_update (new_relation dto)) env (Suc k, d))"
proof -
  obtain i j ty where n: "normalize_relation dto = (i, j, ty)" by (cases "normalize_relation dto") auto
  then have "related d (crl_from_id dto) (crl_to_id dto) \<longleftrightarrow> related d i j"
    by (auto simp: normalize_relation_def related_def between_sym split: option.splits)
  moreover have "relation_exists i j env (k, d) = (Ok (related d i j), Suc k, d)"
    by (simp add: relation_exists_def relations.run_table assms related_def)
  ultimately show ?thesis
    by (simp add: relation_create_def n run_simps new_relation_def [abs_def])
qed

lemma relation_update_alone:
  assumes "quiet env"
  shows "relation_update i dto env (k, d) =
    (case row_of rer_id (db_relations d) i of
       None \<Rightarrow> (Err (relation_not_found i), Suc k, d)
     | Some r \<Rightarrow>
         if lag_out_of_range (url_lag dto) then (Err lag_error, Suc k, d)
         else (let change = (\<lambda>now r'. r'\<lparr>rer_lag := coalesce_opt (url_lag dto) (rer_lag r),
                    rer_description := coalesce (url_description dto) (rer_description r), rer_updated_at := now\<rparr>)
           in (Ok (change (tn_now (env (Suc k))) r), Suc (Suc k),
               db_relations_update (tb_rows_update (map (\<lambda>r. if rer_id r = i then change (tn_now (env (Suc k))) r else r))) d)))"
  by (auto simp: relation_update_def relation_find_by_id_def relations.run_table run_simps assms Let_def coalesce_def
      coalesce_opt_def row_of_def [symmetric] split: option.split)

lemma relation_delete_alone:
  assumes "quiet env" "table_ok rer_id (db_relations d)"
  shows "relation_delete i env (k, d) =
    (if row_of rer_id (db_relations d) i = None then (Err (relation_not_found i), Suc k, d)
     else (Ok (), Suc (Suc k), db_relations_update (tb_rows_update (filter (\<lambda>r. rer_id r \<noteq> i))) d))"
  by (auto simp: relation_delete_def relation_id_exists_def relations.run_table run_simps assms row_of_None)

interpretation relation_repository: repository rer_id "\<lambda>d. table_ok rer_id (db_relations d)"
  "\<lambda>d. row_of rer_id (db_relations d)" relation_find_by_id relation_id_exists relation_create relation_update relation_delete
proof
  fix env :: "database db_env" and d d' :: database and i k k' c u x y
  assume quiet: "quiet env" and ok: "table_ok rer_id (db_relations d)"
  note alone = relation_create_alone [OF quiet ok] relation_update_alone [OF quiet] relation_delete_alone [OF quiet ok]
  show "relation_find_by_id i env (k, d) = (Ok (row_of rer_id (db_relations d) i), Suc k, d)"
    by (simp add: relation_find_by_id_def relations.run_table quiet)
  show "relation_id_exists i env (k, d) = (Ok (row_of rer_id (db_relations d) i \<noteq> None), Suc k, d)"
    by (auto simp: relation_id_exists_def relations.run_table quiet ok row_of_None)
  show "table_ok rer_id (db_relations d') \<and> created_in rer_id x (row_of rer_id (db_relations d)) (row_of rer_id (db_relations d'))"
    if "relation_create c env (k, d) = (x, k', d')"
    using that ok relations.insert_law [OF quiet ok, of "new_relation c"]
    by (auto simp: alone new_relation_id split: if_splits)
  show "table_ok rer_id (db_relations d') \<and> updated_in rer_id i x (row_of rer_id (db_relations d)) (row_of rer_id (db_relations d'))"
    if "relation_update i u env (k, d) = (x, k', d')"
  proof (cases x)
    case (Inl e)
    with that ok show ?thesis by (auto simp: alone Let_def split: option.splits if_splits)
  next
    case (Inr r)
    with that obtain old where old: "row_of rer_id (db_relations d) i = Some old" "\<not> lag_out_of_range (url_lag u)"
      by (auto simp: alone Let_def split: option.splits if_splits)
    let ?f = "\<lambda>now r. r\<lparr>rer_lag := coalesce_opt (url_lag u) (rer_lag old),
        rer_description := coalesce (url_description u) (rer_description old), rer_updated_at := now\<rparr>"
    from that old have "fetch_one (sql_update db_relations db_relations_update (\<lambda>r. rer_id r = i) ?f) env (Suc k, d) = (x, k', d')"
      by (simp add: alone Let_def run_simps quiet row_of_def)
    with relations.update_law [where f = ?f and i = i, OF quiet ok] show ?thesis by simp
  qed
  show "table_ok rer_id (db_relations d') \<and> deleted_in i y (row_of rer_id (db_relations d)) (row_of rer_id (db_relations d'))"
    if "relation_delete i env (k, d) = (y, k', d')"
    using that ok relations.delete_law [OF ok, of i d'] by (auto simp: alone split: if_splits)
qed

subsection \<open>Properties\<close>

datatype relation_request =
  CreateRelation create_relation_dto | UpdateRelation Id update_relation_dto | DeleteRelation Id

fun perform_relation :: "relation_request \<Rightarrow> (database, unit) dbop" where
  "perform_relation (CreateRelation dto) = and_then (relation_create dto) (\<lambda>_. ret ())"
| "perform_relation (UpdateRelation i dto) = and_then (relation_update i dto) (\<lambda>_. ret ())"
| "perform_relation (DeleteRelation i) = relation_delete i"

lemma perform_relation_holds: "holds relations_ok (perform_relation q) (\<lambda>_. True)"
  by (cases q)
    (auto intro!: holds_then holds_done relation_create_holds [THEN holds_true]
      relation_update_holds [THEN holds_true] relation_delete_holds)

lemma no_follows_stored: "relations_ok d \<Longrightarrow> relations_where (\<lambda>r. rer_relation_type r = ''follows'' \<and> P r) d = []"
  unfolding relations_where_def newest_first_def
  by (subst filter_False) (auto simp: all_rows_def relation_ok_def canonical_types_def)

text \<open>
  C10. Relations stay canonical.  Whatever requests are made, in whatever order, interleaved with
  those of any number of other sessions that keep the same, and whatever statements fail: every
  stored relation has one of the six canonical types, connects two different work packages and has
  a lag between -2000 and 2000.  Since no relation is ever stored as \<open>follows\<close>, the search for
  such relations with a lag always comes back empty.
\<close>

theorem relations_stay_canonical:
  assumes "well_behaved relations_ok env" "relations_ok d"
  shows "relations_ok (snd (history perform_relation reqs env (k, d))) \<and>
    (\<forall>rows. fst (relation_find_follows_with_lag env (history perform_relation reqs env (k, d))) = Ok rows \<longrightarrow> rows = [])"
proof -
  obtain k' d' where run: "history perform_relation reqs env (k, d) = (k', d')"
    by (cases "history perform_relation reqs env (k, d)")
  with history_holds [where perform = perform_relation and qs = reqs and k = k, OF assms(1) perform_relation_holds assms(2)]
  have ok: "relations_ok d'" by simp
  with assms(1) have "relations_ok (tn_others (env k') d')" by (simp add: well_behaved_def)
  then have "relations_where (\<lambda>r. rer_relation_type r = ''follows'' \<and>
       (case rer_lag r of Some lag \<Rightarrow> 0 < sint lag | None \<Rightarrow> False)) (tn_others (env k') d') = []"
    by (rule no_follows_stored)
  with ok run show ?thesis
    by (auto simp: relation_find_follows_with_lag_def fetch_all_def run_statement_def sql_select_def Let_def
      split: option.splits)
qed

definition sample_relation :: create_relation_dto where
  "sample_relation = \<lparr>crl_from_id = 1, crl_to_id = 2, crl_relation_type = ''follows'', crl_lag = Some 3,
     crl_description = None\<rparr>"

theorem relations_stay_canonical_witness:
  "relations_ok (snd (history perform_relation [CreateRelation sample_relation, DeleteRelation 7] (alone 0) (0, empty_database)))"
  using relations_stay_canonical [of "alone 0" empty_database "[CreateRelation sample_relation, DeleteRelation 7]" 0]
  by (simp add: empty_database_def)

definition relation_acceptable :: "database \<Rightarrow> create_relation_dto \<Rightarrow> bool" where
  "relation_acceptable d dto \<longleftrightarrow>
     relation_type_is_valid (crl_relation_type dto) \<and> (\<forall>lag. crl_lag dto = Some lag \<longrightarrow> sint lag \<in> {- 2000..2000}) \<and>
     crl_from_id dto \<noteq> crl_to_id dto \<and> \<not> related d (crl_from_id dto) (crl_to_id dto)"

lemma relation_acceptable_iff:
  "relation_acceptable d dto \<longleftrightarrow>
     relation_type_is_valid (crl_relation_type dto) \<and> \<not> lag_out_of_range (crl_lag dto) \<and>
     crl_from_id dto \<noteq> crl_to_id dto \<and> \<not> related d (crl_from_id dto) (crl_to_id dto)"
  by (simp only: relation_acceptable_def lag_in_range)

lemma new_relation_says:
  assumes "relation_type_is_valid (crl_relation_type dto)"
  shows "relation_says (new_relation dto now i) (crl_from_id dto) (crl_relation_type dto) (crl_to_id dto)"
    and "relation_says (new_relation dto now i) (crl_to_id dto) (symmetric_type (crl_relation_type dto)) (crl_from_id dto)"
proof -
  obtain i' j ty where n: "normalize_relation dto = (i', j, ty)" by (cases "normalize_relation dto") auto
  note c = normalized_is_canonical [OF assms n]
  have ty: "symmetric_type (symmetric_type ty) = ty"
    using c(1) by (intro symmetric_type_involution) (auto simp: canonical_types_def relation_type_is_valid_def)
  show "relation_says (new_relation dto now i) (crl_from_id dto) (crl_relation_type dto) (crl_to_id dto)"
    and "relation_says (new_relation dto now i) (crl_to_id dto) (symmetric_type (crl_relation_type dto)) (crl_from_id dto)"
    using c(3) ty by (auto simp: relation_says_def new_relation_def n relation_row_reverse_type_def)
qed

lemma create_relation_outcome:
  assumes "quiet env" "table_ok rer_id (db_relations d)"
  shows "(case relation_create dto env (k, d) of
      (Inl e, k', d') \<Rightarrow> row_of rer_id (db_relations d') = row_of rer_id (db_relations d) \<and>
        (relation_acceptable d dto \<longleftrightarrow> e \<in> {RepoDatabase SqlSequenceEnd, RepoDatabase SqlUniqueViolation})
    | (Inr r, k', d') \<Rightarrow> relation_acceptable d dto \<and> row_of rer_id (db_relations d) (rer_id r) = None \<and>
        row_of rer_id (db_relations d') = (row_of rer_id (db_relations d))(rer_id r \<mapsto> r) \<and>
        rer_lag r = crl_lag dto \<and> rer_description r = crl_description dto \<and>
        relation_says r (crl_from_id dto) (crl_relation_type dto) (crl_to_id dto) \<and>
        relation_says r (crl_to_id dto) (symmetric_type (crl_relation_type dto)) (crl_from_id dto))"
proof (cases "relation_acceptable d dto")
  case True
  then have run: "relation_create dto env (k, d) =
      fetch_one (sql_insert rer_id db_relations db_relations_update (new_relation dto)) env (Suc k, d)"
    by (simp add: relation_create_alone [OF assms] relation_acceptable_iff)
  show ?thesis
  proof (cases "relation_create dto env (k, d)")
    case (fields x k' d')
    show ?thesis
    proof (cases x)
      case (Inl e)
      with fields run relations.insert_refused [OF assms(1), of "new_relation dto" "Suc k" d e k' d'] True
      have "row_of rer_id (db_relations d') = row_of rer_id (db_relations d)" by simp
      moreover from fields run Inl assms(1) have "e \<in> {RepoDatabase SqlSequenceEnd, RepoDatabase SqlUniqueViolation}"
        by (auto simp: run_insert Let_def split: if_splits)
      ultimately show ?thesis using fields Inl True by simp
    next
      case (Inr r)
      from relations.insert_alone [where mk = "new_relation dto" and k = "Suc k" and r = r and k' = k' and d' = d',
          OF assms new_relation_id] fields run Inr
      have new: "row_of rer_id (db_relations d) (rer_id r) = None"
        "row_of rer_id (db_relations d') = (row_of rer_id (db_relations d))(rer_id r \<mapsto> r)"
        and r: "r = new_relation dto (tn_now (env (Suc k))) (rer_id r)" by simp_all
      from r have "rer_lag r = crl_lag dto" "rer_description r = crl_description dto"
        by (metis (no_types, lifting) case_prod_unfold new_relation_def relation_row.select_convs(5,6))+
      moreover from True have "relation_type_is_valid (crl_relation_type dto)" by (simp add: relation_acceptable_def)
      with new_relation_says r have "relation_says r (crl_from_id dto) (crl_relation_type dto) (crl_to_id dto)"
        "relation_says r (crl_to_id dto) (symmetric_type (crl_relation_type dto)) (crl_from_id dto)" by metis+
      ultimately show ?thesis using fields Inr True new by simp
    qed
  qed
next
  case False
  then show ?thesis
    by (auto simp: relation_create_alone [OF assms] relation_acceptable_iff lag_error_def)
qed

text \<open>
  Creating a relation, alone.  It is refused exactly when the type is unknown, the lag out of
  range, the two work packages the same or related already in either direction (or the database
  refuses the insertion); then no row changes.  A created relation gets a key of its own, nothing
  else changes, and the row, though it may be stored the other way round, says what was asked for
  when it is read from either side.
\<close>

theorem create_relation_correct:
  assumes "quiet env" "table_ok rer_id (db_relations d)"
  shows "(case relation_create dto env (k, d) of
      (Inl e, k', d') \<Rightarrow> row_of rer_id (db_relations d') = row_of rer_id (db_relations d) \<and>
        (relation_acceptable d dto \<longleftrightarrow> e \<in> {RepoDatabase SqlSequenceEnd, RepoDatabase SqlUniqueViolation})
    | (Inr r, k', d') \<Rightarrow> relation_acceptable d dto \<and> row_of rer_id (db_relations d) (rer_id r) = None \<and>
        row_of rer_id (db_relations d') = (row_of rer_id (db_relations d))(rer_id r \<mapsto> r) \<and>
        rer_lag r = crl_lag dto \<and> rer_description r = crl_description dto \<and>
        relation_says r (crl_from_id dto) (crl_relation_type dto) (crl_to_id dto) \<and>
        relation_says r (crl_to_id dto) (symmetric_type (crl_relation_type dto)) (crl_from_id dto))"
  by (rule create_relation_outcome [OF assms])

theorem create_relation_correct_witness:
  "relation_acceptable empty_database sample_relation \<and>
   (\<exists>r. fst (relation_create sample_relation (alone 0) (0, empty_database)) = Ok r \<and> relation_says r 1 ''follows'' 2)"
proof -
  have a: "relation_acceptable empty_database sample_relation"
    by (auto simp: relation_acceptable_def sample_relation_def relation_type_is_valid_def related_def empty_database_def
        empty_table_def)
  then obtain r k' d' where "relation_create sample_relation (alone 0) (0, empty_database) = (Ok r, k', d')"
    by (simp add: relation_create_alone relation_acceptable_iff run_insert Let_def empty_database_def empty_table_def
        table_ok_def)
  with a create_relation_correct [of "alone 0" empty_database sample_relation 0] show ?thesis
    by (simp add: sample_relation_def empty_database_def)
qed

definition unique_pairs :: "relation_row list \<Rightarrow> bool" where
  "unique_pairs rs \<longleftrightarrow> (\<forall>r \<in> set rs. \<forall>s \<in> set rs. between (rer_from_id r) (rer_to_id r) s \<longrightarrow> r = s)"

abbreviation pairs_inv :: "database \<Rightarrow> bool" where
  "pairs_inv d \<equiv> table_ok rer_id (db_relations d) \<and> unique_pairs (tb_rows (db_relations d))"

lemma unique_pairs_map:
  assumes "unique_pairs rs" "\<And>r. rer_from_id (f r) = rer_from_id r" "\<And>r. rer_to_id (f r) = rer_to_id r"
  shows "unique_pairs (map f rs)"
  using assms(1) by (auto simp: unique_pairs_def between_def assms(2,3))

lemma unique_pairs_snoc:
  assumes "unique_pairs rs" "\<forall>s \<in> set rs. \<not> between (rer_from_id r) (rer_to_id r) s"
  shows "unique_pairs (rs @ [r])"
  using assms by (auto simp: unique_pairs_def between_def)

lemma created_rows:
  assumes "quiet env" "table_ok rer_id (db_relations d)" "relation_create dto env (k, d) = (Ok r, k', d')"
  shows "relation_acceptable d dto" and "tb_rows (db_relations d') = tb_rows (db_relations d) @ [r]"
    and "between (crl_from_id dto) (crl_to_id dto) r"
proof -
  show a: "relation_acceptable d dto"
    using create_relation_outcome [OF assms(1,2), of dto k] assms(3) by simp
  from a assms have run: "fetch_one (sql_insert rer_id db_relations db_relations_update (new_relation dto)) env (Suc k, d) = (Ok r, k', d')"
    by (simp add: relation_create_alone relation_acceptable_iff)
  note new = relations.insert_alone [where mk = "new_relation dto", OF assms(1,2) new_relation_id run]
  show "tb_rows (db_relations d') = tb_rows (db_relations d) @ [r]" using new(4) by simp
  show "between (crl_from_id dto) (crl_to_id dto) r"
    by (subst new(5)) (rule new_relation_between)
qed

lemma perform_relation_pairs:
  assumes "quiet env" "pairs_inv d" "perform_relation q env (k, d) = (x, k', d')"
  shows "pairs_inv d'"
proof (cases q)
  case (CreateRelation dto)
  obtain y k2 d2 where run: "relation_create dto env (k, d) = (y, k2, d2)" by (cases "relation_create dto env (k, d)")
  with assms CreateRelation have d2: "d2 = d'" by (auto simp: run_simps split: sum.splits)
  show ?thesis
  proof (cases y)
    case (Inl e)
    with run assms show ?thesis
      by (auto simp: relation_create_alone d2 dest: relations.insert_refused [rotated] split: if_splits)
  next
    case (Inr r)
    with run d2 have run: "relation_create dto env (k, d) = (Ok r, k2, d')" by simp
    from assms(2) have ok: "table_ok rer_id (db_relations d)" by simp
    note new = created_rows [OF assms(1) ok run]
    have "unique_pairs (tb_rows (db_relations d) @ [r])"
    proof (rule unique_pairs_snoc)
      show "\<forall>s \<in> set (tb_rows (db_relations d)). \<not> between (rer_from_id r) (rer_to_id r) s"
        using new(1,3) by (auto simp: relation_acceptable_def related_def between_def)
    qed (use assms in simp)
    with relation_repository.created [OF assms(1) ok run] new(2) show ?thesis by simp
  qed
next
  case (UpdateRelation i dto)
  obtain y k2 d2 where run: "relation_update i dto env (k, d) = (y, k2, d2)" by (cases "relation_update i dto env (k, d)")
  with assms UpdateRelation have d2: "d2 = d'" by (auto simp: run_simps split: sum.splits)
  from assms(2) have "unique_pairs (map f (tb_rows (db_relations d)))"
    if "\<And>r. rer_from_id (f r) = rer_from_id r" "\<And>r. rer_to_id (f r) = rer_to_id r" for f
    using that unique_pairs_map by blast
  moreover have "table_ok rer_id (db_relations d')"
    using relation_repository.update_law [OF assms(1) _ run] assms(2) d2 by simp
  ultimately show ?thesis
    using run assms(1,2) d2 by (auto simp: relation_update_alone Let_def split: option.splits if_splits)
next
  case (DeleteRelation i)
  with assms show ?thesis
    using row_of_filter(1) [of rer_id "db_relations d" i]
    by (auto simp: relation_delete_alone unique_pairs_def split: if_splits)
qed

text \<open>
  One relation for a pair.  As long as requests run one after the other, at most one relation is
  stored between any two work packages, in whichever direction.
\<close>

theorem one_relation_per_pair:
  assumes "quiet env" "pairs_inv d"
  shows "pairs_inv (snd (history perform_relation reqs env (k, d)))"
  by (rule history_alone [where I = pairs_inv, OF assms(1) perform_relation_pairs [OF assms(1)] assms(2)])

theorem one_relation_per_pair_witness:
  "pairs_inv (snd (history perform_relation [CreateRelation sample_relation, CreateRelation sample_relation] (alone 0) (0, empty_database)))"
  by (rule one_relation_per_pair) (simp_all add: empty_database_def unique_pairs_def empty_table_def table_ok_def)

text \<open>
  Two sessions at once.  The check for an existing relation and the insertion are two
  statements: when another session creates the same relation between them, both succeed, and the
  two work packages end up related twice.
\<close>

theorem racing_creates_relate_twice:
  assumes "quiet env" "table_ok rer_id (db_relations d)"
    and other: "relation_create dto env (j, d) = (Ok first, j', d1)"
    and seq: "tb_seq (db_relations d1) < 2 ^ 63"
    and key: "row_of rer_id (db_relations d1) (word_of_nat (tb_seq (db_relations d1))) = None"
  shows "\<exists>second d2. relation_create dto (interrupted now (Suc k) (\<lambda>_. d1)) (k, d) = (Ok second, Suc (Suc k), d2) \<and>
    first \<noteq> second \<and> {first, second} \<subseteq> set (tb_rows (db_relations d2)) \<and>
    between (crl_from_id dto) (crl_to_id dto) first \<and> between (crl_from_id dto) (crl_to_id dto) second"
proof -
  note first = created_rows [OF assms(1,2) other]
  let ?i = "word_of_nat (tb_seq (db_relations d1)) :: Id"
  let ?second = "new_relation dto now ?i"
  let ?d2 = "db_relations_update (\<lambda>t. t\<lparr>tb_rows := tb_rows t @ [?second], tb_seq := Suc (tb_seq t)\<rparr>) d1"
  obtain a b ty where n: "normalize_relation dto = (a, b, ty)" by (cases "normalize_relation dto") auto
  have ab: "between a b = between (crl_from_id dto) (crl_to_id dto)"
    using n by (auto simp: normalize_relation_def between_def fun_eq_iff split: option.splits)
  have acc: "relation_type_is_valid (crl_relation_type dto)" "\<not> lag_out_of_range (crl_lag dto)"
    "crl_from_id dto \<noteq> crl_to_id dto" "\<not> related d (crl_from_id dto) (crl_to_id dto)"
    using first(1) by (simp_all add: relation_acceptable_iff)
  have free: "filter (between a b) (tb_rows (db_relations d)) = []"
    using acc(4) by (auto simp: related_def ab filter_empty_conv)
  have "relation_exists a b (interrupted now (Suc k) (\<lambda>_. d1)) (k, d) = (Ok False, Suc k, d)"
    by (simp add: relation_exists_def counted_def count_of_def fetch_one_def sql_value_def run_basic
        run_statement_interrupted free)
  moreover have "?i \<notin> rer_id ` set (tb_rows (db_relations d1))" using key by (simp add: row_of_None)
  ultimately have run: "relation_create dto (interrupted now (Suc k) (\<lambda>_. d1)) (k, d) = (Ok ?second, Suc (Suc k), ?d2)"
    using acc seq
    by (simp add: relation_create_def n run_basic fetch_one_def sql_insert_def run_statement_interrupted Let_def
        new_relation_def [abs_def])
  have "first \<in> set (tb_rows (db_relations d1))" using first(2) by simp
  moreover from this key have "first \<noteq> ?second" by (auto simp: row_of_None image_iff)
  ultimately show ?thesis using run first(3) new_relation_between by auto
qed

theorem racing_creates_relate_twice_witness:
  "\<exists>d1 first second d2. relation_create sample_relation (alone 0) (0, empty_database) = (Ok first, 2, d1) \<and>
     relation_create sample_relation (interrupted 0 1 (\<lambda>_. d1)) (0, empty_database) = (Ok second, 2, d2) \<and>
     first \<noteq> second \<and> {first, second} \<subseteq> set (tb_rows (db_relations d2)) \<and> between 1 2 first \<and> between 1 2 second"
proof -
  have a: "relation_acceptable empty_database sample_relation"
    by (auto simp: relation_acceptable_def sample_relation_def relation_type_is_valid_def related_def empty_database_def
        empty_table_def)
  let ?r = "new_relation sample_relation 1000000000 1"
  let ?d1 = "db_relations_update (\<lambda>t. t\<lparr>tb_rows := tb_rows t @ [?r], tb_seq := Suc (tb_seq t)\<rparr>) empty_database"
  have run: "relation_create sample_relation (alone 0) (0, empty_database) = (Ok ?r, Suc (Suc 0), ?d1)"
    using a by (simp add: relation_create_alone relation_acceptable_iff run_insert_empty empty_database_def)
      (simp add: alone_def)
  have "tb_seq (db_relations ?d1) < 2 ^ 63"
    "row_of rer_id (db_relations ?d1) (word_of_nat (tb_seq (db_relations ?d1))) = None"
    by (simp_all add: empty_database_def empty_table_def row_of_def)
  from racing_creates_relate_twice [OF quiet_alone(1) _ run this, where now = 0 and k = 0] run show ?thesis
    by (simp add: empty_database_def sample_relation_def numeral_2_eq_2)
qed

end
