(* ===== verification/Statuses.thy ===== *)
theory Statuses
  imports Schema Keys
begin

section \<open>Statuses of work packages (op-db)\<close>

text \<open>
  \<open>op-db/src/statuses.rs\<close>.  \<open>lower\<close> is the function \<open>LOWER\<close> of the database, which depends on its
  locale.
\<close>

subsection \<open>The repository\<close>

definition status_row_is_closed :: "status_row \<Rightarrow> bool" where
  "status_row_is_closed r = str_is_closed r"

definition status_row_is_default :: "status_row \<Rightarrow> bool" where
  "status_row_is_default r = str_is_default r"

definition status_row_is_readonly :: "status_row \<Rightarrow> bool" where
  "status_row_is_readonly r = str_is_readonly r"

record create_status_dto =
  cst_name :: string
  cst_is_closed :: bool
  cst_is_default :: bool
  cst_is_readonly :: bool
  cst_position :: "i32 option"
  cst_default_done_ratio :: i32
  cst_color_id :: "Id option"

record update_status_dto =
  ust_name :: "string option"
  ust_is_closed :: "bool option"
  ust_is_default :: "bool option"
  ust_is_readonly :: "bool option"
  ust_position :: "i32 option"
  ust_default_done_ratio :: "i32 option"
  ust_color_id :: "Id option"

definition statuses_by_position :: "(status_row \<Rightarrow> bool) \<Rightarrow> database \<Rightarrow> status_row list" where
  "statuses_by_position p d = sort_key (\<lambda>r. sint (str_position r)) (filter p (tb_rows (db_statuses d)))"

definition status_find_default :: "(database, status_row option) dbop" where
  "status_find_default = fetch_optional (sql_select (\<lambda>d. take 1 (filter str_is_default (tb_rows (db_statuses d)))))"

definition status_find_closed :: "(database, status_row list) dbop" where
  "status_find_closed = fetch_all (sql_select (statuses_by_position str_is_closed))"

definition status_find_open :: "(database, status_row list) dbop" where
  "status_find_open = fetch_all (sql_select (statuses_by_position (\<lambda>r. \<not> str_is_closed r)))"

definition status_find_by_name :: "(string \<Rightarrow> string) \<Rightarrow> string \<Rightarrow> (database, status_row option) dbop" where
  "status_find_by_name lower name =
     fetch_optional (sql_select (\<lambda>d. filter (\<lambda>r. lower (str_name r) = lower name) (tb_rows (db_statuses d))))"

definition status_is_name_unique :: "(string \<Rightarrow> string) \<Rightarrow> string \<Rightarrow> Id option \<Rightarrow> (database, bool) dbop" where
  "status_is_name_unique lower name exclude_id =
     (case exclude_id of
        Some i \<Rightarrow> fetch_one (sql_value (\<lambda>d.
          \<not> (\<exists>r \<in> set (tb_rows (db_statuses d)). lower (str_name r) = lower name \<and> str_id r \<noteq> i)))
      | None \<Rightarrow> fetch_one (sql_value (\<lambda>d.
          \<not> (\<exists>r \<in> set (tb_rows (db_statuses d)). lower (str_name r) = lower name))))"

definition status_get_max_position :: "(database, i32) dbop" where
  "status_get_max_position =
     and_then (fetch_one (sql_value (\<lambda>d. max_i32 (map str_position (tb_rows (db_statuses d)))))) (\<lambda>max_pos.
     ret (case max_pos of Some n \<Rightarrow> n | None \<Rightarrow> 0))"

definition status_clear :: "timestamp \<Rightarrow> status_row \<Rightarrow> status_row" where
  "status_clear now r = r\<lparr>str_is_default := False, str_updated_at := now\<rparr>"

definition status_clear_default_except :: "Id \<Rightarrow> (database, unit) dbop" where
  "status_clear_default_except i = execute (sql_update db_statuses db_statuses_update (\<lambda>r. str_id r \<noteq> i) status_clear)"

definition status_find_by_id :: "Id \<Rightarrow> (database, status_row option) dbop" where
  "status_find_by_id = find_row str_id db_statuses"

definition status_find_all :: "i64 \<Rightarrow> i64 \<Rightarrow> (database, status_row list) dbop" where
  "status_find_all limit offset = fetch_all (sql_select_page limit offset (statuses_by_position (\<lambda>_. True)))"

definition status_count :: "(database, i64) dbop" where
  "status_count = count_of db_statuses (\<lambda>_. True)"

definition new_status :: "create_status_dto \<Rightarrow> i32 \<Rightarrow> timestamp \<Rightarrow> Id \<Rightarrow> status_row" where
  "new_status dto position now i =
     \<lparr>str_id = i, str_name = cst_name dto, str_is_closed = cst_is_closed dto, str_is_default = cst_is_default dto,
      str_is_readonly = cst_is_readonly dto, str_position = position, str_default_done_ratio = cst_default_done_ratio dto,
      str_color_id = cst_color_id dto, str_created_at = now, str_updated_at = now\<rparr>"

definition done_ratio_error :: repository_error where
  "done_ratio_error = RepoValidation ''default_done_ratio must be between 0 and 100''"

definition status_name_taken :: repository_error where
  "status_name_taken = RepoConflict ''Status name has already been taken''"

definition status_not_found :: "Id \<Rightarrow> repository_error" where
  "status_not_found i = RepoNotFound (''Status with id '' @ show_i64 i @ '' not found'')"

definition status_create :: "(string \<Rightarrow> string) \<Rightarrow> create_status_dto \<Rightarrow> (database, status_row) dbop" where
  "status_create lower dto =
     (if sint (cst_default_done_ratio dto) < 0 \<or> 100 < sint (cst_default_done_ratio dto) then fail done_ratio_error
      else if cst_is_default dto \<and> cst_is_readonly dto
           then fail (RepoValidation ''Default status cannot be read-only'')
      else and_then (status_is_name_unique lower (cst_name dto) None) (\<lambda>unique.
        if \<not> unique then fail status_name_taken
        else and_then (case cst_position dto of
                 Some pos \<Rightarrow> ret pos
               | None \<Rightarrow> and_then status_get_max_position (\<lambda>m. ret (m + 1))) (\<lambda>position.
        and_then (fetch_one (sql_insert str_id db_statuses db_statuses_update (new_status dto position))) (\<lambda>row.
        and_then (do_if (cst_is_default dto) (status_clear_default_except (str_id row))) (\<lambda>_.
        ret row)))))"

definition updated_status :: "update_status_dto \<Rightarrow> timestamp \<Rightarrow> status_row \<Rightarrow> status_row" where
  "updated_status dto now r = r\<lparr>
     str_name := coalesce (ust_name dto) (str_name r),
     str_is_closed := coalesce (ust_is_closed dto) (str_is_closed r),
     str_is_default := coalesce (ust_is_default dto) (str_is_default r),
     str_is_readonly := coalesce (ust_is_readonly dto) (str_is_readonly r),
     str_position := coalesce (ust_position dto) (str_position r),
     str_default_done_ratio := coalesce (ust_default_done_ratio dto) (str_default_done_ratio r),
     str_color_id := coalesce_opt (ust_color_id dto) (str_color_id r),
     str_updated_at := now\<rparr>"

definition status_update ::
    "(string \<Rightarrow> string) \<Rightarrow> Id \<Rightarrow> update_status_dto \<Rightarrow> (database, status_row) dbop" where
  "status_update lower i dto =
     (if (case ust_default_done_ratio dto of Some ratio \<Rightarrow> sint ratio < 0 \<or> 100 < sint ratio | None \<Rightarrow> False)
      then fail done_ratio_error
      else and_then (case ust_name dto of
               Some name \<Rightarrow> status_is_name_unique lower name (Some i)
             | None \<Rightarrow> ret True) (\<lambda>unique.
        if \<not> unique then fail status_name_taken
        else and_then (or_fail (status_not_found i) (fetch_optional (sql_update db_statuses db_statuses_update
               (\<lambda>r. str_id r = i) (updated_status dto)))) (\<lambda>row.
        and_then (do_if (ust_is_default dto = Some True) (status_clear_default_except i)) (\<lambda>_.
        ret row))))"

definition status_delete :: "Id \<Rightarrow> (database, unit) dbop" where
  "status_delete i =
     and_then (row_exists db_work_packages (\<lambda>w. wpr_status_id w = i)) (\<lambda>has_work_packages.
     if has_work_packages
     then fail (RepoConflict ''Cannot delete status: work packages are using this status'')
     else or_fail_zero (status_not_found i)
            (rows_affected (sql_delete db_statuses db_statuses_update (\<lambda>r. str_id r = i))))"

definition status_exists :: "Id \<Rightarrow> (database, bool) dbop" where
  "status_exists i = row_exists db_statuses (\<lambda>r. str_id r = i)"

subsection \<open>What is stored\<close>

interpretation statuses: default_table str_id "db_statuses :: database \<Rightarrow> _" db_statuses_update "\<lambda>r. lower (str_name r)" "\<lambda>_. True" str_is_default status_clear
    for lower
  by unfold_locales (simp_all add: status_clear_def)

definition status_ok :: "status_row \<Rightarrow> bool" where
  "status_ok r \<longleftrightarrow> sint (str_default_done_ratio r) \<in> {0..100}"

abbreviation statuses_ok :: "database \<Rightarrow> bool" where
  "statuses_ok d \<equiv> all_rows status_ok (db_statuses d)"

lemma new_status_fields [simp]:
  "str_id (new_status dto pos now i) = i" "str_name (new_status dto pos now i) = cst_name dto"
  "str_is_default (new_status dto pos now i) = cst_is_default dto"
  by (simp_all add: new_status_def)

lemma updated_status_fields [simp]:
  "str_id (updated_status dto now r) = str_id r" "str_name (updated_status dto now r) = coalesce (ust_name dto) (str_name r)"
  "str_is_default (updated_status dto now r) = coalesce (ust_is_default dto) (str_is_default r)"
  by (simp_all add: updated_status_def)

lemma status_clear_holds: "holds statuses_ok (status_clear_default_except i) (\<lambda>_. True)"
  unfolding status_clear_default_except_def
  by (rule statuses.holds_update(3)) (simp add: status_clear_def status_ok_def)

lemma status_name_holds: "holds I (status_is_name_unique lower n x) (\<lambda>_. True)"
  unfolding status_is_name_unique_def by (intro holds_intro)

lemma status_create_holds: "holds statuses_ok (status_create lower dto) (\<lambda>_. True)"
  unfolding status_create_def status_get_max_position_def do_if_def
  by (intro holds_intro status_name_holds status_clear_holds holds_true [OF statuses.holds_insert])
    (auto simp: status_ok_def new_status_def)

lemma status_update_holds: "holds statuses_ok (status_update lower i dto) (\<lambda>_. True)"
  unfolding status_update_def do_if_def
  by (intro holds_intro status_name_holds status_clear_holds holds_true [OF holds_or_fail [OF statuses.holds_update(2)]])
    (auto simp: status_ok_def updated_status_def coalesce_def split: option.splits)

lemma status_delete_holds: "holds statuses_ok (status_delete i) (\<lambda>_. True)"
  unfolding status_delete_def
  by (intro holds_intro holds_or_fail_zero statuses.holds_delete)

subsection \<open>One session\<close>

abbreviation statuses_inv :: "(string \<Rightarrow> string) \<Rightarrow> bool \<Rightarrow> database \<Rightarrow> bool" where
  "statuses_inv lower \<equiv> default_inv str_id db_statuses (\<lambda>_. True) str_is_default (\<lambda>r. lower (str_name r))"

abbreviation status_name_free :: "(string \<Rightarrow> string) \<Rightarrow> string \<Rightarrow> (Id \<Rightarrow> bool) \<Rightarrow> database \<Rightarrow> bool" where
  "status_name_free lower \<equiv> free_key str_id db_statuses (\<lambda>_. True) (\<lambda>r. lower (str_name r))"

lemma status_name_triple:
  "(\<And>d. P d \<Longrightarrow> E d) \<Longrightarrow> triple fl P (status_is_name_unique lower n x)
    (\<lambda>b d. P d \<and> (b \<longrightarrow> status_name_free lower (lower n) (\<lambda>j. Some j \<noteq> x) d)) E"
  unfolding status_is_name_unique_def
  by (cases x; simp; rule triple_post, rule triple_value) (auto simp: free_key_def)

lemma status_position_keeps:
  "(\<And>d. P d \<Longrightarrow> E d) \<Longrightarrow>
   triple fl P (case p of Some pos \<Rightarrow> ret pos | None \<Rightarrow> and_then status_get_max_position (\<lambda>m. ret (m + 1))) (\<lambda>_. P) E"
  unfolding status_get_max_position_def by (intro triple_keep)

lemmas insert_status_triple =
  statuses.insert_default_triple [where mk = "new_status dto position" and b = "cst_is_default dto" and c = "lower (cst_name dto)" for dto position lower,
    unfolded simp_thms, folded status_clear_default_except_def]

lemma status_create_triple:
  "triple fl (statuses_inv lower fl) (status_create lower dto) (\<lambda>_. statuses_inv lower fl) (statuses_inv lower fl)"
  unfolding status_create_def
  apply (rule triple_if, rule triple_fail, blast)
  apply (rule triple_if, rule triple_fail, blast)
  apply (rule triple_then, rule status_name_triple, blast)
  apply (rule triple_if, rule triple_fail, blast)
  apply (rule triple_then, rule status_position_keeps, blast)
  apply (rule triple_weaken, rule insert_status_triple)
  apply auto
  done

lemmas update_status_triple =
  statuses.update_default_triple [where f = "updated_status dto" and b = "ust_is_default dto = Some True" for dto,
    unfolded simp_thms, folded status_clear_default_except_def]

lemma status_update_triple:
  "triple fl (statuses_inv lower fl) (status_update lower i dto) (\<lambda>_. statuses_inv lower fl) (statuses_inv lower fl)"
  unfolding status_update_def
proof (rule triple_if, rule triple_fail, blast, rule triple_then)
  let ?ok = "\<lambda>d. statuses_inv lower fl d \<and> (\<forall>n. ust_name dto = Some n \<longrightarrow> status_name_free lower (lower n) (\<lambda>j. j \<noteq> i) d)"
  show "triple fl (\<lambda>d. statuses_inv lower fl d \<and> b)
      (case ust_name dto of Some name \<Rightarrow> status_is_name_unique lower name (Some i) | None \<Rightarrow> ret True)
      (\<lambda>unique d. statuses_inv lower fl d \<and> (unique \<longrightarrow> ?ok d)) (statuses_inv lower fl)" for b
    by (rule triple_case_option, rule triple_ret, simp, rule triple_post, rule status_name_triple) auto
  show "triple fl (\<lambda>d. statuses_inv lower fl d \<and> (unique \<longrightarrow> ?ok d))
    (if \<not> unique then fail status_name_taken
     else and_then (or_fail (status_not_found i) (fetch_optional (sql_update db_statuses db_statuses_update
               (\<lambda>r. str_id r = i) (updated_status dto)))) (\<lambda>row.
        and_then (do_if (ust_is_default dto = Some True) (status_clear_default_except i)) (\<lambda>_. ret row)))
     (\<lambda>_. statuses_inv lower fl) (statuses_inv lower fl)" for unique
    by (rule triple_if, rule triple_fail, blast, rule triple_weaken, rule update_status_triple)
      (auto simp: coalesce_def split: option.splits intro: statuses.own_key_free)
qed

lemma status_delete_triple:
  "triple fl (statuses_inv lower fl) (status_delete i) (\<lambda>_. statuses_inv lower fl) (statuses_inv lower fl)"
  unfolding status_delete_def
  by (rule triple_then, rule row_exists_keep, assumption, rule triple_if, rule triple_fail, blast,
      rule triple_weaken, rule statuses.delete_rows_triple) auto

subsection \<open>A repository\<close>

abbreviation statuses_table :: "database \<Rightarrow> bool" where
  "statuses_table d \<equiv> table_ok str_id (db_statuses d)"

lemma status_create_law:
  "triple False (\<lambda>d. d = d0 \<and> statuses_table d) (status_create lower dto)
    (\<lambda>r. statuses.created_from d0 r) (statuses.refused_from d0)"
  unfolding status_create_def
  by (rule triple_if, rule triple_fail, blast, rule triple_if, rule triple_fail, blast, rule triple_then,
      rule status_name_triple, blast, rule triple_if, rule triple_fail, blast, rule triple_then,
      rule status_position_keeps, blast, rule triple_weaken,
      rule statuses.insert_default_law [where mk = "new_status dto position" for position,
        unfolded simp_thms, folded status_clear_default_except_def]) auto

lemma status_update_law:
  "triple False (\<lambda>d. d = d0 \<and> statuses_table d) (status_update lower i dto)
    (\<lambda>r. statuses.updated_from d0 i r) (statuses.refused_from d0)"
  unfolding status_update_def
  by (rule triple_if, rule triple_fail, blast, rule triple_then [where R = "\<lambda>_ d. d = d0 \<and> statuses_table d"],
      rule triple_case_option, rule triple_ret, blast, rule triple_post, rule status_name_triple, blast, blast,
      rule triple_if, rule triple_fail, blast, rule triple_weaken,
      rule statuses.update_default_law [where f = "updated_status dto",
        unfolded simp_thms, folded status_clear_default_except_def]) auto

interpretation status_repository: repository str_id statuses_table "\<lambda>d. row_of str_id (db_statuses d)"
    status_find_by_id status_exists "status_create lower" "status_update lower" status_delete for lower
proof (unfold_locales, goal_cases)
  case (1 env d i k)
  then show ?case by (simp add: status_find_by_id_def statuses.run_table)
next
  case (2 env d i k)
  then show ?case by (auto simp: status_exists_def statuses.run_table row_of_None)
next
  case (3 env d c k x k' d')
  from statuses.lawful_quietly(1) [OF 3 status_create_law] show ?case by simp
next
  case (4 env d i u k x k' d')
  from statuses.lawful_quietly(2) [OF 4 status_update_law] show ?case by simp
next
  case (5 env d i k y k' d')
  then show ?case
    using statuses.delete_scoped_law [OF 5(1,2), of _ i "Suc k" y k' d']
    by (auto simp: status_delete_def run_simps statuses.run_table split: if_splits)
qed

subsection \<open>Histories\<close>

datatype status_request =
  CreateStatus create_status_dto | UpdateStatus Id update_status_dto | DeleteStatus Id

fun perform_status :: "(string \<Rightarrow> string) \<Rightarrow> status_request \<Rightarrow> (database, unit) dbop" where
  "perform_status lower (CreateStatus dto) = and_then (status_create lower dto) (\<lambda>_. ret ())"
| "perform_status lower (UpdateStatus i dto) = and_then (status_update lower i dto) (\<lambda>_. ret ())"
| "perform_status lower (DeleteStatus i) = status_delete i"

lemma perform_status_holds: "holds statuses_ok (perform_status lower q) (\<lambda>_. True)"
  by (cases q) (auto intro: holds_intro status_create_holds status_update_holds status_delete_holds)

lemma perform_status_triple:
  "triple fl (statuses_inv lower fl) (perform_status lower q) (\<lambda>_. statuses_inv lower fl) (statuses_inv lower fl)"
  by (cases q) (auto intro: triple_then triple_ret status_create_triple status_update_triple status_delete_triple)

definition sample_status :: create_status_dto where
  "sample_status = \<lparr>cst_name = ''New'', cst_is_closed = False, cst_is_default = True, cst_is_readonly = False,
     cst_position = Some 1, cst_default_done_ratio = 0, cst_color_id = None\<rparr>"

text \<open>
  Statuses.  As long as requests come one after the other, keys and names (compared as the database
  lowers them) stay unique, even when statements fail in between; if none fails, there is never more
  than one default.  Whatever other sessions do as long as they keep it, the done ratios are percentages.
\<close>

theorem statuses_consistent:
  assumes "table_ok str_id (db_statuses d)" "unique_by str_id (\<lambda>_. True) (\<lambda>r. lower (str_name r)) (db_statuses d)"
    and "history (perform_status lower) reqs env (k, d) = (k', d')"
  shows "(calm True env \<longrightarrow> table_ok str_id (db_statuses d') \<and>
           unique_by str_id (\<lambda>_. True) (\<lambda>r. lower (str_name r)) (db_statuses d')) \<and>
         (quiet env \<and> at_most_one str_id str_is_default (db_statuses d) \<longrightarrow>
           at_most_one str_id str_is_default (db_statuses d')) \<and>
         (well_behaved statuses_ok env \<and> statuses_ok d \<longrightarrow>
           (\<forall>r \<in> set (tb_rows (db_statuses d')). sint (str_default_done_ratio r) \<in> {0..100}))"
proof (intro conjI impI)
  have d': "d' = snd (history (perform_status lower) reqs env (k, d))" using assms(3) by simp
  show "table_ok str_id (db_statuses d')" "unique_by str_id (\<lambda>_. True) (\<lambda>r. lower (str_name r)) (db_statuses d')"
    if "calm True env"
    using history_calm [where I = "statuses_inv lower True" and perform = "perform_status lower" and d = d and qs = reqs and k = k, OF that perform_status_triple] assms(1,2) by (simp_all add: d' default_inv_def)
  show "at_most_one str_id str_is_default (db_statuses d')"
    if "quiet env \<and> at_most_one str_id str_is_default (db_statuses d)"
    using history_calm [where I = "statuses_inv lower False" and perform = "perform_status lower" and d = d and qs = reqs and k = k and env = env, OF _ perform_status_triple] that assms(1,2)
    by (simp add: d' default_inv_def)
  show "\<forall>r \<in> set (tb_rows (db_statuses d')). sint (str_default_done_ratio r) \<in> {0..100}"
    if "well_behaved statuses_ok env \<and> statuses_ok d"
  proof -
    from that have env: "well_behaved statuses_ok env" and d: "statuses_ok d" by blast+
    have "statuses_ok d'" unfolding d' by (rule history_holds [OF env perform_status_holds d])
    then show ?thesis by (simp add: all_rows_def status_ok_def)
  qed
qed

theorem statuses_consistent_witness:
  "(case history (perform_status (\<lambda>n. n)) [CreateStatus sample_status, CreateStatus sample_status] (alone 0) (0, empty_database) of
     (k', d') \<Rightarrow> at_most_one str_id str_is_default (db_statuses d'))"
proof -
  let ?h = "history (perform_status (\<lambda>n. n)) [CreateStatus sample_status, CreateStatus sample_status] (alone 0) (0, empty_database)"
  obtain k' d' where run: "?h = (k', d')" by (cases ?h)
  have "table_ok str_id (db_statuses empty_database)"
    "unique_by str_id (\<lambda>_. True) (\<lambda>r. (\<lambda>n. n) (str_name r)) (db_statuses empty_database)"
    "at_most_one str_id str_is_default (db_statuses empty_database)"
    by (simp_all add: empty_database_def)
  with statuses_consistent [OF this(1,2) run] have "at_most_one str_id str_is_default (db_statuses d')" by simp
  then show ?thesis by (simp only: run prod.case)
qed

text \<open>
  No transaction.  A default status is created in two statements.  When the second one fails, the
  request answers an error, but the status has been stored, and there are two defaults.
\<close>

theorem failed_create_leaves_two_defaults:
  assumes "table_ok str_id (db_statuses d)" "old \<in> set (tb_rows (db_statuses d))" "str_is_default old"
    and "sint (cst_default_done_ratio dto) \<in> {0..100}" "cst_is_default dto" "\<not> cst_is_readonly dto" "cst_position dto = Some pos"
    and "\<forall>r \<in> set (tb_rows (db_statuses d)). lower (str_name r) \<noteq> lower (cst_name dto)"
    and "tb_seq (db_statuses d) < 2 ^ 63" "row_of str_id (db_statuses d) (word_of_nat (tb_seq (db_statuses d))) = None"
  shows "\<exists>d' new. status_create lower dto (faulty now (k + 2) e) (k, d) = (Err (RepoDatabase (SqlFault e)), k + 3, d') \<and>
     old \<noteq> new \<and> {old, new} \<subseteq> set (tb_rows (db_statuses d')) \<and> str_is_default old \<and> str_is_default new"
proof -
  let ?i = "word_of_nat (tb_seq (db_statuses d)) :: Id"
  let ?new = "new_status dto pos now ?i"
  let ?d = "db_statuses_update (\<lambda>t. t\<lparr>tb_rows := tb_rows t @ [?new], tb_seq := Suc (tb_seq t)\<rparr>) d"
  have "?i \<notin> str_id ` set (tb_rows (db_statuses d))" using assms(10) by (simp add: row_of_None)
  then have "status_create lower dto (faulty now (k + 2) e) (k, d) = (Err (RepoDatabase (SqlFault e)), k + 3, ?d)"
    using assms(4-9)
    by (auto simp: status_create_def status_is_name_unique_def fetch_one_def sql_value_def sql_insert_def do_if_def
        status_clear_default_except_def execute_def run_basic run_statement_faulty Let_def)
  moreover have "old \<noteq> ?new" using assms(2,10) by (auto simp: row_of_None image_iff)
  ultimately show ?thesis using assms(2,3,5) by (intro exI [of _ ?d] exI [of _ ?new]) simp
qed

definition one_status :: database where
  "one_status = empty_database\<lparr>db_statuses := \<lparr>tb_rows = [new_status (sample_status\<lparr>cst_name := ''Open''\<rparr>) 0 0 1], tb_seq = 2\<rparr>\<rparr>"

theorem failed_create_leaves_two_defaults_witness:
  "\<exists>d' old new. status_create (\<lambda>n. n) sample_status (faulty 0 2 ''connection lost'') (0, one_status) =
       (Err (RepoDatabase (SqlFault ''connection lost'')), 3, d') \<and>
     old \<noteq> new \<and> {old, new} \<subseteq> set (tb_rows (db_statuses d')) \<and> str_is_default old \<and> str_is_default new"
proof -
  let ?old = "new_status (sample_status\<lparr>cst_name := ''Open''\<rparr>) 0 0 1"
  have "table_ok str_id (db_statuses one_status)" "?old \<in> set (tb_rows (db_statuses one_status))" "str_is_default ?old"
    "sint (cst_default_done_ratio sample_status) \<in> {0..100}" "cst_is_default sample_status"
    "\<not> cst_is_readonly sample_status" "cst_position sample_status = Some 1"
    "\<forall>r \<in> set (tb_rows (db_statuses one_status)). (\<lambda>n. n) (str_name r) \<noteq> (\<lambda>n. n) (cst_name sample_status)"
    "tb_seq (db_statuses one_status) < 2 ^ 63" "row_of str_id (db_statuses one_status) (word_of_nat (tb_seq (db_statuses one_status))) = None"
    by (simp_all add: one_status_def table_ok_def sample_status_def row_of_def)
  from failed_create_leaves_two_defaults [OF this, where k = 0 and now = 0 and e = "''connection lost''"] show ?thesis
    unfolding add_0 by blast
qed

end
