(* ===== verification/Enumerations.thy ===== *)
theory Enumerations
  imports Schema Keys
begin

section \<open>Priorities and activities (op-db)\<close>

text \<open>
  \<open>op-db/src/priorities.rs\<close> and \<open>op-db/src/activities.rs\<close>: two repositories over the table
  \<open>enumerations\<close>, told apart by the column \<open>type\<close>.
\<close>

definition PRIORITY_TYPE :: string where "PRIORITY_TYPE = ''IssuePriority''"
definition ACTIVITY_TYPE :: string where "ACTIVITY_TYPE = ''TimeEntryActivity''"

definition is_priority :: "enumeration_row \<Rightarrow> bool" where
  "is_priority r \<longleftrightarrow> enr_type r = PRIORITY_TYPE"

definition is_activity :: "enumeration_row \<Rightarrow> bool" where
  "is_activity r \<longleftrightarrow> enr_type r = ACTIVITY_TYPE"

definition enumerations_by_position :: "(enumeration_row \<Rightarrow> bool) \<Rightarrow> database \<Rightarrow> enumeration_row list" where
  "enumerations_by_position p d = sort_key (\<lambda>r. sint (enr_position r)) (filter p (tb_rows (db_enumerations d)))"

text \<open>
  The rows whose name, as the database lowers it, is taken in a project (or among the shared ones);
  both repositories ask whether there is none.
\<close>

definition same_name :: "(string \<Rightarrow> string) \<Rightarrow> string \<Rightarrow> Id option \<Rightarrow> Id option \<Rightarrow> enumeration_row \<Rightarrow> bool" where
  "same_name lower name project_id exclude_id r \<longleftrightarrow>
     lower (enr_name r) = lower name \<and> enr_project_id r = project_id \<and>
     (case exclude_id of Some i \<Rightarrow> enr_id r \<noteq> i | None \<Rightarrow> True)"

subsection \<open>Priorities\<close>

definition priority_row_is_default :: "enumeration_row \<Rightarrow> bool" where
  "priority_row_is_default r = enr_is_default r"

definition priority_row_is_active :: "enumeration_row \<Rightarrow> bool" where
  "priority_row_is_active r = enr_active r"

definition priority_row_is_shared :: "enumeration_row \<Rightarrow> bool" where
  "priority_row_is_shared r \<longleftrightarrow> enr_project_id r = None"

record create_priority_dto =
  cpy_name :: string
  cpy_position :: "i32 option"
  cpy_is_default :: bool
  cpy_active :: bool
  cpy_color_id :: "Id option"
  cpy_project_id :: "Id option"

record update_priority_dto =
  upy_name :: "string option"
  upy_position :: "i32 option"
  upy_is_default :: "bool option"
  upy_active :: "bool option"
  upy_color_id :: "Id option"

definition priority_find_default :: "(database, enumeration_row option) dbop" where
  "priority_find_default =
     fetch_optional (sql_select (\<lambda>d. take 1 (filter (\<lambda>r. is_priority r \<and> enr_is_default r) (tb_rows (db_enumerations d)))))"

definition priority_find_active :: "(database, enumeration_row list) dbop" where
  "priority_find_active = fetch_all (sql_select (enumerations_by_position (\<lambda>r. is_priority r \<and> enr_active r)))"

definition priority_find_shared :: "(database, enumeration_row list) dbop" where
  "priority_find_shared = fetch_all (sql_select (enumerations_by_position (\<lambda>r. is_priority r \<and> enr_project_id r = None)))"

definition priority_find_by_project :: "Id \<Rightarrow> (database, enumeration_row list) dbop" where
  "priority_find_by_project project_id = fetch_all (sql_select (enumerations_by_position (\<lambda>r.
     is_priority r \<and> (enr_project_id r = Some project_id \<or> enr_project_id r = None))))"

definition priority_find_by_name :: "(string \<Rightarrow> string) \<Rightarrow> string \<Rightarrow> (database, enumeration_row option) dbop" where
  "priority_find_by_name lower name = fetch_optional (sql_select (\<lambda>d.
     filter (\<lambda>r. is_priority r \<and> lower (enr_name r) = lower name \<and> enr_project_id r = None) (tb_rows (db_enumerations d))))"

definition priority_is_name_unique ::
    "(string \<Rightarrow> string) \<Rightarrow> string \<Rightarrow> Id option \<Rightarrow> Id option \<Rightarrow> (database, bool) dbop" where
  "priority_is_name_unique lower name project_id exclude_id =
     fetch_one (sql_value (\<lambda>d.
       \<not> (\<exists>r \<in> set (tb_rows (db_enumerations d)). is_priority r \<and> same_name lower name project_id exclude_id r)))"

definition priority_get_max_position :: "(database, i32) dbop" where
  "priority_get_max_position =
     and_then (fetch_one (sql_value (\<lambda>d. max_i32 (map enr_position (filter is_priority (tb_rows (db_enumerations d))))))) (\<lambda>max_pos.
     ret (case max_pos of Some n \<Rightarrow> n | None \<Rightarrow> 0))"

definition priority_clear :: "timestamp \<Rightarrow> enumeration_row \<Rightarrow> enumeration_row" where
  "priority_clear now r = r\<lparr>enr_is_default := False, enr_updated_at := now\<rparr>"

definition priority_clear_default_except :: "Id \<Rightarrow> (database, unit) dbop" where
  "priority_clear_default_except i =
     execute (sql_update db_enumerations db_enumerations_update (\<lambda>r. is_priority r \<and> enr_id r \<noteq> i) priority_clear)"

definition priority_find_by_id :: "Id \<Rightarrow> (database, enumeration_row option) dbop" where
  "priority_find_by_id i =
     fetch_optional (sql_select (\<lambda>d. filter (\<lambda>r. enr_id r = i \<and> is_priority r) (tb_rows (db_enumerations d))))"

definition priority_find_all :: "i64 \<Rightarrow> i64 \<Rightarrow> (database, enumeration_row list) dbop" where
  "priority_find_all limit offset = fetch_all (sql_select_page limit offset (enumerations_by_position is_priority))"

definition priority_count :: "(database, i64) dbop" where
  "priority_count = count_of db_enumerations is_priority"

definition new_priority :: "create_priority_dto \<Rightarrow> i32 \<Rightarrow> timestamp \<Rightarrow> Id \<Rightarrow> enumeration_row" where
  "new_priority dto position now i =
     \<lparr>enr_id = i, enr_type = PRIORITY_TYPE, enr_name = cpy_name dto, enr_position = position,
      enr_is_default = cpy_is_default dto, enr_active = cpy_active dto, enr_color_id = cpy_color_id dto,
      enr_project_id = cpy_project_id dto, enr_parent_id = None, enr_created_at = now, enr_updated_at = now\<rparr>"

definition priority_name_taken :: repository_error where
  "priority_name_taken = RepoConflict ''Priority name has already been taken''"

definition priority_not_found :: "Id \<Rightarrow> repository_error" where
  "priority_not_found i = RepoNotFound (''Priority with id '' @ show_i64 i @ '' not found'')"

definition priority_create :: "(string \<Rightarrow> string) \<Rightarrow> create_priority_dto \<Rightarrow> (database, enumeration_row) dbop" where
  "priority_create lower dto =
     and_then (priority_is_name_unique lower (cpy_name dto) (cpy_project_id dto) None) (\<lambda>unique.
     if \<not> unique then fail priority_name_taken
     else and_then (case cpy_position dto of
              Some pos \<Rightarrow> ret pos
            | None \<Rightarrow> and_then priority_get_max_position (\<lambda>m. ret (m + 1))) (\<lambda>position.
     and_then (fetch_one (sql_insert enr_id db_enumerations db_enumerations_update (new_priority dto position))) (\<lambda>row.
     and_then (do_if (cpy_is_default dto) (priority_clear_default_except (enr_id row))) (\<lambda>_.
     ret row))))"

definition updated_priority :: "update_priority_dto \<Rightarrow> timestamp \<Rightarrow> enumeration_row \<Rightarrow> enumeration_row" where
  "updated_priority dto now r = r\<lparr>
     enr_name := coalesce (upy_name dto) (enr_name r),
     enr_position := coalesce (upy_position dto) (enr_position r),
     enr_is_default := coalesce (upy_is_default dto) (enr_is_default r),
     enr_active := coalesce (upy_active dto) (enr_active r),
     enr_color_id := coalesce_opt (upy_color_id dto) (enr_color_id r),
     enr_updated_at := now\<rparr>"

definition priority_update ::
    "(string \<Rightarrow> string) \<Rightarrow> Id \<Rightarrow> update_priority_dto \<Rightarrow> (database, enumeration_row) dbop" where
  "priority_update lower i dto =
     and_then (case upy_name dto of
         Some name \<Rightarrow> and_then (priority_find_by_id i) (\<lambda>existing.
           case existing of
             Some r \<Rightarrow> priority_is_name_unique lower name (enr_project_id r) (Some i)
           | None \<Rightarrow> ret True)
       | None \<Rightarrow> ret True) (\<lambda>unique.
     if \<not> unique then fail priority_name_taken
     else and_then (or_fail (priority_not_found i) (fetch_optional (sql_update db_enumerations db_enumerations_update
            (\<lambda>r. enr_id r = i \<and> is_priority r) (updated_priority dto)))) (\<lambda>row.
     and_then (do_if (upy_is_default dto = Some True) (priority_clear_default_except i)) (\<lambda>_.
     ret row)))"

definition priority_delete :: "Id \<Rightarrow> (database, unit) dbop" where
  "priority_delete i =
     and_then (row_exists db_work_packages (\<lambda>w. wpr_priority_id w = Some i)) (\<lambda>has_work_packages.
     if has_work_packages
     then fail (RepoConflict ''Cannot delete priority: work packages are using this priority'')
     else or_fail_zero (priority_not_found i)
            (rows_affected (sql_delete db_enumerations db_enumerations_update (\<lambda>r. enr_id r = i \<and> is_priority r))))"

definition priority_exists :: "Id \<Rightarrow> (database, bool) dbop" where
  "priority_exists i = row_exists db_enumerations (\<lambda>r. enr_id r = i \<and> is_priority r)"

subsection \<open>Activities\<close>

record create_activity_dto =
  cay_name :: string
  cay_position :: "i32 option"
  cay_is_default :: "bool option"
  cay_active :: "bool option"
  cay_project_id :: "Id option"
  cay_parent_id :: "Id option"

record update_activity_dto =
  uay_name :: "string option"
  uay_position :: "i32 option"
  uay_is_default :: "bool option"
  uay_active :: "bool option"

definition activity_find_shared :: "(database, enumeration_row list) dbop" where
  "activity_find_shared = fetch_all (sql_select (enumerations_by_position (\<lambda>r. is_activity r \<and> enr_project_id r = None)))"

definition activity_find_by_project :: "Id \<Rightarrow> (database, enumeration_row list) dbop" where
  "activity_find_by_project project_id = fetch_all (sql_select (enumerations_by_position (\<lambda>r.
     is_activity r \<and> (enr_project_id r = None \<or> enr_project_id r = Some project_id))))"

definition activity_find_active_by_project :: "Id \<Rightarrow> (database, enumeration_row list) dbop" where
  "activity_find_active_by_project project_id = fetch_all (sql_select (enumerations_by_position (\<lambda>r.
     is_activity r \<and> (enr_project_id r = None \<or> enr_project_id r = Some project_id) \<and> enr_active r)))"

definition activity_find_default :: "(database, enumeration_row option) dbop" where
  "activity_find_default =
     fetch_optional (sql_select (\<lambda>d. filter (\<lambda>r. is_activity r \<and> enr_is_default r) (tb_rows (db_enumerations d))))"

definition activity_is_name_unique ::
    "(string \<Rightarrow> string) \<Rightarrow> string \<Rightarrow> Id option \<Rightarrow> Id option \<Rightarrow> (database, bool) dbop" where
  "activity_is_name_unique lower name project_id exclude_id =
     and_then (count_of db_enumerations (\<lambda>r. is_activity r \<and> same_name lower name project_id exclude_id r)) (\<lambda>count.
     ret (count = 0))"

definition activity_next_position :: "(database, i32) dbop" where
  "activity_next_position =
     and_then (fetch_one (sql_value (\<lambda>d. max_i32 (map enr_position (filter is_activity (tb_rows (db_enumerations d))))))) (\<lambda>max_pos.
     ret ((case max_pos of Some n \<Rightarrow> n | None \<Rightarrow> 0) + 1))"

definition activity_find_by_id :: "Id \<Rightarrow> (database, enumeration_row option) dbop" where
  "activity_find_by_id i =
     fetch_optional (sql_select (\<lambda>d. filter (\<lambda>r. enr_id r = i \<and> is_activity r) (tb_rows (db_enumerations d))))"

definition activity_find_all :: "i64 \<Rightarrow> i64 \<Rightarrow> (database, enumeration_row list) dbop" where
  "activity_find_all limit offset = fetch_all (sql_select_page limit offset (enumerations_by_position is_activity))"

definition activity_count :: "(database, i64) dbop" where
  "activity_count = count_of db_enumerations is_activity"

definition activity_exists :: "Id \<Rightarrow> (database, bool) dbop" where
  "activity_exists i = counted db_enumerations (\<lambda>r. enr_id r = i \<and> is_activity r)"

definition blank_name :: repository_error where
  "blank_name = RepoValidation ''Name can't be blank''"

definition name_taken :: repository_error where
  "name_taken = RepoConflict ''Name has already been taken''"

definition activity_not_found :: "Id \<Rightarrow> repository_error" where
  "activity_not_found i = RepoNotFound (''Activity '' @ show_i64 i @ '' not found'')"

definition unset_activity_defaults :: "(database, unit) dbop" where
  "unset_activity_defaults =
     execute (sql_update db_enumerations db_enumerations_update is_activity (\<lambda>now r. r\<lparr>enr_is_default := False\<rparr>))"

definition new_activity :: "create_activity_dto \<Rightarrow> i32 \<Rightarrow> timestamp \<Rightarrow> Id \<Rightarrow> enumeration_row" where
  "new_activity dto position now i =
     \<lparr>enr_id = i, enr_type = ACTIVITY_TYPE, enr_name = cay_name dto, enr_position = position,
      enr_is_default = (case cay_is_default dto of Some b \<Rightarrow> b | None \<Rightarrow> False),
      enr_active = (case cay_active dto of Some b \<Rightarrow> b | None \<Rightarrow> True), enr_color_id = None,
      enr_project_id = cay_project_id dto, enr_parent_id = cay_parent_id dto, enr_created_at = now, enr_updated_at = now\<rparr>"

definition activity_create :: "(string \<Rightarrow> string) \<Rightarrow> create_activity_dto \<Rightarrow> (database, enumeration_row) dbop" where
  "activity_create lower dto =
     (if trim (cay_name dto) = [] then fail blank_name
      else and_then (activity_is_name_unique lower (cay_name dto) (cay_project_id dto) None) (\<lambda>unique.
        if \<not> unique then fail name_taken
        else and_then (let position = (case cay_position dto of Some p \<Rightarrow> p | None \<Rightarrow> 0)
                       in if position = 0 then activity_next_position else ret position) (\<lambda>position.
        and_then (do_if (case cay_is_default dto of Some b \<Rightarrow> b | None \<Rightarrow> False) unset_activity_defaults) (\<lambda>_.
        fetch_one (sql_insert enr_id db_enumerations db_enumerations_update (new_activity dto position))))))"

definition activity_update ::
    "(string \<Rightarrow> string) \<Rightarrow> Id \<Rightarrow> update_activity_dto \<Rightarrow> (database, enumeration_row) dbop" where
  "activity_update lower i dto =
     and_then (or_fail (activity_not_found i) (activity_find_by_id i)) (\<lambda>existing.
     let name = coalesce (uay_name dto) (enr_name existing);
         position = coalesce (uay_position dto) (enr_position existing);
         is_default = coalesce (uay_is_default dto) (enr_is_default existing);
         active = coalesce (uay_active dto) (enr_active existing)
     in if trim name = [] then fail blank_name
        else and_then (activity_is_name_unique lower name (enr_project_id existing) (Some i)) (\<lambda>unique.
          if \<not> unique then fail name_taken
          else and_then (do_if (is_default \<and> \<not> enr_is_default existing) unset_activity_defaults) (\<lambda>_.
          fetch_one (sql_update db_enumerations db_enumerations_update (\<lambda>r. enr_id r = i \<and> is_activity r)
            (\<lambda>now r. r\<lparr>enr_name := name, enr_position := position, enr_is_default := is_default, enr_active := active,
                      enr_updated_at := now\<rparr>)))))"

definition activity_delete :: "Id \<Rightarrow> (database, unit) dbop" where
  "activity_delete i =
     and_then (activity_exists i) (\<lambda>found.
     if \<not> found then fail (activity_not_found i)
     else and_then (count_of db_time_entries (\<lambda>e. ter_activity_id e = i)) (\<lambda>in_use_count.
       if 0 < sint in_use_count
       then fail (RepoConflict (''Cannot delete activity with '' @ show_i64 in_use_count @ '' time entries''))
       else execute (sql_delete db_enumerations db_enumerations_update (\<lambda>r. enr_id r = i \<and> is_activity r))))"

subsection \<open>Priorities among themselves\<close>

abbreviation default_priority :: "enumeration_row \<Rightarrow> bool" where
  "default_priority r \<equiv> is_priority r \<and> enr_is_default r"

abbreviation name_key :: "(string \<Rightarrow> string) \<Rightarrow> enumeration_row \<Rightarrow> Id option \<times> string" where
  "name_key lower r \<equiv> (enr_project_id r, lower (enr_name r))"

interpretation priorities: default_table enr_id "db_enumerations :: database \<Rightarrow> _" db_enumerations_update "name_key lower" is_priority
    default_priority priority_clear
    for lower
  by unfold_locales (auto simp: priority_clear_def is_priority_def)

abbreviation priorities_inv :: "(string \<Rightarrow> string) \<Rightarrow> bool \<Rightarrow> database \<Rightarrow> bool" where
  "priorities_inv lower \<equiv> default_inv enr_id db_enumerations is_priority default_priority (name_key lower)"

abbreviation priority_name_free :: "(string \<Rightarrow> string) \<Rightarrow> Id option \<times> string \<Rightarrow> (Id \<Rightarrow> bool) \<Rightarrow> database \<Rightarrow> bool" where
  "priority_name_free lower \<equiv> free_key enr_id db_enumerations is_priority (name_key lower)"

abbreviation find_priority :: "database \<Rightarrow> Id \<Rightarrow> enumeration_row option" where
  "find_priority \<equiv> scoped_row enr_id db_enumerations is_priority"

lemma new_priority_fields [simp]:
  "enr_id (new_priority dto pos now i) = i" "enr_name (new_priority dto pos now i) = cpy_name dto"
  "enr_project_id (new_priority dto pos now i) = cpy_project_id dto"
  "enr_is_default (new_priority dto pos now i) = cpy_is_default dto" "is_priority (new_priority dto pos now i)"
  by (simp_all add: new_priority_def is_priority_def)

lemma updated_priority_fields [simp]:
  "enr_id (updated_priority dto now r) = enr_id r" "enr_name (updated_priority dto now r) = coalesce (upy_name dto) (enr_name r)"
  "enr_project_id (updated_priority dto now r) = enr_project_id r" "is_priority (updated_priority dto now r) = is_priority r"
  "enr_is_default (updated_priority dto now r) = coalesce (upy_is_default dto) (enr_is_default r)"
  by (simp_all add: updated_priority_def is_priority_def)

lemma priority_name_triple:
  "(\<And>d. P d \<Longrightarrow> E d) \<Longrightarrow> triple fl P (priority_is_name_unique lower n pr x)
    (\<lambda>b d. P d \<and> (b \<longrightarrow> priority_name_free lower (pr, lower n) (\<lambda>j. Some j \<noteq> x) d)) E"
  unfolding priority_is_name_unique_def
  by (rule triple_post, rule triple_value) (auto simp: free_key_def same_name_def split: option.splits)

lemma priority_position_keeps:
  "(\<And>d. P d \<Longrightarrow> E d) \<Longrightarrow>
   triple fl P (case p of Some pos \<Rightarrow> ret pos | None \<Rightarrow> and_then priority_get_max_position (\<lambda>m. ret (m + 1))) (\<lambda>_. P) E"
  unfolding priority_get_max_position_def by (intro triple_keep)

lemma triple_find_priority:
  assumes "\<And>d. P d \<Longrightarrow> table_ok enr_id (db_enumerations d)" "\<And>d. P d \<Longrightarrow> E d"
  shows "triple fl P (priority_find_by_id i) (\<lambda>v d. P d \<and> v = find_priority d i) E"
  unfolding priority_find_by_id_def fetch_optional_def
  by (rule triple_then, rule triple_statement [where Q = "\<lambda>xs d. P d \<and>
        xs = filter (\<lambda>r. enr_id r = i \<and> is_priority r) (tb_rows (db_enumerations d))"])
    (auto simp: assms sql_select_def head_filter priorities.find_scoped intro: triple_ret)

lemma priority_create_triple:
  "triple fl (priorities_inv lower fl) (priority_create lower dto) (\<lambda>_. priorities_inv lower fl) (priorities_inv lower fl)"
  unfolding priority_create_def
  by (rule triple_then, rule priority_name_triple, assumption, rule triple_if, rule triple_fail, blast, rule triple_then,
      rule priority_position_keeps, blast, rule triple_weaken,
      rule priorities.insert_default_triple [where mk = "new_priority dto position" and b = "cpy_is_default dto"
        and c = "(cpy_project_id dto, lower (cpy_name dto))" for position,
        folded priority_clear_default_except_def]) auto

lemma priority_update_triple:
  "triple fl (priorities_inv lower fl) (priority_update lower i dto) (\<lambda>_. priorities_inv lower fl) (priorities_inv lower fl)"
  unfolding priority_update_def
proof (rule triple_then)
  let ?ok = "\<lambda>d. priorities_inv lower fl d \<and> (\<forall>n r. upy_name dto = Some n \<and> find_priority d i = Some r \<longrightarrow>
    priority_name_free lower (enr_project_id r, lower n) (\<lambda>j. j \<noteq> i) d)"
  show "triple fl (priorities_inv lower fl)
      (case upy_name dto of
         Some name \<Rightarrow> and_then (priority_find_by_id i) (\<lambda>existing.
           case existing of
             Some r \<Rightarrow> priority_is_name_unique lower name (enr_project_id r) (Some i)
           | None \<Rightarrow> ret True)
       | None \<Rightarrow> ret True) (\<lambda>unique d. priorities_inv lower fl d \<and> (unique \<longrightarrow> ?ok d)) (priorities_inv lower fl)"
    apply (rule triple_case_option, rule triple_ret, simp)
    apply (rule triple_then, rule triple_find_priority, simp add: default_inv_def, blast)
    apply (rule triple_case_option, rule triple_ret, simp)
    apply (rule triple_post, rule priority_name_triple, blast, auto)
    done
  show "triple fl (\<lambda>d. priorities_inv lower fl d \<and> (unique \<longrightarrow> ?ok d))
    (if \<not> unique then fail priority_name_taken
     else and_then (or_fail (priority_not_found i) (fetch_optional (sql_update db_enumerations db_enumerations_update
            (\<lambda>r. enr_id r = i \<and> is_priority r) (updated_priority dto)))) (\<lambda>row.
     and_then (do_if (upy_is_default dto = Some True) (priority_clear_default_except i)) (\<lambda>_. ret row)))
     (\<lambda>_. priorities_inv lower fl) (priorities_inv lower fl)" for unique
  proof (rule triple_if, rule triple_fail, blast, rule triple_weaken,
      rule priorities.update_default_triple [where f = "updated_priority dto" and b = "upy_is_default dto = Some True",
        folded priority_clear_default_except_def], goal_cases)
    case (4 d)
    then have inv: "priorities_inv lower fl d" by blast
    then have ok: "table_ok enr_id (db_enumerations d)" by (simp add: default_inv_def)
    have "priority_name_free lower (name_key lower (updated_priority dto now r)) (\<lambda>j. j \<noteq> i) d"
      if r: "r \<in> set (tb_rows (db_enumerations d))" "enr_id r = i" "is_priority r" for r now
    proof (cases "upy_name dto")
      case None
      with priorities.own_key_free [OF inv r(1,3,2)] show ?thesis by simp
    next
      case (Some n)
      moreover have "find_priority d i = Some r" using r by (simp add: priorities.scoped_iff [OF ok])
      ultimately show ?thesis using 4 by simp
    qed
    with inv show "priorities_inv lower fl d \<and> (\<forall>r \<in> set (tb_rows (db_enumerations d)). \<forall>now.
        enr_id r = i \<and> is_priority r \<longrightarrow> priority_name_free lower (name_key lower (updated_priority dto now r)) (\<lambda>j. j \<noteq> i) d)" by blast
  qed (auto simp: coalesce_def split: option.splits)
qed

lemma priority_delete_triple:
  "triple fl (priorities_inv lower fl) (priority_delete i) (\<lambda>_. priorities_inv lower fl) (priorities_inv lower fl)"
  unfolding priority_delete_def
  by (rule triple_then, rule row_exists_keep, assumption, rule triple_if, rule triple_fail, blast,
      rule triple_weaken, rule priorities.delete_rows_triple) auto

abbreviation enumerations_table :: "database \<Rightarrow> bool" where
  "enumerations_table d \<equiv> table_ok enr_id (db_enumerations d)"

lemma priority_create_law:
  "triple False (\<lambda>d. d = d0 \<and> enumerations_table d) (priority_create lower dto)
    (\<lambda>r. priorities.created_from d0 r) (priorities.refused_from d0)"
  unfolding priority_create_def
  by (rule triple_then, rule priority_name_triple, blast, rule triple_if, rule triple_fail, blast, rule triple_then,
      rule priority_position_keeps, blast, rule triple_weaken,
      rule priorities.insert_default_law [where mk = "new_priority dto position" for position,
        folded priority_clear_default_except_def]) auto

lemma priority_update_law:
  "triple False (\<lambda>d. d = d0 \<and> enumerations_table d) (priority_update lower i dto)
    (\<lambda>r. priorities.updated_from d0 i r) (priorities.refused_from d0)"
  unfolding priority_update_def
  apply (rule triple_then [where R = "\<lambda>_ d. d = d0 \<and> enumerations_table d"])
   apply (rule triple_case_option, rule triple_ret, blast)
   apply (rule triple_then, rule triple_find_priority, blast, blast)
   apply (rule triple_case_option, rule triple_ret, blast)
   apply (rule triple_post, rule priority_name_triple, blast, blast)
  apply (rule triple_if, rule triple_fail, blast, rule triple_weaken,
      rule priorities.update_default_law [where f = "updated_priority dto", folded priority_clear_default_except_def])
      apply auto
  done

lemma run_find_priority:
  assumes "quiet env" "enumerations_table d"
  shows "priority_find_by_id i env (k, d) = (Ok (find_priority d i), Suc k, d)"
  using assms by (simp add: priority_find_by_id_def run_simps head_filter priorities.find_scoped)

interpretation priority_repository: repository enr_id enumerations_table find_priority
    priority_find_by_id priority_exists "priority_create lower" "priority_update lower" priority_delete for lower
proof (unfold_locales, goal_cases)
  case (1 env d i k)
  then show ?case by (rule run_find_priority)
next
  case (2 env d i k)
  have "(\<exists>r \<in> set (tb_rows (db_enumerations d)). enr_id r = i \<and> is_priority r) \<longleftrightarrow> find_priority d i \<noteq> None"
    using priorities.scoped_iff [OF 2(2), of i] by auto
  with 2 show ?case by (simp add: priority_exists_def run_simps)
next
  case (3 env d c k x k' d')
  from priorities.lawful_quietly(1) [OF 3 priority_create_law] show ?case .
next
  case (4 env d i u k x k' d')
  from priorities.lawful_quietly(2) [OF 4 priority_update_law] show ?case .
next
  case (5 env d i k y k' d')
  then show ?case
    using priorities.delete_scoped_law [OF 5(1,2), of _ i "Suc k" y k' d']
    by (auto simp: priority_delete_def run_simps split: if_splits)
qed

subsection \<open>Activities among themselves\<close>

text \<open>Activities take the mark of the default from all rows before they write the new default.\<close>

abbreviation default_activity :: "enumeration_row \<Rightarrow> bool" where
  "default_activity r \<equiv> is_activity r \<and> enr_is_default r"

definition activities_inv :: "(string \<Rightarrow> string) \<Rightarrow> database \<Rightarrow> bool" where
  "activities_inv lower d \<longleftrightarrow> enumerations_table d \<and>
     unique_by enr_id is_activity (name_key lower) (db_enumerations d) \<and> at_most_one enr_id default_activity (db_enumerations d)"

abbreviation no_default_activity :: "database \<Rightarrow> bool" where
  "no_default_activity d \<equiv> \<not> (\<exists>r \<in> set (tb_rows (db_enumerations d)). default_activity r)"

abbreviation activity_name_free :: "(string \<Rightarrow> string) \<Rightarrow> Id option \<times> string \<Rightarrow> (Id \<Rightarrow> bool) \<Rightarrow> database \<Rightarrow> bool" where
  "activity_name_free lower \<equiv> free_key enr_id db_enumerations is_activity (name_key lower)"

lemma activity_name_triple:
  assumes "\<And>d. P d \<Longrightarrow> E d" "\<And>d. P d \<Longrightarrow> enumerations_table d"
  shows "triple fl P (activity_is_name_unique lower n pr x)
    (\<lambda>b d. P d \<and> (b \<longrightarrow> activity_name_free lower (pr, lower n) (\<lambda>j. Some j \<noteq> x) d)) E"
proof -
  let ?p = "\<lambda>r. is_activity r \<and> same_name lower n pr x r"
  have "activity_name_free lower (pr, lower n) (\<lambda>j. Some j \<noteq> x) d"
    if "P d" "word_of_nat (length (filter ?p (tb_rows (db_enumerations d)))) = (0 :: i64)" for d
  proof -
    have "filter ?p (tb_rows (db_enumerations d)) = []"
      using count_sint [OF assms(2) [OF that(1)], of ?p] that(2) by simp
    then show ?thesis by (auto simp: free_key_def same_name_def filter_empty_conv split: option.splits)
  qed
  then show ?thesis
    unfolding activity_is_name_unique_def count_of_def
    by (intro triple_then [OF triple_value triple_ret]) (auto simp: assms(1))
qed

definition plain :: "enumeration_row \<Rightarrow> enumeration_row" where
  "plain r = (if is_activity r then r\<lparr>enr_is_default := False\<rparr> else r)"

lemma plain_fields [simp]:
  "enr_id (plain r) = enr_id r" "is_activity (plain r) = is_activity r" "enr_name (plain r) = enr_name r"
  "enr_project_id (plain r) = enr_project_id r" "\<not> default_activity (plain r)"
  by (simp_all add: plain_def is_activity_def)

lemma unset_activities:
  assumes "activities_inv lower d" "db_enumerations d' = tb_rows_update (map plain) (db_enumerations d)"
  shows "activities_inv lower d'" and "no_default_activity d'"
    and "activity_name_free lower c others d' = activity_name_free lower c others d"
proof -
  show none: "no_default_activity d'" by (simp add: assms(2) del: plain_fields(2))
  then have "at_most_one enr_id default_activity (db_enumerations d')" by (intro unique_by_none) blast
  moreover have "enumerations_table d'" "unique_by enr_id is_activity (name_key lower) (db_enumerations d')"
    using assms(1) unfolding activities_inv_def assms(2)
    by (auto intro!: row_of_map(1) [where f = plain] unique_by_map [where f = plain])
  ultimately show "activities_inv lower d'" by (simp add: activities_inv_def)
  show "activity_name_free lower c others d' = activity_name_free lower c others d"
    by (rule free_key_map [where g = plain and tbl = db_enumerations, OF assms(2)]) simp_all
qed

lemma unset_triple:
  "triple fl (\<lambda>d. activities_inv lower d \<and> activity_name_free lower c others d) (do_if b unset_activity_defaults)
     (\<lambda>_ d. activities_inv lower d \<and> activity_name_free lower c others d \<and> (b \<longrightarrow> no_default_activity d)) (activities_inv lower)"
proof (rule triple_do_if, unfold unset_activity_defaults_def, rule triple_update_all, goal_cases)
  case (2 d now)
  let ?d = "db_enumerations_update (tb_rows_update (map (\<lambda>r. if is_activity r then r\<lparr>enr_is_default := False\<rparr> else r))) d"
  have "db_enumerations ?d = tb_rows_update (map plain) (db_enumerations d)" by (simp add: plain_def [abs_def])
  from unset_activities [OF _ this, of lower] 2 show ?case by blast
qed auto

lemma activity_position_keeps:
  "(\<And>d. P d \<Longrightarrow> E d) \<Longrightarrow>
   triple fl P (let position = (case p of Some pos \<Rightarrow> pos | None \<Rightarrow> 0)
     in if position = 0 then activity_next_position else ret position) (\<lambda>_. P) E"
  unfolding activity_next_position_def Let_def by (simp split: if_split option.split) (intro conjI impI allI triple_keep)

lemma activity_create_triple:
  "triple fl (activities_inv lower) (activity_create lower dto) (\<lambda>_. activities_inv lower) (activities_inv lower)"
  unfolding activity_create_def
proof (rule triple_if, rule triple_fail, blast, rule triple_then, rule activity_name_triple, blast,
    simp add: activities_inv_def, rule triple_if, rule triple_fail, blast, goal_cases)
  case (1 unique)
  let ?b = "case cay_is_default dto of Some b \<Rightarrow> b | None \<Rightarrow> False"
  let ?F = "activity_name_free lower (cay_project_id dto, lower (cay_name dto)) (\<lambda>_. True)"
  have insert: "triple fl (\<lambda>d. activities_inv lower d \<and> ?F d \<and> (?b \<longrightarrow> no_default_activity d))
     (fetch_one (sql_insert enr_id db_enumerations db_enumerations_update (new_activity dto position)))
     (\<lambda>_. activities_inv lower) (activities_inv lower)" for position
  proof (rule triple_insert, goal_cases)
    case (3 d now i)
    let ?r = "new_activity dto position now i" and ?t = "db_enumerations d"
    have r: "enr_id ?r = i" "name_key lower ?r = (cay_project_id dto, lower (cay_name dto))" "enr_is_default ?r = ?b"
      by (simp_all add: new_activity_def)
    have "unique_by enr_id is_activity (name_key lower) (?t\<lparr>tb_rows := tb_rows ?t @ [?r]\<rparr>)"
      by (rule unique_by_append) (use 3(1) r in \<open>auto simp: activities_inv_def free_key_def\<close>)
    moreover have "at_most_one enr_id default_activity (?t\<lparr>tb_rows := tb_rows ?t @ [?r]\<rparr>)"
      by (rule unique_by_append) (use 3(1) r in \<open>auto simp: activities_inv_def\<close>)
    moreover have "table_ok enr_id (?t\<lparr>tb_rows := tb_rows ?t @ [?r], tb_seq := Suc (tb_seq ?t)\<rparr>)"
      by (rule priorities.table_appended(1) [OF _ 3(2-4) r(1)]) (use 3(1) in \<open>simp add: activities_inv_def\<close>)
    ultimately show ?case by (simp add: activities_inv_def)
  qed (auto simp: activities_inv_def)
  show ?case
    by (rule triple_then [where R = "\<lambda>_ d. activities_inv lower d \<and> ?F d"], rule triple_weaken,
        rule activity_position_keeps [where P = "\<lambda>d. activities_inv lower d \<and> ?F d" and E = "activities_inv lower"],
        blast, simp, assumption, assumption, rule triple_then, rule unset_triple, rule insert)
qed


lemma triple_find_activity:
  assumes "\<And>d. P d \<Longrightarrow> enumerations_table d" "\<And>d. P d \<Longrightarrow> E d"
  shows "triple fl P (or_fail e (activity_find_by_id i))
    (\<lambda>r d. P d \<and> r \<in> set (tb_rows (db_enumerations d)) \<and> enr_id r = i \<and> is_activity r) E"
proof (rule triple_or_fail)
  have member: "r \<in> set (tb_rows (db_enumerations d)) \<and> enr_id r = i \<and> is_activity r"
    if "filter (\<lambda>r. enr_id r = i \<and> is_activity r) (tb_rows (db_enumerations d)) = r # rs" for d r rs
  proof -
    have "r \<in> set (filter (\<lambda>r. enr_id r = i \<and> is_activity r) (tb_rows (db_enumerations d)))" by (simp add: that)
    then show ?thesis by simp
  qed
  show "triple fl P (activity_find_by_id i) (\<lambda>v d. case v of None \<Rightarrow> E d
      | Some r \<Rightarrow> P d \<and> r \<in> set (tb_rows (db_enumerations d)) \<and> enr_id r = i \<and> is_activity r) E"
    unfolding activity_find_by_id_def fetch_optional_def
    by (rule triple_then, rule triple_statement [where Q = "\<lambda>xs d. P d \<and>
        xs = filter (\<lambda>r. enr_id r = i \<and> is_activity r) (tb_rows (db_enumerations d))"])
      (auto simp: assms sql_select_def triple_def ret_def dest!: member split: list.split)
qed

text \<open>The row that is to be updated is written when the marks are gone.\<close>

definition ready :: "(string \<Rightarrow> string) \<Rightarrow> Id \<Rightarrow> Id option \<Rightarrow> string \<Rightarrow> bool \<Rightarrow> database \<Rightarrow> bool" where
  "ready lower i project name b d \<longleftrightarrow> activities_inv lower d \<and>
     activity_name_free lower (project, lower name) (\<lambda>j. j \<noteq> i) d \<and>
     (\<forall>r \<in> set (tb_rows (db_enumerations d)). is_activity r \<longrightarrow>
       (enr_id r = i \<longrightarrow> enr_project_id r = project) \<and> (b \<and> enr_is_default r \<longrightarrow> enr_id r = i))"

lemma write_activity:
  assumes "ready lower i project name b d" "\<And>r. enr_id (f r) = enr_id r" "\<And>r. is_activity (f r) = is_activity r"
    and "\<And>r. enr_project_id (f r) = enr_project_id r" "\<And>r. enr_name (f r) = name" "\<And>r. enr_is_default (f r) = b"
    and "db_enumerations d' = tb_rows_update (map (\<lambda>r. if enr_id r = i \<and> is_activity r then f r else r)) (db_enumerations d)"
  shows "activities_inv lower d'"
proof -
  let ?t = "db_enumerations d" and ?g = "\<lambda>r. if enr_id r = i \<and> is_activity r then f r else r"
  have ok: "enumerations_table d" and names: "unique_by enr_id is_activity (name_key lower) ?t"
    and one: "at_most_one enr_id default_activity ?t"
    and free: "activity_name_free lower (project, lower name) (\<lambda>j. j \<noteq> i) d"
    and row: "\<And>r. r \<in> set (tb_rows ?t) \<Longrightarrow> is_activity r \<Longrightarrow> enr_id r = i \<Longrightarrow> enr_project_id r = project"
    and marked: "\<And>r. r \<in> set (tb_rows ?t) \<Longrightarrow> b \<Longrightarrow> default_activity r \<Longrightarrow> enr_id r = i"
    using assms(1) by (auto simp: ready_def activities_inv_def)
  have g: "enr_id (?g r) = enr_id r" "is_activity (?g r) = is_activity r" for r by (simp_all add: assms(2,3))
  have "table_ok enr_id (tb_rows_update (map ?g) ?t)" by (rule row_of_map(1) [where f = ?g and idf = enr_id, OF g(1) ok])
  moreover have "unique_by enr_id is_activity (name_key lower) (tb_rows_update (map ?g) ?t)"
  proof (rule unique_by_update [where f = f and c = is_activity, OF names assms(2)])
    fix r assume "r \<in> set (tb_rows ?t)" "enr_id r = i" "is_activity r"
    then have "name_key lower (f r) = (project, lower name)" using row by (simp add: assms(4,5))
    with free show "\<not> (\<exists>s \<in> set (tb_rows ?t). is_activity s \<and> name_key lower s = name_key lower (f r) \<and> enr_id s \<noteq> i)"
      unfolding free_key_def by (simp only:) blast
  qed
  moreover have "at_most_one enr_id default_activity (tb_rows_update (map ?g) ?t)"
  proof (cases b)
    case True
    have "enr_id (?g r) = i" if "r \<in> set (tb_rows ?t)" "default_activity (?g r)" for r
      using that marked [OF that(1) True] g(1) [of r] by (cases "enr_id r = i \<and> is_activity r") simp_all
    then have "\<forall>s \<in> set (tb_rows (tb_rows_update (map ?g) ?t)). default_activity s \<longrightarrow> enr_id s = i"
      by (metis (no_types, lifting) mapped_row)
    then show ?thesis by (rule unique_by_at)
  next
    case False
    show ?thesis
    proof (rule unique_by_map [where f = ?g and idf = enr_id and p = default_activity and key = "\<lambda>r. ()" and t = ?t, OF one g(1)])
      fix r assume "default_activity (?g r)"
      then show "default_activity r \<and> () = ()" using False by (cases "enr_id r = i \<and> is_activity r") (simp_all add: assms(6))
    qed
  qed
  ultimately show ?thesis by (simp add: activities_inv_def assms(7))
qed

lemma activity_update_triple:
  "triple fl (activities_inv lower) (activity_update lower i dto) (\<lambda>_. activities_inv lower) (activities_inv lower)"
  unfolding activity_update_def
proof (rule triple_then, rule triple_find_activity, simp add: activities_inv_def, assumption, unfold Let_def,
    rule triple_if, rule triple_fail, blast, rule triple_then, rule activity_name_triple, blast,
    simp add: activities_inv_def, rule triple_if, rule triple_fail, blast, goal_cases)
  case (1 old unique)
  let ?name = "coalesce (uay_name dto) (enr_name old)" and ?b = "coalesce (uay_is_default dto) (enr_is_default old)"
  let ?F = "activity_name_free lower (enr_project_id old, lower ?name) (\<lambda>j. j \<noteq> i)"
  let ?R = "ready lower i (enr_project_id old) ?name ?b"
  show ?case
  proof (rule triple_then [where R = "\<lambda>_. ?R"])
    show "triple fl (\<lambda>d. (((activities_inv lower d \<and> old \<in> set (tb_rows (db_enumerations d)) \<and> enr_id old = i \<and> is_activity old) \<and>
          trim ?name \<noteq> []) \<and> (unique \<longrightarrow> activity_name_free lower (enr_project_id old, lower ?name) (\<lambda>j. Some j \<noteq> Some i) d)) \<and> \<not> \<not> unique)
        (do_if (?b \<and> \<not> enr_is_default old) unset_activity_defaults) (\<lambda>_. ?R) (activities_inv lower)"
    proof (rule triple_do_if, unfold unset_activity_defaults_def, rule triple_update_all, goal_cases)
      case (2 d now)
      let ?d = "db_enumerations_update (tb_rows_update (map (\<lambda>r. if is_activity r then r\<lparr>enr_is_default := False\<rparr> else r))) d"
      have d': "db_enumerations ?d = tb_rows_update (map plain) (db_enumerations d)" by (simp add: plain_def [abs_def])
      have u: "activities_inv lower ?d" "no_default_activity ?d"
          "activity_name_free lower (enr_project_id old, lower ?name) (\<lambda>j. j \<noteq> i) ?d"
      proof -
        from 2 have inv: "activities_inv lower d"
          and free: "activity_name_free lower (enr_project_id old, lower ?name) (\<lambda>j. j \<noteq> i) d" by simp_all
        from unset_activities [OF inv d'] free
        show "activities_inv lower ?d" "no_default_activity ?d"
          "activity_name_free lower (enr_project_id old, lower ?name) (\<lambda>j. j \<noteq> i) ?d" by blast+
      qed
      have "enr_project_id r = enr_project_id old" if "r \<in> set (tb_rows (db_enumerations ?d))" "is_activity r" "enr_id r = i" for r
      proof -
        from that(1) obtain s where s: "s \<in> set (tb_rows (db_enumerations d))" "r = plain s" unfolding d' by (rule mapped_row)
        have "row_of enr_id (db_enumerations d) i = Some s" "row_of enr_id (db_enumerations d) i = Some old"
          using 2 s that by (auto simp: row_of_iff activities_inv_def)
        then show ?thesis using s(2) by simp
      qed
      with u show ?case unfolding ready_def by blast
    next
      case (3 d)
      then have inv: "activities_inv lower d" and old: "old \<in> set (tb_rows (db_enumerations d))" "enr_id old = i" "is_activity old"
        and b: "?b \<Longrightarrow> enr_is_default old" and free: "activity_name_free lower (enr_project_id old, lower ?name) (\<lambda>j. j \<noteq> i) d"
        by auto
      have "enr_project_id r = enr_project_id old" if "r \<in> set (tb_rows (db_enumerations d))" "enr_id r = i" for r
      proof -
        have "row_of enr_id (db_enumerations d) i = Some r" "row_of enr_id (db_enumerations d) i = Some old"
          using inv old that by (simp_all add: row_of_iff activities_inv_def)
        then show ?thesis by simp
      qed
      moreover have "enr_id r = i" if "r \<in> set (tb_rows (db_enumerations d))" "is_activity r" "?b" "enr_is_default r" for r
        using inv [unfolded activities_inv_def unique_by_def] old that b by blast
      ultimately show ?case using inv free unfolding ready_def by blast
    qed blast
    show "triple fl ?R (fetch_one (sql_update db_enumerations db_enumerations_update (\<lambda>r. enr_id r = i \<and> is_activity r)
            (\<lambda>now r. r\<lparr>enr_name := ?name, enr_position := coalesce (uay_position dto) (enr_position old), enr_is_default := ?b,
              enr_active := coalesce (uay_active dto) (enr_active old), enr_updated_at := now\<rparr>)))
        (\<lambda>_. activities_inv lower) (activities_inv lower)" for u
    proof (rule triple_update_one, goal_cases)
      case (1 d)
      then show ?case by (simp add: ready_def)
    next
      case (2 d now)
      show ?case by (rule write_activity [OF 2(1)]) (simp_all add: is_activity_def)
    next
      case (3 d now r)
      show ?case by (rule write_activity [OF 3(1)]) (simp_all add: is_activity_def)
    qed
  qed
qed

lemma activity_delete_triple:
  "triple fl (activities_inv lower) (activity_delete i) (\<lambda>_. activities_inv lower) (activities_inv lower)"
proof -
  have "activities_inv lower (db_enumerations_update (tb_rows_update (filter g)) d)" if "activities_inv lower d" for g d
    using that by (auto simp: activities_inv_def unique_by_filter table_ok_def distinct_map_filter)
  then show ?thesis
    unfolding activity_delete_def activity_exists_def
    by (intro triple_then [OF counted_keep] triple_then [OF count_of_keep] triple_if triple_fail triple_delete(2)) auto
qed

subsection \<open>Both in one table\<close>

text \<open>The operations on priorities leave the other rows alone, and those on activities too.\<close>

abbreviation others_are :: "(enumeration_row \<Rightarrow> bool) \<Rightarrow> enumeration_row list \<Rightarrow> database \<Rightarrow> bool" where
  "others_are scope rs d \<equiv> outside db_enumerations scope d = rs"

lemma priority_ops_outside:
  "holds (others_are is_priority rs) (priority_create lower cdto) (\<lambda>_. True)"
  "holds (others_are is_priority rs) (priority_update lower i udto) (\<lambda>_. True)"
  "holds (others_are is_priority rs) (priority_delete i) (\<lambda>_. True)"
  unfolding priority_create_def priority_update_def priority_delete_def priority_get_max_position_def do_if_def
    priority_clear_default_except_def priority_is_name_unique_def priority_find_by_id_def
  by (intro holds_intro holds_find_any holds_or_fail_zero priorities.holds_outside_insert
      priorities.holds_outside_update priorities.holds_outside_delete; simp add: priority_clear_def is_priority_def new_priority_def updated_priority_def)+

lemma activity_ops_outside:
  "holds (others_are is_activity rs) (activity_create lower cdto) (\<lambda>_. True)"
  "holds (others_are is_activity rs) (activity_update lower i udto') (\<lambda>_. True)"
  "holds (others_are is_activity rs) (activity_delete i) (\<lambda>_. True)"
  unfolding activity_create_def activity_update_def activity_delete_def activity_next_position_def do_if_def
    unset_activity_defaults_def activity_is_name_unique_def activity_find_by_id_def activity_exists_def Let_def
  by (intro holds_intro holds_or_fail_any holds_find_any holds_or_fail_zero priorities.holds_outside_insert
      priorities.holds_outside_update priorities.holds_outside_delete; simp add: new_activity_def is_activity_def)+

lemma distinct_types [simp]: "is_activity r \<Longrightarrow> \<not> is_priority r"
  by (simp add: is_activity_def is_priority_def ACTIVITY_TYPE_def PRIORITY_TYPE_def)

abbreviation enumerations_inv :: "(string \<Rightarrow> string) \<Rightarrow> bool \<Rightarrow> database \<Rightarrow> bool" where
  "enumerations_inv lower fl d \<equiv> priorities_inv lower fl d \<and> activities_inv lower d"

lemma keep_activities:
  assumes "priorities_inv lower fl d'" "outside db_enumerations is_priority d' = outside db_enumerations is_priority d" "activities_inv lower d"
  shows "activities_inv lower d'"
proof -
  have "unique_by enr_id is_activity (name_key lower) (db_enumerations d') = unique_by enr_id is_activity (name_key lower) (db_enumerations d)"
    "at_most_one enr_id default_activity (db_enumerations d') = at_most_one enr_id default_activity (db_enumerations d)"
    by (rule unique_by_outside [where tbl = db_enumerations and scope = is_priority and d = d, OF assms(2)], simp)+
  with assms(1,3) show ?thesis by (simp add: activities_inv_def default_inv_def)
qed

lemma keep_priorities:
  assumes "activities_inv lower d'" "outside db_enumerations is_activity d' = outside db_enumerations is_activity d" "priorities_inv lower fl d"
  shows "priorities_inv lower fl d'"
proof -
  have "unique_by enr_id is_priority (name_key lower) (db_enumerations d') = unique_by enr_id is_priority (name_key lower) (db_enumerations d)"
    "at_most_one enr_id default_priority (db_enumerations d') = at_most_one enr_id default_priority (db_enumerations d)"
    by (rule unique_by_outside [where tbl = db_enumerations and scope = is_activity and d = d, OF assms(2)], use distinct_types in blast)+
  with assms(1,3) show ?thesis by (simp add: activities_inv_def default_inv_def)
qed

datatype enumeration_request =
  CreatePriority create_priority_dto | UpdatePriority Id update_priority_dto | DeletePriority Id
| CreateActivity create_activity_dto | UpdateActivity Id update_activity_dto | DeleteActivity Id

fun perform_enumeration :: "(string \<Rightarrow> string) \<Rightarrow> enumeration_request \<Rightarrow> (database, unit) dbop" where
  "perform_enumeration lower (CreatePriority dto) = and_then (priority_create lower dto) (\<lambda>_. ret ())"
| "perform_enumeration lower (UpdatePriority i dto) = and_then (priority_update lower i dto) (\<lambda>_. ret ())"
| "perform_enumeration lower (DeletePriority i) = priority_delete i"
| "perform_enumeration lower (CreateActivity dto) = and_then (activity_create lower dto) (\<lambda>_. ret ())"
| "perform_enumeration lower (UpdateActivity i dto) = and_then (activity_update lower i dto) (\<lambda>_. ret ())"
| "perform_enumeration lower (DeleteActivity i) = activity_delete i"

lemma priority_frame:
  assumes "triple fl (priorities_inv lower fl) m (\<lambda>_. priorities_inv lower fl) (priorities_inv lower fl)"
    and "\<And>rs. holds (others_are is_priority rs) m (\<lambda>_. True)"
  shows "triple fl (enumerations_inv lower fl) m (\<lambda>_. enumerations_inv lower fl) (enumerations_inv lower fl)"
  by (rule triple_frame [OF assms]) (rule keep_activities)

lemma activity_frame:
  assumes "triple fl (activities_inv lower) m (\<lambda>_. activities_inv lower) (activities_inv lower)"
    and "\<And>rs. holds (others_are is_activity rs) m (\<lambda>_. True)"
  shows "triple fl (enumerations_inv lower fl) m (\<lambda>_. enumerations_inv lower fl) (enumerations_inv lower fl)"
  by (rule triple_weaken [OF triple_frame [OF assms, where J = "priorities_inv lower fl"]]) (auto intro: keep_priorities)

lemma perform_enumeration_triple:
  "triple fl (enumerations_inv lower fl) (perform_enumeration lower q) (\<lambda>_. enumerations_inv lower fl) (enumerations_inv lower fl)"
proof (cases q)
  case (CreatePriority dto)
  show ?thesis unfolding CreatePriority perform_enumeration.simps
    by (rule triple_unit, rule priority_frame, rule priority_create_triple, rule priority_ops_outside)
next
  case (UpdatePriority i dto)
  show ?thesis unfolding UpdatePriority perform_enumeration.simps
    by (rule triple_unit, rule priority_frame, rule priority_update_triple, rule priority_ops_outside)
next
  case (DeletePriority i)
  show ?thesis unfolding DeletePriority perform_enumeration.simps
    by (rule priority_frame, rule priority_delete_triple, rule priority_ops_outside)
next
  case (CreateActivity dto)
  show ?thesis unfolding CreateActivity perform_enumeration.simps
    by (rule triple_unit, rule activity_frame, rule activity_create_triple, rule activity_ops_outside)
next
  case (UpdateActivity i dto)
  show ?thesis unfolding UpdateActivity perform_enumeration.simps
    by (rule triple_unit, rule activity_frame, rule activity_update_triple, rule activity_ops_outside)
next
  case (DeleteActivity i)
  show ?thesis unfolding DeleteActivity perform_enumeration.simps
    by (rule activity_frame, rule activity_delete_triple, rule activity_ops_outside)
qed

lemma enumerations_history:
  assumes "table_ok enr_id (db_enumerations d)" "unique_by enr_id is_priority (name_key lower) (db_enumerations d)"
    and "unique_by enr_id is_activity (name_key lower) (db_enumerations d)" "at_most_one enr_id default_activity (db_enumerations d)"
    and "calm True env" "history (perform_enumeration lower) reqs env (k, d) = (k', d')"
  shows "table_ok enr_id (db_enumerations d')" and "unique_by enr_id is_priority (name_key lower) (db_enumerations d')"
    and "unique_by enr_id is_activity (name_key lower) (db_enumerations d')" and "at_most_one enr_id default_activity (db_enumerations d')"
    and "quiet env \<Longrightarrow> at_most_one enr_id default_priority (db_enumerations d) \<Longrightarrow>
      at_most_one enr_id default_priority (db_enumerations d')"
proof -
  have d': "d' = snd (history (perform_enumeration lower) reqs env (k, d))" using assms(6) by simp
  have "enumerations_inv lower True d" using assms by (simp add: default_inv_def activities_inv_def)
  from history_calm [where I = "enumerations_inv lower True" and perform = "perform_enumeration lower",
      OF assms(5) perform_enumeration_triple this]
  show "table_ok enr_id (db_enumerations d')" and "unique_by enr_id is_priority (name_key lower) (db_enumerations d')"
    and "unique_by enr_id is_activity (name_key lower) (db_enumerations d')" and "at_most_one enr_id default_activity (db_enumerations d')"
    unfolding d' by (simp_all add: default_inv_def activities_inv_def)
  show "at_most_one enr_id default_priority (db_enumerations d')" if "quiet env" "at_most_one enr_id default_priority (db_enumerations d)"
  proof -
    from that have "enumerations_inv lower False d" "calm False env" using assms by (simp_all add: default_inv_def activities_inv_def)
    from history_calm [where I = "enumerations_inv lower False" and perform = "perform_enumeration lower",
        OF this(2) perform_enumeration_triple this(1)]
    show ?thesis unfolding d' by (simp add: default_inv_def)
  qed
qed

text \<open>
  Priorities and activities.  As long as requests come one after the other, and even if statements
  fail in between, names stay unique among the priorities of a project and among its activities, and
  there is at most one default activity.  There is at most one default priority if no statement fails.
\<close>

theorem enumerations_consistent:
  assumes "table_ok enr_id (db_enumerations d)" "unique_by enr_id is_priority (name_key lower) (db_enumerations d)"
    and "unique_by enr_id is_activity (name_key lower) (db_enumerations d)" "at_most_one enr_id default_activity (db_enumerations d)"
    and "calm True env" "history (perform_enumeration lower) reqs env (k, d) = (k', d')"
  shows "table_ok enr_id (db_enumerations d') \<and> unique_by enr_id is_priority (name_key lower) (db_enumerations d') \<and>
    unique_by enr_id is_activity (name_key lower) (db_enumerations d') \<and> at_most_one enr_id default_activity (db_enumerations d') \<and>
    (quiet env \<and> at_most_one enr_id default_priority (db_enumerations d) \<longrightarrow> at_most_one enr_id default_priority (db_enumerations d'))"
  using enumerations_history [OF assms] by blast

definition sample_priority :: create_priority_dto where
  "sample_priority = \<lparr>cpy_name = ''High'', cpy_position = None, cpy_is_default = True, cpy_active = True, cpy_color_id = None,
     cpy_project_id = None\<rparr>"

definition sample_activity :: create_activity_dto where
  "sample_activity = \<lparr>cay_name = ''Design'', cay_position = None, cay_is_default = Some True, cay_active = None,
     cay_project_id = None, cay_parent_id = None\<rparr>"

theorem enumerations_consistent_witness:
  "(case history (perform_enumeration (\<lambda>n. n)) [CreatePriority sample_priority, CreateActivity sample_activity] (alone 0) (0, empty_database) of
     (k', d') \<Rightarrow> at_most_one enr_id default_activity (db_enumerations d') \<and> at_most_one enr_id default_priority (db_enumerations d'))"
proof -
  let ?h = "history (perform_enumeration (\<lambda>n. n)) [CreatePriority sample_priority, CreateActivity sample_activity] (alone 0) (0, empty_database)"
  obtain k' d' where run: "?h = (k', d')" by (cases ?h)
  have e: "db_enumerations empty_database = empty_table" by (simp add: empty_database_def)
  have "table_ok enr_id (db_enumerations empty_database)"
    "unique_by enr_id is_priority (name_key (\<lambda>n. n)) (db_enumerations empty_database)"
    "unique_by enr_id is_activity (name_key (\<lambda>n. n)) (db_enumerations empty_database)"
    "at_most_one enr_id default_activity (db_enumerations empty_database)" "calm True (alone 0)"
    by (simp_all add: e)
  from enumerations_consistent [OF this run] show ?thesis by (simp only: run prod.case quiet_alone e unique_by_empty simp_thms)
qed

text \<open>
  Activities lose their default.  The marks are taken away before the new default is written; when
  that statement fails, the request answers an error and no activity is the default any more.
\<close>

theorem failed_activity_create_loses_default:
  assumes "table_ok enr_id (db_enumerations d)" "trim (cay_name dto) \<noteq> []" "cay_is_default dto = Some True"
    and "cay_position dto = Some pos" "pos \<noteq> 0"
    and "\<not> (\<exists>r \<in> set (tb_rows (db_enumerations d)). is_activity r \<and> same_name lower (cay_name dto) (cay_project_id dto) None r)"
  shows "\<exists>d'. activity_create lower dto (faulty now (k + 2) e) (k, d) = (Err (RepoDatabase (SqlFault e)), k + 3, d') \<and>
     activity_find_default (alone now) (0, d') = (Ok None, 1, d')"
proof -
  let ?t = "tb_rows_update (map (\<lambda>r. if is_activity r then r\<lparr>enr_is_default := False\<rparr> else r)) (db_enumerations d)"
  let ?d = "d\<lparr>db_enumerations := ?t\<rparr>"
  let ?p = "\<lambda>r. is_activity r \<and> same_name lower (cay_name dto) (cay_project_id dto) None r"
  have none: "filter ?p (tb_rows (db_enumerations d)) = []" using assms(6) by (auto simp: filter_empty_conv)
  have "activity_create lower dto (faulty now (k + 2) e) (k, d) = (Err (RepoDatabase (SqlFault e)), k + 3, ?d)"
    using assms(2-5) none
    by (simp add: activity_create_def activity_is_name_unique_def count_of_def fetch_one_def sql_value_def sql_update_def
        execute_def do_if_def unset_activity_defaults_def run_basic run_statement_faulty Let_def)
  moreover have "activity_find_default (alone now) (0, ?d) = (Ok None, 1, ?d)"
    by (simp add: activity_find_default_def run_simps filter_map comp_def)
  ultimately show ?thesis by blast
qed

theorem failed_activity_create_loses_default_witness:
  "\<exists>d'. activity_create (\<lambda>n. n) (sample_activity\<lparr>cay_position := Some 1\<rparr>) (faulty 0 2 ''timeout'') (0, empty_database) =
      (Err (RepoDatabase (SqlFault ''timeout'')), 3, d') \<and> activity_find_default (alone 0) (0, d') = (Ok None, 1, d')"
proof -
  have "table_ok enr_id (db_enumerations empty_database)" "trim (cay_name (sample_activity\<lparr>cay_position := Some 1\<rparr>)) \<noteq> []"
    "cay_is_default (sample_activity\<lparr>cay_position := Some 1\<rparr>) = Some True"
    "cay_position (sample_activity\<lparr>cay_position := Some 1\<rparr>) = Some 1" "(1 :: i32) \<noteq> 0"
    "\<not> (\<exists>r \<in> set (tb_rows (db_enumerations empty_database)). is_activity r \<and>
      same_name (\<lambda>n. n) (cay_name (sample_activity\<lparr>cay_position := Some 1\<rparr>)) (cay_project_id (sample_activity\<lparr>cay_position := Some 1\<rparr>)) None r)"
    by (simp_all add: empty_database_def empty_table_def table_ok_def, code_simp, simp_all add: sample_activity_def)
  from failed_activity_create_loses_default [OF this, where k = 0 and now = 0 and e = "''timeout''"] show ?thesis
    unfolding add_0 .
qed

end
