(* ===== verification/Project_Parts.thy ===== *)
theory Project_Parts
  imports Schema Keys
begin

section \<open>Types, versions and categories (op-db)\<close>

text \<open>
  \<open>op-db/src/types.rs\<close>, \<open>versions.rs\<close> and \<open>categories.rs\<close>.  \<open>lower\<close> is \<open>LOWER\<close>, \<open>coll\<close> the key the
  database's collation sorts text by.
\<close>

subsection \<open>Types\<close>

definition type_row_is_default :: "type_row \<Rightarrow> bool" where "type_row_is_default r = tyr_is_default r"
definition type_row_is_standard :: "type_row \<Rightarrow> bool" where "type_row_is_standard r = tyr_is_standard r"
definition type_row_is_in_roadmap :: "type_row \<Rightarrow> bool" where "type_row_is_in_roadmap r = tyr_is_in_roadmap r"
definition type_row_is_milestone :: "type_row \<Rightarrow> bool" where "type_row_is_milestone r = tyr_is_milestone r"

record create_type_dto =
  cty_name :: string
  cty_position :: "i32 option"
  cty_is_default :: bool
  cty_is_in_roadmap :: bool
  cty_is_milestone :: bool
  cty_color_id :: "Id option"
  cty_description :: "string option"

record update_type_dto =
  uty_name :: "string option"
  uty_position :: "i32 option"
  uty_is_default :: "bool option"
  uty_is_in_roadmap :: "bool option"
  uty_is_milestone :: "bool option"
  uty_color_id :: "Id option"
  uty_description :: "string option"

definition types_by_position :: "(type_row \<Rightarrow> bool) \<Rightarrow> database \<Rightarrow> type_row list" where
  "types_by_position p d = sort_key (\<lambda>r. sint (tyr_position r)) (filter p (tb_rows (db_types d)))"

definition type_find_standard :: "(database, type_row option) dbop" where
  "type_find_standard = fetch_optional (sql_select (\<lambda>d. take 1 (filter tyr_is_standard (tb_rows (db_types d)))))"

definition type_find_default :: "(database, type_row list) dbop" where
  "type_find_default = fetch_all (sql_select (types_by_position tyr_is_default))"

definition type_find_milestones :: "(database, type_row list) dbop" where
  "type_find_milestones = fetch_all (sql_select (types_by_position tyr_is_milestone))"

definition type_find_in_roadmap :: "(database, type_row list) dbop" where
  "type_find_in_roadmap = fetch_all (sql_select (types_by_position tyr_is_in_roadmap))"

definition type_find_by_project :: "Id \<Rightarrow> (database, type_row list) dbop" where
  "type_find_by_project project_id =
     fetch_all (sql_select (\<lambda>d. types_by_position (\<lambda>t. (project_id, tyr_id t) \<in> set (db_projects_types d)) d))"

definition type_find_by_name :: "(string \<Rightarrow> string) \<Rightarrow> string \<Rightarrow> (database, type_row option) dbop" where
  "type_find_by_name lower name =
     fetch_optional (sql_select (\<lambda>d. filter (\<lambda>r. lower (tyr_name r) = lower name) (tb_rows (db_types d))))"

definition type_find_without_standard :: "(database, type_row list) dbop" where
  "type_find_without_standard = fetch_all (sql_select (types_by_position (\<lambda>r. \<not> tyr_is_standard r)))"

definition type_is_name_unique :: "(string \<Rightarrow> string) \<Rightarrow> string \<Rightarrow> Id option \<Rightarrow> (database, bool) dbop" where
  "type_is_name_unique lower name exclude_id =
     (case exclude_id of
        Some i \<Rightarrow> fetch_one (sql_value (\<lambda>d.
          \<not> (\<exists>r \<in> set (tb_rows (db_types d)). lower (tyr_name r) = lower name \<and> tyr_id r \<noteq> i)))
      | None \<Rightarrow> fetch_one (sql_value (\<lambda>d.
          \<not> (\<exists>r \<in> set (tb_rows (db_types d)). lower (tyr_name r) = lower name))))"

definition type_get_max_position :: "(database, i32) dbop" where
  "type_get_max_position =
     and_then (fetch_one (sql_value (\<lambda>d. max_i32 (map tyr_position (tb_rows (db_types d)))))) (\<lambda>max_pos.
     ret (case max_pos of Some n \<Rightarrow> n | None \<Rightarrow> 0))"

definition type_enable_for_project :: "Id \<Rightarrow> Id \<Rightarrow> (database, unit) dbop" where
  "type_enable_for_project type_id project_id =
     execute (\<lambda>now d. if (project_id, type_id) \<in> set (db_projects_types d) then (Ok [], d)
       else (Ok [()], db_projects_types_update (\<lambda>pts. pts @ [(project_id, type_id)]) d))"

definition type_disable_for_project :: "Id \<Rightarrow> Id \<Rightarrow> (database, unit) dbop" where
  "type_disable_for_project type_id project_id =
     execute (\<lambda>now d. (Ok (map (\<lambda>_. ()) (filter (\<lambda>pt. pt = (project_id, type_id)) (db_projects_types d))),
       db_projects_types_update (filter (\<lambda>pt. pt \<noteq> (project_id, type_id))) d))"

definition type_find_by_id :: "Id \<Rightarrow> (database, type_row option) dbop" where
  "type_find_by_id = find_row tyr_id db_types"

definition type_find_all :: "i64 \<Rightarrow> i64 \<Rightarrow> (database, type_row list) dbop" where
  "type_find_all limit offset = fetch_all (sql_select_page limit offset (types_by_position (\<lambda>_. True)))"

definition type_count :: "(database, i64) dbop" where
  "type_count = count_of db_types (\<lambda>_. True)"

definition type_name_taken :: repository_error where
  "type_name_taken = RepoConflict ''Type name has already been taken''"

definition type_not_found :: "Id \<Rightarrow> repository_error" where
  "type_not_found i = RepoNotFound (''Type with id '' @ show_i64 i @ '' not found'')"

definition new_type :: "create_type_dto \<Rightarrow> i32 \<Rightarrow> timestamp \<Rightarrow> Id \<Rightarrow> type_row" where
  "new_type dto position now i =
     \<lparr>tyr_id = i, tyr_name = cty_name dto, tyr_position = position, tyr_is_default = cty_is_default dto,
      tyr_is_in_roadmap = cty_is_in_roadmap dto, tyr_is_milestone = cty_is_milestone dto, tyr_is_standard = False,
      tyr_color_id = cty_color_id dto, tyr_description = cty_description dto, tyr_created_at = now, tyr_updated_at = now\<rparr>"

definition type_create :: "(string \<Rightarrow> string) \<Rightarrow> create_type_dto \<Rightarrow> (database, type_row) dbop" where
  "type_create lower dto =
     and_then (type_is_name_unique lower (cty_name dto) None) (\<lambda>unique.
     if \<not> unique then fail type_name_taken
     else and_then (case cty_position dto of
              Some pos \<Rightarrow> ret pos
            | None \<Rightarrow> and_then type_get_max_position (\<lambda>m. ret (m + 1))) (\<lambda>position.
     fetch_one (sql_insert tyr_id db_types db_types_update (new_type dto position))))"

definition updated_type :: "update_type_dto \<Rightarrow> timestamp \<Rightarrow> type_row \<Rightarrow> type_row" where
  "updated_type dto now r = r\<lparr>
     tyr_name := coalesce (uty_name dto) (tyr_name r),
     tyr_position := coalesce (uty_position dto) (tyr_position r),
     tyr_is_default := coalesce (uty_is_default dto) (tyr_is_default r),
     tyr_is_in_roadmap := coalesce (uty_is_in_roadmap dto) (tyr_is_in_roadmap r),
     tyr_is_milestone := coalesce (uty_is_milestone dto) (tyr_is_milestone r),
     tyr_color_id := coalesce_opt (uty_color_id dto) (tyr_color_id r),
     tyr_description := coalesce_opt (uty_description dto) (tyr_description r),
     tyr_updated_at := now\<rparr>"

definition type_update :: "(string \<Rightarrow> string) \<Rightarrow> Id \<Rightarrow> update_type_dto \<Rightarrow> (database, type_row) dbop" where
  "type_update lower i dto =
     and_then (case uty_name dto of
         Some name \<Rightarrow> type_is_name_unique lower name (Some i)
       | None \<Rightarrow> ret True) (\<lambda>unique.
     if \<not> unique then fail type_name_taken
     else or_fail (type_not_found i) (fetch_optional (sql_update db_types db_types_update
            (\<lambda>r. tyr_id r = i) (updated_type dto))))"

definition type_delete :: "Id \<Rightarrow> (database, unit) dbop" where
  "type_delete i =
     and_then (fetch_optional (sql_select (\<lambda>d. map tyr_is_standard (filter (\<lambda>r. tyr_id r = i) (tb_rows (db_types d)))))) (\<lambda>is_standard.
     if is_standard = Some True then fail (RepoConflict ''Cannot delete the standard type'')
     else and_then (row_exists db_work_packages (\<lambda>w. wpr_type_id w = i)) (\<lambda>has_work_packages.
       if has_work_packages
       then fail (RepoConflict ''Cannot delete type: work packages are using this type'')
       else or_fail_zero (type_not_found i) (rows_affected (sql_delete db_types db_types_update (\<lambda>r. tyr_id r = i)))))"

definition type_exists :: "Id \<Rightarrow> (database, bool) dbop" where
  "type_exists i = row_exists db_types (\<lambda>r. tyr_id r = i)"

subsection \<open>Versions\<close>

definition version_statuses :: "string list" where "version_statuses = [''open'', ''locked'', ''closed'']"

definition version_status_is_valid :: "string \<Rightarrow> bool" where
  "version_status_is_valid s \<longleftrightarrow> s \<in> set version_statuses"

definition version_sharings :: "string list" where
  "version_sharings = [''none'', ''descendants'', ''hierarchy'', ''tree'', ''system'']"

definition version_sharing_is_valid :: "string \<Rightarrow> bool" where
  "version_sharing_is_valid s \<longleftrightarrow> s \<in> set version_sharings"

definition version_row_is_open :: "version_row \<Rightarrow> bool" where
  "version_row_is_open r \<longleftrightarrow> ver_status r = ''open''"

definition version_row_is_locked :: "version_row \<Rightarrow> bool" where
  "version_row_is_locked r \<longleftrightarrow> ver_status r = ''locked''"

definition version_row_is_closed :: "version_row \<Rightarrow> bool" where
  "version_row_is_closed r \<longleftrightarrow> ver_status r = ''closed''"

definition version_row_is_systemwide :: "version_row \<Rightarrow> bool" where
  "version_row_is_systemwide r \<longleftrightarrow> ver_sharing r = ''system''"

record create_version_dto =
  cve_project_id :: Id
  cve_name :: string
  cve_description :: "string option"
  cve_effective_date :: "date option"
  cve_start_date :: "date option"
  cve_status :: "string option"
  cve_sharing :: "string option"
  cve_wiki_page_title :: "string option"

record update_version_dto =
  uve_name :: "string option"
  uve_description :: "string option"
  uve_effective_date :: "date option"
  uve_start_date :: "date option"
  uve_status :: "string option"
  uve_sharing :: "string option"
  uve_wiki_page_title :: "string option"

text \<open>\<open>ORDER BY effective_date ASC NULLS LAST, name ASC\<close>, as stable sorts from the last key to the first.\<close>

definition versions_ordered :: "(string \<Rightarrow> 'k::linorder) \<Rightarrow> version_row list \<Rightarrow> version_row list" where
  "versions_ordered coll rs =
     sort_key (\<lambda>r. ver_effective_date r = None)
       (sort_key (\<lambda>r. case ver_effective_date r of Some day \<Rightarrow> day | None \<Rightarrow> 0)
         (sort_key (\<lambda>r. coll (ver_name r)) rs))"

definition versions_where :: "(string \<Rightarrow> 'k::linorder) \<Rightarrow> (version_row \<Rightarrow> bool) \<Rightarrow> database \<Rightarrow> version_row list" where
  "versions_where coll p d = versions_ordered coll (filter p (tb_rows (db_versions d)))"

definition version_find_by_project ::
    "(string \<Rightarrow> 'k::linorder) \<Rightarrow> Id \<Rightarrow> pagination \<Rightarrow> (database, version_row paginated_result) dbop" where
  "version_find_by_project coll project_id p =
     page_of p db_versions (\<lambda>r. ver_project_id r = project_id) (versions_ordered coll)"

definition version_find_open_by_project :: "(string \<Rightarrow> 'k::linorder) \<Rightarrow> Id \<Rightarrow> (database, version_row list) dbop" where
  "version_find_open_by_project coll project_id =
     fetch_all (sql_select (versions_where coll (\<lambda>r. ver_project_id r = project_id \<and> ver_status r = ''open'')))"

definition version_find_systemwide :: "(string \<Rightarrow> 'k::linorder) \<Rightarrow> (database, version_row list) dbop" where
  "version_find_systemwide coll = fetch_all (sql_select (versions_where coll (\<lambda>r. ver_sharing r = ''system'')))"

definition version_find_shared_with_project :: "(string \<Rightarrow> 'k::linorder) \<Rightarrow> Id \<Rightarrow> (database, version_row list) dbop" where
  "version_find_shared_with_project coll project_id =
     fetch_all (sql_select (\<lambda>d. versions_where coll (\<lambda>v.
       ver_project_id v = project_id \<or> ver_sharing v = ''system'' \<or>
       ver_sharing v \<in> {''descendants'', ''hierarchy'', ''tree''} \<and>
       (\<exists>p \<in> set (tb_rows (db_projects d)). prr_id p = project_id \<and> prr_parent_id p = Some (ver_project_id v))) d))"

definition version_is_name_unique :: "(string \<Rightarrow> string) \<Rightarrow> Id \<Rightarrow> string \<Rightarrow> Id option \<Rightarrow> (database, bool) dbop" where
  "version_is_name_unique lower project_id name exclude_id =
     and_then (count_of db_versions (\<lambda>r. ver_project_id r = project_id \<and> lower (ver_name r) = lower name \<and>
       (case exclude_id of Some i \<Rightarrow> ver_id r \<noteq> i | None \<Rightarrow> True))) (\<lambda>count.
     ret (count = 0))"

definition validate_dates :: "date option \<Rightarrow> date option \<Rightarrow> (unit, repository_error) result" where
  "validate_dates start_date effective_date =
     (case (start_date, effective_date) of
        (Some start, Some end_date) \<Rightarrow>
          (if end_date < start
           then Err (RepoValidation ''Effective date must be greater than or equal to start date'')
           else Ok ())
      | _ \<Rightarrow> Ok ())"

definition or_return :: "('a, repository_error) result \<Rightarrow> ('d, 'a) dbop" where
  "or_return v = (case v of Inl e \<Rightarrow> fail e | Inr x \<Rightarrow> ret x)"

definition version_find_by_id :: "Id \<Rightarrow> (database, version_row option) dbop" where
  "version_find_by_id = find_row ver_id db_versions"

definition version_find_all :: "(string \<Rightarrow> 'k::linorder) \<Rightarrow> i64 \<Rightarrow> i64 \<Rightarrow> (database, version_row list) dbop" where
  "version_find_all coll limit offset = fetch_all (sql_select_page limit offset (versions_where coll (\<lambda>_. True)))"

definition version_count :: "(database, i64) dbop" where
  "version_count = count_of db_versions (\<lambda>_. True)"

definition version_exists :: "Id \<Rightarrow> (database, bool) dbop" where
  "version_exists i = counted db_versions (\<lambda>r. ver_id r = i)"

definition blank_name_error :: repository_error where
  "blank_name_error = RepoValidation ''Name can't be blank''"

definition name_taken_error :: repository_error where
  "name_taken_error = RepoConflict ''Name has already been taken''"

definition version_status_error :: repository_error where
  "version_status_error = RepoValidation (''Status must be one of: '' @ join '', '' version_statuses)"

definition version_sharing_error :: repository_error where
  "version_sharing_error = RepoValidation (''Sharing must be one of: '' @ join '', '' version_sharings)"

definition version_not_found :: "Id \<Rightarrow> repository_error" where
  "version_not_found i = RepoNotFound (''Version '' @ show_i64 i @ '' not found'')"

definition version_create :: "(string \<Rightarrow> string) \<Rightarrow> create_version_dto \<Rightarrow> (database, version_row) dbop" where
  "version_create lower dto =
     (if trim (cve_name dto) = [] then fail blank_name_error
      else let version_status = (case cve_status dto of Some s \<Rightarrow> s | None \<Rightarrow> ''open'')
           in if \<not> version_status_is_valid version_status then fail version_status_error
      else let version_sharing = (case cve_sharing dto of Some s \<Rightarrow> s | None \<Rightarrow> ''none'')
           in if \<not> version_sharing_is_valid version_sharing then fail version_sharing_error
      else and_then (or_return (validate_dates (cve_start_date dto) (cve_effective_date dto))) (\<lambda>_.
           and_then (version_is_name_unique lower (cve_project_id dto) (cve_name dto) None) (\<lambda>unique.
           if \<not> unique then fail name_taken_error
           else fetch_one (sql_insert ver_id db_versions db_versions_update (\<lambda>now i.
             \<lparr>ver_id = i, ver_project_id = cve_project_id dto, ver_name = cve_name dto, ver_description = cve_description dto,
              ver_effective_date = cve_effective_date dto, ver_start_date = cve_start_date dto, ver_status = version_status,
              ver_sharing = version_sharing, ver_wiki_page_title = cve_wiki_page_title dto,
              ver_created_at = now, ver_updated_at = now\<rparr>)))))"

definition version_update :: "(string \<Rightarrow> string) \<Rightarrow> Id \<Rightarrow> update_version_dto \<Rightarrow> (database, version_row) dbop" where
  "version_update lower i dto =
     and_then (or_fail (version_not_found i) (version_find_by_id i)) (\<lambda>existing.
     let name = coalesce (uve_name dto) (ver_name existing);
         description = coalesce_opt (uve_description dto) (ver_description existing);
         effective_date = coalesce_opt (uve_effective_date dto) (ver_effective_date existing);
         start_date = coalesce_opt (uve_start_date dto) (ver_start_date existing);
         version_status = coalesce (uve_status dto) (ver_status existing);
         version_sharing = coalesce (uve_sharing dto) (ver_sharing existing);
         wiki_page_title = coalesce_opt (uve_wiki_page_title dto) (ver_wiki_page_title existing)
     in if trim name = [] then fail blank_name_error
        else if \<not> version_status_is_valid version_status then fail version_status_error
        else if \<not> version_sharing_is_valid version_sharing then fail version_sharing_error
        else and_then (or_return (validate_dates start_date effective_date)) (\<lambda>_.
          and_then (version_is_name_unique lower (ver_project_id existing) name (Some i)) (\<lambda>unique.
          if \<not> unique then fail name_taken_error
          else fetch_one (sql_update db_versions db_versions_update (\<lambda>r. ver_id r = i) (\<lambda>now r. r\<lparr>
            ver_name := name, ver_description := description, ver_effective_date := effective_date,
            ver_start_date := start_date, ver_status := version_status, ver_sharing := version_sharing,
            ver_wiki_page_title := wiki_page_title, ver_updated_at := now\<rparr>)))))"

definition version_delete :: "Id \<Rightarrow> (database, unit) dbop" where
  "version_delete i =
     and_then (version_exists i) (\<lambda>found.
     if \<not> found then fail (version_not_found i)
     else and_then (count_of db_work_packages (\<lambda>w. wpr_version_id w = Some i)) (\<lambda>wp_count.
       if 0 < sint wp_count
       then fail (RepoConflict (''Cannot delete version with '' @ show_i64 wp_count @ '' work packages''))
       else execute (sql_delete db_versions db_versions_update (\<lambda>r. ver_id r = i))))"

subsection \<open>Categories\<close>

record create_category_dto =
  cca_project_id :: Id
  cca_name :: string
  cca_assigned_to_id :: "Id option"

record update_category_dto =
  uca_name :: "string option"
  uca_assigned_to_id :: "Id option"

definition category_find_by_project ::
    "(string \<Rightarrow> 'k::linorder) \<Rightarrow> Id \<Rightarrow> pagination \<Rightarrow> (database, category_row paginated_result) dbop" where
  "category_find_by_project coll project_id p =
     page_of p db_categories (\<lambda>r. car_project_id r = project_id) (sort_key (\<lambda>r. coll (car_name r)))"

definition category_find_all_by_project :: "(string \<Rightarrow> 'k::linorder) \<Rightarrow> Id \<Rightarrow> (database, category_row list) dbop" where
  "category_find_all_by_project coll project_id =
     fetch_all (sql_select (\<lambda>d. sort_key (\<lambda>r. coll (car_name r)) (filter (\<lambda>r. car_project_id r = project_id) (tb_rows (db_categories d)))))"

definition category_is_name_unique :: "(string \<Rightarrow> string) \<Rightarrow> Id \<Rightarrow> string \<Rightarrow> Id option \<Rightarrow> (database, bool) dbop" where
  "category_is_name_unique lower project_id name exclude_id =
     and_then (count_of db_categories (\<lambda>r. car_project_id r = project_id \<and> lower (car_name r) = lower name \<and>
       (case exclude_id of Some i \<Rightarrow> car_id r \<noteq> i | None \<Rightarrow> True))) (\<lambda>count.
     ret (count = 0))"

definition category_find_by_id :: "Id \<Rightarrow> (database, category_row option) dbop" where
  "category_find_by_id = find_row car_id db_categories"

definition category_find_all :: "(string \<Rightarrow> 'k::linorder) \<Rightarrow> i64 \<Rightarrow> i64 \<Rightarrow> (database, category_row list) dbop" where
  "category_find_all coll limit offset =
     fetch_all (sql_select_page limit offset (\<lambda>d. sort_key (\<lambda>r. coll (car_name r)) (tb_rows (db_categories d))))"

definition category_count :: "(database, i64) dbop" where
  "category_count = count_of db_categories (\<lambda>_. True)"

definition category_exists :: "Id \<Rightarrow> (database, bool) dbop" where
  "category_exists i = counted db_categories (\<lambda>r. car_id r = i)"

definition category_not_found :: "Id \<Rightarrow> repository_error" where
  "category_not_found i = RepoNotFound (''Category '' @ show_i64 i @ '' not found'')"

definition category_create :: "(string \<Rightarrow> string) \<Rightarrow> create_category_dto \<Rightarrow> (database, category_row) dbop" where
  "category_create lower dto =
     (if trim (cca_name dto) = [] then fail blank_name_error
      else and_then (category_is_name_unique lower (cca_project_id dto) (cca_name dto) None) (\<lambda>unique.
        if \<not> unique then fail name_taken_error
        else fetch_one (sql_insert car_id db_categories db_categories_update (\<lambda>now i.
          \<lparr>car_id = i, car_project_id = cca_project_id dto, car_name = cca_name dto,
           car_assigned_to_id = cca_assigned_to_id dto, car_created_at = now, car_updated_at = now\<rparr>))))"

definition category_update :: "(string \<Rightarrow> string) \<Rightarrow> Id \<Rightarrow> update_category_dto \<Rightarrow> (database, category_row) dbop" where
  "category_update lower i dto =
     and_then (or_fail (category_not_found i) (category_find_by_id i)) (\<lambda>existing.
     let name = coalesce (uca_name dto) (car_name existing);
         assigned_to_id = coalesce_opt (uca_assigned_to_id dto) (car_assigned_to_id existing)
     in if trim name = [] then fail blank_name_error
        else and_then (category_is_name_unique lower (car_project_id existing) name (Some i)) (\<lambda>unique.
          if \<not> unique then fail name_taken_error
          else fetch_one (sql_update db_categories db_categories_update (\<lambda>r. car_id r = i)
            (\<lambda>now r. r\<lparr>car_name := name, car_assigned_to_id := assigned_to_id, car_updated_at := now\<rparr>))))"

definition category_delete :: "Id \<Rightarrow> (database, unit) dbop" where
  "category_delete i =
     and_then (category_exists i) (\<lambda>found.
     if \<not> found then fail (category_not_found i)
     else and_then (count_of db_work_packages (\<lambda>w. wpr_category_id w = Some i)) (\<lambda>wp_count.
       if 0 < sint wp_count
       then fail (RepoConflict (''Cannot delete category with '' @ show_i64 wp_count @ '' work packages''))
       else execute (sql_delete db_categories db_categories_update (\<lambda>r. car_id r = i))))"

subsection \<open>Types: names and the standard type\<close>

interpretation types: keyed_table tyr_id "db_types :: database \<Rightarrow> _" db_types_update "\<lambda>r. lower (tyr_name r)" for lower
  by unfold_locales simp

abbreviation types_inv :: "(string \<Rightarrow> string) \<Rightarrow> database \<Rightarrow> bool" where
  "types_inv lower \<equiv> keyed_inv tyr_id db_types (\<lambda>r. lower (tyr_name r))"

abbreviation type_name_free :: "(string \<Rightarrow> string) \<Rightarrow> string \<Rightarrow> (Id \<Rightarrow> bool) \<Rightarrow> database \<Rightarrow> bool" where
  "type_name_free lower \<equiv> key_is_free tyr_id db_types (\<lambda>r. lower (tyr_name r))"

lemma type_fields [simp]:
  "tyr_id (new_type cdto pos now i) = i" "tyr_name (new_type cdto pos now i) = cty_name cdto" "\<not> tyr_is_standard (new_type cdto pos now i)"
  "tyr_id (updated_type dto now r) = tyr_id r" "tyr_name (updated_type dto now r) = coalesce (uty_name dto) (tyr_name r)"
  "tyr_is_standard (updated_type dto now r) = tyr_is_standard r"
  by (simp_all add: new_type_def updated_type_def)

lemma type_name_triple:
  "(\<And>d. P d \<Longrightarrow> E d) \<Longrightarrow> triple fl P (type_is_name_unique lower n x)
    (\<lambda>b d. P d \<and> (b \<longrightarrow> type_name_free lower (lower n) (\<lambda>j. Some j \<noteq> x) d)) E"
  unfolding type_is_name_unique_def
  by (cases x; simp; rule triple_post, rule triple_value) (auto simp: free_key_def)

lemma type_position_keeps:
  "(\<And>d. P d \<Longrightarrow> E d) \<Longrightarrow>
   triple fl P (case p of Some pos \<Rightarrow> ret pos | None \<Rightarrow> and_then type_get_max_position (\<lambda>m. ret (m + 1))) (\<lambda>_. P) E"
  unfolding type_get_max_position_def by (intro triple_keep)

lemma type_create_triple: "triple fl (types_inv lower) (type_create lower dto) (\<lambda>_. types_inv lower) (types_inv lower)"
  unfolding type_create_def
  by (rule triple_then, rule type_name_triple, assumption, rule triple_if, rule triple_fail, blast, rule triple_then,
      rule type_position_keeps, blast, rule triple_weaken,
      rule types.insert_keyed [where mk = "new_type dto position" and c = "lower (cty_name dto)" for position]) auto

lemma type_update_triple: "triple fl (types_inv lower) (type_update lower i dto) (\<lambda>_. types_inv lower) (types_inv lower)"
  unfolding type_update_def
proof (rule triple_then [where R = "\<lambda>unique d. types_inv lower d \<and>
    (unique \<longrightarrow> (\<forall>n. uty_name dto = Some n \<longrightarrow> type_name_free lower (lower n) (\<lambda>j. j \<noteq> i) d))"])
  show "triple fl (types_inv lower) (case uty_name dto of Some name \<Rightarrow> type_is_name_unique lower name (Some i) | None \<Rightarrow> ret True)
    (\<lambda>unique d. types_inv lower d \<and> (unique \<longrightarrow> (\<forall>n. uty_name dto = Some n \<longrightarrow> type_name_free lower (lower n) (\<lambda>j. j \<noteq> i) d)))
    (types_inv lower)"
    by (rule triple_case_option, rule triple_ret, simp, rule triple_post, rule type_name_triple) auto
  show "triple fl (\<lambda>d. types_inv lower d \<and>
      (unique \<longrightarrow> (\<forall>n. uty_name dto = Some n \<longrightarrow> type_name_free lower (lower n) (\<lambda>j. j \<noteq> i) d)))
    (if \<not> unique then fail type_name_taken
     else or_fail (type_not_found i) (fetch_optional (sql_update db_types db_types_update (\<lambda>r. tyr_id r = i) (updated_type dto))))
    (\<lambda>_. types_inv lower) (types_inv lower)" for unique
    by (rule triple_if, rule triple_fail, blast, rule triple_weaken, rule types.update_keyed(2) [where f = "updated_type dto"])
      (auto simp: coalesce_def split: option.splits intro: own_key_is_free)
qed

lemma type_delete_triple: "triple fl (types_inv lower) (type_delete i) (\<lambda>_. types_inv lower) (types_inv lower)"
  unfolding type_delete_def fetch_optional_def
  by (rule triple_then [where R = "\<lambda>_. types_inv lower"], rule triple_then [where R = "\<lambda>_. types_inv lower"],
      rule triple_statement, assumption, simp add: sql_select_def, rule triple_ret, assumption,
      rule triple_if, rule triple_fail, blast, rule triple_then, rule row_exists_keep, blast,
      rule triple_if, rule triple_fail, blast, rule triple_weaken, rule types.delete_keyed(1)) auto

text \<open>Which types are standard never changes, whatever runs at the same time.\<close>

definition standard_types :: "database \<Rightarrow> Id set" where
  "standard_types d = tyr_id ` set (filter tyr_is_standard (tb_rows (db_types d)))"

abbreviation standards_are :: "Id set \<Rightarrow> database \<Rightarrow> bool" where
  "standards_are S d \<equiv> distinct (map tyr_id (tb_rows (db_types d))) \<and> standard_types d = S"

lemma type_create_standard: "holds (standards_are S) (type_create lower dto) (\<lambda>_. True)"
  unfolding type_create_def type_is_name_unique_def type_get_max_position_def
  by (intro holds_intro holds_fetch(3) [where Q = "\<lambda>_. True"])
    (auto simp: sql_insert_def Let_def standard_types_def)

lemma standard_map:
  assumes "standards_are S d" "\<And>r. tyr_id (g r) = tyr_id r" "\<And>r. tyr_is_standard (g r) = tyr_is_standard r"
  shows "standards_are S (db_types_update (tb_rows_update (map g)) d)"
  using assms(1) by (simp add: standard_types_def filter_map comp_def image_image assms(2,3))

lemma type_update_standard: "holds (standards_are S) (type_update lower i dto) (\<lambda>_. True)"
proof -
  have "standards_are S (db_types_update (tb_rows_update (map (\<lambda>r. if tyr_id r = i then updated_type dto now r else r))) d)"
    if "standards_are S d" for now d by (rule standard_map [OF that]) simp_all
  then show ?thesis
    unfolding type_update_def type_is_name_unique_def
    by (intro holds_intro holds_or_fail_any holds_true [OF holds_fetch(2) [where Q = "\<lambda>_. True"]])
      (simp add: sql_update_def del: database.simps)
qed

lemma type_delete_standard: "holds (standards_are S) (type_delete i) (\<lambda>_. True)"
  unfolding type_delete_def
proof (rule holds_and_then [where P = "\<lambda>v. v \<noteq> Some True \<longrightarrow> i \<notin> S"])
  show "holds (standards_are S) (fetch_optional (sql_select (\<lambda>d. map tyr_is_standard (filter (\<lambda>r. tyr_id r = i) (tb_rows (db_types d))))))
    (\<lambda>v. v \<noteq> Some True \<longrightarrow> i \<notin> S)"
  proof (rule holds_select_optional)
    fix d assume inv: "standards_are S d"
    show "(case map tyr_is_standard (filter (\<lambda>r. tyr_id r = i) (tb_rows (db_types d))) of [] \<Rightarrow> None | r # rs \<Rightarrow> Some r) \<noteq> Some True \<longrightarrow> i \<notin> S"
    proof (intro impI notI)
      assume "i \<in> S"
      with inv obtain r where r: "r \<in> set (tb_rows (db_types d))" "tyr_id r = i" "tyr_is_standard r" by (auto simp: standard_types_def)
      then have "filter (\<lambda>r. tyr_id r = i) (tb_rows (db_types d)) = [r]"
        using inv by (intro filter_key_single) auto
      moreover assume "(case map tyr_is_standard (filter (\<lambda>r. tyr_id r = i) (tb_rows (db_types d))) of [] \<Rightarrow> None | r # rs \<Rightarrow> Some r) \<noteq> Some True"
      ultimately show False using r(3) by simp
    qed
  qed
  show "holds (standards_are S) (if is_standard = Some True then fail (RepoConflict ''Cannot delete the standard type'')
      else and_then (row_exists db_work_packages (\<lambda>w. wpr_type_id w = i)) (\<lambda>has_work_packages.
        if has_work_packages then fail (RepoConflict ''Cannot delete type: work packages are using this type'')
        else or_fail_zero (type_not_found i) (rows_affected (sql_delete db_types db_types_update (\<lambda>r. tyr_id r = i))))) (\<lambda>_. True)"
    if "is_standard \<noteq> Some True \<longrightarrow> i \<notin> S" for is_standard
  proof (intro holds_intro holds_or_fail_zero)
    assume "is_standard \<noteq> Some True"
    with that have "i \<notin> S" by simp
    then show "holds (standards_are S) (rows_affected (sql_delete db_types db_types_update (\<lambda>r. tyr_id r = i))) (\<lambda>_. True)"
      by (intro holds_fetch(4) [where Q = "\<lambda>_. True"]) (auto simp: sql_delete_def standard_types_def distinct_map_filter)
  qed
qed

abbreviation types_table :: "database \<Rightarrow> bool" where
  "types_table d \<equiv> table_ok tyr_id (db_types d)"

lemma type_create_law:
  "triple False (types.start_at d0) (type_create lower dto) (\<lambda>r. types.created_row d0 r) (types.refused_in d0)"
  unfolding type_create_def
  by (rule triple_then, rule type_name_triple, blast, rule triple_if, rule triple_fail, blast, rule triple_then,
      rule type_position_keeps, blast, rule triple_weaken, rule types.insert_keyed_law) auto

lemma type_update_law:
  "triple False (types.start_at d0) (type_update lower i dto) (\<lambda>r. types.updated_row d0 i r) (types.refused_in d0)"
  unfolding type_update_def
  by (rule triple_then [where R = "\<lambda>_. types.start_at d0"],
      rule triple_case_option, rule triple_ret, blast, rule triple_post, rule type_name_triple, blast, blast,
      rule triple_if, rule triple_fail, blast, rule triple_weaken, rule types.update_keyed_law(1)) auto

lemma type_delete_law:
  "triple False (types.start_at d0) (type_delete i) (\<lambda>_. types.deleted_row d0 i) (types.refused_in d0)"
  unfolding type_delete_def fetch_optional_def
  by (rule triple_then [where R = "\<lambda>_. types.start_at d0"], rule triple_then [where R = "\<lambda>_. types.start_at d0"],
      rule triple_statement, blast, simp add: sql_select_def, rule triple_ret, assumption,
      rule triple_if, rule triple_fail, blast, rule triple_then, rule row_exists_keep, blast,
      rule triple_if, rule triple_fail, blast, rule triple_weaken, rule types.delete_counted_law) auto

interpretation type_repository: repository tyr_id types_table "\<lambda>d. row_of tyr_id (db_types d)"
    type_find_by_id type_exists "type_create lower" "type_update lower" type_delete for lower
proof (unfold_locales, goal_cases)
  case (1 env d i k)
  then show ?case by (simp add: type_find_by_id_def types.run_table)
next
  case (2 env d i k)
  then show ?case by (auto simp: type_exists_def types.run_table row_of_None)
next
  case (3 env d c k x k' d')
  from types.quietly(1) [OF 3 type_create_law] show ?case .
next
  case (4 env d i u k x k' d')
  from types.quietly(2) [OF 4 type_update_law] show ?case .
next
  case (5 env d i k y k' d')
  from types.deleted_quietly [OF 5 type_delete_law] show ?case .
qed

datatype type_request = CreateType create_type_dto | UpdateType Id update_type_dto | DeleteType Id

fun perform_type :: "(string \<Rightarrow> string) \<Rightarrow> type_request \<Rightarrow> (database, unit) dbop" where
  "perform_type lower (CreateType dto) = and_then (type_create lower dto) (\<lambda>_. ret ())"
| "perform_type lower (UpdateType i dto) = and_then (type_update lower i dto) (\<lambda>_. ret ())"
| "perform_type lower (DeleteType i) = type_delete i"

lemma perform_type_triple: "triple fl (types_inv lower) (perform_type lower q) (\<lambda>_. types_inv lower) (types_inv lower)"
  by (cases q) (auto intro: triple_unit type_create_triple type_update_triple type_delete_triple)

lemma perform_type_standard: "holds (standards_are S) (perform_type lower q) (\<lambda>_. True)"
  by (cases q) (auto intro: holds_intro type_create_standard type_update_standard type_delete_standard)

definition sample_type :: create_type_dto where
  "sample_type = \<lparr>cty_name = ''Task'', cty_position = None, cty_is_default = True, cty_is_in_roadmap = True,
     cty_is_milestone = False, cty_color_id = None, cty_description = None\<rparr>"

text \<open>
  Types.  Their names stay unique as long as requests come one after the other, even if statements
  fail.  The set of the standard types never changes, whatever other sessions do that keep it:
  none is deleted, none is made.
\<close>

theorem types_consistent:
  assumes "history (perform_type lower) reqs env (k, d) = (k', d')"
  shows "(calm True env \<and> table_ok tyr_id (db_types d) \<and> unique_by tyr_id (\<lambda>_. True) (\<lambda>r. lower (tyr_name r)) (db_types d) \<longrightarrow>
      table_ok tyr_id (db_types d') \<and> unique_by tyr_id (\<lambda>_. True) (\<lambda>r. lower (tyr_name r)) (db_types d')) \<and>
    (well_behaved (standards_are S) env \<and> standards_are S d \<longrightarrow> standards_are S d')"
proof (intro conjI impI)
  have d': "d' = snd (history (perform_type lower) reqs env (k, d))" using assms by simp
  show "table_ok tyr_id (db_types d')" "unique_by tyr_id (\<lambda>_. True) (\<lambda>r. lower (tyr_name r)) (db_types d')"
    if "calm True env \<and> table_ok tyr_id (db_types d) \<and> unique_by tyr_id (\<lambda>_. True) (\<lambda>r. lower (tyr_name r)) (db_types d)"
  proof -
    from that have env: "calm True env" and d: "types_inv lower d" by (simp_all add: keyed_inv_def)
    have "types_inv lower d'" unfolding d' by (rule history_calm [OF env perform_type_triple d])
    then show "table_ok tyr_id (db_types d')" "unique_by tyr_id (\<lambda>_. True) (\<lambda>r. lower (tyr_name r)) (db_types d')"
      by (simp_all add: keyed_inv_def)
  qed
  have "standards_are S d'" if env: "well_behaved (standards_are S) env" and d: "standards_are S d"
    unfolding d' by (rule history_holds [OF env perform_type_standard d])
  then show "distinct (map tyr_id (tb_rows (db_types d')))" "standard_types d' = S"
    if "well_behaved (standards_are S) env \<and> standards_are S d" using that by blast+
qed

theorem types_consistent_witness:
  "(case history (perform_type (\<lambda>n. n)) [CreateType sample_type, DeleteType 1] (alone 0) (0, empty_database) of
     (k', d') \<Rightarrow> standard_types d' = {} \<and> table_ok tyr_id (db_types d'))"
proof -
  let ?h = "history (perform_type (\<lambda>n. n)) [CreateType sample_type, DeleteType 1] (alone 0) (0, empty_database)"
  obtain k' d' where run: "?h = (k', d')" by (cases ?h)
  have e: "db_types empty_database = empty_table" by (simp add: empty_database_def)
  have "standards_are {} empty_database" "table_ok tyr_id (db_types empty_database)"
    "unique_by tyr_id (\<lambda>_. True) (\<lambda>r. (\<lambda>n. n) (tyr_name r)) (db_types empty_database)"
    by (simp_all add: standard_types_def e) (simp_all add: empty_table_def)
  with types_consistent [OF run, of "{}"] have "standard_types d' = {} \<and> table_ok tyr_id (db_types d')" by simp
  then show ?thesis by (simp only: run prod.case)
qed

subsection \<open>Versions: valid and with names of their own\<close>

interpretation versions: keyed_table ver_id "db_versions :: database \<Rightarrow> _" db_versions_update
    "\<lambda>r. (ver_project_id r, lower (ver_name r))" for lower
  by unfold_locales simp

abbreviation versions_inv :: "(string \<Rightarrow> string) \<Rightarrow> database \<Rightarrow> bool" where
  "versions_inv lower \<equiv> keyed_inv ver_id db_versions (\<lambda>r. (ver_project_id r, lower (ver_name r)))"

definition dates_ordered :: "date option \<Rightarrow> date option \<Rightarrow> bool" where
  "dates_ordered start_date effective_date \<longleftrightarrow>
     (\<forall>s e. start_date = Some s \<and> effective_date = Some e \<longrightarrow> s \<le> e)"

definition version_ok :: "version_row \<Rightarrow> bool" where
  "version_ok r \<longleftrightarrow> trim (ver_name r) \<noteq> [] \<and> ver_status r \<in> {''open'', ''locked'', ''closed''} \<and>
     ver_sharing r \<in> {''none'', ''descendants'', ''hierarchy'', ''tree'', ''system''} \<and>
     dates_ordered (ver_start_date r) (ver_effective_date r)"

abbreviation versions_ok :: "database \<Rightarrow> bool" where
  "versions_ok d \<equiv> all_rows version_ok (db_versions d)"

lemma validate_dates_ok: "validate_dates s e = Ok u \<longleftrightarrow> dates_ordered s e"
  by (auto simp: validate_dates_def dates_ordered_def split: option.splits if_splits)

lemma version_words: "version_status_is_valid s \<longleftrightarrow> s \<in> {''open'', ''locked'', ''closed''}"
  "version_sharing_is_valid h \<longleftrightarrow> h \<in> {''none'', ''descendants'', ''hierarchy'', ''tree'', ''system''}"
  by (simp_all add: version_status_is_valid_def version_statuses_def version_sharing_is_valid_def version_sharings_def)

lemma holds_or_return: "holds I (or_return v) (\<lambda>x. v = Ok x)"
  by (cases v) (auto simp: or_return_def intro: holds_ret holds_fail)

lemma triple_or_return: "(\<And>d. P d \<Longrightarrow> E d) \<Longrightarrow> triple fl P (or_return v) (\<lambda>_. P) E"
  by (cases v) (auto simp: or_return_def intro: triple_ret triple_fail)

lemma version_name_holds: "holds I (version_is_name_unique lower p n x) (\<lambda>_. True)"
  unfolding version_is_name_unique_def by (intro holds_intro)

lemma version_create_holds: "holds versions_ok (version_create lower dto) (\<lambda>_. True)"
  unfolding version_create_def Let_def
  by (intro holds_intro holds_and_then [OF holds_or_return] version_name_holds holds_true [OF versions.holds_insert])
    (simp add: version_ok_def validate_dates_ok version_words)

lemma version_update_holds: "holds versions_ok (version_update lower i dto) (\<lambda>_. True)"
  unfolding version_update_def Let_def version_find_by_id_def
  by (intro holds_and_then [OF holds_or_fail [OF versions.holds_find]] holds_intro holds_and_then [OF holds_or_return]
      version_name_holds holds_true [OF versions.holds_update(1)])
    (simp add: version_ok_def validate_dates_ok version_words)

lemma version_delete_holds: "holds versions_ok (version_delete i) (\<lambda>_. True)"
  unfolding version_delete_def version_exists_def
  by (intro holds_intro versions.holds_delete)

abbreviation version_name_free :: "(string \<Rightarrow> string) \<Rightarrow> Id \<times> string \<Rightarrow> (Id \<Rightarrow> bool) \<Rightarrow> database \<Rightarrow> bool" where
  "version_name_free lower \<equiv> key_is_free ver_id db_versions (\<lambda>r. (ver_project_id r, lower (ver_name r)))"

lemma version_name_triple:
  assumes "\<And>d. P d \<Longrightarrow> E d" "\<And>d. P d \<Longrightarrow> table_ok ver_id (db_versions d)"
  shows "triple fl P (version_is_name_unique lower p n x)
    (\<lambda>b d. P d \<and> (b \<longrightarrow> version_name_free lower (p, lower n) (\<lambda>j. Some j \<noteq> x) d)) E"
  unfolding version_is_name_unique_def
  by (rule triple_count_free) (use assms in \<open>auto split: option.splits\<close>)

lemma version_create_triple: "triple fl (versions_inv lower) (version_create lower dto) (\<lambda>_. versions_inv lower) (versions_inv lower)"
  unfolding version_create_def Let_def
  apply (rule triple_if, rule triple_fail, blast, rule triple_if, rule triple_fail, blast, rule triple_if, rule triple_fail, blast)
  apply (rule triple_then [where R = "\<lambda>_. versions_inv lower"], rule triple_weaken, rule triple_or_return, assumption, blast, blast, blast)
  apply (rule triple_then, rule version_name_triple, assumption, simp add: keyed_inv_def, rule triple_if, rule triple_fail, blast)
  apply (rule triple_weaken, rule versions.insert_keyed [where c = "(cve_project_id dto, lower (cve_name dto))"])
       apply auto
  done

lemma version_update_triple: "triple fl (versions_inv lower) (version_update lower i dto) (\<lambda>_. versions_inv lower) (versions_inv lower)"
  unfolding version_update_def Let_def version_find_by_id_def
proof (rule triple_then, rule triple_existing, simp add: keyed_inv_def, assumption, goal_cases)
  case (1 old)
  let ?old = "\<lambda>d. versions_inv lower d \<and> old \<in> set (tb_rows (db_versions d)) \<and> ver_id old = i \<and>
    (\<forall>s \<in> set (tb_rows (db_versions d)). ver_id s = i \<longrightarrow> s = old)"
  show ?case
    apply (rule triple_if, rule triple_fail, blast, rule triple_if, rule triple_fail, blast, rule triple_if, rule triple_fail, blast)
    apply (rule triple_then [where R = "\<lambda>_. ?old"], rule triple_weaken, rule triple_or_return [where P = ?old], blast, blast, blast, blast)
    apply (rule triple_then, rule version_name_triple, blast, simp add: keyed_inv_def, rule triple_if, rule triple_fail, blast)
    apply (rule triple_weaken, rule versions.update_keyed(1))
       apply auto
    done
qed

lemma version_delete_triple: "triple fl (versions_inv lower) (version_delete i) (\<lambda>_. versions_inv lower) (versions_inv lower)"
  unfolding version_delete_def version_exists_def
  by (rule triple_then, rule counted_keep, assumption, rule triple_if, rule triple_fail, blast, rule triple_then,
      rule count_of_keep, blast, rule triple_if, rule triple_fail, blast, rule triple_weaken, rule versions.delete_keyed(2)) auto

abbreviation versions_table :: "database \<Rightarrow> bool" where
  "versions_table d \<equiv> table_ok ver_id (db_versions d)"

lemma version_create_law:
  "triple False (versions.start_at d0) (version_create lower dto) (\<lambda>r. versions.created_row d0 r) (versions.refused_in d0)"
  unfolding version_create_def Let_def
  by (rule triple_if, rule triple_fail, blast, rule triple_if, rule triple_fail, blast, rule triple_if, rule triple_fail, blast,
      rule triple_then [where R = "\<lambda>_. versions.start_at d0"], rule triple_weaken,
      rule triple_or_return [where P = "versions.start_at d0"], blast, blast, blast, blast,
      rule triple_then, rule version_name_triple, blast, blast, rule triple_if, rule triple_fail, blast,
      rule triple_weaken, rule versions.insert_keyed_law) auto

lemma version_update_law:
  "triple False (versions.start_at d0) (version_update lower i dto) (\<lambda>r. versions.updated_row d0 i r) (versions.refused_in d0)"
  unfolding version_update_def Let_def version_find_by_id_def
  by (rule triple_then [where R = "\<lambda>_. versions.start_at d0"], rule triple_post, rule triple_existing, blast, blast, blast,
      rule triple_if, rule triple_fail, blast, rule triple_if, rule triple_fail, blast, rule triple_if, rule triple_fail, blast,
      rule triple_then [where R = "\<lambda>_. versions.start_at d0"], rule triple_weaken,
      rule triple_or_return [where P = "versions.start_at d0"], blast, blast, blast, blast,
      rule triple_then, rule version_name_triple, blast, blast, rule triple_if, rule triple_fail, blast,
      rule triple_weaken, rule versions.update_keyed_law(2)) auto

lemma version_delete_law:
  "triple False (versions.start_at d0) (version_delete i) (\<lambda>_. versions.deleted_row d0 i) (versions.refused_in d0)"
  unfolding version_delete_def version_exists_def
  by (rule triple_then, rule triple_counted, blast, blast, rule triple_if, rule triple_fail, blast, rule triple_then,
      rule count_of_keep, blast, rule triple_if, rule triple_fail, blast, rule versions.delete_checked_law) auto

interpretation version_repository: repository ver_id versions_table "\<lambda>d. row_of ver_id (db_versions d)"
    version_find_by_id version_exists "version_create lower" "version_update lower" version_delete for lower
proof (unfold_locales, goal_cases)
  case (1 env d i k)
  then show ?case by (simp add: version_find_by_id_def versions.run_table)
next
  case (2 env d i k)
  then show ?case by (auto simp: version_exists_def versions.run_table row_of_None)
next
  case (3 env d c k x k' d')
  from versions.quietly(1) [OF 3 version_create_law] show ?case .
next
  case (4 env d i u k x k' d')
  from versions.quietly(2) [OF 4 version_update_law] show ?case .
next
  case (5 env d i k y k' d')
  from versions.deleted_quietly [OF 5 version_delete_law] show ?case .
qed

datatype version_request = CreateVersion create_version_dto | UpdateVersion Id update_version_dto | DeleteVersion Id

fun perform_version :: "(string \<Rightarrow> string) \<Rightarrow> version_request \<Rightarrow> (database, unit) dbop" where
  "perform_version lower (CreateVersion dto) = and_then (version_create lower dto) (\<lambda>_. ret ())"
| "perform_version lower (UpdateVersion i dto) = and_then (version_update lower i dto) (\<lambda>_. ret ())"
| "perform_version lower (DeleteVersion i) = version_delete i"

lemma perform_version_triple: "triple fl (versions_inv lower) (perform_version lower q) (\<lambda>_. versions_inv lower) (versions_inv lower)"
  by (cases q) (auto intro: triple_unit version_create_triple version_update_triple version_delete_triple)

lemma perform_version_holds: "holds versions_ok (perform_version lower q) (\<lambda>_. True)"
  by (cases q) (auto intro: holds_intro version_create_holds version_update_holds version_delete_holds)

definition sample_version :: create_version_dto where
  "sample_version = \<lparr>cve_project_id = 1, cve_name = ''1.0'', cve_description = None, cve_effective_date = Some 20,
     cve_start_date = Some 10, cve_status = None, cve_sharing = None, cve_wiki_page_title = None\<rparr>"

text \<open>
  C29. Versions.  Whatever fails and whatever other sessions do that keep it, every stored version has a
  name that is not blank, a known status and sharing, and ends no earlier than it starts.  As long as
  requests come one after the other, no two versions of a project have the same name.
\<close>

theorem versions_consistent:
  assumes "history (perform_version lower) reqs env (k, d) = (k', d')"
  shows "(well_behaved versions_ok env \<and> versions_ok d \<longrightarrow> (\<forall>r \<in> set (tb_rows (db_versions d')).
      trim (ver_name r) \<noteq> [] \<and> ver_status r \<in> {''open'', ''locked'', ''closed''} \<and>
      ver_sharing r \<in> {''none'', ''descendants'', ''hierarchy'', ''tree'', ''system''} \<and>
      (\<forall>s e. ver_start_date r = Some s \<and> ver_effective_date r = Some e \<longrightarrow> s \<le> e))) \<and>
    (calm True env \<and> versions_inv lower d \<longrightarrow> versions_inv lower d')"
proof (intro conjI impI)
  have d': "d' = snd (history (perform_version lower) reqs env (k, d))" using assms by simp
  assume "well_behaved versions_ok env \<and> versions_ok d"
  then have env: "well_behaved versions_ok env" and d: "versions_ok d" by blast+
  have "versions_ok d'" unfolding d' by (rule history_holds [OF env perform_version_holds d])
  then show "\<forall>r \<in> set (tb_rows (db_versions d')).
      trim (ver_name r) \<noteq> [] \<and> ver_status r \<in> {''open'', ''locked'', ''closed''} \<and>
      ver_sharing r \<in> {''none'', ''descendants'', ''hierarchy'', ''tree'', ''system''} \<and>
      (\<forall>s e. ver_start_date r = Some s \<and> ver_effective_date r = Some e \<longrightarrow> s \<le> e)"
    unfolding all_rows_def version_ok_def dates_ordered_def .
next
  have d': "d' = snd (history (perform_version lower) reqs env (k, d))" using assms by simp
  assume "calm True env \<and> versions_inv lower d"
  then have env: "calm True env" and d: "versions_inv lower d" by blast+
  show "versions_inv lower d'" unfolding d' by (rule history_calm [OF env perform_version_triple d])
qed

theorem versions_consistent_witness:
  "(case history (perform_version (\<lambda>n. n)) [CreateVersion sample_version, CreateVersion sample_version] (alone 0) (0, empty_database) of
     (k', d') \<Rightarrow> \<forall>r \<in> set (tb_rows (db_versions d')). \<forall>s e. ver_start_date r = Some s \<and> ver_effective_date r = Some e \<longrightarrow> s \<le> e)"
proof -
  let ?h = "history (perform_version (\<lambda>n. n)) [CreateVersion sample_version, CreateVersion sample_version] (alone 0) (0, empty_database)"
  obtain k' d' where run: "?h = (k', d')" by (cases ?h)
  have "versions_ok empty_database" by (simp add: empty_database_def)
  with versions_consistent [OF run]
  have "\<forall>r \<in> set (tb_rows (db_versions d')). \<forall>s e. ver_start_date r = Some s \<and> ver_effective_date r = Some e \<longrightarrow> s \<le> e" by simp
  then show ?thesis by (simp only: run prod.case)
qed

subsection \<open>Categories: names of their own\<close>

interpretation categories: keyed_table car_id "db_categories :: database \<Rightarrow> _" db_categories_update
    "\<lambda>r. (car_project_id r, lower (car_name r))" for lower
  by unfold_locales simp

abbreviation categories_inv :: "(string \<Rightarrow> string) \<Rightarrow> database \<Rightarrow> bool" where
  "categories_inv lower \<equiv> keyed_inv car_id db_categories (\<lambda>r. (car_project_id r, lower (car_name r)))"

abbreviation category_name_free :: "(string \<Rightarrow> string) \<Rightarrow> Id \<times> string \<Rightarrow> (Id \<Rightarrow> bool) \<Rightarrow> database \<Rightarrow> bool" where
  "category_name_free lower \<equiv> key_is_free car_id db_categories (\<lambda>r. (car_project_id r, lower (car_name r)))"

lemma category_name_triple:
  assumes "\<And>d. P d \<Longrightarrow> E d" "\<And>d. P d \<Longrightarrow> table_ok car_id (db_categories d)"
  shows "triple fl P (category_is_name_unique lower p n x)
    (\<lambda>b d. P d \<and> (b \<longrightarrow> category_name_free lower (p, lower n) (\<lambda>j. Some j \<noteq> x) d)) E"
  unfolding category_is_name_unique_def
  by (rule triple_count_free) (use assms in \<open>auto split: option.splits\<close>)

lemma category_create_triple: "triple fl (categories_inv lower) (category_create lower dto) (\<lambda>_. categories_inv lower) (categories_inv lower)"
  unfolding category_create_def
  apply (rule triple_if, rule triple_fail, blast)
  apply (rule triple_then, rule category_name_triple, blast, simp add: keyed_inv_def, rule triple_if, rule triple_fail, blast)
  apply (rule triple_weaken, rule categories.insert_keyed [where c = "(cca_project_id dto, lower (cca_name dto))"])
       apply auto
  done

lemma category_update_triple: "triple fl (categories_inv lower) (category_update lower i dto) (\<lambda>_. categories_inv lower) (categories_inv lower)"
  unfolding category_update_def Let_def category_find_by_id_def
  apply (rule triple_then, rule triple_existing, simp add: keyed_inv_def, assumption)
  apply (rule triple_if, rule triple_fail, blast)
  apply (rule triple_then, rule category_name_triple, blast, simp add: keyed_inv_def, rule triple_if, rule triple_fail, blast)
  apply (rule triple_weaken, rule categories.update_keyed(1))
     apply auto
  done

lemma category_delete_triple: "triple fl (categories_inv lower) (category_delete i) (\<lambda>_. categories_inv lower) (categories_inv lower)"
  unfolding category_delete_def category_exists_def
  by (rule triple_then, rule counted_keep, assumption, rule triple_if, rule triple_fail, blast, rule triple_then,
      rule count_of_keep, blast, rule triple_if, rule triple_fail, blast, rule triple_weaken, rule categories.delete_keyed(2)) auto

abbreviation categories_table :: "database \<Rightarrow> bool" where
  "categories_table d \<equiv> table_ok car_id (db_categories d)"

lemma category_create_law:
  "triple False (categories.start_at d0) (category_create lower dto) (\<lambda>r. categories.created_row d0 r) (categories.refused_in d0)"
  unfolding category_create_def Let_def
  by (rule triple_if, rule triple_fail, blast,
      rule triple_then, rule category_name_triple, blast, blast, rule triple_if, rule triple_fail, blast,
      rule triple_weaken, rule categories.insert_keyed_law) auto

lemma category_update_law:
  "triple False (categories.start_at d0) (category_update lower i dto) (\<lambda>r. categories.updated_row d0 i r) (categories.refused_in d0)"
  unfolding category_update_def Let_def category_find_by_id_def
  by (rule triple_then [where R = "\<lambda>_. categories.start_at d0"], rule triple_post, rule triple_existing, blast, blast, blast,
      rule triple_if, rule triple_fail, blast,
      rule triple_then, rule category_name_triple, blast, blast, rule triple_if, rule triple_fail, blast,
      rule triple_weaken, rule categories.update_keyed_law(2)) auto

lemma category_delete_law:
  "triple False (categories.start_at d0) (category_delete i) (\<lambda>_. categories.deleted_row d0 i) (categories.refused_in d0)"
  unfolding category_delete_def category_exists_def
  by (rule triple_then, rule triple_counted, blast, blast, rule triple_if, rule triple_fail, blast, rule triple_then,
      rule count_of_keep, blast, rule triple_if, rule triple_fail, blast, rule categories.delete_checked_law) auto

interpretation category_repository: repository car_id categories_table "\<lambda>d. row_of car_id (db_categories d)"
    category_find_by_id category_exists "category_create lower" "category_update lower" category_delete for lower
proof (unfold_locales, goal_cases)
  case (1 env d i k)
  then show ?case by (simp add: category_find_by_id_def categories.run_table)
next
  case (2 env d i k)
  then show ?case by (auto simp: category_exists_def categories.run_table row_of_None)
next
  case (3 env d c k x k' d')
  from categories.quietly(1) [OF 3 category_create_law] show ?case .
next
  case (4 env d i u k x k' d')
  from categories.quietly(2) [OF 4 category_update_law] show ?case .
next
  case (5 env d i k y k' d')
  from categories.deleted_quietly [OF 5 category_delete_law] show ?case .
qed

end
