(* ===== verification/Members.thy ===== *)
theory Members
  imports Schema Keys
begin

section \<open>Roles and members (op-db)\<close>

text \<open>
  \<open>op-db/src/roles.rs\<close> and \<open>op-db/src/members.rs\<close>.  A member's roles are the rows of
  \<open>member_roles\<close>, where a pair of member and role is unique; a role's permissions are those of
  \<open>role_permissions\<close>, where a pair of role and permission is unique.
\<close>

subsection \<open>Roles\<close>

definition builtin_non_builtin :: i32 where "builtin_non_builtin = 0"
definition builtin_non_member :: i32 where "builtin_non_member = 1"
definition builtin_anonymous :: i32 where "builtin_anonymous = 2"

definition role_row_is_builtin :: "role_row \<Rightarrow> bool" where
  "role_row_is_builtin r \<longleftrightarrow> ror_builtin r \<noteq> builtin_non_builtin"

definition role_row_is_member :: "role_row \<Rightarrow> bool" where
  "role_row_is_member r \<longleftrightarrow> \<not> role_row_is_builtin r"

definition role_row_is_deletable :: "role_row \<Rightarrow> bool" where
  "role_row_is_deletable r \<longleftrightarrow> \<not> role_row_is_builtin r"

record create_role_dto =
  cro_name :: string
  cro_position :: "i32 option"
  cro_role_type :: string

record update_role_dto =
  uro_name :: "string option"
  uro_position :: "i32 option"

text \<open>\<open>ORDER BY builtin ASC, position ASC\<close>\<close>

definition roles_ordered :: "role_row list \<Rightarrow> role_row list" where
  "roles_ordered rs = sort_key (\<lambda>r. sint (ror_builtin r)) (sort_key (\<lambda>r. sint (ror_position r)) rs)"

definition role_find_visible :: "(database, role_row list) dbop" where
  "role_find_visible = fetch_all (sql_select (\<lambda>d. roles_ordered (filter (\<lambda>r.
     case ror_role_type r of None \<Rightarrow> True | Some t \<Rightarrow> t \<notin> {''WorkPackageRole'', ''ProjectQueryRole''}) (tb_rows (db_roles d)))))"

definition role_find_givable :: "(database, role_row list) dbop" where
  "role_find_givable = fetch_all (sql_select (\<lambda>d. sort_key (\<lambda>r. sint (ror_position r))
     (filter (\<lambda>r. ror_builtin r = builtin_non_builtin) (tb_rows (db_roles d)))))"

definition role_find_builtin :: "(database, role_row list) dbop" where
  "role_find_builtin = fetch_all (sql_select (\<lambda>d. roles_ordered
     (filter (\<lambda>r. ror_builtin r \<noteq> builtin_non_builtin) (tb_rows (db_roles d)))))"

definition role_find_non_member :: "(database, role_row option) dbop" where
  "role_find_non_member =
     fetch_optional (sql_select (\<lambda>d. take 1 (filter (\<lambda>r. ror_builtin r = builtin_non_member) (tb_rows (db_roles d)))))"

definition role_find_anonymous :: "(database, role_row option) dbop" where
  "role_find_anonymous =
     fetch_optional (sql_select (\<lambda>d. take 1 (filter (\<lambda>r. ror_builtin r = builtin_anonymous) (tb_rows (db_roles d)))))"

definition role_find_by_name :: "(string \<Rightarrow> string) \<Rightarrow> string \<Rightarrow> (database, role_row option) dbop" where
  "role_find_by_name lower name =
     fetch_optional (sql_select (\<lambda>d. filter (\<lambda>r. lower (ror_name r) = lower name) (tb_rows (db_roles d))))"

definition role_get_permissions :: "Id \<Rightarrow> (database, string list) dbop" where
  "role_get_permissions role_id = fetch_all (sql_select (\<lambda>d.
     map rpr_permission (filter (\<lambda>p. rpr_role_id p = role_id) (tb_rows (db_role_permissions d)))))"

definition role_add_permission :: "Id \<Rightarrow> string \<Rightarrow> (database, unit) dbop" where
  "role_add_permission role_id permission =
     execute (sql_insert_new rpr_id (\<lambda>p. (rpr_role_id p, rpr_permission p)) db_role_permissions db_role_permissions_update
       (\<lambda>now i. \<lparr>rpr_id = i, rpr_role_id = role_id, rpr_permission = permission\<rparr>))"

definition role_remove_permission :: "Id \<Rightarrow> string \<Rightarrow> (database, unit) dbop" where
  "role_remove_permission role_id permission =
     execute (sql_delete db_role_permissions db_role_permissions_update
       (\<lambda>p. rpr_role_id p = role_id \<and> rpr_permission p = permission))"

definition role_set_permissions :: "Id \<Rightarrow> string list \<Rightarrow> (database, unit) dbop" where
  "role_set_permissions role_id permissions =
     and_then (execute (sql_delete db_role_permissions db_role_permissions_update (\<lambda>p. rpr_role_id p = role_id))) (\<lambda>_.
     for_each permissions (role_add_permission role_id))"

definition role_is_name_unique :: "(string \<Rightarrow> string) \<Rightarrow> string \<Rightarrow> Id option \<Rightarrow> (database, bool) dbop" where
  "role_is_name_unique lower name exclude_id =
     (case exclude_id of
        Some i \<Rightarrow> fetch_one (sql_value (\<lambda>d.
          \<not> (\<exists>r \<in> set (tb_rows (db_roles d)). lower (ror_name r) = lower name \<and> ror_id r \<noteq> i)))
      | None \<Rightarrow> fetch_one (sql_value (\<lambda>d.
          \<not> (\<exists>r \<in> set (tb_rows (db_roles d)). lower (ror_name r) = lower name))))"

definition role_get_max_position :: "(database, i32) dbop" where
  "role_get_max_position =
     and_then (fetch_one (sql_value (\<lambda>d. max_i32 (map ror_position (tb_rows (db_roles d)))))) (\<lambda>max_pos.
     ret (case max_pos of Some n \<Rightarrow> n | None \<Rightarrow> 0))"

definition role_has_members :: "Id \<Rightarrow> (database, bool) dbop" where
  "role_has_members role_id = row_exists db_member_roles (\<lambda>mr. mrr_role_id mr = role_id)"

definition role_find_by_id :: "Id \<Rightarrow> (database, role_row option) dbop" where
  "role_find_by_id = find_row ror_id db_roles"

definition role_find_all :: "i64 \<Rightarrow> i64 \<Rightarrow> (database, role_row list) dbop" where
  "role_find_all limit offset = fetch_all (sql_select_page limit offset (\<lambda>d. roles_ordered (tb_rows (db_roles d))))"

definition role_count :: "(database, i64) dbop" where
  "role_count = count_of db_roles (\<lambda>_. True)"

definition role_name_taken :: repository_error where
  "role_name_taken = RepoConflict ''Role name has already been taken''"

definition role_not_found :: "Id \<Rightarrow> repository_error" where
  "role_not_found i = RepoNotFound (''Role with id '' @ show_i64 i @ '' not found'')"

definition new_role :: "create_role_dto \<Rightarrow> i32 \<Rightarrow> timestamp \<Rightarrow> Id \<Rightarrow> role_row" where
  "new_role dto position now i =
     \<lparr>ror_id = i, ror_name = cro_name dto, ror_position = position, ror_builtin = builtin_non_builtin,
      ror_role_type = Some (cro_role_type dto), ror_created_at = now, ror_updated_at = now\<rparr>"

definition role_create :: "(string \<Rightarrow> string) \<Rightarrow> create_role_dto \<Rightarrow> (database, role_row) dbop" where
  "role_create lower dto =
     and_then (role_is_name_unique lower (cro_name dto) None) (\<lambda>unique.
     if \<not> unique then fail role_name_taken
     else and_then (case cro_position dto of
              Some pos \<Rightarrow> ret pos
            | None \<Rightarrow> and_then role_get_max_position (\<lambda>m. ret (m + 1))) (\<lambda>position.
     fetch_one (sql_insert ror_id db_roles db_roles_update (new_role dto position))))"

definition updated_role :: "update_role_dto \<Rightarrow> timestamp \<Rightarrow> role_row \<Rightarrow> role_row" where
  "updated_role dto now r = r\<lparr>
     ror_name := coalesce (uro_name dto) (ror_name r),
     ror_position := coalesce (uro_position dto) (ror_position r),
     ror_updated_at := now\<rparr>"

definition found_builtin :: "role_row option \<Rightarrow> bool" where
  "found_builtin existing \<longleftrightarrow> (case existing of Some role \<Rightarrow> role_row_is_builtin role | None \<Rightarrow> False)"

definition role_update :: "(string \<Rightarrow> string) \<Rightarrow> Id \<Rightarrow> update_role_dto \<Rightarrow> (database, role_row) dbop" where
  "role_update lower i dto =
     and_then (role_find_by_id i) (\<lambda>existing.
     if found_builtin existing then fail (RepoConflict ''Cannot modify built-in roles'')
     else and_then (case uro_name dto of
         Some name \<Rightarrow> role_is_name_unique lower name (Some i)
       | None \<Rightarrow> ret True) (\<lambda>unique.
     if \<not> unique then fail role_name_taken
     else or_fail (role_not_found i) (fetch_optional (sql_update db_roles db_roles_update
            (\<lambda>r. ror_id r = i) (updated_role dto)))))"

definition role_delete :: "Id \<Rightarrow> (database, unit) dbop" where
  "role_delete i =
     and_then (role_find_by_id i) (\<lambda>existing.
     if found_builtin existing then fail (RepoConflict ''Cannot delete built-in roles'')
     else and_then (role_has_members i) (\<lambda>used.
       if used then fail (RepoConflict ''Cannot delete role: members are using this role'')
       else or_fail_zero (role_not_found i) (rows_affected (sql_delete db_roles db_roles_update (\<lambda>r. ror_id r = i)))))"

definition role_exists :: "Id \<Rightarrow> (database, bool) dbop" where
  "role_exists i = row_exists db_roles (\<lambda>r. ror_id r = i)"

subsection \<open>Members\<close>

record member_with_roles =
  mwr_member :: member_row
  mwr_role_ids :: "Id list"

definition has_role :: "member_with_roles \<Rightarrow> Id \<Rightarrow> bool" where
  "has_role m role_id \<longleftrightarrow> role_id \<in> set (mwr_role_ids m)"

record create_member_dto =
  cmb_user_id :: Id
  cmb_project_id :: "Id option"
  cmb_role_ids :: "Id list"
  cmb_entity_type :: "string option"
  cmb_entity_id :: "Id option"

record update_member_dto =
  umb_role_ids :: "Id list option"

definition members_newest_first :: "member_row list \<Rightarrow> member_row list" where
  "members_newest_first rs = sort_key (\<lambda>r. - mbr_created_at r) rs"

definition role_ids_of :: "Id \<Rightarrow> database \<Rightarrow> Id list" where
  "role_ids_of member_id d =
     sort_key sint (remdups (map mrr_role_id (filter (\<lambda>mr. mrr_member_id mr = member_id) (tb_rows (db_member_roles d)))))"

definition member_get_role_ids :: "Id \<Rightarrow> (database, Id list) dbop" where
  "member_get_role_ids member_id = fetch_all (sql_select (role_ids_of member_id))"

definition with_roles :: "member_row \<Rightarrow> (database, member_with_roles) dbop" where
  "with_roles m = and_then (member_get_role_ids (mbr_id m)) (\<lambda>role_ids. ret \<lparr>mwr_member = m, mwr_role_ids = role_ids\<rparr>)"

definition members_page ::
    "pagination \<Rightarrow> (member_row \<Rightarrow> bool) \<Rightarrow> (database, member_with_roles paginated_result) dbop" where
  "members_page p cond =
     and_then (fetch_all (sql_select_page (pg_limit p) (pg_offset p)
       (\<lambda>d. members_newest_first (filter cond (tb_rows (db_members d)))))) (\<lambda>members.
     and_then (count_of db_members cond) (\<lambda>total.
     and_then (collect_each members with_roles) (\<lambda>items.
     ret (paginated_result_new items total p))))"

definition member_find_by_project :: "Id \<Rightarrow> pagination \<Rightarrow> (database, member_with_roles paginated_result) dbop" where
  "member_find_by_project project_id p =
     members_page p (\<lambda>m. mbr_project_id m = Some project_id \<and> mbr_entity_type m = None)"

definition members_where :: "(member_row \<Rightarrow> bool) \<Rightarrow> (database, member_with_roles list) dbop" where
  "members_where cond =
     and_then (fetch_all (sql_select (\<lambda>d. members_newest_first (filter cond (tb_rows (db_members d)))))) (\<lambda>members.
     collect_each members with_roles)"

definition member_find_by_user :: "Id \<Rightarrow> (database, member_with_roles list) dbop" where
  "member_find_by_user user_id = members_where (\<lambda>m. mbr_user_id m = user_id)"

definition member_found :: "member_row option \<Rightarrow> (database, member_with_roles option) dbop" where
  "member_found v = (case v of Some m \<Rightarrow> and_then (with_roles m) (\<lambda>w. ret (Some w)) | None \<Rightarrow> ret None)"

definition member_find_by_project_and_user :: "Id \<Rightarrow> Id \<Rightarrow> (database, member_with_roles option) dbop" where
  "member_find_by_project_and_user project_id user_id =
     and_then (fetch_optional (sql_select (\<lambda>d. filter (\<lambda>m. mbr_project_id m = Some project_id \<and> mbr_user_id m = user_id \<and>
       mbr_entity_type m = None) (tb_rows (db_members d))))) member_found"

definition member_find_global :: "(database, member_with_roles list) dbop" where
  "member_find_global = members_where (\<lambda>m. mbr_project_id m = None \<and> mbr_entity_type m = None)"

definition member_set_roles :: "Id \<Rightarrow> Id list \<Rightarrow> (database, unit) dbop" where
  "member_set_roles member_id role_ids =
     and_then (execute (sql_delete db_member_roles db_member_roles_update
       (\<lambda>mr. mrr_member_id mr = member_id \<and> mrr_inherited_from mr = None))) (\<lambda>_.
     for_each role_ids (\<lambda>role_id. execute (sql_insert_new mrr_id (\<lambda>mr. (mrr_member_id mr, mrr_role_id mr))
       db_member_roles db_member_roles_update
       (\<lambda>now i. \<lparr>mrr_id = i, mrr_member_id = member_id, mrr_role_id = role_id, mrr_inherited_from = None\<rparr>))))"

definition member_find_by_id_with_roles :: "Id \<Rightarrow> (database, member_with_roles option) dbop" where
  "member_find_by_id_with_roles i = and_then (find_row mbr_id db_members i) member_found"

definition member_find_all_with_roles :: "pagination \<Rightarrow> (database, member_with_roles paginated_result) dbop" where
  "member_find_all_with_roles p = members_page p (\<lambda>_. True)"

definition membership_exists ::
    "Id \<Rightarrow> Id option \<Rightarrow> string option \<Rightarrow> Id option \<Rightarrow> (database, bool) dbop" where
  "membership_exists user_id project_id entity_type entity_id =
     (case (project_id, entity_type, entity_id) of
        (Some pid, Some et, Some eid) \<Rightarrow> counted db_members (\<lambda>m. mbr_user_id m = user_id \<and> mbr_project_id m = Some pid \<and>
          mbr_entity_type m = Some et \<and> mbr_entity_id m = Some eid)
      | (Some pid, None, None) \<Rightarrow> counted db_members (\<lambda>m. mbr_user_id m = user_id \<and> mbr_project_id m = Some pid \<and>
          mbr_entity_type m = None)
      | (None, None, None) \<Rightarrow> counted db_members (\<lambda>m. mbr_user_id m = user_id \<and> mbr_project_id m = None \<and>
          mbr_entity_type m = None)
      | _ \<Rightarrow> fail (RepoValidation ''Invalid membership parameters''))"

definition member_find_by_id :: "Id \<Rightarrow> (database, member_row option) dbop" where
  "member_find_by_id = find_row mbr_id db_members"

definition member_find_all :: "i64 \<Rightarrow> i64 \<Rightarrow> (database, member_row list) dbop" where
  "member_find_all limit offset =
     fetch_all (sql_select_page limit offset (\<lambda>d. members_newest_first (tb_rows (db_members d))))"

definition member_count :: "(database, i64) dbop" where
  "member_count = count_of db_members (\<lambda>_. True)"

definition member_exists :: "Id \<Rightarrow> (database, bool) dbop" where
  "member_exists i = counted db_members (\<lambda>m. mbr_id m = i)"

definition roles_blank :: repository_error where
  "roles_blank = RepoValidation ''Roles can't be blank''"

definition member_not_found :: "Id \<Rightarrow> repository_error" where
  "member_not_found i = RepoNotFound (''Member '' @ show_i64 i @ '' not found'')"

definition new_member :: "create_member_dto \<Rightarrow> timestamp \<Rightarrow> Id \<Rightarrow> member_row" where
  "new_member dto now i =
     \<lparr>mbr_id = i, mbr_user_id = cmb_user_id dto, mbr_project_id = cmb_project_id dto,
      mbr_entity_type = cmb_entity_type dto, mbr_entity_id = cmb_entity_id dto, mbr_created_at = now, mbr_updated_at = now\<rparr>"

definition member_create :: "create_member_dto \<Rightarrow> (database, member_row) dbop" where
  "member_create dto =
     (if cmb_role_ids dto = [] then fail roles_blank
      else and_then (membership_exists (cmb_user_id dto) (cmb_project_id dto) (cmb_entity_type dto) (cmb_entity_id dto)) (\<lambda>taken.
        if taken then fail (RepoConflict ''Member already exists for this user/project combination'')
        else and_then (fetch_one (sql_insert mbr_id db_members db_members_update (new_member dto))) (\<lambda>row.
        and_then (member_set_roles (mbr_id row) (cmb_role_ids dto)) (\<lambda>_.
        ret row))))"

definition member_update :: "Id \<Rightarrow> update_member_dto \<Rightarrow> (database, member_row) dbop" where
  "member_update i dto =
     and_then (or_fail (member_not_found i) (member_find_by_id i)) (\<lambda>existing.
     and_then (case umb_role_ids dto of
         Some role_ids \<Rightarrow> if role_ids = [] then fail roles_blank else member_set_roles i role_ids
       | None \<Rightarrow> ret ()) (\<lambda>_.
     fetch_one (sql_update db_members db_members_update (\<lambda>m. mbr_id m = i) (\<lambda>now m. m\<lparr>mbr_updated_at := now\<rparr>))))"

definition member_delete :: "Id \<Rightarrow> (database, unit) dbop" where
  "member_delete i =
     and_then (member_exists i) (\<lambda>found.
     if \<not> found then fail (member_not_found i)
     else and_then (count_of db_member_roles (\<lambda>mr. mrr_member_id mr = i \<and> mrr_inherited_from mr = None)) (\<lambda>non_inherited_count.
       and_then (count_of db_member_roles (\<lambda>mr. mrr_member_id mr = i)) (\<lambda>total_count.
       if non_inherited_count = 0 \<and> 0 < sint total_count
       then fail (RepoConflict ''Cannot delete membership with only inherited roles'')
       else and_then (execute (sql_delete db_member_roles db_member_roles_update (\<lambda>mr. mrr_member_id mr = i))) (\<lambda>_.
         execute (sql_delete db_members db_members_update (\<lambda>m. mbr_id m = i))))))"

subsection \<open>What the loops write\<close>

definition held :: "Id \<Rightarrow> database \<Rightarrow> Id set" where
  "held member_id d = mrr_role_id ` {mr \<in> set (tb_rows (db_member_roles d)). mrr_member_id mr = member_id}"

definition inherited :: "Id \<Rightarrow> database \<Rightarrow> Id set" where
  "inherited member_id d =
     mrr_role_id ` {mr \<in> set (tb_rows (db_member_roles d)). mrr_member_id mr = member_id \<and> mrr_inherited_from mr \<noteq> None}"

lemma role_ids_of_held: "set (role_ids_of m d) = held m d" "sorted (map sint (role_ids_of m d))" "distinct (role_ids_of m d)"
  by (auto simp: role_ids_of_def held_def)

lemma held_same:
  assumes "tb_rows (db_member_roles d') = tb_rows (db_member_roles d)"
  shows "held n d' = held n d" and "inherited n d' = inherited n d"
  unfolding held_def inherited_def assms by auto

text \<open>
  Rows are inserted for a list of keys, each unless the key is taken: afterwards every key is there, and
  only rows for these keys have been added.
\<close>

definition with_links ::
    "('r \<Rightarrow> Id) \<Rightarrow> ('r \<Rightarrow> 'k) \<Rightarrow> ('a \<Rightarrow> 'r \<Rightarrow> bool) \<Rightarrow> ('a \<Rightarrow> 'k) \<Rightarrow> 'r set \<Rightarrow> 'a list \<Rightarrow> 'r table \<Rightarrow> bool" where
  "with_links idf key links k old xs t \<longleftrightarrow> seq_ahead idf t \<and> old \<subseteq> set (tb_rows t) \<and> k ` set xs \<subseteq> key ` set (tb_rows t) \<and>
     (\<forall>r \<in> set (tb_rows t). r \<in> old \<or> (\<exists>x \<in> set xs. links x r))"

lemma insert_links_triple:
  assumes mk: "\<And>x now i. idf (mk x now i) = i" "\<And>x now i. key (mk x now i) = k x" "\<And>x now i. links x (mk x now i)"
    and get: "\<And>f d. tbl (upd f d) = f (tbl d)" and F: "\<And>f d. F (upd f d) = F d"
  shows "triple fl (\<lambda>d. with_links idf key links k old [] (tbl d) \<and> F d)
    (for_each xs (\<lambda>x. execute (sql_insert_new idf key tbl upd (mk x))))
    (\<lambda>_ d. with_links idf key links k old xs (tbl d) \<and> F d) (\<lambda>_. True)"
proof (rule triple_for_each [where P = "\<lambda>xs d. with_links idf key links k old xs (tbl d) \<and> F d"], rule triple_insert_new, goal_cases)
  case (2 ys x zs d now i)
  then have "i \<notin> idf ` set (tb_rows (tbl d))"
    using seq_ahead_fresh [of idf "tbl d"] by (simp add: with_links_def)
  with 2(5) have "k x \<in> key ` set (tb_rows (tbl d))" by (simp add: mk)
  with 2(2) show ?case by (auto simp: with_links_def get F seq_ahead_simps)
next
  case (3 ys x zs d now i)
  have "seq_ahead idf ((tbl d)\<lparr>tb_rows := tb_rows (tbl d) @ [mk x now i], tb_seq := Suc (tb_seq (tbl d))\<rparr>)"
    by (rule seq_ahead_append) (use 3 in \<open>simp_all add: with_links_def mk\<close>)
  moreover have "k x \<in> key ` set (tb_rows (tbl d) @ [mk x now i])" by (simp add: mk)
  ultimately show ?case using 3(2) mk(3) [of x now i] unfolding with_links_def get F by auto
qed simp

text \<open>Setting the roles of a member: those asked for, and the inherited ones stay; nothing else changes.\<close>

definition role_state :: "database \<Rightarrow> Id \<Rightarrow> Id set \<Rightarrow> database \<Rightarrow> bool" where
  "role_state d0 m S d \<longleftrightarrow> seq_ahead mrr_id (db_member_roles d) \<and> held m d = S \<and> inherited m d = inherited m d0 \<and>
     (\<forall>n. n \<noteq> m \<longrightarrow> held n d = held n d0) \<and> db_members d = db_members d0"

lemma set_roles_triple:
  assumes "seq_ahead mrr_id (db_member_roles d0)"
  shows "triple fl (\<lambda>d. d = d0) (member_set_roles m rs) (\<lambda>_. role_state d0 m (inherited m d0 \<union> set rs)) (\<lambda>_. True)"
  unfolding member_set_roles_def
proof (rule triple_then)
  let ?key = "\<lambda>mr. (mrr_member_id mr, mrr_role_id mr)"
  let ?row = "\<lambda>role_id (now :: timestamp) i. \<lparr>mrr_id = i, mrr_member_id = m, mrr_role_id = role_id, mrr_inherited_from = None\<rparr>"
  let ?new = "\<lambda>x r. mrr_member_id r = m \<and> mrr_role_id r = x \<and> mrr_inherited_from r = None"
  let ?old = "{mr \<in> set (tb_rows (db_member_roles d0)). \<not> (mrr_member_id mr = m \<and> mrr_inherited_from mr = None)}"
  let ?links = "\<lambda>xs d. with_links mrr_id ?key ?new (Pair m) ?old xs (db_member_roles d) \<and> db_members d = db_members d0"
  show "triple fl (\<lambda>d. d = d0) (execute (sql_delete db_member_roles db_member_roles_update
      (\<lambda>mr. mrr_member_id mr = m \<and> mrr_inherited_from mr = None))) (\<lambda>_. ?links []) (\<lambda>_. True)"
    by (rule triple_delete(2)) (use assms in \<open>auto simp: with_links_def seq_ahead_simps\<close>)
  have after: "role_state d0 m (inherited m d0 \<union> set rs) d" if links: "?links rs d" for d
    unfolding role_state_def
  proof (intro conjI allI impI)
    let ?rows = "set (tb_rows (db_member_roles d))"
    from links have old: "?old \<subseteq> ?rows" and keys: "Pair m ` set rs \<subseteq> ?key ` ?rows"
      and new: "\<And>r. r \<in> ?rows \<Longrightarrow> r \<in> ?old \<or>
        mrr_member_id r = m \<and> mrr_role_id r \<in> set rs \<and> mrr_inherited_from r = None"
      by (auto simp: with_links_def)
    have "mrr_role_id r \<in> inherited m d0 \<union> set rs" if "r \<in> ?rows" "mrr_member_id r = m" for r
      using new [OF that(1)] that(2) by (auto simp: inherited_def)
    moreover have "x \<in> held m d" if "x \<in> set rs" for x using keys that by (force simp: held_def)
    moreover have "inherited m d0 \<subseteq> held m d" using old by (auto simp: held_def inherited_def)
    ultimately show "held m d = inherited m d0 \<union> set rs" by (auto simp: held_def)
    show "inherited m d = inherited m d0" using old new by (force simp: inherited_def)
    show "held n d = held n d0" if "n \<noteq> m" for n using old new that by (force simp: held_def)
  qed (use links in \<open>simp_all add: with_links_def\<close>)
  show "triple fl (?links []) (for_each rs (\<lambda>role_id. execute (sql_insert_new mrr_id ?key db_member_roles
      db_member_roles_update (?row role_id)))) (\<lambda>_. role_state d0 m (inherited m d0 \<union> set rs)) (\<lambda>_. True)"
    by (rule triple_post, rule insert_links_triple [where F = "\<lambda>d. db_members d = db_members d0"]) (simp_all add: after)
qed

subsection \<open>Members and their roles\<close>

interpretation members: keyed_table mbr_id "db_members :: database \<Rightarrow> _" db_members_update "\<lambda>_. ()"
  by unfold_locales simp

text \<open>Every row of \<open>member_roles\<close> belongs to a member.\<close>

definition members_inv :: "database \<Rightarrow> bool" where
  "members_inv d \<longleftrightarrow> table_ok mbr_id (db_members d) \<and> seq_ahead mrr_id (db_member_roles d) \<and>
     mrr_member_id ` set (tb_rows (db_member_roles d)) \<subseteq> mbr_id ` set (tb_rows (db_members d))"

lemma membership_keeps: "(\<And>d. P d \<Longrightarrow> E d) \<Longrightarrow> triple fl P (membership_exists u p et e) (\<lambda>_. P) E"
  unfolding membership_exists_def by (auto split: option.split intro!: counted_keep triple_fail)

definition member_created :: "database \<Rightarrow> create_member_dto \<Rightarrow> member_row \<Rightarrow> database \<Rightarrow> bool" where
  "member_created d0 dto r d \<longleftrightarrow> mbr_id r \<notin> mbr_id ` set (tb_rows (db_members d0)) \<and>
     mbr_user_id r = cmb_user_id dto \<and> mbr_project_id r = cmb_project_id dto \<and>
     tb_rows (db_members d) = tb_rows (db_members d0) @ [r] \<and>
     held (mbr_id r) d = set (cmb_role_ids dto) \<and> (\<forall>n. n \<noteq> mbr_id r \<longrightarrow> held n d = held n d0)"

lemma new_member_fields [simp]:
  "mbr_id (new_member dto now i) = i" "mbr_user_id (new_member dto now i) = cmb_user_id dto"
  "mbr_project_id (new_member dto now i) = cmb_project_id dto"
  by (simp_all add: new_member_def)

lemma member_create_triple:
  assumes "members_inv d0"
  shows "triple fl (\<lambda>d. d = d0) (member_create dto) (\<lambda>r d. cmb_role_ids dto \<noteq> [] \<and> member_created d0 dto r d) (\<lambda>_. True)"
  unfolding member_create_def
proof (rule triple_if, rule triple_fail, simp, rule triple_then, rule membership_keeps, simp,
    rule triple_if, rule triple_fail, simp)
  let ?R = "\<lambda>r d. cmb_role_ids dto \<noteq> [] \<and> mbr_id r \<notin> mbr_id ` set (tb_rows (db_members d0)) \<and>
    mbr_user_id r = cmb_user_id dto \<and> mbr_project_id r = cmb_project_id dto \<and>
    tb_rows (db_members d) = tb_rows (db_members d0) @ [r] \<and> db_member_roles d = db_member_roles d0"
  have insert: "triple fl (\<lambda>d. (d = d0 \<and> cmb_role_ids dto \<noteq> []) \<and> \<not> taken)
      (fetch_one (sql_insert mbr_id db_members db_members_update (new_member dto))) ?R (\<lambda>_. True)" for taken
    by (rule triple_insert) auto
  have roles: "triple fl (?R r) (and_then (member_set_roles (mbr_id r) (cmb_role_ids dto)) (\<lambda>_. ret r))
      (\<lambda>r d. cmb_role_ids dto \<noteq> [] \<and> member_created d0 dto r d) (\<lambda>_. True)" for r
  proof (rule triple_then [where R = "\<lambda>_ d. cmb_role_ids dto \<noteq> [] \<and> member_created d0 dto r d"], rule triple_each)
    fix d1 :: database assume r: "?R r d1"
    have same: "held n d1 = held n d0" "inherited n d1 = inherited n d0" for n by (rule held_same; use r in simp)+
    have "mbr_id r \<notin> mrr_member_id ` set (tb_rows (db_member_roles d0))"
      using assms r unfolding members_inv_def by blast
    then have "inherited (mbr_id r) d1 = {}" unfolding same unfolding inherited_def by (auto simp: image_iff)
    moreover have "seq_ahead mrr_id (db_member_roles d1)" using assms r by (simp add: members_inv_def)
    ultimately show "triple fl (\<lambda>d. d = d1) (member_set_roles (mbr_id r) (cmb_role_ids dto))
        (\<lambda>_ d. cmb_role_ids dto \<noteq> [] \<and> member_created d0 dto r d) (\<lambda>_. True)"
      using r by (intro triple_weaken [OF set_roles_triple]) (auto simp: role_state_def member_created_def same)
  qed (rule triple_ret)
  show "triple fl (\<lambda>d. (d = d0 \<and> cmb_role_ids dto \<noteq> []) \<and> \<not> taken)
      (and_then (fetch_one (sql_insert mbr_id db_members db_members_update (new_member dto))) (\<lambda>row.
        and_then (member_set_roles (mbr_id row) (cmb_role_ids dto)) (\<lambda>_. ret row)))
      (\<lambda>r d. cmb_role_ids dto \<noteq> [] \<and> member_created d0 dto r d) (\<lambda>_. True)" for taken
    by (rule triple_then [OF insert roles])
qed

definition member_updated :: "database \<Rightarrow> Id \<Rightarrow> update_member_dto \<Rightarrow> member_row \<Rightarrow> database \<Rightarrow> bool" where
  "member_updated d0 i dto r d \<longleftrightarrow> mbr_id r = i \<and> mbr_id ` set (tb_rows (db_members d)) = mbr_id ` set (tb_rows (db_members d0)) \<and>
     held i d = (case umb_role_ids dto of None \<Rightarrow> held i d0 | Some rs \<Rightarrow> inherited i d0 \<union> set rs) \<and>
     umb_role_ids dto \<noteq> Some [] \<and> (\<forall>n. n \<noteq> i \<longrightarrow> held n d = held n d0)"

lemma member_update_triple:
  assumes "members_inv d0"
  shows "triple fl (\<lambda>d. d = d0) (member_update i dto) (member_updated d0 i dto) (\<lambda>_. True)"
  unfolding member_update_def member_find_by_id_def
proof (rule triple_then [where R = "\<lambda>_ d. d = d0"], rule triple_or_fail, rule triple_post, rule triple_find, simp, simp split: option.split,
    rule triple_then)
  let ?R = "\<lambda>d. held i d = (case umb_role_ids dto of None \<Rightarrow> held i d0 | Some rs \<Rightarrow> inherited i d0 \<union> set rs) \<and>
     umb_role_ids dto \<noteq> Some [] \<and> (\<forall>n. n \<noteq> i \<longrightarrow> held n d = held n d0) \<and> db_members d = db_members d0"
  have ahead: "seq_ahead mrr_id (db_member_roles d0)" using assms by (simp add: members_inv_def)
  show "triple fl (\<lambda>d. d = d0) (case umb_role_ids dto of
         Some role_ids \<Rightarrow> if role_ids = [] then fail roles_blank else member_set_roles i role_ids
       | None \<Rightarrow> ret ()) (\<lambda>_. ?R) (\<lambda>_. True)"
  proof (cases "umb_role_ids dto")
    case None
    then show ?thesis by (auto intro: triple_ret)
  next
    case (Some rs)
    show ?thesis
    proof (cases "rs = []")
      case True
      with Some show ?thesis by (auto intro: triple_fail)
    next
      case False
      with Some show ?thesis
        by (auto intro!: triple_weaken [OF set_roles_triple [OF ahead]] simp: role_state_def)
    qed
  qed
  show "triple fl ?R (fetch_one (sql_update db_members db_members_update (\<lambda>m. mbr_id m = i) (\<lambda>now m. m\<lparr>mbr_updated_at := now\<rparr>)))
     (member_updated d0 i dto) (\<lambda>_. True)" for u :: unit
  proof (rule triple_update_one, simp, simp, goal_cases)
    case (1 d now r)
    then have r: "mbr_id r = i" by (auto dest: find_Some_pred)
    let ?d = "db_members_update (tb_rows_update (map (\<lambda>r. if mbr_id r = i then r\<lparr>mbr_updated_at := now\<rparr> else r))) d"
    have rows: "tb_rows (db_members ?d) =
        map (\<lambda>r. if mbr_id r = i then r\<lparr>mbr_updated_at := now\<rparr> else r) (tb_rows (db_members d))" by simp
    have "mbr_id (if mbr_id r = i then r\<lparr>mbr_updated_at := now\<rparr> else r) = mbr_id r" for r by simp
    then have "mbr_id ` set (tb_rows (db_members ?d)) = mbr_id ` set (tb_rows (db_members d))"
      unfolding rows set_map image_image by (rule image_cong [OF refl])
    moreover have "held n ?d = held n d" for n by (rule held_same) simp
    ultimately show ?case using 1 r by (simp add: member_updated_def)
  qed
qed


text \<open>Roles of which none is the member's own.\<close>

definition only_inherits :: "Id \<Rightarrow> database \<Rightarrow> bool" where
  "only_inherits i d \<longleftrightarrow> held i d \<noteq> {} \<and>
     (\<forall>mr \<in> set (tb_rows (db_member_roles d)). mrr_member_id mr = i \<longrightarrow> mrr_inherited_from mr \<noteq> None)"

definition member_deleted :: "database \<Rightarrow> Id \<Rightarrow> database \<Rightarrow> bool" where
  "member_deleted d0 i d \<longleftrightarrow> i \<in> mbr_id ` set (tb_rows (db_members d0)) \<and> \<not> only_inherits i d0 \<and> held i d = {} \<and>
     tb_rows (db_members d) = filter (\<lambda>r. mbr_id r \<noteq> i) (tb_rows (db_members d0)) \<and> (\<forall>n. n \<noteq> i \<longrightarrow> held n d = held n d0)"

lemma member_delete_triple:
  assumes "members_inv d0"
  shows "triple fl (\<lambda>d. d = d0) (member_delete i) (\<lambda>_. member_deleted d0 i) (\<lambda>_. True)"
  unfolding member_delete_def member_exists_def
proof (rule triple_then, rule triple_counted [where idf = mbr_id])
  let ?own = "\<lambda>mr. mrr_member_id mr = i \<and> mrr_inherited_from mr = None" and ?of = "\<lambda>mr. mrr_member_id mr = i"
  let ?P = "\<lambda>d. d = d0 \<and> i \<in> mbr_id ` set (tb_rows (db_members d0))"
  let ?n = "\<lambda>p d. word_of_nat (length (filter p (tb_rows (db_member_roles d)))) :: i64"
  have roles: "table_ok mrr_id (db_member_roles d0)" using assms by (simp add: members_inv_def seq_ahead_def)
  have "?n ?own d0 = 0 \<longleftrightarrow> (\<forall>mr \<in> set (tb_rows (db_member_roles d0)). \<not> ?own mr)"
    using count_sint [OF roles, of ?own] by (auto simp: filter_empty_conv)
  moreover have "0 < sint (?n ?of d0) \<longleftrightarrow> held i d0 \<noteq> {}"
    unfolding count_sint [OF roles] by (auto simp: held_def filter_empty_conv)
  ultimately have only: "?n ?own d0 = 0 \<and> 0 < sint (?n ?of d0) \<longleftrightarrow> only_inherits i d0"
    by (auto simp: only_inherits_def)
  let ?d = "db_member_roles_update (tb_rows_update (filter (\<lambda>mr. \<not> ?of mr))) d0"
  have "triple fl (\<lambda>d. d = d0 \<and> i \<in> mbr_id ` set (tb_rows (db_members d0)) \<and> \<not> only_inherits i d0)
     (execute (sql_delete db_member_roles db_member_roles_update ?of))
     (\<lambda>_ d. d = ?d \<and> i \<in> mbr_id ` set (tb_rows (db_members d0)) \<and> \<not> only_inherits i d0) (\<lambda>_. True)"
    by (rule triple_delete(2)) auto
  moreover have "triple fl (\<lambda>d. d = ?d \<and> i \<in> mbr_id ` set (tb_rows (db_members d0)) \<and> \<not> only_inherits i d0)
     (execute (sql_delete db_members db_members_update (\<lambda>m. mbr_id m = i))) (\<lambda>_. member_deleted d0 i) (\<lambda>_. True)"
    by (rule triple_delete(2)) (auto simp: member_deleted_def held_def)
  ultimately have rest: "triple fl (\<lambda>d. d = d0 \<and> i \<in> mbr_id ` set (tb_rows (db_members d0)) \<and> \<not> only_inherits i d0)
     (and_then (execute (sql_delete db_member_roles db_member_roles_update ?of)) (\<lambda>_.
      execute (sql_delete db_members db_members_update (\<lambda>m. mbr_id m = i)))) (\<lambda>_. member_deleted d0 i) (\<lambda>_. True)"
    by (rule triple_then)
  show "triple fl (\<lambda>d. d = d0 \<and> b = (\<exists>r\<in>set (tb_rows (db_members d)). mbr_id r = i))
     (if \<not> b then fail (member_not_found i)
      else and_then (count_of db_member_roles ?own) (\<lambda>non_inherited_count.
        and_then (count_of db_member_roles ?of) (\<lambda>total_count.
        if non_inherited_count = 0 \<and> 0 < sint total_count
        then fail (RepoConflict ''Cannot delete membership with only inherited roles'')
        else and_then (execute (sql_delete db_member_roles db_member_roles_update ?of)) (\<lambda>_.
          execute (sql_delete db_members db_members_update (\<lambda>m. mbr_id m = i))))))
     (\<lambda>_. member_deleted d0 i) (\<lambda>_. True)" for b
    unfolding count_of_def
    by (rule triple_if, rule triple_fail, simp, rule triple_then, rule triple_value, simp, rule triple_then, rule triple_value, simp,
      rule triple_if, rule triple_fail, simp, rule triple_weaken [OF rest]) (use only in auto)
qed (use assms in \<open>simp_all add: members_inv_def\<close>)

subsection \<open>Roles: their names and the built-in ones\<close>

interpretation roles: keyed_table ror_id "db_roles :: database \<Rightarrow> _" db_roles_update "\<lambda>r. lower (ror_name r)" for lower
  by unfold_locales simp

abbreviation roles_inv :: "(string \<Rightarrow> string) \<Rightarrow> database \<Rightarrow> bool" where
  "roles_inv lower \<equiv> keyed_inv ror_id db_roles (\<lambda>r. lower (ror_name r))"

abbreviation role_name_free :: "(string \<Rightarrow> string) \<Rightarrow> string \<Rightarrow> (Id \<Rightarrow> bool) \<Rightarrow> database \<Rightarrow> bool" where
  "role_name_free lower \<equiv> key_is_free ror_id db_roles (\<lambda>r. lower (ror_name r))"

lemma role_fields [simp]:
  "ror_id (new_role cdto pos now i) = i" "ror_name (new_role cdto pos now i) = cro_name cdto"
  "ror_builtin (new_role cdto pos now i) = 0"
  "ror_id (updated_role dto now r) = ror_id r" "ror_name (updated_role dto now r) = coalesce (uro_name dto) (ror_name r)"
  "ror_builtin (updated_role dto now r) = ror_builtin r"
  by (simp_all add: new_role_def updated_role_def builtin_non_builtin_def)

lemma role_name_triple:
  "(\<And>d. P d \<Longrightarrow> E d) \<Longrightarrow> triple fl P (role_is_name_unique lower n x)
    (\<lambda>b d. P d \<and> (b \<longrightarrow> role_name_free lower (lower n) (\<lambda>j. Some j \<noteq> x) d)) E"
  unfolding role_is_name_unique_def
  by (cases x; simp; rule triple_post, rule triple_value) (auto simp: free_key_def)

lemma role_position_keeps:
  "(\<And>d. P d \<Longrightarrow> E d) \<Longrightarrow>
   triple fl P (case p of Some pos \<Rightarrow> ret pos | None \<Rightarrow> and_then role_get_max_position (\<lambda>m. ret (m + 1))) (\<lambda>_. P) E"
  unfolding role_get_max_position_def by (intro triple_keep)

lemma role_create_triple: "triple fl (roles_inv lower) (role_create lower dto) (\<lambda>_. roles_inv lower) (roles_inv lower)"
  unfolding role_create_def
  by (rule triple_then, rule role_name_triple, assumption, rule triple_if, rule triple_fail, blast, rule triple_then,
      rule role_position_keeps, blast, rule triple_weaken,
      rule roles.insert_keyed [where mk = "new_role dto position" and c = "lower (cro_name dto)" for position]) auto

lemma role_update_triple: "triple fl (roles_inv lower) (role_update lower i dto) (\<lambda>_. roles_inv lower) (roles_inv lower)"
  unfolding role_update_def role_find_by_id_def
proof (rule triple_then, rule find_keep, assumption, rule triple_if, rule triple_fail, blast,
    rule triple_then [where R = "\<lambda>unique d. roles_inv lower d \<and>
    (unique \<longrightarrow> (\<forall>n. uro_name dto = Some n \<longrightarrow> role_name_free lower (lower n) (\<lambda>j. j \<noteq> i) d))"])
  show "triple fl (\<lambda>d. roles_inv lower d \<and> b) (case uro_name dto of Some name \<Rightarrow> role_is_name_unique lower name (Some i) | None \<Rightarrow> ret True)
    (\<lambda>unique d. roles_inv lower d \<and> (unique \<longrightarrow> (\<forall>n. uro_name dto = Some n \<longrightarrow> role_name_free lower (lower n) (\<lambda>j. j \<noteq> i) d)))
    (roles_inv lower)" for b
    by (rule triple_case_option, rule triple_ret, simp, rule triple_post, rule role_name_triple) auto
  show "triple fl (\<lambda>d. roles_inv lower d \<and>
      (unique \<longrightarrow> (\<forall>n. uro_name dto = Some n \<longrightarrow> role_name_free lower (lower n) (\<lambda>j. j \<noteq> i) d)))
    (if \<not> unique then fail role_name_taken
     else or_fail (role_not_found i) (fetch_optional (sql_update db_roles db_roles_update (\<lambda>r. ror_id r = i) (updated_role dto))))
    (\<lambda>_. roles_inv lower) (roles_inv lower)" for unique
    by (rule triple_if, rule triple_fail, blast, rule triple_weaken, rule roles.update_keyed(2) [where f = "updated_role dto"])
      (auto simp: coalesce_def split: option.splits intro: own_key_is_free)
qed

lemma role_delete_triple: "triple fl (roles_inv lower) (role_delete i) (\<lambda>_. roles_inv lower) (roles_inv lower)"
  unfolding role_delete_def role_find_by_id_def role_has_members_def
  by (rule triple_then, rule find_keep, assumption, rule triple_if, rule triple_fail, blast, rule triple_then, rule row_exists_keep, blast,
      rule triple_if, rule triple_fail, blast, rule triple_weaken, rule roles.delete_keyed(1)) auto

text \<open>The rows of the built-in roles never change, whatever runs at the same time.\<close>

definition builtin_roles :: "database \<Rightarrow> role_row list" where
  "builtin_roles d = filter role_row_is_builtin (tb_rows (db_roles d))"

abbreviation builtins_are :: "role_row list \<Rightarrow> database \<Rightarrow> bool" where
  "builtins_are B d \<equiv> distinct (map ror_id (tb_rows (db_roles d))) \<and> builtin_roles d = B"

lemma builtin_fields [simp]:
  "\<not> role_row_is_builtin (new_role cdto pos now i)" "role_row_is_builtin (updated_role dto now r) = role_row_is_builtin r"
  by (simp_all add: role_row_is_builtin_def builtin_non_builtin_def)

lemma role_create_builtin: "holds (builtins_are B) (role_create lower dto) (\<lambda>_. True)"
  unfolding role_create_def role_is_name_unique_def role_get_max_position_def
  by (intro holds_intro holds_fetch(3) [where Q = "\<lambda>_. True"])
    (auto simp: sql_insert_def Let_def builtin_roles_def)

lemma found_builtin_holds:
  "holds (builtins_are B) (role_find_by_id i) (\<lambda>v. \<not> found_builtin v \<longrightarrow> i \<notin> ror_id ` set B)"
  unfolding role_find_by_id_def find_row_def
proof (rule holds_select_optional, intro impI notI)
  fix d assume inv: "builtins_are B d" and i: "i \<in> ror_id ` set B"
    and v: "\<not> found_builtin (case filter (\<lambda>r. ror_id r = i) (tb_rows (db_roles d)) of [] \<Rightarrow> None | r # rs \<Rightarrow> Some r)"
  from inv i obtain r where r: "r \<in> set (tb_rows (db_roles d))" "ror_id r = i" "role_row_is_builtin r" by (auto simp: builtin_roles_def)
  then have "filter (\<lambda>r. ror_id r = i) (tb_rows (db_roles d)) = [r]" using inv by (intro filter_key_single) auto
  with v r(3) show False by (simp add: found_builtin_def)
qed

lemma builtin_update:
  assumes "builtins_are B d" "i \<notin> ror_id ` set B"
  shows "builtins_are B (db_roles_update (tb_rows_update (map (\<lambda>r. if ror_id r = i then updated_role dto now r else r))) d)"
proof -
  let ?g = "\<lambda>r. if ror_id r = i then updated_role dto now r else r"
  have "i \<notin> ror_id ` set (filter role_row_is_builtin xs) \<Longrightarrow>
      filter role_row_is_builtin (map ?g xs) = filter role_row_is_builtin xs" for xs
    by (induction xs) (auto split: if_splits)
  with assms have "filter role_row_is_builtin (map ?g (tb_rows (db_roles d))) = B" unfolding builtin_roles_def by blast
  moreover have "ror_id (?g r) = ror_id r" for r by simp
  ultimately show ?thesis using assms by (simp add: builtin_roles_def comp_def del: filter_map)
qed

lemma role_update_builtin: "holds (builtins_are B) (role_update lower i dto) (\<lambda>_. True)"
  unfolding role_update_def
proof (rule holds_and_then [OF found_builtin_holds], goal_cases)
  case (1 existing)
  show ?case
    unfolding role_is_name_unique_def
    by (intro holds_intro holds_or_fail_any holds_true [OF holds_fetch(2) [where Q = "\<lambda>_. True"]])
      (use 1 builtin_update in \<open>simp add: sql_update_def del: database.simps\<close>)
qed

lemma role_delete_builtin: "holds (builtins_are B) (role_delete i) (\<lambda>_. True)"
  unfolding role_delete_def
proof (rule holds_and_then [OF found_builtin_holds], goal_cases)
  case (1 existing)
  have "filter role_row_is_builtin (filter (\<lambda>r. ror_id r \<noteq> i) xs) = filter role_row_is_builtin xs"
    if "i \<notin> ror_id ` set (filter role_row_is_builtin xs)" for xs
    using that by (induction xs) (auto split: if_splits)
  then show ?case
    unfolding role_has_members_def
    by (intro holds_intro holds_or_fail_zero holds_fetch(4) [where Q = "\<lambda>_. True"])
      (use 1 in \<open>auto simp: sql_delete_def builtin_roles_def distinct_map_filter simp del: filter_filter\<close>)
qed

abbreviation roles_table :: "database \<Rightarrow> bool" where "roles_table d \<equiv> table_ok ror_id (db_roles d)"

lemma role_create_law:
  "triple False (roles.start_at d0) (role_create lower dto) (\<lambda>r. roles.created_row d0 r) (roles.refused_in d0)"
  unfolding role_create_def
  by (rule triple_then, rule role_name_triple, blast, rule triple_if, rule triple_fail, blast, rule triple_then,
      rule role_position_keeps, blast, rule triple_weaken, rule roles.insert_keyed_law) auto

lemma role_update_law:
  "triple False (roles.start_at d0) (role_update lower i dto) (\<lambda>r. roles.updated_row d0 i r) (roles.refused_in d0)"
  unfolding role_update_def role_find_by_id_def
  by (rule triple_then [where R = "\<lambda>_. roles.start_at d0"], rule find_keep, blast, rule triple_if, rule triple_fail, blast,
      rule triple_then [where R = "\<lambda>_. roles.start_at d0"], rule triple_case_option, rule triple_ret, blast,
      rule triple_post, rule role_name_triple, blast, blast,
      rule triple_if, rule triple_fail, blast, rule triple_weaken, rule roles.update_keyed_law(1)) auto

lemma role_delete_law:
  "triple False (roles.start_at d0) (role_delete i) (\<lambda>_. roles.deleted_row d0 i) (roles.refused_in d0)"
  unfolding role_delete_def role_find_by_id_def role_has_members_def
  by (rule triple_then, rule find_keep, blast, rule triple_if, rule triple_fail, blast,
      rule triple_then, rule row_exists_keep, blast,
      rule triple_if, rule triple_fail, blast, rule triple_weaken, rule roles.delete_counted_law) auto

interpretation role_repository: repository ror_id roles_table "\<lambda>d. row_of ror_id (db_roles d)"
    role_find_by_id role_exists "role_create lower" "role_update lower" role_delete for lower
proof (unfold_locales, goal_cases)
  case (1 env d i k)
  then show ?case by (simp add: role_find_by_id_def roles.run_table)
next
  case (2 env d i k)
  then show ?case by (auto simp: role_exists_def roles.run_table row_of_None)
next
  case (3 env d c k x k' d')
  from roles.quietly(1) [OF 3 role_create_law] show ?case .
next
  case (4 env d i u k x k' d')
  from roles.quietly(2) [OF 4 role_update_law] show ?case .
next
  case (5 env d i k y k' d')
  from roles.deleted_quietly [OF 5 role_delete_law] show ?case .
qed

datatype role_request =
    CreateRole create_role_dto | UpdateRole Id update_role_dto | DeleteRole Id
  | SetPermissions Id "string list" | AddPermission Id string | RemovePermission Id string

fun perform_role :: "(string \<Rightarrow> string) \<Rightarrow> role_request \<Rightarrow> (database, unit) dbop" where
  "perform_role lower (CreateRole dto) = and_then (role_create lower dto) (\<lambda>_. ret ())"
| "perform_role lower (UpdateRole i dto) = and_then (role_update lower i dto) (\<lambda>_. ret ())"
| "perform_role lower (DeleteRole i) = role_delete i"
| "perform_role lower (SetPermissions i ps) = role_set_permissions i ps"
| "perform_role lower (AddPermission i p) = role_add_permission i p"
| "perform_role lower (RemovePermission i p) = role_remove_permission i p"

lemma permissions_elsewhere:
  assumes "\<And>f d. P (db_role_permissions_update f d) = P d"
  shows "triple fl P (role_set_permissions i ps) (\<lambda>_. P) P" "triple fl P (role_add_permission i p) (\<lambda>_. P) P"
    "triple fl P (role_remove_permission i p) (\<lambda>_. P) P"
proof -
  show add: "triple fl P (role_add_permission i p) (\<lambda>_. P) P" for p
    unfolding role_add_permission_def by (rule triple_insert_new) (simp_all add: assms)
  show "triple fl P (role_remove_permission i p) (\<lambda>_. P) P"
    unfolding role_remove_permission_def by (rule triple_delete(2)) (simp_all add: assms)
  show "triple fl P (role_set_permissions i ps) (\<lambda>_. P) P"
    unfolding role_set_permissions_def
    by (rule triple_then [where R = "\<lambda>_. P"], rule triple_delete(2), assumption, simp add: assms)
      (rule triple_for_each [where P = "\<lambda>_. P", OF add])
qed

lemma permissions_elsewhere_holds:
  assumes "\<And>f d. I (db_role_permissions_update f d) = I d"
  shows "holds I (role_set_permissions i ps) (\<lambda>_. True)" "holds I (role_add_permission i p) (\<lambda>_. True)"
    "holds I (role_remove_permission i p) (\<lambda>_. True)"
proof -
  show add: "holds I (role_add_permission i p) (\<lambda>_. True)" for p
    unfolding role_add_permission_def
    by (rule holds_fetch(5) [where Q = "\<lambda>_. True"]) (auto simp: sql_insert_new_def Let_def assms)
  have remove: "holds I (execute (sql_delete db_role_permissions db_role_permissions_update p)) (\<lambda>_. True)" for p
    by (rule holds_fetch(5) [where Q = "\<lambda>_. True"]) (simp add: sql_delete_def assms)
  then show "holds I (role_remove_permission i p) (\<lambda>_. True)" unfolding role_remove_permission_def .
  show "holds I (role_set_permissions i ps) (\<lambda>_. True)"
    unfolding role_set_permissions_def by (intro holds_intro remove holds_for_each add)
qed

lemma perform_role_triple: "triple fl (roles_inv lower) (perform_role lower q) (\<lambda>_. roles_inv lower) (roles_inv lower)"
proof -
  have "roles_inv lower (db_role_permissions_update f d) = roles_inv lower d" for f d by (simp add: keyed_inv_def)
  note elsewhere = permissions_elsewhere [where P = "roles_inv lower", OF this]
  show ?thesis
    by (cases q) (auto intro: triple_unit role_create_triple role_update_triple role_delete_triple elsewhere)
qed

lemma perform_role_builtin: "holds (builtins_are B) (perform_role lower q) (\<lambda>_. True)"
proof -
  have "builtins_are B (db_role_permissions_update f d) = builtins_are B d" for f d by (simp add: builtin_roles_def)
  note elsewhere = permissions_elsewhere_holds [where I = "builtins_are B", OF this]
  show ?thesis
    by (cases q) (auto intro: holds_intro role_create_builtin role_update_builtin role_delete_builtin elsewhere)
qed

text \<open>The permissions of a role.\<close>

definition granted :: "Id \<Rightarrow> database \<Rightarrow> string set" where
  "granted role_id d = rpr_permission ` {p \<in> set (tb_rows (db_role_permissions d)). rpr_role_id p = role_id}"

definition permission_state :: "database \<Rightarrow> Id \<Rightarrow> string set \<Rightarrow> database \<Rightarrow> bool" where
  "permission_state d0 i S d \<longleftrightarrow> seq_ahead rpr_id (db_role_permissions d) \<and> granted i d = S \<and>
     (\<forall>n. n \<noteq> i \<longrightarrow> granted n d = granted n d0)"

lemma set_permissions_triple:
  assumes "seq_ahead rpr_id (db_role_permissions d0)"
  shows "triple fl (\<lambda>d. d = d0) (role_set_permissions i ps) (\<lambda>_. permission_state d0 i (set ps)) (\<lambda>_. True)"
  unfolding role_set_permissions_def role_add_permission_def
proof (rule triple_then)
  let ?key = "\<lambda>p. (rpr_role_id p, rpr_permission p)" and ?new = "\<lambda>x p. rpr_role_id p = i \<and> rpr_permission p = x"
  let ?row = "\<lambda>p (now :: timestamp) n. \<lparr>rpr_id = n, rpr_role_id = i, rpr_permission = p\<rparr>"
  let ?old = "{p \<in> set (tb_rows (db_role_permissions d0)). rpr_role_id p \<noteq> i}"
  let ?links = "\<lambda>xs d. with_links rpr_id ?key ?new (Pair i) ?old xs (db_role_permissions d) \<and> True"
  show "triple fl (\<lambda>d. d = d0) (execute (sql_delete db_role_permissions db_role_permissions_update
      (\<lambda>p. rpr_role_id p = i))) (\<lambda>_. ?links []) (\<lambda>_. True)"
    by (rule triple_delete(2)) (use assms in \<open>auto simp: with_links_def seq_ahead_simps\<close>)
  have after: "permission_state d0 i (set ps) d" if links: "?links ps d" for d
    unfolding permission_state_def
  proof (intro conjI allI impI)
    let ?rows = "set (tb_rows (db_role_permissions d))"
    from links have old: "?old \<subseteq> ?rows" and keys: "Pair i ` set ps \<subseteq> ?key ` ?rows"
      and new: "\<And>r. r \<in> ?rows \<Longrightarrow> r \<in> ?old \<or> rpr_role_id r = i \<and> rpr_permission r \<in> set ps"
      by (auto simp: with_links_def)
    have "x \<in> granted i d" if "x \<in> set ps" for x using keys that by (force simp: granted_def)
    moreover have "granted i d \<subseteq> set ps" using new by (force simp: granted_def)
    ultimately show "granted i d = set ps" by blast
    show "granted n d = granted n d0" if "n \<noteq> i" for n using old new that by (force simp: granted_def)
  qed (use links in \<open>simp_all add: with_links_def\<close>)
  show "triple fl (?links []) (for_each ps (\<lambda>p. execute (sql_insert_new rpr_id ?key db_role_permissions
      db_role_permissions_update (?row p)))) (\<lambda>_. permission_state d0 i (set ps)) (\<lambda>_. True)"
    by (rule triple_post, rule insert_links_triple [where F = "\<lambda>_. True"]) (simp_all add: after)
qed

subsection \<open>Properties\<close>

definition sample_role :: create_role_dto where
  "sample_role = \<lparr>cro_name = ''Reader'', cro_position = None, cro_role_type = ''ProjectRole''\<rparr>"

text \<open>
  Roles.  Their names stay unique as long as requests come one after the other, even if statements
  fail.  The rows of the built-in roles never change, whatever other sessions do that leave them alone.
  And when the permissions of a role are set, the role has these and no others afterwards, and the other
  roles have what they had.
\<close>

theorem roles_consistent:
  assumes "history (perform_role lower) reqs env (k, d) = (k', d')"
  shows "(calm True env \<and> table_ok ror_id (db_roles d) \<and> unique_by ror_id (\<lambda>_. True) (\<lambda>r. lower (ror_name r)) (db_roles d) \<longrightarrow>
      table_ok ror_id (db_roles d') \<and> unique_by ror_id (\<lambda>_. True) (\<lambda>r. lower (ror_name r)) (db_roles d')) \<and>
    (well_behaved (builtins_are B) env \<and> builtins_are B d \<longrightarrow> builtins_are B d') \<and>
    (\<forall>i ps k1 d1. calm True env \<and> seq_ahead rpr_id (db_role_permissions d') \<and>
      role_set_permissions i ps env (k', d') = (Ok (), k1, d1) \<longrightarrow>
      granted i d1 = set ps \<and> (\<forall>n. n \<noteq> i \<longrightarrow> granted n d1 = granted n d'))"
proof (intro conjI impI allI)
  have d': "d' = snd (history (perform_role lower) reqs env (k, d))" using assms by simp
  show "table_ok ror_id (db_roles d')" "unique_by ror_id (\<lambda>_. True) (\<lambda>r. lower (ror_name r)) (db_roles d')"
    if "calm True env \<and> table_ok ror_id (db_roles d) \<and> unique_by ror_id (\<lambda>_. True) (\<lambda>r. lower (ror_name r)) (db_roles d)"
  proof -
    from that have env: "calm True env" and d: "roles_inv lower d" by (simp_all add: keyed_inv_def)
    have "roles_inv lower d'" unfolding d' by (rule history_calm [OF env perform_role_triple d])
    then show "table_ok ror_id (db_roles d')" "unique_by ror_id (\<lambda>_. True) (\<lambda>r. lower (ror_name r)) (db_roles d')"
      by (simp_all add: keyed_inv_def)
  qed
  have "builtins_are B d'" if env: "well_behaved (builtins_are B) env" and d: "builtins_are B d"
    unfolding d' by (rule history_holds [OF env perform_role_builtin d])
  then show "distinct (map ror_id (tb_rows (db_roles d')))" "builtin_roles d' = B"
    if "well_behaved (builtins_are B) env \<and> builtins_are B d" using that by blast+
  fix i ps k1 d1
  assume set: "calm True env \<and> seq_ahead rpr_id (db_role_permissions d') \<and> role_set_permissions i ps env (k', d') = (Ok (), k1, d1)"
  from set tripleD [where env = env and k = k' and d = d' and r = "Ok ()" and k' = k1 and d' = d1,
      OF set_permissions_triple [where fl = True and i = i and ps = ps, of d']]
  have "permission_state d' i (set ps) d1" by simp
  then show "granted i d1 = set ps" and "\<And>n. n \<noteq> i \<Longrightarrow> granted n d1 = granted n d'" by (simp_all add: permission_state_def)
qed

theorem roles_consistent_witness:
  "(case history (perform_role (\<lambda>n. n)) [CreateRole sample_role, CreateRole sample_role] (alone 0) (0, empty_database) of
     (k', d') \<Rightarrow> builtin_roles d' = [] \<and> table_ok ror_id (db_roles d'))"
proof -
  let ?h = "history (perform_role (\<lambda>n. n)) [CreateRole sample_role, CreateRole sample_role] (alone 0) (0, empty_database)"
  obtain k' d' where run: "?h = (k', d')" by (cases ?h)
  have e: "db_roles empty_database = empty_table" by (simp add: empty_database_def)
  have "builtins_are [] empty_database" "table_ok ror_id (db_roles empty_database)"
    "unique_by ror_id (\<lambda>_. True) (\<lambda>r. ror_name r) (db_roles empty_database)"
    "well_behaved (builtins_are []) (alone 0)"
    unfolding e by (simp_all add: builtin_roles_def e) (simp_all add: empty_table_def)
  with roles_consistent [OF run, of "[]"] have "builtin_roles d' = [] \<and> table_ok ror_id (db_roles d')" by simp
  then show ?thesis by (simp only: run prod.case)
qed

text \<open>
  C11. Members.  A membership is created with the roles asked for; an update replaces the roles that are
  the member's own and keeps the inherited ones; a member who has only inherited roles cannot be
  deleted, and a deleted one leaves no role behind.  The roles of other members never change.  This
  holds if no other session runs at the same time, and a failing statement cannot make a success of it.
\<close>

theorem members_correct:
  assumes "members_inv d" "calm True env"
  shows "(member_create dto env (k, d) = (Ok r, k', d') \<longrightarrow> cmb_role_ids dto \<noteq> [] \<and> member_created d dto r d') \<and>
    (member_update i u env (k, d) = (Ok r, k', d') \<longrightarrow> member_updated d i u r d') \<and>
    (member_delete i env (k, d) = (Ok (), k', d') \<longrightarrow> member_deleted d i d')"
  using tripleD [OF member_create_triple [OF assms(1)] assms(2), where k = k and d = d]
    tripleD [OF member_update_triple [OF assms(1)] assms(2), where k = k and d = d]
    tripleD [OF member_delete_triple [OF assms(1)] assms(2), where k = k and d = d]
  by (intro conjI impI) fastforce+

definition sample_member :: create_member_dto where
  "sample_member = \<lparr>cmb_user_id = 4, cmb_project_id = Some 2, cmb_role_ids = [3, 5], cmb_entity_type = None, cmb_entity_id = None\<rparr>"

theorem members_correct_witness:
  "\<exists>r k' d'. member_create sample_member (alone 0) (0, empty_database) = (Ok r, k', d') \<and> held (mbr_id r) d' = {3, 5}"
proof -
  obtain x k' d' where run: "member_create sample_member (alone 0) (0, empty_database) = (x, k', d')"
    by (cases "member_create sample_member (alone 0) (0, empty_database)") auto
  have "\<not> isl (fst (member_create sample_member (alone 0) (0, empty_database)))"
    by (simp add: member_create_def membership_exists_def member_set_roles_def sample_member_def run_simps
        fetch_one_def sql_insert_def execute_def sql_insert_new_def sql_delete_def empty_database_def empty_table_def new_member_def Let_def
        run_basic run_statement_def alone_def counted_def table_ok_def)
  with run obtain r where "x = Ok r" by (cases x) auto
  moreover have "members_inv empty_database" 
    by (simp add: members_inv_def seq_ahead_def empty_database_def) (simp add: empty_table_def)
  ultimately show ?thesis using members_correct [of empty_database "alone 0" sample_member 0 r k' d'] run
    by (auto simp: member_created_def sample_member_def)
qed

text \<open>
  C40. No transaction.  A membership is stored before its roles.  When a statement in between fails, the
  request answers an error but leaves a member without any role; asking again is refused, because the
  member exists.
\<close>

theorem failed_create_leaves_member_without_roles:
  assumes "members_inv d" "cmb_role_ids dto \<noteq> []" "cmb_project_id dto = Some p" "cmb_entity_type dto = None" "cmb_entity_id dto = None"
    and "\<forall>r \<in> set (tb_rows (db_members d)). \<not> (mbr_user_id r = cmb_user_id dto \<and> mbr_project_id r = Some p)"
    and "tb_seq (db_members d) < 2 ^ 63" "row_of mbr_id (db_members d) (word_of_nat (tb_seq (db_members d))) = None"
  shows "\<exists>d' r. member_create dto (faulty now (k + 2) e) (k, d) = (Err (RepoDatabase (SqlFault e)), k + 3, d') \<and>
     r \<in> set (tb_rows (db_members d')) \<and> mbr_user_id r = cmb_user_id dto \<and> mbr_project_id r = Some p \<and> held (mbr_id r) d' = {} \<and>
     member_create dto (alone now) (k + 3, d') =
       (Err (RepoConflict ''Member already exists for this user/project combination''), k + 4, d')"
proof -
  let ?i = "word_of_nat (tb_seq (db_members d)) :: Id"
  let ?new = "new_member dto now ?i"
  let ?d = "db_members_update (\<lambda>t. t\<lparr>tb_rows := tb_rows t @ [?new], tb_seq := Suc (tb_seq t)\<rparr>) d"
  let ?p = "\<lambda>m. mbr_user_id m = cmb_user_id dto \<and> mbr_project_id m = Some p \<and> mbr_entity_type m = None"
  have i: "?i \<notin> mbr_id ` set (tb_rows (db_members d))" using assms(8) by (simp add: row_of_None)
  have ok: "table_ok mbr_id (db_members d)" using assms(1) by (simp add: members_inv_def)
  have none: "filter ?p (tb_rows (db_members d)) = []" using assms(6) by (auto simp: filter_empty_conv)
  have one: "filter ?p (tb_rows (db_members ?d)) = [?new]" using none assms(3,4) by (simp add: new_member_def)
  have run: "member_create dto (faulty now (k + 2) e) (k, d) = (Err (RepoDatabase (SqlFault e)), k + 3, ?d)"
    using assms(2-5,7) i none
    by (auto simp: member_create_def membership_exists_def member_set_roles_def counted_def count_of_def fetch_one_def sql_value_def
        sql_insert_def execute_def run_basic run_statement_faulty Let_def)
  have again: "member_create dto (alone now) (k + 3, ?d) =
      (Err (RepoConflict ''Member already exists for this user/project combination''), k + 4, ?d)"
    using assms(2-5) one
    by (simp add: member_create_def membership_exists_def counted_def count_of_def run_simps del: database.simps)
  have "?i \<notin> mrr_member_id ` set (tb_rows (db_member_roles d))" using i assms(1) unfolding members_inv_def by blast
  then have "held ?i ?d = {}" by (auto simp: held_def image_iff)
  with run again assms(3) show ?thesis by (intro exI [of _ ?d] exI [of _ ?new]) simp
qed

theorem failed_create_leaves_member_without_roles_witness:
  "\<exists>d' r. member_create sample_member (faulty 0 2 ''connection lost'') (0, empty_database) =
       (Err (RepoDatabase (SqlFault ''connection lost'')), 3, d') \<and>
     r \<in> set (tb_rows (db_members d')) \<and> held (mbr_id r) d' = {}"
proof -
  have "members_inv empty_database" "cmb_role_ids sample_member \<noteq> []" "cmb_project_id sample_member = Some 2"
    "cmb_entity_type sample_member = None" "cmb_entity_id sample_member = None"
    "\<forall>r \<in> set (tb_rows (db_members empty_database)). \<not> (mbr_user_id r = cmb_user_id sample_member \<and> mbr_project_id r = Some 2)"
    "tb_seq (db_members empty_database) < 2 ^ 63"
    "row_of mbr_id (db_members empty_database) (word_of_nat (tb_seq (db_members empty_database))) = None"
    by (simp_all add: sample_member_def members_inv_def seq_ahead_def empty_database_def)
      (simp_all add: empty_table_def row_of_def)
  from failed_create_leaves_member_without_roles [OF this, where k = 0 and now = 0 and e = "''connection lost''"] show ?thesis
    unfolding add_0 by blast
qed

end
