(* ===== verification/Work_Package_Rows.thy ===== *)
theory Work_Package_Rows
  imports Schema Keys
begin

section \<open>Work packages in the database (op-db)\<close>

text \<open>
  \<open>op-db/src/work_packages.rs\<close>.  A work package is updated by one statement that names the version it
  was read at, so that the optimistic lock is the condition of an atomic \<open>UPDATE\<close>.
\<close>

record create_wp_row_dto =
  cwd_subject :: string
  cwd_description :: "string option"
  cwd_project_id :: Id
  cwd_type_id :: Id
  cwd_status_id :: Id
  cwd_priority_id :: "Id option"
  cwd_author_id :: Id
  cwd_assigned_to_id :: "Id option"
  cwd_responsible_id :: "Id option"
  cwd_start_date :: "date option"
  cwd_due_date :: "date option"
  cwd_estimated_hours :: "f64 option"
  cwd_done_ratio :: i32
  cwd_parent_id :: "Id option"
  cwd_version_id :: "Id option"
  cwd_category_id :: "Id option"

record update_wp_row_dto =
  uwd_subject :: "string option"
  uwd_description :: "string option"
  uwd_type_id :: "Id option"
  uwd_status_id :: "Id option"
  uwd_priority_id :: "Id option"
  uwd_assigned_to_id :: "Id option"
  uwd_responsible_id :: "Id option"
  uwd_start_date :: "date option"
  uwd_due_date :: "date option"
  uwd_estimated_hours :: "f64 option"
  uwd_done_ratio :: "i32 option"
  uwd_parent_id :: "Id option"
  uwd_version_id :: "Id option"
  uwd_category_id :: "Id option"
  uwd_lock_version :: i32

text \<open>\<open>ORDER BY id DESC\<close>\<close>

definition newest_work_packages :: "work_package_row list \<Rightarrow> work_package_row list" where
  "newest_work_packages ws = sort_key (\<lambda>w. - sint (wpr_id w)) ws"

definition wp_find_by_project :: "Id \<Rightarrow> pagination \<Rightarrow> (database, work_package_row paginated_result) dbop" where
  "wp_find_by_project project_id p =
     page_of p db_work_packages (\<lambda>w. wpr_project_id w = project_id) newest_work_packages"

definition wp_find_by_status :: "Id \<Rightarrow> pagination \<Rightarrow> (database, work_package_row paginated_result) dbop" where
  "wp_find_by_status status_id p =
     page_of p db_work_packages (\<lambda>w. wpr_status_id w = status_id) newest_work_packages"

definition wp_find_by_assignee :: "Id \<Rightarrow> pagination \<Rightarrow> (database, work_package_row paginated_result) dbop" where
  "wp_find_by_assignee user_id p =
     page_of p db_work_packages (\<lambda>w. wpr_assigned_to_id w = Some user_id) newest_work_packages"

definition wp_find_children :: "Id \<Rightarrow> (database, work_package_row list) dbop" where
  "wp_find_children parent_id = fetch_all (sql_select (\<lambda>d.
     sort_key (\<lambda>w. sint (wpr_id w)) (filter (\<lambda>w. wpr_parent_id w = Some parent_id) (tb_rows (db_work_packages d)))))"

definition wp_modified :: repository_error where
  "wp_modified = RepoConflict ''Work package was modified by another user''"

text \<open>\<open>lock_version + 1\<close> is out of the range of an \<open>integer\<close> for the largest one.\<close>

definition lock_version_can_grow :: "work_package_row \<Rightarrow> bool" where
  "lock_version_can_grow w \<longleftrightarrow> sint (wpr_lock_version w) < 2 ^ 31 - 1"

definition wp_update_status :: "Id \<Rightarrow> Id \<Rightarrow> i32 \<Rightarrow> (database, work_package_row) dbop" where
  "wp_update_status i status_id lock_version =
     or_fail wp_modified (fetch_optional (sql_update_checked db_work_packages db_work_packages_update
       (\<lambda>w. wpr_id w = i \<and> wpr_lock_version w = lock_version) lock_version_can_grow
       (\<lambda>now w. w\<lparr>wpr_status_id := status_id, wpr_lock_version := wpr_lock_version w + 1, wpr_updated_at := now\<rparr>)))"

definition wp_find_by_id :: "Id \<Rightarrow> (database, work_package_row option) dbop" where
  "wp_find_by_id = find_row wpr_id db_work_packages"

definition wp_find_all :: "i64 \<Rightarrow> i64 \<Rightarrow> (database, work_package_row list) dbop" where
  "wp_find_all limit offset =
     fetch_all (sql_select_page limit offset (\<lambda>d. newest_work_packages (tb_rows (db_work_packages d))))"

definition wp_count :: "(database, i64) dbop" where
  "wp_count = count_of db_work_packages (\<lambda>_. True)"

definition new_wp_row :: "create_wp_row_dto \<Rightarrow> timestamp \<Rightarrow> Id \<Rightarrow> work_package_row" where
  "new_wp_row dto now i =
     \<lparr>wpr_id = i, wpr_subject = cwd_subject dto, wpr_description = cwd_description dto,
      wpr_project_id = cwd_project_id dto, wpr_type_id = cwd_type_id dto, wpr_status_id = cwd_status_id dto,
      wpr_priority_id = cwd_priority_id dto, wpr_author_id = cwd_author_id dto,
      wpr_assigned_to_id = cwd_assigned_to_id dto, wpr_responsible_id = cwd_responsible_id dto,
      wpr_start_date = cwd_start_date dto, wpr_due_date = cwd_due_date dto,
      wpr_estimated_hours = cwd_estimated_hours dto, wpr_done_ratio = cwd_done_ratio dto,
      wpr_parent_id = cwd_parent_id dto, wpr_version_id = cwd_version_id dto, wpr_category_id = cwd_category_id dto,
      wpr_lock_version = 0, wpr_created_at = now, wpr_updated_at = now\<rparr>"

definition wp_create :: "create_wp_row_dto \<Rightarrow> (database, work_package_row) dbop" where
  "wp_create dto = fetch_one (sql_insert wpr_id db_work_packages db_work_packages_update (new_wp_row dto))"

definition updated_wp_row :: "update_wp_row_dto \<Rightarrow> timestamp \<Rightarrow> work_package_row \<Rightarrow> work_package_row" where
  "updated_wp_row dto now w = w\<lparr>
     wpr_subject := coalesce (uwd_subject dto) (wpr_subject w),
     wpr_description := coalesce_opt (uwd_description dto) (wpr_description w),
     wpr_type_id := coalesce (uwd_type_id dto) (wpr_type_id w),
     wpr_status_id := coalesce (uwd_status_id dto) (wpr_status_id w),
     wpr_priority_id := coalesce_opt (uwd_priority_id dto) (wpr_priority_id w),
     wpr_assigned_to_id := uwd_assigned_to_id dto,
     wpr_responsible_id := uwd_responsible_id dto,
     wpr_start_date := uwd_start_date dto,
     wpr_due_date := uwd_due_date dto,
     wpr_estimated_hours := uwd_estimated_hours dto,
     wpr_done_ratio := coalesce (uwd_done_ratio dto) (wpr_done_ratio w),
     wpr_parent_id := uwd_parent_id dto,
     wpr_version_id := uwd_version_id dto,
     wpr_category_id := uwd_category_id dto,
     wpr_lock_version := wpr_lock_version w + 1,
     wpr_updated_at := now\<rparr>"

definition wp_update :: "Id \<Rightarrow> update_wp_row_dto \<Rightarrow> (database, work_package_row) dbop" where
  "wp_update i dto =
     or_fail wp_modified (fetch_optional (sql_update_checked db_work_packages db_work_packages_update
       (\<lambda>w. wpr_id w = i \<and> wpr_lock_version w = uwd_lock_version dto) lock_version_can_grow (updated_wp_row dto)))"

definition wp_not_found :: "Id \<Rightarrow> repository_error" where
  "wp_not_found i = RepoNotFound (''Work package with id '' @ show_i64 i @ '' not found'')"

definition wp_delete :: "Id \<Rightarrow> (database, unit) dbop" where
  "wp_delete i = or_fail_zero (wp_not_found i)
     (rows_affected (sql_delete db_work_packages db_work_packages_update (\<lambda>w. wpr_id w = i)))"

definition wp_exists :: "Id \<Rightarrow> (database, bool) dbop" where
  "wp_exists i = row_exists db_work_packages (\<lambda>w. wpr_id w = i)"

interpretation work_packages: keyed_table wpr_id "db_work_packages :: database \<Rightarrow> _" db_work_packages_update "\<lambda>_. ()"
  by unfold_locales simp

subsection \<open>The optimistic lock\<close>

lemma update_checked_run:
  "or_fail e (fetch_optional (sql_update_checked tbl upd p in_range f)) env (k, d) =
     (let d = tn_others (env k) d; now = tn_now (env k)
      in case tn_fault (env k) of
           Some x \<Rightarrow> (Err (RepoDatabase (SqlFault x)), Suc k, d)
         | None \<Rightarrow>
             if \<exists>r \<in> set (tb_rows (tbl d)). p r \<and> \<not> in_range r then (Err (RepoDatabase SqlOutOfRange), Suc k, d)
             else (case List.find p (tb_rows (tbl d)) of None \<Rightarrow> Err e | Some w \<Rightarrow> Ok (f now w), Suc k,
               upd (tb_rows_update (map (\<lambda>w. if p w then f now w else w))) d))"
proof -
  have head: "(case map (f now) (filter p xs) of [] \<Rightarrow> None | r # rs \<Rightarrow> Some r) = map_option (f now) (List.find p xs)"
    for xs now by (induction xs) auto
  show ?thesis
    by (cases "tn_fault (env k)"; cases "List.find p (tb_rows (tbl (tn_others (env k) d)))")
      (simp_all add: or_fail_def fetch_optional_def run_statement_def run_basic sql_update_checked_def sql_update_def head Let_def, blast)
qed

lemma update_checked_effect:
  assumes "or_fail e (fetch_optional (sql_update_checked tbl upd p in_range f)) env (k, d) = (Ok r, k', d')"
  shows "\<exists>w. List.find p (tb_rows (tbl (tn_others (env k) d))) = Some w \<and> in_range w \<and> r = f (tn_now (env k)) w \<and>
     d' = upd (tb_rows_update (map (\<lambda>w. if p w then f (tn_now (env k)) w else w))) (tn_others (env k) d)"
  using assms by (auto simp: update_checked_run Let_def find_Some_iff split: option.splits if_splits)

lemma update_checked_refused:
  assumes "\<forall>w \<in> set (tb_rows (tbl (tn_others (env k) d))). \<not> p w"
  shows "\<exists>e'. fst (or_fail e (fetch_optional (sql_update_checked tbl upd p in_range f)) env (k, d)) = Err e'"
proof -
  from assms have "List.find p (tb_rows (tbl (tn_others (env k) d))) = None" by (simp add: find_None_iff)
  then show ?thesis by (auto simp: update_checked_run Let_def split: option.split)
qed

text \<open>Work package \<open>i\<close> is gone or beyond version \<open>v\<close>, and its identity is not given out again.\<close>

definition beyond :: "Id \<Rightarrow> int \<Rightarrow> database \<Rightarrow> bool" where
  "beyond i v d \<longleftrightarrow> (\<forall>w \<in> set (tb_rows (db_work_packages d)). wpr_id w = i \<longrightarrow> v < sint (wpr_lock_version w)) \<and>
     sint i < int (tb_seq (db_work_packages d))"

lemma beyond_map:
  assumes "beyond i v d" "\<And>w. w \<in> set (tb_rows (db_work_packages d)) \<Longrightarrow>
    wpr_id (g w) = wpr_id w \<and> sint (wpr_lock_version w) \<le> sint (wpr_lock_version (g w))"
  shows "beyond i v (db_work_packages_update (tb_rows_update (map g)) d)"
  using assms by (fastforce simp: beyond_def)

lemma bump_beyond:
  assumes "\<And>now w. wpr_id (f now w) = wpr_id w" "\<And>now w. wpr_lock_version (f now w) = wpr_lock_version w + 1"
  shows "holds (beyond i v) (or_fail e (fetch_optional (sql_update_checked db_work_packages db_work_packages_update p
    lock_version_can_grow f))) (\<lambda>_. True)"
proof (intro holds_or_fail_any holds_true [OF holds_fetch(2) [where Q = "\<lambda>_. True"]])
  fix now and d :: database assume inv: "beyond i v d"
  let ?g = "\<lambda>w. if p w then f now w else w"
  have "beyond i v (db_work_packages_update (tb_rows_update (map ?g)) d)"
    if "\<forall>w \<in> set (tb_rows (db_work_packages d)). p w \<longrightarrow> lock_version_can_grow w"
    by (rule beyond_map [OF inv]) (use that assms in \<open>auto simp: lock_version_can_grow_def sint_inc_i32\<close>)
  with inv show "case sql_update_checked db_work_packages db_work_packages_update p lock_version_can_grow f now d of
      (r, d') \<Rightarrow> beyond i v d' \<and> (\<forall>xs. r = Ok xs \<longrightarrow> (\<forall>x\<in>set xs. True))"
    by (auto simp: sql_update_checked_def sql_update_def simp del: database.simps)
qed

lemma wp_fields [simp]:
  "wpr_id (new_wp_row cdto now i) = i" "wpr_lock_version (new_wp_row cdto now i) = 0"
  "wpr_id (updated_wp_row dto now w) = wpr_id w"
  "wpr_lock_version (updated_wp_row dto now w) = wpr_lock_version w + 1"
  by (simp_all add: new_wp_row_def updated_wp_row_def)

lemma create_beyond: "holds (beyond i v) (wp_create dto) (\<lambda>_. True)"
  unfolding wp_create_def
proof (rule holds_fetch(3))
  fix now and d :: database assume inv: "beyond i v d"
  have "i \<noteq> word_of_nat (tb_seq (db_work_packages d))" if "tb_seq (db_work_packages d) < 2 ^ 63"
    using sint_of_nat_i64 [OF that] inv by (auto simp: beyond_def)
  with inv show "case sql_insert wpr_id db_work_packages db_work_packages_update (new_wp_row dto) now d of
      (r, d') \<Rightarrow> beyond i v d' \<and> (\<forall>xs. r = Ok xs \<longrightarrow> (\<forall>x\<in>set xs. True))"
    by (auto simp: sql_insert_def Let_def beyond_def)
qed

lemma delete_beyond: "holds (beyond i v) (wp_delete j) (\<lambda>_. True)"
  unfolding wp_delete_def
  by (intro holds_or_fail_zero holds_fetch(4) [where Q = "\<lambda>_. True"]) (auto simp: sql_delete_def beyond_def)

datatype wp_request =
  CreateWp create_wp_row_dto | UpdateWp Id update_wp_row_dto | UpdateWpStatus Id Id i32 | DeleteWp Id

fun perform_wp :: "wp_request \<Rightarrow> (database, unit) dbop" where
  "perform_wp (CreateWp dto) = and_then (wp_create dto) (\<lambda>_. ret ())"
| "perform_wp (UpdateWp i dto) = and_then (wp_update i dto) (\<lambda>_. ret ())"
| "perform_wp (UpdateWpStatus i s v) = and_then (wp_update_status i s v) (\<lambda>_. ret ())"
| "perform_wp (DeleteWp i) = wp_delete i"

lemma perform_wp_beyond: "holds (beyond i v) (perform_wp q) (\<lambda>_. True)"
  by (cases q) (auto intro!: holds_intro create_beyond delete_beyond bump_beyond simp: wp_update_def wp_update_status_def)

lemma stale_refused:
  assumes "well_behaved (beyond i v) env" "beyond i v d"
  shows "sint (uwd_lock_version dto) \<le> v \<Longrightarrow> \<exists>e. fst (wp_update i dto env (k, d)) = Err e"
    and "sint u \<le> v \<Longrightarrow> \<exists>e. fst (wp_update_status i s u env (k, d)) = Err e"
proof -
  from assms have d: "beyond i v (tn_others (env k) d)" by (simp add: well_behaved_def)
  then have none: "\<not> (wpr_id w = i \<and> wpr_lock_version w = u)"
    if "w \<in> set (tb_rows (db_work_packages (tn_others (env k) d)))" "sint u \<le> v" for w u
    using that by (auto simp: beyond_def)
  show "\<exists>e. fst (wp_update i dto env (k, d)) = Err e" if "sint (uwd_lock_version dto) \<le> v"
    unfolding wp_update_def by (rule update_checked_refused) (use none that in blast)
  show "\<exists>e. fst (wp_update_status i s u env (k, d)) = Err e" if "sint u \<le> v"
    unfolding wp_update_status_def by (rule update_checked_refused) (use none that in blast)
qed

lemma updated_beyond:
  assumes run: "wp_update i dto env (k, d) = (Ok r, k', d')" and ok: "seq_ahead wpr_id (db_work_packages d')"
  shows "\<exists>w. row_of wpr_id (db_work_packages (tn_others (env k) d)) i = Some w \<and> wpr_lock_version w = uwd_lock_version dto \<and>
      r = updated_wp_row dto (tn_now (env k)) w \<and> sint (wpr_lock_version r) = sint (uwd_lock_version dto) + 1"
    and "row_of wpr_id (db_work_packages d') i = Some r"
    and "beyond i (sint (uwd_lock_version dto)) d'"
proof -
  let ?d = "tn_others (env k) d" and ?p = "\<lambda>w. wpr_id w = i \<and> wpr_lock_version w = uwd_lock_version dto"
  let ?g = "\<lambda>w. if ?p w then updated_wp_row dto (tn_now (env k)) w else w"
  from update_checked_effect [OF run [unfolded wp_update_def]]
  obtain w where w: "List.find ?p (tb_rows (db_work_packages ?d)) = Some w" "lock_version_can_grow w"
      "r = updated_wp_row dto (tn_now (env k)) w"
    and d': "d' = db_work_packages_update (tb_rows_update (map ?g)) ?d" by blast
  from w(1) have in_d: "w \<in> set (tb_rows (db_work_packages ?d))" "?p w" by (auto simp: find_Some_iff)
  have id: "wpr_id (?g w) = wpr_id w" for w by simp
  have rows: "tb_rows (db_work_packages d') = map ?g (tb_rows (db_work_packages ?d))" by (simp add: d')
  from ok have dist': "distinct (map wpr_id (tb_rows (db_work_packages d')))" and pos: "table_ok wpr_id (db_work_packages d')"
    by (simp_all add: seq_ahead_def table_ok_def)
  from dist' have dist: "distinct (map wpr_id (tb_rows (db_work_packages ?d)))" unfolding rows map_map comp_def id .
  then have old: "row_of wpr_id (db_work_packages ?d) i = Some w"
    unfolding row_of_def using find_distinct [OF dist, of i w] in_d by simp
  have lock: "sint (wpr_lock_version r) = sint (uwd_lock_version dto) + 1"
    using w(2,3) in_d(2) by (simp add: lock_version_can_grow_def sint_inc_i32)
  with old in_d w(3) show "\<exists>w. row_of wpr_id (db_work_packages ?d) i = Some w \<and> wpr_lock_version w = uwd_lock_version dto \<and>
      r = updated_wp_row dto (tn_now (env k)) w \<and> sint (wpr_lock_version r) = sint (uwd_lock_version dto) + 1" by blast
  have "r \<in> set (tb_rows (db_work_packages d'))" unfolding rows set_map using in_d w(3) by (intro image_eqI [of _ _ w]) simp_all
  moreover have "wpr_id r = i" using in_d(2) w(3) by simp
  ultimately show new: "row_of wpr_id (db_work_packages d') i = Some r" by (simp add: row_of_iff [OF pos])
  have "sint i < int (tb_seq (db_work_packages d'))" using ok in_d(2) w(3) \<open>r \<in> set _\<close> \<open>wpr_id r = i\<close> by (auto simp: seq_ahead_def)
  moreover have "x = r" if "x \<in> set (tb_rows (db_work_packages d'))" "wpr_id x = i" for x
    using row_of_iff [OF pos, of i x] new that by simp
  ultimately show "beyond i (sint (uwd_lock_version dto)) d'" using lock by (auto simp: beyond_def)
qed

text \<open>
  C13. The lock of the database.  An update of a work package succeeds only if the stored row has the
  version the request names at that moment, and stores it with the next version.  From then on, whatever
  requests of this and of other sessions follow in whatever order, as long as the others do not turn the
  version back: no update that names the old version, or an older one, succeeds.  (No update is
  lost, unlike in the in-memory service, where reading and writing are two steps.)
\<close>

theorem sql_lock_rejects_stale_updates:
  assumes "wp_update i dto env (k, d) = (Ok r, k1, d1)" "seq_ahead wpr_id (db_work_packages d1)"
    and "well_behaved (beyond i (sint (uwd_lock_version dto))) env2"
    and "history perform_wp reqs env2 (k1, d1) = (k2, d2)"
  shows "(\<exists>w. row_of wpr_id (db_work_packages (tn_others (env k) d)) i = Some w \<and> wpr_lock_version w = uwd_lock_version dto \<and>
       r = updated_wp_row dto (tn_now (env k)) w \<and> sint (wpr_lock_version r) = sint (uwd_lock_version dto) + 1) \<and>
     row_of wpr_id (db_work_packages d1) i = Some r \<and>
     (\<forall>dto2. sint (uwd_lock_version dto2) \<le> sint (uwd_lock_version dto) \<longrightarrow> (\<exists>e. fst (wp_update i dto2 env2 (k2, d2)) = Err e)) \<and>
     (\<forall>s u. sint u \<le> sint (uwd_lock_version dto) \<longrightarrow> (\<exists>e. fst (wp_update_status i s u env2 (k2, d2)) = Err e))"
proof -
  have "beyond i (sint (uwd_lock_version dto)) (snd (history perform_wp reqs env2 (k1, d1)))"
    by (rule history_holds [OF assms(3) perform_wp_beyond updated_beyond(3) [OF assms(1,2)]])
  then have "beyond i (sint (uwd_lock_version dto)) d2" using assms(4) by simp
  with updated_beyond(1,2) [OF assms(1,2)] stale_refused [OF assms(3)] show ?thesis by blast
qed

definition sample_wp :: create_wp_row_dto where
  "sample_wp = \<lparr>cwd_subject = ''Login'', cwd_description = None, cwd_project_id = 1, cwd_type_id = 1, cwd_status_id = 1,
     cwd_priority_id = Some 3, cwd_author_id = 7, cwd_assigned_to_id = Some 7, cwd_responsible_id = Some 8,
     cwd_start_date = Some 20000, cwd_due_date = Some 20010, cwd_estimated_hours = None, cwd_done_ratio = 0,
     cwd_parent_id = None, cwd_version_id = Some 2, cwd_category_id = Some 4\<rparr>"

definition sample_update :: update_wp_row_dto where
  "sample_update = \<lparr>uwd_subject = Some ''Login page'', uwd_description = None, uwd_type_id = None, uwd_status_id = None,
     uwd_priority_id = None, uwd_assigned_to_id = Some 7, uwd_responsible_id = None, uwd_start_date = None, uwd_due_date = None,
     uwd_estimated_hours = None, uwd_done_ratio = Some 10, uwd_parent_id = None, uwd_version_id = None, uwd_category_id = None,
     uwd_lock_version = 0\<rparr>"

definition one_wp :: database where
  "one_wp = empty_database\<lparr>db_work_packages := \<lparr>tb_rows = [new_wp_row sample_wp 0 1], tb_seq = 2\<rparr>\<rparr>"

lemma one_wp_updated:
  "wp_update 1 sample_update (alone 5) (0, one_wp) =
     (Ok (updated_wp_row sample_update 5 (new_wp_row sample_wp 0 1)), 1,
      one_wp\<lparr>db_work_packages := \<lparr>tb_rows = [updated_wp_row sample_update 5 (new_wp_row sample_wp 0 1)], tb_seq = 2\<rparr>\<rparr>)"
  unfolding wp_update_def update_checked_run
  by (simp add: alone_def one_wp_def sample_update_def lock_version_can_grow_def)

theorem sql_lock_rejects_stale_updates_witness:
  "\<exists>k2 d2. history perform_wp [UpdateWpStatus 1 9 1] (alone 6) (1, snd (snd (wp_update 1 sample_update (alone 5) (0, one_wp)))) = (k2, d2) \<and>
     (\<exists>e. fst (wp_update 1 sample_update (alone 6) (k2, d2)) = Err e)"
proof -
  let ?d1 = "one_wp\<lparr>db_work_packages := \<lparr>tb_rows = [updated_wp_row sample_update 5 (new_wp_row sample_wp 0 1)], tb_seq = 2\<rparr>\<rparr>"
  let ?h = "history perform_wp [UpdateWpStatus 1 9 1] (alone 6) (1, ?d1)"
  obtain k2 d2 where run: "?h = (k2, d2)" by (cases ?h)
  have "seq_ahead wpr_id (db_work_packages ?d1)" by (simp add: seq_ahead_def table_ok_def)
  from sql_lock_rejects_stale_updates [OF one_wp_updated this quiet_alone(2) run]
  have "\<exists>e. fst (wp_update 1 sample_update (alone 6) (k2, d2)) = Err e" by blast
  then show ?thesis by (simp only: one_wp_updated snd_conv run) blast
qed

subsection \<open>A repository\<close>

lemma update_one_row:
  assumes "table_ok idf t" "row_of idf t i = Some w" "p w"
  shows "map (\<lambda>r. if idf r = i \<and> p r then f r else r) (tb_rows t) = map (\<lambda>r. if idf r = i then f r else r) (tb_rows t)"
proof (intro map_cong refl)
  fix x assume "x \<in> set (tb_rows t)"
  then have "idf x = i \<Longrightarrow> x = w" using row_of_iff [OF assms(1), of i x] assms(2) by simp
  with assms(3) show "(if idf x = i \<and> p x then f x else x) = (if idf x = i then f x else x)" by auto
qed

lemma find_lock:
  assumes "table_ok idf t"
  shows "List.find (\<lambda>r. idf r = i \<and> p r) (tb_rows t) = Option.bind (row_of idf t i) (\<lambda>r. if p r then Some r else None)"
proof -
  have "List.find (\<lambda>r. idf r = i \<and> p r) xs = Option.bind (List.find (\<lambda>r. idf r = i) xs) (\<lambda>r. if p r then Some r else None)"
    if "distinct (map idf xs)" for xs
    using that
  proof (induction xs)
    case (Cons x xs)
    have "List.find (\<lambda>r. idf r = i) xs = None" if "idf x = i" using that Cons.prems by (auto simp: find_None_iff image_iff)
    with Cons show ?case by (auto split: if_splits)
  qed simp
  with assms show ?thesis by (simp add: row_of_def table_ok_def)
qed

lemma update_checked_law:
  assumes env: "quiet env" and ok: "table_ok wpr_id (db_work_packages d)" and f: "\<And>now r. wpr_id (f now r) = wpr_id r"
    and run: "or_fail e (fetch_optional (sql_update_checked db_work_packages db_work_packages_update (\<lambda>w. wpr_id w = i \<and> p w) in_range f))
      env (k, d) = (x, k', d')"
  shows "table_ok wpr_id (db_work_packages d') \<and>
    updated_in wpr_id i x (row_of wpr_id (db_work_packages d)) (row_of wpr_id (db_work_packages d'))"
proof (cases x)
  case (Inl e')
  have same: "tb_rows_update (map (\<lambda>w. if wpr_id w = i \<and> p w then f now w else w)) (db_work_packages d) = db_work_packages d"
    if "List.find (\<lambda>w. wpr_id w = i \<and> p w) (tb_rows (db_work_packages d)) = None" for now
    using that by (auto simp: find_None_iff intro!: table.equality map_idI)
  have "db_work_packages d' = db_work_packages d"
    using run env Inl same by (auto simp: update_checked_run quiet_def Let_def split: option.splits if_splits)
  with ok Inl show ?thesis by simp
next
  case (Inr r)
  from env have t: "tn_others (env k) d = d" by (simp add: quiet_def)
  from update_checked_effect [OF run [unfolded Inr]] obtain w
    where w: "List.find (\<lambda>w. wpr_id w = i \<and> p w) (tb_rows (db_work_packages d)) = Some w" "r = f (tn_now (env k)) w"
    and d': "d' = db_work_packages_update (tb_rows_update (map (\<lambda>w. if wpr_id w = i \<and> p w then f (tn_now (env k)) w else w))) d"
    unfolding t by blast
  from w(1) have row: "row_of wpr_id (db_work_packages d) i = Some w" "p w"
    unfolding find_lock [OF ok] by (auto split: Option.bind_splits if_splits)
  have "db_work_packages d' = tb_rows_update (map (\<lambda>r. if wpr_id r = i then f (tn_now (env k)) r else r)) (db_work_packages d)"
    using update_one_row [where f = "f (tn_now (env k))" and idf = wpr_id and p = p, OF ok row] by (simp add: d')
  with row_of_update [where f = "f (tn_now (env k))" and idf = wpr_id and t = "db_work_packages d" and i = i, OF ok f] row w(2)
  show ?thesis by (auto simp: Inr updated_in_def f dest: row_of_id)
qed

abbreviation work_packages_table :: "database \<Rightarrow> bool" where
  "work_packages_table d \<equiv> table_ok wpr_id (db_work_packages d)"

interpretation work_package_repository: repository wpr_id work_packages_table "\<lambda>d. row_of wpr_id (db_work_packages d)"
    wp_find_by_id wp_exists wp_create wp_update wp_delete
proof (unfold_locales, goal_cases)
  case (1 env d i k)
  then show ?case by (simp add: wp_find_by_id_def work_packages.run_table)
next
  case (2 env d i k)
  then show ?case by (auto simp: wp_exists_def work_packages.run_table row_of_None)
next
  case (3 env d c k x k' d')
  from work_packages.insert_law [OF 3(1,2) _ 3(3) [unfolded wp_create_def]] show ?case by simp
next
  case (4 env d i u k x k' d')
  from update_checked_law [OF 4(1,2) _ 4(3) [unfolded wp_update_def]] show ?case by simp
next
  case (5 env d i k y k' d')
  from work_packages.delete_or_fail_law [OF 5(1,2) 5(3) [unfolded wp_delete_def]] show ?case by simp
qed

end
