(* ===== verification/Projects.thy ===== *)
theory Projects
  imports Schema Keys
begin

section \<open>Projects in the database (op-db)\<close>

text \<open>
  \<open>op-db/src/projects.rs\<close>.  A project names its parent; the columns \<open>lft\<close> and \<open>rgt\<close> are meant to hold
  the tree as nested intervals.
\<close>

definition project_row_depth :: "project_row \<Rightarrow> i32" where "project_row_depth p = 0"

definition project_row_is_root :: "project_row \<Rightarrow> bool" where
  "project_row_is_root p \<longleftrightarrow> prr_parent_id p = None"

definition project_row_has_children :: "project_row \<Rightarrow> bool" where
  "project_row_has_children p \<longleftrightarrow> 1 < sint (prr_rgt p - prr_lft p)"

record create_project_row_dto =
  cpd_name :: string
  cpd_description :: "string option"
  cpd_identifier :: string
  cpd_public :: bool
  cpd_parent_id :: "Id option"
  cpd_active :: bool

record update_project_row_dto =
  upd_name :: "string option"
  upd_description :: "string option"
  upd_public :: "bool option"
  upd_parent_id :: "Id option"
  upd_active :: "bool option"

text \<open>\<open>ORDER BY lft ASC\<close>\<close>

definition projects_by_lft :: "project_row list \<Rightarrow> project_row list" where
  "projects_by_lft ps = sort_key (\<lambda>p. sint (prr_lft p)) ps"

definition projects_where :: "(project_row \<Rightarrow> bool) \<Rightarrow> (database, project_row list) dbop" where
  "projects_where cond = fetch_all (sql_select (\<lambda>d. projects_by_lft (filter cond (tb_rows (db_projects d)))))"

definition project_find_by_identifier :: "string \<Rightarrow> (database, project_row option) dbop" where
  "project_find_by_identifier identifier =
     fetch_optional (sql_select (\<lambda>d. filter (\<lambda>p. prr_identifier p = identifier) (tb_rows (db_projects d))))"

definition project_find_roots :: "pagination \<Rightarrow> (database, project_row paginated_result) dbop" where
  "project_find_roots pg = page_of pg db_projects (\<lambda>p. prr_parent_id p = None) projects_by_lft"

definition project_find_children :: "Id \<Rightarrow> (database, project_row list) dbop" where
  "project_find_children parent_id = projects_where (\<lambda>p. prr_parent_id p = Some parent_id)"

definition project_find_ancestors :: "project_row \<Rightarrow> (database, project_row list) dbop" where
  "project_find_ancestors project =
     projects_where (\<lambda>p. prr_lft p <s prr_lft project \<and> prr_rgt project <s prr_rgt p)"

definition project_find_descendants :: "project_row \<Rightarrow> (database, project_row list) dbop" where
  "project_find_descendants project =
     projects_where (\<lambda>p. prr_lft project <s prr_lft p \<and> prr_rgt p <s prr_rgt project)"

definition project_find_active :: "pagination \<Rightarrow> (database, project_row paginated_result) dbop" where
  "project_find_active pg = page_of pg db_projects prr_active projects_by_lft"

definition project_find_public :: "pagination \<Rightarrow> (database, project_row paginated_result) dbop" where
  "project_find_public pg = page_of pg db_projects (\<lambda>p. prr_public p \<and> prr_active p) projects_by_lft"

definition project_is_identifier_unique :: "string \<Rightarrow> Id option \<Rightarrow> (database, bool) dbop" where
  "project_is_identifier_unique identifier exclude_id =
     (case exclude_id of
        Some i \<Rightarrow> fetch_one (sql_value (\<lambda>d.
          \<not> (\<exists>p \<in> set (tb_rows (db_projects d)). prr_identifier p = identifier \<and> prr_id p \<noteq> i)))
      | None \<Rightarrow> fetch_one (sql_value (\<lambda>d. \<not> (\<exists>p \<in> set (tb_rows (db_projects d)). prr_identifier p = identifier))))"

definition project_archive :: "Id \<Rightarrow> (database, unit) dbop" where
  "project_archive i = execute (sql_update db_projects db_projects_update (\<lambda>p. prr_id p = i)
     (\<lambda>now p. p\<lparr>prr_active := False, prr_updated_at := now\<rparr>))"

definition project_unarchive :: "Id \<Rightarrow> (database, unit) dbop" where
  "project_unarchive i = execute (sql_update db_projects db_projects_update (\<lambda>p. prr_id p = i)
     (\<lambda>now p. p\<lparr>prr_active := True, prr_updated_at := now\<rparr>))"

text \<open>
  \<open>projects p LEFT JOIN members m ON m.project_id = p.id AND m.user_id = $1\<close>, where the project is active and
  public or joined; the \<open>DISTINCT\<close> of its two uses is over the rows and over their keys.
\<close>

definition projects_with_members :: "Id \<Rightarrow> database \<Rightarrow> (project_row \<times> member_row option) list" where
  "projects_with_members user_id d = concat (map (\<lambda>p.
     case filter (\<lambda>m. mbr_project_id m = Some (prr_id p) \<and> mbr_user_id m = user_id) (tb_rows (db_members d)) of
       [] \<Rightarrow> [(p, None)]
     | m # ms \<Rightarrow> map (\<lambda>m. (p, Some m)) (m # ms)) (tb_rows (db_projects d)))"

definition visible_projects :: "Id \<Rightarrow> database \<Rightarrow> project_row list" where
  "visible_projects user_id d =
     map fst (filter (\<lambda>(p, m). prr_active p \<and> (prr_public p \<or> m \<noteq> None)) (projects_with_members user_id d))"

definition project_find_visible_to_user :: "Id \<Rightarrow> pagination \<Rightarrow> (database, project_row paginated_result) dbop" where
  "project_find_visible_to_user user_id pg =
     and_then (fetch_all (sql_select_page (pg_limit pg) (pg_offset pg)
       (\<lambda>d. projects_by_lft (remdups (visible_projects user_id d))))) (\<lambda>rows.
     and_then (fetch_one (sql_value (\<lambda>d. word_of_nat (length (remdups (map prr_id (visible_projects user_id d))))))) (\<lambda>total.
     ret (paginated_result_new rows total pg)))"

definition project_find_by_id :: "Id \<Rightarrow> (database, project_row option) dbop" where
  "project_find_by_id = find_row prr_id db_projects"

definition project_find_all :: "i64 \<Rightarrow> i64 \<Rightarrow> (database, project_row list) dbop" where
  "project_find_all limit offset =
     fetch_all (sql_select_page limit offset (\<lambda>d. projects_by_lft (tb_rows (db_projects d))))"

definition project_count :: "(database, i64) dbop" where
  "project_count = count_of db_projects (\<lambda>_. True)"

definition new_project_row :: "create_project_row_dto \<Rightarrow> i32 \<Rightarrow> i32 \<Rightarrow> timestamp \<Rightarrow> Id \<Rightarrow> project_row" where
  "new_project_row dto lft rgt now i =
     \<lparr>prr_id = i, prr_name = cpd_name dto, prr_description = cpd_description dto, prr_identifier = cpd_identifier dto,
      prr_public = cpd_public dto, prr_parent_id = cpd_parent_id dto, prr_lft = lft, prr_rgt = rgt,
      prr_active = cpd_active dto, prr_created_at = now, prr_updated_at = now\<rparr>"

definition project_create :: "create_project_row_dto \<Rightarrow> (database, project_row) dbop" where
  "project_create dto =
     and_then (fetch_one (sql_value (\<lambda>d. max_i32 (map prr_rgt (tb_rows (db_projects d)))))) (\<lambda>max.
     let max_rgt = (case max of Some n \<Rightarrow> n | None \<Rightarrow> 0); lft = max_rgt + 1; rgt = max_rgt + 2
     in fetch_one (sql_insert prr_id db_projects db_projects_update (new_project_row dto lft rgt)))"

definition updated_project_row :: "update_project_row_dto \<Rightarrow> timestamp \<Rightarrow> project_row \<Rightarrow> project_row" where
  "updated_project_row dto now p = p\<lparr>
     prr_name := coalesce (upd_name dto) (prr_name p),
     prr_description := coalesce_opt (upd_description dto) (prr_description p),
     prr_public := coalesce (upd_public dto) (prr_public p),
     prr_active := coalesce (upd_active dto) (prr_active p),
     prr_updated_at := now\<rparr>"

definition project_not_found :: "Id \<Rightarrow> repository_error" where
  "project_not_found i = RepoNotFound (''Project with id '' @ show_i64 i @ '' not found'')"

definition project_update :: "Id \<Rightarrow> update_project_row_dto \<Rightarrow> (database, project_row) dbop" where
  "project_update i dto =
     or_fail (project_not_found i) (fetch_optional (sql_update db_projects db_projects_update
       (\<lambda>p. prr_id p = i) (updated_project_row dto)))"

definition project_delete :: "Id \<Rightarrow> (database, unit) dbop" where
  "project_delete i =
     and_then (row_exists db_projects (\<lambda>p. prr_parent_id p = Some i)) (\<lambda>has_children.
     if has_children then fail (RepoConflict ''Cannot delete project with children'')
     else or_fail_zero (project_not_found i) (rows_affected (sql_delete db_projects db_projects_update (\<lambda>p. prr_id p = i))))"

definition project_exists :: "Id \<Rightarrow> (database, bool) dbop" where
  "project_exists i = row_exists db_projects (\<lambda>p. prr_id p = i)"

interpretation projects: keyed_table prr_id "db_projects :: database \<Rightarrow> _" db_projects_update "\<lambda>_. ()"
  by unfold_locales simp

subsection \<open>The projects a user sees\<close>

lemma remdups_copies:
  assumes "distinct ps" "\<And>p. p \<in> set ps \<Longrightarrow> xs p = [] \<or> (\<exists>n. xs p = replicate (Suc n) p)"
  shows "remdups (concat (map xs ps)) = filter (\<lambda>p. xs p \<noteq> []) ps"
  using assms
proof (induction ps)
  case (Cons p ps)
  have other: "set (xs q) \<subseteq> {q}" if "q \<in> set ps" for q using Cons.prems(2) [of q] that by auto
  have apart: "p \<notin> set (concat (map xs ps))" using Cons.prems(1) other by fastforce
  have copies: "remdups (replicate (Suc n) p @ ys) = p # remdups ys" if "p \<notin> set ys" for n ys
    using that by (induction n) auto
  have IH: "remdups (concat (map xs ps)) = filter (\<lambda>p. xs p \<noteq> []) ps" using Cons by simp
  from Cons.prems(2) [of p] consider "xs p = []" | n where "xs p = replicate (Suc n) p" by auto
  then show ?case
  proof cases
    case 2
    with copies [OF apart, of n] IH show ?thesis by (simp del: replicate.simps)
  qed (use IH in simp)
qed simp

definition sees :: "Id \<Rightarrow> database \<Rightarrow> project_row \<Rightarrow> bool" where
  "sees user_id d p \<longleftrightarrow> prr_active p \<and> (prr_public p \<or>
     (\<exists>m \<in> set (tb_rows (db_members d)). mbr_project_id m = Some (prr_id p) \<and> mbr_user_id m = user_id))"

lemma visible_projects_distinct:
  assumes "distinct (tb_rows (db_projects d))"
  shows "remdups (visible_projects user_id d) = filter (sees user_id d) (tb_rows (db_projects d))"
proof -
  let ?ms = "\<lambda>p. filter (\<lambda>m. mbr_project_id m = Some (prr_id p) \<and> mbr_user_id m = user_id) (tb_rows (db_members d))"
  let ?xs = "\<lambda>p. map fst (filter (\<lambda>(p, m). prr_active p \<and> (prr_public p \<or> m \<noteq> None))
     (case ?ms p of [] \<Rightarrow> [(p, None)] | m # ms \<Rightarrow> map (\<lambda>m. (p, Some m)) (m # ms)))"
  have "visible_projects user_id d = concat (map ?xs (tb_rows (db_projects d)))"
    unfolding visible_projects_def projects_with_members_def by (simp add: filter_concat map_concat comp_def)
  moreover have "?xs p = [] \<or> (\<exists>n. ?xs p = replicate (Suc n) p)" "?xs p \<noteq> [] \<longleftrightarrow> sees user_id d p" for p
  proof -
    have all: "map fst (filter (\<lambda>(p, m). prr_active p \<and> (prr_public p \<or> m \<noteq> None)) (map (\<lambda>m. (p, Some m)) ms)) =
        (if prr_active p then replicate (length ms) p else [])" for ms :: "member_row list"
      by (induction ms) auto
    show "?xs p = [] \<or> (\<exists>n. ?xs p = replicate (Suc n) p)" "?xs p \<noteq> [] \<longleftrightarrow> sees user_id d p"
      by (cases "?ms p"; simp only: list.case all; auto simp: sees_def filter_empty_conv filter_eq_Cons_iff)+
  qed
  ultimately show ?thesis using remdups_copies [OF assms, of ?xs] by simp
qed

lemma visible_projects_count:
  assumes "distinct (map prr_id (tb_rows (db_projects d)))"
  shows "length (remdups (map prr_id (visible_projects user_id d))) = length (filter (sees user_id d) (tb_rows (db_projects d)))"
proof -
  let ?ps = "filter (sees user_id d) (tb_rows (db_projects d))"
  from assms have "distinct (tb_rows (db_projects d))" by (simp add: distinct_map)
  from visible_projects_distinct [OF this, of user_id] have "set (visible_projects user_id d) = set ?ps"
    by (metis set_remdups)
  then have "length (remdups (map prr_id (visible_projects user_id d))) = card (set (map prr_id ?ps))"
    by (simp only: length_remdups_card_conv set_map)
  also have "\<dots> = length (map prr_id ?ps)" by (rule distinct_card) (simp add: assms distinct_map_filter)
  finally show ?thesis by simp
qed

text \<open>
  C16. Visible projects.  The list of the projects a user sees holds the active projects that are public or
  that the user is a member of, each once however many memberships there are, in pages of the order of the tree; the
  total counts exactly these.
\<close>

theorem visible_projects_correct:
  assumes "quiet env" "table_ok prr_id (db_projects d)" "0 \<le> sint (pg_limit pg)" "0 \<le> sint (pg_offset pg)"
  shows "project_find_visible_to_user user_id pg env (k, d) =
    (Ok (paginated_result_new
       (take (nat (sint (pg_limit pg))) (drop (nat (sint (pg_offset pg)))
         (projects_by_lft (filter (sees user_id d) (tb_rows (db_projects d))))))
       (word_of_nat (length (filter (sees user_id d) (tb_rows (db_projects d))))) pg), k + 2, d)"
proof -
  from assms(2) have d: "distinct (map prr_id (tb_rows (db_projects d)))" "distinct (tb_rows (db_projects d))"
    by (simp_all add: table_ok_def distinct_map)
  from assms(1,3,4) show ?thesis
    unfolding project_find_visible_to_user_def fetch_all_def sql_select_page_def
    by (simp add: run_simps visible_projects_distinct [OF d(2)] visible_projects_count [OF d(1)] not_less)
qed

definition project_one :: create_project_row_dto where
  "project_one = \<lparr>cpd_name = ''One'', cpd_description = None, cpd_identifier = ''one'', cpd_public = False,
     cpd_parent_id = None, cpd_active = True\<rparr>"

text \<open>Two memberships of user 4 in project 1, and a project 2 that the user does not see.\<close>

definition joined_twice :: database where
  "joined_twice = empty_database\<lparr>
     db_projects := \<lparr>tb_rows = [new_project_row project_one 1 2 0 1, new_project_row project_one 3 4 0 2], tb_seq = 3\<rparr>,
     db_members := \<lparr>tb_rows = [
       \<lparr>mbr_id = 1, mbr_user_id = 4, mbr_project_id = Some 1, mbr_entity_type = None, mbr_entity_id = None, mbr_created_at = 0, mbr_updated_at = 0\<rparr>,
       \<lparr>mbr_id = 2, mbr_user_id = 4, mbr_project_id = Some 1, mbr_entity_type = Some ''WorkPackage'', mbr_entity_id = Some 3, mbr_created_at = 0, mbr_updated_at = 0\<rparr>],
       tb_seq = 3\<rparr>\<rparr>"

theorem visible_projects_correct_witness:
  "project_find_visible_to_user 4 \<lparr>pg_limit = 20, pg_offset = 0\<rparr> (alone 0) (0, joined_twice) =
     (Ok (paginated_result_new [new_project_row project_one 1 2 0 1] 1 \<lparr>pg_limit = 20, pg_offset = 0\<rparr>), 2, joined_twice)"
proof -
  have "table_ok prr_id (db_projects joined_twice)" by (simp add: joined_twice_def table_ok_def new_project_row_def)
  from visible_projects_correct [OF quiet_alone(1) this, where user_id = 4 and k = 0 and pg = "\<lparr>pg_limit = 20, pg_offset = 0\<rparr>"]
  show ?thesis
    by (simp add: joined_twice_def sees_def new_project_row_def project_one_def projects_by_lft_def)
qed

subsection \<open>The nested intervals\<close>

text \<open>Every interval is as short as can be, and none ends beyond \<open>n\<close>.\<close>

definition flat_below :: "int \<Rightarrow> database \<Rightarrow> bool" where
  "flat_below n d \<longleftrightarrow> (\<forall>p \<in> set (tb_rows (db_projects d)).
     sint (prr_rgt p) = sint (prr_lft p) + 1 \<and> sint (prr_rgt p) \<le> n)"

lemma project_row_fields [simp]:
  "prr_id (new_project_row cdto l r now i) = i" "prr_lft (new_project_row cdto l r now i) = l" "prr_rgt (new_project_row cdto l r now i) = r"
  "prr_parent_id (new_project_row cdto l r now i) = cpd_parent_id cdto"
  "prr_id (updated_project_row dto now p) = prr_id p" "prr_lft (updated_project_row dto now p) = prr_lft p"
  "prr_rgt (updated_project_row dto now p) = prr_rgt p" "prr_parent_id (updated_project_row dto now p) = prr_parent_id p"
  by (simp_all add: new_project_row_def updated_project_row_def)

text \<open>
  A project with a later identity begins beyond the end of every earlier one, and the projects of \<open>d0\<close>
  that are still there have the interval they had.
\<close>

definition in_order :: "database \<Rightarrow> bool" where
  "in_order d \<longleftrightarrow> (\<forall>p \<in> set (tb_rows (db_projects d)). \<forall>q \<in> set (tb_rows (db_projects d)).
     sint (prr_id p) < sint (prr_id q) \<longrightarrow> sint (prr_rgt p) < sint (prr_lft q))"

definition unmoved :: "database \<Rightarrow> database \<Rightarrow> bool" where
  "unmoved d0 d \<longleftrightarrow> (\<forall>p \<in> set (tb_rows (db_projects d0)). \<forall>q \<in> set (tb_rows (db_projects d)).
     prr_id q = prr_id p \<longrightarrow> prr_lft q = prr_lft p \<and> prr_rgt q = prr_rgt p)"

definition laid_out :: "database \<Rightarrow> int \<Rightarrow> database \<Rightarrow> bool" where
  "laid_out d0 n d \<longleftrightarrow> flat_below n d \<and> in_order d \<and> unmoved d0 d \<and>
     seq_ahead prr_id (db_projects d) \<and> tb_seq (db_projects d0) \<le> tb_seq (db_projects d)"

lemma laid_out_map:
  assumes "laid_out d0 n d" "\<And>p. prr_id (g p) = prr_id p" "\<And>p. prr_lft (g p) = prr_lft p" "\<And>p. prr_rgt (g p) = prr_rgt p"
  shows "laid_out d0 n (db_projects_update (tb_rows_update (map g)) d)"
  using assms unfolding laid_out_def flat_below_def in_order_def unmoved_def seq_ahead_def table_ok_def
  by (auto simp: comp_def)

lemma laid_out_filter: "laid_out d0 n d \<Longrightarrow> laid_out d0 n (db_projects_update (tb_rows_update (filter g)) d)"
  unfolding laid_out_def flat_below_def in_order_def unmoved_def by (auto simp: seq_ahead_simps)

lemma laid_out_seq: "laid_out d0 n d \<Longrightarrow> laid_out d0 n (db_projects_update (tb_seq_update Suc) d)"
  unfolding laid_out_def flat_below_def in_order_def unmoved_def by (auto simp: seq_ahead_simps)

lemma laid_out_mono: "laid_out d0 n d \<Longrightarrow> n \<le> m \<Longrightarrow> laid_out d0 m d"
  by (fastforce simp: laid_out_def flat_below_def)

lemma laid_out_append:
  assumes d: "laid_out d0 n d" and d0: "seq_ahead prr_id (db_projects d0)"
    and i: "tb_seq (db_projects d) < 2 ^ 63" "i = word_of_nat (tb_seq (db_projects d))" "prr_id r = i"
    and r: "sint (prr_rgt r) = sint (prr_lft r) + 1" "sint (prr_rgt r) \<le> n"
      "\<And>p. p \<in> set (tb_rows (db_projects d)) \<Longrightarrow> sint (prr_rgt p) < sint (prr_lft r)"
  shows "laid_out d0 n (db_projects_update (\<lambda>t. t\<lparr>tb_rows := tb_rows t @ [r], tb_seq := Suc (tb_seq t)\<rparr>) d)"
proof -
  have next_id: "sint (prr_id r) = int (tb_seq (db_projects d))"
    unfolding i(2,3) by (rule sint_of_nat_i64 [OF i(1)])
  have below: "sint (prr_id p) < sint (prr_id r)" if "p \<in> set (tb_rows (db_projects d))" for p
    using d that unfolding next_id by (simp add: laid_out_def seq_ahead_def)
  have apart: "prr_id p \<noteq> prr_id r" if "p \<in> set (tb_rows (db_projects d0))" for p
    using d d0 that next_id by (force simp: laid_out_def seq_ahead_def)
  have "seq_ahead prr_id ((db_projects d)\<lparr>tb_rows := tb_rows (db_projects d) @ [r], tb_seq := Suc (tb_seq (db_projects d))\<rparr>)"
    by (rule seq_ahead_append [where i = i]) (use d i in \<open>simp_all add: laid_out_def\<close>)
  moreover have "flat_below n (db_projects_update (\<lambda>t. t\<lparr>tb_rows := tb_rows t @ [r], tb_seq := Suc (tb_seq t)\<rparr>) d)"
    using d r(1,2) by (auto simp: laid_out_def flat_below_def)
  moreover have "in_order (db_projects_update (\<lambda>t. t\<lparr>tb_rows := tb_rows t @ [r], tb_seq := Suc (tb_seq t)\<rparr>) d)"
    unfolding in_order_def
  proof (intro ballI impI)
    fix p q
    assume "p \<in> set (tb_rows (db_projects (db_projects_update (\<lambda>t. t\<lparr>tb_rows := tb_rows t @ [r], tb_seq := Suc (tb_seq t)\<rparr>) d)))"
      "q \<in> set (tb_rows (db_projects (db_projects_update (\<lambda>t. t\<lparr>tb_rows := tb_rows t @ [r], tb_seq := Suc (tb_seq t)\<rparr>) d)))"
    then have pq: "p = r \<or> p \<in> set (tb_rows (db_projects d))" "q = r \<or> q \<in> set (tb_rows (db_projects d))" by auto
    assume less: "sint (prr_id p) < sint (prr_id q)"
    then have "p \<in> set (tb_rows (db_projects d))" using pq below by (metis less_asym)
    with pq(2) less d r(3) show "sint (prr_rgt p) < sint (prr_lft q)" unfolding laid_out_def in_order_def by metis
  qed
  moreover have "unmoved d0 (db_projects_update (\<lambda>t. t\<lparr>tb_rows := tb_rows t @ [r], tb_seq := Suc (tb_seq t)\<rparr>) d)"
    using d apart unfolding laid_out_def unmoved_def by simp metis
  ultimately show ?thesis using d by (simp add: laid_out_def)
qed

lemma max_i32_le:
  assumes "\<And>x. x \<in> set xs \<Longrightarrow> sint x \<le> n" "0 \<le> n" "max_i32 xs = v"
  shows "sint (case v of None \<Rightarrow> 0 | Some x \<Rightarrow> x) \<le> n"
proof (cases "xs = []")
  case False
  then have "Max (sint ` set xs) \<in> sint ` set xs" by (intro Max_in) auto
  then obtain x where x: "x \<in> set xs" "Max (sint ` set xs) = sint x" by auto
  with False assms(1) [OF x(1)] show ?thesis by (auto simp: max_i32_def assms(3) [symmetric])
qed (use assms in \<open>simp add: max_i32_def\<close>)

lemma max_i32_ge:
  assumes "x \<in> set xs" shows "sint x \<le> sint (case max_i32 xs of None \<Rightarrow> 0 | Some y \<Rightarrow> y)"
proof -
  from assms have "Max (sint ` set xs) \<in> sint ` set xs" by (intro Max_in) auto
  then obtain y :: i32 where y: "Max (sint ` set xs) = sint y" by auto
  have "sint x \<le> Max (sint ` set xs)" using assms by simp
  with assms y show ?thesis by (auto simp: max_i32_def)
qed

datatype project_request =
    CreateProject create_project_row_dto | UpdateProject Id update_project_row_dto | DeleteProject Id
  | ArchiveProject Id | UnarchiveProject Id

fun perform_project :: "project_request \<Rightarrow> (database, unit) dbop" where
  "perform_project (CreateProject dto) = and_then (project_create dto) (\<lambda>_. ret ())"
| "perform_project (UpdateProject i dto) = and_then (project_update i dto) (\<lambda>_. ret ())"
| "perform_project (DeleteProject i) = project_delete i"
| "perform_project (ArchiveProject i) = project_archive i"
| "perform_project (UnarchiveProject i) = project_unarchive i"

lemma project_create_laid_out:
  assumes "0 \<le> n" "n + 2 < 2 ^ 31" "seq_ahead prr_id (db_projects d0)"
  shows "triple fl (laid_out d0 n) (project_create dto) (\<lambda>r. laid_out d0 (n + 2)) (laid_out d0 (n + 2))"
  unfolding project_create_def Let_def
proof (rule triple_then, rule triple_value)
  show "laid_out d0 (n + 2) d" if "laid_out d0 n d" for d using laid_out_mono [OF that, of "n + 2"] by simp
  fix v :: "i32 option"
  let ?m = "case v of Some n \<Rightarrow> n | None \<Rightarrow> 0"
  show "triple fl (\<lambda>d. laid_out d0 n d \<and> v = max_i32 (map prr_rgt (tb_rows (db_projects d))))
     (fetch_one (sql_insert prr_id db_projects db_projects_update (new_project_row dto (?m + 1) (?m + 2))))
     (\<lambda>r. laid_out d0 (n + 2)) (laid_out d0 (n + 2))"
  proof (rule triple_insert, goal_cases)
    case (1 d)
    then show ?case using laid_out_mono [of d0 n d "n + 2"] by simp
  next
    case (2 d)
    then show ?case using laid_out_seq [OF laid_out_mono [of d0 n d "n + 2"]] by simp
  next
    case (3 d now i)
    then have inv: "laid_out d0 n d" and v: "max_i32 (map prr_rgt (tb_rows (db_projects d))) = v" by simp_all
    have top: "sint ?m \<le> n"
      by (rule max_i32_le [OF _ assms(1) v]) (use inv in \<open>auto simp: laid_out_def flat_below_def\<close>)
    then have one: "sint (?m + 1) = sint ?m + 1" using assms(2) by (simp add: sint_inc_i32)
    moreover have "sint ((?m + 1) + 1) = sint ?m + 2" using sint_inc_i32 [of "?m + 1"] one top assms(2) by simp
    moreover have "?m + 2 = (?m + 1) + 1" by simp
    ultimately have two: "sint (?m + 2) = sint (?m + 1) + 1" "sint (?m + 2) \<le> n + 2"
      using top by (simp_all add: add.commute)
    have "sint (prr_rgt p) < sint (?m + 1)" if "p \<in> set (tb_rows (db_projects d))" for p
      using max_i32_ge [of "prr_rgt p" "map prr_rgt (tb_rows (db_projects d))"] that unfolding v one by simp
    with two 3 show ?case
      by (intro laid_out_append [where i = i]) (simp_all add: laid_out_mono [OF inv] assms(3))
  qed
qed

lemma laid_out_rest:
  "triple fl (laid_out d0 n) (project_update i dto) (\<lambda>r. laid_out d0 n) (laid_out d0 n)"
  "triple fl (laid_out d0 n) (project_delete i) (\<lambda>r. laid_out d0 n) (laid_out d0 n)"
  "triple fl (laid_out d0 n) (project_archive i) (\<lambda>r. laid_out d0 n) (laid_out d0 n)"
  "triple fl (laid_out d0 n) (project_unarchive i) (\<lambda>r. laid_out d0 n) (laid_out d0 n)"
proof -
  show "triple fl (laid_out d0 n) (project_update i dto) (\<lambda>r. laid_out d0 n) (laid_out d0 n)"
    unfolding project_update_def
    by (rule triple_or_fail, rule triple_update, assumption) (simp add: laid_out_map split: option.split)
  show "triple fl (laid_out d0 n) (project_delete i) (\<lambda>r. laid_out d0 n) (laid_out d0 n)"
    unfolding project_delete_def
    by (rule triple_then, rule row_exists_keep, assumption, rule triple_if, rule triple_fail, blast,
        rule triple_weaken, rule triple_or_fail_zero [where I = "laid_out d0 n"], rule triple_delete(1), assumption, rule laid_out_filter) auto
  show "triple fl (laid_out d0 n) (project_archive i) (\<lambda>r. laid_out d0 n) (laid_out d0 n)"
    "triple fl (laid_out d0 n) (project_unarchive i) (\<lambda>r. laid_out d0 n) (laid_out d0 n)"
    unfolding project_archive_def project_unarchive_def
    by (rule triple_update_all, assumption, rule laid_out_map; simp)+
qed

lemma perform_project_laid_out:
  assumes "0 \<le> n" "n + 2 < 2 ^ 31" "seq_ahead prr_id (db_projects d0)"
  shows "triple fl (laid_out d0 n) (perform_project q) (\<lambda>r. laid_out d0 (n + 2)) (laid_out d0 (n + 2))"
proof -
  have more: "triple fl (laid_out d0 n) m (\<lambda>r. laid_out d0 (n + 2)) (laid_out d0 (n + 2))"
    if "triple fl (laid_out d0 n) m (\<lambda>r. laid_out d0 n) (laid_out d0 n)" for m :: "(database, 'a) dbop"
    by (rule triple_weaken [OF that]) (auto intro: laid_out_mono)
  show ?thesis
    by (cases q) (auto intro: triple_unit project_create_laid_out [OF assms] more laid_out_rest)
qed

lemma flat_not_nested:
  assumes "flat_below n d" "p \<in> set (tb_rows (db_projects d))" "q \<in> set (tb_rows (db_projects d))"
  shows "\<not> (prr_lft p <s prr_lft q \<and> prr_rgt q <s prr_rgt p)" "sint (prr_rgt p - prr_lft p) = 1"
proof -
  from assms have p: "sint (prr_rgt p) = sint (prr_lft p) + 1" "sint (prr_rgt q) = sint (prr_lft q) + 1"
    by (auto simp: flat_below_def)
  then show "\<not> (prr_lft p <s prr_lft q \<and> prr_rgt q <s prr_rgt p)" by (simp add: word_sless_alt)
  have "sint (prr_lft p) < 2 ^ 31 - 1" using p(1) sint_range_i32(2) [of "prr_rgt p"] by simp
  then have "sint (prr_rgt p) = sint (prr_lft p + 1)" using p(1) by (simp add: sint_inc_i32)
  then have "prr_rgt p = prr_lft p + 1" by (simp only: signed_word_eqI)
  then show "sint (prr_rgt p - prr_lft p) = 1" by simp
qed

text \<open>
  C15. The tree of projects.  Every project is stored after all others with the shortest interval, wherever
  its parent is: its interval begins beyond the ends of all projects with a smaller identity, and ends one
  further.  Nothing ever moves it: a project that was there before has the interval it had.  Both hold
  through every sequence of creations, updates, deletions, archivings and unarchivings, even if statements fail, when they
  hold before, as long as there is room for two numbers per request and the sequence of the identities is ahead of the rows.
  So the ancestors and descendants of every stored project are found to be none, and no project has children
  by its interval.
\<close>

theorem nested_sets_stay_flat:
  assumes "calm True env" "flat_below n d" "in_order d" "seq_ahead prr_id (db_projects d)"
    and "0 \<le> n" "n + 2 * int (length reqs) < 2 ^ 31"
    and "history perform_project reqs env (k, d) = (k', d')"
  shows "flat_below (n + 2 * int (length reqs)) d' \<and> in_order d' \<and> unmoved d d' \<and>
    (\<forall>p \<in> set (tb_rows (db_projects d')). \<not> project_row_has_children p \<and>
      (\<forall>env2 j. quiet env2 \<longrightarrow> project_find_descendants p env2 (j, d') = (Ok [], Suc j, d') \<and>
        project_find_ancestors p env2 (j, d') = (Ok [], Suc j, d')))"
proof -
  have step: "triple True (laid_out d (n + 2 * int m)) (perform_project q) (\<lambda>u. laid_out d (n + 2 * int (Suc m))) (laid_out d (n + 2 * int (Suc m)))"
    if "m < length reqs" for m q
    using perform_project_laid_out [of "n + 2 * int m" d True q] assms(4-6) that by (simp add: algebra_simps)
  have "unmoved d d" using assms(4) by (auto simp: unmoved_def seq_ahead_def table_ok_def distinct_map inj_on_def)
  then have inv: "laid_out d (n + 2 * int (length reqs)) d'"
    using history_counted [where perform = perform_project and I = "\<lambda>m. laid_out d (n + 2 * int m)" and n = 0 and qs = reqs and N = "length reqs" and k = k and d = d,
        OF assms(1) step] assms(2-4,7) by (simp add: laid_out_def)
  then have flat: "flat_below (n + 2 * int (length reqs)) d'" by (simp add: laid_out_def)
  have "projects_by_lft (filter (\<lambda>q. prr_lft p <s prr_lft q \<and> prr_rgt q <s prr_rgt p) (tb_rows (db_projects d'))) = []"
    "projects_by_lft (filter (\<lambda>q. prr_lft q <s prr_lft p \<and> prr_rgt p <s prr_rgt q) (tb_rows (db_projects d'))) = []"
    if "p \<in> set (tb_rows (db_projects d'))" for p
    using flat_not_nested(1) [OF flat] that by (auto simp: projects_by_lft_def filter_empty_conv)
  with inv show ?thesis
    using flat_not_nested(2) [OF flat]
    by (auto simp: laid_out_def project_row_has_children_def project_find_descendants_def project_find_ancestors_def projects_where_def run_simps)
qed

definition project_two :: create_project_row_dto where
  "project_two = project_one\<lparr>cpd_name := ''Two'', cpd_identifier := ''two'', cpd_parent_id := Some 1\<rparr>"

theorem nested_sets_stay_flat_witness:
  "\<exists>k' d'. history perform_project [CreateProject project_one, CreateProject project_two] (alone 0) (0, empty_database) = (k', d') \<and>
     map prr_parent_id (tb_rows (db_projects d')) = [None, Some 1] \<and> in_order d' \<and>
     (\<forall>p \<in> set (tb_rows (db_projects d')). project_find_descendants p (alone 9) (0, d') = (Ok [], 1, d'))"
proof -
  let ?h = "history perform_project [CreateProject project_one, CreateProject project_two] (alone 0) (0, empty_database)"
  obtain k' d' where run: "?h = (k', d')" by (cases ?h)
  have "flat_below 0 empty_database" "in_order empty_database" "seq_ahead prr_id (db_projects empty_database)"
    by (simp_all add: flat_below_def in_order_def seq_ahead_def table_ok_def empty_database_def empty_table_def)
  from nested_sets_stay_flat [OF calm_envs(3) this _ _ run]
  have "in_order d'" "\<forall>p \<in> set (tb_rows (db_projects d')). project_find_descendants p (alone 9) (0, d') = (Ok [], 1, d')" by simp_all
  moreover have "map prr_parent_id (tb_rows (db_projects (snd ?h))) = [None, Some 1]"
    by (simp add: project_create_def run_simps max_i32_def empty_database_def empty_table_def Let_def project_one_def project_two_def)
  ultimately show ?thesis using run by auto
qed

subsection \<open>A repository\<close>

abbreviation projects_table :: "database \<Rightarrow> bool" where
  "projects_table d \<equiv> table_ok prr_id (db_projects d)"

lemma project_create_law:
  "triple False (projects.start_at d0) (project_create dto) (\<lambda>r. projects.created_row d0 r) (projects.refused_in d0)"
  unfolding project_create_def Let_def
  by (rule triple_then, rule value_keep, blast, rule projects.insert_keyed_law) simp

lemma project_update_law:
  "triple False (projects.start_at d0) (project_update i dto) (\<lambda>r. projects.updated_row d0 i r) (projects.refused_in d0)"
  unfolding project_update_def by (rule projects.update_keyed_law(1)) simp

lemma project_delete_law:
  "triple False (projects.start_at d0) (project_delete i) (\<lambda>_. projects.deleted_row d0 i) (projects.refused_in d0)"
  unfolding project_delete_def
  by (rule triple_then, rule row_exists_keep, blast, rule triple_if, rule triple_fail, blast,
      rule triple_weaken, rule projects.delete_counted_law) auto

interpretation project_repository: repository prr_id projects_table "\<lambda>d. row_of prr_id (db_projects d)"
    project_find_by_id project_exists project_create project_update project_delete
proof (unfold_locales, goal_cases)
  case (1 env d i k)
  then show ?case by (simp add: project_find_by_id_def projects.run_table)
next
  case (2 env d i k)
  then show ?case by (auto simp: project_exists_def projects.run_table row_of_None)
next
  case (3 env d c k x k' d')
  from projects.quietly(1) [OF 3 project_create_law] show ?case .
next
  case (4 env d i u k x k' d')
  from projects.quietly(2) [OF 4 project_update_law] show ?case .
next
  case (5 env d i k y k' d')
  from projects.deleted_quietly [OF 5 project_delete_law] show ?case .
qed

end
