(* ===== verification/Accounts.thy ===== *)
theory Accounts
  imports Schema Keys
begin

section \<open>Users and watchers in the database (op-db)\<close>

text \<open>
  \<open>op-db/src/users.rs\<close> and \<open>op-db/src/watchers.rs\<close>.  A watcher is a user who watches an entity; it names the user
  but nothing keeps the user from being deleted.
\<close>

subsection \<open>Users\<close>

definition status_REGISTERED :: i32 where "status_REGISTERED = 2"
definition status_ACTIVE :: i32 where "status_ACTIVE = 1"
definition status_LOCKED :: i32 where "status_LOCKED = 3"
definition status_INVITED :: i32 where "status_INVITED = 4"

definition user_row_is_active :: "user_row \<Rightarrow> bool" where "user_row_is_active u \<longleftrightarrow> ur_status u = 1"

definition user_row_is_locked :: "user_row \<Rightarrow> bool" where "user_row_is_locked u \<longleftrightarrow> ur_status u = 3"

definition user_row_full_name :: "user_row \<Rightarrow> string" where
  "user_row_full_name u = ur_firstname u @ '' '' @ ur_lastname u"

record create_user_row_dto =
  cud_login :: string
  cud_firstname :: string
  cud_lastname :: string
  cud_mail :: string
  cud_admin :: bool
  cud_status :: i32
  cud_language :: "string option"
  cud_hashed_password :: "string option"
  cud_salt :: "string option"

record update_user_row_dto =
  uud_login :: "string option"
  uud_firstname :: "string option"
  uud_lastname :: "string option"
  uud_mail :: "string option"
  uud_admin :: "bool option"
  uud_status :: "i32 option"
  uud_language :: "string option"
  uud_hashed_password :: "string option"
  uud_salt :: "string option"

text \<open>\<open>ORDER BY login ASC\<close>, in the order \<open>coll\<close> of the database's collation\<close>

definition users_by_login :: "(string \<Rightarrow> 'k::linorder) \<Rightarrow> user_row list \<Rightarrow> user_row list" where
  "users_by_login coll us = sort_key (\<lambda>u. coll (ur_login u)) us"

definition user_find_by_login :: "string \<Rightarrow> (database, user_row option) dbop" where
  "user_find_by_login login =
     fetch_optional (sql_select (\<lambda>d. filter (\<lambda>u. ur_login u = login) (tb_rows (db_users d))))"

definition user_find_by_email :: "string \<Rightarrow> (database, user_row option) dbop" where
  "user_find_by_email email =
     fetch_optional (sql_select (\<lambda>d. filter (\<lambda>u. ur_mail u = email) (tb_rows (db_users d))))"

definition user_find_active :: "(string \<Rightarrow> 'k::linorder) \<Rightarrow> pagination \<Rightarrow> (database, user_row paginated_result) dbop" where
  "user_find_active coll p = page_of p db_users (\<lambda>u. ur_status u = status_ACTIVE) (users_by_login coll)"

definition user_find_admins :: "(string \<Rightarrow> 'k::linorder) \<Rightarrow> (database, user_row list) dbop" where
  "user_find_admins coll = fetch_all (sql_select (\<lambda>d.
     users_by_login coll (filter (\<lambda>u. ur_admin u \<and> ur_status u = status_ACTIVE) (tb_rows (db_users d)))))"

definition user_update_last_login :: "Id \<Rightarrow> (database, unit) dbop" where
  "user_update_last_login i = execute (sql_update db_users db_users_update (\<lambda>u. ur_id u = i)
     (\<lambda>now u. u\<lparr>ur_last_login_on := Some now, ur_updated_at := now\<rparr>))"

definition user_update_password :: "Id \<Rightarrow> string \<Rightarrow> string \<Rightarrow> (database, unit) dbop" where
  "user_update_password i hashed_password salt = execute (sql_update db_users db_users_update (\<lambda>u. ur_id u = i)
     (\<lambda>now u. u\<lparr>ur_hashed_password := Some hashed_password, ur_salt := Some salt, ur_updated_at := now\<rparr>))"

definition user_lock :: "Id \<Rightarrow> (database, unit) dbop" where
  "user_lock i = execute (sql_update db_users db_users_update (\<lambda>u. ur_id u = i)
     (\<lambda>now u. u\<lparr>ur_status := status_LOCKED, ur_updated_at := now\<rparr>))"

definition user_unlock :: "Id \<Rightarrow> (database, unit) dbop" where
  "user_unlock i = execute (sql_update db_users db_users_update (\<lambda>u. ur_id u = i)
     (\<lambda>now u. u\<lparr>ur_status := status_ACTIVE, ur_updated_at := now\<rparr>))"

definition user_is_login_unique :: "string \<Rightarrow> Id option \<Rightarrow> (database, bool) dbop" where
  "user_is_login_unique login exclude_id =
     (case exclude_id of
        Some i \<Rightarrow> fetch_one (sql_value (\<lambda>d. \<not> (\<exists>u \<in> set (tb_rows (db_users d)). ur_login u = login \<and> ur_id u \<noteq> i)))
      | None \<Rightarrow> fetch_one (sql_value (\<lambda>d. \<not> (\<exists>u \<in> set (tb_rows (db_users d)). ur_login u = login))))"

definition user_is_email_unique :: "string \<Rightarrow> Id option \<Rightarrow> (database, bool) dbop" where
  "user_is_email_unique email exclude_id =
     (case exclude_id of
        Some i \<Rightarrow> fetch_one (sql_value (\<lambda>d. \<not> (\<exists>u \<in> set (tb_rows (db_users d)). ur_mail u = email \<and> ur_id u \<noteq> i)))
      | None \<Rightarrow> fetch_one (sql_value (\<lambda>d. \<not> (\<exists>u \<in> set (tb_rows (db_users d)). ur_mail u = email))))"

definition user_find_by_id :: "Id \<Rightarrow> (database, user_row option) dbop" where
  "user_find_by_id = find_row ur_id db_users"

definition user_find_all :: "(string \<Rightarrow> 'k::linorder) \<Rightarrow> i64 \<Rightarrow> i64 \<Rightarrow> (database, user_row list) dbop" where
  "user_find_all coll limit offset =
     fetch_all (sql_select_page limit offset (\<lambda>d. users_by_login coll (tb_rows (db_users d))))"

definition user_count :: "(database, i64) dbop" where "user_count = count_of db_users (\<lambda>_. True)"

definition new_user_row :: "create_user_row_dto \<Rightarrow> timestamp \<Rightarrow> Id \<Rightarrow> user_row" where
  "new_user_row dto now i =
     \<lparr>ur_id = i, ur_login = cud_login dto, ur_firstname = cud_firstname dto, ur_lastname = cud_lastname dto,
      ur_mail = cud_mail dto, ur_admin = cud_admin dto, ur_status = cud_status dto, ur_language = cud_language dto,
      ur_hashed_password = cud_hashed_password dto, ur_salt = cud_salt dto, ur_created_at = now, ur_updated_at = now,
      ur_last_login_on = None\<rparr>"

definition user_create :: "create_user_row_dto \<Rightarrow> (database, user_row) dbop" where
  "user_create dto = fetch_one (sql_insert ur_id db_users db_users_update (new_user_row dto))"

definition updated_user_row :: "update_user_row_dto \<Rightarrow> timestamp \<Rightarrow> user_row \<Rightarrow> user_row" where
  "updated_user_row dto now u = u\<lparr>
     ur_login := coalesce (uud_login dto) (ur_login u),
     ur_firstname := coalesce (uud_firstname dto) (ur_firstname u),
     ur_lastname := coalesce (uud_lastname dto) (ur_lastname u),
     ur_mail := coalesce (uud_mail dto) (ur_mail u),
     ur_admin := coalesce (uud_admin dto) (ur_admin u),
     ur_status := coalesce (uud_status dto) (ur_status u),
     ur_language := coalesce_opt (uud_language dto) (ur_language u),
     ur_hashed_password := coalesce_opt (uud_hashed_password dto) (ur_hashed_password u),
     ur_salt := coalesce_opt (uud_salt dto) (ur_salt u),
     ur_updated_at := now\<rparr>"

definition user_not_found :: "Id \<Rightarrow> repository_error" where
  "user_not_found i = RepoNotFound (''User with id '' @ show_i64 i @ '' not found'')"

definition user_update :: "Id \<Rightarrow> update_user_row_dto \<Rightarrow> (database, user_row) dbop" where
  "user_update i dto = or_fail (user_not_found i)
     (fetch_optional (sql_update db_users db_users_update (\<lambda>u. ur_id u = i) (updated_user_row dto)))"

definition user_delete :: "Id \<Rightarrow> (database, unit) dbop" where
  "user_delete i = or_fail_zero (user_not_found i)
     (rows_affected (sql_delete db_users db_users_update (\<lambda>u. ur_id u = i)))"

definition user_exists :: "Id \<Rightarrow> (database, bool) dbop" where
  "user_exists i = row_exists db_users (\<lambda>u. ur_id u = i)"

subsection \<open>Watchers\<close>

record watcher_with_user =
  wwu_watcher :: watcher_row
  wwu_user_login :: string
  wwu_user_firstname :: string
  wwu_user_lastname :: string
  wwu_user_mail :: "string option"

definition wwu_user_name :: "watcher_with_user \<Rightarrow> string" where
  "wwu_user_name w = wwu_user_firstname w @ '' '' @ wwu_user_lastname w"

record create_watcher_dto =
  cwa_watchable_type :: string
  cwa_watchable_id :: Id
  cwa_user_id :: Id

text \<open>The row of the join, and its conversion.\<close>

record watcher_with_user_row =
  wjr_id :: Id
  wjr_watchable_type :: string
  wjr_watchable_id :: Id
  wjr_user_id :: Id
  wjr_user_login :: string
  wjr_user_firstname :: string
  wjr_user_lastname :: string
  wjr_user_mail :: "string option"

definition watcher_with_user_from :: "watcher_with_user_row \<Rightarrow> watcher_with_user" where
  "watcher_with_user_from row =
     \<lparr>wwu_watcher = \<lparr>war_id = wjr_id row, war_watchable_type = wjr_watchable_type row,
        war_watchable_id = wjr_watchable_id row, war_user_id = wjr_user_id row\<rparr>,
      wwu_user_login = wjr_user_login row, wwu_user_firstname = wjr_user_firstname row,
      wwu_user_lastname = wjr_user_lastname row, wwu_user_mail = wjr_user_mail row\<rparr>"

definition newest_watchers :: "watcher_row list \<Rightarrow> watcher_row list" where
  "newest_watchers ws = sort_key (\<lambda>w. - sint (war_id w)) ws"

abbreviation watches_entity :: "string \<Rightarrow> Id \<Rightarrow> watcher_row \<Rightarrow> bool" where
  "watches_entity watchable_type watchable_id w \<equiv>
     war_watchable_type w = watchable_type \<and> war_watchable_id w = watchable_id"

definition joined_watchers :: "string \<Rightarrow> Id \<Rightarrow> database \<Rightarrow> watcher_with_user_row list" where
  "joined_watchers watchable_type watchable_id d = sort_key (\<lambda>r. - sint (wjr_id r)) (concat (map (\<lambda>w.
     map (\<lambda>u. \<lparr>wjr_id = war_id w, wjr_watchable_type = war_watchable_type w, wjr_watchable_id = war_watchable_id w,
         wjr_user_id = war_user_id w, wjr_user_login = ur_login u, wjr_user_firstname = ur_firstname u,
         wjr_user_lastname = ur_lastname u, wjr_user_mail = Some (ur_mail u)\<rparr>)
       (filter (\<lambda>u. ur_id u = war_user_id w) (tb_rows (db_users d))))
     (filter (watches_entity watchable_type watchable_id) (tb_rows (db_watchers d)))))"

definition watcher_find_by_watchable ::
    "string \<Rightarrow> Id \<Rightarrow> pagination \<Rightarrow> (database, watcher_with_user paginated_result) dbop" where
  "watcher_find_by_watchable watchable_type watchable_id p =
     and_then (fetch_all (sql_select_page (pg_limit p) (pg_offset p) (joined_watchers watchable_type watchable_id))) (\<lambda>rows.
     and_then (count_of db_watchers (watches_entity watchable_type watchable_id)) (\<lambda>total.
     ret (paginated_result_new (map watcher_with_user_from rows) total p)))"

definition watcher_find_by_work_package :: "Id \<Rightarrow> pagination \<Rightarrow> (database, watcher_with_user paginated_result) dbop" where
  "watcher_find_by_work_package work_package_id p = watcher_find_by_watchable ''WorkPackage'' work_package_id p"

definition watcher_find_by_user :: "Id \<Rightarrow> string option \<Rightarrow> (database, watcher_row list) dbop" where
  "watcher_find_by_user user_id watchable_type =
     (case watchable_type of
        Some wt \<Rightarrow> fetch_all (sql_select (\<lambda>d. newest_watchers
          (filter (\<lambda>w. war_user_id w = user_id \<and> war_watchable_type w = wt) (tb_rows (db_watchers d)))))
      | None \<Rightarrow> fetch_all (sql_select (\<lambda>d. newest_watchers
          (filter (\<lambda>w. war_user_id w = user_id) (tb_rows (db_watchers d))))))"

definition is_watching :: "Id \<Rightarrow> string \<Rightarrow> Id \<Rightarrow> (database, bool) dbop" where
  "is_watching user_id watchable_type watchable_id =
     counted db_watchers (\<lambda>w. war_user_id w = user_id \<and> watches_entity watchable_type watchable_id w)"

definition watcher_find_by_user_and_watchable :: "Id \<Rightarrow> string \<Rightarrow> Id \<Rightarrow> (database, watcher_row option) dbop" where
  "watcher_find_by_user_and_watchable user_id watchable_type watchable_id =
     fetch_optional (sql_select (\<lambda>d. filter (\<lambda>w. war_user_id w = user_id \<and> watches_entity watchable_type watchable_id w)
       (tb_rows (db_watchers d))))"

definition watcher_delete_by_user_and_watchable :: "Id \<Rightarrow> string \<Rightarrow> Id \<Rightarrow> (database, bool) dbop" where
  "watcher_delete_by_user_and_watchable user_id watchable_type watchable_id =
     and_then (rows_affected (sql_delete db_watchers db_watchers_update
       (\<lambda>w. war_user_id w = user_id \<and> watches_entity watchable_type watchable_id w))) (\<lambda>n. ret (0 < n))"

definition validate_user_can_watch :: "Id \<Rightarrow> (database, unit) dbop" where
  "validate_user_can_watch user_id =
     and_then (fetch_optional (sql_select (\<lambda>d. map ur_status (filter (\<lambda>u. ur_id u = user_id) (tb_rows (db_users d)))))) (\<lambda>user_status.
     case user_status of
       None \<Rightarrow> fail (RepoValidation (''User '' @ show_i64 user_id @ '' not found''))
     | Some status \<Rightarrow>
         if status = 3 \<or> status = 4 then fail (RepoValidation ''Locked or deleted users cannot watch entities'')
         else ret ())"

definition watcher_find_by_id :: "Id \<Rightarrow> (database, watcher_row option) dbop" where
  "watcher_find_by_id = find_row war_id db_watchers"

definition watcher_find_all :: "i64 \<Rightarrow> i64 \<Rightarrow> (database, watcher_row list) dbop" where
  "watcher_find_all limit offset =
     fetch_all (sql_select_page limit offset (\<lambda>d. newest_watchers (tb_rows (db_watchers d))))"

definition watcher_count :: "(database, i64) dbop" where "watcher_count = count_of db_watchers (\<lambda>_. True)"

definition watcher_exists :: "Id \<Rightarrow> (database, bool) dbop" where
  "watcher_exists i = counted db_watchers (\<lambda>w. war_id w = i)"

definition new_watcher :: "create_watcher_dto \<Rightarrow> timestamp \<Rightarrow> Id \<Rightarrow> watcher_row" where
  "new_watcher dto now i =
     \<lparr>war_id = i, war_watchable_type = cwa_watchable_type dto, war_watchable_id = cwa_watchable_id dto,
      war_user_id = cwa_user_id dto\<rparr>"

definition watcher_create :: "create_watcher_dto \<Rightarrow> (database, watcher_row) dbop" where
  "watcher_create dto =
     and_then (validate_user_can_watch (cwa_user_id dto)) (\<lambda>_.
     and_then (is_watching (cwa_user_id dto) (cwa_watchable_type dto) (cwa_watchable_id dto)) (\<lambda>watching.
     if watching then fail (RepoConflict ''User is already watching this entity'')
     else fetch_one (sql_insert war_id db_watchers db_watchers_update (new_watcher dto))))"

definition watcher_not_found :: "Id \<Rightarrow> repository_error" where
  "watcher_not_found i = RepoNotFound (''Watcher '' @ show_i64 i @ '' not found'')"

definition watcher_update :: "Id \<Rightarrow> unit \<Rightarrow> (database, watcher_row) dbop" where
  "watcher_update i dto = or_fail (watcher_not_found i) (watcher_find_by_id i)"

definition watcher_delete :: "Id \<Rightarrow> (database, unit) dbop" where
  "watcher_delete i =
     and_then (watcher_exists i) (\<lambda>found.
     if \<not> found then fail (watcher_not_found i)
     else execute (sql_delete db_watchers db_watchers_update (\<lambda>w. war_id w = i)))"

subsection \<open>Repositories\<close>

interpretation users: keyed_table ur_id "db_users :: database \<Rightarrow> _" db_users_update "\<lambda>_. ()"
  by unfold_locales simp

interpretation watchers: keyed_table war_id "db_watchers :: database \<Rightarrow> _" db_watchers_update
    "\<lambda>w. (war_watchable_type w, war_watchable_id w, war_user_id w)"
  by unfold_locales simp

abbreviation users_table :: "database \<Rightarrow> bool" where "users_table d \<equiv> table_ok ur_id (db_users d)"

abbreviation watchers_table :: "database \<Rightarrow> bool" where "watchers_table d \<equiv> table_ok war_id (db_watchers d)"

lemma account_fields [simp]:
  "ur_id (new_user_row cdto now i) = i" "ur_id (updated_user_row dto now u) = ur_id u"
  "war_id (new_watcher wdto now i) = i" "war_watchable_type (new_watcher wdto now i) = cwa_watchable_type wdto"
  "war_watchable_id (new_watcher wdto now i) = cwa_watchable_id wdto" "war_user_id (new_watcher wdto now i) = cwa_user_id wdto"
  by (simp_all add: new_user_row_def updated_user_row_def new_watcher_def)

interpretation user_repository: repository ur_id users_table "\<lambda>d. row_of ur_id (db_users d)"
    user_find_by_id user_exists user_create user_update user_delete
proof (unfold_locales, goal_cases)
  case (1 env d i k)
  then show ?case by (simp add: user_find_by_id_def users.run_table)
next
  case (2 env d i k)
  then show ?case by (auto simp: user_exists_def users.run_table row_of_None)
next
  case (3 env d c k x k' d')
  from users.insert_law [OF 3(1,2) _ 3(3) [unfolded user_create_def]] show ?case by simp
next
  case (4 env d i u k x k' d')
  have "triple False (users.start_at d) (user_update i u) (\<lambda>r. users.updated_row d i r) (users.refused_in d)"
    unfolding user_update_def by (rule users.update_keyed_law(1)) simp
  from users.quietly(2) [OF 4 this] show ?case .
next
  case (5 env d i k y k' d')
  from users.delete_or_fail_law [OF 5(1,2) 5(3) [unfolded user_delete_def]] show ?case by simp
qed

text \<open>Who may watch.\<close>

definition may_watch :: "Id \<Rightarrow> database \<Rightarrow> bool" where
  "may_watch user_id d \<longleftrightarrow> (\<exists>u. row_of ur_id (db_users d) user_id = Some u \<and> ur_status u \<noteq> status_LOCKED \<and> ur_status u \<noteq> status_INVITED)"

lemma may_watch_status:
  "Some s = map_option ur_status (List.find (\<lambda>u. ur_id u = user_id) (tb_rows (db_users d))) \<Longrightarrow> s \<noteq> 4 \<Longrightarrow> s \<noteq> 3 \<Longrightarrow> may_watch user_id d"
  by (cases "List.find (\<lambda>u. ur_id u = user_id) (tb_rows (db_users d))")
    (simp_all add: may_watch_def row_of_def status_LOCKED_def status_INVITED_def)

lemma can_watch_triple:
  "(\<And>d. P d \<Longrightarrow> E d) \<Longrightarrow>
   triple fl P (validate_user_can_watch user_id) (\<lambda>_ d. P d \<and> may_watch user_id d) E"
  unfolding validate_user_can_watch_def
proof (rule triple_then, rule triple_select(2), blast)
  fix v :: "i32 option" assume E: "\<And>d. P d \<Longrightarrow> E d"
  have status: "(case map ur_status (filter (\<lambda>u. ur_id u = user_id) xs) of [] \<Rightarrow> None | r # rs \<Rightarrow> Some r) =
      map_option ur_status (List.find (\<lambda>u. ur_id u = user_id) xs)" for xs by (induction xs) auto
  show "triple fl (\<lambda>d. P d \<and> v = (case map ur_status (filter (\<lambda>u. ur_id u = user_id) (tb_rows (db_users d))) of
          [] \<Rightarrow> None | r # rs \<Rightarrow> Some r))
     (case v of None \<Rightarrow> fail (RepoValidation (''User '' @ show_i64 user_id @ '' not found''))
      | Some status \<Rightarrow>
          if status = 3 \<or> status = 4 then fail (RepoValidation ''Locked or deleted users cannot watch entities'') else ret ())
     (\<lambda>_ d. P d \<and> may_watch user_id d) E"
    unfolding status
    by (auto intro!: triple_case_option triple_fail triple_if triple_ret may_watch_status simp: E)
qed

definition watching_free :: "create_watcher_dto \<Rightarrow> database \<Rightarrow> bool" where
  "watching_free dto d \<longleftrightarrow> key_is_free war_id db_watchers (\<lambda>w. (war_watchable_type w, war_watchable_id w, war_user_id w))
     (cwa_watchable_type dto, cwa_watchable_id dto, cwa_user_id dto) (\<lambda>_. True) d"

lemma watching_triple:
  assumes "\<And>d. P d \<Longrightarrow> E d" "\<And>d. P d \<Longrightarrow> watchers_table d"
  shows "triple fl P (is_watching (cwa_user_id dto) (cwa_watchable_type dto) (cwa_watchable_id dto))
    (\<lambda>b d. P d \<and> (\<not> b \<longrightarrow> watching_free dto d)) E"
  unfolding is_watching_def
  by (rule triple_post, rule triple_counted [where idf = war_id]) (use assms in \<open>auto simp: watching_free_def free_key_def\<close>)

abbreviation watchers_inv :: "database \<Rightarrow> bool" where
  "watchers_inv \<equiv> keyed_inv war_id db_watchers (\<lambda>w. (war_watchable_type w, war_watchable_id w, war_user_id w))"

lemma watcher_create_triple:
  assumes "\<And>d. P d \<Longrightarrow> watchers_table d" "\<And>d. P d \<Longrightarrow> E d"
    and "triple fl (\<lambda>d. P d \<and> may_watch (cwa_user_id dto) d \<and> watching_free dto d)
      (fetch_one (sql_insert war_id db_watchers db_watchers_update (new_watcher dto))) Q E"
  shows "triple fl P (watcher_create dto) Q E"
  unfolding watcher_create_def
  by (rule triple_then, rule can_watch_triple, rule assms(2), assumption, rule triple_then, rule watching_triple,
      rule assms(2), blast, rule assms(1), blast, rule triple_if, rule triple_fail, rule assms(2), blast, rule triple_weaken, rule assms(3))
    auto

lemma watcher_delete_triple:
  "triple fl watchers_inv (watcher_delete i) (\<lambda>_. watchers_inv) watchers_inv"
  "triple fl watchers_inv (watcher_delete_by_user_and_watchable u t j) (\<lambda>_. watchers_inv) watchers_inv"
proof -
  show "triple fl watchers_inv (watcher_delete i) (\<lambda>_. watchers_inv) watchers_inv"
    unfolding watcher_delete_def watcher_exists_def
    by (rule triple_then, rule counted_keep, assumption, rule triple_if, rule triple_fail, blast, rule triple_weaken,
        rule watchers.delete_keyed(2)) auto
  have inv: "watchers_inv (db_watchers_update (tb_rows_update (filter g)) d)" if "watchers_inv d" for g d
    using that by (auto simp: keyed_inv_def unique_by_filter table_ok_def distinct_map_filter)
  show "triple fl watchers_inv (watcher_delete_by_user_and_watchable u t j) (\<lambda>_. watchers_inv) watchers_inv"
    unfolding watcher_delete_by_user_and_watchable_def
    by (rule triple_then [where R = "\<lambda>_. watchers_inv"], rule triple_delete(1)) (auto intro: inv triple_ret)
qed

lemma watcher_create_keyed: "triple fl watchers_inv (watcher_create dto) (\<lambda>_. watchers_inv) watchers_inv"
  by (rule watcher_create_triple, simp add: keyed_inv_def, assumption, rule triple_weaken,
      rule watchers.insert_keyed [where mk = "new_watcher dto" and c = "(cwa_watchable_type dto, cwa_watchable_id dto, cwa_user_id dto)"])
    (auto simp: watching_free_def)

datatype watcher_request = CreateWatcher create_watcher_dto | DeleteWatcher Id | Unwatch Id string Id

fun perform_watcher :: "watcher_request \<Rightarrow> (database, unit) dbop" where
  "perform_watcher (CreateWatcher dto) = and_then (watcher_create dto) (\<lambda>_. ret ())"
| "perform_watcher (DeleteWatcher i) = watcher_delete i"
| "perform_watcher (Unwatch u t i) = and_then (watcher_delete_by_user_and_watchable u t i) (\<lambda>_. ret ())"

lemma perform_watcher_triple: "triple fl watchers_inv (perform_watcher q) (\<lambda>_. watchers_inv) watchers_inv"
  by (cases q) (auto intro: triple_unit watcher_create_keyed watcher_delete_triple)

lemma watcher_create_law:
  "triple False (watchers.start_at d0) (watcher_create dto) (\<lambda>r. watchers.created_row d0 r) (watchers.refused_in d0)"
  by (rule watcher_create_triple, simp, simp, rule triple_weaken, rule watchers.insert_keyed_law) auto

lemma watcher_delete_law:
  "triple False (watchers.start_at d0) (watcher_delete i) (\<lambda>_. watchers.deleted_row d0 i) (watchers.refused_in d0)"
  unfolding watcher_delete_def watcher_exists_def by (rule watchers.delete_present_law)

interpretation watcher_repository: repository war_id watchers_table "\<lambda>d. row_of war_id (db_watchers d)"
    watcher_find_by_id watcher_exists watcher_create watcher_update watcher_delete
proof (unfold_locales, goal_cases)
  case (1 env d i k)
  then show ?case by (simp add: watcher_find_by_id_def watchers.run_table)
next
  case (2 env d i k)
  then show ?case by (auto simp: watcher_exists_def watchers.run_table row_of_None)
next
  case (3 env d c k x k' d')
  from watchers.quietly(1) [OF 3 watcher_create_law] show ?case .
next
  case (4 env d i u k x k' d')
  then show ?case
    by (auto simp: watcher_update_def watcher_find_by_id_def or_fail_def run_simps watchers.run_table updated_in_def
        split: option.splits dest: row_of_id)
next
  case (5 env d i k y k' d')
  from watchers.deleted_quietly [OF 5 watcher_delete_law] show ?case .
qed

text \<open>
  C14. Watchers.  As long as requests come one after the other, nobody watches an entity twice, even if
  statements fail; and whoever comes to watch one is a user of the database who is neither locked nor invited, and did not
  watch it before.
\<close>

theorem watchers_consistent:
  assumes "calm True env" "watchers_inv d" "history perform_watcher reqs env (k, d) = (k', d')"
  shows "watchers_inv d' \<and>
    (\<forall>dto r k1 d1. watcher_create dto env (k', d') = (Ok r, k1, d1) \<longrightarrow>
      may_watch (cwa_user_id dto) d' \<and> watching_free dto d' \<and> tb_rows (db_watchers d1) = tb_rows (db_watchers d') @ [r])"
proof (intro conjI allI impI)
  have "watchers_inv (snd (history perform_watcher reqs env (k, d)))" by (rule history_calm [OF assms(1) perform_watcher_triple assms(2)])
  then show inv: "watchers_inv d'" using assms(3) by simp
  fix dto r k1 d1 assume run: "watcher_create dto env (k', d') = (Ok r, k1, d1)"
  let ?Q = "\<lambda>r d. may_watch (cwa_user_id dto) d' \<and> watching_free dto d' \<and> tb_rows (db_watchers d) = tb_rows (db_watchers d') @ [r]"
  have "triple True (\<lambda>d. d = d') (watcher_create dto) ?Q (\<lambda>_. True)"
    by (rule watcher_create_triple, use inv in \<open>simp add: keyed_inv_def\<close>, simp, rule triple_insert) auto
  from tripleD [OF this assms(1) _ run]
  show "may_watch (cwa_user_id dto) d'" "watching_free dto d'" "tb_rows (db_watchers d1) = tb_rows (db_watchers d') @ [r]" by simp_all
qed

definition sample_user :: create_user_row_dto where
  "sample_user = \<lparr>cud_login = ''ada'', cud_firstname = ''Ada'', cud_lastname = ''L'', cud_mail = ''ada@example.com'',
     cud_admin = False, cud_status = 1, cud_language = None, cud_hashed_password = None, cud_salt = None\<rparr>"

definition sample_watcher :: create_watcher_dto where
  "sample_watcher = \<lparr>cwa_watchable_type = ''WorkPackage'', cwa_watchable_id = 7, cwa_user_id = 1\<rparr>"

definition one_user :: database where
  "one_user = empty_database\<lparr>db_users := \<lparr>tb_rows = [new_user_row sample_user 0 1], tb_seq = 2\<rparr>\<rparr>"

theorem watchers_consistent_witness:
  "\<exists>k' d'. history perform_watcher [CreateWatcher sample_watcher, CreateWatcher sample_watcher] (alone 0) (0, one_user) = (k', d') \<and>
     watchers_inv d' \<and> db_watchers d' \<noteq> empty_table"
proof -
  let ?h = "history perform_watcher [CreateWatcher sample_watcher, CreateWatcher sample_watcher] (alone 0) (0, one_user)"
  obtain k' d' where run: "?h = (k', d')" by (cases ?h)
  have "watchers_inv one_user" by (simp add: one_user_def empty_database_def keyed_inv_def)
  from watchers_consistent [OF calm_envs(3) this run] have "watchers_inv d'" by blast
  moreover have "db_watchers (snd ?h) \<noteq> empty_table"
    by (simp add: watcher_create_def validate_user_can_watch_def is_watching_def counted_def run_simps one_user_def
        empty_database_def empty_table_def sample_watcher_def sample_user_def new_watcher_def new_user_row_def Let_def)
  ultimately show ?thesis using run by auto
qed

text \<open>The watchers of an entity with the names of their users.\<close>

definition watcher_of :: "watcher_row \<Rightarrow> user_row \<Rightarrow> watcher_with_user" where
  "watcher_of w u = \<lparr>wwu_watcher = w, wwu_user_login = ur_login u, wwu_user_firstname = ur_firstname u,
     wwu_user_lastname = ur_lastname u, wwu_user_mail = Some (ur_mail u)\<rparr>"

lemma joined_watchers_eq:
  assumes "users_table d"
  shows "map watcher_with_user_from (joined_watchers ty i d) =
    map (\<lambda>w. watcher_of w (the (row_of ur_id (db_users d) (war_user_id w))))
      (newest_watchers (filter (\<lambda>w. watches_entity ty i w \<and> row_of ur_id (db_users d) (war_user_id w) \<noteq> None) (tb_rows (db_watchers d))))"
proof -
  let ?user = "\<lambda>w :: watcher_row. row_of ur_id (db_users d) (war_user_id w)"
  let ?j = "\<lambda>(w :: watcher_row) (u :: user_row). \<lparr>wjr_id = war_id w, wjr_watchable_type = war_watchable_type w, wjr_watchable_id = war_watchable_id w,
    wjr_user_id = war_user_id w, wjr_user_login = ur_login u, wjr_user_firstname = ur_firstname u,
    wjr_user_lastname = ur_lastname u, wjr_user_mail = Some (ur_mail u)\<rparr>"
  have dist: "distinct (map ur_id (tb_rows (db_users d)))" using assms by (simp add: table_ok_def)
  have found: "filter (\<lambda>u. ur_id u = war_user_id w) (tb_rows (db_users d)) = (case ?user w of None \<Rightarrow> [] | Some u \<Rightarrow> [u])" for w :: watcher_row
  proof (cases "?user w")
    case None
    then have "\<forall>u \<in> set (tb_rows (db_users d)). ur_id u \<noteq> war_user_id w" by (auto simp: row_of_None image_iff)
    then have "filter (\<lambda>u. ur_id u = war_user_id w) (tb_rows (db_users d)) = []" by (simp add: filter_empty_conv)
    with None show ?thesis by simp
  next
    case (Some u)
    then have "u \<in> set (tb_rows (db_users d))" "ur_id u = war_user_id w" by (simp_all add: row_of_iff [OF assms])
    from filter_key_single [OF dist this] Some show ?thesis by simp
  qed
  have "concat (map (\<lambda>w. map (?j w) (filter (\<lambda>u. ur_id u = war_user_id w) (tb_rows (db_users d)))) ws) =
      map (\<lambda>w. ?j w (the (?user w))) (filter (\<lambda>w. ?user w \<noteq> None) ws)" for ws :: "watcher_row list"
    unfolding found by (induction ws) (auto split: option.split)
  then have "joined_watchers ty i d =
      map (\<lambda>w. ?j w (the (?user w))) (newest_watchers (filter (\<lambda>w. ?user w \<noteq> None) (filter (watches_entity ty i) (tb_rows (db_watchers d)))))"
    unfolding joined_watchers_def newest_watchers_def by (simp add: sort_key_map)
  then show ?thesis by (simp add: watcher_with_user_from_def watcher_of_def conj_commute comp_def)
qed

text \<open>
  Lists of watchers.  The list of the watchers of an entity holds those whose user exists, the newest
  first, with the names of the user; the total counts the others as well.  So after a user who
  watches something has been deleted, the total is larger than the number of entries on all pages.
\<close>

theorem watcher_list_correct:
  assumes "quiet env" "users_table d" "0 \<le> sint (pg_limit p)" "0 \<le> sint (pg_offset p)"
  shows "watcher_find_by_watchable ty i p env (k, d) =
    (Ok (paginated_result_new
       (take (nat (sint (pg_limit p))) (drop (nat (sint (pg_offset p)))
         (map (\<lambda>w. watcher_of w (the (row_of ur_id (db_users d) (war_user_id w))))
           (newest_watchers (filter (\<lambda>w. watches_entity ty i w \<and> row_of ur_id (db_users d) (war_user_id w) \<noteq> None)
             (tb_rows (db_watchers d)))))))
       (word_of_nat (length (filter (watches_entity ty i) (tb_rows (db_watchers d))))) p), k + 2, d)"
proof -
  have "watcher_find_by_watchable ty i p env (k, d) =
    (Ok (paginated_result_new
       (map watcher_with_user_from (take (nat (sint (pg_limit p))) (drop (nat (sint (pg_offset p))) (joined_watchers ty i d))))
       (word_of_nat (length (filter (watches_entity ty i) (tb_rows (db_watchers d))))) p), k + 2, d)"
    using assms(1,3,4) unfolding watcher_find_by_watchable_def fetch_all_def sql_select_page_def
    by (simp add: run_simps run_queries not_less)
  then show ?thesis unfolding take_map [symmetric] drop_map [symmetric] joined_watchers_eq [OF assms(2)] .
qed

definition watched_by_nobody :: database where
  "watched_by_nobody = empty_database\<lparr>db_watchers := \<lparr>tb_rows = [new_watcher sample_watcher 0 1], tb_seq = 2\<rparr>\<rparr>"

theorem watcher_list_correct_witness:
  "snd (snd (user_delete 1 (alone 0) (0, watched_by_nobody\<lparr>db_users := db_users one_user\<rparr>))) =
     watched_by_nobody\<lparr>db_users := \<lparr>tb_rows = [], tb_seq = 2\<rparr>\<rparr> \<and>
   watcher_find_by_watchable ''WorkPackage'' 7 \<lparr>pg_limit = 20, pg_offset = 0\<rparr> (alone 0) (0, watched_by_nobody) =
     (Ok (paginated_result_new [] 1 \<lparr>pg_limit = 20, pg_offset = 0\<rparr>), 2, watched_by_nobody)"
proof
  show "snd (snd (user_delete 1 (alone 0) (0, watched_by_nobody\<lparr>db_users := db_users one_user\<rparr>))) =
     watched_by_nobody\<lparr>db_users := \<lparr>tb_rows = [], tb_seq = 2\<rparr>\<rparr>"
    by (simp add: user_delete_def or_fail_zero_def run_simps one_user_def watched_by_nobody_def new_user_row_def)
  have "users_table watched_by_nobody" by (simp add: watched_by_nobody_def empty_database_def)
  from watcher_list_correct [OF quiet_alone(1) this, where ty = "''WorkPackage''" and i = 7 and k = 0 and p = "\<lparr>pg_limit = 20, pg_offset = 0\<rparr>"]
  show "watcher_find_by_watchable ''WorkPackage'' 7 \<lparr>pg_limit = 20, pg_offset = 0\<rparr> (alone 0) (0, watched_by_nobody) =
     (Ok (paginated_result_new [] 1 \<lparr>pg_limit = 20, pg_offset = 0\<rparr>), 2, watched_by_nobody)"
    by (simp add: watched_by_nobody_def newest_watchers_def new_watcher_def sample_watcher_def empty_database_def)
qed

end
