(* ===== verification/Time_Entries.thy ===== *)
theory Time_Entries
  imports Schema Keys
begin

section \<open>Time entries (op-db)\<close>

text \<open>
  \<open>op-db/src/time_entries.rs\<close>: the repository of logged hours.  What the calendar makes of a date (the
  text of its year and month, its week) and the sum of floating-point numbers are parameters.
\<close>

record calendar =
  cal_year_text :: "date \<Rightarrow> string"
  cal_month_text :: "date \<Rightarrow> string"
  cal_iso_week :: "date \<Rightarrow> u32"

record create_time_entry_dto =
  cte_project_id :: Id
  cte_user_id :: Id
  cte_work_package_id :: "Id option"
  cte_hours :: f64
  cte_comments :: "string option"
  cte_activity_id :: Id
  cte_spent_on :: date
  cte_logged_by_id :: "Id option"

record update_time_entry_dto =
  ute_work_package_id :: "Id option"
  ute_hours :: "f64 option"
  ute_comments :: "string option"
  ute_activity_id :: "Id option"
  ute_spent_on :: "date option"

text \<open>\<open>ORDER BY spent_on DESC, id DESC\<close>.\<close>

definition latest_entries :: "time_entry_row list \<Rightarrow> time_entry_row list" where
  "latest_entries = sort_key (\<lambda>t. - ter_spent_on t) \<circ> sort_key (\<lambda>t. - sint (ter_id t))"

definition time_find_by_project :: "Id \<Rightarrow> pagination \<Rightarrow> (database, time_entry_row paginated_result) dbop" where
  "time_find_by_project project_id pg = page_of pg db_time_entries (\<lambda>t. ter_project_id t = project_id) latest_entries"

definition time_find_by_user :: "Id \<Rightarrow> pagination \<Rightarrow> (database, time_entry_row paginated_result) dbop" where
  "time_find_by_user user_id pg = page_of pg db_time_entries (\<lambda>t. ter_user_id t = user_id) latest_entries"

definition time_find_by_work_package :: "Id \<Rightarrow> pagination \<Rightarrow> (database, time_entry_row paginated_result) dbop" where
  "time_find_by_work_package work_package_id pg =
     page_of pg db_time_entries (\<lambda>t. ter_work_package_id t = Some work_package_id) latest_entries"

definition spent_between :: "date \<Rightarrow> date \<Rightarrow> time_entry_row \<Rightarrow> bool" where
  "spent_between earliest latest t \<longleftrightarrow> earliest \<le> ter_spent_on t \<and> ter_spent_on t \<le> latest"

definition time_find_by_date_range :: "date \<Rightarrow> date \<Rightarrow> Id option \<Rightarrow> pagination \<Rightarrow> (database, time_entry_row paginated_result) dbop" where
  "time_find_by_date_range earliest latest user_id pg =
     (case user_id of
        Some uid \<Rightarrow> page_of pg db_time_entries (\<lambda>t. spent_between earliest latest t \<and> ter_user_id t = uid) latest_entries
      | None \<Rightarrow> page_of pg db_time_entries (spent_between earliest latest) latest_entries)"

definition total_hours :: "(f64 list \<Rightarrow> f64) \<Rightarrow> (time_entry_row \<Rightarrow> bool) \<Rightarrow> (database, f64) dbop" where
  "total_hours sum_of cond =
     and_then (fetch_one (sql_value (\<lambda>d. case filter cond (tb_rows (db_time_entries d)) of
         [] \<Rightarrow> None
       | ts \<Rightarrow> Some (sum_of (map ter_hours ts))))) (\<lambda>total.
     ret (case total of Some h \<Rightarrow> h | None \<Rightarrow> F64 0))"

definition total_hours_for_work_package :: "(f64 list \<Rightarrow> f64) \<Rightarrow> Id \<Rightarrow> (database, f64) dbop" where
  "total_hours_for_work_package sum_of work_package_id = total_hours sum_of (\<lambda>t. ter_work_package_id t = Some work_package_id)"

definition total_hours_for_project :: "(f64 list \<Rightarrow> f64) \<Rightarrow> Id \<Rightarrow> (database, f64) dbop" where
  "total_hours_for_project sum_of project_id = total_hours sum_of (\<lambda>t. ter_project_id t = project_id)"

definition total_hours_for_user :: "(f64 list \<Rightarrow> f64) \<Rightarrow> Id \<Rightarrow> date \<Rightarrow> date \<Rightarrow> (database, f64) dbop" where
  "total_hours_for_user sum_of user_id earliest latest =
     total_hours sum_of (\<lambda>t. ter_user_id t = user_id \<and> spent_between earliest latest t)"

definition time_find_by_id :: "Id \<Rightarrow> (database, time_entry_row option) dbop" where
  "time_find_by_id = find_row ter_id db_time_entries"

definition time_find_all :: "i64 \<Rightarrow> i64 \<Rightarrow> (database, time_entry_row list) dbop" where
  "time_find_all limit offset = fetch_all (sql_select_page limit offset (\<lambda>d. latest_entries (tb_rows (db_time_entries d))))"

definition time_count :: "(database, i64) dbop" where
  "time_count = count_of db_time_entries (\<lambda>_. True)"

definition number_or_zero :: "string \<Rightarrow> i32" where
  "number_or_zero s = (case parse_i32 s of Some n \<Rightarrow> n | None \<Rightarrow> 0)"

text \<open>The same computation is written twice, in \<open>create\<close> and in \<open>update\<close>.\<close>

definition created_calendar :: "calendar \<Rightarrow> date \<Rightarrow> i32 \<times> i32 \<times> i32" where
  "created_calendar c spent_on =
     (let tyear = number_or_zero (cal_year_text c spent_on);
          tmonth = number_or_zero (cal_month_text c spent_on);
          tweek = cal_iso_week c spent_on
      in (tyear, tmonth, tweek))"

definition updated_calendar :: "calendar \<Rightarrow> date option \<Rightarrow> i32 option \<times> i32 option \<times> i32 option" where
  "updated_calendar c changed =
     (case changed of
        Some spent_on \<Rightarrow>
          let y = number_or_zero (cal_year_text c spent_on);
              m = number_or_zero (cal_month_text c spent_on);
              w = cal_iso_week c spent_on
          in (Some y, Some m, Some w)
      | None \<Rightarrow> (None, None, None))"

definition new_time_entry :: "create_time_entry_dto \<Rightarrow> i32 \<times> i32 \<times> i32 \<Rightarrow> timestamp \<Rightarrow> Id \<Rightarrow> time_entry_row" where
  "new_time_entry dto = (\<lambda>(tyear, tmonth, tweek) now i.
     \<lparr>ter_id = i, ter_project_id = cte_project_id dto, ter_user_id = cte_user_id dto,
      ter_work_package_id = cte_work_package_id dto, ter_hours = cte_hours dto, ter_comments = cte_comments dto,
      ter_activity_id = cte_activity_id dto, ter_spent_on = cte_spent_on dto,
      ter_tyear = tyear, ter_tmonth = tmonth, ter_tweek = tweek, ter_created_at = now, ter_updated_at = now,
      ter_overridden_costs = None, ter_costs = None, ter_rate_id = None, ter_logged_by_id = cte_logged_by_id dto\<rparr>)"

definition time_create :: "calendar \<Rightarrow> create_time_entry_dto \<Rightarrow> (database, time_entry_row) dbop" where
  "time_create c dto =
     fetch_one (sql_insert ter_id db_time_entries db_time_entries_update (new_time_entry dto (created_calendar c (cte_spent_on dto))))"

definition updated_time_entry ::
  "update_time_entry_dto \<Rightarrow> i32 option \<times> i32 option \<times> i32 option \<Rightarrow> timestamp \<Rightarrow> time_entry_row \<Rightarrow> time_entry_row" where
  "updated_time_entry dto = (\<lambda>(tyear, tmonth, tweek) now t. t\<lparr>
     ter_work_package_id := coalesce_opt (ute_work_package_id dto) (ter_work_package_id t),
     ter_hours := coalesce (ute_hours dto) (ter_hours t),
     ter_comments := coalesce_opt (ute_comments dto) (ter_comments t),
     ter_activity_id := coalesce (ute_activity_id dto) (ter_activity_id t),
     ter_spent_on := coalesce (ute_spent_on dto) (ter_spent_on t),
     ter_tyear := coalesce tyear (ter_tyear t),
     ter_tmonth := coalesce tmonth (ter_tmonth t),
     ter_tweek := coalesce tweek (ter_tweek t),
     ter_updated_at := now\<rparr>)"

definition time_not_found :: "Id \<Rightarrow> repository_error" where
  "time_not_found i = RepoNotFound (''Time entry with id '' @ show_i64 i @ '' not found'')"

definition time_update :: "calendar \<Rightarrow> Id \<Rightarrow> update_time_entry_dto \<Rightarrow> (database, time_entry_row) dbop" where
  "time_update c i dto =
     or_fail (time_not_found i) (fetch_optional (sql_update db_time_entries db_time_entries_update
       (\<lambda>t. ter_id t = i) (updated_time_entry dto (updated_calendar c (ute_spent_on dto)))))"

definition time_delete :: "Id \<Rightarrow> (database, unit) dbop" where
  "time_delete i = or_fail_zero (time_not_found i)
     (rows_affected (sql_delete db_time_entries db_time_entries_update (\<lambda>t. ter_id t = i)))"

definition time_exists :: "Id \<Rightarrow> (database, bool) dbop" where
  "time_exists i = row_exists db_time_entries (\<lambda>t. ter_id t = i)"

interpretation time_entries: keyed_table ter_id "db_time_entries :: database \<Rightarrow> _" db_time_entries_update "\<lambda>_. ()"
  by unfold_locales simp

abbreviation time_table :: "database \<Rightarrow> bool" where
  "time_table d \<equiv> table_ok ter_id (db_time_entries d)"

lemma time_fields:
  "ter_id (new_time_entry dto w now i) = i" "ter_id (updated_time_entry u w' now t) = ter_id t"
  by (simp_all add: new_time_entry_def updated_time_entry_def split: prod.split)

interpretation time_repository: repository ter_id time_table "\<lambda>d. row_of ter_id (db_time_entries d)"
    time_find_by_id time_exists "time_create c" "time_update c" time_delete
proof (unfold_locales, goal_cases)
  case (1 env d i k)
  then show ?case by (simp add: time_find_by_id_def time_entries.run_table)
next
  case (2 env d i k)
  then show ?case by (auto simp: time_exists_def time_entries.run_table row_of_None)
next
  case (3 env d dto k x k' d')
  from time_entries.insert_law [OF 3(1,2) _ 3(3) [unfolded time_create_def]] show ?case by (simp add: time_fields)
next
  case (4 env d i u k x k' d')
  have "triple False (time_entries.start_at d) (time_update c i u) (\<lambda>r. time_entries.updated_row d i r) (time_entries.refused_in d)"
    unfolding time_update_def by (rule time_entries.update_keyed_law(1)) (simp add: time_fields)
  from time_entries.quietly(2) [OF 4 this] show ?case .
next
  case (5 env d i y k' d')
  from time_entries.delete_or_fail_law [OF 5(1,2) 5(3) [unfolded time_delete_def]] show ?case by simp
qed

subsection \<open>The calendar of an entry\<close>

text \<open>
  What the code relies on in the calendar: the texts of the year and of the month are their numbers, and the
  week is a number without a sign.  The functions of the calendar itself are independent of it.
\<close>

definition calendar_contract :: "calendar \<Rightarrow> (date \<Rightarrow> int) \<Rightarrow> (date \<Rightarrow> int) \<Rightarrow> (date \<Rightarrow> int) \<Rightarrow> bool" where
  "calendar_contract c year_of month_of week_of \<longleftrightarrow> (\<forall>day.
     map_option sint (parse_i32 (cal_year_text c day)) = Some (year_of day) \<and>
     map_option sint (parse_i32 (cal_month_text c day)) = Some (month_of day) \<and>
     uint (cal_iso_week c day) = week_of day \<and> week_of day \<le> 53)"

definition on_calendar :: "(date \<Rightarrow> int) \<Rightarrow> (date \<Rightarrow> int) \<Rightarrow> (date \<Rightarrow> int) \<Rightarrow> time_entry_row \<Rightarrow> bool" where
  "on_calendar year_of month_of week_of t \<longleftrightarrow>
     sint (ter_tyear t) = year_of (ter_spent_on t) \<and> sint (ter_tmonth t) = month_of (ter_spent_on t) \<and>
     sint (ter_tweek t) = week_of (ter_spent_on t)"

lemma contract_numbers:
  assumes "calendar_contract c year_of month_of week_of"
  shows "sint (number_or_zero (cal_year_text c day)) = year_of day"
    "sint (number_or_zero (cal_month_text c day)) = month_of day"
    "sint (cal_iso_week c day) = week_of day"
proof -
  from assms have day: "map_option sint (parse_i32 (cal_year_text c day)) = Some (year_of day)"
      "map_option sint (parse_i32 (cal_month_text c day)) = Some (month_of day)"
      "uint (cal_iso_week c day) = week_of day" "week_of day \<le> 53"
    by (simp_all add: calendar_contract_def)
  then show "sint (number_or_zero (cal_year_text c day)) = year_of day"
    "sint (number_or_zero (cal_month_text c day)) = month_of day" by (auto simp: number_or_zero_def)
  have "0 \<le> week_of day" using day(3) by (metis uint_nonnegative)
  with day(3,4) show "sint (cal_iso_week c day) = week_of day"
    using signed_take_bit_int_eq_self [of 31 "week_of day"] by (simp add: sint_uint)
qed

datatype time_request =
  CreateTime create_time_entry_dto | UpdateTime Id update_time_entry_dto | DeleteTime Id

fun perform_time :: "calendar \<Rightarrow> time_request \<Rightarrow> (database, unit) dbop" where
  "perform_time c (CreateTime dto) = and_then (time_create c dto) (\<lambda>_. ret ())"
| "perform_time c (UpdateTime i dto) = and_then (time_update c i dto) (\<lambda>_. ret ())"
| "perform_time c (DeleteTime i) = time_delete i"

abbreviation all_on_calendar :: "(date \<Rightarrow> int) \<Rightarrow> (date \<Rightarrow> int) \<Rightarrow> (date \<Rightarrow> int) \<Rightarrow> database \<Rightarrow> bool" where
  "all_on_calendar year_of month_of week_of d \<equiv> all_rows (on_calendar year_of month_of week_of) (db_time_entries d)"

lemma perform_time_holds:
  assumes "calendar_contract c year_of month_of week_of"
  shows "holds (all_on_calendar year_of month_of week_of) (perform_time c q) (\<lambda>_. True)"
proof (cases q)
  case (CreateTime dto)
  have "holds (all_on_calendar year_of month_of week_of) (time_create c dto) (on_calendar year_of month_of week_of)"
    unfolding time_create_def
    by (rule time_entries.holds_insert)
      (simp add: on_calendar_def new_time_entry_def created_calendar_def Let_def contract_numbers [OF assms])
  with CreateTime show ?thesis by (auto intro!: holds_intro holds_true)
next
  case (UpdateTime i dto)
  have "on_calendar year_of month_of week_of (updated_time_entry dto (updated_calendar c (ute_spent_on dto)) now t)"
    if "on_calendar year_of month_of week_of t" for now t
    using that by (auto simp: on_calendar_def updated_time_entry_def updated_calendar_def Let_def contract_numbers [OF assms] split: option.split)
  then have "holds (all_on_calendar year_of month_of week_of) (time_update c i dto) (on_calendar year_of month_of week_of)"
    unfolding time_update_def by (intro holds_or_fail time_entries.holds_update) auto
  with UpdateTime show ?thesis by (auto intro!: holds_intro holds_true)
next
  case (DeleteTime i)
  then show ?thesis
    by (auto simp: time_delete_def sql_delete_def all_rows_def intro!: holds_or_fail_zero holds_fetch(4) [where Q = "\<lambda>_. True"])
qed

text \<open>
  C31. Time entries fit the calendar.  Let the texts of the years and months of dates be their numbers and the weeks
  numbers up to 53, for any three functions that give the year, the month and the week of a day.  Whatever requests create,
  change and delete time entries, and whatever other sessions do that keep this, and whichever statements fail:
  the year, the month and the week stored with an entry are the year, the month and the week of the day on
  which the time was spent.
\<close>

theorem time_entries_fit_calendar:
  assumes "calendar_contract c year_of month_of week_of"
    and "well_behaved (all_on_calendar year_of month_of week_of) env" "all_on_calendar year_of month_of week_of d"
  shows "all_on_calendar year_of month_of week_of (snd (history (perform_time c) qs env (k, d)))"
  by (rule history_holds [OF assms(2) perform_time_holds [OF assms(1)] assms(3)])

text \<open>A calendar whose years have twelve months of 31 days, within the years of the library.\<close>

definition plain_year :: "date \<Rightarrow> int" where "plain_year day = max (- 262143) (min 262142 (day div 372))"
definition plain_month :: "date \<Rightarrow> int" where "plain_month day = day mod 372 div 31 + 1"
definition plain_week :: "date \<Rightarrow> int" where "plain_week day = min 53 (day mod 372 div 7 + 1)"

definition plain_calendar :: calendar where
  "plain_calendar = \<lparr>cal_year_text = show_int \<circ> plain_year, cal_month_text = show_int \<circ> plain_month,
     cal_iso_week = word_of_int \<circ> plain_week\<rparr>"

lemma plain_calendar_contract: "calendar_contract plain_calendar plain_year plain_month plain_week"
proof -
  have small: "map_option sint (parse_i32 (show_int n)) = Some n" if "- 300000 \<le> n" "n \<le> 300000" for n
  proof -
    have n: "sint (word_of_int n :: i32) = n" using that signed_take_bit_int_eq_self [of 31 n] by (simp add: sint_sbintrunc')
    from parse_show_i32 [of "word_of_int n"] show ?thesis by (simp add: n)
  qed
  have "map_option sint (parse_i32 (show_int (plain_year day))) = Some (plain_year day)" for day
    by (rule small) (simp_all add: plain_year_def)
  moreover have "map_option sint (parse_i32 (show_int (plain_month day))) = Some (plain_month day)" for day
  proof (rule small)
    have "0 \<le> day mod 372" "day mod 372 < 372" by simp_all
    then have "0 \<le> day mod 372 div 31" "day mod 372 div 31 \<le> 12" by linarith+
    then show "- 300000 \<le> plain_month day" "plain_month day \<le> 300000" by (simp_all add: plain_month_def)
  qed
  moreover have "uint (word_of_int (plain_week day) :: u32) = plain_week day \<and> plain_week day \<le> 53" for day
  proof -
    have "0 \<le> day mod 372 div 7" by simp
    then have "0 \<le> plain_week day" "plain_week day \<le> 53" by (simp_all add: plain_week_def)
    then show ?thesis by (simp add: uint_word_of_int)
  qed
  ultimately show ?thesis by (simp add: calendar_contract_def plain_calendar_def)
qed

definition sample_time_entry :: create_time_entry_dto where
  "sample_time_entry = \<lparr>cte_project_id = 1, cte_user_id = 1, cte_work_package_id = None, cte_hours = F64 0, cte_comments = None,
     cte_activity_id = 1, cte_spent_on = 372 * 2024, cte_logged_by_id = None\<rparr>"

definition moved_entry :: update_time_entry_dto where
  "moved_entry = \<lparr>ute_work_package_id = None, ute_hours = None, ute_comments = None, ute_activity_id = None,
     ute_spent_on = Some (372 * 2025)\<rparr>"

theorem time_entries_fit_calendar_witness:
  "\<exists>k' d'. history (perform_time plain_calendar) [CreateTime sample_time_entry, UpdateTime 1 moved_entry] (alone 0)
     (0, empty_database) = (k', d') \<and> map ter_spent_on (tb_rows (db_time_entries d')) = [372 * 2025] \<and>
     map (sint \<circ> ter_tyear) (tb_rows (db_time_entries d')) = [2025]"
proof -
  let ?h = "history (perform_time plain_calendar) [CreateTime sample_time_entry, UpdateTime 1 moved_entry] (alone 0) (0, empty_database)"
  obtain k' d' where run: "?h = (k', d')" by (cases ?h)
  have "all_on_calendar plain_year plain_month plain_week empty_database" by (simp add: empty_database_def)
  from time_entries_fit_calendar [OF plain_calendar_contract quiet_alone(2) this]
  have "all_on_calendar plain_year plain_month plain_week (snd ?h)" .
  moreover have spent: "map ter_spent_on (tb_rows (db_time_entries (snd ?h))) = [372 * 2025]"
    by (simp add: time_create_def time_update_def or_fail_def run_simps empty_database_def empty_table_def Let_def sample_time_entry_def
        moved_entry_def new_time_entry_def updated_time_entry_def created_calendar_def updated_calendar_def)
  ultimately have "map (sint \<circ> ter_tyear) (tb_rows (db_time_entries (snd ?h))) = [2025]"
    by (auto simp: all_rows_def on_calendar_def plain_year_def map_eq_Cons_conv)
  with spent run show ?thesis by auto
qed

end
