(* ===== verification/Archive.thy ===== *)
theory Archive
  imports Schema
begin

section \<open>Attachments, journals, saved queries and news (op-db)\<close>

text \<open>
  The rest of the schema (\<open>op-db/migrations/0001_init.sql\<close>): the tables of \<open>op-db/src/attachments.rs\<close>,
  \<open>journals.rs\<close>, \<open>queries.rs\<close> and \<open>news.rs\<close>, as further columns of the record of tables.  The type of
  JSON values is a parameter.
\<close>

record attachment_row =
  atr_id :: Id
  atr_container_id :: "Id option"
  atr_container_type :: "string option"
  atr_filename :: "string option"
  atr_disk_filename :: "string option"
  atr_filesize :: i64
  atr_content_type :: "string option"
  atr_digest :: "string option"
  atr_downloads :: i32
  atr_author_id :: Id
  atr_description :: "string option"
  atr_status :: i32
  atr_created_at :: timestamp
  atr_updated_at :: timestamp

record 'j journal_row =
  jor_id :: Id
  jor_journable_type :: string
  jor_journable_id :: Id
  jor_user_id :: Id
  jor_notes :: "string option"
  jor_version :: i32
  jor_data_type :: string
  jor_data_id :: Id
  jor_cause :: 'j
  jor_restricted :: bool
  jor_created_at :: timestamp
  jor_updated_at :: timestamp

record work_package_journal_row =
  wjo_id :: Id
  wjo_type_id :: Id
  wjo_project_id :: Id
  wjo_subject :: string
  wjo_description :: "string option"
  wjo_due_date :: "date option"
  wjo_category_id :: "Id option"
  wjo_status_id :: Id
  wjo_assigned_to_id :: "Id option"
  wjo_priority_id :: Id
  wjo_version_id :: "Id option"
  wjo_author_id :: Id
  wjo_done_ratio :: "i32 option"
  wjo_estimated_hours :: "f64 option"
  wjo_start_date :: "date option"
  wjo_parent_id :: "Id option"
  wjo_responsible_id :: "Id option"
  wjo_derived_estimated_hours :: "f64 option"
  wjo_schedule_manually :: "bool option"
  wjo_duration :: "i32 option"
  wjo_ignore_non_working_days :: bool
  wjo_derived_remaining_hours :: "f64 option"
  wjo_derived_done_ratio :: "i32 option"

record query_row =
  qur_id :: Id
  qur_project_id :: "Id option"
  qur_user_id :: Id
  qur_name :: string
  qur_filters :: "string option"
  qur_column_names :: "string option"
  qur_sort_criteria :: "string option"
  qur_group_by :: "string option"
  qur_display_sums :: bool
  qur_show_hierarchies :: bool
  qur_include_subprojects :: bool
  qur_timeline_visible :: bool
  qur_timestamps :: "string option"
  qur_created_at :: timestamp
  qur_updated_at :: timestamp

record query_menu_item_row =
  qmi_id :: Id
  qmi_navigatable_id :: "Id option"
  qmi_name :: "string option"
  qmi_title :: "string option"

record view_row =
  vir_id :: Id
  vir_query_id :: Id
  vir_type :: string

record news_row =
  nwr_id :: Id
  nwr_project_id :: "Id option"
  nwr_title :: string
  nwr_summary :: "string option"
  nwr_description :: "string option"
  nwr_author_id :: Id
  nwr_comments_count :: i32
  nwr_created_at :: timestamp
  nwr_updated_at :: timestamp

record 'j archive = database +
  db_attachments :: "attachment_row table"
  db_journals :: "'j journal_row table"
  db_work_package_journals :: "work_package_journal_row table"
  db_queries :: "query_row table"
  db_query_menu_items :: "query_menu_item_row table"
  db_views :: "view_row table"
  db_news :: "news_row table"

definition empty_archive :: "'j archive" where
  "empty_archive = database.extend empty_database
     (archive.fields empty_table empty_table empty_table empty_table empty_table empty_table empty_table)"

text \<open>\<open>ORDER BY created_at DESC\<close>: rows of the same moment keep their order.\<close>

abbreviation latest_created :: "('r \<Rightarrow> timestamp) \<Rightarrow> 'r list \<Rightarrow> 'r list" where
  "latest_created created \<equiv> sort_key (\<lambda>r. - created r)"

end
