(* ===== verification/Attachment_Rows.thy ===== *)
theory Attachment_Rows
  imports Archive Keys
begin

section \<open>Rows of attachments (op-db)\<close>

text \<open>
  \<open>op-db/src/attachments.rs\<close>: the statuses and the kinds of a stored attachment, and its repository.
\<close>

definition attachment_UPLOADED :: i32 where "attachment_UPLOADED = 0"
definition attachment_PREPARED :: i32 where "attachment_PREPARED = 1"
definition attachment_SCANNED :: i32 where "attachment_SCANNED = 2"
definition attachment_QUARANTINED :: i32 where "attachment_QUARANTINED = 3"
definition attachment_RESCAN :: i32 where "attachment_RESCAN = 4"

definition attachment_status_to_string :: "i32 \<Rightarrow> string" where
  "attachment_status_to_string s =
     (if s = attachment_UPLOADED then ''uploaded''
      else if s = attachment_PREPARED then ''prepared''
      else if s = attachment_SCANNED then ''scanned''
      else if s = attachment_QUARANTINED then ''quarantined''
      else if s = attachment_RESCAN then ''rescan''
      else ''unknown'')"

definition attachment_status_from_string :: "string \<Rightarrow> i32 option" where
  "attachment_status_from_string s =
     (if s = ''uploaded'' then Some attachment_UPLOADED
      else if s = ''prepared'' then Some attachment_PREPARED
      else if s = ''scanned'' then Some attachment_SCANNED
      else if s = ''quarantined'' then Some attachment_QUARANTINED
      else if s = ''rescan'' then Some attachment_RESCAN
      else None)"

definition atr_status_name :: "attachment_row \<Rightarrow> string" where
  "atr_status_name a = attachment_status_to_string (atr_status a)"

definition is_pending_direct_upload :: "attachment_row \<Rightarrow> bool" where
  "is_pending_direct_upload a \<longleftrightarrow> atr_digest a = Some [] \<and> atr_downloads a = -1"

definition atr_is_ready :: "attachment_row \<Rightarrow> bool" where
  "atr_is_ready a \<longleftrightarrow> atr_status a = attachment_UPLOADED \<or> atr_status a = attachment_SCANNED"

definition atr_is_quarantined :: "attachment_row \<Rightarrow> bool" where
  "atr_is_quarantined a \<longleftrightarrow> atr_status a = attachment_QUARANTINED"

definition atr_is_image :: "attachment_row \<Rightarrow> bool" where
  "atr_is_image a = (case atr_content_type a of Some ct \<Rightarrow> starts_with ct ''image/'' | None \<Rightarrow> False)"

definition atr_is_pdf :: "attachment_row \<Rightarrow> bool" where
  "atr_is_pdf a \<longleftrightarrow> atr_content_type a = Some ''application/pdf''"

text \<open>From the last full stop on.\<close>

definition from_last :: "char \<Rightarrow> string \<Rightarrow> string option" where
  "from_last c s = (if c \<in> set s then Some (c # rev (takeWhile (\<lambda>x. x \<noteq> c) (rev s))) else None)"

definition atr_extension :: "attachment_row \<Rightarrow> string option" where
  "atr_extension a = Option.bind (atr_filename a) (from_last CHR ''.'')"

record create_attachment_dto =
  cad_container_id :: "Id option"
  cad_container_type :: "string option"
  cad_filename :: string
  cad_disk_filename :: "string option"
  cad_filesize :: i64
  cad_content_type :: string
  cad_digest :: "string option"
  cad_author_id :: Id
  cad_description :: "string option"
  cad_status :: "i32 option"

record update_attachment_dto =
  uad_container_id :: "Id option option"
  uad_container_type :: "string option option"
  uad_description :: "string option option"
  uad_status :: "i32 option"

abbreviation newest_attachments :: "attachment_row list \<Rightarrow> attachment_row list" where
  "newest_attachments \<equiv> latest_created atr_created_at"

definition atr_find_by_container ::
    "string \<Rightarrow> Id \<Rightarrow> pagination \<Rightarrow> ('j archive, attachment_row paginated_result) dbop" where
  "atr_find_by_container container_type container_id p =
     page_of p db_attachments
       (\<lambda>a. atr_container_type a = Some container_type \<and> atr_container_id a = Some container_id) newest_attachments"

definition atr_find_by_work_package :: "Id \<Rightarrow> pagination \<Rightarrow> ('j archive, attachment_row paginated_result) dbop" where
  "atr_find_by_work_package work_package_id p = atr_find_by_container ''WorkPackage'' work_package_id p"

definition atr_find_by_project :: "Id \<Rightarrow> pagination \<Rightarrow> ('j archive, attachment_row paginated_result) dbop" where
  "atr_find_by_project project_id p = atr_find_by_container ''Project'' project_id p"

definition atr_find_by_author :: "Id \<Rightarrow> pagination \<Rightarrow> ('j archive, attachment_row paginated_result) dbop" where
  "atr_find_by_author author_id p = page_of p db_attachments (\<lambda>a. atr_author_id a = author_id) newest_attachments"

definition atr_find_pending_direct_uploads :: "('j archive, attachment_row list) dbop" where
  "atr_find_pending_direct_uploads = fetch_all (sql_select (\<lambda>d.
     newest_attachments (filter (\<lambda>a. atr_status a = attachment_PREPARED) (tb_rows (db_attachments d)))))"

definition atr_increment_downloads :: "Id \<Rightarrow> ('j archive, unit) dbop" where
  "atr_increment_downloads i =
     execute (sql_update_checked db_attachments db_attachments_update (\<lambda>a. atr_id a = i)
       (\<lambda>a. sint (atr_downloads a) + 1 < 2 ^ 31) (\<lambda>now a. a\<lparr>atr_downloads := atr_downloads a + 1\<rparr>))"

definition atr_find_orphaned :: "('j archive, attachment_row list) dbop" where
  "atr_find_orphaned = fetch_all (sql_select (\<lambda>d.
     newest_attachments (filter (\<lambda>a. atr_container_id a = None) (tb_rows (db_attachments d)))))"

definition atr_find_by_id :: "Id \<Rightarrow> ('j archive, attachment_row option) dbop" where
  "atr_find_by_id = find_row atr_id db_attachments"

definition atr_find_all :: "i64 \<Rightarrow> i64 \<Rightarrow> ('j archive, attachment_row list) dbop" where
  "atr_find_all limit offset =
     fetch_all (sql_select_page limit offset (\<lambda>d. newest_attachments (tb_rows (db_attachments d))))"

definition atr_count :: "('j archive, i64) dbop" where "atr_count = count_of db_attachments (\<lambda>_. True)"

definition atr_exists :: "Id \<Rightarrow> ('j archive, bool) dbop" where
  "atr_exists i = counted db_attachments (\<lambda>a. atr_id a = i)"

definition new_attachment_row :: "create_attachment_dto \<Rightarrow> timestamp \<Rightarrow> Id \<Rightarrow> attachment_row" where
  "new_attachment_row dto now i =
     \<lparr>atr_id = i, atr_container_id = cad_container_id dto, atr_container_type = cad_container_type dto,
      atr_filename = Some (cad_filename dto), atr_disk_filename = cad_disk_filename dto,
      atr_filesize = cad_filesize dto, atr_content_type = Some (cad_content_type dto), atr_digest = cad_digest dto,
      atr_downloads = 0, atr_author_id = cad_author_id dto, atr_description = cad_description dto,
      atr_status = (case cad_status dto of Some s \<Rightarrow> s | None \<Rightarrow> attachment_UPLOADED),
      atr_created_at = now, atr_updated_at = now\<rparr>"

definition atr_create :: "create_attachment_dto \<Rightarrow> ('j archive, attachment_row) dbop" where
  "atr_create dto =
     (if cad_filename dto = [] then fail (RepoValidation ''Filename can't be blank'')
      else if cad_content_type dto = [] then fail (RepoValidation ''Content type can't be blank'')
      else fetch_one (sql_insert atr_id db_attachments db_attachments_update (new_attachment_row dto)))"

definition atr_not_found :: "Id \<Rightarrow> repository_error" where
  "atr_not_found i = RepoNotFound (''Attachment '' @ show_i64 i @ '' not found'')"

text \<open>The columns that an update sets, from the row that was read before.\<close>

definition updated_attachment_row ::
    "update_attachment_dto \<Rightarrow> attachment_row \<Rightarrow> timestamp \<Rightarrow> attachment_row \<Rightarrow> attachment_row" where
  "updated_attachment_row dto existing now a = a\<lparr>
     atr_container_id := (case uad_container_id dto of Some cid \<Rightarrow> cid | None \<Rightarrow> atr_container_id existing),
     atr_container_type := (case uad_container_type dto of Some ct \<Rightarrow> ct | None \<Rightarrow> atr_container_type existing),
     atr_description := (case uad_description dto of Some x \<Rightarrow> x | None \<Rightarrow> atr_description existing),
     atr_status := (case uad_status dto of Some s \<Rightarrow> s | None \<Rightarrow> atr_status existing),
     atr_updated_at := now\<rparr>"

definition atr_update :: "Id \<Rightarrow> update_attachment_dto \<Rightarrow> ('j archive, attachment_row) dbop" where
  "atr_update i dto =
     and_then (or_fail (atr_not_found i) (atr_find_by_id i)) (\<lambda>existing.
     fetch_one (sql_update db_attachments db_attachments_update (\<lambda>a. atr_id a = i) (updated_attachment_row dto existing)))"

definition atr_delete :: "Id \<Rightarrow> ('j archive, unit) dbop" where
  "atr_delete i =
     and_then (atr_exists i) (\<lambda>found.
     if \<not> found then fail (atr_not_found i)
     else execute (sql_delete db_attachments db_attachments_update (\<lambda>a. atr_id a = i)))"

subsection \<open>The repository\<close>

interpretation attachment_rows: keyed_table atr_id "db_attachments :: 'j archive \<Rightarrow> _" db_attachments_update "\<lambda>_. ()"
  by unfold_locales simp

abbreviation attachment_table :: "'j archive \<Rightarrow> bool" where
  "attachment_table d \<equiv> table_ok atr_id (db_attachments d)"

lemma attachment_row_fields [simp]:
  "atr_id (new_attachment_row dto now i) = i" "atr_id (updated_attachment_row u e now a) = atr_id a"
  by (simp_all add: new_attachment_row_def updated_attachment_row_def)

interpretation attachment_repository: repository atr_id attachment_table "\<lambda>d. row_of atr_id (db_attachments d)"
    atr_find_by_id atr_exists atr_create atr_update atr_delete
proof (unfold_locales, goal_cases)
  case (1 env d i k)
  then show ?case by (simp add: atr_find_by_id_def attachment_rows.run_table)
next
  case (2 env d i k)
  then show ?case by (auto simp: atr_exists_def attachment_rows.run_table row_of_None)
next
  case (3 env d dto k x k' d')
  have "triple False (attachment_rows.start_at d) (atr_create dto) (\<lambda>r. attachment_rows.created_row d r) (attachment_rows.refused_in d)"
    unfolding atr_create_def
    by (rule triple_if, rule triple_fail, blast, rule triple_if, rule triple_fail, blast, rule triple_weaken,
        rule attachment_rows.insert_keyed_law) auto
  from attachment_rows.quietly(1) [OF 3 this] show ?case .
next
  case (4 env d i dto k x k' d')
  have "triple False (attachment_rows.start_at d) (atr_update i dto) (\<lambda>r. attachment_rows.updated_row d i r) (attachment_rows.refused_in d)"
    unfolding atr_update_def atr_find_by_id_def by (rule attachment_rows.update_found_law) simp
  from attachment_rows.quietly(2) [OF 4 this] show ?case .
next
  case (5 env d i k y k' d')
  have "triple False (attachment_rows.start_at d) (atr_delete i) (\<lambda>_. attachment_rows.deleted_row d i) (attachment_rows.refused_in d)"
    unfolding atr_delete_def atr_exists_def by (rule attachment_rows.delete_present_law)
  from attachment_rows.deleted_quietly [OF 5 this] show ?case .
qed

subsection \<open>Stored attachments\<close>

datatype attachment_request =
  CreateAttachment create_attachment_dto | UpdateAttachment Id update_attachment_dto
| CountDownload Id | DeleteAttachment Id

fun perform_attachment :: "attachment_request \<Rightarrow> ('j archive, unit) dbop" where
  "perform_attachment (CreateAttachment dto) = and_then (atr_create dto) (\<lambda>_. ret ())"
| "perform_attachment (UpdateAttachment i dto) = and_then (atr_update i dto) (\<lambda>_. ret ())"
| "perform_attachment (CountDownload i) = atr_increment_downloads i"
| "perform_attachment (DeleteAttachment i) = atr_delete i"

definition attachment_sound :: "attachment_row \<Rightarrow> bool" where
  "attachment_sound a \<longleftrightarrow> atr_filename a \<notin> {None, Some []} \<and> atr_content_type a \<notin> {None, Some []} \<and> 0 \<le> sint (atr_downloads a)"

abbreviation attachments_sound :: "'j archive \<Rightarrow> bool" where
  "attachments_sound d \<equiv> all_rows attachment_sound (db_attachments d)"

lemma attachment_holds:
  "holds attachments_sound (atr_create dto) (\<lambda>_. True)"
  "holds attachments_sound (atr_update i u) (\<lambda>_. True)"
  "holds attachments_sound (atr_increment_downloads i) (\<lambda>_. True)"
  "holds attachments_sound (atr_delete i) (\<lambda>_. True)"
proof -
  show "holds attachments_sound (atr_create dto) (\<lambda>_. True)"
    unfolding atr_create_def
    by (auto intro!: holds_intro holds_true [OF attachment_rows.holds_insert] simp: attachment_sound_def new_attachment_row_def)
  show "holds attachments_sound (atr_update i u) (\<lambda>_. True)"
    unfolding atr_update_def atr_find_by_id_def
    by (rule holds_and_then, rule holds_or_fail, rule attachment_rows.holds_find, rule holds_true [OF attachment_rows.holds_update(1)]) (simp add: attachment_sound_def updated_attachment_row_def)
  show "holds attachments_sound (atr_increment_downloads i) (\<lambda>_. True)"
    unfolding atr_increment_downloads_def
    by (rule holds_fetch(5) [where Q = "\<lambda>_. True"])
      (auto simp: sql_update_checked_def sql_update_def all_rows_def attachment_sound_def sint_inc_i32)
  show "holds attachments_sound (atr_delete i) (\<lambda>_. True)"
    unfolding atr_delete_def atr_exists_def by (auto intro!: holds_intro attachment_rows.holds_delete(1))
qed

text \<open>
  Every stored attachment has a name and a content type, and no download count is negative, so that
  none ever counts as waiting for a direct upload.
\<close>

theorem attachments_never_pending:
  assumes "well_behaved attachments_sound env" "attachments_sound d"
  shows "all_rows (\<lambda>a. attachment_sound a \<and> \<not> is_pending_direct_upload a) (db_attachments (snd (history perform_attachment qs env (k, d))))"
proof -
  have "holds attachments_sound (perform_attachment q) (\<lambda>_. True)" for q :: attachment_request
    by (cases q) (auto intro!: holds_intro attachment_holds)
  from history_holds [where perform = perform_attachment, OF assms(1) this assms(2), of qs k] show ?thesis
    by (auto simp: all_rows_def attachment_sound_def is_pending_direct_upload_def)
qed

text \<open>Counting downloads, one after the other.\<close>

definition downloads_of :: "Id \<Rightarrow> 'j archive \<Rightarrow> int option" where
  "downloads_of i d = map_option (sint \<circ> atr_downloads) (row_of atr_id (db_attachments d) i)"

definition count_one :: "Id \<Rightarrow> attachment_row \<Rightarrow> attachment_row" where
  "count_one i a = (if atr_id a = i then a\<lparr>atr_downloads := atr_downloads a + 1\<rparr> else a)"

lemma row_of_counted: "row_of atr_id (tb_rows_update (map (count_one i)) t) = map_option (count_one i) \<circ> row_of atr_id t"
  by (rule row_of_map(2)) (simp add: count_one_def)

lemma increment_alone:
  assumes "quiet env" "table_ok atr_id (db_attachments d)" "row_of atr_id (db_attachments d) i = Some a"
  shows "atr_increment_downloads i env (k, d) =
    (if sint (atr_downloads a) = 2 ^ 31 - 1 then (Err (RepoDatabase SqlOutOfRange), Suc k, d)
     else (Ok (), Suc k, db_attachments_update (tb_rows_update (map (count_one i))) d))"
proof -
  have "(\<exists>r \<in> set (tb_rows (db_attachments d)). atr_id r = i \<and> \<not> sint (atr_downloads r) + 1 < 2 ^ 31) \<longleftrightarrow> sint (atr_downloads a) = 2 ^ 31 - 1"
    (is "?out \<longleftrightarrow> _")
  proof -
    have same: "r = a" if "r \<in> set (tb_rows (db_attachments d))" "atr_id r = i" for r
      using assms(3) that row_of_iff [OF assms(2), of i r] by simp
    have "a \<in> set (tb_rows (db_attachments d)) \<and> atr_id a = i" using assms(3) row_of_iff [OF assms(2), of i a] by simp
    with same have "?out \<longleftrightarrow> \<not> sint (atr_downloads a) + 1 < 2 ^ 31" by blast
    with sint_range_i32 [of "atr_downloads a"] show ?thesis by auto
  qed
  with assms(1) show ?thesis
    by (auto simp: atr_increment_downloads_def execute_def run_statement_def quiet_def sql_update_checked_def sql_update_def
        run_simps count_one_def [abs_def] Let_def)
qed

text \<open>
  C27. Downloads are counted.  When an attachment is downloaded \<open>n\<close> times, its counter grows by \<open>n\<close>, up to the
  greatest 32-bit integer, where it stays (the statement then fails); the counters of all others stay.
\<close>

theorem downloads_saturate:
  assumes "quiet env" "table_ok atr_id (db_attachments d)" "downloads_of i d = Some c"
    and "history perform_attachment (replicate n (CountDownload i)) env (k, d) = (k', d')"
  shows "downloads_of i d' = Some (min (2 ^ 31 - 1) (c + int n)) \<and> (\<forall>j. j \<noteq> i \<longrightarrow> downloads_of j d' = downloads_of j d)"
  using assms(2-4)
proof (induction n arbitrary: k d c)
  case 0
  then have "c < 2 ^ 31" by (auto simp: downloads_of_def intro: sint_range_i32 [simplified])
  with 0 show ?case by (auto simp: min_def)
next
  case (Suc n)
  from Suc.prems(2) obtain a where a: "row_of atr_id (db_attachments d) i = Some a" "c = sint (atr_downloads a)"
    by (auto simp: downloads_of_def)
  let ?d = "if c = 2 ^ 31 - 1 then d else db_attachments_update (tb_rows_update (map (count_one i))) d"
  have run: "perform_attachment (CountDownload i) env (k, d) = (if c = 2 ^ 31 - 1 then Err (RepoDatabase SqlOutOfRange) else Ok (), Suc k, ?d)"
    by (simp add: increment_alone [OF assms(1) Suc.prems(1) a(1)] a(2))
  have ok: "table_ok atr_id (db_attachments ?d)"
    using Suc.prems(1) row_of_map(1) [where idf = atr_id and f = "count_one i"] by (auto simp: count_one_def)
  have cs: "downloads_of i ?d = Some (if c = 2 ^ 31 - 1 then c else c + 1)"
    using a sint_range_i32 [of "atr_downloads a"] row_of_id [OF a(1)]
    by (auto simp: downloads_of_def row_of_counted count_one_def sint_inc_i32)
  have others: "downloads_of j ?d = downloads_of j d" if "j \<noteq> i" for j
    using that by (cases "row_of atr_id (db_attachments d) j") (auto simp: downloads_of_def row_of_counted count_one_def dest: row_of_id)
  from Suc.prems(3) run have "history perform_attachment (replicate n (CountDownload i)) env (Suc k, ?d) = (k', d')" by simp
  from Suc.IH [OF ok cs this] others sint_range_i32 [of "atr_downloads a"] a(2) show ?case by auto
qed

definition sample_attachment :: create_attachment_dto where
  "sample_attachment = \<lparr>cad_container_id = None, cad_container_type = None, cad_filename = ''a.png'', cad_disk_filename = None,
     cad_filesize = 3, cad_content_type = ''image/png'', cad_digest = None, cad_author_id = 1, cad_description = None, cad_status = None\<rparr>"

definition nearly_full :: "unit archive" where
  "nearly_full = empty_archive\<lparr>db_attachments := \<lparr>tb_rows =
     [(new_attachment_row sample_attachment 0 1)\<lparr>atr_downloads := 2147483646\<rparr>, new_attachment_row sample_attachment 0 2], tb_seq = 3\<rparr>\<rparr>"

theorem downloads_saturate_witness:
  "\<exists>k' d'. history perform_attachment (replicate 3 (CountDownload 1)) (alone 0) (0, nearly_full) = (k', d') \<and>
     downloads_of 1 d' = Some (2 ^ 31 - 1) \<and> downloads_of 2 d' = Some 0"
proof -
  obtain k' d' where run: "history perform_attachment (replicate 3 (CountDownload 1)) (alone 0) (0, nearly_full) = (k', d')"
    by (cases "history perform_attachment (replicate 3 (CountDownload 1)) (alone 0) (0, nearly_full)")
  have ok: "table_ok atr_id (db_attachments nearly_full)" by (simp add: nearly_full_def table_ok_def new_attachment_row_def)
  have c: "downloads_of 1 nearly_full = Some 2147483646" "downloads_of 2 nearly_full = Some 0"
    by (simp_all add: downloads_of_def nearly_full_def row_of_def new_attachment_row_def)
  from downloads_saturate [OF quiet_alone(1) ok c(1) run] c(2) run show ?thesis by auto
qed

end
