(* ===== verification/Journal_Rows.thy ===== *)
theory Journal_Rows
  imports Archive Keys "HOL-Library.Sublist"
begin

section \<open>Rows of journals (op-db)\<close>

text \<open>
  \<open>op-db/src/journals.rs\<close>: the repository of the change history.  JSON values are a type parameter,
  with the two operations by which the code looks into a cause.
\<close>

subsection \<open>Journals\<close>

definition cause_types :: "string list" where
  "cause_types =
     [''default_attribute_written'', ''progress_mode_changed_to_status_based'', ''status_changed'', ''system_update'',
      ''total_percent_complete_mode_changed_to_work_weighted_average'', ''work_package_children_changed_times'',
      ''work_package_parent_changed_times'', ''work_package_predecessor_changed_times'',
      ''work_package_related_changed_times'', ''work_package_duplicate_closed'', ''working_days_changed'']"

definition cause_type_is_valid :: "string \<Rightarrow> bool" where
  "cause_type_is_valid t \<longleftrightarrow> t \<in> set cause_types"

definition journable_WORK_PACKAGE :: string where "journable_WORK_PACKAGE = ''WorkPackage''"
definition journable_WIKI_PAGE :: string where "journable_WIKI_PAGE = ''WikiPage''"
definition journable_MEETING :: string where "journable_MEETING = ''Meeting''"
definition journable_PROJECT :: string where "journable_PROJECT = ''Project''"
definition journable_NEWS :: string where "journable_NEWS = ''News''"
definition journable_MESSAGE :: string where "journable_MESSAGE = ''Message''"

record 'j json_reader =
  js_get :: "'j \<Rightarrow> string \<Rightarrow> 'j option"
  js_as_str :: "'j \<Rightarrow> string option"
  js_empty_object :: 'j

definition jor_is_initial :: "'j journal_row \<Rightarrow> bool" where
  "jor_is_initial r \<longleftrightarrow> sint (jor_version r) < 2"

definition jor_anchor :: "'j journal_row \<Rightarrow> i32" where
  "jor_anchor r = jor_version r - 1"

definition jor_has_cause :: "'j json_reader \<Rightarrow> 'j journal_row \<Rightarrow> bool" where
  "jor_has_cause js r =
     (case js_get js (jor_cause r) ''type'' of
        Some cause_type \<Rightarrow> (case js_as_str js cause_type of Some s \<Rightarrow> s \<noteq> [] | None \<Rightarrow> False)
      | None \<Rightarrow> False)"

definition jor_cause_type :: "'j json_reader \<Rightarrow> 'j journal_row \<Rightarrow> string option" where
  "jor_cause_type js r = Option.bind (js_get js (jor_cause r) ''type'') (js_as_str js)"

definition jor_is_internal :: "'j journal_row \<Rightarrow> bool" where "jor_is_internal r = jor_restricted r"

record 'j journal_with_user =
  jwu_journal :: "'j journal_row"
  jwu_user_login :: string
  jwu_user_firstname :: string
  jwu_user_lastname :: string

record 'j journal_with_work_package_data =
  jwd_journal :: "'j journal_row"
  jwd_data :: "work_package_journal_row option"

record 'j create_journal_dto =
  cjo_journable_type :: string
  cjo_journable_id :: Id
  cjo_user_id :: Id
  cjo_notes :: "string option"
  cjo_version :: i32
  cjo_data_type :: string
  cjo_data_id :: Id
  cjo_cause :: "'j option"
  cjo_restricted :: "bool option"

record update_journal_dto =
  ujo_notes :: "string option option"

subsection \<open>Queries\<close>

definition journal_row_of :: "string \<Rightarrow> Id \<Rightarrow> 'j journal_row \<Rightarrow> bool" where
  "journal_row_of journable_type journable_id r \<longleftrightarrow>
     jor_journable_type r = journable_type \<and> jor_journable_id r = journable_id"

abbreviation by_version :: "'j journal_row list \<Rightarrow> 'j journal_row list" where
  "by_version \<equiv> sort_key (\<lambda>r. sint (jor_version r))"

definition journal_find_by_journable ::
    "string \<Rightarrow> Id \<Rightarrow> pagination \<Rightarrow> ('j archive, 'j journal_row paginated_result) dbop" where
  "journal_find_by_journable journable_type journable_id p =
     page_of p db_journals (journal_row_of journable_type journable_id) by_version"

definition journal_find_by_work_package :: "Id \<Rightarrow> pagination \<Rightarrow> ('j archive, 'j journal_row paginated_result) dbop" where
  "journal_find_by_work_package work_package_id p = journal_find_by_journable journable_WORK_PACKAGE work_package_id p"

definition journal_find_by_wiki_page :: "Id \<Rightarrow> pagination \<Rightarrow> ('j archive, 'j journal_row paginated_result) dbop" where
  "journal_find_by_wiki_page wiki_page_id p = journal_find_by_journable journable_WIKI_PAGE wiki_page_id p"

definition journal_find_by_user :: "Id \<Rightarrow> pagination \<Rightarrow> ('j archive, 'j journal_row paginated_result) dbop" where
  "journal_find_by_user user_id p = page_of p db_journals (\<lambda>r. jor_user_id r = user_id) (latest_created jor_created_at)"

definition journal_find_changing ::
    "string \<Rightarrow> Id \<Rightarrow> pagination \<Rightarrow> ('j archive, 'j journal_row paginated_result) dbop" where
  "journal_find_changing journable_type journable_id p =
     page_of p db_journals (\<lambda>r. journal_row_of journable_type journable_id r \<and> 1 < sint (jor_version r)) by_version"

definition journal_find_by_id_with_user :: "Id \<Rightarrow> ('j archive, 'j journal_with_user option) dbop" where
  "journal_find_by_id_with_user i = fetch_optional (sql_select (\<lambda>d.
     concat (map (\<lambda>j. map (\<lambda>u. \<lparr>jwu_journal = j, jwu_user_login = ur_login u,
         jwu_user_firstname = ur_firstname u, jwu_user_lastname = ur_lastname u\<rparr>)
       (filter (\<lambda>u. ur_id u = jor_user_id j) (tb_rows (db_users d))))
     (filter (\<lambda>j. jor_id j = i) (tb_rows (db_journals d))))))"

definition journal_next_version :: "string \<Rightarrow> Id \<Rightarrow> ('j archive, i32) dbop" where
  "journal_next_version journable_type journable_id =
     and_then (fetch_one (sql_value (\<lambda>d.
       max_i32 (map jor_version (filter (journal_row_of journable_type journable_id) (tb_rows (db_journals d))))))) (\<lambda>max_version.
     ret ((case max_version of Some v \<Rightarrow> v | None \<Rightarrow> 0) + 1))"

definition journal_find_predecessor :: "string \<Rightarrow> Id \<Rightarrow> i32 \<Rightarrow> ('j archive, 'j journal_row option) dbop" where
  "journal_find_predecessor journable_type journable_id version =
     (if sint version < 2 then ret None
      else fetch_optional (sql_select (\<lambda>d. take 1 (sort_key (\<lambda>r. - sint (jor_version r))
        (filter (\<lambda>r. journal_row_of journable_type journable_id r \<and> sint (jor_version r) < sint version)
          (tb_rows (db_journals d)))))))"

definition journal_find_successor :: "string \<Rightarrow> Id \<Rightarrow> i32 \<Rightarrow> ('j archive, 'j journal_row option) dbop" where
  "journal_find_successor journable_type journable_id version =
     fetch_optional (sql_select (\<lambda>d. take 1 (by_version
       (filter (\<lambda>r. journal_row_of journable_type journable_id r \<and> sint version < sint (jor_version r))
         (tb_rows (db_journals d))))))"

text \<open>The left join: every journal with each row of data that it refers to, or once with none.\<close>

definition joined_data :: "work_package_journal_row list \<Rightarrow> 'j journal_row \<Rightarrow> 'j journal_with_work_package_data list" where
  "joined_data ws j =
     (case filter (\<lambda>w. wjo_id w = jor_data_id j \<and> jor_data_type j = ''Journal::WorkPackageJournal'') ws of
        [] \<Rightarrow> [\<lparr>jwd_journal = j, jwd_data = None\<rparr>]
      | found \<Rightarrow> map (\<lambda>w. \<lparr>jwd_journal = j, jwd_data = Some w\<rparr>) found)"

definition journal_find_work_package_journals_with_data ::
    "Id \<Rightarrow> pagination \<Rightarrow> ('j archive, 'j journal_with_work_package_data paginated_result) dbop" where
  "journal_find_work_package_journals_with_data work_package_id p =
     and_then (fetch_all (sql_select_page (pg_limit p) (pg_offset p) (\<lambda>d.
       sort_key (\<lambda>r. sint (jor_version (jwd_journal r)))
         (concat (map (joined_data (tb_rows (db_work_package_journals d)))
           (filter (journal_row_of ''WorkPackage'' work_package_id) (tb_rows (db_journals d)))))))) (\<lambda>items.
     and_then (count_of db_journals (journal_row_of ''WorkPackage'' work_package_id)) (\<lambda>total.
     ret (paginated_result_new items total p)))"

subsection \<open>The repository\<close>

definition journal_find_by_id :: "Id \<Rightarrow> ('j archive, 'j journal_row option) dbop" where
  "journal_find_by_id = find_row jor_id db_journals"

definition journal_find_all :: "i64 \<Rightarrow> i64 \<Rightarrow> ('j archive, 'j journal_row list) dbop" where
  "journal_find_all limit offset =
     fetch_all (sql_select_page limit offset (\<lambda>d. latest_created jor_created_at (tb_rows (db_journals d))))"

definition new_journal_row :: "'j json_reader \<Rightarrow> 'j create_journal_dto \<Rightarrow> timestamp \<Rightarrow> Id \<Rightarrow> 'j journal_row" where
  "new_journal_row js dto now i =
     \<lparr>jor_id = i, jor_journable_type = cjo_journable_type dto, jor_journable_id = cjo_journable_id dto,
      jor_user_id = cjo_user_id dto, jor_notes = cjo_notes dto, jor_version = cjo_version dto,
      jor_data_type = cjo_data_type dto, jor_data_id = cjo_data_id dto,
      jor_cause = (case cjo_cause dto of Some c \<Rightarrow> c | None \<Rightarrow> js_empty_object js),
      jor_restricted = (case cjo_restricted dto of Some b \<Rightarrow> b | None \<Rightarrow> False),
      jor_created_at = now, jor_updated_at = now\<rparr>"

text \<open>The error of an insertion; \<open>text\<close> is what a database error prints.\<close>

definition journal_create_error :: "(sql_error \<Rightarrow> string) \<Rightarrow> repository_error \<Rightarrow> repository_error" where
  "journal_create_error text e =
     (case e of
        RepoDatabase c \<Rightarrow> if sublist ''unique constraint'' (text c) then RepoConflict ''Journal version already exists'' else e
      | other \<Rightarrow> e)"

definition map_error :: "(repository_error \<Rightarrow> repository_error) \<Rightarrow> ('d, 'a) dbop \<Rightarrow> ('d, 'a) dbop" where
  "map_error g m env s = (case m env s of (Inl e, s) \<Rightarrow> (Err (g e), s) | (Inr x, s) \<Rightarrow> (Ok x, s))"

definition journal_create ::
    "'j json_reader \<Rightarrow> (sql_error \<Rightarrow> string) \<Rightarrow> 'j create_journal_dto \<Rightarrow> ('j archive, 'j journal_row) dbop" where
  "journal_create js text dto =
     map_error (journal_create_error text)
       (fetch_one (sql_insert jor_id db_journals db_journals_update (new_journal_row js dto)))"

definition journal_not_found :: "Id \<Rightarrow> repository_error" where
  "journal_not_found i = RepoNotFound (''Journal with id '' @ show_i64 i @ '' not found'')"

definition journal_update :: "Id \<Rightarrow> update_journal_dto \<Rightarrow> ('j archive, 'j journal_row) dbop" where
  "journal_update i dto =
     and_then (or_fail (journal_not_found i) (journal_find_by_id i)) (\<lambda>existing.
     fetch_one (sql_update db_journals db_journals_update (\<lambda>r. jor_id r = i)
       (\<lambda>now r. r\<lparr>jor_notes := (case ujo_notes dto of Some n \<Rightarrow> n | None \<Rightarrow> jor_notes existing), jor_updated_at := now\<rparr>)))"

definition journal_delete :: "Id \<Rightarrow> ('j archive, unit) dbop" where
  "journal_delete i = or_fail_zero (journal_not_found i)
     (rows_affected (sql_delete db_journals db_journals_update (\<lambda>r. jor_id r = i)))"

definition journal_count :: "('j archive, i64) dbop" where "journal_count = count_of db_journals (\<lambda>_. True)"

definition journal_exists :: "Id \<Rightarrow> ('j archive, bool) dbop" where
  "journal_exists i = counted db_journals (\<lambda>r. jor_id r = i)"

interpretation journal_rows: keyed_table jor_id "db_journals :: 'j archive \<Rightarrow> _" db_journals_update "\<lambda>_. ()"
  by unfold_locales simp

abbreviation journal_table :: "'j archive \<Rightarrow> bool" where
  "journal_table d \<equiv> table_ok jor_id (db_journals d)"

lemma map_error_cases:
  "map_error g m env s = (r, s') \<longleftrightarrow> (\<exists>r'. m env s = (r', s') \<and> r = (case r' of Inl e \<Rightarrow> Err (g e) | Inr x \<Rightarrow> Ok x))"
  by (auto simp: map_error_def split: prod.splits sum.splits)

interpretation journal_repository: repository jor_id journal_table "\<lambda>d. row_of jor_id (db_journals d)"
    journal_find_by_id journal_exists "journal_create js text" journal_update journal_delete
proof (unfold_locales, goal_cases)
  case (1 env d i k)
  then show ?case by (simp add: journal_find_by_id_def journal_rows.run_table)
next
  case (2 env d i k)
  then show ?case by (auto simp: journal_exists_def journal_rows.run_table row_of_None)
next
  case (3 env d dto k x k' d')
  from 3(3) obtain r where run: "fetch_one (sql_insert jor_id db_journals db_journals_update (new_journal_row js dto)) env (k, d) = (r, k', d')"
    and x: "x = (case r of Inl e \<Rightarrow> Err (journal_create_error text e) | Inr y \<Rightarrow> Ok y)"
    by (auto simp: journal_create_def map_error_cases)
  from journal_rows.insert_law [OF 3(1,2) _ run] x show ?case
    by (cases r) (simp_all add: new_journal_row_def created_in_def)
next
  case (4 env d i dto k x k' d')
  have "triple False (journal_rows.start_at d) (journal_update i dto) (\<lambda>r. journal_rows.updated_row d i r) (journal_rows.refused_in d)"
    unfolding journal_update_def journal_find_by_id_def by (rule journal_rows.update_found_law) simp
  from journal_rows.quietly(2) [OF 4 this] show ?case .
next
  case (5 env d i k y k' d')
  from journal_rows.delete_or_fail_law [OF 5(1,2) 5(3) [unfolded journal_delete_def]] show ?case by simp
qed

subsection \<open>Neighbours of a journal\<close>

abbreviation journals_of :: "string \<Rightarrow> Id \<Rightarrow> 'j archive \<Rightarrow> 'j journal_row set" where
  "journals_of ty i d \<equiv> {r \<in> set (tb_rows (db_journals d)). journal_row_of ty i r}"

text \<open>The element a query with \<open>ORDER BY ... LIMIT 1\<close> finds is a least one.\<close>

lemma first_of_sorted:
  assumes "(case take 1 (sort_key f xs) of [] \<Rightarrow> None | r # rs \<Rightarrow> Some r) = v"
  shows "v = None \<Longrightarrow> xs = []" and "v = Some r \<Longrightarrow> r \<in> set xs \<and> (\<forall>s \<in> set xs. f r \<le> f s)"
proof -
  have same: "set (sort_key f xs) = set xs" "sorted (map f (sort_key f xs))" by simp_all
  show "xs = []" if "v = None" using assms that same(1) by (cases "sort_key f xs") auto
  show "r \<in> set xs \<and> (\<forall>s \<in> set xs. f r \<le> f s)" if "v = Some r"
  proof (cases "sort_key f xs")
    case Nil
    with assms that show ?thesis by simp
  next
    case (Cons y ys)
    with assms that have "y = r" by simp
    with Cons same show ?thesis by (metis list.set_intros(1) set_ConsD sorted_simps(2) list.simps(9) order_refl image_eqI list.set_map)
  qed
qed

definition greatest_below :: "string \<Rightarrow> Id \<Rightarrow> i32 \<Rightarrow> 'j archive \<Rightarrow> 'j journal_row \<Rightarrow> bool" where
  "greatest_below ty i v d r \<longleftrightarrow> r \<in> journals_of ty i d \<and> sint (jor_version r) < sint v \<and>
     (\<forall>s \<in> journals_of ty i d. sint (jor_version s) < sint v \<longrightarrow> sint (jor_version s) \<le> sint (jor_version r))"

definition least_above :: "string \<Rightarrow> Id \<Rightarrow> i32 \<Rightarrow> 'j archive \<Rightarrow> 'j journal_row \<Rightarrow> bool" where
  "least_above ty i v d r \<longleftrightarrow> r \<in> journals_of ty i d \<and> sint v < sint (jor_version r) \<and>
     (\<forall>s \<in> journals_of ty i d. sint v < sint (jor_version s) \<longrightarrow> sint (jor_version r) \<le> sint (jor_version s))"

lemma run_first:
  "quiet env \<Longrightarrow> fetch_optional (sql_select sel) env (k, d) = (Ok (case sel d of [] \<Rightarrow> None | r # rs \<Rightarrow> Some r), Suc k, d)"
  by (simp add: run_simps)

lemma predecessor_alone:
  assumes "quiet env" "journal_find_predecessor ty i v env (k, d) = (r, k', d')"
  shows "d' = d" and "\<exists>p. r = Ok p \<and> (case p of None \<Rightarrow> sint v < 2 \<or> (\<forall>s \<in> journals_of ty i d. sint v \<le> sint (jor_version s))
    | Some q \<Rightarrow> 2 \<le> sint v \<and> greatest_below ty i v d q)"
proof -
  let ?sel = "\<lambda>d. take 1 (sort_key (\<lambda>r. - sint (jor_version r))
      (filter (\<lambda>r. journal_row_of ty i r \<and> sint (jor_version r) < sint v) (tb_rows (db_journals d))))"
  show "d' = d" using assms by (auto simp: journal_find_predecessor_def run_first ret_def split: if_splits)
  have r: "r = Ok (if sint v < 2 then None else (case ?sel d of [] \<Rightarrow> None | q # qs \<Rightarrow> Some q))"
    using assms by (auto simp: journal_find_predecessor_def run_first ret_def split: if_splits)
  show "\<exists>p. r = Ok p \<and> (case p of None \<Rightarrow> sint v < 2 \<or> (\<forall>s \<in> journals_of ty i d. sint v \<le> sint (jor_version s))
      | Some q \<Rightarrow> 2 \<le> sint v \<and> greatest_below ty i v d q)"
  proof (cases "case ?sel d of [] \<Rightarrow> None | q # qs \<Rightarrow> Some q")
    case None
    from first_of_sorted(1) [OF refl None] r None show ?thesis by (auto simp: filter_empty_conv not_less)
  next
    case (Some q)
    from first_of_sorted(2) [OF refl Some] r Some show ?thesis by (auto simp: greatest_below_def)
  qed
qed

lemma successor_alone:
  assumes "quiet env" "journal_find_successor ty i v env (k, d) = (r, k', d')"
  shows "d' = d" and "\<exists>p. r = Ok p \<and> (case p of None \<Rightarrow> \<forall>s \<in> journals_of ty i d. sint (jor_version s) \<le> sint v
    | Some q \<Rightarrow> least_above ty i v d q)"
proof -
  let ?sel = "\<lambda>d. take 1 (by_version (filter (\<lambda>r. journal_row_of ty i r \<and> sint v < sint (jor_version r)) (tb_rows (db_journals d))))"
  from assms show "d' = d" by (simp add: journal_find_successor_def run_first)
  have r: "r = Ok (case ?sel d of [] \<Rightarrow> None | q # qs \<Rightarrow> Some q)"
    using assms by (auto simp: journal_find_successor_def run_first)
  show "\<exists>p. r = Ok p \<and> (case p of None \<Rightarrow> \<forall>s \<in> journals_of ty i d. sint (jor_version s) \<le> sint v
      | Some q \<Rightarrow> least_above ty i v d q)"
  proof (cases "case ?sel d of [] \<Rightarrow> None | q # qs \<Rightarrow> Some q")
    case None
    from first_of_sorted(1) [OF refl None] r None show ?thesis by (auto simp: filter_empty_conv not_less)
  next
    case (Some q)
    from first_of_sorted(2) [OF refl Some] r Some show ?thesis by (auto simp: least_above_def)
  qed
qed

text \<open>
  C30. Neighbours.  Among the journals of an entity whose versions are positive and differ, a journal has
  another as its successor just when this one has it as its predecessor; and both queries change nothing.
\<close>

theorem journal_neighbours:
  assumes "quiet env" "inj_on jor_version (journals_of ty i d)" "\<forall>s \<in> journals_of ty i d. 1 \<le> sint (jor_version s)"
    and "p \<in> journals_of ty i d" "r \<in> journals_of ty i d"
    and "journal_find_successor ty i (jor_version p) env (k, d) = (x, k1, d1)"
    and "journal_find_predecessor ty i (jor_version r) env (m, d) = (y, k2, d2)"
  shows "(x = Ok (Some r) \<longleftrightarrow> y = Ok (Some p)) \<and> d1 = d \<and> d2 = d"
proof -
  obtain s where x: "x = Ok s" and s: "case s of None \<Rightarrow> \<forall>s \<in> journals_of ty i d. sint (jor_version s) \<le> sint (jor_version p)
      | Some q \<Rightarrow> least_above ty i (jor_version p) d q"
    using successor_alone(2) [OF assms(1,6)] by blast
  obtain q where y: "y = Ok q" and q: "case q of None \<Rightarrow> sint (jor_version r) < 2 \<or>
        (\<forall>s \<in> journals_of ty i d. sint (jor_version r) \<le> sint (jor_version s))
      | Some z \<Rightarrow> 2 \<le> sint (jor_version r) \<and> greatest_below ty i (jor_version r) d z"
    using predecessor_alone(2) [OF assms(1,7)] by blast
  have same: "a = b" if "a \<in> journals_of ty i d" "b \<in> journals_of ty i d" "sint (jor_version a) = sint (jor_version b)" for a b
    using assms(2) that by (auto simp: inj_on_def signed_word_eqI)
  have "q = Some p" if "s = Some r"
  proof -
    from s that have above: "least_above ty i (jor_version p) d r" by simp
    with assms(3,4) have "2 \<le> sint (jor_version r)" "sint (jor_version p) < sint (jor_version r)" by (auto simp: least_above_def)
    with q assms(4) obtain z where z: "q = Some z" "greatest_below ty i (jor_version r) d z" by (cases q) force+
    with above assms(4) have "sint (jor_version z) = sint (jor_version p)"
      by (auto simp: least_above_def greatest_below_def) (metis leD linorder_neqE_linordered_idom order_antisym not_less)
    with same [of z p] z assms(4) show ?thesis by (simp add: greatest_below_def)
  qed
  moreover have "s = Some r" if "q = Some p"
  proof -
    from q that have below: "greatest_below ty i (jor_version r) d p" by simp
    then have "sint (jor_version p) < sint (jor_version r)" by (simp add: greatest_below_def)
    with s assms(5) obtain z where z: "s = Some z" "least_above ty i (jor_version p) d z" by (cases s) force+
    with below assms(5) have "sint (jor_version z) = sint (jor_version r)"
      by (auto simp: least_above_def greatest_below_def) (metis leD linorder_neqE_linordered_idom order_antisym not_less)
    with same [of z r] z assms(5) show ?thesis by (simp add: least_above_def)
  qed
  ultimately show ?thesis using x y successor_alone(1) [OF assms(1,6)] predecessor_alone(1) [OF assms(1,7)] by auto
qed

text \<open>The list of journals with their data.\<close>

lemma joined_data_once:
  assumes "table_ok wjo_id t"
  shows "joined_data (tb_rows t) j = [\<lparr>jwd_journal = j,
    jwd_data = (if jor_data_type j = ''Journal::WorkPackageJournal'' then row_of wjo_id t (jor_data_id j) else None)\<rparr>]"
proof (cases "jor_data_type j = ''Journal::WorkPackageJournal''")
  case True
  have dist: "distinct (map wjo_id (tb_rows t))" using assms by (simp add: table_ok_def)
  show ?thesis
  proof (cases "row_of wjo_id t (jor_data_id j)")
    case None
    then have "filter (\<lambda>w. wjo_id w = jor_data_id j) (tb_rows t) = []" by (auto simp: row_of_None filter_empty_conv image_iff)
    with True None show ?thesis by (simp add: joined_data_def)
  next
    case (Some w)
    then have "w \<in> set (tb_rows t)" "wjo_id w = jor_data_id j" by (simp_all add: row_of_iff [OF assms])
    from filter_key_single [OF dist this] True Some show ?thesis by (simp add: joined_data_def)
  qed
qed (simp add: joined_data_def)

lemma concat_singletons: "(\<And>x. x \<in> set xs \<Longrightarrow> f x = [g x]) \<Longrightarrow> concat (map f xs) = map g xs"
  by (induction xs) simp_all

definition with_data :: "work_package_journal_row table \<Rightarrow> 'j journal_row \<Rightarrow> 'j journal_with_work_package_data" where
  "with_data t j = \<lparr>jwd_journal = j,
     jwd_data = (if jor_data_type j = ''Journal::WorkPackageJournal'' then row_of wjo_id t (jor_data_id j) else None)\<rparr>"

lemma run_page:
  "quiet env \<Longrightarrow> fetch_all (sql_select_page l off sel) env (k, d) =
     (if sint l < 0 \<or> sint off < 0 then Err (RepoDatabase SqlNegativeLimit) else Ok (take (nat (sint l)) (drop (nat (sint off)) (sel d))), Suc k, d)"
  by (simp add: fetch_all_def run_statement_def sql_select_page_def quiet_def)

text \<open>
  Journals with their data.  The list with the recorded states has the journals of the list without, in
  the same order and on the same pages, each once, with the state it refers to; both have the same total.
\<close>

theorem data_list_matches:
  assumes "quiet env" "table_ok wjo_id (db_work_package_journals d)"
    and "journal_find_by_work_package i p env (k, d) = (x, k1, d1)"
    and "journal_find_work_package_journals_with_data i p env (k, d) = (y, k2, d2)"
  shows "y = (case x of Inl e \<Rightarrow> Err e
    | Inr a \<Rightarrow> Ok (paginated_result_new (map (with_data (db_work_package_journals d)) (pres_items a)) (pres_total a) p)) \<and>
    k2 = k1 \<and> d1 = d \<and> d2 = d"
proof -
  have joined: "sort_key (\<lambda>r. sint (jor_version (jwd_journal r)))
      (concat (map (joined_data (tb_rows (db_work_package_journals d))) js)) =
      map (with_data (db_work_package_journals d)) (by_version js)" for js
  proof -
    have "concat (map (joined_data (tb_rows (db_work_package_journals d))) js) = map (with_data (db_work_package_journals d)) js"
      by (rule concat_singletons) (simp add: joined_data_once [OF assms(2)] with_data_def)
    then show ?thesis by (simp only: sort_key_map) (simp add: with_data_def)
  qed
  from assms(1,3,4) show ?thesis
    by (auto simp: journal_find_by_work_package_def journal_find_by_journable_def journable_WORK_PACKAGE_def page_of_def
        journal_find_work_package_journals_with_data_def run_page run_queries run_basic joined
        paginated_result_new_def take_map drop_map split: if_splits)
qed

definition no_json :: "unit json_reader" where
  "no_json = \<lparr>js_get = (\<lambda>_ _. None), js_as_str = (\<lambda>_. None), js_empty_object = ()\<rparr>"

definition sample_journal :: "i32 \<Rightarrow> unit create_journal_dto" where
  "sample_journal v = \<lparr>cjo_journable_type = ''WorkPackage'', cjo_journable_id = 5, cjo_user_id = 1, cjo_notes = None, cjo_version = v,
     cjo_data_type = ''Journal::WorkPackageJournal'', cjo_data_id = 1, cjo_cause = None, cjo_restricted = None\<rparr>"

definition sample_state :: work_package_journal_row where
  "sample_state = \<lparr>wjo_id = 1, wjo_type_id = 1, wjo_project_id = 1, wjo_subject = ''s'', wjo_description = None, wjo_due_date = None,
     wjo_category_id = None, wjo_status_id = 1, wjo_assigned_to_id = None, wjo_priority_id = 1, wjo_version_id = None, wjo_author_id = 1,
     wjo_done_ratio = None, wjo_estimated_hours = None, wjo_start_date = None, wjo_parent_id = None, wjo_responsible_id = None,
     wjo_derived_estimated_hours = None, wjo_schedule_manually = None, wjo_duration = None, wjo_ignore_non_working_days = False,
     wjo_derived_remaining_hours = None, wjo_derived_done_ratio = None\<rparr>"

definition two_journals :: "unit archive" where
  "two_journals = empty_archive\<lparr>
     db_journals := \<lparr>tb_rows = [new_journal_row no_json (sample_journal 2) 0 2, new_journal_row no_json (sample_journal 1) 0 1], tb_seq = 3\<rparr>,
     db_work_package_journals := \<lparr>tb_rows = [sample_state], tb_seq = 2\<rparr>\<rparr>"

lemma two_journals_of: "journals_of ''WorkPackage'' 5 two_journals =
    {new_journal_row no_json (sample_journal 2) 0 2, new_journal_row no_json (sample_journal 1) 0 1}"
  by (auto simp: two_journals_def journal_row_of_def new_journal_row_def sample_journal_def)

theorem journal_neighbours_witness:
  "fst (journal_find_predecessor ''WorkPackage'' 5 2 (alone 0) (0, two_journals)) = Ok (Some (new_journal_row no_json (sample_journal 1) 0 1))"
proof -
  let ?one = "new_journal_row no_json (sample_journal 1) 0 1" and ?two = "new_journal_row no_json (sample_journal 2) 0 2"
  have v: "jor_version ?one = 1" "jor_version ?two = 2" by (simp_all add: new_journal_row_def sample_journal_def)
  obtain x k1 d1 where s: "journal_find_successor ''WorkPackage'' 5 (jor_version ?one) (alone 0) (0, two_journals) = (x, k1, d1)"
    by (cases "journal_find_successor ''WorkPackage'' 5 (jor_version ?one) (alone 0) (0, two_journals)") auto
  obtain y k2 d2 where p: "journal_find_predecessor ''WorkPackage'' 5 (jor_version ?two) (alone 0) (0, two_journals) = (y, k2, d2)"
    by (cases "journal_find_predecessor ''WorkPackage'' 5 (jor_version ?two) (alone 0) (0, two_journals)") auto
  have "x = Ok (Some ?two)"
    using s by (simp add: journal_find_successor_def run_first v two_journals_def journal_row_of_def)
      (simp add: new_journal_row_def sample_journal_def)
  moreover have "inj_on jor_version (journals_of ''WorkPackage'' 5 two_journals)" "\<forall>s \<in> journals_of ''WorkPackage'' 5 two_journals. 1 \<le> sint (jor_version s)"
    unfolding two_journals_of by (auto simp: v inj_on_def)
  ultimately have "y = Ok (Some ?one)"
    using journal_neighbours [OF quiet_alone(1) _ _ _ _ s p] by (simp add: two_journals_of)
  with p v show ?thesis by simp
qed

definition first_page :: pagination where "first_page = \<lparr>pg_limit = 10, pg_offset = 0\<rparr>"

theorem data_list_matches_witness:
  "\<exists>k d r. journal_find_work_package_journals_with_data 5 first_page (alone 0) (0, two_journals) = (Ok r, k, d) \<and>
     map (\<lambda>e. (jor_version (jwd_journal e), jwd_data e)) (pres_items r) = [(1, Some sample_state), (2, Some sample_state)]"
proof -
  obtain x k1 d1 where x: "journal_find_by_work_package 5 first_page (alone 0) (0, two_journals) = (x, k1, d1)"
    by (cases "journal_find_by_work_package 5 first_page (alone 0) (0, two_journals)") auto
  obtain y k2 d2 where y: "journal_find_work_package_journals_with_data 5 first_page (alone 0) (0, two_journals) = (y, k2, d2)"
    by (cases "journal_find_work_package_journals_with_data 5 first_page (alone 0) (0, two_journals)") auto
  have t: "table_ok wjo_id (db_work_package_journals two_journals)" by (simp add: two_journals_def table_ok_def sample_state_def)
  have "\<exists>a. x = Ok a \<and> pres_items a = [new_journal_row no_json (sample_journal 1) 0 1, new_journal_row no_json (sample_journal 2) 0 2]"
    using x by (auto simp: journal_find_by_work_package_def journal_find_by_journable_def page_of_def run_simps first_page_def
        journable_WORK_PACKAGE_def two_journals_def journal_row_of_def new_journal_row_def sample_journal_def paginated_result_new_def
        run_page)
  moreover have "row_of wjo_id (db_work_package_journals two_journals) 1 = Some sample_state"
    by (simp add: two_journals_def row_of_def sample_state_def)
  ultimately show ?thesis
    using data_list_matches [OF quiet_alone(1) t x y] y
    by (auto simp: paginated_result_new_def with_data_def new_journal_row_def sample_journal_def)
qed

text \<open>Nothing keeps two journals of an entity from having the same version.\<close>

theorem versions_can_repeat:
  "\<exists>r k d. journal_create no_json text (sample_journal 2) (alone 0) (0, two_journals) = (Ok r, k, d) \<and>
     map jor_version (tb_rows (db_journals d)) = [2, 1, 2]"
  by (simp add: journal_create_def map_error_def run_simps two_journals_def new_journal_row_def sample_journal_def Let_def)

end
