(* ===== verification/Saved_Queries.thy ===== *)
theory Saved_Queries
  imports Archive Keys
begin

section \<open>Saved queries and news (op-db)\<close>

text \<open>
  \<open>op-db/src/queries.rs\<close>: the repository of saved queries, with their stars and views, and
  \<open>op-db/src/news.rs\<close>: that of news.  Names are ordered by the collation \<open>coll\<close> of the database.
\<close>

subsection \<open>Queries\<close>

definition qur_is_global :: "query_row \<Rightarrow> bool" where "qur_is_global q \<longleftrightarrow> qur_project_id q = None"

definition qur_is_hierarchical :: "query_row \<Rightarrow> bool" where
  "qur_is_hierarchical q \<longleftrightarrow> qur_show_hierarchies q \<and> qur_group_by q = None"

definition qur_is_grouped :: "query_row \<Rightarrow> bool" where "qur_is_grouped q \<longleftrightarrow> qur_group_by q \<noteq> None"

record query_with_starred =
  qws_query :: query_row
  qws_starred :: bool

record create_query_dto =
  cqu_project_id :: "Id option"
  cqu_user_id :: Id
  cqu_name :: string
  cqu_filters :: "string option"
  cqu_column_names :: "string option"
  cqu_sort_criteria :: "string option"
  cqu_group_by :: "string option"
  cqu_display_sums :: "bool option"
  cqu_show_hierarchies :: "bool option"
  cqu_include_subprojects :: "bool option"
  cqu_timeline_visible :: "bool option"
  cqu_timestamps :: "string option"

record update_query_dto =
  uqu_name :: "string option"
  uqu_filters :: "string option option"
  uqu_column_names :: "string option option"
  uqu_sort_criteria :: "string option option"
  uqu_group_by :: "string option option"
  uqu_display_sums :: "bool option"
  uqu_show_hierarchies :: "bool option"
  uqu_include_subprojects :: "bool option"
  uqu_timeline_visible :: "bool option"
  uqu_timestamps :: "string option option"

abbreviation queries_by_name :: "(string \<Rightarrow> 'k::linorder) \<Rightarrow> query_row list \<Rightarrow> query_row list" where
  "queries_by_name coll \<equiv> sort_key (\<lambda>q. coll (qur_name q))"

definition query_find_by_project ::
    "(string \<Rightarrow> 'k::linorder) \<Rightarrow> Id \<Rightarrow> pagination \<Rightarrow> ('j archive, query_row paginated_result) dbop" where
  "query_find_by_project coll project_id p =
     page_of p db_queries (\<lambda>q. qur_project_id q = Some project_id) (queries_by_name coll)"

definition query_find_global ::
    "(string \<Rightarrow> 'k::linorder) \<Rightarrow> pagination \<Rightarrow> ('j archive, query_row paginated_result) dbop" where
  "query_find_global coll p = page_of p db_queries (\<lambda>q. qur_project_id q = None) (queries_by_name coll)"

definition query_find_by_user ::
    "(string \<Rightarrow> 'k::linorder) \<Rightarrow> Id \<Rightarrow> pagination \<Rightarrow> ('j archive, query_row paginated_result) dbop" where
  "query_find_by_user coll user_id p = page_of p db_queries (\<lambda>q. qur_user_id q = user_id) (queries_by_name coll)"

text \<open>
  \<open>queries q LEFT JOIN views v ON v.query_id = q.id\<close>: a query comes once for each of its views, or once
  without one; and the condition on what is joined.
\<close>

definition views_joined :: "'j archive \<Rightarrow> (query_row \<times> view_row option) list" where
  "views_joined d = concat (map (\<lambda>q.
     case filter (\<lambda>v. vir_query_id v = qur_id q) (tb_rows (db_views d)) of
       [] \<Rightarrow> [(q, None)]
     | vs \<Rightarrow> map (\<lambda>v. (q, Some v)) vs) (tb_rows (db_queries d)))"

definition may_see :: "Id \<Rightarrow> Id option \<Rightarrow> query_row \<times> view_row option \<Rightarrow> bool" where
  "may_see user_id project_id = (\<lambda>(q, v).
     (qur_user_id q = user_id \<or> (case v of Some v \<Rightarrow> vir_type v = ''Views::WorkPackagesTable'' | None \<Rightarrow> False)) \<and>
     (case project_id of Some pid \<Rightarrow> qur_project_id q = Some pid \<or> qur_project_id q = None | None \<Rightarrow> True))"

definition visible_rows :: "(string \<Rightarrow> 'k::linorder) \<Rightarrow> Id \<Rightarrow> Id option \<Rightarrow> 'j archive \<Rightarrow> query_row list" where
  "visible_rows coll user_id project_id d =
     queries_by_name coll (map fst (filter (may_see user_id project_id) (views_joined d)))"

definition visible_total :: "Id \<Rightarrow> Id option \<Rightarrow> 'j archive \<Rightarrow> i64" where
  "visible_total user_id project_id d =
     word_of_nat (length (remdups (map (qur_id \<circ> fst) (filter (may_see user_id project_id) (views_joined d)))))"

definition query_is_starred :: "Id \<Rightarrow> Id \<Rightarrow> ('j archive, bool) dbop" where
  "query_is_starred query_id user_id = counted db_query_menu_items (\<lambda>m. qmi_navigatable_id m = Some query_id)"

definition query_find_visible ::
    "(string \<Rightarrow> 'k::linorder) \<Rightarrow> Id \<Rightarrow> Id option \<Rightarrow> pagination \<Rightarrow> ('j archive, query_with_starred paginated_result) dbop" where
  "query_find_visible coll user_id project_id p =
     and_then (fetch_all (sql_select_page (pg_limit p) (pg_offset p) (visible_rows coll user_id project_id))) (\<lambda>rows.
     and_then (collect_each rows (\<lambda>q.
       and_then (query_is_starred (qur_id q) user_id) (\<lambda>starred. ret \<lparr>qws_query = q, qws_starred = starred\<rparr>))) (\<lambda>items.
     and_then (fetch_one (sql_value (visible_total user_id project_id))) (\<lambda>total.
     ret (paginated_result_new items total p))))"

definition query_find_by_id :: "Id \<Rightarrow> ('j archive, query_row option) dbop" where
  "query_find_by_id = find_row qur_id db_queries"

definition query_find_all :: "(string \<Rightarrow> 'k::linorder) \<Rightarrow> i64 \<Rightarrow> i64 \<Rightarrow> ('j archive, query_row list) dbop" where
  "query_find_all coll limit offset =
     fetch_all (sql_select_page limit offset (\<lambda>d. queries_by_name coll (tb_rows (db_queries d))))"

definition query_count :: "('j archive, i64) dbop" where "query_count = count_of db_queries (\<lambda>_. True)"

definition query_exists :: "Id \<Rightarrow> ('j archive, bool) dbop" where
  "query_exists i = counted db_queries (\<lambda>q. qur_id q = i)"

definition query_not_found :: "Id \<Rightarrow> repository_error" where
  "query_not_found i = RepoNotFound (''Query '' @ show_i64 i @ '' not found'')"

text \<open>\<open>INSERT ... SELECT ... ON CONFLICT DO NOTHING\<close>, with the unique columns of the menu items.\<close>

definition menu_item_of :: "query_row \<Rightarrow> timestamp \<Rightarrow> Id \<Rightarrow> query_menu_item_row" where
  "menu_item_of q now i =
     \<lparr>qmi_id = i, qmi_navigatable_id = Some (qur_id q), qmi_name = Some (qur_name q), qmi_title = Some (qur_name q)\<rparr>"

definition insert_menu_item :: "Id \<Rightarrow> ('j archive, query_menu_item_row) statement" where
  "insert_menu_item query_id now d =
     (case filter (\<lambda>q. qur_id q = query_id) (tb_rows (db_queries d)) of
        [] \<Rightarrow> (Ok [], d)
      | q # _ \<Rightarrow> sql_insert_new qmi_id (\<lambda>m. (qmi_navigatable_id m, qmi_name m)) db_query_menu_items
          db_query_menu_items_update (menu_item_of q) now d)"

definition query_star :: "Id \<Rightarrow> Id \<Rightarrow> ('j archive, unit) dbop" where
  "query_star query_id user_id =
     and_then (query_exists query_id) (\<lambda>found.
     if \<not> found then fail (query_not_found query_id) else execute (insert_menu_item query_id))"

definition query_unstar :: "Id \<Rightarrow> Id \<Rightarrow> ('j archive, unit) dbop" where
  "query_unstar query_id user_id =
     execute (sql_delete db_query_menu_items db_query_menu_items_update (\<lambda>m. qmi_navigatable_id m = Some query_id))"

definition query_find_by_id_with_starred :: "Id \<Rightarrow> Id \<Rightarrow> ('j archive, query_with_starred option) dbop" where
  "query_find_by_id_with_starred i user_id =
     and_then (query_find_by_id i) (\<lambda>query.
     case query of
       Some q \<Rightarrow> and_then (query_is_starred i user_id) (\<lambda>starred. ret (Some \<lparr>qws_query = q, qws_starred = starred\<rparr>))
     | None \<Rightarrow> ret None)"

definition new_query_row :: "create_query_dto \<Rightarrow> timestamp \<Rightarrow> Id \<Rightarrow> query_row" where
  "new_query_row dto now i =
     \<lparr>qur_id = i, qur_project_id = cqu_project_id dto, qur_user_id = cqu_user_id dto, qur_name = cqu_name dto,
      qur_filters = cqu_filters dto, qur_column_names = cqu_column_names dto,
      qur_sort_criteria = cqu_sort_criteria dto, qur_group_by = cqu_group_by dto,
      qur_display_sums = coalesce (cqu_display_sums dto) False,
      qur_show_hierarchies = coalesce (cqu_show_hierarchies dto) True,
      qur_include_subprojects = coalesce (cqu_include_subprojects dto) True,
      qur_timeline_visible = coalesce (cqu_timeline_visible dto) False,
      qur_timestamps = cqu_timestamps dto, qur_created_at = now, qur_updated_at = now\<rparr>"

definition query_name_blank :: repository_error where
  "query_name_blank = RepoValidation ''Name can't be blank''"

definition query_create :: "create_query_dto \<Rightarrow> ('j archive, query_row) dbop" where
  "query_create dto =
     (if trim (cqu_name dto) = [] then fail query_name_blank
      else fetch_one (sql_insert qur_id db_queries db_queries_update (new_query_row dto)))"

definition updated_query_row :: "update_query_dto \<Rightarrow> query_row \<Rightarrow> timestamp \<Rightarrow> query_row \<Rightarrow> query_row" where
  "updated_query_row dto existing now q = q\<lparr>
     qur_name := coalesce (uqu_name dto) (qur_name existing),
     qur_filters := coalesce (uqu_filters dto) (qur_filters existing),
     qur_column_names := coalesce (uqu_column_names dto) (qur_column_names existing),
     qur_sort_criteria := coalesce (uqu_sort_criteria dto) (qur_sort_criteria existing),
     qur_group_by := coalesce (uqu_group_by dto) (qur_group_by existing),
     qur_display_sums := coalesce (uqu_display_sums dto) (qur_display_sums existing),
     qur_show_hierarchies := coalesce (uqu_show_hierarchies dto) (qur_show_hierarchies existing),
     qur_include_subprojects := coalesce (uqu_include_subprojects dto) (qur_include_subprojects existing),
     qur_timeline_visible := coalesce (uqu_timeline_visible dto) (qur_timeline_visible existing),
     qur_timestamps := coalesce (uqu_timestamps dto) (qur_timestamps existing),
     qur_updated_at := now\<rparr>"

definition query_update :: "Id \<Rightarrow> update_query_dto \<Rightarrow> ('j archive, query_row) dbop" where
  "query_update i dto =
     and_then (or_fail (query_not_found i) (query_find_by_id i)) (\<lambda>existing.
     if (case uqu_name dto of Some name \<Rightarrow> trim name = [] | None \<Rightarrow> False) then fail query_name_blank
     else fetch_one (sql_update db_queries db_queries_update (\<lambda>q. qur_id q = i) (updated_query_row dto existing)))"

definition query_delete :: "Id \<Rightarrow> ('j archive, unit) dbop" where
  "query_delete i =
     and_then (query_exists i) (\<lambda>found.
     if \<not> found then fail (query_not_found i)
     else
       and_then (execute (sql_delete db_query_menu_items db_query_menu_items_update (\<lambda>m. qmi_navigatable_id m = Some i))) (\<lambda>_.
       and_then (execute (sql_delete db_views db_views_update (\<lambda>v. vir_query_id v = i))) (\<lambda>_.
       execute (sql_delete db_queries db_queries_update (\<lambda>q. qur_id q = i)))))"

subsection \<open>News\<close>

definition news_find_by_id :: "Id \<Rightarrow> ('j archive, news_row) dbop" where
  "news_find_by_id i =
     or_fail (RepoNotFound (''News with id '' @ show_i64 i @ '' not found'')) (find_row nwr_id db_news i)"

definition latest_news :: "news_row list \<Rightarrow> news_row list" where
  "latest_news = sort_key (\<lambda>n. - nwr_created_at n) \<circ> sort_key (\<lambda>n. - sint (nwr_id n))"

definition news_list_by_project :: "Id \<Rightarrow> pagination \<Rightarrow> ('j archive, news_row paginated_result) dbop" where
  "news_list_by_project project_id p = page_of p db_news (\<lambda>n. nwr_project_id n = Some project_id) latest_news"

subsection \<open>The repository of queries\<close>

interpretation query_rows: keyed_table qur_id "db_queries :: 'j archive \<Rightarrow> _" db_queries_update "\<lambda>_. ()"
  by unfold_locales simp

interpretation menu_items: keyed_table qmi_id "db_query_menu_items :: 'j archive \<Rightarrow> _" db_query_menu_items_update
    "\<lambda>m. (qmi_navigatable_id m, qmi_name m)"
  by unfold_locales simp

abbreviation query_table :: "'j archive \<Rightarrow> bool" where
  "query_table d \<equiv> table_ok qur_id (db_queries d)"

lemma query_row_fields [simp]:
  "qur_id (new_query_row dto now i) = i" "qur_id (updated_query_row u e now q) = qur_id q"
  by (simp_all add: new_query_row_def updated_query_row_def)

lemma query_update_law:
  "triple False (query_rows.start_at d0) (query_update i dto) (\<lambda>r. query_rows.updated_row d0 i r) (query_rows.refused_in d0)"
  unfolding query_update_def query_find_by_id_def
  by (rule triple_then [where R = "\<lambda>_. query_rows.start_at d0"], rule triple_post, rule triple_existing, blast, blast, blast,
      rule triple_if, rule triple_fail, blast, rule triple_weaken, rule query_rows.update_keyed_law(2)) auto

lemma query_delete_law:
  "triple False (query_rows.start_at d0) (query_delete i) (\<lambda>_. query_rows.deleted_row d0 i) (query_rows.refused_in d0)"
proof -
  let ?I = "\<lambda>d. db_queries d = db_queries d0 \<and> table_ok qur_id (db_queries d0) \<and> row_of qur_id (db_queries d0) i \<noteq> None"
  have last: "triple False ?I (execute (sql_delete db_queries db_queries_update (\<lambda>q. qur_id q = i))) (\<lambda>_. query_rows.deleted_row d0 i)
      (query_rows.refused_in d0)"
    by (rule triple_delete(2)) (auto simp: row_of_filter)
  show ?thesis
    unfolding query_delete_def query_exists_def
    by (rule triple_then, rule triple_counted [where idf = qur_id], blast, blast, rule triple_if, rule triple_fail, blast,
        rule triple_then [where R = "\<lambda>_. ?I"], rule triple_delete(2), blast, use row_of_None in \<open>fastforce\<close>,
        rule triple_then [where R = "\<lambda>_. ?I"], rule triple_delete(2), blast, simp, rule last)
qed

interpretation query_repository: repository qur_id query_table "\<lambda>d. row_of qur_id (db_queries d)"
    query_find_by_id query_exists query_create query_update query_delete
proof (unfold_locales, goal_cases)
  case (1 env d i k)
  then show ?case by (simp add: query_find_by_id_def query_rows.run_table)
next
  case (2 env d i k)
  then show ?case by (auto simp: query_exists_def query_rows.run_table row_of_None)
next
  case (3 env d dto k x k' d')
  have "triple False (query_rows.start_at d) (query_create dto) (\<lambda>r. query_rows.created_row d r) (query_rows.refused_in d)"
    unfolding query_create_def
    by (rule triple_if, rule triple_fail, blast, rule triple_weaken, rule query_rows.insert_keyed_law) auto
  from query_rows.quietly(1) [OF 3 this] show ?case .
next
  case (4 env d i dto k x k' d')
  from query_rows.quietly(2) [OF 4 query_update_law] show ?case .
next
  case (5 env d i k y k' d')
  from query_rows.deleted_quietly [OF 5 query_delete_law] show ?case .
qed

subsection \<open>Stars and views of queries\<close>

abbreviation menu_key :: "query_menu_item_row \<Rightarrow> Id option \<times> string option" where
  "menu_key m \<equiv> (qmi_navigatable_id m, qmi_name m)"

definition query_ids :: "'j archive \<Rightarrow> Id set" where
  "query_ids d = set (map qur_id (tb_rows (db_queries d)))"

definition queries_inv :: "'j archive \<Rightarrow> bool" where
  "queries_inv d \<longleftrightarrow> query_table d \<and> keyed_inv qmi_id db_query_menu_items menu_key d \<and>
     (\<forall>m \<in> set (tb_rows (db_query_menu_items d)). \<exists>i \<in> query_ids d. qmi_navigatable_id m = Some i) \<and>
     (\<forall>v \<in> set (tb_rows (db_views d)). vir_query_id v \<in> query_ids d)"

datatype query_request =
  CreateQuery create_query_dto | UpdateQuery Id update_query_dto | DeleteQuery Id | StarQuery Id Id | UnstarQuery Id Id

fun perform_query :: "query_request \<Rightarrow> ('j archive, unit) dbop" where
  "perform_query (CreateQuery dto) = and_then (query_create dto) (\<lambda>_. ret ())"
| "perform_query (UpdateQuery i dto) = and_then (query_update i dto) (\<lambda>_. ret ())"
| "perform_query (DeleteQuery i) = query_delete i"
| "perform_query (StarQuery i u) = query_star i u"
| "perform_query (UnstarQuery i u) = query_unstar i u"

lemma query_ids_simps [simp]:
  "query_ids (db_query_menu_items_update f d) = query_ids d" "query_ids (db_views_update g d) = query_ids d"
  "query_ids (db_queries_update (tb_seq_update Suc) d) = query_ids d"
  "query_ids (db_queries_update (\<lambda>t. t\<lparr>tb_rows := tb_rows t @ [q], tb_seq := n t\<rparr>) d) = insert (qur_id q) (query_ids d)"
  "query_ids (db_queries_update (tb_rows_update (filter (\<lambda>q. qur_id q \<noteq> i))) d) = query_ids d - {i}"
  by (auto simp: query_ids_def)

lemma query_ids_update:
  assumes "\<And>q. qur_id (g q) = qur_id q"
  shows "query_ids (db_queries_update (tb_rows_update (map g)) d) = query_ids d"
proof -
  from assms have "map qur_id (map g qs) = map qur_id qs" for qs by simp
  then show ?thesis by (simp add: query_ids_def del: map_map set_map)
qed

lemma query_create_inv: "triple fl queries_inv (query_create dto) (\<lambda>_. queries_inv) queries_inv"
  unfolding query_create_def
proof (rule triple_if, rule triple_fail, blast, rule triple_insert, goal_cases)
  case (2 d)
  then show ?case by (simp add: queries_inv_def keyed_inv_def)
next
  case (3 d now i)
  then have "queries_inv d" by blast
  with query_rows.table_appended(1) [OF _ 3(2-4), of "new_query_row dto now i"] show ?case
    by (auto simp: queries_inv_def keyed_inv_def)
qed blast

lemma query_update_inv: "triple fl queries_inv (query_update i dto) (\<lambda>_. queries_inv) queries_inv"
proof -
  have inv: "queries_inv (db_queries_update (tb_rows_update (map (\<lambda>r. if qur_id r = i then updated_query_row dto q now r else r))) d)"
    if "queries_inv d" for q now d
  proof -
    let ?f = "\<lambda>r. if qur_id r = i then updated_query_row dto q now r else r"
    have f: "qur_id (?f r) = qur_id r" for r by simp
    from that row_of_map(1) [where idf = qur_id and f = ?f, OF f] show ?thesis
      by (simp add: queries_inv_def keyed_inv_def query_ids_update [where g = ?f, OF f])
  qed
  show ?thesis
    unfolding query_update_def query_find_by_id_def
    by (rule triple_then [where R = "\<lambda>_. queries_inv"], rule triple_post, rule triple_existing, simp add: queries_inv_def, blast, blast,
        rule triple_if, rule triple_fail, blast, rule triple_update_one) (auto intro: inv)
qed

lemma query_delete_inv: "triple fl queries_inv (query_delete i) (\<lambda>_. queries_inv) queries_inv"
proof -
  let ?no_items = "\<lambda>d. queries_inv d \<and> (\<forall>m \<in> set (tb_rows (db_query_menu_items d)). qmi_navigatable_id m \<noteq> Some i)"
  let ?no_views = "\<lambda>d. ?no_items d \<and> (\<forall>v \<in> set (tb_rows (db_views d)). vir_query_id v \<noteq> i)"
  have a: "?no_items (db_query_menu_items_update (tb_rows_update (filter (\<lambda>m. qmi_navigatable_id m \<noteq> Some i))) d)" if "queries_inv d" for d
    using that by (auto simp: queries_inv_def keyed_inv_def unique_by_filter table_ok_def distinct_map_filter)
  have b: "?no_views (db_views_update (tb_rows_update (filter (\<lambda>v. vir_query_id v \<noteq> i))) d)" if "?no_items d" for d
    using that by (auto simp: queries_inv_def keyed_inv_def)
  have c: "queries_inv (db_queries_update (tb_rows_update (filter (\<lambda>q. qur_id q \<noteq> i))) d)" if "?no_views d" for d
    using that row_of_filter(1) [of qur_id "db_queries d" i] by (fastforce simp: queries_inv_def keyed_inv_def)
  show ?thesis
    unfolding query_delete_def query_exists_def
    by (rule triple_then, rule counted_keep, assumption, rule triple_if, rule triple_fail, blast,
        rule triple_then [where R = "\<lambda>_. ?no_items"], rule triple_delete(2), blast, rule a, blast,
        rule triple_then [where R = "\<lambda>_. ?no_views"], rule triple_delete(2), blast, rule b, blast,
        rule triple_delete(2), blast, rule c, blast)
qed

lemma query_star_inv: "triple fl queries_inv (query_star i u) (\<lambda>_. queries_inv) queries_inv"
proof -
  have st: "case insert_menu_item i now d of (r, d') \<Rightarrow> (case r of Inl e \<Rightarrow> queries_inv d' | Inr x \<Rightarrow> queries_inv d')"
    if inv: "queries_inv d" for now and d :: "'a archive"
  proof (cases "filter (\<lambda>q. qur_id q = i) (tb_rows (db_queries d))")
    case (Cons q qs)
    then have q: "q \<in> set (tb_rows (db_queries d))" by (metis filter_eq_ConsD in_set_conv_decomp)
    let ?t = "db_query_menu_items d" and ?j = "word_of_nat (tb_seq (db_query_menu_items d)) :: Id"
    let ?m = "menu_item_of q now ?j"
    have "queries_inv (db_query_menu_items_update (\<lambda>t. t\<lparr>tb_rows := tb_rows t @ [?m], tb_seq := Suc (tb_seq t)\<rparr>) d)"
      if new: "?j \<notin> qmi_id ` set (tb_rows ?t)" "menu_key ?m \<notin> menu_key ` set (tb_rows ?t)" "tb_seq ?t < 2 ^ 63"
    proof -
      have "table_ok qmi_id (?t\<lparr>tb_rows := tb_rows ?t @ [?m], tb_seq := Suc (tb_seq ?t)\<rparr>)"
        using inv by (intro menu_items.table_appended(1) [OF _ new(1,3) refl]) (simp_all add: queries_inv_def keyed_inv_def menu_item_of_def)
      moreover have "unique_by qmi_id (\<lambda>_. True) menu_key (?t\<lparr>tb_rows := tb_rows ?t @ [?m]\<rparr>)"
        by (rule unique_by_append) (use inv new(2) in \<open>auto simp: queries_inv_def keyed_inv_def image_iff\<close>)
      moreover from q have "qur_id q \<in> query_ids d" by (simp add: query_ids_def)
      ultimately show ?thesis using inv by (auto simp: queries_inv_def keyed_inv_def menu_item_of_def)
    qed
    with Cons inv show ?thesis
      by (auto simp: insert_menu_item_def sql_insert_new_def Let_def queries_inv_def keyed_inv_def)
  qed (use inv in \<open>simp add: insert_menu_item_def\<close>)
  show ?thesis
    unfolding query_star_def query_exists_def execute_def
    by (rule triple_then, rule counted_keep, assumption, rule triple_if, rule triple_fail, blast,
        rule triple_then [where R = "\<lambda>_. queries_inv"], rule triple_statement, blast, rule st, blast, rule triple_ret)
qed

lemma perform_query_inv: "triple fl queries_inv (perform_query q) (\<lambda>_. queries_inv) queries_inv"
proof (cases q)
  case (UnstarQuery i u)
  have "queries_inv (db_query_menu_items_update (tb_rows_update (filter g)) d)" if "queries_inv d" for g and d :: "'a archive"
    using that by (auto simp: queries_inv_def keyed_inv_def unique_by_filter table_ok_def distinct_map_filter)
  with UnstarQuery show ?thesis by (simp add: query_unstar_def) (rule triple_delete(2), auto)
qed (auto intro: triple_unit query_create_inv query_update_inv query_delete_inv query_star_inv)

text \<open>
  C28. Saved queries.  As long as requests come one after the other, every star and every view belongs to a
  query that exists, and no query is starred twice under one name, even if statements fail: a deletion that is
  cut off may lose the stars of a query, but leaves none behind.
\<close>

theorem saved_queries_consistent:
  assumes "calm True env" "queries_inv d"
  shows "queries_inv (snd (history perform_query qs env (k, d)))"
  by (rule history_calm [OF assms(1) perform_query_inv assms(2)])

definition sample_query :: create_query_dto where
  "sample_query = \<lparr>cqu_project_id = None, cqu_user_id = 1, cqu_name = ''mine'', cqu_filters = None, cqu_column_names = None,
     cqu_sort_criteria = None, cqu_group_by = None, cqu_display_sums = None, cqu_show_hierarchies = None,
     cqu_include_subprojects = None, cqu_timeline_visible = None, cqu_timestamps = None\<rparr>"

definition query_run :: "query_request list" where
  "query_run = [CreateQuery sample_query, StarQuery 1 1, StarQuery 1 2]"

lemma trim_mine: "trim ''mine'' = ''mine''" by code_simp

lemma run_star_new:
  "quiet env \<Longrightarrow> execute (insert_menu_item i) env (k, d) =
     (case insert_menu_item i (tn_now (env k)) d of (Inl e, d') \<Rightarrow> (Err (RepoDatabase e), Suc k, d') | (Inr x, d') \<Rightarrow> (Ok (), Suc k, d'))"
  by (auto simp: execute_def run_statement_def and_then_def ret_def quiet_def split: sum.split prod.split)

theorem saved_queries_consistent_witness:
  "queries_inv (snd (history perform_query query_run (alone 0) (0, empty_archive :: unit archive))) \<and>
   map qmi_navigatable_id (tb_rows (db_query_menu_items (snd (history perform_query query_run (alone 0)
     (0, empty_archive :: unit archive))))) = [Some 1]"
proof
  have "queries_inv (empty_archive :: unit archive)"
    by (simp add: queries_inv_def keyed_inv_def empty_archive_def empty_database_def database.defs archive.defs empty_table_def
        table_ok_def unique_by_def)
  from saved_queries_consistent [OF calm_envs(3) this]
  show "queries_inv (snd (history perform_query query_run (alone 0) (0, empty_archive :: unit archive)))" .
  show "map qmi_navigatable_id (tb_rows (db_query_menu_items (snd (history perform_query query_run (alone 0)
     (0, empty_archive :: unit archive))))) = [Some 1]"
    by (simp add: query_run_def query_create_def query_star_def query_exists_def counted_def run_simps run_star_new insert_menu_item_def
        sql_insert_new_def menu_item_of_def sample_query_def new_query_row_def trim_mine empty_archive_def empty_database_def
        empty_table_def database.defs archive.defs Let_def)
qed

text \<open>A star of one user is a star of all: the user is not looked at.\<close>

theorem stars_are_shared:
  "query_is_starred i u = query_is_starred i v" "query_star i u = query_star i v" "query_unstar i u = query_unstar i v"
  by (simp_all add: query_is_starred_def query_star_def query_unstar_def)

text \<open>A query with two views is listed twice, and counted once.\<close>

definition two_views :: "unit archive" where
  "two_views = empty_archive\<lparr>db_queries := \<lparr>tb_rows = [new_query_row sample_query 0 1], tb_seq = 2\<rparr>,
     db_views := \<lparr>tb_rows = [\<lparr>vir_id = 1, vir_query_id = 1, vir_type = ''Views::WorkPackagesTable''\<rparr>,
       \<lparr>vir_id = 2, vir_query_id = 1, vir_type = ''Views::TeamPlanner''\<rparr>], tb_seq = 3\<rparr>\<rparr>"

theorem visible_queries_repeat:
  "map qur_id (visible_rows (\<lambda>_. 0 :: nat) 1 None two_views) = [1, 1] \<and> visible_total 1 None two_views = 1"
  by (simp add: visible_rows_def visible_total_def views_joined_def may_see_def two_views_def new_query_row_def sample_query_def)

end
