(* ===== verification/Ordered_Maps.thy ===== *)
theory Ordered_Maps
  imports Pagination "HOL-Library.Char_ord" "HOL-Library.List_Lexorder"
begin

section \<open>Ordered maps and string patterns\<close>

text \<open>
  The \<open>BTreeMap\<close> and \<open>BTreeSet\<close> of Rust's standard library: lists sorted by the key, without
  repeated keys, so that iterating is reading the list (strings are ordered by their bytes).  Then what
  the code generation uses of \<open>str\<close>: prefixes, suffixes, the last part of a split, the case of letters.
  Last, folds over lists with repeated neighbours.
\<close>

named_theorems bt_simps \<open>laws of the ordered maps\<close>

fun bt_insert :: "'k::linorder \<Rightarrow> 'v \<Rightarrow> ('k \<times> 'v) list \<Rightarrow> ('k \<times> 'v) list" where
  "bt_insert k v [] = [(k, v)]"
| "bt_insert k v ((a, b) # m) =
     (if k < a then (k, v) # (a, b) # m else if k = a then (k, v) # m else (a, b) # bt_insert k v m)"

text \<open>\<open>entry(k).or_insert(v)\<close>: nothing happens to a key that is there.\<close>

definition bt_or_insert :: "'k::linorder \<Rightarrow> 'v \<Rightarrow> ('k \<times> 'v) list \<Rightarrow> ('k \<times> 'v) list" where
  "bt_or_insert k v m = (case map_of m k of Some _ \<Rightarrow> m | None \<Rightarrow> bt_insert k v m)"

text \<open>A change through \<open>get_mut(k)\<close>.\<close>

definition bt_change :: "'k \<Rightarrow> ('v \<Rightarrow> 'v) \<Rightarrow> ('k \<times> 'v) list \<Rightarrow> ('k \<times> 'v) list" where
  "bt_change k f m = map (\<lambda>(a, b). (a, if a = k then f b else b)) m"

text \<open>\<open>collect\<close> into a map: of two values for one key, the later one stays.\<close>

definition bt_collect :: "('k::linorder \<times> 'v) list \<Rightarrow> ('k \<times> 'v) list" where
  "bt_collect kvs = fold (\<lambda>(k, v). bt_insert k v) kvs []"

text \<open>\<open>entry(k).or_default().insert(x)\<close> on a map of sets.\<close>

definition bt_add :: "'k::linorder \<Rightarrow> 'x::linorder \<Rightarrow> ('k \<times> 'x list) list \<Rightarrow> ('k \<times> 'x list) list" where
  "bt_add k x m = bt_insert k (insort_insert x (case map_of m k of Some xs \<Rightarrow> xs | None \<Rightarrow> [])) m"

definition bt_ok :: "('k::linorder \<times> 'v) list \<Rightarrow> bool" where
  "bt_ok m \<longleftrightarrow> sorted_wrt (<) (map fst m)"

lemma bt_get_insert [bt_simps, simp]: "map_of (bt_insert k v m) = (map_of m)(k \<mapsto> v)"
  by (induction m) auto

lemma bt_keys_insert [bt_simps, simp]: "fst ` set (bt_insert k v m) = insert k (fst ` set m)"
  unfolding dom_map_of_conv_image_fst [symmetric] by simp

lemma bt_insert_set: "set (bt_insert k v m) \<subseteq> insert (k, v) (set m)"
  by (induction m) (auto split: if_splits)

lemma bt_insert_new: "map_of m k = None \<Longrightarrow> set (bt_insert k v m) = insert (k, v) (set m)"
  by (induction m) (auto split: if_splits)

lemma bt_ok_Nil [simp]: "bt_ok []"
  by (simp add: bt_ok_def)

lemma bt_ok_Cons: "bt_ok ((a, b) # m) \<longleftrightarrow> (\<forall>x \<in> fst ` set m. a < x) \<and> bt_ok m"
  by (auto simp: bt_ok_def)

lemma bt_ok_insert [bt_simps, simp]: "bt_ok m \<Longrightarrow> bt_ok (bt_insert k v m)"
  by (induction m rule: bt_insert.induct) (auto simp: bt_ok_Cons)

lemma bt_ok_distinct: "bt_ok m \<Longrightarrow> distinct (map fst m)"
  by (simp add: bt_ok_def strict_sorted_iff)

lemma bt_or_insert_simps [bt_simps, simp]:
  "fst ` set (bt_or_insert k v m) = insert k (fst ` set m)"
  "bt_ok m \<Longrightarrow> bt_ok (bt_or_insert k v m)"
  by (auto simp: bt_or_insert_def insert_absorb map_of_eq_None_iff intro: rev_image_eqI dest: map_of_SomeD split: option.split)

lemma bt_change_keys [bt_simps, simp]: "map fst (bt_change k f m) = map fst m"
  by (simp add: bt_change_def case_prod_beta)

lemma bt_ok_change [bt_simps, simp]: "bt_ok (bt_change k f m) \<longleftrightarrow> bt_ok m"
  by (simp add: bt_ok_def)

lemma bt_get_change [bt_simps, simp]:
  "map_of (bt_change k f m) a = (if a = k then map_option f (map_of m a) else map_of m a)"
  by (induction m) (auto simp: bt_change_def)

lemma bt_change_twice: "bt_change k f (bt_change k g m) = bt_change k (f \<circ> g) m"
  by (auto simp: bt_change_def)

lemma bt_insert_twice [simp]: "bt_insert k v (bt_insert k v m) = bt_insert k v m"
  by (induction m) auto

lemma bt_or_insert_twice [simp]: "bt_or_insert k v (bt_or_insert k v m) = bt_or_insert k v m"
  by (simp add: bt_or_insert_def split: option.split)

lemma insort_insert_twice [simp]: "insort_insert x (insort_insert x xs) = insort_insert x xs"
  by (simp add: insort_insert_key_def set_insort_key)

lemma bt_insert_again: "bt_insert k v (bt_insert k w m) = bt_insert k v m"
  by (induction m) auto

lemma bt_add_twice [simp]: "bt_add k x (bt_add k x m) = bt_add k x m"
  by (simp add: bt_add_def bt_insert_again)

lemma bt_change_values: "v \<in> snd ` set (bt_change k f m) \<Longrightarrow> v \<in> snd ` set m \<or> (\<exists>w \<in> snd ` set m. v = f w)"
  by (force simp: bt_change_def)

lemma bt_change_map:
  assumes "\<And>v. map_of m k = Some v \<Longrightarrow> g (f v) = g v" "distinct (map fst m)"
  shows "map (g \<circ> snd) (bt_change k f m) = map (g \<circ> snd) m"
proof -
  have "g (f b) = g b" if "(k, b) \<in> set m" for b using assms(1) [of b] that assms(2) by simp
  then show ?thesis by (auto simp: bt_change_def)
qed

lemma bt_change_id: "(\<And>v. map_of m k = Some v \<Longrightarrow> f v = v) \<Longrightarrow> distinct (map fst m) \<Longrightarrow> bt_change k f m = m"
  unfolding bt_change_def by (intro map_idI) (auto simp: case_prod_beta prod_eq_iff)

lemma bt_change_const_id: "map_of m k = Some v \<Longrightarrow> distinct (map fst m) \<Longrightarrow> bt_change k (\<lambda>_. v) m = m"
  by (rule bt_change_id) auto

subsection \<open>Patterns in strings\<close>

definition strip_prefix :: "string \<Rightarrow> string \<Rightarrow> string option" where
  "strip_prefix p s = (if starts_with s p then Some (drop (length p) s) else None)"

definition ends_with :: "string \<Rightarrow> string \<Rightarrow> bool" where
  "ends_with s p \<longleftrightarrow> starts_with (rev s) (rev p)"

text \<open>\<open>rsplit(c).next()\<close> for a character and for a text.\<close>

definition last_part :: "char \<Rightarrow> string \<Rightarrow> string" where
  "last_part c s = last (split_char c s)"

fun after_last :: "string \<Rightarrow> string \<Rightarrow> string option" where
  "after_last p [] = None"
| "after_last p (c # s) =
     (case after_last p s of
        Some r \<Rightarrow> Some r
      | None \<Rightarrow> if starts_with (c # s) p then Some (drop (length p) (c # s)) else None)"

definition is_ascii_upper :: "char \<Rightarrow> bool" where
  "is_ascii_upper c \<longleftrightarrow> byte_in 65 90 c"

definition is_ascii_word :: "char \<Rightarrow> bool" where
  "is_ascii_word c \<longleftrightarrow> byte_in 48 57 c \<or> byte_in 65 90 c \<or> byte_in 97 122 c \<or> c = CHR ''_''"

text \<open>
  The first character of a string in upper case.  ASCII letters are mapped here; what the upper case of
  another character is, is a parameter.
\<close>

definition first_char_length :: "string \<Rightarrow> nat" where
  "first_char_length s =
     (case s of [] \<Rightarrow> 0
      | c # _ \<Rightarrow> if byte_in 0 191 c then 1 else if byte_in 192 223 c then 2 else if byte_in 224 239 c then 3 else 4)"

definition char_upper :: "(string \<Rightarrow> string) \<Rightarrow> string \<Rightarrow> string" where
  "char_upper upper ch =
     (case ch of [c] \<Rightarrow> [if byte_in 97 122 c then char_of (of_char c - 32 :: nat) else c] | _ \<Rightarrow> upper ch)"

definition capitalize :: "(string \<Rightarrow> string) \<Rightarrow> string \<Rightarrow> string" where
  "capitalize upper s =
     (if s = [] then [] else char_upper upper (take (first_char_length s) s) @ drop (first_char_length s) s)"

subsection \<open>Repeated neighbours\<close>

lemma fold_remdups_adj:
  assumes "I s" "\<And>x s. I s \<Longrightarrow> I (f x s)" "\<And>x s. I s \<Longrightarrow> f x (f x s) = f x s"
  shows "fold f (remdups_adj xs) s = fold f xs s"
  using assms(1) by (induction xs arbitrary: s rule: remdups_adj.induct) (auto simp: assms(2,3))

lemma remdups_adj_snoc:
  "remdups_adj (xs @ [x]) = (if xs \<noteq> [] \<and> last xs = x then remdups_adj xs else remdups_adj xs @ [x])"
  by (induction xs rule: remdups_adj.induct) auto

lemma last_remdups_adj [simp]: "last (remdups_adj xs) = last xs"
  by (induction xs rule: remdups_adj.induct) auto

lemma remdups_adj_again: "remdups_adj (remdups_adj xs) = remdups_adj xs"
  by (induction xs rule: rev_induct) (auto simp: remdups_adj_snoc)

lemma remdups_adj_pair: "remdups_adj (xs @ [x, x]) = remdups_adj (xs @ [x])"
  using remdups_adj_snoc [of "xs @ [x]" x] by simp

lemma remdups_adj_then: "remdups_adj (remdups_adj xs @ [x]) = remdups_adj (xs @ [x])"
  by (simp add: remdups_adj_snoc remdups_adj_again)

text \<open>\<open>retain\<close> with a set of what has been seen: the first of equal elements stays.\<close>

definition dedup_first :: "'a list \<Rightarrow> 'a list" where
  "dedup_first xs = rev (remdups (rev xs))"

lemma dedup_first_set [simp]: "set (dedup_first xs) = set xs"
  by (simp add: dedup_first_def)

lemma dedup_first_distinct [simp]: "distinct (dedup_first xs)"
  by (simp add: dedup_first_def)

lemma dedup_first_snoc [simp]:
  "dedup_first (xs @ [x]) = (if x \<in> set xs then dedup_first xs else dedup_first xs @ [x])"
  by (simp add: dedup_first_def)

lemma dedup_first_Nil [simp]: "dedup_first [] = []"
  by (simp add: dedup_first_def)

end
