(* ===== verification/Surreal_Ast.thy ===== *)
theory Surreal_Ast
  imports Ordered_Maps Sql_Text "HOL-Library.Monad_Syntax"
begin

section \<open>Schema definitions and their SurrealQL text\<close>

text \<open>
  \<open>op-surreal-ast/src/lib.rs\<close>: the definitions of tables, fields and indices that the code generation
  makes of the models, and the text that declares them to the database.  A writer that appends to a string
  is the string it appends.
\<close>

datatype sql_format = SingleLine | Indented "8 word"

datatype kind =
    KAny | KInt | KString | KBool | KFloat | KDecimal | KDatetime | KBytes | KUuid
  | KRecord "string list" | KOption kind

definition kind_optional :: "kind \<Rightarrow> kind" where
  "kind_optional k = (case k of KOption _ \<Rightarrow> k | other \<Rightarrow> KOption other)"

definition from_rails_type :: "string \<Rightarrow> kind option" where
  "from_rails_type rails_type =
     (if rails_type \<in> {''integer'', ''bigint''} then Some KInt
      else if rails_type = ''big_integer'' then Some KDecimal
      else if rails_type \<in> {''string'', ''text'', ''immutable_string''} then Some KString
      else if rails_type = ''boolean'' then Some KBool
      else if rails_type = ''float'' then Some KFloat
      else if rails_type \<in> {''decimal'', ''numeric''} then Some KDecimal
      else if rails_type \<in> {''datetime'', ''timestamp'', ''date'', ''time''} then Some KDatetime
      else if rails_type = ''binary'' then Some KBytes
      else if rails_type = ''uuid'' then Some KUuid
      else None)"

fun kind_fmt_sql :: "sql_format \<Rightarrow> kind \<Rightarrow> string" where
  "kind_fmt_sql fmt KAny = ''any''"
| "kind_fmt_sql fmt KInt = ''int''"
| "kind_fmt_sql fmt KString = ''string''"
| "kind_fmt_sql fmt KBool = ''bool''"
| "kind_fmt_sql fmt KFloat = ''float''"
| "kind_fmt_sql fmt KDecimal = ''decimal''"
| "kind_fmt_sql fmt KDatetime = ''datetime''"
| "kind_fmt_sql fmt KBytes = ''bytes''"
| "kind_fmt_sql fmt KUuid = ''uuid''"
| "kind_fmt_sql fmt (KRecord targets) = ''record<'' @ join ''|'' targets @ ''>''"
| "kind_fmt_sql fmt (KOption inner) = ''option<'' @ kind_fmt_sql fmt inner @ ''>''"

record field_definition =
  fd_name :: string
  fd_table :: string
  fd_kind :: kind
  fd_assert :: "string option"

definition field_definition_new :: "string \<Rightarrow> string \<Rightarrow> kind \<Rightarrow> field_definition" where
  "field_definition_new name table kind = \<lparr>fd_name = name, fd_table = table, fd_kind = kind, fd_assert = None\<rparr>"

definition field_with_assert :: "string option \<Rightarrow> field_definition \<Rightarrow> field_definition" where
  "field_with_assert expr f = f\<lparr>fd_assert := expr\<rparr>"

definition field_fmt_sql :: "sql_format \<Rightarrow> field_definition \<Rightarrow> string" where
  "field_fmt_sql fmt f =
     ''DEFINE FIELD '' @ fd_name f @ '' ON TABLE '' @ fd_table f @ '' TYPE '' @ kind_fmt_sql fmt (fd_kind f) @
     (case fd_assert f of Some expr \<Rightarrow> '' ASSERT '' @ expr | None \<Rightarrow> []) @ '';'' @ [CHR 0x0A]"

record index_definition =
  ix_name :: string
  ix_table :: string
  ix_fields :: "string list"
  ix_unique :: bool

definition index_definition_new :: "string \<Rightarrow> string \<Rightarrow> string list \<Rightarrow> index_definition" where
  "index_definition_new name table field_names = \<lparr>ix_name = name, ix_table = table, ix_fields = field_names, ix_unique = False\<rparr>"

definition index_unique :: "index_definition \<Rightarrow> index_definition" where
  "index_unique i = i\<lparr>ix_unique := True\<rparr>"

definition follows_field :: "index_definition \<Rightarrow> string \<Rightarrow> bool" where
  "follows_field i field_name \<longleftrightarrow> length (ix_fields i) = 1 \<and> ix_fields i ! 0 = field_name"

definition index_fmt_sql :: "sql_format \<Rightarrow> index_definition \<Rightarrow> string" where
  "index_fmt_sql fmt i =
     ''DEFINE INDEX '' @ ix_name i @ '' ON TABLE '' @ ix_table i @ '' FIELDS '' @ join '', '' (ix_fields i) @
     (if ix_unique i then '' UNIQUE'' else []) @ '';'' @ [CHR 0x0A]"

datatype table_type = NormalTable

record table_definition =
  td_name :: string
  td_drop :: bool
  td_schemafull :: bool
  td_comment :: "string option"
  td_table_type :: table_type
  td_fields :: "field_definition list"
  td_indices :: "index_definition list"

definition table_definition_new :: "string \<Rightarrow> table_definition" where
  "table_definition_new name =
     \<lparr>td_name = name, td_drop = False, td_schemafull = True, td_comment = None, td_table_type = NormalTable,
      td_fields = [], td_indices = []\<rparr>"

definition table_with_field :: "field_definition \<Rightarrow> table_definition \<Rightarrow> table_definition" where
  "table_with_field f t = t\<lparr>td_fields := td_fields t @ [f]\<rparr>"

definition table_with_index :: "index_definition \<Rightarrow> table_definition \<Rightarrow> table_definition" where
  "table_with_index i t = t\<lparr>td_indices := td_indices t @ [i]\<rparr>"

definition table_with_comment :: "string option \<Rightarrow> table_definition \<Rightarrow> table_definition" where
  "table_with_comment c t = t\<lparr>td_comment := c\<rparr>"

definition table_fmt_sql :: "sql_format \<Rightarrow> table_definition \<Rightarrow> string" where
  "table_fmt_sql fmt t =
     ''DEFINE TABLE '' @ td_name t @ (if td_schemafull t then '' SCHEMAFULL'' else []) @
     (case td_comment t of
        Some c \<Rightarrow> '' COMMENT '' @ [CHR 39] @ replace_char (CHR 39) [CHR 39, CHR 39] c @ [CHR 39]
      | None \<Rightarrow> []) @ '';'' @ [CHR 0x0A] @
     concat (map (\<lambda>field. field_fmt_sql fmt field @
       concat (map (index_fmt_sql fmt) (filter (\<lambda>i. follows_field i (fd_name field)) (td_indices t)))) (td_fields t))"

record schema =
  sch_tables :: "table_definition list"

definition schema_new :: schema where "schema_new = \<lparr>sch_tables = []\<rparr>"

definition schema_with_table :: "table_definition \<Rightarrow> schema \<Rightarrow> schema" where
  "schema_with_table t s = s\<lparr>sch_tables := sch_tables s @ [t]\<rparr>"

definition schema_fmt_sql :: "sql_format \<Rightarrow> schema \<Rightarrow> string" where
  "schema_fmt_sql fmt s = concat (map (table_fmt_sql fmt) (sch_tables s))"

text \<open>The two default methods of the trait \<open>ToSql\<close>, over the writer of a type.\<close>

definition to_sql :: "(sql_format \<Rightarrow> 'a \<Rightarrow> string) \<Rightarrow> 'a \<Rightarrow> string" where
  "to_sql fmt_sql x = fmt_sql SingleLine x"

definition to_sql_pretty :: "(sql_format \<Rightarrow> 'a \<Rightarrow> string) \<Rightarrow> 'a \<Rightarrow> string" where
  "to_sql_pretty fmt_sql x = fmt_sql (Indented 0) x"

subsection \<open>Kinds\<close>

text \<open>The reader of field types: the specification that the printing of kinds is measured against.\<close>

fun clean_kind :: "kind \<Rightarrow> bool" where
  "clean_kind (KRecord targets) \<longleftrightarrow> targets \<noteq> [] \<and> list_all (\<lambda>t. CHR ''|'' \<notin> set t) targets"
| "clean_kind (KOption k) \<longleftrightarrow> clean_kind k"
| "clean_kind _ \<longleftrightarrow> True"

definition between_text :: "string \<Rightarrow> string \<Rightarrow> string option" where
  "between_text p s =
     (case strip_prefix p s of Some r \<Rightarrow> strip_suffix r ''>'' | None \<Rightarrow> None)"

lemma between_text_length: "between_text p s = Some r \<Longrightarrow> p \<noteq> [] \<Longrightarrow> length r < length s"
  by (cases p; cases s)
    (auto simp: between_text_def strip_prefix_def strip_suffix_def starts_with_def split: option.splits if_splits)

lemma between_text_same [simp]: "between_text p (p @ s @ ''>'') = Some s"
  by (simp add: between_text_def strip_prefix_def strip_suffix_def)

definition plain_kinds :: "(string \<times> kind) list" where
  "plain_kinds = [(''any'', KAny), (''int'', KInt), (''string'', KString), (''bool'', KBool), (''float'', KFloat),
     (''decimal'', KDecimal), (''datetime'', KDatetime), (''bytes'', KBytes), (''uuid'', KUuid)]"

function read_kind :: "string \<Rightarrow> kind option" where
  "read_kind s =
     (case map_of plain_kinds s of
        Some k \<Rightarrow> Some k
      | None \<Rightarrow> (case between_text ''record<'' s of
          Some r \<Rightarrow> Some (KRecord (split_char CHR ''|'' r))
        | None \<Rightarrow> (case between_text ''option<'' s of
            Some r \<Rightarrow> map_option KOption (read_kind r)
          | None \<Rightarrow> None)))"
  by pat_completeness auto
termination
  by (relation "measure length") (auto dest: between_text_length)

declare read_kind.simps [simp del]

lemma read_kind_printed: "clean_kind k \<Longrightarrow> read_kind (kind_fmt_sql fmt k) = Some k"
proof (induction k)
  case (KRecord targets)
  then show ?case
    using between_text_same [of "''record<''" "join ''|'' targets"]
    by (subst read_kind.simps) (simp add: plain_kinds_def split_char_join list_all_iff)
next
  case (KOption k)
  have "between_text ''record<'' (''option<'' @ kind_fmt_sql fmt k @ ''>'') = None"
    by (simp add: between_text_def strip_prefix_def)
  moreover have "map_of plain_kinds (''option<'' @ kind_fmt_sql fmt k @ ''>'') = None"
    by (simp add: plain_kinds_def)
  ultimately show ?case
    using KOption between_text_same [of "''option<''" "kind_fmt_sql fmt k"]
    by (subst read_kind.simps) simp
qed (subst read_kind.simps, simp add: plain_kinds_def)+

lemma kind_optional_simps [simp]:
  "kind_optional (kind_optional k) = kind_optional k"
  "clean_kind (kind_optional k) = clean_kind k"
  by (cases k; simp add: kind_optional_def)+

subsection \<open>The text of a schema\<close>

text \<open>
  The statements of a table: the one that declares it, then for each field its declaration and those of
  the indices over exactly this field.
\<close>

definition single_indices :: "table_definition \<Rightarrow> field_definition \<Rightarrow> index_definition list" where
  "single_indices t f = filter (\<lambda>i. ix_fields i = [fd_name f]) (td_indices t)"

lemma follows_field_iff: "follows_field i n \<longleftrightarrow> ix_fields i = [n]"
  by (auto simp: follows_field_def length_Suc_conv)

lemma format_irrelevant:
  "kind_fmt_sql fmt k = kind_fmt_sql SingleLine k" "field_fmt_sql fmt f = field_fmt_sql SingleLine f"
  "index_fmt_sql fmt i = index_fmt_sql SingleLine i" "table_fmt_sql fmt t = table_fmt_sql SingleLine t"
proof -
  show k: "kind_fmt_sql fmt k = kind_fmt_sql SingleLine k" for k by (induction k) simp_all
  then show f: "field_fmt_sql fmt f = field_fmt_sql SingleLine f" for f by (simp add: field_fmt_sql_def k)
  show i: "index_fmt_sql fmt i = index_fmt_sql SingleLine i" for i by (simp add: index_fmt_sql_def)
  show "table_fmt_sql fmt t = table_fmt_sql SingleLine t"
    unfolding table_fmt_sql_def using f i by presburger
qed

lemma to_sql_eq: "to_sql w = w SingleLine"
  by (simp add: to_sql_def fun_eq_iff)

lemma table_text:
  "table_fmt_sql fmt t =
     ''DEFINE TABLE '' @ td_name t @ (if td_schemafull t then '' SCHEMAFULL'' else []) @
     (case td_comment t of Some c \<Rightarrow> '' COMMENT '' @ quoted (escape_string c) | None \<Rightarrow> []) @ '';'' @ [CHR 0x0A] @
     concat (map (\<lambda>f. field_fmt_sql fmt f @ concat (map (index_fmt_sql fmt) (single_indices t f))) (td_fields t))"
  by (simp add: table_fmt_sql_def follows_field_iff single_indices_def quoted_def escape_string_def split: option.split)

text \<open>What the text says when it is read with the literals of SQL.\<close>

definition table_pieces :: "table_definition \<Rightarrow> sql_piece list" where
  "table_pieces t =
     code (''DEFINE TABLE '' @ td_name t @ (if td_schemafull t then '' SCHEMAFULL'' else [])) @
     (case td_comment t of Some c \<Rightarrow> code '' COMMENT '' @ [Lit c] | None \<Rightarrow> []) @
     code ('';'' @ [CHR 0x0A] @
       concat (map (\<lambda>f. to_sql field_fmt_sql f @ concat (map (to_sql index_fmt_sql) (single_indices t f))) (td_fields t)))"

definition quote_free_kind :: "kind \<Rightarrow> bool" where
  "quote_free_kind k \<longleftrightarrow> no_quote (to_sql kind_fmt_sql k)"

definition quote_free_table :: "table_definition \<Rightarrow> bool" where
  "quote_free_table t \<longleftrightarrow> no_quote (td_name t) \<and>
     list_all (\<lambda>f. no_quote (fd_name f) \<and> no_quote (fd_table f) \<and> quote_free_kind (fd_kind f) \<and>
       (\<forall>e. fd_assert f = Some e \<longrightarrow> no_quote e)) (td_fields t) \<and>
     list_all (\<lambda>i. no_quote (ix_name i) \<and> no_quote (ix_table i) \<and> list_all no_quote (ix_fields i)) (td_indices t)"

lemma quote_free_body:
  assumes "quote_free_table t"
  shows "no_quote (concat (map (\<lambda>f. field_fmt_sql SingleLine f @
    concat (map (index_fmt_sql SingleLine) (single_indices t f))) (td_fields t)))"
proof -
  have "no_quote (field_fmt_sql SingleLine f)" if "f \<in> set (td_fields t)" for f
    using that assms by (auto simp: quote_free_table_def quote_free_kind_def to_sql_def field_fmt_sql_def list_all_iff
      no_quote_def split: option.split)
  moreover have "no_quote (index_fmt_sql SingleLine i)" if "i \<in> set (single_indices t f)" for i f
    using that assms by (auto simp: quote_free_table_def single_indices_def index_fmt_sql_def list_all_iff no_quote_def)
  ultimately show ?thesis by (auto simp: no_quote_def)
qed

lemma table_renders:
  assumes "quote_free_table t"
  shows "renders (to_sql table_fmt_sql t) (table_pieces t)"
proof -
  let ?head = "''DEFINE TABLE '' @ td_name t @ (if td_schemafull t then '' SCHEMAFULL'' else [])"
  let ?body = "'';'' @ [CHR 0x0A] @ concat (map (\<lambda>f. field_fmt_sql SingleLine f @
    concat (map (index_fmt_sql SingleLine) (single_indices t f))) (td_fields t))"
  have head: "no_quote ?head" using assms by (simp add: quote_free_table_def)
  have body: "no_quote ?body" using quote_free_body [OF assms] by (simp add: no_quote_def)
  show ?thesis
  proof (cases "td_comment t")
    case None
    have "renders (?head @ ?body) (code ?head @ code ?body)"
      by (intro renders_code_then renders_code head body)
    with None show ?thesis by (cases "td_schemafull t") (simp_all add: to_sql_eq table_text table_pieces_def)
  next
    case (Some c)
    have "renders (quoted (escape_string c) @ ?body) ([Lit c] @ code ?body)"
      by (intro renders_then_code renders_quoted body)
    then have "renders (?head @ '' COMMENT '' @ quoted (escape_string c) @ ?body) (code ?head @ code '' COMMENT '' @ [Lit c] @ code ?body)"
      by (intro renders_code_then head) simp_all
    with Some show ?thesis by (cases "td_schemafull t") (simp_all add: to_sql_eq table_text table_pieces_def)
  qed
qed

lemma schema_text_lexed:
  assumes "list_all quote_free_table (sch_tables s)"
  shows "sql_lex (to_sql schema_fmt_sql s) = Some (concat (map table_pieces (sch_tables s)))"
proof -
  have "renders (concat (map (to_sql table_fmt_sql) ts)) (concat (map table_pieces ts))"
    if "list_all quote_free_table ts" for ts
    using that
  proof (induction ts)
    case (Cons t ts)
    have "concat (map (to_sql table_fmt_sql) ts) = [] \<or> hd (concat (map (to_sql table_fmt_sql) ts)) \<noteq> CHR 0x27"
      by (cases ts) (simp_all add: to_sql_def table_fmt_sql_def)
    with Cons show ?case by (simp add: renders_append table_renders)
  qed (simp add: renders_code [of "[]", simplified])
  from renders_lex [OF this [OF assms]] show ?thesis by (simp add: to_sql_def schema_fmt_sql_def cong: map_cong)
qed

subsection \<open>Reading a schema\<close>

text \<open>
  The reader that the text is measured against, independent of the writers: the text is lexed with the
  literals of SQL and cut into statements, each ended by a line feed outside the literals; a statement
  ends with a semicolon and is read word by word.
\<close>

datatype declared =
    DeclareTable string bool "string option"
  | DeclareField string string kind "string option"
  | DeclareIndex string string "string list" bool

definition read_table :: "string option \<Rightarrow> string \<Rightarrow> declared option" where
  "read_table comment s = do {
     r \<leftarrow> strip_prefix ''DEFINE TABLE '' s;
     case split_once CHR '' '' r of
       None \<Rightarrow> Some (DeclareTable r False comment)
     | Some (name, word) \<Rightarrow> if word = ''SCHEMAFULL'' then Some (DeclareTable name True comment) else None }"

definition read_field :: "string \<Rightarrow> declared option" where
  "read_field s = do {
     r \<leftarrow> strip_prefix ''DEFINE FIELD '' s;
     (name, r) \<leftarrow> split_once CHR '' '' r;
     r \<leftarrow> strip_prefix ''ON TABLE '' r;
     (table, r) \<leftarrow> split_once CHR '' '' r;
     r \<leftarrow> strip_prefix ''TYPE '' r;
     case split_once CHR '' '' r of
       None \<Rightarrow> map_option (\<lambda>k. DeclareField name table k None) (read_kind r)
     | Some (k, r) \<Rightarrow> do {
         k \<leftarrow> read_kind k;
         expr \<leftarrow> strip_prefix ''ASSERT '' r;
         Some (DeclareField name table k (Some expr)) } }"

definition read_index :: "string \<Rightarrow> declared option" where
  "read_index s = do {
     r \<leftarrow> strip_prefix ''DEFINE INDEX '' s;
     (name, r) \<leftarrow> split_once CHR '' '' r;
     r \<leftarrow> strip_prefix ''ON TABLE '' r;
     (table, r) \<leftarrow> split_once CHR '' '' r;
     r \<leftarrow> strip_prefix ''FIELDS '' r;
     let (columns, unique) = (case strip_suffix r '' UNIQUE'' of Some q \<Rightarrow> (q, True) | None \<Rightarrow> (r, False));
     Some (DeclareIndex name table (map (dropWhile (\<lambda>c. c = CHR '' '')) (split_char CHR '','' columns)) unique) }"

fun code_part :: "sql_piece list \<Rightarrow> string \<times> sql_piece list" where
  "code_part (Code c # ps) = (case code_part ps of (s, r) \<Rightarrow> (c # s, r))"
| "code_part ps = ([], ps)"

fun read_declaration_parts :: "string \<times> sql_piece list \<Rightarrow> declared option" where
  "read_declaration_parts (s, []) = do {
     b \<leftarrow> strip_suffix s '';'';
     case read_table None b of
       Some t \<Rightarrow> Some t
     | None \<Rightarrow> (case read_field b of Some f \<Rightarrow> Some f | None \<Rightarrow> read_index b) }"
| "read_declaration_parts (s, [Lit c, Code e]) =
     (if e = CHR '';'' then do { b \<leftarrow> strip_suffix s '' COMMENT ''; read_table (Some c) b } else None)"
| "read_declaration_parts _ = None"

definition read_declaration :: "sql_piece list \<Rightarrow> declared option" where
  "read_declaration ps = read_declaration_parts (code_part ps)"

fun statements_from :: "sql_piece list \<Rightarrow> sql_piece list \<Rightarrow> sql_piece list list option" where
  "statements_from current [] = (if current = [] then Some [] else None)"
| "statements_from current (p # ps) =
     (if p = Code (CHR 0x0A) then map_option (Cons current) (statements_from [] ps)
      else statements_from (current @ [p]) ps)"

definition read_schema :: "string \<Rightarrow> declared list option" where
  "read_schema text = do {
     ps \<leftarrow> sql_lex text;
     sts \<leftarrow> statements_from [] ps;
     those (map read_declaration sts) }"

text \<open>
  The declarations that a table stands for: itself, then each field followed by the indices over exactly
  this field.
\<close>

definition table_declaration :: "table_definition \<Rightarrow> declared" where
  "table_declaration t = DeclareTable (td_name t) (td_schemafull t) (td_comment t)"

definition field_declaration :: "field_definition \<Rightarrow> declared" where
  "field_declaration f = DeclareField (fd_name f) (fd_table f) (fd_kind f) (fd_assert f)"

definition index_declaration :: "index_definition \<Rightarrow> declared" where
  "index_declaration i = DeclareIndex (ix_name i) (ix_table i) (ix_fields i) (ix_unique i)"

definition table_declarations :: "table_definition \<Rightarrow> declared list" where
  "table_declarations t = table_declaration t # concat (map (\<lambda>f.
     field_declaration f # map index_declaration (filter (\<lambda>i. ix_fields i = [fd_name f]) (td_indices t))) (td_fields t))"

text \<open>
  The tables whose text is not ambiguous: names without quotes, blanks, commas, bars and line feeds, record
  types with at least one target, assertions without quotes and line feeds.
\<close>

definition clean_name :: "string \<Rightarrow> bool" where
  "clean_name n \<longleftrightarrow> list_all (\<lambda>c. c \<notin> {CHR 0x27, CHR '' '', CHR '','', CHR ''|'', CHR 0x0A}) n"

fun clean_targets :: "kind \<Rightarrow> bool" where
  "clean_targets (KRecord targets) \<longleftrightarrow> targets \<noteq> [] \<and> list_all clean_name targets"
| "clean_targets (KOption k) \<longleftrightarrow> clean_targets k"
| "clean_targets _ \<longleftrightarrow> True"

definition clean_field :: "field_definition \<Rightarrow> bool" where
  "clean_field f \<longleftrightarrow> clean_name (fd_name f) \<and> clean_name (fd_table f) \<and> clean_targets (fd_kind f) \<and>
     (case fd_assert f of Some e \<Rightarrow> CHR 0x27 \<notin> set e \<and> CHR 0x0A \<notin> set e | None \<Rightarrow> True)"

definition clean_index :: "index_definition \<Rightarrow> bool" where
  "clean_index i \<longleftrightarrow> clean_name (ix_name i) \<and> clean_name (ix_table i) \<and> list_all clean_name (ix_fields i)"

definition clean_table :: "table_definition \<Rightarrow> bool" where
  "clean_table t \<longleftrightarrow> clean_name (td_name t) \<and> list_all clean_field (td_fields t) \<and> list_all clean_index (td_indices t)"

lemma clean_nameD:
  "clean_name n \<Longrightarrow> CHR 0x27 \<notin> set n \<and> CHR '' '' \<notin> set n \<and> CHR '','' \<notin> set n \<and> CHR ''|'' \<notin> set n \<and> CHR 0x0A \<notin> set n"
  by (auto simp: clean_name_def list_all_iff)

lemma set_join: "set (join sep xs) \<subseteq> set sep \<union> (\<Union>x\<in>set xs. set x)"
  by (induction sep xs rule: join.induct) auto

lemma clean_targets_kind: "clean_targets k \<Longrightarrow> clean_kind k"
  by (induction k) (auto simp: list_all_iff dest: clean_nameD)

lemma clean_kind_text:
  "clean_targets k \<Longrightarrow> set (kind_fmt_sql fmt k) \<inter> {CHR 0x27, CHR '' '', CHR 0x0A} = {}"
proof (induction k)
  case (KRecord targets)
  then have "set (join ''|'' targets) \<inter> {CHR 0x27, CHR '' '', CHR 0x0A} = {}"
    using set_join [of "''|''" targets] by (fastforce simp: list_all_iff dest: clean_nameD)
  then show ?case by simp
qed simp_all

text \<open>The statements of the text, without the line feeds that end them.\<close>

definition field_line :: "field_definition \<Rightarrow> string" where
  "field_line f = ''DEFINE FIELD '' @ fd_name f @ '' ON TABLE '' @ fd_table f @ '' TYPE '' @ kind_fmt_sql SingleLine (fd_kind f) @
     (case fd_assert f of Some expr \<Rightarrow> '' ASSERT '' @ expr | None \<Rightarrow> []) @ '';''"

definition index_line :: "index_definition \<Rightarrow> string" where
  "index_line i = ''DEFINE INDEX '' @ ix_name i @ '' ON TABLE '' @ ix_table i @ '' FIELDS '' @ join '', '' (ix_fields i) @
     (if ix_unique i then '' UNIQUE'' else []) @ '';''"

definition table_head :: "table_definition \<Rightarrow> sql_piece list" where
  "table_head t =
     code (''DEFINE TABLE '' @ td_name t @ (if td_schemafull t then '' SCHEMAFULL'' else [])) @
     (case td_comment t of Some c \<Rightarrow> code '' COMMENT '' @ [Lit c] | None \<Rightarrow> []) @ code '';''"

definition table_statements :: "table_definition \<Rightarrow> sql_piece list list" where
  "table_statements t = table_head t # concat (map (\<lambda>f.
     code (field_line f) # map (\<lambda>i. code (index_line i)) (single_indices t f)) (td_fields t))"

lemma line_texts:
  "to_sql field_fmt_sql f = field_line f @ [CHR 0x0A]" "to_sql index_fmt_sql i = index_line i @ [CHR 0x0A]"
  by (simp_all add: to_sql_def field_fmt_sql_def field_line_def index_fmt_sql_def index_line_def split: option.split)

lemma table_pieces_statements: "table_pieces t = concat (map (\<lambda>st. st @ code [CHR 0x0A]) (table_statements t))"
proof -
  have indices: "code (concat (map (to_sql index_fmt_sql) xs)) = concat (map (\<lambda>i. code (index_line i) @ code [CHR 0x0A]) xs)"
    for xs by (induction xs) (simp_all add: line_texts)
  have "code (concat (map (\<lambda>f. to_sql field_fmt_sql f @ concat (map (to_sql index_fmt_sql) (single_indices t f))) fs)) =
    concat (map (\<lambda>st. st @ code [CHR 0x0A]) (concat (map (\<lambda>f.
      code (field_line f) # map (\<lambda>i. code (index_line i)) (single_indices t f)) fs)))" for fs
  proof (induction fs)
    case (Cons f fs)
    then show ?case using indices [of "single_indices t f"] by (simp add: line_texts(1) comp_def)
  qed simp
  then show ?thesis
    by (simp add: table_pieces_def table_statements_def table_head_def split: option.split)
qed

lemma statements_from_lines:
  assumes "\<And>st. st \<in> set sts \<Longrightarrow> Code (CHR 0x0A) \<notin> set st"
  shows "statements_from [] (concat (map (\<lambda>st. st @ code [CHR 0x0A]) sts)) = Some sts"
proof -
  have one: "statements_from cur (st @ Code (CHR 0x0A) # rest) = map_option (Cons (cur @ st)) (statements_from [] rest)"
    if "Code (CHR 0x0A) \<notin> set st" for cur st rest using that by (induction st arbitrary: cur) auto
  from assms show ?thesis by (induction sts) (simp_all add: one)
qed

lemma code_part_code: "code_part (code s) = (s, [])" "code_part (code s @ Lit c # ps) = (s, Lit c # ps)"
  by (induction s) simp_all

lemma strip_suffix_same [simp]: "strip_suffix (s @ e) e = Some s"
  by (simp add: strip_suffix_def)

lemma strip_prefix_same [simp]: "strip_prefix p (p @ s) = Some s"
  by (simp add: strip_prefix_def)

lemma strip_prefix_Cons [simp]:
  "strip_prefix (c # p) (d # s) = (if c = d then strip_prefix p s else None)" "strip_prefix [] s = Some s"
  by (simp_all add: strip_prefix_def)

lemma split_once_absent: "d \<notin> set s \<Longrightarrow> split_once d s = None"
  by (simp add: split_once_None)

lemmas reader_simps = split_once_append split_once_absent

lemma read_head:
  assumes "clean_name (td_name t)"
  shows "read_declaration (table_head t) = Some (table_declaration t)"
proof -
  let ?w = "if td_schemafull t then '' SCHEMAFULL'' else []"
  have none: "CHR '' '' \<notin> set (td_name t)" using clean_nameD [OF assms] by simp
  have table: "read_table c (''DEFINE TABLE '' @ td_name t @ ?w) = Some (DeclareTable (td_name t) (td_schemafull t) c)" for c
    using none split_once_append [OF none, of "''SCHEMAFULL''"] by (auto simp: read_table_def split_once_None [symmetric])
  show ?thesis
  proof (cases "td_comment t")
    case None
    have "code_part (table_head t) = ((''DEFINE TABLE '' @ td_name t @ ?w) @ '';'', [])"
      using code_part_code(1) [of "(''DEFINE TABLE '' @ td_name t @ ?w) @ '';''"] None by (simp add: table_head_def)
    then show ?thesis
      using table [of None] None
      by (simp only: read_declaration_def read_declaration_parts.simps strip_suffix_same Option.bind.simps option.case table_declaration_def)
  next
    case (Some c)
    have "code_part (table_head t) = ((''DEFINE TABLE '' @ td_name t @ ?w) @ '' COMMENT '', [Lit c, Code CHR '';''])"
      using code_part_code(2) [of "(''DEFINE TABLE '' @ td_name t @ ?w) @ '' COMMENT ''" c "[Code CHR '';'']"] Some
      by (simp add: table_head_def)
    then show ?thesis
      using table [of "Some c"] Some
      by (simp only: read_declaration_def read_declaration_parts.simps strip_suffix_same Option.bind.simps simp_thms if_True table_declaration_def)
  qed
qed

lemma read_code:
  assumes "read_table None b = None" "read_field b = Some x \<or> read_field b = None \<and> read_index b = Some x"
  shows "read_declaration (code (b @ '';'')) = Some x"
  using assms by (auto simp only: read_declaration_def code_part_code(1) read_declaration_parts.simps strip_suffix_same
      Option.bind.simps option.case)

lemma read_field_type:
  assumes "CHR '' '' \<notin> set n" "CHR '' '' \<notin> set t" "CHR '' '' \<notin> set q"
  shows "read_field (''DEFINE FIELD '' @ n @ '' ON TABLE '' @ t @ '' TYPE '' @ q) =
      map_option (\<lambda>k. DeclareField n t k None) (read_kind q)"
    and "read_field (''DEFINE FIELD '' @ n @ '' ON TABLE '' @ t @ '' TYPE '' @ q @ '' ASSERT '' @ e) =
      map_option (\<lambda>k. DeclareField n t k (Some e)) (read_kind q)"
  using assms by (simp_all add: read_field_def reader_simps map_conv_bind_option comp_def)

lemma read_field_line:
  assumes "clean_field f"
  shows "read_declaration (code (field_line f)) = Some (field_declaration f)"
proof -
  have clean: "CHR '' '' \<notin> set (fd_name f)" "CHR '' '' \<notin> set (fd_table f)"
      "CHR '' '' \<notin> set (kind_fmt_sql SingleLine (fd_kind f))" "clean_kind (fd_kind f)"
    using assms clean_kind_text [of "fd_kind f" SingleLine]
    by (auto simp: clean_field_def dest: clean_nameD clean_targets_kind)
  let ?expr = "case fd_assert f of Some expr \<Rightarrow> '' ASSERT '' @ expr | None \<Rightarrow> []"
  let ?b = "''DEFINE FIELD '' @ fd_name f @ '' ON TABLE '' @ fd_table f @ '' TYPE '' @ kind_fmt_sql SingleLine (fd_kind f) @ ?expr"
  have line: "field_line f = ?b @ '';''" by (simp add: field_line_def)
  have table: "read_table None ?b = None" by (simp add: read_table_def)
  have "read_field ?b = Some (field_declaration f)"
    using read_field_type [OF clean(1-3)]
    by (cases "fd_assert f") (simp_all only: option.case append_Nil2 read_kind_printed [OF clean(4)] option.map field_declaration_def)
  then have "read_declaration (code (?b @ '';'')) = Some (field_declaration f)" using table by (intro read_code) simp_all
  then show ?thesis by (simp only: line)
qed

lemma read_index_columns:
  assumes "CHR '' '' \<notin> set n" "CHR '' '' \<notin> set t"
  shows "read_index (''DEFINE INDEX '' @ n @ '' ON TABLE '' @ t @ '' FIELDS '' @ r) =
    (let (columns, unique) = (case strip_suffix r '' UNIQUE'' of Some q \<Rightarrow> (q, True) | None \<Rightarrow> (r, False))
     in Some (DeclareIndex n t (map (dropWhile (\<lambda>c. c = CHR '' '')) (split_char CHR '','' columns)) unique))"
  using assms by (simp add: read_index_def reader_simps)

lemma read_index_line:
  assumes "clean_index i" "length (ix_fields i) = 1"
  shows "read_declaration (code (index_line i)) = Some (index_declaration i)"
proof -
  from assms(2) obtain column where column: "ix_fields i = [column]" by (auto simp: length_Suc_conv)
  have clean: "CHR '' '' \<notin> set (ix_name i)" "CHR '' '' \<notin> set (ix_table i)" "CHR '' '' \<notin> set column" "CHR '','' \<notin> set column"
    using assms(1) column by (auto simp: clean_index_def dest: clean_nameD)
  let ?w = "if ix_unique i then '' UNIQUE'' else []"
  let ?b = "''DEFINE INDEX '' @ ix_name i @ '' ON TABLE '' @ ix_table i @ '' FIELDS '' @ column @ ?w"
  have line: "index_line i = ?b @ '';''" by (simp add: index_line_def column)
  have table: "read_table None ?b = None" "read_field ?b = None" by (simp_all add: read_table_def read_field_def)
  have "strip_suffix column '' UNIQUE'' = None"
  proof (rule ccontr)
    assume "strip_suffix column '' UNIQUE'' \<noteq> None"
    then obtain r where "rev column = rev '' UNIQUE'' @ r" unfolding strip_suffix_def starts_with_iff by (auto split: if_splits)
    then have "CHR '' '' \<in> set (rev column)" by simp
    with clean(3) show False by simp
  qed
  then have suffix: "(case strip_suffix (column @ ?w) '' UNIQUE'' of Some q \<Rightarrow> (q, True) | None \<Rightarrow> (column @ ?w, False)) = (column, ix_unique i)"
    by (cases "ix_unique i") (simp_all only: if_True if_False append_Nil2 strip_suffix_same option.case)
  have word: "dropWhile (\<lambda>c. c = CHR '' '') column = column" using clean(3) by (cases column) auto
  have "read_index ?b = Some (index_declaration i)"
    unfolding read_index_columns [OF clean(1,2)] suffix
    by (simp only: Let_def prod.case split_char_no [OF clean(4)] list.map word index_declaration_def column)
  then have "read_declaration (code (?b @ '';'')) = Some (index_declaration i)" using table by (intro read_code) simp_all
  then show ?thesis by (simp only: line)
qed

lemma read_statements:
  assumes "clean_table t"
  shows "map read_declaration (table_statements t) = map Some (table_declarations t)"
proof -
  have "map read_declaration (concat (map (\<lambda>f. code (field_line f) # map (\<lambda>i. code (index_line i)) (single_indices t f)) fs)) =
    map Some (concat (map (\<lambda>f. field_declaration f # map index_declaration (single_indices t f)) fs))"
    if "list_all clean_field fs" for fs
    using that
  proof (induction fs)
    case (Cons f fs)
    have "map (\<lambda>i. read_declaration (code (index_line i))) (single_indices t f) = map (\<lambda>i. Some (index_declaration i)) (single_indices t f)"
      using assms by (auto simp: clean_table_def list_all_iff single_indices_def intro!: read_index_line)
    with Cons show ?case by (simp add: read_field_line comp_def)
  qed simp
  with assms show ?thesis
    by (simp add: clean_table_def table_statements_def table_declarations_def read_head single_indices_def)
qed

lemma clean_no_line_feed:
  assumes "clean_table t" "st \<in> set (table_statements t)"
  shows "Code (CHR 0x0A) \<notin> set st"
proof -
  have "CHR 0x0A \<notin> set (field_line f)" if "f \<in> set (td_fields t)" for f
    using that assms(1) clean_kind_text [of "fd_kind f" SingleLine]
    by (auto simp: clean_table_def clean_field_def list_all_iff field_line_def dest!: clean_nameD split: option.splits)
  moreover have "CHR 0x0A \<notin> set (index_line i)" if "i \<in> set (single_indices t f)" for i f
    using that assms(1) by (auto simp: clean_table_def clean_index_def list_all_iff single_indices_def index_line_def dest!: clean_nameD)
  moreover have "Code (CHR 0x0A) \<notin> set (table_head t)"
    using assms(1) by (auto simp: clean_table_def table_head_def dest: clean_nameD split: option.splits)
  ultimately show ?thesis using assms(2) by (auto simp: table_statements_def)
qed

lemma clean_quote_free: "clean_table t \<Longrightarrow> quote_free_table t"
  using clean_kind_text [of _ SingleLine]
  by (fastforce simp: clean_table_def quote_free_table_def clean_field_def clean_index_def quote_free_kind_def to_sql_def
    no_quote_def list_all_iff dest: clean_nameD split: option.splits)

lemma those_Some: "those (map Some xs) = Some xs"
  by (induction xs) simp_all

text \<open>
  C25. The text of a schema.  Read back statement by statement, it declares each table with its comment, whatever quotes
  the comment holds, and whether it is schemafull, then each field with its table, type and assertion, each
  followed by the indices over this field alone, with their table, column and uniqueness.  An index over several columns is
  not declared at all.  This is for names without quotes, blanks, commas, bars and line feeds, record types with at
  least one target and assertions without quotes and line feeds; the text is read with the literals of SQL,
  where two quotes stand for one.
\<close>

theorem schema_text_reads_back:
  assumes "list_all clean_table (sch_tables s)"
  shows "read_schema (to_sql schema_fmt_sql s) = Some (concat (map table_declarations (sch_tables s)))"
proof -
  let ?sts = "concat (map table_statements (sch_tables s))"
  have "concat (map table_pieces ts) = concat (map (\<lambda>st. st @ code [CHR 0x0A]) (concat (map table_statements ts)))" for ts
    by (induction ts) (simp_all add: table_pieces_statements)
  moreover have "statements_from [] (concat (map (\<lambda>st. st @ code [CHR 0x0A]) ?sts)) = Some ?sts"
    by (rule statements_from_lines) (use assms clean_no_line_feed in \<open>auto simp: list_all_iff\<close>)
  moreover have "map read_declaration ?sts = map Some (concat (map table_declarations (sch_tables s)))"
    using assms by (auto simp: map_concat list_all_iff read_statements intro!: arg_cong [of _ _ concat])
  moreover have "list_all quote_free_table (sch_tables s)" using assms by (auto simp: list_all_iff clean_quote_free)
  ultimately show ?thesis using schema_text_lexed by (simp add: read_schema_def those_Some del: map_concat)
qed

definition sample_table :: table_definition where
  "sample_table = table_with_index (index_unique (index_definition_new ''u'' ''T'' [''a'']))
     (table_with_index (index_definition_new ''i'' ''T'' [''a'', ''b''])
     (table_with_field (field_with_assert (Some ''$value > 0'') (field_definition_new ''a'' ''T'' (KOption (KRecord [''U'']))))
     (table_with_comment (Some [CHR 39]) (table_definition_new ''T''))))"

lemmas sample_table_simps = schema_with_table_def schema_new_def sample_table_def table_with_index_def table_with_field_def
  table_with_comment_def table_definition_new_def field_definition_new_def field_with_assert_def
  index_definition_new_def index_unique_def

theorem schema_text_reads_back_witness:
  "read_schema (to_sql schema_fmt_sql (schema_with_table sample_table schema_new)) =
     Some [DeclareTable ''T'' True (Some [CHR 39]), DeclareField ''a'' ''T'' (KOption (KRecord [''U''])) (Some ''$value > 0''),
       DeclareIndex ''u'' ''T'' [''a''] True]"
proof -
  have "list_all clean_table (sch_tables (schema_with_table sample_table schema_new))"
    by (simp add: sample_table_simps clean_table_def clean_field_def clean_index_def clean_name_def)
  from schema_text_reads_back [OF this] show ?thesis
    by (simp add: sample_table_simps table_declarations_def table_declaration_def field_declaration_def index_declaration_def)
qed

end
