(* ===== verification/Surreal_Triples.thy ===== *)
theory Surreal_Triples
  imports Surreal_Ast
begin

section \<open>From the facts about the models to a schema\<close>

text \<open>
  \<open>op-surreal-ast/src/from_triples.rs\<close>: the facts that an extractor found in the Rails models (triples of
  subject, predicate and object, the type of an external crate) become the tables of a schema.  The upper
  case of characters beyond ASCII is a parameter \<open>upper\<close>.
\<close>

record triple =
  tr_s :: string
  tr_p :: string
  tr_o :: string

subsection \<open>Names\<close>

definition split_subject :: "string \<Rightarrow> (string \<times> string option) option" where
  "split_subject s =
     (let trimmed = trim s in
      if trimmed = [] then None
      else (case split_once CHR ''.'' trimmed of
          Some (table, member) \<Rightarrow> Some (table, Some member)
        | None \<Rightarrow> Some (trimmed, None)))"

definition strip_namespace :: "string \<Rightarrow> string" where
  "strip_namespace s = (case strip_prefix ''openproject:'' s of Some r \<Rightarrow> r | None \<Rightarrow> s)"

definition strip_class_namespace :: "string \<Rightarrow> string" where
  "strip_class_namespace s = (case after_last ''::'' s of Some r \<Rightarrow> r | None \<Rightarrow> s)"

definition member_name :: "string \<Rightarrow> string" where
  "member_name obj = last_part CHR ''.'' (strip_namespace obj)"

definition IRREGULAR :: "(string \<times> string) list" where
  "IRREGULAR = [(''children'', ''child''), (''people'', ''person''), (''men'', ''man''), (''women'', ''woman''),
     (''feet'', ''foot''), (''teeth'', ''tooth''), (''mice'', ''mouse''), (''geese'', ''goose'')]"

definition UNCOUNTABLE :: "string list" where
  "UNCOUNTABLE = [''news'', ''series'', ''species'', ''equipment'', ''information'', ''money'', ''fish'', ''sheep'',
     ''deer'', ''rice'', ''staff'', ''data'']"

definition SINGULAR_US :: "string list" where
  "SINGULAR_US = [''status'', ''bus'', ''virus'', ''bonus'', ''focus'', ''radius'', ''chorus'', ''genus'', ''cactus'',
     ''octopus'', ''fungus'', ''locus'', ''nucleus'', ''syllabus'', ''alumnus'', ''stimulus'', ''surplus'',
     ''campus'', ''census'', ''circus'', ''corpus'']"

definition es_plural :: "string \<Rightarrow> string option" where
  "es_plural s =
     (case strip_suffix s ''es'' of
        Some stem \<Rightarrow>
          if ends_with stem ''ch'' \<or> ends_with stem ''sh'' \<or> ends_with stem ''ss'' \<or>
             ends_with stem ''x'' \<or> ends_with stem ''z'' then Some stem else None
      | None \<Rightarrow> None)"

definition singularize :: "string \<Rightarrow> string" where
  "singularize s =
     (let trailing = last_part CHR ''_'' s in
      case map_of IRREGULAR trailing of
        Some sing \<Rightarrow> take (length s - length trailing) s @ sing
      | None \<Rightarrow>
      if trailing \<in> set UNCOUNTABLE then s
      else if trailing \<in> set SINGULAR_US then s
      else (case strip_suffix s ''ies'' of
        Some stem \<Rightarrow> stem @ ''y''
      | None \<Rightarrow>
      (case es_plural s of
        Some stem \<Rightarrow> stem
      | None \<Rightarrow>
      (case strip_suffix s ''s'' of
        Some stem \<Rightarrow> if ends_with stem ''s'' then s else stem
      | None \<Rightarrow> s))))"

definition rails_target_class :: "(string \<Rightarrow> string) \<Rightarrow> string \<Rightarrow> string" where
  "rails_target_class upper relation = concat (map (capitalize upper) (split_char CHR ''_'' (singularize relation)))"

subsection \<open>Validations\<close>

definition clause_word :: "string \<Rightarrow> string \<Rightarrow> string option" where
  "clause_word kind key =
     (if kind = ''length'' then
        (if key = ''maximum'' then Some ''string::len($value) <= ''
         else if key = ''minimum'' then Some ''string::len($value) >= ''
         else if key = ''is'' then Some ''string::len($value) == ''
         else None)
      else if kind \<in> {''numericality'', ''comparison''} then
        (if key = ''greater_than'' then Some ''$value > ''
         else if key = ''less_than'' then Some ''$value < ''
         else if key = ''greater_than_or_equal_to'' then Some ''$value >= ''
         else if key = ''less_than_or_equal_to'' then Some ''$value <= ''
         else if key = ''equal_to'' then Some ''$value == ''
         else None)
      else None)"

definition param_clause :: "string \<Rightarrow> string option" where
  "param_clause param =
     (case split_once CHR ''='' param of None \<Rightarrow> None | Some (kind_key, value) \<Rightarrow>
      case split_once CHR '':'' kind_key of None \<Rightarrow> None | Some (kind, key) \<Rightarrow>
      let trimmed = trim value in
      if parse_i64 trimmed = None then None
      else map_option (\<lambda>w. w @ trimmed) (clause_word kind key))"

definition presence_kinds :: "string list" where
  "presence_kinds = [''presence'', ''uniqueness'', ''length'', ''format'', ''inclusion'', ''exclusion'',
     ''confirmation'', ''comparison'']"

definition kind_clause :: "string \<Rightarrow> string list \<times> bool \<Rightarrow> string list \<times> bool" where
  "kind_clause kind = (\<lambda>(clauses, has_non_none).
     if kind = ''numericality'' then (clauses @ [''type::is_number($value)''], has_non_none)
     else if kind = ''acceptance'' then (clauses @ [''$value == true''], has_non_none)
     else if kind = ''absence'' then (clauses @ [''$value == NONE''], has_non_none)
     else if kind \<in> set presence_kinds \<and> \<not> has_non_none then (clauses @ [''$value != NONE''], True)
     else (clauses, has_non_none))"

definition compose_validation_assert :: "string list \<Rightarrow> string list \<Rightarrow> string" where
  "compose_validation_assert kinds params =
     (let clauses = fst (fold kind_clause kinds ([], False)) @ List.map_filter param_clause params in
      if clauses = [] then ''$value != NONE'' else join '' AND '' clauses)"

definition scope_column :: "string \<Rightarrow> string option" where
  "scope_column seg =
     (let trimmed = trim seg; stripped = (case strip_prefix '':'' trimmed of Some r \<Rightarrow> r | None \<Rightarrow> trimmed) in
      if stripped = [] \<or> \<not> list_all is_ascii_word stripped then None else Some stripped)"

fun extract_uniqueness_scope :: "string list \<Rightarrow> string list" where
  "extract_uniqueness_scope [] = []"
| "extract_uniqueness_scope (param # params) =
     (case strip_prefix ''uniqueness:scope='' param of
        None \<Rightarrow> extract_uniqueness_scope params
      | Some rest \<Rightarrow>
          (case Option.bind (strip_prefix ''['' rest) (\<lambda>t. strip_suffix t '']'') of
             Some inner \<Rightarrow> List.map_filter scope_column (split_char CHR '','' inner)
           | None \<Rightarrow>
               (case strip_prefix '':'' rest of
                  Some symbol \<Rightarrow> if symbol \<noteq> [] \<and> list_all is_ascii_word symbol then [symbol] else []
                | None \<Rightarrow> [])))"

subsection \<open>The builder of a table\<close>

record table_builder =
  tb_name :: string
  tb_fields :: "field_definition list"
  tb_indices :: "index_definition list"
  tb_seen_fields :: "string list"
  tb_annotations :: "string list"

definition table_builder_new :: "string \<Rightarrow> table_builder" where
  "table_builder_new name =
     \<lparr>tb_name = name, tb_fields = [], tb_indices = [], tb_seen_fields = [], tb_annotations = []\<rparr>"

definition add_field :: "string \<Rightarrow> kind \<Rightarrow> table_builder \<Rightarrow> bool \<times> table_builder" where
  "add_field name kind b =
     (if name \<in> set (tb_seen_fields b) then (False, b)
      else (True, b\<lparr>tb_seen_fields := name # tb_seen_fields b,
        tb_fields := tb_fields b @ [field_definition_new name (tb_name b) kind]\<rparr>))"

text \<open>A change of the first element that a search finds.\<close>

fun change_first :: "('a \<Rightarrow> bool) \<Rightarrow> ('a \<Rightarrow> 'a) \<Rightarrow> 'a list \<Rightarrow> 'a list" where
  "change_first P f [] = []"
| "change_first P f (x # xs) = (if P x then f x # xs else x # change_first P f xs)"

definition upgrade_field_kind :: "string \<Rightarrow> kind \<Rightarrow> table_builder \<Rightarrow> bool \<times> table_builder" where
  "upgrade_field_kind name kind b =
     (case List.find (\<lambda>f. fd_name f = name) (tb_fields b) of
        Some f \<Rightarrow>
          if fd_kind f \<noteq> kind
          then (True, b\<lparr>tb_fields := change_first (\<lambda>f. fd_name f = name) (\<lambda>f. f\<lparr>fd_kind := kind\<rparr>) (tb_fields b)\<rparr>)
          else (False, b)
      | None \<Rightarrow> (False, b))"

definition has_field :: "string \<Rightarrow> table_builder \<Rightarrow> bool" where
  "has_field name b \<longleftrightarrow> name \<in> set (tb_seen_fields b)"

definition add_index :: "string \<Rightarrow> string list \<Rightarrow> table_builder \<Rightarrow> table_builder" where
  "add_index name cols b = b\<lparr>tb_indices := tb_indices b @ [index_definition_new name (tb_name b) cols]\<rparr>"

definition add_unique_index :: "string \<Rightarrow> string list \<Rightarrow> table_builder \<Rightarrow> table_builder" where
  "add_unique_index name cols b =
     (if list_ex (\<lambda>i. ix_name i = name) (tb_indices b) then b
      else b\<lparr>tb_indices := tb_indices b @ [index_unique (index_definition_new name (tb_name b) cols)]\<rparr>)"

definition add_field_assert :: "string \<Rightarrow> string \<Rightarrow> table_builder \<Rightarrow> table_builder" where
  "add_field_assert field_name expr b =
     b\<lparr>tb_fields := change_first (\<lambda>f. fd_name f = field_name) (\<lambda>f. f\<lparr>fd_assert := Some expr\<rparr>) (tb_fields b)\<rparr>"

definition add_annotation :: "string \<Rightarrow> table_builder \<Rightarrow> table_builder" where
  "add_annotation note b = b\<lparr>tb_annotations := tb_annotations b @ [note]\<rparr>"

definition build_table :: "table_builder \<Rightarrow> table_definition" where
  "build_table b =
     (let annotations = dedup_first (tb_annotations b);
          comment = (if annotations = [] then None else Some (join ''; '' annotations))
      in fold table_with_index (tb_indices b) (fold table_with_field (tb_fields b)
        (table_with_comment comment (table_definition_new (tb_name b)))))"

subsection \<open>The passes over the facts\<close>

text \<open>The facts about members that the main pass looks up.\<close>

record facts =
  fa_known_targets :: "string list"
  fa_declared :: "string list"
  fa_assoc_kinds :: "(string \<times> string) list"
  fa_class_names :: "(string \<times> string) list"
  fa_field_types :: "(string \<times> string) list"
  fa_not_null :: "string list"
  fa_validation_kinds :: "(string \<times> string list) list"
  fa_validation_params :: "(string \<times> string list) list"

definition discover :: "triple \<Rightarrow> (string \<times> table_builder) list \<Rightarrow> (string \<times> table_builder) list" where
  "discover t tables =
     (if tr_p t = ''rdf:type'' \<and> tr_o t = ''ogit:ObjectType''
      then (case split_subject (tr_s t) of
          None \<Rightarrow> tables
        | Some (table_iri, _) \<Rightarrow> bt_or_insert table_iri (table_builder_new (strip_namespace table_iri)) tables)
      else tables)"

definition collect_by :: "string \<Rightarrow> triple \<Rightarrow> (string \<times> string) list \<Rightarrow> (string \<times> string) list" where
  "collect_by p t m = (if tr_p t = p then bt_insert (tr_s t) (tr_o t) m else m)"

definition gather_by :: "string \<Rightarrow> triple \<Rightarrow> (string \<times> string list) list \<Rightarrow> (string \<times> string list) list" where
  "gather_by p t m = (if tr_p t = p then bt_add (tr_s t) (tr_o t) m else m)"

definition note_not_null :: "triple \<Rightarrow> string list \<Rightarrow> string list" where
  "note_not_null t m = (if tr_p t = ''column_not_null'' \<and> tr_o t = ''true'' then List.insert (tr_s t) m else m)"

definition collect_facts :: "triple list \<Rightarrow> string list \<Rightarrow> facts" where
  "collect_facts triples extra_targets =
     (let declared = map (tb_name \<circ> snd) (fold discover triples []) in
      \<lparr>fa_known_targets = declared @ extra_targets, fa_declared = declared,
       fa_assoc_kinds = fold (collect_by ''association_kind'') triples [],
       fa_class_names = fold (collect_by ''class_name'') triples [],
       fa_field_types = fold (collect_by ''field_type'') triples [],
       fa_not_null = fold note_not_null triples [],
       fa_validation_kinds = fold (gather_by ''validation_kind'') triples [],
       fa_validation_params = fold (gather_by ''validation_param'') triples []\<rparr>)"

text \<open>What the main pass changes: the tables, the stubs it asks for, the assertions it puts off.\<close>

record pass =
  pa_tables :: "(string \<times> table_builder) list"
  pa_stub_targets :: "string list"
  pa_pending_asserts :: "(string \<times> string \<times> string) list"

definition put_builder :: "string \<Rightarrow> table_builder \<Rightarrow> pass \<Rightarrow> pass" where
  "put_builder iri b ps = ps\<lparr>pa_tables := bt_change iri (\<lambda>_. b) (pa_tables ps)\<rparr>"

definition typed_kind :: "facts \<Rightarrow> string \<Rightarrow> kind option" where
  "typed_kind F field_iri = Option.bind (map_of (fa_field_types F) field_iri) from_rails_type"

definition take_attribute :: "facts \<Rightarrow> string \<Rightarrow> string option \<Rightarrow> string \<Rightarrow> table_builder \<Rightarrow> pass \<Rightarrow> pass" where
  "take_attribute F table_iri member obj builder ps =
     (let attr_name = (case member of Some m \<Rightarrow> m | None \<Rightarrow> member_name obj);
          field_iri = table_iri @ ''.'' @ attr_name;
          kind = (case typed_kind F field_iri of Some k \<Rightarrow> kind_optional k | None \<Rightarrow> KAny)
      in put_builder table_iri (snd (add_field attr_name kind builder)) ps)"

definition take_field :: "facts \<Rightarrow> string \<Rightarrow> string \<Rightarrow> table_builder \<Rightarrow> pass \<Rightarrow> pass" where
  "take_field F table_iri obj builder ps =
     (let field_iri = obj; name = member_name obj in
      if name = [] then ps
      else
        (let base = typed_kind F field_iri;
             required = field_iri \<in> set (fa_not_null F);
             kind = (case base of
                 Some k \<Rightarrow> if required then k else kind_optional k
               | None \<Rightarrow> KAny);
             (newly, builder') = add_field name kind builder;
             ps' = put_builder table_iri builder' ps
         in if newly \<and> base = None \<and> required
            then ps'\<lparr>pa_pending_asserts := pa_pending_asserts ps' @ [(table_iri, name, ''$value != NONE'')]\<rparr>
            else ps'))"

definition take_association ::
  "(string \<Rightarrow> string) \<Rightarrow> facts \<Rightarrow> string \<Rightarrow> string \<Rightarrow> table_builder \<Rightarrow> pass \<Rightarrow> pass" where
  "take_association upper F table_iri obj builder ps =
     (let relation = member_name obj;
          target = (case map_of (fa_class_names F) obj of
              Some s \<Rightarrow> strip_class_namespace s
            | None \<Rightarrow> rails_target_class upper relation);
          assoc_kind = (case map_of (fa_assoc_kinds F) obj of Some k \<Rightarrow> k | None \<Rightarrow> ''belongs_to'')
      in if assoc_kind = ''belongs_to''
         then
           (let field_name = relation @ ''_id'';
                fk_iri = table_iri @ ''.'' @ field_name;
                known = target \<in> set (fa_known_targets F);
                stubs = (if known \<and> target \<notin> set (fa_declared F)
                         then insort_insert target (pa_stub_targets ps) else pa_stub_targets ps);
                base = (if known then KRecord [target] else KAny);
                kind = (if fk_iri \<in> set (fa_not_null F) then base else kind_optional base);
                (newly, builder1) = add_field field_name kind builder;
                (upgraded, builder2) =
                  (if newly then (False, builder1) else upgrade_field_kind field_name kind builder1);
                builder3 = (if newly \<or> upgraded
                            then add_index (''idx_'' @ tb_name builder2 @ ''_'' @ field_name) [field_name] builder2
                            else builder2)
            in put_builder table_iri builder3 (ps\<lparr>pa_stub_targets := stubs\<rparr>))
         else put_builder table_iri
           (add_annotation (assoc_kind @ '':'' @ relation @ [CHR 0xE2, CHR 0x86, CHR 0x92] @ target) builder) ps)"

definition take_validation :: "facts \<Rightarrow> string \<Rightarrow> string \<Rightarrow> pass \<Rightarrow> pass" where
  "take_validation F table_iri obj ps =
     (let attr_iri = table_iri @ ''.'' @ obj;
          params = (case map_of (fa_validation_params F) attr_iri of Some ps \<Rightarrow> ps | None \<Rightarrow> []);
          expr = (case map_of (fa_validation_kinds F) attr_iri of
              Some kinds \<Rightarrow> compose_validation_assert kinds params
            | None \<Rightarrow> ''$value != NONE'')
      in ps\<lparr>pa_pending_asserts := pa_pending_asserts ps @ [(table_iri, obj, expr)]\<rparr>)"

text \<open>The facts that only leave a remark at their table.\<close>

definition remark_words :: "(string \<times> string) list" where
  "remark_words = [(''normalizes_attribute'', ''normalize:''), (''has_callback'', ''callback:''),
     (''includes_module'', ''include:''), (''has_scope'', ''scope:''), (''has_default_scope'', ''default_scope:''),
     (''aliases_method'', ''alias_method:''), (''aliases_attribute'', ''alias_attr:''), (''delegates_to'', ''delegate:''),
     (''extends_module'', ''extend:''), (''prepends_module'', ''prepend:''), (''uses_refinement'', ''using:''),
     (''mounts_uploader'', ''mount:''), (''has_paper_trail'', ''paper_trail:''), (''has_closure_tree'', ''closure_tree:''),
     (''counter_cultures'', ''counter_culture:''), (''auto_strips'', ''auto_strip:''),
     (''registers_journal_formatter'', ''journal_formatter:''),
     (''registers_journal_formatted_fields'', ''journal_fields:''), (''has_dsl_call'', ''dsl:''),
     (''defines_method'', ''dyn_method:'')]"

definition remark :: "string \<Rightarrow> string option \<Rightarrow> string \<Rightarrow> string option" where
  "remark p member obj =
     (if p = ''acts_as'' then Some (''acts_as_'' @ hd (split_char CHR '':'' obj))
      else if p = ''inherits_from'' then Some (''inherits:'' @ strip_namespace obj)
      else if p = ''column_override''
      then Some (''col_override:'' @ (case member of Some c \<Rightarrow> c | None \<Rightarrow> ''?'') @ '':'' @ obj)
      else map_option (\<lambda>w. w @ obj) (map_of remark_words p))"

definition populate :: "(string \<Rightarrow> string) \<Rightarrow> facts \<Rightarrow> triple \<Rightarrow> pass \<Rightarrow> pass" where
  "populate upper F t ps =
     (case split_subject (tr_s t) of None \<Rightarrow> ps | Some (table_iri, member) \<Rightarrow>
      case map_of (pa_tables ps) table_iri of None \<Rightarrow> ps | Some builder \<Rightarrow>
      if tr_p t = ''has_attribute'' then take_attribute F table_iri member (tr_o t) builder ps
      else if tr_p t = ''has_field'' then take_field F table_iri (tr_o t) builder ps
      else if tr_p t = ''declares_association'' then take_association upper F table_iri (tr_o t) builder ps
      else if tr_p t = ''validates_constraint'' then take_validation F table_iri (tr_o t) ps
      else (case remark (tr_p t) member (tr_o t) of
          Some note \<Rightarrow> put_builder table_iri (add_annotation note builder) ps
        | None \<Rightarrow> ps))"

definition apply_assert :: "string \<times> string \<times> string \<Rightarrow> (string \<times> table_builder) list \<Rightarrow> (string \<times> table_builder) list" where
  "apply_assert = (\<lambda>(table_iri, field_name, expr). bt_change table_iri (add_field_assert field_name expr))"

definition unique_index :: "facts \<Rightarrow> string \<Rightarrow> string \<Rightarrow> table_builder \<Rightarrow> table_builder" where
  "unique_index F attr_iri attr_name builder =
     (if \<not> has_field attr_name builder then builder
      else
        (let scope_cols = (case map_of (fa_validation_params F) attr_iri of
               Some params \<Rightarrow> extract_uniqueness_scope params | None \<Rightarrow> []);
             cols = attr_name # scope_cols;
             idx_name = (if scope_cols = [] then ''idx_'' @ tb_name builder @ ''_'' @ attr_name @ ''_unique''
               else ''idx_'' @ tb_name builder @ ''_'' @ attr_name @ ''_'' @ join ''_'' scope_cols @ ''_unique'')
         in add_unique_index idx_name cols builder))"

definition apply_uniqueness :: "facts \<Rightarrow> string \<times> string list \<Rightarrow> (string \<times> table_builder) list \<Rightarrow> (string \<times> table_builder) list" where
  "apply_uniqueness F = (\<lambda>(attr_iri, kinds) tables.
     if ''uniqueness'' \<notin> set kinds then tables
     else (case split_subject attr_iri of
         Some (table_iri, Some attr_name) \<Rightarrow> bt_change table_iri (unique_index F attr_iri attr_name) tables
       | _ \<Rightarrow> tables))"

definition stub_table :: "string \<Rightarrow> table_definition" where
  "stub_table target = build_table
     (add_annotation ''stub: referenced by a core FK; not in the curated emission set'' (table_builder_new target))"

definition triples_to_schema_with_targets :: "(string \<Rightarrow> string) \<Rightarrow> triple list \<Rightarrow> string list \<Rightarrow> schema" where
  "triples_to_schema_with_targets upper triples extra_targets =
     (let F = collect_facts triples extra_targets;
          ps = fold (populate upper F) triples
            \<lparr>pa_tables = fold discover triples [], pa_stub_targets = [], pa_pending_asserts = []\<rparr>;
          tables1 = fold apply_assert (pa_pending_asserts ps) (pa_tables ps);
          tables2 = fold (apply_uniqueness F) (fa_validation_kinds F) tables1
      in \<lparr>sch_tables = sort_key td_name (map (build_table \<circ> snd) tables2 @ map stub_table (pa_stub_targets ps))\<rparr>)"

definition triples_to_schema :: "(string \<Rightarrow> string) \<Rightarrow> triple list \<Rightarrow> schema" where
  "triples_to_schema upper triples = triples_to_schema_with_targets upper triples []"

subsection \<open>The invariant of the passes\<close>

fun kind_links :: "kind \<Rightarrow> string set" where
  "kind_links (KRecord targets) = set targets"
| "kind_links (KOption k) = kind_links k"
| "kind_links _ = {}"

definition builder_ok :: "string set \<Rightarrow> table_builder \<Rightarrow> bool" where
  "builder_ok T b \<longleftrightarrow>
     set (tb_seen_fields b) = fd_name ` set (tb_fields b) \<and> distinct (map fd_name (tb_fields b)) \<and>
     (\<forall>f \<in> set (tb_fields b). fd_table f = tb_name b \<and> kind_links (fd_kind f) \<subseteq> T) \<and>
     (\<forall>i \<in> set (tb_indices b). ix_table i = tb_name b)"

lemma kind_links_simps [simp]:
  "kind_links (kind_optional k) = kind_links k"
  "from_rails_type r = Some k \<Longrightarrow> kind_links k = {}"
  by (cases k; simp add: kind_optional_def) (auto simp: from_rails_type_def split: if_splits)

lemma typed_kind_links [simp]: "typed_kind F i = Some k \<Longrightarrow> kind_links k = {}"
  by (auto simp: typed_kind_def bind_eq_Some_conv)

lemma change_first_map:
  "(\<And>x. g (f x) = g x) \<Longrightarrow> map g (change_first P f xs) = map g xs"
  by (induction xs) auto

lemma change_first_set: "y \<in> set (change_first P f xs) \<Longrightarrow> y \<in> set xs \<or> (\<exists>x \<in> set xs. y = f x)"
  by (induction xs) (auto split: if_splits)

lemma find_change_first: "(\<And>x. P x \<Longrightarrow> P (f x)) \<Longrightarrow> List.find P (change_first P f xs) = map_option f (List.find P xs)"
  by (induction xs) auto

lemma change_first_twice:
  "(\<And>x. P x \<Longrightarrow> P (f x)) \<Longrightarrow> change_first P g (change_first P f xs) = change_first P (g \<circ> f) xs"
  by (induction xs) auto

lemma builder_ok_mono: "builder_ok S b \<Longrightarrow> S \<subseteq> T \<Longrightarrow> builder_ok T b"
  by (auto simp: builder_ok_def)

lemma builder_ok_new [simp]: "builder_ok T (table_builder_new n)"
  by (simp add: builder_ok_def table_builder_new_def)

lemma builder_ok_field:
  "builder_ok T b \<Longrightarrow> kind_links k \<subseteq> T \<Longrightarrow> builder_ok T (snd (add_field n k b))"
  by (auto simp: builder_ok_def add_field_def field_definition_new_def)

lemma fields_changed:
  assumes "\<And>f. fd_name (g f) = fd_name f" "\<And>f. fd_table (g f) = fd_table f" "\<And>f. f \<in> set fs \<Longrightarrow> kind_links (fd_kind (g f)) \<subseteq> T"
    and "\<forall>f \<in> set fs. fd_table f = n \<and> kind_links (fd_kind f) \<subseteq> T"
  shows "fd_name ` set (change_first P g fs) = fd_name ` set fs" "map fd_name (change_first P g fs) = map fd_name fs"
    "\<forall>f \<in> set (change_first P g fs). fd_table f = n \<and> kind_links (fd_kind f) \<subseteq> T"
proof -
  show names: "map fd_name (change_first P g fs) = map fd_name fs" by (rule change_first_map) (rule assms(1))
  from arg_cong [OF names, of set] show "fd_name ` set (change_first P g fs) = fd_name ` set fs" by simp
  show "\<forall>f \<in> set (change_first P g fs). fd_table f = n \<and> kind_links (fd_kind f) \<subseteq> T"
    using assms(2-4) by (fastforce dest: change_first_set)
qed

lemma builder_ok_change:
  assumes "builder_ok T b" "\<And>f. fd_name (g f) = fd_name f" "\<And>f. fd_table (g f) = fd_table f"
    "\<And>f. kind_links (fd_kind f) \<subseteq> T \<Longrightarrow> kind_links (fd_kind (g f)) \<subseteq> T"
  shows "builder_ok T (b\<lparr>tb_fields := change_first P g (tb_fields b)\<rparr>)"
proof -
  have old: "\<forall>f \<in> set (tb_fields b). fd_table f = tb_name b \<and> kind_links (fd_kind f) \<subseteq> T"
    using assms(1) by (simp add: builder_ok_def)
  note new = fields_changed [of g, OF assms(2,3) assms(4) old, of P]
  have "kind_links (fd_kind f) \<subseteq> T" if "f \<in> set (tb_fields b)" for f using old that by blast
  from new [OF this] assms(1) show ?thesis by (simp add: builder_ok_def)
qed

lemma builder_ok_upgrade:
  "builder_ok T b \<Longrightarrow> kind_links k \<subseteq> T \<Longrightarrow> builder_ok T (snd (upgrade_field_kind n k b))"
  using builder_ok_change [of T b "\<lambda>f. f\<lparr>fd_kind := k\<rparr>"] by (auto simp: upgrade_field_kind_def split: option.split)

lemma builder_ok_assert: "builder_ok T b \<Longrightarrow> builder_ok T (add_field_assert n e b)"
  unfolding add_field_assert_def by (rule builder_ok_change) auto

lemma builder_ok_others:
  "builder_ok T b \<Longrightarrow> builder_ok T (add_index n cs b)"
  "builder_ok T b \<Longrightarrow> builder_ok T (add_unique_index n cs b)"
  "builder_ok T b \<Longrightarrow> builder_ok T (add_annotation a b)"
  "builder_ok T b \<Longrightarrow> builder_ok T (unique_index F i a b)"
  by (auto simp: builder_ok_def add_index_def add_unique_index_def add_annotation_def unique_index_def
      index_definition_new_def index_unique_def Let_def)

lemma builder_names [simp]:
  "tb_name (snd (add_field n k b)) = tb_name b" "tb_name (snd (upgrade_field_kind n k b)) = tb_name b"
  "tb_name (add_index n cs b) = tb_name b" "tb_name (add_unique_index n cs b) = tb_name b"
  "tb_name (add_annotation a b) = tb_name b" "tb_name (add_field_assert n e b) = tb_name b"
  "tb_name (unique_index F i a b) = tb_name b" "tb_name (table_builder_new n) = n"
  by (simp_all add: add_field_def upgrade_field_kind_def add_index_def add_unique_index_def add_annotation_def
      add_field_assert_def unique_index_def table_builder_new_def Let_def split: option.split)

definition table_names :: "(string \<times> table_builder) list \<Rightarrow> string list" where
  "table_names m = map (tb_name \<circ> snd) m"

definition tables_ok :: "string set \<Rightarrow> string list \<Rightarrow> (string \<times> table_builder) list \<Rightarrow> bool" where
  "tables_ok T names m \<longleftrightarrow> bt_ok m \<and> table_names m = names \<and> (\<forall>b \<in> snd ` set m. builder_ok T b)"

definition pass_ok :: "facts \<Rightarrow> pass \<Rightarrow> bool" where
  "pass_ok F ps \<longleftrightarrow>
     tables_ok (set (fa_declared F) \<union> set (pa_stub_targets ps)) (fa_declared F) (pa_tables ps) \<and>
     set (pa_stub_targets ps) \<subseteq> set (fa_known_targets F) - set (fa_declared F) \<and> distinct (pa_stub_targets ps)"

lemma tables_ok_change:
  assumes "tables_ok T names m" "\<And>b. map_of m k = Some b \<Longrightarrow> builder_ok T b \<Longrightarrow> builder_ok T (f b) \<and> tb_name (f b) = tb_name b"
  shows "tables_ok T names (bt_change k f m)"
proof -
  have m: "distinct (map fst m)" "\<forall>b \<in> snd ` set m. builder_ok T b"
    using assms(1) bt_ok_distinct by (auto simp: tables_ok_def)
  have own: "builder_ok T b \<and> builder_ok T (f b) \<and> tb_name (f b) = tb_name b" if "map_of m k = Some b" for b
    using assms(2) [OF that] m(2) map_of_SomeD [OF that] by force
  then have "table_names (bt_change k f m) = table_names m"
    unfolding table_names_def using m(1) by (intro bt_change_map) auto
  moreover have "\<forall>b \<in> snd ` set (bt_change k f m). builder_ok T b"
    using m own unfolding bt_change_def by (auto; force)
  ultimately show ?thesis using assms(1) by (simp add: tables_ok_def)
qed

lemma pass_ok_builder:
  assumes "pass_ok F ps" "map_of (pa_tables ps) iri = Some b"
  shows "builder_ok (set (fa_declared F) \<union> set (pa_stub_targets ps)) b"
  using assms map_of_SomeD [OF assms(2)] by (force simp: pass_ok_def tables_ok_def)

lemma put_builder_ok:
  assumes "pass_ok F ps" "map_of (pa_tables ps) iri = Some b0" "tb_name b = tb_name b0"
    and "\<And>T. T = set (fa_declared F) \<union> set (pa_stub_targets ps) \<Longrightarrow> builder_ok T b0 \<Longrightarrow> builder_ok T b"
  shows "pass_ok F (put_builder iri b ps)"
  using assms pass_ok_builder [OF assms(1,2)] by (auto simp: pass_ok_def put_builder_def intro!: tables_ok_change)

lemma pass_ok_pending [simp]: "pass_ok F (ps\<lparr>pa_pending_asserts := x\<rparr>) = pass_ok F ps"
  by (simp add: pass_ok_def)

lemma put_builder_simps [simp]:
  "pa_stub_targets (put_builder iri b ps) = pa_stub_targets ps"
  "pa_pending_asserts (put_builder iri b ps) = pa_pending_asserts ps"
  "pa_tables (put_builder iri b ps) = bt_change iri (\<lambda>_. b) (pa_tables ps)"
  by (simp_all add: put_builder_def)

lemma take_attribute_ok:
  "pass_ok F ps \<Longrightarrow> map_of (pa_tables ps) iri = Some b \<Longrightarrow> pass_ok F (take_attribute F iri m obj b ps)"
  unfolding take_attribute_def Let_def
  by (auto intro!: put_builder_ok builder_ok_field split: option.split)

lemma take_field_ok:
  "pass_ok F ps \<Longrightarrow> map_of (pa_tables ps) iri = Some b \<Longrightarrow> pass_ok F (take_field F iri obj b ps)"
  unfolding take_field_def Let_def
  by (auto simp: case_prod_beta intro!: put_builder_ok builder_ok_field split: option.split)

lemma stub_ok:
  assumes "pass_ok F ps" "t \<in> set (fa_known_targets F)" "t \<notin> set (fa_declared F)"
  shows "pass_ok F (ps\<lparr>pa_stub_targets := insort_insert t (pa_stub_targets ps)\<rparr>)"
  using assms by (auto simp: pass_ok_def tables_ok_def set_insort_insert distinct_insort_insert elim!: builder_ok_mono)

lemma linked_ok:
  assumes ps: "pass_ok F ps" "map_of (pa_tables ps) iri = Some b"
    and k: "kind_links k \<subseteq> set (fa_declared F) \<union> set (pa_stub_targets ps)"
  shows "pass_ok F (put_builder iri (let (newly, b1) = add_field n k b;
      (upgraded, b2) = (if newly then (False, b1) else upgrade_field_kind n k b1)
    in if newly \<or> upgraded then add_index (f b2) [n] b2 else b2) ps)"
  using k by (auto simp: case_prod_beta Let_def intro!: put_builder_ok [OF ps] builder_ok_others builder_ok_upgrade builder_ok_field)

lemma take_association_ok:
  assumes "pass_ok F ps" "map_of (pa_tables ps) iri = Some b"
  shows "pass_ok F (take_association upper F iri obj b ps)"
proof -
  let ?t = "case map_of (fa_class_names F) obj of Some s \<Rightarrow> strip_class_namespace s | None \<Rightarrow> rails_target_class upper (member_name obj)"
  let ?n = "member_name obj @ ''_id''"
  let ?known = "?t \<in> set (fa_known_targets F)"
  let ?base = "if ?known then KRecord [?t] else KAny"
  let ?k = "if iri @ ''.'' @ ?n \<in> set (fa_not_null F) then ?base else kind_optional ?base"
  let ?stubs = "if ?known \<and> ?t \<notin> set (fa_declared F) then insort_insert ?t (pa_stub_targets ps) else pa_stub_targets ps"
  let ?ps = "ps\<lparr>pa_stub_targets := ?stubs\<rparr>"
  have "pass_ok F ?ps" using assms(1) stub_ok [OF assms(1)] by auto
  moreover have "map_of (pa_tables ?ps) iri = Some b" using assms(2) by simp
  moreover have "kind_links ?k \<subseteq> set (fa_declared F) \<union> set (pa_stub_targets ?ps)" by (auto simp: set_insort_insert)
  ultimately have "pass_ok F (put_builder iri (let (newly, b1) = add_field ?n ?k b;
      (upgraded, b2) = (if newly then (False, b1) else upgrade_field_kind ?n ?k b1)
    in if newly \<or> upgraded then add_index (''idx_'' @ tb_name b2 @ ''_'' @ ?n) [?n] b2 else b2) ?ps)"
    by (rule linked_ok)
  moreover have "pass_ok F (put_builder iri (add_annotation x b) ps)" for x
    using assms by (auto intro!: put_builder_ok builder_ok_others)
  ultimately show ?thesis unfolding take_association_def Let_def by (simp add: case_prod_beta)
qed

lemma populate_ok: "pass_ok F ps \<Longrightarrow> pass_ok F (populate upper F t ps)"
  by (auto simp: populate_def take_validation_def Let_def
    intro!: take_attribute_ok take_field_ok take_association_ok put_builder_ok builder_ok_others
    split: option.split)

lemma discovered_ok: "tables_ok T (table_names (fold discover ts [])) (fold discover ts [])"
proof -
  have "bt_ok m \<and> (\<forall>b \<in> snd ` set m. builder_ok T b) \<Longrightarrow>
      bt_ok (fold discover ts m) \<and> (\<forall>b \<in> snd ` set (fold discover ts m). builder_ok T b)" for m
  proof (induction ts arbitrary: m)
    case (Cons t ts)
    have "builder_ok T b" if "(i, b) \<in> set (bt_insert k (table_builder_new n) m)" for i b k n
      using that Cons.prems bt_insert_set [of k "table_builder_new n" m] by fastforce
    with Cons.prems have "bt_ok (discover t m) \<and> (\<forall>b \<in> snd ` set (discover t m). builder_ok T b)"
      by (auto simp: discover_def bt_or_insert_def split: option.split)
    with Cons.IH show ?case by simp
  qed simp
  from this [of "[]"] show ?thesis by (simp add: tables_ok_def)
qed

lemma populated_ok: "pass_ok F ps \<Longrightarrow> pass_ok F (fold (populate upper F) ts ps)"
  by (induction ts arbitrary: ps) (simp_all add: populate_ok)

lemma apply_ok:
  "tables_ok T ns m \<Longrightarrow> tables_ok T ns (apply_assert a m)"
  "tables_ok T ns m \<Longrightarrow> tables_ok T ns (apply_uniqueness F k m)"
  by (auto simp: apply_assert_def apply_uniqueness_def case_prod_beta
      intro!: tables_ok_change builder_ok_assert builder_ok_others split: option.split)

lemma applied_ok:
  "tables_ok T ns m \<Longrightarrow> tables_ok T ns (fold apply_assert as m)"
  "tables_ok T ns m \<Longrightarrow> tables_ok T ns (fold (apply_uniqueness F) ks m)"
  by (induction as arbitrary: m; simp add: apply_ok) (induction ks arbitrary: m; simp add: apply_ok)

lemma with_fields: "td_fields (fold table_with_field fs t) = td_fields t @ fs" "td_indices (fold table_with_field fs t) = td_indices t"
  "td_name (fold table_with_field fs t) = td_name t" "td_comment (fold table_with_field fs t) = td_comment t"
  by (induction fs arbitrary: t) (simp_all add: table_with_field_def)

lemma with_indices: "td_fields (fold table_with_index is t) = td_fields t" "td_indices (fold table_with_index is t) = td_indices t @ is"
  "td_name (fold table_with_index is t) = td_name t" "td_comment (fold table_with_index is t) = td_comment t"
  by (induction "is" arbitrary: t) (simp_all add: table_with_index_def)

lemma build_table_simps [simp]:
  "td_name (build_table b) = tb_name b" "td_fields (build_table b) = tb_fields b" "td_indices (build_table b) = tb_indices b"
  by (simp_all add: build_table_def Let_def with_fields with_indices table_with_comment_def table_definition_new_def)

lemma stub_table_simps [simp]:
  "td_name (stub_table n) = n" "td_fields (stub_table n) = []" "td_indices (stub_table n) = []"
  by (simp_all add: stub_table_def add_annotation_def table_builder_new_def)

text \<open>The classes the facts declare.\<close>

definition declared_classes :: "triple list \<Rightarrow> string list" where
  "declared_classes ts = List.map_filter (\<lambda>t.
     if tr_p t = ''rdf:type'' \<and> tr_o t = ''ogit:ObjectType''
     then map_option (strip_namespace \<circ> fst) (split_subject (tr_s t)) else None) ts"

lemma discovered_names: "set (table_names (fold discover ts [])) = set (declared_classes ts)"
proof -
  have names: "\<forall>(k, b) \<in> set m. tb_name b = strip_namespace k \<Longrightarrow>
      set (table_names (fold discover ts m)) = set (table_names m) \<union> set (declared_classes ts)" for m
  proof (induction ts arbitrary: m)
    case (Cons t ts)
    have "(\<forall>(k, b) \<in> set (discover t m). tb_name b = strip_namespace k) \<and>
        set (table_names (discover t m)) = set (table_names m) \<union> set (declared_classes [t])"
    proof (cases "tr_p t = ''rdf:type'' \<and> tr_o t = ''ogit:ObjectType''")
      case True
      show ?thesis
      proof (cases "split_subject (tr_s t)")
        case (Some p)
        then obtain iri x where p: "split_subject (tr_s t) = Some (iri, x)" by (cases p) auto
        show ?thesis
        proof (cases "map_of m iri")
          case None
          with p True Cons.prems show ?thesis
            by (auto simp: discover_def bt_or_insert_def table_names_def declared_classes_def map_filter_simps bt_insert_new)
        next
          case (Some b)
          with Cons.prems have "tb_name b = strip_namespace iri" "(iri, b) \<in> set m" by (auto dest: map_of_SomeD)
          then have "strip_namespace iri \<in> set (table_names m)" by (force simp: table_names_def)
          with Some p True Cons.prems show ?thesis
            by (auto simp: discover_def bt_or_insert_def declared_classes_def map_filter_simps)
        qed
      qed (use True Cons.prems in \<open>auto simp: discover_def declared_classes_def map_filter_simps\<close>)
    qed (use Cons.prems in \<open>auto simp: discover_def declared_classes_def map_filter_simps\<close>)
    moreover have "set (declared_classes (t # ts)) = set (declared_classes [t]) \<union> set (declared_classes ts)"
      by (simp add: declared_classes_def map_filter_simps split: option.split)
    ultimately show ?case using Cons.IH [of "discover t m"] by auto
  qed (simp add: declared_classes_def map_filter_simps)
  from names [of "[]"] show ?thesis by (simp add: table_names_def)
qed

text \<open>A schema whose links lead to its tables, which are declared or known.\<close>

definition schema_ok :: "string list \<Rightarrow> string list \<Rightarrow> schema \<Rightarrow> bool" where
  "schema_ok declared extra s \<longleftrightarrow>
     sorted (map td_name (sch_tables s)) \<and>
     set declared \<subseteq> td_name ` set (sch_tables s) \<and> td_name ` set (sch_tables s) \<subseteq> set declared \<union> set extra \<and>
     (\<forall>t \<in> set (sch_tables s). distinct (map fd_name (td_fields t)) \<and>
        (\<forall>f \<in> set (td_fields t). fd_table f = td_name t \<and> kind_links (fd_kind f) \<subseteq> td_name ` set (sch_tables s)) \<and>
        (\<forall>i \<in> set (td_indices t). ix_table i = td_name t))"

text \<open>
  C12. Schemas are well formed.  Whatever facts the extractor found, and whatever targets are known besides:
  the tables of the schema are in the order of their names, every declared class has one and every table
  is a declared class or a known target, no table has two fields of one name, the
  fields and indices of a table name it, and every record link leads to a table of the schema.
\<close>

theorem schema_links_resolve:
  "schema_ok (declared_classes ts) extra (triples_to_schema_with_targets upper ts extra)"
proof -
  define F where "F = collect_facts ts extra"
  define ps where "ps = fold (populate upper F) ts \<lparr>pa_tables = fold discover ts [], pa_stub_targets = [], pa_pending_asserts = []\<rparr>"
  define m where "m = fold (apply_uniqueness F) (fa_validation_kinds F) (fold apply_assert (pa_pending_asserts ps) (pa_tables ps))"
  define T where "T = set (fa_declared F) \<union> set (pa_stub_targets ps)"
  have declared: "fa_declared F = table_names (fold discover ts [])"
    by (simp add: F_def collect_facts_def table_names_def Let_def)
  then have classes: "set (fa_declared F) = set (declared_classes ts)" by (simp add: discovered_names)
  have known: "set (fa_known_targets F) = set (fa_declared F) \<union> set extra"
    by (simp add: F_def collect_facts_def Let_def)
  have "pass_ok F \<lparr>pa_tables = fold discover ts [], pa_stub_targets = [], pa_pending_asserts = []\<rparr>"
    using discovered_ok [of _ ts] by (simp add: pass_ok_def declared)
  then have ps: "pass_ok F ps" unfolding ps_def by (rule populated_ok)
  then have stubs: "set (pa_stub_targets ps) \<subseteq> set extra" using known by (auto simp: pass_ok_def)
  from ps have "tables_ok T (fa_declared F) m"
    unfolding m_def T_def by (intro applied_ok) (simp add: pass_ok_def)
  then have m: "map tb_name (map snd m) = fa_declared F" "\<forall>b \<in> snd ` set m. builder_ok T b"
    by (simp_all add: tables_ok_def table_names_def)
  let ?tables = "map (build_table \<circ> snd) m @ map stub_table (pa_stub_targets ps)"
  have res: "triples_to_schema_with_targets upper ts extra = \<lparr>sch_tables = sort_key td_name ?tables\<rparr>"
    by (simp add: triples_to_schema_with_targets_def F_def [symmetric] ps_def [symmetric] m_def [symmetric] Let_def)
  have names: "td_name ` set ?tables = T"
    using arg_cong [OF m(1), of set] by (simp add: T_def image_Un image_image)
  have "distinct (map fd_name (td_fields t)) \<and>
      (\<forall>f \<in> set (td_fields t). fd_table f = td_name t \<and> kind_links (fd_kind f) \<subseteq> T) \<and> (\<forall>i \<in> set (td_indices t). ix_table i = td_name t)"
    if t: "t \<in> set ?tables" for t
  proof (cases "t \<in> set (map stub_table (pa_stub_targets ps))")
    case False
    with t obtain b where "b \<in> snd ` set m" "t = build_table b" by auto
    with m(2) have "builder_ok T b" by blast
    with \<open>t = build_table b\<close> show ?thesis by (simp add: builder_ok_def)
  qed auto
  then show ?thesis unfolding schema_ok_def res
    using stubs classes by (auto simp: names T_def simp del: map_append set_append)
qed

subsection \<open>Repeated facts\<close>

text \<open>
  A pass up to what the end result does not see: repeated remarks at a table and repeated neighbours among
  the assertions.
\<close>

definition settled_builder :: "table_builder \<Rightarrow> table_builder" where
  "settled_builder b = b\<lparr>tb_annotations := dedup_first (tb_annotations b)\<rparr>"

definition settle :: "pass \<Rightarrow> pass" where
  "settle ps = ps\<lparr>pa_tables := map (\<lambda>(k, b). (k, settled_builder b)) (pa_tables ps),
     pa_pending_asserts := remdups_adj (pa_pending_asserts ps)\<rparr>"

lemma settled_builder_ops:
  "tb_name (settled_builder b) = tb_name b"
  "fst (add_field n k (settled_builder b)) = fst (add_field n k b)"
  "snd (add_field n k (settled_builder b)) = settled_builder (snd (add_field n k b))"
  "fst (upgrade_field_kind n k (settled_builder b)) = fst (upgrade_field_kind n k b)"
  "snd (upgrade_field_kind n k (settled_builder b)) = settled_builder (snd (upgrade_field_kind n k b))"
  "add_index n cs (settled_builder b) = settled_builder (add_index n cs b)"
  "add_unique_index n cs (settled_builder b) = settled_builder (add_unique_index n cs b)"
  "add_field_assert n e (settled_builder b) = settled_builder (add_field_assert n e b)"
  "has_field n (settled_builder b) = has_field n b"
  "build_table (settled_builder b) = build_table b"
  by (simp_all add: settled_builder_def add_field_def upgrade_field_kind_def add_index_def add_unique_index_def
      add_field_assert_def has_field_def build_table_def distinct_remdups_id dedup_first_def split: option.split)

lemma dedup_first_then: "dedup_first (dedup_first xs @ [x]) = dedup_first (xs @ [x])"
  by (simp add: dedup_first_def distinct_remdups_id)

lemma settled_annotation:
  "settled_builder (add_annotation a (settled_builder b)) = settled_builder (add_annotation a b)"
  "settled_builder (add_annotation a (add_annotation a b)) = settled_builder (add_annotation a b)"
  "settled_builder (settled_builder b) = settled_builder b"
  by (simp_all add: settled_builder_def add_annotation_def dedup_first_then del: dedup_first_snoc)
    (simp_all add: dedup_first_def)

lemma map_of_settled [simp]:
  "map_of (map (\<lambda>(k, b). (k, settled_builder b)) m) i = map_option settled_builder (map_of m i)"
  by (induction m) auto

lemma settle_put: "settle (put_builder iri b ps) = put_builder iri (settled_builder b) (settle ps)"
  by (rule pass.equality) (auto simp: settle_def put_builder_def bt_change_def)

lemma settle_simps:
  "settle (settle ps) = settle ps" "map_of (pa_tables (settle ps)) i = map_option settled_builder (map_of (pa_tables ps) i)"
  "pa_stub_targets (settle ps) = pa_stub_targets ps"
  "settle (ps\<lparr>pa_stub_targets := st\<rparr>) = settle ps\<lparr>pa_stub_targets := st\<rparr>"
  by (simp_all add: settle_def remdups_adj_again settled_annotation comp_def case_prod_beta)

lemma settle_pending:
  "settle (ps\<lparr>pa_pending_asserts := pa_pending_asserts ps @ [a]\<rparr>) =
   settle (settle ps\<lparr>pa_pending_asserts := pa_pending_asserts (settle ps) @ [a]\<rparr>)"
  by (simp add: settle_def remdups_adj_then settled_annotation comp_def case_prod_beta)

lemma settle_put_settled: "settle (put_builder iri (settled_builder b) (settle ps)) = settle (put_builder iri b ps)"
  by (simp add: settle_put settle_simps settled_annotation)

lemma settle_pending_cong:
  "settle ps = settle ps' \<Longrightarrow> settle (ps\<lparr>pa_pending_asserts := pa_pending_asserts ps @ [a]\<rparr>) =
     settle (ps'\<lparr>pa_pending_asserts := pa_pending_asserts ps' @ [a]\<rparr>)"
  by (subst (1 2) settle_pending) simp

lemma take_attribute_settled:
  "settle (take_attribute F iri m obj (settled_builder b) (settle ps)) = settle (take_attribute F iri m obj b ps)"
  by (simp add: take_attribute_def Let_def settled_builder_ops settle_put_settled)

lemma take_field_settled:
  "settle (take_field F iri obj (settled_builder b) (settle ps)) = settle (take_field F iri obj b ps)"
proof -
  have "settle ((put_builder iri (settled_builder b') (settle ps))\<lparr>pa_pending_asserts :=
      pa_pending_asserts (put_builder iri (settled_builder b') (settle ps)) @ [a]\<rparr>) =
    settle ((put_builder iri b' ps)\<lparr>pa_pending_asserts := pa_pending_asserts (put_builder iri b' ps) @ [a]\<rparr>)" for b' a
    by (rule settle_pending_cong) (rule settle_put_settled)
  then show ?thesis
    by (cases "typed_kind F obj")
      (simp_all add: take_field_def Let_def case_prod_beta settled_builder_ops settle_put_settled settle_simps)
qed

lemma take_association_settled:
  "settle (take_association upper F iri obj (settled_builder b) (settle ps)) = settle (take_association upper F iri obj b ps)"
proof -
  have "settle (put_builder iri (settled_builder b') (settle ps\<lparr>pa_stub_targets := st\<rparr>)) =
      settle (put_builder iri b' (ps\<lparr>pa_stub_targets := st\<rparr>))" for b' st
    using settle_put_settled [of iri b' "ps\<lparr>pa_stub_targets := st\<rparr>"] by (simp add: settle_simps)
  moreover have "settle (put_builder iri (add_annotation a (settled_builder b)) (settle ps)) = settle (put_builder iri (add_annotation a b) ps)" for a
    by (simp add: settle_put settle_simps settled_annotation)
  ultimately show ?thesis
    by (simp add: take_association_def Let_def case_prod_beta settled_builder_ops settle_simps if_distrib [of settled_builder, symmetric])
qed

lemma populate_settled: "settle (populate upper F t (settle ps)) = settle (populate upper F t ps)"
proof -
  have "settle (take_validation F iri obj (settle ps)) = settle (take_validation F iri obj ps)" for iri obj
    unfolding take_validation_def Let_def by (rule settle_pending_cong) (rule settle_simps)
  moreover have "settle (put_builder iri (add_annotation a (settled_builder b)) (settle ps)) = settle (put_builder iri (add_annotation a b) ps)" for iri a b
    by (simp add: settle_put settle_simps settled_annotation)
  ultimately show ?thesis
    by (simp add: populate_def settle_simps take_attribute_settled take_field_settled take_association_settled split: option.split)
qed

lemma put_builder_twice [simp]:
  "put_builder iri b (put_builder iri c ps) = put_builder iri b ps"
  "put_builder iri b ((put_builder iri c ps)\<lparr>pa_pending_asserts := x\<rparr>) = (put_builder iri b ps)\<lparr>pa_pending_asserts := x\<rparr>"
  by (simp_all add: put_builder_def bt_change_twice comp_def)

lemma add_field_twice [simp]: "add_field n k (snd (add_field n k' b)) = (False, snd (add_field n k' b))"
  by (simp add: add_field_def)

lemma add_field_known [simp]: "\<not> fst (add_field n k b) \<Longrightarrow> snd (add_field n k b) = b"
  by (simp add: add_field_def split: if_splits)

lemma take_attribute_twice:
  "take_attribute F iri m obj b' (take_attribute F iri m obj b ps) = take_attribute F iri m obj b ps"
  if "map_of (pa_tables ps) iri = Some b" "map_of (pa_tables (take_attribute F iri m obj b ps)) iri = Some b'"
  using that by (auto simp: take_attribute_def Let_def)

lemma take_field_twice:
  "take_field F iri obj b' (take_field F iri obj b ps) = take_field F iri obj b ps"
  if "map_of (pa_tables ps) iri = Some b" "map_of (pa_tables (take_field F iri obj b ps)) iri = Some b'"
  using that by (auto simp: take_field_def Let_def case_prod_beta split: if_splits)

definition link_field :: "string \<Rightarrow> kind \<Rightarrow> table_builder \<Rightarrow> table_builder" where
  "link_field n k b =
     (let (newly, b1) = add_field n k b;
          (upgraded, b2) = (if newly then (False, b1) else upgrade_field_kind n k b1)
      in if newly \<or> upgraded then add_index (''idx_'' @ tb_name b2 @ ''_'' @ n) [n] b2 else b2)"

lemma link_field_twice:
  assumes "builder_ok T b"
  shows "link_field n k (link_field n k b) = link_field n k b"
proof -
  let ?P = "\<lambda>f. fd_name f = n"
  define b' where "b' = link_field n k b"
  have new: "List.find ?P (tb_fields b) = None" if "n \<notin> set (tb_seen_fields b)"
    using that assms by (auto simp: find_None_iff builder_ok_def)
  have "n \<in> set (tb_seen_fields b')"
    by (auto simp: b'_def link_field_def add_field_def upgrade_field_kind_def add_index_def split: option.split)
  moreover have "\<not> fst (upgrade_field_kind n k b') \<and> snd (upgrade_field_kind n k b') = b'"
  proof (cases "n \<in> set (tb_seen_fields b)")
    case False
    with new have "List.find ?P (tb_fields b') = Some (field_definition_new n (tb_name b) k)"
      by (simp add: b'_def link_field_def add_field_def add_index_def find_append field_definition_new_def)
    then show ?thesis by (simp add: upgrade_field_kind_def field_definition_new_def)
  next
    case True
    show ?thesis
    proof (cases "List.find ?P (tb_fields b)")
      case None
      with True have "b' = b" by (simp add: b'_def link_field_def add_field_def upgrade_field_kind_def)
      with None show ?thesis by (simp add: upgrade_field_kind_def)
    next
      case (Some f)
      with True have "\<exists>g. List.find ?P (tb_fields b') = Some g \<and> fd_kind g = k"
        by (simp add: b'_def link_field_def add_field_def upgrade_field_kind_def add_index_def find_change_first)
      then show ?thesis by (auto simp: upgrade_field_kind_def)
    qed
  qed
  ultimately show ?thesis unfolding b'_def [symmetric]
    by (simp add: link_field_def add_field_def case_prod_beta)
qed

lemma take_association_eq:
  "take_association upper F iri obj b ps =
     (let relation = member_name obj;
          target = (case map_of (fa_class_names F) obj of Some s \<Rightarrow> strip_class_namespace s | None \<Rightarrow> rails_target_class upper relation);
          assoc_kind = (case map_of (fa_assoc_kinds F) obj of Some k \<Rightarrow> k | None \<Rightarrow> ''belongs_to'')
      in if assoc_kind = ''belongs_to''
         then
           (let field_name = relation @ ''_id'';
                known = target \<in> set (fa_known_targets F);
                stubs = (if known \<and> target \<notin> set (fa_declared F)
                         then insort_insert target (pa_stub_targets ps) else pa_stub_targets ps);
                base = (if known then KRecord [target] else KAny);
                kind = (if iri @ ''.'' @ field_name \<in> set (fa_not_null F) then base else kind_optional base)
            in put_builder iri (link_field field_name kind b) (ps\<lparr>pa_stub_targets := stubs\<rparr>))
         else put_builder iri
           (add_annotation (assoc_kind @ '':'' @ relation @ [CHR 0xE2, CHR 0x86, CHR 0x92] @ target) b) ps)"
  by (simp add: take_association_def link_field_def Let_def case_prod_beta)

lemma put_builder_stubs [simp]:
  "put_builder iri b ((put_builder iri c ps)\<lparr>pa_stub_targets := x\<rparr>) = put_builder iri b (ps\<lparr>pa_stub_targets := x\<rparr>)"
  "(put_builder iri b ps)\<lparr>pa_stub_targets := x\<rparr> = put_builder iri b (ps\<lparr>pa_stub_targets := x\<rparr>)"
  by (simp_all add: put_builder_def bt_change_twice comp_def)

lemma take_association_twice:
  assumes "map_of (pa_tables ps) iri = Some b" "map_of (pa_tables (take_association upper F iri obj b ps)) iri = Some b'"
    "builder_ok T b"
  shows "settle (take_association upper F iri obj b' (take_association upper F iri obj b ps)) =
    settle (take_association upper F iri obj b ps)"
  using assms link_field_twice [OF assms(3)]
  by (auto simp: take_association_eq Let_def settle_put settled_annotation split: if_splits)

lemma populate_twice:
  assumes "pass_ok F ps"
  shows "settle (populate upper F t (populate upper F t ps)) = settle (populate upper F t ps)"
proof (cases "split_subject (tr_s t)")
  case (Some p)
  then obtain iri m where p: "split_subject (tr_s t) = Some (iri, m)" by (cases p) auto
  show ?thesis
  proof (cases "map_of (pa_tables ps) iri")
    case (Some b)
    have ok: "\<exists>T. builder_ok T b" using pass_ok_builder [OF assms Some] by blast
    have there: "\<exists>b'. map_of (pa_tables (take_attribute F iri m obj b ps)) iri = Some b'"
      "\<exists>b'. map_of (pa_tables (take_field F iri obj b ps)) iri = Some b'"
      "\<exists>b'. map_of (pa_tables (take_association upper F iri obj b ps)) iri = Some b'" for obj
      using Some by (auto simp: take_attribute_def take_field_def take_association_eq Let_def case_prod_beta)
    have "settle (take_validation F iri obj (take_validation F iri obj ps)) = settle (take_validation F iri obj ps)" for obj
      by (simp add: take_validation_def Let_def settle_def remdups_adj_pair)
    moreover have "settle (put_builder iri (add_annotation a (add_annotation a b)) ps) = settle (put_builder iri (add_annotation a b) ps)" for a
      by (simp add: settle_put settled_annotation)
    moreover have "map_of (pa_tables (take_validation F iri obj ps)) iri = Some b" for obj
      using Some by (simp add: take_validation_def Let_def)
    ultimately show ?thesis using Some ok there
      by (auto simp: populate_def p take_attribute_twice [OF Some] take_field_twice [OF Some] take_association_twice [OF Some]
        split: option.split)
  qed (simp add: populate_def p)
qed (simp add: populate_def)

text \<open>What follows the main pass.\<close>

definition finish :: "facts \<Rightarrow> pass \<Rightarrow> schema" where
  "finish F ps = \<lparr>sch_tables = sort_key td_name (map (build_table \<circ> snd)
     (fold (apply_uniqueness F) (fa_validation_kinds F) (fold apply_assert (pa_pending_asserts ps) (pa_tables ps))) @
     map stub_table (pa_stub_targets ps))\<rparr>"

abbreviation start :: "triple list \<Rightarrow> pass" where
  "start ts \<equiv> \<lparr>pa_tables = fold discover ts [], pa_stub_targets = [], pa_pending_asserts = []\<rparr>"

lemma schema_finish:
  "triples_to_schema_with_targets upper ts extra =
     finish (collect_facts ts extra) (fold (populate upper (collect_facts ts extra)) ts (start ts))"
  by (simp add: triples_to_schema_with_targets_def finish_def Let_def)

lemma change_settled:
  "(\<And>b. f (settled_builder b) = settled_builder (f b)) \<Longrightarrow>
   bt_change k f (map (\<lambda>(k, b). (k, settled_builder b)) m) = map (\<lambda>(k, b). (k, settled_builder b)) (bt_change k f m)"
  by (auto simp: bt_change_def)

lemma apply_settled:
  "apply_assert a (map (\<lambda>(k, b). (k, settled_builder b)) m) = map (\<lambda>(k, b). (k, settled_builder b)) (apply_assert a m)"
  "apply_uniqueness F u (map (\<lambda>(k, b). (k, settled_builder b)) m) = map (\<lambda>(k, b). (k, settled_builder b)) (apply_uniqueness F u m)"
  by (auto simp: apply_assert_def apply_uniqueness_def case_prod_beta unique_index_def Let_def settled_builder_ops
      intro!: change_settled split: option.split)

lemma fold_settled:
  "(\<And>x m. f x (map g m) = map g (f x m)) \<Longrightarrow> fold f xs (map g m) = map g (fold f xs m)"
  by (induction xs arbitrary: m) auto

lemma apply_assert_twice: "apply_assert a (apply_assert a m) = apply_assert a m"
proof -
  have "add_field_assert n e \<circ> add_field_assert n e = add_field_assert n e" for n e
    by (simp add: fun_eq_iff add_field_assert_def change_first_twice comp_def)
  then show ?thesis by (simp add: apply_assert_def case_prod_beta bt_change_twice)
qed

lemma finish_settled: "finish F (settle ps) = finish F ps"
proof -
  have "fold apply_assert (remdups_adj as) m = fold apply_assert as m" for as m
    by (rule fold_remdups_adj [where I = "\<lambda>_. True"]) (simp_all add: apply_assert_twice)
  then show ?thesis
    by (simp add: finish_def settle_def fold_settled apply_settled comp_def case_prod_beta settled_builder_ops)
qed

lemma collected_once: "collect_facts (remdups_adj ts) extra = collect_facts ts extra" "start (remdups_adj ts) = start ts"
proof -
  have once: "fold f (remdups_adj ts) s = fold f ts s" if "\<And>x s. f x (f x s) = f x s" for f s
    by (rule fold_remdups_adj [where I = "\<lambda>_. True"]) (simp_all add: that)
  have "discover t (discover t m) = discover t m" for t m
    by (simp add: discover_def split: option.split)
  moreover have "collect_by p t (collect_by p t m) = collect_by p t m" for p t m by (simp add: collect_by_def)
  moreover have "gather_by p t (gather_by p t m) = gather_by p t m" for p t m by (simp add: gather_by_def)
  moreover have "note_not_null t (note_not_null t m) = note_not_null t m" for t m by (simp add: note_not_null_def List.insert_def)
  ultimately show "collect_facts (remdups_adj ts) extra = collect_facts ts extra" "start (remdups_adj ts) = start ts"
    by (simp_all add: collect_facts_def once)
qed

text \<open>
  C18. Repeated facts.  A fact that is repeated right after itself changes nothing; so in a sorted list of
  facts, which the extractor makes, no repetition does.
\<close>

theorem repeated_facts_change_nothing:
  "triples_to_schema_with_targets upper (remdups_adj ts) extra = triples_to_schema_with_targets upper ts extra"
proof -
  define F where "F = collect_facts ts extra"
  let ?g = "\<lambda>t ps. settle (populate upper F t ps)"
  have settled: "settle (fold (populate upper F) ts ps) = fold ?g ts (settle ps)" for ts ps
  proof (induction ts arbitrary: ps)
    case (Cons t ts)
    then show ?case by (simp add: populate_settled)
  qed simp
  have fin: "finish F (fold (populate upper F) ts (start ts')) = finish F (fold ?g ts (settle (start ts')))" for ts ts'
    using finish_settled [of F "fold (populate upper F) ts (start ts')"] by (simp add: settled)
  have ok: "pass_ok F (settle ps) = pass_ok F ps" for ps
    by (auto simp: pass_ok_def tables_ok_def settle_def table_names_def bt_ok_def builder_ok_def settled_builder_def comp_def case_prod_beta)
  have "pass_ok F (start ts)"
    using discovered_ok [of _ ts] by (simp add: pass_ok_def F_def collect_facts_def table_names_def Let_def)
  then have "fold ?g (remdups_adj ts) (settle (start ts)) = fold ?g ts (settle (start ts))"
    by (intro fold_remdups_adj [where I = "pass_ok F"]) (simp_all add: ok populate_ok populate_settled populate_twice)
  then show ?thesis by (simp add: schema_finish collected_once F_def [symmetric] fin)
qed

subsection \<open>Assertions\<close>

definition fixed_clauses :: "string list" where
  "fixed_clauses = [''type::is_number($value)'', ''$value == true'', ''$value == NONE'', ''$value != NONE'']"

definition bound_words :: "string list" where
  "bound_words = [''string::len($value) <= '', ''string::len($value) >= '', ''string::len($value) == '',
     ''$value > '', ''$value < '', ''$value >= '', ''$value <= '', ''$value == '']"

definition numeral_text :: "string \<Rightarrow> bool" where
  "numeral_text n \<longleftrightarrow> parse_i64 n \<noteq> None \<and> list_all (\<lambda>c. is_digit c \<or> c = CHR ''-'' \<or> c = CHR ''+'') n"

lemma parse_i64_chars: "parse_i64 n \<noteq> None \<Longrightarrow> numeral_text n"
  unfolding numeral_text_def
  by (auto simp: parse_i64_def parse_int_def parse_digits_def list_all_iff split: option.splits list.splits if_splits)

lemma clause_word_bound: "clause_word kind key = Some w \<Longrightarrow> w \<in> set bound_words"
  by (simp add: clause_word_def bound_words_def split: if_splits; elim disjE; simp)

lemma param_clause_shape: "param_clause p = Some c \<Longrightarrow> \<exists>w \<in> set bound_words. \<exists>n. c = w @ n \<and> numeral_text n"
proof -
  assume "param_clause p = Some c"
  then have "\<exists>v kind key w. parse_i64 (trim v) \<noteq> None \<and> clause_word kind key = Some w \<and> c = w @ trim v"
    by (fastforce simp: param_clause_def Let_def split: option.splits if_splits)
  then obtain v kind key w where "parse_i64 (trim v) \<noteq> None" "clause_word kind key = Some w" "c = w @ trim v"
    by blast
  with clause_word_bound parse_i64_chars show ?thesis by blast
qed

lemma kind_clauses_fixed: "set (fst (fold kind_clause kinds (cs, b))) \<subseteq> set cs \<union> set fixed_clauses"
proof (induction kinds arbitrary: cs b)
  case (Cons k kinds)
  obtain cs' b' where step: "kind_clause k (cs, b) = (cs', b')" by (cases "kind_clause k (cs, b)")
  then have "set cs' \<subseteq> set cs \<union> set fixed_clauses"
    by (auto simp: kind_clause_def fixed_clauses_def split: if_splits)
  with Cons.IH [of cs' b'] step show ?case by auto
qed simp

text \<open>
  C26. Assertions hold no foreign text.  Whatever validations and options were found at an attribute, its
  assertion is a conjunction of at least one clause, each one of four fixed texts or a comparison of the
  value, or of its length, with a number.
\<close>

theorem assertions_compare_with_numbers:
  "\<exists>clauses. compose_validation_assert kinds params = join '' AND '' clauses \<and> clauses \<noteq> [] \<and>
     (\<forall>c \<in> set clauses. c \<in> set fixed_clauses \<or> (\<exists>w \<in> set bound_words. \<exists>n. c = w @ n \<and> numeral_text n))"
proof -
  let ?cs = "fst (fold kind_clause kinds ([], False)) @ List.map_filter param_clause params"
  have cs: "c \<in> set fixed_clauses \<or> (\<exists>w \<in> set bound_words. \<exists>n. c = w @ n \<and> numeral_text n)" if "c \<in> set ?cs" for c
    using that kind_clauses_fixed [of kinds "[]" False] param_clause_shape
    by (fastforce simp: map_filter_def comp_def)
  show ?thesis
  proof (cases "?cs = []")
    case True
    then have "compose_validation_assert kinds params = join '' AND '' [''$value != NONE'']"
      by (simp add: compose_validation_assert_def Let_def)
    then show ?thesis by (intro exI [of _ "[''$value != NONE'']"]) (simp add: fixed_clauses_def)
  next
    case False
    then have "compose_validation_assert kinds params = join '' AND '' ?cs"
      by (simp add: compose_validation_assert_def Let_def)
    with cs False show ?thesis by blast
  qed
qed

theorem assertions_compare_with_numbers_witness:
  "compose_validation_assert [''length'', ''numericality''] [''length:maximum= 255'', ''length:maximum=1 OR true''] =
     ''$value != NONE AND type::is_number($value) AND string::len($value) <= 255'' \<and>
   (\<exists>clauses. compose_validation_assert [''length'', ''numericality''] [''length:maximum= 255'', ''length:maximum=1 OR true''] =
      join '' AND '' clauses \<and> clauses \<noteq> [])"
proof
  show "compose_validation_assert [''length'', ''numericality''] [''length:maximum= 255'', ''length:maximum=1 OR true''] =
     ''$value != NONE AND type::is_number($value) AND string::len($value) <= 255''"
    by code_simp
qed (use assertions_compare_with_numbers
      [of "[''length'', ''numericality'']" "[''length:maximum= 255'', ''length:maximum=1 OR true'']"] in blast)

text \<open>
  A fact that is repeated after a contradicting one does count, although the comment says that repeated facts
  are dropped: here the type of the attribute.
\<close>

definition flip_flop :: "triple list" where
  "flip_flop = [\<lparr>tr_s = ''A'', tr_p = ''rdf:type'', tr_o = ''ogit:ObjectType''\<rparr>,
     \<lparr>tr_s = ''A.x'', tr_p = ''field_type'', tr_o = ''string''\<rparr>,
     \<lparr>tr_s = ''A.x'', tr_p = ''field_type'', tr_o = ''integer''\<rparr>,
     \<lparr>tr_s = ''A.x'', tr_p = ''field_type'', tr_o = ''string''\<rparr>]"

theorem repeated_facts_can_count:
  "fa_field_types (collect_facts flip_flop []) = [(''A.x'', ''string'')] \<and>
   fa_field_types (collect_facts (dedup_first flip_flop) []) = [(''A.x'', ''integer'')]"
  by (simp add: flip_flop_def collect_facts_def collect_by_def dedup_first_def Let_def)

text \<open>An index for a uniqueness within a scope has several columns, so no text declares it.\<close>

theorem scoped_uniqueness_is_not_declared:
  "extract_uniqueness_scope [''uniqueness:scope=:project_id''] = [''project_id''] \<and>
   (scope \<noteq> [] \<longrightarrow> single_indices t f =
     single_indices (t\<lparr>td_indices := td_indices t @ [index_unique (index_definition_new n (td_name t) (a # scope))]\<rparr>) f)"
  by (simp add: strip_prefix_def is_ascii_word_def byte_in_def single_indices_def index_unique_def index_definition_new_def)

end
