(* ===== verification/Surreal_Classes.thy ===== *)
theory Surreal_Classes
  imports Surreal_Ast
begin

section \<open>From a canonical class to a table\<close>

text \<open>
  \<open>op-surreal-ast/src/from_class.rs\<close>: one class of the canonical vocabulary (the types of an external
  crate, of which the code reads the fields below) becomes one table.  The codebook of concepts is a
  parameter \<open>concept_id\<close>.
\<close>

datatype association_kind = BelongsTo | HasMany | HasOne | HasAndBelongsToMany

record class_attribute =
  cat_name :: string
  cat_type_name :: "string option"
  cat_required :: "bool option"

record class_association =
  cas_name :: string
  cas_kind :: association_kind
  cas_class_name :: "string option"

record canonical_class =
  ccl_name :: string
  ccl_canonical_concept :: "string option"
  ccl_attributes :: "class_attribute list"
  ccl_associations :: "class_association list"

definition to_ascii_lowercase :: "string \<Rightarrow> string" where
  "to_ascii_lowercase = map ascii_lower"

definition snake_case :: "string \<Rightarrow> string" where
  "snake_case s =
     (case s of [] \<Rightarrow> []
      | c # r \<Rightarrow> ascii_lower c # concat (map (\<lambda>c. if is_ascii_upper c then [CHR ''_'', ascii_lower c] else [ascii_lower c]) r))"

definition table_name_for :: "canonical_class \<Rightarrow> string" where
  "table_name_for cl = (case ccl_canonical_concept cl of Some concept \<Rightarrow> concept | None \<Rightarrow> to_ascii_lowercase (ccl_name cl))"

definition target_table_for :: "class_association \<Rightarrow> string" where
  "target_table_for a = (case cas_class_name a of Some s \<Rightarrow> snake_case s | None \<Rightarrow> cas_name a)"

text \<open>The format \<open>{:04X}\<close> of a 16-bit number.\<close>

definition hex_digit :: "nat \<Rightarrow> char" where
  "hex_digit d = (if d < 10 then char_of (48 + d) else char_of (55 + d))"

definition hex4 :: "16 word \<Rightarrow> string" where
  "hex4 w = map (\<lambda>i. hex_digit (unat w div 16 ^ i mod 16)) [3, 2, 1, 0]"

definition attribute_field :: "string \<Rightarrow> class_attribute \<Rightarrow> field_definition" where
  "attribute_field name attr =
     (let kind = (case Option.bind (cat_type_name attr) from_rails_type of Some k \<Rightarrow> k | None \<Rightarrow> KAny)
      in field_definition_new (cat_name attr) name (if cat_required attr \<noteq> Some True then kind_optional kind else kind))"

definition association_field :: "string \<Rightarrow> class_association \<Rightarrow> field_definition option" where
  "association_field name assoc =
     (case cas_kind assoc of
        HasMany \<Rightarrow> None
      | HasAndBelongsToMany \<Rightarrow> None
      | HasOne \<Rightarrow> None
      | _ \<Rightarrow> Some (field_definition_new (cas_name assoc) name (kind_optional (KRecord [target_table_for assoc]))))"

definition primary_label :: "canonical_class \<Rightarrow> string option" where
  "primary_label cl =
     List.find (\<lambda>primary. list_ex (\<lambda>a. cat_name a = primary) (ccl_attributes cl)) [''name'', ''subject'', ''title'', ''label'']"

definition class_to_table :: "(string \<Rightarrow> 16 word option) \<Rightarrow> canonical_class \<Rightarrow> table_definition" where
  "class_to_table concept_id cl =
     (let name = table_name_for cl;
          t0 = table_definition_new name;
          t1 = (case ccl_canonical_concept cl of
              Some concept \<Rightarrow> (case concept_id concept of
                  Some i \<Rightarrow> table_with_comment (Some (''OGAR codebook id 0x'' @ hex4 i @ '' ('' @ concept @ '')'')) t0
                | None \<Rightarrow> t0)
            | None \<Rightarrow> t0);
          t2 = fold (\<lambda>attr. table_with_field (attribute_field name attr)) (ccl_attributes cl) t1;
          t3 = fold (\<lambda>assoc t. case association_field name assoc of Some f \<Rightarrow> table_with_field f t | None \<Rightarrow> t)
                 (ccl_associations cl) t2
      in case primary_label cl of
           Some primary \<Rightarrow> table_with_index (index_definition_new (''idx_'' @ name @ ''_'' @ primary) name [primary]) t3
         | None \<Rightarrow> t3)"

subsection \<open>Where the links of a class lead\<close>

text \<open>
  Names of tables and of link targets.  A link that names the class of its target leads to the table of
  that class, when the class has no concept of its own, exactly if the name has no capital after the first
  character: the table is named in lower case, the link with underscores.
\<close>

theorem class_links_meet_tables:
  assumes "ccl_canonical_concept cl = None" "cas_class_name a = Some (ccl_name cl)"
  shows "target_table_for a = table_name_for cl \<longleftrightarrow> \<not> list_ex is_ascii_upper (tl (ccl_name cl))"
proof -
  have plain: "concat (map (\<lambda>c. if is_ascii_upper c then [CHR ''_'', ascii_lower c] else [ascii_lower c]) r) = map ascii_lower r"
    if "\<not> list_ex is_ascii_upper r" for r
    using that by (induction r) auto
  have longer: "length r \<le> length (concat (map (\<lambda>c. if is_ascii_upper c then [CHR ''_'', ascii_lower c] else [ascii_lower c]) r)) \<and>
      (list_ex is_ascii_upper r \<longrightarrow> length r < length (concat (map (\<lambda>c. if is_ascii_upper c then [CHR ''_'', ascii_lower c] else [ascii_lower c]) r)))" for r
    by (induction r) auto
  have "snake_case s = to_ascii_lowercase s \<longleftrightarrow> \<not> list_ex is_ascii_upper (tl s)" for s
  proof (cases s)
    case (Cons c r)
    have "concat (map (\<lambda>c. if is_ascii_upper c then [CHR ''_'', ascii_lower c] else [ascii_lower c]) r) \<noteq> map ascii_lower r"
      if "list_ex is_ascii_upper r"
      using longer [of r] that by (metis length_map less_irrefl)
    with Cons plain [of r] show ?thesis by (auto simp: snake_case_def to_ascii_lowercase_def)
  qed (simp add: snake_case_def to_ascii_lowercase_def)
  with assms show ?thesis by (simp add: target_table_for_def table_name_for_def)
qed

definition work_package_class :: canonical_class where
  "work_package_class = \<lparr>ccl_name = ''WorkPackage'', ccl_canonical_concept = None, ccl_attributes = [], ccl_associations = []\<rparr>"

definition link_to_work_package :: class_association where
  "link_to_work_package = \<lparr>cas_name = ''parent'', cas_kind = BelongsTo, cas_class_name = Some ''WorkPackage''\<rparr>"

theorem class_links_meet_tables_witness: "target_table_for link_to_work_package \<noteq> table_name_for work_package_class"
proof -
  have "ccl_canonical_concept work_package_class = None" "cas_class_name link_to_work_package = Some (ccl_name work_package_class)"
    by (simp_all add: work_package_class_def link_to_work_package_def)
  from class_links_meet_tables [OF this] show ?thesis
    by (simp add: work_package_class_def is_ascii_upper_def byte_in_def)
qed

end
