(* ===== verification/Api_Base.thy ===== *)
theory Api_Base
  imports Core_Errors Permissions Keys
begin

section \<open>Requests and responses of the API (op-api)\<close>

text \<open>
  \<open>op-api/src/{error,extractors}.rs\<close>: the errors of the API and what they send, the extractors of a
  request, and what the handlers share.  A handler runs statements as the repositories do and ends in
  an error of the API or a reply.
\<close>

subsection \<open>Errors\<close>

datatype api_error =
  ApiNotFound string string | ApiValidation validation_errors | ApiUnauthorized string | ApiForbidden string
| ApiBadRequest string | ApiConflict string | ApiInternal string

definition api_not_found :: "string \<Rightarrow> Id \<Rightarrow> api_error" where
  "api_not_found resource i = ApiNotFound resource (show_i64 i)"

fun api_status_code :: "api_error \<Rightarrow> nat" where
  "api_status_code (ApiNotFound resource i) = 404"
| "api_status_code (ApiValidation errors) = 422"
| "api_status_code (ApiUnauthorized msg) = 401"
| "api_status_code (ApiForbidden msg) = 403"
| "api_status_code (ApiBadRequest msg) = 400"
| "api_status_code (ApiConflict msg) = 409"
| "api_status_code (ApiInternal msg) = 500"

record hal_error =
  her_type_name :: string
  her_error_identifier :: string
  her_message :: string

definition hal_error_of :: "string \<Rightarrow> string \<Rightarrow> hal_error" where
  "hal_error_of kind msg = \<lparr>her_type_name = ''Error'',
     her_error_identifier = ''urn:openproject-org:api:v3:errors:'' @ kind, her_message = msg\<rparr>"

fun api_into_response :: "api_error \<Rightarrow> nat \<times> hal_error" where
  "api_into_response (ApiNotFound resource i) =
     (404, hal_error_of ''NotFound'' (resource @ '' with id '' @ i @ '' not found''))"
| "api_into_response (ApiValidation errors) =
     (422, hal_error_of ''PropertyConstraintViolation'' (join '', '' (ve_full_messages errors)))"
| "api_into_response (ApiUnauthorized msg) = (401, hal_error_of ''Unauthenticated'' msg)"
| "api_into_response (ApiForbidden msg) = (403, hal_error_of ''MissingPermission'' msg)"
| "api_into_response (ApiBadRequest msg) = (400, hal_error_of ''InvalidRequestBody'' msg)"
| "api_into_response (ApiConflict msg) = (409, hal_error_of ''UpdateConflict'' msg)"
| "api_into_response (ApiInternal msg) = (500, hal_error_of ''InternalError'' msg)"

subsection \<open>Handlers\<close>

type_synonym ('d, 'a) handler = "'d db_env \<Rightarrow> nat \<times> 'd \<Rightarrow> ('a, api_error) result \<times> nat \<times> 'd"

definition answer :: "'a \<Rightarrow> ('d, 'a) handler" where
  "answer x env s = (Ok x, s)"

definition refuse :: "api_error \<Rightarrow> ('d, 'a) handler" where
  "refuse e env s = (Err e, s)"

definition then_do :: "('d, 'a) handler \<Rightarrow> ('a \<Rightarrow> ('d, 'b) handler) \<Rightarrow> ('d, 'b) handler" where
  "then_do m f env s = (case m env s of (Inl e, s) \<Rightarrow> (Err e, s) | (Inr x, s) \<Rightarrow> f x env s)"

text \<open>A repository is called, and its error mapped.\<close>

definition calling :: "(repository_error \<Rightarrow> api_error) \<Rightarrow> ('d, 'a) dbop \<Rightarrow> ('d, 'a) handler" where
  "calling arms m env s = (case m env s of (Inl e, s) \<Rightarrow> (Err (arms e), s) | (Inr x, s) \<Rightarrow> (Ok x, s))"

definition or_refuse :: "api_error \<Rightarrow> ('d, 'a option) handler \<Rightarrow> ('d, 'a) handler" where
  "or_refuse e m = then_do m (\<lambda>v. case v of None \<Rightarrow> refuse e | Some x \<Rightarrow> answer x)"

text \<open>
  The texts the responses are made of: how a database error, a day and a moment print, how a day is
  read, what today is; and the letters and the order of names in the database.
\<close>

record 'k api_texts =
  tx_sql_error :: "sql_error \<Rightarrow> string"
  tx_date :: "date \<Rightarrow> string"
  tx_time :: "timestamp \<Rightarrow> string"
  tx_parse_date :: "string \<Rightarrow> date option"
  tx_today :: date
  tx_lower :: "string \<Rightarrow> string"
  tx_coll :: "string \<Rightarrow> 'k"

text \<open>The arms of the handlers' matches on an error of a repository.\<close>

definition internal :: "'k api_texts \<Rightarrow> repository_error \<Rightarrow> api_error" where
  "internal tx e = ApiInternal (''Database error: '' @ repository_error_to_string (tx_sql_error tx) e)"

definition missing_or :: "string \<Rightarrow> Id \<Rightarrow> (repository_error \<Rightarrow> api_error) \<Rightarrow> repository_error \<Rightarrow> api_error" where
  "missing_or resource i others e = (case e of RepoNotFound m \<Rightarrow> api_not_found resource i | _ \<Rightarrow> others e)"

definition invalid_or :: "(repository_error \<Rightarrow> api_error) \<Rightarrow> repository_error \<Rightarrow> api_error" where
  "invalid_or others e = (case e of RepoValidation m \<Rightarrow> ApiBadRequest m | _ \<Rightarrow> others e)"

definition conflict_or :: "(repository_error \<Rightarrow> api_error) \<Rightarrow> repository_error \<Rightarrow> api_error" where
  "conflict_or others e = (case e of RepoConflict m \<Rightarrow> ApiConflict m | _ \<Rightarrow> others e)"

subsection \<open>The state of the application and the user of a request\<close>

record app_config =
  acf_api_version :: string
  acf_base_url :: string
  acf_require_authentication :: bool

definition app_config_default :: app_config where
  "app_config_default =
     \<lparr>acf_api_version = ''3'', acf_base_url = ''http://localhost:8080'', acf_require_authentication = True\<rparr>"

record app_state =
  aps_config :: app_config
  aps_has_db :: bool

definition app_state_default :: app_state where
  "app_state_default = \<lparr>aps_config = app_config_default, aps_has_db = False\<rparr>"

definition with_pool :: "app_state \<Rightarrow> ('d, 'a) handler \<Rightarrow> ('d, 'a) handler" where
  "with_pool st h = (if aps_has_db st then h else refuse (ApiInternal ''Database not configured''))"

text \<open>The value of the header \<open>Authorization\<close>, if the request has one, decides alone.\<close>

definition authenticated_user :: "app_state \<Rightarrow> string option \<Rightarrow> (current_user, api_error) result" where
  "authenticated_user st authorization =
     (if authorization \<noteq> None
      then Err (ApiUnauthorized ''Token validation is not implemented; do not send an Authorization header'')
      else if \<not> acf_require_authentication (aps_config st) then Ok current_user_anonymous
      else Err (ApiUnauthorized ''Authentication required''))"

definition serve :: "app_state \<Rightarrow> string option \<Rightarrow> (current_user \<Rightarrow> ('d, 'a) handler) \<Rightarrow> ('d, 'a) handler" where
  "serve st authorization h =
     (case authenticated_user st authorization of Inl e \<Rightarrow> refuse e | Inr u \<Rightarrow> h u)"

definition only_admin :: "current_user \<Rightarrow> string \<Rightarrow> ('d, 'a) handler \<Rightarrow> ('d, 'a) handler" where
  "only_admin user msg h = (if \<not> cu_is_admin user then refuse (ApiForbidden msg) else h)"

subsection \<open>Pages\<close>

record page_params =
  pgp_page_size :: u64
  pgp_offset :: u64

definition page_params_default :: page_params where
  "page_params_default = \<lparr>pgp_page_size = 20, pgp_offset = 0\<rparr>"

text \<open>
  The query string, if it can be read, has a page size and an offset or not; what cannot be read counts
  as the default.
\<close>

definition page_params_from :: "(u64 option \<times> u64 option) option \<Rightarrow> page_params" where
  "page_params_from q =
     (case q of
        Some (page_size, offset) \<Rightarrow>
          \<lparr>pgp_page_size = (case page_size of Some n \<Rightarrow> n | None \<Rightarrow> 20), pgp_offset = (case offset of Some n \<Rightarrow> n | None \<Rightarrow> 0)\<rparr>
      | None \<Rightarrow> page_params_default)"

definition db_page :: "page_params \<Rightarrow> pagination" where
  "db_page p = \<lparr>pg_limit = pgp_page_size p, pg_offset = pgp_offset p\<rparr>"

text \<open>The collection of every list, and a reply: the status and what is sent.\<close>

record 'e api_collection =
  acl_type_name :: string
  acl_total :: u64
  acl_count :: u64
  acl_page_size :: u64
  acl_offset :: u64
  acl_elements :: "'e list"

definition api_collection_of :: "page_params \<Rightarrow> i64 \<Rightarrow> 'e list \<Rightarrow> 'e api_collection" where
  "api_collection_of p n elements =
     \<lparr>acl_type_name = ''Collection'', acl_total = n, acl_count = word_of_nat (length elements),
      acl_page_size = pgp_page_size p, acl_offset = pgp_offset p, acl_elements = elements\<rparr>"

record 'a reply =
  rpl_status :: nat
  rpl_body :: "'a option"

definition hal_response :: "'a \<Rightarrow> 'a reply" where "hal_response x = \<lparr>rpl_status = 200, rpl_body = Some x\<rparr>"

definition created_response :: "'a \<Rightarrow> 'a reply" where "created_response x = \<lparr>rpl_status = 201, rpl_body = Some x\<rparr>"

definition no_content :: "unit reply" where "no_content = \<lparr>rpl_status = 204, rpl_body = None\<rparr>"

subsection \<open>What the handlers of all resources have in common\<close>

definition list_with ::
    "'k api_texts \<Rightarrow> page_params \<Rightarrow> (i64 \<Rightarrow> i64 \<Rightarrow> ('d, 'r list) dbop) \<Rightarrow> ('d, i64) dbop \<Rightarrow> ('d, 'r list \<times> i64) handler" where
  "list_with tx p find_all count =
     then_do (calling (internal tx) (find_all (pgp_page_size p) (pgp_offset p))) (\<lambda>rows.
     then_do (calling (internal tx) count) (\<lambda>n. answer (rows, n)))"

definition list_page ::
    "'k api_texts \<Rightarrow> ('d, 'r paginated_result) dbop \<Rightarrow> ('d, 'r list \<times> i64) handler" where
  "list_page tx op =
     then_do (calling (internal tx) op) (\<lambda>result. answer (pres_items result, pres_total result))"

definition collected ::
    "page_params \<Rightarrow> ('r \<Rightarrow> 'e) \<Rightarrow> ('d, 'r list \<times> i64) handler \<Rightarrow> ('d, 'e api_collection reply) handler" where
  "collected p from_row m =
     then_do m (\<lambda>(rows, n). answer (hal_response (api_collection_of p n (map from_row rows))))"

definition find_or_404 :: "'k api_texts \<Rightarrow> string \<Rightarrow> Id \<Rightarrow> ('d, 'r option) dbop \<Rightarrow> ('d, 'r) handler" where
  "find_or_404 tx resource i op = or_refuse (api_not_found resource i) (calling (internal tx) op)"

definition get_with ::
    "'k api_texts \<Rightarrow> string \<Rightarrow> Id \<Rightarrow> ('d, 'r option) dbop \<Rightarrow> ('r \<Rightarrow> 'e) \<Rightarrow> ('d, 'e reply) handler" where
  "get_with tx resource i op from_row =
     then_do (find_or_404 tx resource i op) (\<lambda>row. answer (hal_response (from_row row)))"

definition replying :: "('r \<Rightarrow> 'a) \<Rightarrow> (repository_error \<Rightarrow> api_error) \<Rightarrow> ('d, 'r) dbop \<Rightarrow> ('d, 'a) handler" where
  "replying f arms op = then_do (calling arms op) (\<lambda>row. answer (f row))"

text \<open>A link.\<close>

definition api_path :: "string \<Rightarrow> Id \<Rightarrow> string" where
  "api_path prefix i = ''/api/v3/'' @ prefix @ ''/'' @ show_i64 i"

subsection \<open>Laws\<close>

named_theorems api_simps \<open>what the parts of a handler do\<close>

lemma api_steps [api_simps]:
  "then_do (answer x) f = f x" "then_do (refuse e) f = refuse e"
  "then_do (then_do m f) g = then_do m (\<lambda>x. then_do (f x) g)"
  by (auto simp: then_do_def answer_def refuse_def fun_eq_iff split: prod.split sum.split)

lemma status_of_response: "fst (api_into_response e) = api_status_code e"
  by (cases e) simp_all

lemma served_user: "authenticated_user st a = Ok u \<Longrightarrow> u = current_user_anonymous"
  by (simp add: authenticated_user_def split: if_splits)

lemma not_served: "acf_require_authentication (aps_config st) \<or> a \<noteq> None \<Longrightarrow> \<exists>m. serve st a h = refuse (ApiUnauthorized m)"
  by (auto simp: serve_def authenticated_user_def)

end
