(* ===== verification/Api_Settings.thy ===== *)
theory Api_Settings
  imports Api_Base Statuses Enumerations Project_Parts Members
begin

section \<open>Statuses, priorities, activities, types, versions, categories and roles in the API (op-api)\<close>

text \<open>
  \<open>op-api/src/handlers/{statuses,priorities,activities,types,versions,categories,roles}.rs\<close>: what
  everybody may read and only administrators may change.  The links of a response are fields of it; a
  link is the path it leads to.
\<close>

abbreviation any_arms :: "'k api_texts \<Rightarrow> string \<Rightarrow> Id \<Rightarrow> repository_error \<Rightarrow> api_error" where
  "any_arms tx resource i \<equiv> missing_or resource i (invalid_or (conflict_or (internal tx)))"

definition color_link :: "Id option \<Rightarrow> string option" where
  "color_link = map_option (api_path ''colors'')"

subsection \<open>Statuses\<close>

record create_status_request =
  csr_name :: string
  csr_is_closed :: "bool option"
  csr_is_default :: "bool option"
  csr_is_readonly :: "bool option"
  csr_position :: "i32 option"
  csr_default_done_ratio :: "i32 option"
  csr_color_id :: "i64 option"

record update_status_request =
  usr_name :: "string option"
  usr_is_closed :: "bool option"
  usr_is_default :: "bool option"
  usr_is_readonly :: "bool option"
  usr_position :: "i32 option"
  usr_default_done_ratio :: "i32 option"
  usr_color_id :: "i64 option"

record status_response =
  srs_type_name :: string
  srs_id :: Id
  srs_name :: string
  srs_is_closed :: bool
  srs_is_default :: bool
  srs_is_readonly :: bool
  srs_position :: i32
  srs_default_done_ratio :: i32
  srs_self_link :: string
  srs_color :: "string option"

definition status_response_from :: "status_row \<Rightarrow> status_response" where
  "status_response_from r =
     \<lparr>srs_type_name = ''Status'', srs_id = str_id r, srs_name = str_name r, srs_is_closed = str_is_closed r,
      srs_is_default = str_is_default r, srs_is_readonly = str_is_readonly r, srs_position = str_position r,
      srs_default_done_ratio = str_default_done_ratio r, srs_self_link = api_path ''statuses'' (str_id r),
      srs_color = color_link (str_color_id r)\<rparr>"

definition api_list_statuses ::
    "'k api_texts \<Rightarrow> app_state \<Rightarrow> current_user \<Rightarrow> page_params \<Rightarrow> (database, status_response api_collection reply) handler" where
  "api_list_statuses tx st user p = with_pool st (collected p status_response_from (list_with tx p status_find_all status_count))"

definition api_get_status ::
    "'k api_texts \<Rightarrow> app_state \<Rightarrow> current_user \<Rightarrow> Id \<Rightarrow> (database, status_response reply) handler" where
  "api_get_status tx st user i = with_pool st (get_with tx ''Status'' i (status_find_by_id i) status_response_from)"

definition status_creation :: "create_status_request \<Rightarrow> create_status_dto" where
  "status_creation dto =
     \<lparr>cst_name = csr_name dto, cst_is_closed = coalesce (csr_is_closed dto) False,
      cst_is_default = coalesce (csr_is_default dto) False, cst_is_readonly = coalesce (csr_is_readonly dto) False,
      cst_position = csr_position dto, cst_default_done_ratio = coalesce (csr_default_done_ratio dto) 0,
      cst_color_id = csr_color_id dto\<rparr>"

definition api_create_status ::
    "'k api_texts \<Rightarrow> app_state \<Rightarrow> current_user \<Rightarrow> create_status_request \<Rightarrow> (database, status_response reply) handler" where
  "api_create_status tx st user dto =
     only_admin user ''Only administrators can create statuses.'' (with_pool st
       (replying (\<lambda>r. created_response (status_response_from r)) (invalid_or (conflict_or (internal tx)))
         (status_create (tx_lower tx) (status_creation dto))))"

definition status_change :: "update_status_request \<Rightarrow> update_status_dto" where
  "status_change dto =
     \<lparr>ust_name = usr_name dto, ust_is_closed = usr_is_closed dto, ust_is_default = usr_is_default dto,
      ust_is_readonly = usr_is_readonly dto, ust_position = usr_position dto,
      ust_default_done_ratio = usr_default_done_ratio dto, ust_color_id = usr_color_id dto\<rparr>"

definition api_update_status ::
    "'k api_texts \<Rightarrow> app_state \<Rightarrow> current_user \<Rightarrow> Id \<Rightarrow> update_status_request \<Rightarrow> (database, status_response reply) handler" where
  "api_update_status tx st user i dto =
     only_admin user ''Only administrators can update statuses.'' (with_pool st
       (replying (\<lambda>r. hal_response (status_response_from r)) (any_arms tx ''Status'' i)
         (status_update (tx_lower tx) i (status_change dto))))"

definition api_delete_status :: "'k api_texts \<Rightarrow> app_state \<Rightarrow> current_user \<Rightarrow> Id \<Rightarrow> (database, unit reply) handler" where
  "api_delete_status tx st user i =
     only_admin user ''Only administrators can delete statuses.'' (with_pool st
       (replying (\<lambda>_. no_content) (missing_or ''Status'' i (conflict_or (internal tx))) (status_delete i)))"

subsection \<open>Priorities\<close>

record create_priority_request =
  cpq_name :: string
  cpq_position :: "i32 option"
  cpq_is_default :: "bool option"
  cpq_active :: "bool option"
  cpq_color_id :: "i64 option"

record update_priority_request =
  upq_name :: "string option"
  upq_position :: "i32 option"
  upq_is_default :: "bool option"
  upq_active :: "bool option"
  upq_color_id :: "i64 option"

record priority_response =
  prs_type_name :: string
  prs_id :: Id
  prs_name :: string
  prs_position :: i32
  prs_is_default :: bool
  prs_is_active :: bool
  prs_self_link :: string
  prs_color :: "string option"

definition priority_response_from :: "enumeration_row \<Rightarrow> priority_response" where
  "priority_response_from r =
     \<lparr>prs_type_name = ''Priority'', prs_id = enr_id r, prs_name = enr_name r, prs_position = enr_position r,
      prs_is_default = enr_is_default r, prs_is_active = enr_active r,
      prs_self_link = api_path ''priorities'' (enr_id r), prs_color = color_link (enr_color_id r)\<rparr>"

definition api_list_priorities ::
    "'k api_texts \<Rightarrow> app_state \<Rightarrow> current_user \<Rightarrow> page_params \<Rightarrow> (database, priority_response api_collection reply) handler" where
  "api_list_priorities tx st user p = with_pool st (collected p priority_response_from (list_with tx p priority_find_all priority_count))"

definition api_get_priority ::
    "'k api_texts \<Rightarrow> app_state \<Rightarrow> current_user \<Rightarrow> Id \<Rightarrow> (database, priority_response reply) handler" where
  "api_get_priority tx st user i = with_pool st (get_with tx ''Priority'' i (priority_find_by_id i) priority_response_from)"

definition priority_creation :: "create_priority_request \<Rightarrow> create_priority_dto" where
  "priority_creation dto =
     \<lparr>cpy_name = cpq_name dto, cpy_position = cpq_position dto, cpy_is_default = coalesce (cpq_is_default dto) False,
      cpy_active = coalesce (cpq_active dto) True, cpy_color_id = cpq_color_id dto, cpy_project_id = None\<rparr>"

definition api_create_priority ::
    "'k api_texts \<Rightarrow> app_state \<Rightarrow> current_user \<Rightarrow> create_priority_request \<Rightarrow> (database, priority_response reply) handler" where
  "api_create_priority tx st user dto =
     only_admin user ''Only administrators can create priorities.'' (with_pool st
       (replying (\<lambda>r. created_response (priority_response_from r)) (conflict_or (internal tx))
         (priority_create (tx_lower tx) (priority_creation dto))))"

definition priority_change :: "update_priority_request \<Rightarrow> update_priority_dto" where
  "priority_change dto =
     \<lparr>upy_name = upq_name dto, upy_position = upq_position dto, upy_is_default = upq_is_default dto,
      upy_active = upq_active dto, upy_color_id = upq_color_id dto\<rparr>"

definition api_update_priority ::
    "'k api_texts \<Rightarrow> app_state \<Rightarrow> current_user \<Rightarrow> Id \<Rightarrow> update_priority_request \<Rightarrow> (database, priority_response reply) handler" where
  "api_update_priority tx st user i dto =
     only_admin user ''Only administrators can update priorities.'' (with_pool st
       (replying (\<lambda>r. hal_response (priority_response_from r)) (missing_or ''Priority'' i (conflict_or (internal tx)))
         (priority_update (tx_lower tx) i (priority_change dto))))"

definition api_delete_priority :: "'k api_texts \<Rightarrow> app_state \<Rightarrow> current_user \<Rightarrow> Id \<Rightarrow> (database, unit reply) handler" where
  "api_delete_priority tx st user i =
     only_admin user ''Only administrators can delete priorities.'' (with_pool st
       (replying (\<lambda>_. no_content) (missing_or ''Priority'' i (conflict_or (internal tx))) (priority_delete i)))"

subsection \<open>Activities of time entries\<close>

record create_activity_request =
  caq_name :: string
  caq_position :: "i32 option"
  caq_is_default :: "bool option"
  caq_active :: "bool option"
  caq_project_id :: "i64 option"
  caq_parent_id :: "i64 option"

record update_activity_request =
  uaq_name :: "string option"
  uaq_position :: "i32 option"
  uaq_is_default :: "bool option"
  uaq_active :: "bool option"

record activity_response =
  ars_type_name :: string
  ars_id :: Id
  ars_name :: string
  ars_position :: i32
  ars_is_default :: bool
  ars_self_link :: string
  ars_project :: "string option"

definition activity_response_from :: "enumeration_row \<Rightarrow> activity_response" where
  "activity_response_from r =
     \<lparr>ars_type_name = ''TimeEntryActivity'', ars_id = enr_id r, ars_name = enr_name r, ars_position = enr_position r,
      ars_is_default = enr_is_default r, ars_self_link = api_path ''time_entries/activities'' (enr_id r),
      ars_project = map_option (api_path ''projects'') (enr_project_id r)\<rparr>"

definition api_list_activities ::
    "'k api_texts \<Rightarrow> app_state \<Rightarrow> current_user \<Rightarrow> page_params \<Rightarrow> i64 option \<Rightarrow>
     (database, activity_response api_collection reply) handler" where
  "api_list_activities tx st user p filter_project_id = with_pool st (collected p activity_response_from
     (then_do (calling (internal tx) (case filter_project_id of
          Some project_id \<Rightarrow> activity_find_by_project project_id
        | None \<Rightarrow> activity_find_all (pgp_page_size p) (pgp_offset p))) (\<lambda>rows.
      then_do (if filter_project_id \<noteq> None then answer (word_of_nat (length rows))
               else calling (internal tx) activity_count) (\<lambda>n. answer (rows, n)))))"

definition api_get_activity ::
    "'k api_texts \<Rightarrow> app_state \<Rightarrow> current_user \<Rightarrow> Id \<Rightarrow> (database, activity_response reply) handler" where
  "api_get_activity tx st user i = with_pool st (get_with tx ''TimeEntryActivity'' i (activity_find_by_id i) activity_response_from)"

definition activity_creation :: "create_activity_request \<Rightarrow> create_activity_dto" where
  "activity_creation dto =
     \<lparr>cay_name = caq_name dto, cay_position = caq_position dto, cay_is_default = caq_is_default dto,
      cay_active = caq_active dto, cay_project_id = caq_project_id dto, cay_parent_id = caq_parent_id dto\<rparr>"

definition api_create_activity ::
    "'k api_texts \<Rightarrow> app_state \<Rightarrow> current_user \<Rightarrow> create_activity_request \<Rightarrow> (database, activity_response reply) handler" where
  "api_create_activity tx st user dto =
     only_admin user ''Only administrators can create activities.'' (with_pool st
       (replying (\<lambda>r. created_response (activity_response_from r)) (invalid_or (conflict_or (internal tx)))
         (activity_create (tx_lower tx) (activity_creation dto))))"

definition activity_change :: "update_activity_request \<Rightarrow> update_activity_dto" where
  "activity_change dto =
     \<lparr>uay_name = uaq_name dto, uay_position = uaq_position dto, uay_is_default = uaq_is_default dto,
      uay_active = uaq_active dto\<rparr>"

definition api_update_activity ::
    "'k api_texts \<Rightarrow> app_state \<Rightarrow> current_user \<Rightarrow> Id \<Rightarrow> update_activity_request \<Rightarrow> (database, activity_response reply) handler" where
  "api_update_activity tx st user i dto =
     only_admin user ''Only administrators can update activities.'' (with_pool st
       (replying (\<lambda>r. hal_response (activity_response_from r)) (any_arms tx ''TimeEntryActivity'' i)
         (activity_update (tx_lower tx) i (activity_change dto))))"

definition api_delete_activity :: "'k api_texts \<Rightarrow> app_state \<Rightarrow> current_user \<Rightarrow> Id \<Rightarrow> (database, unit reply) handler" where
  "api_delete_activity tx st user i =
     only_admin user ''Only administrators can delete activities.'' (with_pool st
       (replying (\<lambda>_. no_content) (missing_or ''TimeEntryActivity'' i (conflict_or (internal tx))) (activity_delete i)))"

subsection \<open>Types\<close>

record create_type_request =
  ctq_name :: string
  ctq_position :: "i32 option"
  ctq_is_default :: "bool option"
  ctq_is_in_roadmap :: "bool option"
  ctq_is_milestone :: "bool option"
  ctq_color_id :: "i64 option"
  ctq_description :: "string option"

record update_type_request =
  utq_name :: "string option"
  utq_position :: "i32 option"
  utq_is_default :: "bool option"
  utq_is_in_roadmap :: "bool option"
  utq_is_milestone :: "bool option"
  utq_color_id :: "i64 option"
  utq_description :: "string option"

record type_response =
  trs_type_name :: string
  trs_id :: Id
  trs_name :: string
  trs_position :: i32
  trs_is_default :: bool
  trs_is_milestone :: bool
  trs_description :: "string option"
  trs_self_link :: string
  trs_color :: "string option"

definition type_response_from :: "type_row \<Rightarrow> type_response" where
  "type_response_from r =
     \<lparr>trs_type_name = ''Type'', trs_id = tyr_id r, trs_name = tyr_name r, trs_position = tyr_position r,
      trs_is_default = tyr_is_default r, trs_is_milestone = tyr_is_milestone r, trs_description = tyr_description r,
      trs_self_link = api_path ''types'' (tyr_id r), trs_color = color_link (tyr_color_id r)\<rparr>"

definition api_list_types ::
    "'k api_texts \<Rightarrow> app_state \<Rightarrow> current_user \<Rightarrow> page_params \<Rightarrow> (database, type_response api_collection reply) handler" where
  "api_list_types tx st user p = with_pool st (collected p type_response_from (list_with tx p type_find_all type_count))"

definition api_get_type ::
    "'k api_texts \<Rightarrow> app_state \<Rightarrow> current_user \<Rightarrow> Id \<Rightarrow> (database, type_response reply) handler" where
  "api_get_type tx st user i = with_pool st (get_with tx ''Type'' i (type_find_by_id i) type_response_from)"

definition api_list_project_types ::
    "'k api_texts \<Rightarrow> app_state \<Rightarrow> current_user \<Rightarrow> Id \<Rightarrow> (database, type_response api_collection reply) handler" where
  "api_list_project_types tx st user project_id = with_pool st (collected \<lparr>pgp_page_size = 100, pgp_offset = 0\<rparr> type_response_from
     (then_do (calling (internal tx) (type_find_by_project project_id)) (\<lambda>rows. answer (rows, word_of_nat (length rows)))))"

definition type_creation :: "create_type_request \<Rightarrow> create_type_dto" where
  "type_creation dto =
     \<lparr>cty_name = ctq_name dto, cty_position = ctq_position dto, cty_is_default = coalesce (ctq_is_default dto) False,
      cty_is_in_roadmap = coalesce (ctq_is_in_roadmap dto) False, cty_is_milestone = coalesce (ctq_is_milestone dto) False,
      cty_color_id = ctq_color_id dto, cty_description = ctq_description dto\<rparr>"

definition api_create_type ::
    "'k api_texts \<Rightarrow> app_state \<Rightarrow> current_user \<Rightarrow> create_type_request \<Rightarrow> (database, type_response reply) handler" where
  "api_create_type tx st user dto =
     only_admin user ''Only administrators can create types.'' (with_pool st
       (replying (\<lambda>r. created_response (type_response_from r)) (conflict_or (internal tx))
         (type_create (tx_lower tx) (type_creation dto))))"

definition type_change :: "update_type_request \<Rightarrow> update_type_dto" where
  "type_change dto =
     \<lparr>uty_name = utq_name dto, uty_position = utq_position dto, uty_is_default = utq_is_default dto,
      uty_is_in_roadmap = utq_is_in_roadmap dto, uty_is_milestone = utq_is_milestone dto,
      uty_color_id = utq_color_id dto, uty_description = utq_description dto\<rparr>"

definition api_update_type ::
    "'k api_texts \<Rightarrow> app_state \<Rightarrow> current_user \<Rightarrow> Id \<Rightarrow> update_type_request \<Rightarrow> (database, type_response reply) handler" where
  "api_update_type tx st user i dto =
     only_admin user ''Only administrators can update types.'' (with_pool st
       (replying (\<lambda>r. hal_response (type_response_from r)) (missing_or ''Type'' i (conflict_or (internal tx)))
         (type_update (tx_lower tx) i (type_change dto))))"

definition api_delete_type :: "'k api_texts \<Rightarrow> app_state \<Rightarrow> current_user \<Rightarrow> Id \<Rightarrow> (database, unit reply) handler" where
  "api_delete_type tx st user i =
     only_admin user ''Only administrators can delete types.'' (with_pool st
       (replying (\<lambda>_. no_content) (missing_or ''Type'' i (conflict_or (internal tx))) (type_delete i)))"

subsection \<open>Versions\<close>

record create_version_request =
  cvq_project_id :: i64
  cvq_name :: string
  cvq_description :: "string option"
  cvq_effective_date :: "date option"
  cvq_start_date :: "date option"
  cvq_status :: "string option"
  cvq_sharing :: "string option"
  cvq_wiki_page_title :: "string option"

record update_version_request =
  uvq_name :: "string option"
  uvq_description :: "string option"
  uvq_effective_date :: "date option"
  uvq_start_date :: "date option"
  uvq_status :: "string option"
  uvq_sharing :: "string option"
  uvq_wiki_page_title :: "string option"

record version_response =
  vrs_type_name :: string
  vrs_id :: Id
  vrs_name :: string
  vrs_description :: "string option"
  vrs_start_date :: "string option"
  vrs_end_date :: "string option"
  vrs_status :: string
  vrs_sharing :: string
  vrs_created_at :: string
  vrs_updated_at :: string
  vrs_self_link :: string
  vrs_defining_project :: string
  vrs_available_in_projects :: string

definition version_response_from :: "'k api_texts \<Rightarrow> version_row \<Rightarrow> version_response" where
  "version_response_from tx r =
     \<lparr>vrs_type_name = ''Version'', vrs_id = ver_id r, vrs_name = ver_name r, vrs_description = ver_description r,
      vrs_start_date = map_option (tx_date tx) (ver_start_date r), vrs_end_date = map_option (tx_date tx) (ver_effective_date r),
      vrs_status = ver_status r, vrs_sharing = ver_sharing r, vrs_created_at = tx_time tx (ver_created_at r),
      vrs_updated_at = tx_time tx (ver_updated_at r), vrs_self_link = api_path ''versions'' (ver_id r),
      vrs_defining_project = api_path ''projects'' (ver_project_id r),
      vrs_available_in_projects = api_path ''versions'' (ver_id r) @ ''/projects''\<rparr>"

definition api_list_versions ::
    "('k::linorder) api_texts \<Rightarrow> app_state \<Rightarrow> current_user \<Rightarrow> page_params \<Rightarrow> i64 option \<Rightarrow>
     (database, version_response api_collection reply) handler" where
  "api_list_versions tx st user p filter_project_id = with_pool st (collected p (version_response_from tx)
     (case filter_project_id of
        Some project_id \<Rightarrow> list_page tx (version_find_by_project (tx_coll tx) project_id (db_page p))
      | None \<Rightarrow> list_with tx p (version_find_all (tx_coll tx)) version_count))"

definition api_get_version ::
    "'k api_texts \<Rightarrow> app_state \<Rightarrow> current_user \<Rightarrow> Id \<Rightarrow> (database, version_response reply) handler" where
  "api_get_version tx st user i = with_pool st (get_with tx ''Version'' i (version_find_by_id i) (version_response_from tx))"

definition version_creation :: "create_version_request \<Rightarrow> create_version_dto" where
  "version_creation dto =
     \<lparr>cve_project_id = cvq_project_id dto, cve_name = cvq_name dto, cve_description = cvq_description dto,
      cve_effective_date = cvq_effective_date dto, cve_start_date = cvq_start_date dto, cve_status = cvq_status dto,
      cve_sharing = cvq_sharing dto, cve_wiki_page_title = cvq_wiki_page_title dto\<rparr>"

definition api_create_version ::
    "'k api_texts \<Rightarrow> app_state \<Rightarrow> current_user \<Rightarrow> create_version_request \<Rightarrow> (database, version_response reply) handler" where
  "api_create_version tx st user dto =
     only_admin user ''Only administrators can create versions.'' (with_pool st
       (replying (\<lambda>r. created_response (version_response_from tx r)) (invalid_or (conflict_or (internal tx)))
         (version_create (tx_lower tx) (version_creation dto))))"

definition version_change :: "update_version_request \<Rightarrow> update_version_dto" where
  "version_change dto =
     \<lparr>uve_name = uvq_name dto, uve_description = uvq_description dto, uve_effective_date = uvq_effective_date dto,
      uve_start_date = uvq_start_date dto, uve_status = uvq_status dto, uve_sharing = uvq_sharing dto,
      uve_wiki_page_title = uvq_wiki_page_title dto\<rparr>"

definition api_update_version ::
    "'k api_texts \<Rightarrow> app_state \<Rightarrow> current_user \<Rightarrow> Id \<Rightarrow> update_version_request \<Rightarrow> (database, version_response reply) handler" where
  "api_update_version tx st user i dto =
     only_admin user ''Only administrators can update versions.'' (with_pool st
       (replying (\<lambda>r. hal_response (version_response_from tx r)) (any_arms tx ''Version'' i)
         (version_update (tx_lower tx) i (version_change dto))))"

definition api_delete_version :: "'k api_texts \<Rightarrow> app_state \<Rightarrow> current_user \<Rightarrow> Id \<Rightarrow> (database, unit reply) handler" where
  "api_delete_version tx st user i =
     only_admin user ''Only administrators can delete versions.'' (with_pool st
       (replying (\<lambda>_. no_content) (missing_or ''Version'' i (conflict_or (internal tx))) (version_delete i)))"

definition api_list_project_versions ::
    "('k::linorder) api_texts \<Rightarrow> app_state \<Rightarrow> current_user \<Rightarrow> Id \<Rightarrow> page_params \<Rightarrow>
     (database, version_response api_collection reply) handler" where
  "api_list_project_versions tx st user project_id p = with_pool st (collected p (version_response_from tx)
     (list_page tx (version_find_by_project (tx_coll tx) project_id (db_page p))))"

subsection \<open>Categories\<close>

record create_category_request =
  ccq_project_id :: i64
  ccq_name :: string
  ccq_assigned_to_id :: "i64 option"

record update_category_request =
  ucq_name :: "string option"
  ucq_assigned_to_id :: "i64 option"

record category_response =
  crs_type_name :: string
  crs_id :: Id
  crs_name :: string
  crs_self_link :: string
  crs_project :: string
  crs_default_assignee :: "string option"

definition category_response_from :: "category_row \<Rightarrow> category_response" where
  "category_response_from r =
     \<lparr>crs_type_name = ''Category'', crs_id = car_id r, crs_name = car_name r,
      crs_self_link = api_path ''categories'' (car_id r), crs_project = api_path ''projects'' (car_project_id r),
      crs_default_assignee = map_option (api_path ''users'') (car_assigned_to_id r)\<rparr>"

definition api_list_categories ::
    "('k::linorder) api_texts \<Rightarrow> app_state \<Rightarrow> current_user \<Rightarrow> page_params \<Rightarrow> i64 option \<Rightarrow>
     (database, category_response api_collection reply) handler" where
  "api_list_categories tx st user p filter_project_id = with_pool st (collected p category_response_from
     (case filter_project_id of
        Some project_id \<Rightarrow> list_page tx (category_find_by_project (tx_coll tx) project_id (db_page p))
      | None \<Rightarrow> list_with tx p (category_find_all (tx_coll tx)) category_count))"

definition api_get_category ::
    "'k api_texts \<Rightarrow> app_state \<Rightarrow> current_user \<Rightarrow> Id \<Rightarrow> (database, category_response reply) handler" where
  "api_get_category tx st user i = with_pool st (get_with tx ''Category'' i (category_find_by_id i) category_response_from)"

definition api_list_project_categories ::
    "('k::linorder) api_texts \<Rightarrow> app_state \<Rightarrow> current_user \<Rightarrow> Id \<Rightarrow> page_params \<Rightarrow>
     (database, category_response api_collection reply) handler" where
  "api_list_project_categories tx st user project_id p = with_pool st (collected p category_response_from
     (list_page tx (category_find_by_project (tx_coll tx) project_id (db_page p))))"

definition category_creation :: "create_category_request \<Rightarrow> create_category_dto" where
  "category_creation dto =
     \<lparr>cca_project_id = ccq_project_id dto, cca_name = ccq_name dto, cca_assigned_to_id = ccq_assigned_to_id dto\<rparr>"

definition api_create_category ::
    "'k api_texts \<Rightarrow> app_state \<Rightarrow> current_user \<Rightarrow> create_category_request \<Rightarrow> (database, category_response reply) handler" where
  "api_create_category tx st user dto =
     only_admin user ''Only administrators can create categories.'' (with_pool st
       (replying (\<lambda>r. created_response (category_response_from r)) (invalid_or (conflict_or (internal tx)))
         (category_create (tx_lower tx) (category_creation dto))))"

definition category_change :: "update_category_request \<Rightarrow> update_category_dto" where
  "category_change dto = \<lparr>uca_name = ucq_name dto, uca_assigned_to_id = ucq_assigned_to_id dto\<rparr>"

definition api_update_category ::
    "'k api_texts \<Rightarrow> app_state \<Rightarrow> current_user \<Rightarrow> Id \<Rightarrow> update_category_request \<Rightarrow> (database, category_response reply) handler" where
  "api_update_category tx st user i dto =
     only_admin user ''Only administrators can update categories.'' (with_pool st
       (replying (\<lambda>r. hal_response (category_response_from r)) (any_arms tx ''Category'' i)
         (category_update (tx_lower tx) i (category_change dto))))"

definition api_delete_category :: "'k api_texts \<Rightarrow> app_state \<Rightarrow> current_user \<Rightarrow> Id \<Rightarrow> (database, unit reply) handler" where
  "api_delete_category tx st user i =
     only_admin user ''Only administrators can delete categories.'' (with_pool st
       (replying (\<lambda>_. no_content) (missing_or ''Category'' i (conflict_or (internal tx))) (category_delete i)))"

subsection \<open>Roles\<close>

record create_role_request =
  crq_name :: string
  crq_position :: "i32 option"
  crq_permissions :: "string list option"

record update_role_request =
  urq_name :: "string option"
  urq_position :: "i32 option"
  urq_permissions :: "string list option"

record role_response =
  rrs_type_name :: string
  rrs_id :: Id
  rrs_name :: string
  rrs_position :: i32
  rrs_builtin :: bool
  rrs_permissions :: "string list"
  rrs_self_link :: string

definition role_response_from :: "role_row \<Rightarrow> string list \<Rightarrow> role_response" where
  "role_response_from r permissions =
     \<lparr>rrs_type_name = ''Role'', rrs_id = ror_id r, rrs_name = ror_name r, rrs_position = ror_position r,
      rrs_builtin = role_row_is_builtin r, rrs_permissions = permissions, rrs_self_link = api_path ''roles'' (ror_id r)\<rparr>"

text \<open>The loop over the roles of a page.\<close>

fun roles_with_permissions :: "'k api_texts \<Rightarrow> role_row list \<Rightarrow> (database, role_response list) handler" where
  "roles_with_permissions tx [] = answer []"
| "roles_with_permissions tx (row # rows) =
     then_do (calling (internal tx) (role_get_permissions (ror_id row))) (\<lambda>permissions.
     then_do (roles_with_permissions tx rows) (\<lambda>rest. answer (role_response_from row permissions # rest)))"

definition api_list_roles ::
    "'k api_texts \<Rightarrow> app_state \<Rightarrow> current_user \<Rightarrow> page_params \<Rightarrow> (database, role_response api_collection reply) handler" where
  "api_list_roles tx st user p = with_pool st
     (then_do (list_with tx p role_find_all role_count) (\<lambda>(rows, n).
      then_do (roles_with_permissions tx rows) (\<lambda>elements. answer (hal_response (api_collection_of p n elements)))))"

definition api_get_role ::
    "'k api_texts \<Rightarrow> app_state \<Rightarrow> current_user \<Rightarrow> Id \<Rightarrow> (database, role_response reply) handler" where
  "api_get_role tx st user i = with_pool st
     (then_do (find_or_404 tx ''Role'' i (role_find_by_id i)) (\<lambda>row.
      then_do (calling (internal tx) (role_get_permissions i)) (\<lambda>permissions.
      answer (hal_response (role_response_from row permissions)))))"

text \<open>The permissions are set if there are any, and read.\<close>

definition granting :: "'k api_texts \<Rightarrow> Id \<Rightarrow> string list option \<Rightarrow> (database, string list) handler" where
  "granting tx i permissions =
     then_do (case permissions of Some ps \<Rightarrow> calling (internal tx) (role_set_permissions i ps) | None \<Rightarrow> answer ()) (\<lambda>_.
     calling (internal tx) (role_get_permissions i))"

definition api_create_role ::
    "'k api_texts \<Rightarrow> app_state \<Rightarrow> current_user \<Rightarrow> create_role_request \<Rightarrow> (database, role_response reply) handler" where
  "api_create_role tx st user dto =
     only_admin user ''Only administrators can create roles.'' (with_pool st
       (then_do (calling (conflict_or (internal tx)) (role_create (tx_lower tx)
          \<lparr>cro_name = crq_name dto, cro_position = crq_position dto, cro_role_type = ''Role''\<rparr>)) (\<lambda>row.
        then_do (granting tx (ror_id row) (crq_permissions dto)) (\<lambda>permissions.
        answer (created_response (role_response_from row permissions))))))"

definition api_update_role ::
    "'k api_texts \<Rightarrow> app_state \<Rightarrow> current_user \<Rightarrow> Id \<Rightarrow> update_role_request \<Rightarrow> (database, role_response reply) handler" where
  "api_update_role tx st user i dto =
     only_admin user ''Only administrators can update roles.'' (with_pool st
       (then_do (calling (missing_or ''Role'' i (conflict_or (internal tx)))
          (role_update (tx_lower tx) i \<lparr>uro_name = urq_name dto, uro_position = urq_position dto\<rparr>)) (\<lambda>row.
        then_do (granting tx i (urq_permissions dto)) (\<lambda>permissions.
        answer (hal_response (role_response_from row permissions))))))"

definition api_delete_role :: "'k api_texts \<Rightarrow> app_state \<Rightarrow> current_user \<Rightarrow> Id \<Rightarrow> (database, unit reply) handler" where
  "api_delete_role tx st user i =
     only_admin user ''Only administrators can delete roles.'' (with_pool st
       (replying (\<lambda>_. no_content) (missing_or ''Role'' i (conflict_or (internal tx))) (role_delete i)))"

end
