(* ===== verification/Api_Projects.thy ===== *)
theory Api_Projects
  imports Api_Base Projects Members Accounts
begin

section \<open>Projects, memberships and users in the API (op-api)\<close>

text \<open>
  \<open>op-api/src/handlers/{projects,memberships,users}.rs\<close>.  The link to the memberships of a project or a
  user carries a filter in the syntax of the query language.
\<close>

definition membership_filter :: "string \<Rightarrow> Id \<Rightarrow> string" where
  "membership_filter name i = (let quoted = (\<lambda>s. CHR 0x22 # s @ [CHR 0x22]) in
     ''/api/v3/memberships?filters=[{'' @ quoted name @ '':{'' @ quoted ''operator'' @ '':'' @ quoted ''='' @ '','' @
     quoted ''values'' @ '':['' @ quoted (show_i64 i) @ '']}}]'')"

subsection \<open>Projects\<close>

record project_filters =
  pfl_active_only :: "bool option"

record create_project_request =
  cpr_name :: string
  cpr_identifier :: string
  cpr_description :: "string option"
  cpr_public :: "bool option"
  cpr_active :: "bool option"
  cpr_parent_id :: "Id option"

record update_project_request =
  upr_name :: "string option"
  upr_description :: "string option"
  upr_public :: "bool option"
  upr_active :: "bool option"

record project_response =
  pjs_type_name :: string
  pjs_id :: Id
  pjs_name :: string
  pjs_identifier :: string
  pjs_description :: "string option"
  pjs_public :: bool
  pjs_active :: bool
  pjs_parent_id :: "Id option"
  pjs_created_at :: string
  pjs_updated_at :: string
  pjs_self_link :: string
  pjs_parent :: "string option"
  pjs_work_packages :: string
  pjs_categories :: string
  pjs_versions :: string
  pjs_memberships :: string

definition project_response_from :: "'k api_texts \<Rightarrow> project_row \<Rightarrow> project_response" where
  "project_response_from tx r = (let self = api_path ''projects'' (prr_id r) in
     \<lparr>pjs_type_name = ''Project'', pjs_id = prr_id r, pjs_name = prr_name r, pjs_identifier = prr_identifier r,
      pjs_description = prr_description r, pjs_public = prr_public r, pjs_active = prr_active r,
      pjs_parent_id = prr_parent_id r, pjs_created_at = tx_time tx (prr_created_at r),
      pjs_updated_at = tx_time tx (prr_updated_at r), pjs_self_link = self,
      pjs_parent = map_option (api_path ''projects'') (prr_parent_id r), pjs_work_packages = self @ ''/work_packages'',
      pjs_categories = self @ ''/categories'', pjs_versions = self @ ''/versions'',
      pjs_memberships = membership_filter ''project'' (prr_id r)\<rparr>)"

definition api_list_projects ::
    "'k api_texts \<Rightarrow> app_state \<Rightarrow> current_user \<Rightarrow> page_params \<Rightarrow> project_filters \<Rightarrow>
     (database, project_response api_collection reply) handler" where
  "api_list_projects tx st user p filters = with_pool st (collected p (project_response_from tx)
     (if coalesce (pfl_active_only filters) False then list_page tx (project_find_active (db_page p))
      else list_with tx p project_find_all project_count))"

definition api_get_project ::
    "'k api_texts \<Rightarrow> app_state \<Rightarrow> current_user \<Rightarrow> Id \<Rightarrow> (database, project_response reply) handler" where
  "api_get_project tx st user i = with_pool st (get_with tx ''Project'' i (project_find_by_id i) (project_response_from tx))"

definition project_creation :: "create_project_request \<Rightarrow> create_project_row_dto" where
  "project_creation dto =
     \<lparr>cpd_name = cpr_name dto, cpd_description = cpr_description dto, cpd_identifier = cpr_identifier dto,
      cpd_public = coalesce (cpr_public dto) False, cpd_parent_id = cpr_parent_id dto,
      cpd_active = coalesce (cpr_active dto) True\<rparr>"

definition api_create_project ::
    "'k api_texts \<Rightarrow> app_state \<Rightarrow> current_user \<Rightarrow> create_project_request \<Rightarrow> (database, project_response reply) handler" where
  "api_create_project tx st user dto =
     only_admin user ''Only administrators can create projects.'' (with_pool st
       (then_do (calling (internal tx) (project_is_identifier_unique (cpr_identifier dto) None)) (\<lambda>is_unique.
        if \<not> is_unique then refuse (ApiConflict ''Identifier has already been taken'')
        else replying (\<lambda>r. created_response (project_response_from tx r)) (internal tx)
               (project_create (project_creation dto)))))"

definition project_change :: "update_project_request \<Rightarrow> update_project_row_dto" where
  "project_change dto =
     \<lparr>upd_name = upr_name dto, upd_description = upr_description dto, upd_public = upr_public dto,
      upd_parent_id = None, upd_active = upr_active dto\<rparr>"

definition api_update_project ::
    "'k api_texts \<Rightarrow> app_state \<Rightarrow> current_user \<Rightarrow> Id \<Rightarrow> update_project_request \<Rightarrow> (database, project_response reply) handler" where
  "api_update_project tx st user i dto =
     only_admin user ''Only administrators can update projects.'' (with_pool st
       (then_do (calling (internal tx) (project_exists i)) (\<lambda>known.
        if \<not> known then refuse (api_not_found ''Project'' i)
        else replying (\<lambda>r. hal_response (project_response_from tx r)) (missing_or ''Project'' i (internal tx))
               (project_update i (project_change dto)))))"

definition api_delete_project :: "'k api_texts \<Rightarrow> app_state \<Rightarrow> current_user \<Rightarrow> Id \<Rightarrow> (database, unit reply) handler" where
  "api_delete_project tx st user i =
     only_admin user ''Only administrators can delete projects.'' (with_pool st
       (replying (\<lambda>_. no_content) (missing_or ''Project'' i (conflict_or (internal tx))) (project_delete i)))"

text \<open>A row is found, changed, and found again for the reply.\<close>

definition changing ::
    "'k api_texts \<Rightarrow> string \<Rightarrow> Id \<Rightarrow> (Id \<Rightarrow> (database, 'r option) dbop) \<Rightarrow> (Id \<Rightarrow> (database, unit) dbop) \<Rightarrow>
     ('r \<Rightarrow> 'e) \<Rightarrow> (database, 'e reply) handler" where
  "changing tx resource i finder change from_row =
     then_do (find_or_404 tx resource i (finder i)) (\<lambda>_.
     then_do (calling (internal tx) (change i)) (\<lambda>_.
     get_with tx resource i (finder i) from_row))"

definition api_archive_project ::
    "'k api_texts \<Rightarrow> app_state \<Rightarrow> current_user \<Rightarrow> Id \<Rightarrow> (database, project_response reply) handler" where
  "api_archive_project tx st user i =
     only_admin user ''Only administrators can archive projects.'' (with_pool st
       (changing tx ''Project'' i project_find_by_id project_archive (project_response_from tx)))"

definition api_unarchive_project ::
    "'k api_texts \<Rightarrow> app_state \<Rightarrow> current_user \<Rightarrow> Id \<Rightarrow> (database, project_response reply) handler" where
  "api_unarchive_project tx st user i =
     only_admin user ''Only administrators can unarchive projects.'' (with_pool st
       (changing tx ''Project'' i project_find_by_id project_unarchive (project_response_from tx)))"

subsection \<open>Memberships\<close>

record membership_filters =
  mfl_project_id :: "i64 option"
  mfl_principal_id :: "i64 option"

record create_membership_request =
  cmq_principal_id :: i64
  cmq_project_id :: "i64 option"
  cmq_role_ids :: "i64 list"

record update_membership_request =
  umq_role_ids :: "i64 list option"

record membership_response =
  mrs_type_name :: string
  mrs_id :: Id
  mrs_created_at :: string
  mrs_updated_at :: string
  mrs_self_link :: string
  mrs_principal :: string
  mrs_project :: "string option"
  mrs_roles :: "string list"

definition membership_response_from :: "'k api_texts \<Rightarrow> member_with_roles \<Rightarrow> membership_response" where
  "membership_response_from tx w = (let m = mwr_member w in
     \<lparr>mrs_type_name = ''Membership'', mrs_id = mbr_id m, mrs_created_at = tx_time tx (mbr_created_at m),
      mrs_updated_at = tx_time tx (mbr_updated_at m), mrs_self_link = api_path ''memberships'' (mbr_id m),
      mrs_principal = api_path ''users'' (mbr_user_id m),
      mrs_project = map_option (api_path ''projects'') (mbr_project_id m),
      mrs_roles = map (api_path ''roles'') (mwr_role_ids w)\<rparr>)"

definition api_list_memberships ::
    "'k api_texts \<Rightarrow> app_state \<Rightarrow> current_user \<Rightarrow> page_params \<Rightarrow> membership_filters \<Rightarrow>
     (database, membership_response api_collection reply) handler" where
  "api_list_memberships tx st user p filters = with_pool st (collected p (membership_response_from tx)
     (case mfl_project_id filters of
        Some project_id \<Rightarrow> list_page tx (member_find_by_project project_id (db_page p))
      | None \<Rightarrow> (case mfl_principal_id filters of
          Some user_id \<Rightarrow> then_do (calling (internal tx) (member_find_by_user user_id))
                             (\<lambda>members. answer (members, word_of_nat (length members)))
        | None \<Rightarrow> list_page tx (member_find_all_with_roles (db_page p)))))"

definition api_get_membership ::
    "'k api_texts \<Rightarrow> app_state \<Rightarrow> current_user \<Rightarrow> Id \<Rightarrow> (database, membership_response reply) handler" where
  "api_get_membership tx st user i =
     with_pool st (get_with tx ''Membership'' i (member_find_by_id_with_roles i) (membership_response_from tx))"

text \<open>What was written is read back with its roles.\<close>

definition read_back :: "'k api_texts \<Rightarrow> string \<Rightarrow> member_row \<Rightarrow> (database, membership_response) handler" where
  "read_back tx msg m =
     then_do (or_refuse (ApiInternal msg) (calling (internal tx) (member_find_by_id_with_roles (mbr_id m)))) (\<lambda>w.
     answer (membership_response_from tx w))"

definition api_create_membership ::
    "'k api_texts \<Rightarrow> app_state \<Rightarrow> current_user \<Rightarrow> create_membership_request \<Rightarrow> (database, membership_response reply) handler" where
  "api_create_membership tx st user dto =
     only_admin user ''Only administrators can create memberships.'' (with_pool st
       (then_do (calling (invalid_or (conflict_or (internal tx))) (member_create
          \<lparr>cmb_user_id = cmq_principal_id dto, cmb_project_id = cmq_project_id dto, cmb_role_ids = cmq_role_ids dto,
           cmb_entity_type = None, cmb_entity_id = None\<rparr>)) (\<lambda>m.
        then_do (read_back tx ''Failed to retrieve created membership'' m) (\<lambda>x. answer (created_response x)))))"

definition api_update_membership ::
    "'k api_texts \<Rightarrow> app_state \<Rightarrow> current_user \<Rightarrow> Id \<Rightarrow> update_membership_request \<Rightarrow>
     (database, membership_response reply) handler" where
  "api_update_membership tx st user i dto =
     only_admin user ''Only administrators can update memberships.'' (with_pool st
       (then_do (calling (missing_or ''Membership'' i (invalid_or (conflict_or (internal tx))))
          (member_update i \<lparr>umb_role_ids = umq_role_ids dto\<rparr>)) (\<lambda>m.
        then_do (read_back tx ''Failed to retrieve updated membership'' m) (\<lambda>x. answer (hal_response x)))))"

definition api_delete_membership :: "'k api_texts \<Rightarrow> app_state \<Rightarrow> current_user \<Rightarrow> Id \<Rightarrow> (database, unit reply) handler" where
  "api_delete_membership tx st user i =
     only_admin user ''Only administrators can delete memberships.'' (with_pool st
       (replying (\<lambda>_. no_content) (missing_or ''Membership'' i (conflict_or (internal tx))) (member_delete i)))"

subsection \<open>Users\<close>

record create_user_request =
  cuq_login :: string
  cuq_firstname :: string
  cuq_lastname :: string
  cuq_email :: string
  cuq_password :: "string option"
  cuq_admin :: "bool option"
  cuq_status :: "string option"
  cuq_language :: "string option"

record update_user_request =
  uuq_firstname :: "string option"
  uuq_lastname :: "string option"
  uuq_email :: "string option"
  uuq_password :: "string option"
  uuq_admin :: "bool option"
  uuq_status :: "string option"
  uuq_language :: "string option"

record user_response =
  urs_type_name :: string
  urs_id :: Id
  urs_login :: string
  urs_first_name :: string
  urs_last_name :: string
  urs_name :: string
  urs_email :: "string option"
  urs_admin :: bool
  urs_status :: string
  urs_language :: "string option"
  urs_created_at :: string
  urs_updated_at :: string
  urs_self_link :: string
  urs_lock :: "string option"
  urs_unlock :: "string option"
  urs_memberships :: string

definition user_status_text :: "i32 \<Rightarrow> string" where
  "user_status_text s =
     (if s = 1 then ''active'' else if s = 2 then ''registered'' else if s = 3 then ''locked''
      else if s = 4 then ''invited'' else ''unknown'')"

definition user_response_from :: "'k api_texts \<Rightarrow> user_row \<Rightarrow> bool \<Rightarrow> user_response" where
  "user_response_from tx r include_email =
     (let is_locked = ur_status r = 3; lock = api_path ''users'' (ur_id r) @ ''/lock'' in
     \<lparr>urs_type_name = ''User'', urs_id = ur_id r, urs_login = ur_login r, urs_first_name = ur_firstname r,
      urs_last_name = ur_lastname r, urs_name = ur_firstname r @ '' '' @ ur_lastname r,
      urs_email = (if include_email then Some (ur_mail r) else None), urs_admin = ur_admin r,
      urs_status = user_status_text (ur_status r), urs_language = ur_language r,
      urs_created_at = tx_time tx (ur_created_at r), urs_updated_at = tx_time tx (ur_updated_at r),
      urs_self_link = api_path ''users'' (ur_id r), urs_lock = (if \<not> is_locked then Some lock else None),
      urs_unlock = (if is_locked then Some lock else None), urs_memberships = membership_filter ''principal'' (ur_id r)\<rparr>)"

definition api_list_users ::
    "('k::linorder) api_texts \<Rightarrow> app_state \<Rightarrow> current_user \<Rightarrow> page_params \<Rightarrow>
     (database, user_response api_collection reply) handler" where
  "api_list_users tx st user p = with_pool st (collected p (\<lambda>r. user_response_from tx r True)
     (if \<not> cu_is_admin user
      then then_do (calling (internal tx) (user_find_by_id (cu_id user))) (\<lambda>self_user.
             let elements = (case self_user of Some r \<Rightarrow> [r] | None \<Rightarrow> []) in
             answer (elements, word_of_nat (length elements)))
      else list_with tx p (user_find_all (tx_coll tx)) user_count))"

definition api_get_user ::
    "'k api_texts \<Rightarrow> app_state \<Rightarrow> current_user \<Rightarrow> Id \<Rightarrow> (database, user_response reply) handler" where
  "api_get_user tx st user i =
     (let is_self = cu_id user = i; is_admin = cu_is_admin user in
      if \<not> is_self \<and> \<not> is_admin then refuse (ApiForbidden ''You are not authorized to access this resource.'')
      else with_pool st (get_with tx ''User'' i (user_find_by_id i) (\<lambda>r. user_response_from tx r (is_self \<or> is_admin))))"

definition api_get_me :: "'k api_texts \<Rightarrow> app_state \<Rightarrow> current_user \<Rightarrow> (database, user_response reply) handler" where
  "api_get_me tx st user =
     with_pool st (get_with tx ''User'' (cu_id user) (user_find_by_id (cu_id user)) (\<lambda>r. user_response_from tx r True))"

text \<open>
  A password becomes a hash and the salt it was made with: both depend on the hasher of the standard
  library and on the clock, and are given.
\<close>

definition with_secret ::
    "string \<Rightarrow> (string \<Rightarrow> string \<Rightarrow> string) \<Rightarrow> string option \<Rightarrow> string option \<times> string option" where
  "with_secret salt hash_password password =
     (case password of Some p \<Rightarrow> (Some (hash_password salt p), Some salt) | None \<Rightarrow> (None, None))"

definition status_for_creation :: "string option \<Rightarrow> i32" where
  "status_for_creation s =
     (if s = Some ''active'' then status_ACTIVE else if s = Some ''locked'' then status_LOCKED
      else if s = Some ''invited'' then status_INVITED else if s = Some ''registered'' then status_REGISTERED
      else status_INVITED)"

definition user_creation :: "string option \<times> string option \<Rightarrow> create_user_request \<Rightarrow> create_user_row_dto" where
  "user_creation secret dto =
     \<lparr>cud_login = cuq_login dto, cud_firstname = cuq_firstname dto, cud_lastname = cuq_lastname dto,
      cud_mail = cuq_email dto, cud_admin = coalesce (cuq_admin dto) False,
      cud_status = status_for_creation (cuq_status dto), cud_language = cuq_language dto,
      cud_hashed_password = fst secret, cud_salt = snd secret\<rparr>"

definition api_create_user ::
    "string \<Rightarrow> (string \<Rightarrow> string \<Rightarrow> string) \<Rightarrow> 'k api_texts \<Rightarrow> app_state \<Rightarrow> current_user \<Rightarrow> create_user_request \<Rightarrow>
     (database, user_response reply) handler" where
  "api_create_user salt hash_password tx st user dto =
     only_admin user ''Only administrators can create users.'' (with_pool st
       (then_do (calling (internal tx) (user_is_login_unique (cuq_login dto) None)) (\<lambda>login_unique.
        if \<not> login_unique then refuse (ApiConflict ''Login has already been taken'')
        else then_do (calling (internal tx) (user_is_email_unique (cuq_email dto) None)) (\<lambda>email_unique.
        if \<not> email_unique then refuse (ApiConflict ''Email has already been taken'')
        else replying (\<lambda>r. created_response (user_response_from tx r True)) (internal tx)
               (user_create (user_creation (with_secret salt hash_password (cuq_password dto)) dto))))))"

definition status_for_update :: "string \<Rightarrow> i32" where
  "status_for_update s =
     (if s = ''active'' then status_ACTIVE else if s = ''locked'' then status_LOCKED
      else if s = ''invited'' then status_INVITED else if s = ''registered'' then status_REGISTERED
      else status_ACTIVE)"

definition user_change :: "string option \<times> string option \<Rightarrow> bool \<Rightarrow> update_user_request \<Rightarrow> update_user_row_dto" where
  "user_change secret is_admin dto =
     \<lparr>uud_login = None, uud_firstname = uuq_firstname dto, uud_lastname = uuq_lastname dto, uud_mail = uuq_email dto,
      uud_admin = (if is_admin then uuq_admin dto else None), uud_status = map_option status_for_update (uuq_status dto),
      uud_language = uuq_language dto, uud_hashed_password = fst secret, uud_salt = snd secret\<rparr>"

definition api_update_user ::
    "string \<Rightarrow> (string \<Rightarrow> string \<Rightarrow> string) \<Rightarrow> 'k api_texts \<Rightarrow> app_state \<Rightarrow> current_user \<Rightarrow> Id \<Rightarrow> update_user_request \<Rightarrow>
     (database, user_response reply) handler" where
  "api_update_user salt hash_password tx st user i dto =
     (let is_self = cu_id user = i; is_admin = cu_is_admin user in
      if \<not> is_self \<and> \<not> is_admin then refuse (ApiForbidden ''You are not authorized to update this user.'')
      else with_pool st
       (then_do (calling (internal tx) (user_exists i)) (\<lambda>known.
        if \<not> known then refuse (api_not_found ''User'' i)
        else then_do (case uuq_email dto of
             Some email \<Rightarrow> calling (internal tx) (user_is_email_unique email (Some i))
           | None \<Rightarrow> answer True) (\<lambda>email_unique.
        if \<not> email_unique then refuse (ApiConflict ''Email has already been taken'')
        else replying (\<lambda>r. hal_response (user_response_from tx r True)) (missing_or ''User'' i (internal tx))
               (user_update i (user_change (with_secret salt hash_password (uuq_password dto)) is_admin dto))))))"

definition api_delete_user :: "'k api_texts \<Rightarrow> app_state \<Rightarrow> current_user \<Rightarrow> Id \<Rightarrow> (database, unit reply) handler" where
  "api_delete_user tx st user i =
     only_admin user ''Only administrators can delete users.''
       (if cu_id user = i then refuse (ApiConflict ''You cannot delete your own account.'')
        else with_pool st (replying (\<lambda>_. no_content) (missing_or ''User'' i (internal tx)) (user_delete i)))"

definition api_lock_user ::
    "'k api_texts \<Rightarrow> app_state \<Rightarrow> current_user \<Rightarrow> Id \<Rightarrow> (database, user_response reply) handler" where
  "api_lock_user tx st user i =
     only_admin user ''Only administrators can lock users.''
       (if cu_id user = i then refuse (ApiConflict ''You cannot lock your own account.'')
        else with_pool st (changing tx ''User'' i user_find_by_id user_lock (\<lambda>r. user_response_from tx r True)))"

definition api_unlock_user ::
    "'k api_texts \<Rightarrow> app_state \<Rightarrow> current_user \<Rightarrow> Id \<Rightarrow> (database, user_response reply) handler" where
  "api_unlock_user tx st user i =
     only_admin user ''Only administrators can unlock users.'' (with_pool st
       (changing tx ''User'' i user_find_by_id user_unlock (\<lambda>r. user_response_from tx r True)))"

end
