(* ===== verification/Api_Work.thy ===== *)
theory Api_Work
  imports Api_Base Work_Package_Rows Relations Accounts Time_Entries
begin

section \<open>Work packages, relations, watchers and time entries in the API (op-api)\<close>

text \<open>
  \<open>op-api/src/handlers/{work_packages,relations,watchers,time_entries}.rs\<close>: what every user may change,
  the anonymous one included.
\<close>

subsection \<open>Work packages\<close>

record create_wp_request =
  cwq_subject :: string
  cwq_description :: "string option"
  cwq_project_id :: "Id option"
  cwq_type_id :: "Id option"
  cwq_status_id :: "Id option"
  cwq_priority_id :: "Id option"
  cwq_assigned_to_id :: "Id option"
  cwq_parent_id :: "Id option"
  cwq_estimated_hours :: "f64 option"

record update_wp_request =
  uwq_subject :: "string option"
  uwq_description :: "string option"
  uwq_type_id :: "Id option"
  uwq_status_id :: "Id option"
  uwq_priority_id :: "Id option"
  uwq_assigned_to_id :: "Id option"
  uwq_estimated_hours :: "f64 option"
  uwq_done_ratio :: "i32 option"
  uwq_lock_version :: i32

record wp_response =
  wrs_type_name :: string
  wrs_id :: Id
  wrs_subject :: string
  wrs_description :: "string option"
  wrs_project_id :: Id
  wrs_type_id :: Id
  wrs_status_id :: Id
  wrs_priority_id :: "Id option"
  wrs_author_id :: Id
  wrs_assigned_to_id :: "Id option"
  wrs_start_date :: "string option"
  wrs_due_date :: "string option"
  wrs_estimated_hours :: "f64 option"
  wrs_done_ratio :: i32
  wrs_lock_version :: i32
  wrs_created_at :: string
  wrs_updated_at :: string

definition wp_response_from :: "'k api_texts \<Rightarrow> work_package_row \<Rightarrow> wp_response" where
  "wp_response_from tx r =
     \<lparr>wrs_type_name = ''WorkPackage'', wrs_id = wpr_id r, wrs_subject = wpr_subject r,
      wrs_description = wpr_description r, wrs_project_id = wpr_project_id r, wrs_type_id = wpr_type_id r,
      wrs_status_id = wpr_status_id r, wrs_priority_id = wpr_priority_id r, wrs_author_id = wpr_author_id r,
      wrs_assigned_to_id = wpr_assigned_to_id r, wrs_start_date = map_option (tx_date tx) (wpr_start_date r),
      wrs_due_date = map_option (tx_date tx) (wpr_due_date r), wrs_estimated_hours = wpr_estimated_hours r,
      wrs_done_ratio = wpr_done_ratio r, wrs_lock_version = wpr_lock_version r,
      wrs_created_at = tx_time tx (wpr_created_at r), wrs_updated_at = tx_time tx (wpr_updated_at r)\<rparr>"

definition api_list_work_packages ::
    "'k api_texts \<Rightarrow> app_state \<Rightarrow> current_user \<Rightarrow> page_params \<Rightarrow> (database, wp_response api_collection reply) handler" where
  "api_list_work_packages tx st user p =
     with_pool st (collected p (wp_response_from tx) (list_with tx p wp_find_all wp_count))"

definition api_get_work_package ::
    "'k api_texts \<Rightarrow> app_state \<Rightarrow> current_user \<Rightarrow> Id \<Rightarrow> (database, wp_response reply) handler" where
  "api_get_work_package tx st user i =
     with_pool st (get_with tx ''WorkPackage'' i (wp_find_by_id i) (wp_response_from tx))"

definition wp_creation :: "current_user \<Rightarrow> create_wp_request \<Rightarrow> create_wp_row_dto" where
  "wp_creation user dto =
     \<lparr>cwd_subject = cwq_subject dto, cwd_description = cwq_description dto,
      cwd_project_id = coalesce (cwq_project_id dto) 1, cwd_type_id = coalesce (cwq_type_id dto) 1,
      cwd_status_id = coalesce (cwq_status_id dto) 1, cwd_priority_id = cwq_priority_id dto, cwd_author_id = cu_id user,
      cwd_assigned_to_id = cwq_assigned_to_id dto, cwd_responsible_id = None, cwd_start_date = None,
      cwd_due_date = None, cwd_estimated_hours = cwq_estimated_hours dto, cwd_done_ratio = 0,
      cwd_parent_id = cwq_parent_id dto, cwd_version_id = None, cwd_category_id = None\<rparr>"

definition api_create_work_package ::
    "'k api_texts \<Rightarrow> app_state \<Rightarrow> current_user \<Rightarrow> create_wp_request \<Rightarrow> (database, wp_response reply) handler" where
  "api_create_work_package tx st user dto = with_pool st
     (replying (\<lambda>r. created_response (wp_response_from tx r)) (internal tx) (wp_create (wp_creation user dto)))"

definition wp_change :: "update_wp_request \<Rightarrow> update_wp_row_dto" where
  "wp_change dto =
     \<lparr>uwd_subject = uwq_subject dto, uwd_description = uwq_description dto, uwd_type_id = uwq_type_id dto,
      uwd_status_id = uwq_status_id dto, uwd_priority_id = uwq_priority_id dto,
      uwd_assigned_to_id = uwq_assigned_to_id dto, uwd_responsible_id = None, uwd_start_date = None,
      uwd_due_date = None, uwd_estimated_hours = uwq_estimated_hours dto, uwd_done_ratio = uwq_done_ratio dto,
      uwd_parent_id = None, uwd_version_id = None, uwd_category_id = None, uwd_lock_version = uwq_lock_version dto\<rparr>"

definition api_update_work_package ::
    "'k api_texts \<Rightarrow> app_state \<Rightarrow> current_user \<Rightarrow> Id \<Rightarrow> update_wp_request \<Rightarrow> (database, wp_response reply) handler" where
  "api_update_work_package tx st user i dto = with_pool st
     (replying (\<lambda>r. hal_response (wp_response_from tx r)) (conflict_or (missing_or ''WorkPackage'' i (internal tx)))
       (wp_update i (wp_change dto)))"

definition api_delete_work_package :: "'k api_texts \<Rightarrow> app_state \<Rightarrow> current_user \<Rightarrow> Id \<Rightarrow> (database, unit reply) handler" where
  "api_delete_work_package tx st user i = with_pool st
     (replying (\<lambda>_. no_content) (missing_or ''WorkPackage'' i (internal tx)) (wp_delete i))"

subsection \<open>Relations\<close>

record relation_filters =
  rfl_work_package_id :: "i64 option"
  rfl_relation_type :: "string option"

record create_relation_request =
  clq_from_id :: i64
  clq_to_id :: i64
  clq_relation_type :: string
  clq_lag :: "i32 option"
  clq_description :: "string option"

record update_relation_request =
  ulq_lag :: "i32 option"
  ulq_description :: "string option option"

record relation_response =
  lrs_type_name :: string
  lrs_id :: Id
  lrs_name :: string
  lrs_relation_type :: string
  lrs_reverse_type :: string
  lrs_lag :: "i32 option"
  lrs_description :: "string option"
  lrs_created_at :: string
  lrs_updated_at :: string
  lrs_self_link :: string
  lrs_from :: string
  lrs_to :: string

definition format_relation_name :: "string \<Rightarrow> string" where
  "format_relation_name t =
     (if t = ''relates'' then ''Relates to'' else if t = ''precedes'' then ''Precedes''
      else if t = ''follows'' then ''Follows'' else if t = ''blocks'' then ''Blocks''
      else if t = ''blocked'' then ''Blocked by'' else if t = ''duplicates'' then ''Duplicates''
      else if t = ''duplicated'' then ''Duplicated by'' else if t = ''includes'' then ''Includes''
      else if t = ''partof'' then ''Part of'' else if t = ''requires'' then ''Requires''
      else if t = ''required'' then ''Required by'' else t)"

definition relation_response_from :: "'k api_texts \<Rightarrow> relation_row \<Rightarrow> relation_response" where
  "relation_response_from tx r =
     \<lparr>lrs_type_name = ''Relation'', lrs_id = rer_id r, lrs_name = format_relation_name (rer_relation_type r),
      lrs_relation_type = rer_relation_type r, lrs_reverse_type = symmetric_type (rer_relation_type r),
      lrs_lag = rer_lag r, lrs_description = rer_description r, lrs_created_at = tx_time tx (rer_created_at r),
      lrs_updated_at = tx_time tx (rer_updated_at r), lrs_self_link = api_path ''relations'' (rer_id r),
      lrs_from = api_path ''work_packages'' (rer_from_id r), lrs_to = api_path ''work_packages'' (rer_to_id r)\<rparr>"

definition api_list_relations ::
    "'k api_texts \<Rightarrow> app_state \<Rightarrow> current_user \<Rightarrow> page_params \<Rightarrow> relation_filters \<Rightarrow>
     (database, relation_response api_collection reply) handler" where
  "api_list_relations tx st user p filters = with_pool st (collected p (relation_response_from tx)
     (case rfl_work_package_id filters of
        Some work_package_id \<Rightarrow> list_page tx (relation_find_by_work_package work_package_id (db_page p))
      | None \<Rightarrow> (case rfl_relation_type filters of
          Some t \<Rightarrow> list_page tx (relation_find_by_type t (db_page p))
        | None \<Rightarrow> list_with tx p relation_find_all relation_count)))"

definition api_get_relation ::
    "'k api_texts \<Rightarrow> app_state \<Rightarrow> current_user \<Rightarrow> Id \<Rightarrow> (database, relation_response reply) handler" where
  "api_get_relation tx st user i =
     with_pool st (get_with tx ''Relation'' i (relation_find_by_id i) (relation_response_from tx))"

definition relation_creation :: "create_relation_request \<Rightarrow> create_relation_dto" where
  "relation_creation dto =
     \<lparr>crl_from_id = clq_from_id dto, crl_to_id = clq_to_id dto, crl_relation_type = clq_relation_type dto,
      crl_lag = clq_lag dto, crl_description = clq_description dto\<rparr>"

definition api_create_relation ::
    "'k api_texts \<Rightarrow> app_state \<Rightarrow> current_user \<Rightarrow> create_relation_request \<Rightarrow> (database, relation_response reply) handler" where
  "api_create_relation tx st user dto = with_pool st
     (replying (\<lambda>r. created_response (relation_response_from tx r)) (invalid_or (conflict_or (internal tx)))
       (relation_create (relation_creation dto)))"

definition relation_change :: "update_relation_request \<Rightarrow> update_relation_dto" where
  "relation_change dto = \<lparr>url_lag = ulq_lag dto, url_description = ulq_description dto\<rparr>"

definition api_update_relation ::
    "'k api_texts \<Rightarrow> app_state \<Rightarrow> current_user \<Rightarrow> Id \<Rightarrow> update_relation_request \<Rightarrow> (database, relation_response reply) handler" where
  "api_update_relation tx st user i dto = with_pool st
     (replying (\<lambda>r. hal_response (relation_response_from tx r)) (missing_or ''Relation'' i (invalid_or (internal tx)))
       (relation_update i (relation_change dto)))"

definition api_delete_relation :: "'k api_texts \<Rightarrow> app_state \<Rightarrow> current_user \<Rightarrow> Id \<Rightarrow> (database, unit reply) handler" where
  "api_delete_relation tx st user i = with_pool st
     (replying (\<lambda>_. no_content) (missing_or ''Relation'' i (internal tx)) (relation_delete i))"

definition api_list_work_package_relations ::
    "'k api_texts \<Rightarrow> app_state \<Rightarrow> current_user \<Rightarrow> Id \<Rightarrow> page_params \<Rightarrow>
     (database, relation_response api_collection reply) handler" where
  "api_list_work_package_relations tx st user work_package_id p = with_pool st (collected p (relation_response_from tx)
     (list_page tx (relation_find_by_work_package work_package_id (db_page p))))"

subsection \<open>Watchers\<close>

record add_watcher_request =
  awq_user_id :: i64

record watcher_response =
  hrs_type_name :: string
  hrs_id :: Id
  hrs_name :: string
  hrs_self_link :: string
  hrs_user :: "string \<times> string"
  hrs_watchable :: string

definition watcher_response_from :: "watcher_with_user \<Rightarrow> i64 \<Rightarrow> watcher_response" where
  "watcher_response_from w work_package_id =
     (let i = war_id (wwu_watcher w); user_id = war_user_id (wwu_watcher w); user_name = wwu_user_name w in
     \<lparr>hrs_type_name = ''Watcher'', hrs_id = i, hrs_name = user_name,
      hrs_self_link = api_path ''work_packages'' work_package_id @ ''/watchers/'' @ show_i64 user_id,
      hrs_user = (api_path ''users'' user_id, user_name), hrs_watchable = api_path ''work_packages'' work_package_id\<rparr>)"

definition api_list_work_package_watchers ::
    "'k api_texts \<Rightarrow> app_state \<Rightarrow> current_user \<Rightarrow> Id \<Rightarrow> page_params \<Rightarrow>
     (database, watcher_response api_collection reply) handler" where
  "api_list_work_package_watchers tx st user work_package_id p = with_pool st
     (collected p (\<lambda>w. watcher_response_from w work_package_id)
       (list_page tx (watcher_find_by_work_package work_package_id (db_page p))))"

definition wp_watcher :: "Id \<Rightarrow> Id \<Rightarrow> create_watcher_dto" where
  "wp_watcher work_package_id user_id =
     \<lparr>cwa_watchable_type = ''WorkPackage'', cwa_watchable_id = work_package_id, cwa_user_id = user_id\<rparr>"

definition api_add_work_package_watcher ::
    "'k api_texts \<Rightarrow> app_state \<Rightarrow> current_user \<Rightarrow> Id \<Rightarrow> add_watcher_request \<Rightarrow> (database, watcher_response reply) handler" where
  "api_add_work_package_watcher tx st user work_package_id dto = with_pool st
     (then_do (calling (invalid_or (conflict_or (internal tx)))
        (watcher_create (wp_watcher work_package_id (awq_user_id dto)))) (\<lambda>watcher.
      then_do (calling (internal tx)
        (watcher_find_by_work_package work_package_id \<lparr>pg_limit = 1000, pg_offset = 0\<rparr>)) (\<lambda>result.
      case find (\<lambda>w. war_id (wwu_watcher w) = war_id watcher) (pres_items result) of
        None \<Rightarrow> refuse (ApiInternal ''Failed to retrieve created watcher'')
      | Some w \<Rightarrow> answer (created_response (watcher_response_from w work_package_id)))))"

definition api_remove_work_package_watcher ::
    "'k api_texts \<Rightarrow> app_state \<Rightarrow> current_user \<Rightarrow> Id \<Rightarrow> Id \<Rightarrow> (database, unit reply) handler" where
  "api_remove_work_package_watcher tx st user work_package_id user_id = with_pool st
     (then_do (calling (internal tx) (watcher_delete_by_user_and_watchable user_id ''WorkPackage'' work_package_id)) (\<lambda>deleted.
      if \<not> deleted then refuse (api_not_found ''Watcher'' user_id) else answer no_content))"

definition api_is_watching_work_package ::
    "'k api_texts \<Rightarrow> app_state \<Rightarrow> current_user \<Rightarrow> Id \<Rightarrow> (database, bool reply) handler" where
  "api_is_watching_work_package tx st user work_package_id = with_pool st
     (replying hal_response (internal tx) (is_watching (cu_id user) ''WorkPackage'' work_package_id))"

text \<open>A watcher there already counts as success.\<close>

definition api_watch_work_package ::
    "'k api_texts \<Rightarrow> app_state \<Rightarrow> current_user \<Rightarrow> Id \<Rightarrow> (database, unit reply) handler" where
  "api_watch_work_package tx st user work_package_id = with_pool st (\<lambda>env s.
     case watcher_create (wp_watcher work_package_id (cu_id user)) env s of
       (Inr _, s) \<Rightarrow> (Ok no_content, s)
     | (Inl (RepoConflict _), s) \<Rightarrow> (Ok no_content, s)
     | (Inl (RepoValidation msg), s) \<Rightarrow> (Err (ApiBadRequest msg), s)
     | (Inl e, s) \<Rightarrow> (Err (internal tx e), s))"

definition api_unwatch_work_package ::
    "'k api_texts \<Rightarrow> app_state \<Rightarrow> current_user \<Rightarrow> Id \<Rightarrow> (database, unit reply) handler" where
  "api_unwatch_work_package tx st user work_package_id = with_pool st
     (replying (\<lambda>_. no_content) (internal tx)
       (watcher_delete_by_user_and_watchable (cu_id user) ''WorkPackage'' work_package_id))"

subsection \<open>Time entries\<close>

record time_entry_filters =
  tfl_work_package_id :: "Id option"
  tfl_project_id :: "Id option"
  tfl_user_id :: "Id option"

record create_time_entry_request =
  ceq_project_id :: Id
  ceq_user_id :: "Id option"
  ceq_work_package_id :: "Id option"
  ceq_hours :: f64
  ceq_comments :: "string option"
  ceq_activity_id :: Id
  ceq_spent_on :: "string option"

record update_time_entry_request =
  ueq_work_package_id :: "Id option"
  ueq_hours :: "f64 option"
  ueq_comments :: "string option"
  ueq_activity_id :: "Id option"
  ueq_spent_on :: "string option"

record time_entry_response =
  ers_type_name :: string
  ers_id :: Id
  ers_project_id :: Id
  ers_user_id :: Id
  ers_work_package_id :: "Id option"
  ers_hours :: f64
  ers_comments :: "string option"
  ers_activity_id :: Id
  ers_spent_on :: string
  ers_created_at :: string
  ers_updated_at :: string
  ers_self_link :: string
  ers_project :: string
  ers_user :: string
  ers_work_package :: "string option"
  ers_activity :: string

definition time_entry_response_from :: "'k api_texts \<Rightarrow> time_entry_row \<Rightarrow> time_entry_response" where
  "time_entry_response_from tx r =
     \<lparr>ers_type_name = ''TimeEntry'', ers_id = ter_id r, ers_project_id = ter_project_id r, ers_user_id = ter_user_id r,
      ers_work_package_id = ter_work_package_id r, ers_hours = ter_hours r, ers_comments = ter_comments r,
      ers_activity_id = ter_activity_id r, ers_spent_on = tx_date tx (ter_spent_on r),
      ers_created_at = tx_time tx (ter_created_at r), ers_updated_at = tx_time tx (ter_updated_at r),
      ers_self_link = api_path ''time_entries'' (ter_id r), ers_project = api_path ''projects'' (ter_project_id r),
      ers_user = api_path ''users'' (ter_user_id r),
      ers_work_package = map_option (api_path ''work_packages'') (ter_work_package_id r),
      ers_activity = api_path ''time_entries/activities'' (ter_activity_id r)\<rparr>"

definition api_list_time_entries ::
    "'k api_texts \<Rightarrow> app_state \<Rightarrow> current_user \<Rightarrow> page_params \<Rightarrow> time_entry_filters \<Rightarrow>
     (database, time_entry_response api_collection reply) handler" where
  "api_list_time_entries tx st user p filters = with_pool st (collected p (time_entry_response_from tx)
     (case tfl_work_package_id filters of
        Some work_package_id \<Rightarrow> list_page tx (time_find_by_work_package work_package_id (db_page p))
      | None \<Rightarrow> (case tfl_project_id filters of
          Some project_id \<Rightarrow> list_page tx (time_find_by_project project_id (db_page p))
        | None \<Rightarrow> (case tfl_user_id filters of
            Some user_id \<Rightarrow> list_page tx (time_find_by_user user_id (db_page p))
          | None \<Rightarrow> list_with tx p time_find_all time_count))))"

definition api_get_time_entry ::
    "'k api_texts \<Rightarrow> app_state \<Rightarrow> current_user \<Rightarrow> Id \<Rightarrow> (database, time_entry_response reply) handler" where
  "api_get_time_entry tx st user i =
     with_pool st (get_with tx ''TimeEntry'' i (time_find_by_id i) (time_entry_response_from tx))"

definition read_day :: "'k api_texts \<Rightarrow> string option \<Rightarrow> ('d, date option) handler" where
  "read_day tx spent_on =
     (case spent_on of
        None \<Rightarrow> answer None
      | Some s \<Rightarrow> (case tx_parse_date tx s of
          None \<Rightarrow> refuse (ApiBadRequest ''Invalid date format for spent_on. Use YYYY-MM-DD'')
        | Some d \<Rightarrow> answer (Some d)))"

definition api_create_time_entry ::
    "calendar \<Rightarrow> 'k api_texts \<Rightarrow> app_state \<Rightarrow> current_user \<Rightarrow> create_time_entry_request \<Rightarrow>
     (database, time_entry_response reply) handler" where
  "api_create_time_entry c tx st user dto = with_pool st
     (then_do (read_day tx (ceq_spent_on dto)) (\<lambda>day.
      replying (\<lambda>r. created_response (time_entry_response_from tx r)) (internal tx) (time_create c
        \<lparr>cte_project_id = ceq_project_id dto, cte_user_id = coalesce (ceq_user_id dto) (cu_id user),
         cte_work_package_id = ceq_work_package_id dto, cte_hours = ceq_hours dto, cte_comments = ceq_comments dto,
         cte_activity_id = ceq_activity_id dto, cte_spent_on = coalesce day (tx_today tx),
         cte_logged_by_id = Some (cu_id user)\<rparr>)))"

definition api_update_time_entry ::
    "calendar \<Rightarrow> 'k api_texts \<Rightarrow> app_state \<Rightarrow> current_user \<Rightarrow> Id \<Rightarrow> update_time_entry_request \<Rightarrow>
     (database, time_entry_response reply) handler" where
  "api_update_time_entry c tx st user i dto = with_pool st
     (then_do (read_day tx (ueq_spent_on dto)) (\<lambda>day.
      replying (\<lambda>r. hal_response (time_entry_response_from tx r)) (missing_or ''TimeEntry'' i (internal tx)) (time_update c i
        \<lparr>ute_work_package_id = ueq_work_package_id dto, ute_hours = ueq_hours dto, ute_comments = ueq_comments dto,
         ute_activity_id = ueq_activity_id dto, ute_spent_on = day\<rparr>)))"

definition api_delete_time_entry :: "'k api_texts \<Rightarrow> app_state \<Rightarrow> current_user \<Rightarrow> Id \<Rightarrow> (database, unit reply) handler" where
  "api_delete_time_entry tx st user i = with_pool st
     (replying (\<lambda>_. no_content) (missing_or ''TimeEntry'' i (internal tx)) (time_delete i))"

end
