(* ===== verification/Api_Archive.thy ===== *)
theory Api_Archive
  imports Api_Base Attachment_Rows Journal_Rows Saved_Queries
begin

section \<open>Attachments, journals, queries and news in the API (op-api)\<close>

text \<open>
  \<open>op-api/src/handlers/{attachments,journals,queries,news}.rs\<close>: the handlers on the tables of the
  archive.  An attachment, a journal and a query belong to a user: others may not change them.
\<close>

text \<open>The row is found, and belongs to the user or the user is an administrator.\<close>

definition owned ::
    "'k api_texts \<Rightarrow> string \<Rightarrow> Id \<Rightarrow> string \<Rightarrow> current_user \<Rightarrow> ('r \<Rightarrow> Id) \<Rightarrow> (Id \<Rightarrow> ('d, 'r option) dbop) \<Rightarrow>
     ('d, 'a) handler \<Rightarrow> ('d, 'a) handler" where
  "owned tx resource i msg user owner finder h =
     then_do (find_or_404 tx resource i (finder i)) (\<lambda>existing.
     if owner existing \<noteq> cu_id user \<and> \<not> cu_is_admin user then refuse (ApiForbidden msg) else h)"

subsection \<open>Attachments\<close>

record attachment_filters =
  afl_container_type :: "string option"
  afl_container_id :: "i64 option"
  afl_author_id :: "i64 option"

record create_attachment_request =
  ctc_container_id :: "i64 option"
  ctc_container_type :: "string option"
  ctc_filename :: string
  ctc_disk_filename :: "string option"
  ctc_filesize :: i64
  ctc_content_type :: string
  ctc_digest :: "string option"
  ctc_description :: "string option"
  ctc_status :: "string option"

record update_attachment_request =
  utc_container_id :: "i64 option option"
  utc_container_type :: "string option option"
  utc_description :: "string option option"
  utc_status :: "string option"

record attachment_response =
  tcs_type_name :: string
  tcs_id :: Id
  tcs_filename :: "string option"
  tcs_filesize :: i64
  tcs_content_type :: "string option"
  tcs_description :: "string option"
  tcs_digest :: "string option"
  tcs_downloads :: i32
  tcs_status :: string
  tcs_created_at :: string
  tcs_updated_at :: string
  tcs_self_link :: string
  tcs_author :: string
  tcs_container :: "string option"
  tcs_download_location :: string

definition container_path :: "string \<Rightarrow> Id \<Rightarrow> string" where
  "container_path t i =
     (if t = ''WorkPackage'' then api_path ''work_packages'' i else if t = ''Project'' then api_path ''projects'' i
      else if t = ''WikiPage'' then api_path ''wiki_pages'' i else api_path (to_lowercase t @ ''s'') i)"

definition attachment_response_from :: "'k api_texts \<Rightarrow> attachment_row \<Rightarrow> attachment_response" where
  "attachment_response_from tx r =
     \<lparr>tcs_type_name = ''Attachment'', tcs_id = atr_id r, tcs_filename = atr_filename r, tcs_filesize = atr_filesize r,
      tcs_content_type = atr_content_type r, tcs_description = atr_description r, tcs_digest = atr_digest r,
      tcs_downloads = atr_downloads r, tcs_status = atr_status_name r, tcs_created_at = tx_time tx (atr_created_at r),
      tcs_updated_at = tx_time tx (atr_updated_at r), tcs_self_link = api_path ''attachments'' (atr_id r),
      tcs_author = api_path ''users'' (atr_author_id r),
      tcs_container = (case (atr_container_type r, atr_container_id r) of
          (Some t, Some i) \<Rightarrow> Some (container_path t i) | _ \<Rightarrow> None),
      tcs_download_location = api_path ''attachments'' (atr_id r) @ ''/content''\<rparr>"

definition api_list_attachments ::
    "'k api_texts \<Rightarrow> app_state \<Rightarrow> current_user \<Rightarrow> page_params \<Rightarrow> attachment_filters \<Rightarrow>
     ('j archive, attachment_response api_collection reply) handler" where
  "api_list_attachments tx st user p filters = with_pool st (collected p (attachment_response_from tx)
     (case (afl_container_type filters, afl_container_id filters) of
        (Some container_type, Some container_id) \<Rightarrow>
          list_page tx (atr_find_by_container container_type container_id (db_page p))
      | _ \<Rightarrow> (case afl_author_id filters of
          Some author_id \<Rightarrow> list_page tx (atr_find_by_author author_id (db_page p))
        | None \<Rightarrow> list_with tx p atr_find_all atr_count)))"

definition api_get_attachment ::
    "'k api_texts \<Rightarrow> app_state \<Rightarrow> current_user \<Rightarrow> Id \<Rightarrow> ('j archive, attachment_response reply) handler" where
  "api_get_attachment tx st user i =
     with_pool st (get_with tx ''Attachment'' i (atr_find_by_id i) (attachment_response_from tx))"

definition attachment_creation :: "current_user \<Rightarrow> create_attachment_request \<Rightarrow> create_attachment_dto" where
  "attachment_creation user dto =
     \<lparr>cad_container_id = ctc_container_id dto, cad_container_type = ctc_container_type dto,
      cad_filename = ctc_filename dto, cad_disk_filename = ctc_disk_filename dto, cad_filesize = ctc_filesize dto,
      cad_content_type = ctc_content_type dto, cad_digest = ctc_digest dto, cad_author_id = cu_id user,
      cad_description = ctc_description dto, cad_status = Option.bind (ctc_status dto) attachment_status_from_string\<rparr>"

definition api_create_attachment ::
    "'k api_texts \<Rightarrow> app_state \<Rightarrow> current_user \<Rightarrow> create_attachment_request \<Rightarrow>
     ('j archive, attachment_response reply) handler" where
  "api_create_attachment tx st user dto = with_pool st
     (replying (\<lambda>r. created_response (attachment_response_from tx r)) (invalid_or (internal tx))
       (atr_create (attachment_creation user dto)))"

definition attachment_change :: "update_attachment_request \<Rightarrow> update_attachment_dto" where
  "attachment_change dto =
     \<lparr>uad_container_id = utc_container_id dto, uad_container_type = utc_container_type dto,
      uad_description = utc_description dto, uad_status = Option.bind (utc_status dto) attachment_status_from_string\<rparr>"

definition api_update_attachment ::
    "'k api_texts \<Rightarrow> app_state \<Rightarrow> current_user \<Rightarrow> Id \<Rightarrow> update_attachment_request \<Rightarrow>
     ('j archive, attachment_response reply) handler" where
  "api_update_attachment tx st user i dto = with_pool st
     (owned tx ''Attachment'' i ''You can only update your own attachments.'' user atr_author_id atr_find_by_id
       (replying (\<lambda>r. hal_response (attachment_response_from tx r)) (missing_or ''Attachment'' i (internal tx))
         (atr_update i (attachment_change dto))))"

definition api_delete_attachment :: "'k api_texts \<Rightarrow> app_state \<Rightarrow> current_user \<Rightarrow> Id \<Rightarrow> ('j archive, unit reply) handler" where
  "api_delete_attachment tx st user i = with_pool st
     (owned tx ''Attachment'' i ''You can only delete your own attachments.'' user atr_author_id atr_find_by_id
       (replying (\<lambda>_. no_content) (missing_or ''Attachment'' i (internal tx)) (atr_delete i)))"

definition api_list_work_package_attachments ::
    "'k api_texts \<Rightarrow> app_state \<Rightarrow> current_user \<Rightarrow> Id \<Rightarrow> page_params \<Rightarrow>
     ('j archive, attachment_response api_collection reply) handler" where
  "api_list_work_package_attachments tx st user work_package_id p = with_pool st
     (collected p (attachment_response_from tx) (list_page tx (atr_find_by_work_package work_package_id (db_page p))))"

subsection \<open>Activities: the journals\<close>

record activity_filters =
  vfl_work_package_id :: "i64 option"
  vfl_user_id :: "i64 option"

record comment_response =
  com_format :: string
  com_raw :: string
  com_html :: string

record activity_entry_response =
  aer_type_name :: string
  aer_id :: Id
  aer_version :: i32
  aer_comment :: "comment_response option"
  aer_details :: "comment_response list option"
  aer_created_at :: string
  aer_updated_at :: string
  aer_self_link :: string
  aer_work_package :: string
  aer_user :: string

definition activity_entry_from :: "'k api_texts \<Rightarrow> 'j journal_row \<Rightarrow> activity_entry_response" where
  "activity_entry_from tx j =
     \<lparr>aer_type_name = ''Activity'', aer_id = jor_id j, aer_version = jor_version j,
      aer_comment = (case jor_notes j of
          Some n \<Rightarrow> (if n \<noteq> [] then Some \<lparr>com_format = ''markdown'', com_raw = n, com_html = ''<p>'' @ n @ ''</p>''\<rparr> else None)
        | None \<Rightarrow> None),
      aer_details = None, aer_created_at = tx_time tx (jor_created_at j), aer_updated_at = tx_time tx (jor_updated_at j),
      aer_self_link = api_path ''activities'' (jor_id j), aer_work_package = api_path ''work_packages'' (jor_journable_id j),
      aer_user = api_path ''users'' (jor_user_id j)\<rparr>"

definition api_list_journals ::
    "'k api_texts \<Rightarrow> app_state \<Rightarrow> current_user \<Rightarrow> page_params \<Rightarrow> activity_filters \<Rightarrow>
     ('j archive, activity_entry_response api_collection reply) handler" where
  "api_list_journals tx st user p filters = with_pool st (collected p (activity_entry_from tx)
     (case vfl_work_package_id filters of
        Some work_package_id \<Rightarrow> list_page tx (journal_find_by_work_package work_package_id (db_page p))
      | None \<Rightarrow> (case vfl_user_id filters of
          Some user_id \<Rightarrow> list_page tx (journal_find_by_user user_id (db_page p))
        | None \<Rightarrow> list_with tx p journal_find_all journal_count)))"

definition api_get_journal ::
    "'k api_texts \<Rightarrow> app_state \<Rightarrow> current_user \<Rightarrow> Id \<Rightarrow> ('j archive, activity_entry_response reply) handler" where
  "api_get_journal tx st user i =
     with_pool st (get_with tx ''Activity'' i (journal_find_by_id i) (activity_entry_from tx))"

definition api_update_journal ::
    "'k api_texts \<Rightarrow> app_state \<Rightarrow> current_user \<Rightarrow> Id \<Rightarrow> string option \<Rightarrow>
     ('j archive, activity_entry_response reply) handler" where
  "api_update_journal tx st user i comment = with_pool st
     (owned tx ''Activity'' i ''You can only update your own activities.'' user jor_user_id journal_find_by_id
       (replying (\<lambda>r. hal_response (activity_entry_from tx r)) (missing_or ''Activity'' i (internal tx))
         (journal_update i \<lparr>ujo_notes = map_option Some comment\<rparr>)))"

definition api_list_work_package_activities ::
    "'k api_texts \<Rightarrow> app_state \<Rightarrow> current_user \<Rightarrow> Id \<Rightarrow> page_params \<Rightarrow>
     ('j archive, activity_entry_response api_collection reply) handler" where
  "api_list_work_package_activities tx st user work_package_id p = with_pool st
     (collected p (activity_entry_from tx) (list_page tx (journal_find_by_work_package work_package_id (db_page p))))"

definition api_list_work_package_revisions ::
    "'k api_texts \<Rightarrow> app_state \<Rightarrow> current_user \<Rightarrow> Id \<Rightarrow> page_params \<Rightarrow>
     ('j archive, activity_entry_response api_collection reply) handler" where
  "api_list_work_package_revisions tx st user work_package_id p = with_pool st
     (collected p (activity_entry_from tx)
       (list_page tx (journal_find_changing journable_WORK_PACKAGE work_package_id (db_page p))))"

subsection \<open>Queries\<close>

record create_query_request =
  yqc_name :: string
  yqc_project_id :: "i64 option"
  yqc_filters :: "string option"
  yqc_column_names :: "string option"
  yqc_sort_criteria :: "string option"
  yqc_group_by :: "string option"
  yqc_sums :: "bool option"
  yqc_show_hierarchies :: "bool option"
  yqc_include_subprojects :: "bool option"
  yqc_timeline_visible :: "bool option"
  yqc_timestamps :: "string option"

record update_query_request =
  yqu_name :: "string option"
  yqu_filters :: "string option option"
  yqu_column_names :: "string option option"
  yqu_sort_criteria :: "string option option"
  yqu_group_by :: "string option option"
  yqu_sums :: "bool option"
  yqu_show_hierarchies :: "bool option"
  yqu_include_subprojects :: "bool option"
  yqu_timeline_visible :: "bool option"
  yqu_timestamps :: "string option option"

record query_response =
  qrs_type_name :: string
  qrs_id :: Id
  qrs_name :: string
  qrs_public :: bool
  qrs_starred :: bool
  qrs_sums :: bool
  qrs_show_hierarchies :: bool
  qrs_timeline_visible :: bool
  qrs_include_subprojects :: bool
  qrs_timestamps :: "string option"
  qrs_self_link :: string
  qrs_user :: string
  qrs_project :: "string option"
  qrs_star :: string
  qrs_unstar :: string

definition query_response_from :: "query_with_starred \<Rightarrow> query_response" where
  "query_response_from w = (let q = qws_query w; star = api_path ''queries'' (qur_id q) @ ''/star'' in
     \<lparr>qrs_type_name = ''Query'', qrs_id = qur_id q, qrs_name = qur_name q, qrs_public = False,
      qrs_starred = qws_starred w, qrs_sums = qur_display_sums q, qrs_show_hierarchies = qur_show_hierarchies q,
      qrs_timeline_visible = qur_timeline_visible q, qrs_include_subprojects = qur_include_subprojects q,
      qrs_timestamps = qur_timestamps q, qrs_self_link = api_path ''queries'' (qur_id q),
      qrs_user = api_path ''users'' (qur_user_id q), qrs_project = map_option (api_path ''projects'') (qur_project_id q),
      qrs_star = star, qrs_unstar = star\<rparr>)"

definition api_list_queries ::
    "('k::linorder) api_texts \<Rightarrow> app_state \<Rightarrow> current_user \<Rightarrow> page_params \<Rightarrow> i64 option \<Rightarrow>
     ('j archive, query_response api_collection reply) handler" where
  "api_list_queries tx st user p filter_project_id = with_pool st (collected p query_response_from
     (list_page tx (query_find_visible (tx_coll tx) (cu_id user) filter_project_id (db_page p))))"

definition default_query_response :: query_response where
  "default_query_response = (let star = ''/api/v3/queries/default/star'' in
     \<lparr>qrs_type_name = ''Query'', qrs_id = 0, qrs_name = ''Default'', qrs_public = False, qrs_starred = False,
      qrs_sums = False, qrs_show_hierarchies = True, qrs_timeline_visible = False, qrs_include_subprojects = True,
      qrs_timestamps = None, qrs_self_link = ''/api/v3/queries/default'', qrs_user = ''/api/v3/users/me'',
      qrs_project = None, qrs_star = star, qrs_unstar = star\<rparr>)"

definition api_get_default_query :: "app_state \<Rightarrow> current_user \<Rightarrow> ('j archive, query_response reply) handler" where
  "api_get_default_query st user = answer (hal_response default_query_response)"

definition get_starred ::
    "'k api_texts \<Rightarrow> current_user \<Rightarrow> Id \<Rightarrow> ('j archive, query_response reply) handler" where
  "get_starred tx user i = get_with tx ''Query'' i (query_find_by_id_with_starred i (cu_id user)) query_response_from"

definition api_get_query ::
    "'k api_texts \<Rightarrow> app_state \<Rightarrow> current_user \<Rightarrow> Id \<Rightarrow> ('j archive, query_response reply) handler" where
  "api_get_query tx st user i = with_pool st (get_starred tx user i)"

definition query_creation :: "current_user \<Rightarrow> create_query_request \<Rightarrow> create_query_dto" where
  "query_creation user dto =
     \<lparr>cqu_project_id = yqc_project_id dto, cqu_user_id = cu_id user, cqu_name = yqc_name dto,
      cqu_filters = yqc_filters dto, cqu_column_names = yqc_column_names dto, cqu_sort_criteria = yqc_sort_criteria dto,
      cqu_group_by = yqc_group_by dto, cqu_display_sums = yqc_sums dto, cqu_show_hierarchies = yqc_show_hierarchies dto,
      cqu_include_subprojects = yqc_include_subprojects dto, cqu_timeline_visible = yqc_timeline_visible dto,
      cqu_timestamps = yqc_timestamps dto\<rparr>"

definition api_create_query ::
    "'k api_texts \<Rightarrow> app_state \<Rightarrow> current_user \<Rightarrow> create_query_request \<Rightarrow> ('j archive, query_response reply) handler" where
  "api_create_query tx st user dto = with_pool st
     (replying (\<lambda>q. created_response (query_response_from \<lparr>qws_query = q, qws_starred = False\<rparr>))
       (invalid_or (internal tx)) (query_create (query_creation user dto)))"

definition query_change :: "update_query_request \<Rightarrow> update_query_dto" where
  "query_change dto =
     \<lparr>uqu_name = yqu_name dto, uqu_filters = yqu_filters dto, uqu_column_names = yqu_column_names dto,
      uqu_sort_criteria = yqu_sort_criteria dto, uqu_group_by = yqu_group_by dto, uqu_display_sums = yqu_sums dto,
      uqu_show_hierarchies = yqu_show_hierarchies dto, uqu_include_subprojects = yqu_include_subprojects dto,
      uqu_timeline_visible = yqu_timeline_visible dto, uqu_timestamps = yqu_timestamps dto\<rparr>"

definition api_update_query ::
    "'k api_texts \<Rightarrow> app_state \<Rightarrow> current_user \<Rightarrow> Id \<Rightarrow> update_query_request \<Rightarrow>
     ('j archive, query_response reply) handler" where
  "api_update_query tx st user i dto = with_pool st
     (owned tx ''Query'' i ''You can only update your own queries.'' user qur_user_id query_find_by_id
       (then_do (calling (missing_or ''Query'' i (invalid_or (internal tx))) (query_update i (query_change dto))) (\<lambda>q.
        then_do (calling (internal tx) (query_is_starred i (cu_id user))) (\<lambda>starred.
        answer (hal_response (query_response_from \<lparr>qws_query = q, qws_starred = starred\<rparr>))))))"

definition api_delete_query :: "'k api_texts \<Rightarrow> app_state \<Rightarrow> current_user \<Rightarrow> Id \<Rightarrow> ('j archive, unit reply) handler" where
  "api_delete_query tx st user i = with_pool st
     (owned tx ''Query'' i ''You can only delete your own queries.'' user qur_user_id query_find_by_id
       (replying (\<lambda>_. no_content) (missing_or ''Query'' i (internal tx)) (query_delete i)))"

definition api_star_query ::
    "'k api_texts \<Rightarrow> app_state \<Rightarrow> current_user \<Rightarrow> Id \<Rightarrow> ('j archive, query_response reply) handler" where
  "api_star_query tx st user i = with_pool st
     (then_do (calling (missing_or ''Query'' i (internal tx)) (query_star i (cu_id user))) (\<lambda>_. get_starred tx user i))"

definition api_unstar_query ::
    "'k api_texts \<Rightarrow> app_state \<Rightarrow> current_user \<Rightarrow> Id \<Rightarrow> ('j archive, query_response reply) handler" where
  "api_unstar_query tx st user i = with_pool st
     (then_do (calling (internal tx) (query_unstar i (cu_id user))) (\<lambda>_. get_starred tx user i))"

text \<open>The active projects the user is a member of, each once, by name.\<close>

definition member_projects :: "(string \<Rightarrow> 'k::linorder) \<Rightarrow> Id \<Rightarrow> 'j archive \<Rightarrow> (Id \<times> string) list" where
  "member_projects coll user_id d = sort_key (\<lambda>(i, name). coll name) (remdups
     [(prr_id p, prr_name p). p \<leftarrow> tb_rows (db_projects d), m \<leftarrow> tb_rows (db_members d),
        mbr_project_id m = Some (prr_id p) \<and> mbr_user_id m = user_id \<and> prr_active p])"

record available_projects_response =
  avp_type_name :: string
  avp_total :: u64
  avp_elements :: "(Id \<times> string) list"

definition api_available_projects ::
    "('k::linorder) api_texts \<Rightarrow> app_state \<Rightarrow> current_user \<Rightarrow> ('j archive, available_projects_response reply) handler" where
  "api_available_projects tx st user = with_pool st
     (replying (\<lambda>elements. hal_response
         \<lparr>avp_type_name = ''Collection'', avp_total = word_of_nat (length elements), avp_elements = elements\<rparr>)
       (internal tx) (fetch_all (sql_select (member_projects (tx_coll tx) (cu_id user)))))"

definition api_query_form :: "app_state \<Rightarrow> current_user \<Rightarrow> ('j archive, (string \<times> string) reply) handler" where
  "api_query_form st user = answer (hal_response (''Form'', ''Query''))"

subsection \<open>News\<close>

record news_response =
  nrs_type_name :: string
  nrs_id :: "Id option"
  nrs_title :: string
  nrs_summary :: "string option"
  nrs_description :: "string option"
  nrs_project_id :: "Id option"
  nrs_author_id :: Id
  nrs_comments_count :: i32
  nrs_created_at :: "string option"
  nrs_updated_at :: "string option"
  nrs_self_link :: string
  nrs_author :: string
  nrs_project :: "string option"

definition news_response_from :: "'k api_texts \<Rightarrow> news_row \<Rightarrow> news_response" where
  "news_response_from tx r =
     \<lparr>nrs_type_name = ''News'', nrs_id = Some (nwr_id r), nrs_title = nwr_title r, nrs_summary = nwr_summary r,
      nrs_description = nwr_description r, nrs_project_id = nwr_project_id r, nrs_author_id = nwr_author_id r,
      nrs_comments_count = nwr_comments_count r, nrs_created_at = Some (tx_time tx (nwr_created_at r)),
      nrs_updated_at = Some (tx_time tx (nwr_updated_at r)), nrs_self_link = api_path ''news'' (nwr_id r),
      nrs_author = api_path ''users'' (nwr_author_id r),
      nrs_project = map_option (api_path ''projects'') (nwr_project_id r)\<rparr>"

definition api_list_news ::
    "'k api_texts \<Rightarrow> app_state \<Rightarrow> current_user \<Rightarrow> Id \<Rightarrow> page_params \<Rightarrow>
     ('j archive, news_response api_collection reply) handler" where
  "api_list_news tx st user project_id p = with_pool st
     (collected p (news_response_from tx) (list_page tx (news_list_by_project project_id (db_page p))))"

definition api_get_news ::
    "'k api_texts \<Rightarrow> app_state \<Rightarrow> current_user \<Rightarrow> Id \<Rightarrow> ('j archive, news_response reply) handler" where
  "api_get_news tx st user i = with_pool st
     (replying (\<lambda>r. hal_response (news_response_from tx r)) (missing_or ''News'' i (internal tx)) (news_find_by_id i))"

end
