(* ===== verification/Api.thy ===== *)
theory Api
  imports Api_Settings Api_Projects Api_Work Api_Archive
begin

section \<open>The routes of the API (op-api)\<close>

text \<open>
  \<open>op-api/src/routes.rs\<close>: which handler a request reaches, and the status it is answered with.  A
  request is one whose path, query and body could be read; the extractor of the user comes before all of
  them, and every route but two has it.  The routes over the tables of the archive are apart: their
  statements do not touch the other tables, nor the others theirs.
\<close>

subsection \<open>Requests\<close>

type_synonym page_query = "(u64 option \<times> u64 option) option"

datatype ('l, 'c, 'u) resource_request =
  ListAll page_query 'l | Create 'c | Fetch Id | Change Id 'u | Remove Id

datatype work_packages_request =
  WpResource "(unit, create_wp_request, update_wp_request) resource_request"
| WpRelations Id page_query | WpWatchers Id page_query | WpAddWatcher Id add_watcher_request | WpRemoveWatcher Id Id
| WpWatching Id | WpWatch Id | WpUnwatch Id

datatype projects_request =
  PjResource "(project_filters, create_project_request, update_project_request) resource_request"
| PjArchive Id | PjUnarchive Id | PjTypes Id | PjVersions Id page_query | PjCategories Id page_query

datatype users_request =
  UsResource "(unit, create_user_request, update_user_request) resource_request" | UsMe | UsLock Id | UsUnlock Id

type_synonym statuses_request = "(unit, create_status_request, update_status_request) resource_request"
type_synonym types_request = "(unit, create_type_request, update_type_request) resource_request"
type_synonym priorities_request = "(unit, create_priority_request, update_priority_request) resource_request"
type_synonym roles_request = "(unit, create_role_request, update_role_request) resource_request"
type_synonym versions_request = "(i64 option, create_version_request, update_version_request) resource_request"
type_synonym memberships_request =
  "(membership_filters, create_membership_request, update_membership_request) resource_request"
type_synonym categories_request = "(i64 option, create_category_request, update_category_request) resource_request"
type_synonym activities_request = "(i64 option, create_activity_request, update_activity_request) resource_request"
type_synonym relations_request =
  "(relation_filters, create_relation_request, update_relation_request) resource_request"

datatype time_entries_request =
  TmResource "(time_entry_filters, create_time_entry_request, update_time_entry_request) resource_request"
| TmActivities activities_request

datatype api_request =
  ApiRoot | ApiConfiguration
| ForWorkPackages work_packages_request | ForProjects projects_request | ForUsers users_request
| ForStatuses statuses_request | ForTypes types_request | ForPriorities priorities_request | ForRoles roles_request
| ForVersions versions_request | ForMemberships memberships_request | ForCategories categories_request
| ForTimeEntries time_entries_request | ForRelations relations_request

datatype archive_request =
  ForAttachments "(attachment_filters, create_attachment_request, update_attachment_request) resource_request"
| WpAttachments Id page_query | WpActivities Id page_query | WpRevisions Id page_query
| JournalList page_query activity_filters | JournalFetch Id | JournalChange Id "string option"
| ForQueries "(i64 option, create_query_request, update_query_request) resource_request"
| QueryDefault | QueryForm | QueryProjects | QueryStar Id | QueryUnstar Id
| ProjectNews Id page_query | NewsFetch Id

subsection \<open>Routers\<close>

text \<open>What surrounds the handlers: the texts, the calendar, and how passwords are kept.\<close>

record 'k surroundings =
  srd_texts :: "'k api_texts"
  srd_calendar :: calendar
  srd_salt :: string
  srd_hash :: "string \<Rightarrow> string \<Rightarrow> string"

definition sending :: "('d, 'a reply) handler \<Rightarrow> ('d, nat) handler" where
  "sending h = then_do h (\<lambda>r. answer (rpl_status r))"

abbreviation paged :: "page_query \<Rightarrow> page_params" where "paged \<equiv> page_params_from"

fun statuses_router :: "'k surroundings \<Rightarrow> app_state \<Rightarrow> current_user \<Rightarrow> statuses_request \<Rightarrow> (database, nat) handler" where
  "statuses_router w st u (ListAll q l) = sending (api_list_statuses (srd_texts w) st u (paged q))"
| "statuses_router w st u (Create c) = sending (api_create_status (srd_texts w) st u c)"
| "statuses_router w st u (Fetch i) = sending (api_get_status (srd_texts w) st u i)"
| "statuses_router w st u (Change i c) = sending (api_update_status (srd_texts w) st u i c)"
| "statuses_router w st u (Remove i) = sending (api_delete_status (srd_texts w) st u i)"

fun types_router :: "'k surroundings \<Rightarrow> app_state \<Rightarrow> current_user \<Rightarrow> types_request \<Rightarrow> (database, nat) handler" where
  "types_router w st u (ListAll q l) = sending (api_list_types (srd_texts w) st u (paged q))"
| "types_router w st u (Create c) = sending (api_create_type (srd_texts w) st u c)"
| "types_router w st u (Fetch i) = sending (api_get_type (srd_texts w) st u i)"
| "types_router w st u (Change i c) = sending (api_update_type (srd_texts w) st u i c)"
| "types_router w st u (Remove i) = sending (api_delete_type (srd_texts w) st u i)"

fun priorities_router ::
    "'k surroundings \<Rightarrow> app_state \<Rightarrow> current_user \<Rightarrow> priorities_request \<Rightarrow> (database, nat) handler" where
  "priorities_router w st u (ListAll q l) = sending (api_list_priorities (srd_texts w) st u (paged q))"
| "priorities_router w st u (Create c) = sending (api_create_priority (srd_texts w) st u c)"
| "priorities_router w st u (Fetch i) = sending (api_get_priority (srd_texts w) st u i)"
| "priorities_router w st u (Change i c) = sending (api_update_priority (srd_texts w) st u i c)"
| "priorities_router w st u (Remove i) = sending (api_delete_priority (srd_texts w) st u i)"

fun roles_router :: "'k surroundings \<Rightarrow> app_state \<Rightarrow> current_user \<Rightarrow> roles_request \<Rightarrow> (database, nat) handler" where
  "roles_router w st u (ListAll q l) = sending (api_list_roles (srd_texts w) st u (paged q))"
| "roles_router w st u (Create c) = sending (api_create_role (srd_texts w) st u c)"
| "roles_router w st u (Fetch i) = sending (api_get_role (srd_texts w) st u i)"
| "roles_router w st u (Change i c) = sending (api_update_role (srd_texts w) st u i c)"
| "roles_router w st u (Remove i) = sending (api_delete_role (srd_texts w) st u i)"

fun versions_router ::
    "('k::linorder) surroundings \<Rightarrow> app_state \<Rightarrow> current_user \<Rightarrow> versions_request \<Rightarrow> (database, nat) handler" where
  "versions_router w st u (ListAll q l) = sending (api_list_versions (srd_texts w) st u (paged q) l)"
| "versions_router w st u (Create c) = sending (api_create_version (srd_texts w) st u c)"
| "versions_router w st u (Fetch i) = sending (api_get_version (srd_texts w) st u i)"
| "versions_router w st u (Change i c) = sending (api_update_version (srd_texts w) st u i c)"
| "versions_router w st u (Remove i) = sending (api_delete_version (srd_texts w) st u i)"

fun memberships_router ::
    "'k surroundings \<Rightarrow> app_state \<Rightarrow> current_user \<Rightarrow> memberships_request \<Rightarrow> (database, nat) handler" where
  "memberships_router w st u (ListAll q l) = sending (api_list_memberships (srd_texts w) st u (paged q) l)"
| "memberships_router w st u (Create c) = sending (api_create_membership (srd_texts w) st u c)"
| "memberships_router w st u (Fetch i) = sending (api_get_membership (srd_texts w) st u i)"
| "memberships_router w st u (Change i c) = sending (api_update_membership (srd_texts w) st u i c)"
| "memberships_router w st u (Remove i) = sending (api_delete_membership (srd_texts w) st u i)"

fun categories_router ::
    "('k::linorder) surroundings \<Rightarrow> app_state \<Rightarrow> current_user \<Rightarrow> categories_request \<Rightarrow> (database, nat) handler" where
  "categories_router w st u (ListAll q l) = sending (api_list_categories (srd_texts w) st u (paged q) l)"
| "categories_router w st u (Create c) = sending (api_create_category (srd_texts w) st u c)"
| "categories_router w st u (Fetch i) = sending (api_get_category (srd_texts w) st u i)"
| "categories_router w st u (Change i c) = sending (api_update_category (srd_texts w) st u i c)"
| "categories_router w st u (Remove i) = sending (api_delete_category (srd_texts w) st u i)"

fun activities_router ::
    "'k surroundings \<Rightarrow> app_state \<Rightarrow> current_user \<Rightarrow> activities_request \<Rightarrow> (database, nat) handler" where
  "activities_router w st u (ListAll q l) = sending (api_list_activities (srd_texts w) st u (paged q) l)"
| "activities_router w st u (Create c) = sending (api_create_activity (srd_texts w) st u c)"
| "activities_router w st u (Fetch i) = sending (api_get_activity (srd_texts w) st u i)"
| "activities_router w st u (Change i c) = sending (api_update_activity (srd_texts w) st u i c)"
| "activities_router w st u (Remove i) = sending (api_delete_activity (srd_texts w) st u i)"

fun relations_router ::
    "'k surroundings \<Rightarrow> app_state \<Rightarrow> current_user \<Rightarrow> relations_request \<Rightarrow> (database, nat) handler" where
  "relations_router w st u (ListAll q l) = sending (api_list_relations (srd_texts w) st u (paged q) l)"
| "relations_router w st u (Create c) = sending (api_create_relation (srd_texts w) st u c)"
| "relations_router w st u (Fetch i) = sending (api_get_relation (srd_texts w) st u i)"
| "relations_router w st u (Change i c) = sending (api_update_relation (srd_texts w) st u i c)"
| "relations_router w st u (Remove i) = sending (api_delete_relation (srd_texts w) st u i)"

fun time_entries_router ::
    "'k surroundings \<Rightarrow> app_state \<Rightarrow> current_user \<Rightarrow> time_entries_request \<Rightarrow> (database, nat) handler" where
  "time_entries_router w st u (TmResource (ListAll q l)) = sending (api_list_time_entries (srd_texts w) st u (paged q) l)"
| "time_entries_router w st u (TmResource (Create c)) =
     sending (api_create_time_entry (srd_calendar w) (srd_texts w) st u c)"
| "time_entries_router w st u (TmResource (Fetch i)) = sending (api_get_time_entry (srd_texts w) st u i)"
| "time_entries_router w st u (TmResource (Change i c)) =
     sending (api_update_time_entry (srd_calendar w) (srd_texts w) st u i c)"
| "time_entries_router w st u (TmResource (Remove i)) = sending (api_delete_time_entry (srd_texts w) st u i)"
| "time_entries_router w st u (TmActivities r) = activities_router w st u r"

fun projects_router ::
    "('k::linorder) surroundings \<Rightarrow> app_state \<Rightarrow> current_user \<Rightarrow> projects_request \<Rightarrow> (database, nat) handler" where
  "projects_router w st u (PjResource (ListAll q l)) = sending (api_list_projects (srd_texts w) st u (paged q) l)"
| "projects_router w st u (PjResource (Create c)) = sending (api_create_project (srd_texts w) st u c)"
| "projects_router w st u (PjResource (Fetch i)) = sending (api_get_project (srd_texts w) st u i)"
| "projects_router w st u (PjResource (Change i c)) = sending (api_update_project (srd_texts w) st u i c)"
| "projects_router w st u (PjResource (Remove i)) = sending (api_delete_project (srd_texts w) st u i)"
| "projects_router w st u (PjArchive i) = sending (api_archive_project (srd_texts w) st u i)"
| "projects_router w st u (PjUnarchive i) = sending (api_unarchive_project (srd_texts w) st u i)"
| "projects_router w st u (PjTypes i) = sending (api_list_project_types (srd_texts w) st u i)"
| "projects_router w st u (PjVersions i q) = sending (api_list_project_versions (srd_texts w) st u i (paged q))"
| "projects_router w st u (PjCategories i q) = sending (api_list_project_categories (srd_texts w) st u i (paged q))"

fun users_router ::
    "('k::linorder) surroundings \<Rightarrow> app_state \<Rightarrow> current_user \<Rightarrow> users_request \<Rightarrow> (database, nat) handler" where
  "users_router w st u (UsResource (ListAll q l)) = sending (api_list_users (srd_texts w) st u (paged q))"
| "users_router w st u (UsResource (Create c)) = sending (api_create_user (srd_salt w) (srd_hash w) (srd_texts w) st u c)"
| "users_router w st u (UsResource (Fetch i)) = sending (api_get_user (srd_texts w) st u i)"
| "users_router w st u (UsResource (Change i c)) =
     sending (api_update_user (srd_salt w) (srd_hash w) (srd_texts w) st u i c)"
| "users_router w st u (UsResource (Remove i)) = sending (api_delete_user (srd_texts w) st u i)"
| "users_router w st u UsMe = sending (api_get_me (srd_texts w) st u)"
| "users_router w st u (UsLock i) = sending (api_lock_user (srd_texts w) st u i)"
| "users_router w st u (UsUnlock i) = sending (api_unlock_user (srd_texts w) st u i)"

fun work_packages_router ::
    "'k surroundings \<Rightarrow> app_state \<Rightarrow> current_user \<Rightarrow> work_packages_request \<Rightarrow> (database, nat) handler" where
  "work_packages_router w st u (WpResource (ListAll q l)) = sending (api_list_work_packages (srd_texts w) st u (paged q))"
| "work_packages_router w st u (WpResource (Create c)) = sending (api_create_work_package (srd_texts w) st u c)"
| "work_packages_router w st u (WpResource (Fetch i)) = sending (api_get_work_package (srd_texts w) st u i)"
| "work_packages_router w st u (WpResource (Change i c)) = sending (api_update_work_package (srd_texts w) st u i c)"
| "work_packages_router w st u (WpResource (Remove i)) = sending (api_delete_work_package (srd_texts w) st u i)"
| "work_packages_router w st u (WpRelations i q) = sending (api_list_work_package_relations (srd_texts w) st u i (paged q))"
| "work_packages_router w st u (WpWatchers i q) = sending (api_list_work_package_watchers (srd_texts w) st u i (paged q))"
| "work_packages_router w st u (WpAddWatcher i c) = sending (api_add_work_package_watcher (srd_texts w) st u i c)"
| "work_packages_router w st u (WpRemoveWatcher i j) = sending (api_remove_work_package_watcher (srd_texts w) st u i j)"
| "work_packages_router w st u (WpWatching i) = sending (api_is_watching_work_package (srd_texts w) st u i)"
| "work_packages_router w st u (WpWatch i) = sending (api_watch_work_package (srd_texts w) st u i)"
| "work_packages_router w st u (WpUnwatch i) = sending (api_unwatch_work_package (srd_texts w) st u i)"

text \<open>The response to what a handler ends in.\<close>

definition responding :: "('d, nat) handler \<Rightarrow> 'd db_env \<Rightarrow> nat \<times> 'd \<Rightarrow> nat \<times> nat \<times> 'd" where
  "responding h env s = (case h env s of (Inl e, s) \<Rightarrow> (fst (api_into_response e), s) | (Inr n, s) \<Rightarrow> (n, s))"

fun api_handler ::
    "('k::linorder) surroundings \<Rightarrow> app_state \<Rightarrow> string option \<Rightarrow> api_request \<Rightarrow> (database, nat) handler" where
  "api_handler w st a ApiRoot = answer 200"
| "api_handler w st a ApiConfiguration = answer 200"
| "api_handler w st a (ForWorkPackages r) = serve st a (\<lambda>u. work_packages_router w st u r)"
| "api_handler w st a (ForProjects r) = serve st a (\<lambda>u. projects_router w st u r)"
| "api_handler w st a (ForUsers r) = serve st a (\<lambda>u. users_router w st u r)"
| "api_handler w st a (ForStatuses r) = serve st a (\<lambda>u. statuses_router w st u r)"
| "api_handler w st a (ForTypes r) = serve st a (\<lambda>u. types_router w st u r)"
| "api_handler w st a (ForPriorities r) = serve st a (\<lambda>u. priorities_router w st u r)"
| "api_handler w st a (ForRoles r) = serve st a (\<lambda>u. roles_router w st u r)"
| "api_handler w st a (ForVersions r) = serve st a (\<lambda>u. versions_router w st u r)"
| "api_handler w st a (ForMemberships r) = serve st a (\<lambda>u. memberships_router w st u r)"
| "api_handler w st a (ForCategories r) = serve st a (\<lambda>u. categories_router w st u r)"
| "api_handler w st a (ForTimeEntries r) = serve st a (\<lambda>u. time_entries_router w st u r)"
| "api_handler w st a (ForRelations r) = serve st a (\<lambda>u. relations_router w st u r)"

definition api_v3 ::
    "('k::linorder) surroundings \<Rightarrow> app_state \<Rightarrow> string option \<Rightarrow> api_request \<Rightarrow>
     database db_env \<Rightarrow> nat \<times> database \<Rightarrow> nat \<times> nat \<times> database" where
  "api_v3 w st a r = responding (api_handler w st a r)"

text \<open>The routers over the archive.\<close>

fun archive_router ::
    "('k::linorder) surroundings \<Rightarrow> app_state \<Rightarrow> current_user \<Rightarrow> archive_request \<Rightarrow> ('j archive, nat) handler" where
  "archive_router w st u (ForAttachments (ListAll q l)) = sending (api_list_attachments (srd_texts w) st u (paged q) l)"
| "archive_router w st u (ForAttachments (Create c)) = sending (api_create_attachment (srd_texts w) st u c)"
| "archive_router w st u (ForAttachments (Fetch i)) = sending (api_get_attachment (srd_texts w) st u i)"
| "archive_router w st u (ForAttachments (Change i c)) = sending (api_update_attachment (srd_texts w) st u i c)"
| "archive_router w st u (ForAttachments (Remove i)) = sending (api_delete_attachment (srd_texts w) st u i)"
| "archive_router w st u (WpAttachments i q) = sending (api_list_work_package_attachments (srd_texts w) st u i (paged q))"
| "archive_router w st u (WpActivities i q) = sending (api_list_work_package_activities (srd_texts w) st u i (paged q))"
| "archive_router w st u (WpRevisions i q) = sending (api_list_work_package_revisions (srd_texts w) st u i (paged q))"
| "archive_router w st u (JournalList q l) = sending (api_list_journals (srd_texts w) st u (paged q) l)"
| "archive_router w st u (JournalFetch i) = sending (api_get_journal (srd_texts w) st u i)"
| "archive_router w st u (JournalChange i c) = sending (api_update_journal (srd_texts w) st u i c)"
| "archive_router w st u (ForQueries (ListAll q l)) = sending (api_list_queries (srd_texts w) st u (paged q) l)"
| "archive_router w st u (ForQueries (Create c)) = sending (api_create_query (srd_texts w) st u c)"
| "archive_router w st u (ForQueries (Fetch i)) = sending (api_get_query (srd_texts w) st u i)"
| "archive_router w st u (ForQueries (Change i c)) = sending (api_update_query (srd_texts w) st u i c)"
| "archive_router w st u (ForQueries (Remove i)) = sending (api_delete_query (srd_texts w) st u i)"
| "archive_router w st u QueryDefault = sending (api_get_default_query st u)"
| "archive_router w st u QueryForm = sending (api_query_form st u)"
| "archive_router w st u QueryProjects = sending (api_available_projects (srd_texts w) st u)"
| "archive_router w st u (QueryStar i) = sending (api_star_query (srd_texts w) st u i)"
| "archive_router w st u (QueryUnstar i) = sending (api_unstar_query (srd_texts w) st u i)"
| "archive_router w st u (ProjectNews i q) = sending (api_list_news (srd_texts w) st u i (paged q))"
| "archive_router w st u (NewsFetch i) = sending (api_get_news (srd_texts w) st u i)"

definition api_v3_archive ::
    "('k::linorder) surroundings \<Rightarrow> app_state \<Rightarrow> string option \<Rightarrow> archive_request \<Rightarrow>
     'j archive db_env \<Rightarrow> nat \<times> 'j archive \<Rightarrow> nat \<times> nat \<times> 'j archive" where
  "api_v3_archive w st a r = responding (serve st a (\<lambda>u. archive_router w st u r))"

end
