(* ===== verification/Api_Safety.thy ===== *)
theory Api_Safety
  imports Api
begin

section \<open>What the API lets nobody do (op-api)\<close>

text \<open>
  The extractor of the user knows the anonymous user only, so what the handlers reserve for administrators
  is closed to every request; what is left to the API are work packages, relations, watchers and time
  entries.
\<close>

lemma answered_refused [api_simps]: "responding (refuse e) env s = (api_status_code e, s)"
  by (simp add: responding_def refuse_def status_of_response)

lemma sending_refused [api_simps]: "sending (refuse e) = refuse e"
  by (simp add: sending_def api_steps)

lemma not_admin [api_simps]: "\<not> cu_is_admin u \<Longrightarrow> only_admin u m h = refuse (ApiForbidden m)"
  by (simp add: only_admin_def)

lemma anonymous [simp]: "\<not> cu_is_admin current_user_anonymous" "cu_id current_user_anonymous = 0"
  by (simp_all add: current_user_anonymous_def)

lemmas handler_run = then_do_def calling_def answer_def refuse_def sending_def responding_def

subsection \<open>Authentication\<close>

definition public_request :: "api_request \<Rightarrow> bool" where
  "public_request r \<longleftrightarrow> r = ApiRoot \<or> r = ApiConfiguration"

lemma gated:
  assumes "acf_require_authentication (aps_config st) \<or> a \<noteq> None"
  shows "responding (serve st a h) env s = (401, s)"
proof -
  from not_served [OF assms] obtain m where "serve st a h = refuse (ApiUnauthorized m)" by blast
  then show ?thesis by (simp add: answered_refused)
qed

text \<open>
  The gate.  If authentication is required, or if the request has an \<open>Authorization\<close> header whatever its
  value, every request but the two public ones is answered with 401, and no statement runs: the number of
  statements and the database are as before.
\<close>

theorem api_gate:
  assumes "acf_require_authentication (aps_config st) \<or> authorization \<noteq> None"
  shows "(public_request r \<or> api_v3 w st authorization r env s = (401, s)) \<and>
    api_v3_archive w st authorization q env2 s2 = (401, s2) \<and>
    api_v3 w st authorization ApiRoot env s = (200, s)"
proof (intro conjI)
  show "public_request r \<or> api_v3 w st authorization r env s = (401, s)"
    by (cases r) (simp_all add: public_request_def api_v3_def gated [OF assms])
  show "api_v3_archive w st authorization q env2 s2 = (401, s2)"
    by (simp add: api_v3_archive_def gated [OF assms])
qed (simp add: api_v3_def responding_def answer_def)

text \<open>The gate is open: the user is the anonymous one.\<close>

definition lets_in :: "app_state \<Rightarrow> string option \<Rightarrow> bool" where
  "lets_in st authorization \<longleftrightarrow> \<not> acf_require_authentication (aps_config st) \<and> authorization = None"

lemma served_anonymous: "lets_in st a \<Longrightarrow> serve st a h = h current_user_anonymous"
  by (simp add: lets_in_def serve_def authenticated_user_def)

lemma not_let_in: "\<not> lets_in st a \<Longrightarrow> responding (serve st a h) env s = (401, s)"
  by (rule gated) (simp add: lets_in_def)

definition sample_texts :: "nat api_texts" where
  "sample_texts = \<lparr>tx_sql_error = (\<lambda>e. ''error''), tx_date = (\<lambda>d. ''day''), tx_time = (\<lambda>t. ''moment''),
     tx_parse_date = (\<lambda>s. None), tx_today = 20000, tx_lower = to_lowercase, tx_coll = length\<rparr>"

definition sample_surroundings :: "nat surroundings" where
  "sample_surroundings = \<lparr>srd_texts = sample_texts, srd_calendar = plain_calendar, srd_salt = ''salt'', srd_hash = (\<lambda>s p. s @ p)\<rparr>"

text \<open>The application that lets everybody in, with a database.\<close>

definition open_state :: app_state where
  "open_state = \<lparr>aps_config = app_config_default\<lparr>acf_require_authentication := False\<rparr>, aps_has_db = True\<rparr>"

lemma open_state_simps [simp]: "lets_in open_state None" "with_pool open_state h = h" "aps_has_db open_state"
  by (simp_all add: lets_in_def open_state_def with_pool_def)

theorem api_gate_witness:
  "api_v3 sample_surroundings app_state_default None (ForProjects (PjArchive 1)) (alone 0) (0, empty_database) = (401, 0, empty_database)"
proof -
  have "acf_require_authentication (aps_config app_state_default) \<or> (None :: string option) \<noteq> None"
    by (simp add: app_state_default_def app_config_default_def)
  from api_gate [OF this, of "ForProjects (PjArchive 1)" sample_surroundings "alone 0" "(0, empty_database)"]
  show ?thesis unfolding public_request_def by blast
qed

subsection \<open>Administration\<close>

fun changes :: "('l, 'c, 'u) resource_request \<Rightarrow> bool" where
  "changes (ListAll q l) = False"
| "changes (Create c) = True"
| "changes (Fetch i) = False"
| "changes (Change i c) = True"
| "changes (Remove i) = True"

text \<open>What only administrators may do, and what others may do to their own account only.\<close>

fun administers :: "api_request \<Rightarrow> bool" where
  "administers (ForProjects (PjResource r)) = changes r"
| "administers (ForProjects (PjArchive i)) = True"
| "administers (ForProjects (PjUnarchive i)) = True"
| "administers (ForUsers (UsResource (ListAll q l))) = False"
| "administers (ForUsers (UsResource (Fetch i))) = (i \<noteq> 0)"
| "administers (ForUsers (UsResource (Change i c))) = (i \<noteq> 0)"
| "administers (ForUsers (UsResource (Create c))) = True"
| "administers (ForUsers (UsResource (Remove i))) = True"
| "administers (ForUsers (UsLock i)) = True"
| "administers (ForUsers (UsUnlock i)) = True"
| "administers (ForStatuses r) = changes r"
| "administers (ForTypes r) = changes r"
| "administers (ForPriorities r) = changes r"
| "administers (ForRoles r) = changes r"
| "administers (ForVersions r) = changes r"
| "administers (ForMemberships r) = changes r"
| "administers (ForCategories r) = changes r"
| "administers (ForTimeEntries (TmActivities r)) = changes r"
| "administers r = False"

lemmas settings_handlers =
  api_create_status_def api_update_status_def api_delete_status_def api_create_type_def api_update_type_def
  api_delete_type_def api_create_priority_def api_update_priority_def api_delete_priority_def api_create_role_def
  api_update_role_def api_delete_role_def api_create_version_def api_update_version_def api_delete_version_def
  api_create_category_def api_update_category_def api_delete_category_def api_create_activity_def
  api_update_activity_def api_delete_activity_def

lemmas project_handlers =
  api_create_project_def api_update_project_def api_delete_project_def api_archive_project_def
  api_unarchive_project_def api_create_membership_def api_update_membership_def api_delete_membership_def

lemmas user_handlers =
  api_create_user_def api_update_user_def api_delete_user_def api_lock_user_def api_unlock_user_def api_get_user_def

lemma resource_forbidden:
  "changes r1 \<Longrightarrow> \<exists>m. statuses_router w st current_user_anonymous r1 = refuse (ApiForbidden m)"
  "changes r2 \<Longrightarrow> \<exists>m. types_router w st current_user_anonymous r2 = refuse (ApiForbidden m)"
  "changes r3 \<Longrightarrow> \<exists>m. priorities_router w st current_user_anonymous r3 = refuse (ApiForbidden m)"
  "changes r4 \<Longrightarrow> \<exists>m. roles_router w st current_user_anonymous r4 = refuse (ApiForbidden m)"
  "changes r5 \<Longrightarrow> \<exists>m. versions_router w' st current_user_anonymous r5 = refuse (ApiForbidden m)"
  "changes r6 \<Longrightarrow> \<exists>m. categories_router w' st current_user_anonymous r6 = refuse (ApiForbidden m)"
  "changes r7 \<Longrightarrow> \<exists>m. activities_router w st current_user_anonymous r7 = refuse (ApiForbidden m)"
  "changes r8 \<Longrightarrow> \<exists>m. memberships_router w st current_user_anonymous r8 = refuse (ApiForbidden m)"
  "changes r9 \<Longrightarrow> \<exists>m. projects_router w' st current_user_anonymous (PjResource r9) = refuse (ApiForbidden m)"
  by (auto elim!: changes.elims(2) simp: settings_handlers project_handlers api_simps)

lemma forbidden:
  assumes "administers r" "lets_in st a"
  shows "\<exists>m. api_handler w st a r = refuse (ApiForbidden m)"
  using assms(1)
  by (cases r rule: administers.cases)
    (auto simp: served_anonymous [OF assms(2)] resource_forbidden project_handlers user_handlers api_simps)

text \<open>
  C7. Only administrators administrate, and the API knows no administrator.  A request to change projects,
  statuses, types, priorities, roles, versions, memberships, categories or activities, or another user's
  account, is answered with 401 if the gate is closed and with 403 if it is open, and no statement runs.
\<close>

theorem administration_refused:
  assumes "administers r"
  shows "api_v3 w st authorization r env s = (if lets_in st authorization then 403 else 401, s)"
proof (cases "lets_in st authorization")
  case True
  from forbidden [OF assms True] obtain m where "api_handler w st authorization r = refuse (ApiForbidden m)" by blast
  with True show ?thesis by (simp add: api_v3_def answered_refused)
next
  case False
  with assms show ?thesis by (cases r) (simp_all add: api_v3_def not_let_in)
qed

theorem administration_refused_witness:
  "api_v3 sample_surroundings open_state None (ForUsers (UsResource (Remove 1))) (alone 0) (0, empty_database) = (403, 0, empty_database)"
  using administration_refused [of "ForUsers (UsResource (Remove 1))" sample_surroundings open_state None "alone 0" "(0, empty_database)"]
  by simp

subsection \<open>What requests leave alone\<close>

text \<open>The database apart from the work packages, relations, time entries and watchers.\<close>

definition settings :: "database \<Rightarrow> database" where
  "settings d = d\<lparr>db_work_packages := empty_table, db_relations := empty_table, db_time_entries := empty_table,
     db_watchers := empty_table\<rparr>"

definition settled :: "database \<Rightarrow> database \<Rightarrow> bool" where
  "settled S d \<longleftrightarrow> settings d = S \<and> users_table d"

text \<open>\<open>keeps I h\<close>: a handler keeps what others keep.\<close>

definition keeps :: "('d \<Rightarrow> bool) \<Rightarrow> ('d, 'a) handler \<Rightarrow> bool" where
  "keeps I h \<longleftrightarrow> (\<forall>env k d. well_behaved I env \<longrightarrow> I d \<longrightarrow> I (snd (snd (h env (k, d)))))"

named_theorems keeps_intro \<open>what keeps what others keep\<close>

lemma keeps_ends [keeps_intro]: "keeps I (answer x)" "keeps I (refuse e)"
  by (simp_all add: keeps_def answer_def refuse_def)

lemma keeps_bind:
  assumes "holds I m P" "\<And>x. P x \<Longrightarrow> keeps I (f x)"
  shows "keeps I (then_do (calling arms m) f)"
  unfolding keeps_def
proof (intro allI impI)
  fix env k d assume env: "well_behaved I env" "I d"
  obtain r k' d' where run: "m env (k, d) = (r, k', d')" by (cases "m env (k, d)") auto
  from holdsD [OF assms(1) env run] have "I d'" "\<forall>x. r = Ok x \<longrightarrow> P x" by blast+
  with assms(2) env(1) run show "I (snd (snd (then_do (calling arms m) f env (k, d))))"
    by (cases r) (auto simp: then_do_def calling_def keeps_def)
qed

lemma keeps_then [keeps_intro]:
  assumes "keeps I m" "\<And>x. keeps I (f x)"
  shows "keeps I (then_do m f)"
  unfolding keeps_def
proof (intro allI impI)
  fix env k d assume env: "well_behaved I env" "I d"
  obtain r k' d' where run: "m env (k, d) = (r, k', d')" by (cases "m env (k, d)") auto
  from assms(1) env run have "I d'" by (auto simp: keeps_def dest!: spec [of _ env] spec [of _ k] spec [of _ d])
  with assms(2) env(1) run show "I (snd (snd (then_do m f env (k, d))))"
    by (cases r) (auto simp: then_do_def keeps_def)
qed

lemma keeps_calling [keeps_intro]: "holds I m (\<lambda>_. True) \<Longrightarrow> keeps I (calling arms m)"
  unfolding keeps_def calling_def by (auto dest: holdsD split: prod.split sum.split)

lemma keeps_choices [keeps_intro]:
  "(b \<Longrightarrow> keeps I h) \<Longrightarrow> (\<not> b \<Longrightarrow> keeps I h') \<Longrightarrow> keeps I (if b then h else h')"
  "(x = None \<Longrightarrow> keeps I h) \<Longrightarrow> (\<And>y. x = Some y \<Longrightarrow> keeps I (f y)) \<Longrightarrow> keeps I (case x of None \<Rightarrow> h | Some y \<Rightarrow> f y)"
  "(\<And>x y. p = (x, y) \<Longrightarrow> keeps I (g x y)) \<Longrightarrow> keeps I (case p of (x, y) \<Rightarrow> g x y)"
  by (simp_all split: option.split prod.split)

lemma keeps_parts [keeps_intro]:
  "keeps I h \<Longrightarrow> keeps I (with_pool st h)"
  "keeps I h2 \<Longrightarrow> keeps I (sending h2)"
  "keeps I h3 \<Longrightarrow> keeps I (collected p g h3)"
  "(\<And>l off. holds I (find_all l off) (\<lambda>_. True)) \<Longrightarrow> holds I n (\<lambda>_. True) \<Longrightarrow> keeps I (list_with tx p find_all n)"
  "holds I op (\<lambda>_. True) \<Longrightarrow> keeps I (list_page tx op)"
  "holds I op2 (\<lambda>_. True) \<Longrightarrow> keeps I (find_or_404 tx s i op2)"
  "holds I op3 (\<lambda>_. True) \<Longrightarrow> keeps I (get_with tx s i op3 g3)"
  "holds I op4 (\<lambda>_. True) \<Longrightarrow> keeps I (replying g4 arms op4)"
  unfolding with_pool_def sending_def collected_def list_with_def list_page_def find_or_404_def get_with_def replying_def or_refuse_def
  by (intro keeps_intro; assumption)+

text \<open>Reading.\<close>

lemma holds_reading [holds_intro]:
  "holds I (fetch_all (sql_select sel)) (\<lambda>_. True)"
  "holds I (fetch_optional (sql_select sel)) (\<lambda>_. True)"
  "holds I (fetch_all (sql_select_page l off sel)) (\<lambda>_. True)"
  using holds_fetch(1,2) [where f = "sql_select sel" and Q = "\<lambda>_. True" and I = I]
    holds_fetch(1) [where f = "sql_select_page l off sel" and Q = "\<lambda>_. True" and I = I]
  by (simp_all add: sql_select_def sql_select_page_def)

lemma holds_pages [holds_intro]: "holds I (find_row idf tbl i) (\<lambda>_. True)" "holds I (page_of p tbl c ord) (\<lambda>_. True)"
  unfolding find_row_def page_of_def by (intro holds_intro)+

lemma holds_collect [holds_intro]: "(\<And>x. holds I (f x) (\<lambda>_. True)) \<Longrightarrow> holds I (collect_each xs f) (\<lambda>_. True)"
  by (induction xs) (simp_all add: holds_done holds_then)

lemma holds_pair [holds_intro]:
  "(\<And>x y. p = (x, y) \<Longrightarrow> holds I (g x y) Q) \<Longrightarrow> holds I (case p of (x, y) \<Rightarrow> g x y) Q"
  by (simp split: prod.split)

lemmas settings_reads =
  api_list_statuses_def api_get_status_def status_find_all_def status_count_def status_find_by_id_def
  api_list_types_def api_get_type_def type_find_all_def type_count_def type_find_by_id_def
  api_list_project_types_def type_find_by_project_def
  api_list_priorities_def api_get_priority_def priority_find_all_def priority_count_def priority_find_by_id_def
  api_list_activities_def api_get_activity_def activity_find_all_def activity_count_def activity_find_by_id_def
  activity_find_by_project_def
  api_list_versions_def api_get_version_def version_find_all_def version_count_def version_find_by_id_def
  version_find_by_project_def api_list_project_versions_def
  api_list_categories_def api_get_category_def category_find_all_def category_count_def category_find_by_id_def
  category_find_by_project_def api_list_project_categories_def
  api_list_roles_def api_get_role_def role_find_all_def role_count_def role_find_by_id_def role_get_permissions_def

lemmas project_reads =
  api_list_projects_def api_get_project_def project_find_all_def project_count_def project_find_by_id_def
  project_find_active_def
  api_list_memberships_def api_get_membership_def member_find_by_project_def member_find_by_user_def
  member_find_all_with_roles_def member_find_by_id_with_roles_def members_page_def members_where_def
  member_found_def with_roles_def member_get_role_ids_def

lemma roles_keep [keeps_intro]: "keeps I (roles_with_permissions tx rows)"
  by (induction rows) (auto intro!: keeps_intro holds_intro simp: role_get_permissions_def)

lemma readers_keep:
  "\<not> changes r1 \<Longrightarrow> keeps I (statuses_router w st u r1)" "\<not> changes r2 \<Longrightarrow> keeps I (types_router w st u r2)"
  "\<not> changes r3 \<Longrightarrow> keeps I (priorities_router w st u r3)" "\<not> changes r4 \<Longrightarrow> keeps I (roles_router w st u r4)"
  "\<not> changes r5 \<Longrightarrow> keeps I (versions_router w' st u r5)" "\<not> changes r6 \<Longrightarrow> keeps I (categories_router w' st u r6)"
  "\<not> changes r7 \<Longrightarrow> keeps I (activities_router w st u r7)"
  by (auto elim!: changes.elims(3) intro!: keeps_intro holds_intro simp: settings_reads)

lemma project_readers_keep:
  "\<not> changes r8 \<Longrightarrow> keeps I (memberships_router w st u r8)"
  "\<not> changes r9 \<Longrightarrow> keeps I (projects_router w' st u (PjResource r9))"
  "keeps I (projects_router w' st u (PjTypes i))" "keeps I (projects_router w' st u (PjVersions i q))"
  "keeps I (projects_router w' st u (PjCategories i q))"
  by (auto elim!: changes.elims(3) intro!: keeps_intro holds_intro simp: settings_reads project_reads)

lemma forbidden_or_keeps:
  "(b \<Longrightarrow> \<exists>m. h = refuse (ApiForbidden m)) \<Longrightarrow> (\<not> b \<Longrightarrow> keeps I h) \<Longrightarrow> keeps I h"
  by (cases b) (auto intro: keeps_ends)

lemma resources_keep:
  "keeps I (statuses_router w st current_user_anonymous r1)" "keeps I (types_router w st current_user_anonymous r2)"
  "keeps I (priorities_router w st current_user_anonymous r3)" "keeps I (roles_router w st current_user_anonymous r4)"
  "keeps I (versions_router w' st current_user_anonymous r5)" "keeps I (categories_router w' st current_user_anonymous r6)"
  "keeps I (activities_router w st current_user_anonymous r7)" "keeps I (memberships_router w st current_user_anonymous r8)"
  by - (rule forbidden_or_keeps, rule resource_forbidden, assumption, rule readers_keep project_readers_keep, assumption)+

lemma projects_keep: "keeps I (projects_router w st current_user_anonymous r)"
proof (cases r)
  case (PjResource q)
  have "keeps I (projects_router w st current_user_anonymous (PjResource q))"
    by (rule forbidden_or_keeps, rule resource_forbidden, assumption, rule project_readers_keep, assumption)
  with PjResource show ?thesis by simp
qed (auto simp: project_handlers api_simps intro: keeps_intro project_readers_keep simp del: projects_router.simps(8-10))

text \<open>The account of the anonymous user: there is none.\<close>

lemma nobody: "holds (settled S) (user_exists 0) (\<lambda>known. \<not> known)"
  unfolding user_exists_def row_exists_def
  by (rule holds_fetch(3)) (auto simp: sql_value_def settled_def table_ok_def)

lemma users_keep: "keeps (settled S) (users_router w st current_user_anonymous r)"
proof (cases r)
  case (UsResource q)
  have known: "keeps (settled S) (then_do (calling arms (user_exists 0)) (\<lambda>known. if \<not> known then refuse e else h))"
    for arms e and h :: "(database, user_response reply) handler"
    by (rule keeps_bind [OF nobody]) (simp add: keeps_ends)
  show ?thesis
    by (cases q) (auto simp: UsResource user_handlers api_simps api_list_users_def user_find_by_id_def user_find_all_def
        user_count_def Let_def intro!: keeps_intro holds_intro known)
qed (auto simp: user_handlers api_simps api_get_me_def user_find_by_id_def intro!: keeps_intro holds_intro)

text \<open>A statement on one of the four tables.\<close>

lemma settled_elsewhere [simp]:
  "settled S (db_work_packages_update f d) = settled S d" "settled S (db_relations_update g d) = settled S d"
  "settled S (db_time_entries_update h d) = settled S d" "settled S (db_watchers_update j d) = settled S d"
  by (simp_all add: settled_def settings_def)

lemma holds_change:
  assumes "\<And>f d. I d \<Longrightarrow> I (upd f d)"
  shows "holds I (fetch_one (sql_insert idf tbl upd mk)) (\<lambda>_. True)"
    and "holds I (fetch_one (sql_update tbl upd p f)) (\<lambda>_. True)"
    and "holds I (fetch_optional (sql_update tbl upd p f)) (\<lambda>_. True)"
    and "holds I (fetch_optional (sql_update_checked tbl upd p c f)) (\<lambda>_. True)"
    and "holds I (rows_affected (sql_delete tbl upd p)) (\<lambda>_. True)"
    and "holds I (execute (sql_delete tbl upd p)) (\<lambda>_. True)"
  by - (rule holds_true [OF holds_fetch(3) [where Q = "\<lambda>_. True"]] holds_true [OF holds_fetch(2) [where Q = "\<lambda>_. True"]]
      holds_fetch(4) [where Q = "\<lambda>_. True"] holds_fetch(5) [where Q = "\<lambda>_. True"];
    simp add: sql_insert_def sql_update_checked_def sql_update_def sql_delete_def Let_def assms)+

lemmas unsettled_change = holds_or_fail_any holds_or_fail_zero holds_change [where I = "settled S" for S]

lemmas wp_handlers =
  api_list_work_packages_def api_get_work_package_def api_create_work_package_def api_update_work_package_def
  api_delete_work_package_def wp_find_all_def wp_count_def wp_find_by_id_def wp_create_def wp_update_def wp_delete_def

lemmas relation_handlers =
  api_list_relations_def api_get_relation_def api_create_relation_def api_update_relation_def api_delete_relation_def
  api_list_work_package_relations_def relation_find_all_def relation_count_def relation_find_by_id_def
  relation_find_by_work_package_def relation_find_by_type_def relation_create_def relation_update_def
  relation_delete_def relation_exists_def relation_id_exists_def Let_def

lemmas watcher_handlers =
  api_list_work_package_watchers_def api_add_work_package_watcher_def api_remove_work_package_watcher_def
  api_is_watching_work_package_def api_unwatch_work_package_def
  watcher_find_by_work_package_def watcher_find_by_watchable_def watcher_create_def validate_user_can_watch_def
  is_watching_def watcher_delete_by_user_and_watchable_def

lemmas time_handlers =
  api_list_time_entries_def api_get_time_entry_def api_create_time_entry_def api_update_time_entry_def
  api_delete_time_entry_def read_day_def time_find_all_def time_count_def time_find_by_id_def
  time_find_by_work_package_def time_find_by_project_def time_find_by_user_def time_create_def time_update_def
  time_delete_def Let_def

lemma watcher_create_keeps: "holds (settled S) (watcher_create dto) (\<lambda>_. True)"
  by (auto intro!: holds_intro unsettled_change simp: watcher_handlers)

lemma watch_keeps: "keeps (settled S) (api_watch_work_package tx st u i)"
  unfolding api_watch_work_package_def
  by (rule keeps_intro, unfold keeps_def)
    (auto dest: holdsD [OF watcher_create_keeps] split: prod.split sum.split repository_error.split)

lemma work_packages_keep: "keeps (settled S) (work_packages_router w st u r)"
proof (cases r)
  case (WpResource q)
  then show ?thesis by (cases q) (auto intro!: keeps_intro holds_intro unsettled_change simp: wp_handlers)
qed (auto intro!: keeps_intro holds_intro unsettled_change watch_keeps watcher_create_keeps
    simp: relation_handlers watcher_handlers)

lemma relations_keep: "keeps (settled S) (relations_router w st u r)"
  by (cases r) (auto intro!: keeps_intro holds_intro unsettled_change simp: relation_handlers)

lemma time_entries_keep: "keeps (settled S) (time_entries_router w st current_user_anonymous r)"
proof (cases r)
  case (TmResource q)
  then show ?thesis by (cases q) (auto intro!: keeps_intro holds_intro unsettled_change simp: time_handlers)
qed (simp add: resources_keep)

text \<open>A run of requests, each with its header or without.\<close>

fun api_run ::
    "('k::linorder) surroundings \<Rightarrow> app_state \<Rightarrow> (string option \<times> api_request) list \<Rightarrow> database db_env \<Rightarrow>
     nat \<times> database \<Rightarrow> nat list \<times> nat \<times> database" where
  "api_run w st [] env s = ([], s)"
| "api_run w st ((a, r) # rs) env s =
     (case api_v3 w st a r env s of (status, s) \<Rightarrow> (case api_run w st rs env s of (statuses, s) \<Rightarrow> (status # statuses, s)))"

lemma served_keeps: "keeps I (h current_user_anonymous) \<Longrightarrow> keeps I (serve st a h)"
  by (cases "authenticated_user st a") (auto simp: serve_def served_user intro: keeps_ends dest: served_user)

lemma api_keeps: "keeps (settled S) (api_handler w st a r)"
  by (cases r) (auto intro!: served_keeps keeps_ends resources_keep projects_keep users_keep work_packages_keep
      relations_keep time_entries_keep)

lemma api_run_settled:
  assumes "well_behaved (settled S) env"
  shows "settled S d \<Longrightarrow> settled S (snd (snd (api_run w st rs env (k, d))))"
proof (induction rs arbitrary: k d)
  case (Cons q rs)
  obtain a r where q: "q = (a, r)" by (cases q)
  obtain c k' d' where run: "api_v3 w st a r env (k, d) = (c, k', d')" by (cases "api_v3 w st a r env (k, d)") auto
  have "settled S (snd (snd (api_handler w st a r env (k, d))))"
    using api_keeps [of S w st a r, unfolded keeps_def] assms Cons.prems by blast
  moreover have "snd (snd (api_handler w st a r env (k, d))) = d'"
    using run by (auto simp: api_v3_def responding_def split: prod.splits sum.splits)
  ultimately have "settled S d'" by simp
  from Cons.IH [OF this, of k'] run q show ?case by (cases "api_run w st rs env (k', d')") auto
qed simp

text \<open>
  C8. The API leaves the settings alone.  Whatever requests arrive in whatever order, whether or not they are let
  in, whatever statements fail, and while other sessions change work packages, relations, time entries and
  watchers as they like: accounts, roles and their permissions, projects, types, statuses, enumerations,
  versions, memberships and categories are afterwards what they were.  (The keys of the accounts are positive, so
  that the anonymous user has no account.)
\<close>

theorem settings_survive:
  assumes "well_behaved (settled (settings d)) env" "users_table d"
    and "api_run w st requests env (k, d) = (statuses, k', d')"
  shows "settings d' = settings d"
proof -
  from assms(2) have "settled (settings d) d" by (simp add: settled_def)
  from api_run_settled [OF assms(1) this, of w st requests k] assms(3) show ?thesis by (simp add: settled_def)
qed

definition busy_day :: "(string option \<times> api_request) list" where
  "busy_day = [(None, ForUsers (UsResource (Change 0 \<lparr>uuq_firstname = None, uuq_lastname = None, uuq_email = None,
       uuq_password = None, uuq_admin = Some True, uuq_status = Some ''active'', uuq_language = None\<rparr>))),
     (None, ForWorkPackages (WpResource (Remove 1))), (Some ''Bearer x'', ForUsers UsMe), (None, ForUsers UsMe)]"

definition one_account :: database where
  "one_account = one_wp\<lparr>db_users := db_users one_user\<rparr>"

theorem settings_survive_witness:
  "fst (api_run sample_surroundings open_state busy_day (alone 0) (0, one_account)) = [404, 204, 401, 404] \<and>
   settings (snd (snd (api_run sample_surroundings open_state busy_day (alone 0) (0, one_account)))) = settings one_account"
proof -
  obtain c k' d' where run: "api_run sample_surroundings open_state busy_day (alone 0) (0, one_account) = (c, k', d')"
    by (cases "api_run sample_surroundings open_state busy_day (alone 0) (0, one_account)") auto
  have "users_table one_account" by (simp add: one_account_def one_user_def table_ok_def new_user_row_def)
  from settings_survive [OF quiet_alone(2) this run] run
  have kept: "settings (snd (snd (api_run sample_surroundings open_state busy_day (alone 0) (0, one_account)))) = settings one_account" by simp
  have one: "api_v3 sample_surroundings open_state None (ForUsers (UsResource (Change 0 c))) (alone 0) (0, one_account) =
      (404, 1, one_account)" for c
    by (simp add: api_v3_def served_anonymous user_handlers api_simps handler_run run_simps user_exists_def
        one_account_def one_user_def new_user_row_def api_not_found_def)
  have two: "api_v3 sample_surroundings open_state None (ForWorkPackages (WpResource (Remove 1))) (alone 0) (1, one_account) =
      (204, 2, one_account\<lparr>db_work_packages := \<lparr>tb_rows = [], tb_seq = 2\<rparr>\<rparr>)"
    by (simp add: api_v3_def served_anonymous wp_handlers replying_def api_simps handler_run run_simps or_fail_zero_def
        one_account_def one_wp_def no_content_def)
  have three: "api_v3 sample_surroundings open_state (Some ''Bearer x'') r (alone 0) s = (401, s)" if "\<not> public_request r" for r s
    using that by (cases r) (simp_all add: api_v3_def public_request_def not_let_in lets_in_def)
  have four: "api_v3 sample_surroundings open_state None (ForUsers UsMe) (alone 0)
      (2, one_account\<lparr>db_work_packages := t\<rparr>) = (404, 3, one_account\<lparr>db_work_packages := t\<rparr>)" for t
    by (simp add: api_v3_def served_anonymous api_get_me_def get_with_def find_or_404_def or_refuse_def user_find_by_id_def
        find_row_def api_simps handler_run run_simps one_account_def one_user_def new_user_row_def api_not_found_def)
  from kept show ?thesis by (simp add: busy_day_def one two [simplified One_nat_def] three four public_request_def)
qed

end
