(* ===== verification/Api_Answers.thy ===== *)
theory Api_Answers
  imports Api_Safety
begin

section \<open>What the API answers (op-api)\<close>

text \<open>
  The routes that change work packages, the pages of a list, and the rows that belong to somebody, when
  no other session runs and no statement fails.
\<close>

subsection \<open>Changing a work package\<close>

text \<open>
  The row after a \<open>PATCH\<close>.  What the request does not name is kept in the subject, the description, the type,
  the status, the priority and the ratio; an assignee and an estimate it does not name are removed; and so are
  the responsible user, the dates, the parent, the version and the category, which no request can name.
\<close>

definition api_patched :: "update_wp_request \<Rightarrow> timestamp \<Rightarrow> work_package_row \<Rightarrow> work_package_row" where
  "api_patched c now r =
     \<lparr>wpr_id = wpr_id r,
      wpr_subject = (case uwq_subject c of Some s \<Rightarrow> s | None \<Rightarrow> wpr_subject r),
      wpr_description = (case uwq_description c of Some s \<Rightarrow> Some s | None \<Rightarrow> wpr_description r),
      wpr_project_id = wpr_project_id r,
      wpr_type_id = (case uwq_type_id c of Some i \<Rightarrow> i | None \<Rightarrow> wpr_type_id r),
      wpr_status_id = (case uwq_status_id c of Some i \<Rightarrow> i | None \<Rightarrow> wpr_status_id r),
      wpr_priority_id = (case uwq_priority_id c of Some i \<Rightarrow> Some i | None \<Rightarrow> wpr_priority_id r),
      wpr_author_id = wpr_author_id r, wpr_assigned_to_id = uwq_assigned_to_id c, wpr_responsible_id = None,
      wpr_start_date = None, wpr_due_date = None, wpr_estimated_hours = uwq_estimated_hours c,
      wpr_done_ratio = (case uwq_done_ratio c of Some n \<Rightarrow> n | None \<Rightarrow> wpr_done_ratio r),
      wpr_parent_id = None, wpr_version_id = None, wpr_category_id = None,
      wpr_lock_version = wpr_lock_version r + 1, wpr_created_at = wpr_created_at r, wpr_updated_at = now\<rparr>"

lemma api_patched_row: "updated_wp_row (wp_change c) now r = api_patched c now r"
  by (rule work_package_row.equality)
    (simp_all add: updated_wp_row_def wp_change_def api_patched_def coalesce_def coalesce_opt_def split: option.split)

lemma only_row: "table_ok idf t \<Longrightarrow> row_of idf t i = Some r \<Longrightarrow> x \<in> set (tb_rows t) \<Longrightarrow> idf x = i \<Longrightarrow> x = r"
  by (metis row_of_iff option.inject)

lemma find_keyed_row:
  assumes "table_ok idf t"
  shows "List.find (\<lambda>r. idf r = i \<and> q r) (tb_rows t) =
    (case row_of idf t i of None \<Rightarrow> None | Some r \<Rightarrow> if q r then Some r else None)"
proof (cases "row_of idf t i")
  case None
  then have "i \<notin> idf ` set (tb_rows t)" by (simp add: row_of_None)
  with None show ?thesis by (auto simp: find_None_iff)
next
  case (Some r)
  with row_of_iff [OF assms, of i] have r: "r \<in> set (tb_rows t)" "idf r = i" by auto
  note only = only_row [OF assms Some]
  show ?thesis
  proof (cases "List.find (\<lambda>r. idf r = i \<and> q r) (tb_rows t)")
    case None
    with r Some show ?thesis by (auto simp: find_None_iff)
  next
    case (Some y)
    then have "y \<in> set (tb_rows t)" "idf y = i" "q y" by (auto simp: find_Some_iff)
    with only \<open>row_of idf t i = Some r\<close> Some show ?thesis by auto
  qed
qed

lemma unchanged_rows:
  assumes "\<And>x. x \<in> set (tb_rows (db_work_packages d)) \<Longrightarrow> f x = x"
  shows "db_work_packages_update (tb_rows_update (map f)) d = d"
proof -
  have "map f (tb_rows (db_work_packages d)) = tb_rows (db_work_packages d)" by (rule map_idI) (rule assms)
  then have "tb_rows_update (map f) (db_work_packages d) = db_work_packages d"
    by (intro table.equality) simp_all
  then show ?thesis by (intro database.equality) simp_all
qed

lemma changed_rows:
  assumes "\<And>x. x \<in> set (tb_rows (db_work_packages d)) \<Longrightarrow> f x = g x"
  shows "db_work_packages_update (tb_rows_update (map f)) d = db_work_packages_update (tb_rows_update (map g)) d"
proof -
  have "map f (tb_rows (db_work_packages d)) = map g (tb_rows (db_work_packages d))" by (rule map_cong [OF refl]) (rule assms)
  then have "tb_rows_update (map f) (db_work_packages d) = tb_rows_update (map g) (db_work_packages d)"
    by (intro table.equality) simp_all
  then show ?thesis by (intro database.equality) simp_all
qed

lemma some_keyed_row:
  "table_ok idf t \<Longrightarrow> (\<exists>r \<in> set (tb_rows t). idf r = i \<and> q r) \<longleftrightarrow> (\<exists>r. row_of idf t i = Some r \<and> q r)"
  by (auto simp: row_of_iff)

lemma wp_patch_run:
  assumes "quiet env" "table_ok wpr_id (db_work_packages d)"
  shows "wp_update i (wp_change c) env (k, d) =
      (case row_of wpr_id (db_work_packages d) i of
         None \<Rightarrow> (Err wp_modified, Suc k, d)
       | Some r \<Rightarrow>
           if wpr_lock_version r \<noteq> uwq_lock_version c then (Err wp_modified, Suc k, d)
           else if \<not> lock_version_can_grow r then (Err (RepoDatabase SqlOutOfRange), Suc k, d)
           else (Ok (api_patched c (tn_now (env k)) r), Suc k, db_work_packages_update (tb_rows_update (map (\<lambda>x. if wpr_id x = i then api_patched c (tn_now (env k)) x else x))) d))"
proof -
  let ?t = "db_work_packages d" and ?now = "tn_now (env k)" and ?v = "uwq_lock_version c"
  let ?q = "\<lambda>w. wpr_lock_version w = ?v"
  from assms(1) have alone: "tn_others (env k) d = d" "tn_fault (env k) = None" by (simp_all add: quiet_def)
  have lock: "uwd_lock_version (wp_change c) = ?v" by (simp add: wp_change_def)
  note iff = row_of_iff [OF assms(2), of i]
  let ?old = "\<lambda>x. if wpr_id x = i \<and> ?q x then updated_wp_row (wp_change c) ?now x else x"
  let ?new = "\<lambda>x. if wpr_id x = i then api_patched c ?now x else x"
  note run_sql = wp_update_def update_checked_run alone lock Let_def find_keyed_row [OF assms(2), of i ?q] api_patched_row
    some_keyed_row [OF assms(2), of i "\<lambda>w. ?q w \<and> \<not> lock_version_can_grow w", simplified conj_assoc]
  show ?thesis
  proof (cases "\<exists>r. row_of wpr_id ?t i = Some r \<and> ?q r")
    case True
    then obtain r where r: "row_of wpr_id ?t i = Some r" "?q r" by blast
    have "db_work_packages_update (tb_rows_update (map ?old)) d = db_work_packages_update (tb_rows_update (map ?new)) d"
      by (rule changed_rows) (use r(2) only_row [OF assms(2) r(1)] api_patched_row in fastforce)
    with r show ?thesis by (simp add: run_sql)
  next
    case False
    have "db_work_packages_update (tb_rows_update (map ?old)) d = d"
      by (rule unchanged_rows) (use False iff in auto)
    with False show ?thesis by (auto simp: run_sql split: option.split)
  qed
qed

text \<open>
  C9. \<open>PATCH\<close> of a work package.  If the row exists and has the version the request names, and the version can
  grow, the answer is 200 and exactly this row is replaced by the one with the fields of the request, without
  responsible user, dates, parent, version and category.  A row with another version, and a row that does
  not exist, are answered with 409, a version that cannot grow with 500, and nothing changes.
\<close>

theorem patch_replaces_the_row:
  assumes "quiet env" "table_ok wpr_id (db_work_packages d)" "lets_in st authorization" "aps_has_db st"
  shows "api_v3 w st authorization (ForWorkPackages (WpResource (Change i c))) env (k, d) =
    (case row_of wpr_id (db_work_packages d) i of
       None \<Rightarrow> (409, Suc k, d)
     | Some r \<Rightarrow>
         if wpr_lock_version r \<noteq> uwq_lock_version c then (409, Suc k, d)
         else if \<not> lock_version_can_grow r then (500, Suc k, d)
         else (200, Suc k, db_work_packages_update (tb_rows_update (map (\<lambda>x.
                 if wpr_id x = i then api_patched c (tn_now (env k)) x else x))) d))"
  by (simp add: api_v3_def served_anonymous [OF assms(3)] with_pool_def assms(4) api_update_work_package_def replying_def
      handler_run wp_patch_run [OF assms(1,2)] wp_modified_def conflict_or_def missing_or_def internal_def hal_response_def
      split: option.split)

definition quick_fix :: "i32 \<Rightarrow> update_wp_request" where
  "quick_fix v = \<lparr>uwq_subject = Some ''Log in'', uwq_description = None, uwq_type_id = None, uwq_status_id = None,
     uwq_priority_id = None, uwq_assigned_to_id = None, uwq_estimated_hours = None, uwq_done_ratio = None,
     uwq_lock_version = v\<rparr>"

theorem patch_replaces_the_row_witness:
  "wpr_due_date (new_wp_row sample_wp 0 1) = Some 20010 \<and> wpr_version_id (new_wp_row sample_wp 0 1) = Some 2 \<and>
   (case api_v3 sample_surroundings open_state None (ForWorkPackages (WpResource (Change 1 (quick_fix 0)))) (alone 5) (0, one_wp) of
      (status, k, d) \<Rightarrow> status = 200 \<and>
        map (\<lambda>r. (wpr_subject r, wpr_due_date r, wpr_version_id r, wpr_lock_version r)) (tb_rows (db_work_packages d)) =
          [(''Log in'', None, None, 1)])"
proof -
  have ok: "table_ok wpr_id (db_work_packages one_wp)" by (simp add: one_wp_def table_ok_def)
  show ?thesis
    using patch_replaces_the_row [where env = "alone 5" and k = 0 and w = sample_surroundings and i = 1 and c = "quick_fix 0", OF quiet_alone(1) ok open_state_simps(1)]
    by (simp add: one_wp_def row_of_def new_wp_row_def sample_wp_def quick_fix_def api_patched_def lock_version_can_grow_def open_state_def)
qed

subsection \<open>What was answered is what is read\<close>

lemma find_row_alone [run_simps]: "quiet env \<Longrightarrow> find_row idf tbl i env (k, d) = (Ok (row_of idf (tbl d) i), Suc k, d)"
  by (simp add: find_row_def run_simps head_filter row_of_def)

lemma get_work_package_run:
  "quiet env \<Longrightarrow> aps_has_db st \<Longrightarrow> row_of wpr_id (db_work_packages d) i = Some r \<Longrightarrow>
   api_get_work_package tx st u i env (k, d) = (Ok (hal_response (wp_response_from tx r)), Suc k, d)"
  by (simp add: api_get_work_package_def get_with_def find_or_404_def or_refuse_def with_pool_def handler_run run_simps
      wp_find_by_id_def)

lemma created_row:
  assumes "quiet env" "aps_has_db st" "table_ok wpr_id (db_work_packages d)"
    and "api_create_work_package tx st u dto env (k, d) = (Ok r, k1, d1)"
  shows "\<exists>x. r = created_response (wp_response_from tx x) \<and> row_of wpr_id (db_work_packages d1) (wpr_id x) = Some x"
proof -
  let ?t = "db_work_packages d" and ?i = "word_of_nat (tb_seq (db_work_packages d)) :: Id"
  let ?x = "new_wp_row (wp_creation u dto) (tn_now (env k)) ?i"
  from assms(4) have room: "tb_seq ?t < 2 ^ 63" "?i \<notin> wpr_id ` set (tb_rows ?t)"
    and r: "r = created_response (wp_response_from tx ?x)"
    and d1: "d1 = db_work_packages_update (\<lambda>t. t\<lparr>tb_rows := tb_rows t @ [?x], tb_seq := Suc (tb_seq t)\<rparr>) d"
    by (simp_all add: api_create_work_package_def with_pool_def assms(2) replying_def handler_run wp_create_def
        run_insert [OF assms(1)] Let_def split: if_splits)
  have "row_of wpr_id (db_work_packages d1) = (row_of wpr_id ?t)(?i \<mapsto> ?x)"
    using work_packages.table_appended(2) [OF assms(3) room(2,1) refl, of ?x] by (simp add: d1)
  with r show ?thesis by (intro exI [of _ ?x]) simp
qed

lemma changed_row:
  assumes "quiet env" "aps_has_db st" "table_ok wpr_id (db_work_packages d)"
    and "api_update_work_package tx st u i c env (k, d) = (Ok r, k1, d1)"
  shows "\<exists>x. r = hal_response (wp_response_from tx x) \<and> row_of wpr_id (db_work_packages d1) (wpr_id x) = Some x"
proof -
  let ?f = "api_patched c (tn_now (env k))"
  from assms(4) obtain y where y: "row_of wpr_id (db_work_packages d) i = Some y"
    and r: "r = hal_response (wp_response_from tx (?f y))"
    and d1: "d1 = db_work_packages_update (tb_rows_update (map (\<lambda>x. if wpr_id x = i then ?f x else x))) d"
    by (auto simp: api_update_work_package_def with_pool_def assms(2) replying_def handler_run
        wp_patch_run [OF assms(1,3)] split: option.splits if_splits)
  have id: "wpr_id (?f x) = wpr_id x" for x by (simp add: api_patched_def)
  have "row_of wpr_id (db_work_packages d1) i = Some (?f y)"
    using row_of_update(2) [OF assms(3), where f = ?f and i = i, OF id] y by (simp add: d1)
  moreover have "wpr_id (?f y) = i" using row_of_id [OF y] id by simp
  ultimately show ?thesis using r by (intro exI [of _ "?f y"]) simp
qed

text \<open>
  C20. Read your writes.  What \<open>POST\<close> and \<open>PATCH\<close> of a work package answer is, to the last field, what a \<open>GET\<close> of
  the id in the answer then answers.
\<close>

theorem answers_are_read_back:
  assumes "quiet env" "quiet env2" "aps_has_db st" "table_ok wpr_id (db_work_packages d)"
    and "api_create_work_package tx st u dto env (k, d) = (Ok r, k1, d1) \<or>
      api_update_work_package tx st u i c env (k, d) = (Ok r, k1, d1)"
  shows "\<exists>x. rpl_body r = Some x \<and> rpl_status r \<in> {200, 201} \<and>
    api_get_work_package tx st u2 (wrs_id x) env2 (k2, d1) = (Ok (hal_response x), Suc k2, d1)"
proof -
  obtain x where x: "r = created_response (wp_response_from tx x) \<or> r = hal_response (wp_response_from tx x)"
      "row_of wpr_id (db_work_packages d1) (wpr_id x) = Some x"
    using assms(5) created_row [OF assms(1,3,4)] changed_row [OF assms(1,3,4)] by blast
  have "wrs_id (wp_response_from tx x) = wpr_id x" by (simp add: wp_response_from_def)
  with x get_work_package_run [OF assms(2,3) x(2)] show ?thesis
    by (intro exI [of _ "wp_response_from tx x"]) (auto simp: created_response_def hal_response_def)
qed

definition new_request :: create_wp_request where
  "new_request = \<lparr>cwq_subject = ''Login'', cwq_description = None, cwq_project_id = None, cwq_type_id = Some 2,
     cwq_status_id = None, cwq_priority_id = None, cwq_assigned_to_id = Some 4, cwq_parent_id = None,
     cwq_estimated_hours = None\<rparr>"

theorem answers_are_read_back_witness:
  "case api_create_work_package sample_texts open_state current_user_anonymous new_request (alone 7) (0, empty_database) of
     (Inr r, k, d) \<Rightarrow> rpl_status r = 201 \<and> (\<exists>x. rpl_body r = Some x \<and> wrs_id x = 1 \<and> wrs_project_id x = 1 \<and>
       api_get_work_package sample_texts open_state current_user_anonymous 1 (alone 9) (0, d) = (Ok (hal_response x), 1, d))
   | _ \<Rightarrow> False"
proof -
  obtain k' d' x where run: "api_create_work_package sample_texts open_state current_user_anonymous new_request (alone 7)
      (0, empty_database) = (Ok (created_response x), k', d')" and x: "wrs_id x = 1" "wrs_project_id x = 1"
    by (simp add: api_create_work_package_def replying_def handler_run wp_create_def run_insert_empty empty_database_def
        wp_response_from_def wp_creation_def new_wp_row_def new_request_def)
  have ok: "table_ok wpr_id (db_work_packages empty_database)" by (simp add: empty_database_def)
  have has: "aps_has_db open_state" by (simp add: open_state_def)
  from answers_are_read_back [OF quiet_alone(1) quiet_alone(1) has ok disjI1 [OF run], of current_user_anonymous 9 0] run x
  show ?thesis by (auto simp: created_response_def)
qed

subsection \<open>Looking up\<close>

text \<open>Whether the row is there that a request wants to read.\<close>

fun looked_up :: "api_request \<Rightarrow> database \<Rightarrow> bool option" where
  "looked_up (ForWorkPackages (WpResource (Fetch i))) d = Some (row_of wpr_id (db_work_packages d) i \<noteq> None)"
| "looked_up (ForProjects (PjResource (Fetch i))) d = Some (row_of prr_id (db_projects d) i \<noteq> None)"
| "looked_up (ForStatuses (Fetch i)) d = Some (row_of str_id (db_statuses d) i \<noteq> None)"
| "looked_up (ForTypes (Fetch i)) d = Some (row_of tyr_id (db_types d) i \<noteq> None)"
| "looked_up (ForVersions (Fetch i)) d = Some (row_of ver_id (db_versions d) i \<noteq> None)"
| "looked_up (ForCategories (Fetch i)) d = Some (row_of car_id (db_categories d) i \<noteq> None)"
| "looked_up (ForTimeEntries (TmResource (Fetch i))) d = Some (row_of ter_id (db_time_entries d) i \<noteq> None)"
| "looked_up (ForRelations (Fetch i)) d = Some (row_of rer_id (db_relations d) i \<noteq> None)"
| "looked_up r d = None"

text \<open>
  \<open>GET\<close> by id.  A request for one work package, project, status, type, version, category, time entry or
  relation is answered with 200 if the table has a row with that id, and with 404 if not, by one statement that
  changes nothing.
\<close>

theorem lookups_answer:
  assumes "quiet env" "lets_in st authorization" "aps_has_db st" "looked_up r d = Some there"
  shows "api_v3 w st authorization r env (k, d) = (if there then 200 else 404, Suc k, d)"
  using assms(4)
  by (cases "(r, d)" rule: looked_up.cases)
    (auto simp: api_v3_def served_anonymous [OF assms(2)] with_pool_def assms(3) get_with_def find_or_404_def or_refuse_def
      handler_run find_row_alone [OF assms(1)] api_get_work_package_def api_get_project_def api_get_status_def
      api_get_type_def api_get_version_def api_get_category_def api_get_time_entry_def api_get_relation_def
      wp_find_by_id_def project_find_by_id_def status_find_by_id_def type_find_by_id_def version_find_by_id_def
      category_find_by_id_def time_find_by_id_def relation_find_by_id_def api_not_found_def hal_response_def
      split: option.split)

theorem lookups_answer_witness:
  "api_v3 sample_surroundings open_state None (ForWorkPackages (WpResource (Fetch 1))) (alone 0) (0, one_wp) = (200, 1, one_wp) \<and>
   api_v3 sample_surroundings open_state None (ForProjects (PjResource (Fetch 1))) (alone 0) (0, one_wp) = (404, 1, one_wp)"
  using lookups_answer [of "alone 0" open_state None "ForWorkPackages (WpResource (Fetch 1))" one_wp True sample_surroundings 0]
    lookups_answer [of "alone 0" open_state None "ForProjects (PjResource (Fetch 1))" one_wp False sample_surroundings 0]
  by (simp add: one_wp_def row_of_def empty_database_def empty_table_def)

subsection \<open>The pages of a list\<close>

definition page_elements :: "(('e api_collection reply), api_error) result \<times> nat \<times> 'd \<Rightarrow> 'e list" where
  "page_elements a = (case a of
      (Inl e, s) \<Rightarrow> [] | (Inr r, s) \<Rightarrow> (case rpl_body r of None \<Rightarrow> [] | Some c \<Rightarrow> acl_elements c))"

lemma pages_concat: "concat (map (\<lambda>j. take n (drop (n * j) xs)) [0 ..< m]) = take (n * m) xs"
  by (induction m) (simp_all add: take_add [symmetric] add.commute)

lemma list_work_packages_run:
  assumes "quiet env" "aps_has_db st" "0 \<le> sint (pgp_page_size p)" "0 \<le> sint (pgp_offset p)"
  shows "api_list_work_packages tx st u p env (k, d) =
    (Ok (hal_response (api_collection_of p (word_of_nat (length (tb_rows (db_work_packages d))))
       (map (wp_response_from tx) (take (nat (sint (pgp_page_size p))) (drop (nat (sint (pgp_offset p)))
         (newest_work_packages (tb_rows (db_work_packages d)))))))), k + 2, d)"
  using assms(3,4)
  by (simp add: api_list_work_packages_def with_pool_def assms(2) collected_def list_with_def handler_run wp_find_all_def
      wp_count_def run_page [OF assms(1)] run_queries [OF assms(1)] not_less)

text \<open>
  C22. The pages of a list.  Asking for one page of work packages after the other, each with the offset at which
  the one before ended, yields every work package once and in the order of the list, whatever the size of the
  pages; no offset wraps around.
\<close>

theorem pages_cover_the_list:
  assumes "quiet env" "aps_has_db st" "0 < n" "n * m < 2 ^ 63" "length (tb_rows (db_work_packages d)) \<le> n * m"
  shows "concat (map (\<lambda>j. page_elements (api_list_work_packages tx st u
      \<lparr>pgp_page_size = word_of_nat n, pgp_offset = word_of_nat (n * j)\<rparr> env (k, d))) [0 ..< m]) =
    map (wp_response_from tx) (newest_work_packages (tb_rows (db_work_packages d)))"
proof -
  let ?rows = "newest_work_packages (tb_rows (db_work_packages d))"
  have page: "page_elements (api_list_work_packages tx st u
      \<lparr>pgp_page_size = word_of_nat n, pgp_offset = word_of_nat (n * j)\<rparr> env (k, d)) =
      take n (drop (n * j) (map (wp_response_from tx) ?rows))" if "j < m" for j
  proof -
    have "n * Suc j \<le> n * m" using that by (intro mult_le_mono2) simp
    then have "n < 2 ^ 63" "n * j < 2 ^ 63" using assms(4) by simp_all
    then have sint: "sint (word_of_nat n :: u64) = int n" "sint (word_of_nat (n * j) :: u64) = int (n * j)"
      by (simp_all only: sint_of_nat_i64)
    show ?thesis
      by (subst list_work_packages_run [OF assms(1,2)])
        (simp_all only: sint page_params.simps page_elements_def, simp_all add: hal_response_def api_collection_of_def take_map drop_map del: of_nat_mult)
  qed
  then have "concat (map (\<lambda>j. page_elements (api_list_work_packages tx st u
      \<lparr>pgp_page_size = word_of_nat n, pgp_offset = word_of_nat (n * j)\<rparr> env (k, d))) [0 ..< m]) =
      concat (map (\<lambda>j. take n (drop (n * j) (map (wp_response_from tx) ?rows))) [0 ..< m])"
    by (intro arg_cong [where f = concat] map_cong) simp_all
  also have "\<dots> = map (wp_response_from tx) ?rows"
    using assms(5) by (simp add: pages_concat newest_work_packages_def)
  finally show ?thesis .
qed

theorem pages_cover_the_list_witness:
  "length (concat (map (\<lambda>j. page_elements (api_list_work_packages sample_texts open_state current_user_anonymous
      \<lparr>pgp_page_size = word_of_nat 2, pgp_offset = word_of_nat (2 * j)\<rparr> (alone 0) (0, one_wp))) [0 ..< 1])) = 1"
proof -
  have "aps_has_db open_state" "(0::nat) < 2" "(2::nat) * 1 < 2 ^ 63" by (simp_all add: open_state_def)
  moreover have "length (tb_rows (db_work_packages one_wp)) \<le> 2 * 1" by (simp add: one_wp_def)
  ultimately have pages: "concat (map (\<lambda>j. page_elements (api_list_work_packages sample_texts open_state current_user_anonymous
      \<lparr>pgp_page_size = word_of_nat 2, pgp_offset = word_of_nat (2 * j)\<rparr> (alone 0) (0, one_wp))) [0 ..< 1]) =
      map (wp_response_from sample_texts) (newest_work_packages (tb_rows (db_work_packages one_wp)))"
    by (rule pages_cover_the_list [OF quiet_alone(1)])
  show ?thesis unfolding pages by (simp add: newest_work_packages_def one_wp_def)
qed

subsection \<open>Rows that belong to somebody\<close>

text \<open>The user to whom the row belongs that a request is about to change or remove, if there is the row.\<close>

fun owner_of :: "archive_request \<Rightarrow> 'j archive \<Rightarrow> Id option option" where
  "owner_of (ForAttachments (Change i c)) d = Some (map_option atr_author_id (row_of atr_id (db_attachments d) i))"
| "owner_of (ForAttachments (Remove i)) d = Some (map_option atr_author_id (row_of atr_id (db_attachments d) i))"
| "owner_of (JournalChange i c) d = Some (map_option jor_user_id (row_of jor_id (db_journals d) i))"
| "owner_of (ForQueries (Change i c)) d = Some (map_option qur_user_id (row_of qur_id (db_queries d) i))"
| "owner_of (ForQueries (Remove i)) d = Some (map_option qur_user_id (row_of qur_id (db_queries d) i))"
| "owner_of r d = None"

lemma owned_run:
  assumes "quiet env"
  shows "owned tx s i msg current_user_anonymous owner (find_row idf tbl) h env (k, d) =
    (case row_of idf (tbl d) i of
       None \<Rightarrow> (Err (api_not_found s i), Suc k, d)
     | Some r \<Rightarrow> if owner r \<noteq> 0 then (Err (ApiForbidden msg), Suc k, d) else h env (Suc k, d))"
  by (simp add: owned_def find_or_404_def or_refuse_def handler_run find_row_alone [OF assms] split: option.split)

text \<open>
  C21. Owners.  A request to change or to remove an attachment, a query, or the notes of a journal is answered
  with 403 if the row is there and belongs to a user, and with 404 if it is not there; the row is read and
  nothing changes.
\<close>

theorem owned_rows_are_safe:
  assumes "quiet env" "lets_in st authorization" "aps_has_db st"
    and "owner_of r d = Some v" "v \<noteq> Some 0"
  shows "api_v3_archive w st authorization r env (k, d) = (case v of None \<Rightarrow> 404 | Some owner \<Rightarrow> 403, Suc k, d)"
  using assms(4,5)
  by (cases "(r, d)" rule: owner_of.cases)
    (auto simp: api_v3_archive_def served_anonymous [OF assms(2)] with_pool_def assms(3) sending_def then_do_def responding_def
      api_update_attachment_def api_delete_attachment_def api_update_journal_def api_update_query_def api_delete_query_def
      atr_find_by_id_def journal_find_by_id_def query_find_by_id_def owned_run [OF assms(1)] api_not_found_def
      split: option.split)

definition one_attachment :: "unit archive" where
  "one_attachment = empty_archive\<lparr>db_attachments := \<lparr>tb_rows = [new_attachment_row sample_attachment 0 1], tb_seq = 2\<rparr>\<rparr>"

theorem owned_rows_are_safe_witness:
  "api_v3_archive sample_surroundings open_state None (ForAttachments (Remove 1)) (alone 0) (0, one_attachment) =
     (403, 1, one_attachment)"
  using owned_rows_are_safe [of "alone 0" open_state None "ForAttachments (Remove 1)" one_attachment
    "Some (cad_author_id sample_attachment)" sample_surroundings 0]
  by (simp add: one_attachment_def row_of_def new_attachment_row_def sample_attachment_def)

text \<open>A query of somebody else's that no view makes public is not listed, but can be read and starred by anybody.\<close>

definition one_query :: "unit archive" where
  "one_query = empty_archive\<lparr>db_queries := \<lparr>tb_rows = [new_query_row sample_query 0 1], tb_seq = 2\<rparr>\<rparr>"

theorem private_queries_are_open:
  "visible_rows length 0 None one_query = [] \<and>
   fst (api_v3_archive sample_surroundings open_state None (ForQueries (Fetch 1)) (alone 0) (0, one_query)) = 200 \<and>
   fst (api_v3_archive sample_surroundings open_state None (QueryStar 1) (alone 0) (0, one_query)) = 200"
proof (intro conjI)
  show "visible_rows length 0 None one_query = []"
    by (simp add: visible_rows_def views_joined_def may_see_def one_query_def empty_archive_def archive.defs database.defs empty_table_def new_query_row_def sample_query_def)
  note run = api_v3_archive_def served_anonymous get_starred_def get_with_def find_or_404_def or_refuse_def handler_run
    run_simps query_find_by_id_with_starred_def query_find_by_id_def query_is_starred_def counted_def row_of_def
    hal_response_def one_query_def empty_archive_def archive.defs database.defs empty_table_def new_query_row_def
  show "fst (api_v3_archive sample_surroundings open_state None (ForQueries (Fetch 1)) (alone 0) (0, one_query)) = 200"
    by (simp add: api_get_query_def run)
  show "fst (api_v3_archive sample_surroundings open_state None (QueryStar 1) (alone 0) (0, one_query)) = 200"
    by (simp add: api_star_query_def query_star_def query_exists_def run execute_def insert_menu_item_def sql_insert_new_def menu_item_of_def Let_def)
qed

text \<open>
  A status that a change of an account does not know unlocks it, and one that a creation does not know invites.
\<close>

theorem unknown_status_activates:
  "status_for_update ''lokced'' = status_ACTIVE \<and> status_for_creation (Some ''lokced'') = status_INVITED"
  by (simp add: status_for_update_def status_for_creation_def)

text \<open>The entry of every journal links to a work package, also that of a journal of something else.\<close>

theorem activity_links_ignore_the_type:
  "aer_work_package (activity_entry_from sample_texts (j\<lparr>jor_journable_type := ''WikiPage'', jor_journable_id := 7\<rparr>)) =
     ''/api/v3/work_packages/7''"
proof -
  have "show_i64 7 = ''7''" by code_simp
  then show ?thesis by (simp add: activity_entry_from_def api_path_def)
qed

end
