(* ===== verification/Spec2Isabelle.thy ===== *)
theory Spec2Isabelle
  imports Prelude Core_Errors Core_Types Pagination Filters Sorts Columns Query Sql_Text Query_Sql
    Regex Contracts_Base Contracts_Projects Contracts_Users Contracts_Work_Packages
    Service_Result Services_Projects Services_Users Services_Work_Packages
    Permissions Session Api_Key Authenticator Jobs Work_Package_Store Journals
    Tables Notifications Email Storage Attachments View_Registry
    Database Schema Keys Relations Statuses Enumerations Project_Parts Members
    Work_Package_Rows Projects Accounts Time_Entries Archive Attachment_Rows Journal_Rows Saved_Queries
    Ordered_Maps Surreal_Ast Surreal_Triples Surreal_Classes
    Api_Base Api_Settings Api_Projects Api_Work Api_Archive Api Api_Safety Api_Answers
begin

text \<open>
  A model of the core of openproject-nexgen-rs, the Rust port of OpenProject.

  \<^bold>\<open>The program.\<close>  A request is authenticated (op-auth) and gives a user with grants.  A service
  (op-services) sets the attributes of an entity from the parameters of the request and asks a
  contract (op-contracts) whether the user may write it and whether it is well formed; refusals are
  collected as validation errors (op-core).  Lists of work packages are queries (op-queries) that the
  executor (op-db) turns into SQL text; lists of the API are paged (op-core).  The work package
  service (op-work-packages) stores work packages under an optimistic lock, the journals (op-journals)
  record each change of an entity, files are uploaded as attachments (op-attachments), and what
  happens is notified to the users concerned (op-notifications), whose e-mails wait in a job queue
  for workers.  The pages (op-server) are chosen through a registry of view nodes.  The HTTP API (op-api)
  reads and writes the tables of the database through the repositories (op-db), each a sequence of SQL
  statements among those of other sessions.  A tool (op-surreal-ast) derives the schema of a database
  from facts extracted from the models of the original program.

  \<^bold>\<open>The theories\<close>, in the order of their imports, with the files below \<open>src/crates\<close> they model:

  \<^item> \<open>Prelude\<close>: machine integers, strings, numbers as text, hash maps, greatest elements: what the
    program uses of Rust's standard library, with the lemmas the components share.
  \<^item> \<open>Core_Errors\<close>, \<open>Core_Types\<close>, \<open>Pagination\<close>: \<open>op-core/src/{error,types,result,pagination}.rs\<close> and the
    pages of \<open>op-db/src/repository.rs\<close>.
  \<^item> \<open>Filters\<close>, \<open>Sorts\<close>, \<open>Columns\<close>, \<open>Query\<close>: \<open>op-queries/src/{filters,sorts,columns,query,builder}.rs\<close>.
  \<^item> \<open>Sql_Text\<close>, \<open>Query_Sql\<close>: \<open>op-db/src/query_executor.rs\<close>.  \<open>Sql_Text\<close> also holds the specification
    it is measured against: how a database reads SQL literals, and what a \<open>LIKE\<close> pattern matches.
  \<^item> \<open>Regex\<close>, \<open>Contracts_Base\<close>, \<open>Contracts_Projects\<close>, \<open>Contracts_Users\<close>, \<open>Contracts_Work_Packages\<close>:
    \<open>op-contracts/src\<close>.  The locale \<open>contract\<close> is the interface of a contract: which checks it makes
    and which fields it blames; every contract is an interpretation.
  \<^item> \<open>Service_Result\<close>, \<open>Services_Projects\<close>, \<open>Services_Users\<close>, \<open>Services_Work_Packages\<close>:
    \<open>op-services/src\<close>.
  \<^item> \<open>Permissions\<close>, \<open>Session\<close>, \<open>Api_Key\<close>, \<open>Authenticator\<close>: \<open>op-auth/src\<close>.  The locale \<open>session_store\<close> is
    the trait of session stores; the in-memory store interprets it.
  \<^item> \<open>Jobs\<close>: \<open>op-notifications/src/jobs.rs\<close>, with the locale \<open>job_queue\<close> (the trait \<open>JobQueue\<close>) and the
    step relation \<open>job_step\<close> of a queue shared by any number of workers.
  \<^item> \<open>Work_Package_Store\<close>: \<open>op-work-packages/src\<close>, with the locale \<open>wp_store\<close>.
  \<^item> \<open>Journals\<close>: \<open>op-journals/src\<close>, with the locale \<open>journal_store\<close>.

  \<^item> \<open>Tables\<close>: lists of rows with an identity, which the in-memory stores share.
  \<^item> \<open>Notifications\<close>, \<open>Email\<close>: the rest of \<open>op-notifications/src\<close>; the locales \<open>notification_store\<close> (the
    trait) and \<open>notification_service\<close>, which puts it together with a \<open>job_queue\<close>.
  \<^item> \<open>Storage\<close>, \<open>Attachments\<close>: \<open>op-attachments/src\<close>; the locales \<open>storage\<close> and \<open>attachment_store\<close> (the
    traits) and \<open>attachment_service\<close> over both.
  \<^item> \<open>View_Registry\<close>: \<open>op-server/src/viewfilter.rs\<close>.

  \<^item> \<open>Database\<close>, \<open>Schema\<close>, \<open>Keys\<close>: the tables of \<open>op-db/migrations\<close> with the rows of \<open>op-db/src\<close>, the
    statements the repositories are made of, and their rules: for an operation among other sessions that
    keep an invariant (\<open>holds\<close>), and for one that runs alone but may fail (\<open>triple\<close>).  The locales
    \<open>db_table\<close>, \<open>keyed_table\<close> and \<open>default_table\<close> are the interfaces of a table: what a write means
    for the map from keys to rows, columns that are unique by hand, a default of which there is one.  Every
    repository interprets one of them, and \<open>repository\<close>, the contract of the trait in \<open>repository.rs\<close>.
  \<^item> \<open>Relations\<close>, \<open>Statuses\<close>, \<open>Enumerations\<close> (priorities and activities), \<open>Project_Parts\<close> (types, versions,
    categories), \<open>Members\<close> (roles, members), \<open>Work_Package_Rows\<close>, \<open>Projects\<close>, \<open>Accounts\<close> (users,
    watchers), \<open>Time_Entries\<close>: the files of these names in \<open>op-db/src\<close>.
  \<^item> \<open>Archive\<close>: the database with the tables of attachments, journals, queries and news;
    \<open>Attachment_Rows\<close>, \<open>Journal_Rows\<close>, \<open>Saved_Queries\<close>: \<open>op-db/src/{attachments,journals,queries,news}.rs\<close>.
  \<^item> \<open>Ordered_Maps\<close>, \<open>Surreal_Ast\<close>, \<open>Surreal_Triples\<close>, \<open>Surreal_Classes\<close>:
    \<open>op-surreal-ast/src/{lib,from_triples,from_class}.rs\<close>; a \<open>BTreeMap\<close> is a sorted association list.
  \<^item> \<open>Api_Base\<close>: \<open>op-api/src/{error,extractors}.rs\<close> and what the handlers share; \<open>Api_Settings\<close>,
    \<open>Api_Projects\<close>, \<open>Api_Work\<close>, \<open>Api_Archive\<close>: \<open>op-api/src/handlers\<close>; \<open>Api\<close>: \<open>op-api/src/routes.rs\<close>, from a
    request to the status of its response.  \<open>Api_Safety\<close> and \<open>Api_Answers\<close> hold what is shown of it.

  \<^bold>\<open>How the code is read.\<close>  A struct is a record with a prefix on its fields, an enum a datatype, a
  trait object the functions it offers.  Strings are lists of bytes (UTF-8), so lengths are byte
  lengths as in Rust.  Integers are words of their width and wrap, as in a release build; \<open>f64\<close> is
  its bit pattern.  A hash map is an association list in an arbitrary order, so that what is proved
  holds for every iteration order.  A method that changes its receiver returns it; \<open>Result\<close> is a sum
  with the error on the left; a panic is \<open>None\<close>.  The clock, random draws, UUIDs, additions to dates,
  base64, SHA-256, Argon2, the JWT library, JSON values and the printing of \<open>f64\<close> are parameters.  The
  database is a record of tables; before each statement of an operation other sessions may change it,
  and the statement may fail: both are given by an environment (\<open>db_env\<close>).  Upper and lower case and
  the order of texts in the database are parameters as well.  A standard lock that a panic has poisoned is a flag of the store.  Where an operation
  takes a lock twice, a parameter \<open>meanwhile\<close> stands for what other tasks do in between.

  \<^bold>\<open>What is shown.\<close>
  Queries: the SQL of every query is the reference translation of its filters whatever strings they
  hold (dates excepted, which is a hole), the order clause comes from a fixed list, \<open>LIKE\<close> operators
  match what they say; printing and parsing of operators and sort parameters; reordering of columns.
  Contracts: each accepts exactly the acceptable data of a permitted user and blames exactly the
  fields at fault; the patterns accept the languages stated.
  Services: each succeeds exactly when its contract accepts, and what it returns; nothing is
  persisted that was not validated.
  Authentication: permissions are the grants; the session store implements a map with expiry; a token
  authenticates its user in every configuration that the builder can give; what the strategies can end in.
  Jobs: which job is next, and that none is only where none is ready; what a worker makes of a job, how often a
  failing job is retried and after which delay;
  in every reachable state no job is held by two workers.
  Work packages: fresh identities, conflicts on stale versions for requests one after the other, and
  the lost update of requests at once.
  Journals: the difference of two states is exact; histories are numbered without gaps and end in the
  last recorded state.
  Notifications: when a user is notified, what is stored and delivered, when a mail is queued; reading
  them; and, through queue and worker, that an assignment queues one job, which reaches the mailer.
  Attachments: what is uploaded can be downloaded, in every reachable state every attachment has its
  file, the clean-up removes the orphans and nothing else (and what goes wrong when it runs at the same
  time as an upload is attached); the local storage touches nothing outside its root directory.
  View registry: interning keeps nodes distinct and children below parents, both self-checks always
  succeed, the rolling buckets agree with membership.
  Pages: following the links visits every element once, in as many requests as there are pages.
  Repositories: what every write does to the table and what it answers, refused or not; that tables stay
  consistent (keys, unique names, one default, no doubled relations or watchers, no star without its query)
  whatever requests arrive, and which of it survives other sessions and failures; the optimistic lock in
  SQL loses no update; nested sets of projects stay flat, in the order of the projects, and are never moved; the lists of visible projects, of watchers, of
  journals with their data; neighbouring journals; time entries carry the year, month and week of their day; the
  counter of downloads stops at its bound.
  Schema generation: every link leads to a table there is, facts repeated one after the other change
  nothing, the text of a schema is read back as its declarations, and no foreign text gets into an assertion.
  API: what is refused before a statement runs; that no request changes the settings, and that rows
  that belong to a user are safe; what \<open>PATCH\<close> of a work package writes; that an answer is what is
  read afterwards; that the pages of a list cover it.

  \<^bold>\<open>Bounds and fuel.\<close>  Following the page links takes fuel, one unit a request, and running out of it is a
  result of its own; as many units as there are pages are shown to be enough.  Collections are assumed shorter than \<open>2^62\<close> for pages,
  \<open>2^31\<close> changes for journals (versions are 32-bit), \<open>2^64 - 2\<close> rows for work packages.  A sequence of
  the database ends at \<open>2^63\<close>, and an insertion after that is refused; nested sets have room for projects
  as long as twice their number stays below \<open>2^31\<close>.  All other recursions are structural, and nothing is
  left unproved to terminate.

  \<^bold>\<open>What is not modelled.\<close>  The HTML pages, the configuration, the command line and the connection pool
  (input and output around the parts above); the representers of op-api, which no handler uses; the structs
  of op-models, whose rules the contracts and repositories repeat; the code generation crates and what they
  generate; log output, JSON payloads and floating-point formatting.  A request of the API is modelled from
  where its path, query and body have been read.  The routes over the archive and those over the other
  tables are two functions, since neither touches the tables of the other.
\<close>

text \<open>
  The two parsers of filter operators, that of the API parameters in op-core and that of op-queries,
  give the two null tests opposite names.
\<close>

theorem operator_star_means_opposites:
  "core_filter_operator_from_str ''*'' = Some CoreIsNotNull \<and> filter_operator_from_str ''*'' = Some IsNull \<and>
   core_filter_operator_from_str ''!*'' = Some CoreIsNull \<and> filter_operator_from_str ''!*'' = Some IsNotNull"
  by (simp add: core_filter_operator_from_str_def filter_operator_from_str_def)

end
